(* ===== verification/JsPrelude.thy ===== *)
theory JsPrelude
  imports Main "HOL-Library.AList"
begin

text \<open>
  The vocabulary every component shares: the JavaScript values, strings and containers the
  source works on, and the lemmas about them that carry the component proofs.

  \<^item> A JavaScript \<open>Map\<close> or plain object is an association list in insertion order.
    \<open>AList.update\<close> overwrites in place or appends, exactly as \<open>Map.prototype.set\<close> does,
    and \<open>AList.delete\<close> is \<open>Map.prototype.delete\<close>.
  \<^item> \<open>[...new Set(xs)]\<close> keeps first occurrences: \<open>js_uniq\<close>.
  \<^item> A throwing function returns \<open>'e + 'a\<close>, \<open>Inl\<close> being the exception.
  \<^item> Strings are lists of 8-bit characters; for ASCII text code units, characters and bytes
    coincide, and the case and white-space operations are those of JavaScript on ASCII.
  \<^item> Numbers are integers (the source tests them with \<open>Number.isSafeInteger\<close>), instants
    are milliseconds since the epoch (\<open>Date.now()\<close>), whether the source keeps them as a
    number, a \<open>Date\<close> or an ISO string.
\<close>

named_theorems js_defs \<open>definitions of the string and value vocabulary, for evaluation\<close>

section \<open>Results that may throw\<close>

definition bindR :: "'e + 'a \<Rightarrow> ('a \<Rightarrow> 'e + 'b) \<Rightarrow> 'e + 'b" where
  "bindR m f = (case m of Inl e \<Rightarrow> Inl e | Inr x \<Rightarrow> f x)"

lemma bindR_simps [simp]:
  "bindR (Inl e) f = Inl e" "bindR (Inr x) f = f x"
  by (simp_all add: bindR_def)

lemma bindR_Inr_iff: "bindR m f = Inr y \<longleftrightarrow> (\<exists>x. m = Inr x \<and> f x = Inr y)"
  by (cases m) auto

lemma bindR_Inl_iff: "bindR m f = Inl e \<longleftrightarrow> m = Inl e \<or> (\<exists>x. m = Inr x \<and> f x = Inl e)"
  by (cases m) auto

lemma bindR_InrE [elim!]:
  assumes "bindR m f = Inr y" obtains x where "m = Inr x" "f x = Inr y"
  using assms by (auto simp: bindR_Inr_iff)

text \<open>\<open>guardR b e\<close> is \<open>if (!b) throw e\<close>.\<close>

definition guardR :: "bool \<Rightarrow> 'e \<Rightarrow> 'e + unit" where
  "guardR b e = (if b then Inr () else Inl e)"

lemma guardR_simps [simp]:
  "guardR True e = Inr ()" "guardR False e = Inl e"
  "guardR b e = Inr u \<longleftrightarrow> b" "guardR b e = Inl e' \<longleftrightarrow> \<not> b \<and> e' = e"
  by (auto simp: guardR_def)

text \<open>A loop or \<open>Array.map\<close> whose body may throw stops at the first exception.\<close>

fun mapR :: "('a \<Rightarrow> 'e + 'b) \<Rightarrow> 'a list \<Rightarrow> 'e + 'b list" where
  "mapR f [] = Inr []"
| "mapR f (x # xs) = bindR (f x) (\<lambda>y. bindR (mapR f xs) (\<lambda>ys. Inr (y # ys)))"

lemma mapR_Inr_iff: "mapR f xs = Inr ys \<longleftrightarrow> list_all2 (\<lambda>x y. f x = Inr y) xs ys"
  by (induction xs arbitrary: ys) (auto simp: bindR_Inr_iff list_all2_Cons1)

lemma mapR_length: "mapR f xs = Inr ys \<Longrightarrow> length ys = length xs"
  by (auto simp: mapR_Inr_iff dest: list_all2_lengthD)

lemma mapR_in_set: "mapR f xs = Inr ys \<Longrightarrow> y \<in> set ys \<Longrightarrow> \<exists>x\<in>set xs. f x = Inr y"
  by (induction xs arbitrary: ys) auto

text \<open>A fold whose body may throw, for loops that thread a state.\<close>

fun foldR :: "('a \<Rightarrow> 's \<Rightarrow> 'e + 's) \<Rightarrow> 'a list \<Rightarrow> 's \<Rightarrow> 'e + 's" where
  "foldR f [] s = Inr s"
| "foldR f (x # xs) s = bindR (f x s) (foldR f xs)"

lemma foldR_invariant:
  assumes step: "\<And>x s s'. x \<in> set xs \<Longrightarrow> I s \<Longrightarrow> f x s = Inr s' \<Longrightarrow> I s'"
    and init: "I s" and run: "foldR f xs s = Inr s'"
  shows "I s'"
  using assms by (induction xs arbitrary: s) auto

text \<open>
  Handlers that change the state and may throw: what was changed before the exception stays
  changed, so the outcome and the state are returned side by side.
\<close>

type_synonym ('s, 'e, 'a) handler = "'s \<Rightarrow> ('e + 'a) \<times> 's"

definition retS :: "'a \<Rightarrow> ('s, 'e, 'a) handler" where "retS x s = (Inr x, s)"
definition failS :: "'e \<Rightarrow> ('s, 'e, 'a) handler" where "failS e s = (Inl e, s)"
definition guardS :: "bool \<Rightarrow> 'e \<Rightarrow> ('s, 'e, unit) handler" where
  "guardS b e = (if b then retS () else failS e)"
definition readS :: "('s \<Rightarrow> 'a) \<Rightarrow> ('s, 'e, 'a) handler" where "readS f s = (Inr (f s), s)"
definition bindS :: "('s, 'e, 'a) handler \<Rightarrow> ('a \<Rightarrow> ('s, 'e, 'b) handler) \<Rightarrow> ('s, 'e, 'b) handler" where
  "bindS m f s = (case m s of (Inl e, s') \<Rightarrow> (Inl e, s') | (Inr x, s') \<Rightarrow> f x s')"

text \<open>A result that does not touch the state, and an operation that fails without changing it.\<close>

definition liftR :: "'e + 'a \<Rightarrow> ('s, 'e, 'a) handler" where
  "liftR r = (case r of Inl e \<Rightarrow> failS e | Inr x \<Rightarrow> retS x)"
definition liftU :: "('s \<Rightarrow> 'e + ('a \<times> 's)) \<Rightarrow> ('s, 'e, 'a) handler" where
  "liftU f s = (case f s of Inl e \<Rightarrow> (Inl e, s) | Inr (x, s') \<Rightarrow> (Inr x, s'))"

lemma handler_simps [simp]:
  "retS x s = (Inr x, s)" "failS e s = (Inl e, s)" "readS f s = (Inr (f s), s)"
  "guardS True e = retS ()" "guardS False e = failS e"
  "liftR (Inl e) = failS e" "liftR (Inr x) = retS x"
  by (simp_all add: retS_def failS_def readS_def guardS_def liftR_def)

lemma bindS_Inr [elim!]:
  assumes "bindS m f s = (Inr y, s')" obtains x s1 where "m s = (Inr x, s1)" "f x s1 = (Inr y, s')"
  using assms by (auto simp: bindS_def split: prod.splits sum.splits)

lemma guardS_Inr [simp]: "guardS b e s = (Inr u, s') \<longleftrightarrow> b \<and> s' = s"
  by (cases b) auto

lemma liftR_Inr [simp]: "liftR r s = (Inr x, s') \<longleftrightarrow> r = Inr x \<and> s' = s"
  by (cases r) auto

lemma liftU_Inr [simp]: "liftU f s = (Inr x, s') \<longleftrightarrow> f s = Inr (x, s')"
  by (auto simp: liftU_def split: sum.splits)

lemma bindS_eval [simp]:
  "m s = (Inr x, s1) \<Longrightarrow> bindS m f s = f x s1" "m s = (Inl e, s1) \<Longrightarrow> bindS m f s = (Inl e, s1)"
  by (simp_all add: bindS_def)

section \<open>Characters and strings\<close>

definition chr_in :: "nat \<Rightarrow> nat \<Rightarrow> char \<Rightarrow> bool" where
  [js_defs]: "chr_in lo hi c \<longleftrightarrow> lo \<le> of_char c \<and> of_char c \<le> hi"

definition is_lower :: "char \<Rightarrow> bool" where [js_defs]: "is_lower = chr_in 97 122"
definition is_upper :: "char \<Rightarrow> bool" where [js_defs]: "is_upper = chr_in 65 90"
definition is_digit :: "char \<Rightarrow> bool" where [js_defs]: "is_digit = chr_in 48 57"
definition is_alpha :: "char \<Rightarrow> bool" where
  [js_defs]: "is_alpha c \<longleftrightarrow> is_lower c \<or> is_upper c"
definition is_alnum :: "char \<Rightarrow> bool" where
  [js_defs]: "is_alnum c \<longleftrightarrow> is_alpha c \<or> is_digit c"
definition is_hex :: "char \<Rightarrow> bool" where
  [js_defs]: "is_hex c \<longleftrightarrow> is_digit c \<or> chr_in 97 102 c \<or> chr_in 65 70 c"
definition is_b64url :: "char \<Rightarrow> bool" where
  [js_defs]: "is_b64url c \<longleftrightarrow> is_alnum c \<or> c = CHR ''_'' \<or> c = CHR ''-''"

text \<open>The class \<open>\s\<close>, which is also what \<open>trim\<close> removes.\<close>

definition is_space :: "char \<Rightarrow> bool" where
  [js_defs]: "is_space c \<longleftrightarrow> chr_in 9 13 c \<or> of_char c = (32 :: nat) \<or> of_char c = (160 :: nat)"

text \<open>The class \<open>[\u0000-\u001f\u007f]\<close>.\<close>

definition is_control :: "char \<Rightarrow> bool" where
  [js_defs]: "is_control c \<longleftrightarrow> chr_in 0 31 c \<or> of_char c = (127 :: nat)"

definition chr_lower :: "char \<Rightarrow> char" where
  [js_defs]: "chr_lower c = (if is_upper c then char_of (of_char c + 32 :: nat) else c)"

definition chr_upper :: "char \<Rightarrow> char" where
  [js_defs]: "chr_upper c = (if is_lower c then char_of (of_char c - 32 :: nat) else c)"

lemma char_of_eval [js_defs]: "char_of (n :: nat) = Char (odd n) (odd (n div 2)) (odd (n div 4))
    (odd (n div 8)) (odd (n div 16)) (odd (n div 32)) (odd (n div 64)) (odd (n div 128))"
  by (simp add: char_of_def bit_iff_odd)

definition js_lower :: "string \<Rightarrow> string" where [js_defs]: "js_lower = map chr_lower"
definition js_upper :: "string \<Rightarrow> string" where [js_defs]: "js_upper = map chr_upper"

definition js_trim :: "string \<Rightarrow> string" where
  [js_defs]: "js_trim s = rev (dropWhile is_space (rev (dropWhile is_space s)))"

lemma not_upper_chr_lower: "\<not> is_upper (chr_lower c)"
proof (cases "is_upper c")
  case True
  then have b: "65 \<le> (of_char c :: nat)" "of_char c \<le> (90 :: nat)"
    by (auto simp: is_upper_def chr_in_def)
  have "of_char (char_of (of_char c + 32 :: nat)) = (of_char c + 32 :: nat)"
    using b by simp
  with b True show ?thesis by (simp add: chr_lower_def is_upper_def chr_in_def)
qed (simp add: chr_lower_def)

lemma chr_lower_idem [simp]: "chr_lower (chr_lower c) = chr_lower c"
  using not_upper_chr_lower [of c] by (simp add: chr_lower_def [of "chr_lower c"])

lemma js_lower_idem [simp]: "js_lower (js_lower s) = js_lower s"
  by (simp add: js_lower_def)

lemma length_js_lower [simp]: "length (js_lower s) = length s"
  by (simp add: js_lower_def)

lemma js_lower_Nil_iff [simp]: "js_lower s = [] \<longleftrightarrow> s = []"
  by (simp add: js_lower_def)

lemma is_space_chr_lower [simp]: "is_space (chr_lower c) = is_space c"
proof (cases "is_upper c")
  case True
  then have b: "65 \<le> (of_char c :: nat)" "of_char c \<le> (90 :: nat)"
    by (auto simp: is_upper_def chr_in_def)
  have "of_char (char_of (of_char c + 32 :: nat)) = (of_char c + 32 :: nat)"
    using b by simp
  with b True show ?thesis by (simp add: chr_lower_def is_space_def chr_in_def)
qed (simp add: chr_lower_def)

lemma js_trim_js_lower: "js_trim (js_lower s) = js_lower (js_trim s)"
proof -
  have d: "dropWhile is_space (map chr_lower t) = map chr_lower (dropWhile is_space t)" for t
    by (simp add: dropWhile_map o_def)
  show ?thesis by (simp only: js_trim_def js_lower_def d rev_map)
qed

lemma dropWhile_idem_rev: "dropWhile P (rev (dropWhile P (rev (dropWhile P s)))) =
    rev (dropWhile P (rev (dropWhile P s)))"
proof (cases "dropWhile P s")
  case Nil
  then show ?thesis by (simp only: dropWhile.simps rev.simps)
next
  case (Cons x xs)
  then have x: "\<not> P x" by (metis hd_dropWhile list.distinct(1) list.sel(1))
  have "dropWhile P (rev (x # xs)) = dropWhile P (rev xs) @ [x]"
    using x by (simp add: dropWhile_append)
  then show ?thesis using Cons x by simp
qed

lemma js_trim_idem [simp]: "js_trim (js_trim s) = js_trim s"
  by (simp add: js_trim_def dropWhile_idem_rev)

text \<open>\<open>s.startsWith(p)\<close>, \<open>s.split(c)\<close> with a one-character separator, \<open>parts.join(c)\<close>.\<close>

definition js_starts :: "string \<Rightarrow> string \<Rightarrow> bool" where
  [js_defs]: "js_starts p s \<longleftrightarrow> take (length p) s = p"

fun js_split :: "char \<Rightarrow> string \<Rightarrow> string list" where
  "js_split c [] = [[]]"
| "js_split c (x # xs) =
     (if x = c then [] # js_split c xs
      else (case js_split c xs of [] \<Rightarrow> [[x]] | p # ps \<Rightarrow> (x # p) # ps))"

fun js_join :: "char \<Rightarrow> string list \<Rightarrow> string" where
  "js_join c [] = []"
| "js_join c [p] = p"
| "js_join c (p # q # ps) = p @ c # js_join c (q # ps)"

lemma js_split_not_Nil [simp]: "js_split c s \<noteq> []"
  by (induction s) (auto split: list.splits)

lemma js_join_split [simp]: "js_join c (js_split c s) = s"
proof (induction s)
  case (Cons x xs)
  then show ?case
    by (cases "js_split c xs"; cases "tl (js_split c xs)") auto
qed simp

lemma js_split_no_sep: "p \<in> set (js_split c s) \<Longrightarrow> c \<notin> set p"
  by (induction s arbitrary: p) (auto split: list.splits if_splits)

lemma js_split_single: "c \<notin> set p \<Longrightarrow> js_split c p = [p]"
  by (induction p) auto

lemma js_split_append: "c \<notin> set p \<Longrightarrow> js_split c (p @ c # s) = p # js_split c s"
  by (induction p) auto

lemma js_split_join:
  "ps \<noteq> [] \<Longrightarrow> \<forall>p\<in>set ps. c \<notin> set p \<Longrightarrow> js_split c (js_join c ps) = ps"
  by (induction c ps rule: js_join.induct) (auto simp: js_split_single js_split_append)

lemma js_starts_append [simp]: "js_starts p (p @ s)"
  by (simp add: js_starts_def)

section \<open>The regular expressions of the source, by shape\<close>

text \<open>\<open>/^[class]{lo,hi}$/\<close>.\<close>

definition class_re :: "(char \<Rightarrow> bool) \<Rightarrow> nat \<Rightarrow> nat \<Rightarrow> string \<Rightarrow> bool" where
  [js_defs]: "class_re p lo hi s \<longleftrightarrow> lo \<le> length s \<and> length s \<le> hi \<and> list_all p s"

text \<open>\<open>/^[first][rest]{lo,hi}$/\<close>.\<close>

definition ident_re :: "(char \<Rightarrow> bool) \<Rightarrow> (char \<Rightarrow> bool) \<Rightarrow> nat \<Rightarrow> nat \<Rightarrow> string \<Rightarrow> bool" where
  [js_defs]: "ident_re f r lo hi s = (case s of [] \<Rightarrow> False | c # cs \<Rightarrow> f c \<and> class_re r lo hi cs)"

text \<open>\<open>[a-z0-9-]\<close>, the tail of realm and provider names.\<close>

definition is_slug :: "char \<Rightarrow> bool" where
  [js_defs]: "is_slug c \<longleftrightarrow> is_lower c \<or> is_digit c \<or> c = CHR ''-''"

text \<open>\<open>\w\<close>, and the XML identifiers \<open>/^[_A-Za-z][\w.-]*$/\<close>.\<close>

definition is_word :: "char \<Rightarrow> bool" where [js_defs]: "is_word c \<longleftrightarrow> is_alnum c \<or> c = CHR ''_''"

definition xml_id_re :: "string \<Rightarrow> bool" where
  [js_defs]: "xml_id_re s = (case s of [] \<Rightarrow> False | c # cs \<Rightarrow> (is_alpha c \<or> c = CHR ''_'') \<and>
     list_all (\<lambda>c. is_word c \<or> c = CHR ''.'' \<or> c = CHR ''-'') cs)"

definition realm_re :: "string \<Rightarrow> bool" where [js_defs]: "realm_re = ident_re is_lower is_slug 0 62"

text \<open>\<open>/^[0-9a-f]{8}-[0-9a-f]{4}-[1-8][0-9a-f]{3}-[89ab][0-9a-f]{3}-[0-9a-f]{12}$/i\<close>.\<close>

definition uuid_re :: "string \<Rightarrow> bool" where
  [js_defs]: "uuid_re s \<longleftrightarrow> list_all2 (\<lambda>p c. p c)
     (replicate 8 is_hex @ [\<lambda>c. c = CHR ''-''] @ replicate 4 is_hex @ [\<lambda>c. c = CHR ''-''] @
      [chr_in 49 56] @ replicate 3 is_hex @ [\<lambda>c. c = CHR ''-''] @
      [\<lambda>c. chr_in 56 57 c \<or> chr_in 97 98 c \<or> chr_in 65 66 c] @ replicate 3 is_hex @
      [\<lambda>c. c = CHR ''-''] @ replicate 12 is_hex) s"

lemma is_slug_not_colon: "is_slug c \<Longrightarrow> c \<noteq> CHR '':''"
  by (auto simp: js_defs)

lemma realm_re_no_colon: "realm_re r \<Longrightarrow> CHR '':'' \<notin> set r"
  by (cases r) (auto simp: js_defs list_all_iff)

section \<open>Sets, sorting, slices\<close>

definition js_uniq :: "'a list \<Rightarrow> 'a list" where
  "js_uniq xs = rev (remdups (rev xs))"

lemma set_js_uniq [simp]: "set (js_uniq xs) = set xs"
  by (simp add: js_uniq_def)

lemma distinct_js_uniq [simp]: "distinct (js_uniq xs)"
  by (simp add: js_uniq_def)

lemma js_uniq_distinct: "distinct xs \<Longrightarrow> js_uniq xs = xs"
  by (simp add: js_uniq_def distinct_remdups_id)

lemma js_uniq_idem [simp]: "js_uniq (js_uniq xs) = js_uniq xs"
  by (rule js_uniq_distinct) simp

lemma js_uniq_Nil_iff [simp]: "js_uniq xs = [] \<longleftrightarrow> xs = []"
  by (simp add: js_uniq_def)

lemma length_js_uniq_le: "length (js_uniq xs) \<le> length xs"
  using length_remdups_leq [of "rev xs"] by (simp add: js_uniq_def)

text \<open>\<open>Array.prototype.sort\<close> is stable; \<open>le a b\<close> is "the comparator does not put b first".\<close>

fun insort_by :: "('a \<Rightarrow> 'a \<Rightarrow> bool) \<Rightarrow> 'a \<Rightarrow> 'a list \<Rightarrow> 'a list" where
  "insort_by le x [] = [x]"
| "insort_by le x (y # ys) = (if le x y then x # y # ys else y # insort_by le x ys)"

definition sort_by :: "('a \<Rightarrow> 'a \<Rightarrow> bool) \<Rightarrow> 'a list \<Rightarrow> 'a list" where
  "sort_by le xs = foldr (insort_by le) xs []"

lemma set_insort_by [simp]: "set (insort_by le x ys) = insert x (set ys)"
  by (induction ys) auto

lemma set_sort_by [simp]: "set (sort_by le xs) = set xs"
  by (induction xs) (auto simp: sort_by_def)

lemma length_insort_by [simp]: "length (insort_by le x ys) = Suc (length ys)"
  by (induction ys) auto

lemma length_sort_by [simp]: "length (sort_by le xs) = length xs"
  by (induction xs) (auto simp: sort_by_def)

lemma distinct_insort_by: "distinct (insort_by le x ys) \<longleftrightarrow> x \<notin> set ys \<and> distinct ys"
  by (induction ys) auto

lemma sort_by_Cons: "sort_by le (x # xs) = insort_by le x (sort_by le xs)"
  by (simp add: sort_by_def)

lemma distinct_sort_by [simp]: "distinct (sort_by le xs) \<longleftrightarrow> distinct xs"
  by (induction xs) (simp_all add: sort_by_Cons distinct_insort_by, simp add: sort_by_def)

text \<open>\<open>xs.slice(a, b)\<close> for non-negative bounds.\<close>

definition js_slice :: "nat \<Rightarrow> nat \<Rightarrow> 'a list \<Rightarrow> 'a list" where
  "js_slice a b xs = take (b - a) (drop a xs)"

lemma length_js_slice: "length (js_slice a b xs) \<le> b - a"
  by (simp add: js_slice_def)

lemma set_js_slice: "set (js_slice a b xs) \<subseteq> set xs"
  by (auto simp: js_slice_def dest: in_set_takeD in_set_dropD)

definition safe_integer :: "int \<Rightarrow> bool" where
  [js_defs]: "safe_integer n \<longleftrightarrow> - (2 ^ 53 - 1) \<le> n \<and> n \<le> 2 ^ 53 - 1"

section \<open>Insertion-ordered maps\<close>

abbreviation mget :: "('k \<times> 'v) list \<Rightarrow> 'k \<Rightarrow> 'v option" where "mget \<equiv> map_of"
abbreviation mset' :: "'k \<Rightarrow> 'v \<Rightarrow> ('k \<times> 'v) list \<Rightarrow> ('k \<times> 'v) list" where "mset' \<equiv> AList.update"
abbreviation mdel :: "'k \<Rightarrow> ('k \<times> 'v) list \<Rightarrow> ('k \<times> 'v) list" where "mdel \<equiv> AList.delete"

definition mkeys :: "('k \<times> 'v) list \<Rightarrow> 'k list" where "mkeys m = map fst m"
definition mvals :: "('k \<times> 'v) list \<Rightarrow> 'v list" where "mvals m = map snd m"

definition map_wf :: "('k \<times> 'v) list \<Rightarrow> bool" where "map_wf m \<longleftrightarrow> distinct (map fst m)"

text \<open>Deleting, while iterating, every entry whose value satisfies \<open>P\<close>.\<close>

definition mdrop :: "('v \<Rightarrow> bool) \<Rightarrow> ('k \<times> 'v) list \<Rightarrow> ('k \<times> 'v) list" where
  "mdrop P m = filter (\<lambda>kv. \<not> P (snd kv)) m"

lemma map_wf_Nil [simp]: "map_wf []"
  by (simp add: map_wf_def)

lemma map_wf_update [simp]: "map_wf m \<Longrightarrow> map_wf (AList.update k v m)"
  by (simp add: map_wf_def distinct_update)

lemma map_wf_delete [simp]: "map_wf m \<Longrightarrow> map_wf (AList.delete k m)"
  by (simp add: map_wf_def distinct_delete)

lemma map_wf_mdrop [simp]: "map_wf m \<Longrightarrow> map_wf (mdrop P m)"
  by (simp add: map_wf_def mdrop_def distinct_map_filter)

lemma mget_update [simp]: "mget (AList.update k v m) k' = (if k' = k then Some v else mget m k')"
  by (simp add: update_conv)

lemma mget_delete [simp]: "mget (AList.delete k m) k' = (if k' = k then None else mget m k')"
  by (simp add: delete_conv')

lemma mget_mdrop: "map_wf m \<Longrightarrow>
    mget (mdrop P m) k = (case mget m k of None \<Rightarrow> None | Some v \<Rightarrow> if P v then None else Some v)"
  by (induction m)
    (auto simp: map_wf_def mdrop_def map_of_eq_None_iff split: option.splits dest: map_of_SomeD)

lemma mget_mdrop_SomeD: "map_wf m \<Longrightarrow> mget (mdrop P m) k = Some v \<Longrightarrow> mget m k = Some v \<and> \<not> P v"
  by (simp add: mget_mdrop split: option.splits if_splits)

lemma set_mvals: "map_wf m \<Longrightarrow> v \<in> set (mvals m) \<longleftrightarrow> (\<exists>k. mget m k = Some v)"
  by (force simp: mvals_def map_wf_def)

lemma set_mvals_update: "map_wf m \<Longrightarrow> w \<in> set (mvals (AList.update k v m)) \<longleftrightarrow>
    w = v \<or> (\<exists>k'. k' \<noteq> k \<and> mget m k' = Some w)"
  by (auto simp: set_mvals)

lemma mget_in_mvals: "mget m k = Some v \<Longrightarrow> v \<in> set (mvals m)"
  by (force simp: mvals_def dest: map_of_SomeD)

lemma mvals_mdrop [simp]: "mvals (mdrop P m) = filter (\<lambda>v. \<not> P v) (mvals m)"
  by (simp add: mvals_def mdrop_def filter_map o_def)

lemma length_update: "length (AList.update k v m) = (if k \<in> fst ` set m then length m else Suc (length m))"
  by (induction m) auto

lemma length_update_le: "length (AList.update k v m) \<le> Suc (length m)"
  by (simp add: length_update)

lemma delete_notin: "k \<notin> fst ` set m \<Longrightarrow> AList.delete k m = m"
  by (induction m) auto

lemma length_delete_in: "map_wf m \<Longrightarrow> k \<in> fst ` set m \<Longrightarrow> Suc (length (AList.delete k m)) = length m"
  by (induction m) (auto simp: map_wf_def delete_notin)

section \<open>JavaScript values\<close>

datatype json =
    JUndef
  | JNull
  | JBool bool
  | JNum int
  | JStr string
  | JArr "json list"
  | JObj "(string \<times> json) list"

text \<open>Property read (\<open>undefined\<close> when absent), \<open>typeof\<close> tests, truthiness, \<open>== null\<close>.\<close>

fun jprop :: "json \<Rightarrow> string \<Rightarrow> json" where
  "jprop (JObj kvs) k = (case mget kvs k of None \<Rightarrow> JUndef | Some v \<Rightarrow> v)"
| "jprop _ k = JUndef"

fun is_str :: "json \<Rightarrow> bool" where "is_str (JStr _) = True" | "is_str _ = False"
fun is_bool :: "json \<Rightarrow> bool" where "is_bool (JBool _) = True" | "is_bool _ = False"
fun is_arr :: "json \<Rightarrow> bool" where "is_arr (JArr _) = True" | "is_arr _ = False"

text \<open>A non-null, non-array object.\<close>

fun is_obj :: "json \<Rightarrow> bool" where "is_obj (JObj _) = True" | "is_obj _ = False"

fun truthy :: "json \<Rightarrow> bool" where
  "truthy JUndef = False"
| "truthy JNull = False"
| "truthy (JBool b) = b"
| "truthy (JNum n) = (n \<noteq> 0)"
| "truthy (JStr s) = (s \<noteq> [])"
| "truthy _ = True"

fun nullish :: "json \<Rightarrow> bool" where
  "nullish JUndef = True" | "nullish JNull = True" | "nullish _ = False"

fun jentries :: "json \<Rightarrow> (string \<times> json) list" where
  "jentries (JObj kvs) = kvs" | "jentries _ = []"

lemma jprop_update [simp]: "jprop (JObj (AList.update k v kvs)) k' = (if k' = k then v else jprop (JObj kvs) k')"
  by simp

section \<open>Decimal numerals\<close>

text \<open>\<open>String(n)\<close> for an integer.\<close>

definition digit_char :: "nat \<Rightarrow> char" where "digit_char d = char_of (48 + d)"

fun nat_str :: "nat \<Rightarrow> string" where
  "nat_str n = (if n < 10 then [digit_char n] else nat_str (n div 10) @ [digit_char (n mod 10)])"

declare nat_str.simps [simp del]

definition int_str :: "int \<Rightarrow> string" where
  "int_str i = (if i < 0 then CHR ''-'' # nat_str (nat (- i)) else nat_str (nat i))"

text \<open>\<open>Number(s)\<close> for a string of digits.\<close>

definition digit_val :: "char \<Rightarrow> nat" where "digit_val c = of_char c - 48"

definition digits_val :: "string \<Rightarrow> nat" where
  "digits_val s = foldl (\<lambda>n c. 10 * n + digit_val c) 0 s"

lemma of_char_digit [simp]: "d < 10 \<Longrightarrow> of_char (digit_char d) = (48 + d :: nat)"
  by (simp add: digit_char_def)

lemma digit_val_char [simp]: "d < 10 \<Longrightarrow> digit_val (digit_char d) = d"
  by (simp add: digit_val_def)

lemma is_digit_digit_char: "d < 10 \<Longrightarrow> is_digit (digit_char d)"
  by (simp add: is_digit_def chr_in_def)

lemma nat_str_digits: "c \<in> set (nat_str n) \<Longrightarrow> is_digit c"
proof (induction n arbitrary: c rule: nat_str.induct)
  case (1 n)
  then show ?case
    by (subst (asm) (2) nat_str.simps) (auto split: if_splits simp: is_digit_digit_char)
qed

lemma digits_val_nat_str [simp]: "digits_val (nat_str n) = n"
proof (induction n rule: nat_str.induct)
  case (1 n)
  show ?case
  proof (cases "n < 10")
    case True
    then show ?thesis by (subst nat_str.simps) (simp add: digits_val_def)
  next
    case False
    with 1 show ?thesis by (subst nat_str.simps) (simp add: digits_val_def)
  qed
qed

lemma nat_str_inj [simp]: "nat_str m = nat_str n \<longleftrightarrow> m = n"
  by (metis digits_val_nat_str)

lemma nat_str_not_Nil [simp]: "nat_str n \<noteq> []"
  by (subst nat_str.simps) simp

text \<open>\<open>String(v)\<close>.\<close>

fun js_String :: "json \<Rightarrow> string" where
  "js_String JUndef = ''undefined''"
| "js_String JNull = ''null''"
| "js_String (JBool b) = (if b then ''true'' else ''false'')"
| "js_String (JNum n) = int_str n"
| "js_String (JStr s) = s"
| "js_String (JArr xs) = js_join (CHR '','') (map (\<lambda>x. if nullish x then [] else js_String x) xs)"
| "js_String (JObj kvs) = ''[object Object]''"

end
