(* ===== verification/CsrfTokens.thy ===== *)
theory CsrfTokens
  imports JsPrelude
begin

text \<open>
  Signed form tokens (\<open>src/crypto/csrf.js\<close>) and the subject the federation forms are bound to
  (\<open>csrfSubject\<close> of \<open>src/routes/federation.js\<close>). The signature \<open>HMAC-SHA-256\<close> in base64url is the
  argument \<open>sig\<close>, the eighteen random bytes are \<open>nonce\<close>. \<open>Number(s)\<close> is exact on optionally signed
  decimal digits; the spellings beyond (fractions, exponents, hexadecimal, blanks) go to the argument \<open>num\<close>,
  which gives the safe integer such a text denotes, if it is one.
\<close>

section \<open>Tokens\<close>

definition DOT :: char where "DOT = CHR ''.''"

definition safe_or :: "int \<Rightarrow> int option" where "safe_or n = (if safe_integer n then Some n else None)"

definition safe_number :: "(string \<Rightarrow> int option) \<Rightarrow> string \<Rightarrow> int option" where
  "safe_number num s =
     (if s \<noteq> [] \<and> list_all is_digit s then safe_or (int (digits_val s))
      else (case s of
              c # cs \<Rightarrow> if c = CHR ''-'' \<and> cs \<noteq> [] \<and> list_all is_digit cs then safe_or (- int (digits_val cs)) else num s
            | [] \<Rightarrow> Some 0))"

definition token_payload :: "string \<Rightarrow> int \<Rightarrow> string \<Rightarrow> string" where
  "token_payload subject now nonce = subject @ DOT # int_str (now div 1000) @ DOT # nonce"

definition createCsrfToken :: "(string \<Rightarrow> string \<Rightarrow> string) \<Rightarrow> string \<Rightarrow> string \<Rightarrow> int \<Rightarrow> string \<Rightarrow> string" where
  "createCsrfToken sig subject secret now nonce =
     token_payload subject now nonce @ DOT # sig (token_payload subject now nonce) secret"

definition verifyCsrfToken ::
    "(string \<Rightarrow> string \<Rightarrow> string) \<Rightarrow> (string \<Rightarrow> int option) \<Rightarrow> json \<Rightarrow> string \<Rightarrow> string \<Rightarrow> int \<Rightarrow> int \<Rightarrow> bool" where
  "verifyCsrfToken sig num token subject secret now maxAgeSeconds =
     (case token of
        JStr t \<Rightarrow>
          if length t > 512 then False
          else (let parts = js_split DOT t in
            if length parts \<noteq> 4 \<or> parts ! 0 \<noteq> subject then False
            else (case safe_number num (parts ! 1) of
                    None \<Rightarrow> False
                  | Some timestamp \<Rightarrow>
                      (let age = now div 1000 - timestamp in
                       if age < - 30 \<or> age > maxAgeSeconds then False
                       else parts ! 3 = sig (js_join DOT (take 3 parts)) secret)))
      | _ \<Rightarrow> False)"

section \<open>A token verifies exactly as what it was made\<close>

lemma nat_str_all_digits: "list_all is_digit (nat_str n)"
  by (auto simp: list_all_iff dest: nat_str_digits)

lemma is_digit_not: "is_digit c \<Longrightarrow> c \<noteq> CHR ''.'' \<and> c \<noteq> CHR ''-''"
  by (auto simp: is_digit_def chr_in_def)

lemma int_str_no_dot: "DOT \<notin> set (int_str i)"
  using nat_str_digits is_digit_not by (auto simp: int_str_def DOT_def)

lemma safe_number_int_str: "safe_integer i \<Longrightarrow> safe_number num (int_str i) = Some i"
  using nat_str_all_digits by (auto simp: safe_number_def int_str_def safe_or_def is_digit_def chr_in_def)

lemma split_token:
  assumes "DOT \<notin> set a" and "DOT \<notin> set b" and "DOT \<notin> set c" and "DOT \<notin> set d"
  shows "js_split DOT ((a @ DOT # b @ DOT # c) @ DOT # d) = [a, b, c, d]"
  using assms by (simp add: js_split_append js_split_single)

lemma verify_created:
  assumes dots: "DOT \<notin> set subject" "DOT \<notin> set nonce" "DOT \<notin> set (sig (token_payload subject now nonce) secret)"
    and now: "safe_integer (now div 1000)" and len: "length (createCsrfToken sig subject secret now nonce) \<le> 512"
  shows "verifyCsrfToken sig num (JStr (createCsrfToken sig subject secret now nonce)) subject' secret' later maxAge \<longleftrightarrow>
    subject' = subject \<and> sig (token_payload subject now nonce) secret' = sig (token_payload subject now nonce) secret \<and>
    - 30 \<le> later div 1000 - now div 1000 \<and> later div 1000 - now div 1000 \<le> maxAge"
proof -
  let ?t = "createCsrfToken sig subject secret now nonce" and ?s = "sig (token_payload subject now nonce) secret"
  have parts: "js_split DOT ?t = [subject, int_str (now div 1000), nonce, ?s]"
    using split_token [OF dots(1) int_str_no_dot dots(2,3)] by (simp add: createCsrfToken_def token_payload_def)
  have join: "js_join DOT (take 3 [subject, int_str (now div 1000), nonce, ?s]) = token_payload subject now nonce"
    by (simp add: token_payload_def numeral_3_eq_3)
  show ?thesis
    using len join by (auto simp: verifyCsrfToken_def parts safe_number_int_str [OF now] Let_def)
qed

section \<open>What the federation forms are bound to\<close>

text \<open>\<open>JSON.stringify\<close> of a string and of an array of strings.\<close>

definition hex_char :: "nat \<Rightarrow> char" where
  "hex_char d = (if d < 10 then char_of (48 + d) else char_of (87 + d))"

definition BSL :: char where "BSL = CHR 0x5C"
definition QUO :: char where "QUO = CHR 0x22"

definition json_esc :: "char \<Rightarrow> string" where
  "json_esc c =
     (let n = (of_char c :: nat) in
      if n = 34 then [BSL, QUO] else if n = 92 then [BSL, BSL]
      else if n = 8 then [BSL, CHR ''b''] else if n = 9 then [BSL, CHR ''t''] else if n = 10 then [BSL, CHR ''n'']
      else if n = 12 then [BSL, CHR ''f''] else if n = 13 then [BSL, CHR ''r'']
      else if n < 32 then [BSL, CHR ''u'', CHR ''0'', CHR ''0'', hex_char (n div 16), hex_char (n mod 16)]
      else [c])"

definition json_string :: "string \<Rightarrow> string" where
  "json_string s = QUO # concat (map json_esc s) @ [QUO]"

definition json_strings :: "string list \<Rightarrow> string" where
  "json_strings ss = CHR ''['' # js_join (CHR '','') (map json_string ss) @ [CHR '']'']"

text \<open>\<open>Buffer.from(s).toString('base64url')\<close>.\<close>

definition b64_char :: "nat \<Rightarrow> char" where
  "b64_char n = (if n < 26 then char_of (65 + n) else if n < 52 then char_of (71 + n)
     else if n < 62 then char_of (n - 4) else if n = 62 then CHR ''-'' else CHR ''_'')"

fun base64url :: "nat list \<Rightarrow> string" where
  "base64url [] = []"
| "base64url [a] = [b64_char (a div 4), b64_char (a mod 4 * 16)]"
| "base64url [a, b] = [b64_char (a div 4), b64_char (a mod 4 * 16 + b div 16), b64_char (b mod 16 * 4)]"
| "base64url (a # b # c # bs) =
     [b64_char (a div 4), b64_char (a mod 4 * 16 + b div 16), b64_char (b mod 16 * 4 + c div 64), b64_char (c mod 64)]
     @ base64url bs"

record federation_binding =
  bd_realm :: string
  bd_interactionUid :: string
  bd_extensionId :: string
  bd_providerId :: string

definition csrfSubject :: "federation_binding \<Rightarrow> string" where
  "csrfSubject b = ''federation-'' @
     base64url (map of_char (json_strings [bd_realm b, bd_interactionUid b, bd_extensionId b, bd_providerId b]))"

definition createFederationInitiationCsrfToken ::
    "(string \<Rightarrow> string \<Rightarrow> string) \<Rightarrow> federation_binding \<Rightarrow> string \<Rightarrow> int \<Rightarrow> string \<Rightarrow> string" where
  "createFederationInitiationCsrfToken sig b secret now nonce = createCsrfToken sig (csrfSubject b) secret now nonce"

text \<open>The escapes of two characters agree only when the characters do, and none starts with a quote.\<close>

lemma char_eq_nat: "c = d \<longleftrightarrow> (of_char c :: nat) = of_char d"
  by simp

lemma hex_char_inj: "m < 16 \<Longrightarrow> n < 16 \<Longrightarrow> hex_char m = hex_char n \<longleftrightarrow> m = n"
  unfolding char_eq_nat hex_char_def by auto

lemma json_esc_cases:
  obtains (plain) "json_esc c = [c]" "c \<noteq> BSL" "c \<noteq> QUO"
  | (short) e where "json_esc c = [BSL, e]" "e \<noteq> CHR ''u''"
      "c = (if e = CHR ''b'' then CHR 0x08 else if e = CHR ''t'' then CHR 0x09 else if e = CHR ''n'' then CHR 0x0A
            else if e = CHR ''f'' then CHR 0x0C else if e = CHR ''r'' then CHR 0x0D else e)"
  | (ctrl) "json_esc c = [BSL, CHR ''u'', CHR ''0'', CHR ''0'', hex_char (of_char c div 16), hex_char (of_char c mod 16)]"
      "(of_char c :: nat) < 32"
proof -
  let ?n = "of_char c :: nat"
  consider "?n = 34" | "?n = 92" | "?n = 8" | "?n = 9" | "?n = 10" | "?n = 12" | "?n = 13"
    | "?n < 32" "?n \<notin> {8, 9, 10, 12, 13}" | "?n \<ge> 32" "?n \<noteq> 34" "?n \<noteq> 92" by force
  then show thesis
  proof cases
    case 8
    then show ?thesis by (intro ctrl) (auto simp: json_esc_def Let_def)
  next
    case 9
    then show ?thesis by (intro plain) (auto simp: json_esc_def Let_def BSL_def QUO_def)
  next
    case 3
    then have "c = CHR 0x08" by (simp only: char_eq_nat) simp
    then show ?thesis by (intro short [of "CHR ''b''"]) (simp_all add: json_esc_def Let_def)
  next
    case 4
    then have "c = CHR 0x09" by (simp only: char_eq_nat) simp
    then show ?thesis by (intro short [of "CHR ''t''"]) (simp_all add: json_esc_def Let_def)
  next
    case 5
    then have "c = CHR 0x0A" by (simp only: char_eq_nat) simp
    then show ?thesis by (intro short [of "CHR ''n''"]) (simp_all add: json_esc_def Let_def)
  next
    case 6
    then have "c = CHR 0x0C" by (simp only: char_eq_nat) simp
    then show ?thesis by (intro short [of "CHR ''f''"]) (simp_all add: json_esc_def Let_def)
  next
    case 7
    then have "c = CHR 0x0D" by (simp only: char_eq_nat) simp
    then show ?thesis by (intro short [of "CHR ''r''"]) (simp_all add: json_esc_def Let_def)
  qed (use short in \<open>force simp: json_esc_def Let_def BSL_def QUO_def char_eq_nat\<close>)+
qed

lemma json_esc_inj:
  assumes "json_esc c @ xs = json_esc d @ ys" shows "c = d \<and> xs = ys"
proof -
  have hex: "c = d" if "(of_char c :: nat) < 32" "(of_char d :: nat) < 32"
      "hex_char (of_char c div 16) = hex_char (of_char d div 16)" "hex_char (of_char c mod 16) = hex_char (of_char d mod 16)"
  proof -
    have "(of_char c :: nat) div 16 = of_char d div 16" "(of_char c :: nat) mod 16 = of_char d mod 16"
      using that by (simp_all add: hex_char_inj)
    then have "(of_char c :: nat) = of_char d" by (metis div_mult_mod_eq)
    then show ?thesis by simp
  qed
  show ?thesis
    using assms hex by (cases c rule: json_esc_cases; cases d rule: json_esc_cases) auto
qed

lemma json_esc_not_quote: "json_esc c @ xs \<noteq> QUO # ys"
  by (cases c rule: json_esc_cases) (auto simp: BSL_def QUO_def)

lemma json_body_inj:
  "concat (map json_esc s) @ QUO # xs = concat (map json_esc t) @ QUO # ys \<Longrightarrow> s = t \<and> xs = ys"
proof (induction s arbitrary: t)
  case Nil
  then show ?case using json_esc_not_quote by (cases t) (auto simp: eq_commute [of "QUO # xs"])
next
  case (Cons c s)
  show ?case
  proof (cases t)
    case Nil
    then show ?thesis using Cons.prems json_esc_not_quote by auto
  next
    case (Cons d t')
    then show ?thesis using Cons.prems json_esc_inj [of c _ d] Cons.IH [of t'] by fastforce
  qed
qed

lemma json_string_inj: "json_string s @ xs = json_string t @ ys \<longleftrightarrow> s = t \<and> xs = ys"
  using json_body_inj [of s xs t ys] by (auto simp: json_string_def)

lemma json_strings_inj4: "json_strings [a, b, c, d] = json_strings [a', b', c', d'] \<longleftrightarrow> a = a' \<and> b = b' \<and> c = c' \<and> d = d'"
  using json_string_inj [of d "[]" d' "[]"] by (auto simp: json_strings_def json_string_inj)

lemma b64_code: "n < 64 \<Longrightarrow> of_char (b64_char n) =
    (if n < 26 then 65 + n else if n < 52 then 71 + n else if n < 62 then n - 4 else if n = 62 then 45 else 95 :: nat)"
  by (auto simp: b64_char_def)

lemma b64_char_inj: "m < 64 \<Longrightarrow> n < 64 \<Longrightarrow> b64_char m = b64_char n \<longleftrightarrow> m = n"
  unfolding char_eq_nat by (auto simp: b64_code split: if_splits)

lemma b64_char_no_dot: "b64_char n \<noteq> DOT"
  unfolding char_eq_nat b64_char_def DOT_def by auto

lemma base64url_no_dot: "DOT \<notin> set (base64url bs)"
  by (induction bs rule: base64url.induct) (use b64_char_no_dot [symmetric] in auto)

lemma div_mod_eq: "(a :: nat) div k = a' div k \<Longrightarrow> a mod k = a' mod k \<Longrightarrow> a = a'"
  by (metis div_mult_mod_eq)

text \<open>The first two bytes and the rest are determined by the characters they give.\<close>

lemma b64_first:
  assumes "a < 256" "a' < 256" "b < 256" "b' < 256"
    and "b64_char (a div 4) = b64_char (a' div 4)" "b64_char (a mod 4 * 16 + b div 16) = b64_char (a' mod 4 * 16 + b' div 16)"
  shows "a = a'" "b div 16 = b' div 16"
proof -
  have d: "a div 4 = a' div 4" using assms(1,2,5) by (simp add: b64_char_inj)
  have bd: "b div 16 < 16" "b' div 16 < 16" using assms(3,4) by simp_all
  have m: "a mod 4 * 16 + b div 16 = a' mod 4 * 16 + b' div 16"
  proof -
    have "a mod 4 < 4" "a' mod 4 < 4" by simp_all
    then have "a mod 4 * 16 + b div 16 < 64" "a' mod 4 * 16 + b' div 16 < 64" using bd by linarith+
    then show ?thesis using assms(6) by (simp add: b64_char_inj)
  qed
  have "(a mod 4 * 16 + b div 16) div 16 = (a' mod 4 * 16 + b' div 16) div 16" using m by simp
  then have "a mod 4 = a' mod 4" using bd by simp
  then show "a = a'" using d div_mod_eq by blast
  then show "b div 16 = b' div 16" using m by simp
qed

lemma b64_next:
  assumes "b < 256" "b' < 256" "c < 256" "c' < 256" "b div 16 = b' div 16"
    and "b64_char (b mod 16 * 4 + c div 64) = b64_char (b' mod 16 * 4 + c' div 64)"
  shows "b = b'" "c div 64 = c' div 64"
proof -
  have cd: "c div 64 < 4" "c' div 64 < 4" using assms(3,4) by simp_all
  have m: "b mod 16 * 4 + c div 64 = b' mod 16 * 4 + c' div 64"
  proof -
    have "b mod 16 < 16" "b' mod 16 < 16" by simp_all
    then have "b mod 16 * 4 + c div 64 < 64" "b' mod 16 * 4 + c' div 64 < 64" using cd by linarith+
    then show ?thesis using assms(6) by (simp add: b64_char_inj)
  qed
  have "(b mod 16 * 4 + c div 64) div 4 = (b' mod 16 * 4 + c' div 64) div 4" using m by simp
  then have "b mod 16 = b' mod 16" using cd by simp
  then show "b = b'" using assms(5) div_mod_eq by blast
  then show "c div 64 = c' div 64" using m by simp
qed

lemma base64url_inj:
  "\<forall>n\<in>set as. n < 256 \<Longrightarrow> \<forall>n\<in>set bs. n < 256 \<Longrightarrow> base64url as = base64url bs \<Longrightarrow> as = bs"
proof (induction as arbitrary: bs rule: base64url.induct)
  case 1
  then show ?case by (cases bs rule: base64url.cases) simp_all
next
  case (2 a)
  have a: "a < 256" using 2 by simp
  show ?case
  proof (cases bs rule: base64url.cases)
    case (2 a')
    have "b64_char (a div 4) = b64_char (a' div 4)" "b64_char (a mod 4 * 16 + 0 div 16) = b64_char (a' mod 4 * 16 + 0 div 16)"
      using \<open>base64url _ = _\<close> by (simp_all add: 2)
    moreover have "a' < 256" using \<open>\<forall>n\<in>set bs. n < 256\<close> by (simp add: 2)
    ultimately show ?thesis using b64_first(1) [OF a, of a' 0 0] by (simp add: 2)
  qed (use 2(3) in simp_all)
next
  case (3 a b)
  have a: "a < 256" "b < 256" using 3 by simp_all
  show ?case
  proof (cases bs rule: base64url.cases)
    case (3 a' b')
    have eq: "b64_char (a div 4) = b64_char (a' div 4)" "b64_char (a mod 4 * 16 + b div 16) = b64_char (a' mod 4 * 16 + b' div 16)"
        "b64_char (b mod 16 * 4 + 0 div 64) = b64_char (b' mod 16 * 4 + 0 div 64)"
      using \<open>base64url _ = _\<close> by (simp_all add: 3)
    have b: "a' < 256" "b' < 256" using \<open>\<forall>n\<in>set bs. n < 256\<close> by (simp_all add: 3)
    note ab = b64_first [OF a(1) b(1) a(2) b(2) eq(1,2)]
    show ?thesis using ab(1) b64_next(1) [OF a(2) b(2) _ _ ab(2) eq(3)] by (simp add: 3)
  qed (use 3(3) in simp_all)
next
  case (4 a b c as)
  have a: "a < 256" "b < 256" "c < 256" "\<forall>n\<in>set as. n < 256" using 4(2) by simp_all
  show ?case
  proof (cases bs rule: base64url.cases)
    case (4 a' b' c' bs')
    have eq: "b64_char (a div 4) = b64_char (a' div 4)" "b64_char (a mod 4 * 16 + b div 16) = b64_char (a' mod 4 * 16 + b' div 16)"
        "b64_char (b mod 16 * 4 + c div 64) = b64_char (b' mod 16 * 4 + c' div 64)" "b64_char (c mod 64) = b64_char (c' mod 64)"
        "base64url as = base64url bs'"
      using \<open>base64url _ = base64url bs\<close> by (simp_all add: 4)
    have b: "a' < 256" "b' < 256" "c' < 256" "\<forall>n\<in>set bs'. n < 256" using \<open>\<forall>n\<in>set bs. n < 256\<close> by (simp_all add: 4)
    note ab = b64_first [OF a(1) b(1) a(2) b(2) eq(1,2)]
    note bc = b64_next [OF a(2) b(2) a(3) b(3) ab(2) eq(3)]
    have "c mod 64 = c' mod 64" using eq(4) by (simp add: b64_char_inj)
    then have "c = c'" by (rule div_mod_eq [OF bc(2)])
    then show ?thesis using ab(1) bc(1) "4.IH" [OF a(4) b(4) eq(5)] by (simp add: 4)
  qed (use 4(4) in simp_all)
qed

lemma csrfSubject_inj: "csrfSubject b = csrfSubject b' \<longleftrightarrow> b = b'"
proof
  let ?j = "\<lambda>b. json_strings [bd_realm b, bd_interactionUid b, bd_extensionId b, bd_providerId b]"
  assume "csrfSubject b = csrfSubject b'"
  then have "base64url (map of_char (?j b)) = base64url (map of_char (?j b'))" by (simp add: csrfSubject_def)
  then have "map of_char (?j b) = (map of_char (?j b') :: nat list)"
    by (rule base64url_inj [rotated 2]) auto
  then have "?j b = ?j b'" by (simp add: inj_map_eq_map inj_on_def)
  then show "b = b'" by (cases b; cases b') (simp add: json_strings_inj4)
qed simp

lemma csrfSubject_no_dot: "DOT \<notin> set (csrfSubject b)"
  using base64url_no_dot by (auto simp: csrfSubject_def DOT_def)

section \<open>Properties\<close>

text \<open>The form that starts an upstream sign-in is accepted exactly for the request it was
rendered for. A token made for a realm, an interaction, an extension and a provider verifies under the
same secret for these four and no others (whatever their characters: their JSON text and its base64url form are injective),
from thirty seconds before its second to the maximal age after it. The hypotheses are what
HMAC in base64url gives (no dot) and the length limit of 512 that the verification enforces.\<close>

theorem federation_token_roundtrip:
  assumes "\<forall>p. DOT \<notin> set (sig p secret)" and "DOT \<notin> set nonce" and "safe_integer (now div 1000)"
    and "length (createFederationInitiationCsrfToken sig b secret now nonce) \<le> 512"
  shows "verifyCsrfToken sig num (JStr (createFederationInitiationCsrfToken sig b secret now nonce)) (csrfSubject b')
      secret later maxAge \<longleftrightarrow>
    b' = b \<and> - 30 \<le> later div 1000 - now div 1000 \<and> later div 1000 - now div 1000 \<le> maxAge"
  using verify_created [of "csrfSubject b" nonce sig now secret] assms csrfSubject_no_dot csrfSubject_inj
  by (simp add: createFederationInitiationCsrfToken_def)

lemma length_json_esc: "length (json_esc c) \<le> 6"
  by (cases c rule: json_esc_cases) simp_all

lemma length_json_string: "length (json_string s) \<le> 6 * length s + 2"
proof -
  have "length (concat (map json_esc s)) \<le> 6 * length s"
  proof (induction s)
    case (Cons c s)
    then show ?case using length_json_esc [of c] by simp
  qed simp
  then show ?thesis by (simp add: json_string_def)
qed

lemma length_base64url: "length (base64url bs) \<le> 2 * length bs"
  by (induction bs rule: base64url.induct) simp_all

lemma length_csrfSubject:
  "length (csrfSubject b) \<le> 12 * (length (bd_realm b) + length (bd_interactionUid b) + length (bd_extensionId b) +
     length (bd_providerId b)) + 37"
  using length_json_string [of "bd_realm b"] length_json_string [of "bd_interactionUid b"]
    length_json_string [of "bd_extensionId b"] length_json_string [of "bd_providerId b"]
    length_base64url [of "map of_char (json_strings [bd_realm b, bd_interactionUid b, bd_extensionId b, bd_providerId b])"]
  by (simp add: csrfSubject_def json_strings_def)

lemma demo_token_length:
  "length (createFederationInitiationCsrfToken (\<lambda>p k. ''s'') \<lparr>bd_realm = ''corp'', bd_interactionUid = ''u'',
     bd_extensionId = ''builtin.saml-federation'', bd_providerId = ''idp''\<rparr> ''k'' 5000 ''n'') \<le> 512"
proof -
  have "int_str (5000 div 1000) = [digit_char 5]" by (simp add: int_str_def nat_str.simps)
  then show ?thesis
    using length_csrfSubject [of "\<lparr>bd_realm = ''corp'', bd_interactionUid = ''u'',
      bd_extensionId = ''builtin.saml-federation'', bd_providerId = ''idp''\<rparr>"]
    by (simp add: createFederationInitiationCsrfToken_def createCsrfToken_def token_payload_def)
qed

lemma federation_token_roundtrip_witness:
  "verifyCsrfToken (\<lambda>p k. ''s'') (\<lambda>_. None) (JStr (createFederationInitiationCsrfToken (\<lambda>p k. ''s'')
     \<lparr>bd_realm = ''corp'', bd_interactionUid = ''u'', bd_extensionId = ''builtin.saml-federation'', bd_providerId = ''idp''\<rparr>
     ''k'' 5000 ''n'')) (csrfSubject \<lparr>bd_realm = ''corp'', bd_interactionUid = ''u'',
     bd_extensionId = ''builtin.saml-federation'', bd_providerId = ''idp''\<rparr>) ''k'' 600000 600 \<and>
   \<not> verifyCsrfToken (\<lambda>p k. ''s'') (\<lambda>_. None) (JStr (createFederationInitiationCsrfToken (\<lambda>p k. ''s'')
     \<lparr>bd_realm = ''corp'', bd_interactionUid = ''u'', bd_extensionId = ''builtin.saml-federation'', bd_providerId = ''idp''\<rparr>
     ''k'' 5000 ''n'')) (csrfSubject \<lparr>bd_realm = ''corp'', bd_interactionUid = ''u'',
     bd_extensionId = ''builtin.saml-federation'', bd_providerId = ''other''\<rparr>) ''k'' 600000 600"
proof -
  have h: "\<forall>p. DOT \<notin> set ((\<lambda>p k. ''s'') p ''k'')" "DOT \<notin> set ''n''" "safe_integer (5000 div 1000)"
    by (simp_all add: DOT_def safe_integer_def)
  note rt = federation_token_roundtrip [OF h demo_token_length]
  show ?thesis unfolding rt by simp
qed

end
