(* ===== verification/ExtensionRegistry.thy ===== *)
theory ExtensionRegistry
  imports CsrfTokens
begin

text \<open>
  The registry of identity extensions (\<open>src/authentication/registry.js\<close>). A manifest is a JavaScript value
  that is checked; an implementation is an object of functions, here a record of slots: absent, some value that is
  no function, or a function, which is a handler over the state \<open>'s\<close> of the application. The registry is a \<open>Map\<close>
  from identifiers (primitive values) to entries. Also the URL a WHATWG parser gives, which several components read.
\<close>

section \<open>Shared shapes\<close>

text \<open>An exception with the properties the error handlers read.\<close>

record http_error =
  he_code :: "string option"
  he_status :: "nat option"

record web_url =
  wu_protocol :: string
  wu_hostname :: string
  wu_username :: string
  wu_password :: string
  wu_pathname :: string
  wu_search :: string
  wu_hash :: string
  wu_origin :: string
  wu_href :: string

type_synonym url_parser = "string \<Rightarrow> web_url option"

text \<open>The order of the default \<open>sort()\<close>: code units.\<close>

fun str_le :: "string \<Rightarrow> string \<Rightarrow> bool" where
  "str_le [] t = True"
| "str_le (c # s) [] = False"
| "str_le (c # s) (d # t) =
     ((of_char c :: nat) < of_char d \<or> c = d \<and> str_le s t)"

section \<open>Manifests and implementations\<close>

definition AUTHME_EXTENSION_API_VERSION :: string where
  "AUTHME_EXTENSION_API_VERSION = ''authme.identity/v1''"

definition extension_kinds :: "string list" where
  "extension_kinds = [''authenticator'', ''federation'', ''provisioning'']"

definition extension_id_re :: "string \<Rightarrow> bool" where
  [js_defs]: "extension_id_re = ident_re is_lower (\<lambda>c. is_slug c \<or> c = CHR ''.'') 1 63"

definition capability_re :: "string \<Rightarrow> bool" where
  [js_defs]: "capability_re = ident_re is_lower (\<lambda>c. is_slug c \<or> c = CHR ''.'' \<or> c = CHR ''_'') 0 63"

record manifest =
  mf_apiVersion :: string
  mf_id :: json
  mf_kind :: string
  mf_displayName :: string
  mf_capabilities :: "string list"

datatype 'f slot = Absent | NotFunction | Method 'f

fun is_method :: "'f slot \<Rightarrow> bool" where
  "is_method (Method f) = True"
| "is_method _ = False"

type_synonym 's extension_call = "json \<Rightarrow> ('s, http_error, json) handler"

record 's implementation =
  im_enabledFor :: "(string \<Rightarrow> json) slot"
  im_providersFor :: "(string \<Rightarrow> json) slot"
  im_initiate :: "'s extension_call slot"
  im_consume :: "'s extension_call slot"
  im_metadataFor :: "(string \<Rightarrow> string \<Rightarrow> ('s, http_error, json) handler) slot"
  im_authenticate :: "'s extension_call slot"
  im_begin :: "'s extension_call slot"
  im_complete :: "'s extension_call slot"
  im_createRouter :: "unit slot"

record 's extension =
  ex_manifest :: manifest
  ex_implementation :: "'s implementation"

type_synonym 's registry = "(json \<times> 's extension) list"

definition AUTHME_EXTENSION_INVALID :: http_error where
  "AUTHME_EXTENSION_INVALID = \<lparr>he_code = Some ''AUTHME_EXTENSION_INVALID'', he_status = None\<rparr>"

definition str_list :: "json list \<Rightarrow> string list" where
  "str_list xs = map js_String xs"

definition normalizeManifest :: "json \<Rightarrow> http_error + manifest" where
  "normalizeManifest input =
     (let capabilities = (if nullish (jprop input ''capabilities'') then JArr [] else jprop input ''capabilities'') in
      bindR (guardR (is_obj input) AUTHME_EXTENSION_INVALID) (\<lambda>_.
      bindR (guardR (jprop input ''apiVersion'' = JStr AUTHME_EXTENSION_API_VERSION) AUTHME_EXTENSION_INVALID) (\<lambda>_.
      bindR (guardR (\<not> nullish (jprop input ''id'') \<and> extension_id_re (js_String (jprop input ''id''))) AUTHME_EXTENSION_INVALID) (\<lambda>_.
      bindR (guardR (\<exists>k\<in>set extension_kinds. jprop input ''kind'' = JStr k) AUTHME_EXTENSION_INVALID) (\<lambda>_.
      bindR (guardR (case jprop input ''displayName'' of JStr d \<Rightarrow> js_trim d \<noteq> [] \<and> length d \<le> 100 | _ \<Rightarrow> False)
               AUTHME_EXTENSION_INVALID) (\<lambda>_.
      bindR (guardR (case capabilities of
                       JArr cs \<Rightarrow> list_all (\<lambda>c. is_str c \<and> capability_re (js_String c)) cs \<and> distinct cs
                     | _ \<Rightarrow> False) AUTHME_EXTENSION_INVALID) (\<lambda>_.
        Inr \<lparr>mf_apiVersion = AUTHME_EXTENSION_API_VERSION, mf_id = jprop input ''id'',
             mf_kind = js_String (jprop input ''kind''), mf_displayName = js_trim (js_String (jprop input ''displayName'')),
             mf_capabilities = sort_by str_le (case capabilities of JArr cs \<Rightarrow> str_list cs | _ \<Rightarrow> [])\<rparr>)))))))"

text \<open>An implementation that is no object is \<open>None\<close>.\<close>

definition validateImplementation :: "manifest \<Rightarrow> 's implementation option \<Rightarrow> http_error + unit" where
  "validateImplementation mf implementation =
     (case implementation of
        None \<Rightarrow> Inl AUTHME_EXTENSION_INVALID
      | Some im \<Rightarrow>
          bindR (guardR (case im_enabledFor im of NotFunction \<Rightarrow> False | _ \<Rightarrow> True) AUTHME_EXTENSION_INVALID) (\<lambda>_.
          bindR (guardR (mf_kind mf = ''authenticator'' \<longrightarrow>
                   is_method (im_authenticate im) \<or> is_method (im_begin im) \<and> is_method (im_complete im))
                 AUTHME_EXTENSION_INVALID) (\<lambda>_.
          bindR (guardR (mf_kind mf = ''federation'' \<longrightarrow> is_method (im_initiate im) \<and> is_method (im_consume im))
                 AUTHME_EXTENSION_INVALID) (\<lambda>_.
            guardR (mf_kind mf = ''provisioning'' \<longrightarrow> is_method (im_createRouter im)) AUTHME_EXTENSION_INVALID))))"

section \<open>The registry\<close>

definition register_extension ::
    "json \<Rightarrow> 's implementation option \<Rightarrow> 's registry \<Rightarrow> http_error + ('s extension \<times> 's registry)" where
  "register_extension inputManifest implementation entries =
     bindR (normalizeManifest inputManifest) (\<lambda>mf.
     bindR (validateImplementation mf implementation) (\<lambda>_.
     bindR (guardR (mget entries (mf_id mf) = None) AUTHME_EXTENSION_INVALID) (\<lambda>_.
       case implementation of
         None \<Rightarrow> Inl AUTHME_EXTENSION_INVALID
       | Some im \<Rightarrow> (let entry = \<lparr>ex_manifest = mf, ex_implementation = im\<rparr>
                     in Inr (entry, mset' (mf_id mf) entry entries)))))"

definition get_extension :: "json \<Rightarrow> string option \<Rightarrow> 's registry \<Rightarrow> 's extension option" where
  "get_extension i kind entries =
     (case mget entries i of
        None \<Rightarrow> None
      | Some entry \<Rightarrow>
          (case kind of
             None \<Rightarrow> Some entry
           | Some k \<Rightarrow> if k \<noteq> [] \<and> mf_kind (ex_manifest entry) \<noteq> k then None else Some entry))"

text \<open>\<open>implementation.enabledFor?.(realm) ?? true\<close>, read as a condition.\<close>

definition enabled_for :: "'s implementation \<Rightarrow> string \<Rightarrow> bool" where
  "enabled_for im realm =
     (case im_enabledFor im of Method f \<Rightarrow> nullish (f realm) \<or> truthy (f realm) | _ \<Rightarrow> True)"

definition forRealm :: "string \<Rightarrow> string \<Rightarrow> 's registry \<Rightarrow> http_error + 's extension list" where
  "forRealm kind realm entries =
     (if kind \<notin> set extension_kinds then Inl AUTHME_EXTENSION_INVALID
      else Inr (filter (\<lambda>e. mf_kind (ex_manifest e) = kind \<and> enabled_for (ex_implementation e) realm) (mvals entries)))"

definition describe_extensions :: "string \<Rightarrow> 's registry \<Rightarrow> manifest list" where
  "describe_extensions realm entries =
     map ex_manifest (filter (\<lambda>e. enabled_for (ex_implementation e) realm) (mvals entries))"

definition createIdentityExtensionRegistry ::
    "(json \<times> 's implementation option) list \<Rightarrow> http_error + 's registry" where
  "createIdentityExtensionRegistry extensions =
     foldR (\<lambda>(mf, im) entries. bindR (register_extension mf im entries) (\<lambda>r. Inr (snd r))) extensions []"

section \<open>What a registry holds\<close>

definition registry_ok :: "'s registry \<Rightarrow> bool" where
  "registry_ok entries \<longleftrightarrow> map_wf entries \<and>
     (\<forall>i e. mget entries i = Some e \<longrightarrow> mf_id (ex_manifest e) = i \<and> extension_id_re (js_String i) \<and>
        mf_kind (ex_manifest e) \<in> set extension_kinds \<and> distinct (mf_capabilities (ex_manifest e)) \<and>
        validateImplementation (ex_manifest e) (Some (ex_implementation e)) = Inr ())"

lemma normalizeManifest_facts:
  assumes "normalizeManifest input = Inr mf"
  shows "extension_id_re (js_String (mf_id mf))" "mf_kind mf \<in> set extension_kinds" "distinct (mf_capabilities mf)"
proof -
  let ?c = "if nullish (jprop input ''capabilities'') then JArr [] else jprop input ''capabilities''"
  have all: "extension_id_re (js_String (jprop input ''id''))" "\<exists>k\<in>set extension_kinds. jprop input ''kind'' = JStr k"
    "case ?c of JArr cs \<Rightarrow> list_all (\<lambda>c. is_str c \<and> capability_re (js_String c)) cs \<and> distinct cs | _ \<Rightarrow> False"
    "mf = \<lparr>mf_apiVersion = AUTHME_EXTENSION_API_VERSION, mf_id = jprop input ''id'',
       mf_kind = js_String (jprop input ''kind''), mf_displayName = js_trim (js_String (jprop input ''displayName'')),
       mf_capabilities = sort_by str_le (case ?c of JArr cs \<Rightarrow> str_list cs | _ \<Rightarrow> [])\<rparr>"
    using assms unfolding normalizeManifest_def Let_def by (auto simp del: jprop.simps)
  then show "extension_id_re (js_String (mf_id mf))" "mf_kind mf \<in> set extension_kinds" by auto
  obtain cs where cs: "?c = JArr cs" "list_all (\<lambda>c. is_str c \<and> capability_re (js_String c)) cs" "distinct cs"
    using all(3) by (cases ?c) auto
  have "x = y" if "x \<in> set cs" "y \<in> set cs" "js_String x = js_String y" for x y
  proof -
    have "is_str x" "is_str y" using cs(2) that(1,2) by (auto simp: list_all_iff)
    then show ?thesis using that(3) by (cases x; cases y) simp_all
  qed
  then have "inj_on js_String (set cs)" by (auto simp: inj_on_def)
  then show "distinct (mf_capabilities mf)" using cs(1,3) all(4) by (simp add: str_list_def distinct_map)
qed

lemma register_ok: "registry_ok es \<Longrightarrow> register_extension mf im es = Inr (e, es') \<Longrightarrow>
    registry_ok es' \<and> mget es (mf_id (ex_manifest e)) = None \<and> es' = mset' (mf_id (ex_manifest e)) e es"
  unfolding register_extension_def Let_def
  by (auto simp: registry_ok_def normalizeManifest_facts split: option.splits if_splits)

lemma registry_built_ok: "createIdentityExtensionRegistry exts = Inr es \<Longrightarrow> registry_ok es"
  unfolding createIdentityExtensionRegistry_def
  by (rule foldR_invariant [where I = registry_ok]) (auto simp: registry_ok_def [of "[]"] dest: register_ok)

lemma get_extension_SomeD:
  "get_extension i (Some k) es = Some e \<Longrightarrow> mget es i = Some e \<and> (k = [] \<or> mf_kind (ex_manifest e) = k)"
  by (auto simp: get_extension_def split: option.splits if_splits)

end
