(* ===== verification/Schemas.thy ===== *)
theory Schemas
  imports ExtensionRegistry
begin

text \<open>
  The combinators of the schema library the configuration and the administration API are checked with: a schema reads a
  JSON value to \<open>None\<close> when it is refused. A strict object refuses names its schema does not list.
\<close>

definition trimmed :: "nat \<Rightarrow> nat \<Rightarrow> (string \<Rightarrow> bool) \<Rightarrow> json \<Rightarrow> string option" where
  "trimmed lo hi p v =
     (case v of
        JStr s \<Rightarrow> (let t = js_trim s in if lo \<le> length t \<and> length t \<le> hi \<and> p t then Some t else None)
      | _ \<Rightarrow> None)"

text \<open>A string within bounds that passes a test, kept as it is.\<close>

definition text_schema :: "nat \<Rightarrow> nat \<Rightarrow> (string \<Rightarrow> bool) \<Rightarrow> json \<Rightarrow> string option" where
  "text_schema lo hi p v =
     (case v of JStr s \<Rightarrow> if lo \<le> length s \<and> length s \<le> hi \<and> p s then Some s else None | _ \<Rightarrow> None)"

definition bool_schema :: "json \<Rightarrow> bool option" where
  "bool_schema v = (case v of JBool b \<Rightarrow> Some b | _ \<Rightarrow> None)"

definition int_schema :: "int \<Rightarrow> int \<Rightarrow> json \<Rightarrow> int option" where
  "int_schema lo hi v = (case v of JNum n \<Rightarrow> if lo \<le> n \<and> n \<le> hi then Some n else None | _ \<Rightarrow> None)"

definition enum_schema :: "string list \<Rightarrow> json \<Rightarrow> string option" where
  "enum_schema names v = (case v of JStr s \<Rightarrow> if s \<in> set names then Some s else None | _ \<Rightarrow> None)"

fun all_some :: "'a option list \<Rightarrow> 'a list option" where
  "all_some [] = Some []"
| "all_some (x # xs) = (case (x, all_some xs) of (Some y, Some ys) \<Rightarrow> Some (y # ys) | _ \<Rightarrow> None)"

definition array_between :: "(json \<Rightarrow> 'a option) \<Rightarrow> nat \<Rightarrow> nat \<Rightarrow> json \<Rightarrow> 'a list option" where
  "array_between f lo hi v = (case v of JArr xs \<Rightarrow> if lo \<le> length xs \<and> length xs \<le> hi then all_some (map f xs) else None | _ \<Rightarrow> None)"

definition array_schema :: "(json \<Rightarrow> 'a option) \<Rightarrow> nat \<Rightarrow> json \<Rightarrow> 'a list option" where
  "array_schema f mx v = (case v of JArr xs \<Rightarrow> if length xs \<le> mx then all_some (map f xs) else None | _ \<Rightarrow> None)"

text \<open>An optional field: absent is accepted; with a default, it is read as the default.\<close>

definition opt_field :: "(json \<Rightarrow> 'a option) \<Rightarrow> json \<Rightarrow> string \<Rightarrow> 'a option option" where
  "opt_field f v k = (case jprop v k of JUndef \<Rightarrow> Some None | x \<Rightarrow> map_option Some (f x))"

definition default_field :: "(json \<Rightarrow> 'a option) \<Rightarrow> json \<Rightarrow> string \<Rightarrow> 'a \<Rightarrow> 'a option" where
  "default_field f v k d = (case jprop v k of JUndef \<Rightarrow> Some d | x \<Rightarrow> f x)"

definition strict_names :: "json \<Rightarrow> string list \<Rightarrow> bool" where
  "strict_names v names \<longleftrightarrow> is_obj v \<and> set (mkeys (jentries v)) \<subseteq> set names"

section \<open>Configuration keyed by realm\<close>

text \<open>The entries of a realm, and whether other realms are named.\<close>

definition realm_entries :: "json \<Rightarrow> string \<Rightarrow> json list option" where
  "realm_entries v realm =
     (case jprop v realm of JUndef \<Rightarrow> Some [] | JNull \<Rightarrow> Some [] | JArr xs \<Rightarrow> Some xs | _ \<Rightarrow> None)"

definition unknown_realms :: "json \<Rightarrow> string list \<Rightarrow> string list" where
  "unknown_realms v realms = filter (\<lambda>k. k \<notin> set realms) (mkeys (jentries v))"

text \<open>The entries of a list in order, each with the identifiers before it; the first refused entry refuses the list.\<close>

fun parse_entries :: "('p \<Rightarrow> string) \<Rightarrow> (string list \<Rightarrow> json \<Rightarrow> 'p option) \<Rightarrow> string list \<Rightarrow> json list \<Rightarrow> 'p list option" where
  "parse_entries ident f ids [] = Some []"
| "parse_entries ident f ids (x # xs) =
     (case f ids x of
        None \<Rightarrow> None
      | Some p \<Rightarrow> map_option ((#) p) (parse_entries ident f (ident p # ids) xs))"

text \<open>
  The value of an environment variable that holds an object keyed by realm; \<open>parse\<close> is \<open>JSON.parse\<close>, and an unset
  variable is the empty text. \<open>None\<close> is the configuration error.
\<close>

definition parse_by_realm ::
    "(string \<Rightarrow> json option) \<Rightarrow> ('p \<Rightarrow> string) \<Rightarrow> (string list \<Rightarrow> json \<Rightarrow> 'p option) \<Rightarrow> string \<Rightarrow> string list \<Rightarrow> (string \<times> 'p list) list option" where
  "parse_by_realm parse ident f text realms =
     (if text = [] then Some (map (\<lambda>r. (r, [])) realms)
      else (case parse text of
              None \<Rightarrow> None
            | Some v \<Rightarrow>
                if \<not> is_obj v \<or> unknown_realms v realms \<noteq> [] then None
                else all_some (map (\<lambda>r. case realm_entries v r of
                       None \<Rightarrow> None
                     | Some xs \<Rightarrow> map_option (Pair r) (parse_entries ident f [] xs)) realms)))"

lemma all_some_map: "all_some (map f xs) = Some ys \<longleftrightarrow> list_all2 (\<lambda>x y. f x = Some y) xs ys"
proof (induction xs arbitrary: ys)
  case (Cons a xs)
  show ?case by (cases ys; cases "all_some (map f xs)") (auto simp: Cons.IH [symmetric] split: option.splits)
qed auto

lemma all_some_in: "all_some (map f xs) = Some ys \<Longrightarrow> y \<in> set ys \<Longrightarrow> \<exists>x\<in>set xs. f x = Some y"
  by (induction xs arbitrary: ys) (auto split: option.splits)

lemma parse_entries_in: "parse_entries ident f ids xs = Some ps \<Longrightarrow> p \<in> set ps \<Longrightarrow> \<exists>ids x. f ids x = Some p"
proof (induction xs arbitrary: ids ps)
  case (Cons a xs)
  then show ?case by (cases "f ids a") (auto, blast)
qed simp

lemma parse_entries_facts:
  assumes "parse_entries ident f ids xs = Some ps" and new: "\<And>ids x p. f ids x = Some p \<Longrightarrow> ident p \<notin> set ids"
  shows "distinct (map ident ps) \<and> ident ` set ps \<inter> set ids = {} \<and> (\<forall>p\<in>set ps. \<exists>ids x. f ids x = Some p)"
  using assms(1)
proof (induction xs arbitrary: ids ps)
  case (Cons x xs)
  then obtain p qs where p: "f ids x = Some p" "parse_entries ident f (ident p # ids) xs = Some qs" "ps = p # qs"
    by (auto split: option.splits)
  then show ?case using Cons.IH [OF p(2)] new [OF p(1)] by (auto simp: disjoint_iff)
qed simp

lemma parse_by_realm_facts:
  assumes run: "parse_by_realm parse ident f text realms = Some table" and new: "\<And>ids x p. f ids x = Some p \<Longrightarrow> ident p \<notin> set ids"
  shows "map fst table = realms"
    and "(r, ps) \<in> set table \<Longrightarrow> distinct (map ident ps)"
    and "(r, ps) \<in> set table \<Longrightarrow> p \<in> set ps \<Longrightarrow> \<exists>ids x. f ids x = Some p"
proof -
  have table: "map fst table = realms \<and> (\<forall>(r, ps)\<in>set table. ps = [] \<or> (\<exists>xs. parse_entries ident f [] xs = Some ps))"
  proof (cases "text = []")
    case True
    then show ?thesis using run by (auto simp: parse_by_realm_def o_def)
  next
    case False
    then obtain g where g: "all_some (map (\<lambda>r. case g r of None \<Rightarrow> None | Some xs \<Rightarrow> map_option (Pair r) (parse_entries ident f [] xs)) realms) = Some table"
      using run by (auto simp: parse_by_realm_def split: option.splits if_splits)
    show ?thesis
      using g [unfolded all_some_map] by (induction rule: list_all2_induct) (auto split: option.splits)
  qed
  then show "map fst table = realms" by blast
  show "distinct (map ident ps)" if "(r, ps) \<in> set table"
    using table that parse_entries_facts [OF _ new] by fastforce
  show "\<exists>ids x. f ids x = Some p" if "(r, ps) \<in> set table" "p \<in> set ps"
    using table that parse_entries_facts [OF _ new] by fastforce
qed

end
