(* ===== verification/LdapProvider.thy ===== *)
theory LdapProvider
  imports Schemas CsrfTokens
begin

text \<open>
  The LDAP authenticator (\<open>src/federation/ldap.js\<close>): the configuration of the providers, the search filter, the profile
  read off an entry and the two-connection sign-in. The directory client is not under \<open>src/\<close>: \<open>ldap_world\<close> says how each of
  its calls ends, by the number of the connection (0 searches, 1 checks the password), and an attempt returns
  the calls it made, in order, next to its result. An exception is the JSON object of its \<open>code\<close> and \<open>name\<close>.
\<close>

section \<open>Configuration\<close>

record ldap_provider =
  lp_id :: string
  lp_displayName :: string
  lp_url :: string
  lp_startTls :: bool
  lp_caCertificate :: "string option"
  lp_bindDn :: "string option"
  lp_bindPassword :: "string option"
  lp_userBaseDn :: string
  lp_userObjectClass :: string
  lp_loginAttributes :: "string list"
  lp_usernameAttribute :: string
  lp_emailAttribute :: string
  lp_displayNameAttribute :: string
  lp_givenNameAttribute :: string
  lp_familyNameAttribute :: string
  lp_externalIdAttribute :: string
  lp_groupsAttribute :: string
  lp_rolesAttribute :: "string option"
  lp_jitProvisioning :: bool
  lp_connectTimeoutMs :: int
  lp_operationTimeoutMs :: int

definition attribute_re :: "string \<Rightarrow> bool" where
  [js_defs]: "attribute_re = ident_re is_alpha (\<lambda>c. is_alnum c \<or> c = CHR ''-'') 0 63"

definition ldap_id_re :: "string \<Rightarrow> bool" where [js_defs]: "ldap_id_re = ident_re is_lower is_slug 1 31"

definition attribute_schema :: "json \<Rightarrow> string option" where "attribute_schema = text_schema 1 64 attribute_re"

definition ldap_names :: "string list" where
  "ldap_names = [''id'', ''display_name'', ''url'', ''start_tls'', ''allow_insecure_development'', ''ca_certificate'', ''bind_dn'',
     ''bind_password'', ''user_base_dn'', ''user_object_class'', ''login_attributes'', ''username_attribute'', ''email_attribute'',
     ''display_name_attribute'', ''given_name_attribute'', ''family_name_attribute'', ''external_id_attribute'', ''groups_attribute'',
     ''roles_attribute'', ''jit_provisioning'', ''connect_timeout_ms'', ''operation_timeout_ms'']"

text \<open>
  \<open>providerSchema\<close>: the provider with its URL as written, and \<open>allow_insecure_development\<close>. \<open>isUrl\<close> is the library's URL test.
  Certificates and passwords are not limited by the schema except as given.
\<close>

definition ldap_schema :: "(string \<Rightarrow> bool) \<Rightarrow> json \<Rightarrow> (ldap_provider \<times> bool) option" where
  "ldap_schema isUrl v =
     (if \<not> strict_names v ldap_names then None
      else (case (text_schema 2 32 ldap_id_re (jprop v ''id''), trimmed 1 100 (\<lambda>_. True) (jprop v ''display_name''),
                  (case jprop v ''url'' of JStr s \<Rightarrow> if isUrl s then Some s else None | _ \<Rightarrow> None),
                  default_field bool_schema v ''start_tls'' False, default_field bool_schema v ''allow_insecure_development'' False,
                  opt_field (\<lambda>x. case x of JStr s \<Rightarrow> if s \<noteq> [] then Some s else None | _ \<Rightarrow> None) v ''ca_certificate'',
                  opt_field (trimmed 1 2048 (\<lambda>_. True)) v ''bind_dn'', opt_field (text_schema 1 4096 (\<lambda>_. True)) v ''bind_password'',
                  trimmed 1 2048 (\<lambda>_. True) (jprop v ''user_base_dn'')) of
              (Some i, Some n, Some u, Some tls, Some dev, Some ca, Some dn, Some pw, Some base) \<Rightarrow>
                (case (default_field attribute_schema v ''user_object_class'' ''person'',
                       default_field (array_between attribute_schema 1 5) v ''login_attributes'' [''uid'', ''mail'', ''userPrincipalName'', ''sAMAccountName''],
                       default_field attribute_schema v ''username_attribute'' ''uid'', default_field attribute_schema v ''email_attribute'' ''mail'',
                       default_field attribute_schema v ''display_name_attribute'' ''displayName'',
                       default_field attribute_schema v ''given_name_attribute'' ''givenName'',
                       default_field attribute_schema v ''family_name_attribute'' ''sn'',
                       default_field attribute_schema v ''external_id_attribute'' ''entryUUID'',
                       default_field attribute_schema v ''groups_attribute'' ''memberOf'', opt_field attribute_schema v ''roles_attribute'') of
                   (Some oc, Some la, Some un, Some em, Some dsn, Some gn, Some fn, Some ex, Some gr, Some ro) \<Rightarrow>
                     (case (default_field bool_schema v ''jit_provisioning'' False, default_field (int_schema 500 20000) v ''connect_timeout_ms'' 5000,
                            default_field (int_schema 500 20000) v ''operation_timeout_ms'' 5000) of
                        (Some jit, Some ct, Some ot) \<Rightarrow>
                          Some (\<lparr>lp_id = i, lp_displayName = n, lp_url = u, lp_startTls = tls, lp_caCertificate = ca, lp_bindDn = dn,
                            lp_bindPassword = pw, lp_userBaseDn = base, lp_userObjectClass = oc, lp_loginAttributes = la, lp_usernameAttribute = un,
                            lp_emailAttribute = em, lp_displayNameAttribute = dsn, lp_givenNameAttribute = gn, lp_familyNameAttribute = fn,
                            lp_externalIdAttribute = ex, lp_groupsAttribute = gr, lp_rolesAttribute = ro, lp_jitProvisioning = jit,
                            lp_connectTimeoutMs = ct, lp_operationTimeoutMs = ot\<rparr>, dev)
                      | _ \<Rightarrow> None)
                 | _ \<Rightarrow> None)
            | _ \<Rightarrow> None))"

definition ldap_loopback :: "(string \<Rightarrow> bool) \<Rightarrow> web_url \<Rightarrow> bool" where
  "ldap_loopback isIP u \<longleftrightarrow>
     (if isIP (wu_hostname u) then wu_hostname u \<in> set [''127.0.0.1'', ''::1''] else wu_hostname u = ''localhost'')"

definition drop_slash :: "string \<Rightarrow> string" where
  "drop_slash s = (if s \<noteq> [] \<and> last s = CHR ''/'' then butlast s else s)"

text \<open>One entry of a realm's list, with the identifiers before it; \<open>None\<close> is the configuration error.\<close>

definition parse_ldap_provider :: "url_parser \<Rightarrow> (string \<Rightarrow> bool) \<Rightarrow> (string \<Rightarrow> bool) \<Rightarrow> bool \<Rightarrow> string list \<Rightarrow> json \<Rightarrow> ldap_provider option" where
  "parse_ldap_provider parse isUrl isIP devMode ids input =
     (case ldap_schema isUrl input of
        None \<Rightarrow> None
      | Some (p, insecure) \<Rightarrow>
          if lp_id p \<in> set ids then None
          else if (lp_bindDn p = None) \<noteq> (lp_bindPassword p = None) then None
          else (case parse (lp_url p) of
                  None \<Rightarrow> None
                | Some u \<Rightarrow>
                    if wu_protocol u \<notin> set [''ldap:'', ''ldaps:''] \<or> wu_username u \<noteq> [] \<or> wu_password u \<noteq> [] \<or> wu_search u \<noteq> [] \<or>
                      wu_hash u \<noteq> [] \<or> (wu_pathname u \<noteq> [] \<and> wu_pathname u \<noteq> ''/'') then None
                    else if wu_protocol u = ''ldaps:'' \<and> lp_startTls p then None
                    else if wu_protocol u = ''ldap:'' \<and> \<not> lp_startTls p \<and> \<not> (devMode \<and> ldap_loopback isIP u \<and> insecure) then None
                    else if insecure \<and> \<not> (devMode \<and> ldap_loopback isIP u) then None
                    else Some (p\<lparr>lp_url := drop_slash (wu_href u), lp_loginAttributes := js_uniq (lp_loginAttributes p)\<rparr>)))"

definition parseLdapProviders ::
    "(string \<Rightarrow> json option) \<Rightarrow> url_parser \<Rightarrow> (string \<Rightarrow> bool) \<Rightarrow> (string \<Rightarrow> bool) \<Rightarrow> string \<Rightarrow> string list \<Rightarrow> bool \<Rightarrow>
     (string \<times> ldap_provider list) list option" where
  "parseLdapProviders json parse isUrl isIP text realms devMode =
     parse_by_realm json lp_id (parse_ldap_provider parse isUrl isIP devMode) text realms"

section \<open>The search filter\<close>

text \<open>The characters are the bytes of the UTF-8 text.\<close>

definition escape_byte :: "char \<Rightarrow> string" where
  "escape_byte c =
     (let n = of_char c in
      if n < 0x20 \<or> n > 0x7e \<or> n \<in> set [0x2a, 0x28, 0x29, 0x5c] then [CHR 0x5C, hex_char (n div 16), hex_char (n mod 16)]
      else [c])"

definition escapeLdapFilterValue :: "string \<Rightarrow> string" where
  "escapeLdapFilterValue bytes = concat (map escape_byte bytes)"

definition userFilter :: "(string \<Rightarrow> string) \<Rightarrow> ldap_provider \<Rightarrow> string \<Rightarrow> string" where
  "userFilter utf8 p login =
     (let escaped = escapeLdapFilterValue (utf8 login);
          alternatives = concat (map (\<lambda>a. ''('' @ a @ ''='' @ escaped @ '')'') (lp_loginAttributes p))
      in ''(&(objectClass='' @ lp_userObjectClass p @ '')(|'' @ alternatives @ ''))'')"

section \<open>Entries and profiles\<close>

datatype ldap_atom = Text string | Bytes string
datatype ldap_value = One ldap_atom | Many "ldap_atom list"

type_synonym ldap_entry = "(string \<times> ldap_value) list"

record ldap_world =
  lw_create :: "json \<Rightarrow> nat \<Rightarrow> json + unit"
  lw_startTls :: "json \<Rightarrow> nat \<Rightarrow> json + unit"
  lw_bind :: "nat \<Rightarrow> string \<Rightarrow> string \<Rightarrow> json + unit"
  lw_search :: "nat \<Rightarrow> string \<Rightarrow> string \<Rightarrow> string list \<Rightarrow> json + ldap_entry list"
  lw_utf8 :: "string \<Rightarrow> string"
  lw_text :: "string \<Rightarrow> string"
  lw_base64url :: "string \<Rightarrow> string"

text \<open>\<open>lw_utf8\<close> encodes a text, \<open>lw_text\<close> decodes the bytes of a buffer, \<open>lw_base64url\<close> is their base64url text.\<close>

definition atom_text :: "ldap_world \<Rightarrow> ldap_atom \<Rightarrow> string" where
  "atom_text w a = (case a of Text s \<Rightarrow> s | Bytes b \<Rightarrow> lw_text w b)"

definition atoms :: "ldap_value option \<Rightarrow> ldap_atom list" where
  "atoms v = (case v of None \<Rightarrow> [] | Some (One a) \<Rightarrow> [a] | Some (Many as) \<Rightarrow> as)"

definition entryValue :: "ldap_entry \<Rightarrow> string \<Rightarrow> ldap_value option" where
  "entryValue entry name = map_option snd (find (\<lambda>kv. js_lower (fst kv) = js_lower name) entry)"

definition ldap_strings :: "ldap_world \<Rightarrow> ldap_value option \<Rightarrow> string list" where
  "ldap_strings w v = filter (\<lambda>s. s \<noteq> []) (map (\<lambda>a. js_trim (atom_text w a)) (atoms v))"

definition ldap_first :: "ldap_world \<Rightarrow> ldap_entry \<Rightarrow> string \<Rightarrow> string" where
  "ldap_first w entry attribute = (case ldap_strings w (entryValue entry attribute) of [] \<Rightarrow> [] | s # _ \<Rightarrow> s)"

text \<open>\<open>/(?:^|,)\s*cn=([^,]+)/i\<close>: the first part between commas that starts, after spaces, with \<open>cn=\<close> and more.\<close>

definition common_name :: "string \<Rightarrow> string option" where
  "common_name part =
     (let t = dropWhile is_space part in if js_lower (take 3 t) = ''cn='' \<and> drop 3 t \<noteq> [] then Some (drop 3 t) else None)"

definition groupPath :: "string \<Rightarrow> string option" where
  "groupPath v =
     (let found = (case filter (\<lambda>x. x \<noteq> None) (map common_name (js_split (CHR '','') v)) of Some n # _ \<Rightarrow> n | _ \<Rightarrow> v);
          name = map (\<lambda>c. if c = CHR ''/'' then CHR ''-'' else c) (js_trim found)
      in if name = [] then None else Some (CHR ''/'' # name))"

definition ldap_externalSubject :: "ldap_world \<Rightarrow> ldap_entry \<Rightarrow> ldap_provider \<Rightarrow> string \<Rightarrow> string" where
  "ldap_externalSubject w entry p dn =
     (case entryValue entry (lp_externalIdAttribute p) of
        Some (One (Bytes b)) \<Rightarrow> lw_base64url w b
      | v \<Rightarrow> (case atoms v of
                 [] \<Rightarrow> dn
               | a # _ \<Rightarrow> let t = js_trim (atom_text w a) in if t = [] then dn else t))"

definition or_text :: "string \<Rightarrow> string \<Rightarrow> string" where "or_text a b = (if a = [] then b else a)"

definition list_catOptions :: "'a option list \<Rightarrow> 'a list" where
  "list_catOptions xs = concat (map (\<lambda>x. case x of None \<Rightarrow> [] | Some y \<Rightarrow> [y]) xs)"

definition ldap_profile :: "ldap_world \<Rightarrow> ldap_entry \<Rightarrow> ldap_provider \<Rightarrow> string \<Rightarrow> string \<Rightarrow> json" where
  "ldap_profile w entry p login dn =
     (let username = or_text (ldap_first w entry (lp_usernameAttribute p)) login;
          groups = js_uniq (list_catOptions (map groupPath (ldap_strings w (entryValue entry (lp_groupsAttribute p)))));
          roles = (case lp_rolesAttribute p of None \<Rightarrow> [] | Some a \<Rightarrow> js_uniq (ldap_strings w (entryValue entry a)))
      in JObj [(''externalSubject'', JStr (ldap_externalSubject w entry p dn)), (''username'', JStr username),
        (''email'', JStr (ldap_first w entry (lp_emailAttribute p))), (''emailVerified'', JBool False),
        (''name'', JStr (or_text (ldap_first w entry (lp_displayNameAttribute p)) username)),
        (''givenName'', JStr (ldap_first w entry (lp_givenNameAttribute p))), (''familyName'', JStr (ldap_first w entry (lp_familyNameAttribute p))),
        (''groups'', JArr (map JStr groups)), (''roles'', JArr (map JStr roles))])"

section \<open>Signing in\<close>

datatype ldap_call =
    Create nat
  | StartTls nat
  | Bind nat string string
  | Search nat string string "string list"
  | Unbind nat

definition invalidCredentials :: "json \<Rightarrow> bool" where
  "invalidCredentials e \<longleftrightarrow>
     jprop e ''code'' = JNum 49 \<or> jprop e ''code'' = JStr ''49'' \<or> jprop e ''name'' = JStr ''InvalidCredentialsError''"

text \<open>The options of a connection and of its TLS layer: at least TLS 1.2, the certificate always checked.\<close>

definition tlsOptions :: "ldap_provider \<Rightarrow> json" where
  "tlsOptions p =
     JObj ([(''minVersion'', JStr ''TLSv1.2''), (''rejectUnauthorized'', JBool True)] @
       (case lp_caCertificate p of None \<Rightarrow> [] | Some c \<Rightarrow> [(''ca'', JArr [JStr c])]))"

definition clientOptions :: "ldap_provider \<Rightarrow> json" where
  "clientOptions p =
     JObj [(''url'', JStr (lp_url p)), (''connectTimeout'', JNum (lp_connectTimeoutMs p)), (''timeout'', JNum (lp_operationTimeoutMs p)),
       (''strictDN'', JBool True), (''tlsOptions'', tlsOptions p)]"

text \<open>\<open>secureClient\<close>: a connection that could not be secured is closed again.\<close>

definition secureClient :: "ldap_world \<Rightarrow> ldap_provider \<Rightarrow> nat \<Rightarrow> (json + unit) \<times> ldap_call list" where
  "secureClient w p n =
     (case lw_create w (clientOptions p) n of
        Inl e \<Rightarrow> (Inl e, [Create n])
      | Inr _ \<Rightarrow>
          if \<not> lp_startTls p then (Inr (), [Create n])
          else (case lw_startTls w (tlsOptions p) n of
                  Inl e \<Rightarrow> (Inl e, [Create n, StartTls n, Unbind n])
                | Inr _ \<Rightarrow> (Inr (), [Create n, StartTls n])))"

datatype ldap_result = LdapSuccess json | LdapFailure | LdapUnavailable string json

definition ldap_error :: "ldap_provider \<Rightarrow> json \<Rightarrow> ldap_result" where
  "ldap_error p e = (if invalidCredentials e then LdapFailure else LdapUnavailable (lp_id p) e)"

text \<open>The password check on its own connection, closed in any case.\<close>

definition check_password :: "ldap_world \<Rightarrow> ldap_provider \<Rightarrow> string \<Rightarrow> string \<Rightarrow> (json + unit) \<times> ldap_call list" where
  "check_password w p dn secret =
     (case secureClient w p 1 of
        (Inl e, cs) \<Rightarrow> (Inl e, cs)
      | (Inr _, cs) \<Rightarrow> (lw_bind w 1 dn secret, cs @ [Bind 1 dn secret, Unbind 1]))"

definition requested_attributes :: "ldap_provider \<Rightarrow> string list" where
  "requested_attributes p =
     js_uniq ([lp_usernameAttribute p, lp_emailAttribute p, lp_displayNameAttribute p, lp_givenNameAttribute p, lp_familyNameAttribute p,
       lp_externalIdAttribute p, lp_groupsAttribute p] @ (case lp_rolesAttribute p of None \<Rightarrow> [] | Some a \<Rightarrow> [a]))"

text \<open>What follows the search: exactly one entry with a name, whose password is checked.\<close>

definition entry_result :: "ldap_world \<Rightarrow> ldap_provider \<Rightarrow> string \<Rightarrow> string \<Rightarrow> ldap_entry list \<Rightarrow> ldap_result \<times> ldap_call list" where
  "entry_result w p login secret entries =
     (case entries of
        [entry] \<Rightarrow>
          (let dn = (case mget entry ''dn'' of Some (One a) \<Rightarrow> js_trim (atom_text w a) | _ \<Rightarrow> []) in
           if dn = [] then (LdapFailure, [])
           else (case check_password w p dn secret of
                   (Inl e, cs) \<Rightarrow> (ldap_error p e, cs)
                 | (Inr _, cs) \<Rightarrow>
                     (LdapSuccess (JObj [(''status'', JStr ''success''), (''protocol'', JStr ''ldap''), (''providerId'', JStr (lp_id p)),
                        (''issuer'', JStr (lp_url p)), (''allowCreate'', JBool (lp_jitProvisioning p)),
                        (''profile'', ldap_profile w entry p login dn)]), cs)))
      | _ \<Rightarrow> (LdapFailure, []))"

definition search_bind :: "ldap_world \<Rightarrow> ldap_provider \<Rightarrow> (json + unit) \<times> ldap_call list" where
  "search_bind w p =
     (case (lp_bindDn p, lp_bindPassword p) of
        (Some dn, Some pw) \<Rightarrow> (lw_bind w 0 dn pw, [Bind 0 dn pw])
      | _ \<Rightarrow> (Inr (), []))"

definition authenticateLdapProvider :: "ldap_world \<Rightarrow> ldap_provider \<Rightarrow> string \<Rightarrow> string \<Rightarrow> ldap_result \<times> ldap_call list" where
  "authenticateLdapProvider w p login secret =
     (if js_trim login = [] \<or> secret = [] then (LdapFailure, [])
      else (case secureClient w p 0 of
              (Inl e, cs) \<Rightarrow> (ldap_error p e, cs)
            | (Inr _, cs) \<Rightarrow>
                (case search_bind w p of
                   (Inl e, bs) \<Rightarrow> (ldap_error p e, cs @ bs @ [Unbind 0])
                 | (Inr _, bs) \<Rightarrow>
                     (let filtr = userFilter (lw_utf8 w) p (js_trim login); attributes = requested_attributes p;
                          sr = Search 0 (lp_userBaseDn p) filtr attributes
                      in case lw_search w 0 (lp_userBaseDn p) filtr attributes of
                           Inl e \<Rightarrow> (ldap_error p e, cs @ bs @ [sr, Unbind 0])
                         | Inr entries \<Rightarrow>
                             (let (r, es) = entry_result w p (js_trim login) secret entries in (r, cs @ bs @ sr # es @ [Unbind 0]))))))"

text \<open>\<open>authenticate\<close> of the extension: the providers of the realm in order, until one succeeds. The first argument says how the world answers each provider.\<close>

fun ldap_authenticate :: "(ldap_provider \<Rightarrow> ldap_world) \<Rightarrow> ldap_provider list \<Rightarrow> string \<Rightarrow> string \<Rightarrow> bool \<Rightarrow> json" where
  "ldap_authenticate w [] login secret unavailable =
     JObj [(''status'', JStr (if unavailable then ''unavailable'' else ''failure''))]"
| "ldap_authenticate w (p # ps) login secret unavailable =
     (case fst (authenticateLdapProvider (w p) p login secret) of
        LdapSuccess r \<Rightarrow> r
      | LdapFailure \<Rightarrow> ldap_authenticate w ps login secret unavailable
      | LdapUnavailable _ _ \<Rightarrow> ldap_authenticate w ps login secret True)"

end
