(* ===== verification/AdminPermissions.thy ===== *)
theory AdminPermissions
  imports JsPrelude
begin

text \<open>
  Administrator permissions (\<open>src/security/admin-permissions.js\<close>): the closed set of permission
  names, the normalisation every stored grant goes through, and the test the route guards use.
\<close>

record admin_grant =
  g_realm :: string
  g_userId :: string
  g_permissions :: "string list"
  g_enabled :: bool
  g_version :: int
  g_createdAt :: int
  g_updatedAt :: int

definition ADMIN_PERMISSIONS :: "string list" where
  "ADMIN_PERMISSIONS =
     [''realms.read'', ''configuration.read'', ''users.read'', ''users.write'', ''users.delete'',
      ''credentials.manage'', ''sessions.revoke'', ''federation.manage'', ''clients.register'',
      ''administrators.manage'', ''audit.read'', ''metrics.read'']"

definition normalizeAdminPermissions :: "json \<Rightarrow> string + string list" where
  "normalizeAdminPermissions permissions =
     (case permissions of
        JArr ps \<Rightarrow>
          if ps = [] \<or> length ps > 64 then Inl ''TypeError''
          else (let normalized = js_uniq (map (\<lambda>p. js_trim (js_String p)) ps) in
                if ''*'' \<in> set normalized then Inr [''*'']
                else if \<exists>p\<in>set normalized. p \<notin> set ADMIN_PERMISSIONS then Inl ''TypeError''
                else Inr normalized)
      | _ \<Rightarrow> Inl ''TypeError'')"

text \<open>Permissions that the code already holds as an array of strings.\<close>

definition normalizePermissionList :: "string list \<Rightarrow> string + string list" where
  "normalizePermissionList ps = normalizeAdminPermissions (JArr (map JStr ps))"

definition hasAdminPermission :: "admin_grant option \<Rightarrow> string \<Rightarrow> bool" where
  "hasAdminPermission grant permission =
     (case grant of None \<Rightarrow> False
      | Some g \<Rightarrow> g_enabled g \<and> (''*'' \<in> set (g_permissions g) \<or> permission \<in> set (g_permissions g)))"

text \<open>What a normalised permission list is: \<open>*\<close> alone, or distinct known names.\<close>

definition valid_permissions :: "string list \<Rightarrow> bool" where
  "valid_permissions ps \<longleftrightarrow> ps = [''*''] \<or> ps \<noteq> [] \<and> distinct ps \<and> set ps \<subseteq> set ADMIN_PERMISSIONS"

lemma normalizeAdminPermissions_valid:
  "normalizeAdminPermissions j = Inr ps \<Longrightarrow> valid_permissions ps"
  by (auto simp: normalizeAdminPermissions_def valid_permissions_def Let_def split: json.splits if_splits)

lemma ADMIN_PERMISSIONS_trim: "p \<in> set ADMIN_PERMISSIONS \<Longrightarrow> js_trim p = p"
  by (auto simp: ADMIN_PERMISSIONS_def js_defs)

lemma valid_permissions_trim: "valid_permissions ps \<Longrightarrow> map js_trim ps = ps"
  by (auto simp: valid_permissions_def ADMIN_PERMISSIONS_trim subset_iff intro!: map_idI)
     (simp add: js_defs)

lemma card_ADMIN_PERMISSIONS: "card (set ADMIN_PERMISSIONS) \<le> 12"
  by (rule order.trans [OF card_length]) (simp add: ADMIN_PERMISSIONS_def)

text \<open>Normalisation is idempotent: what was accepted once is accepted again, unchanged.\<close>

lemma normalizePermissionList_valid:
  assumes "valid_permissions ps" shows "normalizePermissionList ps = Inr ps"
proof -
  have t: "map (\<lambda>p. js_trim (js_String p)) (map JStr ps) = ps"
    using valid_permissions_trim [OF assms] by (simp add: o_def)
  show ?thesis
  proof (cases "ps = [''*'']")
    case True
    then show ?thesis by (simp add: normalizePermissionList_def normalizeAdminPermissions_def js_defs
          js_uniq_def)
  next
    case False
    then have v: "ps \<noteq> []" "distinct ps" "set ps \<subseteq> set ADMIN_PERMISSIONS"
      using assms by (auto simp: valid_permissions_def)
    have "length ps = card (set ps)" using v(2) by (simp add: distinct_card)
    also have "\<dots> \<le> 12"
      using card_mono [OF _ v(3)] card_ADMIN_PERMISSIONS by simp
    finally have "length ps \<le> 64" by simp
    moreover have "''*'' \<notin> set ADMIN_PERMISSIONS" by (simp add: ADMIN_PERMISSIONS_def)
    ultimately show ?thesis using v t
      by (auto simp: normalizePermissionList_def normalizeAdminPermissions_def js_uniq_distinct)
  qed
qed

lemma normalizePermissionList_Inr: "normalizePermissionList ps = Inr qs \<Longrightarrow> valid_permissions qs"
  unfolding normalizePermissionList_def by (rule normalizeAdminPermissions_valid)

text \<open>A normalised permission list never grants more than the list asked for: it is \<open>*\<close> only
  if \<open>*\<close> was asked for, otherwise exactly the (trimmed) names that were listed, all of them
  known. Normalising it again changes nothing, so what is stored is what is read back.\<close>

theorem permissions_normalise:
  assumes "normalizeAdminPermissions (JArr (map JStr ps)) = Inr qs"
  shows "(''*'' \<in> set qs \<longrightarrow> ''*'' \<in> js_trim ` set ps) \<and>
    (''*'' \<notin> set qs \<longrightarrow> set qs = js_trim ` set ps \<and> set qs \<subseteq> set ADMIN_PERMISSIONS \<and> distinct qs) \<and>
    normalizeAdminPermissions (JArr (map JStr qs)) = Inr qs"
proof -
  let ?n = "js_uniq (map (\<lambda>p. js_trim (js_String p)) (map JStr ps))"
  have n: "set ?n = js_trim ` set ps" by (auto simp: image_image)
  have "qs = (if ''*'' \<in> set ?n then [''*''] else ?n)" "''*'' \<notin> set ?n \<Longrightarrow> set ?n \<subseteq> set ADMIN_PERMISSIONS"
    using assms unfolding normalizeAdminPermissions_def Let_def json.case by (auto split: if_splits)
  moreover have "normalizeAdminPermissions (JArr (map JStr qs)) = Inr qs"
    using normalizePermissionList_valid [OF normalizeAdminPermissions_valid [OF assms]]
    by (simp add: normalizePermissionList_def)
  ultimately show ?thesis using n by (cases "''*'' \<in> set ?n") simp_all
qed

lemma permissions_normalise_witness:
  "normalizeAdminPermissions (JArr (map JStr ['' users.read'', ''audit.read'', ''users.read '']))
     = Inr [''users.read'', ''audit.read''] \<and>
   set [''users.read'', ''audit.read''] = js_trim ` set ['' users.read'', ''audit.read'', ''users.read '']"
proof -
  have n: "normalizeAdminPermissions (JArr (map JStr ['' users.read'', ''audit.read'', ''users.read '']))
     = Inr [''users.read'', ''audit.read'']"
    by (simp add: normalizeAdminPermissions_def js_uniq_def js_defs ADMIN_PERMISSIONS_def)
  from permissions_normalise [OF n] n show ?thesis by simp
qed

end
