(* ===== verification/IdentityStore.thy ===== *)
theory IdentityStore
  imports AdminPermissions
begin

text \<open>
  The in-memory identity store (\<open>MemoryIdentityStore\<close> of \<open>src/repositories/identity-store.js\<close>):
  users, administrator grants and sessions, passkeys and their challenges, and the audit log.
  Each JavaScript \<open>Map\<close> is a field of \<open>store\<close>; every method is a definition of the same name
  that returns its result and the new store. The store clones what it takes and gives
  (\<open>structuredClone\<close>), so values of the logic, which cannot be shared, lose nothing.
  Arguments stand for what the environment supplies: \<open>now\<close> for \<open>Date.now()\<close>, \<open>fresh\<close> for
  \<open>randomUUID()\<close>, \<open>isIP\<close> for \<open>node:net\<close> and \<open>le\<close> for the \<open>localeCompare\<close> order.
  An absent optional property of an argument object is \<open>None\<close>.
\<close>

section \<open>Records\<close>

record user =
  u_id :: string
  u_realm :: string
  u_username :: string
  u_email :: string
  u_emailVerified :: bool
  u_name :: string
  u_givenName :: string
  u_familyName :: string
  u_enabled :: bool
  u_securityVersion :: int
  u_passwordHash :: "string option"
  u_roles :: "string list"
  u_groups :: "string list"
  u_clientRoles :: "(string \<times> string list) list"
  u_totpSecret :: "string option"
  u_totpConfirmed :: bool
  u_pendingTotpSecret :: "string option"
  u_pendingTotpCreatedAt :: "int option"
  u_recoveryCodeHashes :: "string list"
  u_lastTotpStep :: "int option"
  u_failedAttempts :: int
  u_lockedUntil :: "int option"
  u_createdAt :: int
  u_updatedAt :: int
  u_lastLoginAt :: "int option"

record user_input =
  i_id :: "string option"
  i_realm :: string
  i_username :: string
  i_email :: string
  i_emailVerified :: bool
  i_name :: "string option"
  i_givenName :: "string option"
  i_familyName :: "string option"
  i_enabled :: "bool option"
  i_securityVersion :: "int option"
  i_passwordHash :: "string option"
  i_roles :: "string list option"
  i_groups :: "string list option"
  i_clientRoles :: "(string \<times> string list) list option"
  i_totpSecret :: "string option"
  i_totpConfirmed :: bool
  i_pendingTotpSecret :: "string option"
  i_pendingTotpCreatedAt :: "int option"
  i_recoveryCodeHashes :: "string list option"
  i_lastTotpStep :: "int option"
  i_failedAttempts :: "int option"
  i_lockedUntil :: "int option"
  i_createdAt :: "int option"
  i_updatedAt :: "int option"
  i_lastLoginAt :: "int option"

text \<open>The fields \<open>updateUser\<close> may change (\<open>allowed\<close>); \<open>None\<close> when the patch has no such field.\<close>

record user_patch =
  p_email :: "string option"
  p_emailVerified :: "bool option"
  p_name :: "string option"
  p_givenName :: "string option"
  p_familyName :: "string option"
  p_enabled :: "bool option"
  p_passwordHash :: "string option option"
  p_roles :: "string list option"
  p_groups :: "string list option"
  p_clientRoles :: "(string \<times> string list) list option"

record admin_session =
  as_idDigest :: string
  as_realm :: string
  as_userId :: string
  as_grantVersion :: int
  as_securityVersion :: int
  as_createdAt :: int
  as_lastSeenAt :: int
  as_idleExpiresAt :: int
  as_expiresAt :: int

record admin_session_input =
  si_idDigest :: string
  si_realm :: string
  si_userId :: string
  si_grantVersion :: int
  si_securityVersion :: int
  si_createdAt :: "int option"
  si_lastSeenAt :: "int option"
  si_idleExpiresAt :: "int option"
  si_expiresAt :: "int option"

record credential =
  wc_realm :: string
  wc_userId :: string
  wc_id :: string
  wc_userHandle :: string
  wc_publicKey :: string
  wc_counter :: int
  wc_transports :: "string list"
  wc_deviceType :: string
  wc_backedUp :: bool
  wc_aaguid :: string
  wc_name :: string
  wc_createdAt :: int
  wc_updatedAt :: int
  wc_lastUsedAt :: "int option"

record credential_input =
  ci_realm :: string
  ci_userId :: string
  ci_id :: string
  ci_userHandle :: string
  ci_publicKey :: string
  ci_counter :: "int option"
  ci_transports :: "string list option"
  ci_deviceType :: string
  ci_backedUp :: bool
  ci_aaguid :: string
  ci_name :: "string option"
  ci_createdAt :: "int option"
  ci_updatedAt :: "int option"
  ci_lastUsedAt :: "int option"

record challenge =
  ch_id :: string
  ch_realm :: string
  ch_purpose :: string
  ch_userId :: "string option"
  ch_interactionUid :: "string option"
  ch_userHandle :: "string option"
  ch_challenge :: string
  ch_expiresAt :: int
  ch_createdAt :: int

record audit_event =
  ev_realm :: string
  ev_type :: string
  ev_actorId :: "string option"
  ev_subjectId :: "string option"
  ev_clientId :: "string option"
  ev_ip :: "string option"
  ev_userAgent :: "string option"
  ev_metadata :: json

record audit_record = audit_event +
  ar_id :: string
  ar_createdAt :: int

record store =
  st_users :: "(string \<times> user) list"
  st_adminGrants :: "(string \<times> admin_grant) list"
  st_adminSessions :: "(string \<times> admin_session) list"
  st_audit :: "audit_record list"
  st_credentials :: "(string \<times> credential) list"
  st_challenges :: "(string \<times> challenge) list"

datatype store_error = USER_EXISTS | WEBAUTHN_CREDENTIAL_EXISTS | TypeErr

definition empty_store :: store where
  "empty_store = \<lparr>st_users = [], st_adminGrants = [], st_adminSessions = [], st_audit = [],
     st_credentials = [], st_challenges = []\<rparr>"

text \<open>The key \<open>`${realm}:${id}`\<close>.\<close>

definition ukey :: "string \<Rightarrow> string \<Rightarrow> string" where "ukey r i = r @ CHR '':'' # i"

lemma ukey_inj:
  assumes "CHR '':'' \<notin> set r" and "CHR '':'' \<notin> set r'" and "ukey r i = ukey r' i'"
  shows "r = r' \<and> i = i'"
proof -
  have "js_split (CHR '':'') (ukey r i) = r # js_split (CHR '':'') i"
    "js_split (CHR '':'') (ukey r' i') = r' # js_split (CHR '':'') i'"
    using assms(1,2) by (simp_all add: ukey_def js_split_append)
  then have "r # js_split (CHR '':'') i = r' # js_split (CHR '':'') i'" using assms(3) by metis
  then show ?thesis using assms(3) by (simp add: ukey_def)
qed

lemma ukey_inj_same [simp]: "ukey r i = ukey r i' \<longleftrightarrow> i = i'"
  by (simp add: ukey_def)

section \<open>Normalisation\<close>

text \<open>\<open>a?.trim() || b\<close>.\<close>

definition trim_or :: "string option \<Rightarrow> string \<Rightarrow> string" where
  "trim_or a b = (case a of None \<Rightarrow> b | Some s \<Rightarrow> if js_trim s = [] then b else js_trim s)"

definition or_else :: "'a option \<Rightarrow> 'a \<Rightarrow> 'a" where
  "or_else a b = (case a of None \<Rightarrow> b | Some x \<Rightarrow> x)"

lemma or_else_simps [simp]: "or_else None b = b" "or_else (Some x) b = x"
  by (simp_all add: or_else_def)

definition normalizeUser :: "int \<Rightarrow> string \<Rightarrow> user_input \<Rightarrow> user" where
  "normalizeUser now fresh i =
     \<lparr>u_id = or_else (i_id i) fresh,
      u_realm = i_realm i,
      u_username = js_trim (i_username i),
      u_email = js_lower (js_trim (i_email i)),
      u_emailVerified = i_emailVerified i,
      u_name = trim_or (i_name i) (js_trim (i_username i)),
      u_givenName = trim_or (i_givenName i) [],
      u_familyName = trim_or (i_familyName i) [],
      u_enabled = or_else (i_enabled i) True,
      u_securityVersion = or_else (i_securityVersion i) 0,
      u_passwordHash = i_passwordHash i,
      u_roles = js_uniq (or_else (i_roles i) []),
      u_groups = js_uniq (or_else (i_groups i) []),
      u_clientRoles = or_else (i_clientRoles i) [],
      u_totpSecret = i_totpSecret i,
      u_totpConfirmed = i_totpConfirmed i,
      u_pendingTotpSecret = i_pendingTotpSecret i,
      u_pendingTotpCreatedAt = i_pendingTotpCreatedAt i,
      u_recoveryCodeHashes = or_else (i_recoveryCodeHashes i) [],
      u_lastTotpStep = i_lastTotpStep i,
      u_failedAttempts = or_else (i_failedAttempts i) 0,
      u_lockedUntil = i_lockedUntil i,
      u_createdAt = or_else (i_createdAt i) now,
      u_updatedAt = or_else (i_updatedAt i) now,
      u_lastLoginAt = i_lastLoginAt i\<rparr>"

text \<open>A user object passed where an input is expected has every property.\<close>

definition user_as_input :: "user \<Rightarrow> user_input" where
  "user_as_input u =
     \<lparr>i_id = Some (u_id u), i_realm = u_realm u, i_username = u_username u, i_email = u_email u,
      i_emailVerified = u_emailVerified u, i_name = Some (u_name u),
      i_givenName = Some (u_givenName u), i_familyName = Some (u_familyName u),
      i_enabled = Some (u_enabled u), i_securityVersion = Some (u_securityVersion u),
      i_passwordHash = u_passwordHash u, i_roles = Some (u_roles u), i_groups = Some (u_groups u),
      i_clientRoles = Some (u_clientRoles u), i_totpSecret = u_totpSecret u,
      i_totpConfirmed = u_totpConfirmed u, i_pendingTotpSecret = u_pendingTotpSecret u,
      i_pendingTotpCreatedAt = u_pendingTotpCreatedAt u,
      i_recoveryCodeHashes = Some (u_recoveryCodeHashes u), i_lastTotpStep = u_lastTotpStep u,
      i_failedAttempts = Some (u_failedAttempts u), i_lockedUntil = u_lockedUntil u,
      i_createdAt = Some (u_createdAt u), i_updatedAt = Some (u_updatedAt u),
      i_lastLoginAt = u_lastLoginAt u\<rparr>"

definition normalizeWebAuthnCredential :: "int \<Rightarrow> credential_input \<Rightarrow> store_error + credential" where
  "normalizeWebAuthnCredential now i =
     (let counter = or_else (ci_counter i) 0 in
      if \<not> safe_integer counter \<or> counter < 0 \<or> counter > 0xffffffff then Inl TypeErr
      else Inr \<lparr>wc_realm = ci_realm i, wc_userId = ci_userId i, wc_id = ci_id i,
        wc_userHandle = ci_userHandle i, wc_publicKey = ci_publicKey i, wc_counter = counter,
        wc_transports = js_uniq (or_else (ci_transports i) []), wc_deviceType = ci_deviceType i,
        wc_backedUp = ci_backedUp i, wc_aaguid = ci_aaguid i,
        wc_name = trim_or (Some (or_else (ci_name i) ''Passkey'')) ''Passkey'',
        wc_createdAt = or_else (ci_createdAt i) now, wc_updatedAt = or_else (ci_updatedAt i) now,
        wc_lastUsedAt = ci_lastUsedAt i\<rparr>)"

definition credential_as_input :: "credential \<Rightarrow> credential_input" where
  "credential_as_input c =
     \<lparr>ci_realm = wc_realm c, ci_userId = wc_userId c, ci_id = wc_id c, ci_userHandle = wc_userHandle c,
      ci_publicKey = wc_publicKey c, ci_counter = Some (wc_counter c),
      ci_transports = Some (wc_transports c), ci_deviceType = wc_deviceType c,
      ci_backedUp = wc_backedUp c, ci_aaguid = wc_aaguid c, ci_name = Some (wc_name c),
      ci_createdAt = Some (wc_createdAt c), ci_updatedAt = Some (wc_updatedAt c),
      ci_lastUsedAt = wc_lastUsedAt c\<rparr>"

definition normalizeAdminGrant ::
    "int \<Rightarrow> string \<Rightarrow> string \<Rightarrow> string list \<Rightarrow> bool \<Rightarrow> int \<Rightarrow> int option \<Rightarrow> int option \<Rightarrow> store_error + admin_grant" where
  "normalizeAdminGrant now realm userId permissions enabled version createdAt updatedAt =
     (if \<not> safe_integer version \<or> version < 1 then Inl TypeErr
      else (case normalizePermissionList permissions of
              Inl _ \<Rightarrow> Inl TypeErr
            | Inr ps \<Rightarrow> Inr \<lparr>g_realm = realm, g_userId = userId, g_permissions = ps, g_enabled = enabled,
                g_version = version, g_createdAt = or_else createdAt now,
                g_updatedAt = or_else updatedAt now\<rparr>))"

definition normalizeAdminSession :: "int \<Rightarrow> admin_session_input \<Rightarrow> store_error + admin_session" where
  "normalizeAdminSession now i =
     (if \<not> class_re is_b64url 43 43 (si_idDigest i) then Inl TypeErr
      else if \<not> safe_integer (si_grantVersion i) \<or> si_grantVersion i < 1
        \<or> \<not> safe_integer (si_securityVersion i) \<or> si_securityVersion i < 0 then Inl TypeErr
      else (case (si_expiresAt i, si_idleExpiresAt i) of
              (Some expiresAt, Some idleExpiresAt) \<Rightarrow>
                Inr \<lparr>as_idDigest = si_idDigest i, as_realm = si_realm i, as_userId = si_userId i,
                  as_grantVersion = si_grantVersion i, as_securityVersion = si_securityVersion i,
                  as_createdAt = or_else (si_createdAt i) now,
                  as_lastSeenAt = or_else (si_lastSeenAt i) now,
                  as_idleExpiresAt = idleExpiresAt, as_expiresAt = expiresAt\<rparr>
            | _ \<Rightarrow> Inl TypeErr))"

text \<open>\<open>publicUser\<close>: the profile that leaves the server has none of the secrets.\<close>

record public_user =
  pu_id :: string
  pu_realm :: string
  pu_username :: string
  pu_email :: string
  pu_emailVerified :: bool
  pu_name :: string
  pu_givenName :: string
  pu_familyName :: string
  pu_enabled :: bool
  pu_roles :: "string list"
  pu_groups :: "string list"
  pu_clientRoles :: "(string \<times> string list) list"
  pu_totpConfirmed :: bool
  pu_failedAttempts :: int
  pu_lockedUntil :: "int option"
  pu_createdAt :: int
  pu_updatedAt :: int
  pu_lastLoginAt :: "int option"
  pu_mfaEnabled :: bool
  pu_recoveryCodesRemaining :: nat

definition publicUser :: "user option \<Rightarrow> public_user option" where
  "publicUser user = map_option (\<lambda>u.
     \<lparr>pu_id = u_id u, pu_realm = u_realm u, pu_username = u_username u, pu_email = u_email u,
      pu_emailVerified = u_emailVerified u, pu_name = u_name u, pu_givenName = u_givenName u,
      pu_familyName = u_familyName u, pu_enabled = u_enabled u, pu_roles = u_roles u,
      pu_groups = u_groups u, pu_clientRoles = u_clientRoles u,
      pu_totpConfirmed = u_totpConfirmed u, pu_failedAttempts = u_failedAttempts u,
      pu_lockedUntil = u_lockedUntil u, pu_createdAt = u_createdAt u, pu_updatedAt = u_updatedAt u,
      pu_lastLoginAt = u_lastLoginAt u, pu_mfaEnabled = u_totpConfirmed u,
      pu_recoveryCodesRemaining = length (u_recoveryCodeHashes u)\<rparr>) user"

section \<open>Users\<close>

text \<open>The logins of a user: \<open>[item.username.toLowerCase(), item.email]\<close>.\<close>

definition logins :: "user \<Rightarrow> string set" where
  "logins u = {js_lower (u_username u), u_email u}"

definition createUser :: "int \<Rightarrow> string \<Rightarrow> user_input \<Rightarrow> store \<Rightarrow> store_error + (user \<times> store)" where
  "createUser now fresh input s =
     (let user = normalizeUser now fresh input in
      if mget (st_users s) (ukey (u_realm user) (u_id user)) \<noteq> None then Inl USER_EXISTS
      else (case find (\<lambda>item. u_realm item = u_realm user \<and>
                (\<exists>login\<in>set [js_lower (u_username item), u_email item].
                   login = js_lower (u_username user) \<or> login = u_email user)) (mvals (st_users s)) of
              Some _ \<Rightarrow> Inl USER_EXISTS
            | None \<Rightarrow> Inr (user, s\<lparr>st_users := mset' (ukey (u_realm user) (u_id user)) user (st_users s)\<rparr>)))"

definition findUserById :: "string \<Rightarrow> string \<Rightarrow> store \<Rightarrow> user option" where
  "findUserById realm uid s = mget (st_users s) (ukey realm uid)"

definition findUserByLogin :: "string \<Rightarrow> string \<Rightarrow> store \<Rightarrow> user option" where
  "findUserByLogin realm login s =
     (let normalized = js_lower (js_trim login) in
      find (\<lambda>item. u_realm item = realm \<and>
        (js_lower (u_username item) = normalized \<or> u_email item = normalized)) (mvals (st_users s)))"

definition listUsers ::
    "(string \<Rightarrow> string \<Rightarrow> bool) \<Rightarrow> string \<Rightarrow> nat \<Rightarrow> nat \<Rightarrow> store \<Rightarrow> user list" where
  "listUsers le realm limit offset s =
     js_slice offset (offset + limit)
       (sort_by (\<lambda>a b. le (u_username a) (u_username b))
         (filter (\<lambda>item. u_realm item = realm) (mvals (st_users s))))"

text \<open>The loop over \<open>allowed\<close>: a field of the patch replaces the user's.\<close>

definition applyPatch :: "user_patch \<Rightarrow> user \<Rightarrow> user" where
  "applyPatch p u = u\<lparr>
     u_email := or_else (p_email p) (u_email u),
     u_emailVerified := or_else (p_emailVerified p) (u_emailVerified u),
     u_name := or_else (p_name p) (u_name u),
     u_givenName := or_else (p_givenName p) (u_givenName u),
     u_familyName := or_else (p_familyName p) (u_familyName u),
     u_enabled := or_else (p_enabled p) (u_enabled u),
     u_passwordHash := or_else (p_passwordHash p) (u_passwordHash u),
     u_roles := or_else (p_roles p) (u_roles u),
     u_groups := or_else (p_groups p) (u_groups u),
     u_clientRoles := or_else (p_clientRoles p) (u_clientRoles u)\<rparr>"

definition normalizePatch :: "user_patch \<Rightarrow> user_patch" where
  "normalizePatch patch = patch\<lparr>p_email := map_option (\<lambda>e. js_lower (js_trim e)) (p_email patch)\<rparr>"

definition updateUser ::
    "int \<Rightarrow> string \<Rightarrow> string \<Rightarrow> user_patch \<Rightarrow> store \<Rightarrow> store_error + (user option \<times> store)" where
  "updateUser now realm uid patch s =
     (case mget (st_users s) (ukey realm uid) of
        None \<Rightarrow> Inr (None, s)
      | Some current \<Rightarrow>
          let next = (applyPatch (normalizePatch patch) current)\<lparr>u_updatedAt := now\<rparr>;
              duplicate = (case p_email (normalizePatch patch) of
                 None \<Rightarrow> None
               | Some email \<Rightarrow>
                   find (\<lambda>item. u_realm item = realm \<and> u_id item \<noteq> uid \<and>
                      (u_email item = email \<or> js_lower (u_username item) = email)) (mvals (st_users s)))
          in if duplicate \<noteq> None then Inl USER_EXISTS
             else Inr (Some next, s\<lparr>st_users := mset' (ukey realm uid) next (st_users s)\<rparr>))"

definition deleteUser :: "string \<Rightarrow> string \<Rightarrow> store \<Rightarrow> user option \<times> store" where
  "deleteUser realm uid s =
     (let key = ukey realm uid in
      case mget (st_users s) key of
        None \<Rightarrow> (None, s)
      | Some user \<Rightarrow>
          (Some user, s\<lparr>
             st_users := mdel key (st_users s),
             st_adminGrants := mdel key (st_adminGrants s),
             st_adminSessions := mdrop (\<lambda>x. as_realm x = realm \<and> as_userId x = uid) (st_adminSessions s),
             st_credentials := mdrop (\<lambda>c. wc_realm c = realm \<and> wc_userId c = uid) (st_credentials s),
             st_challenges := mdrop (\<lambda>c. ch_realm c = realm \<and> ch_userId c = Some uid) (st_challenges s)\<rparr>))"

definition restoreUser :: "int \<Rightarrow> string \<Rightarrow> user \<Rightarrow> store \<Rightarrow> user \<times> store" where
  "restoreUser now fresh user s =
     (let restored = normalizeUser now fresh (user_as_input user)
      in (restored, s\<lparr>st_users := mset' (ukey (u_realm restored) (u_id restored)) restored (st_users s)\<rparr>))"

section \<open>Administrator grants and sessions\<close>

definition findAdminGrant :: "string \<Rightarrow> string \<Rightarrow> store \<Rightarrow> admin_grant option" where
  "findAdminGrant realm userId s = mget (st_adminGrants s) (ukey realm userId)"

definition upsertAdminGrant ::
    "int \<Rightarrow> string \<Rightarrow> string \<Rightarrow> string list \<Rightarrow> bool \<Rightarrow> store \<Rightarrow> store_error + (admin_grant option \<times> store)" where
  "upsertAdminGrant now realm userId permissions enabled s =
     (let key = ukey realm userId in
      if mget (st_users s) key = None then Inr (None, s)
      else (let current = mget (st_adminGrants s) key in
        bindR (normalizeAdminGrant now realm userId permissions enabled
                 (case current of None \<Rightarrow> 1 | Some g \<Rightarrow> g_version g + 1)
                 (map_option g_createdAt current) None)
          (\<lambda>grant. Inr (Some grant, s\<lparr>st_adminGrants := mset' key grant (st_adminGrants s)\<rparr>))))"

definition revokeAdminGrant ::
    "int \<Rightarrow> string \<Rightarrow> string \<Rightarrow> store \<Rightarrow> store_error + (admin_grant option \<times> store)" where
  "revokeAdminGrant now realm userId s =
     (case mget (st_adminGrants s) (ukey realm userId) of
        None \<Rightarrow> Inr (None, s)
      | Some current \<Rightarrow> upsertAdminGrant now realm userId (g_permissions current) False s)"

definition restoreAdminGrant :: "int \<Rightarrow> admin_grant \<Rightarrow> store \<Rightarrow> store_error + (admin_grant \<times> store)" where
  "restoreAdminGrant now grant s =
     bindR (normalizeAdminGrant now (g_realm grant) (g_userId grant) (g_permissions grant)
              (g_enabled grant) (g_version grant) (Some (g_createdAt grant)) (Some (g_updatedAt grant)))
       (\<lambda>restored. Inr (restored,
          s\<lparr>st_adminGrants := mset' (ukey (g_realm restored) (g_userId restored)) restored (st_adminGrants s)\<rparr>))"

definition createAdminSession ::
    "int \<Rightarrow> admin_session_input \<Rightarrow> store \<Rightarrow> store_error + (admin_session option \<times> store)" where
  "createAdminSession now input s =
     bindR (normalizeAdminSession now input) (\<lambda>session.
       if mget (st_users s) (ukey (as_realm session) (as_userId session)) = None
         \<or> mget (st_adminSessions s) (as_idDigest session) \<noteq> None
       then Inr (None, s)
       else Inr (Some session,
         s\<lparr>st_adminSessions := mset' (as_idDigest session) session (st_adminSessions s)\<rparr>))"

definition findAdminSession :: "string \<Rightarrow> store \<Rightarrow> admin_session option" where
  "findAdminSession idDigest s = mget (st_adminSessions s) idDigest"

definition touchAdminSession :: "int \<Rightarrow> string \<Rightarrow> int \<Rightarrow> store \<Rightarrow> admin_session option \<times> store" where
  "touchAdminSession now idDigest idleExpiresAt s =
     (case mget (st_adminSessions s) idDigest of
        None \<Rightarrow> (None, s)
      | Some session \<Rightarrow>
          (let session' = session\<lparr>as_lastSeenAt := now, as_idleExpiresAt := idleExpiresAt\<rparr>
           in (Some session', s\<lparr>st_adminSessions := mset' idDigest session' (st_adminSessions s)\<rparr>)))"

definition deleteAdminSession :: "string \<Rightarrow> store \<Rightarrow> bool \<times> store" where
  "deleteAdminSession idDigest s =
     (mget (st_adminSessions s) idDigest \<noteq> None,
      s\<lparr>st_adminSessions := mdel idDigest (st_adminSessions s)\<rparr>)"

text \<open>The bounded sweep both clean-ups make: \<open>if (deleted >= limit) break\<close>.\<close>

fun sweep :: "('v \<Rightarrow> bool) \<Rightarrow> nat \<Rightarrow> ('k \<times> 'v) list \<Rightarrow> nat \<times> ('k \<times> 'v) list" where
  "sweep expired limit [] = (0, [])"
| "sweep expired limit ((k, v) # m) =
     (if limit = 0 then (0, (k, v) # m)
      else if expired v then (let (n, m') = sweep expired (limit - 1) m in (Suc n, m'))
      else (let (n, m') = sweep expired limit m in (n, (k, v) # m')))"

definition cleanupExpiredAdminSessions :: "int \<Rightarrow> nat \<Rightarrow> store \<Rightarrow> nat \<times> store" where
  "cleanupExpiredAdminSessions now limit s =
     (let (n, m) = sweep (\<lambda>x. as_expiresAt x \<le> now \<or> as_idleExpiresAt x \<le> now) limit (st_adminSessions s)
      in (n, s\<lparr>st_adminSessions := m\<rparr>))"

section \<open>Login state, passwords and TOTP\<close>

text \<open>
  These methods fetch the user object and assign its fields in place. \<open>update_user\<close> is that
  pattern: nothing happens when there is no such user or the method's guard rejects it (\<open>None\<close>).
\<close>

definition update_user :: "string \<Rightarrow> string \<Rightarrow> (user \<Rightarrow> user option) \<Rightarrow> store \<Rightarrow> user option \<times> store" where
  "update_user realm uid f s =
     (case mget (st_users s) (ukey realm uid) of
        None \<Rightarrow> (None, s)
      | Some user \<Rightarrow>
          (case f user of
             None \<Rightarrow> (None, s)
           | Some user' \<Rightarrow> (Some user', s\<lparr>st_users := mset' (ukey realm uid) user' (st_users s)\<rparr>)))"

definition rehashPassword_row :: "int \<Rightarrow> string option \<Rightarrow> string option \<Rightarrow> user \<Rightarrow> user option" where
  "rehashPassword_row now expectedHash newHash u =
     (if u_passwordHash u \<noteq> expectedHash then None
      else Some (u\<lparr>u_passwordHash := newHash, u_updatedAt := now\<rparr>))"

definition rehashPasswordIfCurrent ::
    "int \<Rightarrow> string \<Rightarrow> string \<Rightarrow> string option \<Rightarrow> string option \<Rightarrow> store \<Rightarrow> bool \<times> store" where
  "rehashPasswordIfCurrent now realm uid expectedHash newHash s =
     (let (r, s') = update_user realm uid (rehashPassword_row now expectedHash newHash) s in (r \<noteq> None, s'))"

definition loginFailure_row :: "int \<Rightarrow> user \<Rightarrow> user option" where
  "loginFailure_row now u =
     (case u_lockedUntil u of
        Some t \<Rightarrow>
          if t > now then None
          else (let n = 0 + 1 in
                Some (u\<lparr>u_failedAttempts := n,
                        u_lockedUntil := (if n \<ge> 5 then Some (now + 15 * 60000) else None),
                        u_updatedAt := now\<rparr>))
      | None \<Rightarrow>
          (let n = u_failedAttempts u + 1 in
           Some (u\<lparr>u_failedAttempts := n,
                   u_lockedUntil := (if n \<ge> 5 then Some (now + 15 * 60000) else None),
                   u_updatedAt := now\<rparr>)))"

definition recordLoginFailure :: "int \<Rightarrow> string \<Rightarrow> string \<Rightarrow> store \<Rightarrow> store" where
  "recordLoginFailure now realm uid s = snd (update_user realm uid (loginFailure_row now) s)"

definition loginSuccess_row :: "int \<Rightarrow> user \<Rightarrow> user option" where
  "loginSuccess_row now u =
     Some (u\<lparr>u_failedAttempts := 0, u_lockedUntil := None, u_lastLoginAt := Some now, u_updatedAt := now\<rparr>)"

definition recordLoginSuccess :: "int \<Rightarrow> string \<Rightarrow> string \<Rightarrow> store \<Rightarrow> store" where
  "recordLoginSuccess now realm uid s = snd (update_user realm uid (loginSuccess_row now) s)"

definition unlock_row :: "int \<Rightarrow> user \<Rightarrow> user option" where
  "unlock_row now u = Some (u\<lparr>u_failedAttempts := 0, u_lockedUntil := None, u_updatedAt := now\<rparr>)"

definition unlockUser :: "int \<Rightarrow> string \<Rightarrow> string \<Rightarrow> store \<Rightarrow> user option \<times> store" where
  "unlockUser now realm uid = update_user realm uid (unlock_row now)"

definition bumpSecurityVersion :: "int \<Rightarrow> string \<Rightarrow> string \<Rightarrow> store \<Rightarrow> user option \<times> store" where
  "bumpSecurityVersion now realm uid =
     update_user realm uid (\<lambda>u. Some (u\<lparr>u_securityVersion := u_securityVersion u + 1, u_updatedAt := now\<rparr>))"

definition beginTotp_row :: "int \<Rightarrow> string \<Rightarrow> user \<Rightarrow> user option" where
  "beginTotp_row now pendingSecret u =
     Some (u\<lparr>u_pendingTotpSecret := Some pendingSecret, u_pendingTotpCreatedAt := Some now,
             u_updatedAt := now\<rparr>)"

definition beginTotpEnrollment :: "int \<Rightarrow> string \<Rightarrow> string \<Rightarrow> string \<Rightarrow> store \<Rightarrow> user option \<times> store" where
  "beginTotpEnrollment now realm uid pendingSecret = update_user realm uid (beginTotp_row now pendingSecret)"

definition confirmTotp_row ::
    "int \<Rightarrow> string option \<Rightarrow> string option \<Rightarrow> int \<Rightarrow> string list \<Rightarrow> user \<Rightarrow> user option" where
  "confirmTotp_row now pendingSecret activeSecret step codes u =
     (let pendingFresh = (case u_pendingTotpCreatedAt u of None \<Rightarrow> False | Some t \<Rightarrow> now - t \<le> 10 * 60000) in
      if \<not> pendingFresh \<or> u_pendingTotpSecret u \<noteq> pendingSecret \<or> activeSecret = None \<or> \<not> safe_integer step
      then None
      else Some (u\<lparr>u_totpSecret := activeSecret, u_totpConfirmed := True, u_pendingTotpSecret := None,
                   u_pendingTotpCreatedAt := None, u_recoveryCodeHashes := codes,
                   u_lastTotpStep := Some step, u_updatedAt := now\<rparr>))"

definition confirmTotpEnrollment ::
    "int \<Rightarrow> string \<Rightarrow> string \<Rightarrow> string option \<Rightarrow> string option \<Rightarrow> int \<Rightarrow> string list \<Rightarrow> store \<Rightarrow> bool \<times> store" where
  "confirmTotpEnrollment now realm uid pendingSecret activeSecret step codes s =
     (let (r, s') = update_user realm uid (confirmTotp_row now pendingSecret activeSecret step codes) s
      in (r \<noteq> None, s'))"

definition configureTotp_row :: "int \<Rightarrow> string option \<Rightarrow> bool \<Rightarrow> string list option \<Rightarrow> user \<Rightarrow> user option" where
  "configureTotp_row now secret confirmed codes u =
     Some (let u1 = u\<lparr>u_totpSecret := secret, u_totpConfirmed := confirmed\<rparr>;
               u2 = (if \<not> confirmed
                     then u1\<lparr>u_lastTotpStep := None, u_pendingTotpSecret := None, u_pendingTotpCreatedAt := None\<rparr>
                     else u1);
               u3 = (case codes of None \<Rightarrow> u2 | Some cs \<Rightarrow> u2\<lparr>u_recoveryCodeHashes := cs\<rparr>)
           in u3\<lparr>u_updatedAt := now\<rparr>)"

definition configureTotp ::
    "int \<Rightarrow> string \<Rightarrow> string \<Rightarrow> string option \<Rightarrow> bool \<Rightarrow> string list option \<Rightarrow> store \<Rightarrow> user option \<times> store" where
  "configureTotp now realm uid secret confirmed codes =
     update_user realm uid (configureTotp_row now secret confirmed codes)"

definition totpStep_row :: "int \<Rightarrow> int \<Rightarrow> user \<Rightarrow> user option" where
  "totpStep_row now step u =
     (if \<not> safe_integer step \<or> (case u_lastTotpStep u of None \<Rightarrow> False | Some t \<Rightarrow> t \<ge> step)
      then None
      else Some (u\<lparr>u_lastTotpStep := Some step, u_updatedAt := now\<rparr>))"

definition consumeTotpStep :: "int \<Rightarrow> string \<Rightarrow> string \<Rightarrow> int \<Rightarrow> store \<Rightarrow> bool \<times> store" where
  "consumeTotpStep now realm uid step s =
     (let (r, s') = update_user realm uid (totpStep_row now step) s in (r \<noteq> None, s'))"

definition recoveryCode_row :: "int \<Rightarrow> string \<Rightarrow> user \<Rightarrow> user option" where
  "recoveryCode_row now digest u =
     (if digest \<notin> set (u_recoveryCodeHashes u) then None
      else Some (u\<lparr>u_recoveryCodeHashes := remove1 digest (u_recoveryCodeHashes u), u_updatedAt := now\<rparr>))"

definition consumeRecoveryCode :: "int \<Rightarrow> string \<Rightarrow> string \<Rightarrow> string \<Rightarrow> store \<Rightarrow> bool \<times> store" where
  "consumeRecoveryCode now realm uid digest s =
     (let (r, s') = update_user realm uid (recoveryCode_row now digest) s in (r \<noteq> None, s'))"

section \<open>Passkeys, challenges, audit\<close>

definition createWebAuthnChallenge ::
    "int \<Rightarrow> string \<Rightarrow> string \<Rightarrow> string \<Rightarrow> string option \<Rightarrow> string option \<Rightarrow> string option \<Rightarrow> string \<Rightarrow> int \<Rightarrow>
     store \<Rightarrow> challenge \<times> store" where
  "createWebAuthnChallenge now fresh realm purpose userId interactionUid userHandle ch expiresAt s =
     (let rec = \<lparr>ch_id = fresh, ch_realm = realm, ch_purpose = purpose, ch_userId = userId,
                 ch_interactionUid = interactionUid, ch_userHandle = userHandle, ch_challenge = ch,
                 ch_expiresAt = expiresAt, ch_createdAt = now\<rparr>
      in (rec, s\<lparr>st_challenges := mset' (ukey realm fresh) rec (st_challenges s)\<rparr>))"

definition consumeWebAuthnChallenge ::
    "int \<Rightarrow> string \<Rightarrow> string \<Rightarrow> string \<Rightarrow> string option \<Rightarrow> string option \<Rightarrow> store \<Rightarrow> challenge option \<times> store" where
  "consumeWebAuthnChallenge now realm uid purpose userId interactionUid s =
     (let key = ukey realm uid in
      case mget (st_challenges s) key of
        None \<Rightarrow> (None, s)
      | Some rec \<Rightarrow>
          if ch_purpose rec \<noteq> purpose \<or> ch_userId rec \<noteq> userId \<or> ch_interactionUid rec \<noteq> interactionUid
            \<or> ch_expiresAt rec \<le> now
          then (None, s)
          else (Some rec, s\<lparr>st_challenges := mdel key (st_challenges s)\<rparr>))"

definition cleanupExpiredWebAuthnChallenges :: "int \<Rightarrow> nat \<Rightarrow> store \<Rightarrow> nat \<times> store" where
  "cleanupExpiredWebAuthnChallenges now limit s =
     (let (n, m) = sweep (\<lambda>c. ch_expiresAt c \<le> now) limit (st_challenges s) in (n, s\<lparr>st_challenges := m\<rparr>))"

definition createWebAuthnCredential ::
    "int \<Rightarrow> credential_input \<Rightarrow> store \<Rightarrow> store_error + (credential option \<times> store)" where
  "createWebAuthnCredential now input s =
     bindR (normalizeWebAuthnCredential now input) (\<lambda>credential.
       if mget (st_users s) (ukey (wc_realm credential) (wc_userId credential)) = None then Inr (None, s)
       else (let key = ukey (wc_realm credential) (wc_id credential) in
             if mget (st_credentials s) key \<noteq> None then Inl WEBAUTHN_CREDENTIAL_EXISTS
             else Inr (Some credential, s\<lparr>st_credentials := mset' key credential (st_credentials s)\<rparr>)))"

definition findWebAuthnCredential :: "string \<Rightarrow> string \<Rightarrow> store \<Rightarrow> credential option" where
  "findWebAuthnCredential realm credentialId s = mget (st_credentials s) (ukey realm credentialId)"

definition listWebAuthnCredentials :: "string \<Rightarrow> string \<Rightarrow> store \<Rightarrow> credential list" where
  "listWebAuthnCredentials realm userId s =
     sort_by (\<lambda>a b. wc_createdAt a \<le> wc_createdAt b)
       (filter (\<lambda>c. wc_realm c = realm \<and> wc_userId c = userId) (mvals (st_credentials s)))"

definition counter_regresses :: "int \<Rightarrow> int \<Rightarrow> bool" where
  "counter_regresses expectedCounter newCounter \<longleftrightarrow>
     \<not> safe_integer newCounter \<or> newCounter < 0 \<or> newCounter > 0xffffffff
     \<or> (expectedCounter > 0 \<or> newCounter > 0) \<and> newCounter \<le> expectedCounter"

definition updateWebAuthnCredentialCounter ::
    "int \<Rightarrow> string \<Rightarrow> string \<Rightarrow> int \<Rightarrow> int \<Rightarrow> string \<Rightarrow> bool \<Rightarrow> store \<Rightarrow> bool \<times> store" where
  "updateWebAuthnCredentialCounter now realm credentialId expectedCounter newCounter deviceType backedUp s =
     (let key = ukey realm credentialId in
      case mget (st_credentials s) key of
        None \<Rightarrow> (False, s)
      | Some c \<Rightarrow>
          if wc_counter c \<noteq> expectedCounter then (False, s)
          else if counter_regresses expectedCounter newCounter then (False, s)
          else (True, s\<lparr>st_credentials := mset' key (c\<lparr>wc_counter := newCounter, wc_deviceType := deviceType,
                  wc_backedUp := backedUp, wc_lastUsedAt := Some now, wc_updatedAt := now\<rparr>) (st_credentials s)\<rparr>))"

definition deleteWebAuthnCredential :: "string \<Rightarrow> string \<Rightarrow> string \<Rightarrow> store \<Rightarrow> credential option \<times> store" where
  "deleteWebAuthnCredential realm userId credentialId s =
     (let key = ukey realm credentialId in
      case mget (st_credentials s) key of
        None \<Rightarrow> (None, s)
      | Some c \<Rightarrow>
          if wc_userId c \<noteq> userId then (None, s)
          else (Some c, s\<lparr>st_credentials := mdel key (st_credentials s)\<rparr>))"

definition writeAudit ::
    "(string \<Rightarrow> bool) \<Rightarrow> int \<Rightarrow> string \<Rightarrow> audit_event \<Rightarrow> store \<Rightarrow> audit_record \<times> store" where
  "writeAudit isIP now fresh event s =
     (let ip = (case ev_ip event of None \<Rightarrow> None | Some a \<Rightarrow> if isIP a then Some a else None);
          rec = audit_event.extend (event\<lparr>ev_ip := ip\<rparr>) (audit_record.fields fresh now)
      in (rec, s\<lparr>st_audit := take 10000 (rec # st_audit s)\<rparr>))"

definition listAudit :: "string \<Rightarrow> nat \<Rightarrow> nat \<Rightarrow> store \<Rightarrow> audit_record list" where
  "listAudit realm limit offset s =
     js_slice offset (offset + limit) (filter (\<lambda>item. ev_realm item = realm) (st_audit s))"

end
