(* ===== verification/OneUse.thy ===== *)
theory OneUse
  imports JsPrelude
begin

text \<open>
  The contract of everything in the program that may be used once: TOTP steps, recovery codes,
  WebAuthn challenges, protocol artifacts, SAML assertion identifiers, initial access tokens.
  A store \<open>'s\<close> offers \<open>consume e k\<close>, the attempt to use the key \<open>k\<close> in the environment \<open>e\<close>
  (the clock, the caller); \<open>fresh k s\<close> says that \<open>k\<close> can still be used. From the three laws
  it follows that in any sequence of attempts no key is used twice.
\<close>

fun attempts :: "('e \<Rightarrow> 'k \<Rightarrow> 's \<Rightarrow> bool \<times> 's) \<Rightarrow> ('e \<times> 'k) list \<Rightarrow> 's \<Rightarrow> 'k list \<times> 's" where
  "attempts consume [] s = ([], s)"
| "attempts consume ((e, k) # eks) s =
     (let (ok, s') = consume e k s; (ks, s'') = attempts consume eks s'
      in (if ok then k # ks else ks, s''))"

locale one_use =
  fixes consume :: "'e \<Rightarrow> 'k \<Rightarrow> 's \<Rightarrow> bool \<times> 's"
    and fresh :: "'k \<Rightarrow> 's \<Rightarrow> bool"
    and invar :: "'s \<Rightarrow> bool"
  assumes consume_fresh: "invar s \<Longrightarrow> consume e k s = (True, s') \<Longrightarrow> fresh k s"
    and consume_spends: "invar s \<Longrightarrow> consume e k s = (True, s') \<Longrightarrow> \<not> fresh k s'"
    and consume_mono: "invar s \<Longrightarrow> consume e k s = (ok, s') \<Longrightarrow> fresh k' s' \<Longrightarrow> fresh k' s"
    and consume_invar: "invar s \<Longrightarrow> consume e k s = (ok, s') \<Longrightarrow> invar s'"
begin

lemma attempts_fresh:
  "invar s \<Longrightarrow> attempts consume eks s = (ks, s') \<Longrightarrow> k \<in> set ks \<Longrightarrow> fresh k s"
proof (induction eks arbitrary: s ks)
  case (Cons ek eks)
  obtain e k1 where ek: "ek = (e, k1)" by fastforce
  obtain ok s1 where c: "consume e k1 s = (ok, s1)" by fastforce
  obtain ks1 where a: "attempts consume eks s1 = (ks1, s')" "ks = (if ok then k1 # ks1 else ks1)"
    using Cons.prems(2) by (auto simp: ek c split: prod.splits)
  have "fresh k s" if "k \<in> set ks1"
    using Cons.IH [OF consume_invar [OF Cons.prems(1) c] a(1) that] consume_mono [OF Cons.prems(1) c] by blast
  moreover have "fresh k1 s" if ok using consume_fresh [OF Cons.prems(1)] c that by simp
  ultimately show ?case using Cons.prems(3) a(2) by (auto split: if_splits)
qed simp

text \<open>No key is used twice.\<close>

lemma attempts_distinct:
  "invar s \<Longrightarrow> attempts consume eks s = (ks, s') \<Longrightarrow> distinct ks"
proof (induction eks arbitrary: s ks)
  case (Cons ek eks)
  obtain e k1 where ek: "ek = (e, k1)" by fastforce
  obtain ok s1 where c: "consume e k1 s = (ok, s1)" by fastforce
  obtain ks1 where a: "attempts consume eks s1 = (ks1, s')" "ks = (if ok then k1 # ks1 else ks1)"
    using Cons.prems(2) by (auto simp: ek c split: prod.splits)
  have i: "invar s1" by (rule consume_invar [OF Cons.prems(1) c])
  have "k1 \<notin> set ks1" if ok
    using attempts_fresh [OF i a(1), of k1] consume_spends [OF Cons.prems(1)] c that by auto
  with Cons.IH [OF i a(1)] show ?case by (simp add: a(2))
qed simp

text \<open>A key that is spent stays spent.\<close>

lemma spent_rejected:
  assumes "invar s" and "\<not> fresh k s" shows "k \<notin> set (fst (attempts consume eks s))"
  using attempts_fresh [OF assms(1), of eks "fst (attempts consume eks s)" "snd (attempts consume eks s)" k]
    assms(2) by auto

end

end
