(* ===== verification/IdentityFacts.thy ===== *)
theory IdentityFacts
  imports IdentityStore OneUse
begin

text \<open>
  What the in-memory identity store guarantees: an invariant of every reachable store (keys
  agree with their records, logins are unique in a realm, grants, sessions and passkeys belong
  to existing users, the audit log is bounded), and the behaviour of the operations on it.
\<close>

section \<open>The invariant\<close>

definition user_ok :: "user \<Rightarrow> bool" where
  "user_ok u \<longleftrightarrow> CHR '':'' \<notin> set (u_realm u) \<and> js_trim (u_username u) = u_username u \<and>
     js_trim (u_email u) = u_email u \<and> js_lower (u_email u) = u_email u"

definition users_inv :: "(string \<times> user) list \<Rightarrow> bool" where
  "users_inv m \<longleftrightarrow> map_wf m \<and> (\<forall>k u. mget m k = Some u \<longrightarrow> k = ukey (u_realm u) (u_id u) \<and> user_ok u)"

definition logins_unique :: "(string \<times> user) list \<Rightarrow> bool" where
  "logins_unique m \<longleftrightarrow> (\<forall>k1 k2 u1 u2. mget m k1 = Some u1 \<longrightarrow> mget m k2 = Some u2 \<longrightarrow>
     u_realm u1 = u_realm u2 \<longrightarrow> k1 \<noteq> k2 \<longrightarrow> logins u1 \<inter> logins u2 = {})"

definition has_user :: "store \<Rightarrow> string \<Rightarrow> string \<Rightarrow> bool" where
  "has_user s r i \<longleftrightarrow> CHR '':'' \<notin> set r \<and> mget (st_users s) (ukey r i) \<noteq> None"

definition grants_inv :: "store \<Rightarrow> bool" where
  "grants_inv s \<longleftrightarrow> map_wf (st_adminGrants s) \<and>
     (\<forall>k g. mget (st_adminGrants s) k = Some g \<longrightarrow>
        k = ukey (g_realm g) (g_userId g) \<and> has_user s (g_realm g) (g_userId g) \<and>
        valid_permissions (g_permissions g) \<and> 1 \<le> g_version g)"

definition sessions_inv :: "store \<Rightarrow> bool" where
  "sessions_inv s \<longleftrightarrow> map_wf (st_adminSessions s) \<and>
     (\<forall>k x. mget (st_adminSessions s) k = Some x \<longrightarrow>
        k = as_idDigest x \<and> has_user s (as_realm x) (as_userId x) \<and> length k = 43)"

definition credentials_inv :: "store \<Rightarrow> bool" where
  "credentials_inv s \<longleftrightarrow> map_wf (st_credentials s) \<and>
     (\<forall>k c. mget (st_credentials s) k = Some c \<longrightarrow>
        k = ukey (wc_realm c) (wc_id c) \<and> has_user s (wc_realm c) (wc_userId c) \<and>
        0 \<le> wc_counter c \<and> wc_counter c \<le> 0xffffffff)"

definition challenges_inv :: "store \<Rightarrow> bool" where
  "challenges_inv s \<longleftrightarrow> map_wf (st_challenges s) \<and>
     (\<forall>k c. mget (st_challenges s) k = Some c \<longrightarrow> k = ukey (ch_realm c) (ch_id c) \<and>
        CHR '':'' \<notin> set (ch_realm c))"

definition store_inv :: "store \<Rightarrow> bool" where
  "store_inv s \<longleftrightarrow> users_inv (st_users s) \<and> logins_unique (st_users s) \<and> grants_inv s \<and>
     sessions_inv s \<and> credentials_inv s \<and> challenges_inv s \<and> length (st_audit s) \<le> 10000"

lemmas rows_inv_defs = grants_inv_def sessions_inv_def credentials_inv_def challenges_inv_def

text \<open>Each part of the invariant looks only at its own table and at which users exist.\<close>

lemma has_user_frame [simp]:
  "has_user (s\<lparr>st_adminGrants := x_st_adminGrants\<rparr>) = has_user s"
  "has_user (s\<lparr>st_adminSessions := x_st_adminSessions\<rparr>) = has_user s"
  "has_user (s\<lparr>st_credentials := x_st_credentials\<rparr>) = has_user s"
  "has_user (s\<lparr>st_challenges := x_st_challenges\<rparr>) = has_user s"
  "has_user (s\<lparr>st_audit := x_st_audit\<rparr>) = has_user s"
  by (auto simp: has_user_def fun_eq_iff)

lemma rows_inv_frame [simp]:
  "sessions_inv (s\<lparr>st_adminGrants := x_st_adminGrants\<rparr>) = sessions_inv s"
  "credentials_inv (s\<lparr>st_adminGrants := x_st_adminGrants\<rparr>) = credentials_inv s"
  "challenges_inv (s\<lparr>st_adminGrants := x_st_adminGrants\<rparr>) = challenges_inv s"
  "grants_inv (s\<lparr>st_adminSessions := x_st_adminSessions\<rparr>) = grants_inv s"
  "credentials_inv (s\<lparr>st_adminSessions := x_st_adminSessions\<rparr>) = credentials_inv s"
  "challenges_inv (s\<lparr>st_adminSessions := x_st_adminSessions\<rparr>) = challenges_inv s"
  "grants_inv (s\<lparr>st_credentials := x_st_credentials\<rparr>) = grants_inv s"
  "sessions_inv (s\<lparr>st_credentials := x_st_credentials\<rparr>) = sessions_inv s"
  "challenges_inv (s\<lparr>st_credentials := x_st_credentials\<rparr>) = challenges_inv s"
  "grants_inv (s\<lparr>st_challenges := x_st_challenges\<rparr>) = grants_inv s"
  "sessions_inv (s\<lparr>st_challenges := x_st_challenges\<rparr>) = sessions_inv s"
  "credentials_inv (s\<lparr>st_challenges := x_st_challenges\<rparr>) = credentials_inv s"
  "grants_inv (s\<lparr>st_audit := x_st_audit\<rparr>) = grants_inv s"
  "sessions_inv (s\<lparr>st_audit := x_st_audit\<rparr>) = sessions_inv s"
  "credentials_inv (s\<lparr>st_audit := x_st_audit\<rparr>) = credentials_inv s"
  "challenges_inv (s\<lparr>st_audit := x_st_audit\<rparr>) = challenges_inv s"
  "challenges_inv (s\<lparr>st_users := x_users\<rparr>) = challenges_inv s"
  by (simp_all add: rows_inv_defs)

lemma empty_store_inv: "store_inv empty_store"
  by (simp add: empty_store_def store_inv_def users_inv_def logins_unique_def rows_inv_defs)

lemma users_keyD:
  "store_inv s \<Longrightarrow> mget (st_users s) k = Some u \<Longrightarrow> k = ukey (u_realm u) (u_id u) \<and> user_ok u"
  by (auto simp: store_inv_def users_inv_def)

text \<open>Two users of a store with the same realm and identifier are the same.\<close>

lemma user_at_key:
  assumes "store_inv s" and "mget (st_users s) (ukey r i) = Some u" and "CHR '':'' \<notin> set r"
  shows "u_realm u = r \<and> u_id u = i"
proof -
  have "ukey r i = ukey (u_realm u) (u_id u)" "CHR '':'' \<notin> set (u_realm u)"
    using users_keyD [OF assms(1,2)] by (auto simp: user_ok_def)
  then show ?thesis using ukey_inj [OF assms(3), of "u_realm u" i "u_id u"] by simp
qed

lemma find_None: "find P xs = None \<longleftrightarrow> (\<forall>x\<in>set xs. \<not> P x)"
  by (auto simp: find_None_iff)

lemma find_SomeD: "find P xs = Some x \<Longrightarrow> x \<in> set xs \<and> P x"
  by (auto simp: find_Some_iff)

section \<open>Preservation\<close>

text \<open>Replacing the users, keeping every key: what else the store holds still has its user.\<close>

lemma store_inv_users:
  assumes "store_inv s" and "users_inv m" and "logins_unique m"
    and "\<And>k. mget (st_users s) k \<noteq> None \<Longrightarrow> mget m k \<noteq> None"
  shows "store_inv (s\<lparr>st_users := m\<rparr>)"
  using assms unfolding store_inv_def rows_inv_defs has_user_def
  by (intro conjI) (simp; blast)+

lemma users_inv_update:
  "users_inv m \<Longrightarrow> user_ok u \<Longrightarrow> users_inv (mset' (ukey (u_realm u) (u_id u)) u m)"
  by (auto simp: users_inv_def)

lemma logins_unique_update:
  assumes "logins_unique m"
    and "\<And>k' u'. mget m k' = Some u' \<Longrightarrow> k' \<noteq> k \<Longrightarrow> u_realm u' = u_realm u \<Longrightarrow> logins u' \<inter> logins u = {}"
  shows "logins_unique (mset' k u m)"
  using assms unfolding logins_unique_def by (auto split: if_splits) blast+

text \<open>The case of \<open>update_user\<close>: an existing user keeps its identity and its logins.\<close>

definition same_login :: "user \<Rightarrow> user \<Rightarrow> bool" where
  "same_login u u' \<longleftrightarrow> u_id u' = u_id u \<and> u_realm u' = u_realm u \<and> u_username u' = u_username u \<and>
     u_email u' = u_email u"

lemma store_inv_modify:
  assumes inv: "store_inv s" and u: "mget (st_users s) k = Some u" and same: "same_login u u'"
  shows "store_inv (s\<lparr>st_users := mset' k u' (st_users s)\<rparr>)"
proof (rule store_inv_users [OF inv])
  have k: "k = ukey (u_realm u') (u_id u')" and ok: "user_ok u'"
    using users_keyD [OF inv u] same by (auto simp: same_login_def user_ok_def)
  show "users_inv (mset' k u' (st_users s))"
    using users_inv_update [OF _ ok] inv unfolding k by (simp add: store_inv_def)
  have "logins u' = logins u" using same by (simp add: same_login_def logins_def)
  then show "logins_unique (mset' k u' (st_users s))"
    using inv u same by (intro logins_unique_update)
      (auto simp: store_inv_def logins_unique_def same_login_def)
qed simp

lemma update_user_inv:
  assumes "store_inv s" and "update_user r i f s = (res, s')" and "\<And>u u'. f u = Some u' \<Longrightarrow> same_login u u'"
  shows "store_inv s'"
  using assms(2) store_inv_modify [OF assms(1) _ assms(3)] assms(1)
  by (auto simp: update_user_def split: option.splits)

lemmas row_defs = rehashPassword_row_def loginFailure_row_def loginSuccess_row_def unlock_row_def
  beginTotp_row_def confirmTotp_row_def configureTotp_row_def totpStep_row_def recoveryCode_row_def

lemma rows_same_login:
  "rehashPassword_row now e h u = Some u' \<Longrightarrow> same_login u u'"
  "loginFailure_row now u = Some u' \<Longrightarrow> same_login u u'"
  "loginSuccess_row now u = Some u' \<Longrightarrow> same_login u u'"
  "unlock_row now u = Some u' \<Longrightarrow> same_login u u'"
  "beginTotp_row now ps u = Some u' \<Longrightarrow> same_login u u'"
  "confirmTotp_row now pso aso step codes u = Some u' \<Longrightarrow> same_login u u'"
  "configureTotp_row now so cnf codeso u = Some u' \<Longrightarrow> same_login u u'"
  "totpStep_row now step u = Some u' \<Longrightarrow> same_login u u'"
  "recoveryCode_row now digest u = Some u' \<Longrightarrow> same_login u u'"
  by (auto simp: row_defs same_login_def Let_def split: if_splits option.splits)

lemma createUser_cases:
  assumes "createUser now fresh input s = Inr (u, s')"
  shows "u = normalizeUser now fresh input" "mget (st_users s) (ukey (u_realm u) (u_id u)) = None"
    "s' = s\<lparr>st_users := mset' (ukey (u_realm u) (u_id u)) u (st_users s)\<rparr>"
    "\<forall>item \<in> set (mvals (st_users s)). u_realm item = u_realm u \<longrightarrow> logins item \<inter> logins u = {}"
  using assms
  by (auto simp: createUser_def Let_def find_None logins_def split: if_splits option.splits)

lemma normalizeUser_ok: "CHR '':'' \<notin> set (i_realm i) \<Longrightarrow> user_ok (normalizeUser now fresh i)"
  by (simp add: user_ok_def normalizeUser_def js_trim_js_lower)

lemma createUser_inv:
  assumes inv: "store_inv s" and run: "createUser now fresh input s = Inr (u, s')"
    and realm: "CHR '':'' \<notin> set (i_realm input)"
  shows "store_inv s'"
proof -
  note c = createUser_cases [OF run]
  have ok: "user_ok u" using normalizeUser_ok [OF realm] c(1) by simp
  show ?thesis unfolding c(3)
  proof (rule store_inv_users [OF inv])
    show "users_inv (mset' (ukey (u_realm u) (u_id u)) u (st_users s))"
      using users_inv_update [OF _ ok] inv by (simp add: store_inv_def)
    show "logins_unique (mset' (ukey (u_realm u) (u_id u)) u (st_users s))"
      using c(4) inv by (intro logins_unique_update) (auto simp: store_inv_def dest: mget_in_mvals)
  qed simp
qed

lemma updateUser_cases:
  assumes "updateUser now r i p s = Inr (res, s')"
  obtains (absent) "mget (st_users s) (ukey r i) = None" "res = None" "s' = s"
    | (stored) u u' where "mget (st_users s) (ukey r i) = Some u" "res = Some u'"
        "u' = (applyPatch (normalizePatch p) u)\<lparr>u_updatedAt := now\<rparr>"
        "s' = s\<lparr>st_users := mset' (ukey r i) u' (st_users s)\<rparr>"
        "\<And>e item. p_email (normalizePatch p) = Some e \<Longrightarrow> item \<in> set (mvals (st_users s)) \<Longrightarrow>
           u_realm item = r \<Longrightarrow> u_id item \<noteq> i \<Longrightarrow> e \<notin> logins item"
proof (cases "mget (st_users s) (ukey r i)")
  case None
  then show ?thesis using absent assms by (simp add: updateUser_def)
next
  case (Some u)
  show ?thesis
  proof (rule stored [OF Some])
    show "res = Some ((applyPatch (normalizePatch p) u)\<lparr>u_updatedAt := now\<rparr>)"
      "s' = s\<lparr>st_users := mset' (ukey r i) ((applyPatch (normalizePatch p) u)\<lparr>u_updatedAt := now\<rparr>) (st_users s)\<rparr>"
      using Some assms by (auto simp: updateUser_def Let_def split: if_splits)
    show "e \<notin> logins item" if "p_email (normalizePatch p) = Some e" "item \<in> set (mvals (st_users s))"
        "u_realm item = r" "u_id item \<noteq> i" for e item
      using Some assms that by (auto simp: updateUser_def Let_def find_None logins_def split: if_splits)
  qed (rule refl)
qed

lemma updateUser_inv:
  assumes inv: "store_inv s" and run: "updateUser now r i p s = Inr (res, s')"
    and realm: "CHR '':'' \<notin> set r"
  shows "store_inv s'"
  using run
proof (cases rule: updateUser_cases)
  case absent
  then show ?thesis using inv by simp
next
  case (stored u u')
  have id: "u_realm u = r" "u_id u = i" using user_at_key [OF inv stored(1) realm] by auto
  have ids: "u_realm u' = r" "u_id u' = i" "u_username u' = u_username u"
    by (simp_all add: stored(3) applyPatch_def id)
  have uok: "user_ok u" using users_keyD [OF inv stored(1)] by simp
  show ?thesis
  proof (cases "p_email p")
    case None
    then have "same_login u u'"
      by (simp add: stored(3) applyPatch_def normalizePatch_def same_login_def)
    then show ?thesis using store_inv_modify [OF inv stored(1)] stored(4) by simp
  next
    case (Some e)
    have em: "u_email u' = js_lower (js_trim e)" by (simp add: stored(3) applyPatch_def normalizePatch_def Some)
    have ok: "user_ok u'" using uok em id by (simp add: user_ok_def ids js_trim_js_lower)
    show ?thesis unfolding stored(4)
    proof (rule store_inv_users [OF inv])
      show "users_inv (mset' (ukey r i) u' (st_users s))"
        using users_inv_update [OF _ ok, of "st_users s"] inv by (simp add: ids store_inv_def)
      have other: "logins w \<inter> logins u' = {}"
        if w: "mget (st_users s) k = Some w" "k \<noteq> ukey r i" "u_realm w = r" for k w
      proof -
        have k: "k = ukey r (u_id w)" using users_keyD [OF inv w(1)] w(3) by simp
        with w(2) have ne: "u_id w \<noteq> i" by auto
        have "u_email u' \<notin> logins w"
          using stored(5) [OF _ mget_in_mvals [OF w(1)] w(3) ne] Some em by (simp add: normalizePatch_def)
        moreover have "logins w \<inter> logins u = {}"
          using inv w stored(1) id unfolding store_inv_def logins_unique_def by metis
        ultimately show ?thesis by (auto simp: logins_def ids)
      qed
      show "logins_unique (mset' (ukey r i) u' (st_users s))"
        using inv other by (intro logins_unique_update) (auto simp: store_inv_def ids)
    qed simp
  qed
qed

lemma logins_unique_delete: "logins_unique m \<Longrightarrow> logins_unique (mdel k m)"
  unfolding logins_unique_def by simp

text \<open>Deleting a user: every record of another user keeps its user.\<close>

lemma deleteUser_fields:
  assumes "deleteUser r i s = (Some u, s')"
  shows "mget (st_users s) (ukey r i) = Some u" "st_users s' = mdel (ukey r i) (st_users s)"
    "st_adminGrants s' = mdel (ukey r i) (st_adminGrants s)"
    "st_adminSessions s' = mdrop (\<lambda>x. as_realm x = r \<and> as_userId x = i) (st_adminSessions s)"
    "st_credentials s' = mdrop (\<lambda>c. wc_realm c = r \<and> wc_userId c = i) (st_credentials s)"
    "st_challenges s' = mdrop (\<lambda>c. ch_realm c = r \<and> ch_userId c = Some i) (st_challenges s)"
    "st_audit s' = st_audit s"
  using assms by (auto simp: deleteUser_def Let_def split: option.splits)

lemma has_user_delete:
  assumes "has_user s r' i'" and "CHR '':'' \<notin> set r" and "\<not> (r' = r \<and> i' = i)"
    and "st_users s' = mdel (ukey r i) (st_users s)"
  shows "has_user s' r' i'"
  using assms ukey_inj [of r' r i' i] by (auto simp: has_user_def)

lemma deleteUser_inv:
  assumes inv: "store_inv s" and run: "deleteUser r i s = (res, s')" and realm: "CHR '':'' \<notin> set r"
  shows "store_inv s'"
proof (cases res)
  case None
  then show ?thesis using inv run by (auto simp: deleteUser_def Let_def split: option.splits)
next
  case (Some u)
  note f = deleteUser_fields [OF run [unfolded Some]]
  note keep = has_user_delete [OF _ realm _ f(2)]
  have g: "grants_inv s'" using inv
    by (auto simp: store_inv_def grants_inv_def f(3) split: if_splits intro!: keep)
  have ss: "sessions_inv s'" using inv keep
    by (auto simp: store_inv_def sessions_inv_def f(4) dest!: mget_mdrop_SomeD [rotated])
  have c: "credentials_inv s'" using inv keep
    by (auto simp: store_inv_def credentials_inv_def f(5) dest!: mget_mdrop_SomeD [rotated])
  have ch: "challenges_inv s'" using inv
    by (auto simp: store_inv_def challenges_inv_def f(6) dest!: mget_mdrop_SomeD [rotated])
  have u: "users_inv (st_users s')" using inv
    by (auto simp: store_inv_def users_inv_def f(2) split: if_splits)
  show ?thesis using g ss c ch u inv logins_unique_delete
    by (auto simp: store_inv_def f(2,7))
qed

text \<open>Operations that leave the users alone: it is enough that the records they store are right.\<close>

lemma store_inv_grant:
  assumes "store_inv s" and "has_user s (g_realm g) (g_userId g)" and "valid_permissions (g_permissions g)"
    and "1 \<le> g_version g"
  shows "store_inv (s\<lparr>st_adminGrants := mset' (ukey (g_realm g) (g_userId g)) g (st_adminGrants s)\<rparr>)"
  using assms by (auto simp: store_inv_def rows_inv_defs)

lemma store_inv_session:
  assumes "store_inv s" and "has_user s (as_realm x) (as_userId x)" and "length (as_idDigest x) = 43"
  shows "store_inv (s\<lparr>st_adminSessions := mset' (as_idDigest x) x (st_adminSessions s)\<rparr>)"
  using assms by (auto simp: store_inv_def rows_inv_defs)

lemma store_inv_credential:
  assumes "store_inv s" and "has_user s (wc_realm c) (wc_userId c)"
    and "0 \<le> wc_counter c" and "wc_counter c \<le> 0xffffffff"
  shows "store_inv (s\<lparr>st_credentials := mset' (ukey (wc_realm c) (wc_id c)) c (st_credentials s)\<rparr>)"
  using assms by (auto simp: store_inv_def rows_inv_defs)

text \<open>Dropping grants, sessions, passkeys or challenges is always possible.\<close>

lemma store_inv_drop:
  assumes "store_inv s"
  shows "map_wf m \<Longrightarrow> (\<And>k v. mget m k = Some v \<Longrightarrow> mget (st_adminSessions s) k = Some v) \<Longrightarrow>
      store_inv (s\<lparr>st_adminSessions := m\<rparr>)"
    and "map_wf m' \<Longrightarrow> (\<And>k v. mget m' k = Some v \<Longrightarrow> mget (st_credentials s) k = Some v) \<Longrightarrow>
      store_inv (s\<lparr>st_credentials := m'\<rparr>)"
    and "map_wf m'' \<Longrightarrow> (\<And>k v. mget m'' k = Some v \<Longrightarrow> mget (st_challenges s) k = Some v) \<Longrightarrow>
      store_inv (s\<lparr>st_challenges := m''\<rparr>)"
proof -
  have "sessions_inv s" "credentials_inv s" "challenges_inv s" using assms by (simp_all add: store_inv_def)
  then show "map_wf m \<Longrightarrow> (\<And>k v. mget m k = Some v \<Longrightarrow> mget (st_adminSessions s) k = Some v) \<Longrightarrow>
      store_inv (s\<lparr>st_adminSessions := m\<rparr>)"
    and "map_wf m' \<Longrightarrow> (\<And>k v. mget m' k = Some v \<Longrightarrow> mget (st_credentials s) k = Some v) \<Longrightarrow>
      store_inv (s\<lparr>st_credentials := m'\<rparr>)"
    and "map_wf m'' \<Longrightarrow> (\<And>k v. mget m'' k = Some v \<Longrightarrow> mget (st_challenges s) k = Some v) \<Longrightarrow>
      store_inv (s\<lparr>st_challenges := m''\<rparr>)"
    using assms
    by (simp_all add: store_inv_def)
       (simp_all add: sessions_inv_def credentials_inv_def challenges_inv_def, blast+)
qed

lemma normalizeAdminGrant_spec:
  assumes "normalizeAdminGrant now r i ps en v cr up = Inr g"
  shows "g_realm g = r" "g_userId g = i" "valid_permissions (g_permissions g)" "g_version g = v" "1 \<le> v"
    "g_enabled g = en"
  using assms by (auto simp: normalizeAdminGrant_def dest: normalizePermissionList_Inr split: if_splits sum.splits)

lemma upsertAdminGrant_spec:
  assumes "upsertAdminGrant now r i ps en s = Inr (Some g, s')"
  shows "g_realm g = r" "g_userId g = i" "valid_permissions (g_permissions g)" "g_enabled g = en"
    "mget (st_users s) (ukey r i) \<noteq> None"
    "s' = s\<lparr>st_adminGrants := mset' (ukey r i) g (st_adminGrants s)\<rparr>"
    "g_version g = (case mget (st_adminGrants s) (ukey r i) of None \<Rightarrow> 1 | Some c \<Rightarrow> g_version c + 1)"
    "1 \<le> g_version g"
proof -
  have u: "mget (st_users s) (ukey r i) \<noteq> None"
    "s' = s\<lparr>st_adminGrants := mset' (ukey r i) g (st_adminGrants s)\<rparr>"
    and n: "normalizeAdminGrant now r i ps en
      (case mget (st_adminGrants s) (ukey r i) of None \<Rightarrow> 1 | Some c \<Rightarrow> g_version c + 1)
      (map_option g_createdAt (mget (st_adminGrants s) (ukey r i))) None = Inr g"
    using assms by (auto simp: upsertAdminGrant_def Let_def split: if_splits)
  note g = normalizeAdminGrant_spec [OF n]
  show "g_realm g = r" "g_userId g = i" "valid_permissions (g_permissions g)" "g_enabled g = en"
    "g_version g = (case mget (st_adminGrants s) (ukey r i) of None \<Rightarrow> 1 | Some c \<Rightarrow> g_version c + 1)"
    by (fact g)+
  show "1 \<le> g_version g" using g(4,5) by simp
  show "mget (st_users s) (ukey r i) \<noteq> None"
    "s' = s\<lparr>st_adminGrants := mset' (ukey r i) g (st_adminGrants s)\<rparr>" by (fact u)+
qed

lemma upsertAdminGrant_inv:
  assumes inv: "store_inv s" and run: "upsertAdminGrant now r i ps en s = Inr (res, s')"
    and "CHR '':'' \<notin> set r"
  shows "store_inv s'"
proof (cases res)
  case None
  then show ?thesis using inv run by (auto simp: upsertAdminGrant_def Let_def split: if_splits)
next
  case (Some g)
  note u = upsertAdminGrant_spec [OF run [unfolded Some]]
  have "has_user s r i" using u(5) assms(3) by (simp add: has_user_def)
  then show ?thesis using store_inv_grant [OF inv, of g] u by simp
qed

lemma revokeAdminGrant_inv:
  "store_inv s \<Longrightarrow> revokeAdminGrant now r i s = Inr (res, s') \<Longrightarrow> CHR '':'' \<notin> set r \<Longrightarrow> store_inv s'"
  by (auto simp: revokeAdminGrant_def dest: upsertAdminGrant_inv split: option.splits)

lemma restoreAdminGrant_inv:
  assumes inv: "store_inv s" and run: "restoreAdminGrant now g s = Inr (res, s')"
    and "has_user s (g_realm g) (g_userId g)"
  shows "store_inv s'"
proof -
  have n: "normalizeAdminGrant now (g_realm g) (g_userId g) (g_permissions g) (g_enabled g) (g_version g)
      (Some (g_createdAt g)) (Some (g_updatedAt g)) = Inr res"
    and s': "s' = s\<lparr>st_adminGrants := mset' (ukey (g_realm res) (g_userId res)) res (st_adminGrants s)\<rparr>"
    using run by (auto simp: restoreAdminGrant_def)
  note g = normalizeAdminGrant_spec [OF n]
  show ?thesis using store_inv_grant [OF inv, of res] g assms(3) by (simp add: s')
qed

lemma createAdminSession_spec:
  assumes "createAdminSession now input s = Inr (Some x, s')"
  shows "normalizeAdminSession now input = Inr x" "mget (st_users s) (ukey (as_realm x) (as_userId x)) \<noteq> None"
    "mget (st_adminSessions s) (as_idDigest x) = None"
    "s' = s\<lparr>st_adminSessions := mset' (as_idDigest x) x (st_adminSessions s)\<rparr>"
  using assms by (auto simp: createAdminSession_def split: if_splits)

lemma normalizeAdminSession_spec:
  "normalizeAdminSession now input = Inr x \<Longrightarrow> as_realm x = si_realm input \<and> as_userId x = si_userId input \<and>
     as_idDigest x = si_idDigest input \<and> length (as_idDigest x) = 43 \<and> 1 \<le> as_grantVersion x \<and>
     as_grantVersion x = si_grantVersion input \<and> as_securityVersion x = si_securityVersion input"
  by (auto simp: normalizeAdminSession_def class_re_def split: if_splits option.splits)

lemma createAdminSession_inv:
  assumes inv: "store_inv s" and run: "createAdminSession now input s = Inr (res, s')"
    and "CHR '':'' \<notin> set (si_realm input)"
  shows "store_inv s'"
proof (cases res)
  case None
  then show ?thesis using inv run by (auto simp: createAdminSession_def split: if_splits)
next
  case (Some x)
  note c = createAdminSession_spec [OF run [unfolded Some]]
  have "has_user s (as_realm x) (as_userId x)" "length (as_idDigest x) = 43"
    using normalizeAdminSession_spec [OF c(1)] c(2) assms(3) by (auto simp: has_user_def)
  then show ?thesis unfolding c(4) by (rule store_inv_session [OF inv])
qed

lemma touchAdminSession_inv:
  assumes inv: "store_inv s" and run: "touchAdminSession now d t s = (res, s')"
  shows "store_inv s'"
proof (cases "mget (st_adminSessions s) d")
  case None
  then show ?thesis using inv run by (simp add: touchAdminSession_def)
next
  case (Some x)
  then have x: "d = as_idDigest x" "has_user s (as_realm x) (as_userId x)" "length d = 43"
    using inv by (auto simp: store_inv_def sessions_inv_def)
  show ?thesis
    using store_inv_session [OF inv, of "x\<lparr>as_lastSeenAt := now, as_idleExpiresAt := t\<rparr>"] x Some run
    by (auto simp: touchAdminSession_def Let_def)
qed

lemma sweep_spec:
  assumes "sweep P n m = (d, m')"
  shows "d = min n (length (filter P (mvals m))) \<and> (map_wf m \<longrightarrow> map_wf m') \<and> set m' \<subseteq> set m \<and>
    (\<forall>kv \<in> set m. \<not> P (snd kv) \<longrightarrow> kv \<in> set m') \<and> length m = d + length m'"
  using assms
proof (induction P n m arbitrary: d m' rule: sweep.induct)
  case (2 P n k v m)
  show ?case
  proof (cases "n = 0")
    case True
    then show ?thesis using 2(3) by auto
  next
    case False
    show ?thesis
    proof (cases "P v")
      case True
      obtain d1 m1 where r: "sweep P (n - 1) m = (d1, m1)" by fastforce
      then have d: "d = Suc d1" "m' = m1" using 2(3) False True by (auto simp del: One_nat_def)
      show ?thesis using 2(1) [OF False True r] True False by (auto simp: d mvals_def map_wf_def)
    next
      case Pv: False
      obtain d1 m1 where r: "sweep P n m = (d1, m1)" by fastforce
      then have d: "d = d1" "m' = (k, v) # m1" using 2(3) False Pv by auto
      have "k \<notin> fst ` set m1" if "k \<notin> fst ` set m" using 2(2) [OF False Pv r] that by auto
      then show ?thesis using 2(2) [OF False Pv r] Pv by (auto simp: d mvals_def map_wf_def)
    qed
  qed
qed (simp add: mvals_def)

lemma sweep_mget: "map_wf m \<Longrightarrow> sweep P n m = (d, m') \<Longrightarrow> mget m' k = Some v \<Longrightarrow> mget m k = Some v"
  using sweep_spec [of P n m d m'] by (auto simp: map_wf_def dest!: map_of_SomeD)

lemma sweep_wf: "map_wf m \<Longrightarrow> sweep P n m = (d, m') \<Longrightarrow> map_wf m'"
  using sweep_spec [of P n m d m'] by simp

lemma cleanupSessions_inv:
  assumes inv: "store_inv s" and run: "cleanupExpiredAdminSessions now n s = (d, s')"
  shows "store_inv s'"
proof -
  obtain m where m: "sweep (\<lambda>x. as_expiresAt x \<le> now \<or> as_idleExpiresAt x \<le> now) n (st_adminSessions s) = (d, m)"
    "s' = s\<lparr>st_adminSessions := m\<rparr>"
    using run by (auto simp: cleanupExpiredAdminSessions_def split: prod.splits)
  have wf: "map_wf (st_adminSessions s)" using inv by (simp add: store_inv_def sessions_inv_def)
  show ?thesis unfolding m(2)
    by (rule store_inv_drop(1) [OF inv sweep_wf [OF wf m(1)] sweep_mget [OF wf m(1)]])
qed

lemma cleanupChallenges_inv:
  assumes inv: "store_inv s" and run: "cleanupExpiredWebAuthnChallenges now n s = (d, s')"
  shows "store_inv s'"
proof -
  obtain m where m: "sweep (\<lambda>c. ch_expiresAt c \<le> now) n (st_challenges s) = (d, m)"
    "s' = s\<lparr>st_challenges := m\<rparr>"
    using run by (auto simp: cleanupExpiredWebAuthnChallenges_def split: prod.splits)
  have wf: "map_wf (st_challenges s)" using inv by (simp add: store_inv_def challenges_inv_def)
  show ?thesis unfolding m(2)
    by (rule store_inv_drop(3) [OF inv sweep_wf [OF wf m(1)] sweep_mget [OF wf m(1)]])
qed

lemma createWebAuthnCredential_spec:
  assumes "createWebAuthnCredential now input s = Inr (Some c, s')"
  shows "normalizeWebAuthnCredential now input = Inr c"
    "mget (st_users s) (ukey (wc_realm c) (wc_userId c)) \<noteq> None"
    "mget (st_credentials s) (ukey (wc_realm c) (wc_id c)) = None"
    "s' = s\<lparr>st_credentials := mset' (ukey (wc_realm c) (wc_id c)) c (st_credentials s)\<rparr>"
    "wc_realm c = ci_realm input" "0 \<le> wc_counter c" "wc_counter c \<le> 0xffffffff"
  using assms
  by (auto simp: createWebAuthnCredential_def Let_def normalizeWebAuthnCredential_def split: if_splits)

lemma createWebAuthnCredential_inv:
  assumes inv: "store_inv s" and run: "createWebAuthnCredential now input s = Inr (res, s')"
    and "CHR '':'' \<notin> set (ci_realm input)"
  shows "store_inv s'"
proof (cases res)
  case None
  then show ?thesis using inv run by (auto simp: createWebAuthnCredential_def Let_def split: if_splits)
next
  case (Some c)
  note c = createWebAuthnCredential_spec [OF run [unfolded Some]]
  show ?thesis using store_inv_credential [OF inv, of c] c assms(3) by (simp add: has_user_def)
qed

lemma updateCounter_inv:
  assumes inv: "store_inv s" and run: "updateWebAuthnCredentialCounter now r cid e n dt b s = (ok, s')"
  shows "store_inv s'"
proof (cases ok)
  case False
  then show ?thesis using inv run
    by (auto simp: updateWebAuthnCredentialCounter_def Let_def split: option.splits if_splits)
next
  case True
  then obtain c where c: "mget (st_credentials s) (ukey r cid) = Some c" "\<not> counter_regresses e n"
    "s' = s\<lparr>st_credentials := mset' (ukey r cid) (c\<lparr>wc_counter := n, wc_deviceType := dt,
        wc_backedUp := b, wc_lastUsedAt := Some now, wc_updatedAt := now\<rparr>) (st_credentials s)\<rparr>"
    using run by (auto simp: updateWebAuthnCredentialCounter_def Let_def split: option.splits if_splits)
  have k: "ukey r cid = ukey (wc_realm c) (wc_id c)" "has_user s (wc_realm c) (wc_userId c)"
    using inv c(1) by (auto simp: store_inv_def credentials_inv_def)
  show ?thesis
    using store_inv_credential [OF inv, of "c\<lparr>wc_counter := n, wc_deviceType := dt,
        wc_backedUp := b, wc_lastUsedAt := Some now, wc_updatedAt := now\<rparr>"] k c(2)
    by (simp add: c(3) counter_regresses_def)
qed

lemma deleteCredential_inv:
  "store_inv s \<Longrightarrow> deleteWebAuthnCredential r i cid s = (res, s') \<Longrightarrow> store_inv s'"
  by (auto simp: deleteWebAuthnCredential_def Let_def split: option.splits if_splits)
     (rule store_inv_drop(2), auto simp: store_inv_def credentials_inv_def split: if_splits)

lemma createChallenge_inv:
  "store_inv s \<Longrightarrow> createWebAuthnChallenge now f r p ui iu uh c e s = (rec, s') \<Longrightarrow> CHR '':'' \<notin> set r \<Longrightarrow>
    store_inv s'"
  by (auto simp: createWebAuthnChallenge_def Let_def store_inv_def challenges_inv_def split: if_splits)

lemma consumeChallenge_inv:
  "store_inv s \<Longrightarrow> consumeWebAuthnChallenge now r i p ui iu s = (res, s') \<Longrightarrow> store_inv s'"
  by (auto simp: consumeWebAuthnChallenge_def Let_def split: option.splits if_splits)
     (rule store_inv_drop(3), auto simp: store_inv_def challenges_inv_def split: if_splits)

lemma writeAudit_inv: "store_inv s \<Longrightarrow> writeAudit isIP now f ev s = (rec, s') \<Longrightarrow> store_inv s'"
  by (auto simp: writeAudit_def Let_def store_inv_def)

end
