(* ===== verification/IdentityProps.thy ===== *)
theory IdentityProps
  imports IdentityFacts
begin

text \<open>
  The properties of the in-memory identity store: the invariant of every reachable store, the
  lookup of logins, the lock-out after failed logins, the single use of TOTP steps, recovery
  codes and WebAuthn challenges (instances of \<open>one_use\<close>), the monotone passkey counters, and
  what deletion and revocation take away.
\<close>

section \<open>Reachable stores\<close>

text \<open>
  Any method may be called at any moment, with any arguments whose realm is one of the
  configured names (they have no colon, \<open>realm_re_no_colon\<close>). The two restore methods are the
  exception: the data layer calls them with what it has read before, so an administrator grant
  is restored for an existing user, and a user under the key and the logins it had.
\<close>

inductive store_step :: "store \<Rightarrow> store \<Rightarrow> bool" where
  step_create: "createUser now f input s = Inr (u, s') \<Longrightarrow> CHR '':'' \<notin> set (i_realm input) \<Longrightarrow> store_step s s'"
| step_update: "updateUser now r i p s = Inr (res, s') \<Longrightarrow> CHR '':'' \<notin> set r \<Longrightarrow> store_step s s'"
| step_delete: "deleteUser r i s = (res, s') \<Longrightarrow> CHR '':'' \<notin> set r \<Longrightarrow> store_step s s'"
| step_restore: "restoreUser now f u s = (u', s') \<Longrightarrow> mget (st_users s) (ukey (u_realm u) (u_id u)) = Some w \<Longrightarrow>
    same_login w u \<Longrightarrow> store_step s s'"
| step_grant: "upsertAdminGrant now r i ps en s = Inr (g, s') \<Longrightarrow> CHR '':'' \<notin> set r \<Longrightarrow> store_step s s'"
| step_revoke: "revokeAdminGrant now r i s = Inr (g, s') \<Longrightarrow> CHR '':'' \<notin> set r \<Longrightarrow> store_step s s'"
| step_restore_grant: "restoreAdminGrant now g s = Inr (g', s') \<Longrightarrow> has_user s (g_realm g) (g_userId g) \<Longrightarrow>
    store_step s s'"
| step_session: "createAdminSession now si s = Inr (x, s') \<Longrightarrow> CHR '':'' \<notin> set (si_realm si) \<Longrightarrow> store_step s s'"
| step_touch: "touchAdminSession now d t s = (x, s') \<Longrightarrow> store_step s s'"
| step_logout: "deleteAdminSession d s = (ok, s') \<Longrightarrow> store_step s s'"
| step_sweep_sessions: "cleanupExpiredAdminSessions now n s = (d', s') \<Longrightarrow> store_step s s'"
| step_rehash: "rehashPasswordIfCurrent now r i e h s = (ok, s') \<Longrightarrow> store_step s s'"
| step_failure: "recordLoginFailure now r i s = s' \<Longrightarrow> store_step s s'"
| step_success: "recordLoginSuccess now r i s = s' \<Longrightarrow> store_step s s'"
| step_unlock: "unlockUser now r i s = (ou, s') \<Longrightarrow> store_step s s'"
| step_bump: "bumpSecurityVersion now r i s = (ou, s') \<Longrightarrow> store_step s s'"
| step_begin_totp: "beginTotpEnrollment now r i sec s = (ou, s') \<Longrightarrow> store_step s s'"
| step_confirm_totp: "confirmTotpEnrollment now r i ps as n codes s = (ok, s') \<Longrightarrow> store_step s s'"
| step_configure_totp: "configureTotp now r i so b co s = (ou, s') \<Longrightarrow> store_step s s'"
| step_totp: "consumeTotpStep now r i n s = (ok, s') \<Longrightarrow> store_step s s'"
| step_recovery: "consumeRecoveryCode now r i code s = (ok, s') \<Longrightarrow> store_step s s'"
| step_challenge: "createWebAuthnChallenge now f r pu ui iu uh c e s = (rec, s') \<Longrightarrow> CHR '':'' \<notin> set r \<Longrightarrow>
    store_step s s'"
| step_use_challenge: "consumeWebAuthnChallenge now r i pu ui iu s = (orec, s') \<Longrightarrow> store_step s s'"
| step_sweep_challenges: "cleanupExpiredWebAuthnChallenges now n s = (d', s') \<Longrightarrow> store_step s s'"
| step_passkey: "createWebAuthnCredential now ci s = Inr (oc, s') \<Longrightarrow> CHR '':'' \<notin> set (ci_realm ci) \<Longrightarrow> store_step s s'"
| step_counter: "updateWebAuthnCredentialCounter now r cid e n dt b s = (ok, s') \<Longrightarrow> store_step s s'"
| step_delete_passkey: "deleteWebAuthnCredential r i cid s = (oc, s') \<Longrightarrow> store_step s s'"
| step_audit: "writeAudit isIP now f ev s = (ar, s') \<Longrightarrow> store_step s s'"

inductive store_reach :: "store \<Rightarrow> bool" where
  reach_empty: "store_reach empty_store"
| reach_step: "store_reach s \<Longrightarrow> store_step s s' \<Longrightarrow> store_reach s'"

lemma restoreUser_inv:
  assumes inv: "store_inv s" and run: "restoreUser now f u s = (u', s')"
    and w: "mget (st_users s) (ukey (u_realm u) (u_id u)) = Some w" and same: "same_login w u"
  shows "store_inv s'"
proof -
  have "user_ok w" using users_keyD [OF inv w] by simp
  then have n: "same_login w (normalizeUser now f (user_as_input u))"
    using same by (simp add: normalizeUser_def user_as_input_def same_login_def user_ok_def)
  then have "u' = normalizeUser now f (user_as_input u)" "ukey (u_realm u') (u_id u') = ukey (u_realm u) (u_id u)"
    "s' = s\<lparr>st_users := mset' (ukey (u_realm u') (u_id u')) u' (st_users s)\<rparr>"
    using run same by (auto simp: restoreUser_def Let_def same_login_def)
  then show ?thesis using store_inv_modify [OF inv w] n by simp
qed

lemma deleteAdminSession_inv: "store_inv s \<Longrightarrow> deleteAdminSession d s = (ok, s') \<Longrightarrow> store_inv s'"
  by (auto simp: deleteAdminSession_def) (rule store_inv_drop(1),
      auto simp: store_inv_def sessions_inv_def split: if_splits)

lemma update_user_methods_inv:
  assumes "store_inv s"
  shows "rehashPasswordIfCurrent now r i e h s = (ok, s') \<Longrightarrow> store_inv s'"
    "store_inv (recordLoginFailure now r i s)" "store_inv (recordLoginSuccess now r i s)"
    "unlockUser now r i s = (ou, s') \<Longrightarrow> store_inv s'"
    "bumpSecurityVersion now r i s = (ou, s') \<Longrightarrow> store_inv s'"
    "beginTotpEnrollment now r i sec s = (ou, s') \<Longrightarrow> store_inv s'"
    "confirmTotpEnrollment now r i ps as n codes s = (ok, s') \<Longrightarrow> store_inv s'"
    "configureTotp now r i so b co s = (ou, s') \<Longrightarrow> store_inv s'"
    "consumeTotpStep now r i n s = (ok, s') \<Longrightarrow> store_inv s'"
    "consumeRecoveryCode now r i code s = (ok, s') \<Longrightarrow> store_inv s'"
  using update_user_inv [OF assms prod.collapse [symmetric] rows_same_login(2), where r = r and i = i]
    update_user_inv [OF assms prod.collapse [symmetric] rows_same_login(3), where r = r and i = i]
  by (auto simp: rehashPasswordIfCurrent_def recordLoginFailure_def recordLoginSuccess_def unlockUser_def
      bumpSecurityVersion_def beginTotpEnrollment_def confirmTotpEnrollment_def configureTotp_def
      consumeTotpStep_def consumeRecoveryCode_def same_login_def split: prod.splits
      elim!: update_user_inv [OF assms] dest: rows_same_login)

lemma store_step_inv: "store_step s s' \<Longrightarrow> store_inv s \<Longrightarrow> store_inv s'"
  by (induction rule: store_step.induct)
     (blast intro: createUser_inv updateUser_inv deleteUser_inv restoreUser_inv upsertAdminGrant_inv
       revokeAdminGrant_inv restoreAdminGrant_inv createAdminSession_inv touchAdminSession_inv
       deleteAdminSession_inv cleanupSessions_inv createChallenge_inv consumeChallenge_inv
       cleanupChallenges_inv createWebAuthnCredential_inv updateCounter_inv deleteCredential_inv
       writeAudit_inv update_user_methods_inv)+

lemma store_reach_inv: "store_reach s \<Longrightarrow> store_inv s"
  by (induction rule: store_reach.induct) (auto intro: empty_store_inv store_step_inv)

text \<open>A small store for the witnesses: one user, one administrator grant, one passkey.\<close>

definition demo_input :: user_input where
  "demo_input = \<lparr>i_id = Some ''u1'', i_realm = ''corp'', i_username = ''Ann'', i_email = '' Ann@x.io'',
     i_emailVerified = True, i_name = None, i_givenName = None, i_familyName = None, i_enabled = None,
     i_securityVersion = None, i_passwordHash = Some ''h'', i_roles = None, i_groups = None,
     i_clientRoles = None, i_totpSecret = None, i_totpConfirmed = False, i_pendingTotpSecret = None,
     i_pendingTotpCreatedAt = None, i_recoveryCodeHashes = Some [''c1'', ''c2''], i_lastTotpStep = None,
     i_failedAttempts = None, i_lockedUntil = None, i_createdAt = None, i_updatedAt = None,
     i_lastLoginAt = None\<rparr>"

definition demo_user :: user where "demo_user = normalizeUser 0 ''f'' demo_input"

definition demo_store1 :: store where
  "demo_store1 = empty_store\<lparr>st_users := [(''corp:u1'', demo_user)]\<rparr>"

lemmas demo_eval = normalizeUser_def demo_input_def js_defs js_uniq_def trim_or_def ukey_def

lemma demo_user_simps [simp]:
  "u_id demo_user = ''u1''" "u_realm demo_user = ''corp''" "u_username demo_user = ''Ann''"
  "u_email demo_user = ''ann@x.io''" "u_failedAttempts demo_user = 0" "u_lockedUntil demo_user = None"
  "u_lastTotpStep demo_user = None" "u_recoveryCodeHashes demo_user = [''c1'', ''c2'']"
  "u_enabled demo_user = True" "u_securityVersion demo_user = 0" "u_passwordHash demo_user = Some ''h''"
  by (simp_all add: demo_user_def demo_eval)

lemma demo_create: "createUser 0 ''f'' demo_input empty_store = Inr (demo_user, demo_store1)"
  by (simp add: createUser_def demo_user_def [symmetric] demo_store1_def empty_store_def mvals_def ukey_def)

lemma demo_reach: "store_reach demo_store1"
  using reach_step [OF reach_empty step_create [OF demo_create]] by (simp add: demo_input_def)

lemma demo_find [simp]: "findUserById ''corp'' ''u1'' demo_store1 = Some demo_user"
  by (simp add: findUserById_def demo_store1_def ukey_def)

section \<open>Identities\<close>

text \<open>C3: In every reachable store a login name belongs to one account. Two users of a realm who
  share a login (a username, compared without case, or an e-mail address) are the same user, and
  every administrator grant, administrator session and passkey belongs to an existing user of its
  realm, with known permissions and a counter that fits 32 bits; the audit log is bounded.\<close>

theorem identity_store_consistent:
  assumes "store_reach s"
  shows "(\<forall>k1 k2 u1 u2. mget (st_users s) k1 = Some u1 \<and> mget (st_users s) k2 = Some u2 \<and>
        u_realm u1 = u_realm u2 \<and> logins u1 \<inter> logins u2 \<noteq> {} \<longrightarrow> k1 = k2 \<and> u1 = u2) \<and>
    (\<forall>k g. mget (st_adminGrants s) k = Some g \<longrightarrow>
        findUserById (g_realm g) (g_userId g) s \<noteq> None \<and> valid_permissions (g_permissions g)) \<and>
    (\<forall>k x. mget (st_adminSessions s) k = Some x \<longrightarrow>
        findUserById (as_realm x) (as_userId x) s \<noteq> None) \<and>
    (\<forall>k c. mget (st_credentials s) k = Some c \<longrightarrow>
        findUserById (wc_realm c) (wc_userId c) s \<noteq> None \<and> 0 \<le> wc_counter c \<and> wc_counter c < 2 ^ 32) \<and>
    length (st_audit s) \<le> 10000"
proof -
  note inv = store_reach_inv [OF assms]
  have "k1 = k2 \<and> u1 = u2" if "mget (st_users s) k1 = Some u1" "mget (st_users s) k2 = Some u2"
      "u_realm u1 = u_realm u2" "logins u1 \<inter> logins u2 \<noteq> {}" for k1 k2 u1 u2
    using that inv by (cases "k1 = k2") (auto simp: store_inv_def logins_unique_def)
  moreover have "findUserById (g_realm g) (g_userId g) s \<noteq> None \<and> valid_permissions (g_permissions g)"
    if "mget (st_adminGrants s) k = Some g" for k g
    using that inv by (auto simp: store_inv_def grants_inv_def has_user_def findUserById_def)
  moreover have "findUserById (as_realm x) (as_userId x) s \<noteq> None"
    if "mget (st_adminSessions s) k = Some x" for k x
    using that inv by (auto simp: store_inv_def sessions_inv_def has_user_def findUserById_def)
  moreover have "findUserById (wc_realm c) (wc_userId c) s \<noteq> None \<and> 0 \<le> wc_counter c \<and> wc_counter c < 2 ^ 32"
    if "mget (st_credentials s) k = Some c" for k c
  proof -
    have "has_user s (wc_realm c) (wc_userId c)" "0 \<le> wc_counter c" "wc_counter c \<le> 0xffffffff"
      using that inv by (auto simp: store_inv_def credentials_inv_def)
    then show ?thesis by (simp add: has_user_def findUserById_def)
  qed
  ultimately show ?thesis using inv by (simp add: store_inv_def) metis
qed

lemma identity_store_consistent_witness:
  "store_reach demo_store1 \<and> findUserById ''corp'' ''u1'' demo_store1 = Some demo_user \<and>
   length (st_audit demo_store1) \<le> 10000"
  using identity_store_consistent [OF demo_reach] demo_reach by simp

text \<open>Looking a login up finds exactly the account that owns it: the result does not depend on
  the order in which the accounts were stored, nor on the case of or the blanks around the login.\<close>

theorem login_lookup_exact:
  assumes "store_reach s"
  shows "findUserByLogin realm login s = Some u \<longleftrightarrow>
    (\<exists>k. mget (st_users s) k = Some u) \<and> u_realm u = realm \<and> js_lower (js_trim login) \<in> logins u"
proof -
  note inv = store_reach_inv [OF assms]
  have wf: "map_wf (st_users s)" using inv by (simp add: store_inv_def users_inv_def)
  let ?P = "\<lambda>item. u_realm item = realm \<and> (js_lower (u_username item) = js_lower (js_trim login) \<or>
    u_email item = js_lower (js_trim login))"
  have P: "?P item \<longleftrightarrow> u_realm item = realm \<and> js_lower (js_trim login) \<in> logins item" for item
    by (auto simp: logins_def)
  have uniq: "v = w" if "v \<in> set (mvals (st_users s))" "w \<in> set (mvals (st_users s))" "?P v" "?P w" for v w
  proof -
    note vw = that
    obtain k l where m: "mget (st_users s) k = Some v" "mget (st_users s) l = Some w"
      using vw(1,2) set_mvals [OF wf] by auto
    have "k = l"
    proof (rule ccontr)
      assume "k \<noteq> l"
      then have "logins v \<inter> logins w = {}"
        using inv m vw(3,4) unfolding store_inv_def logins_unique_def by metis
      then show False using vw(3,4) P by blast
    qed
    then show ?thesis using m by simp
  qed
  have "find ?P (mvals (st_users s)) = Some u \<longleftrightarrow> u \<in> set (mvals (st_users s)) \<and> ?P u"
  proof
    assume "find ?P (mvals (st_users s)) = Some u"
    then show "u \<in> set (mvals (st_users s)) \<and> ?P u" by (rule find_SomeD)
  next
    assume u: "u \<in> set (mvals (st_users s)) \<and> ?P u"
    then obtain w where w: "find ?P (mvals (st_users s)) = Some w"
      by (cases "find ?P (mvals (st_users s))") (auto simp: find_None)
    then show "find ?P (mvals (st_users s)) = Some u"
      using find_SomeD [OF w] uniq u by metis
  qed
  then show ?thesis using P by (simp add: findUserByLogin_def Let_def set_mvals [OF wf])
qed

lemma login_lookup_exact_witness:
  "findUserByLogin ''corp'' '' ANN@X.io '' demo_store1 = Some demo_user"
proof -
  have "mget (st_users demo_store1) ''corp:u1'' = Some demo_user" by (simp add: demo_store1_def)
  moreover have "js_lower (js_trim '' ANN@X.io '') \<in> logins demo_user" by (simp add: logins_def js_defs)
  ultimately show ?thesis using login_lookup_exact [OF demo_reach] by auto
qed

text \<open>\<open>createUser\<close> succeeds exactly when neither the identifier nor a login of the new account
  is taken in its realm; then the account is found by its identifier, its username and its
  e-mail, and every other account is as before.\<close>

theorem createUser_exact:
  assumes "store_reach s" and "CHR '':'' \<notin> set (i_realm input)"
  shows "case createUser now fresh input s of
      Inr (u, s') \<Rightarrow> u = normalizeUser now fresh input \<and> findUserById (u_realm u) (u_id u) s' = Some u \<and>
        findUserByLogin (u_realm u) (i_username input) s' = Some u \<and>
        findUserByLogin (u_realm u) (i_email input) s' = Some u \<and>
        (\<forall>k. k \<noteq> ukey (u_realm u) (u_id u) \<longrightarrow> mget (st_users s') k = mget (st_users s) k)
    | Inl e \<Rightarrow> e = USER_EXISTS \<and> (let u = normalizeUser now fresh input in
        findUserById (u_realm u) (u_id u) s \<noteq> None \<or>
        (\<exists>l \<in> logins u. \<exists>w. findUserByLogin (u_realm u) l s = Some w))"
proof (cases "createUser now fresh input s")
  case (Inr us)
  obtain u s' where us: "us = (u, s')" by fastforce
  note run = Inr [unfolded us]
  have r': "store_reach s'" using reach_step [OF assms(1) step_create [OF run assms(2)]] .
  note c = createUser_cases [OF run]
  have at: "mget (st_users s') (ukey (u_realm u) (u_id u)) = Some u" by (simp add: c(3))
  have l: "js_lower (js_trim (i_username input)) \<in> logins u" "js_lower (js_trim (i_email input)) \<in> logins u"
    by (simp_all add: c(1) normalizeUser_def logins_def)
  have find: "\<And>l. js_lower (js_trim l) \<in> logins u \<Longrightarrow> findUserByLogin (u_realm u) l s' = Some u"
  proof -
    fix l assume l: "js_lower (js_trim l) \<in> logins u"
    note inv = store_reach_inv [OF r']
    have wf: "map_wf (st_users s')" using inv by (simp add: store_inv_def users_inv_def)
    obtain w where w: "findUserByLogin (u_realm u) l s' = Some w"
      using l mget_in_mvals [OF at]
      by (cases "findUserByLogin (u_realm u) l s'") (auto simp: findUserByLogin_def Let_def find_None logins_def)
    then have "w \<in> set (mvals (st_users s'))" "u_realm w = u_realm u" "js_lower (js_trim l) \<in> logins w"
      using find_SomeD [OF w [unfolded findUserByLogin_def Let_def]] by (auto simp: logins_def)
    moreover from this obtain k where k: "mget (st_users s') k = Some w" using set_mvals [OF wf] by auto
    ultimately have "k = ukey (u_realm u) (u_id u)"
      using inv at l unfolding store_inv_def logins_unique_def by (metis disjoint_iff)
    then show "findUserByLogin (u_realm u) l s' = Some u" using k at w by simp
  qed
  have "\<forall>k. k \<noteq> ukey (u_realm u) (u_id u) \<longrightarrow> mget (st_users s') k = mget (st_users s) k" by (simp add: c(3))
  then show ?thesis using c(1) at find [OF l(1)] find [OF l(2)] by (simp add: Inr us findUserById_def)
next
  case (Inl e)
  let ?u = "normalizeUser now fresh input"
  have "e = USER_EXISTS" using Inl by (auto simp: createUser_def Let_def split: if_splits option.splits)
  moreover have "findUserById (u_realm ?u) (u_id ?u) s \<noteq> None \<or>
      (\<exists>l \<in> logins ?u. \<exists>w. findUserByLogin (u_realm ?u) l s = Some w)"
  proof (cases "mget (st_users s) (ukey (u_realm ?u) (u_id ?u))")
    case None
    then obtain item where "item \<in> set (mvals (st_users s))" "u_realm item = u_realm ?u"
        "logins item \<inter> logins ?u \<noteq> {}"
      using Inl by (auto simp: createUser_def Let_def logins_def split: if_splits option.splits dest!: find_SomeD)
    then obtain l where l: "l \<in> logins ?u" "l \<in> logins item" and item: "item \<in> set (mvals (st_users s))"
      "u_realm item = u_realm ?u" by blast
    have "js_lower (js_trim l) = l"
      using l(1) by (auto simp: logins_def normalizeUser_def js_trim_js_lower)
    then have "findUserByLogin (u_realm ?u) l s \<noteq> None"
      using item l(2) by (auto simp: findUserByLogin_def Let_def find_None logins_def)
    then show ?thesis using l(1) by blast
  qed (simp add: findUserById_def)
  ultimately show ?thesis by (simp add: Inl Let_def)
qed

lemma createUser_exact_witness:
  "findUserByLogin ''corp'' '' Ann@x.io'' demo_store1 = Some demo_user"
  using createUser_exact [OF reach_empty, of demo_input 0 "''f''"]
  by (simp add: demo_create) (simp add: demo_input_def)

end
