(* ===== verification/CredentialProps.thy ===== *)
theory CredentialProps
  imports IdentityProps
begin

text \<open>
  Credentials in the identity store: the lock-out after five failed logins, the one-use contract
  (\<open>one_use\<close>) of TOTP steps, recovery codes and WebAuthn challenges, the monotone signature
  counters of passkeys, and what deleting an account or revoking a grant takes away.
\<close>

section \<open>Updating one user\<close>

lemma findUserById_update:
  "findUserById r i (s\<lparr>st_users := mset' (ukey r i) u (st_users s)\<rparr>) = Some u"
  by (simp add: findUserById_def)

text \<open>\<open>update_user\<close> seen through \<open>findUserById\<close>.\<close>

lemma update_user_find:
  "findUserById r i (snd (update_user r i f s)) =
     (case findUserById r i s of None \<Rightarrow> None | Some u \<Rightarrow> (case f u of None \<Rightarrow> Some u | Some u' \<Rightarrow> Some u'))"
  "fst (update_user r i f s) = (case findUserById r i s of None \<Rightarrow> None | Some u \<Rightarrow> f u)"
  by (simp_all add: update_user_def findUserById_def split: option.splits)

lemma update_user_other:
  "k \<noteq> ukey r i \<Longrightarrow> mget (st_users (snd (update_user r i f s))) k = mget (st_users s) k"
  by (simp add: update_user_def split: option.splits)

section \<open>Failed logins\<close>

lemma loginFailure_find:
  "findUserById r i (recordLoginFailure now r i s) =
     (case findUserById r i s of None \<Rightarrow> None
      | Some u \<Rightarrow> (case loginFailure_row now u of None \<Rightarrow> Some u | Some u' \<Rightarrow> Some u'))"
  by (simp add: recordLoginFailure_def update_user_find)

definition failures :: "string \<Rightarrow> string \<Rightarrow> int list \<Rightarrow> store \<Rightarrow> store" where
  "failures r i ts s = foldl (\<lambda>s t. recordLoginFailure t r i s) s ts"

lemma failures_count:
  assumes "findUserById r i s = Some u" and "u_lockedUntil u = None" and "0 \<le> u_failedAttempts u"
    and "u_failedAttempts u + int (length ts) < 5"
  shows "\<exists>u'. findUserById r i (failures r i ts s) = Some u' \<and> u_lockedUntil u' = None \<and>
    u_failedAttempts u' = u_failedAttempts u + int (length ts)"
  using assms
proof (induction ts arbitrary: s u)
  case (Cons t ts)
  let ?u = "u\<lparr>u_failedAttempts := u_failedAttempts u + 1, u_lockedUntil := None, u_updatedAt := t\<rparr>"
  have "findUserById r i (recordLoginFailure t r i s) = Some ?u"
    using Cons.prems by (simp add: loginFailure_find loginFailure_row_def Let_def)
  from Cons.IH [OF this] Cons.prems show ?case by (simp add: failures_def algebra_simps)
qed (simp add: failures_def)

text \<open>C4: The lock-out. Starting from an unlocked account with no failures, fewer than five failed
  logins do not lock it; the fifth locks it for fifteen minutes. While it is locked further
  failures change nothing (they do not extend the lock); the first failure after the lock
  starts a new count and does not lock again. A successful login resets everything.\<close>

theorem login_lockout:
  assumes "findUserById r i s = Some u" and "u_lockedUntil u = None" and "u_failedAttempts u = 0"
    and "length ts = 4"
  shows "let s5 = recordLoginFailure t r i (failures r i ts s); until = t + 15 * 60000 in
    (\<forall>n \<le> 4. \<exists>v. findUserById r i (failures r i (take n ts) s) = Some v \<and>
       u_lockedUntil v = None \<and> u_failedAttempts v = int n) \<and>
    (\<exists>v. findUserById r i s5 = Some v \<and> u_lockedUntil v = Some until \<and> u_failedAttempts v = 5) \<and>
    (\<forall>ts'. (\<forall>t'\<in>set ts'. t' < until) \<longrightarrow> failures r i ts' s5 = s5) \<and>
    (\<forall>t' \<ge> until. \<exists>v. findUserById r i (recordLoginFailure t' r i s5) = Some v \<and>
       u_lockedUntil v = None \<and> u_failedAttempts v = 1) \<and>
    (\<forall>t'. \<exists>v. findUserById r i (recordLoginSuccess t' r i s5) = Some v \<and>
       u_lockedUntil v = None \<and> u_failedAttempts v = 0)"
proof -
  define until where "until = t + 15 * 60000"
  define s5 where "s5 = recordLoginFailure t r i (failures r i ts s)"
  have few: "\<exists>v. findUserById r i (failures r i (take n ts) s) = Some v \<and> u_lockedUntil v = None \<and>
      u_failedAttempts v = int n" if "n \<le> 4" for n
    using failures_count [OF assms(1,2), of "take n ts"] assms(3,4) that by (simp add: min_def)
  obtain v4 where v4: "findUserById r i (failures r i ts s) = Some v4" "u_lockedUntil v4 = None"
      "u_failedAttempts v4 = 4" using few [of 4] assms(4) by auto
  define v5 where "v5 = v4\<lparr>u_failedAttempts := 5, u_lockedUntil := Some until, u_updatedAt := t\<rparr>"
  have v5: "findUserById r i s5 = Some v5" "u_lockedUntil v5 = Some until" "u_failedAttempts v5 = 5"
    using v4 by (simp_all add: s5_def loginFailure_find loginFailure_row_def until_def v5_def)
  have "recordLoginFailure t' r i s5 = s5" if "t' < until" for t'
    using v5 that by (simp add: recordLoginFailure_def update_user_def findUserById_def loginFailure_row_def)
  then have locked: "failures r i ts' s5 = s5" if "\<forall>t'\<in>set ts'. t' < until" for ts'
    using that by (induction ts') (auto simp: failures_def)
  have after: "\<exists>v. findUserById r i (recordLoginFailure t' r i s5) = Some v \<and>
      u_lockedUntil v = None \<and> u_failedAttempts v = 1" if "until \<le> t'" for t'
    using v5 that by (simp add: loginFailure_find loginFailure_row_def)
  have ok: "\<exists>v. findUserById r i (recordLoginSuccess t' r i s5) = Some v \<and>
      u_lockedUntil v = None \<and> u_failedAttempts v = 0" for t'
    using v5 by (simp add: recordLoginSuccess_def update_user_find loginSuccess_row_def)
  show ?thesis unfolding Let_def s5_def [symmetric] until_def [symmetric]
    using few v5 locked after ok by blast
qed

lemma login_lockout_witness:
  "\<exists>v. findUserById ''corp'' ''u1'' (recordLoginFailure 50 ''corp'' ''u1''
     (failures ''corp'' ''u1'' [10, 20, 30, 40] demo_store1)) = Some v \<and> u_lockedUntil v = Some 900050"
  using login_lockout [of "''corp''" "''u1''" demo_store1 demo_user "[10, 20, 30, 40]" 50]
  by (auto simp: Let_def)

section \<open>Single use\<close>

definition use_totp :: "string \<Rightarrow> string \<Rightarrow> int \<Rightarrow> int \<Rightarrow> store \<Rightarrow> bool \<times> store" where
  "use_totp r i now step = consumeTotpStep now r i step"

definition totp_fresh :: "string \<Rightarrow> string \<Rightarrow> int \<Rightarrow> store \<Rightarrow> bool" where
  "totp_fresh r i step s \<longleftrightarrow> (case findUserById r i s of None \<Rightarrow> False
     | Some u \<Rightarrow> (case u_lastTotpStep u of None \<Rightarrow> True | Some l \<Rightarrow> l < step))"

lemma use_totp_cases:
  assumes "use_totp r i now step s = (ok, s')"
  obtains "ok" "totp_fresh r i step s" "\<And>k. totp_fresh r i k s' \<longleftrightarrow> step < k"
    | "\<not> ok" "s' = s"
proof (cases "findUserById r i s")
  case None
  then show ?thesis using that(2) assms
    by (auto simp: use_totp_def consumeTotpStep_def update_user_def findUserById_def)
next
  case (Some u)
  show ?thesis
  proof (cases "totpStep_row now step u")
    case None
    then show ?thesis using that(2) assms Some
      by (auto simp: use_totp_def consumeTotpStep_def update_user_def findUserById_def)
  next
    case (Some u')
    have "ok" "s' = s\<lparr>st_users := mset' (ukey r i) u' (st_users s)\<rparr>"
      using assms Some \<open>findUserById r i s = Some u\<close>
      by (auto simp: use_totp_def consumeTotpStep_def update_user_def findUserById_def)
    moreover have "u_lastTotpStep u' = Some step" "totp_fresh r i step s"
      using Some \<open>findUserById r i s = Some u\<close>
      by (auto simp: totpStep_row_def totp_fresh_def split: if_splits option.splits)
    ultimately show ?thesis using that(1) by (simp add: totp_fresh_def findUserById_update)
  qed
qed

interpretation totp: one_use "use_totp r i" "totp_fresh r i" "\<lambda>s. True" for r i
proof (standard, goal_cases)
  case (3 s e k ok s' k')
  show ?case using 3(2) by (rule use_totp_cases) (use 3(3) in \<open>auto simp: totp_fresh_def split: option.splits\<close>)
qed (auto elim: use_totp_cases)

text \<open>A TOTP code is accepted once. In any sequence of attempts, at any times, the accepted
  time steps are strictly increasing and newer than the last step used before; no step, and no
  older step, is accepted again.\<close>

theorem totp_steps_increase:
  assumes "attempts (use_totp r i) tries s = (used, s')"
  shows "sorted_wrt (<) used \<and> (\<forall>u l. findUserById r i s = Some u \<and> u_lastTotpStep u = Some l \<longrightarrow> (\<forall>k\<in>set used. l < k))"
  using assms
proof (induction tries arbitrary: s used)
  case (Cons ek tries)
  obtain e k where ek: "ek = (e, k)" by fastforce
  obtain ok s1 where c: "use_totp r i e k s = (ok, s1)" by fastforce
  obtain used1 where a: "attempts (use_totp r i) tries s1 = (used1, s')" "used = (if ok then k # used1 else used1)"
    using Cons.prems by (auto simp: ek c split: prod.splits)
  show ?case
    using c
  proof (cases rule: use_totp_cases)
    case 1
    have "totp_fresh r i k' s1" if "k' \<in> set used1" for k' using totp.attempts_fresh [OF _ a(1) that] by simp
    then have "\<forall>k'\<in>set used1. k < k'" using 1(3) by blast
    then show ?thesis using 1 a(2) Cons.IH [OF a(1)] by (auto simp: totp_fresh_def)
  next
    case 2
    then have "used = used1" "s1 = s" using a(2) by simp_all
    then show ?thesis using Cons.IH [OF a(1)] by metis
  qed
qed simp

lemma totp_steps_increase_witness:
  "fst (attempts (use_totp ''corp'' ''u1'') [(1, 7), (2, 7), (3, 6), (4, 9)] demo_store1) = [7, 9] \<and>
   sorted_wrt (<) [7, 9 :: int]"
proof -
  have a: "fst (attempts (use_totp ''corp'' ''u1'') [(1, 7), (2, 7), (3, 6), (4, 9)] demo_store1) = [7, 9]"
    by (simp add: use_totp_def consumeTotpStep_def update_user_def totpStep_row_def demo_store1_def
        ukey_def safe_integer_def)
  show ?thesis
    using totp_steps_increase [of "''corp''" "''u1''" "[(1, 7), (2, 7), (3, 6), (4, 9)]" demo_store1] a
    by (metis prod.collapse)
qed

definition use_code :: "string \<Rightarrow> string \<Rightarrow> int \<Rightarrow> string \<Rightarrow> store \<Rightarrow> bool \<times> store" where
  "use_code r i now digest = consumeRecoveryCode now r i digest"

definition codes_of :: "string \<Rightarrow> string \<Rightarrow> store \<Rightarrow> string list" where
  "codes_of r i s = (case findUserById r i s of None \<Rightarrow> [] | Some u \<Rightarrow> u_recoveryCodeHashes u)"

lemma use_code_codes:
  assumes "use_code r i now d s = (ok, s')"
  shows "ok \<longleftrightarrow> d \<in> set (codes_of r i s)" "codes_of r i s' = remove1 d (codes_of r i s)"
  using assms
  by (auto simp: use_code_def consumeRecoveryCode_def update_user_def codes_of_def findUserById_def
      recoveryCode_row_def remove1_idem split: option.splits if_splits)

interpretation recovery: one_use "use_code r i" "\<lambda>d s. d \<in> set (codes_of r i s)" "\<lambda>s. distinct (codes_of r i s)"
  for r i
proof (standard, goal_cases)
  case (3 s e k ok s' k')
  then show ?case using use_code_codes [OF 3(2)] notin_set_remove1 by metis
qed (auto dest: use_code_codes)

text \<open>Recovery codes. In any sequence of attempts the accepted codes are distinct, were all
  stored for the account, and exactly the others remain; a code that was not stored or was used
  is never accepted.\<close>

theorem recovery_codes_single_use:
  assumes "distinct (codes_of r i s)" and "attempts (use_code r i) tries s = (used, s')"
  shows "distinct used \<and> set used \<subseteq> set (codes_of r i s) \<and>
    set (codes_of r i s') = set (codes_of r i s) - set used \<and>
    set used = set (codes_of r i s) \<inter> snd ` set tries"
proof -
  have "set (codes_of r i s') = set (codes_of r i s) - set used \<and>
      set used = set (codes_of r i s) \<inter> snd ` set tries"
    using assms
  proof (induction tries arbitrary: s used)
    case (Cons ek tries)
    obtain e k where ek: "ek = (e, k)" by fastforce
    obtain ok s1 where c: "use_code r i e k s = (ok, s1)" by fastforce
    obtain used1 where a: "attempts (use_code r i) tries s1 = (used1, s')" "used = (if ok then k # used1 else used1)"
      using Cons.prems(2) by (auto simp: ek c split: prod.splits)
    note u = use_code_codes [OF c]
    have "distinct (codes_of r i s1)" using u(2) Cons.prems(1) by simp
    from Cons.IH [OF this a(1)] show ?case
      using u Cons.prems(1) a(2) by (auto simp: ek)
  qed simp
  then show ?thesis using recovery.attempts_distinct [OF assms] by blast
qed

lemma recovery_codes_single_use_witness:
  "set (fst (attempts (use_code ''corp'' ''u1'') [(1, ''c2''), (2, ''zz''), (3, ''c2'')] demo_store1)) = {''c2''}"
  using recovery_codes_single_use [of "''corp''" "''u1''" demo_store1 "[(1, ''c2''), (2, ''zz''), (3, ''c2'')]",
    OF _ prod.collapse [symmetric]]
  by (auto simp: codes_of_def)

text \<open>The environment of a challenge: the clock, the purpose, the user and the interaction.\<close>

type_synonym challenge_use = "int \<times> string \<times> string option \<times> string option"

definition use_challenge :: "challenge_use \<Rightarrow> string \<times> string \<Rightarrow> store \<Rightarrow> bool \<times> store" where
  "use_challenge e k s = (case (e, k) of ((now, purpose, ui, iu), (r, i)) \<Rightarrow>
     let (c, s') = consumeWebAuthnChallenge now r i purpose ui iu s in (c \<noteq> None, s'))"

definition challenge_open :: "string \<times> string \<Rightarrow> store \<Rightarrow> bool" where
  "challenge_open k s \<longleftrightarrow> mget (st_challenges s) (ukey (fst k) (snd k)) \<noteq> None"

lemma consumeChallenge_cases:
  assumes "consumeWebAuthnChallenge now r i p ui iu s = (res, s')"
  obtains c where "res = Some c" "mget (st_challenges s) (ukey r i) = Some c" "ch_purpose c = p"
      "ch_userId c = ui" "ch_interactionUid c = iu" "now < ch_expiresAt c"
      "s' = s\<lparr>st_challenges := mdel (ukey r i) (st_challenges s)\<rparr>"
    | "res = None" "s' = s"
proof (cases "mget (st_challenges s) (ukey r i)")
  case None
  then show ?thesis using assms that(2) by (simp add: consumeWebAuthnChallenge_def)
next
  case (Some c)
  then show ?thesis using assms that(1) [OF _ Some] that(2)
    by (auto simp: consumeWebAuthnChallenge_def Let_def not_le split: if_splits)
qed

interpretation challenge: one_use use_challenge challenge_open "\<lambda>s. True"
proof (standard, goal_cases)
  case (1 s e k s')
  then show ?case
    by (auto simp: use_challenge_def challenge_open_def split: prod.splits elim: consumeChallenge_cases)
next
  case (2 s e k s')
  then show ?case
    by (auto simp: use_challenge_def challenge_open_def split: prod.splits elim!: consumeChallenge_cases)
next
  case (3 s e k ok s' k')
  then show ?case
    by (auto simp: use_challenge_def challenge_open_def split: prod.splits if_splits elim!: consumeChallenge_cases)
qed simp

text \<open>A WebAuthn challenge answers one ceremony. Consuming it gives the stored challenge only to
  the purpose, user and interaction it was issued for and before it expires, and in any sequence
  of attempts (right or wrong) it is given out at most once.\<close>

theorem webauthn_challenge_single_use:
  "(\<forall>c s'. consumeWebAuthnChallenge now r i purpose ui iu s = (Some c, s') \<longrightarrow>
      ch_purpose c = purpose \<and> ch_userId c = ui \<and> ch_interactionUid c = iu \<and> now < ch_expiresAt c \<and>
      mget (st_challenges s) (ukey r i) = Some c) \<and>
   distinct (fst (attempts use_challenge tries s))"
  using challenge.attempts_distinct [where s = s and eks = tries, OF _ prod.collapse [symmetric]]
  by (auto elim: consumeChallenge_cases)

definition demo_challenge :: store where
  "demo_challenge = snd (createWebAuthnChallenge 0 ''c'' ''corp'' ''login'' None (Some ''x'') None ''abc'' 100 demo_store1)"

lemma webauthn_challenge_single_use_witness:
  "fst (attempts use_challenge [((1, ''register'', None, Some ''x''), (''corp'', ''c'')),
      ((2, ''login'', None, Some ''x''), (''corp'', ''c'')), ((3, ''login'', None, Some ''x''), (''corp'', ''c''))] demo_challenge)
     = [(''corp'', ''c'')] \<and> distinct [(''corp'', ''c'')]"
proof -
  have e: "fst (attempts use_challenge [((1, ''register'', None, Some ''x''), (''corp'', ''c'')),
      ((2, ''login'', None, Some ''x''), (''corp'', ''c'')), ((3, ''login'', None, Some ''x''), (''corp'', ''c''))] demo_challenge)
     = [(''corp'', ''c'')]"
    by (simp add: use_challenge_def consumeWebAuthnChallenge_def demo_challenge_def createWebAuthnChallenge_def
        demo_store1_def empty_store_def ukey_def Let_def)
  have "distinct (fst (attempts use_challenge [((1, ''register'', None, Some ''x''), (''corp'', ''c'')),
      ((2, ''login'', None, Some ''x''), (''corp'', ''c'')), ((3, ''login'', None, Some ''x''), (''corp'', ''c''))] demo_challenge))"
    by (rule conjunct2 [OF webauthn_challenge_single_use])
  then show ?thesis using e by simp
qed

section \<open>Signature counters\<close>

record counter_claim =
  cc_realm :: string
  cc_credential :: string
  cc_expected :: int
  cc_new :: int
  cc_deviceType :: string
  cc_backedUp :: bool

definition counter_at :: "string \<Rightarrow> string \<Rightarrow> store \<Rightarrow> int option" where
  "counter_at r cid s = map_option wc_counter (findWebAuthnCredential r cid s)"

fun counter_updates :: "(int \<times> counter_claim) list \<Rightarrow> store \<Rightarrow> (bool \<times> counter_claim) list \<times> store" where
  "counter_updates [] s = ([], s)"
| "counter_updates ((now, c) # cs) s =
     (let (ok, s1) = updateWebAuthnCredentialCounter now (cc_realm c) (cc_credential c) (cc_expected c) (cc_new c)
            (cc_deviceType c) (cc_backedUp c) s;
          (rs, s2) = counter_updates cs s1
      in ((ok, c) # rs, s2))"

lemma updateCounter_counter:
  assumes "updateWebAuthnCredentialCounter now r cid e n dt b s = (ok, s')"
  shows "if ok then counter_at r cid s = Some e \<and> counter_at r cid s' = Some n \<and> \<not> counter_regresses e n \<and>
      (\<forall>k. k \<noteq> ukey r cid \<longrightarrow> mget (st_credentials s') k = mget (st_credentials s) k)
    else s' = s"
  using assms
  by (auto simp: updateWebAuthnCredentialCounter_def Let_def counter_at_def findWebAuthnCredential_def
      split: option.splits if_splits)

lemma counter_updates_mono:
  assumes "counter_updates cs s = (rs, s')" and "counter_at r cid s = Some m"
  shows "\<exists>m'. counter_at r cid s' = Some m' \<and> (m' = m \<or> 0 \<le> m \<and> m < m') \<or> m < 0"
  using assms
proof (induction cs arbitrary: s rs m)
  case (Cons nc cs)
  obtain now c where nc: "nc = (now, c)" by fastforce
  obtain ok s1 where u: "updateWebAuthnCredentialCounter now (cc_realm c) (cc_credential c) (cc_expected c)
      (cc_new c) (cc_deviceType c) (cc_backedUp c) s = (ok, s1)" by fastforce
  obtain rs1 where a: "counter_updates cs s1 = (rs1, s')"
    using Cons.prems(1) by (auto simp: nc u split: prod.splits)
  have step: "\<exists>m1. counter_at r cid s1 = Some m1 \<and> (m1 = m \<or> 0 \<le> m \<and> m < m1 \<or> m < 0)"
  proof (cases "ok \<and> ukey r cid = ukey (cc_realm c) (cc_credential c)")
    case True
    then show ?thesis using updateCounter_counter [OF u] Cons.prems(2)
      by (auto simp: counter_at_def findWebAuthnCredential_def counter_regresses_def)
  next
    case False
    then have "counter_at r cid s1 = counter_at r cid s"
      using updateCounter_counter [OF u]
      by (auto simp: counter_at_def findWebAuthnCredential_def split: if_splits)
    then show ?thesis using Cons.prems(2) by simp
  qed
  then obtain m1 where m1: "counter_at r cid s1 = Some m1" "m1 = m \<or> 0 \<le> m \<and> m < m1 \<or> m < 0" by blast
  show ?case using Cons.IH [OF a m1(1)] m1(2) by auto
qed simp

text \<open>Passkey counters detect clones. An update is accepted only if it names the stored counter
  and moves it forward (or both are zero, for authenticators without a counter); over any
  sequence of updates a stored counter never decreases, so that once a counter has been
  accepted, an authenticator presenting the same or a smaller non-zero one is rejected.\<close>

theorem passkey_counter_monotone:
  assumes "store_reach s" and "counter_updates cs s = (rs, s1)" and "counter_at r cid s = Some m"
  shows "(\<exists>m1 \<ge> m. counter_at r cid s1 = Some m1 \<and>
      (\<forall>now e n dt b. 0 < m1 \<and> n \<le> m \<longrightarrow>
         updateWebAuthnCredentialCounter now r cid e n dt b s1 = (False, s1)))"
proof -
  have nn: "0 \<le> m"
    using store_reach_inv [OF assms(1)] assms(3)
    by (auto simp: store_inv_def credentials_inv_def counter_at_def findWebAuthnCredential_def)
  then obtain m1 where m1: "counter_at r cid s1 = Some m1" "m \<le> m1"
    using counter_updates_mono [OF assms(2,3)] by auto
  moreover have "updateWebAuthnCredentialCounter now r cid e n dt b s1 = (False, s1)"
    if "0 < m1" "n \<le> m" for now e n dt b
  proof -
    obtain c where c: "mget (st_credentials s1) (ukey r cid) = Some c" "wc_counter c = m1"
      using m1(1) by (auto simp: counter_at_def findWebAuthnCredential_def)
    have "e = m1 \<Longrightarrow> counter_regresses e n" using that m1(2) by (simp add: counter_regresses_def)
    then show ?thesis using c by (auto simp: updateWebAuthnCredentialCounter_def)
  qed
  ultimately show ?thesis by blast
qed

definition demo_cred_input :: credential_input where
  "demo_cred_input = \<lparr>ci_realm = ''corp'', ci_userId = ''u1'', ci_id = ''k'', ci_userHandle = ''hh'',
     ci_publicKey = ''pk'', ci_counter = Some 5, ci_transports = None, ci_deviceType = ''singleDevice'',
     ci_backedUp = False, ci_aaguid = ''a'', ci_name = None, ci_createdAt = None, ci_updatedAt = None,
     ci_lastUsedAt = None\<rparr>"

definition demo_passkey :: store where
  "demo_passkey = snd (projr (createWebAuthnCredential 0 demo_cred_input demo_store1))"

lemma demo_passkey_run: "\<exists>c. createWebAuthnCredential 0 demo_cred_input demo_store1 = Inr (Some c, demo_passkey) \<and>
    counter_at ''corp'' ''k'' demo_passkey = Some 5"
  by (simp add: demo_passkey_def createWebAuthnCredential_def normalizeWebAuthnCredential_def demo_cred_input_def
      demo_store1_def safe_integer_def empty_store_def ukey_def counter_at_def findWebAuthnCredential_def)

lemma passkey_counter_monotone_witness:
  "counter_at ''corp'' ''k'' demo_passkey = Some 5 \<and>
   (\<exists>s1. snd (counter_updates [(1, \<lparr>cc_realm = ''corp'', cc_credential = ''k'', cc_expected = 5, cc_new = 9,
     cc_deviceType = ''d'', cc_backedUp = False\<rparr>)] demo_passkey) = s1 \<and>
     (\<exists>m1 \<ge> 5. counter_at ''corp'' ''k'' s1 = Some m1))"
proof -
  obtain c where c: "createWebAuthnCredential 0 demo_cred_input demo_store1 = Inr (Some c, demo_passkey)"
    "counter_at ''corp'' ''k'' demo_passkey = Some 5" using demo_passkey_run by blast
  have r: "store_reach demo_passkey"
    using reach_step [OF demo_reach step_passkey [OF c(1)]] by (simp add: demo_cred_input_def)
  show ?thesis
    using passkey_counter_monotone [OF r prod.collapse [symmetric] c(2)] c(2) by blast
qed

section \<open>Deletion and revocation\<close>

text \<open>Deleting an account removes everything the store keeps for it (its grant, sessions,
  passkeys and pending ceremonies), and nothing of any other account.\<close>

theorem deleteUser_cascades:
  assumes "store_reach s" and "CHR '':'' \<notin> set r" and "findUserById r i s = Some u"
  shows "\<exists>s'. deleteUser r i s = (Some u, s') \<and> findUserById r i s' = None \<and>
    findAdminGrant r i s' = None \<and> listWebAuthnCredentials r i s' = [] \<and>
    (\<forall>l. findUserByLogin r l s' \<noteq> Some u) \<and>
    (\<forall>d x. findAdminSession d s' = Some x \<longleftrightarrow>
       findAdminSession d s = Some x \<and> \<not> (as_realm x = r \<and> as_userId x = i)) \<and>
    (\<forall>k c. mget (st_challenges s') k = Some c \<longleftrightarrow>
       mget (st_challenges s) k = Some c \<and> \<not> (ch_realm c = r \<and> ch_userId c = Some i)) \<and>
    (\<forall>r' i'. CHR '':'' \<notin> set r' \<and> (r', i') \<noteq> (r, i) \<longrightarrow>
       findUserById r' i' s' = findUserById r' i' s \<and> findAdminGrant r' i' s' = findAdminGrant r' i' s \<and>
       listWebAuthnCredentials r' i' s' = listWebAuthnCredentials r' i' s)"
proof -
  note inv = store_reach_inv [OF assms(1)]
  obtain s' where run: "deleteUser r i s = (Some u, s')"
    using assms(3) by (auto simp: deleteUser_def findUserById_def Let_def)
  note f = deleteUser_fields [OF run]
  have wfs: "map_wf (st_adminSessions s)" "map_wf (st_challenges s)" "map_wf (st_users s)"
    using inv by (auto simp: store_inv_def sessions_inv_def challenges_inv_def users_inv_def)
  have none: "\<not> (findUserByLogin r l s' = Some u)" for l
  proof
    assume "findUserByLogin r l s' = Some u"
    then have "u \<in> set (mvals (st_users s'))"
      by (auto simp: findUserByLogin_def Let_def dest: find_SomeD)
    then obtain k where "mget (st_users s') k = Some u" using set_mvals [of "st_users s'"] wfs(3) by (auto simp: f(2))
    then have "k \<noteq> ukey r i" "mget (st_users s) k = Some u" by (auto simp: f(2) split: if_splits)
    then show False using users_keyD [OF inv f(1)] users_keyD [OF inv, of k u] by simp
  qed
  have other: "ukey r' i' \<noteq> ukey r i" if "CHR '':'' \<notin> set r'" "(r', i') \<noteq> (r, i)" for r' i'
    using ukey_inj [OF that(1) assms(2)] that(2) by auto
  have "listWebAuthnCredentials r' i' s' = listWebAuthnCredentials r' i' s" if "(r', i') \<noteq> (r, i)" for r' i'
  proof -
    have "filter (\<lambda>c. wc_realm c = r' \<and> wc_userId c = i') (filter (\<lambda>c. \<not> (wc_realm c = r \<and> wc_userId c = i)) xs)
        = filter (\<lambda>c. wc_realm c = r' \<and> wc_userId c = i') xs" for xs :: "credential list"
      using that by (induction xs) auto
    then show ?thesis by (simp add: listWebAuthnCredentials_def f(5))
  qed
  moreover have "listWebAuthnCredentials r i s' = []"
    by (simp add: listWebAuthnCredentials_def f(5) sort_by_def)
  ultimately show ?thesis using run none other wfs
    by (intro exI [of _ s'])
       (auto simp: findUserById_def findAdminGrant_def findAdminSession_def f(2,3,4,6) mget_mdrop
         split: option.splits if_splits)
qed

lemma deleteUser_cascades_witness:
  "findUserById ''corp'' ''u1'' (snd (deleteUser ''corp'' ''u1'' demo_store1)) = None"
  using deleteUser_cascades [OF demo_reach, of "''corp''" "''u1''" demo_user] by auto

text \<open>Revoking an administrator grant takes every permission away at once, also from the sessions
  opened under it: the grant stays (disabled) with a version no older session was opened at, and
  granting again never brings an old version back.\<close>

theorem revoked_grant_is_dead:
  assumes "store_reach s" and "CHR '':'' \<notin> set r" and "findAdminGrant r i s = Some g"
    and "safe_integer (g_version g + 1)"
  shows "\<exists>g' s'. revokeAdminGrant now r i s = Inr (Some g', s') \<and> findAdminGrant r i s' = Some g' \<and>
    (\<forall>p. \<not> hasAdminPermission (Some g') p) \<and> g_version g' = g_version g + 1 \<and>
    g_permissions g' = g_permissions g \<and>
    (\<forall>ps g2 s2. upsertAdminGrant now' r i ps True s' = Inr (Some g2, s2) \<longrightarrow> g_version g2 = g_version g + 2)"
proof -
  note inv = store_reach_inv [OF assms(1)]
  have g: "mget (st_adminGrants s) (ukey r i) = Some g" using assms(3) by (simp add: findAdminGrant_def)
  then have gi: "ukey r i = ukey (g_realm g) (g_userId g)" "has_user s (g_realm g) (g_userId g)"
      "valid_permissions (g_permissions g)" "1 \<le> g_version g"
    using inv by (auto simp: store_inv_def grants_inv_def)
  have user: "mget (st_users s) (ukey r i) \<noteq> None" using gi(1,2) by (simp add: has_user_def)
  define g' where "g' = \<lparr>g_realm = r, g_userId = i, g_permissions = g_permissions g, g_enabled = False,
    g_version = g_version g + 1, g_createdAt = g_createdAt g, g_updatedAt = now\<rparr>"
  define s' where "s' = s\<lparr>st_adminGrants := mset' (ukey r i) g' (st_adminGrants s)\<rparr>"
  have run: "revokeAdminGrant now r i s = Inr (Some g', s')"
    using user g gi(3,4) assms(4)
    by (auto simp: revokeAdminGrant_def upsertAdminGrant_def normalizeAdminGrant_def
        normalizePermissionList_valid g'_def s'_def Let_def)
  have "g_version g2 = g_version g + 2" if "upsertAdminGrant now' r i ps True s' = Inr (Some g2, s2)" for ps g2 s2
    using upsertAdminGrant_spec(7) [OF that] by (simp add: s'_def g'_def)
  then show ?thesis using run
    by (intro exI [of _ g'] exI [of _ s']) (auto simp: findAdminGrant_def s'_def g'_def hasAdminPermission_def)
qed

definition demo_granted :: store where
  "demo_granted = snd (projr (upsertAdminGrant 0 ''corp'' ''u1'' [''users.read''] True demo_store1))"

lemma demo_granted_run: "\<exists>g. upsertAdminGrant 0 ''corp'' ''u1'' [''users.read''] True demo_store1
      = Inr (Some g, demo_granted) \<and> findAdminGrant ''corp'' ''u1'' demo_granted = Some g \<and> g_version g = 1"
proof -
  have "valid_permissions [''users.read'']" by (simp add: valid_permissions_def ADMIN_PERMISSIONS_def)
  then show ?thesis
    by (simp add: demo_granted_def upsertAdminGrant_def normalizeAdminGrant_def normalizePermissionList_valid
        demo_store1_def empty_store_def ukey_def safe_integer_def findAdminGrant_def Let_def)
qed

lemma revoked_grant_is_dead_witness:
  "\<exists>g' s'. revokeAdminGrant 5 ''corp'' ''u1'' demo_granted = Inr (Some g', s') \<and>
     \<not> hasAdminPermission (Some g') ''users.read'' \<and> g_version g' = 2"
proof -
  obtain g where g: "upsertAdminGrant 0 ''corp'' ''u1'' [''users.read''] True demo_store1 = Inr (Some g, demo_granted)"
    "findAdminGrant ''corp'' ''u1'' demo_granted = Some g" "g_version g = 1" using demo_granted_run by blast
  have r: "store_reach demo_granted" using reach_step [OF demo_reach step_grant [OF g(1)]] by simp
  show ?thesis using revoked_grant_is_dead [OF r _ g(2), of 5 0] g(3) by (simp add: safe_integer_def) blast
qed

text \<open>A user that was read from the store is written back unchanged by \<open>restoreUser\<close> when its
  names are trimmed and its roles and groups are lists without repetition.\<close>

definition user_norm :: "user \<Rightarrow> bool" where
  "user_norm u \<longleftrightarrow> user_ok u \<and> js_trim (u_name u) = u_name u \<and> u_name u \<noteq> [] \<and>
     js_trim (u_givenName u) = u_givenName u \<and> js_trim (u_familyName u) = u_familyName u \<and>
     distinct (u_roles u) \<and> distinct (u_groups u)"

lemma normalizeUser_norm: "user_norm u \<Longrightarrow> normalizeUser now f (user_as_input u) = u"
  by (cases u) (auto simp: user_norm_def user_ok_def normalizeUser_def user_as_input_def trim_or_def js_uniq_distinct)

lemma restoreUser_norm:
  "user_norm u \<Longrightarrow> restoreUser now f u s = (u, s\<lparr>st_users := mset' (ukey (u_realm u) (u_id u)) u (st_users s)\<rparr>)"
  by (simp add: restoreUser_def normalizeUser_norm)

end
