(* ===== verification/PgIdentity.thy ===== *)
theory PgIdentity
  imports CredentialProps
begin

text \<open>
  The PostgreSQL identity store (\<open>PostgresIdentityStore\<close> of \<open>src/repositories/identity-store.js\<close>).
  A table is the list of its rows, in the row format of the application; a method is the
  statement it sends, read as SQL: \<open>sql_update\<close>, \<open>sql_delete\<close> and a uniqueness-checked insert
  (the constraints and the login-namespace trigger are those of \<open>migrations/*.sql\<close>). A statement
  is atomic and \<open>now()\<close> is its argument. The second part shows that on related states the two
  back-ends compute the same, method by method, and says exactly where they differ.
\<close>

section \<open>Statements\<close>

definition sql_update :: "('r \<Rightarrow> bool) \<Rightarrow> ('r \<Rightarrow> 'r) \<Rightarrow> 'r list \<Rightarrow> 'r list \<times> 'r list" where
  "sql_update P f t = (map f (filter P t), map (\<lambda>r. if P r then f r else r) t)"

definition sql_delete :: "('r \<Rightarrow> bool) \<Rightarrow> 'r list \<Rightarrow> 'r list \<times> 'r list" where
  "sql_delete P t = (filter P t, filter (\<lambda>r. \<not> P r) t)"

text \<open>\<open>result.rows[0]\<close>.\<close>

definition row0 :: "'r list \<Rightarrow> 'r option" where
  "row0 rows = (case rows of [] \<Rightarrow> None | r # _ \<Rightarrow> Some r)"

record pgdb =
  pg_users :: "user list"
  pg_grants :: "admin_grant list"
  pg_sessions :: "admin_session list"
  pg_credentials :: "credential list"
  pg_challenges :: "challenge list"

datatype pg_error = UNIQUE_VIOLATION | FOREIGN_KEY_VIOLATION | STORE_ERROR store_error

definition user_row :: "string \<Rightarrow> string \<Rightarrow> user \<Rightarrow> bool" where
  "user_row r i u \<longleftrightarrow> u_realm u = r \<and> u_id u = i"

section \<open>Users\<close>

definition rowToUser :: "int \<Rightarrow> user option \<Rightarrow> user option" where
  "rowToUser now = map_option (\<lambda>row. normalizeUser now (u_id row) (user_as_input row))"

text \<open>
  The primary key, the unique indexes on \<open>lower(username)\<close> and \<open>lower(email)\<close> and the trigger
  \<open>authme_enforce_login_namespace\<close>.
\<close>

definition pg_login_conflict :: "user list \<Rightarrow> user \<Rightarrow> bool" where
  "pg_login_conflict t new \<longleftrightarrow> (\<exists>x\<in>set t. u_realm x = u_realm new \<and>
     (u_id x = u_id new \<or>
      js_lower (u_username x) \<in> {js_lower (u_username new), js_lower (u_email new)} \<or>
      js_lower (u_email x) \<in> {js_lower (u_username new), js_lower (u_email new)}))"

text \<open>Columns the insert does not name get their defaults.\<close>

definition pg_createUser :: "int \<Rightarrow> string \<Rightarrow> user_input \<Rightarrow> pgdb \<Rightarrow> store_error + (user option \<times> pgdb)" where
  "pg_createUser now fresh input d =
     (let user = normalizeUser now fresh input;
          row = user\<lparr>u_securityVersion := 0, u_pendingTotpSecret := None, u_pendingTotpCreatedAt := None\<rparr>
      in if pg_login_conflict (pg_users d) row then Inl USER_EXISTS
         else Inr (rowToUser now (Some row), d\<lparr>pg_users := pg_users d @ [row]\<rparr>))"

definition pg_findUserById :: "int \<Rightarrow> string \<Rightarrow> string \<Rightarrow> pgdb \<Rightarrow> user option" where
  "pg_findUserById now realm uid d = rowToUser now (row0 (filter (user_row realm uid) (pg_users d)))"

definition pg_findUserByLogin :: "int \<Rightarrow> string \<Rightarrow> string \<Rightarrow> pgdb \<Rightarrow> user option" where
  "pg_findUserByLogin now realm login d =
     rowToUser now (row0 (filter (\<lambda>u. u_realm u = realm \<and>
       (js_lower (u_username u) = js_lower (js_trim login) \<or> js_lower (u_email u) = js_lower (js_trim login)))
       (pg_users d)))"

text \<open>An \<open>UPDATE users SET ... WHERE realm_name=$1 AND id=$2 AND guard\<close>.\<close>

definition pg_update_user ::
    "string \<Rightarrow> string \<Rightarrow> (user \<Rightarrow> bool) \<Rightarrow> (user \<Rightarrow> user) \<Rightarrow> pgdb \<Rightarrow> user list \<times> pgdb" where
  "pg_update_user realm uid guard f d =
     (let (rows, t) = sql_update (\<lambda>u. user_row realm uid u \<and> guard u) f (pg_users d)
      in (rows, d\<lparr>pg_users := t\<rparr>))"

definition pg_rehashPasswordIfCurrent ::
    "int \<Rightarrow> string \<Rightarrow> string \<Rightarrow> string option \<Rightarrow> string option \<Rightarrow> pgdb \<Rightarrow> bool \<times> pgdb" where
  "pg_rehashPasswordIfCurrent now realm uid expectedHash newHash d =
     (let (rows, d') = pg_update_user realm uid (\<lambda>u. u_passwordHash u = expectedHash \<and> expectedHash \<noteq> None)
            (\<lambda>u. u\<lparr>u_passwordHash := newHash, u_updatedAt := now\<rparr>) d
      in (length rows = 1, d'))"

definition pg_loginFailure_set :: "int \<Rightarrow> user \<Rightarrow> user" where
  "pg_loginFailure_set now u = u\<lparr>
     u_failedAttempts :=
       (case u_lockedUntil u of Some t \<Rightarrow> if t \<le> now then 1 else u_failedAttempts u
        | None \<Rightarrow> u_failedAttempts u + 1),
     u_lockedUntil :=
       (case u_lockedUntil u of Some t \<Rightarrow> if t > now then Some t else None
        | None \<Rightarrow> if u_failedAttempts u + 1 \<ge> 5 then Some (now + 15 * 60000) else None),
     u_updatedAt := now\<rparr>"

definition pg_recordLoginFailure :: "int \<Rightarrow> string \<Rightarrow> string \<Rightarrow> pgdb \<Rightarrow> pgdb" where
  "pg_recordLoginFailure now realm uid d =
     snd (pg_update_user realm uid (\<lambda>_. True) (pg_loginFailure_set now) d)"

definition pg_recordLoginSuccess :: "int \<Rightarrow> string \<Rightarrow> string \<Rightarrow> pgdb \<Rightarrow> pgdb" where
  "pg_recordLoginSuccess now realm uid d =
     snd (pg_update_user realm uid (\<lambda>_. True) (\<lambda>u. u\<lparr>u_failedAttempts := 0, u_lockedUntil := None,
       u_lastLoginAt := Some now, u_updatedAt := now\<rparr>) d)"

definition pg_unlockUser :: "int \<Rightarrow> string \<Rightarrow> string \<Rightarrow> pgdb \<Rightarrow> user option \<times> pgdb" where
  "pg_unlockUser now realm uid d =
     (let (rows, d') = pg_update_user realm uid (\<lambda>_. True)
            (\<lambda>u. u\<lparr>u_failedAttempts := 0, u_lockedUntil := None, u_updatedAt := now\<rparr>) d
      in (rowToUser now (row0 rows), d'))"

definition pg_beginTotpEnrollment :: "int \<Rightarrow> string \<Rightarrow> string \<Rightarrow> string \<Rightarrow> pgdb \<Rightarrow> user option \<times> pgdb" where
  "pg_beginTotpEnrollment now realm uid pendingSecret d =
     (let (rows, d') = pg_update_user realm uid (\<lambda>_. True)
            (\<lambda>u. u\<lparr>u_pendingTotpSecret := Some pendingSecret, u_pendingTotpCreatedAt := Some now,
                   u_updatedAt := now\<rparr>) d
      in (rowToUser now (row0 rows), d'))"

definition pg_confirmTotpEnrollment ::
    "int \<Rightarrow> string \<Rightarrow> string \<Rightarrow> string option \<Rightarrow> string option \<Rightarrow> int \<Rightarrow> string list \<Rightarrow> pgdb \<Rightarrow> bool \<times> pgdb" where
  "pg_confirmTotpEnrollment now realm uid pendingSecret activeSecret step codes d =
     (if activeSecret = None \<or> \<not> safe_integer step then (False, d)
      else (let (rows, d') = pg_update_user realm uid
              (\<lambda>u. u_pendingTotpSecret u = pendingSecret \<and> pendingSecret \<noteq> None \<and>
                 (case u_pendingTotpCreatedAt u of None \<Rightarrow> False | Some t \<Rightarrow> t > now - 10 * 60000))
              (\<lambda>u. u\<lparr>u_totpSecret := activeSecret, u_totpConfirmed := True, u_pendingTotpSecret := None,
                     u_pendingTotpCreatedAt := None, u_recoveryCodeHashes := codes,
                     u_lastTotpStep := Some step, u_updatedAt := now\<rparr>) d
            in (length rows = 1, d')))"

definition pg_configureTotp ::
    "int \<Rightarrow> string \<Rightarrow> string \<Rightarrow> string option \<Rightarrow> bool \<Rightarrow> string list option \<Rightarrow> pgdb \<Rightarrow> user option \<times> pgdb" where
  "pg_configureTotp now realm uid secret confirmed codes d =
     (let (rows, d') = pg_update_user realm uid (\<lambda>_. True)
            (\<lambda>u. u\<lparr>u_totpSecret := secret, u_totpConfirmed := confirmed,
                   u_recoveryCodeHashes := or_else codes (u_recoveryCodeHashes u),
                   u_lastTotpStep := (if confirmed then u_lastTotpStep u else None),
                   u_pendingTotpSecret := (if confirmed then u_pendingTotpSecret u else None),
                   u_pendingTotpCreatedAt := (if confirmed then u_pendingTotpCreatedAt u else None),
                   u_updatedAt := now\<rparr>) d
      in (rowToUser now (row0 rows), d'))"

definition pg_consumeTotpStep :: "int \<Rightarrow> string \<Rightarrow> string \<Rightarrow> int \<Rightarrow> pgdb \<Rightarrow> bool \<times> pgdb" where
  "pg_consumeTotpStep now realm uid step d =
     (if \<not> safe_integer step then (False, d)
      else (let (rows, d') = pg_update_user realm uid
              (\<lambda>u. case u_lastTotpStep u of None \<Rightarrow> True | Some l \<Rightarrow> l < step)
              (\<lambda>u. u\<lparr>u_lastTotpStep := Some step, u_updatedAt := now\<rparr>) d
            in (length rows = 1, d')))"

text \<open>The transaction \<open>SELECT ... FOR UPDATE\<close>, \<open>splice\<close>, \<open>UPDATE\<close>.\<close>

definition pg_consumeRecoveryCode :: "int \<Rightarrow> string \<Rightarrow> string \<Rightarrow> string \<Rightarrow> pgdb \<Rightarrow> bool \<times> pgdb" where
  "pg_consumeRecoveryCode now realm uid digest d =
     (let hashes = (case row0 (filter (user_row realm uid) (pg_users d)) of
            None \<Rightarrow> [] | Some u \<Rightarrow> u_recoveryCodeHashes u)
      in if digest \<notin> set hashes then (False, d)
         else (True, snd (pg_update_user realm uid (\<lambda>_. True)
           (\<lambda>u. u\<lparr>u_recoveryCodeHashes := remove1 digest hashes, u_updatedAt := now\<rparr>) d)))"

text \<open>\<open>DELETE FROM users\<close>; the foreign keys cascade.\<close>

definition pg_deleteUser :: "int \<Rightarrow> string \<Rightarrow> string \<Rightarrow> pgdb \<Rightarrow> user option \<times> pgdb" where
  "pg_deleteUser now realm uid d =
     (let (rows, t) = sql_delete (user_row realm uid) (pg_users d) in
      if rows = [] then (None, d)
      else (rowToUser now (row0 rows), d\<lparr>
        pg_users := t,
        pg_grants := filter (\<lambda>g. \<not> (g_realm g = realm \<and> g_userId g = uid)) (pg_grants d),
        pg_sessions := filter (\<lambda>x. \<not> (as_realm x = realm \<and> as_userId x = uid)) (pg_sessions d),
        pg_credentials := filter (\<lambda>c. \<not> (wc_realm c = realm \<and> wc_userId c = uid)) (pg_credentials d),
        pg_challenges := filter (\<lambda>c. \<not> (ch_realm c = realm \<and> ch_userId c = Some uid)) (pg_challenges d)\<rparr>))"

section \<open>Administrators\<close>

definition pg_findAdminGrant :: "string \<Rightarrow> string \<Rightarrow> pgdb \<Rightarrow> admin_grant option" where
  "pg_findAdminGrant realm userId d = row0 (filter (\<lambda>g. g_realm g = realm \<and> g_userId g = userId) (pg_grants d))"

definition pg_upsertAdminGrant ::
    "int \<Rightarrow> string \<Rightarrow> string \<Rightarrow> string list \<Rightarrow> bool \<Rightarrow> pgdb \<Rightarrow> pg_error + (admin_grant option \<times> pgdb)" where
  "pg_upsertAdminGrant now realm userId permissions enabled d =
     (case normalizePermissionList permissions of
        Inl _ \<Rightarrow> Inl (STORE_ERROR TypeErr)
      | Inr ps \<Rightarrow>
          if filter (user_row realm userId) (pg_users d) = [] then Inl FOREIGN_KEY_VIOLATION
          else if filter (\<lambda>g. g_realm g = realm \<and> g_userId g = userId) (pg_grants d) = [] then
            (let g = \<lparr>g_realm = realm, g_userId = userId, g_permissions = ps, g_enabled = enabled,
                     g_version = 1, g_createdAt = now, g_updatedAt = now\<rparr>
             in Inr (Some g, d\<lparr>pg_grants := pg_grants d @ [g]\<rparr>))
          else (let (rows, t) = sql_update (\<lambda>g. g_realm g = realm \<and> g_userId g = userId)
                  (\<lambda>g. g\<lparr>g_permissions := ps, g_enabled := enabled, g_version := g_version g + 1,
                         g_updatedAt := now\<rparr>) (pg_grants d)
                in Inr (row0 rows, d\<lparr>pg_grants := t\<rparr>)))"

definition pg_revokeAdminGrant :: "int \<Rightarrow> string \<Rightarrow> string \<Rightarrow> pgdb \<Rightarrow> admin_grant option \<times> pgdb" where
  "pg_revokeAdminGrant now realm userId d =
     (let (rows, t) = sql_update (\<lambda>g. g_realm g = realm \<and> g_userId g = userId)
            (\<lambda>g. g\<lparr>g_enabled := False, g_version := g_version g + 1, g_updatedAt := now\<rparr>) (pg_grants d)
      in (row0 rows, d\<lparr>pg_grants := t\<rparr>))"

definition pg_createAdminSession ::
    "int \<Rightarrow> admin_session_input \<Rightarrow> pgdb \<Rightarrow> pg_error + (admin_session option \<times> pgdb)" where
  "pg_createAdminSession now input d =
     (case normalizeAdminSession now input of
        Inl e \<Rightarrow> Inl (STORE_ERROR e)
      | Inr x \<Rightarrow>
          if \<exists>y\<in>set (pg_sessions d). as_idDigest y = as_idDigest x then Inr (None, d)
          else if filter (user_row (as_realm x) (as_userId x)) (pg_users d) = [] then Inl FOREIGN_KEY_VIOLATION
          else Inr (Some x, d\<lparr>pg_sessions := pg_sessions d @ [x]\<rparr>))"

definition pg_findAdminSession :: "string \<Rightarrow> pgdb \<Rightarrow> admin_session option" where
  "pg_findAdminSession digest d = row0 (filter (\<lambda>x. as_idDigest x = digest) (pg_sessions d))"

definition pg_touchAdminSession :: "int \<Rightarrow> string \<Rightarrow> int \<Rightarrow> pgdb \<Rightarrow> admin_session option \<times> pgdb" where
  "pg_touchAdminSession now digest idleExpiresAt d =
     (let (rows, t) = sql_update (\<lambda>x. as_idDigest x = digest \<and> as_expiresAt x > now \<and> as_idleExpiresAt x > now)
            (\<lambda>x. x\<lparr>as_lastSeenAt := now, as_idleExpiresAt := idleExpiresAt\<rparr>) (pg_sessions d)
      in (row0 rows, d\<lparr>pg_sessions := t\<rparr>))"

definition pg_deleteAdminSession :: "string \<Rightarrow> pgdb \<Rightarrow> bool \<times> pgdb" where
  "pg_deleteAdminSession digest d =
     (let (rows, t) = sql_delete (\<lambda>x. as_idDigest x = digest) (pg_sessions d)
      in (length rows = 1, d\<lparr>pg_sessions := t\<rparr>))"

section \<open>Passkeys and challenges\<close>

definition pg_consumeWebAuthnChallenge ::
    "int \<Rightarrow> string \<Rightarrow> string \<Rightarrow> string \<Rightarrow> string option \<Rightarrow> string option \<Rightarrow> pgdb \<Rightarrow> challenge option \<times> pgdb" where
  "pg_consumeWebAuthnChallenge now realm cid purpose userId interactionUid d =
     (let (rows, t) = sql_delete (\<lambda>c. ch_realm c = realm \<and> ch_id c = cid \<and> ch_purpose c = purpose \<and>
            ch_userId c = userId \<and> ch_interactionUid c = interactionUid \<and> ch_expiresAt c > now) (pg_challenges d)
      in (row0 rows, d\<lparr>pg_challenges := t\<rparr>))"

definition pg_createWebAuthnCredential ::
    "int \<Rightarrow> credential_input \<Rightarrow> pgdb \<Rightarrow> pg_error + (credential \<times> pgdb)" where
  "pg_createWebAuthnCredential now input d =
     (case normalizeWebAuthnCredential now input of
        Inl e \<Rightarrow> Inl (STORE_ERROR e)
      | Inr c \<Rightarrow>
          if \<exists>x\<in>set (pg_credentials d). wc_realm x = wc_realm c \<and> wc_id x = wc_id c
          then Inl (STORE_ERROR WEBAUTHN_CREDENTIAL_EXISTS)
          else if filter (user_row (wc_realm c) (wc_userId c)) (pg_users d) = [] then Inl FOREIGN_KEY_VIOLATION
          else Inr (c, d\<lparr>pg_credentials := pg_credentials d @ [c]\<rparr>))"

definition pg_updateWebAuthnCredentialCounter ::
    "int \<Rightarrow> string \<Rightarrow> string \<Rightarrow> int \<Rightarrow> int \<Rightarrow> string \<Rightarrow> bool \<Rightarrow> pgdb \<Rightarrow> bool \<times> pgdb" where
  "pg_updateWebAuthnCredentialCounter now realm credentialId expectedCounter newCounter deviceType backedUp d =
     (if \<not> safe_integer expectedCounter \<or> expectedCounter < 0 \<or> counter_regresses expectedCounter newCounter
      then (False, d)
      else (let (rows, t) = sql_update
              (\<lambda>c. wc_realm c = realm \<and> wc_id c = credentialId \<and> wc_counter c = expectedCounter)
              (\<lambda>c. c\<lparr>wc_counter := newCounter, wc_deviceType := deviceType, wc_backedUp := backedUp,
                     wc_lastUsedAt := Some now, wc_updatedAt := now\<rparr>) (pg_credentials d)
            in (length rows = 1, d\<lparr>pg_credentials := t\<rparr>)))"

definition pg_deleteWebAuthnCredential :: "string \<Rightarrow> string \<Rightarrow> string \<Rightarrow> pgdb \<Rightarrow> credential option \<times> pgdb" where
  "pg_deleteWebAuthnCredential realm userId credentialId d =
     (let (rows, t) = sql_delete (\<lambda>c. wc_realm c = realm \<and> wc_userId c = userId \<and> wc_id c = credentialId)
            (pg_credentials d)
      in (row0 rows, d\<lparr>pg_credentials := t\<rparr>))"

section \<open>Tables and maps\<close>

text \<open>A map whose keys are computed from its values, and the list of its values as a table.\<close>

definition keyed :: "('v \<Rightarrow> 'k) \<Rightarrow> ('k \<times> 'v) list \<Rightarrow> bool" where
  "keyed key m \<longleftrightarrow> map_wf m \<and> (\<forall>(k, v) \<in> set m. k = key v)"

lemma keyedI: "map_wf m \<Longrightarrow> (\<And>k v. mget m k = Some v \<Longrightarrow> k = key v) \<Longrightarrow> keyed key m"
  by (auto simp: keyed_def map_wf_def)

lemma keyed_Cons: "keyed key ((k, v) # m) \<longleftrightarrow> keyed key m \<and> k = key v \<and> k \<notin> fst ` set m"
  by (auto simp: keyed_def map_wf_def)

lemma keyed_not_in: "keyed key m \<Longrightarrow> k \<notin> fst ` set m \<Longrightarrow> x \<in> set (mvals m) \<Longrightarrow> key x \<noteq> k"
  by (force simp: keyed_def mvals_def)

lemma mvals_Cons [simp]: "mvals ((k, v) # m) = v # mvals m" "mvals [] = []"
  by (simp_all add: mvals_def)

lemma filter_none: "(\<And>x. x \<in> set xs \<Longrightarrow> \<not> P x) \<Longrightarrow> filter P xs = []"
  by (induction xs) auto

lemma keyed_filter:
  "keyed key m \<Longrightarrow> filter (\<lambda>x. key x = k) (mvals m) = (case mget m k of None \<Rightarrow> [] | Some v \<Rightarrow> [v])"
proof (induction m)
  case (Cons kv m)
  obtain k' v' where kv: "kv = (k', v')" by fastforce
  then have m: "keyed key m" "k' = key v'" "k' \<notin> fst ` set m" using Cons.prems by (auto simp: keyed_Cons)
  have "filter (\<lambda>x. key x = k') (mvals m) = []"
    using keyed_not_in [OF m(1,3)] by (auto intro: filter_none)
  then show ?case using Cons.IH [OF m(1)] m(2) by (auto simp: kv)
qed simp

lemma keyed_update:
  "keyed key m \<Longrightarrow> mget m k = Some v \<Longrightarrow>
   mvals (mset' k v' m) = map (\<lambda>x. if key x = k then v' else x) (mvals m)"
proof (induction m)
  case (Cons kv m)
  obtain k1 v1 where kv: "kv = (k1, v1)" by fastforce
  then have m: "keyed key m" "k1 = key v1" "k1 \<notin> fst ` set m" using Cons.prems by (auto simp: keyed_Cons)
  show ?case
  proof (cases "k = k1")
    case True
    have "map (\<lambda>x. if key x = k then v' else x) (mvals m) = mvals m"
      using keyed_not_in [OF m(1)] m(3) True by (auto intro!: map_idI)
    then show ?thesis using True m(2) by (simp add: kv)
  next
    case False
    then show ?thesis using Cons.IH [OF m(1)] Cons.prems(2) m(2) by (auto simp: kv)
  qed
qed simp

lemma keyed_delete: "keyed key m \<Longrightarrow> mvals (mdel k m) = filter (\<lambda>x. key x \<noteq> k) (mvals m)"
proof (induction m)
  case (Cons kv m)
  obtain k1 v1 where kv: "kv = (k1, v1)" by fastforce
  then have m: "keyed key m" "k1 = key v1" "k1 \<notin> fst ` set m" using Cons.prems by (auto simp: keyed_Cons)
  then show ?case using Cons.IH [OF m(1)] by (simp add: kv)
qed simp

lemma mvals_append: "mget m k = None \<Longrightarrow> mvals (mset' k v m) = mvals m @ [v]"
  by (induction m) (auto split: if_splits)

section \<open>Refinement\<close>

definition pg_rel :: "store \<Rightarrow> pgdb \<Rightarrow> bool" where
  "pg_rel s d \<longleftrightarrow> pg_users d = mvals (st_users s) \<and> pg_grants d = mvals (st_adminGrants s) \<and>
     pg_sessions d = mvals (st_adminSessions s) \<and> pg_credentials d = mvals (st_credentials s) \<and>
     pg_challenges d = mvals (st_challenges s)"

definition pg_sim :: "'a \<times> store \<Rightarrow> 'a \<times> pgdb \<Rightarrow> bool" where
  "pg_sim m p \<longleftrightarrow> fst m = fst p \<and> pg_rel (snd m) (snd p)"

text \<open>Under the store invariant every table is keyed by what the statements select on.\<close>

lemma ukey_eq_iff: "CHR '':'' \<notin> set r \<Longrightarrow> CHR '':'' \<notin> set r' \<Longrightarrow> ukey r i = ukey r' i' \<longleftrightarrow> r = r' \<and> i = i'"
  using ukey_inj by blast

lemma store_keyed:
  assumes "store_inv s"
  shows "keyed (\<lambda>u. ukey (u_realm u) (u_id u)) (st_users s)"
    "keyed (\<lambda>g. ukey (g_realm g) (g_userId g)) (st_adminGrants s)" "keyed as_idDigest (st_adminSessions s)"
    "keyed (\<lambda>c. ukey (wc_realm c) (wc_id c)) (st_credentials s)"
    "keyed (\<lambda>c. ukey (ch_realm c) (ch_id c)) (st_challenges s)"
  using assms
  by (auto intro!: keyedI simp: store_inv_def users_inv_def rows_inv_defs)

lemma store_realms:
  assumes "store_inv s" and "CHR '':'' \<notin> set r"
  shows "u \<in> set (mvals (st_users s)) \<Longrightarrow> ukey (u_realm u) (u_id u) = ukey r i \<longleftrightarrow> user_row r i u"
    "g \<in> set (mvals (st_adminGrants s)) \<Longrightarrow> ukey (g_realm g) (g_userId g) = ukey r i \<longleftrightarrow> g_realm g = r \<and> g_userId g = i"
    "c \<in> set (mvals (st_credentials s)) \<Longrightarrow> ukey (wc_realm c) (wc_id c) = ukey r i \<longleftrightarrow> wc_realm c = r \<and> wc_id c = i"
    "h \<in> set (mvals (st_challenges s)) \<Longrightarrow> ukey (ch_realm h) (ch_id h) = ukey r i \<longleftrightarrow> ch_realm h = r \<and> ch_id h = i"
proof -
  have wf: "map_wf (st_users s)" "map_wf (st_adminGrants s)" "map_wf (st_credentials s)" "map_wf (st_challenges s)"
    using assms(1) by (auto simp: store_inv_def users_inv_def rows_inv_defs)
  have "CHR '':'' \<notin> set (u_realm u)" if "u \<in> set (mvals (st_users s))"
    using that assms(1) unfolding set_mvals [OF wf(1)] by (auto simp: store_inv_def users_inv_def user_ok_def)
  then show "ukey (u_realm u) (u_id u) = ukey r i \<longleftrightarrow> user_row r i u" if "u \<in> set (mvals (st_users s))"
    using that assms(2) by (simp add: user_row_def ukey_eq_iff)
  have "CHR '':'' \<notin> set (g_realm g)" if "g \<in> set (mvals (st_adminGrants s))"
    using that assms(1) unfolding set_mvals [OF wf(2)] by (auto simp: store_inv_def grants_inv_def has_user_def)
  then show "ukey (g_realm g) (g_userId g) = ukey r i \<longleftrightarrow> g_realm g = r \<and> g_userId g = i"
    if "g \<in> set (mvals (st_adminGrants s))" using that assms(2) by (simp add: ukey_eq_iff)
  have "CHR '':'' \<notin> set (wc_realm c)" if "c \<in> set (mvals (st_credentials s))"
    using that assms(1) unfolding set_mvals [OF wf(3)] by (auto simp: store_inv_def credentials_inv_def has_user_def)
  then show "ukey (wc_realm c) (wc_id c) = ukey r i \<longleftrightarrow> wc_realm c = r \<and> wc_id c = i"
    if "c \<in> set (mvals (st_credentials s))" using that assms(2) by (simp add: ukey_eq_iff)
  have "CHR '':'' \<notin> set (ch_realm h)" if "h \<in> set (mvals (st_challenges s))"
    using that assms(1) unfolding set_mvals [OF wf(4)] by (auto simp: store_inv_def challenges_inv_def)
  then show "ukey (ch_realm h) (ch_id h) = ukey r i \<longleftrightarrow> ch_realm h = r \<and> ch_id h = i"
    if "h \<in> set (mvals (st_challenges s))" using that assms(2) by (simp add: ukey_eq_iff)
qed

text \<open>The selection of one user.\<close>

lemma filter_user_row:
  assumes "store_inv s" and "CHR '':'' \<notin> set r" and "pg_rel s d"
  shows "filter (user_row r i) (pg_users d) = (case findUserById r i s of None \<Rightarrow> [] | Some u \<Rightarrow> [u])"
proof -
  have "filter (user_row r i) (mvals (st_users s)) =
      filter (\<lambda>u. ukey (u_realm u) (u_id u) = ukey r i) (mvals (st_users s))"
    using store_realms(1) [OF assms(1,2)] by (intro filter_cong) auto
  then show ?thesis
    using keyed_filter [OF store_keyed(1) [OF assms(1)], of "ukey r i"] assms(3)
    by (simp add: pg_rel_def findUserById_def)
qed

text \<open>An update of one user is the in-place assignment of the memory store.\<close>

lemma pg_update_user_sim:
  assumes inv: "store_inv s" and r: "CHR '':'' \<notin> set r" and rel: "pg_rel s d"
    and row: "\<And>u. findUserById r i s = Some u \<Longrightarrow> f u = (if P u then Some (g u) else None)"
    and run: "update_user r i f s = (res, s')" and pg: "pg_update_user r i P g d = (rows, d')"
  shows "pg_rel s' d'" "rows = (case res of None \<Rightarrow> [] | Some u \<Rightarrow> [u])"
proof -
  have t: "d' = d\<lparr>pg_users := map (\<lambda>u. if user_row r i u \<and> P u then g u else u) (pg_users d)\<rparr>"
    and rows: "rows = map g (filter P (filter (user_row r i) (pg_users d)))"
    using pg by (auto simp: pg_update_user_def sql_update_def conj_commute)
  note sel = filter_user_row [OF inv r rel, of i]
  show "rows = (case res of None \<Rightarrow> [] | Some u \<Rightarrow> [u])"
    unfolding rows sel using update_user_find(2) [of r i f s] run row
    by (cases "findUserById r i s") auto
  show "pg_rel s' d'"
  proof (cases "findUserById r i s")
    case None
    then have "\<not> user_row r i u" if "u \<in> set (pg_users d)" for u
      using sel that by (auto simp: filter_empty_conv)
    then have "d' = d" by (simp add: t map_idI cong: map_cong)
    moreover have "s' = s" using None run by (simp add: update_user_def findUserById_def)
    ultimately show ?thesis using rel by simp
  next
    case (Some u)
    have u: "user_row r i x \<longleftrightarrow> x = u" if "x \<in> set (pg_users d)" for x
    proof
      assume "user_row r i x"
      then have "x \<in> set (filter (user_row r i) (pg_users d))" using that by simp
      then show "x = u" using sel Some by simp
    next
      assume "x = u"
      moreover have "u \<in> set (filter (user_row r i) (pg_users d))" using sel Some by simp
      ultimately show "user_row r i x" by simp
    qed
    show ?thesis
    proof (cases "P u")
      case True
      then have s': "s' = s\<lparr>st_users := mset' (ukey r i) (g u) (st_users s)\<rparr>"
        using run row [OF Some] Some by (auto simp: update_user_def findUserById_def)
      have "mvals (mset' (ukey r i) (g u) (st_users s)) =
          map (\<lambda>x. if ukey (u_realm x) (u_id x) = ukey r i then g u else x) (mvals (st_users s))"
        using keyed_update [OF store_keyed(1) [OF inv]] Some by (simp add: findUserById_def)
      also have "\<dots> = map (\<lambda>x. if user_row r i x \<and> P x then g x else x) (mvals (st_users s))"
        using store_realms(1) [OF inv r] u True rel by (intro map_cong) (auto simp: pg_rel_def)
      finally show ?thesis using rel by (simp add: s' t pg_rel_def)
    next
      case False
      then have "s' = s" using run row [OF Some] Some by (auto simp: update_user_def findUserById_def)
      moreover have "map (\<lambda>u. if user_row r i u \<and> P u then g u else u) (pg_users d) = pg_users d"
        using u False by (intro map_idI) auto
      ultimately show ?thesis using rel by (simp add: t)
    qed
  qed
qed

text \<open>The methods that update one user, one by one.\<close>

lemma sim_totp:
  assumes "store_inv s" and "CHR '':'' \<notin> set r" and "pg_rel s d"
  shows "pg_sim (consumeTotpStep now r i n s) (pg_consumeTotpStep now r i n d)"
proof (cases "safe_integer n")
  case False
  then show ?thesis using assms(3)
    by (simp add: pg_sim_def pg_consumeTotpStep_def consumeTotpStep_def update_user_def totpStep_row_def
        split: option.splits)
next
  case True
  have row: "totpStep_row now n u = (if (case u_lastTotpStep u of None \<Rightarrow> True | Some l \<Rightarrow> l < n)
      then Some (u\<lparr>u_lastTotpStep := Some n, u_updatedAt := now\<rparr>) else None)" for u
    using True by (auto simp: totpStep_row_def split: option.splits)
  note sim = pg_update_user_sim [OF assms row prod.collapse [symmetric] prod.collapse [symmetric], where i = i]
  show ?thesis using sim True
    by (auto simp: pg_sim_def consumeTotpStep_def pg_consumeTotpStep_def case_prod_beta split: option.splits)
qed

lemma sim_recovery:
  assumes "store_inv s" and "CHR '':'' \<notin> set r" and "pg_rel s d"
  shows "pg_sim (consumeRecoveryCode now r i code s) (pg_consumeRecoveryCode now r i code d)"
proof (cases "findUserById r i s")
  case None
  then show ?thesis using assms(3) filter_user_row [OF assms, of i]
    by (simp add: pg_sim_def consumeRecoveryCode_def pg_consumeRecoveryCode_def update_user_def findUserById_def
        row0_def)
next
  case (Some u)
  then have sel: "filter (user_row r i) (pg_users d) = [u]" using filter_user_row [OF assms, of i] by simp
  show ?thesis
  proof (cases "code \<in> set (u_recoveryCodeHashes u)")
    case False
    then show ?thesis using assms(3) Some
      by (simp add: pg_sim_def consumeRecoveryCode_def pg_consumeRecoveryCode_def update_user_def findUserById_def
          sel row0_def recoveryCode_row_def)
  next
    case True
    have row: "recoveryCode_row now code v = (if True then Some
        (v\<lparr>u_recoveryCodeHashes := remove1 code (u_recoveryCodeHashes u), u_updatedAt := now\<rparr>) else None)"
      if "findUserById r i s = Some v" for v
      using that Some True by (simp add: recoveryCode_row_def)
    note sim = pg_update_user_sim [where f = "recoveryCode_row now code" and P = "\<lambda>_. True",
        OF assms row prod.collapse [symmetric] prod.collapse [symmetric], where i = i]
    show ?thesis using sim(1) True Some
      by (auto simp: pg_sim_def consumeRecoveryCode_def pg_consumeRecoveryCode_def case_prod_beta sel row0_def
          update_user_find recoveryCode_row_def)
  qed
qed

lemma sim_rehash:
  assumes "store_inv s" and "CHR '':'' \<notin> set r" and "pg_rel s d"
  shows "pg_sim (rehashPasswordIfCurrent now r i (Some e) h s) (pg_rehashPasswordIfCurrent now r i (Some e) h d)"
proof -
  have row: "rehashPassword_row now (Some e) h u = (if u_passwordHash u = Some e \<and> Some e \<noteq> None
      then Some (u\<lparr>u_passwordHash := h, u_updatedAt := now\<rparr>) else None)" for u
    by (simp add: rehashPassword_row_def)
  note sim = pg_update_user_sim [OF assms row prod.collapse [symmetric] prod.collapse [symmetric], where i = i]
  show ?thesis using sim
    by (auto simp: pg_sim_def rehashPasswordIfCurrent_def pg_rehashPasswordIfCurrent_def case_prod_beta
        split: option.splits)
qed

text \<open>The unconditional updates give back the row, read through \<open>rowToUser\<close>.\<close>

lemma sim_plain:
  assumes "store_inv s" and "CHR '':'' \<notin> set r" and "pg_rel s d" and "\<And>u. f u = Some (g u)"
  shows "pg_rel (snd (update_user r i f s)) (snd (pg_update_user r i (\<lambda>_. True) g d)) \<and>
    row0 (fst (pg_update_user r i (\<lambda>_. True) g d)) = fst (update_user r i f s)"
proof -
  have row: "f u = (if True then Some (g u) else None)" for u by (simp add: assms(4))
  note sim = pg_update_user_sim [OF assms(1-3) row prod.collapse [symmetric] prod.collapse [symmetric], where i = i]
  show ?thesis using sim by (auto simp: row0_def split: option.splits)
qed

definition pg_sim_row :: "int \<Rightarrow> user option \<times> store \<Rightarrow> user option \<times> pgdb \<Rightarrow> bool" where
  "pg_sim_row now m p \<longleftrightarrow> fst p = rowToUser now (fst m) \<and> pg_rel (snd m) (snd p)"

lemma sim_configure:
  assumes "store_inv s" and "CHR '':'' \<notin> set r" and "pg_rel s d"
  shows "pg_sim_row now (configureTotp now r i sec b codes s) (pg_configureTotp now r i sec b codes d)"
    "pg_sim_row now (unlockUser now r i s) (pg_unlockUser now r i d)"
    "pg_sim_row now (beginTotpEnrollment now r i ps s) (pg_beginTotpEnrollment now r i ps d)"
    "pg_rel (recordLoginSuccess now r i s) (pg_recordLoginSuccess now r i d)"
proof -
  have row: "configureTotp_row now sec b codes u = Some (u\<lparr>u_totpSecret := sec, u_totpConfirmed := b,
      u_recoveryCodeHashes := or_else codes (u_recoveryCodeHashes u),
      u_lastTotpStep := (if b then u_lastTotpStep u else None),
      u_pendingTotpSecret := (if b then u_pendingTotpSecret u else None),
      u_pendingTotpCreatedAt := (if b then u_pendingTotpCreatedAt u else None), u_updatedAt := now\<rparr>)" for u
    by (cases codes; cases b) (simp_all add: configureTotp_row_def Let_def)
  show "pg_sim_row now (configureTotp now r i sec b codes s) (pg_configureTotp now r i sec b codes d)"
    using sim_plain [OF assms row, of i]
    by (simp add: pg_sim_row_def configureTotp_def pg_configureTotp_def case_prod_beta)
  show "pg_sim_row now (unlockUser now r i s) (pg_unlockUser now r i d)"
    using sim_plain [OF assms unlock_row_def, of i]
    by (simp add: pg_sim_row_def unlockUser_def pg_unlockUser_def case_prod_beta)
  show "pg_sim_row now (beginTotpEnrollment now r i ps s) (pg_beginTotpEnrollment now r i ps d)"
    using sim_plain [OF assms beginTotp_row_def, of i]
    by (simp add: pg_sim_row_def beginTotpEnrollment_def pg_beginTotpEnrollment_def case_prod_beta)
  show "pg_rel (recordLoginSuccess now r i s) (pg_recordLoginSuccess now r i d)"
    using sim_plain [OF assms loginSuccess_row_def, of i]
    by (simp add: recordLoginSuccess_def pg_recordLoginSuccess_def)
qed

lemma mdrop_eq: "filter (\<lambda>v. \<not> P v) (mvals m) = mvals (mdrop P m)"
  by simp

lemma filter_ukey:
  "(\<And>x. x \<in> set xs \<Longrightarrow> P x \<longleftrightarrow> Q x) \<Longrightarrow> filter (\<lambda>x. \<not> P x) xs = filter (\<lambda>x. \<not> Q x) xs"
  by (rule filter_cong) auto

lemma sim_delete:
  assumes "store_inv s" and "CHR '':'' \<notin> set r" and "pg_rel s d"
  shows "pg_sim_row now (deleteUser r i s) (pg_deleteUser now r i d)"
proof (cases "findUserById r i s")
  case None
  then show ?thesis using assms(3) filter_user_row [OF assms, of i]
    by (simp add: pg_sim_row_def deleteUser_def pg_deleteUser_def sql_delete_def findUserById_def rowToUser_def)
next
  case (Some u)
  then have sel: "filter (user_row r i) (pg_users d) = [u]" using filter_user_row [OF assms, of i] by simp
  obtain s' where run: "deleteUser r i s = (Some u, s')"
    using Some by (auto simp: deleteUser_def findUserById_def Let_def)
  note f = deleteUser_fields [OF run]
  have users: "filter (\<lambda>u. \<not> user_row r i u) (pg_users d) = mvals (st_users s')"
    unfolding f(2) keyed_delete [OF store_keyed(1) [OF assms(1)]]
    using assms(3) store_realms(1) [OF assms(1,2)] by (auto simp: pg_rel_def intro!: filter_cong)
  have grants: "filter (\<lambda>g. \<not> (g_realm g = r \<and> g_userId g = i)) (pg_grants d) = mvals (st_adminGrants s')"
    unfolding f(3) keyed_delete [OF store_keyed(2) [OF assms(1)]]
    using assms(3) store_realms(2) [OF assms(1,2)] by (auto simp: pg_rel_def intro!: filter_cong)
  show ?thesis
    using assms(3) users grants sel
    by (simp add: pg_sim_row_def run pg_deleteUser_def sql_delete_def row0_def rowToUser_def Let_def)
       (simp add: pg_rel_def f(4,5,6))
qed

lemma sim_counter:
  assumes inv: "store_inv s" and r: "CHR '':'' \<notin> set r" and rel: "pg_rel s d"
  shows "pg_sim (updateWebAuthnCredentialCounter now r cid e n dt b s)
    (pg_updateWebAuthnCredentialCounter now r cid e n dt b d)"
proof -
  let ?P = "\<lambda>c. wc_realm c = r \<and> wc_id c = cid"
  let ?g = "\<lambda>c. c\<lparr>wc_counter := n, wc_deviceType := dt, wc_backedUp := b, wc_lastUsedAt := Some now, wc_updatedAt := now\<rparr>"
  have sel: "filter ?P (pg_credentials d) = (case mget (st_credentials s) (ukey r cid) of None \<Rightarrow> [] | Some c \<Rightarrow> [c])"
  proof -
    have "filter ?P (pg_credentials d) = filter (\<lambda>c. ukey (wc_realm c) (wc_id c) = ukey r cid) (mvals (st_credentials s))"
      using rel store_realms(3) [OF inv r] by (auto simp: pg_rel_def intro!: filter_cong)
    then show ?thesis using keyed_filter [OF store_keyed(4) [OF inv]] by simp
  qed
  have range: "0 \<le> wc_counter c \<and> safe_integer (wc_counter c)" if "mget (st_credentials s) (ukey r cid) = Some c" for c
    using inv that by (auto simp: store_inv_def credentials_inv_def safe_integer_def) force+
  let ?Q = "\<lambda>c. wc_realm c = r \<and> wc_id c = cid \<and> wc_counter c = e"
  have selQ: "filter ?Q (pg_credentials d) =
      (case mget (st_credentials s) (ukey r cid) of None \<Rightarrow> [] | Some c \<Rightarrow> if wc_counter c = e then [c] else [])"
  proof -
    have "filter ?Q (pg_credentials d) = filter (\<lambda>c. wc_counter c = e) (filter ?P (pg_credentials d))"
      unfolding filter_filter by (rule filter_cong) auto
    then show ?thesis unfolding sel by (simp split: option.splits)
  qed
  have none: "pg_sim (False, s) (pg_updateWebAuthnCredentialCounter now r cid e n dt b d)"
    if "filter ?Q (pg_credentials d) = [] \<or> counter_regresses e n"
  proof -
    have "map (\<lambda>c. if ?Q c then ?g c else c) (pg_credentials d) = pg_credentials d"
      if "filter ?Q (pg_credentials d) = []"
      using that by (intro map_idI) (auto simp: filter_empty_conv)
    then show ?thesis using that rel
      by (auto simp: pg_sim_def pg_updateWebAuthnCredentialCounter_def sql_update_def)
  qed
  show ?thesis
  proof (cases "mget (st_credentials s) (ukey r cid)")
    case None
    then show ?thesis using none selQ by (simp add: updateWebAuthnCredentialCounter_def)
  next
    case (Some c)
    show ?thesis
    proof (cases "wc_counter c = e \<and> \<not> counter_regresses e n")
      case False
      then show ?thesis using none selQ Some by (auto simp: updateWebAuthnCredentialCounter_def)
    next
      case True
      have only: "?P x \<longleftrightarrow> x = c" if "x \<in> set (pg_credentials d)" for x
      proof -
        have "x \<in> set (filter ?P (pg_credentials d)) \<longleftrightarrow> x = c" "c \<in> set (filter ?P (pg_credentials d))"
          unfolding sel using Some by simp_all
        then show ?thesis using that by auto
      qed
      have "mvals (mset' (ukey r cid) (?g c) (st_credentials s)) =
          map (\<lambda>x. if ukey (wc_realm x) (wc_id x) = ukey r cid then ?g c else x) (mvals (st_credentials s))"
        by (rule keyed_update [OF store_keyed(4) [OF inv] Some])
      also have "\<dots> = map (\<lambda>x. if wc_realm x = r \<and> wc_id x = cid \<and> wc_counter x = e then ?g x else x) (pg_credentials d)"
        using rel store_realms(3) [OF inv r] only True unfolding pg_rel_def by (intro map_cong) auto
      finally have t: "map (\<lambda>x. if wc_realm x = r \<and> wc_id x = cid \<and> wc_counter x = e then ?g x else x) (pg_credentials d) =
          mvals (mset' (ukey r cid) (?g c) (st_credentials s))" ..
      have one: "filter ?Q (pg_credentials d) = [c]" using selQ Some True by simp
      show ?thesis using Some True t one range [OF Some] rel
        by (simp add: pg_sim_def updateWebAuthnCredentialCounter_def pg_updateWebAuthnCredentialCounter_def
            sql_update_def pg_rel_def)
    qed
  qed
qed

lemma sim_challenge:
  assumes inv: "store_inv s" and r: "CHR '':'' \<notin> set r" and rel: "pg_rel s d"
  shows "pg_sim (consumeWebAuthnChallenge now r c p ui iu s) (pg_consumeWebAuthnChallenge now r c p ui iu d)"
proof -
  let ?P = "\<lambda>h. ch_realm h = r \<and> ch_id h = c"
  let ?G = "\<lambda>h. ch_purpose h = p \<and> ch_userId h = ui \<and> ch_interactionUid h = iu \<and> ch_expiresAt h > now"
  have key: "?P h \<longleftrightarrow> ukey (ch_realm h) (ch_id h) = ukey r c" if "h \<in> set (pg_challenges d)" for h
    using rel store_realms(4) [OF inv r] that by (simp add: pg_rel_def)
  have "filter ?P (pg_challenges d) = filter (\<lambda>h. ukey (ch_realm h) (ch_id h) = ukey r c) (mvals (st_challenges s))"
    using rel key by (auto simp: pg_rel_def intro!: filter_cong)
  then have sel: "filter ?P (pg_challenges d) = (case mget (st_challenges s) (ukey r c) of None \<Rightarrow> [] | Some h \<Rightarrow> [h])"
    using keyed_filter [OF store_keyed(5) [OF inv]] by simp
  have rows: "filter (\<lambda>h. ch_realm h = r \<and> ch_id h = c \<and> ?G h) (pg_challenges d) = filter ?G (filter ?P (pg_challenges d))"
    unfolding filter_filter by (rule filter_cong) auto
  show ?thesis
  proof (cases "filter ?G (filter ?P (pg_challenges d)) = []")
    case True
    then have "filter (\<lambda>h. \<not> (ch_realm h = r \<and> ch_id h = c \<and> ?G h)) (pg_challenges d) = pg_challenges d"
      unfolding rows [symmetric] by (auto simp: filter_empty_conv filter_id_conv)
    then show ?thesis using True rel rows unfolding sel
      by (auto simp: pg_sim_def pg_consumeWebAuthnChallenge_def consumeWebAuthnChallenge_def sql_delete_def row0_def
          Let_def split: option.splits if_splits)
  next
    case False
    then obtain h where h: "mget (st_challenges s) (ukey r c) = Some h" "?G h"
      unfolding sel by (auto split: option.splits if_splits)
    have only: "?P x \<longleftrightarrow> x = h" if "x \<in> set (pg_challenges d)" for x
    proof -
      have "x \<in> set (filter ?P (pg_challenges d)) \<longleftrightarrow> x = h" "h \<in> set (filter ?P (pg_challenges d))"
        unfolding sel using h by simp_all
      then show ?thesis using that by auto
    qed
    have "mvals (mdel (ukey r c) (st_challenges s)) =
        filter (\<lambda>x. \<not> (ch_realm x = r \<and> ch_id x = c \<and> ?G x)) (pg_challenges d)"
      unfolding keyed_delete [OF store_keyed(5) [OF inv]]
      using rel key only h(2) unfolding pg_rel_def by (intro filter_cong) auto
    then show ?thesis using h rel rows sel
      by (simp add: pg_sim_def pg_consumeWebAuthnChallenge_def consumeWebAuthnChallenge_def sql_delete_def row0_def)
         (simp add: pg_rel_def)
  qed
qed

section \<open>The two back-ends agree\<close>


definition demo_db :: pgdb where
  "demo_db = \<lparr>pg_users = [demo_user], pg_grants = [], pg_sessions = [], pg_credentials = [], pg_challenges = []\<rparr>"

lemma demo_db_rel: "pg_rel demo_store1 demo_db"
  by (simp add: pg_rel_def demo_db_def demo_store1_def empty_store_def)


text \<open>The \<open>CASE\<close> expressions of the failed-login statement compute the same counter and the same
  lock as the memory store, whether the account is free, locked, or its lock has expired.\<close>

theorem postgres_lockout_agrees:
  assumes "store_reach s" and "CHR '':'' \<notin> set r" and "pg_rel s d" and "findUserById r i s = Some u"
  shows "\<exists>v w. findUserById r i (recordLoginFailure now r i s) = Some v \<and>
    filter (user_row r i) (pg_users (pg_recordLoginFailure now r i d)) = [w] \<and>
    u_failedAttempts w = u_failedAttempts v \<and> u_lockedUntil w = u_lockedUntil v"
proof -
  have sel: "filter (user_row r i) (pg_users d) = [u]"
    using filter_user_row [OF store_reach_inv [OF assms(1)] assms(2,3), of i] assms(4) by simp
  have "filter (user_row r i) (map (\<lambda>x. if user_row r i x then pg_loginFailure_set now x else x) xs) =
      map (pg_loginFailure_set now) (filter (user_row r i) xs)" for xs
    by (induction xs) (auto simp: user_row_def pg_loginFailure_set_def)
  then have w: "filter (user_row r i) (pg_users (pg_recordLoginFailure now r i d)) = [pg_loginFailure_set now u]"
    using sel by (simp add: pg_recordLoginFailure_def pg_update_user_def sql_update_def)
  show ?thesis unfolding w
    by (cases "u_lockedUntil u")
       (auto simp: loginFailure_find assms(4) loginFailure_row_def pg_loginFailure_set_def Let_def)
qed

lemma postgres_lockout_agrees_witness:
  "\<exists>v w. findUserById ''corp'' ''u1'' (recordLoginFailure 9 ''corp'' ''u1'' demo_store1) = Some v \<and>
    filter (user_row ''corp'' ''u1'') (pg_users (pg_recordLoginFailure 9 ''corp'' ''u1'' demo_db)) = [w] \<and>
    u_failedAttempts w = u_failedAttempts v \<and> u_lockedUntil w = u_lockedUntil v"
  by (rule postgres_lockout_agrees [OF demo_reach _ demo_db_rel demo_find]) simp

text \<open>Where they differ. Touching an administrator session that has expired revives it in the
  memory store and is refused by PostgreSQL; and a TOTP enrolment confirmed exactly ten minutes
  after it began is accepted by the memory store and refused by PostgreSQL.\<close>

theorem backends_differ_on_expiry:
  "(\<forall>now digest t x s d. findAdminSession digest s = Some x \<and> as_idDigest x = digest \<and>
      pg_sessions d = [x] \<and> as_idleExpiresAt x \<le> now \<longrightarrow>
      (\<exists>y. fst (touchAdminSession now digest t s) = Some y \<and> as_idleExpiresAt y = t) \<and>
      pg_touchAdminSession now digest t d = (None, d)) \<and>
   (\<forall>now r i u s d sec act n codes. findUserById r i s = Some u \<and> pg_users d = [u] \<and>
      u_pendingTotpSecret u = Some sec \<and> u_pendingTotpCreatedAt u = Some (now - 10 * 60000) \<and> safe_integer n \<longrightarrow>
      fst (confirmTotpEnrollment now r i (Some sec) (Some act) n codes s) \<and>
      \<not> fst (pg_confirmTotpEnrollment now r i (Some sec) (Some act) n codes d))"
  by (auto simp: touchAdminSession_def findAdminSession_def pg_touchAdminSession_def sql_update_def row0_def Let_def
      confirmTotpEnrollment_def pg_confirmTotpEnrollment_def update_user_def findUserById_def confirmTotp_row_def
      pg_update_user_def case_prod_beta)

definition demo_expired :: admin_session where
  "demo_expired = \<lparr>as_idDigest = ''d'', as_realm = ''corp'', as_userId = ''u1'', as_grantVersion = 1,
     as_securityVersion = 0, as_createdAt = 0, as_lastSeenAt = 0, as_idleExpiresAt = 5, as_expiresAt = 90\<rparr>"

lemma backends_differ_on_expiry_witness:
  "\<exists>y. fst (touchAdminSession 7 ''d'' 70 (demo_store1\<lparr>st_adminSessions := [(''d'', demo_expired)]\<rparr>)) = Some y \<and>
     as_idleExpiresAt y = 70"
proof -
  have "findAdminSession ''d'' (demo_store1\<lparr>st_adminSessions := [(''d'', demo_expired)]\<rparr>) = Some demo_expired \<and>
      as_idDigest demo_expired = ''d'' \<and>
      pg_sessions (demo_db\<lparr>pg_sessions := [demo_expired]\<rparr>) = [demo_expired] \<and> as_idleExpiresAt demo_expired \<le> 7"
    by (simp add: findAdminSession_def demo_expired_def)
  then show ?thesis using conjunct1 [OF backends_differ_on_expiry] by blast
qed

text \<open>PostgreSQL keeps the one-use contract of TOTP steps by itself.\<close>

definition pg_use_totp :: "string \<Rightarrow> string \<Rightarrow> int \<Rightarrow> int \<Rightarrow> pgdb \<Rightarrow> bool \<times> pgdb" where
  "pg_use_totp r i now step = pg_consumeTotpStep now r i step"

definition pg_totp_fresh :: "string \<Rightarrow> string \<Rightarrow> int \<Rightarrow> pgdb \<Rightarrow> bool" where
  "pg_totp_fresh r i step d \<longleftrightarrow> (\<exists>u\<in>set (pg_users d). user_row r i u \<and>
     (case u_lastTotpStep u of None \<Rightarrow> True | Some l \<Rightarrow> l < step))"

definition pg_one_row :: "string \<Rightarrow> string \<Rightarrow> pgdb \<Rightarrow> bool" where
  "pg_one_row r i d \<longleftrightarrow> length (filter (user_row r i) (pg_users d)) \<le> 1"

lemma pg_use_totp_rows:
  assumes "pg_use_totp r i now n d = (ok, d')"
  shows "pg_users d' = (if safe_integer n then map (\<lambda>u. if user_row r i u \<and>
      (case u_lastTotpStep u of None \<Rightarrow> True | Some l \<Rightarrow> l < n)
      then u\<lparr>u_lastTotpStep := Some n, u_updatedAt := now\<rparr> else u) (pg_users d) else pg_users d)"
    "ok \<Longrightarrow> pg_totp_fresh r i n d \<and> safe_integer n"
  using assms
  by (auto simp: pg_use_totp_def pg_consumeTotpStep_def pg_update_user_def sql_update_def pg_totp_fresh_def
      length_Suc_conv filter_eq_Cons_iff split: if_splits)

interpretation pg_totp: one_use "pg_use_totp r i" "pg_totp_fresh r i" "pg_one_row r i" for r i
proof (standard, goal_cases)
  case (1 s e k s')
  then show ?case using pg_use_totp_rows(2) by blast
next
  case (2 s e k s')
  have safe: "safe_integer k" using pg_use_totp_rows(2) [OF 2(2)] by simp
  let ?G = "\<lambda>u. user_row r i u \<and> (case u_lastTotpStep u of None \<Rightarrow> True | Some l \<Rightarrow> l < k)"
  have "\<not> ?G u'" if "u' \<in> set (pg_users s')" for u'
  proof -
    have "u' \<in> (\<lambda>u. if ?G u then u\<lparr>u_lastTotpStep := Some k, u_updatedAt := e\<rparr> else u) ` set (pg_users s)"
      using that pg_use_totp_rows(1) [OF 2(2)] safe by simp
    then obtain u where "u' = (if ?G u then u\<lparr>u_lastTotpStep := Some k, u_updatedAt := e\<rparr> else u)" by blast
    then show ?thesis by (cases "?G u") simp_all
  qed
  then show ?case by (auto simp: pg_totp_fresh_def)
next
  case (3 s e k ok s' k')
  then obtain u' where u': "u' \<in> set (pg_users s')" "user_row r i u'"
      "case u_lastTotpStep u' of None \<Rightarrow> True | Some l \<Rightarrow> l < k'"
    by (auto simp: pg_totp_fresh_def)
  show ?case
  proof (cases "u' \<in> set (pg_users s)")
    case True
    then show ?thesis using u' by (auto simp: pg_totp_fresh_def)
  next
    case False
    then obtain u where u: "u \<in> set (pg_users s)" "user_row r i u" "u' = u\<lparr>u_lastTotpStep := Some k, u_updatedAt := e\<rparr>"
        "case u_lastTotpStep u of None \<Rightarrow> True | Some l \<Rightarrow> l < k"
      using u'(1) pg_use_totp_rows(1) [OF 3(2)] by (auto split: if_splits)
    then show ?thesis using u'(3) by (auto simp: pg_totp_fresh_def split: option.splits intro!: bexI [of _ u])
  qed
next
  case (4 s e k ok s')
  have "length (filter (user_row r i) (map (\<lambda>u. if user_row r i u \<and> Q u
      then u\<lparr>u_lastTotpStep := a, u_updatedAt := b\<rparr> else u) xs)) = length (filter (user_row r i) xs)" for Q a b xs
    by (induction xs) (auto simp: user_row_def)
  then show ?case using 4(1) pg_use_totp_rows(1) [OF 4(2)] by (simp add: pg_one_row_def)
qed

end
