(* ===== verification/MemoryAdapter.thy ===== *)
theory MemoryAdapter
  imports OneUse
begin

text \<open>
  The in-memory protocol store (\<open>src/adapters/memory.js\<close>): one bucket of records per realm and
  model, shared by every adapter instance (\<open>stores\<close>). A record carries the payload, the security
  version of its account at the time it was saved, and its expiry; \<open>rc_ref\<close> is its object
  identity, which \<open>upsert\<close> compares. \<open>securityVersionFor\<close> is the argument \<open>sv\<close>. \<open>upsert\<close> waits
  twice for it, so it is three functions (\<open>upsert_begin\<close>, \<open>upsert_check\<close>, \<open>upsert_commit\<close>) between
  which other operations may run, and \<open>upsert\<close> is their uninterrupted composition.
  Lifetimes are given in milliseconds, so that the fractions of a second some callers pass are exact.
  Creating an empty bucket on first access is not observable and is left out.
\<close>

section \<open>State and operations\<close>

record payload =
  pl_grantId :: "string option"
  pl_accountId :: "string option"
  pl_userCode :: "string option"
  pl_uid :: "string option"
  pl_consumed :: "int option"
  pl_data :: json

record artifact =
  rc_ref :: nat
  rc_payload :: payload
  rc_securityVersion :: "int option"
  rc_expiresAt :: "int option"

type_synonym bucket = "(string \<times> artifact) list"

record adapter =
  ad_stores :: "(string \<times> bucket) list"
  ad_next :: nat

datatype adapter_error = InvalidRequest | InvalidGrant

definition NUL :: char where "NUL = CHR 0x00"

definition bkey :: "string \<Rightarrow> string \<Rightarrow> string" where "bkey realm model = realm @ NUL # model"

definition bucket_of :: "string \<Rightarrow> string \<Rightarrow> adapter \<Rightarrow> bucket" where
  "bucket_of realm model s = (case mget (ad_stores s) (bkey realm model) of None \<Rightarrow> [] | Some b \<Rightarrow> b)"

definition put_bucket :: "string \<Rightarrow> string \<Rightarrow> bucket \<Rightarrow> adapter \<Rightarrow> adapter" where
  "put_bucket realm model b s = s\<lparr>ad_stores := mset' (bkey realm model) b (ad_stores s)\<rparr>"

definition current :: "int \<Rightarrow> artifact option \<Rightarrow> artifact option" where
  "current now r =
     (case r of None \<Rightarrow> None
      | Some a \<Rightarrow> (case rc_expiresAt a of
            Some e \<Rightarrow> if e \<le> now then None else Some a
          | None \<Rightarrow> Some a))"

text \<open>Truthiness of \<open>payload.consumed\<close>, a time in seconds.\<close>

definition is_consumed :: "payload \<Rightarrow> bool" where
  "is_consumed p = (case pl_consumed p of None \<Rightarrow> False | Some n \<Rightarrow> n \<noteq> 0)"

text \<open>\<open>upsert\<close>, up to the first wait: what it has read of the store.\<close>

record upsert_start =
  us_next :: payload
  us_parent :: "artifact option"

definition parent_account :: "artifact option \<Rightarrow> string option" where
  "parent_account p = (case p of None \<Rightarrow> None | Some a \<Rightarrow> pl_accountId (rc_payload a))"

definition upsert_begin ::
    "int \<Rightarrow> string \<Rightarrow> string \<Rightarrow> string \<Rightarrow> payload \<Rightarrow> adapter \<Rightarrow> adapter_error + upsert_start" where
  "upsert_begin now realm model aid payload s =
     (let existing = mget (bucket_of realm model s) aid in
      if model = ''ReplayDetection'' \<and> current now existing \<noteq> None then Inl InvalidRequest
      else (let next = (case existing of
                  None \<Rightarrow> payload
                | Some e \<Rightarrow>
                    if is_consumed (rc_payload e) \<and> \<not> is_consumed payload
                    then payload\<lparr>pl_consumed := pl_consumed (rc_payload e)\<rparr> else payload);
                parent = (case pl_grantId next of
                  None \<Rightarrow> None | Some g \<Rightarrow> current now (mget (bucket_of realm ''Grant'' s) g))
            in Inr \<lparr>us_next = next, us_parent = parent\<rparr>))"

text \<open>After the first wait, which gave \<open>parentVersion\<close>.\<close>

definition upsert_check :: "int option \<Rightarrow> upsert_start \<Rightarrow> adapter_error + payload" where
  "upsert_check parentVersion st =
     (let next = us_next st in
      if pl_grantId next = None then Inr next
      else (case us_parent st of
              None \<Rightarrow> Inl InvalidGrant
            | Some p \<Rightarrow>
                if parent_account (us_parent st) = None \<or> parentVersion = None
                  \<or> rc_securityVersion p \<noteq> parentVersion
                then Inl InvalidGrant
                else if pl_accountId next \<noteq> None \<and> pl_accountId next \<noteq> parent_account (us_parent st)
                then Inl InvalidGrant
                else Inr (next\<lparr>pl_accountId := parent_account (us_parent st)\<rparr>)))"

text \<open>After the second wait, which gave \<open>securityVersion\<close>.\<close>

definition upsert_commit ::
    "int \<Rightarrow> string \<Rightarrow> string \<Rightarrow> string \<Rightarrow> payload \<Rightarrow> int option \<Rightarrow> artifact option \<Rightarrow> int option \<Rightarrow>
     adapter \<Rightarrow> adapter_error + adapter" where
  "upsert_commit now realm model aid next securityVersion parent expiresIn s =
     (if pl_accountId next \<noteq> None \<and> securityVersion = None then Inl InvalidGrant
      else (let liveParent = (case pl_grantId next of
                  None \<Rightarrow> None | Some g \<Rightarrow> current now (mget (bucket_of realm ''Grant'' s) g)) in
            if pl_grantId next \<noteq> None \<and>
               (map_option rc_ref liveParent \<noteq> map_option rc_ref parent \<or>
                (case liveParent of None \<Rightarrow> True | Some p \<Rightarrow> rc_securityVersion p \<noteq> securityVersion))
            then Inl InvalidGrant
            else Inr ((put_bucket realm model
                   (mset' aid \<lparr>rc_ref = ad_next s, rc_payload = next, rc_securityVersion = securityVersion,
                       rc_expiresAt = map_option (\<lambda>e. now + e) expiresIn\<rparr>
                     (bucket_of realm model s)) s)\<lparr>ad_next := ad_next s + 1\<rparr>)))"

definition sv_of :: "(string \<Rightarrow> int option) \<Rightarrow> string option \<Rightarrow> int option" where
  "sv_of sv acc = (case acc of None \<Rightarrow> None | Some a \<Rightarrow> sv a)"

definition upsert ::
    "int \<Rightarrow> (string \<Rightarrow> int option) \<Rightarrow> string \<Rightarrow> string \<Rightarrow> string \<Rightarrow> payload \<Rightarrow> int option \<Rightarrow>
     adapter \<Rightarrow> adapter_error + adapter" where
  "upsert now sv realm model aid payload expiresIn s =
     bindR (upsert_begin now realm model aid payload s) (\<lambda>st.
     bindR (upsert_check (sv_of sv (parent_account (us_parent st))) st) (\<lambda>next.
       upsert_commit now realm model aid next (sv_of sv (pl_accountId next)) (us_parent st) expiresIn s))"

definition version_ok :: "(string \<Rightarrow> int option) \<Rightarrow> artifact \<Rightarrow> bool" where
  "version_ok sv a \<longleftrightarrow> rc_securityVersion a = None \<or> sv_of sv (pl_accountId (rc_payload a)) = rc_securityVersion a"

definition find_artifact ::
    "int \<Rightarrow> (string \<Rightarrow> int option) \<Rightarrow> string \<Rightarrow> string \<Rightarrow> string \<Rightarrow> adapter \<Rightarrow> payload option" where
  "find_artifact now sv realm model aid s =
     (case current now (mget (bucket_of realm model s) aid) of
        None \<Rightarrow> None
      | Some a \<Rightarrow> if version_ok sv a then Some (rc_payload a) else None)"

fun find_live :: "int \<Rightarrow> (string \<Rightarrow> int option) \<Rightarrow> (payload \<Rightarrow> bool) \<Rightarrow> artifact list \<Rightarrow> payload option" where
  "find_live now sv P [] = None"
| "find_live now sv P (a # as) =
     (case current now (Some a) of
        Some l \<Rightarrow>
          if P (rc_payload l) then (if version_ok sv l then Some (rc_payload l) else None)
          else find_live now sv P as
      | None \<Rightarrow> find_live now sv P as)"

definition findByUserCode ::
    "int \<Rightarrow> (string \<Rightarrow> int option) \<Rightarrow> string \<Rightarrow> string \<Rightarrow> string \<Rightarrow> adapter \<Rightarrow> payload option" where
  "findByUserCode now sv realm model code s =
     find_live now sv (\<lambda>p. pl_userCode p = Some code) (mvals (bucket_of realm model s))"

definition findByUid ::
    "int \<Rightarrow> (string \<Rightarrow> int option) \<Rightarrow> string \<Rightarrow> string \<Rightarrow> string \<Rightarrow> adapter \<Rightarrow> payload option" where
  "findByUid now sv realm model u s =
     find_live now sv (\<lambda>p. pl_uid p = Some u) (mvals (bucket_of realm model s))"

definition one_use_grants :: "string list" where
  "one_use_grants = [''AuthorizationCode'', ''RefreshToken'', ''DeviceCode'', ''BackchannelAuthenticationRequest'']"

definition mark_consumed :: "int \<Rightarrow> artifact \<Rightarrow> artifact" where
  "mark_consumed now a = a\<lparr>rc_payload := (rc_payload a)\<lparr>pl_consumed := Some (now div 1000)\<rparr>\<rparr>"

definition consume :: "int \<Rightarrow> string \<Rightarrow> string \<Rightarrow> string \<Rightarrow> adapter \<Rightarrow> adapter_error + adapter" where
  "consume now realm model aid s =
     (case current now (mget (bucket_of realm model s) aid) of
        Some a \<Rightarrow>
          if \<not> is_consumed (rc_payload a)
          then Inr (put_bucket realm model (mset' aid (mark_consumed now a) (bucket_of realm model s)) s)
          else Inl (if model \<in> set one_use_grants then InvalidGrant else InvalidRequest)
      | None \<Rightarrow> Inl (if model \<in> set one_use_grants then InvalidGrant else InvalidRequest))"

definition destroy :: "string \<Rightarrow> string \<Rightarrow> string \<Rightarrow> adapter \<Rightarrow> adapter" where
  "destroy realm model aid s = put_bucket realm model (mdel aid (bucket_of realm model s)) s"

definition revokeByGrantId :: "string \<Rightarrow> string \<Rightarrow> string \<Rightarrow> adapter \<Rightarrow> adapter" where
  "revokeByGrantId realm model grantId s =
     put_bucket realm model (mdrop (\<lambda>a. pl_grantId (rc_payload a) = Some grantId) (bucket_of realm model s)) s"

definition clearMemoryAdapter :: "adapter \<Rightarrow> adapter" where
  "clearMemoryAdapter s = s\<lparr>ad_stores := []\<rparr>"

text \<open>Which records of a realm an account loses.\<close>

definition account_grants :: "string \<Rightarrow> string \<Rightarrow> adapter \<Rightarrow> string list" where
  "account_grants realm acc s =
     map fst (filter (\<lambda>(i, a). pl_accountId (rc_payload a) = Some acc) (bucket_of realm ''Grant'' s))"

definition doomed :: "string \<Rightarrow> string list \<Rightarrow> artifact \<Rightarrow> bool" where
  "doomed acc grants a \<longleftrightarrow> pl_accountId (rc_payload a) = Some acc \<or>
     (case pl_grantId (rc_payload a) of None \<Rightarrow> False | Some g \<Rightarrow> g \<in> set grants)"

fun revoke_buckets :: "string \<Rightarrow> (artifact \<Rightarrow> bool) \<Rightarrow> (string \<times> bucket) list \<Rightarrow> nat \<times> (string \<times> bucket) list" where
  "revoke_buckets prefix P [] = (0, [])"
| "revoke_buckets prefix P ((key, records) # bs) =
     (let (n, bs') = revoke_buckets prefix P bs in
      if \<not> js_starts prefix key then (n, (key, records) # bs')
      else (n + length (filter P (mvals records)), (key, mdrop P records) # bs'))"

definition revokeMemoryAccount :: "string \<Rightarrow> string \<Rightarrow> adapter \<Rightarrow> nat \<times> adapter" where
  "revokeMemoryAccount realm acc s =
     (let (n, bs) = revoke_buckets (realm @ [NUL]) (doomed acc (account_grants realm acc s)) (ad_stores s)
      in (n, s\<lparr>ad_stores := bs\<rparr>))"

definition claimMemoryInitialAccessToken :: "int \<Rightarrow> string \<Rightarrow> string \<Rightarrow> adapter \<Rightarrow> bool \<times> adapter" where
  "claimMemoryInitialAccessToken now realm aid s =
     (case current now (mget (bucket_of realm ''InitialAccessToken'' s) aid) of
        None \<Rightarrow> (False, s)
      | Some a \<Rightarrow>
          if is_consumed (rc_payload a) then (False, s)
          else (True, put_bucket realm ''InitialAccessToken''
                  (mset' aid (mark_consumed now a) (bucket_of realm ''InitialAccessToken'' s)) s))"

section \<open>Buckets\<close>

lemma bkey_inj:
  assumes "NUL \<notin> set r" and "NUL \<notin> set r'" shows "bkey r m = bkey r' m' \<longleftrightarrow> r = r' \<and> m = m'"
proof
  assume eq: "bkey r m = bkey r' m'"
  have "js_split NUL (bkey r m) = r # js_split NUL m" "js_split NUL (bkey r' m') = r' # js_split NUL m'"
    using assms by (simp_all add: bkey_def js_split_append)
  then have "r = r'" using eq by simp
  then show "r = r' \<and> m = m'" using eq by (simp add: bkey_def)
qed simp

lemma realm_re_no_NUL: "realm_re r \<Longrightarrow> NUL \<notin> set r"
  by (cases r) (auto simp: js_defs list_all_iff NUL_def)

lemma bucket_put_same [simp]: "bucket_of r m (put_bucket r m b s) = b"
  by (simp add: bucket_of_def put_bucket_def)

lemma bucket_put_other:
  "NUL \<notin> set r \<Longrightarrow> NUL \<notin> set r' \<Longrightarrow> (r', m') \<noteq> (r, m) \<Longrightarrow>
   bucket_of r' m' (put_bucket r m b s) = bucket_of r' m' s"
  by (auto simp: bucket_of_def put_bucket_def bkey_inj)

lemma bucket_next [simp]: "bucket_of r m (s\<lparr>ad_next := n\<rparr>) = bucket_of r m s"
  by (simp add: bucket_of_def)

definition adapter_inv :: "adapter \<Rightarrow> bool" where
  "adapter_inv s \<longleftrightarrow> map_wf (ad_stores s) \<and> (\<forall>k b. mget (ad_stores s) k = Some b \<longrightarrow> map_wf b)"

lemma adapter_inv_bucket: "adapter_inv s \<Longrightarrow> map_wf (bucket_of r m s)"
  by (auto simp: adapter_inv_def bucket_of_def split: option.splits)

lemma adapter_inv_put: "adapter_inv s \<Longrightarrow> map_wf b \<Longrightarrow> adapter_inv (put_bucket r m b s)"
  by (auto simp: adapter_inv_def put_bucket_def)

lemma current_SomeD: "current now r = Some a \<Longrightarrow> r = Some a \<and> (\<forall>e. rc_expiresAt a = Some e \<longrightarrow> now < e)"
  by (auto simp: current_def split: option.splits if_splits)

lemma upsert_commit_cases:
  assumes "upsert_commit now r m i next v parent ex s = Inr s'"
  shows "\<exists>a. bucket_of r m s' = mset' i a (bucket_of r m s) \<and> rc_payload a = next \<and>
    rc_securityVersion a = v \<and> rc_expiresAt a = map_option (\<lambda>e. now + e) ex"
    "pl_accountId next \<noteq> None \<Longrightarrow> v \<noteq> None"
    "\<And>g. pl_grantId next = Some g \<Longrightarrow> \<exists>p q. current now (mget (bucket_of r ''Grant'' s) g) = Some p \<and>
       rc_securityVersion p = v \<and> parent = Some q \<and> rc_ref q = rc_ref p"
    "adapter_inv s \<Longrightarrow> adapter_inv s'"
proof -
  let ?a = "\<lparr>rc_ref = ad_next s, rc_payload = next, rc_securityVersion = v,
      rc_expiresAt = map_option (\<lambda>e. now + e) ex\<rparr>"
  have s': "s' = (put_bucket r m (mset' i ?a (bucket_of r m s)) s)\<lparr>ad_next := ad_next s + 1\<rparr>"
    using assms by (auto simp: upsert_commit_def Let_def split: if_splits)
  show "\<exists>a. bucket_of r m s' = mset' i a (bucket_of r m s) \<and> rc_payload a = next \<and>
      rc_securityVersion a = v \<and> rc_expiresAt a = map_option (\<lambda>e. now + e) ex"
    by (rule exI [of _ ?a]) (simp add: s')
  show "pl_accountId next \<noteq> None \<Longrightarrow> v \<noteq> None" using assms by (auto simp: upsert_commit_def split: if_splits)
  show "\<exists>p q. current now (mget (bucket_of r ''Grant'' s) g) = Some p \<and> rc_securityVersion p = v \<and>
      parent = Some q \<and> rc_ref q = rc_ref p" if "pl_grantId next = Some g" for g
    using assms that
    by (cases parent) (auto simp: upsert_commit_def Let_def split: if_splits option.splits)
  show "adapter_inv s'" if "adapter_inv s"
    using adapter_inv_put [OF that map_wf_update [OF adapter_inv_bucket [OF that]], of r m i ?a r m]
    by (simp add: s' adapter_inv_def)
qed

end
