(* ===== verification/AdapterProps.thy ===== *)
theory AdapterProps
  imports MemoryAdapter
begin

text \<open>
  What the in-memory protocol store guarantees: an artifact is saved only under a live parent
  grant of its account, even when other requests run between the waits of \<open>upsert\<close>; it is found
  only while it is fresh and its account has not been revoked; it is consumed once; and revoking
  an account leaves none of its artifacts.
\<close>

section \<open>Saving\<close>

text \<open>C6: An artifact of a grant is saved only if, at the moment of saving, the grant is alive, is
  the very record read when the save began, and carries the security version its account has
  now; the artifact gets that account and that version. Nothing is assumed about what happened
  to the store between the three phases.\<close>

theorem artifact_bound_to_live_grant:
  assumes "upsert_begin now0 r m i p s0 = Inr st" and "upsert_check v1 st = Inr nx"
    and "upsert_commit now r m i nx v2 (us_parent st) ex s = Inr s'" and "pl_grantId p = Some g"
  shows "\<exists>parent q a acc v. mget (bucket_of r ''Grant'' s) g = Some parent \<and>
    mget (bucket_of r ''Grant'' s0) g = Some q \<and> rc_ref parent = rc_ref q \<and>
    (\<forall>e. rc_expiresAt parent = Some e \<longrightarrow> now < e) \<and>
    parent_account (Some q) = Some acc \<and> (pl_accountId p = None \<or> pl_accountId p = Some acc) \<and>
    rc_securityVersion parent = Some v \<and> v2 = Some v \<and>
    mget (bucket_of r m s') i = Some a \<and> pl_accountId (rc_payload a) = Some acc \<and>
    rc_securityVersion a = Some v \<and> pl_grantId (rc_payload a) = Some g"
proof -
  have g: "pl_grantId (us_next st) = Some g" "pl_accountId (us_next st) = pl_accountId p"
    and par: "us_parent st = current now0 (mget (bucket_of r ''Grant'' s0) g)"
    using assms(1,4) by (auto simp: upsert_begin_def Let_def split: if_splits option.splits)
  obtain q acc where q: "us_parent st = Some q" "parent_account (us_parent st) = Some acc"
      "nx = (us_next st)\<lparr>pl_accountId := Some acc\<rparr>" "pl_accountId p = None \<or> pl_accountId p = Some acc"
    using assms(2) g by (auto simp: upsert_check_def Let_def split: if_splits option.splits)
  have nx: "pl_grantId nx = Some g" "pl_accountId nx = Some acc" using g q(3) by simp_all
  note c = upsert_commit_cases [OF assms(3)]
  obtain parent where parent: "current now (mget (bucket_of r ''Grant'' s) g) = Some parent"
      "rc_securityVersion parent = v2" "rc_ref q = rc_ref parent"
    using c(3) [OF nx(1)] q(1) by auto
  obtain v where v: "v2 = Some v" using c(2) nx(2) by auto
  obtain a where a: "bucket_of r m s' = mset' i a (bucket_of r m s)" "rc_payload a = nx" "rc_securityVersion a = v2"
    using c(1) by auto
  show ?thesis
    using current_SomeD [OF parent(1)] current_SomeD [OF par [unfolded q(1), symmetric]] parent(2,3) q(1,2,4) v a nx
    by auto
qed

text \<open>A grant \<open>g\<close> of the account \<open>ann\<close>, saved under version 3, and a token of that grant.\<close>

definition demo_payload :: payload where
  "demo_payload = \<lparr>pl_grantId = None, pl_accountId = Some ''ann'', pl_userCode = None, pl_uid = None,
     pl_consumed = None, pl_data = JNull\<rparr>"

definition demo_sv :: "string \<Rightarrow> int option" where "demo_sv acc = (if acc = ''ann'' then Some 3 else None)"

definition demo_adapter :: adapter where
  "demo_adapter = projr (upsert 0 demo_sv ''corp'' ''Grant'' ''g'' demo_payload None \<lparr>ad_stores = [], ad_next = 0\<rparr>)"

definition demo_token :: payload where
  "demo_token = demo_payload\<lparr>pl_grantId := Some ''g'', pl_accountId := None\<rparr>"

lemmas demo_adapter_eval = demo_adapter_def upsert_def upsert_begin_def upsert_check_def upsert_commit_def
  sv_of_def bucket_of_def put_bucket_def bkey_def current_def parent_account_def demo_payload_def demo_sv_def
  demo_token_def NUL_def is_consumed_def Let_def

lemma artifact_bound_to_live_grant_witness:
  "\<exists>st nx s'. upsert_begin 1 ''corp'' ''AccessToken'' ''t'' demo_token demo_adapter = Inr st \<and>
     upsert_check (Some 3) st = Inr nx \<and>
     upsert_commit 2 ''corp'' ''AccessToken'' ''t'' nx (Some 3) (us_parent st) (Some 60000) demo_adapter = Inr s' \<and>
     (\<exists>a. mget (bucket_of ''corp'' ''AccessToken'' s') ''t'' = Some a \<and> rc_securityVersion a = Some 3)"
proof -
  obtain st where st: "upsert_begin 1 ''corp'' ''AccessToken'' ''t'' demo_token demo_adapter = Inr st"
    by (simp add: demo_adapter_eval)
  obtain nx where n: "upsert_check (Some 3) st = Inr nx"
    using st by (simp add: demo_adapter_eval) (auto simp: demo_adapter_eval)
  obtain s' where c: "upsert_commit 2 ''corp'' ''AccessToken'' ''t'' nx (Some 3) (us_parent st) (Some 60000) demo_adapter = Inr s'"
    using st n by (simp add: demo_adapter_eval) (auto simp: demo_adapter_eval)
  have "pl_grantId demo_token = Some ''g''" by (simp add: demo_token_def)
  from artifact_bound_to_live_grant [OF st n c this] st n c show ?thesis by auto
qed

section \<open>Finding\<close>

text \<open>An artifact is found only while it has not expired and its account is enabled at the
  security version it was saved under: for an artifact saved by \<open>upsert\<close> for an account, a
  changed or missing version hides it from all three look-ups.\<close>

theorem stale_artifacts_hidden:
  assumes "upsert now sv r m i p ex s = Inr s'" and "pl_accountId p = Some acc" and "sv' acc \<noteq> sv acc"
  shows "find_artifact now' sv' r m i s' = None \<and>
    (\<exists>a. mget (bucket_of r m s') i = Some a \<and> rc_securityVersion a = sv acc \<and> pl_accountId (rc_payload a) = Some acc \<and>
      \<not> version_ok sv' a)"
proof -
  obtain st nx where st: "upsert_begin now r m i p s = Inr st"
      "upsert_check (sv_of sv (parent_account (us_parent st))) st = Inr nx"
      "upsert_commit now r m i nx (sv_of sv (pl_accountId nx)) (us_parent st) ex s = Inr s'"
    using assms(1) by (auto simp: upsert_def)
  have "pl_accountId (us_next st) = Some acc"
    using st(1) assms(2) by (auto simp: upsert_begin_def Let_def split: if_splits option.splits)
  then have acc: "pl_accountId nx = Some acc"
    using st(2) by (auto simp: upsert_check_def Let_def split: if_splits option.splits)
  obtain a where a: "mget (bucket_of r m s') i = Some a" "rc_payload a = nx" "rc_securityVersion a = sv acc"
    using upsert_commit_cases(1) [OF st(3)] acc by (auto simp: sv_of_def)
  have "sv acc \<noteq> None" using upsert_commit_cases(2) [OF st(3)] acc by (simp add: sv_of_def)
  then have "\<not> version_ok sv' a" using a assms(3) acc by (simp add: version_ok_def sv_of_def)
  then show ?thesis
    using a acc by (auto simp: find_artifact_def current_def split: option.splits)
qed

lemma stale_artifacts_hidden_witness:
  "find_artifact 5 (\<lambda>_. Some 4) ''corp'' ''Grant'' ''g'' demo_adapter = None \<and>
   find_artifact 5 demo_sv ''corp'' ''Grant'' ''g'' demo_adapter = Some demo_payload"
proof -
  have u: "upsert 0 demo_sv ''corp'' ''Grant'' ''g'' demo_payload None \<lparr>ad_stores = [], ad_next = 0\<rparr> = Inr demo_adapter"
    by (simp add: demo_adapter_eval)
  have "find_artifact 5 demo_sv ''corp'' ''Grant'' ''g'' demo_adapter = Some demo_payload"
    by (simp add: find_artifact_def version_ok_def demo_adapter_eval)
  then show ?thesis
    using stale_artifacts_hidden [OF u, of "''ann''" "\<lambda>_. Some 4" 5] by (simp add: demo_payload_def demo_sv_def)
qed

section \<open>Consuming\<close>

definition spent :: "string \<Rightarrow> string \<Rightarrow> string \<Rightarrow> adapter \<Rightarrow> bool" where
  "spent r m i s \<longleftrightarrow> (\<exists>a. mget (bucket_of r m s) i = Some a \<and> is_consumed (rc_payload a))"

lemma spent_consume: "spent r m i s \<Longrightarrow> \<exists>e. consume now r m i s = Inl e"
  by (auto simp: spent_def consume_def current_def split: option.splits)

lemma consume_cases:
  assumes "consume now r m i s = Inr s'"
  obtains a where "mget (bucket_of r m s) i = Some a" "\<not> is_consumed (rc_payload a)"
    "current now (Some a) = Some a"
    "s' = put_bucket r m (mset' i (mark_consumed now a) (bucket_of r m s)) s"
proof (cases "current now (mget (bucket_of r m s) i)")
  case None
  then show ?thesis using assms by (simp add: consume_def)
next
  case (Some a)
  with current_SomeD [OF Some] show ?thesis
    using assms by (intro that [of a]) (auto simp: consume_def split: if_splits)
qed

lemma is_consumed_mark: "1000 \<le> now \<Longrightarrow> is_consumed (rc_payload (mark_consumed now a))"
  by (simp add: is_consumed_def mark_consumed_def)

lemma consume_spends: "1000 \<le> now \<Longrightarrow> consume now r m i s = Inr s' \<Longrightarrow> spent r m i s'"
  by (erule consume_cases) (simp add: spent_def is_consumed_mark)

lemma upsert_spent:
  assumes "upsert now sv r m i p ex s = Inr s'" and "spent r m i s" shows "spent r m i s'"
proof -
  obtain st nx where st: "upsert_begin now r m i p s = Inr st"
      "upsert_check (sv_of sv (parent_account (us_parent st))) st = Inr nx"
      "upsert_commit now r m i nx (sv_of sv (pl_accountId nx)) (us_parent st) ex s = Inr s'"
    using assms(1) by (auto simp: upsert_def)
  have "is_consumed (us_next st)"
    using st(1) assms(2) by (auto simp: spent_def upsert_begin_def Let_def is_consumed_def split: if_splits)
  then have "is_consumed nx"
    using st(2) by (auto simp: upsert_check_def Let_def is_consumed_def split: if_splits option.splits)
  then show ?thesis using upsert_commit_cases(1) [OF st(3)] by (auto simp: spent_def)
qed

text \<open>The operations other requests may make, uninterrupted, on the bucket of one model.\<close>

inductive bucket_step :: "string \<Rightarrow> string \<Rightarrow> adapter \<Rightarrow> adapter \<Rightarrow> bool" for r m where
  "upsert now sv r m j p ex s = Inr s' \<Longrightarrow> bucket_step r m s s'"
| "consume now r m j s = Inr s' \<Longrightarrow> 1000 \<le> now \<Longrightarrow> bucket_step r m s s'"

lemma spent_step: "bucket_step r m s s' \<Longrightarrow> spent r m i s \<Longrightarrow> spent r m i s'"
proof (induction rule: bucket_step.induct)
  case (1 now sv j p ex s s')
  show ?case
  proof (cases "j = i")
    case True
    then show ?thesis using upsert_spent 1 by blast
  next
    case False
    obtain a where "bucket_of r m s' = mset' j a (bucket_of r m s)"
      using 1(1) by (auto simp: upsert_def dest: upsert_commit_cases(1))
    then show ?thesis using 1(2) False by (auto simp: spent_def)
  qed
next
  case (2 now j s s')
  from 2(1) show ?case by (rule consume_cases) (use 2(3) is_consumed_mark [OF 2(2)] in \<open>auto simp: spent_def\<close>)
qed


definition demo_code :: adapter where
  "demo_code = projr (upsert 0 demo_sv ''corp'' ''AuthorizationCode'' ''c'' demo_payload (Some 60000)
     \<lparr>ad_stores = [], ad_next = 0\<rparr>)"


text \<open>Consumption and the initial access token as instances of the one-use contract; time starts one
  second after the epoch.\<close>

definition use_artifact :: "string \<Rightarrow> string \<Rightarrow> nat \<Rightarrow> string \<Rightarrow> adapter \<Rightarrow> bool \<times> adapter" where
  "use_artifact r m t i s = (case consume (1000 + int t) r m i s of Inr s' \<Rightarrow> (True, s') | Inl _ \<Rightarrow> (False, s))"

definition unspent :: "string \<Rightarrow> string \<Rightarrow> string \<Rightarrow> adapter \<Rightarrow> bool" where
  "unspent r m i s \<longleftrightarrow> (\<exists>a. mget (bucket_of r m s) i = Some a \<and> \<not> is_consumed (rc_payload a))"

lemma use_artifact_True:
  "use_artifact r m t i s = (True, s') \<Longrightarrow> consume (1000 + int t) r m i s = Inr s'"
  by (auto simp: use_artifact_def split: sum.splits)

interpretation artifact: one_use "use_artifact r m" "unspent r m" "\<lambda>s. True" for r m
proof (standard, goal_cases)
  case (1 s e k s')
  from use_artifact_True [OF 1(2)] show ?case by (rule consume_cases) (auto simp: unspent_def)
next
  case (2 s e k s')
  from use_artifact_True [OF 2(2)] show ?case
    by (rule consume_cases) (simp add: unspent_def is_consumed_mark)
next
  case (3 s e k ok s' k')
  show ?case
  proof (cases ok)
    case True
    then show ?thesis using use_artifact_True [of r m e k s s'] 3(2,3)
      by (auto simp: unspent_def is_consumed_mark elim!: consume_cases split: if_splits)
  next
    case False
    then show ?thesis using 3(2,3) by (auto simp: use_artifact_def split: sum.splits)
  qed
qed simp

definition use_initial_token :: "string \<Rightarrow> nat \<Rightarrow> string \<Rightarrow> adapter \<Rightarrow> bool \<times> adapter" where
  "use_initial_token r t i s = claimMemoryInitialAccessToken (1000 + int t) r i s"

lemma claim_consume:
  "use_initial_token r t i s = use_artifact r ''InitialAccessToken'' t i s"
  by (auto simp: use_initial_token_def use_artifact_def claimMemoryInitialAccessToken_def consume_def
      split: option.splits)

text \<open>However many requests race to claim initial access tokens, each token is claimed once, and
  only tokens that exist, unconsumed, are claimed.\<close>

theorem initial_access_token_single_use:
  "distinct (fst (attempts (use_initial_token r) tries s)) \<and>
   (\<forall>i \<in> set (fst (attempts (use_initial_token r) tries s)). unspent r ''InitialAccessToken'' i s)"
proof -
  have e: "use_initial_token r = use_artifact r ''InitialAccessToken''" by (intro ext) (rule claim_consume)
  show ?thesis unfolding e
    using artifact.attempts_distinct [OF _ prod.collapse [symmetric]]
      artifact.attempts_fresh [OF _ prod.collapse [symmetric]] by blast
qed

definition demo_initial :: adapter where
  "demo_initial = \<lparr>ad_stores = [(bkey ''corp'' ''InitialAccessToken'', [(''t'', \<lparr>rc_ref = 0, rc_payload = demo_payload,
     rc_securityVersion = None, rc_expiresAt = None\<rparr>)])], ad_next = 1\<rparr>"

lemma initial_access_token_single_use_witness:
  "distinct (fst (attempts (use_initial_token ''corp'') [(5000, ''t''), (6000, ''t'')] demo_initial)) \<and>
   unspent ''corp'' ''InitialAccessToken'' ''t'' demo_initial"
proof -
  have "fst (attempts (use_initial_token ''corp'') [(5000, ''t''), (6000, ''t'')] demo_initial) = [''t'']"
    by (simp add: use_initial_token_def claimMemoryInitialAccessToken_def demo_initial_def bucket_of_def current_def
      is_consumed_def demo_payload_def put_bucket_def mark_consumed_def)
  then show ?thesis
    using initial_access_token_single_use [of "''corp''" "[(5000, ''t''), (6000, ''t'')]" demo_initial] by simp
qed

text \<open>The three phases of \<open>upsert\<close> are not atomic in the memory store. When an artifact is
  consumed while a save of it is waiting for a security version, the save puts it back as
  unconsumed, and it can be consumed a second time.\<close>

theorem interrupted_save_forgets_consumption:
  assumes "upsert_begin now r m i p s = Inr st" and "unspent r m i s" and "pl_grantId p = None"
    and "\<not> is_consumed p" and "consume now r m i s = Inr s1" and "pl_accountId p = Some acc"
  shows "\<exists>nx s2. upsert_check None st = Inr nx \<and>
    upsert_commit now r m i nx (Some v) (us_parent st) None s1 = Inr s2 \<and>
    (\<exists>s3. consume now r m i s2 = Inr s3)"
proof -
  have n: "us_next st = p"
    using assms(1,2) by (auto simp: upsert_begin_def unspent_def Let_def split: if_splits)
  then have "upsert_check None st = Inr p" using assms(3) by (simp add: upsert_check_def Let_def)
  moreover obtain s2 where s2: "upsert_commit now r m i p (Some v) (us_parent st) None s1 = Inr s2"
    using assms(3) by (simp add: upsert_commit_def)
  moreover obtain a where "bucket_of r m s2 = mset' i a (bucket_of r m s1)" "rc_payload a = p" "rc_expiresAt a = None"
    using upsert_commit_cases(1) [OF s2] by auto
  then have "\<exists>s3. consume now r m i s2 = Inr s3"
    using assms(4) by (simp add: consume_def current_def)
  ultimately show ?thesis by blast
qed

lemma interrupted_save_forgets_consumption_witness:
  "\<exists>st s1 nx s2 s3. upsert_begin 5000 ''corp'' ''AuthorizationCode'' ''c'' demo_payload demo_code = Inr st \<and>
     consume 5000 ''corp'' ''AuthorizationCode'' ''c'' demo_code = Inr s1 \<and>
     upsert_commit 5000 ''corp'' ''AuthorizationCode'' ''c'' nx (Some 3) (us_parent st) None s1 = Inr s2 \<and>
     consume 5000 ''corp'' ''AuthorizationCode'' ''c'' s2 = Inr s3"
proof -
  obtain st where st: "upsert_begin 5000 ''corp'' ''AuthorizationCode'' ''c'' demo_payload demo_code = Inr st"
    by (simp add: demo_code_def demo_adapter_eval)
  obtain s1 where s1: "consume 5000 ''corp'' ''AuthorizationCode'' ''c'' demo_code = Inr s1"
    by (simp add: consume_def demo_code_def demo_adapter_eval)
  have u: "unspent ''corp'' ''AuthorizationCode'' ''c'' demo_code"
    by (simp add: unspent_def demo_code_def demo_adapter_eval)
  have p: "pl_grantId demo_payload = None" "\<not> is_consumed demo_payload" "pl_accountId demo_payload = Some ''ann''"
    by (simp_all add: demo_payload_def is_consumed_def)
  from interrupted_save_forgets_consumption [OF st u p(1,2) s1 p(3), of 3] st s1 show ?thesis by blast
qed

section \<open>Revoking\<close>

lemma revoke_buckets_mget:
  "mget (snd (revoke_buckets prefix P bs)) k =
     map_option (\<lambda>b. if js_starts prefix k then mdrop P b else b) (mget bs k)"
  by (induction prefix P bs rule: revoke_buckets.induct) (auto split: prod.splits)

lemma revoke_bucket_of:
  assumes "NUL \<notin> set r" and "NUL \<notin> set r'" and "revokeMemoryAccount r acc s = (n, s')"
  shows "bucket_of r' m s' = (if r' = r then mdrop (doomed acc (account_grants r acc s)) (bucket_of r' m s)
    else bucket_of r' m s)"
proof -
  have "js_starts (r @ [NUL]) (bkey r' m) \<longleftrightarrow> r' = r"
  proof
    assume "js_starts (r @ [NUL]) (bkey r' m)"
    then obtain t where "bkey r' m = (r @ [NUL]) @ t"
      unfolding js_starts_def by (metis append_take_drop_id)
    then have "bkey r' m = bkey r t" by (simp add: bkey_def)
    then show "r' = r" using bkey_inj [OF assms(2,1)] by simp
  next
    assume "r' = r"
    then have "bkey r' m = (r @ [NUL]) @ m" by (simp add: bkey_def)
    then show "js_starts (r @ [NUL]) (bkey r' m)" by (simp only: js_starts_append)
  qed
  moreover have "ad_stores s' = snd (revoke_buckets (r @ [NUL]) (doomed acc (account_grants r acc s)) (ad_stores s))"
    using assms(3) by (auto simp: revokeMemoryAccount_def split: prod.splits)
  ultimately show ?thesis
    by (auto simp: bucket_of_def revoke_buckets_mget mdrop_def split: option.splits)
qed

text \<open>Revoking an account removes, in its realm, every artifact of the account and every artifact
  under one of the account's grants, and nothing else; afterwards no look-up and no consumption in
  that realm reaches one of them.\<close>

theorem revoke_account_complete:
  assumes "adapter_inv s" and "NUL \<notin> set r" and "revokeMemoryAccount r acc s = (n, s')"
  shows "(\<forall>m i a. mget (bucket_of r m s') i = Some a \<longleftrightarrow> mget (bucket_of r m s) i = Some a \<and>
        pl_accountId (rc_payload a) \<noteq> Some acc \<and>
        (\<forall>g gr. pl_grantId (rc_payload a) = Some g \<and> mget (bucket_of r ''Grant'' s) g = Some gr \<longrightarrow>
           pl_accountId (rc_payload gr) \<noteq> Some acc)) \<and>
    (\<forall>r' m. NUL \<notin> set r' \<and> r' \<noteq> r \<longrightarrow> bucket_of r' m s' = bucket_of r' m s) \<and>
    (\<forall>now sv m i p. find_artifact now sv r m i s' = Some p \<longrightarrow> pl_accountId p \<noteq> Some acc)"
proof -
  note b = revoke_bucket_of [OF assms(2) _ assms(3)]
  have wf: "map_wf (bucket_of r m s)" for m by (rule adapter_inv_bucket [OF assms(1)])
  have gr: "g \<in> set (account_grants r acc s) \<longleftrightarrow>
      (\<exists>gr. mget (bucket_of r ''Grant'' s) g = Some gr \<and> pl_accountId (rc_payload gr) = Some acc)" for g
    using wf [of "''Grant''"] by (force simp: account_grants_def map_wf_def)
  have "mget (bucket_of r m s') i = Some a \<longleftrightarrow> mget (bucket_of r m s) i = Some a \<and>
      \<not> doomed acc (account_grants r acc s) a" for m i a
    using b [OF assms(2)] mget_mdrop [OF wf] by (auto split: option.splits if_splits)
  then have 1: "mget (bucket_of r m s') i = Some a \<longleftrightarrow> mget (bucket_of r m s) i = Some a \<and>
        pl_accountId (rc_payload a) \<noteq> Some acc \<and>
        (\<forall>g gr. pl_grantId (rc_payload a) = Some g \<and> mget (bucket_of r ''Grant'' s) g = Some gr \<longrightarrow>
           pl_accountId (rc_payload gr) \<noteq> Some acc)" for m i a
    using gr by (auto simp: doomed_def split: option.splits)
  then have "pl_accountId p \<noteq> Some acc" if "find_artifact now sv r m i s' = Some p" for now sv m i p
    using that by (auto simp: find_artifact_def split: option.splits if_splits dest!: current_SomeD)
  then show ?thesis using 1 b by simp
qed

lemma revoke_account_complete_witness:
  "find_artifact 5 demo_sv ''corp'' ''Grant'' ''g'' (snd (revokeMemoryAccount ''corp'' ''ann'' demo_adapter)) \<noteq> Some demo_payload"
proof -
  have "adapter_inv demo_adapter" "NUL \<notin> set ''corp''"
    by (simp_all add: adapter_inv_def map_wf_def demo_adapter_eval)
  from revoke_account_complete [OF this prod.collapse [symmetric], of "''ann''"]
  have "find_artifact 5 demo_sv ''corp'' ''Grant'' ''g''
      (snd (revokeMemoryAccount ''corp'' ''ann'' demo_adapter)) = Some p \<Longrightarrow> pl_accountId p \<noteq> Some ''ann''" for p
    by blast
  from this [of demo_payload] show ?thesis by (auto simp: demo_payload_def)
qed

end
