(* ===== verification/DataLayer.thy ===== *)
theory DataLayer
  imports PgIdentity AdapterProps
begin

text \<open>
  The in-memory data layer (\<open>createDataLayer\<close> of \<open>src/db.js\<close>): the identity store and the
  protocol store together, with the compound operations on an account. An operation that can
  throw returns its outcome beside the state, because what it has changed before it throws
  stays changed. The audit write and the mutation are arguments, as in the code: each returns
  an outcome and a store.
\<close>

section \<open>Operations\<close>

record data =
  dl_store :: store
  dl_adapter :: adapter

text \<open>\<open>securityVersionFor\<close>: only an enabled account has a version.\<close>

definition securityVersionFor :: "string \<Rightarrow> store \<Rightarrow> string \<Rightarrow> int option" where
  "securityVersionFor realm s accountId =
     (case findUserById realm accountId s of
        None \<Rightarrow> None
      | Some u \<Rightarrow> if u_enabled u then Some (u_securityVersion u) else None)"

definition artifact_of :: "int \<Rightarrow> string \<Rightarrow> string \<Rightarrow> string \<Rightarrow> data \<Rightarrow> payload option" where
  "artifact_of now realm model aid d =
     find_artifact now (securityVersionFor realm (dl_store d)) realm model aid (dl_adapter d)"

definition restoreMemoryWebAuthnCredentials ::
    "int \<Rightarrow> string \<Rightarrow> string \<Rightarrow> credential list \<Rightarrow> store \<Rightarrow> store_error + store" where
  "restoreMemoryWebAuthnCredentials now realm accountId snapshot s =
     (let s1 = foldl (\<lambda>s c. snd (deleteWebAuthnCredential realm accountId (wc_id c) s)) s
                 (listWebAuthnCredentials realm accountId s)
      in foldR (\<lambda>c s. bindR (createWebAuthnCredential now (credential_as_input c) s) (\<lambda>r. Inr (snd r))) snapshot s1)"

datatype 'e failure = AUDIT_FAILED 'e | MUTATION_FAILED 'e | RESTORE_FAILED store_error

text \<open>\<open>deleteAccount\<close>: the account goes, and comes back if the audit event cannot be written.\<close>

definition deleteAccount ::
    "int \<Rightarrow> string \<Rightarrow> string \<Rightarrow> string \<Rightarrow> (store \<Rightarrow> ('e + unit) \<times> store) option \<Rightarrow> data \<Rightarrow>
     ('e failure + user option) \<times> data" where
  "deleteAccount now fresh realm accountId auditEvent d =
     (let credentials = listWebAuthnCredentials realm accountId (dl_store d);
          adminGrant = findAdminGrant realm accountId (dl_store d);
          (user, s1) = deleteUser realm accountId (dl_store d)
      in case user of
           None \<Rightarrow> (Inr None, d)
         | Some u \<Rightarrow>
             (let (audited, s2) = (case auditEvent of None \<Rightarrow> (Inr (), s1) | Some write \<Rightarrow> write s1)
              in case audited of
                   Inr _ \<Rightarrow> (Inr (Some u), \<lparr>dl_store = s2,
                              dl_adapter = snd (revokeMemoryAccount realm accountId (dl_adapter d))\<rparr>)
                 | Inl e \<Rightarrow>
                     (case createUser now fresh (user_as_input u) s2 of
                        Inl e' \<Rightarrow> (Inl (RESTORE_FAILED e'), d\<lparr>dl_store := s2\<rparr>)
                      | Inr (_, s3) \<Rightarrow>
                          (case (case adminGrant of
                                   None \<Rightarrow> Inr s3
                                 | Some g \<Rightarrow> bindR (restoreAdminGrant now g s3) (\<lambda>r. Inr (snd r))) of
                             Inl e' \<Rightarrow> (Inl (RESTORE_FAILED e'), d\<lparr>dl_store := s3\<rparr>)
                           | Inr s4 \<Rightarrow>
                               (case restoreMemoryWebAuthnCredentials now realm accountId credentials s4 of
                                  Inl e' \<Rightarrow> (Inl (RESTORE_FAILED e'), d\<lparr>dl_store := s4\<rparr>)
                                | Inr s5 \<Rightarrow> (Inl (AUDIT_FAILED e), d\<lparr>dl_store := s5\<rparr>))))))"

record mutation_result =
  mr_found :: bool
  mr_applied :: bool
  mr_user :: "user option"

definition mutateAccountSecurity ::
    "int \<Rightarrow> string \<Rightarrow> string \<Rightarrow> string \<Rightarrow> (store \<Rightarrow> ('e + bool) \<times> store) \<Rightarrow> data \<Rightarrow>
     ('e failure + mutation_result) \<times> data" where
  "mutateAccountSecurity now fresh realm accountId mutate d =
     (case findUserById realm accountId (dl_store d) of
        None \<Rightarrow> (Inr \<lparr>mr_found = False, mr_applied = False, mr_user = None\<rparr>, d)
      | Some before \<Rightarrow>
          (let credentials = listWebAuthnCredentials realm accountId (dl_store d);
               (result, s1) = mutate (dl_store d)
           in case result of
                Inl e \<Rightarrow>
                  (let s2 = snd (restoreUser now fresh before s1)
                   in case restoreMemoryWebAuthnCredentials now realm accountId credentials s2 of
                        Inl e' \<Rightarrow> (Inl (RESTORE_FAILED e'), d\<lparr>dl_store := s2\<rparr>)
                      | Inr s3 \<Rightarrow> (Inl (MUTATION_FAILED e), d\<lparr>dl_store := s3\<rparr>))
              | Inr False \<Rightarrow>
                  (Inr \<lparr>mr_found = True, mr_applied = False, mr_user = findUserById realm accountId s1\<rparr>,
                   d\<lparr>dl_store := s1\<rparr>)
              | Inr True \<Rightarrow>
                  (let s2 = snd (bumpSecurityVersion now realm accountId s1)
                   in (Inr \<lparr>mr_found = True, mr_applied = True, mr_user = findUserById realm accountId s2\<rparr>,
                       \<lparr>dl_store = s2, dl_adapter = snd (revokeMemoryAccount realm accountId (dl_adapter d))\<rparr>))))"

definition cleanupExpired :: "int \<Rightarrow> nat \<Rightarrow> data \<Rightarrow> nat \<times> data" where
  "cleanupExpired now limit d =
     (let (n1, s1) = cleanupExpiredWebAuthnChallenges now limit (dl_store d);
          (n2, s2) = cleanupExpiredAdminSessions now limit s1
      in (n1 + n2, d\<lparr>dl_store := s2\<rparr>))"

section \<open>Security mutations\<close>

text \<open>The account's artifacts in a realm, seen through its adapter.\<close>

definition account_artifacts_gone :: "string \<Rightarrow> string \<Rightarrow> data \<Rightarrow> bool" where
  "account_artifacts_gone realm acc d \<longleftrightarrow>
     (\<forall>now model aid p. artifact_of now realm model aid d = Some p \<longrightarrow> pl_accountId p \<noteq> Some acc)"

lemma revoked_artifacts_gone:
  assumes "adapter_inv (dl_adapter d)" and "NUL \<notin> set r"
  shows "account_artifacts_gone r acc \<lparr>dl_store = s, dl_adapter = snd (revokeMemoryAccount r acc (dl_adapter d))\<rparr>"
proof -
  have r: "bucket_of r m (snd (revokeMemoryAccount r acc (dl_adapter d))) =
      mdrop (doomed acc (account_grants r acc (dl_adapter d))) (bucket_of r m (dl_adapter d))" for m
    using revoke_bucket_of [OF assms(2,2) prod.collapse [symmetric]] by simp
  have "pl_accountId (rc_payload a) \<noteq> Some acc"
    if "mget (bucket_of r m (snd (revokeMemoryAccount r acc (dl_adapter d)))) i = Some a" for m i a
    using mget_mdrop_SomeD [OF adapter_inv_bucket [OF assms(1)] that [unfolded r]] by (auto simp: doomed_def)
  then show ?thesis
    by (auto simp: account_artifacts_gone_def artifact_of_def find_artifact_def
        split: option.splits if_splits dest!: current_SomeD)
qed

text \<open>C8: A security-sensitive change of an account (password, MFA, passkeys, enabled flag) ends
  everything that was issued before it. When the change is applied, the account's security
  version has grown by one, no token, code, session or grant of the account can be found any
  more, and a record of it saved earlier under the old version stays hidden even if a
  delayed request writes it back.\<close>

theorem security_change_revokes_everything:
  assumes "findUserById r acc (dl_store d) = Some u" and "adapter_inv (dl_adapter d)" and "NUL \<notin> set r"
    and "mutate (dl_store d) = (Inr True, s1)" and "findUserById r acc s1 = Some u1"
  shows "\<exists>d' u'. mutateAccountSecurity now fresh r acc mutate d =
      (Inr \<lparr>mr_found = True, mr_applied = True, mr_user = Some u'\<rparr>, d') \<and>
    findUserById r acc (dl_store d') = Some u' \<and> u_securityVersion u' = u_securityVersion u1 + 1 \<and>
    account_artifacts_gone r acc d' \<and>
    (\<forall>a. pl_accountId (rc_payload a) = Some acc \<and> rc_securityVersion a = Some (u_securityVersion u1) \<longrightarrow>
       \<not> version_ok (securityVersionFor r (dl_store d')) a)"
proof -
  let ?s2 = "snd (bumpSecurityVersion now r acc s1)"
  let ?u' = "u1\<lparr>u_securityVersion := u_securityVersion u1 + 1, u_updatedAt := now\<rparr>"
  let ?d' = "\<lparr>dl_store = ?s2, dl_adapter = snd (revokeMemoryAccount r acc (dl_adapter d))\<rparr>"
  have u': "findUserById r acc ?s2 = Some ?u'"
    using assms(5) by (simp add: bumpSecurityVersion_def update_user_find)
  have "mutateAccountSecurity now fresh r acc mutate d =
      (Inr \<lparr>mr_found = True, mr_applied = True, mr_user = Some ?u'\<rparr>, ?d')"
    using assms(1,4) u' by (simp add: mutateAccountSecurity_def Let_def)
  moreover have "account_artifacts_gone r acc ?d'" by (rule revoked_artifacts_gone [OF assms(2,3)])
  moreover have "\<not> version_ok (securityVersionFor r ?s2) a"
    if "pl_accountId (rc_payload a) = Some acc" "rc_securityVersion a = Some (u_securityVersion u1)" for a
    using that u' by (simp add: version_ok_def sv_of_def securityVersionFor_def)
  ultimately show ?thesis using u' by auto
qed

definition demo_data :: data where
  "demo_data = \<lparr>dl_store = demo_store1,
     dl_adapter = projr (upsert 0 (\<lambda>_. Some 0) ''corp'' ''RefreshToken'' ''t'' (demo_payload\<lparr>pl_accountId := Some ''u1''\<rparr>)
       None \<lparr>ad_stores = [], ad_next = 0\<rparr>)\<rparr>"

lemma demo_data_token: "artifact_of 9 ''corp'' ''RefreshToken'' ''t'' demo_data =
    Some (demo_payload\<lparr>pl_accountId := Some ''u1''\<rparr>)"
  by (simp add: artifact_of_def demo_data_def securityVersionFor_def find_artifact_def version_ok_def demo_adapter_eval)

lemma demo_data_inv: "adapter_inv (dl_adapter demo_data)" "NUL \<notin> set ''corp''"
    "findUserById ''corp'' ''u1'' (dl_store demo_data) = Some demo_user"
  by (simp_all add: adapter_inv_def map_wf_def demo_data_def demo_adapter_eval)

lemma security_change_revokes_everything_witness:
  "artifact_of 9 ''corp'' ''RefreshToken'' ''t'' demo_data \<noteq> None \<and>
   artifact_of 9 ''corp'' ''RefreshToken'' ''t''
     (snd (mutateAccountSecurity 9 ''f'' ''corp'' ''u1'' (\<lambda>s. (Inr True :: unit + bool, recordLoginSuccess 9 ''corp'' ''u1'' s)) demo_data))
     \<noteq> Some (demo_payload\<lparr>pl_accountId := Some ''u1''\<rparr>)"
proof -
  let ?mut = "\<lambda>s. (Inr True :: unit + bool, recordLoginSuccess 9 ''corp'' ''u1'' s)"
  have u1: "\<exists>u1. findUserById ''corp'' ''u1'' (recordLoginSuccess 9 ''corp'' ''u1'' (dl_store demo_data)) = Some u1"
    using demo_data_inv(3) by (simp add: recordLoginSuccess_def update_user_find loginSuccess_row_def)
  then obtain u1 where u1: "findUserById ''corp'' ''u1'' (recordLoginSuccess 9 ''corp'' ''u1'' (dl_store demo_data)) = Some u1" ..
  obtain d' where d': "snd (mutateAccountSecurity 9 ''f'' ''corp'' ''u1'' ?mut demo_data) = d'"
      "account_artifacts_gone ''corp'' ''u1'' d'"
    using security_change_revokes_everything [OF demo_data_inv(3,1,2), of ?mut _ u1 9 "''f''"] u1 by fastforce
  then have "artifact_of 9 ''corp'' ''RefreshToken'' ''t'' d' = Some p \<Longrightarrow> pl_accountId p \<noteq> Some ''u1''" for p
    unfolding account_artifacts_gone_def by blast
  from this [of "demo_payload\<lparr>pl_accountId := Some ''u1''\<rparr>"] show ?thesis
    using demo_data_token d'(1) by auto
qed

section \<open>Rolling back\<close>

lemma createUser_again:
  assumes "store_inv s" and "deleteUser r i s = (Some u, s1)" and "user_norm u" and "CHR '':'' \<notin> set r"
  shows "createUser now f (user_as_input u) s1 = Inr (u, s1\<lparr>st_users := mset' (ukey r i) u (st_users s1)\<rparr>)"
proof -
  note del = deleteUser_fields [OF assms(2)]
  have id: "u_realm u = r" "u_id u = i" using user_at_key [OF assms(1) del(1) assms(4)] by auto
  have wf: "map_wf (st_users s1)" using assms(1) by (simp add: store_inv_def users_inv_def del(2))
  have "logins item \<inter> logins u = {}" if item: "item \<in> set (mvals (st_users s1))" "u_realm item = u_realm u" for item
  proof -
    obtain k where k: "mget (st_users s1) k = Some item" using item set_mvals [OF wf] by auto
    then have "k \<noteq> ukey r i" "mget (st_users s) k = Some item" by (auto simp: del(2) split: if_splits)
    then show ?thesis using assms(1) del(1) item(2) unfolding store_inv_def logins_unique_def by metis
  qed
  then have "find (\<lambda>item. u_realm item = u_realm u \<and> (\<exists>login\<in>set [js_lower (u_username item), u_email item].
      login = js_lower (u_username u) \<or> login = u_email u)) (mvals (st_users s1)) = None"
    unfolding find_None by (fastforce simp: logins_def)
  then show ?thesis
    by (simp add: createUser_def normalizeUser_norm [OF assms(3)] id del(2))
qed

definition cred_norm :: "credential \<Rightarrow> bool" where
  "cred_norm c \<longleftrightarrow> js_trim (wc_name c) = wc_name c \<and> wc_name c \<noteq> [] \<and> distinct (wc_transports c) \<and>
     0 \<le> wc_counter c \<and> wc_counter c \<le> 0xffffffff"

lemma normalizeCredential_norm:
  "cred_norm c \<Longrightarrow> normalizeWebAuthnCredential now (credential_as_input c) = Inr c"
  by (cases c) (auto simp: cred_norm_def normalizeWebAuthnCredential_def credential_as_input_def trim_or_def
      js_uniq_distinct safe_integer_def)

text \<open>Writing back passkeys of a user that exists, none of which is there.\<close>

lemma foldR_restore_credentials:
  assumes "mget (st_users s) (ukey r i) \<noteq> None" and "\<forall>c\<in>set cs. wc_realm c = r \<and> wc_userId c = i \<and> cred_norm c"
    and "distinct (map wc_id cs)" and "\<forall>c\<in>set cs. mget (st_credentials s) (ukey r (wc_id c)) = None"
  shows "foldR (\<lambda>c s. bindR (createWebAuthnCredential now (credential_as_input c) s) (\<lambda>x. Inr (snd x))) cs s
    = Inr (s\<lparr>st_credentials := st_credentials s @ map (\<lambda>c. (ukey r (wc_id c), c)) cs\<rparr>)"
  using assms
proof (induction cs arbitrary: s)
  case (Cons c cs)
  have upd: "AList.update k v m = m @ [(k, v)]" if "mget m k = None" for k and v :: credential and m
    using that by (induction m) (auto split: if_splits)
  let ?s1 = "s\<lparr>st_credentials := st_credentials s @ [(ukey r (wc_id c), c)]\<rparr>"
  have create: "createWebAuthnCredential now (credential_as_input c) s = Inr (Some c, ?s1)"
    using Cons.prems by (auto simp: createWebAuthnCredential_def normalizeCredential_norm upd)
  have "wc_id x \<noteq> wc_id c" if "x \<in> set cs" for x
    using Cons.prems(3) imageI [OF that, of wc_id] by auto
  then have absent: "\<forall>x\<in>set cs. mget (st_credentials ?s1) (ukey r (wc_id x)) = None"
    using Cons.prems(4) by (simp add: map_add_def)
  have "foldR (\<lambda>c s. bindR (createWebAuthnCredential now (credential_as_input c) s) (\<lambda>x. Inr (snd x))) cs ?s1
    = Inr (?s1\<lparr>st_credentials := st_credentials ?s1 @ map (\<lambda>c. (ukey r (wc_id c), c)) cs\<rparr>)"
    by (rule Cons.IH [OF _ _ _ absent]) (use Cons.prems in auto)
  then show ?case by (simp add: create)
qed simp

lemma restoreAdminGrant_valid:
  assumes "valid_permissions (g_permissions g)" and "1 \<le> g_version g" and "safe_integer (g_version g)"
  shows "restoreAdminGrant now g s =
    Inr (g, s\<lparr>st_adminGrants := mset' (ukey (g_realm g) (g_userId g)) g (st_adminGrants s)\<rparr>)"
  using assms by (cases g) (simp add: restoreAdminGrant_def normalizeAdminGrant_def normalizePermissionList_valid)

lemma keyed_distinct: "keyed key m \<Longrightarrow> distinct (map key (mvals m))"
proof -
  assume k: "keyed key m"
  then have "map key (mvals m) = map fst m" by (auto simp: keyed_def mvals_def)
  then show ?thesis using k by (simp add: keyed_def map_wf_def)
qed

lemma keyed_get: "keyed key m \<Longrightarrow> v \<in> set (mvals m) \<Longrightarrow> mget m (key v) = Some v"
  by (force simp: keyed_def map_wf_def mvals_def)

lemma list_credentials_keys:
  assumes "store_inv s" and "CHR '':'' \<notin> set r"
  shows "distinct (map wc_id (listWebAuthnCredentials r i s))"
    "\<forall>c\<in>set (listWebAuthnCredentials r i s). wc_realm c = r \<and> wc_userId c = i"
proof -
  have d: "distinct (map (\<lambda>c. ukey (wc_realm c) (wc_id c)) (mvals (st_credentials s)))"
    by (rule keyed_distinct [OF store_keyed(4) [OF assms(1)]])
  have "distinct (map wc_id (filter (\<lambda>c. wc_realm c = r \<and> wc_userId c = i) xs))"
    if "distinct (map (\<lambda>c. ukey (wc_realm c) (wc_id c)) xs)" for xs :: "credential list"
    using that by (simp add: distinct_map inj_on_def)
  then have "distinct (map wc_id (filter (\<lambda>c. wc_realm c = r \<and> wc_userId c = i) (mvals (st_credentials s))))"
    using d by blast
  moreover have "distinct (map f (sort_by le xs)) \<longleftrightarrow> distinct (map f xs)" for f :: "credential \<Rightarrow> string" and le xs
  proof -
    have "distinct (map f (insort_by le x ys)) \<longleftrightarrow> f x \<notin> f ` set ys \<and> distinct (map f ys)" for x ys
      by (induction ys) auto
    then show ?thesis by (induction xs) (auto simp: sort_by_Cons, auto simp: sort_by_def)
  qed
  ultimately show "distinct (map wc_id (listWebAuthnCredentials r i s))" by (simp add: listWebAuthnCredentials_def)
  show "\<forall>c\<in>set (listWebAuthnCredentials r i s). wc_realm c = r \<and> wc_userId c = i"
    by (simp add: listWebAuthnCredentials_def)
qed

text \<open>Deleting an account is all or nothing. If the audit event cannot be written the user, its
  administrator grant and its passkeys are back exactly as they were, and its artifacts were not
  touched; if it can, the account and everything issued to it are gone. (Administrator sessions and
  pending passkey ceremonies of the account are not restored: they have to be opened again.)\<close>

theorem deleteAccount_all_or_nothing:
  assumes "store_reach (dl_store d)" and "CHR '':'' \<notin> set r" and "findUserById r acc (dl_store d) = Some u"
    and "user_norm u" and "\<forall>c\<in>set (listWebAuthnCredentials r acc (dl_store d)). cred_norm c"
    and "adapter_inv (dl_adapter d)" and "NUL \<notin> set r"
    and "\<forall>g. findAdminGrant r acc (dl_store d) = Some g \<longrightarrow> safe_integer (g_version g)"
    and "write (snd (deleteUser r acc (dl_store d))) = (outcome, snd (deleteUser r acc (dl_store d)))"
  shows "case outcome of
      Inl e \<Rightarrow> (\<exists>d'. deleteAccount now fresh r acc (Some write) d = (Inl (AUDIT_FAILED e), d') \<and>
        findUserById r acc (dl_store d') = Some u \<and>
        findAdminGrant r acc (dl_store d') = findAdminGrant r acc (dl_store d) \<and>
        set (listWebAuthnCredentials r acc (dl_store d')) = set (listWebAuthnCredentials r acc (dl_store d)) \<and>
        dl_adapter d' = dl_adapter d)
    | Inr _ \<Rightarrow> (\<exists>d'. deleteAccount now fresh r acc (Some write) d = (Inr (Some u), d') \<and>
        findUserById r acc (dl_store d') = None \<and> account_artifacts_gone r acc d')"
proof -
  note inv = store_reach_inv [OF assms(1)]
  obtain s1 where del: "deleteUser r acc (dl_store d) = (Some u, s1)"
    using assms(3) by (auto simp: deleteUser_def findUserById_def Let_def)
  note f = deleteUser_fields [OF del]
  show ?thesis
  proof (cases outcome)
    case (Inr x)
    let ?d' = "\<lparr>dl_store = s1, dl_adapter = snd (revokeMemoryAccount r acc (dl_adapter d))\<rparr>"
    have "deleteAccount now fresh r acc (Some write) d = (Inr (Some u), ?d')"
      using assms(9) Inr by (simp add: deleteAccount_def del Let_def)
    then show ?thesis using revoked_artifacts_gone [OF assms(6,7)] Inr by (simp add: findUserById_def f(2))
  next
    case (Inl e)
    let ?cs = "listWebAuthnCredentials r acc (dl_store d)"
    let ?s3 = "s1\<lparr>st_users := mset' (ukey r acc) u (st_users s1)\<rparr>"
    define s4 where "s4 = (case findAdminGrant r acc (dl_store d) of None \<Rightarrow> ?s3
      | Some g \<Rightarrow> ?s3\<lparr>st_adminGrants := mset' (ukey r acc) g (st_adminGrants s1)\<rparr>)"
    have g: "valid_permissions (g_permissions g) \<and> 1 \<le> g_version g \<and> ukey (g_realm g) (g_userId g) = ukey r acc \<and>
        safe_integer (g_version g)" if "findAdminGrant r acc (dl_store d) = Some g" for g
      using that inv assms(8) by (auto simp: findAdminGrant_def store_inv_def grants_inv_def)
    have grant: "(case findAdminGrant r acc (dl_store d) of None \<Rightarrow> Inr ?s3
        | Some g \<Rightarrow> bindR (restoreAdminGrant now g ?s3) (\<lambda>r. Inr (snd r))) = Inr s4"
      using g by (auto simp: s4_def restoreAdminGrant_valid split: option.splits)
    have s4: "st_users s4 = mset' (ukey r acc) u (st_users s1)" "st_credentials s4 = st_credentials s1"
      "findAdminGrant r acc s4 = findAdminGrant r acc (dl_store d)"
      by (auto simp: s4_def findAdminGrant_def f(3) split: option.splits)
    have none: "listWebAuthnCredentials r acc s4 = []"
      by (simp add: listWebAuthnCredentials_def s4(2) f(5) sort_by_def)
    note keys = list_credentials_keys [OF inv assms(2), of acc]
    have absent: "mget (st_credentials s1) (ukey r (wc_id c)) = None" if c: "c \<in> set ?cs" for c
    proof -
      have m: "c \<in> set (mvals (st_credentials (dl_store d)))" "wc_realm c = r" "wc_userId c = acc"
        using c by (auto simp: listWebAuthnCredentials_def)
      have "mget (st_credentials (dl_store d)) (ukey r (wc_id c)) = Some c"
        using keyed_get [OF store_keyed(4) [OF inv] m(1)] m(2) by simp
      then show ?thesis using m inv by (simp add: f(5) mget_mdrop store_inv_def credentials_inv_def)
    qed
    define s5 where "s5 = s4\<lparr>st_credentials := st_credentials s4 @ map (\<lambda>c. (ukey r (wc_id c), c)) ?cs\<rparr>"
    have creds: "restoreMemoryWebAuthnCredentials now r acc ?cs s4 = Inr s5"
      unfolding restoreMemoryWebAuthnCredentials_def none s5_def foldl.simps Let_def
      using s4 absent keys assms(5) by (intro foldR_restore_credentials) auto
    have "deleteAccount now fresh r acc (Some write) d = (Inl (AUDIT_FAILED e), d\<lparr>dl_store := s5\<rparr>)"
      using assms(9) Inl grant creds createUser_again [OF inv del assms(4,2)]
      by (simp add: deleteAccount_def del Let_def)
    moreover have "findUserById r acc s5 = Some u" "findAdminGrant r acc s5 = findAdminGrant r acc (dl_store d)"
      using s4(1,3) by (simp_all add: s5_def findUserById_def findAdminGrant_def)
    moreover have "mvals (st_credentials s5) = mvals (st_credentials s1) @ ?cs"
      by (simp add: s5_def s4(2) mvals_def o_def)
    moreover have "filter (\<lambda>c. wc_realm c = r \<and> wc_userId c = acc) (mvals (st_credentials s1)) = []"
      by (simp add: f(5))
    moreover have "filter (\<lambda>c. wc_realm c = r \<and> wc_userId c = acc) ?cs = ?cs"
      using keys(2) by (simp add: filter_id_conv)
    ultimately have "set (listWebAuthnCredentials r acc s5) = set ?cs"
      and outcome': "deleteAccount now fresh r acc (Some write) d = (Inl (AUDIT_FAILED e), d\<lparr>dl_store := s5\<rparr>)"
        "findUserById r acc s5 = Some u" "findAdminGrant r acc s5 = findAdminGrant r acc (dl_store d)"
      by (simp_all only: listWebAuthnCredentials_def [of r acc s5] filter_append append_Nil set_sort_by)
    then show ?thesis using Inl outcome' by simp
  qed
qed

lemma deleteAccount_all_or_nothing_witness:
  "\<exists>d'. deleteAccount 9 ''f'' ''corp'' ''u1'' (Some (\<lambda>s. (Inl ''down'', s))) demo_data = (Inl (AUDIT_FAILED ''down''), d') \<and>
     findUserById ''corp'' ''u1'' (dl_store d') = Some demo_user"
proof -
  have norm: "user_norm demo_user"
    by (simp add: user_norm_def user_ok_def) (simp add: demo_user_def demo_eval)
  have st: "dl_store demo_data = demo_store1" by (simp add: demo_data_def)
  have none: "listWebAuthnCredentials ''corp'' ''u1'' demo_store1 = []" "findAdminGrant ''corp'' ''u1'' demo_store1 = None"
    by (simp_all add: listWebAuthnCredentials_def findAdminGrant_def demo_store1_def empty_store_def sort_by_def)
  show ?thesis
    using deleteAccount_all_or_nothing [of demo_data "''corp''" "''u1''" demo_user "\<lambda>s. (Inl ''down'', s)" "Inl ''down''" 9 "''f''"]
      demo_reach demo_data_inv norm none by (auto simp: st)
qed



end
