(* ===== verification/FederatedIdentity.thy ===== *)
theory FederatedIdentity
  imports DataLayer
begin

text \<open>
  External identities and the accounts they sign in to: the in-memory repository of
  \<open>src/repositories/federated-identity-repository.js\<close> over the identity store, and
  \<open>src/authentication/federated-login.js\<close>. A link is kept under the JSON text of its four-part key,
  which is injective: the tuple. The per-key lock makes \<open>resolve\<close> exclusive for one external identity; the store it
  works on may change between its steps, so the creation of the account is a step of its own that
  starts from whatever store it finds.
\<close>

section \<open>Normalised identities\<close>

record fed_profile =
  fp_username :: string
  fp_email :: string
  fp_emailVerified :: bool
  fp_name :: string
  fp_givenName :: string
  fp_familyName :: string
  fp_roles :: "string list"
  fp_groups :: "string list"

type_synonym fed_key = "string \<times> string \<times> string \<times> string"

record fed_identity =
  fi_realm :: string
  fi_providerId :: string
  fi_issuer :: string
  fi_externalSubject :: string
  fi_allowCreate :: bool
  fi_profile :: fed_profile

datatype fed_error = FED_INVALID string | FED_STORE store_error | FED_LOGIN string | FED_TYPE

definition fed_provider_re :: "string \<Rightarrow> bool" where [js_defs]: "fed_provider_re = ident_re is_lower is_slug 1 63"

definition fed_text :: "json \<Rightarrow> string \<Rightarrow> nat \<Rightarrow> string" where
  "fed_text v fallback mx = take mx (case v of JStr s \<Rightarrow> js_trim s | _ \<Rightarrow> fallback)"

definition fed_strings :: "json \<Rightarrow> string list" where
  "fed_strings v =
     (case v of
        JArr xs \<Rightarrow> take 200 (js_uniq (filter (\<lambda>t. t \<noteq> [])
                    (concat (map (\<lambda>x. case x of JStr s \<Rightarrow> [js_trim s] | _ \<Rightarrow> []) xs))))
      | _ \<Rightarrow> [])"

text \<open>A non-empty string of at most 2048 characters without control characters.\<close>

definition fed_plain :: "json \<Rightarrow> bool" where
  "fed_plain v = (case v of JStr s \<Rightarrow> s \<noteq> [] \<and> length s \<le> 2048 \<and> list_all (\<lambda>c. \<not> is_control c) s | _ \<Rightarrow> False)"

definition fed_str :: "json \<Rightarrow> string" where
  "fed_str v = (if nullish v then [] else js_String v)"

definition fed_normalize :: "json \<Rightarrow> fed_error + fed_identity" where
  "fed_normalize input =
     bindR (guardR (is_obj input) (FED_INVALID ''input'')) (\<lambda>_.
     bindR (guardR (realm_re (fed_str (jprop input ''realm''))) (FED_INVALID ''realm'')) (\<lambda>_.
     bindR (guardR (fed_provider_re (fed_str (jprop input ''providerId''))) (FED_INVALID ''providerId'')) (\<lambda>_.
     bindR (guardR (fed_plain (jprop input ''issuer'')) (FED_INVALID ''issuer'')) (\<lambda>_.
     bindR (guardR (fed_plain (jprop input ''externalSubject'')) (FED_INVALID ''externalSubject'')) (\<lambda>_.
     let profile = (if nullish (jprop input ''profile'') then JObj [] else jprop input ''profile'');
         subject = js_String (jprop input ''externalSubject'');
         username = fed_text (jprop profile ''username'') subject 256 in
     bindR (guardR (is_obj profile) (FED_INVALID ''profile'')) (\<lambda>_.
     bindR (guardR (username \<noteq> []) (FED_INVALID ''username'')) (\<lambda>_.
       Inr \<lparr>fi_realm = fed_str (jprop input ''realm''), fi_providerId = fed_str (jprop input ''providerId''),
            fi_issuer = js_String (jprop input ''issuer''), fi_externalSubject = subject,
            fi_allowCreate = (jprop input ''allowCreate'' = JBool True),
            fi_profile = \<lparr>fp_username = username, fp_email = js_lower (fed_text (jprop profile ''email'') [] 320),
              fp_emailVerified = (jprop profile ''emailVerified'' = JBool True),
              fp_name = fed_text (jprop profile ''name'') username 256,
              fp_givenName = fed_text (jprop profile ''givenName'') [] 256,
              fp_familyName = fed_text (jprop profile ''familyName'') [] 256,
              fp_roles = fed_strings (jprop profile ''roles''), fp_groups = fed_strings (jprop profile ''groups'')\<rparr>\<rparr>)))))))"

definition fed_key_of :: "fed_identity \<Rightarrow> fed_key" where
  "fed_key_of i = (fi_realm i, fi_providerId i, fi_issuer i, fi_externalSubject i)"

section \<open>Links\<close>

record fed_link =
  ln_identity :: fed_identity
  ln_userId :: string
  ln_createdAt :: int
  ln_updatedAt :: int
  ln_lastLoginAt :: "int option"

record public_link =
  pb_key :: fed_key
  pb_userId :: string
  pb_createdAt :: int
  pb_updatedAt :: int
  pb_lastLoginAt :: "int option"

definition publicLink :: "fed_link \<Rightarrow> public_link" where
  "publicLink l = \<lparr>pb_key = fed_key_of (ln_identity l), pb_userId = ln_userId l, pb_createdAt = ln_createdAt l,
     pb_updatedAt = ln_updatedAt l, pb_lastLoginAt = ln_lastLoginAt l\<rparr>"

record fed_state =
  fs_links :: "(fed_key \<times> fed_link) list"
  fs_store :: store

datatype fed_status = Resolved | Disabled | NotFound | LinkRequired | Created | Linked | Conflict

record fed_result =
  fr_status :: fed_status
  fr_user :: "user option"
  fr_link :: "public_link option"

definition syntheticEmail :: "string \<Rightarrow> string" where
  "syntheticEmail userId = ''federated-'' @ userId @ ''@invalid.local''"

text \<open>The first step: an existing link, if its account still exists.\<close>

definition fed_existing :: "int \<Rightarrow> fed_identity \<Rightarrow> fed_state \<Rightarrow> fed_result option \<times> fed_state" where
  "fed_existing now i st =
     (case mget (fs_links st) (fed_key_of i) of
        None \<Rightarrow> (None, st)
      | Some l \<Rightarrow>
          (case findUserById (fi_realm i) (ln_userId l) (fs_store st) of
             None \<Rightarrow> (None, st\<lparr>fs_links := mdel (fed_key_of i) (fs_links st)\<rparr>)
           | Some u \<Rightarrow>
               (let l' = l\<lparr>ln_lastLoginAt := Some now, ln_updatedAt := now,
                     ln_identity := (ln_identity l)\<lparr>fi_profile := fi_profile i\<rparr>\<rparr>
                in (Some \<lparr>fr_status = (if u_enabled u then Resolved else Disabled), fr_user = Some u,
                      fr_link = Some (publicLink l')\<rparr>,
                    st\<lparr>fs_links := mset' (fed_key_of i) l' (fs_links st)\<rparr>))))"

definition fed_collision :: "fed_identity \<Rightarrow> store \<Rightarrow> user option" where
  "fed_collision i s =
     (case findUserByLogin (fi_realm i) (fp_username (fi_profile i)) s of
        Some u \<Rightarrow> Some u
      | None \<Rightarrow> if fp_email (fi_profile i) = [] then None
                else findUserByLogin (fi_realm i) (fp_email (fi_profile i)) s)"

definition fed_user_input :: "string option \<Rightarrow> string \<Rightarrow> fed_identity \<Rightarrow> user_input" where
  "fed_user_input disabledHash userId i =
     (let p = fi_profile i in
      \<lparr>i_id = Some userId, i_realm = fi_realm i, i_username = fp_username p,
       i_email = (if fp_email p = [] then syntheticEmail userId else fp_email p),
       i_emailVerified = fp_emailVerified p, i_name = Some (fp_name p), i_givenName = Some (fp_givenName p),
       i_familyName = Some (fp_familyName p), i_enabled = Some True, i_securityVersion = None,
       i_passwordHash = disabledHash, i_roles = Some (fp_roles p), i_groups = Some (fp_groups p),
       i_clientRoles = None, i_totpSecret = None, i_totpConfirmed = False, i_pendingTotpSecret = None,
       i_pendingTotpCreatedAt = None, i_recoveryCodeHashes = None, i_lastTotpStep = None, i_failedAttempts = None,
       i_lockedUntil = None, i_createdAt = None, i_updatedAt = None, i_lastLoginAt = None\<rparr>)"

definition link_required :: "user \<Rightarrow> fed_result" where
  "link_required u = \<lparr>fr_status = LinkRequired, fr_user = Some u, fr_link = None\<rparr>"

text \<open>Creating the account, with the check for an account that appeared meanwhile.\<close>

definition fed_create ::
    "int \<Rightarrow> string \<Rightarrow> string option \<Rightarrow> fed_identity \<Rightarrow> fed_state \<Rightarrow> (fed_error + fed_result) \<times> fed_state" where
  "fed_create now userId disabledHash i st =
     (case createUser now userId (fed_user_input disabledHash userId i) (fs_store st) of
        Inl e \<Rightarrow>
          if e \<noteq> USER_EXISTS then (Inl (FED_STORE e), st)
          else (case fed_collision i (fs_store st) of
                  None \<Rightarrow> (Inl (FED_STORE e), st)
                | Some u \<Rightarrow> (Inr (link_required u), st))
      | Inr (u, s') \<Rightarrow>
          (let l = \<lparr>ln_identity = i, ln_userId = u_id u, ln_createdAt = now, ln_updatedAt = now, ln_lastLoginAt = Some now\<rparr>
           in (Inr \<lparr>fr_status = Created, fr_user = Some u, fr_link = Some (publicLink l)\<rparr>,
               \<lparr>fs_links = mset' (fed_key_of i) l (fs_links st), fs_store = s'\<rparr>)))"

definition fed_resolve ::
    "int \<Rightarrow> string \<Rightarrow> string option \<Rightarrow> json \<Rightarrow> fed_state \<Rightarrow> (fed_error + fed_result) \<times> fed_state" where
  "fed_resolve now userId disabledHash input st =
     (case fed_normalize input of
        Inl e \<Rightarrow> (Inl e, st)
      | Inr i \<Rightarrow>
          (case fed_existing now i st of
             (Some r, st') \<Rightarrow> (Inr r, st')
           | (None, st') \<Rightarrow>
               if \<not> fi_allowCreate i then (Inr \<lparr>fr_status = NotFound, fr_user = None, fr_link = None\<rparr>, st')
               else (case fed_collision i (fs_store st') of
                       Some u \<Rightarrow> (Inr (link_required u), st')
                     | None \<Rightarrow> fed_create now userId disabledHash i st')))"

text \<open>Linking by an administrator. \<open>input.profile ?? \<dots>\<close> puts a placeholder profile.\<close>

definition with_profile :: "json \<Rightarrow> json" where
  "with_profile input =
     JObj (mset' ''profile'' (if nullish (jprop input ''profile'') then JObj [(''username'', JStr ''linked'')]
                             else jprop input ''profile'') (jentries input))"

definition same_provider :: "fed_identity \<Rightarrow> string \<Rightarrow> fed_link \<Rightarrow> bool" where
  "same_provider i uid l \<longleftrightarrow> fi_realm (ln_identity l) = fi_realm i \<and> ln_userId l = uid \<and>
     fi_providerId (ln_identity l) = fi_providerId i \<and> fi_issuer (ln_identity l) = fi_issuer i"

definition fed_link_user :: "int \<Rightarrow> json \<Rightarrow> fed_state \<Rightarrow> fed_error + (fed_result \<times> fed_state)" where
  "fed_link_user now input st =
     bindR (fed_normalize (with_profile input)) (\<lambda>i.
     bindR (guardR (uuid_re (fed_str (jprop input ''userId''))) (FED_INVALID ''userId'')) (\<lambda>_.
       case findUserById (fi_realm i) (fed_str (jprop input ''userId'')) (fs_store st) of
         None \<Rightarrow> Inr (\<lparr>fr_status = NotFound, fr_user = None, fr_link = None\<rparr>, st)
       | Some u \<Rightarrow>
           (case mget (fs_links st) (fed_key_of i) of
              Some l \<Rightarrow> Inr (\<lparr>fr_status = (if ln_userId l = u_id u then Linked else Conflict), fr_user = None,
                             fr_link = Some (publicLink l)\<rparr>, st)
            | None \<Rightarrow>
                (case find (same_provider i (u_id u)) (mvals (fs_links st)) of
                   Some l \<Rightarrow> Inr (\<lparr>fr_status = Conflict, fr_user = None, fr_link = Some (publicLink l)\<rparr>, st)
                 | None \<Rightarrow>
                     (let l = \<lparr>ln_identity = i, ln_userId = u_id u, ln_createdAt = now, ln_updatedAt = now, ln_lastLoginAt = None\<rparr>
                      in Inr (\<lparr>fr_status = Linked, fr_user = None, fr_link = Some (publicLink l)\<rparr>,
                              st\<lparr>fs_links := mset' (fed_key_of i) l (fs_links st)\<rparr>))))))"

definition fed_list :: "string \<Rightarrow> string \<Rightarrow> fed_state \<Rightarrow> public_link list" where
  "fed_list realm userId st =
     map publicLink (filter (\<lambda>l. fi_realm (ln_identity l) = realm \<and> ln_userId l = userId) (mvals (fs_links st)))"

definition fed_unlink :: "string \<Rightarrow> string \<Rightarrow> string \<Rightarrow> string \<Rightarrow> fed_state \<Rightarrow> public_link option \<times> fed_state" where
  "fed_unlink realm userId providerId issuer st =
     (case find (\<lambda>(k, l). fi_realm (ln_identity l) = realm \<and> ln_userId l = userId \<and>
                fi_providerId (ln_identity l) = providerId \<and> fi_issuer (ln_identity l) = issuer) (fs_links st) of
        None \<Rightarrow> (None, st)
      | Some (k, l) \<Rightarrow> (Some (publicLink l), st\<lparr>fs_links := mdel k (fs_links st)\<rparr>))"

section \<open>Signing in\<close>

text \<open>
  \<open>resolveFederatedLogin\<close>: \<open>allowCreate\<close> is an argument of its own (by default, whether
  \<open>result.allowCreate\<close> is \<open>true\<close>).
\<close>

definition coalesce :: "json \<Rightarrow> json \<Rightarrow> json" where "coalesce a b = (if nullish a then b else a)"

definition resolve_input :: "string \<Rightarrow> json \<Rightarrow> json \<Rightarrow> json" where
  "resolve_input realm result allowCreate =
     JObj [(''realm'', JStr realm), (''providerId'', jprop result ''providerId''),
       (''issuer'', coalesce (jprop result ''issuer'') (jprop (jprop result ''identity'') ''issuer'')),
       (''externalSubject'', coalesce (jprop (jprop result ''profile'') ''externalSubject'')
                                    (jprop (jprop result ''identity'') ''externalSubject'')),
       (''profile'', jprop result ''profile''), (''allowCreate'', allowCreate)]"

definition resolveFederatedLogin ::
    "int \<Rightarrow> string \<Rightarrow> string option \<Rightarrow> string \<Rightarrow> json \<Rightarrow> json \<Rightarrow> fed_state \<Rightarrow> (fed_error + (user \<times> bool)) \<times> fed_state" where
  "resolveFederatedLogin now userId disabledHash realm result allowCreate st =
     (let input = resolve_input realm result allowCreate in
      if \<not> truthy (jprop input ''providerId'') \<or> \<not> truthy (jprop input ''issuer'') \<or>
         \<not> truthy (jprop input ''externalSubject'') \<or> \<not> truthy (jprop input ''profile'') then (Inl FED_TYPE, st)
      else (case fed_resolve now userId disabledHash input st of
              (Inl e, st') \<Rightarrow> (Inl e, st')
            | (Inr r, st') \<Rightarrow>
                (case (fr_status r, fr_user r) of
                   (Resolved, Some u) \<Rightarrow> if u_enabled u then (Inr (u, False), st') else (Inl (FED_LOGIN ''AUTHME_FEDERATED_LOGIN_DENIED''), st')
                 | (Created, Some u) \<Rightarrow> if u_enabled u then (Inr (u, True), st') else (Inl (FED_LOGIN ''AUTHME_FEDERATED_LOGIN_DENIED''), st')
                 | (LinkRequired, _) \<Rightarrow> (Inl (FED_LOGIN ''AUTHME_FEDERATED_LINK_REQUIRED''), st')
                 | (NotFound, _) \<Rightarrow> (Inl (FED_LOGIN ''AUTHME_FEDERATED_ACCOUNT_REQUIRED''), st')
                 | _ \<Rightarrow> (Inl (FED_LOGIN ''AUTHME_FEDERATED_LOGIN_DENIED''), st'))))"

text \<open>
  The account resolver of the browser flows (\<open>src/app.js\<close>): the provider must be configured, its issuer
  comes from the configuration, and a locked account is refused. \<open>configured\<close> finds the issuer and
  the \<open>jitProvisioning\<close> setting of a provider.
\<close>

definition accountResolver ::
    "(string \<Rightarrow> (json \<times> json) option) \<Rightarrow> int \<Rightarrow> string \<Rightarrow> string option \<Rightarrow> string \<Rightarrow> string \<Rightarrow> json \<Rightarrow> json \<Rightarrow>
     fed_state \<Rightarrow> (fed_error + (string \<times> bool)) \<times> fed_state" where
  "accountResolver configured now userId disabledHash realm providerId profile identity st =
     (case configured providerId of
        None \<Rightarrow> (Inl (FED_LOGIN ''AUTHME_FEDERATION_PROVIDER_NOT_FOUND''), st)
      | Some (issuer, jit) \<Rightarrow>
          (case resolveFederatedLogin now userId disabledHash realm
                  (JObj [(''providerId'', JStr providerId), (''issuer'', issuer), (''profile'', profile),
                         (''identity'', identity), (''allowCreate'', jit)]) (JBool (jit = JBool True)) st of
             (Inl e, st') \<Rightarrow> (Inl e, st')
           | (Inr (u, created), st') \<Rightarrow>
               if (case u_lockedUntil u of None \<Rightarrow> False | Some t \<Rightarrow> now < t)
               then (Inl (FED_LOGIN ''AUTHME_FEDERATED_LOGIN_DENIED''), st')
               else (Inr (u_id u, created), st'\<lparr>fs_store := recordLoginSuccess now realm (u_id u) (fs_store st')\<rparr>)))"

section \<open>Every operation keeps the links consistent\<close>

text \<open>
  The steps of all clients: the first and the last step of \<open>resolve\<close> (under the lock of its key, so the
  creation finds no link there; \<open>randomUUID\<close> gives an identifier no link has), linking, unlinking and any
  operation of the identity store.
\<close>

inductive fed_step :: "fed_state \<Rightarrow> fed_state \<Rightarrow> bool" where
  f_existing: "fed_normalize input = Inr i \<Longrightarrow> fed_existing now i st = (r, st') \<Longrightarrow> fed_step st st'"
| f_create: "fed_normalize input = Inr i \<Longrightarrow> mget (fs_links st) (fed_key_of i) = None \<Longrightarrow>
    \<forall>k l. mget (fs_links st) k = Some l \<longrightarrow> ln_userId l \<noteq> uid \<Longrightarrow> uid \<noteq> [] \<Longrightarrow>
    fed_create now uid dh i st = (r, st') \<Longrightarrow> fed_step st st'"
| f_link: "fed_link_user now input st = Inr (r, st') \<Longrightarrow> fed_step st st'"
| f_unlink: "fed_unlink r u p iss st = (x, st') \<Longrightarrow> fed_step st st'"
| f_store: "store_step (fs_store st) s' \<Longrightarrow> fed_step st (st\<lparr>fs_store := s'\<rparr>)"

inductive fed_reach :: "fed_state \<Rightarrow> bool" where
  fed_init: "fed_reach \<lparr>fs_links = [], fs_store = empty_store\<rparr>"
| fed_next: "fed_reach st \<Longrightarrow> fed_step st st' \<Longrightarrow> fed_reach st'"

definition fed_ok :: "fed_state \<Rightarrow> bool" where
  "fed_ok st \<longleftrightarrow> store_reach (fs_store st) \<and> map_wf (fs_links st) \<and>
     (\<forall>k l. mget (fs_links st) k = Some l \<longrightarrow> fed_key_of (ln_identity l) = k) \<and>
     (\<forall>k l k' l'. mget (fs_links st) k = Some l \<longrightarrow> mget (fs_links st) k' = Some l' \<longrightarrow>
        same_provider (ln_identity l) (ln_userId l) l' \<longrightarrow> k = k')"

lemma fed_okD:
  assumes "fed_ok st"
  shows "store_reach (fs_store st)" "map_wf (fs_links st)"
    "\<And>k l. mget (fs_links st) k = Some l \<Longrightarrow> fed_key_of (ln_identity l) = k"
    "\<And>k l k' l'. mget (fs_links st) k = Some l \<Longrightarrow> mget (fs_links st) k' = Some l' \<Longrightarrow>
        same_provider (ln_identity l) (ln_userId l) l' \<Longrightarrow> k = k'"
  using assms unfolding fed_ok_def by blast+

lemma same_provider_sym: "same_provider (ln_identity l) (ln_userId l) l' \<Longrightarrow> same_provider (ln_identity l') (ln_userId l') l"
  by (simp add: same_provider_def)

text \<open>Writing a link: nobody else may have its user, provider and issuer.\<close>

lemma fed_ok_put:
  assumes ok: "fed_ok st" and s: "store_reach s'" and k: "fed_key_of (ln_identity l) = k"
    and new: "\<And>k' l'. mget (fs_links st) k' = Some l' \<Longrightarrow> k' \<noteq> k \<Longrightarrow> \<not> same_provider (ln_identity l) (ln_userId l) l'"
  shows "fed_ok \<lparr>fs_links = mset' k l (fs_links st), fs_store = s'\<rparr>"
  unfolding fed_ok_def
proof (intro conjI allI impI)
  fix k1 l1 k2 l2
  assume a: "mget (fs_links \<lparr>fs_links = mset' k l (fs_links st), fs_store = s'\<rparr>) k1 = Some l1"
    "mget (fs_links \<lparr>fs_links = mset' k l (fs_links st), fs_store = s'\<rparr>) k2 = Some l2"
    "same_provider (ln_identity l1) (ln_userId l1) l2"
  show "k1 = k2"
    using a new [of k1 l1] new [of k2 l2] fed_okD(4) [OF ok, of k1 l1 k2 l2] same_provider_sym [OF a(3)]
    by (cases "k1 = k"; cases "k2 = k") auto
qed (use s k fed_okD(2,3) [OF ok] in \<open>auto split: if_splits\<close>)

lemma fed_ok_drop: "fed_ok st \<Longrightarrow> fed_ok (st\<lparr>fs_links := mdel k (fs_links st)\<rparr>)"
  unfolding fed_ok_def by (simp split: if_splits)

lemma fed_normalize_realm: "fed_normalize input = Inr i \<Longrightarrow> CHR '':'' \<notin> set (fi_realm i)"
  by (auto simp: fed_normalize_def Let_def dest!: realm_re_no_colon)

lemma fed_existing_ok:
  assumes ok: "fed_ok st" and r: "fed_existing now i st = (r, st')"
  shows "fed_ok st'"
proof (cases "mget (fs_links st) (fed_key_of i)")
  case None
  then show ?thesis using r ok by (auto simp: fed_existing_def)
next
  case (Some l)
  note k = fed_okD(3) [OF ok Some]
  let ?l = "l\<lparr>ln_lastLoginAt := Some now, ln_updatedAt := now, ln_identity := (ln_identity l)\<lparr>fi_profile := fi_profile i\<rparr>\<rparr>"
  show ?thesis
  proof (cases "findUserById (fi_realm i) (ln_userId l) (fs_store st)")
    case None
    then show ?thesis using r Some fed_ok_drop [OF ok, of "fed_key_of i"] \<open>mget _ _ = Some l\<close> by (auto simp: fed_existing_def)
  next
    case (Some u)
    have "fed_ok \<lparr>fs_links = mset' (fed_key_of i) ?l (fs_links st), fs_store = fs_store st\<rparr>"
    proof (rule fed_ok_put [OF ok fed_okD(1) [OF ok]])
      show "fed_key_of (ln_identity ?l) = fed_key_of i" using k by (simp add: fed_key_of_def)
      show "\<not> same_provider (ln_identity ?l) (ln_userId ?l) l'" if "mget (fs_links st) k' = Some l'" "k' \<noteq> fed_key_of i" for k' l'
        using fed_okD(4) [OF ok \<open>mget _ _ = Some l\<close> that(1)] that(2) by (auto simp: same_provider_def)
    qed
    then show ?thesis using r Some \<open>mget _ _ = Some l\<close> by (cases st) (auto simp: fed_existing_def Let_def)
  qed
qed

lemma fed_create_cases:
  assumes "fed_create now uid dh i st = (r, st')"
  obtains (kept) "st' = st" "\<And>x. r = Inr x \<Longrightarrow> \<exists>u. x = link_required u"
  | (made) u s' l where "createUser now uid (fed_user_input dh uid i) (fs_store st) = Inr (u, s')"
      "ln_identity l = i" "ln_userId l = u_id u" "st' = \<lparr>fs_links = mset' (fed_key_of i) l (fs_links st), fs_store = s'\<rparr>"
      "r = Inr \<lparr>fr_status = Created, fr_user = Some u, fr_link = Some (publicLink l)\<rparr>"
proof (cases "createUser now uid (fed_user_input dh uid i) (fs_store st)")
  case (Inl e)
  then show thesis using assms by (intro kept) (auto simp: fed_create_def split: if_splits option.splits)
next
  case (Inr us)
  obtain u s' where us: "us = (u, s')" by (cases us)
  let ?l = "\<lparr>ln_identity = i, ln_userId = u_id u, ln_createdAt = now, ln_updatedAt = now, ln_lastLoginAt = Some now\<rparr>"
  show thesis using assms Inr us by (intro made [of u s' ?l]) (simp_all add: fed_create_def Let_def)
qed

lemma fed_user_input_sel [simp]: "i_realm (fed_user_input dh uid i) = fi_realm i" "i_id (fed_user_input dh uid i) = Some uid"
  by (simp_all add: fed_user_input_def Let_def)

lemma fed_step_ok: "fed_step st st' \<Longrightarrow> fed_ok st \<Longrightarrow> fed_ok st'"
proof (induction rule: fed_step.induct)
  case (f_existing input i now st r st')
  then show ?case by (blast intro: fed_existing_ok)
next
  case (f_create input i st uid now dh r st')
  from f_create(5) show ?case
  proof (cases rule: fed_create_cases)
    case (made u s' l)
    have "store_reach s'"
      using reach_step [OF fed_okD(1) [OF f_create(6)] step_create [OF made(1)]] fed_normalize_realm [OF f_create(1)] by simp
    moreover have "u_id u = uid" using createUser_cases(1) [OF made(1)] f_create(4) by (simp add: normalizeUser_def)
    ultimately show ?thesis unfolding made(4)
      using f_create(3) made(2,3) by (intro fed_ok_put [OF f_create(6)]) (auto simp: same_provider_def)
  qed (use f_create in simp)
next
  case (f_link now input st r st')
  then show ?case
  proof (auto simp: fed_link_user_def Let_def split: option.splits elim!: bindR_InrE, goal_cases)
    case (1 i u)
    have "fed_ok \<lparr>fs_links = mset' (fed_key_of i) \<lparr>ln_identity = i, ln_userId = u_id u, ln_createdAt = now, ln_updatedAt = now,
        ln_lastLoginAt = None\<rparr> (fs_links st), fs_store = fs_store st\<rparr>"
    proof (rule fed_ok_put [OF 1(1) fed_okD(1) [OF 1(1)]], goal_cases)
      case (2 k' l')
      then have "l' \<in> set (mvals (fs_links st))" by (blast dest: mget_in_mvals)
      then show ?case using 1 by (auto simp: find_None)
    qed simp
    then show ?case by (cases st) simp
  qed
next
  case (f_unlink r u p iss st x st')
  then show ?case using fed_ok_drop [of st] by (auto simp: fed_unlink_def split: option.splits)
next
  case (f_store st s')
  then show ?case using reach_step [of "fs_store st"] by (auto simp: fed_ok_def)
qed

lemma fed_reach_ok: "fed_reach st \<Longrightarrow> fed_ok st"
proof (induction rule: fed_reach.induct)
  case fed_init
  then show ?case by (simp add: fed_ok_def reach_empty)
next
  case (fed_next st st')
  then show ?case by (blast intro: fed_step_ok)
qed

end
