(* ===== verification/FederationRoutes.thy ===== *)
theory FederationRoutes
  imports FederatedIdentity ExtensionRegistry
begin

text \<open>
  The browser flow of an upstream sign-in (\<open>src/routes/federation.js\<close>) over the one-use state store
  (\<open>src/federation/state-store.js\<close>), the account resolver of \<open>src/app.js\<close> and the extension registry. A handler
  runs to its end without interleaving; what it changed before an exception stays changed.
  \<open>fed_env\<close> is what the router was constructed with, \<open>fed_request\<close> what one request brings: the parsed parts of
  the HTTP request, what \<open>provider.interactionDetails\<close> gives (\<open>None\<close>: it throws), the clock and the random values.
\<close>

section \<open>The state of the application\<close>

record fed_app =
  fa_accounts :: fed_state
  fa_adapter :: adapter

definition fa_version :: "string \<Rightarrow> fed_app \<Rightarrow> string \<Rightarrow> int option" where
  "fa_version realm s = securityVersionFor realm (fs_store (fa_accounts s))"

section \<open>The one-use state store\<close>

definition str_field :: "json \<Rightarrow> string \<Rightarrow> string option" where
  "str_field v k = (case jprop v k of JStr s \<Rightarrow> (if s = [] then None else Some s) | _ \<Rightarrow> None)"

definition num_field :: "json \<Rightarrow> string \<Rightarrow> int option" where
  "num_field v k = (case jprop v k of JNum n \<Rightarrow> Some n | _ \<Rightarrow> None)"

text \<open>A JavaScript object as a record of the protocol store: the properties the store itself reads, and the object.\<close>

definition payload_of :: "json \<Rightarrow> payload" where
  "payload_of v = \<lparr>pl_grantId = str_field v ''grantId'', pl_accountId = str_field v ''accountId'',
     pl_userCode = str_field v ''userCode'', pl_uid = str_field v ''uid'', pl_consumed = num_field v ''consumed'', pl_data = v\<rparr>"

definition requestError :: "nat \<Rightarrow> string \<Rightarrow> http_error" where
  "requestError status code = \<lparr>he_code = Some code, he_status = Some status\<rparr>"

definition invalidState :: http_error where
  "invalidState = requestError 400 ''AUTHME_FEDERATION_STATE_INVALID''"

definition adapter_http :: "adapter_error \<Rightarrow> http_error" where
  "adapter_http e = \<lparr>he_code = None, he_status = Some 400\<rparr>"

definition handle_re :: "string \<Rightarrow> bool" where [js_defs]: "handle_re = class_re is_b64url 32 256"

text \<open>\<open>issue\<close>: \<open>random\<close> is the text of the 32 random bytes.\<close>

definition state_issue :: "int \<Rightarrow> string \<Rightarrow> string \<Rightarrow> json \<Rightarrow> int \<Rightarrow> (fed_app, http_error, string) handler" where
  "state_issue now random realm v expiresInSeconds = liftU (\<lambda>s.
     case upsert now (fa_version realm s) realm ''FederationState'' random (payload_of v) (Some (expiresInSeconds * 1000)) (fa_adapter s) of
       Inl e \<Rightarrow> Inl (adapter_http e)
     | Inr a \<Rightarrow> Inr (random, s\<lparr>fa_adapter := a\<rparr>))"

definition state_consume :: "int \<Rightarrow> string \<Rightarrow> json \<Rightarrow> (fed_app, http_error, json) handler" where
  "state_consume now realm state = liftU (\<lambda>s.
     case state of
       JStr i \<Rightarrow>
         if \<not> handle_re i then Inl invalidState
         else (case find_artifact now (fa_version realm s) realm ''FederationState'' i (fa_adapter s) of
                 None \<Rightarrow> Inl invalidState
               | Some p \<Rightarrow>
                   (case MemoryAdapter.consume now realm ''FederationState'' i (fa_adapter s) of
                      Inl _ \<Rightarrow> Inl invalidState
                    | Inr a \<Rightarrow> Inr (pl_data p, s\<lparr>fa_adapter := a\<rparr>)))
     | _ \<Rightarrow> Inl invalidState)"

section \<open>Checks\<close>

definition fed_provider_id_re :: "string \<Rightarrow> bool" where [js_defs]: "fed_provider_id_re = ident_re is_lower is_slug 1 31"
definition interaction_uid_re :: "string \<Rightarrow> bool" where [js_defs]: "interaction_uid_re = class_re is_b64url 1 256"
definition amr_re :: "string \<Rightarrow> bool" where
  [js_defs]: "amr_re = class_re (\<lambda>c. is_alnum c \<or> c \<in> set ''._~:+/-'') 1 64"

definition oidcCallbackFields :: "string list" where
  "oidcCallbackFields = [''code'', ''error'', ''error_description'', ''error_uri'', ''iss'', ''state'']"

definition federationAcr :: string where "federationAcr = ''urn:authme:loa:federated''"

definition fed_malformed :: http_error where "fed_malformed = requestError 400 ''AUTHME_FEDERATION_REQUEST_INVALID''"
definition fed_response_invalid :: http_error where
  "fed_response_invalid = requestError 400 ''AUTHME_FEDERATION_RESPONSE_INVALID''"
definition fed_not_found :: http_error where "fed_not_found = requestError 404 ''AUTHME_FEDERATION_PROVIDER_NOT_FOUND''"

definition exactObject :: "json \<Rightarrow> string list \<Rightarrow> bool" where
  "exactObject v names =
     (case v of
        JObj kvs \<Rightarrow> length kvs = length names \<and> list_all (\<lambda>f. f \<in> set (mkeys kvs) \<and> is_str (jprop v f)) names
      | _ \<Rightarrow> False)"

definition exactAllowedObject :: "json \<Rightarrow> string list \<Rightarrow> bool" where
  "exactAllowedObject v names =
     (case v of JObj kvs \<Rightarrow> list_all (\<lambda>(k, f). k \<in> set names \<and> is_str f) kvs | _ \<Rightarrow> False)"

definition loopback :: "string \<Rightarrow> bool" where
  "loopback hostname \<longleftrightarrow> hostname \<in> set [''127.0.0.1'', ''::1'', ''[::1]'', ''localhost'']"

definition publicOrigin :: "url_parser \<Rightarrow> string \<Rightarrow> http_error + string" where
  "publicOrigin parse_url v =
     (case parse_url v of
        None \<Rightarrow> Inl \<lparr>he_code = None, he_status = None\<rparr>
      | Some u \<Rightarrow>
          if (wu_protocol u \<noteq> ''https:'' \<and> \<not> (wu_protocol u = ''http:'' \<and> loopback (wu_hostname u)))
            \<or> wu_username u \<noteq> [] \<or> wu_password u \<noteq> [] \<or> wu_pathname u \<noteq> ''/'' \<or> wu_search u \<noteq> [] \<or> wu_hash u \<noteq> []
          then Inl \<lparr>he_code = None, he_status = None\<rparr>
          else Inr (wu_origin u))"

definition redirect_invalid :: http_error where
  "redirect_invalid = requestError 502 ''AUTHME_FEDERATION_REDIRECT_INVALID''"

definition safeRedirect :: "url_parser \<Rightarrow> json \<Rightarrow> bool \<Rightarrow> http_error + string" where
  "safeRedirect parse_url v allowLoopbackHttp =
     (case v of
        JStr s \<Rightarrow>
          if s = [] \<or> length s > 16384 then Inl redirect_invalid
          else (case parse_url s of
                  None \<Rightarrow> Inl redirect_invalid
                | Some u \<Rightarrow>
                    if (wu_protocol u \<noteq> ''https:'' \<and>
                        \<not> (allowLoopbackHttp \<and> wu_protocol u = ''http:'' \<and> loopback (wu_hostname u)))
                      \<or> wu_username u \<noteq> [] \<or> wu_password u \<noteq> [] \<or> wu_hash u \<noteq> []
                    then Inl redirect_invalid
                    else Inr (wu_href u))
      | _ \<Rightarrow> Inl redirect_invalid)"

text \<open>The interaction the OpenID Connect library has open for the browser.\<close>

record interaction_details =
  it_uid :: string
  it_prompt :: "string option"
  it_clientId :: "string option"

definition interactionDetails :: "interaction_details option \<Rightarrow> string \<Rightarrow> http_error + interaction_details" where
  "interactionDetails details expectedUid =
     (case details of
        None \<Rightarrow> Inl \<lparr>he_code = None, he_status = Some 400\<rparr>
      | Some d \<Rightarrow> if it_uid d \<noteq> expectedUid \<or> it_prompt d \<noteq> Some ''login'' then Inl fed_malformed else Inr d)"

definition extensionFor ::
    "'s registry \<Rightarrow> string \<Rightarrow> string \<Rightarrow> string \<Rightarrow> string \<Rightarrow> http_error + 's extension" where
  "extensionFor registry realm extensionId providerId capability =
     (if \<not> extension_id_re extensionId \<or> \<not> fed_provider_id_re providerId then Inl fed_not_found
      else (case get_extension (JStr extensionId) (Some ''federation'') registry of
              None \<Rightarrow> Inl fed_not_found
            | Some entry \<Rightarrow>
                (let im = ex_implementation entry;
                     providers = (if enabled_for im realm
                                  then (case im_providersFor im of Method f \<Rightarrow> f realm | _ \<Rightarrow> JUndef) else JBool False);
                     providerExists = (case providers of JArr ps \<Rightarrow> \<exists>p\<in>set ps. jprop p ''id'' = JStr providerId | _ \<Rightarrow> False)
                 in if \<not> enabled_for im realm \<or> \<not> providerExists
                      \<or> capability \<notin> set (mf_capabilities (ex_manifest entry))
                    then Inl fed_not_found else Inr entry)))"

definition capability_of :: "string \<Rightarrow> string" where
  "capability_of extensionId = (if extensionId = ''builtin.saml-federation'' then ''saml2'' else ''oidc'')"

section \<open>Results of an upstream sign-in\<close>

record federation_result =
  fx_interactionUid :: string
  fx_providerId :: json
  fx_profile :: json
  fx_identity :: json
  fx_amr :: "string list"
  fx_acr :: string

text \<open>\<open>pattern.test(v ?? '')\<close>.\<close>

definition test_field :: "(string \<Rightarrow> bool) \<Rightarrow> json \<Rightarrow> bool" where
  "test_field p v = p (if nullish v then [] else js_String v)"

definition normalizedResult :: "json \<Rightarrow> json \<Rightarrow> http_error + federation_result" where
  "normalizedResult v providerId =
     (let suppliedAmr = (if nullish (jprop v ''amr'') then JArr [] else jprop v ''amr'') in
      bindR (guardR (is_obj v \<and> jprop v ''providerId'' = providerId \<and>
               test_field interaction_uid_re (jprop v ''interactionUid'') \<and> is_obj (jprop v ''profile''))
             fed_response_invalid) (\<lambda>_.
      bindR (guardR (case suppliedAmr of
                       JArr xs \<Rightarrow> length xs \<le> 16 \<and> list_all (\<lambda>x. is_str x \<and> amr_re (js_String x)) xs
                     | _ \<Rightarrow> False) fed_response_invalid) (\<lambda>_.
      bindR (guardR (case jprop v ''acr'' of
                       JUndef \<Rightarrow> True
                     | JStr a \<Rightarrow> a \<noteq> [] \<and> length a \<le> 256 \<and> list_all (\<lambda>c. \<not> is_control c) a
                     | _ \<Rightarrow> False) fed_response_invalid) (\<lambda>_.
        Inr \<lparr>fx_interactionUid = js_String (jprop v ''interactionUid''), fx_providerId = providerId,
             fx_profile = jprop v ''profile'', fx_identity = jprop v ''identity'',
             fx_amr = js_uniq (''federated'' # (case suppliedAmr of JArr xs \<Rightarrow> str_list xs | _ \<Rightarrow> [])),
             fx_acr = (if nullish (jprop v ''acr'') then federationAcr else js_String (jprop v ''acr''))\<rparr>))))"

record completion =
  cl_extensionId :: string
  cl_providerId :: string
  cl_accountId :: string
  cl_amr :: "string list"
  cl_acr :: string

definition completion_invalid :: http_error where
  "completion_invalid = requestError 400 ''AUTHME_FEDERATION_COMPLETION_INVALID''"

definition completionPayload :: "json \<Rightarrow> string \<Rightarrow> string \<Rightarrow> http_error + completion" where
  "completionPayload v realm interactionUid =
     bindR (guardR (is_obj v \<and> jprop v ''kind'' = JStr ''federation-completion'' \<and> jprop v ''realm'' = JStr realm \<and>
              jprop v ''interactionUid'' = JStr interactionUid \<and>
              test_field extension_id_re (jprop v ''extensionId'') \<and> test_field fed_provider_id_re (jprop v ''providerId'') \<and>
              test_field uuid_re (jprop v ''accountId'')) completion_invalid) (\<lambda>_.
     bindR (normalizedResult (JObj [(''interactionUid'', jprop v ''interactionUid''), (''providerId'', jprop v ''providerId''),
              (''profile'', JObj []), (''amr'', jprop v ''amr''), (''acr'', jprop v ''acr'')]) (jprop v ''providerId'')) (\<lambda>a.
       Inr \<lparr>cl_extensionId = js_String (jprop v ''extensionId''), cl_providerId = js_String (jprop v ''providerId''),
            cl_accountId = js_String (jprop v ''accountId''), cl_amr = fx_amr a, cl_acr = fx_acr a\<rparr>))"

section \<open>The router\<close>

record fed_env =
  fv_realm :: string
  fv_registry :: "fed_app registry"
  fv_sig :: "string \<Rightarrow> string \<Rightarrow> string"
  fv_num :: "string \<Rightarrow> int option"
  fv_secret :: string
  fv_ttl :: int
  fv_origin :: string
  fv_maxOidcBytes :: nat
  fv_parse_url :: url_parser
  fv_configured :: "string \<Rightarrow> string \<Rightarrow> (json \<times> json) option"
  fv_disabledHash :: "string option"
  fv_isIP :: "string \<Rightarrow> bool"

record fed_request =
  rq_extensionId :: string
  rq_providerId :: string
  rq_uid :: string
  rq_isForm :: bool
  rq_body :: json
  rq_query :: json
  rq_urlBytes :: nat
  rq_ip :: "string option"
  rq_userAgent :: "string option"
  rq_details :: "interaction_details option"
  rq_now :: int
  rq_random :: string
  rq_userId :: string
  rq_auditId :: string

text \<open>\<open>no-store\<close> and \<open>no-referrer\<close> are the headers the handler set.\<close>

datatype fed_reply =
    Redirect303 (rd_url: string) (rd_noReferrer: bool)
  | Finished (fn_accountId: string) (fn_acr: string) (fn_amr: "string list")
  | SamlMetadata string

type_synonym fed_handler = "(fed_app, http_error, fed_reply) handler"

definition config_error :: http_error where "config_error = \<lparr>he_code = None, he_status = None\<rparr>"

text \<open>
  The checks of \<open>createFederationRouter\<close> on its options; the presence of the collaborators is a matter of types
  here. The result is the origin all callback addresses start with.
\<close>

definition createFederationRouter ::
    "url_parser \<Rightarrow> string \<Rightarrow> string \<Rightarrow> int \<Rightarrow> int \<Rightarrow> int \<Rightarrow> string \<Rightarrow> http_error + string" where
  "createFederationRouter parse_url realm csrfSecret completionTtlSeconds maxSamlPostBytes maxOidcCallbackBytes publicUrl =
     bindR (guardR (realm_re realm) config_error) (\<lambda>_.
     bindR (guardR (csrfSecret \<noteq> []) config_error) (\<lambda>_.
     bindR (guardR (30 \<le> completionTtlSeconds \<and> completionTtlSeconds \<le> 600) config_error) (\<lambda>_.
     bindR (guardR (1024 \<le> maxSamlPostBytes \<and> maxSamlPostBytes \<le> 4000000) config_error) (\<lambda>_.
     bindR (guardR (1024 \<le> maxOidcCallbackBytes \<and> maxOidcCallbackBytes \<le> 65536) config_error) (\<lambda>_.
       publicOrigin parse_url publicUrl)))))"

definition callbackUrl :: "string \<Rightarrow> string \<Rightarrow> string \<Rightarrow> string \<Rightarrow> string" where
  "callbackUrl origin realm extensionId providerId =
     origin @ ''/realms/'' @ realm @ ''/federation/'' @ extensionId @ ''/'' @ providerId @ ''/callback''"

text \<open>The handle has passed its pattern, so \<open>URLSearchParams\<close> leaves it as it is.\<close>

definition completionUrl :: "string \<Rightarrow> string \<Rightarrow> string \<Rightarrow> string" where
  "completionUrl realm interactionUid handle =
     ''/realms/'' @ realm @ ''/interaction/'' @ interactionUid @ ''/federation/complete?handle='' @ handle"

definition fed_auditEvent ::
    "fed_env \<Rightarrow> fed_request \<Rightarrow> string \<Rightarrow> string \<Rightarrow> string \<Rightarrow> string option \<Rightarrow> string option \<Rightarrow> (string \<times> json) list \<Rightarrow> audit_event" where
  "fed_auditEvent env rq type extensionId providerId clientId subjectId extra =
     \<lparr>ev_realm = fv_realm env, ev_type = type, ev_actorId = None, ev_subjectId = subjectId,
      ev_clientId = clientId, ev_ip = rq_ip rq, ev_userAgent = rq_userAgent rq,
      ev_metadata = JObj ([(''extensionId'', JStr extensionId), (''providerId'', JStr providerId)] @ extra)\<rparr>"

definition with_store :: "(store \<Rightarrow> store) \<Rightarrow> fed_app \<Rightarrow> fed_app" where
  "with_store f s = s\<lparr>fa_accounts := (fa_accounts s)\<lparr>fs_store := f (fs_store (fa_accounts s))\<rparr>\<rparr>"

definition fed_audit :: "fed_env \<Rightarrow> fed_request \<Rightarrow> audit_event \<Rightarrow> (fed_app, http_error, unit) handler" where
  "fed_audit env rq event s =
     (Inr (), with_store (\<lambda>st. snd (writeAudit (fv_isIP env) (rq_now rq) (rq_auditId rq) event st)) s)"

definition fed_http :: "fed_error \<Rightarrow> http_error" where
  "fed_http e =
     (case e of
        FED_LOGIN code \<Rightarrow> requestError (if code = ''AUTHME_FEDERATION_PROVIDER_NOT_FOUND'' then 404 else 403) code
      | FED_INVALID _ \<Rightarrow> \<lparr>he_code = Some ''AUTHME_FEDERATED_IDENTITY_INVALID'', he_status = None\<rparr>
      | FED_STORE USER_EXISTS \<Rightarrow> \<lparr>he_code = Some ''USER_EXISTS'', he_status = None\<rparr>
      | _ \<Rightarrow> config_error)"

definition resolve_account ::
    "fed_env \<Rightarrow> fed_request \<Rightarrow> string \<Rightarrow> string \<Rightarrow> json \<Rightarrow> json \<Rightarrow> (fed_app, http_error, string \<times> bool) handler" where
  "resolve_account env rq extensionId providerId profile identity s =
     (case accountResolver (fv_configured env extensionId) (rq_now rq) (rq_userId rq) (fv_disabledHash env) (fv_realm env)
             providerId profile identity (fa_accounts s) of
        (Inl e, st) \<Rightarrow> (Inl (fed_http e), s\<lparr>fa_accounts := st\<rparr>)
      | (Inr r, st) \<Rightarrow> (Inr r, s\<lparr>fa_accounts := st\<rparr>))"

definition completion_payload :: "string \<Rightarrow> string \<Rightarrow> string \<Rightarrow> federation_result \<Rightarrow> string \<Rightarrow> json" where
  "completion_payload realm extensionId providerId f accountId =
     JObj [(''kind'', JStr ''federation-completion''), (''realm'', JStr realm), (''extensionId'', JStr extensionId),
       (''providerId'', JStr providerId), (''interactionUid'', JStr (fx_interactionUid f)), (''accountId'', JStr accountId),
       (''amr'', JArr (map JStr (fx_amr f))), (''acr'', JStr (fx_acr f))]"

definition completeCallback :: "fed_env \<Rightarrow> fed_request \<Rightarrow> string \<Rightarrow> string \<Rightarrow> json \<Rightarrow> fed_handler" where
  "completeCallback env rq extensionId providerId result =
     bindS (liftR (normalizedResult result (JStr providerId))) (\<lambda>federation.
     bindS (resolve_account env rq extensionId providerId (fx_profile federation) (fx_identity federation)) (\<lambda>(accountId, created).
     bindS (guardS (uuid_re accountId) (requestError 500 ''AUTHME_FEDERATION_RESOLUTION_INVALID'')) (\<lambda>_.
     bindS (state_issue (rq_now rq) (rq_random rq) (fv_realm env)
              (completion_payload (fv_realm env) extensionId providerId federation accountId) (fv_ttl env)) (\<lambda>handle.
     bindS (guardS (handle_re handle) (requestError 500 ''AUTHME_FEDERATION_STATE_INVALID'')) (\<lambda>_.
     bindS (fed_audit env rq (fed_auditEvent env rq ''identity.federation.resolved'' extensionId providerId None (Some accountId)
              [(''created'', JBool created)])) (\<lambda>_.
       retS (Redirect303 (completionUrl (fv_realm env) (fx_interactionUid federation) handle) True)))))))"

definition error_code_re :: "string \<Rightarrow> bool" where
  [js_defs]: "error_code_re = class_re (\<lambda>c. is_alnum c \<or> c \<in> set ''_.-'') 1 100"

definition callbackFailure :: "fed_env \<Rightarrow> fed_request \<Rightarrow> string \<Rightarrow> string \<Rightarrow> http_error \<Rightarrow> (fed_app, http_error, unit) handler" where
  "callbackFailure env rq extensionId providerId e =
     (let code = (case he_code e of Some c \<Rightarrow> if error_code_re c then c else ''AUTHME_FEDERATION_CALLBACK_FAILED''
                  | None \<Rightarrow> ''AUTHME_FEDERATION_CALLBACK_FAILED'')
      in fed_audit env rq (fed_auditEvent env rq ''identity.federation.failed'' extensionId providerId None None
           [(''code'', JStr code)]))"

text \<open>\<open>try { body } catch (error) { await callbackFailure(error); next(error) }\<close>.\<close>

definition failing_with :: "(http_error \<Rightarrow> (fed_app, http_error, unit) handler) \<Rightarrow> fed_handler \<Rightarrow> fed_handler" where
  "failing_with cleanup body s =
     (case body s of
        (Inl e, s') \<Rightarrow> (Inl e, snd (cleanup e s'))
      | (Inr r, s') \<Rightarrow> (Inr r, s'))"

section \<open>The routes\<close>

definition federation_metadata :: "fed_env \<Rightarrow> fed_request \<Rightarrow> fed_handler" where
  "federation_metadata env rq =
     bindS (liftR (extensionFor (fv_registry env) (fv_realm env) (rq_extensionId rq) (rq_providerId rq) ''saml2'')) (\<lambda>entry.
       case im_metadataFor (ex_implementation entry) of
         Method f \<Rightarrow>
           bindS (f (fv_realm env) (rq_providerId rq)) (\<lambda>m.
             case m of
               JStr x \<Rightarrow> if x = [] \<or> length x > 1000000 then failS (requestError 502 ''AUTHME_FEDERATION_METADATA_INVALID'')
                         else retS (SamlMetadata x)
             | _ \<Rightarrow> failS (requestError 502 ''AUTHME_FEDERATION_METADATA_INVALID''))
       | _ \<Rightarrow> failS fed_not_found)"

text \<open>A slot that passed \<open>validateImplementation\<close> is a method; calling anything else is a \<open>TypeError\<close>.\<close>

definition call_slot :: "'s extension_call slot \<Rightarrow> 's extension_call" where
  "call_slot f x = (case f of Method g \<Rightarrow> g x | _ \<Rightarrow> failS config_error)"

definition rq_binding :: "fed_env \<Rightarrow> fed_request \<Rightarrow> federation_binding" where
  "rq_binding env rq = \<lparr>bd_realm = fv_realm env, bd_interactionUid = rq_uid rq, bd_extensionId = rq_extensionId rq,
     bd_providerId = rq_providerId rq\<rparr>"

definition federation_initiate :: "fed_env \<Rightarrow> fed_request \<Rightarrow> fed_handler" where
  "federation_initiate env rq =
     bindS (guardS (interaction_uid_re (rq_uid rq) \<and> rq_isForm rq \<and> exactObject (rq_body rq) [''csrf'']) fed_malformed) (\<lambda>_.
     bindS (liftR (interactionDetails (rq_details rq) (rq_uid rq))) (\<lambda>details.
     bindS (guardS (verifyCsrfToken (fv_sig env) (fv_num env) (jprop (rq_body rq) ''csrf'') (csrfSubject (rq_binding env rq))
              (fv_secret env) (rq_now rq) 600) (requestError 403 ''AUTHME_FEDERATION_CSRF_INVALID'')) (\<lambda>_.
     bindS (liftR (extensionFor (fv_registry env) (fv_realm env) (rq_extensionId rq) (rq_providerId rq)
              (capability_of (rq_extensionId rq)))) (\<lambda>entry.
     bindS (call_slot (im_initiate (ex_implementation entry))
              (JObj [(''realm'', JStr (fv_realm env)), (''providerId'', JStr (rq_providerId rq)), (''interactionUid'', JStr (rq_uid rq)),
                (''callbackUrl'', JStr (callbackUrl (fv_origin env) (fv_realm env) (rq_extensionId rq) (rq_providerId rq)))])) (\<lambda>initiated.
     bindS (liftR (safeRedirect (fv_parse_url env) (jprop initiated ''redirectUrl'') (js_starts ''http:'' (fv_origin env)))) (\<lambda>redirectUrl.
     bindS (fed_audit env rq (fed_auditEvent env rq ''identity.federation.initiated'' (rq_extensionId rq) (rq_providerId rq)
              (it_clientId details) None [])) (\<lambda>_.
       retS (Redirect303 redirectUrl False))))))))"

definition federation_acs :: "fed_env \<Rightarrow> fed_request \<Rightarrow> fed_handler" where
  "federation_acs env rq =
     failing_with (callbackFailure env rq (rq_extensionId rq) (rq_providerId rq))
       (bindS (guardS (rq_isForm rq \<and> exactObject (rq_body rq) [''SAMLResponse'', ''RelayState''] \<and>
                truthy (jprop (rq_body rq) ''SAMLResponse'') \<and> truthy (jprop (rq_body rq) ''RelayState'')) fed_malformed) (\<lambda>_.
        bindS (liftR (extensionFor (fv_registry env) (fv_realm env) (rq_extensionId rq) (rq_providerId rq) ''saml2'')) (\<lambda>entry.
        bindS (call_slot (im_consume (ex_implementation entry))
                (JObj [(''realm'', JStr (fv_realm env)), (''providerId'', JStr (rq_providerId rq)),
                  (''params'', JObj [(''SAMLResponse'', jprop (rq_body rq) ''SAMLResponse''),
                                     (''RelayState'', jprop (rq_body rq) ''RelayState'')])])) (\<lambda>result.
          completeCallback env rq (rq_extensionId rq) (rq_providerId rq) result))))"

definition hasOwn :: "json \<Rightarrow> string \<Rightarrow> bool" where "hasOwn v k \<longleftrightarrow> k \<in> set (mkeys (jentries v))"

definition oidc_query_ok :: "json \<Rightarrow> bool" where
  "oidc_query_ok q \<longleftrightarrow>
     exactAllowedObject q oidcCallbackFields \<and> is_str (jprop q ''state'') \<and> handle_re (js_String (jprop q ''state'')) \<and>
     hasOwn q ''code'' \<noteq> hasOwn q ''error'' \<and>
     (hasOwn q ''code'' \<longrightarrow> truthy (jprop q ''code'') \<and> \<not> hasOwn q ''error_description'' \<and> \<not> hasOwn q ''error_uri'') \<and>
     (hasOwn q ''error'' \<longrightarrow> truthy (jprop q ''error'')) \<and>
     list_all (\<lambda>(k, v). length (js_String v) \<le> 8192) (jentries q)"

definition federation_callback :: "fed_env \<Rightarrow> fed_request \<Rightarrow> fed_handler" where
  "federation_callback env rq =
     failing_with (callbackFailure env rq (rq_extensionId rq) (rq_providerId rq))
       (bindS (guardS (rq_urlBytes rq \<le> fv_maxOidcBytes env \<and> oidc_query_ok (rq_query rq)) fed_malformed) (\<lambda>_.
        bindS (liftR (extensionFor (fv_registry env) (fv_realm env) (rq_extensionId rq) (rq_providerId rq) ''oidc'')) (\<lambda>entry.
        bindS (call_slot (im_consume (ex_implementation entry))
                (JObj [(''realm'', JStr (fv_realm env)), (''providerId'', JStr (rq_providerId rq)),
                  (''callbackUrl'', JStr (callbackUrl (fv_origin env) (fv_realm env) (rq_extensionId rq) (rq_providerId rq))),
                  (''params'', rq_query rq)])) (\<lambda>result.
          completeCallback env rq (rq_extensionId rq) (rq_providerId rq) result))))"

definition federation_complete :: "fed_env \<Rightarrow> fed_request \<Rightarrow> fed_handler" where
  "federation_complete env rq =
     bindS (guardS (interaction_uid_re (rq_uid rq) \<and> exactObject (rq_query rq) [''handle''] \<and>
              handle_re (js_String (jprop (rq_query rq) ''handle''))) fed_malformed) (\<lambda>_.
     bindS (liftR (interactionDetails (rq_details rq) (rq_uid rq))) (\<lambda>details.
     bindS (state_consume (rq_now rq) (fv_realm env) (jprop (rq_query rq) ''handle'')) (\<lambda>state.
     bindS (liftR (completionPayload state (fv_realm env) (rq_uid rq))) (\<lambda>login.
     bindS (liftR (extensionFor (fv_registry env) (fv_realm env) (cl_extensionId login) (cl_providerId login)
              (capability_of (cl_extensionId login)))) (\<lambda>_.
     bindS (fed_audit env rq (fed_auditEvent env rq ''identity.federation.login_succeeded'' (cl_extensionId login) (cl_providerId login)
              (it_clientId details) (Some (cl_accountId login))
              [(''amr'', JArr (map JStr (cl_amr login))), (''acr'', JStr (cl_acr login))])) (\<lambda>_.
       retS (Finished (cl_accountId login) (cl_acr login) (cl_amr login))))))))"

end
