(* ===== verification/OidcProvider.thy ===== *)
theory OidcProvider
  imports FederationRoutes Schemas
begin

text \<open>
  The OpenID Connect client towards upstream providers (\<open>src/federation/oidc.js\<close>): its configuration, and the two
  operations of the federation extension it provides to the browser flow, over the one-use state store. What is not
  under \<open>src/\<close> is a field of \<open>oidc_world\<close>: the clock and the random values of the request, the URL parser, digests
  and encodings, \<open>JSON.parse\<close>, \<open>fetch\<close> and the verification of a signed token by the \<open>jose\<close> library.
\<close>

section \<open>Configuration\<close>

record oidc_provider =
  op_id :: string
  op_displayName :: string
  op_issuer :: string
  op_authorizationEndpoint :: string
  op_tokenEndpoint :: string
  op_jwksUri :: string
  op_userinfoEndpoint :: "string option"
  op_clientId :: string
  op_clientSecret :: string
  op_tokenEndpointAuthMethod :: string
  op_scopes :: "string list"
  op_signingAlgorithms :: "string list"
  op_usernameClaim :: string
  op_groupsClaim :: string
  op_rolesClaim :: string
  op_requireEmail :: bool
  op_jitProvisioning :: bool
  op_requireIssuerParameter :: bool
  op_timeoutMs :: int

definition oidc_id_re :: "string \<Rightarrow> bool" where [js_defs]: "oidc_id_re = ident_re is_lower is_slug 1 31"

text \<open>\<open>/^[\x21\x23-\x5b\x5d-\x7e]+$/\<close>.\<close>

definition oauth_scope_re :: "string \<Rightarrow> bool" where
  [js_defs]: "oauth_scope_re s \<longleftrightarrow> s \<noteq> [] \<and>
     list_all (\<lambda>c. of_char c = (0x21 :: nat) \<or> chr_in 0x23 0x5b c \<or> chr_in 0x5d 0x7e c) s"

definition claim_path_re :: "string \<Rightarrow> bool" where
  [js_defs]: "claim_path_re = ident_re (\<lambda>c. is_alpha c \<or> c = CHR ''_'') (\<lambda>c. is_alnum c \<or> c \<in> set ''_.-'') 0 63"

definition oidc_algorithms :: "string list" where
  "oidc_algorithms = [''RS256'', ''RS384'', ''RS512'', ''PS256'', ''PS384'', ''PS512'', ''ES256'', ''ES384'', ''ES512'', ''EdDSA'']"

definition oidc_names :: "string list" where
  "oidc_names = [''id'', ''display_name'', ''issuer'', ''authorization_endpoint'', ''token_endpoint'', ''jwks_uri'', ''userinfo_endpoint'',
     ''client_id'', ''client_secret'', ''token_endpoint_auth_method'', ''scopes'', ''signing_algorithms'', ''username_claim'', ''groups_claim'',
     ''roles_claim'', ''require_email'', ''jit_provisioning'', ''require_issuer_parameter'', ''timeout_ms'']"

definition url_schema :: "(string \<Rightarrow> bool) \<Rightarrow> json \<Rightarrow> string option" where
  "url_schema isUrl v = (case v of JStr s \<Rightarrow> if isUrl s then Some s else None | _ \<Rightarrow> None)"

definition array_from :: "(json \<Rightarrow> 'a option) \<Rightarrow> nat \<Rightarrow> json \<Rightarrow> 'a list option" where
  "array_from f lo v = (case v of JArr xs \<Rightarrow> if lo \<le> length xs then all_some (map f xs) else None | _ \<Rightarrow> None)"

text \<open>\<open>providerSchema\<close>, the endpoints as they are written.\<close>

definition oidc_schema :: "(string \<Rightarrow> bool) \<Rightarrow> json \<Rightarrow> oidc_provider option" where
  "oidc_schema isUrl v =
     (if \<not> strict_names v oidc_names then None
      else (case (text_schema 2 32 oidc_id_re (jprop v ''id''), trimmed 1 100 (\<lambda>_. True) (jprop v ''display_name''),
                  url_schema isUrl (jprop v ''issuer''), url_schema isUrl (jprop v ''authorization_endpoint''),
                  url_schema isUrl (jprop v ''token_endpoint''), url_schema isUrl (jprop v ''jwks_uri''),
                  opt_field (url_schema isUrl) v ''userinfo_endpoint'', text_schema 1 256 (\<lambda>_. True) (jprop v ''client_id''),
                  text_schema 1 4096 (\<lambda>_. True) (jprop v ''client_secret''),
                  default_field (enum_schema [''client_secret_basic'', ''client_secret_post'']) v ''token_endpoint_auth_method'' ''client_secret_basic'') of
              (Some i, Some n, Some iss, Some au, Some tk, Some jw, Some ui, Some ci, Some cs, Some am) \<Rightarrow>
                (case (default_field (array_between (\<lambda>x. case x of JStr s \<Rightarrow> if oauth_scope_re s then Some s else None | _ \<Rightarrow> None) 1 30)
                         v ''scopes'' [''openid'', ''profile'', ''email''],
                       default_field (array_from (enum_schema oidc_algorithms) 1) v ''signing_algorithms'' [''RS256'', ''PS256'', ''ES256'', ''EdDSA''],
                       default_field (text_schema 1 64 claim_path_re) v ''username_claim'' ''preferred_username'',
                       default_field (text_schema 1 64 claim_path_re) v ''groups_claim'' ''groups'',
                       default_field (text_schema 1 64 claim_path_re) v ''roles_claim'' ''roles'',
                       default_field bool_schema v ''require_email'' True, default_field bool_schema v ''jit_provisioning'' False,
                       default_field bool_schema v ''require_issuer_parameter'' False,
                       default_field (int_schema 500 20000) v ''timeout_ms'' 5000) of
                   (Some sc, Some al, Some uc, Some gc, Some rc, Some re, Some jit, Some ip, Some tm) \<Rightarrow>
                     Some \<lparr>op_id = i, op_displayName = n, op_issuer = iss, op_authorizationEndpoint = au, op_tokenEndpoint = tk,
                       op_jwksUri = jw, op_userinfoEndpoint = ui, op_clientId = ci, op_clientSecret = cs, op_tokenEndpointAuthMethod = am,
                       op_scopes = sc, op_signingAlgorithms = al, op_usernameClaim = uc, op_groupsClaim = gc, op_rolesClaim = rc,
                       op_requireEmail = re, op_jitProvisioning = jit, op_requireIssuerParameter = ip, op_timeoutMs = tm\<rparr>
                 | _ \<Rightarrow> None)
            | _ \<Rightarrow> None))"

text \<open>\<open>endpoint\<close> gives the URL as the parser writes it, \<open>issuerIdentifier\<close> the text as it was configured.\<close>

definition oidc_endpoint :: "url_parser \<Rightarrow> bool \<Rightarrow> string \<Rightarrow> string option" where
  "oidc_endpoint parse devMode v =
     (if v \<noteq> js_trim v then None
      else (case parse v of
              None \<Rightarrow> None
            | Some u \<Rightarrow>
                if wu_protocol u \<noteq> ''https:'' \<and> \<not> (devMode \<and> loopback (wu_hostname u) \<and> wu_protocol u = ''http:'') then None
                else if wu_username u \<noteq> [] \<or> wu_password u \<noteq> [] \<or> wu_hash u \<noteq> [] then None
                else Some (wu_href u)))"

definition issuerIdentifier :: "url_parser \<Rightarrow> bool \<Rightarrow> string \<Rightarrow> string option" where
  "issuerIdentifier parse devMode v =
     (case (oidc_endpoint parse devMode v, parse v) of
        (Some _, Some u) \<Rightarrow> if wu_search u \<noteq> [] then None else Some v
      | _ \<Rightarrow> None)"

text \<open>An endpoint that need not be configured; the empty text counts as not configured.\<close>

definition optional_endpoint :: "url_parser \<Rightarrow> bool \<Rightarrow> string option \<Rightarrow> string option option" where
  "optional_endpoint parse devMode v =
     (case v of
        None \<Rightarrow> Some None
      | Some s \<Rightarrow> if s = [] then Some None else map_option Some (oidc_endpoint parse devMode s))"

definition parse_oidc_provider :: "url_parser \<Rightarrow> (string \<Rightarrow> bool) \<Rightarrow> bool \<Rightarrow> string list \<Rightarrow> json \<Rightarrow> oidc_provider option" where
  "parse_oidc_provider parse isUrl devMode ids input =
     (case oidc_schema isUrl input of
        None \<Rightarrow> None
      | Some p \<Rightarrow>
          if op_id p \<in> set ids then None
          else if ''openid'' \<notin> set (op_scopes p) \<or> \<not> distinct (op_scopes p) then None
          else (case (issuerIdentifier parse devMode (op_issuer p), oidc_endpoint parse devMode (op_authorizationEndpoint p),
                      oidc_endpoint parse devMode (op_tokenEndpoint p), oidc_endpoint parse devMode (op_jwksUri p),
                      optional_endpoint parse devMode (op_userinfoEndpoint p)) of
                  (Some iss, Some au, Some tk, Some jw, Some ui) \<Rightarrow>
                    Some (p\<lparr>op_issuer := iss, op_authorizationEndpoint := au, op_tokenEndpoint := tk, op_jwksUri := jw,
                      op_userinfoEndpoint := ui, op_signingAlgorithms := js_uniq (op_signingAlgorithms p)\<rparr>)
                | _ \<Rightarrow> None))"

definition parseOidcProviders ::
    "(string \<Rightarrow> json option) \<Rightarrow> url_parser \<Rightarrow> (string \<Rightarrow> bool) \<Rightarrow> string \<Rightarrow> string list \<Rightarrow> bool \<Rightarrow> (string \<times> oidc_provider list) list option" where
  "parseOidcProviders json parse isUrl text realms devMode =
     parse_by_realm json op_id (parse_oidc_provider parse isUrl devMode) text realms"

section \<open>The world of a request\<close>

text \<open>One HTTP request to the provider, its answer, and what a signed token is verified against.\<close>

record oidc_request =
  or_url :: string
  or_post :: bool
  or_headers :: "(string \<times> string) list"
  or_body :: "(string \<times> string) list"
  or_timeout :: int

record oidc_response =
  os_ok :: bool
  os_contentLength :: "string option"
  os_text :: "http_error + string"

record jwt_policy =
  jp_jwksUri :: string
  jp_issuer :: string
  jp_audience :: string
  jp_algorithms :: "string list"
  jp_clockTolerance :: int

record oidc_world =
  ow_now :: int
  ow_nonce :: string
  ow_codeVerifier :: string
  ow_state :: string
  ow_parse_url :: url_parser
  ow_params :: "web_url \<Rightarrow> (string \<times> string) list"
  ow_url_text :: "web_url \<Rightarrow> (string \<times> string) list \<Rightarrow> string"
  ow_json :: "string \<Rightarrow> json option"
  ow_number :: "string \<Rightarrow> int option"
  ow_utf8 :: "string \<Rightarrow> string"
  ow_digest :: "string \<Rightarrow> string \<Rightarrow> string"
  ow_base64 :: "string \<Rightarrow> string"
  ow_base64url :: "string \<Rightarrow> string"
  ow_fetch :: "oidc_request \<Rightarrow> http_error + oidc_response"
  ow_jwtVerify :: "string \<Rightarrow> jwt_policy \<Rightarrow> http_error + (json \<times> json)"

text \<open>
  \<open>ow_params\<close> and \<open>ow_url_text\<close> read the search parameters of a URL and write the URL with others; \<open>ow_number\<close> is
  \<open>Number\<close>, \<open>None\<close> where it is not finite; \<open>ow_utf8\<close> encodes a text; \<open>ow_digest\<close> takes the name of the algorithm and the bytes.
\<close>

definition protocolError :: http_error where "protocolError = requestError 400 ''AUTHME_OIDC_RESPONSE_INVALID''"
definition upstreamError :: http_error where "upstreamError = requestError 400 ''AUTHME_OIDC_UPSTREAM_ERROR''"

definition callbackUri :: "url_parser \<Rightarrow> json \<Rightarrow> http_error + string" where
  "callbackUri parse v =
     (case v of
        JStr s \<Rightarrow>
          if s \<noteq> js_trim s then Inl protocolError
          else (case parse s of
                  None \<Rightarrow> Inl protocolError
                | Some u \<Rightarrow>
                    if (wu_protocol u \<noteq> ''https:'' \<and> \<not> (wu_protocol u = ''http:'' \<and> loopback (wu_hostname u)))
                      \<or> wu_username u \<noteq> [] \<or> wu_password u \<noteq> [] \<or> wu_search u \<noteq> [] \<or> wu_hash u \<noteq> []
                    then Inl protocolError else Inr (wu_href u))
      | _ \<Rightarrow> Inl protocolError)"

text \<open>\<open>URLSearchParams.set\<close>: the first pair of the name gets the value, the others go.\<close>

fun params_set :: "string \<Rightarrow> string \<Rightarrow> (string \<times> string) list \<Rightarrow> (string \<times> string) list" where
  "params_set k v [] = [(k, v)]"
| "params_set k v (p # ps) =
     (if fst p = k then (k, v) # filter (\<lambda>q. fst q \<noteq> k) ps else p # params_set k v ps)"

definition params_set_all :: "(string \<times> string) list \<Rightarrow> (string \<times> string) list \<Rightarrow> (string \<times> string) list" where
  "params_set_all kvs ps = foldl (\<lambda>ps (k, v). params_set k v ps) ps kvs"

text \<open>A byte of the form encoding, and \<open>formEncoded\<close>.\<close>

definition upper_hex :: "nat \<Rightarrow> char" where
  "upper_hex d = (if d < 10 then char_of (48 + d) else char_of (55 + d))"

definition form_byte :: "char \<Rightarrow> string" where
  "form_byte c =
     (if is_alnum c \<or> c \<in> set ''*-._'' then [c]
      else if c = CHR '' '' then ''+''
      else (let n = of_char c in [CHR ''%'', upper_hex (n div 16), upper_hex (n mod 16)]))"

definition formEncoded :: "oidc_world \<Rightarrow> string \<Rightarrow> string" where
  "formEncoded w v = concat (map form_byte (ow_utf8 w v))"

section \<open>Answers and claims\<close>

definition jsonResponse :: "oidc_world \<Rightarrow> oidc_response \<Rightarrow> http_error + json" where
  "jsonResponse w r =
     (let announced = (case os_contentLength r of None \<Rightarrow> Some 0 | Some s \<Rightarrow> ow_number w s) in
      bindR (guardR (case announced of None \<Rightarrow> True | Some n \<Rightarrow> n \<le> 1048576) protocolError) (\<lambda>_.
      bindR (os_text r) (\<lambda>text.
      bindR (guardR (length (ow_utf8 w text) \<le> 1048576) protocolError) (\<lambda>_.
        case ow_json w text of
          None \<Rightarrow> Inl protocolError
        | Some body \<Rightarrow>
            if \<not> os_ok r then Inl upstreamError
            else if \<not> is_obj body then Inl protocolError
            else Inr body))))"

definition stringList :: "json \<Rightarrow> string list" where
  "stringList v =
     (case v of
        JArr xs \<Rightarrow> concat (map (\<lambda>x. case x of JStr s \<Rightarrow> if js_trim s = [] then [] else [js_trim s] | _ \<Rightarrow> []) xs)
      | JStr s \<Rightarrow> filter (\<lambda>t. t \<noteq> []) (map js_trim (js_split (CHR '','') (map (\<lambda>c. if c = CHR '' '' then CHR '','' else c) s)))
      | _ \<Rightarrow> [])"

definition claim_at :: "json \<Rightarrow> string \<Rightarrow> json" where
  "claim_at claims path = foldl (\<lambda>v name. if is_obj v then jprop v name else JUndef) claims (js_split (CHR ''.'') path)"

definition trimmed_text :: "json \<Rightarrow> string" where
  "trimmed_text v = (case v of JStr s \<Rightarrow> js_trim s | _ \<Rightarrow> [])"

text \<open>\<open>a || b\<close> on texts.\<close>

definition js_or :: "string \<Rightarrow> string \<Rightarrow> string" where "js_or a b = (if a = [] then b else a)"

definition profileFor :: "oidc_provider \<Rightarrow> json \<Rightarrow> http_error + json" where
  "profileFor p claims =
     (case jprop claims ''sub'' of
        JStr sub \<Rightarrow>
          (let email = js_lower (trimmed_text (jprop claims ''email''));
               username = js_or (trimmed_text (claim_at claims (op_usernameClaim p))) (js_or email sub)
           in if sub = [] then Inl protocolError
              else if op_requireEmail p \<and> email = [] then Inl protocolError
              else Inr (JObj [(''externalSubject'', JStr sub), (''username'', JStr username), (''email'', JStr email),
                (''emailVerified'', JBool (jprop claims ''email_verified'' = JBool True)),
                (''name'', JStr (js_or (trimmed_text (jprop claims ''name'')) username)),
                (''givenName'', JStr (trimmed_text (jprop claims ''given_name''))),
                (''familyName'', JStr (trimmed_text (jprop claims ''family_name''))),
                (''groups'', JArr (map JStr (js_uniq (stringList (claim_at claims (op_groupsClaim p)))))),
                (''roles'', JArr (map JStr (js_uniq (stringList (claim_at claims (op_rolesClaim p))))))]))
      | _ \<Rightarrow> Inl protocolError)"

text \<open>\<open>/(?:256|384|512)$/\<close>.\<close>

definition digest_bits :: "string \<Rightarrow> string option" where
  "digest_bits alg = (let e = drop (length alg - 3) alg in if e \<in> set [''256'', ''384'', ''512''] then Some e else None)"

definition nonempty_str :: "json \<Rightarrow> bool" where
  "nonempty_str v = (case v of JStr s \<Rightarrow> s \<noteq> [] | _ \<Rightarrow> False)"

text \<open>The digest of an ASCII access token; its left half must be what the token says.\<close>

definition validateAccessTokenHash :: "oidc_world \<Rightarrow> json \<Rightarrow> json \<Rightarrow> json \<Rightarrow> http_error + unit" where
  "validateAccessTokenHash w tokens payload header =
     (if jprop payload ''at_hash'' = JUndef then Inr ()
      else bindR (guardR (is_str (jprop payload ''at_hash'') \<and> nonempty_str (jprop tokens ''access_token'')) protocolError) (\<lambda>_.
        case digest_bits (if nullish (jprop header ''alg'') then [] else js_String (jprop header ''alg'')) of
          None \<Rightarrow> Inl protocolError
        | Some bits \<Rightarrow>
            (let digest = ow_digest w (''sha'' @ bits) (js_String (jprop tokens ''access_token''));
                 expected = ow_base64url w (take (length digest div 2) digest)
             in guardR (ow_utf8 w (js_String (jprop payload ''at_hash'')) = ow_utf8 w expected) protocolError)))"

section \<open>Towards the provider\<close>

definition oidc_transaction :: "oidc_world \<Rightarrow> oidc_provider \<Rightarrow> json \<Rightarrow> string \<Rightarrow> json" where
  "oidc_transaction w p interactionUid redirectUri =
     JObj [(''kind'', JStr ''oidc''), (''providerId'', JStr (op_id p)), (''interactionUid'', interactionUid),
       (''callbackUrl'', JStr redirectUri), (''nonce'', JStr (ow_nonce w)), (''codeVerifier'', JStr (ow_codeVerifier w))]"

definition authorization_params :: "oidc_world \<Rightarrow> oidc_provider \<Rightarrow> string \<Rightarrow> string \<Rightarrow> (string \<times> string) list" where
  "authorization_params w p redirectUri state =
     [(''client_id'', op_clientId p), (''redirect_uri'', redirectUri), (''response_type'', ''code''), (''response_mode'', ''query''),
      (''scope'', js_join (CHR '' '') (op_scopes p)), (''state'', state), (''nonce'', ow_nonce w),
      (''code_challenge'', ow_base64url w (ow_digest w ''sha256'' (ow_codeVerifier w))), (''code_challenge_method'', ''S256'')]"

definition oidc_initiate :: "oidc_world \<Rightarrow> oidc_provider \<Rightarrow> string \<Rightarrow> (fed_app) extension_call" where
  "oidc_initiate w p realm input =
     bindS (liftR (callbackUri (ow_parse_url w) (jprop input ''callbackUrl''))) (\<lambda>redirectUri.
     bindS (state_issue (ow_now w) (ow_state w) realm (oidc_transaction w p (jprop input ''interactionUid'') redirectUri) 300) (\<lambda>state.
       case ow_parse_url w (op_authorizationEndpoint p) of
         None \<Rightarrow> failS config_error
       | Some u \<Rightarrow>
           retS (JObj [(''redirectUrl'', JStr (ow_url_text w u (params_set_all (authorization_params w p redirectUri state) (ow_params w u)))),
             (''state'', JStr state)])))"

section \<open>Back from the provider\<close>

definition token_body :: "oidc_provider \<Rightarrow> string \<Rightarrow> json \<Rightarrow> json \<Rightarrow> (string \<times> string) list" where
  "token_body p redirectUri transaction code =
     [(''grant_type'', ''authorization_code''), (''code'', js_String code), (''redirect_uri'', redirectUri),
      (''code_verifier'', js_String (jprop transaction ''codeVerifier'')), (''client_id'', op_clientId p)] @
     (if op_tokenEndpointAuthMethod p = ''client_secret_basic'' then [] else [(''client_secret'', op_clientSecret p)])"

definition token_request :: "oidc_world \<Rightarrow> oidc_provider \<Rightarrow> string \<Rightarrow> json \<Rightarrow> json \<Rightarrow> oidc_request" where
  "token_request w p redirectUri transaction code =
     \<lparr>or_url = op_tokenEndpoint p, or_post = True,
      or_headers = [(''accept'', ''application/json''), (''content-type'', ''application/x-www-form-urlencoded'')] @
        (if op_tokenEndpointAuthMethod p = ''client_secret_basic''
         then [(''authorization'', ''Basic '' @ ow_base64 w (formEncoded w (op_clientId p) @ '':'' @ formEncoded w (op_clientSecret p)))]
         else []),
      or_body = token_body p redirectUri transaction code, or_timeout = op_timeoutMs p\<rparr>"

definition userinfo_request :: "oidc_provider \<Rightarrow> string \<Rightarrow> string \<Rightarrow> oidc_request" where
  "userinfo_request p url token =
     \<lparr>or_url = url, or_post = False,
      or_headers = [(''accept'', ''application/json''), (''authorization'', ''Bearer '' @ token)], or_body = [], or_timeout = op_timeoutMs p\<rparr>"

definition oidc_policy :: "oidc_provider \<Rightarrow> jwt_policy" where
  "oidc_policy p = \<lparr>jp_jwksUri = op_jwksUri p, jp_issuer = op_issuer p, jp_audience = op_clientId p,
     jp_algorithms = op_signingAlgorithms p, jp_clockTolerance = 5\<rparr>"

text \<open>\<open>{ ...payload, ...userinfo, sub: payload.sub }\<close>.\<close>

definition merged_claims :: "json \<Rightarrow> json \<Rightarrow> json" where
  "merged_claims payload userinfo =
     JObj (mset' ''sub'' (jprop payload ''sub'') (foldl (\<lambda>m (k, v). mset' k v m) (jentries payload) (jentries userinfo)))"

text \<open>The claims of the user: those of the ID token, with those of the UserInfo endpoint where one is configured.\<close>

definition oidc_claims :: "oidc_world \<Rightarrow> oidc_provider \<Rightarrow> json \<Rightarrow> json \<Rightarrow> http_error + json" where
  "oidc_claims w p tokens payload =
     (case (op_userinfoEndpoint p, jprop tokens ''access_token'') of
        (Some url, JStr token) \<Rightarrow>
          if url = [] then Inr payload
          else
            bindR (guardR (case jprop tokens ''token_type'' of JStr t \<Rightarrow> js_lower t = ''bearer'' | _ \<Rightarrow> False) protocolError) (\<lambda>_.
            bindR (ow_fetch w (userinfo_request p url token)) (\<lambda>response.
            bindR (jsonResponse w response) (\<lambda>userinfo.
            bindR (guardR (jprop userinfo ''sub'' = jprop payload ''sub'') protocolError) (\<lambda>_.
              Inr (merged_claims payload userinfo)))))
      | _ \<Rightarrow> Inr payload)"

definition oidc_result :: "oidc_provider \<Rightarrow> json \<Rightarrow> json \<Rightarrow> json \<Rightarrow> json" where
  "oidc_result p transaction payload profile =
     JObj [(''interactionUid'', jprop transaction ''interactionUid''), (''protocol'', JStr ''oidc''), (''providerId'', JStr (op_id p)),
       (''issuer'', JStr (op_issuer p)), (''allowCreate'', JBool (op_jitProvisioning p)), (''profile'', profile),
       (''amr'', case jprop payload ''amr'' of JArr xs \<Rightarrow> JArr (filter is_str xs) | _ \<Rightarrow> JArr [JStr ''federated'']),
       (''acr'', if is_str (jprop payload ''acr'') then jprop payload ''acr'' else JUndef)]"

text \<open>What follows once the one-use state is taken: the transaction it held and the parameters of the callback.\<close>

definition oidc_exchange :: "oidc_world \<Rightarrow> oidc_provider \<Rightarrow> string \<Rightarrow> json \<Rightarrow> json \<Rightarrow> http_error + json" where
  "oidc_exchange w p redirectUri params transaction =
     bindR (guardR (\<not> truthy (jprop params ''error'')) upstreamError) (\<lambda>_.
     bindR (guardR (nonempty_str (jprop params ''code'')) protocolError) (\<lambda>_.
     bindR (guardR (\<not> ((op_requireIssuerParameter p \<or> jprop params ''iss'' \<noteq> JUndef) \<and> jprop params ''iss'' \<noteq> JStr (op_issuer p)))
              protocolError) (\<lambda>_.
     bindR (ow_fetch w (token_request w p redirectUri transaction (jprop params ''code''))) (\<lambda>tokenResponse.
     bindR (jsonResponse w tokenResponse) (\<lambda>tokens.
     bindR (guardR (is_str (jprop tokens ''id_token'')) protocolError) (\<lambda>_.
     bindR (ow_jwtVerify w (js_String (jprop tokens ''id_token'')) (oidc_policy p)) (\<lambda>(payload, header).
     bindR (guardR (jprop payload ''nonce'' = jprop transaction ''nonce'') protocolError) (\<lambda>_.
     bindR (guardR (case jprop payload ''aud'' of
                      JArr xs \<Rightarrow> length xs > 1 \<longrightarrow> jprop payload ''azp'' = JStr (op_clientId p) | _ \<Rightarrow> True) protocolError) (\<lambda>_.
     bindR (validateAccessTokenHash w tokens payload header) (\<lambda>_.
     bindR (oidc_claims w p tokens payload) (\<lambda>claims.
     bindR (profileFor p claims) (\<lambda>profile.
       Inr (oidc_result p transaction payload profile)))))))))))))"

definition oidc_consume :: "oidc_world \<Rightarrow> oidc_provider \<Rightarrow> string \<Rightarrow> (fed_app) extension_call" where
  "oidc_consume w p realm input =
     (let params = jprop input ''params'' in
      bindS (guardS (truthy params \<and> is_str (jprop params ''state'')) protocolError) (\<lambda>_.
      bindS (state_consume (ow_now w) realm (jprop params ''state'')) (\<lambda>transaction.
      bindS (liftR (callbackUri (ow_parse_url w) (jprop input ''callbackUrl''))) (\<lambda>redirectUri.
      bindS (guardS (jprop transaction ''kind'' = JStr ''oidc'' \<and> jprop transaction ''providerId'' = JStr (op_id p) \<and>
               jprop transaction ''callbackUrl'' = JStr redirectUri) protocolError) (\<lambda>_.
        liftR (oidc_exchange w p redirectUri params transaction))))))"

section \<open>The extension\<close>

definition oidc_provider_of :: "(string \<times> oidc_provider list) list \<Rightarrow> json \<Rightarrow> json \<Rightarrow> oidc_provider option" where
  "oidc_provider_of table realm i =
     (case realm of
        JStr r \<Rightarrow> (case mget table r of None \<Rightarrow> None | Some ps \<Rightarrow> find (\<lambda>p. JStr (op_id p) = i) ps)
      | _ \<Rightarrow> None)"

text \<open>The broker of a provider is a function of its configuration, so that keeping it in a map changes nothing.\<close>

definition with_broker ::
    "(string \<times> oidc_provider list) list \<Rightarrow> (oidc_provider \<Rightarrow> string \<Rightarrow> fed_app extension_call) \<Rightarrow> fed_app extension_call" where
  "with_broker table operation input =
     (case oidc_provider_of table (jprop input ''realm'') (jprop input ''providerId'') of
        None \<Rightarrow> failS protocolError
      | Some p \<Rightarrow> operation p (js_String (jprop input ''realm'')) input)"

definition oidc_manifest :: json where
  "oidc_manifest = JObj [(''apiVersion'', JStr AUTHME_EXTENSION_API_VERSION), (''id'', JStr ''builtin.oidc-federation''),
     (''kind'', JStr ''federation''), (''displayName'', JStr ''OpenID Connect federation''),
     (''capabilities'', JArr [JStr ''oauth2'', JStr ''oidc'', JStr ''pkce''])]"

definition oidc_implementation :: "oidc_world \<Rightarrow> (string \<times> oidc_provider list) list \<Rightarrow> fed_app implementation" where
  "oidc_implementation w table =
     (let providers = (\<lambda>realm. case mget table realm of None \<Rightarrow> [] | Some ps \<Rightarrow> ps)
      in \<lparr>im_enabledFor = Method (\<lambda>realm. JBool (providers realm \<noteq> [])),
          im_providersFor = Method (\<lambda>realm. JArr (map (\<lambda>p. JObj [(''id'', JStr (op_id p)), (''displayName'', JStr (op_displayName p))]) (providers realm))),
          im_initiate = Method (with_broker table (oidc_initiate w)), im_consume = Method (with_broker table (oidc_consume w)),
          im_metadataFor = Absent, im_authenticate = Absent, im_begin = Absent, im_complete = Absent, im_createRouter = Absent\<rparr>)"

definition createOidcFederationExtension ::
    "oidc_world \<Rightarrow> (string \<times> oidc_provider list) list \<Rightarrow> json \<times> fed_app implementation option" where
  "createOidcFederationExtension w table = (oidc_manifest, Some (oidc_implementation w table))"

end
