(* ===== verification/SamlReplayCache.thy ===== *)
theory SamlReplayCache
  imports AdapterProps IdentityStore
begin

text \<open>
  The SAML replay caches (\<open>src/federation/saml-replay-cache.js\<close>): the process-local cache, the
  cache over the realm's protocol store, and the provider object given to Node-SAML. The contract
  a broker relies on is the locale \<open>replay_cache\<close>; both caches are interpretations of it.
  Values are of any type; over the protocol store they are JSON.
\<close>

section \<open>Keys and lifetimes\<close>

definition validateKey :: "string \<Rightarrow> string + unit" where
  "validateKey key = guardR (key \<noteq> [] \<and> length key \<le> 1024) ''TypeError''"

definition validateTtl :: "int \<Rightarrow> string + unit" where
  "validateTtl ttlMs = guardR (safe_integer ttlMs \<and> 1 \<le> ttlMs \<and> ttlMs \<le> 24 * 60 * 60 * 1000) ''TypeError''"

section \<open>The process-local cache\<close>

record 'v cached =
  cv_value :: 'v
  cv_expiresAt :: int

type_synonym 'v mem_cache = "(string \<times> 'v cached) list"

definition prune :: "int \<Rightarrow> 'v mem_cache \<Rightarrow> 'v mem_cache" where
  "prune now c = mdrop (\<lambda>x. cv_expiresAt x \<le> now) c"

definition mem_putIfAbsent :: "int \<Rightarrow> string \<Rightarrow> 'v \<Rightarrow> int \<Rightarrow> 'v mem_cache \<Rightarrow> string + (bool \<times> 'v mem_cache)" where
  "mem_putIfAbsent now key v ttlMs c =
     bindR (validateKey key) (\<lambda>_. bindR (validateTtl ttlMs) (\<lambda>_.
       let c' = prune now c in
       if mget c' key \<noteq> None then Inr (False, c')
       else Inr (True, mset' key \<lparr>cv_value = v, cv_expiresAt = now + ttlMs\<rparr> c')))"

definition mem_get :: "int \<Rightarrow> string \<Rightarrow> 'v mem_cache \<Rightarrow> string + ('v option \<times> 'v mem_cache)" where
  "mem_get now key c =
     bindR (validateKey key) (\<lambda>_. let c' = prune now c in Inr (map_option cv_value (mget c' key), c'))"

definition mem_consume :: "int \<Rightarrow> string \<Rightarrow> 'v mem_cache \<Rightarrow> string + ('v option \<times> 'v mem_cache)" where
  "mem_consume now key c =
     bindR (validateKey key) (\<lambda>_. let c' = prune now c in
       case mget c' key of
         None \<Rightarrow> Inr (None, c')
       | Some r \<Rightarrow> Inr (Some (cv_value r), mdel key c'))"

section \<open>The cache over the protocol store\<close>

definition replay_payload :: "json \<Rightarrow> payload" where
  "replay_payload v = \<lparr>pl_grantId = None, pl_accountId = None, pl_userCode = None, pl_uid = None,
     pl_consumed = None, pl_data = v\<rparr>"

definition ad_putIfAbsent ::
    "(string \<Rightarrow> int option) \<Rightarrow> string \<Rightarrow> int \<Rightarrow> string \<Rightarrow> json \<Rightarrow> int \<Rightarrow> adapter \<Rightarrow> string + (bool \<times> adapter)" where
  "ad_putIfAbsent sv realm now key v ttlMs s =
     bindR (validateKey key) (\<lambda>_. bindR (validateTtl ttlMs) (\<lambda>_.
       case upsert now sv realm ''ReplayDetection'' key (replay_payload v) (Some ttlMs) s of
         Inr s' \<Rightarrow> Inr (True, s')
       | Inl InvalidRequest \<Rightarrow> Inr (False, s)
       | Inl InvalidGrant \<Rightarrow> Inl ''InvalidGrant''))"

definition ad_get ::
    "(string \<Rightarrow> int option) \<Rightarrow> string \<Rightarrow> int \<Rightarrow> string \<Rightarrow> adapter \<Rightarrow> string + (json option \<times> adapter)" where
  "ad_get sv realm now key s =
     bindR (validateKey key) (\<lambda>_.
       case find_artifact now sv realm ''ReplayDetection'' key s of
         None \<Rightarrow> Inr (None, s)
       | Some p \<Rightarrow> Inr (if is_consumed p then None else Some (pl_data p), s))"

definition ad_consume ::
    "(string \<Rightarrow> int option) \<Rightarrow> string \<Rightarrow> int \<Rightarrow> string \<Rightarrow> adapter \<Rightarrow> string + (json option \<times> adapter)" where
  "ad_consume sv realm now key s =
     bindR (validateKey key) (\<lambda>_.
       case find_artifact now sv realm ''ReplayDetection'' key s of
         None \<Rightarrow> Inr (None, s)
       | Some p \<Rightarrow>
           if is_consumed p then Inr (None, s)
           else (case MemoryAdapter.consume now realm ''ReplayDetection'' key s of
                   Inr s' \<Rightarrow> Inr (Some (pl_data p), s')
                 | Inl InvalidRequest \<Rightarrow> Inr (None, s)
                 | Inl InvalidGrant \<Rightarrow> Inl ''InvalidGrant''))"

section \<open>The provider for Node-SAML\<close>

text \<open>The cache object a broker is given, as a record of its methods.\<close>

record ('v, 's) cache_ops =
  co_put :: "int \<Rightarrow> string \<Rightarrow> 'v \<Rightarrow> int \<Rightarrow> 's \<Rightarrow> string + (bool \<times> 's)"
  co_get :: "int \<Rightarrow> string \<Rightarrow> 's \<Rightarrow> string + ('v option \<times> 's)"
  co_consume :: "int \<Rightarrow> string \<Rightarrow> 's \<Rightarrow> string + ('v option \<times> 's)"

definition request_key :: "string \<Rightarrow> string \<Rightarrow> string" where
  "request_key prefix key = prefix @ '':request:'' @ key"

definition saveAsync ::
    "('v, 's) cache_ops \<Rightarrow> string \<Rightarrow> int \<Rightarrow> int \<Rightarrow> string \<Rightarrow> 'v \<Rightarrow> 's \<Rightarrow> string + (('v \<times> int) option \<times> 's)" where
  "saveAsync ops prefix ttlMs now key v s =
     bindR (validateKey key) (\<lambda>_. bindR (co_put ops now (request_key prefix key) v ttlMs s) (\<lambda>(saved, s').
       Inr (if saved then Some (v, now) else None, s')))"

definition getAsync :: "('v, 's) cache_ops \<Rightarrow> string \<Rightarrow> int \<Rightarrow> string \<Rightarrow> 's \<Rightarrow> string + ('v option \<times> 's)" where
  "getAsync ops prefix now key s =
     bindR (validateKey key) (\<lambda>_. co_get ops now (request_key prefix key) s)"

definition removeAsync ::
    "('v, 's) cache_ops \<Rightarrow> string \<Rightarrow> int \<Rightarrow> string option \<Rightarrow> 's \<Rightarrow> string + (string option \<times> 's)" where
  "removeAsync ops prefix now key s =
     (case key of
        None \<Rightarrow> Inr (None, s)
      | Some k \<Rightarrow> bindR (validateKey k) (\<lambda>_.
          bindR (co_consume ops now (request_key prefix k) s) (\<lambda>(v, s').
            Inr (if v = None then None else Some k, s'))))"

section \<open>The contract\<close>

text \<open>
  What other clients of the same cache may do between two moments: puts, reads, and consumptions of
  keys outside \<open>K\<close>; time only goes forward.
\<close>

inductive cache_others :: "('v, 's) cache_ops \<Rightarrow> string set \<Rightarrow> int \<Rightarrow> 's \<Rightarrow> int \<Rightarrow> 's \<Rightarrow> bool" for ops K where
  o_refl: "cache_others ops K t s t s"
| o_time: "cache_others ops K t s t1 s1 \<Longrightarrow> t1 \<le> t2 \<Longrightarrow> cache_others ops K t s t2 s1"
| o_put: "cache_others ops K t s t1 s1 \<Longrightarrow> co_put ops t1 k v ttl s1 = Inr (b, s2) \<Longrightarrow> cache_others ops K t s t1 s2"
| o_get: "cache_others ops K t s t1 s1 \<Longrightarrow> co_get ops t1 k s1 = Inr (r, s2) \<Longrightarrow> cache_others ops K t s t1 s2"
| o_consume: "cache_others ops K t s t1 s1 \<Longrightarrow> k \<notin> K \<Longrightarrow> 1000 \<le> t1 \<Longrightarrow>
    co_consume ops t1 k s1 = Inr (r, s2) \<Longrightarrow> cache_others ops K t s t1 s2"

lemma cache_others_time: "cache_others ops K t s t1 s1 \<Longrightarrow> t \<le> t1"
  by (induction rule: cache_others.induct) auto

text \<open>
  \<open>claimed t k s\<close>: at time \<open>t\<close> the key \<open>k\<close> is taken. Time does not run backwards: laws that
  relate two moments assume the second is not earlier.
\<close>

locale replay_cache =
  fixes put :: "int \<Rightarrow> string \<Rightarrow> 'v \<Rightarrow> int \<Rightarrow> 's \<Rightarrow> string + (bool \<times> 's)"
    and get :: "int \<Rightarrow> string \<Rightarrow> 's \<Rightarrow> string + ('v option \<times> 's)"
    and consume :: "int \<Rightarrow> string \<Rightarrow> 's \<Rightarrow> string + ('v option \<times> 's)"
    and claimed :: "int \<Rightarrow> string \<Rightarrow> 's \<Rightarrow> bool"
    and stored :: "int \<Rightarrow> string \<Rightarrow> 's \<Rightarrow> 'v option"
    and invar :: "'s \<Rightarrow> bool"
  assumes claimed_earlier: "claimed u k s \<Longrightarrow> t \<le> u \<Longrightarrow> claimed t k s"
    and put_spec: "invar s \<Longrightarrow> put now k v ttl s = Inr (b, s') \<Longrightarrow>
      invar s' \<and> (b \<longleftrightarrow> \<not> claimed now k s) \<and>
      (\<forall>t\<ge>now. \<forall>k'. claimed t k' s' \<longleftrightarrow> (if b \<and> k' = k then t < now + ttl else claimed t k' s)) \<and>
      (\<forall>t\<ge>now. \<forall>k'. \<not> (b \<and> k' = k) \<longrightarrow> stored t k' s' = stored t k' s) \<and>
      (\<forall>t\<ge>now. \<forall>w. b \<and> stored t k s' = Some w \<longrightarrow> w = v \<and> t < now + ttl)"
    and get_spec: "invar s \<Longrightarrow> get now k s = Inr (r, s') \<Longrightarrow>
      invar s' \<and> r = stored now k s \<and> (\<forall>t\<ge>now. \<forall>k'. claimed t k' s' \<longleftrightarrow> claimed t k' s) \<and>
      (\<forall>t\<ge>now. \<forall>k'. stored t k' s' = stored t k' s)"
    and consume_spec: "invar s \<Longrightarrow> consume now k s = Inr (r, s') \<Longrightarrow> 1000 \<le> now \<Longrightarrow>
      invar s' \<and> r = stored now k s \<and> (\<forall>t\<ge>now. \<forall>k'. k' \<noteq> k \<longrightarrow> (claimed t k' s' \<longleftrightarrow> claimed t k' s)) \<and>
      (\<forall>t\<ge>now. \<forall>k'. stored t k' s' = (if k' = k then None else stored t k' s))"
begin

lemma put_claimed: "invar s \<Longrightarrow> put now k v ttl s = Inr (True, s') \<Longrightarrow> now \<le> t \<Longrightarrow> t < now + ttl \<Longrightarrow> claimed t k s'"
  using put_spec by fastforce

lemma put_refused: "invar s \<Longrightarrow> claimed now k s \<Longrightarrow> put now k v ttl s \<noteq> Inr (True, s')"
  using put_spec by fastforce

text \<open>A value is handed out by \<open>consume\<close> at most once per \<open>putIfAbsent\<close>.\<close>

lemma consume_twice:
  assumes "invar s" and "consume now k s = Inr (r, s1)" and "1000 \<le> now" and "consume now' k s1 = Inr (r', s2)" and "now \<le> now'"
  shows "r' = None"
proof -
  note c = consume_spec [OF assms(1-3)]
  show ?thesis using consume_spec [OF _ assms(4)] c assms(3,5) by auto
qed

text \<open>What is claimed under a key nobody consumes stays claimed until it expires.\<close>

lemma others_claimed:
  "cache_others ops K t s t1 s1 \<Longrightarrow> ops = \<lparr>co_put = put, co_get = get, co_consume = consume\<rparr> \<Longrightarrow> invar s \<Longrightarrow>
   invar s1 \<and> (\<forall>k\<in>K. \<forall>u\<ge>t1. claimed u k s \<longrightarrow> claimed u k s1)"
proof (induction rule: cache_others.induct)
  case (o_put t s t1 s1 k v ttl b s2)
  then have i: "invar s1" by blast
  have "put t1 k v ttl s1 = Inr (b, s2)" using o_put(2,4) by simp
  note p = put_spec [OF i this]
  have "claimed u k' s2" if "k' \<in> K" "u \<ge> t1" "claimed u k' s" for k' u
  proof -
    have c: "claimed u k' s1" using o_put that by blast
    show ?thesis
    proof (cases "b \<and> k' = k")
      case True
      have "\<not> claimed t1 k s1" using p True by blast
      moreover have "claimed t1 k s1" using claimed_earlier [OF c that(2)] True by simp
      ultimately show ?thesis by blast
    next
      case False
      then show ?thesis using p c that(2) by auto
    qed
  qed
  then show ?case using p by blast
next
  case (o_get t s t1 s1 k r s2)
  then have "invar s1" "get t1 k s1 = Inr (r, s2)" by auto
  from get_spec [OF this] o_get show ?case by blast
next
  case (o_consume t s t1 s1 k r s2)
  then have "invar s1" "consume t1 k s1 = Inr (r, s2)" by auto
  note c = consume_spec [OF this o_consume(3)]
  have "claimed u k' s2" if "k' \<in> K" "u \<ge> t1" "claimed u k' s" for k' u
  proof -
    have "k' \<noteq> k" using that(1) o_consume(2) by blast
    moreover have "claimed u k' s1" using o_consume that by blast
    ultimately show ?thesis using c that(2) by blast
  qed
  then show ?case using c by blast
qed auto

end

section \<open>Both caches keep the contract\<close>

definition mem_claimed :: "int \<Rightarrow> string \<Rightarrow> 'v mem_cache \<Rightarrow> bool" where
  "mem_claimed t k c \<longleftrightarrow> (case mget c k of None \<Rightarrow> False | Some r \<Rightarrow> t < cv_expiresAt r)"

definition mem_stored :: "int \<Rightarrow> string \<Rightarrow> 'v mem_cache \<Rightarrow> 'v option" where
  "mem_stored t k c = (case mget c k of None \<Rightarrow> None | Some r \<Rightarrow> if t < cv_expiresAt r then Some (cv_value r) else None)"

lemma prune_mget: "map_wf c \<Longrightarrow> mget (prune now c) k =
    (case mget c k of None \<Rightarrow> None | Some r \<Rightarrow> if cv_expiresAt r \<le> now then None else Some r)"
  by (simp add: prune_def mget_mdrop split: option.splits)

lemma prune_wf: "map_wf c \<Longrightarrow> map_wf (prune now c)"
  by (simp add: prune_def)

lemma prune_later:
  "map_wf c \<Longrightarrow> now \<le> t \<Longrightarrow> mem_claimed t k (prune now c) = mem_claimed t k c"
  "map_wf c \<Longrightarrow> now \<le> t \<Longrightarrow> mem_stored t k (prune now c) = mem_stored t k c"
  by (auto simp: mem_claimed_def mem_stored_def prune_mget split: option.splits)

interpretation mem: replay_cache mem_putIfAbsent mem_get mem_consume mem_claimed mem_stored map_wf
proof (standard, goal_cases)
  case (1 u k s t)
  then show ?case by (auto simp: mem_claimed_def split: option.splits)
next
  case (2 s now k v ttl b s')
  have b: "b \<longleftrightarrow> mget (prune now s) k = None"
    and s': "s' = (if b then mset' k \<lparr>cv_value = v, cv_expiresAt = now + ttl\<rparr> (prune now s) else prune now s)"
    using 2(2) by (auto simp: mem_putIfAbsent_def Let_def split: if_splits)
  have "b \<longleftrightarrow> \<not> mem_claimed now k s"
    using b prune_mget [OF 2(1), of now k] by (auto simp: mem_claimed_def split: option.splits)
  moreover have "mem_claimed t k' s' \<longleftrightarrow> (if b \<and> k' = k then t < now + ttl else mem_claimed t k' s)"
    if "now \<le> t" for t k'
    using prune_later(1) [OF 2(1) that, of k'] by (auto simp: s' mem_claimed_def)
  moreover have "stored t k' s' = stored t k' s" if "stored = mem_stored" "now \<le> t" "\<not> (b \<and> k' = k)" for t k' stored
    using prune_later(2) [OF 2(1) that(2), of k'] that by (auto simp: s' mem_stored_def)
  moreover have "w = v \<and> t < now + ttl" if "b" "mem_stored t k s' = Some w" for t w
    using that by (auto simp: s' mem_stored_def split: if_splits)
  ultimately show ?case using prune_wf [OF 2(1)] by (auto simp: s')
next
  case (3 s now k r s')
  then have "s' = prune now s" "r = map_option cv_value (mget (prune now s) k)"
    by (auto simp: mem_get_def Let_def)
  then show ?case using prune_later [OF 3(1)] prune_wf [OF 3(1)] prune_mget [OF 3(1), of now k]
    by (auto simp: mem_stored_def split: option.splits)
next
  case (4 s now k r s')
  then have r: "r = map_option cv_value (mget (prune now s) k)" and s': "s' = mdel k (prune now s)"
    by (auto simp: mem_consume_def Let_def delete_notin map_of_eq_None_iff split: option.splits)
  have "r = mem_stored now k s" using r prune_mget [OF 4(1), of now k]
    by (auto simp: mem_stored_def split: option.splits)
  moreover have "mem_claimed t k' s' = mem_claimed t k' s" if "now \<le> t" "k' \<noteq> k" for t k'
    using prune_later(1) [OF 4(1) that(1), of k'] that(2) by (simp add: s' mem_claimed_def)
  moreover have "mem_stored t k' s' = (if k' = k then None else mem_stored t k' s)" if "now \<le> t" for t k'
    using prune_later(2) [OF 4(1) that, of k'] by (simp add: s' mem_stored_def)
  ultimately show ?case using prune_wf [OF 4(1)] by (simp add: s')
qed

definition ad_claimed :: "string \<Rightarrow> int \<Rightarrow> string \<Rightarrow> adapter \<Rightarrow> bool" where
  "ad_claimed realm t k s \<longleftrightarrow> current t (mget (bucket_of realm ''ReplayDetection'' s) k) \<noteq> None"

definition ad_stored :: "(string \<Rightarrow> int option) \<Rightarrow> string \<Rightarrow> int \<Rightarrow> string \<Rightarrow> adapter \<Rightarrow> json option" where
  "ad_stored sv realm t k s =
     (case find_artifact t sv realm ''ReplayDetection'' k s of
        None \<Rightarrow> None | Some p \<Rightarrow> if is_consumed p then None else Some (pl_data p))"

lemma find_put_bucket:
  "find_artifact t sv r m k (put_bucket r m b s) =
     (case current t (mget b k) of None \<Rightarrow> None | Some a \<Rightarrow> if version_ok sv a then Some (rc_payload a) else None)"
  by (simp add: find_artifact_def)

lemma ad_put_cases:
  assumes "ad_putIfAbsent sv r now k v ttl s = Inr (b, s')"
  obtains (fresh) a where "b" "\<not> ad_claimed r now k s"
      "bucket_of r ''ReplayDetection'' s' = mset' k a (bucket_of r ''ReplayDetection'' s)"
      "rc_expiresAt a = Some (now + ttl)" "pl_data (rc_payload a) = v"
    | (taken) "\<not> b" "ad_claimed r now k s" "s' = s"
proof (cases "ad_claimed r now k s")
  case True
  then have "upsert now sv r ''ReplayDetection'' k (replay_payload v) (Some ttl) s = Inl InvalidRequest"
    by (auto simp: upsert_def upsert_begin_def ad_claimed_def)
  then show ?thesis using taken True assms by (auto simp: ad_putIfAbsent_def)
next
  case False
  then obtain st where st: "upsert_begin now r ''ReplayDetection'' k (replay_payload v) s = Inr st"
      "pl_grantId (us_next st) = None" "pl_accountId (us_next st) = None" "pl_data (us_next st) = v"
    by (simp add: upsert_begin_def ad_claimed_def Let_def replay_payload_def split: option.splits)
  then have c: "upsert_check (sv_of sv (parent_account (us_parent st))) st = Inr (us_next st)"
    by (simp add: upsert_check_def Let_def)
  obtain s1 where s1: "upsert_commit now r ''ReplayDetection'' k (us_next st) None (us_parent st) (Some ttl) s = Inr s1"
    using st by (simp add: upsert_commit_def)
  then have "upsert now sv r ''ReplayDetection'' k (replay_payload v) (Some ttl) s = Inr s1"
    using st c by (simp add: upsert_def sv_of_def)
  then have "b" "s' = s1" using assms by (auto simp: ad_putIfAbsent_def)
  then show ?thesis using fresh False upsert_commit_cases(1) [OF s1] st(4) by auto
qed

lemma current_mono: "current u a = Some x \<Longrightarrow> t \<le> u \<Longrightarrow> current t a = Some x"
  by (auto simp: current_def split: option.splits if_splits)

interpretation ad: replay_cache "ad_putIfAbsent sv r" "ad_get sv r" "ad_consume sv r" "ad_claimed r" "ad_stored sv r"
  "\<lambda>s. True" for sv r
proof (standard, goal_cases)
  case (1 u k s t)
  then obtain a where "current u (mget (bucket_of r ''ReplayDetection'' s) k) = Some a"
    by (auto simp: ad_claimed_def)
  from current_mono [OF this 1(2)] show ?case by (simp add: ad_claimed_def)
next
  case (2 s now k v ttl b s')
  from 2(2) show ?case
  proof (cases rule: ad_put_cases)
    case (fresh a)
    note bucket = fresh(3)
    have claim: "ad_claimed r t k' s' \<longleftrightarrow> (if k' = k then t < now + ttl else ad_claimed r t k' s)" for t k'
      by (simp add: ad_claimed_def bucket current_def fresh(4))
    have other: "ad_stored sv r t k' s' = ad_stored sv r t k' s" if "k' \<noteq> k" for t k'
      using that by (simp add: ad_stored_def find_artifact_def bucket)
    have own: "w = v \<and> t < now + ttl" if "ad_stored sv r t k s' = Some w" for t w
      using that fresh(5) by (auto simp: ad_stored_def find_artifact_def bucket current_def fresh(4) split: if_splits)
    show ?thesis using fresh(1,2) claim other own by simp
  next
    case taken
    then show ?thesis by simp
  qed
next
  case (3 s now k x s')
  then have "s' = s" "x = ad_stored sv r now k s"
    by (auto simp: ad_get_def ad_stored_def split: option.splits)
  then show ?case by simp
next
  case (4 s now k x s')
  show ?case
  proof (cases "ad_stored sv r now k s")
    case None
    have later: "ad_stored sv r t k s = None" if "now \<le> t" for t
      using None that current_mono [of t "mget (bucket_of r ''ReplayDetection'' s) k" _ now]
      by (auto simp: ad_stored_def find_artifact_def split: option.splits if_splits)
    have "s' = s" "x = None"
      using 4(2) None by (auto simp: ad_consume_def ad_stored_def split: option.splits if_splits)
    then show ?thesis using None later by simp
  next
    case (Some w)
    then obtain a where a: "current now (mget (bucket_of r ''ReplayDetection'' s) k) = Some a"
        "version_ok sv a" "\<not> is_consumed (rc_payload a)" "pl_data (rc_payload a) = w"
      by (auto simp: ad_stored_def find_artifact_def split: option.splits if_splits)
    then have "x = Some w" "s' = put_bucket r ''ReplayDetection''
        (mset' k (mark_consumed now a) (bucket_of r ''ReplayDetection'' s)) s"
      using 4(2) by (auto simp: ad_consume_def find_artifact_def MemoryAdapter.consume_def)
    then show ?thesis using Some is_consumed_mark [OF 4(3)]
      by (auto simp: ad_claimed_def ad_stored_def find_artifact_def current_def mark_consumed_def version_ok_def
          split: option.splits if_splits)
  qed
qed

text \<open>The cache objects handed to a broker.\<close>

definition memory_cache :: "('v, 'v mem_cache) cache_ops" where
  "memory_cache = \<lparr>co_put = mem_putIfAbsent, co_get = mem_get, co_consume = mem_consume\<rparr>"

definition adapter_cache :: "(string \<Rightarrow> int option) \<Rightarrow> string \<Rightarrow> (json, adapter) cache_ops" where
  "adapter_cache sv r = \<lparr>co_put = ad_putIfAbsent sv r, co_get = ad_get sv r, co_consume = ad_consume sv r\<rparr>"

end
