(* ===== verification/SamlBroker.thy ===== *)
theory SamlBroker
  imports SamlReplayCache
begin

text \<open>
  The SAML broker (\<open>src/federation/saml-broker.js\<close>): attribute mapping, the checks on a response
  and its assertion, the start of a login and the consumption of its response, over the contract
  \<open>replay_cache\<close>. Arguments stand for code outside the repository: \<open>parseDate\<close> for
  \<open>Date.parse\<close>, \<open>scan\<close> for the regular-expression scan of the XML text, \<open>validate\<close> for
  Node-SAML's \<open>validatePostResponseAsync\<close> (which may use the cache through its provider), and
  \<open>request\<close> for the redirect it generates.
\<close>

section \<open>Attributes\<close>

definition MAPPING_FIELDS :: "string list" where
  "MAPPING_FIELDS = [''username'', ''email'', ''name'', ''givenName'', ''familyName'', ''groups'', ''roles'']"

definition DEFAULT_ATTRIBUTE_MAPPING :: "(string \<times> string list) list" where
  "DEFAULT_ATTRIBUTE_MAPPING =
     [(''username'', [''uid'', ''urn:oid:0.9.2342.19200300.100.1.1'', ''email'', ''mail'']),
      (''email'', [''email'', ''mail'', ''urn:oid:0.9.2342.19200300.100.1.3'']),
      (''name'', [''displayName'', ''name'', ''urn:oid:2.16.840.1.113730.3.1.241'']),
      (''givenName'', [''givenName'', ''urn:oid:2.5.4.42'']),
      (''familyName'', [''sn'', ''surname'', ''urn:oid:2.5.4.4'']),
      (''groups'', [''groups'', ''memberOf'']),
      (''roles'', [''roles'', ''role''])]"

definition mapping_aliases :: "json \<Rightarrow> string + string list" where
  "mapping_aliases configured =
     (case configured of
        JStr a \<Rightarrow> if a = [] \<or> length a > 512 then Inl ''TypeError'' else Inr [a]
      | JArr xs \<Rightarrow>
          if xs = [] \<or> length xs > 16 \<or>
             (\<exists>x\<in>set xs. case x of JStr a \<Rightarrow> a = [] \<or> length a > 512 | _ \<Rightarrow> True) \<or> \<not> distinct xs
          then Inl ''TypeError'' else Inr (map js_String xs)
      | _ \<Rightarrow> Inl ''TypeError'')"

definition mapping :: "json \<Rightarrow> string + (string \<times> string list) list" where
  "mapping input =
     (case (case input of JUndef \<Rightarrow> JObj [] | _ \<Rightarrow> input) of
        JObj kvs \<Rightarrow>
          if \<exists>k\<in>set (map fst kvs). k \<notin> set MAPPING_FIELDS then Inl ''TypeError''
          else mapR (\<lambda>name.
                 bindR (if nullish (jprop (JObj kvs) name)
                        then Inr (case mget DEFAULT_ATTRIBUTE_MAPPING name of None \<Rightarrow> [] | Some as \<Rightarrow> as)
                        else mapping_aliases (jprop (JObj kvs) name))
                   (\<lambda>as. Inr (name, as))) MAPPING_FIELDS
      | _ \<Rightarrow> Inl ''TypeError'')"

definition scalarValues :: "json \<Rightarrow> string list" where
  "scalarValues v =
     (let inputs = (case v of JArr xs \<Rightarrow> xs | _ \<Rightarrow> [v]);
          scalars = filter (\<lambda>x. case x of JStr _ \<Rightarrow> True | JNum _ \<Rightarrow> True | JBool _ \<Rightarrow> True | _ \<Rightarrow> False) inputs;
          texts = map (\<lambda>x. js_trim (js_String x)) scalars
      in take 256 (js_uniq (filter (\<lambda>t. t \<noteq> [] \<and> length t \<le> 4096) texts)))"

definition normalizedAttributes :: "json \<Rightarrow> (string \<times> string list) list" where
  "normalizedAttributes source =
     (case source of
        JObj kvs \<Rightarrow>
          concat (map (\<lambda>(name, v).
            if name = [] \<or> length name > 512 then []
            else (let values = scalarValues v in if values = [] then [] else [(name, values)])) (take 256 kvs))
      | _ \<Rightarrow> [])"

fun firstMapped :: "(string \<times> string list) list \<Rightarrow> string list \<Rightarrow> string option" where
  "firstMapped attributes [] = None"
| "firstMapped attributes (alias # aliases) =
     (case mget attributes alias of
        Some (v # vs) \<Rightarrow> Some v
      | _ \<Rightarrow> firstMapped attributes aliases)"

definition allMapped :: "(string \<times> string list) list \<Rightarrow> string list \<Rightarrow> string list" where
  "allMapped attributes aliases =
     js_uniq (concat (map (\<lambda>alias. or_else (mget attributes alias) []) aliases))"

section \<open>The response\<close>

datatype saml_error =
    invalid_relay_state | malformed_saml_response | invalid_destination | invalid_in_response_to
  | invalid_signature_algorithm | invalid_saml_response | invalid_issuer | malformed_saml_assertion
  | invalid_subject_confirmation | replayed_saml_response | replayed_saml_assertion
  | unknown_saml_provider | thrown string

text \<open>What the scans of the decoded text find.\<close>

record xml_scan =
  xs_bytes :: nat
  xs_prohibited :: bool
  xs_isResponse :: bool
  xs_attributes :: "(string \<times> string list) list"
  xs_signatures :: "string list"
  xs_digests :: "string list"

record envelope =
  en_ID :: string
  en_Destination :: string
  en_InResponseTo :: string

definition RESPONSE_SIGNATURE_ALGORITHMS :: "string list" where
  "RESPONSE_SIGNATURE_ALGORITHMS =
     [''http://www.w3.org/2001/04/xmldsig-more#rsa-sha256'', ''http://www.w3.org/2001/04/xmldsig-more#rsa-sha512'']"

definition DIGEST_ALGORITHMS :: "string list" where
  "DIGEST_ALGORITHMS = [''http://www.w3.org/2001/04/xmlenc#sha256'', ''http://www.w3.org/2001/04/xmlenc#sha512'']"

definition extractAttributes :: "(string \<times> string list) list \<Rightarrow> string list \<Rightarrow> saml_error + (string \<times> string) list" where
  "extractAttributes found names =
     mapR (\<lambda>name.
       let matches = or_else (mget found name) [] in
       if length matches > 1 then Inl malformed_saml_response
       else Inr (name, case matches of [] \<Rightarrow> [] | m # _ \<Rightarrow> m)) names"

definition is_base64 :: "char \<Rightarrow> bool" where
  [js_defs]: "is_base64 c \<longleftrightarrow> is_alnum c \<or> c = CHR ''+'' \<or> c = CHR ''/''"

text \<open>\<open>/^[A-Za-z0-9+/]+={0,2}$/\<close>.\<close>

definition base64_re :: "string \<Rightarrow> bool" where
  "base64_re s \<longleftrightarrow> (let body = takeWhile is_base64 s in
     body \<noteq> [] \<and> drop (length body) s \<in> {[], ''='', ''==''})"

text \<open>An attribute that is absent and one that is empty are both falsy: \<open>[]\<close> stands for either.\<close>

definition responseEnvelope :: "(string \<Rightarrow> xml_scan) \<Rightarrow> json \<Rightarrow> nat \<Rightarrow> saml_error + envelope" where
  "responseEnvelope scan encoded maxResponseBytes =
     (case encoded of
        JStr e \<Rightarrow>
          if e = [] \<or> length e > (maxResponseBytes * 4 + 2) div 3 + 4 \<or> length e mod 4 \<noteq> 0 \<or> \<not> base64_re e
          then Inl malformed_saml_response
          else (let x = scan e in
            bindR (guardR (xs_bytes x \<noteq> 0 \<and> xs_bytes x \<le> maxResponseBytes) malformed_saml_response) (\<lambda>_.
            bindR (guardR (\<not> xs_prohibited x) malformed_saml_response) (\<lambda>_.
            bindR (guardR (xs_isResponse x) malformed_saml_response) (\<lambda>_.
            bindR (extractAttributes (xs_attributes x) [''ID'', ''Version'', ''Destination'', ''InResponseTo'']) (\<lambda>attrs.
              let get = (\<lambda>n. or_else (mget attrs n) []) in
            bindR (guardR (get ''ID'' \<noteq> [] \<and> length (get ''ID'') \<le> 256 \<and> xml_id_re (get ''ID'')) malformed_saml_response) (\<lambda>_.
            bindR (guardR (get ''Version'' = ''2.0'') malformed_saml_response) (\<lambda>_.
            bindR (guardR (get ''Destination'' \<noteq> []) invalid_destination) (\<lambda>_.
            bindR (guardR (get ''InResponseTo'' \<noteq> []) invalid_in_response_to) (\<lambda>_.
            bindR (guardR (\<not> (length (xs_signatures x) < 2 \<or>
                     (\<exists>a\<in>set (xs_signatures x). a \<notin> set RESPONSE_SIGNATURE_ALGORITHMS))) invalid_signature_algorithm) (\<lambda>_.
            bindR (guardR (\<not> (length (xs_digests x) < 2 \<or>
                     (\<exists>a\<in>set (xs_digests x). a \<notin> set DIGEST_ALGORITHMS))) invalid_signature_algorithm) (\<lambda>_.
              Inr \<lparr>en_ID = get ''ID'', en_Destination = get ''Destination'',
                   en_InResponseTo = get ''InResponseTo''\<rparr>)))))))))))
      | _ \<Rightarrow> Inl malformed_saml_response)"

record saml_profile =
  pf_inResponseTo :: json
  pf_issuer :: json
  pf_nameID :: json
  pf_nameIDFormat :: json
  pf_sessionIndex :: json
  pf_attributes :: json
  pf_parsed :: json

definition BEARER :: string where "BEARER = ''urn:oasis:names:tc:SAML:2.0:cm:bearer''"

definition arr_items :: "json \<Rightarrow> json list" where
  "arr_items j = (case j of JArr xs \<Rightarrow> xs | _ \<Rightarrow> [])"

text \<open>One \<open>SubjectConfirmation\<close>. A present but empty time string is falsy, like an absent one.\<close>

definition valid_confirmation ::
    "(string \<Rightarrow> int option) \<Rightarrow> string \<Rightarrow> string \<Rightarrow> int \<Rightarrow> int \<Rightarrow> json \<Rightarrow> bool" where
  "valid_confirmation parseDate callbackUrl requestId now skew confirmation =
     (if jprop (jprop confirmation ''$'') ''Method'' \<noteq> JStr BEARER then False
      else (let dat = (case arr_items (jprop confirmation ''SubjectConfirmationData'') of
                  [] \<Rightarrow> JUndef | d # _ \<Rightarrow> jprop d ''$'') in
            if \<not> truthy dat \<or> jprop dat ''Recipient'' \<noteq> JStr callbackUrl \<or>
               jprop dat ''InResponseTo'' \<noteq> JStr requestId \<or> \<not> truthy (jprop dat ''NotOnOrAfter'') then False
            else (let notBefore = (if truthy (jprop dat ''NotBefore'')
                        then Some (parseDate (js_String (jprop dat ''NotBefore''))) else None);
                      notOnOrAfter = parseDate (js_String (jprop dat ''NotOnOrAfter''))
                  in case notOnOrAfter of
                       None \<Rightarrow> False
                     | Some e \<Rightarrow>
                         (case notBefore of
                            Some None \<Rightarrow> False
                          | Some (Some b) \<Rightarrow> now + skew \<ge> b \<and> now - skew < e
                          | None \<Rightarrow> now - skew < e))))"

definition assertionDetails ::
    "(string \<Rightarrow> int option) \<Rightarrow> saml_profile \<Rightarrow> string \<Rightarrow> string \<Rightarrow> int \<Rightarrow> int \<Rightarrow> saml_error + string" where
  "assertionDetails parseDate profile callbackUrl requestId now skew =
     (let assertion = jprop (pf_parsed profile) ''Assertion'' in
      case jprop (jprop assertion ''$'') ''ID'' of
        JStr assertionId \<Rightarrow>
          if length assertionId > 256 \<or> \<not> xml_id_re assertionId then Inl malformed_saml_assertion
          else (let confirmations = concat (map (\<lambda>subject. arr_items (jprop subject ''SubjectConfirmation''))
                      (arr_items (jprop assertion ''Subject''))) in
                if \<exists>c\<in>set confirmations. valid_confirmation parseDate callbackUrl requestId now skew c
                then Inr assertionId else Inl invalid_subject_confirmation)
      | _ \<Rightarrow> Inl malformed_saml_assertion)"

record suggested =
  sg_username :: string
  sg_email :: "string option"
  sg_emailVerified :: bool
  sg_name :: "string option"
  sg_givenName :: "string option"
  sg_familyName :: "string option"
  sg_groups :: "string list"
  sg_roles :: "string list"

record saml_identity =
  si_realmName :: string
  si_providerId :: string
  si_issuer :: string
  si_externalSubject :: string
  si_nameIdFormat :: "string option"
  si_sessionIndex :: "string option"
  si_attributes :: "(string \<times> string list) list"
  si_suggested :: suggested

definition nonEmpty :: "json \<Rightarrow> nat \<Rightarrow> saml_error + string" where
  "nonEmpty v mx = (case v of JStr s \<Rightarrow> if s = [] \<or> length s > mx then Inl (thrown ''TypeError'') else Inr s
                    | _ \<Rightarrow> Inl (thrown ''TypeError''))"

definition str_opt :: "json \<Rightarrow> string option" where
  "str_opt j = (case j of JStr s \<Rightarrow> Some s | _ \<Rightarrow> None)"

definition identityFromProfile ::
    "saml_profile \<Rightarrow> string \<Rightarrow> string \<Rightarrow> (string \<times> string list) list \<Rightarrow> bool \<Rightarrow> saml_error + saml_identity" where
  "identityFromProfile profile realm providerId attributeMap trustEmail =
     bindR (nonEmpty (pf_issuer profile) 2048) (\<lambda>issuer.
     bindR (nonEmpty (pf_nameID profile) 2048) (\<lambda>externalSubject.
       let attributes = normalizedAttributes (pf_attributes profile);
           aliases = (\<lambda>f. or_else (mget attributeMap f) []);
           email = firstMapped attributes (aliases ''email'')
       in Inr \<lparr>si_realmName = realm, si_providerId = providerId, si_issuer = issuer,
            si_externalSubject = externalSubject, si_nameIdFormat = str_opt (pf_nameIDFormat profile),
            si_sessionIndex = str_opt (pf_sessionIndex profile), si_attributes = attributes,
            si_suggested = \<lparr>sg_username = or_else (firstMapped attributes (aliases ''username'')) (or_else email externalSubject),
              sg_email = email, sg_emailVerified = (email \<noteq> None \<and> email \<noteq> Some [] \<and> trustEmail),
              sg_name = firstMapped attributes (aliases ''name''),
              sg_givenName = firstMapped attributes (aliases ''givenName''),
              sg_familyName = firstMapped attributes (aliases ''familyName''),
              sg_groups = allMapped attributes (aliases ''groups''),
              sg_roles = allMapped attributes (aliases ''roles'')\<rparr>\<rparr>))"

section \<open>The broker\<close>

record broker_config =
  bc_realm :: string
  bc_providerId :: string
  bc_callbackUrl :: string
  bc_expectedIssuer :: string
  bc_mapping :: "(string \<times> string list) list"
  bc_trustEmail :: bool
  bc_requestTtlMs :: int
  bc_clockSkewMs :: int
  bc_replayTtlMs :: int
  bc_maxResponseBytes :: nat

definition broker_prefix :: "broker_config \<Rightarrow> string" where
  "broker_prefix c = ''saml:'' @ bc_realm c @ '':'' @ bc_providerId c"

definition stateKey :: "broker_config \<Rightarrow> string \<Rightarrow> string" where
  "stateKey c relayState = broker_prefix c @ '':state:'' @ relayState"

definition responseKey :: "broker_config \<Rightarrow> string \<Rightarrow> string" where
  "responseKey c rid = broker_prefix c @ '':response:'' @ rid"

definition assertionKey :: "broker_config \<Rightarrow> string \<Rightarrow> string" where
  "assertionKey c aid = broker_prefix c @ '':assertion:'' @ aid"

definition state_json :: "broker_config \<Rightarrow> string \<Rightarrow> string \<Rightarrow> json" where
  "state_json c interactionUid requestId =
     JObj [(''realm'', JStr (bc_realm c)), (''providerId'', JStr (bc_providerId c)),
           (''interactionUid'', JStr interactionUid), (''requestId'', JStr requestId)]"

definition stateMatches :: "json \<Rightarrow> json \<Rightarrow> bool" where
  "stateMatches left right \<longleftrightarrow>
     (\<forall>f \<in> {''interactionUid'', ''requestId'', ''realm'', ''providerId''}. jprop left f = jprop right f)"

definition saml_cache :: "('s \<Rightarrow> string + ('a \<times> 's)) \<Rightarrow> ('s, saml_error, 'a) handler" where
  "saml_cache f = liftU (\<lambda>s. case f s of Inl e \<Rightarrow> Inl (thrown e) | Inr r \<Rightarrow> Inr r)"

record saml_started =
  ss_redirectUrl :: string
  ss_relayState :: string
  ss_requestId :: string
  ss_expiresAt :: int

text \<open>\<open>start\<close>: \<open>request relayState\<close> is the redirect Node-SAML built and its request identifier.\<close>

definition saml_start ::
    "broker_config \<Rightarrow> (json, 's) cache_ops \<Rightarrow> int \<Rightarrow> string \<Rightarrow> (string \<Rightarrow> ('s, saml_error, string \<times> string) handler) \<Rightarrow>
     json \<Rightarrow> ('s, saml_error, saml_started) handler" where
  "saml_start c ops now relayState request interactionUid =
     bindS (liftR (nonEmpty interactionUid 256)) (\<lambda>uid.
     bindS (guardS (list_all is_b64url uid) (thrown ''TypeError'')) (\<lambda>_.
     bindS (guardS (length relayState \<le> 80) (thrown ''Error'')) (\<lambda>_.
     bindS (request relayState) (\<lambda>(redirectUrl, requestId).
     bindS (saml_cache (co_put ops now (stateKey c relayState) (state_json c uid requestId) (bc_requestTtlMs c))) (\<lambda>saved.
       if \<not> saved
       then bindS (saml_cache (removeAsync ops (broker_prefix c) now (Some requestId))) (\<lambda>_. failS (thrown ''Error''))
       else retS \<lparr>ss_redirectUrl = redirectUrl, ss_relayState = relayState, ss_requestId = requestId,
                  ss_expiresAt = now + bc_requestTtlMs c\<rparr>)))))"

record saml_validation =
  sv_interactionUid :: json
  sv_requestId :: json
  sv_responseId :: string
  sv_assertionId :: string
  sv_identity :: saml_identity

definition relay_re :: "json \<Rightarrow> bool" where
  "relay_re r = (case r of JStr s \<Rightarrow> class_re is_b64url 32 80 s | _ \<Rightarrow> False)"

definition consumePost ::
    "broker_config \<Rightarrow> (json, 's) cache_ops \<Rightarrow> (string \<Rightarrow> int option) \<Rightarrow> (string \<Rightarrow> xml_scan) \<Rightarrow>
     (json \<Rightarrow> ('s, unit, saml_profile option) handler) \<Rightarrow> int \<Rightarrow> json \<Rightarrow> json \<Rightarrow>
     ('s, saml_error, saml_validation) handler" where
  "consumePost c ops parseDate scan validate now samlResponse relayState =
     bindS (guardS (relay_re relayState) invalid_relay_state) (\<lambda>_.
     let key = stateKey c (js_String relayState) in
     bindS (saml_cache (co_get ops now key)) (\<lambda>found.
     bindS (guardS (case found of None \<Rightarrow> False | Some p \<Rightarrow> truthy p) invalid_relay_state) (\<lambda>_.
     let pending = the found in
     bindS (liftR (responseEnvelope scan samlResponse (bc_maxResponseBytes c))) (\<lambda>envelope.
     bindS (guardS (en_Destination envelope = bc_callbackUrl c) invalid_destination) (\<lambda>_.
     bindS (guardS (JStr (en_InResponseTo envelope) = jprop pending ''requestId'') invalid_in_response_to) (\<lambda>_.
     bindS (\<lambda>s. case validate samlResponse s of
              (Inl _, s') \<Rightarrow> (Inl invalid_saml_response, s') | (Inr r, s') \<Rightarrow> (Inr r, s')) (\<lambda>result.
     bindS (guardS (result \<noteq> None) invalid_saml_response) (\<lambda>_.
     let profile = the result in
     bindS (guardS (pf_inResponseTo profile = jprop pending ''requestId'') invalid_in_response_to) (\<lambda>_.
     bindS (guardS (pf_issuer profile = JStr (bc_expectedIssuer c)) invalid_issuer) (\<lambda>_.
     bindS (liftR (assertionDetails parseDate profile (bc_callbackUrl c) (js_String (jprop pending ''requestId''))
              now (bc_clockSkewMs c))) (\<lambda>assertionId.
     bindS (saml_cache (co_put ops now (responseKey c (en_ID envelope)) (JBool True) (bc_replayTtlMs c))) (\<lambda>ok1.
     bindS (guardS ok1 replayed_saml_response) (\<lambda>_.
     bindS (saml_cache (co_put ops now (assertionKey c assertionId) (JBool True) (bc_replayTtlMs c))) (\<lambda>ok2.
     bindS (guardS ok2 replayed_saml_assertion) (\<lambda>_.
     bindS (saml_cache (co_consume ops now key)) (\<lambda>consumed.
     bindS (guardS (stateMatches (or_else consumed JNull) pending) invalid_relay_state) (\<lambda>_.
     bindS (liftR (identityFromProfile profile (bc_realm c) (bc_providerId c) (bc_mapping c) (bc_trustEmail c))) (\<lambda>identity.
       retS \<lparr>sv_interactionUid = jprop pending ''interactionUid'', sv_requestId = jprop pending ''requestId'',
             sv_responseId = en_ID envelope, sv_assertionId = assertionId, sv_identity = identity\<rparr>))))))))))))))))))"

section \<open>Handing the identity over\<close>

record federated_login =
  fl_interactionUid :: json
  fl_created :: bool
  fl_accountId :: string
  fl_acr :: string
  fl_amr :: "string list"
  fl_remember :: bool

text \<open>\<open>handoff\<close> gives the account and whether it was created (\<open>result.created === true\<close>).\<close>

definition completeSamlJitHandoff ::
    "saml_validation \<Rightarrow> (saml_identity \<Rightarrow> ('s, saml_error, json) handler) \<Rightarrow> ('s, saml_error, federated_login) handler" where
  "completeSamlJitHandoff validation handoff =
     bindS (guardS (is_str (sv_interactionUid validation)) (thrown ''TypeError'')) (\<lambda>_.
     bindS (handoff (sv_identity validation)) (\<lambda>result.
       case jprop result ''accountId'' of
         JStr accountId \<Rightarrow>
           if uuid_re accountId
           then retS \<lparr>fl_interactionUid = sv_interactionUid validation, fl_created = (jprop result ''created'' = JBool True),
                fl_accountId = accountId, fl_acr = ''urn:authme:loa:federated'', fl_amr = [''federated'', ''saml''],
                fl_remember = True\<rparr>
           else failS (thrown ''TypeError'')
       | _ \<Rightarrow> failS (thrown ''TypeError'')))"

end
