(* ===== verification/SamlConfig.thy ===== *)
theory SamlConfig
  imports SamlBroker FederationRoutes Schemas
begin

text \<open>
  The configuration of SAML providers (\<open>src/federation/saml-config.js\<close>), the checks of \<open>createSamlBroker\<close> on what it is
  given, the binding of the request Node-SAML generates, and the federation extension that
  connects the brokers with the browser flow (\<open>src/federation/saml-broker.js\<close>). \<open>saml_world\<close> holds what is not under
  \<open>src/\<close>: the clock and random values of a request, the URL parser, what the cryptography library says of a key, and
  Node-SAML, which is given the options the broker chose.
\<close>

section \<open>Configuration\<close>

record saml_provider =
  sc_id :: string
  sc_displayName :: string
  sc_spEntityId :: string
  sc_acsUrl :: string
  sc_privateKey :: "string option"
  sc_certificates :: "string list option"
  sc_signMetadata :: bool
  sc_nameIdFormat :: "string option"
  sc_disableContext :: bool
  sc_idpEntityId :: string
  sc_ssoUrl :: string
  sc_idpCertificates :: "string list"
  sc_attributeMapping :: json
  sc_trustEmail :: bool
  sc_jitProvisioning :: bool
  sc_requestTtlMs :: int
  sc_clockSkewMs :: int
  sc_maxAssertionAgeMs :: int
  sc_replayTtlMs :: int
  sc_maxResponseBytes :: int

definition saml_id_re :: "string \<Rightarrow> bool" where [js_defs]: "saml_id_re = ident_re is_lower is_slug 1 31"

definition pem_schema :: "json \<Rightarrow> string option" where "pem_schema = text_schema 64 65536 (\<lambda>_. True)"

definition saml_url_schema :: "(string \<Rightarrow> bool) \<Rightarrow> json \<Rightarrow> string option" where "saml_url_schema isUrl = text_schema 0 2048 isUrl"

text \<open>A mapping value is one name or a list of 1 to 16 names.\<close>

definition mappingValue :: "json \<Rightarrow> json option" where
  "mappingValue v =
     (case text_schema 1 512 (\<lambda>_. True) v of
        Some s \<Rightarrow> Some (JStr s)
      | None \<Rightarrow> map_option (\<lambda>xs. JArr (map JStr xs)) (array_between (text_schema 1 512 (\<lambda>_. True)) 1 16 v))"

definition mapping_schema :: "json \<Rightarrow> json option" where
  "mapping_schema v =
     (if \<not> strict_names v MAPPING_FIELDS then None
      else map_option JObj (all_some (map (\<lambda>(k, x). map_option (Pair k) (if x = JUndef then Some JUndef else mappingValue x)) (jentries v))))"

definition saml_names :: "string list" where
  "saml_names = [''id'', ''display_name'', ''idp_entity_id'', ''idp_sso_url'', ''idp_signing_certificates'', ''sp_signing_private_key'',
     ''sp_signing_certificates'', ''sp_sign_metadata'', ''name_id_format'', ''disable_requested_authn_context'', ''attribute_mapping'', ''trust_email'',
     ''jit_provisioning'', ''request_ttl_ms'', ''clock_skew_ms'', ''max_assertion_age_ms'', ''replay_ttl_ms'', ''max_response_bytes'']"

text \<open>\<open>providerSchema\<close>; the two addresses of this service are filled in afterwards.\<close>

definition saml_schema :: "(string \<Rightarrow> bool) \<Rightarrow> json \<Rightarrow> saml_provider option" where
  "saml_schema isUrl v =
     (if \<not> strict_names v saml_names then None
      else (case (text_schema 2 32 saml_id_re (jprop v ''id''), trimmed 1 100 (\<lambda>_. True) (jprop v ''display_name''),
                  saml_url_schema isUrl (jprop v ''idp_entity_id''), saml_url_schema isUrl (jprop v ''idp_sso_url''),
                  array_between pem_schema 1 10 (jprop v ''idp_signing_certificates''), opt_field pem_schema v ''sp_signing_private_key'',
                  opt_field (array_between pem_schema 1 10) v ''sp_signing_certificates'', default_field bool_schema v ''sp_sign_metadata'' True,
                  opt_field (text_schema 1 512 (\<lambda>_. True)) v ''name_id_format'', default_field bool_schema v ''disable_requested_authn_context'' False) of
              (Some i, Some n, Some ent, Some sso, Some certs, Some key, Some own, Some sm, Some nf, Some dc) \<Rightarrow>
                (case (default_field mapping_schema v ''attribute_mapping'' JUndef, default_field bool_schema v ''trust_email'' False,
                       default_field bool_schema v ''jit_provisioning'' False, default_field (int_schema 30000 1800000) v ''request_ttl_ms'' 300000,
                       default_field (int_schema 0 300000) v ''clock_skew_ms'' 60000, default_field (int_schema 30000 1800000) v ''max_assertion_age_ms'' 300000,
                       default_field (int_schema 30000 3600000) v ''replay_ttl_ms'' 600000,
                       default_field (int_schema 16384 5242880) v ''max_response_bytes'' 1048576) of
                   (Some am, Some te, Some jit, Some rt, Some sk, Some age, Some rp, Some mb) \<Rightarrow>
                     Some \<lparr>sc_id = i, sc_displayName = n, sc_spEntityId = [], sc_acsUrl = [], sc_privateKey = key, sc_certificates = own,
                       sc_signMetadata = sm, sc_nameIdFormat = nf, sc_disableContext = dc, sc_idpEntityId = ent, sc_ssoUrl = sso,
                       sc_idpCertificates = certs, sc_attributeMapping = am, sc_trustEmail = te, sc_jitProvisioning = jit, sc_requestTtlMs = rt,
                       sc_clockSkewMs = sk, sc_maxAssertionAgeMs = age, sc_replayTtlMs = rp, sc_maxResponseBytes = mb\<rparr>
                 | _ \<Rightarrow> None)
            | _ \<Rightarrow> None))"

definition ssoEndpoint :: "url_parser \<Rightarrow> string \<Rightarrow> string option" where
  "ssoEndpoint parse v =
     (case parse v of
        None \<Rightarrow> None
      | Some u \<Rightarrow>
          if wu_protocol u \<noteq> ''https:'' \<or> wu_username u \<noteq> [] \<or> wu_password u \<noteq> [] \<or> wu_search u \<noteq> [] \<or> wu_hash u \<noteq> [] then None
          else Some (wu_href u))"

definition serviceOrigin :: "url_parser \<Rightarrow> string \<Rightarrow> string option" where
  "serviceOrigin parse v =
     (case parse v of
        None \<Rightarrow> None
      | Some u \<Rightarrow>
          if wu_protocol u \<noteq> ''https:'' \<or> wu_username u \<noteq> [] \<or> wu_password u \<noteq> [] \<or> wu_pathname u \<noteq> ''/'' \<or> wu_search u \<noteq> [] \<or> wu_hash u \<noteq> []
          then None else Some (wu_origin u))"

text \<open>Realm and provider names pass their patterns, so \<open>encodeURIComponent\<close> leaves them as they are.\<close>

definition saml_path :: "string \<Rightarrow> string \<Rightarrow> string" where
  "saml_path realm i = ''/realms/'' @ realm @ ''/federation/builtin.saml-federation/'' @ i"

definition parse_saml_provider ::
    "url_parser \<Rightarrow> (string \<Rightarrow> bool) \<Rightarrow> string \<Rightarrow> string \<Rightarrow> string list \<Rightarrow> json \<Rightarrow> saml_provider option" where
  "parse_saml_provider parse isUrl origin realm ids input =
     (case saml_schema isUrl input of
        None \<Rightarrow> None
      | Some p \<Rightarrow>
          if sc_id p \<in> set ids then None
          else if (sc_privateKey p = None) \<noteq> (sc_certificates p = None) then None
          else if sc_replayTtlMs p < sc_maxAssertionAgeMs p + sc_clockSkewMs p then None
          else map_option (\<lambda>sso. p\<lparr>sc_spEntityId := origin @ saml_path realm (sc_id p) @ ''/metadata'',
                 sc_acsUrl := origin @ saml_path realm (sc_id p) @ ''/acs'', sc_ssoUrl := sso\<rparr>) (ssoEndpoint parse (sc_ssoUrl p)))"

text \<open>The entries know the realm they are listed under, so that the tables of the realms are parsed one by one.\<close>

definition parseSamlProviders ::
    "(string \<Rightarrow> json option) \<Rightarrow> url_parser \<Rightarrow> (string \<Rightarrow> bool) \<Rightarrow> string \<Rightarrow> string list \<Rightarrow> string \<Rightarrow> (string \<times> saml_provider list) list option" where
  "parseSamlProviders json parse isUrl text realms publicUrl =
     (if text = [] then Some (map (\<lambda>r. (r, [])) realms)
      else (case serviceOrigin parse publicUrl of
              None \<Rightarrow> None
            | Some origin \<Rightarrow>
                (case json text of
                   None \<Rightarrow> None
                 | Some v \<Rightarrow>
                     if \<not> is_obj v \<or> unknown_realms v realms \<noteq> [] then None
                     else all_some (map (\<lambda>r. case realm_entries v r of
                            None \<Rightarrow> None
                          | Some xs \<Rightarrow> map_option (Pair r) (parse_entries sc_id (parse_saml_provider parse isUrl origin r) [] xs)) realms))))"

section \<open>The checks of the broker\<close>

record saml_key =
  ky_type :: string
  ky_bits :: nat
  ky_spki :: string

record saml_world =
  sw_now :: int
  sw_relayState :: string
  sw_parse_url :: url_parser
  sw_params :: "web_url \<Rightarrow> (string \<times> string) list"
  sw_parseDate :: "string \<Rightarrow> int option"
  sw_scan :: "string \<Rightarrow> xml_scan"
  sw_inflate :: "string \<Rightarrow> (string \<times> string list) list option"
  sw_publicKey :: "string \<Rightarrow> saml_key option"
  sw_certificate :: "string \<Rightarrow> saml_key option"
  sw_privateKey :: "string \<Rightarrow> saml_key option"
  sw_metadata :: "json \<Rightarrow> string list option \<Rightarrow> json"
  sw_authorizeUrl :: "json \<Rightarrow> string \<Rightarrow> (adapter, saml_error, string) handler"
  sw_validate :: "json \<Rightarrow> json \<Rightarrow> (adapter, unit, saml_profile option) handler"

text \<open>
  \<open>sw_inflate\<close> decodes and inflates a \<open>SAMLRequest\<close> and gives the attributes of its root \<open>AuthnRequest\<close> element;
  \<open>sw_publicKey\<close>, \<open>sw_certificate\<close> and \<open>sw_privateKey\<close> read a PEM text, \<open>ky_spki\<close> being the encoded public key.
\<close>

definition TypeError :: saml_error where "TypeError = thrown ''TypeError''"

definition saml_endpoint :: "url_parser \<Rightarrow> string \<Rightarrow> saml_error + string" where
  "saml_endpoint parse v =
     bindR (nonEmpty (JStr v) 4096) (\<lambda>_.
       case parse v of
         None \<Rightarrow> Inl TypeError
       | Some u \<Rightarrow>
           if wu_protocol u \<noteq> ''https:'' \<or> wu_username u \<noteq> [] \<or> wu_password u \<noteq> [] \<or> wu_hash u \<noteq> [] \<or> wu_search u \<noteq> [] then Inl TypeError
           else Inr (wu_href u))"

definition entityId :: "url_parser \<Rightarrow> string \<Rightarrow> saml_error + string" where
  "entityId parse v = bindR (nonEmpty (JStr v) 4096) (\<lambda>_. if parse v = None then Inl TypeError else Inr v)"

definition strong_rsa :: "saml_key \<Rightarrow> bool" where "strong_rsa k \<longleftrightarrow> ky_type k = ''rsa'' \<and> 2048 \<le> ky_bits k"

definition strongRsaKey :: "(string \<Rightarrow> saml_key option) \<Rightarrow> string \<Rightarrow> saml_error + saml_key" where
  "strongRsaKey read v =
     bindR (nonEmpty (JStr v) 65536) (\<lambda>_.
       case read v of None \<Rightarrow> Inl TypeError | Some k \<Rightarrow> if strong_rsa k then Inr k else Inl TypeError)"

definition strongRsaPublicKey :: "saml_world \<Rightarrow> string \<Rightarrow> saml_error + saml_key" where
  "strongRsaPublicKey w = strongRsaKey (sw_publicKey w)"

definition strongRsaCertificate :: "saml_world \<Rightarrow> string \<Rightarrow> saml_error + saml_key" where
  "strongRsaCertificate w = strongRsaKey (sw_certificate w)"

text \<open>The first certificate must be that of the private key, the others strong.\<close>

definition validateSpSigningKey :: "saml_world \<Rightarrow> string \<Rightarrow> string list \<Rightarrow> saml_error + unit" where
  "validateSpSigningKey w privateKey certificates =
     (case sw_privateKey w privateKey of
        None \<Rightarrow> Inl TypeError
      | Some k \<Rightarrow>
          bindR (guardR (strong_rsa k) TypeError) (\<lambda>_.
            case certificates of
              [] \<Rightarrow> Inl TypeError
            | c # cs \<Rightarrow>
                bindR (strongRsaCertificate w c) (\<lambda>current.
                bindR (guardR (ky_spki k = ky_spki current) TypeError) (\<lambda>_.
                bindR (mapR (strongRsaCertificate w) cs) (\<lambda>_. Inr ())))))"

definition integer_between :: "int \<Rightarrow> int \<Rightarrow> int \<Rightarrow> saml_error + unit" where
  "integer_between v minimum maximum = guardR (safe_integer v \<and> minimum \<le> v \<and> v \<le> maximum) TypeError"

definition broker_id_re :: "string \<Rightarrow> bool" where
  [js_defs]: "broker_id_re s = (case s of [] \<Rightarrow> False | c # cs \<Rightarrow> is_alnum c \<and> list_all (\<lambda>c. is_alnum c \<or> c \<in> set ''._-'') cs)"

text \<open>
  \<open>createSamlBroker\<close> up to its methods: the configuration its methods run on. That the certificates are lists of strings, the
  cache has its three methods and the injected functions are functions is a matter of types here.
\<close>

definition createSamlBroker :: "saml_world \<Rightarrow> string \<Rightarrow> saml_provider \<Rightarrow> saml_error + broker_config" where
  "createSamlBroker w realm p =
     bindR (nonEmpty (JStr realm) 63) (\<lambda>_.
     bindR (nonEmpty (JStr (sc_id p)) 128) (\<lambda>_.
     bindR (guardR (broker_id_re (sc_id p)) TypeError) (\<lambda>_.
     bindR (entityId (sw_parse_url w) (sc_spEntityId p)) (\<lambda>_.
     bindR (saml_endpoint (sw_parse_url w) (sc_acsUrl p)) (\<lambda>callbackUrl.
     bindR (saml_endpoint (sw_parse_url w) (sc_ssoUrl p)) (\<lambda>_.
     bindR (entityId (sw_parse_url w) (sc_idpEntityId p)) (\<lambda>expectedIssuer.
     bindR (guardR (1 \<le> length (sc_idpCertificates p) \<and> length (sc_idpCertificates p) \<le> 10 \<and> [] \<notin> set (sc_idpCertificates p)) TypeError) (\<lambda>_.
     bindR (mapR (strongRsaPublicKey w) (sc_idpCertificates p)) (\<lambda>_.
     bindR (guardR ((sc_privateKey p = None \<or> sc_privateKey p = Some []) = (sc_certificates p = None)) TypeError) (\<lambda>_.
     bindR (guardR (case sc_certificates p of None \<Rightarrow> True | Some cs \<Rightarrow> [] \<notin> set cs \<and> 1 \<le> length cs \<and> length cs \<le> 10) TypeError) (\<lambda>_.
     bindR (case (sc_privateKey p, sc_certificates p) of
              (Some key, Some cs) \<Rightarrow> if key = [] then Inr () else validateSpSigningKey w key cs | _ \<Rightarrow> Inr ()) (\<lambda>_.
     bindR (integer_between (sc_requestTtlMs p) 30000 1800000) (\<lambda>_.
     bindR (integer_between (sc_clockSkewMs p) 0 300000) (\<lambda>_.
     bindR (integer_between (sc_maxAssertionAgeMs p) 30000 1800000) (\<lambda>_.
     bindR (integer_between (sc_replayTtlMs p) (sc_maxAssertionAgeMs p + sc_clockSkewMs p) 3600000) (\<lambda>_.
     bindR (integer_between (sc_maxResponseBytes p) 16384 5242880) (\<lambda>_.
     bindR (case mapping (sc_attributeMapping p) of Inl _ \<Rightarrow> Inl TypeError | Inr m \<Rightarrow> Inr m) (\<lambda>resolvedMapping.
       Inr \<lparr>bc_realm = realm, bc_providerId = sc_id p, bc_callbackUrl = callbackUrl, bc_expectedIssuer = expectedIssuer,
         bc_mapping = resolvedMapping, bc_trustEmail = sc_trustEmail p, bc_requestTtlMs = sc_requestTtlMs p,
         bc_clockSkewMs = sc_clockSkewMs p, bc_replayTtlMs = sc_replayTtlMs p, bc_maxResponseBytes = nat (sc_maxResponseBytes p)\<rparr>))))))))))))))))))"

definition json_opt :: "('a \<Rightarrow> json) \<Rightarrow> 'a option \<Rightarrow> json" where
  "json_opt f v = (case v of None \<Rightarrow> JUndef | Some x \<Rightarrow> f x)"

text \<open>What Node-SAML is constructed with; its cache provider is the broker's, over the same store.\<close>

definition samlOptions :: "broker_config \<Rightarrow> saml_provider \<Rightarrow> string \<Rightarrow> json" where
  "samlOptions c p entryPoint =
     JObj [(''issuer'', JStr (sc_spEntityId p)), (''audience'', JStr (sc_spEntityId p)), (''callbackUrl'', JStr (bc_callbackUrl c)),
       (''entryPoint'', JStr entryPoint), (''idpIssuer'', JStr (bc_expectedIssuer c)), (''idpCert'', JArr (map JStr (sc_idpCertificates p))),
       (''privateKey'', json_opt JStr (sc_privateKey p)),
       (''publicCert'', case sc_certificates p of Some (x # _) \<Rightarrow> JStr x | _ \<Rightarrow> JUndef), (''signatureAlgorithm'', JStr ''sha256''),
       (''digestAlgorithm'', JStr ''sha256''), (''authnRequestBinding'', JStr ''HTTP-Redirect''), (''wantAuthnResponseSigned'', JBool True),
       (''wantAssertionsSigned'', JBool True), (''validateInResponseTo'', JStr ''always''), (''requestIdExpirationPeriodMs'', JNum (bc_requestTtlMs c)),
       (''acceptedClockSkewMs'', JNum (bc_clockSkewMs c)), (''maxAssertionAgeMs'', JNum (sc_maxAssertionAgeMs p)),
       (''identifierFormat'', case sc_nameIdFormat p of None \<Rightarrow> JNull | Some f \<Rightarrow> JStr f),
       (''disableRequestedAuthnContext'', JBool (sc_disableContext p)),
       (''signMetadata'', JBool ((case sc_privateKey p of None \<Rightarrow> False | Some k \<Rightarrow> k \<noteq> []) \<and> sc_signMetadata p))]"

section \<open>The generated request\<close>

text \<open>\<open>requestEnvelope\<close>: the redirect leads to the configured address with our relay state, and the request in it is bound to both addresses.\<close>

definition requestEnvelope :: "saml_world \<Rightarrow> string \<Rightarrow> string \<Rightarrow> string \<Rightarrow> string \<Rightarrow> saml_error + string" where
  "requestEnvelope w redirectUrl relayState entryPoint callback =
     (case (sw_parse_url w redirectUrl, sw_parse_url w entryPoint) of
        (Some url, Some expected) \<Rightarrow>
          bindR (guardR (wu_origin url = wu_origin expected \<and> wu_pathname url = wu_pathname expected) (thrown ''Error'')) (\<lambda>_.
          bindR (guardR (mget (sw_params w url) ''RelayState'' = Some relayState) (thrown ''Error'')) (\<lambda>_.
            case mget (sw_params w url) ''SAMLRequest'' of
              None \<Rightarrow> Inl (thrown ''Error'')
            | Some encoded \<Rightarrow>
                bindR (guardR (encoded \<noteq> []) (thrown ''Error'')) (\<lambda>_.
                  case sw_inflate w encoded of
                    None \<Rightarrow> Inl (thrown ''Error'')
                  | Some found \<Rightarrow>
                      bindR (extractAttributes found [''ID'', ''Destination'', ''AssertionConsumerServiceURL'']) (\<lambda>attrs.
                        let get = (\<lambda>n. or_else (mget attrs n) []) in
                        bindR (guardR (get ''ID'' \<noteq> [] \<and> get ''Destination'' = entryPoint \<and>
                                 get ''AssertionConsumerServiceURL'' = callback) (thrown ''Error'')) (\<lambda>_. Inr (get ''ID''))))))
      | _ \<Rightarrow> Inl (thrown ''TypeError''))"

definition saml_request ::
    "saml_world \<Rightarrow> json \<Rightarrow> string \<Rightarrow> string \<Rightarrow> string \<Rightarrow> (adapter, saml_error, string \<times> string) handler" where
  "saml_request w options entryPoint callback relayState =
     bindS (sw_authorizeUrl w options relayState) (\<lambda>redirectUrl.
     bindS (liftR (requestEnvelope w redirectUrl relayState entryPoint callback)) (\<lambda>requestId.
       retS (redirectUrl, requestId)))"

section \<open>The extension\<close>

definition saml_code :: "saml_error \<Rightarrow> string option" where
  "saml_code e =
     (case e of
        invalid_relay_state \<Rightarrow> Some ''invalid_relay_state''
      | malformed_saml_response \<Rightarrow> Some ''malformed_saml_response''
      | invalid_destination \<Rightarrow> Some ''invalid_destination''
      | invalid_in_response_to \<Rightarrow> Some ''invalid_in_response_to''
      | invalid_signature_algorithm \<Rightarrow> Some ''invalid_signature_algorithm''
      | invalid_saml_response \<Rightarrow> Some ''invalid_saml_response''
      | invalid_issuer \<Rightarrow> Some ''invalid_issuer''
      | malformed_saml_assertion \<Rightarrow> Some ''malformed_saml_assertion''
      | invalid_subject_confirmation \<Rightarrow> Some ''invalid_subject_confirmation''
      | replayed_saml_response \<Rightarrow> Some ''replayed_saml_response''
      | replayed_saml_assertion \<Rightarrow> Some ''replayed_saml_assertion''
      | unknown_saml_provider \<Rightarrow> Some ''unknown_saml_provider''
      | thrown _ \<Rightarrow> None)"

definition saml_http :: "saml_error \<Rightarrow> http_error" where
  "saml_http e = \<lparr>he_code = saml_code e, he_status = (case saml_code e of None \<Rightarrow> None | Some _ \<Rightarrow> Some 400)\<rparr>"

text \<open>An operation of a broker, run on the protocol store of the application.\<close>

definition on_adapter :: "((string \<Rightarrow> int option) \<Rightarrow> (adapter, saml_error, 'a) handler) \<Rightarrow> string \<Rightarrow> (fed_app, http_error, 'a) handler" where
  "on_adapter f realm s =
     (case f (fa_version realm s) (fa_adapter s) of
        (Inl e, a) \<Rightarrow> (Inl (saml_http e), s\<lparr>fa_adapter := a\<rparr>)
      | (Inr r, a) \<Rightarrow> (Inr r, s\<lparr>fa_adapter := a\<rparr>))"

definition saml_provider_of :: "(string \<times> saml_provider list) list \<Rightarrow> json \<Rightarrow> json \<Rightarrow> saml_provider option" where
  "saml_provider_of table realm i =
     (case realm of
        JStr r \<Rightarrow> (case mget table r of None \<Rightarrow> None | Some ps \<Rightarrow> find (\<lambda>p. JStr (sc_id p) = i) ps)
      | _ \<Rightarrow> None)"

text \<open>A broker is a function of the configuration of its provider, so that keeping it in a map changes nothing.\<close>

definition brokerFor ::
    "saml_world \<Rightarrow> (string \<times> saml_provider list) list \<Rightarrow> json \<Rightarrow> json \<Rightarrow> saml_error + (saml_provider \<times> broker_config)" where
  "brokerFor w table realm i =
     (case saml_provider_of table realm i of
        None \<Rightarrow> Inl unknown_saml_provider
      | Some p \<Rightarrow> bindR (createSamlBroker w (js_String realm) p) (\<lambda>c. Inr (p, c)))"

definition saml_entry :: "saml_world \<Rightarrow> saml_provider \<Rightarrow> string" where
  "saml_entry w p = (case saml_endpoint (sw_parse_url w) (sc_ssoUrl p) of Inl _ \<Rightarrow> [] | Inr e \<Rightarrow> e)"

definition saml_initiate :: "saml_world \<Rightarrow> (string \<times> saml_provider list) list \<Rightarrow> fed_app extension_call" where
  "saml_initiate w table input =
     on_adapter (\<lambda>sv.
       bindS (liftR (brokerFor w table (jprop input ''realm'') (jprop input ''providerId''))) (\<lambda>(p, c).
       bindS (saml_start c (adapter_cache sv (bc_realm c)) (sw_now w) (sw_relayState w)
                (saml_request w (samlOptions c p (saml_entry w p)) (saml_entry w p) (bc_callbackUrl c)) (jprop input ''interactionUid'')) (\<lambda>r.
         retS (JObj [(''redirectUrl'', JStr (ss_redirectUrl r)), (''relayState'', JStr (ss_relayState r)),
           (''requestId'', JStr (ss_requestId r)), (''expiresAt'', JNum (ss_expiresAt r))])))) (js_String (jprop input ''realm''))"

definition suggested_profile :: "saml_identity \<Rightarrow> json" where
  "suggested_profile i =
     (let g = si_suggested i in
      JObj [(''externalSubject'', JStr (si_externalSubject i)), (''username'', JStr (sg_username g)),
        (''email'', JStr (or_else (sg_email g) [])), (''emailVerified'', JBool (sg_emailVerified g)),
        (''name'', JStr (or_else (sg_name g) (sg_username g))), (''givenName'', JStr (or_else (sg_givenName g) [])),
        (''familyName'', JStr (or_else (sg_familyName g) [])), (''groups'', JArr (map JStr (sg_groups g))),
        (''roles'', JArr (map JStr (sg_roles g)))])"

definition identity_json :: "saml_identity \<Rightarrow> json" where
  "identity_json i =
     (let g = si_suggested i in
      JObj [(''protocol'', JStr ''saml''), (''realm'', JStr (si_realmName i)), (''providerId'', JStr (si_providerId i)),
        (''issuer'', JStr (si_issuer i)), (''externalSubject'', JStr (si_externalSubject i)),
        (''nameIdFormat'', json_opt JStr (si_nameIdFormat i)), (''sessionIndex'', json_opt JStr (si_sessionIndex i)),
        (''attributes'', JObj (map (\<lambda>(k, vs). (k, JArr (map JStr vs))) (si_attributes i))),
        (''suggested'', JObj [(''username'', JStr (sg_username g)), (''email'', json_opt JStr (sg_email g)),
          (''emailVerified'', JBool (sg_emailVerified g)), (''name'', json_opt JStr (sg_name g)),
          (''givenName'', json_opt JStr (sg_givenName g)), (''familyName'', json_opt JStr (sg_familyName g)),
          (''groups'', JArr (map JStr (sg_groups g))), (''roles'', JArr (map JStr (sg_roles g)))])])"

definition saml_result :: "saml_provider \<Rightarrow> json \<Rightarrow> saml_validation \<Rightarrow> json" where
  "saml_result p providerId v =
     JObj [(''interactionUid'', sv_interactionUid v), (''providerId'', providerId), (''allowCreate'', JBool (sc_jitProvisioning p)),
       (''profile'', suggested_profile (sv_identity v)), (''identity'', identity_json (sv_identity v)),
       (''amr'', JArr [JStr ''federated'', JStr ''saml'']), (''acr'', JStr ''urn:authme:loa:federated'')]"

definition saml_consume :: "saml_world \<Rightarrow> (string \<times> saml_provider list) list \<Rightarrow> fed_app extension_call" where
  "saml_consume w table input =
     on_adapter (\<lambda>sv.
       bindS (liftR (brokerFor w table (jprop input ''realm'') (jprop input ''providerId''))) (\<lambda>(p, c).
       bindS (consumePost c (adapter_cache sv (bc_realm c)) (sw_parseDate w) (sw_scan w) (sw_validate w (samlOptions c p (saml_entry w p))) (sw_now w)
                (jprop (jprop input ''params'') ''SAMLResponse'') (jprop (jprop input ''params'') ''RelayState'')) (\<lambda>v.
         retS (saml_result p (jprop input ''providerId'') v)))) (js_String (jprop input ''realm''))"

definition saml_metadata :: "saml_world \<Rightarrow> (string \<times> saml_provider list) list \<Rightarrow> string \<Rightarrow> string \<Rightarrow> (fed_app, http_error, json) handler" where
  "saml_metadata w table realm i =
     on_adapter (\<lambda>_. bindS (liftR (brokerFor w table (JStr realm) (JStr i))) (\<lambda>(p, c).
       retS (sw_metadata w (samlOptions c p (saml_entry w p)) (sc_certificates p)))) realm"

definition saml_manifest :: json where
  "saml_manifest = JObj [(''apiVersion'', JStr AUTHME_EXTENSION_API_VERSION), (''id'', JStr ''builtin.saml-federation''),
     (''kind'', JStr ''federation''), (''displayName'', JStr ''SAML 2.0 federation''),
     (''capabilities'', JArr [JStr ''jit-provisioning'', JStr ''saml2'', JStr ''sp-initiated''])]"

definition saml_implementation :: "saml_world \<Rightarrow> (string \<times> saml_provider list) list \<Rightarrow> fed_app implementation" where
  "saml_implementation w table =
     (let providers = (\<lambda>realm. case mget table realm of None \<Rightarrow> [] | Some ps \<Rightarrow> ps)
      in \<lparr>im_enabledFor = Method (\<lambda>realm. JBool (providers realm \<noteq> [])),
          im_providersFor = Method (\<lambda>realm. JArr (map (\<lambda>p. JObj [(''id'', JStr (sc_id p)), (''displayName'', JStr (sc_displayName p))]) (providers realm))),
          im_initiate = Method (saml_initiate w table), im_consume = Method (saml_consume w table),
          im_metadataFor = Method (saml_metadata w table), im_authenticate = Absent, im_begin = Absent, im_complete = Absent,
          im_createRouter = Absent\<rparr>)"

definition createSamlFederationExtension ::
    "saml_world \<Rightarrow> (string \<times> saml_provider list) list \<Rightarrow> json \<times> fed_app implementation option" where
  "createSamlFederationExtension w table = (saml_manifest, Some (saml_implementation w table))"

end
