(* ===== verification/ScimAttributes.thy ===== *)
theory ScimAttributes
  imports JsPrelude
begin

text \<open>
  SCIM resources (\<open>src/scim/errors.js\<close>, \<open>constants.js\<close>, \<open>attributes.js\<close>): the errors, the
  names of the supported attributes, and the normalisation of User and Group bodies. The error
  values keep status and \<open>scimType\<close>; the message texts are left out.
\<close>

section \<open>Errors and names\<close>

datatype scim_error =
    ScimError nat "string option"
  | NOT_FOUND | UNIQUENESS | VERSION_MISMATCH | INVALID_VALUE
  | OtherError string

definition repositoryError :: "scim_error \<Rightarrow> scim_error" where
  "repositoryError e =
     (case e of
        NOT_FOUND \<Rightarrow> ScimError 404 None
      | UNIQUENESS \<Rightarrow> ScimError 409 (Some ''uniqueness'')
      | VERSION_MISMATCH \<Rightarrow> ScimError 412 None
      | INVALID_VALUE \<Rightarrow> ScimError 400 (Some ''invalidValue'')
      | _ \<Rightarrow> e)"

abbreviation "invalidValue \<equiv> ScimError 400 (Some ''invalidValue'')"
abbreviation "invalidSyntax \<equiv> ScimError 400 (Some ''invalidSyntax'')"
abbreviation "invalidPath \<equiv> ScimError 400 (Some ''invalidPath'')"
abbreviation "invalidFilter \<equiv> ScimError 400 (Some ''invalidFilter'')"
abbreviation "mutability \<equiv> ScimError 400 (Some ''mutability'')"
abbreviation "noTarget \<equiv> ScimError 400 (Some ''noTarget'')"

definition URN_user :: string where "URN_user = ''urn:ietf:params:scim:schemas:core:2.0:User''"
definition URN_group :: string where "URN_group = ''urn:ietf:params:scim:schemas:core:2.0:Group''"
definition URN_listResponse :: string where "URN_listResponse = ''urn:ietf:params:scim:api:messages:2.0:ListResponse''"
definition URN_patchOp :: string where "URN_patchOp = ''urn:ietf:params:scim:api:messages:2.0:PatchOp''"
definition URN_error :: string where "URN_error = ''urn:ietf:params:scim:api:messages:2.0:Error''"

definition userNames :: "(string \<times> string) list" where
  "userNames =
     [(''externalid'', ''externalId''), (''username'', ''userName''), (''name'', ''name''), (''displayname'', ''displayName''),
      (''nickname'', ''nickName''), (''profileurl'', ''profileUrl''), (''title'', ''title''), (''usertype'', ''userType''),
      (''preferredlanguage'', ''preferredLanguage''), (''locale'', ''locale''), (''timezone'', ''timezone''), (''active'', ''active''),
      (''password'', ''password''), (''emails'', ''emails''), (''phonenumbers'', ''phoneNumbers''), (''ims'', ''ims''),
      (''photos'', ''photos''), (''addresses'', ''addresses''), (''entitlements'', ''entitlements''), (''roles'', ''roles''),
      (''x509certificates'', ''x509Certificates'')]"

definition groupNames :: "(string \<times> string) list" where
  "groupNames = [(''externalid'', ''externalId''), (''displayname'', ''displayName''), (''members'', ''members'')]"

definition canonicalUserAttribute :: "string \<Rightarrow> string option" where
  "canonicalUserAttribute name = mget userNames (js_lower name)"

definition canonicalGroupAttribute :: "string \<Rightarrow> string option" where
  "canonicalGroupAttribute name = mget groupNames (js_lower name)"

section \<open>Reading one value\<close>

definition scim_object :: "json \<Rightarrow> scim_error + (string \<times> json) list" where
  "scim_object v = (case v of JObj kvs \<Rightarrow> Inr kvs | _ \<Rightarrow> Inl invalidValue)"

definition scim_text :: "json \<Rightarrow> bool \<Rightarrow> nat \<Rightarrow> scim_error + json" where
  "scim_text v required mx =
     (if nullish v \<and> \<not> required then Inr JUndef
      else (case v of
              JStr s \<Rightarrow> if (required \<and> js_trim s = []) \<or> length s > mx then Inl invalidValue else Inr v
            | _ \<Rightarrow> Inl invalidValue))"

text \<open>One entry of the loop of \<open>canonicalInput\<close>.\<close>

definition canonical_entry ::
    "(string \<times> string) list \<Rightarrow> string \<times> json \<Rightarrow> (string \<times> json) list \<Rightarrow> scim_error + (string \<times> json) list" where
  "canonical_entry names kv result =
     (let lower = js_lower (fst kv) in
      if lower = ''schemas'' then Inr result
      else if lower = ''id'' \<or> lower = ''meta'' then Inl mutability
      else if lower = ''groups'' then Inl mutability
      else (case mget names lower of
              None \<Rightarrow> Inl invalidValue
            | Some name \<Rightarrow> Inr (mset' name (snd kv) result)))"

definition canonicalInput ::
    "json \<Rightarrow> (string \<times> string) list \<Rightarrow> string \<Rightarrow> scim_error + (string \<times> json) list" where
  "canonicalInput input names schemaUrn =
     bindR (scim_object input) (\<lambda>kvs.
     bindR (guardR (nullish (jprop input ''schemas'') \<or>
              (case jprop input ''schemas'' of JArr xs \<Rightarrow> JStr schemaUrn \<in> set xs | _ \<Rightarrow> False)) invalidSyntax) (\<lambda>_.
       foldR (canonical_entry names) kvs []))"

definition normalizeComplex :: "json \<Rightarrow> scim_error + json" where
  "normalizeComplex v =
     bindR (scim_object v) (\<lambda>kvs.
       let live = filter (\<lambda>kv. \<not> nullish (snd kv)) kvs in
       if list_all (\<lambda>kv. case snd kv of JStr s \<Rightarrow> length s \<le> 2048 | _ \<Rightarrow> False) live
       then Inr (JObj live) else Inl invalidValue)"

definition normalize_item :: "json \<Rightarrow> scim_error + json" where
  "normalize_item entry =
     bindR (scim_object entry) (\<lambda>kvs.
       let live = filter (\<lambda>kv. \<not> nullish (snd kv)) kvs in
       if list_all (\<lambda>(key, child). if key = ''primary'' then is_bool child
            else (case child of JStr s \<Rightarrow> length s \<le> 2048 | _ \<Rightarrow> False)) live
       then Inr (JObj live) else Inl invalidValue)"

definition normalizeMulti :: "json \<Rightarrow> scim_error + json" where
  "normalizeMulti v =
     (case v of
        JArr entries \<Rightarrow>
          bindR (mapR normalize_item entries) (\<lambda>result.
            if length (filter (\<lambda>i. jprop i ''primary'' = JBool True) result) > 1 then Inl invalidValue
            else Inr (JArr result))
      | _ \<Rightarrow> Inl invalidValue)"

section \<open>Users and Groups\<close>

text \<open>\<open>if (name in source) result[name] = f(source[name])\<close>, as the entry it adds, if any.\<close>

definition opt_entry ::
    "(string \<times> json) list \<Rightarrow> (json \<Rightarrow> scim_error + json) \<Rightarrow> string \<Rightarrow> scim_error + (string \<times> json) list" where
  "opt_entry source f name =
     (case mget source name of None \<Rightarrow> Inr [] | Some v \<Rightarrow> bindR (f v) (\<lambda>w. Inr [(name, w)]))"

definition opt_entries ::
    "(string \<times> json) list \<Rightarrow> (json \<Rightarrow> scim_error + json) \<Rightarrow> string list \<Rightarrow> scim_error + (string \<times> json) list" where
  "opt_entries source f names = bindR (mapR (opt_entry source f) names) (\<lambda>es. Inr (concat es))"

definition plain_names :: "string list" where
  "plain_names = [''displayName'', ''nickName'', ''profileUrl'', ''title'', ''userType'', ''preferredLanguage'', ''locale'', ''timezone'']"

definition multi_names :: "string list" where
  "multi_names = [''emails'', ''phoneNumbers'', ''ims'', ''photos'', ''addresses'', ''entitlements'', ''roles'', ''x509Certificates'']"

definition scim_bool :: "json \<Rightarrow> scim_error + json" where
  "scim_bool v = (if is_bool v then Inr v else Inl invalidValue)"

definition trimmed :: "json \<Rightarrow> json" where
  "trimmed v = (case v of JStr s \<Rightarrow> JStr (js_trim s) | _ \<Rightarrow> v)"

text \<open>\<open>existingPassword\<close> is \<open>JUndef\<close> when it is not given.\<close>

definition scim_normalizeUser :: "json \<Rightarrow> json \<Rightarrow> scim_error + (string \<times> json) list" where
  "scim_normalizeUser input existingPassword =
     bindR (canonicalInput input userNames URN_user) (\<lambda>source.
     bindR (scim_text (jprop (JObj source) ''userName'') True 256) (\<lambda>userName.
     bindR (opt_entry source (\<lambda>v. scim_text v False 256) ''externalId'') (\<lambda>externalId.
     bindR (opt_entries source (\<lambda>v. scim_text v False 2048) plain_names) (\<lambda>plain.
     bindR (opt_entry source scim_bool ''active'') (\<lambda>active.
     bindR (opt_entry source (\<lambda>v. scim_text v False 1024) ''password'') (\<lambda>password.
     bindR (opt_entry source normalizeComplex ''name'') (\<lambda>name.
     bindR (opt_entries source normalizeMulti multi_names) (\<lambda>multi.
       Inr ([(''userName'', trimmed userName)] @ externalId @ plain @
         (if active = [] then [(''active'', JBool True)] else active) @
         (if password = [] \<and> existingPassword \<noteq> JUndef then [(''password'', existingPassword)] else password) @
         name @ multi)))))))))"

definition normalize_member :: "json \<Rightarrow> string list \<Rightarrow> scim_error + string list" where
  "normalize_member entry seen =
     bindR (scim_object entry) (\<lambda>_.
     bindR (scim_text (jprop entry ''value'') True 256) (\<lambda>v.
       let s = js_String v in
       if s \<in> set seen then Inl invalidValue
       else if \<not> nullish (jprop entry ''type'') \<and> js_lower (js_String (jprop entry ''type'')) \<noteq> ''user'' then Inl invalidValue
       else Inr (seen @ [s])))"

definition member_json :: "string \<Rightarrow> json" where
  "member_json v = JObj [(''value'', JStr v), (''type'', JStr ''User'')]"

definition normalize_members :: "json \<Rightarrow> scim_error + json" where
  "normalize_members v =
     (case v of
        JArr entries \<Rightarrow> bindR (foldR normalize_member entries []) (\<lambda>seen. Inr (JArr (map member_json seen)))
      | _ \<Rightarrow> Inl invalidValue)"

definition normalizeGroup :: "json \<Rightarrow> scim_error + (string \<times> json) list" where
  "normalizeGroup input =
     bindR (canonicalInput input groupNames URN_group) (\<lambda>source.
     bindR (scim_text (jprop (JObj source) ''displayName'') True 256) (\<lambda>displayName.
     bindR (opt_entry source (\<lambda>v. scim_text v False 256) ''externalId'') (\<lambda>externalId.
     bindR (opt_entry source normalize_members ''members'') (\<lambda>members.
       Inr ([(''displayName'', trimmed displayName)] @ externalId @
         (if members = [] then [(''members'', JArr [])] else members))))))"

end
