(* ===== verification/ScimPatch.thy ===== *)
theory ScimPatch
  imports ScimAttributes
begin

text \<open>
  SCIM PATCH and query parameters (\<open>src/scim/patch.js\<close>, \<open>src/scim/filter.js\<close>). \<open>unquote s\<close> is the
  text of the JSON string literal with body \<open>s\<close> (\<open>JSON.parse\<close> of \<open>"s"\<close>), if it is one.
\<close>

section \<open>The two regular expressions\<close>

text \<open>\<open>((?:[^"\\]|\\.)*)"\<close>: the body up to the closing quote, and what follows it.\<close>

definition is_newline :: "char \<Rightarrow> bool" where
  [js_defs]: "is_newline c \<longleftrightarrow> of_char c = (10 :: nat) \<or> of_char c = (13 :: nat)"

fun scan_quoted :: "string \<Rightarrow> (string \<times> string) option" where
  "scan_quoted [] = None"
| "scan_quoted (c # cs) =
     (if of_char c = (34 :: nat) then Some ([], cs)
      else if of_char c = (92 :: nat)
      then (case cs of
              [] \<Rightarrow> None
            | d # ds \<Rightarrow> if is_newline d then None
                        else map_option (\<lambda>(b, r). (c # d # b, r)) (scan_quoted ds))
      else map_option (\<lambda>(b, r). (c # b, r)) (scan_quoted cs))"

text \<open>\<open>[A-Za-z][class]*\<close> at the front.\<close>

definition scan_name :: "(char \<Rightarrow> bool) \<Rightarrow> string \<Rightarrow> (string \<times> string) option" where
  "scan_name p s =
     (case s of
        [] \<Rightarrow> None
      | c # cs \<Rightarrow> if is_alpha c then Some (c # takeWhile p cs, dropWhile p cs) else None)"

definition is_path_char :: "char \<Rightarrow> bool" where
  [js_defs]: "is_path_char c \<longleftrightarrow> is_alnum c \<or> c = CHR ''$'' \<or> c = CHR ''-''"

definition is_filter_char :: "char \<Rightarrow> bool" where
  [js_defs]: "is_filter_char c \<longleftrightarrow> is_alnum c \<or> c = CHR ''$'' \<or> c = CHR ''-'' \<or> c = CHR ''_'' \<or> c = CHR ''.''"

text \<open>\<open>\s+eq\s+"...\<close>: the body of the quoted value and the rest.\<close>

definition scan_eq :: "string \<Rightarrow> (string \<times> string) option" where
  "scan_eq s =
     (let s1 = dropWhile is_space s in
      if s1 = s \<or> js_lower (take 2 s1) \<noteq> ''eq'' then None
      else (let s2 = drop 2 s1; s3 = dropWhile is_space s2 in
            if s3 = s2 then None
            else (case s3 of
                    [] \<Rightarrow> None
                  | c # cs \<Rightarrow> if of_char c = (34 :: nat) then scan_quoted cs else None)))"

record scim_path =
  sp_attribute :: string
  sp_filterAttribute :: "string option"
  sp_filterValue :: "string option"
  sp_subAttribute :: "string option"

text \<open>The optional bracketed filter, and the optional sub-attribute up to the end.\<close>

definition scan_bracket :: "string \<Rightarrow> ((string \<times> string) option \<times> string) option" where
  "scan_bracket s =
     (case s of
        c # cs \<Rightarrow>
          if c = CHR ''['' then
            (case scan_name is_path_char cs of
               None \<Rightarrow> None
             | Some (n, r) \<Rightarrow>
                 (case scan_eq r of
                    None \<Rightarrow> None
                  | Some (v, r') \<Rightarrow>
                      (case r' of
                         d # ds \<Rightarrow> if d = CHR '']'' then Some (Some (n, v), ds) else None
                       | [] \<Rightarrow> None)))
          else Some (None, s)
      | [] \<Rightarrow> Some (None, []))"

definition scan_sub :: "string \<Rightarrow> string option option" where
  "scan_sub s =
     (case s of
        [] \<Rightarrow> Some None
      | c # cs \<Rightarrow>
          if c = CHR ''.'' then
            (case scan_name is_path_char cs of
               Some (n, []) \<Rightarrow> Some (Some n)
             | _ \<Rightarrow> None)
          else None)"

definition parsePath ::
    "(string \<Rightarrow> string option) \<Rightarrow> (string \<Rightarrow> string option) \<Rightarrow> json \<Rightarrow> scim_error + scim_path" where
  "parsePath unquote canonical input =
     (case input of
        JStr s \<Rightarrow>
          (case scan_name is_path_char (js_trim s) of
             None \<Rightarrow> Inl invalidPath
           | Some (n, r) \<Rightarrow>
               (case scan_bracket r of
                  None \<Rightarrow> Inl invalidPath
                | Some (f, r') \<Rightarrow>
                    (case scan_sub r' of
                       None \<Rightarrow> Inl invalidPath
                     | Some sub \<Rightarrow>
                         (case canonical n of
                            None \<Rightarrow> Inl invalidPath
                          | Some attribute \<Rightarrow>
                              (case f of
                                 None \<Rightarrow> Inr \<lparr>sp_attribute = attribute, sp_filterAttribute = None,
                                   sp_filterValue = None, sp_subAttribute = sub\<rparr>
                               | Some (fa, body) \<Rightarrow>
                                   (case unquote body of
                                      None \<Rightarrow> Inl invalidPath
                                    | Some v \<Rightarrow> Inr \<lparr>sp_attribute = attribute, sp_filterAttribute = Some fa,
                                        sp_filterValue = Some v, sp_subAttribute = sub\<rparr>))))))
      | _ \<Rightarrow> Inl invalidPath)"

section \<open>Applying operations\<close>

datatype patch_op = op_add | op_replace | op_remove

definition operationName :: "json \<Rightarrow> scim_error + patch_op" where
  "operationName v =
     (let name = js_lower (if nullish v then [] else js_String v) in
      if name = ''add'' then Inr op_add else if name = ''replace'' then Inr op_replace
      else if name = ''remove'' then Inr op_remove else Inl invalidValue)"

definition operations :: "json \<Rightarrow> scim_error + json list" where
  "operations body =
     bindR (guardR (is_obj body) invalidSyntax) (\<lambda>_.
     bindR (guardR (case jprop body ''schemas'' of JArr xs \<Rightarrow> JStr URN_patchOp \<in> set xs | _ \<Rightarrow> False) invalidSyntax) (\<lambda>_.
       case jprop body ''Operations'' of
         JArr ops \<Rightarrow> if ops = [] \<or> length ops > 100 then Inl invalidValue else Inr ops
       | _ \<Rightarrow> Inl invalidValue))"

type_synonym scim_attrs = "(string \<times> json) list"

text \<open>
  A simple attribute that holds an array (only inside one PATCH; normalisation rejects it) has no
  named sub-attribute to remove; \<open>length\<close>, whose deletion throws, is left out.
\<close>

definition setSimple :: "scim_path \<Rightarrow> patch_op \<Rightarrow> json \<Rightarrow> scim_attrs \<Rightarrow> scim_error + scim_attrs" where
  "setSimple path opn v resource =
     (let a = sp_attribute path; old = jprop (JObj resource) a in
      if sp_filterAttribute path \<noteq> None then Inl invalidPath
      else (case sp_subAttribute path of
              Some sub \<Rightarrow>
                if opn = op_remove then
                  (if sub \<notin> set (map fst (jentries old)) then Inl noTarget
                   else Inr (mset' a (JObj (mdel sub (jentries old))) resource))
                else Inr (mset' a (JObj (mset' sub v (jentries old))) resource)
            | None \<Rightarrow>
                if opn = op_remove then
                  (if a \<notin> set (map fst resource) then Inl noTarget else Inr (mdel a resource))
                else Inr (mset' a v resource)))"

definition as_list :: "json \<Rightarrow> json list" where
  "as_list v = (case v of JArr xs \<Rightarrow> xs | _ \<Rightarrow> [v])"

definition array_of :: "json \<Rightarrow> json list" where
  "array_of v = (case v of JArr xs \<Rightarrow> xs | _ \<Rightarrow> [])"

text \<open>\<open>Set.has\<close>: objects and arrays are the same only when they are the same reference, and the
  additions are fresh copies.\<close>

definition set_has :: "json list \<Rightarrow> json \<Rightarrow> bool" where
  "set_has xs v \<longleftrightarrow> \<not> is_obj v \<and> \<not> is_arr v \<and> v \<in> set xs"

definition setMulti :: "scim_path \<Rightarrow> patch_op \<Rightarrow> json \<Rightarrow> scim_attrs \<Rightarrow> scim_error + scim_attrs" where
  "setMulti path opn v resource =
     (let a = sp_attribute path; current = array_of (jprop (JObj resource) a) in
      case sp_filterAttribute path of
        Some fa \<Rightarrow>
          if js_lower fa \<noteq> ''value'' \<or> sp_subAttribute path \<noteq> None then Inl invalidPath
          else (let retained = filter (\<lambda>item. Some (js_String (jprop item ''value'')) \<noteq> sp_filterValue path) current in
                if length retained = length current \<and> opn \<noteq> op_add then Inl noTarget
                else if opn = op_remove then Inr (mset' a (JArr retained) resource)
                else Inr (mset' a (JArr (retained @ as_list v)) resource))
      | None \<Rightarrow>
          if sp_subAttribute path \<noteq> None then Inl invalidPath
          else (case opn of
                  op_remove \<Rightarrow> if a \<notin> set (map fst resource) then Inl noTarget else Inr (mdel a resource)
                | op_add \<Rightarrow>
                    (let existing = filter (\<lambda>x. \<not> nullish x) (map (\<lambda>item. jprop item ''value'') current);
                         additions = filter (\<lambda>item. nullish (jprop item ''value'') \<or> \<not> set_has existing (jprop item ''value'')) (as_list v)
                     in Inr (mset' a (JArr (current @ additions)) resource))
                | op_replace \<Rightarrow> Inr (mset' a (JArr (as_list v)) resource)))"

definition plain_path :: "string \<Rightarrow> scim_path" where
  "plain_path a = \<lparr>sp_attribute = a, sp_filterAttribute = None, sp_filterValue = None, sp_subAttribute = None\<rparr>"

definition set_at :: "string list \<Rightarrow> scim_path \<Rightarrow> patch_op \<Rightarrow> json \<Rightarrow> scim_attrs \<Rightarrow> scim_error + scim_attrs" where
  "set_at multi path opn v resource =
     (if sp_attribute path \<in> set multi then setMulti path opn v resource else setSimple path opn v resource)"

definition patch_step ::
    "(string \<Rightarrow> string option) \<Rightarrow> (string \<Rightarrow> string option) \<Rightarrow> string list \<Rightarrow> json \<Rightarrow> scim_attrs \<Rightarrow> scim_error + scim_attrs" where
  "patch_step unquote canonical multi raw next =
     bindR (guardR (is_obj raw) invalidValue) (\<lambda>_.
     bindR (operationName (jprop raw ''op'')) (\<lambda>opn.
       if nullish (jprop raw ''path'') then
         (if opn = op_remove then Inl noTarget
          else if \<not> is_obj (jprop raw ''value'') then Inl invalidValue
          else foldR (\<lambda>(name, v) r. case canonical name of
                        None \<Rightarrow> Inl invalidPath
                      | Some a \<Rightarrow> set_at multi (plain_path a) opn v r) (jentries (jprop raw ''value'')) next)
       else bindR (parsePath unquote canonical (jprop raw ''path'')) (\<lambda>path.
              if opn \<noteq> op_remove \<and> ''value'' \<notin> set (map fst (jentries raw)) then Inl invalidValue
              else set_at multi path opn (jprop raw ''value'') next)))"

definition apply_patch ::
    "(string \<Rightarrow> string option) \<Rightarrow> (string \<Rightarrow> string option) \<Rightarrow> string list \<Rightarrow> scim_attrs \<Rightarrow> json \<Rightarrow> scim_error + scim_attrs" where
  "apply_patch unquote canonical multi resource body =
     bindR (operations body) (\<lambda>ops. foldR (patch_step unquote canonical multi) ops resource)"

definition applyUserPatch :: "(string \<Rightarrow> string option) \<Rightarrow> scim_attrs \<Rightarrow> json \<Rightarrow> scim_error + scim_attrs" where
  "applyUserPatch unquote resource body = apply_patch unquote canonicalUserAttribute multi_names resource body"

definition applyGroupPatch :: "(string \<Rightarrow> string option) \<Rightarrow> scim_attrs \<Rightarrow> json \<Rightarrow> scim_error + scim_attrs" where
  "applyGroupPatch unquote resource body = apply_patch unquote canonicalGroupAttribute [''members''] resource body"

section \<open>Filters and pages\<close>

record scim_filter =
  sf_attribute :: string
  sf_value :: string

definition filter_names :: "bool \<Rightarrow> (string \<times> string) list" where
  "filter_names is_user =
     (if is_user
      then [(''id'', ''id''), (''username'', ''userName''), (''externalid'', ''externalId''), (''active'', ''active'')]
      else [(''id'', ''id''), (''displayname'', ''displayName''), (''externalid'', ''externalId''), (''members.value'', ''members.value'')])"

definition parseFilter :: "(string \<Rightarrow> string option) \<Rightarrow> json \<Rightarrow> bool \<Rightarrow> scim_error + scim_filter option" where
  "parseFilter unquote input is_user =
     (if nullish input \<or> input = JStr [] then Inr None
      else (case input of
        JStr s \<Rightarrow>
          if length s > 1024 then Inl invalidFilter
          else (case scan_name is_filter_char (js_trim s) of
            None \<Rightarrow> Inl invalidFilter
          | Some (n, r) \<Rightarrow>
              (case scan_eq r of
                 Some (body, []) \<Rightarrow>
                   (case mget (filter_names is_user) (js_lower n) of
                      None \<Rightarrow> Inl invalidFilter
                    | Some attribute \<Rightarrow>
                        (case unquote body of
                           None \<Rightarrow> Inl invalidFilter
                         | Some v \<Rightarrow>
                             if attribute = ''active'' \<and> js_lower v \<noteq> ''true'' \<and> js_lower v \<noteq> ''false'' then Inl invalidFilter
                             else Inr (Some \<lparr>sf_attribute = attribute, sf_value = v\<rparr>)))
               | _ \<Rightarrow> Inl invalidFilter))
      | _ \<Rightarrow> Inl invalidFilter))"

definition page_integer :: "json \<Rightarrow> nat \<Rightarrow> nat \<Rightarrow> scim_error + nat" where
  "page_integer v fallback minimum =
     (if nullish v \<or> v = JStr [] then Inr fallback
      else (let s = js_String v in
        if s = [] \<or> \<not> list_all is_digit s then Inl invalidValue
        else (let parsed = digits_val s in
              if parsed > 2 ^ 53 - 1 \<or> parsed < minimum then Inl invalidValue else Inr parsed)))"

definition pagination :: "json \<Rightarrow> nat \<Rightarrow> nat \<Rightarrow> scim_error + nat \<times> nat" where
  "pagination query maxPageSize defaultPageSize =
     bindR (page_integer (jprop query ''startIndex'') 1 1) (\<lambda>startIndex.
     bindR (page_integer (jprop query ''count'') defaultPageSize 0) (\<lambda>requested.
       Inr (startIndex, min requested maxPageSize)))"

end
