(* ===== verification/ScimRepository.thy ===== *)
theory ScimRepository
  imports ScimPatch
begin

text \<open>
  The realm-scoped SCIM store (\<open>src/scim/memory-repository.js\<close>) and the contract of
  \<open>src/scim/repository-contract.js\<close> that the router relies on. A record's SCIM attributes are kept
  apart from its \<open>id\<close>, \<open>version\<close> and times, which the source spreads into the same object; the
  normalised attributes never use those names. \<open>randomUUID()\<close> and the clock are arguments, and \<open>le\<close>
  is the order of \<open>localeCompare\<close> on identifiers.
\<close>

section \<open>The store\<close>

record scim_record =
  sr_attrs :: scim_attrs
  sr_id :: string
  sr_version :: nat
  sr_createdAt :: int
  sr_updatedAt :: int

record scim_realm =
  rl_users :: "(string \<times> scim_record) list"
  rl_groups :: "(string \<times> scim_record) list"

type_synonym scim_store = "(string \<times> scim_realm) list"

definition scim_prop :: "scim_record \<Rightarrow> string \<Rightarrow> json" where
  "scim_prop r k = (if k = ''id'' then JStr (sr_id r) else jprop (JObj (sr_attrs r)) k)"

definition realm_of :: "string \<Rightarrow> scim_store \<Rightarrow> scim_realm" where
  "realm_of name s = (case mget s name of None \<Rightarrow> \<lparr>rl_users = [], rl_groups = []\<rparr> | Some d \<Rightarrow> d)"

definition set_users :: "string \<Rightarrow> (string \<times> scim_record) list \<Rightarrow> scim_store \<Rightarrow> scim_store" where
  "set_users r us s = mset' r ((realm_of r s)\<lparr>rl_users := us\<rparr>) s"

definition set_groups :: "string \<Rightarrow> (string \<times> scim_record) list \<Rightarrow> scim_store \<Rightarrow> scim_store" where
  "set_groups r gs s = mset' r ((realm_of r s)\<lparr>rl_groups := gs\<rparr>) s"

definition new_record :: "int \<Rightarrow> string \<Rightarrow> scim_attrs \<Rightarrow> scim_record" where
  "new_record now uuid attributes =
     \<lparr>sr_attrs = attributes, sr_id = uuid, sr_version = 1, sr_createdAt = now, sr_updatedAt = now\<rparr>"

definition replaceRecord :: "int \<Rightarrow> scim_record \<Rightarrow> scim_attrs \<Rightarrow> scim_record" where
  "replaceRecord now c attributes =
     \<lparr>sr_attrs = attributes, sr_id = sr_id c, sr_version = sr_version c + 1,
      sr_createdAt = sr_createdAt c, sr_updatedAt = now\<rparr>"

section \<open>Pages\<close>

definition member_values :: "scim_record \<Rightarrow> string list" where
  "member_values g = map (\<lambda>m. js_String (jprop m ''value'')) (array_of (scim_prop g ''members''))"

definition str_or_empty :: "json \<Rightarrow> string" where
  "str_or_empty v = (if nullish v then [] else js_String v)"

definition scim_matches :: "scim_record \<Rightarrow> scim_filter option \<Rightarrow> bool" where
  "scim_matches resource f =
     (case f of
        None \<Rightarrow> True
      | Some q \<Rightarrow>
          if sf_attribute q = ''members.value'' then sf_value q \<in> set (member_values resource)
          else (let actual = scim_prop resource (sf_attribute q) in
                if sf_attribute q = ''active'' then truthy actual \<longleftrightarrow> js_lower (sf_value q) = ''true''
                else if sf_attribute q = ''userName'' \<or> sf_attribute q = ''displayName''
                then js_lower (str_or_empty actual) = js_lower (sf_value q)
                else str_or_empty actual = sf_value q))"

definition scim_page ::
    "(string \<Rightarrow> string \<Rightarrow> bool) \<Rightarrow> scim_record list \<Rightarrow> scim_filter option \<Rightarrow> nat \<Rightarrow> nat \<Rightarrow> nat \<times> scim_record list" where
  "scim_page le resources f startIndex count =
     (let selected = sort_by (\<lambda>a b. le (sr_id a) (sr_id b)) (filter (\<lambda>r. scim_matches r f) resources)
      in (length selected, js_slice (startIndex - 1) (startIndex - 1 + count) selected))"

section \<open>The operations\<close>

definition assertVersion :: "scim_record option \<Rightarrow> nat option \<Rightarrow> scim_error + scim_record" where
  "assertVersion c expectedVersion =
     (case c of
        None \<Rightarrow> Inl NOT_FOUND
      | Some r \<Rightarrow> if expectedVersion \<noteq> None \<and> expectedVersion \<noteq> Some (sr_version r) then Inl VERSION_MISMATCH else Inr r)"

definition user_name :: "scim_record \<Rightarrow> string" where
  "user_name u = js_lower (js_String (scim_prop u ''userName''))"

definition external_clash :: "json \<Rightarrow> scim_record \<Rightarrow> bool" where
  "external_clash e r \<longleftrightarrow> \<not> nullish e \<and> scim_prop r ''externalId'' = e"

definition assertUserUnique :: "string \<Rightarrow> scim_attrs \<Rightarrow> string option \<Rightarrow> scim_store \<Rightarrow> scim_error + unit" where
  "assertUserUnique realm attributes excludeId s =
     guardR (list_all (\<lambda>u. Some (sr_id u) = excludeId \<or>
         (user_name u \<noteq> js_lower (js_String (jprop (JObj attributes) ''userName'')) \<and>
          \<not> external_clash (jprop (JObj attributes) ''externalId'') u))
       (mvals (rl_users (realm_of realm s)))) UNIQUENESS"

definition assertGroupUnique :: "string \<Rightarrow> scim_attrs \<Rightarrow> string option \<Rightarrow> scim_store \<Rightarrow> scim_error + unit" where
  "assertGroupUnique realm attributes excludeId s =
     guardR (list_all (\<lambda>g. Some (sr_id g) = excludeId \<or> \<not> external_clash (jprop (JObj attributes) ''externalId'') g)
       (mvals (rl_groups (realm_of realm s)))) UNIQUENESS"

definition assertMembers :: "string \<Rightarrow> scim_attrs \<Rightarrow> scim_store \<Rightarrow> scim_error + unit" where
  "assertMembers realm attributes s =
     guardR (list_all (\<lambda>m. mget (rl_users (realm_of realm s)) (js_String (jprop m ''value'')) \<noteq> None)
       (array_of (jprop (JObj attributes) ''members''))) INVALID_VALUE"

definition sc_listUsers where
  "sc_listUsers le realm f startIndex count s = scim_page le (mvals (rl_users (realm_of realm s))) f startIndex count"

definition sc_listGroups where
  "sc_listGroups le realm f startIndex count s = scim_page le (mvals (rl_groups (realm_of realm s))) f startIndex count"

definition sc_getUser :: "string \<Rightarrow> string \<Rightarrow> scim_store \<Rightarrow> scim_record option" where
  "sc_getUser realm rid s = mget (rl_users (realm_of realm s)) rid"

definition sc_getGroup :: "string \<Rightarrow> string \<Rightarrow> scim_store \<Rightarrow> scim_record option" where
  "sc_getGroup realm rid s = mget (rl_groups (realm_of realm s)) rid"

definition sc_createUser ::
    "int \<Rightarrow> string \<Rightarrow> string \<Rightarrow> scim_attrs \<Rightarrow> scim_store \<Rightarrow> scim_error + (scim_record \<times> scim_store)" where
  "sc_createUser now uuid realm attributes s =
     bindR (assertUserUnique realm attributes None s) (\<lambda>_.
       let created = new_record now uuid attributes
       in Inr (created, set_users realm (mset' uuid created (rl_users (realm_of realm s))) s))"

definition sc_replaceUser ::
    "int \<Rightarrow> string \<Rightarrow> string \<Rightarrow> scim_attrs \<Rightarrow> nat option \<Rightarrow> scim_store \<Rightarrow> scim_error + (scim_record \<times> scim_store)" where
  "sc_replaceUser now realm rid attributes expectedVersion s =
     bindR (assertVersion (sc_getUser realm rid s) expectedVersion) (\<lambda>c.
     bindR (assertUserUnique realm attributes (Some rid) s) (\<lambda>_.
       let updated = replaceRecord now c attributes
       in Inr (updated, set_users realm (mset' rid updated (rl_users (realm_of realm s))) s)))"

definition drop_member :: "int \<Rightarrow> string \<Rightarrow> scim_record \<Rightarrow> scim_record" where
  "drop_member now uid g =
     (let ms = array_of (scim_prop g ''members'');
          kept = filter (\<lambda>m. jprop m ''value'' \<noteq> JStr uid) ms
      in if length kept \<noteq> length ms then replaceRecord now g (mset' ''members'' (JArr kept) (sr_attrs g)) else g)"

definition sc_deleteUser ::
    "int \<Rightarrow> string \<Rightarrow> string \<Rightarrow> nat option \<Rightarrow> scim_store \<Rightarrow> scim_error + (scim_record \<times> scim_store)" where
  "sc_deleteUser now realm rid expectedVersion s =
     bindR (assertVersion (sc_getUser realm rid s) expectedVersion) (\<lambda>c.
       let s1 = set_users realm (mdel rid (rl_users (realm_of realm s))) s
       in Inr (c, set_groups realm (map (\<lambda>(gid, g). (gid, drop_member now rid g)) (rl_groups (realm_of realm s1))) s1))"

definition sc_createGroup ::
    "int \<Rightarrow> string \<Rightarrow> string \<Rightarrow> scim_attrs \<Rightarrow> scim_store \<Rightarrow> scim_error + (scim_record \<times> scim_store)" where
  "sc_createGroup now uuid realm attributes s =
     bindR (assertGroupUnique realm attributes None s) (\<lambda>_.
     bindR (assertMembers realm attributes s) (\<lambda>_.
       let created = new_record now uuid attributes
       in Inr (created, set_groups realm (mset' uuid created (rl_groups (realm_of realm s))) s)))"

definition sc_replaceGroup ::
    "int \<Rightarrow> string \<Rightarrow> string \<Rightarrow> scim_attrs \<Rightarrow> nat option \<Rightarrow> scim_store \<Rightarrow> scim_error + (scim_record \<times> scim_store)" where
  "sc_replaceGroup now realm rid attributes expectedVersion s =
     bindR (assertVersion (sc_getGroup realm rid s) expectedVersion) (\<lambda>c.
     bindR (assertGroupUnique realm attributes (Some rid) s) (\<lambda>_.
     bindR (assertMembers realm attributes s) (\<lambda>_.
       let updated = replaceRecord now c attributes
       in Inr (updated, set_groups realm (mset' rid updated (rl_groups (realm_of realm s))) s))))"

definition sc_deleteGroup ::
    "string \<Rightarrow> string \<Rightarrow> nat option \<Rightarrow> scim_store \<Rightarrow> scim_error + (scim_record \<times> scim_store)" where
  "sc_deleteGroup realm rid expectedVersion s =
     bindR (assertVersion (sc_getGroup realm rid s) expectedVersion) (\<lambda>c.
       Inr (c, set_groups realm (mdel rid (rl_groups (realm_of realm s))) s))"

record scim_membership =
  sm_value :: string
  sm_display :: json

definition sc_listUserGroups :: "string \<Rightarrow> string \<Rightarrow> scim_store \<Rightarrow> scim_membership list" where
  "sc_listUserGroups realm userId s =
     map (\<lambda>g. \<lparr>sm_value = sr_id g, sm_display = scim_prop g ''displayName''\<rparr>)
       (filter (\<lambda>g. userId \<in> set (member_values g)) (mvals (rl_groups (realm_of realm s))))"

definition isUserActive :: "string \<Rightarrow> string \<Rightarrow> scim_store \<Rightarrow> bool" where
  "isUserActive realm rid s =
     (case sc_getUser realm rid s of None \<Rightarrow> False | Some u \<Rightarrow> scim_prop u ''active'' \<noteq> JBool False)"

end
