(* ===== verification/ScimFacts.thy ===== *)
theory ScimFacts
  imports ScimRepository
begin

text \<open>
  What the SCIM store keeps true, whatever requests run against it: per realm, unique user names
  and external identifiers, and groups whose members exist; and the optimistic concurrency
  contract \<open>versioned_store\<close> that replacing by version gives its clients.
\<close>

section \<open>Realms and maps\<close>

lemma realm_of_set [simp]:
  "realm_of r' (set_users r us s) = (if r' = r then (realm_of r s)\<lparr>rl_users := us\<rparr> else realm_of r' s)"
  "realm_of r' (set_groups r gs s) = (if r' = r then (realm_of r s)\<lparr>rl_groups := gs\<rparr> else realm_of r' s)"
  by (auto simp: realm_of_def set_users_def set_groups_def)

lemma replaceRecord_sel [simp]:
  "sr_attrs (replaceRecord now c a) = a" "sr_id (replaceRecord now c a) = sr_id c"
  "sr_version (replaceRecord now c a) = Suc (sr_version c)"
  by (simp_all add: replaceRecord_def)

lemma new_record_sel [simp]:
  "sr_attrs (new_record now u a) = a" "sr_id (new_record now u a) = u" "sr_version (new_record now u a) = 1"
  by (simp_all add: new_record_def)

lemma assertVersion_Inr [simp]:
  "assertVersion c e = Inr r \<longleftrightarrow> c = Some r \<and> (e = None \<or> e = Some (sr_version r))"
  by (auto simp: assertVersion_def split: option.splits)

lemma drop_member_sel [simp]: "sr_id (drop_member now u g) = sr_id g"
  by (simp add: drop_member_def Let_def)

lemma drop_member_version: "drop_member now u g = g \<or> sr_version g < sr_version (drop_member now u g)"
  by (simp add: drop_member_def Let_def)

lemma mget_map_snd: "mget (map (\<lambda>(k, v). (k, f v)) m) k = map_option f (mget m k)"
  by (induction m) auto

lemma map_wf_map_snd [simp]: "map_wf (map (\<lambda>(k, v). (k, f v)) m) = map_wf m"
  by (simp add: map_wf_def o_def case_prod_beta)

section \<open>Normalised groups\<close>

lemma normalizeGroup_members:
  assumes "normalizeGroup input = Inr a"
  obtains vs where "jprop (JObj a) ''members'' = JArr (map member_json vs)" "distinct vs"
proof -
  have seen: "foldR normalize_member es s0 = Inr seen \<Longrightarrow> distinct s0 \<Longrightarrow> distinct seen" for es s0 seen
    by (induction es arbitrary: s0) (auto simp: normalize_member_def Let_def split: if_splits)
  have mem: "normalize_members v = Inr w \<Longrightarrow> \<exists>vs. w = JArr (map member_json vs) \<and> distinct vs" for v w
    using seen [of _ "[]"] by (auto simp: normalize_members_def split: json.splits)
  from assms obtain src dn e m where oe: "opt_entry src (\<lambda>v. scim_text v False 256) ''externalId'' = Inr e"
    and om: "opt_entry src normalize_members ''members'' = Inr m"
    and a: "a = [(''displayName'', dn)] @ e @ (if m = [] then [(''members'', JArr [])] else m)"
    unfolding normalizeGroup_def by blast
  have e: "e = [] \<or> (\<exists>w. e = [(''externalId'', w)])"
    using oe by (auto simp: opt_entry_def split: option.splits)
  have m: "m = [] \<or> (\<exists>w vs. m = [(''members'', w)] \<and> w = JArr (map member_json vs) \<and> distinct vs)"
    using om by (auto simp: opt_entry_def split: option.splits dest!: mem)
  show thesis
  proof (cases "m = []")
    case True
    then show thesis using that [of "[]"] a e by auto
  next
    case False
    then show thesis using that m a e by auto
  qed
qed

section \<open>A consistent realm\<close>

definition group_members :: "scim_record \<Rightarrow> string list \<Rightarrow> bool" where
  "group_members g vs \<longleftrightarrow> scim_prop g ''members'' = JArr (map member_json vs) \<and> distinct vs"

definition realm_ok :: "scim_realm \<Rightarrow> bool" where
  "realm_ok d \<longleftrightarrow> map_wf (rl_users d) \<and> map_wf (rl_groups d) \<and>
     (\<forall>k u. mget (rl_users d) k = Some u \<longrightarrow> sr_id u = k) \<and>
     (\<forall>k g. mget (rl_groups d) k = Some g \<longrightarrow> sr_id g = k) \<and>
     (\<forall>k u k' u'. mget (rl_users d) k = Some u \<longrightarrow> mget (rl_users d) k' = Some u' \<longrightarrow> k \<noteq> k' \<longrightarrow>
        user_name u \<noteq> user_name u' \<and> \<not> external_clash (scim_prop u ''externalId'') u') \<and>
     (\<forall>k g k' g'. mget (rl_groups d) k = Some g \<longrightarrow> mget (rl_groups d) k' = Some g' \<longrightarrow> k \<noteq> k' \<longrightarrow>
        \<not> external_clash (scim_prop g ''externalId'') g') \<and>
     (\<forall>k g. mget (rl_groups d) k = Some g \<longrightarrow>
        (\<exists>vs. group_members g vs \<and> (\<forall>v\<in>set vs. mget (rl_users d) v \<noteq> None)))"

definition scim_ok :: "scim_store \<Rightarrow> bool" where
  "scim_ok s \<longleftrightarrow> (\<forall>r. realm_ok (realm_of r s))"

lemma external_clash_sym: "external_clash (scim_prop u ''externalId'') v \<Longrightarrow> external_clash (scim_prop v ''externalId'') u"
  by (auto simp: external_clash_def)

lemma all_mvals:
  assumes "map_wf m" "\<And>k u. mget m k = Some u \<Longrightarrow> f u = k"
  shows "(\<forall>u\<in>set (mvals m). P (f u) u) \<longleftrightarrow> (\<forall>k u. mget m k = Some u \<longrightarrow> P k u)"
proof (intro iffI allI impI ballI)
  fix k u assume "\<forall>u\<in>set (mvals m). P (f u) u" "mget m k = Some u"
  then show "P k u" using assms(2) [of k u] by (auto dest: mget_in_mvals)
next
  fix u assume a: "\<forall>k u. mget m k = Some u \<longrightarrow> P k u" and "u \<in> set (mvals m)"
  then obtain k where "mget m k = Some u" by (auto simp: set_mvals [OF assms(1)])
  then show "P (f u) u" using a assms(2) by auto
qed

lemma unique_user_iff:
  assumes ok: "realm_ok (realm_of r s)"
  shows "assertUserUnique r a ex s = Inr () \<longleftrightarrow>
    (\<forall>k u. mget (rl_users (realm_of r s)) k = Some u \<longrightarrow> Some k \<noteq> ex \<longrightarrow>
       user_name u \<noteq> js_lower (js_String (jprop (JObj a) ''userName'')) \<and> \<not> external_clash (jprop (JObj a) ''externalId'') u)"
proof -
  have wf: "map_wf (rl_users (realm_of r s))" "\<And>k u. mget (rl_users (realm_of r s)) k = Some u \<Longrightarrow> sr_id u = k"
    using ok by (auto simp: realm_ok_def)
  show ?thesis
    unfolding assertUserUnique_def guardR_simps list_all_iff
    using all_mvals [of _ sr_id "\<lambda>k u. Some k = ex \<or> (user_name u \<noteq> js_lower (js_String (jprop (JObj a) ''userName'')) \<and>
      \<not> external_clash (jprop (JObj a) ''externalId'') u)", OF wf] by (auto simp del: jprop.simps)
qed

lemma unique_group_iff:
  assumes ok: "realm_ok (realm_of r s)"
  shows "assertGroupUnique r a ex s = Inr () \<longleftrightarrow>
    (\<forall>k g. mget (rl_groups (realm_of r s)) k = Some g \<longrightarrow> Some k \<noteq> ex \<longrightarrow> \<not> external_clash (jprop (JObj a) ''externalId'') g)"
proof -
  have wf: "map_wf (rl_groups (realm_of r s))" "\<And>k u. mget (rl_groups (realm_of r s)) k = Some u \<Longrightarrow> sr_id u = k"
    using ok by (auto simp: realm_ok_def)
  show ?thesis
    unfolding assertGroupUnique_def guardR_simps list_all_iff
    using all_mvals [of _ sr_id "\<lambda>k u. Some k = ex \<or> \<not> external_clash (jprop (JObj a) ''externalId'') u", OF wf]
    by (auto simp del: jprop.simps)
qed

text \<open>Writing one user, and one group.\<close>

lemma realm_ok_put_user:
  assumes ok: "realm_ok d" and u: "sr_id u = k"
    and uniq: "\<forall>k' u'. mget (rl_users d) k' = Some u' \<longrightarrow> k' \<noteq> k \<longrightarrow>
       user_name u' \<noteq> user_name u \<and> \<not> external_clash (scim_prop u ''externalId'') u'"
  shows "realm_ok (d\<lparr>rl_users := mset' k u (rl_users d)\<rparr>)"
proof -
  have "\<forall>k1 u1 k2 u2. mget (mset' k u (rl_users d)) k1 = Some u1 \<longrightarrow> mget (mset' k u (rl_users d)) k2 = Some u2 \<longrightarrow> k1 \<noteq> k2 \<longrightarrow>
      user_name u1 \<noteq> user_name u2 \<and> \<not> external_clash (scim_prop u1 ''externalId'') u2"
  proof (intro allI impI)
    fix k1 u1 k2 u2
    assume "mget (mset' k u (rl_users d)) k1 = Some u1" "mget (mset' k u (rl_users d)) k2 = Some u2" "k1 \<noteq> k2"
    moreover have "\<lbrakk>mget (rl_users d) k1 = Some u1; mget (rl_users d) k2 = Some u2; k1 \<noteq> k2\<rbrakk> \<Longrightarrow>
       user_name u1 \<noteq> user_name u2 \<and> \<not> external_clash (scim_prop u1 ''externalId'') u2"
      using ok unfolding realm_ok_def by blast
    ultimately show "user_name u1 \<noteq> user_name u2 \<and> \<not> external_clash (scim_prop u1 ''externalId'') u2"
      using uniq external_clash_sym [of u1 u2] by (cases "k1 = k"; cases "k2 = k") fastforce+
  qed
  moreover have "\<forall>k' g. mget (rl_groups d) k' = Some g \<longrightarrow>
      (\<exists>vs. group_members g vs \<and> (\<forall>v\<in>set vs. mget (mset' k u (rl_users d)) v \<noteq> None))"
    using ok unfolding realm_ok_def by fastforce
  ultimately show ?thesis using ok u unfolding realm_ok_def by (simp del: not_None_eq)
qed

lemma realm_ok_put_group:
  assumes ok: "realm_ok d" and g: "sr_id g = k" "group_members g vs" "\<forall>v\<in>set vs. mget (rl_users d) v \<noteq> None"
    and uniq: "\<forall>k' g'. mget (rl_groups d) k' = Some g' \<longrightarrow> k' \<noteq> k \<longrightarrow> \<not> external_clash (scim_prop g ''externalId'') g'"
  shows "realm_ok (d\<lparr>rl_groups := mset' k g (rl_groups d)\<rparr>)"
proof -
  have "\<forall>k1 u1 k2 u2. mget (mset' k g (rl_groups d)) k1 = Some u1 \<longrightarrow> mget (mset' k g (rl_groups d)) k2 = Some u2 \<longrightarrow> k1 \<noteq> k2 \<longrightarrow>
      \<not> external_clash (scim_prop u1 ''externalId'') u2"
  proof (intro allI impI)
    fix k1 u1 k2 u2
    assume "mget (mset' k g (rl_groups d)) k1 = Some u1" "mget (mset' k g (rl_groups d)) k2 = Some u2" "k1 \<noteq> k2"
    moreover have "\<lbrakk>mget (rl_groups d) k1 = Some u1; mget (rl_groups d) k2 = Some u2; k1 \<noteq> k2\<rbrakk> \<Longrightarrow>
       \<not> external_clash (scim_prop u1 ''externalId'') u2"
      using ok unfolding realm_ok_def by blast
    ultimately show "\<not> external_clash (scim_prop u1 ''externalId'') u2"
      using uniq external_clash_sym [of u1 u2] by (cases "k1 = k"; cases "k2 = k") fastforce+
  qed
  moreover have "\<forall>k' g'. mget (mset' k g (rl_groups d)) k' = Some g' \<longrightarrow>
      (\<exists>vs. group_members g' vs \<and> (\<forall>v\<in>set vs. mget (rl_users d) v \<noteq> None))"
    using ok g(2,3) unfolding realm_ok_def by auto
  ultimately show ?thesis using ok g(1) unfolding realm_ok_def by (simp del: not_None_eq)
qed


section \<open>Every operation keeps the store consistent\<close>

text \<open>
  What a client of the store may do: bodies reach it normalised, identifiers are fresh
  (\<open>randomUUID\<close>), and \<open>B\<close> are identifiers that are never chosen again.
\<close>

inductive scim_step :: "string set \<Rightarrow> string \<Rightarrow> scim_store \<Rightarrow> scim_store \<Rightarrow> bool" for B where
  s_createUser: "scim_normalizeUser input JUndef = Inr a \<Longrightarrow> uuid \<notin> B \<Longrightarrow> sc_getUser r uuid s = None \<Longrightarrow>
    sc_createUser now uuid r a s = Inr (x, s') \<Longrightarrow> scim_step B r s s'"
| s_replaceUser: "scim_normalizeUser input ep = Inr a \<Longrightarrow> sc_replaceUser now r rid a v s = Inr (x, s') \<Longrightarrow> scim_step B r s s'"
| s_deleteUser: "sc_deleteUser now r rid v s = Inr (x, s') \<Longrightarrow> scim_step B r s s'"
| s_createGroup: "normalizeGroup input = Inr a \<Longrightarrow> uuid \<notin> B \<Longrightarrow> sc_getGroup r uuid s = None \<Longrightarrow>
    sc_createGroup now uuid r a s = Inr (x, s') \<Longrightarrow> scim_step B r s s'"
| s_replaceGroup: "normalizeGroup input = Inr a \<Longrightarrow> sc_replaceGroup now r rid a v s = Inr (x, s') \<Longrightarrow> scim_step B r s s'"
| s_deleteGroup: "sc_deleteGroup r rid v s = Inr (x, s') \<Longrightarrow> scim_step B r s s'"

inductive scim_reach :: "scim_store \<Rightarrow> bool" where
  scim_empty: "scim_reach []"
| scim_next: "scim_reach s \<Longrightarrow> scim_step {} r s s' \<Longrightarrow> scim_reach s'"

lemma scim_step_other_realm: "scim_step B r s s' \<Longrightarrow> r' \<noteq> r \<Longrightarrow> realm_of r' s' = realm_of r' s"
  by (auto elim!: scim_step.cases simp: sc_createUser_def sc_replaceUser_def sc_deleteUser_def sc_createGroup_def
    sc_replaceGroup_def sc_deleteGroup_def Let_def)

lemma user_name_new: "sr_attrs u = a \<Longrightarrow> user_name u = js_lower (js_String (jprop (JObj a) ''userName''))"
  by (simp add: user_name_def scim_prop_def)

lemma external_new: "sr_attrs u = a \<Longrightarrow> scim_prop u ''externalId'' = jprop (JObj a) ''externalId''"
  by (simp add: scim_prop_def)

lemma put_user_ok:
  assumes ok: "realm_ok (realm_of r s)" and u: "sr_id u = k" "sr_attrs u = a"
    and uniq: "assertUserUnique r a ex s = Inr ()" and ex: "ex = Some k \<or> ex = None"
  shows "realm_ok ((realm_of r s)\<lparr>rl_users := mset' k u (rl_users (realm_of r s))\<rparr>)"
proof (rule realm_ok_put_user [OF ok u(1)])
  show "\<forall>k' u'. mget (rl_users (realm_of r s)) k' = Some u' \<longrightarrow> k' \<noteq> k \<longrightarrow>
      user_name u' \<noteq> user_name u \<and> \<not> external_clash (scim_prop u ''externalId'') u'"
    using uniq ex unfolding unique_user_iff [OF ok] user_name_new [OF u(2)] external_new [OF u(2)] by (auto simp del: jprop.simps)
qed

lemma members_checked:
  assumes "assertMembers r a s = Inr ()" "jprop (JObj a) ''members'' = JArr (map member_json vs)"
  shows "\<forall>v\<in>set vs. mget (rl_users (realm_of r s)) v \<noteq> None"
  using assms by (auto simp: assertMembers_def list_all_iff array_of_def member_json_def)

lemma put_group_ok:
  assumes ok: "realm_ok (realm_of r s)" and g: "sr_id g = k" "sr_attrs g = a" and norm: "normalizeGroup input = Inr a"
    and uniq: "assertGroupUnique r a ex s = Inr ()" and mem: "assertMembers r a s = Inr ()"
    and ex: "ex = Some k \<or> ex = None"
  shows "realm_ok ((realm_of r s)\<lparr>rl_groups := mset' k g (rl_groups (realm_of r s))\<rparr>)"
proof -
  obtain vs where vs: "jprop (JObj a) ''members'' = JArr (map member_json vs)" "distinct vs"
    using normalizeGroup_members [OF norm] .
  show ?thesis
  proof (rule realm_ok_put_group [OF ok g(1)])
    show "group_members g vs" using vs g(2) by (simp add: group_members_def scim_prop_def)
    show "\<forall>v\<in>set vs. mget (rl_users (realm_of r s)) v \<noteq> None" by (rule members_checked [OF mem vs(1)])
    show "\<forall>k' g'. mget (rl_groups (realm_of r s)) k' = Some g' \<longrightarrow> k' \<noteq> k \<longrightarrow> \<not> external_clash (scim_prop g ''externalId'') g'"
      using uniq ex unfolding unique_group_iff [OF ok] external_new [OF g(2)] by (auto simp del: jprop.simps)
  qed
qed

text \<open>Deleting a user takes it out of every group.\<close>

lemma drop_member_members:
  assumes "group_members g vs" shows "group_members (drop_member now u g) (filter (\<lambda>v. v \<noteq> u) vs)"
proof -
  have p: "jprop (member_json v) ''value'' = JStr v" for v by (simp add: member_json_def)
  have f: "filter (\<lambda>m. jprop m ''value'' \<noteq> JStr u) (map member_json vs) = map member_json (filter (\<lambda>v. v \<noteq> u) vs)"
    by (induction vs) (auto simp: p)
  show ?thesis
  proof (cases "u \<in> set vs")
    case True
    then have "length (filter (\<lambda>v. v \<noteq> u) vs) \<noteq> length vs"
      using length_filter_less [of u vs "\<lambda>v. v \<noteq> u"] by simp
    then show ?thesis using assms f by (simp add: drop_member_def group_members_def scim_prop_def array_of_def Let_def)
  next
    case False
    then have "filter (\<lambda>v. v \<noteq> u) vs = vs" by (simp add: filter_id_conv) blast
    then show ?thesis using assms f by (simp add: drop_member_def group_members_def array_of_def Let_def)
  qed
qed

lemma drop_member_external [simp]: "scim_prop (drop_member now u g) ''externalId'' = scim_prop g ''externalId''"
  by (simp add: drop_member_def scim_prop_def Let_def)

lemma drop_member_clash [simp]: "external_clash e (drop_member now u g) = external_clash e g"
  by (simp add: external_clash_def)

lemma delete_user_ok:
  assumes ok: "realm_ok d"
  shows "realm_ok (d\<lparr>rl_users := mdel k (rl_users d), rl_groups := map (\<lambda>(i, g). (i, drop_member now k g)) (rl_groups d)\<rparr>)"
proof -
  have "\<forall>i g. mget (map (\<lambda>(i, g). (i, drop_member now k g)) (rl_groups d)) i = Some g \<longrightarrow>
      (\<exists>vs. group_members g vs \<and> (\<forall>v\<in>set vs. mget (mdel k (rl_users d)) v \<noteq> None))"
  proof (intro allI impI)
    fix i g assume "mget (map (\<lambda>(i, g). (i, drop_member now k g)) (rl_groups d)) i = Some g"
    then obtain g0 where g0: "mget (rl_groups d) i = Some g0" "g = drop_member now k g0" by (auto simp: mget_map_snd)
    then obtain vs where vs: "group_members g0 vs" "\<forall>v\<in>set vs. mget (rl_users d) v \<noteq> None"
      using ok unfolding realm_ok_def by blast
    show "\<exists>vs. group_members g vs \<and> (\<forall>v\<in>set vs. mget (mdel k (rl_users d)) v \<noteq> None)"
      using drop_member_members [OF vs(1), of now k] vs(2) g0(2) by (intro exI [of _ "filter (\<lambda>v. v \<noteq> k) vs"]) auto
  qed
  moreover have "\<forall>k1 u1 k2 u2. mget (mdel k (rl_users d)) k1 = Some u1 \<longrightarrow> mget (mdel k (rl_users d)) k2 = Some u2 \<longrightarrow> k1 \<noteq> k2 \<longrightarrow>
      user_name u1 \<noteq> user_name u2 \<and> \<not> external_clash (scim_prop u1 ''externalId'') u2"
    using ok unfolding realm_ok_def by (simp split: if_splits)
  moreover have "\<forall>k1 g1 k2 g2. mget (map (\<lambda>(i, g). (i, drop_member now k g)) (rl_groups d)) k1 = Some g1 \<longrightarrow>
      mget (map (\<lambda>(i, g). (i, drop_member now k g)) (rl_groups d)) k2 = Some g2 \<longrightarrow> k1 \<noteq> k2 \<longrightarrow>
      \<not> external_clash (scim_prop g1 ''externalId'') g2"
    using ok unfolding realm_ok_def mget_map_snd by (auto simp: drop_member_clash) 
  ultimately show ?thesis using ok unfolding realm_ok_def by (auto simp: mget_map_snd)
qed

lemma delete_group_ok: "realm_ok d \<Longrightarrow> realm_ok (d\<lparr>rl_groups := mdel k (rl_groups d)\<rparr>)"
  unfolding realm_ok_def by (simp split: if_splits)

lemma scim_step_ok: "scim_step B r s s' \<Longrightarrow> scim_ok s \<Longrightarrow> scim_ok s'"
proof -
  assume step: "scim_step B r s s'" and ok: "scim_ok s"
  have d: "realm_ok (realm_of r s)" using ok by (simp add: scim_ok_def)
  have "realm_ok (realm_of r s')"
    using step
  proof cases
    case (s_createUser input a uuid now x)
    then show ?thesis using put_user_ok [OF d, of "new_record now uuid a" uuid a None]
      by (auto simp: sc_createUser_def sc_getUser_def Let_def)
  next
    case (s_replaceUser input ep a now rid v x)
    then obtain c where c: "mget (rl_users (realm_of r s)) rid = Some c" "assertUserUnique r a (Some rid) s = Inr ()"
        "s' = set_users r (mset' rid (replaceRecord now c a) (rl_users (realm_of r s))) s"
      by (auto simp: sc_replaceUser_def sc_getUser_def Let_def)
    have "sr_id c = rid" using d c(1) by (auto simp: realm_ok_def)
    then show ?thesis using put_user_ok [OF d, of "replaceRecord now c a" rid a "Some rid"] c by simp
  next
    case (s_deleteUser now rid v x)
    then show ?thesis using delete_user_ok [OF d, where k = rid and now = now] by (auto simp: sc_deleteUser_def Let_def)
  next
    case (s_createGroup input a uuid now x)
    then show ?thesis using put_group_ok [OF d, of "new_record now uuid a" uuid a input None]
      by (auto simp: sc_createGroup_def sc_getGroup_def Let_def)
  next
    case (s_replaceGroup input a now rid v x)
    then obtain c where c: "mget (rl_groups (realm_of r s)) rid = Some c" "assertGroupUnique r a (Some rid) s = Inr ()"
        "assertMembers r a s = Inr ()" "s' = set_groups r (mset' rid (replaceRecord now c a) (rl_groups (realm_of r s))) s"
      by (auto simp: sc_replaceGroup_def sc_getGroup_def Let_def)
    have "sr_id c = rid" using d c(1) by (auto simp: realm_ok_def)
    then show ?thesis using put_group_ok [OF d, of "replaceRecord now c a" rid a input "Some rid"] c s_replaceGroup(1) by simp
  next
    case (s_deleteGroup rid v x)
    then show ?thesis using delete_group_ok [OF d, of rid] by (auto simp: sc_deleteGroup_def Let_def)
  qed
  then show ?thesis using ok scim_step_other_realm [OF step] by (metis scim_ok_def)
qed

lemma scim_ok_Nil: "scim_ok []"
  by (simp add: scim_ok_def realm_ok_def realm_of_def)

lemma scim_reach_ok: "scim_reach s \<Longrightarrow> scim_ok s"
  by (induction rule: scim_reach.induct) (rule scim_ok_Nil, rule scim_step_ok)

section \<open>Optimistic concurrency\<close>

text \<open>
  The contract of replacing by version: \<open>others k\<close> is one step of another client, which may delete
  the resource but not create one under its identifier again.
\<close>

locale versioned_store =
  fixes get :: "'k \<Rightarrow> 's \<Rightarrow> 'r option"
    and version :: "'r \<Rightarrow> nat"
    and replace :: "'t \<Rightarrow> 'k \<Rightarrow> 'a \<Rightarrow> nat \<Rightarrow> 's \<Rightarrow> 'e + ('r \<times> 's)"
    and others :: "'k \<Rightarrow> 's \<Rightarrow> 's \<Rightarrow> bool"
  assumes replace_spec: "replace t k a v s = Inr (r, s') \<Longrightarrow>
      \<exists>c. get k s = Some c \<and> version c = v \<and> get k s' = Some r \<and> version r = Suc v"
    and others_spec: "others k s s' \<Longrightarrow> get k s' = get k s \<or> get k s' = None \<or>
      (\<exists>c c'. get k s = Some c \<and> get k s' = Some c' \<and> version c < version c')"
begin

lemma others_star:
  "(others k)\<^sup>*\<^sup>* s s' \<Longrightarrow> get k s' = get k s \<or> get k s' = None \<or>
      (\<exists>c c'. get k s = Some c \<and> get k s' = Some c' \<and> version c < version c')"
proof (induction rule: rtranclp_induct)
  case (step y z)
  from others_spec [OF step(2)] step(3) show ?case by (auto dest: less_trans)
qed simp

text \<open>A replacement with the version that was read succeeds only if nothing changed since.\<close>

lemma no_lost_update:
  assumes "get k s = Some c" and "(others k)\<^sup>*\<^sup>* s s1" and "replace t k a (version c) s1 = Inr (r, s2)"
  shows "get k s1 = Some c \<and> get k s2 = Some r \<and> version r = Suc (version c)"
  using others_star [OF assms(2)] replace_spec [OF assms(3)] assms(1) by auto

text \<open>Of two replacements made from the same read only one succeeds.\<close>

lemma one_winner:
  assumes "replace t k a v s = Inr (r, s1)" and "(others k)\<^sup>*\<^sup>* s1 s2"
  shows "replace t' k a' v s2 \<noteq> Inr (r', s3)"
proof
  assume b: "replace t' k a' v s2 = Inr (r', s3)"
  show False using replace_spec [OF assms(1)] replace_spec [OF b] others_star [OF assms(2)] by auto
qed

end

text \<open>\<open>scim_others r rid\<close>: a step in any realm; no new resource is given the identifier \<open>rid\<close>.\<close>

definition scim_others :: "string \<times> string \<Rightarrow> scim_store \<Rightarrow> scim_store \<Rightarrow> bool" where
  "scim_others k s s' \<longleftrightarrow> (\<exists>r. scim_step {snd k} r s s')"

definition user_at :: "string \<times> string \<Rightarrow> scim_store \<Rightarrow> scim_record option" where
  "user_at k s = sc_getUser (fst k) (snd k) s"

definition group_at :: "string \<times> string \<Rightarrow> scim_store \<Rightarrow> scim_record option" where
  "group_at k s = sc_getGroup (fst k) (snd k) s"

definition replace_user_at where
  "replace_user_at now k a v s = sc_replaceUser now (fst k) (snd k) a (Some v) s"

definition replace_group_at where
  "replace_group_at now k a v s = sc_replaceGroup now (fst k) (snd k) a (Some v) s"

interpretation scim_users: versioned_store user_at sr_version replace_user_at scim_others
proof (unfold_locales, goal_cases)
  case (1 t k a v s r s')
  then show ?case
    by (auto simp: replace_user_at_def sc_replaceUser_def user_at_def sc_getUser_def Let_def)
next
  case (2 k s s')
  then obtain r where st: "scim_step {snd k} r s s'" by (auto simp: scim_others_def)
  show ?case
  proof (cases "r = fst k")
    case False
    then show ?thesis using scim_step_other_realm [OF st, of "fst k"] by (simp add: user_at_def sc_getUser_def)
  next
    case True
    from st True show ?thesis
      by cases (auto simp: sc_createUser_def sc_replaceUser_def sc_deleteUser_def sc_createGroup_def
        sc_replaceGroup_def sc_deleteGroup_def user_at_def sc_getUser_def Let_def)
  qed
qed

interpretation scim_groups: versioned_store group_at sr_version replace_group_at scim_others
proof (unfold_locales, goal_cases)
  case (1 t k a v s r s')
  then show ?case
    by (auto simp: replace_group_at_def sc_replaceGroup_def group_at_def sc_getGroup_def Let_def)
next
  case (2 k s s')
  then obtain r where st: "scim_step {snd k} r s s'" by (auto simp: scim_others_def)
  show ?case
  proof (cases "r = fst k")
    case False
    then show ?thesis using scim_step_other_realm [OF st, of "fst k"] by (simp add: group_at_def sc_getGroup_def)
  next
    case True
    have dm: "mget (map (\<lambda>(i, g). (i, drop_member now u g)) gs) i = mget gs i \<or>
        (\<exists>c c'. mget gs i = Some c \<and> mget (map (\<lambda>(i, g). (i, drop_member now u g)) gs) i = Some c' \<and> sr_version c < sr_version c')"
      for now u gs i
      using drop_member_version [of now u "the (mget gs i)"] by (cases "mget gs i") (auto simp: mget_map_snd)
    from st True show ?thesis
    proof cases
      case (s_deleteUser now rid v x)
      then show ?thesis using dm [of now rid "rl_groups (realm_of r s)" "snd k"] True
        by (auto simp: sc_deleteUser_def group_at_def sc_getGroup_def Let_def)
    qed (auto simp: sc_createUser_def sc_replaceUser_def sc_createGroup_def
        sc_replaceGroup_def sc_deleteGroup_def group_at_def sc_getGroup_def Let_def)
  qed
qed

end
