(* ===== verification/ScimSchemas.thy ===== *)
theory ScimSchemas
  imports ScimFacts
begin

text \<open>
  The discovery documents of SCIM (\<open>src/scim/constants.js\<close>): the schemas of User and Group, the
  service configuration and the resource types, and the agreement of the advertised schemas with
  the attributes that normalisation accepts.
\<close>

definition URN_serviceProviderConfig :: string where
  "URN_serviceProviderConfig = ''urn:ietf:params:scim:schemas:core:2.0:ServiceProviderConfig''"
definition URN_resourceType :: string where "URN_resourceType = ''urn:ietf:params:scim:schemas:core:2.0:ResourceType''"
definition URN_schema :: string where "URN_schema = ''urn:ietf:params:scim:schemas:core:2.0:Schema''"

text \<open>\<open>{ ...defaults, ...options }\<close>.\<close>

definition spread :: "(string \<times> json) list \<Rightarrow> (string \<times> json) list \<Rightarrow> (string \<times> json) list" where
  "spread base options = foldl (\<lambda>o' (k, v). mset' k v o') base options"

definition stringAttribute :: "string \<Rightarrow> (string \<times> json) list \<Rightarrow> json" where
  "stringAttribute name options = JObj (spread
     [(''name'', JStr name), (''type'', JStr ''string''), (''multiValued'', JBool False), (''required'', JBool False),
      (''caseExact'', JBool False), (''mutability'', JStr ''readWrite''), (''returned'', JStr ''default''), (''uniqueness'', JStr ''none'')]
     options)"

definition complexAttribute :: "string \<Rightarrow> json list \<Rightarrow> (string \<times> json) list \<Rightarrow> json" where
  "complexAttribute name subAttributes options = JObj (spread
     [(''name'', JStr name), (''type'', JStr ''complex''), (''multiValued'', JBool False), (''required'', JBool False),
      (''mutability'', JStr ''readWrite''), (''returned'', JStr ''default''), (''subAttributes'', JArr subAttributes)] options)"

definition multiComplex :: "string \<Rightarrow> json list \<Rightarrow> (string \<times> json) list \<Rightarrow> json" where
  "multiComplex name subAttributes options = complexAttribute name subAttributes (spread [(''multiValued'', JBool True)] options)"

definition boolAttribute :: "string \<Rightarrow> json" where
  "boolAttribute name = JObj [(''name'', JStr name), (''type'', JStr ''boolean''), (''multiValued'', JBool False),
     (''required'', JBool False), (''mutability'', JStr ''readWrite''), (''returned'', JStr ''default'')]"

definition plainAttribute :: "string \<Rightarrow> json" where "plainAttribute name = stringAttribute name []"

definition typedValue :: "json list" where
  "typedValue = map plainAttribute [''value'', ''display'', ''type''] @ [boolAttribute ''primary'']"

definition readOnly :: "(string \<times> json) list" where "readOnly = [(''mutability'', JStr ''readOnly'')]"

definition USER_SCHEMA :: json where
  "USER_SCHEMA = JObj [(''schemas'', JArr [JStr URN_schema]), (''id'', JStr URN_user), (''name'', JStr ''User''),
     (''description'', JStr ''AuthMe SCIM 2.0 User''), (''attributes'', JArr (
      [stringAttribute ''userName'' [(''required'', JBool True), (''uniqueness'', JStr ''server'')],
       complexAttribute ''name'' (map plainAttribute [''formatted'', ''familyName'', ''givenName'', ''middleName'',
         ''honorificPrefix'', ''honorificSuffix'']) [],
       plainAttribute ''displayName'', plainAttribute ''nickName'',
       stringAttribute ''profileUrl'' [(''type'', JStr ''reference''), (''referenceTypes'', JArr [JStr ''external''])],
       plainAttribute ''title'', plainAttribute ''userType'', plainAttribute ''preferredLanguage'',
       plainAttribute ''locale'', plainAttribute ''timezone'', boolAttribute ''active'',
       stringAttribute ''password'' [(''caseExact'', JBool True), (''mutability'', JStr ''writeOnly''), (''returned'', JStr ''never'')],
       multiComplex ''emails'' typedValue [], multiComplex ''phoneNumbers'' typedValue [],
       multiComplex ''ims'' typedValue [], multiComplex ''photos'' typedValue [],
       multiComplex ''addresses'' (map plainAttribute [''formatted'', ''streetAddress'', ''locality'', ''region'', ''postalCode'',
         ''country'', ''type''] @ [boolAttribute ''primary'']) [],
       multiComplex ''groups'' [stringAttribute ''value'' readOnly,
         stringAttribute ''$ref'' ([(''type'', JStr ''reference'')] @ readOnly @ [(''referenceTypes'', JArr [JStr ''Group''])]),
         stringAttribute ''display'' readOnly, stringAttribute ''type'' readOnly] readOnly,
       multiComplex ''entitlements'' typedValue [], multiComplex ''roles'' typedValue [],
       multiComplex ''x509Certificates'' [stringAttribute ''value'' [(''caseExact'', JBool True)]] []]))]"

definition immutable :: "(string \<times> json) list" where "immutable = [(''mutability'', JStr ''immutable'')]"

definition GROUP_SCHEMA :: json where
  "GROUP_SCHEMA = JObj [(''schemas'', JArr [JStr URN_schema]), (''id'', JStr URN_group), (''name'', JStr ''Group''),
     (''description'', JStr ''AuthMe SCIM 2.0 Group''), (''attributes'', JArr
      [stringAttribute ''displayName'' [(''required'', JBool True)],
       multiComplex ''members'' [stringAttribute ''value'' immutable,
         stringAttribute ''$ref'' ([(''type'', JStr ''reference'')] @ immutable @ [(''referenceTypes'', JArr [JStr ''User''])]),
         stringAttribute ''display'' readOnly,
         stringAttribute ''type'' (immutable @ [(''canonicalValues'', JArr [JStr ''User''])])] []])]"

definition serviceProviderConfig :: "string \<Rightarrow> nat \<Rightarrow> json" where
  "serviceProviderConfig baseUrl maxResults = JObj [(''schemas'', JArr [JStr URN_serviceProviderConfig]),
     (''documentationUri'', JStr ''https://www.rfc-editor.org/rfc/rfc7644''), (''patch'', JObj [(''supported'', JBool True)]),
     (''bulk'', JObj [(''supported'', JBool False), (''maxOperations'', JNum 0), (''maxPayloadSize'', JNum 0)]),
     (''filter'', JObj [(''supported'', JBool True), (''maxResults'', JNum (int maxResults))]),
     (''changePassword'', JObj [(''supported'', JBool False)]), (''sort'', JObj [(''supported'', JBool False)]),
     (''etag'', JObj [(''supported'', JBool True)]),
     (''authenticationSchemes'', JArr [JObj [(''type'', JStr ''oauthbearertoken''), (''name'', JStr ''Bearer Token''),
        (''description'', JStr ''Bearer token supplied by the AuthMe SCIM integration''),
        (''specUri'', JStr ''https://www.rfc-editor.org/rfc/rfc6750''), (''primary'', JBool True)]]),
     (''meta'', JObj [(''resourceType'', JStr ''ServiceProviderConfig''), (''location'', JStr (baseUrl @ ''/ServiceProviderConfig''))])]"

definition resource_type_doc :: "string \<Rightarrow> string \<Rightarrow> string \<Rightarrow> string \<Rightarrow> string \<Rightarrow> json" where
  "resource_type_doc baseUrl name endpoint description urn = JObj [(''schemas'', JArr [JStr URN_resourceType]),
     (''id'', JStr name), (''name'', JStr name), (''endpoint'', JStr endpoint), (''description'', JStr description),
     (''schema'', JStr urn), (''schemaExtensions'', JArr []),
     (''meta'', JObj [(''resourceType'', JStr ''ResourceType''), (''location'', JStr (baseUrl @ ''/ResourceTypes/'' @ name))])]"

definition resourceTypes :: "string \<Rightarrow> json list" where
  "resourceTypes baseUrl =
     [resource_type_doc baseUrl ''User'' ''/Users'' ''AuthMe user account'' URN_user,
      resource_type_doc baseUrl ''Group'' ''/Groups'' ''AuthMe group'' URN_group]"

text \<open>The advertised names, without the read-only \<open>groups\<close>, are the accepted ones, beside \<open>externalId\<close>.\<close>

definition schema_names :: "json \<Rightarrow> string list" where
  "schema_names schema = map (\<lambda>a. js_String (jprop a ''name''))
     (filter (\<lambda>a. jprop a ''mutability'' \<noteq> JStr ''readOnly'') (array_of (jprop schema ''attributes'')))"

lemma schema_matches_names:
  "set (''externalId'' # schema_names USER_SCHEMA) = set (map snd userNames)"
  "set (''externalId'' # schema_names GROUP_SCHEMA) = set (map snd groupNames)"
proof -
  note d = schema_names_def array_of_def stringAttribute_def complexAttribute_def multiComplex_def boolAttribute_def
    plainAttribute_def spread_def readOnly_def immutable_def
  have "schema_names USER_SCHEMA = [''userName'', ''name'', ''displayName'', ''nickName'', ''profileUrl'', ''title'', ''userType'',
    ''preferredLanguage'', ''locale'', ''timezone'', ''active'', ''password'', ''emails'', ''phoneNumbers'', ''ims'', ''photos'',
    ''addresses'', ''entitlements'', ''roles'', ''x509Certificates'']"
    by (simp add: USER_SCHEMA_def d)
  then show "set (''externalId'' # schema_names USER_SCHEMA) = set (map snd userNames)"
    by (simp only: set_simps userNames_def list.map snd_conv)
  have "schema_names GROUP_SCHEMA = [''displayName'', ''members'']"
    by (simp add: GROUP_SCHEMA_def d)
  then show "set (''externalId'' # schema_names GROUP_SCHEMA) = set (map snd groupNames)"
    by (simp only: set_simps groupNames_def list.map snd_conv)
qed

end
