(* ===== verification/ScimRouter.thy ===== *)
theory ScimRouter
  imports ScimSchemas
begin

text \<open>
  The SCIM router (\<open>src/scim/router.js\<close>, \<open>src/scim/config.js\<close>, \<open>src/scim/extension.js\<close>): bearer authentication, the
  representation of resources, conditional requests, and every route, over the operations of a
  repository. \<open>enc\<close> is \<open>encodeURIComponent\<close>. A route is a handler: what it wrote before it failed
  stays written.
\<close>

section \<open>Tokens\<close>

record scim_token =
  st_id :: string
  st_token :: string

text \<open>\<open>safeEqual\<close> compares SHA-256 digests; \<open>sha\<close> is that hash.\<close>

definition safeEqual :: "(string \<Rightarrow> 'h) \<Rightarrow> string \<Rightarrow> string \<Rightarrow> bool" where
  "safeEqual sha left right \<longleftrightarrow> sha left = sha right"

definition scim_authenticate ::
    "(string \<Rightarrow> 'h) \<Rightarrow> (string \<times> scim_token list) list \<Rightarrow> string \<Rightarrow> string \<Rightarrow> string option" where
  "scim_authenticate sha tokensByRealm realm tok =
     foldl (\<lambda>actor candidate. if safeEqual sha tok (st_token candidate) then Some (st_id candidate) else actor)
       None (case mget tokensByRealm realm of None \<Rightarrow> [] | Some ts \<Rightarrow> ts)"

text \<open>\<open>bytes\<close> is \<open>Buffer.byteLength\<close>, \<open>placeholder\<close> the test for an example secret.\<close>

definition scim_token_item ::
    "(string \<Rightarrow> nat) \<Rightarrow> (string \<Rightarrow> bool) \<Rightarrow> bool \<Rightarrow> json \<Rightarrow> scim_token list \<Rightarrow> string + scim_token list" where
  "scim_token_item bytes placeholder devMode item seen =
     (let bad = ''AUTHME_SCIM_CONFIGURATION_INVALID'' in
      case item of
        JObj kvs \<Rightarrow>
          if \<exists>k\<in>set (map fst kvs). k \<notin> {''id'', ''token''} then Inl bad
          else (case (jprop item ''id'', jprop item ''token'') of
            (JStr i, t) \<Rightarrow>
              if \<not> ident_re is_lower is_slug 1 63 i \<or> i \<in> set (map st_id seen) then Inl bad
              else (case t of
                 JStr tok \<Rightarrow>
                   if bytes tok < 32 \<or> bytes tok > 4096 then Inl bad
                   else if \<not> devMode \<and> placeholder tok then Inl bad
                   else Inr (seen @ [\<lparr>st_id = i, st_token = tok\<rparr>])
               | _ \<Rightarrow> Inl bad)
          | _ \<Rightarrow> Inl bad)
      | _ \<Rightarrow> Inl bad)"

text \<open>\<open>parse\<close> is \<open>JSON.parse\<close>; \<open>text\<close> the value of the variable, empty when unset.\<close>

definition parseScimTokens ::
    "(string \<Rightarrow> json option) \<Rightarrow> (string \<Rightarrow> nat) \<Rightarrow> (string \<Rightarrow> bool) \<Rightarrow> string list \<Rightarrow> bool \<Rightarrow> string \<Rightarrow>
     string + (string \<times> scim_token list) list" where
  "parseScimTokens parse bytes placeholder realms devMode text =
     (let bad = ''AUTHME_SCIM_CONFIGURATION_INVALID'' in
      if text = [] then Inr (map (\<lambda>r. (r, [])) realms)
      else (case parse text of
        Some (JObj kvs) \<Rightarrow>
          if \<exists>r\<in>set (map fst kvs). r \<notin> set realms then Inl bad
          else mapR (\<lambda>r. let items = jprop (JObj kvs) r in
                 if nullish items then Inr (r, [])
                 else (case items of
                   JArr xs \<Rightarrow> bindR (foldR (scim_token_item bytes placeholder devMode) xs []) (\<lambda>ts. Inr (r, ts))
                 | _ \<Rightarrow> Inl bad)) realms
      | _ \<Rightarrow> Inl bad))"

section \<open>Requests and responses\<close>

record scim_request =
  rq_realm :: string
  rq_authorization :: "string option"
  rq_ifMatch :: "string option"
  rq_ifNoneMatch :: "string option"
  rq_query :: json
  rq_body :: "json option"

record scim_response =
  rs_status :: nat
  rs_etag :: "string option"
  rs_location :: "string option"
  rs_challenge :: "string option"
  rs_body :: "json option"

record scim_event =
  ev_realm :: string
  ev_actor :: string
  ev_type :: string
  ev_resourceType :: string
  ev_resourceId :: string
  ev_changes :: "string list"

record 's scim_ops =
  so_listUsers :: "string \<Rightarrow> scim_filter option \<Rightarrow> nat \<Rightarrow> nat \<Rightarrow> 's \<Rightarrow> nat \<times> scim_record list"
  so_getUser :: "string \<Rightarrow> string \<Rightarrow> 's \<Rightarrow> scim_record option"
  so_createUser :: "string \<Rightarrow> scim_attrs \<Rightarrow> 's \<Rightarrow> scim_error + (scim_record \<times> 's)"
  so_replaceUser :: "string \<Rightarrow> string \<Rightarrow> scim_attrs \<Rightarrow> nat \<Rightarrow> 's \<Rightarrow> scim_error + (scim_record \<times> 's)"
  so_deleteUser :: "string \<Rightarrow> string \<Rightarrow> nat \<Rightarrow> 's \<Rightarrow> scim_error + (scim_record \<times> 's)"
  so_listGroups :: "string \<Rightarrow> scim_filter option \<Rightarrow> nat \<Rightarrow> nat \<Rightarrow> 's \<Rightarrow> nat \<times> scim_record list"
  so_getGroup :: "string \<Rightarrow> string \<Rightarrow> 's \<Rightarrow> scim_record option"
  so_createGroup :: "string \<Rightarrow> scim_attrs \<Rightarrow> 's \<Rightarrow> scim_error + (scim_record \<times> 's)"
  so_replaceGroup :: "string \<Rightarrow> string \<Rightarrow> scim_attrs \<Rightarrow> nat \<Rightarrow> 's \<Rightarrow> scim_error + (scim_record \<times> 's)"
  so_deleteGroup :: "string \<Rightarrow> string \<Rightarrow> nat \<Rightarrow> 's \<Rightarrow> scim_error + (scim_record \<times> 's)"
  so_listUserGroups :: "string \<Rightarrow> string \<Rightarrow> 's \<Rightarrow> scim_membership list"
  so_audit :: "scim_event \<Rightarrow> 's \<Rightarrow> scim_error + (unit \<times> 's)"

type_synonym 's scim_handler = "('s, scim_error, scim_response) handler"

text \<open>What the gate leaves in \<open>res.locals.scim\<close>.\<close>

record scim_context =
  cx_realm :: string
  cx_actor :: string
  cx_base :: string

section \<open>Representations\<close>

definition etag :: "scim_record \<Rightarrow> string" where
  "etag r = [CHR ''W'', CHR ''/'', CHR 0x22] @ nat_str (sr_version r) @ [CHR 0x22]"

definition strip_slash :: "string \<Rightarrow> string" where
  "strip_slash s = (if s \<noteq> [] \<and> last s = CHR ''/'' then butlast s else s)"

datatype base_option = Base_fn "string \<Rightarrow> string" | Base_str string | Base_none

text \<open>\<open>mount\<close> is \<open>req.baseUrl\<close>.\<close>

definition baseFor :: "(string \<Rightarrow> string) \<Rightarrow> base_option \<Rightarrow> string \<Rightarrow> string \<Rightarrow> string" where
  "baseFor enc opt mount realm =
     (case opt of
        Base_fn f \<Rightarrow> strip_slash (f realm)
      | Base_str b \<Rightarrow> if b = [] then strip_slash (mount @ ''/'' @ enc realm) else strip_slash b @ ''/'' @ enc realm
      | Base_none \<Rightarrow> strip_slash (mount @ ''/'' @ enc realm))"

definition scim_meta :: "scim_record \<Rightarrow> string \<Rightarrow> string \<Rightarrow> json" where
  "scim_meta r resourceType location =
     JObj [(''resourceType'', JStr resourceType), (''created'', JNum (sr_createdAt r)),
           (''lastModified'', JNum (sr_updatedAt r)), (''version'', JStr (etag r)), (''location'', JStr location)]"

definition userResource :: "'s scim_ops \<Rightarrow> (string \<Rightarrow> string) \<Rightarrow> scim_context \<Rightarrow> scim_record \<Rightarrow> 's \<Rightarrow> json" where
  "userResource ops enc cx r s =
     (let safe = mdel ''password'' (sr_attrs r);
          groups = map (\<lambda>g. JObj [(''value'', JStr (sm_value g)), (''display'', sm_display g), (''type'', JStr ''direct''),
              (''$ref'', JStr (cx_base cx @ ''/Groups/'' @ enc (sm_value g)))]) (so_listUserGroups ops (cx_realm cx) (sr_id r) s)
      in JObj ([(''schemas'', JArr [JStr URN_user]), (''id'', JStr (sr_id r))] @ safe @
            (if groups = [] then [] else [(''groups'', JArr groups)]) @
            [(''meta'', scim_meta r ''User'' (cx_base cx @ ''/Users/'' @ enc (sr_id r)))]))"

definition groupResource :: "'s scim_ops \<Rightarrow> (string \<Rightarrow> string) \<Rightarrow> scim_context \<Rightarrow> scim_record \<Rightarrow> 's \<Rightarrow> json" where
  "groupResource ops enc cx r s =
     (let members = map (\<lambda>m. let v = js_String (jprop m ''value'') in
            JObj ([(''value'', JStr v), (''type'', JStr ''User'')] @
              (case so_getUser ops (cx_realm cx) v s of
                 None \<Rightarrow> []
               | Some u \<Rightarrow> [(''display'', if nullish (scim_prop u ''displayName'') then scim_prop u ''userName''
                                        else scim_prop u ''displayName'')]) @
              [(''$ref'', JStr (cx_base cx @ ''/Users/'' @ enc v))])) (array_of (jprop (JObj (sr_attrs r)) ''members''))
      in JObj (mset' ''members'' (JArr members) ([(''schemas'', JArr [JStr URN_group]), (''id'', JStr (sr_id r))] @ sr_attrs r) @
            [(''meta'', scim_meta r ''Group'' (cx_base cx @ ''/Groups/'' @ enc (sr_id r)))]))"

definition listResponse :: "json list \<Rightarrow> nat \<Rightarrow> nat \<Rightarrow> json" where
  "listResponse resources totalResults startIndex =
     JObj [(''schemas'', JArr [JStr URN_listResponse]), (''totalResults'', JNum (int totalResults)),
           (''startIndex'', JNum (int startIndex)), (''itemsPerPage'', JNum (int (length resources))), (''Resources'', JArr resources)]"

definition errorBody :: "nat \<Rightarrow> string option \<Rightarrow> json" where
  "errorBody status scimType =
     JObj ([(''schemas'', JArr [JStr URN_error])] @ (case scimType of None \<Rightarrow> [] | Some t \<Rightarrow> [(''scimType'', JStr t)]) @
           [(''status'', JStr (nat_str status))])"

definition ok_json :: "json \<Rightarrow> scim_response" where
  "ok_json b = \<lparr>rs_status = 200, rs_etag = None, rs_location = None, rs_challenge = None, rs_body = Some b\<rparr>"

definition sendResource :: "nat \<Rightarrow> json \<Rightarrow> scim_response" where
  "sendResource status resource =
     \<lparr>rs_status = status, rs_etag = Some (js_String (jprop (jprop resource ''meta'') ''version'')),
      rs_location = Some (js_String (jprop (jprop resource ''meta'') ''location'')), rs_challenge = None, rs_body = Some resource\<rparr>"

definition no_content :: scim_response where
  "no_content = \<lparr>rs_status = 204, rs_etag = None, rs_location = None, rs_challenge = None, rs_body = None\<rparr>"

section \<open>Conditional requests\<close>

definition header_tokens :: "string option \<Rightarrow> string list" where
  "header_tokens h = filter (\<lambda>t. t \<noteq> []) (map js_trim (js_split (CHR '','') (case h of None \<Rightarrow> [] | Some t \<Rightarrow> t)))"

definition not_modified :: "scim_request \<Rightarrow> scim_record \<Rightarrow> bool" where
  "not_modified rq r \<longleftrightarrow> (let c = header_tokens (rq_ifNoneMatch rq) in ''*'' \<in> set c \<or> etag r \<in> set c)"

definition checkIfMatch :: "scim_request \<Rightarrow> scim_record \<Rightarrow> scim_error + unit" where
  "checkIfMatch rq r =
     (let c = header_tokens (rq_ifMatch rq) in
      guardR (c = [] \<or> ''*'' \<in> set c \<or> etag r \<in> set c) (ScimError 412 None))"

definition requireCurrent :: "scim_record option \<Rightarrow> scim_error + scim_record" where
  "requireCurrent r = (case r of None \<Rightarrow> Inl (ScimError 404 None) | Some x \<Rightarrow> Inr x)"

text \<open>\<open>isDeepStrictEqual\<close>: the order of properties does not matter.\<close>

fun deep_eq :: "json \<Rightarrow> json \<Rightarrow> bool"
  and deep_eqs :: "json list \<Rightarrow> json list \<Rightarrow> bool"
  and deep_props :: "(string \<times> json) list \<Rightarrow> (string \<times> json) list \<Rightarrow> bool" where
  "deep_eq (JArr xs) (JArr ys) = (xs = ys \<or> deep_eqs xs ys)"
| "deep_eq (JObj a) (JObj b) = (a = b \<or> (length a = length b \<and> deep_props a b))"
| "deep_eq x y = (x = y)"
| "deep_eqs [] [] = True"
| "deep_eqs (x # xs) (y # ys) = (deep_eq x y \<and> deep_eqs xs ys)"
| "deep_eqs _ _ = False"
| "deep_props [] b = True"
| "deep_props ((k, v) # a) b = ((case mget b k of None \<Rightarrow> False | Some w \<Rightarrow> deep_eq v w) \<and> deep_props a b)"

definition replacementBody :: "json \<Rightarrow> json" where
  "replacementBody body = (case body of JObj kvs \<Rightarrow> JObj (mdel ''meta'' (mdel ''id'' kvs)) | _ \<Rightarrow> body)"

section \<open>The gate\<close>

definition bearer :: "string option \<Rightarrow> string option" where
  "bearer h =
     (let s = (case h of None \<Rightarrow> [] | Some t \<Rightarrow> t); tok = drop 7 s in
      if js_lower (take 7 s) = ''bearer '' \<and> tok \<noteq> [] \<and> list_all (\<lambda>c. \<not> is_space c) tok then Some tok else None)"

definition scim_challenge :: "bool \<Rightarrow> string" where
  "scim_challenge invalid =
     ''Bearer realm='' @ [CHR 0x22] @ ''authme-scim'' @ [CHR 0x22] @
       (if invalid then '', error='' @ [CHR 0x22] @ ''invalid_token'' @ [CHR 0x22] else [])"

text \<open>The error and the \<open>WWW-Authenticate\<close> header set before it, or the context.\<close>

definition scim_gate ::
    "(string \<Rightarrow> string \<Rightarrow> string option) \<Rightarrow> (string \<Rightarrow> bool) \<Rightarrow> (string \<Rightarrow> string) \<Rightarrow> scim_request \<Rightarrow>
     (scim_error \<times> string option) + scim_context" where
  "scim_gate authenticate realmExists baseUrl rq =
     (if \<not> realm_re (rq_realm rq) then Inl (ScimError 404 None, None)
      else (case bearer (rq_authorization rq) of
              None \<Rightarrow> Inl (ScimError 401 None, Some (scim_challenge False))
            | Some tok \<Rightarrow>
                (case authenticate (rq_realm rq) tok of
                   None \<Rightarrow> Inl (ScimError 401 None, Some (scim_challenge True))
                 | Some actor \<Rightarrow>
                     if \<not> realmExists (rq_realm rq) then Inl (ScimError 404 None, None)
                     else Inr \<lparr>cx_realm = rq_realm rq, cx_actor = actor, cx_base = baseUrl (rq_realm rq)\<rparr>)))"

section \<open>Routes\<close>

definition scim_writeAudit :: "'s scim_ops \<Rightarrow> scim_context \<Rightarrow> string \<Rightarrow> string \<Rightarrow> string \<Rightarrow> string list \<Rightarrow> ('s, scim_error, unit) handler" where
  "scim_writeAudit ops cx type resourceType resourceId changes =
     liftU (so_audit ops \<lparr>ev_realm = cx_realm cx, ev_actor = cx_actor cx, ev_type = type, ev_resourceType = resourceType,
       ev_resourceId = resourceId, ev_changes = changes\<rparr>)"

text \<open>A repository call inside \<open>try ... catch (error) { throw repositoryError(error) }\<close>.\<close>

definition repo_call :: "('s \<Rightarrow> scim_error + ('a \<times> 's)) \<Rightarrow> ('s, scim_error, 'a) handler" where
  "repo_call f = liftU (\<lambda>s. case f s of Inl e \<Rightarrow> Inl (repositoryError e) | Inr r \<Rightarrow> Inr r)"

definition list_users_route :: "'s scim_ops \<Rightarrow> (string \<Rightarrow> string option) \<Rightarrow> (string \<Rightarrow> string) \<Rightarrow> nat \<Rightarrow> nat \<Rightarrow>
    scim_context \<Rightarrow> scim_request \<Rightarrow> 's scim_handler" where
  "list_users_route ops unquote enc maxPageSize defaultPageSize cx rq =
     bindS (liftR (pagination (rq_query rq) maxPageSize defaultPageSize)) (\<lambda>(startIndex, count).
     bindS (liftR (parseFilter unquote (jprop (rq_query rq) ''filter'') True)) (\<lambda>f.
     readS (\<lambda>s. let (total, rs) = so_listUsers ops (cx_realm cx) f startIndex count s
                in ok_json (listResponse (map (\<lambda>r. userResource ops enc cx r s) rs) total startIndex))))"

definition create_user_route :: "'s scim_ops \<Rightarrow> (string \<Rightarrow> string) \<Rightarrow> scim_context \<Rightarrow> json \<Rightarrow> 's scim_handler" where
  "create_user_route ops enc cx body =
     bindS (liftR (scim_normalizeUser body JUndef)) (\<lambda>a.
     bindS (repo_call (so_createUser ops (cx_realm cx) a)) (\<lambda>created.
     bindS (readS (userResource ops enc cx created)) (\<lambda>resource.
     bindS (scim_writeAudit ops cx ''scim.user.created'' ''User'' (sr_id created) [''create'']) (\<lambda>_.
       retS (sendResource 201 resource)))))"

definition get_user_route :: "'s scim_ops \<Rightarrow> (string \<Rightarrow> string) \<Rightarrow> scim_context \<Rightarrow> scim_request \<Rightarrow> string \<Rightarrow> 's scim_handler" where
  "get_user_route ops enc cx rq rid =
     bindS (readS (so_getUser ops (cx_realm cx) rid)) (\<lambda>found.
     bindS (liftR (requireCurrent found)) (\<lambda>r.
       if not_modified rq r
       then retS \<lparr>rs_status = 304, rs_etag = Some (etag r), rs_location = None, rs_challenge = None, rs_body = None\<rparr>
       else bindS (readS (userResource ops enc cx r)) (\<lambda>b. retS ((ok_json b)\<lparr>rs_etag := Some (etag r)\<rparr>))))"

text \<open>PUT, up to the write: the record that was read, and its replacement.\<close>

definition put_check :: "scim_request \<Rightarrow> json \<Rightarrow> scim_record \<Rightarrow> scim_error + unit" where
  "put_check rq body current =
     bindR (checkIfMatch rq current) (\<lambda>_.
       guardR (nullish (jprop body ''id'') \<or> jprop body ''id'' = JStr (sr_id current)) mutability)"

definition put_user_begin :: "'s scim_ops \<Rightarrow> scim_context \<Rightarrow> scim_request \<Rightarrow> json \<Rightarrow> string \<Rightarrow>
    ('s, scim_error, scim_record \<times> scim_attrs) handler" where
  "put_user_begin ops cx rq body rid =
     bindS (readS (so_getUser ops (cx_realm cx) rid)) (\<lambda>found.
     bindS (liftR (requireCurrent found)) (\<lambda>current.
     bindS (liftR (put_check rq body current)) (\<lambda>_.
     bindS (liftR (scim_normalizeUser (replacementBody body) (jprop (JObj (sr_attrs current)) ''password''))) (\<lambda>a.
       retS (current, a)))))"

definition put_user_commit :: "'s scim_ops \<Rightarrow> (string \<Rightarrow> string) \<Rightarrow> scim_context \<Rightarrow> string \<Rightarrow> string list \<Rightarrow>
    scim_record \<times> scim_attrs \<Rightarrow> 's scim_handler" where
  "put_user_commit ops enc cx type changes ca =
     bindS (repo_call (so_replaceUser ops (cx_realm cx) (sr_id (fst ca)) (snd ca) (sr_version (fst ca)))) (\<lambda>updated.
     bindS (scim_writeAudit ops cx type ''User'' (sr_id (fst ca)) changes) (\<lambda>_.
     bindS (readS (userResource ops enc cx updated)) (\<lambda>b. retS (sendResource 200 b))))"

definition put_user_route where
  "put_user_route ops enc cx rq body rid =
     bindS (put_user_begin ops cx rq body rid) (put_user_commit ops enc cx ''scim.user.replaced'' [''replace''])"

definition patch_changes :: "json \<Rightarrow> string list" where
  "patch_changes body =
     map (\<lambda>o'. js_lower (js_String (jprop o' ''op'')) @ '':'' @
            (if nullish (jprop o' ''path'') then ''*'' else js_String (jprop o' ''path''))) (array_of (jprop body ''Operations''))"

definition patch_user_begin :: "'s scim_ops \<Rightarrow> (string \<Rightarrow> string option) \<Rightarrow> scim_context \<Rightarrow> scim_request \<Rightarrow> json \<Rightarrow> string \<Rightarrow>
    ('s, scim_error, scim_record \<times> scim_attrs) handler" where
  "patch_user_begin ops unquote cx rq body rid =
     bindS (readS (so_getUser ops (cx_realm cx) rid)) (\<lambda>found.
     bindS (liftR (requireCurrent found)) (\<lambda>current.
     bindS (liftR (checkIfMatch rq current)) (\<lambda>_.
     bindS (liftR (applyUserPatch unquote (sr_attrs current) body)) (\<lambda>p.
     bindS (liftR (scim_normalizeUser (JObj p) (jprop (JObj (sr_attrs current)) ''password''))) (\<lambda>a.
       retS (current, a))))))"

definition patch_user_route where
  "patch_user_route ops unquote enc cx rq body rid =
     bindS (patch_user_begin ops unquote cx rq body rid) (\<lambda>ca.
       if deep_eq (JObj (snd ca)) (JObj (sr_attrs (fst ca)))
       then bindS (readS (userResource ops enc cx (fst ca))) (\<lambda>b. retS (sendResource 200 b))
       else put_user_commit ops enc cx ''scim.user.patched'' (patch_changes body) ca)"

definition delete_user_route :: "'s scim_ops \<Rightarrow> scim_context \<Rightarrow> scim_request \<Rightarrow> string \<Rightarrow> 's scim_handler" where
  "delete_user_route ops cx rq rid =
     bindS (readS (so_getUser ops (cx_realm cx) rid)) (\<lambda>found.
     bindS (liftR (requireCurrent found)) (\<lambda>current.
     bindS (liftR (checkIfMatch rq current)) (\<lambda>_.
     bindS (repo_call (so_deleteUser ops (cx_realm cx) (sr_id current) (sr_version current))) (\<lambda>_.
     bindS (scim_writeAudit ops cx ''scim.user.deleted'' ''User'' (sr_id current) [''delete'']) (\<lambda>_.
       retS no_content)))))"

text \<open>Groups: the same routes, without a password to keep.\<close>

definition list_groups_route :: "'s scim_ops \<Rightarrow> (string \<Rightarrow> string option) \<Rightarrow> (string \<Rightarrow> string) \<Rightarrow> nat \<Rightarrow> nat \<Rightarrow>
    scim_context \<Rightarrow> scim_request \<Rightarrow> 's scim_handler" where
  "list_groups_route ops unquote enc maxPageSize defaultPageSize cx rq =
     bindS (liftR (pagination (rq_query rq) maxPageSize defaultPageSize)) (\<lambda>(startIndex, count).
     bindS (liftR (parseFilter unquote (jprop (rq_query rq) ''filter'') False)) (\<lambda>f.
     readS (\<lambda>s. let (total, rs) = so_listGroups ops (cx_realm cx) f startIndex count s
                in ok_json (listResponse (map (\<lambda>r. groupResource ops enc cx r s) rs) total startIndex))))"

definition create_group_route :: "'s scim_ops \<Rightarrow> (string \<Rightarrow> string) \<Rightarrow> scim_context \<Rightarrow> json \<Rightarrow> 's scim_handler" where
  "create_group_route ops enc cx body =
     bindS (liftR (normalizeGroup body)) (\<lambda>a.
     bindS (repo_call (so_createGroup ops (cx_realm cx) a)) (\<lambda>created.
     bindS (scim_writeAudit ops cx ''scim.group.created'' ''Group'' (sr_id created) [''create'']) (\<lambda>_.
     bindS (readS (groupResource ops enc cx created)) (\<lambda>resource. retS (sendResource 201 resource)))))"

definition get_group_route :: "'s scim_ops \<Rightarrow> (string \<Rightarrow> string) \<Rightarrow> scim_context \<Rightarrow> scim_request \<Rightarrow> string \<Rightarrow> 's scim_handler" where
  "get_group_route ops enc cx rq rid =
     bindS (readS (so_getGroup ops (cx_realm cx) rid)) (\<lambda>found.
     bindS (liftR (requireCurrent found)) (\<lambda>r.
       if not_modified rq r
       then retS \<lparr>rs_status = 304, rs_etag = Some (etag r), rs_location = None, rs_challenge = None, rs_body = None\<rparr>
       else bindS (readS (groupResource ops enc cx r)) (\<lambda>b. retS ((ok_json b)\<lparr>rs_etag := Some (etag r)\<rparr>))))"

definition put_group_begin :: "'s scim_ops \<Rightarrow> scim_context \<Rightarrow> scim_request \<Rightarrow> json \<Rightarrow> string \<Rightarrow>
    ('s, scim_error, scim_record \<times> scim_attrs) handler" where
  "put_group_begin ops cx rq body rid =
     bindS (readS (so_getGroup ops (cx_realm cx) rid)) (\<lambda>found.
     bindS (liftR (requireCurrent found)) (\<lambda>current.
     bindS (liftR (put_check rq body current)) (\<lambda>_.
     bindS (liftR (normalizeGroup (replacementBody body))) (\<lambda>a. retS (current, a)))))"

definition put_group_commit :: "'s scim_ops \<Rightarrow> (string \<Rightarrow> string) \<Rightarrow> scim_context \<Rightarrow> string \<Rightarrow> string list \<Rightarrow>
    scim_record \<times> scim_attrs \<Rightarrow> 's scim_handler" where
  "put_group_commit ops enc cx type changes ca =
     bindS (repo_call (so_replaceGroup ops (cx_realm cx) (sr_id (fst ca)) (snd ca) (sr_version (fst ca)))) (\<lambda>updated.
     bindS (scim_writeAudit ops cx type ''Group'' (sr_id (fst ca)) changes) (\<lambda>_.
     bindS (readS (groupResource ops enc cx updated)) (\<lambda>b. retS (sendResource 200 b))))"

definition put_group_route where
  "put_group_route ops enc cx rq body rid =
     bindS (put_group_begin ops cx rq body rid) (put_group_commit ops enc cx ''scim.group.replaced'' [''replace''])"

definition patch_group_begin :: "'s scim_ops \<Rightarrow> (string \<Rightarrow> string option) \<Rightarrow> scim_context \<Rightarrow> scim_request \<Rightarrow> json \<Rightarrow> string \<Rightarrow>
    ('s, scim_error, scim_record \<times> scim_attrs) handler" where
  "patch_group_begin ops unquote cx rq body rid =
     bindS (readS (so_getGroup ops (cx_realm cx) rid)) (\<lambda>found.
     bindS (liftR (requireCurrent found)) (\<lambda>current.
     bindS (liftR (checkIfMatch rq current)) (\<lambda>_.
     bindS (liftR (applyGroupPatch unquote (sr_attrs current) body)) (\<lambda>p.
     bindS (liftR (normalizeGroup (JObj p))) (\<lambda>a. retS (current, a))))))"

definition patch_group_route where
  "patch_group_route ops unquote enc cx rq body rid =
     bindS (patch_group_begin ops unquote cx rq body rid) (\<lambda>ca.
       if deep_eq (JObj (snd ca)) (JObj (sr_attrs (fst ca)))
       then bindS (readS (groupResource ops enc cx (fst ca))) (\<lambda>b. retS (sendResource 200 b))
       else put_group_commit ops enc cx ''scim.group.patched'' (patch_changes body) ca)"

definition delete_group_route :: "'s scim_ops \<Rightarrow> scim_context \<Rightarrow> scim_request \<Rightarrow> string \<Rightarrow> 's scim_handler" where
  "delete_group_route ops cx rq rid =
     bindS (readS (so_getGroup ops (cx_realm cx) rid)) (\<lambda>found.
     bindS (liftR (requireCurrent found)) (\<lambda>current.
     bindS (liftR (checkIfMatch rq current)) (\<lambda>_.
     bindS (repo_call (so_deleteGroup ops (cx_realm cx) (sr_id current) (sr_version current))) (\<lambda>_.
     bindS (scim_writeAudit ops cx ''scim.group.deleted'' ''Group'' (sr_id current) [''delete'']) (\<lambda>_.
       retS no_content)))))"

section \<open>The service\<close>

datatype scim_route =
    ListUsers | CreateUser | GetUser string | PutUser string | PatchUser string | DeleteUser string
  | ListGroups | CreateGroup | GetGroup string | PutGroup string | PatchGroup string | DeleteGroup string
  | ServiceProviderConfig | Schemas | SchemaById string | ResourceTypes | ResourceTypeById string
  | UnknownRoute

text \<open>Discovery: \<open>{ ...schema, meta }\<close>, and the search by identifier.\<close>

definition schema_document :: "(string \<Rightarrow> string) \<Rightarrow> scim_context \<Rightarrow> json \<Rightarrow> json" where
  "schema_document enc cx schema = JObj (jentries schema @ [(''meta'', JObj [(''resourceType'', JStr ''Schema''),
     (''location'', JStr (cx_base cx @ ''/Schemas/'' @ enc (js_String (jprop schema ''id''))))])])"

definition found_json :: "json option \<Rightarrow> 's scim_handler" where
  "found_json r = (case r of None \<Rightarrow> failS (ScimError 404 None) | Some j \<Rightarrow> retS (ok_json j))"

record scim_config =
  sc_authenticate :: "string \<Rightarrow> string \<Rightarrow> string option"
  sc_realmExists :: "string \<Rightarrow> bool"
  sc_baseFor :: "string \<Rightarrow> string"
  sc_unquote :: "string \<Rightarrow> string option"
  sc_enc :: "string \<Rightarrow> string"
  sc_maxPageSize :: nat
  sc_defaultPageSize :: nat

definition scim_dispatch :: "scim_config \<Rightarrow> 's scim_ops \<Rightarrow> scim_context \<Rightarrow> scim_request \<Rightarrow> scim_route \<Rightarrow> json \<Rightarrow> 's scim_handler" where
  "scim_dispatch c ops cx rq route body =
     (case route of
        ListUsers \<Rightarrow> list_users_route ops (sc_unquote c) (sc_enc c) (sc_maxPageSize c) (sc_defaultPageSize c) cx rq
      | CreateUser \<Rightarrow> create_user_route ops (sc_enc c) cx body
      | GetUser i \<Rightarrow> get_user_route ops (sc_enc c) cx rq i
      | PutUser i \<Rightarrow> put_user_route ops (sc_enc c) cx rq body i
      | PatchUser i \<Rightarrow> patch_user_route ops (sc_unquote c) (sc_enc c) cx rq body i
      | DeleteUser i \<Rightarrow> delete_user_route ops cx rq i
      | ListGroups \<Rightarrow> list_groups_route ops (sc_unquote c) (sc_enc c) (sc_maxPageSize c) (sc_defaultPageSize c) cx rq
      | CreateGroup \<Rightarrow> create_group_route ops (sc_enc c) cx body
      | GetGroup i \<Rightarrow> get_group_route ops (sc_enc c) cx rq i
      | PutGroup i \<Rightarrow> put_group_route ops (sc_enc c) cx rq body i
      | PatchGroup i \<Rightarrow> patch_group_route ops (sc_unquote c) (sc_enc c) cx rq body i
      | DeleteGroup i \<Rightarrow> delete_group_route ops cx rq i
      | ServiceProviderConfig \<Rightarrow> retS (ok_json (serviceProviderConfig (cx_base cx) (sc_maxPageSize c)))
      | Schemas \<Rightarrow> retS (ok_json (listResponse (map (schema_document (sc_enc c) cx) [USER_SCHEMA, GROUP_SCHEMA]) 2 1))
      | SchemaById i \<Rightarrow> found_json (map_option (schema_document (sc_enc c) cx)
          (find (\<lambda>x. jprop x ''id'' = JStr i) [USER_SCHEMA, GROUP_SCHEMA]))
      | ResourceTypes \<Rightarrow> retS (ok_json (listResponse (resourceTypes (cx_base cx)) 2 1))
      | ResourceTypeById i \<Rightarrow> found_json
          (find (\<lambda>x. js_lower (js_String (jprop x ''id'')) = js_lower i) (resourceTypes (cx_base cx)))
      | UnknownRoute \<Rightarrow> failS (ScimError 404 None))"

definition error_response :: "scim_error \<Rightarrow> string option \<Rightarrow> scim_response" where
  "error_response e ch =
     (let (st, t) = (case e of ScimError st t \<Rightarrow> (st, t) | _ \<Rightarrow> (500, None))
      in \<lparr>rs_status = st, rs_etag = None, rs_location = None, rs_challenge = ch, rs_body = Some (errorBody st t)\<rparr>)"

text \<open>One request: the gate, the body parser, the route, the error handler.\<close>

definition scim_serve :: "scim_config \<Rightarrow> 's scim_ops \<Rightarrow> scim_request \<Rightarrow> scim_route \<Rightarrow> 's \<Rightarrow> scim_response \<times> 's" where
  "scim_serve c ops rq route s =
     (case scim_gate (sc_authenticate c) (sc_realmExists c) (sc_baseFor c) rq of
        Inl (e, ch) \<Rightarrow> (error_response e ch, s)
      | Inr cx \<Rightarrow>
          (case rq_body rq of
             None \<Rightarrow> (error_response invalidSyntax None, s)
           | Some body \<Rightarrow>
               (case scim_dispatch c ops cx rq route body s of
                  (Inl e, s') \<Rightarrow> (error_response e None, s')
                | (Inr r, s') \<Rightarrow> (r, s'))))"

text \<open>
  The operations over the memory repository. The state is the store and the audit trail;
  \<open>audit_ok\<close> says whether the trail accepts an event. \<open>mc_now\<close> and \<open>mc_uuid\<close> are the clock and the
  identifier of this request.
\<close>

record mem_context =
  mc_now :: int
  mc_uuid :: string
  mc_le :: "string \<Rightarrow> string \<Rightarrow> bool"
  mc_audit_ok :: "scim_event \<Rightarrow> bool"

type_synonym scim_state = "scim_store \<times> scim_event list"

definition on_store :: "(scim_store \<Rightarrow> scim_error + ('a \<times> scim_store)) \<Rightarrow> scim_state \<Rightarrow> scim_error + ('a \<times> scim_state)" where
  "on_store f s = (case f (fst s) of Inl e \<Rightarrow> Inl e | Inr (x, s') \<Rightarrow> Inr (x, (s', snd s)))"

definition memory_ops :: "mem_context \<Rightarrow> scim_state scim_ops" where
  "memory_ops m =
     \<lparr>so_listUsers = (\<lambda>r f i n s. sc_listUsers (mc_le m) r f i n (fst s)),
      so_getUser = (\<lambda>r i s. sc_getUser r i (fst s)),
      so_createUser = (\<lambda>r a. on_store (sc_createUser (mc_now m) (mc_uuid m) r a)),
      so_replaceUser = (\<lambda>r i a v. on_store (sc_replaceUser (mc_now m) r i a (Some v))),
      so_deleteUser = (\<lambda>r i v. on_store (sc_deleteUser (mc_now m) r i (Some v))),
      so_listGroups = (\<lambda>r f i n s. sc_listGroups (mc_le m) r f i n (fst s)),
      so_getGroup = (\<lambda>r i s. sc_getGroup r i (fst s)),
      so_createGroup = (\<lambda>r a. on_store (sc_createGroup (mc_now m) (mc_uuid m) r a)),
      so_replaceGroup = (\<lambda>r i a v. on_store (sc_replaceGroup (mc_now m) r i a (Some v))),
      so_deleteGroup = (\<lambda>r i v. on_store (sc_deleteGroup r i (Some v))),
      so_listUserGroups = (\<lambda>r i s. sc_listUserGroups r i (fst s)),
      so_audit = (\<lambda>e s. if mc_audit_ok m e then Inr ((), (fst s, snd s @ [e])) else Inl (OtherError ''audit''))\<rparr>"

end
