(* ===== verification/Config.thy ===== *)
theory Config
  imports LdapProvider OidcProvider SamlConfig ScimRouter
begin

text \<open>
  The configuration of the service (\<open>src/config.js\<close>): the environment variables, their checks in the order of the code, and the
  tables of clients, resource servers and upstream providers per realm. An unset variable is \<open>None\<close>; the
  result is the configuration or the name of the setting that was refused. \<open>config_world\<close> holds what is not under \<open>src/\<close>: the
  URL parser and the URL test of the schema library, \<open>Number\<close>, \<open>JSON.parse\<close>, the byte length of a text, the
  decoding of base64url, and the random values made up in development mode.
\<close>

section \<open>Values\<close>

record config_world =
  cw_parse_url :: url_parser
  cw_isUrl :: "string \<Rightarrow> bool"
  cw_isIP :: "string \<Rightarrow> bool"
  cw_number :: "string \<Rightarrow> int option"
  cw_json :: "string \<Rightarrow> json option"
  cw_bytes :: "string \<Rightarrow> nat"
  cw_base64url :: "string \<Rightarrow> string"
  cw_random :: "string \<Rightarrow> string"
  cw_randomKey :: string

type_synonym environment = "string \<Rightarrow> string option"

definition env_text :: "environment \<Rightarrow> string \<Rightarrow> string" where
  "env_text env k = (case env k of None \<Rightarrow> [] | Some s \<Rightarrow> s)"

definition booleanValue :: "string option \<Rightarrow> bool" where
  "booleanValue v \<longleftrightarrow> js_lower (case v of None \<Rightarrow> [] | Some s \<Rightarrow> s) \<in> set [''1'', ''true'', ''yes'', ''on'']"

text \<open>\<open>z.coerce.number().int().min(lo).max(hi).optional()\<close>; \<open>None\<close> as it is refused.\<close>

definition env_int :: "config_world \<Rightarrow> environment \<Rightarrow> string \<Rightarrow> int \<Rightarrow> int \<Rightarrow> int option option" where
  "env_int w env k lo hi =
     (case env k of
        None \<Rightarrow> Some None
      | Some s \<Rightarrow> (case cw_number w s of
                     None \<Rightarrow> None
                   | Some n \<Rightarrow> if lo \<le> n \<and> n \<le> hi then Some (Some n) else None))"

text \<open>The numbers of the schema with their bounds.\<close>

definition config_numbers :: "(string \<times> int \<times> int) list" where
  "config_numbers = [(''AUTHME_PORT'', 1, 65535), (''AUTHME_ACCESS_TOKEN_TTL_SECONDS'', 60, 3600),
     (''AUTHME_AUTHORIZATION_CODE_TTL_SECONDS'', 30, 300), (''AUTHME_SESSION_TTL_SECONDS'', 300, 2592000),
     (''AUTHME_WEBAUTHN_CHALLENGE_TTL_SECONDS'', 60, 300), (''AUTHME_AUDIT_RETENTION_DAYS'', 1, 3650)]"

definition redis_url :: "environment \<Rightarrow> string option" where
  "redis_url env = (if env ''REDIS_URL'' = Some [] then None else env ''REDIS_URL'')"

text \<open>\<open>rawSchema\<close>: what it refuses beyond types. All other variables are optional texts.\<close>

definition rawSchema :: "config_world \<Rightarrow> environment \<Rightarrow> bool" where
  "rawSchema w env \<longleftrightarrow>
     (case env ''AUTHME_PUBLIC_URL'' of None \<Rightarrow> True | Some s \<Rightarrow> cw_isUrl w s) \<and>
     list_all (\<lambda>(k, lo, hi). env_int w env k lo hi \<noteq> None) config_numbers \<and>
     (case env ''AUTHME_LOG_LEVEL'' of
        None \<Rightarrow> True | Some s \<Rightarrow> s \<in> set [''fatal'', ''error'', ''warn'', ''info'', ''debug'', ''trace'', ''silent'']) \<and>
     (case redis_url env of None \<Rightarrow> True | Some s \<Rightarrow> cw_isUrl w s)"

text \<open>The number of an accepted environment, or its default.\<close>

definition number_or :: "config_world \<Rightarrow> environment \<Rightarrow> string \<Rightarrow> int \<Rightarrow> int" where
  "number_or w env k d =
     (case map_of config_numbers k of
        None \<Rightarrow> d
      | Some (lo, hi) \<Rightarrow> (case env_int w env k lo hi of Some (Some n) \<Rightarrow> n | _ \<Rightarrow> d))"

text \<open>\<open>/(?:replace[-_ ]?with|change[-_ ]?me|example[-_ ]?secret)/i\<close>.\<close>

definition two_words :: "string \<Rightarrow> string \<Rightarrow> string \<Rightarrow> bool" where
  "two_words a b s \<longleftrightarrow> js_starts a s \<and>
     (let r = drop (length a) s in js_starts b r \<or> (case r of [] \<Rightarrow> False | c # cs \<Rightarrow> c \<in> set ''-_ '' \<and> js_starts b cs))"

fun placeholder_in :: "string \<Rightarrow> bool" where
  "placeholder_in [] = False"
| "placeholder_in (c # s) =
     (two_words ''replace'' ''with'' (c # s) \<or> two_words ''change'' ''me'' (c # s) \<or> two_words ''example'' ''secret'' (c # s) \<or> placeholder_in s)"

definition placeholder :: "string \<Rightarrow> bool" where "placeholder s = placeholder_in (js_lower s)"

definition secret :: "config_world \<Rightarrow> environment \<Rightarrow> string \<Rightarrow> bool \<Rightarrow> string + string" where
  "secret w env name devMode =
     (let v = env_text env name in
      if v = [] then (if devMode then Inr (cw_random w name) else Inl name)
      else if cw_bytes w v < 32 then Inl name
      else if \<not> devMode \<and> placeholder v then Inl name
      else Inr v)"

definition encryptionKey :: "config_world \<Rightarrow> string \<Rightarrow> bool \<Rightarrow> string + string" where
  "encryptionKey w v devMode =
     (if v = [] then (if devMode then Inr (cw_randomKey w) else Inl ''AUTHME_FIELD_ENCRYPTION_KEY'')
      else (let decoded = cw_base64url w v in
            if length decoded \<noteq> 32 then Inl ''AUTHME_FIELD_ENCRYPTION_KEY'' else Inr decoded))"

text \<open>A list of names between commas.\<close>

definition comma_list :: "string \<Rightarrow> string list" where
  "comma_list s = filter (\<lambda>t. t \<noteq> []) (map js_trim (js_split (CHR '','') s))"

definition realmNames :: "string option \<Rightarrow> string + string list" where
  "realmNames v =
     (let names = comma_list (case v of None \<Rightarrow> ''master'' | Some s \<Rightarrow> s) in
      bindR (guardR (names \<noteq> []) ''AUTHME_REALMS'') (\<lambda>_.
      bindR (guardR (list_all realm_re names) ''AUTHME_REALMS'') (\<lambda>_.
      bindR (guardR (distinct names) ''AUTHME_REALMS'') (\<lambda>_. Inr names))))"

section \<open>Tables per realm\<close>

text \<open>Here other realms may be named; they are ignored.\<close>

definition read_by_realm ::
    "(string \<Rightarrow> json option) \<Rightarrow> string \<Rightarrow> (json list \<Rightarrow> 'a list option) \<Rightarrow> string \<Rightarrow> string list \<Rightarrow> string + (string \<times> 'a list) list" where
  "read_by_realm json name f text realms =
     (if text = [] then Inr (map (\<lambda>r. (r, [])) realms)
      else (case json text of
              None \<Rightarrow> Inl name
            | Some v \<Rightarrow>
                if \<not> is_obj v then Inl name
                else mapR (\<lambda>r. case realm_entries v r of
                       None \<Rightarrow> Inl name
                     | Some xs \<Rightarrow> (case f xs of None \<Rightarrow> Inl name | Some ys \<Rightarrow> Inr (r, ys))) realms))"

definition clientsByRealm :: "(string \<Rightarrow> json option) \<Rightarrow> string \<Rightarrow> string list \<Rightarrow> string + (string \<times> json list) list" where
  "clientsByRealm json = read_by_realm json ''AUTHME_CLIENTS_JSON'' Some"

text \<open>\<open>stringArray\<close>.\<close>

definition stringArray :: "json \<Rightarrow> bool \<Rightarrow> string list option" where
  "stringArray v required =
     (if v = JUndef \<and> \<not> required then Some []
      else (case v of
              JArr xs \<Rightarrow>
                if required \<and> xs = [] then None
                else (case all_some (map (\<lambda>x. case x of JStr s \<Rightarrow> if s = [] then None else Some s | _ \<Rightarrow> None) xs) of
                        None \<Rightarrow> None
                      | Some ss \<Rightarrow> if distinct ss then Some ss else None)
            | _ \<Rightarrow> None))"

record resource_server =
  rs_audience :: string
  rs_scopes :: "string list"
  rs_authorizedClientIds :: "string list"
  rs_introspectionClientIds :: "string list"
  rs_roleClientIds :: "string list"
  rs_includeRealmRoles :: bool
  rs_includeGroups :: bool
  rs_accessTokenFormat :: string

definition resource_names :: "string list" where
  "resource_names = [''audience'', ''scopes'', ''authorized_client_ids'', ''introspection_client_ids'', ''role_client_ids'',
     ''include_realm_roles'', ''include_groups'', ''access_token_format'']"

definition resource_audience :: "url_parser \<Rightarrow> bool \<Rightarrow> json \<Rightarrow> string option" where
  "resource_audience parse devMode v =
     (case parse (js_String v) of
        None \<Rightarrow> None
      | Some u \<Rightarrow>
          if wu_hash u \<noteq> [] \<or> wu_username u \<noteq> [] \<or> wu_password u \<noteq> [] then None
          else if wu_protocol u \<noteq> ''https:'' \<and> \<not> (devMode \<and> wu_protocol u = ''http:'' \<and> loopback (wu_hostname u)) then None
          else Some (wu_href u))"

definition flag_of :: "json \<Rightarrow> bool option" where
  "flag_of v = (case v of JUndef \<Rightarrow> Some False | JBool b \<Rightarrow> Some b | _ \<Rightarrow> None)"

definition token_format :: "json \<Rightarrow> string option" where
  "token_format v = (if nullish v then Some ''jwt'' else if v = JStr ''jwt'' then Some ''jwt'' else if v = JStr ''opaque'' then Some ''opaque'' else None)"

definition resourceServer :: "url_parser \<Rightarrow> bool \<Rightarrow> string list \<Rightarrow> json \<Rightarrow> resource_server option" where
  "resourceServer parse devMode audiences input =
     (if \<not> strict_names input resource_names then None
      else (case resource_audience parse devMode (jprop input ''audience'') of
              None \<Rightarrow> None
            | Some audience \<Rightarrow>
                if audience \<in> set audiences then None
                else (case (stringArray (jprop input ''scopes'') True, stringArray (jprop input ''authorized_client_ids'') True,
                            stringArray (jprop input ''introspection_client_ids'') False, stringArray (jprop input ''role_client_ids'') False,
                            flag_of (jprop input ''include_realm_roles''), flag_of (jprop input ''include_groups''),
                            token_format (jprop input ''access_token_format'')) of
                        (Some scopes, Some clients, Some introspect, Some roles, Some realmRoles, Some groups, Some fmt) \<Rightarrow>
                          if \<not> list_all oauth_scope_re scopes then None
                          else Some \<lparr>rs_audience = audience, rs_scopes = scopes, rs_authorizedClientIds = clients,
                            rs_introspectionClientIds = introspect, rs_roleClientIds = roles, rs_includeRealmRoles = realmRoles,
                            rs_includeGroups = groups, rs_accessTokenFormat = fmt\<rparr>
                      | _ \<Rightarrow> None)))"

definition resourceServersByRealm ::
    "(string \<Rightarrow> json option) \<Rightarrow> url_parser \<Rightarrow> string \<Rightarrow> string list \<Rightarrow> bool \<Rightarrow> string + (string \<times> resource_server list) list" where
  "resourceServersByRealm json parse text realms devMode =
     read_by_realm json ''AUTHME_RESOURCE_SERVERS_JSON'' (parse_entries rs_audience (resourceServer parse devMode) []) text realms"

section \<open>The configuration\<close>

record config =
  cg_devMode :: bool
  cg_trustProxy :: bool
  cg_publicUrl :: string
  cg_port :: int
  cg_realms :: "string list"
  cg_cookieKeys :: "string list"
  cg_csrfSecret :: string
  cg_passwordPepper :: string
  cg_subjectSalt :: string
  cg_fieldEncryptionKey :: string
  cg_adminToken :: string
  cg_jwksDir :: "string option"
  cg_clients :: "(string \<times> json list) list"
  cg_resourceServers :: "(string \<times> resource_server list) list"
  cg_ldap :: "(string \<times> ldap_provider list) list"
  cg_oidc :: "(string \<times> oidc_provider list) list"
  cg_saml :: "(string \<times> saml_provider list) list"
  cg_scim :: "(string \<times> scim_token list) list"
  cg_enableDynamicRegistration :: bool
  cg_devAdminPassword :: string
  cg_logLevel :: string
  cg_accessTokenTtl :: int
  cg_authorizationCodeTtl :: int
  cg_sessionTtl :: int
  cg_webauthnChallengeTtl :: int
  cg_auditRetentionDays :: int
  cg_databaseUrl :: "string option"
  cg_redisUrl :: "string option"

definition or_name :: "string \<Rightarrow> 'a option \<Rightarrow> string + 'a" where
  "or_name name v = (case v of None \<Rightarrow> Inl name | Some x \<Rightarrow> Inr x)"

definition public_url :: "config_world \<Rightarrow> environment \<Rightarrow> bool \<Rightarrow> string + string" where
  "public_url w env devMode =
     (case cw_parse_url w (case env ''AUTHME_PUBLIC_URL'' of
             None \<Rightarrow> ''http://127.0.0.1:'' @ int_str (number_or w env ''AUTHME_PORT'' 3000) | Some s \<Rightarrow> s) of
        None \<Rightarrow> Inl ''AUTHME_PUBLIC_URL''
      | Some u \<Rightarrow>
          bindR (guardR (wu_search u = [] \<and> wu_hash u = []) ''AUTHME_PUBLIC_URL'') (\<lambda>_.
          bindR (guardR (wu_pathname u = ''/'') ''AUTHME_PUBLIC_URL'') (\<lambda>_.
          bindR (guardR (wu_username u = [] \<and> wu_password u = []) ''AUTHME_PUBLIC_URL'') (\<lambda>_.
          bindR (guardR (devMode \<or> wu_protocol u = ''https:'') ''AUTHME_PUBLIC_URL'') (\<lambda>_.
            Inr (drop_slash (wu_href u)))))))"

definition configured_cookie_keys :: "config_world \<Rightarrow> environment \<Rightarrow> bool \<Rightarrow> string + string list" where
  "configured_cookie_keys w env devMode =
     (let given = comma_list (env_text env ''AUTHME_COOKIE_KEYS'');
          keys = (if given = [] \<and> devMode then [cw_random w ''AUTHME_COOKIE_KEYS''] else given) in
      bindR (guardR (devMode \<or> 2 \<le> length keys) ''AUTHME_COOKIE_KEYS'') (\<lambda>_.
      bindR (guardR (list_all (\<lambda>k. 32 \<le> cw_bytes w k) keys) ''AUTHME_COOKIE_KEYS'') (\<lambda>_.
      bindR (guardR (distinct keys) ''AUTHME_COOKIE_KEYS'') (\<lambda>_.
      bindR (guardR (devMode \<or> list_all (\<lambda>k. \<not> placeholder k) keys) ''AUTHME_COOKIE_KEYS'') (\<lambda>_. Inr keys)))))"

definition loadConfig :: "config_world \<Rightarrow> environment \<Rightarrow> string + config" where
  "loadConfig w env =
     bindR (guardR (rawSchema w env) ''environment'') (\<lambda>_.
     let devMode = booleanValue (env ''AUTHME_DEV_MODE'') in
     bindR (public_url w env devMode) (\<lambda>publicUrl.
     bindR (realmNames (env ''AUTHME_REALMS'')) (\<lambda>realms.
     bindR (configured_cookie_keys w env devMode) (\<lambda>cookieKeys.
     bindR (guardR (devMode \<or> env_text env ''DATABASE_URL'' \<noteq> []) ''DATABASE_URL'') (\<lambda>_.
     bindR (guardR (devMode \<or> env_text env ''AUTHME_JWKS_DIR'' \<noteq> []) ''AUTHME_JWKS_DIR'') (\<lambda>_.
     bindR (clientsByRealm (cw_json w) (env_text env ''AUTHME_CLIENTS_JSON'') realms) (\<lambda>clients.
     bindR (secret w env ''AUTHME_CSRF_SECRET'' devMode) (\<lambda>csrfSecret.
     bindR (secret w env ''AUTHME_PASSWORD_PEPPER'' devMode) (\<lambda>passwordPepper.
     bindR (secret w env ''AUTHME_SUBJECT_SALT'' devMode) (\<lambda>subjectSalt.
     bindR (encryptionKey w (env_text env ''AUTHME_FIELD_ENCRYPTION_KEY'') devMode) (\<lambda>fieldKey.
     bindR (secret w env ''AUTHME_ADMIN_TOKEN'' devMode) (\<lambda>adminToken.
     bindR (resourceServersByRealm (cw_json w) (cw_parse_url w) (env_text env ''AUTHME_RESOURCE_SERVERS_JSON'') realms devMode) (\<lambda>servers.
     bindR (or_name ''AUTHME_LDAP_PROVIDERS_JSON'' (parseLdapProviders (cw_json w) (cw_parse_url w) (cw_isUrl w) (cw_isIP w)
              (env_text env ''AUTHME_LDAP_PROVIDERS_JSON'') realms devMode)) (\<lambda>ldap.
     bindR (or_name ''AUTHME_OIDC_PROVIDERS_JSON'' (parseOidcProviders (cw_json w) (cw_parse_url w) (cw_isUrl w)
              (env_text env ''AUTHME_OIDC_PROVIDERS_JSON'') realms devMode)) (\<lambda>oidc.
     bindR (or_name ''AUTHME_SAML_PROVIDERS_JSON'' (parseSamlProviders (cw_json w) (cw_parse_url w) (cw_isUrl w)
              (env_text env ''AUTHME_SAML_PROVIDERS_JSON'') realms publicUrl)) (\<lambda>saml.
     bindR (parseScimTokens (cw_json w) (cw_bytes w) placeholder realms devMode (env_text env ''AUTHME_SCIM_TOKENS_JSON'')) (\<lambda>scim.
       Inr \<lparr>cg_devMode = devMode, cg_trustProxy = booleanValue (env ''AUTHME_TRUST_PROXY''), cg_publicUrl = publicUrl,
         cg_port = number_or w env ''AUTHME_PORT'' 3000, cg_realms = realms, cg_cookieKeys = cookieKeys, cg_csrfSecret = csrfSecret,
         cg_passwordPepper = passwordPepper, cg_subjectSalt = subjectSalt, cg_fieldEncryptionKey = fieldKey, cg_adminToken = adminToken,
         cg_jwksDir = env ''AUTHME_JWKS_DIR'', cg_clients = clients, cg_resourceServers = servers, cg_ldap = ldap, cg_oidc = oidc,
         cg_saml = saml, cg_scim = scim, cg_enableDynamicRegistration = booleanValue (env ''AUTHME_ENABLE_DYNAMIC_REGISTRATION''),
         cg_devAdminPassword = (case env ''AUTHME_DEV_ADMIN_PASSWORD'' of None \<Rightarrow> ''AuthMe-Change-Me-Now-2026!'' | Some s \<Rightarrow> s),
         cg_logLevel = (case env ''AUTHME_LOG_LEVEL'' of None \<Rightarrow> ''info'' | Some s \<Rightarrow> s),
         cg_accessTokenTtl = number_or w env ''AUTHME_ACCESS_TOKEN_TTL_SECONDS'' 300,
         cg_authorizationCodeTtl = number_or w env ''AUTHME_AUTHORIZATION_CODE_TTL_SECONDS'' 60,
         cg_sessionTtl = number_or w env ''AUTHME_SESSION_TTL_SECONDS'' 28800,
         cg_webauthnChallengeTtl = number_or w env ''AUTHME_WEBAUTHN_CHALLENGE_TTL_SECONDS'' 300,
         cg_auditRetentionDays = number_or w env ''AUTHME_AUDIT_RETENTION_DAYS'' 90,
         cg_databaseUrl = env ''DATABASE_URL'', cg_redisUrl = redis_url env\<rparr>)))))))))))))))))"

definition issuerFor :: "config \<Rightarrow> string \<Rightarrow> string + string" where
  "issuerFor c realm = (if realm \<in> set (cg_realms c) then Inr (cg_publicUrl c @ ''/realms/'' @ realm) else Inl ''Unknown realm'')"

end
