(* ===== verification/BoundedQueue.thy ===== *)
theory BoundedQueue
  imports JsPrelude
begin

text \<open>
  The fixed-capacity queue of the audit writer (\<open>FixedQueue\<close> of
  \<open>src/observability/audit-writer.js\<close>): a ring buffer over an array with a head index, a tail
  index and a length. The contract a client relies on is the locale \<open>bounded_queue\<close>: the queue
  is a list of at most \<open>cap\<close> elements, \<open>push\<close> appends or reports that it is full, \<open>shift\<close>
  takes from the front or reports that it is empty. The ring buffer is an interpretation.
\<close>

section \<open>The ring buffer\<close>

record 'a ring =
  r_items :: "'a option list"  \<comment> \<open>\<open>#items\<close>, \<open>None\<close> being \<open>undefined\<close>\<close>
  r_head :: nat
  r_tail :: nat
  r_length :: nat
  r_capacity :: nat

definition ring_new :: "nat \<Rightarrow> 'a ring" where
  "ring_new capacity =
     \<lparr>r_items = replicate capacity None, r_head = 0, r_tail = 0, r_length = 0, r_capacity = capacity\<rparr>"

text \<open>\<open>push\<close> returns \<open>false\<close> (here \<open>None\<close>) when the queue is full.\<close>

definition ring_push :: "'a \<Rightarrow> 'a ring \<Rightarrow> 'a ring option" where
  "ring_push value q =
     (if r_length q = r_capacity q then None
      else Some (q\<lparr>r_items := (r_items q)[r_tail q := Some value],
                   r_tail := (r_tail q + 1) mod r_capacity q,
                   r_length := r_length q + 1\<rparr>))"

text \<open>\<open>shift\<close> returns \<open>undefined\<close> (here \<open>None\<close>) when the queue is empty.\<close>

definition ring_shift :: "'a ring \<Rightarrow> ('a option \<times> 'a ring) option" where
  "ring_shift q =
     (if r_length q = 0 then None
      else Some (r_items q ! r_head q,
                 q\<lparr>r_items := (r_items q)[r_head q := None],
                   r_head := (r_head q + 1) mod r_capacity q,
                   r_length := r_length q - 1\<rparr>))"

definition ring_slot :: "'a ring \<Rightarrow> nat \<Rightarrow> nat" where
  "ring_slot q i = (r_head q + i) mod r_capacity q"

definition ring_list :: "'a ring \<Rightarrow> 'a list" where
  "ring_list q = map (\<lambda>i. the (r_items q ! ring_slot q i)) [0..<r_length q]"

definition ring_invar :: "'a ring \<Rightarrow> bool" where
  "ring_invar q \<longleftrightarrow>
     length (r_items q) = r_capacity q \<and> r_length q \<le> r_capacity q \<and>
     (0 < r_capacity q \<longrightarrow> r_head q < r_capacity q \<and> r_tail q = ring_slot q (r_length q)) \<and>
     (\<forall>i < r_length q. r_items q ! ring_slot q i \<noteq> None)"

section \<open>The contract\<close>

locale bounded_queue =
  fixes push :: "'a \<Rightarrow> 'q \<Rightarrow> 'q option"
    and shift :: "'q \<Rightarrow> ('a option \<times> 'q) option"
    and len :: "'q \<Rightarrow> nat"
    and cap :: "'q \<Rightarrow> nat"
    and contents :: "'q \<Rightarrow> 'a list"
    and invar :: "'q \<Rightarrow> bool"
  assumes len_contents: "invar q \<Longrightarrow> len q = length (contents q)"
    and len_cap: "invar q \<Longrightarrow> len q \<le> cap q"
    and push_None: "invar q \<Longrightarrow> push x q = None \<longleftrightarrow> len q = cap q"
    and push_Some: "invar q \<Longrightarrow> push x q = Some q' \<Longrightarrow>
          invar q' \<and> cap q' = cap q \<and> contents q' = contents q @ [x]"
    and shift_None: "invar q \<Longrightarrow> shift q = None \<longleftrightarrow> len q = 0"
    and shift_Some: "invar q \<Longrightarrow> shift q = Some (y, q') \<Longrightarrow>
          invar q' \<and> cap q' = cap q \<and> (\<exists>x. y = Some x \<and> contents q = x # contents q')"
begin

lemma push_total: "invar q \<Longrightarrow> len q < cap q \<Longrightarrow> \<exists>q'. push x q = Some q'"
  using push_None [of q x] by (cases "push x q") auto

lemma push_len: "invar q \<Longrightarrow> push x q = Some q' \<Longrightarrow> len q' = Suc (len q)"
  using push_Some [of q x q'] by (simp add: len_contents)

lemma shift_total:
  assumes "invar q" and "0 < len q"
  shows "\<exists>x q'. shift q = Some (Some x, q')"
proof (cases "shift q")
  case None
  with assms shift_None show ?thesis by simp
next
  case (Some p)
  with shift_Some [OF assms(1), of "fst p" "snd p"] show ?thesis by (cases p) auto
qed

lemma shift_len: "invar q \<Longrightarrow> shift q = Some (y, q') \<Longrightarrow> len q = Suc (len q')"
  using shift_Some [of q y q'] by (auto simp: len_contents)

text \<open>A full queue rejects, so a push never displaces what is queued; a shift gives the oldest.\<close>

lemma push_shift_empty:
  assumes "invar q" and "contents q = []" and "push x q = Some q'"
  shows "\<exists>q''. shift q' = Some (Some x, q'') \<and> contents q'' = []"
proof -
  have q': "invar q'" "contents q' = [x]" using push_Some [OF assms(1,3)] assms(2) by auto
  then obtain y q'' where s: "shift q' = Some (Some y, q'')"
    using shift_total [of q'] len_contents [of q'] by auto
  from shift_Some [OF q'(1) s] q'(2) show ?thesis by (auto simp: s)
qed

end

section \<open>The ring buffer keeps the contract\<close>

lemma ring_slot_lt [simp]: "0 < r_capacity q \<Longrightarrow> ring_slot q i < r_capacity q"
  by (simp add: ring_slot_def)

lemma ring_slot_inj:
  assumes "i < j" and "j \<le> r_length q" and "ring_invar q" and "r_length q - i < r_capacity q \<or> j < r_length q"
  shows "ring_slot q i \<noteq> ring_slot q j"
proof
  assume eq: "ring_slot q i = ring_slot q j"
  let ?c = "r_capacity q"
  have lt: "j - i < ?c" and pos: "0 < j - i"
    using assms by (auto simp: ring_invar_def)
  have "(r_head q + j) mod ?c = (r_head q + i) mod ?c" using eq by (simp add: ring_slot_def)
  then have "?c dvd (r_head q + j) - (r_head q + i)"
    using assms(1) by (simp add: mod_eq_dvd_iff_nat)
  then have "?c dvd j - i" by simp
  with lt pos show False using nat_dvd_not_less by blast
qed

lemma length_ring_list [simp]: "length (ring_list q) = r_length q"
  by (simp add: ring_list_def)

lemma ring_push_invar:
  assumes inv: "ring_invar q" and push: "ring_push x q = Some q'"
  shows "ring_invar q' \<and> r_capacity q' = r_capacity q \<and> ring_list q' = ring_list q @ [x]"
proof -
  have lt: "r_length q < r_capacity q"
    using inv push by (auto simp: ring_push_def ring_invar_def split: if_splits)
  have q': "q' = q\<lparr>r_items := (r_items q)[r_tail q := Some x],
      r_tail := (r_tail q + 1) mod r_capacity q, r_length := r_length q + 1\<rparr>"
    using push by (simp add: ring_push_def split: if_splits)
  have tail: "r_tail q = ring_slot q (r_length q)" using inv lt by (simp add: ring_invar_def)
  have slot: "ring_slot q' i = ring_slot q i" for i by (simp add: q' ring_slot_def)
  have new: "r_items q' ! ring_slot q (r_length q) = Some x"
    using inv lt by (simp add: q' tail ring_invar_def)
  have old: "r_items q' ! ring_slot q i = r_items q ! ring_slot q i" if "i < r_length q" for i
  proof -
    have "ring_slot q i \<noteq> ring_slot q (r_length q)"
      using ring_slot_inj [of i "r_length q" q] that inv lt by simp
    then show ?thesis by (simp add: q' tail)
  qed
  have "ring_invar q'"
    unfolding ring_invar_def
  proof (intro conjI allI impI)
    show "r_items q' ! ring_slot q' i \<noteq> None" if "i < r_length q'" for i
    proof (cases "i = r_length q")
      case True
      then show ?thesis using new by (simp add: slot)
    next
      case False
      then have "i < r_length q" using that by (simp add: q')
      then show ?thesis using inv old [of i] by (simp add: slot ring_invar_def)
    qed
  qed (use inv lt in \<open>auto simp: q' ring_invar_def tail ring_slot_def mod_Suc_eq\<close>)
  moreover have "ring_list q' = ring_list q @ [x]"
    using old new by (simp add: ring_list_def slot) (simp add: q')
  ultimately show ?thesis by (simp add: q')
qed

lemma ring_shift_invar:
  assumes inv: "ring_invar q" and shift: "ring_shift q = Some (y, q')"
  shows "ring_invar q' \<and> r_capacity q' = r_capacity q \<and> (\<exists>x. y = Some x \<and> ring_list q = x # ring_list q')"
proof -
  have pos: "0 < r_length q" and cap: "0 < r_capacity q"
    using inv shift by (auto simp: ring_shift_def ring_invar_def split: if_splits)
  have q': "q' = q\<lparr>r_items := (r_items q)[r_head q := None],
      r_head := (r_head q + 1) mod r_capacity q, r_length := r_length q - 1\<rparr>"
    and y: "y = r_items q ! r_head q"
    using shift by (auto simp: ring_shift_def split: if_splits)
  have head: "ring_slot q 0 = r_head q" using inv cap by (simp add: ring_slot_def ring_invar_def)
  have slot: "ring_slot q' i = ring_slot q (Suc i)" for i
    by (simp add: q' ring_slot_def mod_Suc_eq mod_add_left_eq)
  have old: "r_items q' ! ring_slot q (Suc i) = r_items q ! ring_slot q (Suc i)" if "Suc i < r_length q" for i
    using ring_slot_inj [of 0 "Suc i" q] that inv cap by (simp add: q' head [symmetric])
  have "ring_invar q'"
    unfolding ring_invar_def
  proof (intro conjI allI impI)
    show "r_items q' ! ring_slot q' i \<noteq> None" if "i < r_length q'" for i
    proof -
      have "Suc i < r_length q" using that by (simp add: q')
      then show ?thesis using inv old [of i] by (simp add: slot ring_invar_def)
    qed
    show "r_tail q' = ring_slot q' (r_length q')"
      using inv pos cap by (simp add: slot) (simp add: q' ring_invar_def)
  qed (use inv pos cap in \<open>auto simp: q' ring_invar_def\<close>)
  moreover obtain x where x: "y = Some x"
    using inv pos head by (auto simp: y ring_invar_def)
  moreover have "ring_list q = x # ring_list q'"
  proof -
    have "[0..<r_length q] = 0 # map Suc [0..<r_length q - 1]"
      using pos by (simp add: map_Suc_upt upt_conv_Cons)
    then have "ring_list q = the (r_items q ! ring_slot q 0) #
        map (\<lambda>i. the (r_items q ! ring_slot q (Suc i))) [0..<r_length q - 1]"
      by (simp add: ring_list_def o_def)
    also have "map (\<lambda>i. the (r_items q ! ring_slot q (Suc i))) [0..<r_length q - 1] = ring_list q'"
      unfolding ring_list_def slot using old by (auto simp: q')
    finally show ?thesis using x by (simp add: head y)
  qed
  ultimately show ?thesis by (simp add: q')
qed

interpretation rq: bounded_queue ring_push ring_shift r_length r_capacity ring_list ring_invar
proof (standard, goal_cases)
  case (1 q)
  then show ?case by simp
next
  case (2 q)
  then show ?case by (simp add: ring_invar_def)
next
  case (3 q x)
  then show ?case by (simp add: ring_push_def)
next
  case (4 q x q')
  then show ?case by (rule ring_push_invar)
next
  case (5 q)
  then show ?case by (simp add: ring_shift_def)
next
  case (6 q y q')
  then show ?case by (rule ring_shift_invar)
qed

lemma ring_new_invar [simp]: "ring_invar (ring_new c)" "ring_list (ring_new c) = []"
    "r_capacity (ring_new c) = c" "r_length (ring_new c) = 0"
  by (auto simp: ring_new_def ring_invar_def ring_list_def ring_slot_def)

end
