(* ===== verification/AuditWriter.thy ===== *)
theory AuditWriter
  imports BoundedQueue
begin

text \<open>
  The best-effort audit writer (\<open>BoundedAuditWriter\<close> of
  \<open>src/observability/audit-writer.js\<close>): a bounded queue in front of at most
  \<open>concurrency\<close> writes in flight. The promise chains started by \<open>#execute\<close> and not yet
  settled are the field \<open>aw_inflight\<close>; the settling of one of them is the operation
  \<open>complete\<close>, in any order and with either outcome. Each operation also returns the list of
  works it handed to \<open>#execute\<close>, in order, which is what the ordering properties are about.
  The metric hooks observe and do not change the writer, and are left out; a clock reading is
  an argument of \<open>enqueue\<close>.
\<close>

section \<open>State and operations\<close>

datatype enqueue_result = ACCEPTED | DROPPED | SAMPLED

datatype promise = RESOLVED | PENDING nat

record 'e writer =
  aw_queue :: "'e ring"
  aw_concurrency :: nat
  aw_active :: nat
  aw_inflight :: "'e list"
  aw_accepting :: bool
  aw_accepted :: nat
  aw_dropped :: nat
  aw_sampled :: nat
  aw_writeFailures :: nat
  aw_samples :: "(string \<times> int) list"
  aw_maxSampleKeys :: nat
  aw_flushPromise :: "nat option"
  aw_resolved :: "nat list"
  aw_nextPromise :: nat
  aw_closePromise :: "promise option"

definition requireInteger :: "json \<Rightarrow> int \<Rightarrow> string + int" where
  "requireInteger value minimum =
     (case value of
        JNum n \<Rightarrow> if safe_integer n \<and> minimum \<le> n then Inr n else Inl ''TypeError''
      | _ \<Rightarrow> Inl ''TypeError'')"

text \<open>The constructor.\<close>

definition new_writer :: "json \<Rightarrow> json \<Rightarrow> json \<Rightarrow> string + 'e writer" where
  "new_writer maxQueue concurrency maxSampleKeys =
     bindR (requireInteger maxQueue 0) (\<lambda>q.
     bindR (requireInteger concurrency 1) (\<lambda>c.
     bindR (requireInteger maxSampleKeys 1) (\<lambda>k.
       Inr \<lparr>aw_queue = ring_new (nat q), aw_concurrency = nat c, aw_active = 0, aw_inflight = [],
            aw_accepting = True, aw_accepted = 0, aw_dropped = 0, aw_sampled = 0,
            aw_writeFailures = 0, aw_samples = [], aw_maxSampleKeys = nat k,
            aw_flushPromise = None, aw_resolved = [], aw_nextPromise = 0, aw_closePromise = None\<rparr>)))"

definition MAX_SAMPLE_KEY_LENGTH :: nat where "MAX_SAMPLE_KEY_LENGTH = 512"

definition validateSampleOptions :: "json \<Rightarrow> json \<Rightarrow> string + (string \<times> int) option" where
  "validateSampleOptions sampleKey sampleWindowMs =
     (let hasKey = \<not> nullish sampleKey; hasWindow = \<not> nullish sampleWindowMs in
      if \<not> hasKey \<and> \<not> hasWindow then Inr None
      else if \<not> hasKey \<or> \<not> hasWindow then Inl ''TypeError''
      else (case sampleKey of
              JStr k \<Rightarrow>
                if k = [] \<or> length k > MAX_SAMPLE_KEY_LENGTH then Inl ''TypeError''
                else bindR (requireInteger sampleWindowMs 1) (\<lambda>w. Inr (Some (k, w)))
            | _ \<Rightarrow> Inl ''TypeError''))"

definition pruneSamples :: "int \<Rightarrow> 'e writer \<Rightarrow> 'e writer" where
  "pruneSamples now s = s\<lparr>aw_samples := mdrop (\<lambda>expiresAt. expiresAt \<le> now) (aw_samples s)\<rparr>"

text \<open>The loop of \<open>#rememberSample\<close>: the first entry with the smallest expiry.\<close>

fun earliest :: "(string \<times> int) list \<Rightarrow> (string \<times> int) option \<Rightarrow> string option" where
  "earliest [] best = map_option fst best"
| "earliest ((k, e) # kes) best =
     (case best of
        None \<Rightarrow> earliest kes (Some (k, e))
      | Some (k', e') \<Rightarrow> if e < e' then earliest kes (Some (k, e)) else earliest kes best)"

definition rememberSample :: "string \<Rightarrow> int \<Rightarrow> 'e writer \<Rightarrow> 'e writer" where
  "rememberSample key expiresAt s =
     (let m = (if mget (aw_samples s) key = None \<and> length (aw_samples s) \<ge> aw_maxSampleKeys s
               then (case earliest (aw_samples s) None of
                       None \<Rightarrow> aw_samples s
                     | Some earliestKey \<Rightarrow> mdel earliestKey (aw_samples s))
               else aw_samples s)
      in s\<lparr>aw_samples := mset' key expiresAt m\<rparr>)"

definition recordDropped :: "'e writer \<Rightarrow> 'e writer" where
  "recordDropped s = s\<lparr>aw_dropped := aw_dropped s + 1\<rparr>"

definition accept :: "'e writer \<Rightarrow> 'e writer" where
  "accept s = s\<lparr>aw_accepted := aw_accepted s + 1\<rparr>"

definition execute :: "'e \<Rightarrow> 'e writer \<Rightarrow> 'e writer" where
  "execute work s = s\<lparr>aw_inflight := aw_inflight s @ [work]\<rparr>"

definition remember_opt :: "int \<Rightarrow> (string \<times> int) option \<Rightarrow> 'e writer \<Rightarrow> 'e writer" where
  "remember_opt now sample s =
     (case sample of None \<Rightarrow> s | Some (key, windowMs) \<Rightarrow> rememberSample key (now + windowMs) s)"

text \<open>The part of \<open>enqueue\<close> after the sampling decision.\<close>

definition enqueue_work ::
    "int \<Rightarrow> 'e \<Rightarrow> (string \<times> int) option \<Rightarrow> 'e writer \<Rightarrow> enqueue_result \<times> 'e list \<times> 'e writer" where
  "enqueue_work now event sample s =
     (if aw_active s < aw_concurrency s then
        (ACCEPTED, [event],
         execute event (accept (remember_opt now sample (s\<lparr>aw_active := aw_active s + 1\<rparr>))))
      else (case ring_push event (aw_queue s) of
              Some q \<Rightarrow> (ACCEPTED, [], accept (remember_opt now sample (s\<lparr>aw_queue := q\<rparr>)))
            | None \<Rightarrow> (DROPPED, [], recordDropped s)))"

definition enqueue ::
    "int \<Rightarrow> 'e \<Rightarrow> json \<Rightarrow> json \<Rightarrow> 'e writer \<Rightarrow> string + (enqueue_result \<times> 'e list \<times> 'e writer)" where
  "enqueue now event sampleKey sampleWindowMs s =
     bindR (validateSampleOptions sampleKey sampleWindowMs) (\<lambda>sample.
       if \<not> aw_accepting s then Inr (DROPPED, [], recordDropped s)
       else (case sample of
               None \<Rightarrow> Inr (enqueue_work now event None s)
             | Some (k, w) \<Rightarrow>
                 (let s' = pruneSamples now s in
                  case mget (aw_samples s') k of
                    Some expiresAt \<Rightarrow>
                      if expiresAt > now
                      then Inr (SAMPLED, [], s'\<lparr>aw_sampled := aw_sampled s' + 1\<rparr>)
                      else Inr (enqueue_work now event sample s')
                  | None \<Rightarrow> Inr (enqueue_work now event sample s'))))"

definition flush :: "'e writer \<Rightarrow> promise \<times> 'e writer" where
  "flush s =
     (if aw_active s = 0 \<and> r_length (aw_queue s) = 0 then (RESOLVED, s)
      else (case aw_flushPromise s of
              Some i \<Rightarrow> (PENDING i, s)
            | None \<Rightarrow> (PENDING (aw_nextPromise s),
                       s\<lparr>aw_flushPromise := Some (aw_nextPromise s),
                         aw_nextPromise := aw_nextPromise s + 1\<rparr>)))"

definition close :: "'e writer \<Rightarrow> promise \<times> 'e writer" where
  "close s =
     (case aw_closePromise s of
        Some p \<Rightarrow> (p, s)
      | None \<Rightarrow> (let (p, s') = flush (s\<lparr>aw_accepting := False\<rparr>)
                 in (p, s'\<lparr>aw_closePromise := Some p\<rparr>)))"

text \<open>
  The loop of \<open>#drain\<close>. \<open>#queue.shift()\<close> never gives \<open>undefined\<close> on a non-empty ring
  (\<open>ring_shift_invar\<close>), so the last branch is not reached on a writer that keeps its invariant.
\<close>

function drain_loop :: "'e writer \<Rightarrow> 'e list \<times> 'e writer" where
  "drain_loop s =
     (if aw_active s < aw_concurrency s \<and> r_length (aw_queue s) > 0 then
        (case ring_shift (aw_queue s) of
           Some (Some work, q) \<Rightarrow>
             (let (ws, s') = drain_loop (execute work (s\<lparr>aw_active := aw_active s + 1, aw_queue := q\<rparr>))
              in (work # ws, s'))
         | _ \<Rightarrow> ([], s))
      else ([], s))"
  by pat_completeness auto
termination
  by (relation "measure (\<lambda>s. r_length (aw_queue s))")
     (auto simp: ring_shift_def execute_def split: if_splits)

declare drain_loop.simps [simp del]

definition drain :: "'e writer \<Rightarrow> 'e list \<times> 'e writer" where
  "drain s =
     (let (ws, s') = drain_loop s in
      if aw_active s' \<noteq> 0 \<or> r_length (aw_queue s') \<noteq> 0 then (ws, s')
      else (case aw_flushPromise s' of
              None \<Rightarrow> (ws, s')
            | Some i \<Rightarrow> (ws, s'\<lparr>aw_flushPromise := None, aw_resolved := i # aw_resolved s'\<rparr>)))"

text \<open>One of the writes in flight settles: the \<open>catch\<close> and \<open>finally\<close> of \<open>#execute\<close>.\<close>

definition complete :: "nat \<Rightarrow> bool \<Rightarrow> 'e writer \<Rightarrow> ('e list \<times> 'e writer) option" where
  "complete i ok s =
     (if i < length (aw_inflight s) then
        Some (drain (s\<lparr>aw_inflight := take i (aw_inflight s) @ drop (Suc i) (aw_inflight s),
                       aw_writeFailures := aw_writeFailures s + (if ok then 0 else 1),
                       aw_active := aw_active s - 1\<rparr>))
      else None)"

section \<open>The invariant and its preservation\<close>

definition queue_inv :: "'e writer \<Rightarrow> bool" where
  "queue_inv s \<longleftrightarrow> ring_invar (aw_queue s) \<and> aw_active s = length (aw_inflight s) \<and>
     aw_active s \<le> aw_concurrency s \<and> 1 \<le> aw_concurrency s"

definition sample_inv :: "'e writer \<Rightarrow> bool" where
  "sample_inv s \<longleftrightarrow> map_wf (aw_samples s) \<and> length (aw_samples s) \<le> aw_maxSampleKeys s \<and>
     1 \<le> aw_maxSampleKeys s"

definition promise_inv :: "'e writer \<Rightarrow> bool" where
  "promise_inv s \<longleftrightarrow>
     (\<forall>i. aw_closePromise s = Some (PENDING i) \<longrightarrow> aw_flushPromise s = Some i \<or> i \<in> set (aw_resolved s)) \<and>
     (aw_closePromise s \<noteq> None \<longrightarrow> \<not> aw_accepting s)"

definition saturated :: "'e writer \<Rightarrow> bool" where
  "saturated s \<longleftrightarrow> (0 < r_length (aw_queue s) \<longrightarrow> aw_active s = aw_concurrency s) \<and>
     (aw_flushPromise s \<noteq> None \<longrightarrow> 0 < aw_active s)"

definition aw_inv :: "'e writer \<Rightarrow> bool" where
  "aw_inv s \<longleftrightarrow> queue_inv s \<and> sample_inv s \<and> promise_inv s \<and> saturated s"

lemmas aw_inv_defs = aw_inv_def queue_inv_def sample_inv_def promise_inv_def saturated_def

lemma new_writer_inv: "new_writer a b c = Inr s \<Longrightarrow> aw_inv s"
  by (auto simp: new_writer_def requireInteger_def aw_inv_defs split: json.splits if_splits)

lemma earliest_in: "earliest kes best = Some k \<Longrightarrow> k \<in> fst ` set kes \<or> (\<exists>e. best = Some (k, e))"
proof (induction kes best rule: earliest.induct)
  case (2 k' e kes best)
  then show ?case by (cases best) (fastforce split: if_splits)+
qed auto

lemma earliest_None: "earliest kes best = None \<longleftrightarrow> kes = [] \<and> best = None"
  by (induction kes best rule: earliest.induct) (auto split: option.splits prod.splits)

lemma rememberSample_inv:
  assumes "sample_inv s" shows "sample_inv (rememberSample k e s)"
proof (cases "mget (aw_samples s) k = None \<and> length (aw_samples s) \<ge> aw_maxSampleKeys s")
  case True
  then have "aw_samples s \<noteq> []" using assms by (auto simp: sample_inv_def)
  then obtain k' where k': "earliest (aw_samples s) None = Some k'"
    by (cases "earliest (aw_samples s) None") (auto simp: earliest_None)
  then have "k' \<in> fst ` set (aw_samples s)" using earliest_in by fastforce
  then have "Suc (length (mdel k' (aw_samples s))) = length (aw_samples s)"
    using assms by (intro length_delete_in) (auto simp: sample_inv_def)
  then show ?thesis
    using True k' assms length_update_le [of k e "mdel k' (aw_samples s)"]
    by (auto simp: rememberSample_def sample_inv_def)
next
  case False
  then show ?thesis using assms
    by (auto simp: rememberSample_def sample_inv_def length_update map_of_eq_None_iff)
qed

text \<open>Operations on one part of the state leave the other parts alone.\<close>

lemma rememberSample_frame [simp]:
  "aw_queue (rememberSample k e s) = aw_queue s" "aw_active (rememberSample k e s) = aw_active s"
  "aw_inflight (rememberSample k e s) = aw_inflight s" "aw_concurrency (rememberSample k e s) = aw_concurrency s"
  "aw_accepting (rememberSample k e s) = aw_accepting s" "aw_accepted (rememberSample k e s) = aw_accepted s"
  "aw_flushPromise (rememberSample k e s) = aw_flushPromise s" "aw_resolved (rememberSample k e s) = aw_resolved s"
  "aw_closePromise (rememberSample k e s) = aw_closePromise s" "aw_maxSampleKeys (rememberSample k e s) = aw_maxSampleKeys s"
  "aw_writeFailures (rememberSample k e s) = aw_writeFailures s"
  by (simp_all add: rememberSample_def Let_def)

lemma aw_inv_counts: "aw_inv s \<Longrightarrow> aw_inv (s\<lparr>aw_sampled := n\<rparr>)" "aw_inv s \<Longrightarrow> aw_inv (s\<lparr>aw_dropped := n\<rparr>)"
  by (auto simp: aw_inv_defs)

lemma pruneSamples_inv: "aw_inv s \<Longrightarrow> aw_inv (pruneSamples now s)"
  unfolding pruneSamples_def aw_inv_defs mdrop_def
  by (auto simp: map_wf_def distinct_map_filter intro: le_trans [OF length_filter_le])

lemma sample_inv_cong:
  "aw_samples s' = aw_samples s \<Longrightarrow> aw_maxSampleKeys s' = aw_maxSampleKeys s \<Longrightarrow> sample_inv s' = sample_inv s"
  by (simp add: sample_inv_def)

lemma remember_opt_inv: "sample_inv s \<Longrightarrow> sample_inv (remember_opt now sample s)"
  by (auto simp: remember_opt_def rememberSample_inv split: option.splits)

lemma remember_opt_frame [simp]:
  "aw_queue (remember_opt now sample s) = aw_queue s"
  "aw_active (remember_opt now sample s) = aw_active s"
  "aw_inflight (remember_opt now sample s) = aw_inflight s"
  "aw_concurrency (remember_opt now sample s) = aw_concurrency s"
  "aw_accepting (remember_opt now sample s) = aw_accepting s"
  "aw_accepted (remember_opt now sample s) = aw_accepted s"
  "aw_flushPromise (remember_opt now sample s) = aw_flushPromise s"
  "aw_resolved (remember_opt now sample s) = aw_resolved s"
  "aw_closePromise (remember_opt now sample s) = aw_closePromise s"
  "aw_maxSampleKeys (remember_opt now sample s) = aw_maxSampleKeys s"
  "aw_writeFailures (remember_opt now sample s) = aw_writeFailures s"
  by (auto simp: remember_opt_def split: option.splits)

lemma enqueue_work_inv:
  assumes inv: "aw_inv s" and run: "enqueue_work now e sample s = (r, ws, s')"
  shows "aw_inv s'"
proof -
  let ?rem = "remember_opt now sample"
  consider (start) "aw_active s < aw_concurrency s"
      "s' = execute e (accept (?rem (s\<lparr>aw_active := aw_active s + 1\<rparr>)))"
    | (queue) q where "\<not> aw_active s < aw_concurrency s" "ring_push e (aw_queue s) = Some q"
      "s' = accept (?rem (s\<lparr>aw_queue := q\<rparr>))"
    | (drop) "s' = recordDropped s"
    using run by (auto simp: enqueue_work_def Let_def split: if_splits option.splits)
  then show ?thesis
  proof cases
    case start
    have "sample_inv (?rem (s\<lparr>aw_active := aw_active s + 1\<rparr>))"
      using inv by (intro remember_opt_inv) (simp add: aw_inv_defs)
    then have "sample_inv s'" by (simp add: start(2) execute_def accept_def sample_inv_def)
    then show ?thesis using inv start(1)
      by (auto simp: aw_inv_def queue_inv_def promise_inv_def saturated_def start(2) execute_def accept_def)
  next
    case queue
    have "sample_inv (?rem (s\<lparr>aw_queue := q\<rparr>))"
      using inv by (intro remember_opt_inv) (simp add: aw_inv_defs)
    then have "sample_inv s'" by (simp add: queue(3) accept_def sample_inv_def)
    moreover have "ring_invar q"
      using rq.push_Some [OF _ queue(2)] inv by (auto simp: aw_inv_def queue_inv_def)
    ultimately show ?thesis using inv queue(1)
      by (auto simp: aw_inv_def queue_inv_def promise_inv_def saturated_def queue(3) accept_def)
  next
    case drop
    then show ?thesis using inv by (simp add: aw_inv_counts recordDropped_def)
  qed
qed

lemma enqueue_cases:
  assumes "enqueue now e k w s = Inr (r, ws, s')"
  obtains (closed) "\<not> aw_accepting s" "r = DROPPED" "ws = []" "s' = recordDropped s"
    | (plain) "aw_accepting s" "enqueue_work now e None s = (r, ws, s')"
    | (sampled) "aw_accepting s" "r = SAMPLED" "ws = []"
        "s' = (pruneSamples now s)\<lparr>aw_sampled := aw_sampled (pruneSamples now s) + 1\<rparr>"
    | (keyed) kw where "aw_accepting s" "enqueue_work now e (Some kw) (pruneSamples now s) = (r, ws, s')"
  using assms
  by (auto simp: enqueue_def Let_def split: if_splits option.splits)

lemma enqueue_inv: "aw_inv s \<Longrightarrow> enqueue now e k w s = Inr (r, ws, s') \<Longrightarrow> aw_inv s'"
proof (erule enqueue_cases)
  assume "aw_inv s" "s' = recordDropped s"
  then show "aw_inv s'" by (simp add: aw_inv_counts recordDropped_def)
next
  assume "aw_inv s" "s' = (pruneSamples now s)\<lparr>aw_sampled := aw_sampled (pruneSamples now s) + 1\<rparr>"
  then show "aw_inv s'" by (simp add: aw_inv_counts pruneSamples_inv)
qed (auto intro: enqueue_work_inv pruneSamples_inv)

lemma flush_inv: "aw_inv s \<Longrightarrow> flush s = (p, s') \<Longrightarrow> aw_inv s'"
  by (auto simp: flush_def aw_inv_defs split: if_splits option.splits)

lemma close_inv: "aw_inv s \<Longrightarrow> close s = (p, s') \<Longrightarrow> aw_inv s'"
  by (auto simp: close_def flush_def aw_inv_defs split: if_splits option.splits prod.splits)

lemma drain_loop_spec:
  assumes "queue_inv s" and "drain_loop s = (ws, s')"
  shows "queue_inv s' \<and> ring_list (aw_queue s) = ws @ ring_list (aw_queue s') \<and>
     aw_active s' = aw_active s + length ws \<and>
     (0 < r_length (aw_queue s') \<longrightarrow> aw_active s' = aw_concurrency s') \<and>
     aw_concurrency s' = aw_concurrency s \<and> aw_samples s' = aw_samples s \<and>
     aw_maxSampleKeys s' = aw_maxSampleKeys s \<and> aw_flushPromise s' = aw_flushPromise s \<and>
     aw_resolved s' = aw_resolved s \<and> aw_closePromise s' = aw_closePromise s \<and>
     aw_accepting s' = aw_accepting s \<and> aw_accepted s' = aw_accepted s \<and>
     aw_writeFailures s' = aw_writeFailures s"
  using assms
proof (induction s arbitrary: ws s' rule: drain_loop.induct)
  case (1 s)
  show ?case
  proof (cases "aw_active s < aw_concurrency s \<and> r_length (aw_queue s) > 0")
    case False
    then show ?thesis using "1.prems" by (auto simp: drain_loop.simps [of s] queue_inv_def)
  next
    case True
    have ring: "ring_invar (aw_queue s)" using "1.prems" by (simp add: queue_inv_def)
    obtain work q where sh: "ring_shift (aw_queue s) = Some (Some work, q)"
      using rq.shift_total [OF ring] True by auto
    let ?t = "execute work (s\<lparr>aw_active := aw_active s + 1, aw_queue := q\<rparr>)"
    obtain ws' s'' where rec: "drain_loop ?t = (ws', s'')" by fastforce
    have res: "ws = work # ws'" "s' = s''"
      using "1.prems"(2) True sh rec by (auto simp: drain_loop.simps [of s])
    have q: "ring_invar q" "ring_list (aw_queue s) = work # ring_list q"
      using rq.shift_Some [OF ring sh] by auto
    have "queue_inv ?t" using "1.prems"(1) True q(1) by (simp add: queue_inv_def execute_def)
    from "1.IH" [OF True sh refl refl this rec] show ?thesis
      by (auto simp: res q(2) execute_def)
  qed
qed

text \<open>What \<open>#drain\<close> does to a writer whose counters agree, right after a slot was freed.\<close>

lemma drain_spec:
  assumes "queue_inv s" and "drain s = (ws, s')"
  shows "queue_inv s'" "ring_list (aw_queue s) = ws @ ring_list (aw_queue s')"
    "aw_active s' = aw_active s + length ws" "aw_concurrency s' = aw_concurrency s"
    "aw_samples s' = aw_samples s" "aw_maxSampleKeys s' = aw_maxSampleKeys s"
    "aw_closePromise s' = aw_closePromise s" "aw_accepting s' = aw_accepting s"
    "aw_accepted s' = aw_accepted s" "aw_writeFailures s' = aw_writeFailures s"
    "saturated s'" "promise_inv s \<Longrightarrow> promise_inv s'"
proof -
  obtain s1 where d: "drain_loop s = (ws, s1)"
    and s': "s' = (if aw_active s1 \<noteq> 0 \<or> r_length (aw_queue s1) \<noteq> 0 then s1
        else (case aw_flushPromise s1 of None \<Rightarrow> s1
              | Some i \<Rightarrow> s1\<lparr>aw_flushPromise := None, aw_resolved := i # aw_resolved s1\<rparr>))"
    using assms(2) by (auto simp: drain_def split: prod.splits if_splits option.splits)
  note spec = drain_loop_spec [OF assms(1) d]
  have c: "0 < aw_concurrency s1" using spec by (auto simp: queue_inv_def)
  show "saturated s'" using spec c by (auto simp: s' saturated_def split: option.splits)
  show "promise_inv s \<Longrightarrow> promise_inv s'"
    using spec by (auto simp: s' promise_inv_def split: option.splits)
  show "queue_inv s'" "ring_list (aw_queue s) = ws @ ring_list (aw_queue s')"
    "aw_active s' = aw_active s + length ws" "aw_concurrency s' = aw_concurrency s"
    "aw_samples s' = aw_samples s" "aw_maxSampleKeys s' = aw_maxSampleKeys s"
    "aw_closePromise s' = aw_closePromise s" "aw_accepting s' = aw_accepting s"
    "aw_accepted s' = aw_accepted s" "aw_writeFailures s' = aw_writeFailures s"
    using spec by (auto simp: s' queue_inv_def split: option.splits)
qed

lemma complete_spec:
  assumes inv: "aw_inv s" and run: "complete i ok s = Some (ws, s')"
  shows "aw_inv s'" "ring_list (aw_queue s) = ws @ ring_list (aw_queue s')"
    "Suc (aw_active s') = aw_active s + length ws" "aw_accepted s' = aw_accepted s"
    "aw_accepting s' = aw_accepting s" "aw_closePromise s' = aw_closePromise s"
    "aw_writeFailures s' \<le> Suc (aw_writeFailures s)"
proof -
  let ?t = "s\<lparr>aw_inflight := take i (aw_inflight s) @ drop (Suc i) (aw_inflight s),
      aw_writeFailures := aw_writeFailures s + (if ok then 0 else 1), aw_active := aw_active s - 1\<rparr>"
  have i: "i < length (aw_inflight s)" and d: "drain ?t = (ws, s')"
    using run by (auto simp: complete_def split: if_splits)
  have "queue_inv ?t" using inv i by (auto simp: aw_inv_def queue_inv_def)
  note spec = drain_spec [OF this d]
  have "promise_inv ?t" using inv by (simp add: aw_inv_def promise_inv_def)
  then show "aw_inv s'"
    using spec inv by (simp add: aw_inv_def) (simp add: sample_inv_def)
  have "0 < aw_active s" using inv i by (auto simp: aw_inv_def queue_inv_def)
  then show "Suc (aw_active s') = aw_active s + length ws" using spec(3) by simp
qed (use drain_spec [of "s\<lparr>aw_inflight := take i (aw_inflight s) @ drop (Suc i) (aw_inflight s),
      aw_writeFailures := aw_writeFailures s + (if ok then 0 else 1), aw_active := aw_active s - 1\<rparr>" ws s']
      inv run in \<open>auto simp: complete_def aw_inv_def queue_inv_def split: if_splits\<close>)

section \<open>Runs of the writer\<close>

text \<open>
  \<open>aw_run acc started n s\<close>: \<open>s\<close> is reached from a new writer by calls of its operations and
  settlements of its writes; \<open>acc\<close> are the events it accepted, in order, \<open>started\<close> those it
  handed to the \<open>write\<close> callback, in order, and \<open>n\<close> counts the settled writes.
\<close>

inductive aw_run :: "'e list \<Rightarrow> 'e list \<Rightarrow> nat \<Rightarrow> 'e writer \<Rightarrow> bool" where
  run_new: "new_writer q c k = Inr s \<Longrightarrow> aw_run [] [] 0 s"
| run_enqueue: "aw_run acc started n s \<Longrightarrow> enqueue now e key window s = Inr (r, ws, s') \<Longrightarrow>
    aw_run (if r = ACCEPTED then acc @ [e] else acc) (started @ ws) n s'"
| run_complete: "aw_run acc started n s \<Longrightarrow> complete i ok s = Some (ws, s') \<Longrightarrow>
    aw_run acc (started @ ws) (Suc n) s'"
| run_flush: "aw_run acc started n s \<Longrightarrow> flush s = (p, s') \<Longrightarrow> aw_run acc started n s'"
| run_close: "aw_run acc started n s \<Longrightarrow> close s = (p, s') \<Longrightarrow> aw_run acc started n s'"

definition aw_log_inv :: "'e list \<Rightarrow> 'e list \<Rightarrow> nat \<Rightarrow> 'e writer \<Rightarrow> bool" where
  "aw_log_inv acc started n s \<longleftrightarrow> aw_inv s \<and> acc = started @ ring_list (aw_queue s) \<and>
     length started = n + aw_active s \<and> aw_accepted s = length acc \<and> aw_writeFailures s \<le> n"

lemma enqueue_work_log:
  assumes "aw_log_inv acc started n s" and "enqueue_work now e sample s = (r, ws, s')"
  shows "aw_log_inv (if r = ACCEPTED then acc @ [e] else acc) (started @ ws) n s'"
proof -
  have inv: "aw_inv s'" using enqueue_work_inv assms by (auto simp: aw_log_inv_def)
  show ?thesis
  proof (cases "aw_active s < aw_concurrency s")
    case True
    moreover from True have "r_length (aw_queue s) = 0"
      using assms(1) by (auto simp: aw_log_inv_def aw_inv_def saturated_def)
    ultimately show ?thesis using assms inv
      by (auto simp: enqueue_work_def aw_log_inv_def execute_def accept_def ring_list_def)
  next
    case False
    show ?thesis
    proof (cases "ring_push e (aw_queue s)")
      case None
      then show ?thesis using False assms inv
        by (auto simp: enqueue_work_def aw_log_inv_def recordDropped_def)
    next
      case (Some q)
      have "ring_list q = ring_list (aw_queue s) @ [e]"
        using rq.push_Some [OF _ Some] assms(1) by (auto simp: aw_log_inv_def aw_inv_def queue_inv_def)
      then show ?thesis using Some False assms inv
        by (auto simp: enqueue_work_def aw_log_inv_def accept_def)
    qed
  qed
qed

lemma pruneSamples_log: "aw_log_inv acc started n s \<Longrightarrow> aw_log_inv acc started n (pruneSamples now s)"
  using pruneSamples_inv [of s now] by (auto simp: aw_log_inv_def) (auto simp: pruneSamples_def)

lemma enqueue_log:
  assumes log: "aw_log_inv acc started n s" and run: "enqueue now e k w s = Inr (r, ws, s')"
  shows "aw_log_inv (if r = ACCEPTED then acc @ [e] else acc) (started @ ws) n s'"
  using run
proof (cases rule: enqueue_cases)
  case closed
  then show ?thesis using log aw_inv_counts(2) by (auto simp: aw_log_inv_def recordDropped_def)
next
  case plain
  then show ?thesis using enqueue_work_log [OF log] by blast
next
  case sampled
  then show ?thesis using pruneSamples_log [OF log, of now] aw_inv_counts(1)
    by (auto simp: aw_log_inv_def)
next
  case (keyed kw)
  then show ?thesis using enqueue_work_log [OF pruneSamples_log [OF log]] by blast
qed

lemma aw_run_log: "aw_run acc started n s \<Longrightarrow> aw_log_inv acc started n s"
proof (induction rule: aw_run.induct)
  case (run_new q c k s)
  then show ?case using new_writer_inv [OF run_new]
    by (auto simp: aw_log_inv_def new_writer_def split: if_splits)
next
  case (run_enqueue acc started n s now e key window r ws s')
  then show ?case by (blast intro: enqueue_log)
next
  case (run_complete acc started n s i ok ws s')
  then show ?case using complete_spec [of s i ok ws s'] by (auto simp: aw_log_inv_def)
next
  case (run_flush acc started n s p s')
  then show ?case using flush_inv [of s p s']
    by (auto simp: aw_log_inv_def flush_def split: if_splits option.splits)
next
  case (run_close acc started n s p s')
  then show ?case using close_inv [of s p s']
    by (auto simp: aw_log_inv_def close_def flush_def split: if_splits option.splits prod.splits)
qed

section \<open>Draining\<close>

text \<open>Writes settle one after the other, in any order and with any outcome.\<close>

fun settle :: "(nat \<times> bool) list \<Rightarrow> 'e writer \<Rightarrow> 'e list \<times> 'e writer" where
  "settle [] s = ([], s)"
| "settle ((i, ok) # sched) s =
     (case complete (i mod length (aw_inflight s)) ok s of
        None \<Rightarrow> ([], s)
      | Some (ws, s') \<Rightarrow> (let (ws', s'') = settle sched s' in (ws @ ws', s'')))"

lemma settle_spec:
  assumes "aw_inv s" and "length sched = aw_active s + r_length (aw_queue s)" and "settle sched s = (ws, s')"
  shows "aw_inv s' \<and> aw_active s' = 0 \<and> r_length (aw_queue s') = 0 \<and> ws = ring_list (aw_queue s) \<and>
     aw_closePromise s' = aw_closePromise s"
  using assms
proof (induction sched arbitrary: s ws)
  case Nil
  then show ?case by (auto simp: ring_list_def)
next
  case (Cons io sched)
  obtain i ok where io: "io = (i, ok)" by fastforce
  have pos: "0 < length (aw_inflight s)"
    using Cons.prems(1,2) by (auto simp: aw_inv_defs)
  then obtain ws1 s1 where c: "complete (i mod length (aw_inflight s)) ok s = Some (ws1, s1)"
    by (cases "drain (s\<lparr>aw_inflight := take (i mod length (aw_inflight s)) (aw_inflight s) @
        drop (Suc (i mod length (aw_inflight s))) (aw_inflight s),
        aw_writeFailures := aw_writeFailures s + (if ok then 0 else 1), aw_active := aw_active s - 1\<rparr>)")
       (auto simp: complete_def)
  obtain ws2 where ws: "ws = ws1 @ ws2" and rec: "settle sched s1 = (ws2, s')"
    using Cons.prems(3) c by (auto simp: io split: prod.splits)
  note spec = complete_spec [OF Cons.prems(1) c]
  have len: "r_length (aw_queue s) = length ws1 + r_length (aw_queue s1)"
    using arg_cong [OF spec(2), of length] by simp
  have "length sched = aw_active s1 + r_length (aw_queue s1)"
    using Cons.prems(2) spec(3) len by simp
  from Cons.IH [OF spec(1) this rec] show ?case using spec by (simp add: ws)
qed

section \<open>What the writer promises\<close>

lemma aw_run_inv: "aw_run acc started n s \<Longrightarrow> aw_inv s"
  using aw_run_log by (auto simp: aw_log_inv_def)

text \<open>C1: Whatever calls, settlements and failures occur, the writes are started in the order in
  which the events were accepted, none is lost, duplicated or invented (the accepted events are
  the started ones followed by the queue), at most \<open>concurrency\<close> writes are in flight, neither
  the queue nor the sample table outgrows its bound, and the counters are exact.\<close>

theorem audit_writer_fifo_and_bounded:
  assumes "aw_run acc started n s"
  shows "acc = started @ ring_list (aw_queue s) \<and> length started = n + aw_active s \<and>
    aw_active s = length (aw_inflight s) \<and> aw_active s \<le> aw_concurrency s \<and>
    r_length (aw_queue s) \<le> r_capacity (aw_queue s) \<and>
    length (aw_samples s) \<le> aw_maxSampleKeys s \<and>
    aw_accepted s = length acc \<and> aw_writeFailures s \<le> n"
  using aw_run_log [OF assms]
  by (auto simp: aw_log_inv_def aw_inv_def queue_inv_def sample_inv_def ring_invar_def)

definition demo_writer :: "string writer" where
  "demo_writer = projr (new_writer (JNum 1) (JNum 1) (JNum 2))"

lemma demo_run0: "aw_run [] [] 0 demo_writer"
  by (rule run_new [of "JNum 1" "JNum 1" "JNum 2"]) (simp add: demo_writer_def new_writer_def requireInteger_def safe_integer_def)

lemma demo_run1: "aw_run [''a''] [''a''] 0 (snd (snd (projr (enqueue 0 ''a'' JUndef JUndef demo_writer))))"
  using run_enqueue [OF demo_run0, of 0 "''a''" JUndef JUndef]
  by (simp add: enqueue_def enqueue_work_def validateSampleOptions_def nullish.simps demo_writer_def
      new_writer_def requireInteger_def safe_integer_def accept_def execute_def)

text \<open>Two events are accepted; one is being written and one waits in the queue.\<close>

definition demo_writer2 :: "string writer" where
  "demo_writer2 = snd (snd (projr (enqueue 1 ''b'' (JStr ''k'') (JNum 50)
     (snd (snd (projr (enqueue 0 ''a'' JUndef JUndef demo_writer)))))))"

lemmas demo_writer_eval = demo_writer2_def enqueue_def enqueue_work_def validateSampleOptions_def
  nullish.simps demo_writer_def new_writer_def requireInteger_def safe_integer_def accept_def
  execute_def ring_push_def ring_new_def pruneSamples_def mdrop_def rememberSample_def
  remember_opt_def MAX_SAMPLE_KEY_LENGTH_def

lemma demo_run2: "aw_run [''a'', ''b''] [''a''] 0 demo_writer2"
  using run_enqueue [OF demo_run1, of 1 "''b''" "JStr ''k''" "JNum 50"]
  by (simp add: demo_writer_eval)

lemma audit_writer_fifo_and_bounded_witness:
  "aw_run [''a'', ''b''] [''a''] 0 demo_writer2 \<and>
   [''a'', ''b''] = [''a''] @ ring_list (aw_queue demo_writer2) \<and> aw_active demo_writer2 \<le> 1"
  using audit_writer_fifo_and_bounded [OF demo_run2] demo_run2
  by (simp add: demo_writer_eval)

text \<open>C2: A graceful shutdown loses nothing. After \<open>close\<close>, once as many writes have settled (in
  any order, successfully or not) as were in flight or queued, everything queued has been
  started in order, the writer is idle, and the promise that \<open>close\<close> returned is resolved.\<close>

theorem close_drains_everything:
  assumes "aw_run acc started n s" and "close s = (p, s1)"
    and "length sched = aw_active s + r_length (aw_queue s)" and "settle sched s1 = (ws, s2)"
  shows "acc = started @ ws \<and> aw_active s2 = 0 \<and> r_length (aw_queue s2) = 0 \<and>
    \<not> aw_accepting s1 \<and>
    (case aw_closePromise s2 of
       Some (PENDING i) \<Rightarrow> i \<in> set (aw_resolved s2) \<and> p = PENDING i
     | Some RESOLVED \<Rightarrow> p = RESOLVED
     | None \<Rightarrow> False)"
proof -
  have inv: "aw_inv s" by (rule aw_run_inv [OF assms(1)])
  have same: "aw_active s1 = aw_active s" "aw_queue s1 = aw_queue s" "aw_closePromise s1 = Some p"
    using assms(2) by (auto simp: close_def flush_def split: option.splits if_splits)
  have inv1: "aw_inv s1" by (rule close_inv [OF inv assms(2)])
  have fin: "aw_inv s2" "aw_active s2 = 0" "r_length (aw_queue s2) = 0"
      "ws = ring_list (aw_queue s)" "aw_closePromise s2 = Some p"
    using settle_spec [OF inv1 _ assms(4)] assms(3) same by auto
  have "aw_flushPromise s2 = None" using fin(1,2) by (auto simp: aw_inv_def saturated_def)
  then have "i \<in> set (aw_resolved s2)" if "p = PENDING i" for i
    using fin(1,5) that by (auto simp: aw_inv_def promise_inv_def)
  moreover have "\<not> aw_accepting s1" using inv1 same(3) by (auto simp: aw_inv_def promise_inv_def)
  moreover have "acc = started @ ring_list (aw_queue s)"
    using aw_run_log [OF assms(1)] by (simp add: aw_log_inv_def)
  ultimately show ?thesis using fin by (cases p) simp_all
qed

lemma close_drains_everything_witness:
  "(let (p, s1) = close demo_writer2; (ws, s2) = settle [(0, False), (0, True)] s1
    in ws = [''b''] \<and> p = PENDING 0 \<and> 0 \<in> set (aw_resolved s2))"
proof -
  obtain p s1 ws s2 where r: "close demo_writer2 = (p, s1)" "settle [(0, False), (0, True)] s1 = (ws, s2)"
    by fastforce
  have "[''a'', ''b''] = [''a''] @ ws \<and> (case aw_closePromise s2 of
       Some (PENDING i) \<Rightarrow> i \<in> set (aw_resolved s2) \<and> p = PENDING i
     | Some RESOLVED \<Rightarrow> p = RESOLVED | None \<Rightarrow> False)"
    using close_drains_everything [OF demo_run2 r(1) _ r(2)] by (simp add: demo_writer_eval)
  moreover have "p = PENDING 0"
    using r(1) by (simp add: close_def flush_def demo_writer_eval)
  ultimately show ?thesis by (auto simp: r simp del: settle.simps split: option.splits promise.splits)
qed

lemma first_of: "xs = ys @ zs \<Longrightarrow> length ys = min 1 (length xs) \<Longrightarrow> ys = take 1 xs \<and> zs = drop 1 xs"
  by (cases ys) (auto simp: min_def split: if_splits)

text \<open>C29: The loop a settled write enters comes to an end on every reachable writer, having started exactly the oldest waiting
event, or nothing if nothing waits: never more than the slot that became free, and never less.\<close>

theorem drain_loop_ends:
  assumes run: "aw_run acc started n s" and settled: "complete i ok s = Some (ws, s')"
  shows "ws = take 1 (ring_list (aw_queue s)) \<and> ring_list (aw_queue s') = drop 1 (ring_list (aw_queue s)) \<and>
    (0 < r_length (aw_queue s') \<longrightarrow> aw_active s' = aw_concurrency s)"
proof -
  have inv: "aw_inv s" by (rule aw_run_inv [OF run])
  note spec = complete_spec [OF inv settled]
  let ?t = "s\<lparr>aw_inflight := take i (aw_inflight s) @ drop (Suc i) (aw_inflight s),
      aw_writeFailures := aw_writeFailures s + (if ok then 0 else 1), aw_active := aw_active s - 1\<rparr>"
  have i: "i < length (aw_inflight s)" and d: "drain ?t = (ws, s')" using settled by (auto simp: complete_def split: if_splits)
  have "queue_inv ?t" using inv i by (auto simp: aw_inv_def queue_inv_def)
  then have conc: "aw_concurrency s' = aw_concurrency s" using drain_spec(4) [OF _ d] by simp
  have full: "0 < r_length (aw_queue x) \<Longrightarrow> aw_active x = aw_concurrency x" if "aw_inv x" for x :: "'a writer"
    using that by (simp add: aw_inv_def saturated_def)
  have bound: "aw_active s' \<le> aw_concurrency s" using spec(1) conc by (simp add: aw_inv_def queue_inv_def)
  have len: "r_length (aw_queue s) = length ws + r_length (aw_queue s')"
    using arg_cong [OF spec(2), of length] by simp
  have "length ws = min 1 (r_length (aw_queue s))"
    using full [OF inv] full [OF spec(1)] spec(3) bound conc len by linarith
  then have "length ws = min 1 (length (ring_list (aw_queue s)))" by simp
  from first_of [OF spec(2) this] show ?thesis using full [OF spec(1)] conc by simp
qed

theorem drain_loop_ends_witness:
  "\<exists>s'. complete 0 True demo_writer2 = Some ([''b''], s') \<and> ring_list (aw_queue s') = []"
proof -
  have "0 < length (aw_inflight demo_writer2)" by (simp add: demo_writer_eval)
  then have "complete 0 True demo_writer2 \<noteq> None" by (simp add: complete_def)
  then obtain ws s' where c: "complete 0 True demo_writer2 = Some (ws, s')" by fastforce
  have "ring_list (aw_queue demo_writer2) = [''b'']" by (simp add: demo_writer_eval ring_list_def ring_slot_def)
  with drain_loop_ends [OF demo_run2 c] c show ?thesis by simp
qed

text \<open>Sampling. When a keyed event is accepted, a repeat of the key inside its window is
  answered \<open>SAMPLED\<close>: nothing more is written or queued; from the end of the window on it is
  not sampled any more.\<close>

theorem sampling_window:
  assumes "aw_run acc started n s" and "enqueue now e (JStr k) (JNum w) s = Inr (ACCEPTED, ws, s1)"
    and "now \<le> now'"
  shows "if now' < now + w
    then \<exists>s2. enqueue now' e' (JStr k) (JNum w') s1 = (if safe_integer w' \<and> 1 \<le> w'
           then Inr (SAMPLED, [], s2) else Inl ''TypeError'') \<and>
         aw_queue s2 = aw_queue s1 \<and> aw_inflight s2 = aw_inflight s1 \<and> aw_accepted s2 = aw_accepted s1
    else \<forall>ws2 s2. enqueue now' e' (JStr k) (JNum w') s1 \<noteq> Inr (SAMPLED, ws2, s2)"
proof -
  have open': "aw_accepting s" and key: "k \<noteq> []" "length k \<le> MAX_SAMPLE_KEY_LENGTH"
    and win: "1 \<le> w"
    using assms(2)
    by (auto simp: enqueue_def validateSampleOptions_def requireInteger_def nullish.simps Let_def
        split: if_splits option.splits)
  have s1: "\<exists>t. s1 = execute e (accept (rememberSample k (now + w) t)) \<and> aw_accepting t \<or>
            s1 = accept (rememberSample k (now + w) t) \<and> aw_accepting t"
    using assms(2) open'
    by (auto simp: enqueue_def enqueue_work_def validateSampleOptions_def requireInteger_def nullish.simps
        Let_def remember_opt_def pruneSamples_def split: if_splits option.splits)
  then have got: "mget (aw_samples s1) k = Some (now + w)" and acc: "aw_accepting s1"
    by (auto simp: execute_def accept_def rememberSample_def Let_def)
  have inv1: "aw_inv s1" using enqueue_inv [OF aw_run_inv [OF assms(1)] assms(2)] .
  then have wf: "map_wf (aw_samples s1)" by (simp add: aw_inv_def sample_inv_def)
  have pr: "mget (aw_samples (pruneSamples now' s1)) k = (if now + w \<le> now' then None else Some (now + w))"
    using got wf by (simp add: pruneSamples_def mget_mdrop)
  have not: "fst (enqueue_work t e'' smp st) \<noteq> SAMPLED" for t e'' smp and st :: "'a writer"
    by (auto simp: enqueue_work_def split: option.splits)
  show ?thesis
  proof (cases "now' < now + w")
    case True
    let ?s2 = "(pruneSamples now' s1)\<lparr>aw_sampled := aw_sampled (pruneSamples now' s1) + 1\<rparr>"
    have "enqueue now' e' (JStr k) (JNum w') s1 = (if safe_integer w' \<and> 1 \<le> w'
           then Inr (SAMPLED, [], ?s2) else Inl ''TypeError'')"
      using True acc key pr
      by (auto simp: enqueue_def validateSampleOptions_def requireInteger_def nullish.simps Let_def)
    then show ?thesis using True
      by (simp only: if_True) (rule exI [of _ ?s2], simp add: pruneSamples_def)
  next
    case False
    then show ?thesis using acc key pr not
      by (auto simp: enqueue_def validateSampleOptions_def requireInteger_def nullish.simps Let_def)
         (metis fst_conv)
  qed
qed

lemma sampling_window_witness:
  "enqueue 1 ''b'' (JStr ''k'') (JNum 50) (snd (snd (projr (enqueue 0 ''a'' JUndef JUndef demo_writer))))
     = Inr (ACCEPTED, [], demo_writer2) \<and>
   fst (projr (enqueue 40 ''c'' (JStr ''k'') (JNum 9) demo_writer2)) = SAMPLED"
proof -
  have a: "enqueue 1 ''b'' (JStr ''k'') (JNum 50)
      (snd (snd (projr (enqueue 0 ''a'' JUndef JUndef demo_writer)))) = Inr (ACCEPTED, [], demo_writer2)"
    by (simp add: demo_writer_eval)
  show ?thesis
    using sampling_window [OF demo_run1 a, of 40 "''c''" 9] a by (auto simp: safe_integer_def)
qed

end
