(* ===== verification/OidcServer.thy ===== *)
theory OidcServer
  imports Config AuditWriter
begin

text \<open>
  What the service gives the OpenID Connect library (\<open>src/provider.js\<close>): the clients of a realm and the policy they must meet, the
  hooks the library calls for accounts, claims, resource servers, introspection, registration and outgoing requests,
  and the audit events it raises. The library itself (\<open>oidc-provider\<close>) is not under \<open>src/\<close>; \<open>server_world\<close> holds the
  other functions the hooks rely on.
\<close>

record server_world =
  vw_parse_url :: url_parser
  vw_bytes :: "string \<Rightarrow> nat"
  vw_hmac :: "string \<Rightarrow> string \<Rightarrow> string"

text \<open>\<open>vw_hmac key text\<close> is the base64url text of the HMAC-SHA-256.\<close>

section \<open>Clients\<close>

definition CONSOLE_CLIENT_ID :: string where "CONSOLE_CLIENT_ID = ''authme-admin-console''"

definition strs :: "string list \<Rightarrow> json" where "strs xs = JArr (map JStr xs)"

definition adminConsoleClient :: "config \<Rightarrow> json" where
  "adminConsoleClient c = JObj
     [(''client_id'', JStr CONSOLE_CLIENT_ID), (''client_name'', JStr ''AuthMe administration console''),
      (''token_endpoint_auth_method'', JStr ''none''), (''redirect_uris'', strs [cg_publicUrl c @ ''/admin/oidc/callback'']),
      (''post_logout_redirect_uris'', strs [cg_publicUrl c @ ''/admin/'']), (''web_origins'', strs [cg_publicUrl c]),
      (''response_types'', strs [''code'']), (''grant_types'', strs [''authorization_code'']), (''application_type'', JStr ''web''),
      (''subject_type'', JStr ''public''), (''scope'', JStr ''openid profile email roles'')]"

definition developmentClients :: "json list" where
  "developmentClients =
     [JObj [(''client_id'', JStr ''authme-dev''), (''client_name'', JStr ''AuthMe development client''),
        (''client_secret'', JStr ''authme-dev-secret-change-me''), (''token_endpoint_auth_method'', JStr ''client_secret_basic''),
        (''redirect_uris'', strs [''http://127.0.0.1:3001/callback'']), (''post_logout_redirect_uris'', strs [''http://127.0.0.1:3001/'']),
        (''web_origins'', strs [''http://127.0.0.1:3001'']), (''response_types'', strs [''code'']),
        (''grant_types'', strs [''authorization_code'', ''refresh_token'', ''urn:ietf:params:oauth:grant-type:device_code'']),
        (''application_type'', JStr ''web''), (''scope'', JStr ''openid profile email roles groups offline_access'')],
      JObj [(''client_id'', JStr ''authme-dev-service''), (''client_name'', JStr ''AuthMe development service''),
        (''client_secret'', JStr ''authme-dev-service-secret-change-me''), (''token_endpoint_auth_method'', JStr ''client_secret_basic''),
        (''redirect_uris'', strs []), (''response_types'', strs []), (''grant_types'', strs [''client_credentials''])]]"

text \<open>A configured client that is \<open>null\<close> ends in a \<open>TypeError\<close>.\<close>

definition configuredClientsForRealm :: "config \<Rightarrow> string \<Rightarrow> string + json list" where
  "configuredClientsForRealm c realm =
     (let clients = (case mget (cg_clients c) realm of None \<Rightarrow> [] | Some cs \<Rightarrow> cs) in
      bindR (mapR (\<lambda>x. bindR (guardR (x \<noteq> JNull) ''TypeError'') (\<lambda>_.
               guardR (jprop x ''client_id'' \<noteq> JStr CONSOLE_CLIENT_ID) ''Error'')) clients) (\<lambda>_.
        Inr (clients @ (if cg_devMode c \<and> clients = [] then developmentClients else []) @ [adminConsoleClient c])))"

definition corsAllowed :: "string \<Rightarrow> json \<Rightarrow> bool" where
  "corsAllowed origin client \<longleftrightarrow> (case jprop client ''web_origins'' of JArr xs \<Rightarrow> JStr origin \<in> set xs | _ \<Rightarrow> False)"

definition isLoopback :: "string \<Rightarrow> bool" where "isLoopback hostname \<longleftrightarrow> hostname \<in> set [''127.0.0.1'', ''[::1]'', ''::1'']"

definition web_origin_ok :: "url_parser \<Rightarrow> bool \<Rightarrow> json \<Rightarrow> bool" where
  "web_origin_ok parse development origin \<longleftrightarrow>
     (case origin of
        JStr s \<Rightarrow> (case parse s of
                     None \<Rightarrow> False
                   | Some u \<Rightarrow> wu_protocol u \<in> set [''http:'', ''https:''] \<and> wu_origin u = s \<and> (development \<or> wu_protocol u = ''https:''))
      | _ \<Rightarrow> False)"

definition validateWebOrigins :: "url_parser \<Rightarrow> bool \<Rightarrow> json \<Rightarrow> string + unit" where
  "validateWebOrigins parse development metadata =
     (case jprop metadata ''web_origins'' of
        JUndef \<Rightarrow> Inr ()
      | JArr origins \<Rightarrow> guardR (list_all (web_origin_ok parse development) origins \<and> distinct origins) ''Error''
      | _ \<Rightarrow> Inl ''Error'')"

definition client_method :: "json \<Rightarrow> json" where
  "client_method metadata =
     (if nullish (jprop metadata ''token_endpoint_auth_method'') then JStr ''client_secret_basic'' else jprop metadata ''token_endpoint_auth_method'')"

text \<open>An address a browser is sent to, and the other addresses of a client.\<close>

definition redirect_ok :: "url_parser \<Rightarrow> json \<Rightarrow> json \<Rightarrow> bool" where
  "redirect_ok parse metadata v \<longleftrightarrow>
     (case parse (js_String v) of
        None \<Rightarrow> False
      | Some u \<Rightarrow>
          (wu_protocol u = ''https:'' \<or>
           jprop metadata ''application_type'' = JStr ''native'' \<and> wu_protocol u = ''http:'' \<and> isLoopback (wu_hostname u)) \<and>
          wu_username u = [] \<and> wu_password u = [] \<and> wu_hash u = [])"

definition backchannel_ok :: "url_parser \<Rightarrow> json \<Rightarrow> bool" where
  "backchannel_ok parse v \<longleftrightarrow>
     \<not> truthy v \<or>
     (case parse (js_String v) of
        None \<Rightarrow> False
      | Some u \<Rightarrow> wu_protocol u = ''https:'' \<and> wu_username u = [] \<and> wu_password u = [] \<and> wu_hash u = [])"

text \<open>
  In the checks of a client every exception, the code's own or a \<open>TypeError\<close> of the language (an invalid URL, a value that is
  no array), is the one value \<open>Error\<close>: every caller treats them alike.
\<close>

text \<open>\<open>for (const value of metadata[field] ?? [])\<close>: a string is read by characters, none of which is a URL.\<close>

definition redirects_of :: "json \<Rightarrow> string \<Rightarrow> json list option" where
  "redirects_of metadata field =
     (case jprop metadata field of
        JUndef \<Rightarrow> Some [] | JNull \<Rightarrow> Some [] | JArr xs \<Rightarrow> Some xs | JStr s \<Rightarrow> Some (map (\<lambda>c. JStr [c]) s) | _ \<Rightarrow> None)"

definition validateClientSecurity :: "server_world \<Rightarrow> bool \<Rightarrow> json \<Rightarrow> string + unit" where
  "validateClientSecurity w development metadata =
     (let grantTypes = (if nullish (jprop metadata ''grant_types'') then strs [''authorization_code''] else jprop metadata ''grant_types'');
          meth = client_method metadata in
      bindR (guardR (case grantTypes of JArr xs \<Rightarrow> JStr ''implicit'' \<notin> set xs \<and> JStr ''password'' \<notin> set xs | _ \<Rightarrow> False) ''Error'') (\<lambda>_.
      bindR (guardR (meth = JStr ''client_secret_basic'' \<or> meth = JStr ''none'') ''Error'') (\<lambda>_.
      bindR (guardR (jprop metadata ''subject_type'' \<in> set [JUndef, JStr ''public'', JStr ''pairwise'']) ''Error'') (\<lambda>_.
      bindR (validateWebOrigins (vw_parse_url w) development metadata) (\<lambda>_.
        if development then Inr ()
        else
          bindR (guardR (list_all (\<lambda>f. case redirects_of metadata f of None \<Rightarrow> False | Some vs \<Rightarrow> list_all (redirect_ok (vw_parse_url w) metadata) vs)
                   [''redirect_uris'', ''post_logout_redirect_uris'']) ''Error'') (\<lambda>_.
          bindR (guardR (list_all (\<lambda>f. backchannel_ok (vw_parse_url w) (jprop metadata f))
                   [''jwks_uri'', ''sector_identifier_uri'', ''backchannel_logout_uri'', ''frontchannel_logout_uri'']) ''Error'') (\<lambda>_.
            guardR (meth \<noteq> JStr ''client_secret_basic'' \<or>
              (case jprop metadata ''client_secret'' of JStr s \<Rightarrow> 32 \<le> vw_bytes w s | _ \<Rightarrow> False)) ''Error'')))))))"

section \<open>Accounts and claims\<close>

definition client_roles_json :: "(string \<times> string list) list \<Rightarrow> json" where
  "client_roles_json m = JObj (map (\<lambda>(k, rs). (k, strs rs)) m)"

definition accountClaims :: "user \<Rightarrow> json" where
  "accountClaims u = JObj
     [(''sub'', JStr (u_id u)), (''email'', JStr (u_email u)), (''email_verified'', JBool (u_emailVerified u)),
      (''preferred_username'', JStr (u_username u)), (''name'', JStr (u_name u)), (''given_name'', JStr (u_givenName u)),
      (''family_name'', JStr (u_familyName u)), (''groups'', strs (u_groups u)), (''realm_access'', JObj [(''roles'', strs (u_roles u))]),
      (''resource_access'', client_roles_json (u_clientRoles u))]"

definition findAccount :: "string \<Rightarrow> string \<Rightarrow> store \<Rightarrow> (string \<times> json) option" where
  "findAccount realm i s =
     (case findUserById realm i s of None \<Rightarrow> None | Some u \<Rightarrow> if u_enabled u then Some (u_id u, accountClaims u) else None)"

definition normalizedAudience :: "url_parser \<Rightarrow> json \<Rightarrow> string option" where
  "normalizedAudience parse v = map_option wu_href (parse (js_String v))"

definition pairwise_text :: "string \<Rightarrow> string \<Rightarrow> string \<Rightarrow> string" where
  "pairwise_text realm accountId sector = realm @ NUL # accountId @ NUL # sector"

definition pairwiseSubjectIdentifier :: "server_world \<Rightarrow> string \<Rightarrow> string \<Rightarrow> string \<Rightarrow> string \<Rightarrow> string" where
  "pairwiseSubjectIdentifier w subjectSalt realm accountId sector = vw_hmac w subjectSalt (pairwise_text realm accountId sector)"

text \<open>The hook: a client without a resolved sector is an error.\<close>

definition pairwiseIdentifier :: "server_world \<Rightarrow> config \<Rightarrow> string \<Rightarrow> string \<Rightarrow> string option \<Rightarrow> string + string" where
  "pairwiseIdentifier w c realm accountId sector =
     (case sector of
        None \<Rightarrow> Inl ''Error''
      | Some x \<Rightarrow> if x = [] then Inl ''Error'' else Inr (pairwiseSubjectIdentifier w (cg_subjectSalt c) realm accountId x))"

section \<open>Resource servers\<close>

definition findConfiguredResourceServer :: "url_parser \<Rightarrow> resource_server list \<Rightarrow> json \<Rightarrow> resource_server option" where
  "findConfiguredResourceServer parse servers audience =
     (case normalizedAudience parse audience of
        None \<Rightarrow> None
      | Some a \<Rightarrow> if a = [] then None else find (\<lambda>r. rs_audience r = a) servers)"

text \<open>The granted scopes: the items of a set, here an array, or the words of a text.\<close>

definition granted_scopes :: "json \<Rightarrow> string list" where
  "granted_scopes scopes =
     (case scopes of
        JArr xs \<Rightarrow> concat (map (\<lambda>x. case x of JStr s \<Rightarrow> [s] | _ \<Rightarrow> []) xs)
      | v \<Rightarrow> filter (\<lambda>t. t \<noteq> []) (js_split (CHR '' '') (if nullish v then [] else js_String v)))"

definition resource_access :: "resource_server \<Rightarrow> user \<Rightarrow> (string \<times> json) list" where
  "resource_access server u =
     concat (map (\<lambda>cid. case mget (u_clientRoles u) cid of
       Some roles \<Rightarrow> if roles = [] then [] else [(cid, JObj [(''roles'', strs roles)])] | None \<Rightarrow> []) (rs_roleClientIds server))"

definition resourceTokenClaims :: "resource_server option \<Rightarrow> user option \<Rightarrow> json \<Rightarrow> json option" where
  "resourceTokenClaims server user scopes =
     (case (server, user) of
        (Some r, Some u) \<Rightarrow>
          (let granted = granted_scopes scopes;
               roles = (if ''roles'' \<in> set granted
                        then (if rs_includeRealmRoles r then [(''realm_access'', JObj [(''roles'', strs (u_roles u))])] else []) @
                             (if resource_access r u = [] then [] else [(''resource_access'', JObj (resource_access r u))])
                        else []);
               groups = (if ''groups'' \<in> set granted \<and> rs_includeGroups r then [(''groups'', strs (u_groups u))] else []);
               claims = roles @ groups
           in if claims = [] then None else Some (JObj claims))
      | _ \<Rightarrow> None)"

definition audiences_of :: "json \<Rightarrow> json list" where
  "audiences_of aud = (case aud of JArr xs \<Rightarrow> xs | v \<Rightarrow> [v])"

definition clientCanIntrospectToken :: "url_parser \<Rightarrow> resource_server list \<Rightarrow> string \<Rightarrow> json \<Rightarrow> json \<Rightarrow> bool" where
  "clientCanIntrospectToken parse servers clientId token clientAuthMethod \<longleftrightarrow>
     jprop token ''clientId'' = JStr clientId \<or>
     clientAuthMethod \<noteq> JStr ''none'' \<and>
     (\<exists>a\<in>set (audiences_of (jprop token ''aud'')).
        case findConfiguredResourceServer parse servers a of None \<Rightarrow> False | Some r \<Rightarrow> clientId \<in> set (rs_introspectionClientIds r))"

definition revocation_allowed :: "string \<Rightarrow> json \<Rightarrow> bool" where
  "revocation_allowed clientId token \<longleftrightarrow> jprop token ''clientId'' = JStr clientId"

definition getResourceServerInfo :: "url_parser \<Rightarrow> resource_server list \<Rightarrow> json \<Rightarrow> string \<Rightarrow> string + json" where
  "getResourceServerInfo parse servers audience clientId =
     (case findConfiguredResourceServer parse servers audience of
        None \<Rightarrow> Inl ''InvalidTarget''
      | Some r \<Rightarrow>
          if clientId \<notin> set (rs_authorizedClientIds r) then Inl ''InvalidTarget''
          else Inr (JObj [(''audience'', JStr (rs_audience r)), (''scope'', JStr (js_join (CHR '' '') (rs_scopes r))),
                 (''accessTokenFormat'', JStr (rs_accessTokenFormat r))]))"

definition defaultResource :: "json \<Rightarrow> json" where
  "defaultResource oneOf = (case oneOf of JArr [x] \<Rightarrow> x | v \<Rightarrow> v)"

text \<open>\<open>extraTokenClaims\<close>; \<open>!token.accountId\<close> is falsy.\<close>

definition extraTokenClaims :: "url_parser \<Rightarrow> resource_server list \<Rightarrow> string \<Rightarrow> json \<Rightarrow> store \<Rightarrow> json option" where
  "extraTokenClaims parse servers realm token s =
     (if \<not> truthy (jprop token ''accountId'') \<or> jprop token ''aud'' = JUndef then None
      else (case audiences_of (jprop token ''aud'') of
              [a] \<Rightarrow>
                (case findConfiguredResourceServer parse servers a of
                   None \<Rightarrow> None
                 | Some r \<Rightarrow>
                     (case findUserById realm (js_String (jprop token ''accountId'')) s of
                        None \<Rightarrow> None
                      | Some u \<Rightarrow> if u_enabled u then resourceTokenClaims (Some r) (Some u) (jprop token ''scopes'') else None))
            | _ \<Rightarrow> None))"

section \<open>Policies\<close>

definition supported_claims :: "string list" where
  "supported_claims = [''sub'', ''sid'', ''auth_time'', ''acr'', ''amr'', ''iss'', ''address'', ''email'', ''email_verified'',
     ''phone_number'', ''phone_number_verified'', ''name'', ''family_name'', ''given_name'',
     ''middle_name'', ''nickname'', ''preferred_username'', ''profile'', ''picture'', ''website'',
     ''gender'', ''birthdate'', ''zoneinfo'', ''locale'', ''updated_at'', ''groups'', ''realm_access'', ''resource_access'']"

definition assertClaimsParameter :: "json \<Rightarrow> string + unit" where
  "assertClaimsParameter requested =
     guardR (\<forall>section\<in>set [''id_token'', ''userinfo'']. \<forall>k\<in>set (mkeys (jentries (jprop requested section))). k \<in> set supported_claims)
       ''InvalidRequest''"

definition issueRefreshToken :: "bool \<Rightarrow> string list \<Rightarrow> bool" where
  "issueRefreshToken refreshAllowed codeScopes \<longleftrightarrow> refreshAllowed \<and> ''offline_access'' \<in> set codeScopes"

text \<open>Outgoing requests for client metadata: HTTPS only, redirects not followed.\<close>

definition provider_fetch :: "url_parser \<Rightarrow> string \<Rightarrow> (string \<times> json) list \<Rightarrow> string + (string \<times> json)" where
  "provider_fetch parse url options =
     (case parse url of
        None \<Rightarrow> Inl ''TypeError''
      | Some u \<Rightarrow> if wu_protocol u \<noteq> ''https:'' then Inl ''Error''
                  else Inr (wu_href u, JObj (mset' ''redirect'' (JStr ''manual'') options)))"

text \<open>
  \<open>secureRegistrationPolicy\<close>: \<open>initialToken\<close> is the identifier of the initial access token of the request, if it has one; its
  \<open>destroy\<close> is the library's, over the adapter.
\<close>

definition secureRegistrationPolicy ::
    "server_world \<Rightarrow> config \<Rightarrow> string \<Rightarrow> (string \<Rightarrow> adapter \<Rightarrow> adapter) \<Rightarrow> int \<Rightarrow> string option \<Rightarrow> json \<Rightarrow> (adapter, string, unit) handler" where
  "secureRegistrationPolicy w c realm destroyToken now initialToken properties =
     bindS (case validateClientSecurity w (cg_devMode c) properties of Inl _ \<Rightarrow> failS ''InvalidClientMetadata'' | Inr _ \<Rightarrow> retS ()) (\<lambda>_.
       case initialToken of
         None \<Rightarrow> retS ()
       | Some jti \<Rightarrow>
           bindS (\<lambda>a. let (claimed, a') = claimMemoryInitialAccessToken now realm jti a in (Inr claimed, a')) (\<lambda>claimed.
           bindS (guardS claimed ''InvalidToken'') (\<lambda>_.
             \<lambda>a. (Inr (), destroyToken jti a))))"

section \<open>The provider of a realm\<close>

definition keycloakRoutes :: "(string \<times> string) list" where
  "keycloakRoutes =
     [(''authorization'', ''/protocol/openid-connect/auth''),
      (''backchannel_authentication'', ''/protocol/openid-connect/ext/ciba/auth''),
      (''challenge'', ''/protocol/openid-connect/challenge''),
      (''code_verification'', ''/device''),
      (''device_authorization'', ''/protocol/openid-connect/auth/device''),
      (''end_session'', ''/protocol/openid-connect/logout''),
      (''introspection'', ''/protocol/openid-connect/token/introspect''),
      (''jwks'', ''/protocol/openid-connect/certs''),
      (''pushed_authorization_request'', ''/protocol/openid-connect/ext/par/request''),
      (''registration'', ''/clients-registrations/openid-connect''),
      (''revocation'', ''/protocol/openid-connect/revoke''),
      (''token'', ''/protocol/openid-connect/token''),
      (''userinfo'', ''/protocol/openid-connect/userinfo'')]"

definition cookie_settings :: "config \<Rightarrow> string \<Rightarrow> json" where
  "cookie_settings c realm =
     (let attributes = JObj [(''httpOnly'', JBool True), (''sameSite'', JStr ''lax''), (''secure'', JBool (\<not> cg_devMode c)), (''overwrite'', JBool True)]
      in JObj [(''keys'', strs (cg_cookieKeys c)), (''long'', attributes), (''short'', attributes),
           (''names'', JObj [(''session'', JStr (''authme_'' @ realm @ ''_session'')), (''interaction'', JStr (''authme_'' @ realm @ ''_interaction'')),
              (''resume'', JStr (''authme_'' @ realm @ ''_resume''))])])"

definition ttl_settings :: "config \<Rightarrow> json" where
  "ttl_settings c =
     JObj [(''AccessToken'', JNum (cg_accessTokenTtl c)), (''AuthorizationCode'', JNum (cg_authorizationCodeTtl c)),
       (''ClientCredentials'', JNum (cg_accessTokenTtl c)), (''DeviceCode'', JNum 600), (''Grant'', JNum (14 * 24 * 60 * 60)),
       (''IdToken'', JNum (cg_accessTokenTtl c)), (''Interaction'', JNum 600), (''RefreshToken'', JNum (14 * 24 * 60 * 60)),
       (''Session'', JNum (cg_sessionTtl c))]"

definition enabled :: "bool \<Rightarrow> json" where "enabled b = JObj [(''enabled'', JBool b)]"

text \<open>The features of the library; their hooks are the definitions above.\<close>

definition feature_settings :: "config \<Rightarrow> resource_server list \<Rightarrow> json" where
  "feature_settings c servers =
     JObj [(''backchannelLogout'', enabled True), (''claimsParameter'', enabled True), (''clientCredentials'', enabled True),
       (''devInteractions'', enabled False), (''deviceFlow'', enabled True), (''dPoP'', enabled True), (''introspection'', enabled True),
       (''pushedAuthorizationRequests'', enabled True),
       (''registration'', JObj [(''enabled'', JBool (cg_enableDynamicRegistration c)), (''initialAccessToken'', JBool (cg_enableDynamicRegistration c)),
          (''policies'', if cg_enableDynamicRegistration c then strs [''authme-secure-client''] else JUndef)]),
       (''registrationManagement'', enabled (cg_enableDynamicRegistration c)), (''requestObjects'', enabled False),
       (''resourceIndicators'', enabled (servers \<noteq> [])), (''revocation'', enabled True), (''rpInitiatedLogout'', enabled True),
       (''userinfo'', enabled True)]"

record realm_provider =
  rp_issuer :: string
  rp_clients :: "json list"
  rp_routes :: "(string \<times> string) list"
  rp_scopes :: "string list"
  rp_responseTypes :: "string list"
  rp_clientAuthMethods :: "string list"
  rp_subjectTypes :: "string list"
  rp_cookies :: json
  rp_features :: json
  rp_ttl :: json
  rp_pkceRequired :: bool
  rp_rotateRefreshToken :: bool
  rp_proxy :: bool
  rp_maxIpsCount :: "nat option"

definition createRealmProvider :: "server_world \<Rightarrow> config \<Rightarrow> string \<Rightarrow> string + realm_provider" where
  "createRealmProvider w c realm =
     bindR (issuerFor c realm) (\<lambda>issuer.
     let servers = (case mget (cg_resourceServers c) realm of None \<Rightarrow> [] | Some rs \<Rightarrow> rs) in
     bindR (configuredClientsForRealm c realm) (\<lambda>clients.
     bindR (mapR (validateClientSecurity w (cg_devMode c)) clients) (\<lambda>_.
       Inr \<lparr>rp_issuer = issuer, rp_clients = clients, rp_routes = keycloakRoutes,
         rp_scopes = [''openid'', ''offline_access'', ''profile'', ''email'', ''phone'', ''address'', ''roles'', ''groups''],
         rp_responseTypes = [''code''], rp_clientAuthMethods = [''client_secret_basic'', ''none''], rp_subjectTypes = [''public'', ''pairwise''],
         rp_cookies = cookie_settings c realm, rp_features = feature_settings c servers, rp_ttl = ttl_settings c,
         rp_pkceRequired = True, rp_rotateRefreshToken = True, rp_proxy = cg_trustProxy c,
         rp_maxIpsCount = (if cg_trustProxy c then Some 1 else None)\<rparr>)))"

section \<open>Audit events\<close>

text \<open>What an event of the library brings: the artifact or the request context, and the error.\<close>

record provider_event =
  pe_accountId :: "string option"
  pe_sessionAccountId :: "string option"
  pe_clientId :: "string option"
  pe_contextClientId :: "string option"
  pe_ip :: "string option"
  pe_userAgent :: "string option"
  pe_error :: "(string option \<times> string option) option"

definition js_first :: "'a option \<Rightarrow> 'a option \<Rightarrow> 'a option" where
  "js_first a b = (case a of None \<Rightarrow> b | Some x \<Rightarrow> Some x)"

definition event_error :: "provider_event \<Rightarrow> string option" where
  "event_error e = (case pe_error e of None \<Rightarrow> None | Some (code, name) \<Rightarrow> js_first (js_first code name) (Some ''Error''))"

definition event_metadata :: "provider_event \<Rightarrow> json" where
  "event_metadata e = (case event_error e of None \<Rightarrow> JObj [] | Some x \<Rightarrow> JObj [(''error'', JStr x)])"

definition provider_audit_event :: "string \<Rightarrow> string \<Rightarrow> provider_event \<Rightarrow> audit_event" where
  "provider_audit_event realm eventName e =
     \<lparr>audit_event.ev_realm = realm, audit_event.ev_type = ''oidc.'' @ eventName, audit_event.ev_actorId = None, audit_event.ev_subjectId = js_first (pe_accountId e) (pe_sessionAccountId e),
      audit_event.ev_clientId = js_first (pe_clientId e) (pe_contextClientId e), audit_event.ev_ip = pe_ip e, audit_event.ev_userAgent = pe_userAgent e, audit_event.ev_metadata = event_metadata e\<rparr>"

definition text_or :: "string option \<Rightarrow> string \<Rightarrow> string" where "text_or v d = (case v of None \<Rightarrow> d | Some s \<Rightarrow> s)"

definition sample_key :: "server_world \<Rightarrow> config \<Rightarrow> string \<Rightarrow> string \<Rightarrow> provider_event \<Rightarrow> string \<Rightarrow> string" where
  "sample_key w c realm eventName e err =
     vw_hmac w (cg_passwordPepper c)
       (realm @ NUL # eventName @ NUL # text_or (pe_ip e) ''unknown'' @ NUL # text_or (js_first (pe_clientId e) (pe_contextClientId e)) ''none'' @ NUL # err)"

text \<open>\<open>writeProviderAudit\<close>: errors are sampled, one of each kind, address and client in ten seconds.\<close>

definition writeProviderAudit ::
    "server_world \<Rightarrow> config \<Rightarrow> string \<Rightarrow> int \<Rightarrow> string \<Rightarrow> provider_event \<Rightarrow> audit_event writer \<Rightarrow>
     string + (enqueue_result \<times> audit_event list \<times> audit_event writer)" where
  "writeProviderAudit w c realm now eventName e writer =
     (let event = provider_audit_event realm eventName e in
      case event_error e of
        None \<Rightarrow> enqueue now event JUndef JUndef writer
      | Some err \<Rightarrow> enqueue now event (JStr (sample_key w c realm eventName e err)) (JNum 10000) writer)"

end
