(* ===== verification/AdminConsole.thy ===== *)
theory AdminConsole
  imports DataLayer ExtensionRegistry
begin

text \<open>
  The administration console's sessions and sign-in (\<open>src/routes/admin-console.js\<close>): reading cookies, the sealed
  sign-in transaction, the origin checks, authentication of a request by its session cookie, the OpenID Connect
  callback that opens a session, and the console's own routes. \<open>console_config\<close> is the configuration and
  the library functions the code relies on: HMAC-SHA-256 in base64url (\<open>ac_hmac\<close>), the JSON text of an object in
  base64url and back (\<open>ac_pack\<close>, \<open>ac_unpack\<close>), the URL parser, the URL with query parameters (\<open>ac_url_with\<close>), the token
  endpoint (\<open>ac_exchange\<close>) and \<open>jwtVerify\<close>. A request is handled without interleaving and at one instant.
\<close>

section \<open>Configuration, requests and responses\<close>

record transaction_payload =
  tx_realm :: string
  tx_state :: string
  tx_nonce :: string
  tx_verifier :: string

record token_response =
  tr_ok :: bool
  tr_bodyLength :: nat
  tr_json :: "json option"

record console_config =
  ac_publicUrl :: string
  ac_realms :: "string list"
  ac_devMode :: bool
  ac_adminToken :: string
  ac_csrfSecret_opt :: "string option"
  ac_cookieKeys_opt :: "string list"
  ac_sessionTtl_opt :: "int option"
  ac_hmac :: "string \<Rightarrow> string \<Rightarrow> string"
  ac_pack :: "json \<Rightarrow> string"
  ac_unpack :: "string \<Rightarrow> json option"
  ac_parse_url :: url_parser
  ac_url_with :: "string \<Rightarrow> (string \<times> string) list \<Rightarrow> string"
  ac_challenge :: "string \<Rightarrow> string"
  ac_exchange :: "string \<Rightarrow> string \<Rightarrow> string \<Rightarrow> token_response option"
  ac_jwks :: "string \<Rightarrow> json option"
  ac_jwtVerify :: "string \<Rightarrow> json \<Rightarrow> string \<Rightarrow> string \<Rightarrow> json option"
  ac_isIP :: "string \<Rightarrow> bool"

record admin_request =
  aq_method :: string
  aq_path :: string
  aq_cookie :: "string option"
  aq_origin :: "string option"
  aq_host_url :: string
  aq_secFetchSite :: "string option"
  aq_secFetchMode :: "string option"
  aq_secFetchDest :: "string option"
  aq_csrf :: "string option"
  aq_authorization :: "string option"
  aq_isJson :: bool
  aq_body :: json
  aq_query :: json
  aq_ip :: "string option"
  aq_userAgent :: "string option"
  aq_limited :: "int option"
  aq_now :: int
  aq_random :: "string \<Rightarrow> string"
  aq_uuid :: string
  aq_auditId :: string

text \<open>
  \<open>aq_limited\<close> is \<open>msBeforeNext\<close> of the rate limiter when it refuses, \<open>aq_random x\<close> the base64url text of the
  random bytes drawn for \<open>x\<close> (24 bytes for the state and the nonce, 48 for the verifier, 32 for a session), \<open>aq_host_url\<close> the text of protocol and host.
\<close>

datatype admin_body =
    Problem string
  | LoginForm
  | ConsolePage
  | Location string
  | Json json
  | TextBody string
  | Empty

text \<open>Cookies are given as name and value; \<open>None\<close> clears the cookie.\<close>

record admin_response =
  av_status :: nat
  av_body :: admin_body
  av_cookies :: "(string \<times> string option) list"
  av_retryAfter :: "int option"

definition reply :: "nat \<Rightarrow> admin_body \<Rightarrow> admin_response" where
  "reply status body = \<lparr>av_status = status, av_body = body, av_cookies = [], av_retryAfter = None\<rparr>"

definition problem :: "nat \<Rightarrow> string \<Rightarrow> admin_response" where
  "problem status title = reply status (Problem title)"

definition SESSION_COOKIE :: string where "SESSION_COOKIE = ''authme_admin_console''"
definition LOGIN_COOKIE :: string where "LOGIN_COOKIE = ''authme_admin_login''"
definition LOGIN_TYPE :: string where "LOGIN_TYPE = ''admin-login''"
definition ADMIN_CONSOLE_CLIENT_ID :: string where "ADMIN_CONSOLE_CLIENT_ID = ''authme-admin-console''"

text \<open>The defaults \<open>createAdminConsole\<close> puts in.\<close>

definition cookie_keys :: "console_config \<Rightarrow> string list" where
  "cookie_keys c = (if ac_cookieKeys_opt c = [] then [ac_adminToken c] else ac_cookieKeys_opt c)"

definition csrf_secret :: "console_config \<Rightarrow> string" where
  "csrf_secret c = or_else (ac_csrfSecret_opt c) (ac_adminToken c)"

definition session_ttl :: "console_config \<Rightarrow> int" where
  "session_ttl c = min (or_else (ac_sessionTtl_opt c) 28800) 28800"

definition idle_ttl :: "console_config \<Rightarrow> int" where "idle_ttl c = min (session_ttl c) 1800"

section \<open>Cookies\<close>

definition cookieMap :: "string option \<Rightarrow> (string \<times> string) list" where
  "cookieMap header =
     (case header of
        None \<Rightarrow> []
      | Some h \<Rightarrow>
          if length h > 16384 then []
          else foldl (\<lambda>cookies pair.
            let before = takeWhile (\<lambda>c. c \<noteq> CHR ''='') pair;
                name = js_trim before; v = js_trim (drop (length before + 1) pair)
            in if CHR ''='' \<notin> set pair \<or> before = [] then cookies
               else if name \<noteq> [] \<and> v \<noteq> [] \<and> mget cookies name = None then mset' name v cookies else cookies)
          [] (js_split (CHR '';'') h))"

definition session_value :: "admin_request \<Rightarrow> string option" where
  "session_value rq = mget (cookieMap (aq_cookie rq)) SESSION_COOKIE"

definition session_value_re :: "string option \<Rightarrow> bool" where
  "session_value_re v = (case v of None \<Rightarrow> False | Some s \<Rightarrow> class_re is_b64url 43 43 s)"

definition NULC :: char where "NULC = CHR 0x00"

definition console_signature :: "console_config \<Rightarrow> string \<Rightarrow> string \<Rightarrow> string" where
  "console_signature c v key = ac_hmac c key (''authme-admin-console-v1'' @ NULC # v)"

definition seal :: "console_config \<Rightarrow> json \<Rightarrow> string \<Rightarrow> string" where
  "seal c payload key = ac_pack c payload @ CHR ''.'' # console_signature c (ac_pack c payload) key"

definition unseal :: "console_config \<Rightarrow> int \<Rightarrow> string option \<Rightarrow> string \<Rightarrow> string list \<Rightarrow> json option" where
  "unseal c now v type keys =
     (case v of
        None \<Rightarrow> None
      | Some t \<Rightarrow>
          if length t < 40 \<or> length t > 4096 then None
          else (let parts = js_split (CHR ''.'') t in
            if length parts \<noteq> 2 \<or> \<not> list_all (\<lambda>p. p \<noteq> [] \<and> list_all is_b64url p) parts then None
            else if \<not> (\<exists>key\<in>set keys. parts ! 1 = console_signature c (parts ! 0) key) then None
            else (case ac_unpack c (parts ! 0) of
                    None \<Rightarrow> None
                  | Some payload \<Rightarrow>
                      (case (jprop payload ''iat'', jprop payload ''exp'') of
                         (JNum iat, JNum exp) \<Rightarrow>
                           if \<not> truthy payload \<or> jprop payload ''type'' \<noteq> JStr type \<or> \<not> safe_integer iat \<or> \<not> safe_integer exp
                             \<or> iat > now div 1000 + 30 \<or> exp \<le> now div 1000 \<or> exp - iat > 28800
                           then None else Some payload
                       | _ \<Rightarrow> None))))"

section \<open>Origins\<close>

definition sameOrigin :: "console_config \<Rightarrow> admin_request \<Rightarrow> bool" where
  "sameOrigin c rq \<longleftrightarrow> aq_origin rq = Some (ac_publicUrl c)"

definition requestOrigin :: "console_config \<Rightarrow> admin_request \<Rightarrow> string option" where
  "requestOrigin c rq = map_option wu_origin (ac_parse_url c (aq_host_url rq))"

definition sameOriginLoginNavigation :: "console_config \<Rightarrow> admin_request \<Rightarrow> bool" where
  "sameOriginLoginNavigation c rq \<longleftrightarrow>
     (if aq_origin rq = Some (ac_publicUrl c) then True
      else if aq_origin rq \<noteq> None \<and> aq_origin rq \<noteq> Some ''null'' then False
      else requestOrigin c rq = Some (ac_publicUrl c) \<and> aq_secFetchSite rq = Some ''same-origin'' \<and>
        aq_secFetchMode rq = Some ''navigate'' \<and> aq_secFetchDest rq = Some ''document'')"

definition isLoopbackOrigin :: "console_config \<Rightarrow> string option \<Rightarrow> bool" where
  "isLoopbackOrigin c v =
     (case v of
        None \<Rightarrow> False
      | Some s \<Rightarrow>
          (case ac_parse_url c s of
             None \<Rightarrow> False
           | Some u \<Rightarrow> wu_protocol u = ''http:'' \<and> wu_hostname u \<in> set [''127.0.0.1'', ''localhost'', ''[::1]'']))"

section \<open>Session secrets\<close>

definition csrfFor :: "console_config \<Rightarrow> string \<Rightarrow> string" where
  "csrfFor c sessionValue = ac_hmac c (csrf_secret c) (''authme-admin-console-csrf-v1'' @ NULC # sessionValue)"

definition sessionDigest :: "console_config \<Rightarrow> string \<Rightarrow> string" where
  "sessionDigest c sessionValue = ac_hmac c (csrf_secret c) (''authme-admin-console-session-v1'' @ NULC # sessionValue)"

definition private_jwk_names :: "string list" where
  "private_jwk_names = [''d'', ''p'', ''q'', ''dp'', ''dq'', ''qi'', ''oth'', ''k'']"

definition publicJwks :: "json option \<Rightarrow> json" where
  "publicJwks jwks =
     (let keys = (case jwks of None \<Rightarrow> [] | Some j \<Rightarrow> (case jprop j ''keys'' of JArr ks \<Rightarrow> ks | _ \<Rightarrow> []))
      in JObj [(''keys'', JArr (map (\<lambda>k. JObj (filter (\<lambda>(n, v). n \<notin> set private_jwk_names) (jentries k))) keys))])"

definition hasStrongAdminAuthentication :: "json \<Rightarrow> bool" where
  "hasStrongAdminAuthentication amr =
     (let has = (\<lambda>m. case amr of JArr xs \<Rightarrow> JStr m \<in> set xs | _ \<Rightarrow> False) in
      has ''passkey'' \<or> has ''webauthn'' \<or>
      (has ''pwd'' \<or> has ''ldap'' \<or> has ''federated'') \<and> (has ''otp'' \<or> has ''recovery''))"

section \<open>Authentication by the session cookie\<close>

record authentication =
  au_realm :: string
  au_session :: admin_session
  au_sessionValue :: string
  au_sessionDigest :: string
  au_user :: user
  au_grant :: admin_grant

text \<open>An expired session, or one whose account or grant has changed, is deleted; a live one is touched once a minute.\<close>

definition authenticate_session :: "console_config \<Rightarrow> int \<Rightarrow> string \<Rightarrow> store \<Rightarrow> authentication option \<times> store" where
  "authenticate_session c now sessionValue s =
     (let digest = sessionDigest c sessionValue in
      case findAdminSession digest s of
        None \<Rightarrow> (None, s)
      | Some session \<Rightarrow>
          if as_realm session \<notin> set (ac_realms c) \<or> as_expiresAt session \<le> now \<or> as_idleExpiresAt session \<le> now
          then (None, snd (deleteAdminSession digest s))
          else (case (findUserById (as_realm session) (as_userId session) s, findAdminGrant (as_realm session) (as_userId session) s) of
                  (Some user, Some grant) \<Rightarrow>
                    if \<not> u_enabled user \<or> u_securityVersion user \<noteq> as_securityVersion session
                      \<or> \<not> g_enabled grant \<or> g_version grant \<noteq> as_grantVersion session
                    then (None, snd (deleteAdminSession digest s))
                    else (let (touched, s') =
                            (if now - as_lastSeenAt session \<ge> 60000
                             then touchAdminSession now digest (min (now + idle_ttl c * 1000) (as_expiresAt session)) s
                             else (None, s))
                          in (Some \<lparr>au_realm = as_realm (or_else touched session), au_session = or_else touched session,
                                au_sessionValue = sessionValue, au_sessionDigest = digest, au_user = user, au_grant = grant\<rparr>, s'))
                | _ \<Rightarrow> (None, snd (deleteAdminSession digest s))))"

definition authenticate :: "console_config \<Rightarrow> admin_request \<Rightarrow> store \<Rightarrow> authentication option \<times> store" where
  "authenticate c rq s =
     (if \<not> session_value_re (session_value rq) then (None, s)
      else authenticate_session c (aq_now rq) (the (session_value rq)) s)"

definition verifyCsrf :: "console_config \<Rightarrow> admin_request \<Rightarrow> authentication \<Rightarrow> bool" where
  "verifyCsrf c rq au \<longleftrightarrow>
     au_sessionValue au \<noteq> [] \<and> sameOrigin c rq \<and>
     (case (case aq_csrf rq of Some t \<Rightarrow> JStr t | None \<Rightarrow> jprop (aq_body rq) ''csrf'') of
        JStr t \<Rightarrow> length t \<le> 256 \<and> t = csrfFor c (au_sessionValue au)
      | _ \<Rightarrow> False)"

definition retry_after :: "int \<Rightarrow> int" where "retry_after ms = max 1 (- ((- ms) div 1000))"

definition too_many :: "int \<Rightarrow> admin_response" where
  "too_many ms = (problem 429 ''Too many requests'')\<lparr>av_retryAfter := Some (retry_after ms)\<rparr>"

text \<open>\<open>authenticateConsoleRequest\<close>: \<open>Inl\<close> is a request already answered.\<close>

definition authenticateConsoleRequest ::
    "console_config \<Rightarrow> admin_request \<Rightarrow> store \<Rightarrow> (admin_response + authentication option) \<times> store" where
  "authenticateConsoleRequest c rq s =
     (if \<not> session_value_re (session_value rq) then (Inr None, s)
      else (case aq_limited rq of
              Some ms \<Rightarrow> (Inl (too_many ms), s)
            | None \<Rightarrow> (let (au, s') = authenticate c rq s in (Inr au, s'))))"

section \<open>Signing in\<close>

definition authorizationUrl :: "console_config \<Rightarrow> string \<Rightarrow> transaction_payload \<Rightarrow> string" where
  "authorizationUrl c realm t =
     ac_url_with c (ac_publicUrl c @ ''/realms/'' @ realm @ ''/protocol/openid-connect/auth'')
       [(''client_id'', ADMIN_CONSOLE_CLIENT_ID), (''redirect_uri'', ac_publicUrl c @ ''/admin/oidc/callback''),
        (''response_type'', ''code''), (''response_mode'', ''query''), (''scope'', ''openid profile email roles''),
        (''max_age'', ''900''), (''acr_values'', ''urn:authme:loa:2''), (''state'', tx_state t), (''nonce'', tx_nonce t),
        (''code_challenge'', ac_challenge c (tx_verifier t)), (''code_challenge_method'', ''S256'')]"

definition transaction_json :: "int \<Rightarrow> transaction_payload \<Rightarrow> json" where
  "transaction_json nowSeconds t =
     JObj [(''type'', JStr LOGIN_TYPE), (''iat'', JNum nowSeconds), (''exp'', JNum (nowSeconds + 600)), (''realm'', JStr (tx_realm t)),
       (''state'', JStr (tx_state t)), (''nonce'', JStr (tx_nonce t)), (''verifier'', JStr (tx_verifier t))]"

definition beginLogin :: "console_config \<Rightarrow> admin_request \<Rightarrow> json \<Rightarrow> bool \<Rightarrow> bool \<Rightarrow> admin_response" where
  "beginLogin c rq realm jsonResponse rateLimited =
     (if \<not> sameOriginLoginNavigation c rq
      then (if ac_devMode c \<and> isLoopbackOrigin c (aq_origin rq) \<and> isLoopbackOrigin c (Some (ac_publicUrl c))
            then reply 303 (Location (ac_publicUrl c @ ''/admin/''))
            else problem 403 ''Invalid request origin'')
      else (case realm of
              JStr r \<Rightarrow>
                if r \<notin> set (ac_realms c) then reply 400 LoginForm
                else if \<not> rateLimited \<and> aq_limited rq \<noteq> None then too_many (the (aq_limited rq))
                else (let t = \<lparr>tx_realm = r, tx_state = aq_random rq ''state'', tx_nonce = aq_random rq ''nonce'', tx_verifier = aq_random rq ''verifier''\<rparr>;
                          cookie = (LOGIN_COOKIE, Some (seal c (transaction_json (aq_now rq div 1000) t) (hd (cookie_keys c))));
                          url = authorizationUrl c r t
                      in if jsonResponse
                         then (reply 200 (Json (JObj [(''authorizationUrl'', JStr url)])))\<lparr>av_cookies := [cookie]\<rparr>
                         else (reply 303 (Location url))\<lparr>av_cookies := [cookie]\<rparr>)
            | _ \<Rightarrow> reply 400 LoginForm))"

text \<open>\<open>tokenExchange\<close>: the identity token, unless the exchange throws.\<close>

definition tokenExchange :: "console_config \<Rightarrow> string \<Rightarrow> string \<Rightarrow> string \<Rightarrow> string option" where
  "tokenExchange c realm code verifier =
     (case ac_exchange c realm code verifier of
        None \<Rightarrow> None
      | Some r \<Rightarrow>
          if \<not> tr_ok r \<or> tr_bodyLength r > 65536 then None
          else (case tr_json r of
                  None \<Rightarrow> None
                | Some token \<Rightarrow>
                    (case jprop token ''id_token'' of
                       JStr t \<Rightarrow> if length t > 16384 then None else Some t
                     | _ \<Rightarrow> None)))"

definition login_failed :: "nat \<Rightarrow> admin_response" where
  "login_failed status = (reply status LoginForm)\<lparr>av_cookies := [(LOGIN_COOKIE, None)]\<rparr>"

definition recent_authentication :: "int \<Rightarrow> json \<Rightarrow> bool" where
  "recent_authentication now authTime =
     (case authTime of
        JNum t \<Rightarrow> safe_integer t \<and> - 30 \<le> now div 1000 - t \<and> now div 1000 - t \<le> 930
      | _ \<Rightarrow> False)"

definition str_of :: "json \<Rightarrow> string" where "str_of v = (case v of JStr s \<Rightarrow> s | _ \<Rightarrow> [])"

text \<open>
  The part of the callback inside \<open>try\<close>: \<open>Inr\<close> is an answer, \<open>Inl\<close> an exception, with the digest of the session
  created before it (\<open>createdSessionDigest\<close>).
\<close>

definition session_input :: "console_config \<Rightarrow> admin_request \<Rightarrow> string \<Rightarrow> string \<Rightarrow> user \<Rightarrow> admin_grant \<Rightarrow> json \<Rightarrow> admin_session_input" where
  "session_input c rq digest realm u g payload =
     (let now = aq_now rq div 1000 in
      \<lparr>si_idDigest = digest, si_realm = realm, si_userId = u_id u, si_grantVersion = g_version g,
       si_securityVersion = u_securityVersion u,
       si_createdAt = (case jprop payload ''auth_time'' of JNum t \<Rightarrow> Some (t * 1000) | _ \<Rightarrow> None), si_lastSeenAt = None,
       si_idleExpiresAt = Some ((now + idle_ttl c) * 1000), si_expiresAt = Some ((now + session_ttl c) * 1000)\<rparr>)"

definition login_succeeded :: "admin_request \<Rightarrow> string \<Rightarrow> json \<Rightarrow> user \<Rightarrow> audit_event" where
  "login_succeeded rq realm payload user =
     \<lparr>ev_realm = realm, ev_type = ''admin.console.login.succeeded'', ev_actorId = Some (u_id user),
      ev_subjectId = Some (u_id user), ev_clientId = None, ev_ip = aq_ip rq, ev_userAgent = aq_userAgent rq,
      ev_metadata = JObj [(''amr'', (if is_arr (jprop payload ''amr'') then jprop payload ''amr'' else JArr [])),
        (''acr'', jprop payload ''acr'')]\<rparr>"

text \<open>The session named by the cookie the request came with is deleted.\<close>

definition end_previous_session :: "console_config \<Rightarrow> admin_request \<Rightarrow> string \<Rightarrow> store \<Rightarrow> store" where
  "end_previous_session c rq digest s =
     (case session_value rq of
        Some previous \<Rightarrow>
          if session_value_re (Some previous) \<and> sessionDigest c previous \<noteq> digest
          then snd (deleteAdminSession (sessionDigest c previous) s) else s
      | None \<Rightarrow> s)"

definition open_session ::
    "console_config \<Rightarrow> admin_request \<Rightarrow> string \<Rightarrow> json \<Rightarrow> user \<Rightarrow> admin_grant \<Rightarrow> store \<Rightarrow>
     (string option + admin_response) \<times> store" where
  "open_session c rq realm payload user grant s =
     (let sessionValue = aq_random rq ''session''; digest = sessionDigest c sessionValue in
      case createAdminSession (aq_now rq) (session_input c rq digest realm user grant payload) s of
        Inr (Some session, s1) \<Rightarrow>
          (Inr ((reply 303 (Location ''/admin/''))\<lparr>av_cookies := [(LOGIN_COOKIE, None), (SESSION_COOKIE, Some sessionValue)]\<rparr>),
           end_previous_session c rq digest
             (snd (writeAudit (ac_isIP c) (aq_now rq) (aq_auditId rq) (login_succeeded rq realm payload user) s1)))
      | _ \<Rightarrow> (Inl (Some digest), s))"

definition callback_try ::
    "console_config \<Rightarrow> admin_request \<Rightarrow> json \<Rightarrow> store \<Rightarrow> (string option + admin_response) \<times> store" where
  "callback_try c rq t s =
     (let realm = str_of (jprop t ''realm'') in
      case tokenExchange c realm (str_of (jprop (aq_query rq) ''code'')) (str_of (jprop t ''verifier'')) of
        None \<Rightarrow> (Inl None, s)
      | Some idToken \<Rightarrow>
          if ac_jwks c realm = None then (Inl None, s)
          else (case ac_jwtVerify c idToken (publicJwks (ac_jwks c realm)) (ac_publicUrl c @ ''/realms/'' @ realm) ADMIN_CONSOLE_CLIENT_ID of
                  None \<Rightarrow> (Inl None, s)
                | Some payload \<Rightarrow>
                    if \<not> is_str (jprop payload ''nonce'') \<or> js_String (jprop payload ''nonce'') \<noteq> js_String (jprop t ''nonce'')
                    then (Inl None, s)
                    else (case findUserById realm (js_String (jprop payload ''sub'')) s of
                            None \<Rightarrow> (Inr (login_failed 403), s)
                          | Some user \<Rightarrow>
                              (case findAdminGrant realm (u_id user) s of
                                 None \<Rightarrow> (Inr (login_failed 403), s)
                               | Some grant \<Rightarrow>
                                   if \<not> u_enabled user \<or> \<not> g_enabled grant then (Inr (login_failed 403), s)
                                   else if \<not> recent_authentication (aq_now rq) (jprop payload ''auth_time'') \<or>
                                     (\<not> ac_devMode c \<and> \<not> hasStrongAdminAuthentication (jprop payload ''amr''))
                                   then (Inr (login_failed 403), s)
                                   else open_session c rq realm payload user grant s))))"

definition console_callback :: "console_config \<Rightarrow> admin_request \<Rightarrow> store \<Rightarrow> admin_response \<times> store" where
  "console_callback c rq s =
     (case unseal c (aq_now rq) (mget (cookieMap (aq_cookie rq)) LOGIN_COOKIE) LOGIN_TYPE (cookie_keys c) of
        None \<Rightarrow> (login_failed 400, s)
      | Some t \<Rightarrow>
          if \<not> (\<exists>r\<in>set (ac_realms c). jprop t ''realm'' = JStr r) then (login_failed 400, s)
          else if \<not> is_str (jprop (aq_query rq) ''state'') \<or>
            js_String (jprop (aq_query rq) ''state'') \<noteq> js_String (jprop t ''state'') then (login_failed 400, s)
          else if truthy (jprop (aq_query rq) ''error'') then (login_failed 403, s)
          else if \<not> is_str (jprop (aq_query rq) ''code'') \<or> length (js_String (jprop (aq_query rq) ''code'')) > 4096
          then (login_failed 400, s)
          else (case callback_try c rq t s of
                  (Inr r, s') \<Rightarrow> (r, s')
                | (Inl created, s') \<Rightarrow>
                    (login_failed 403, case created of Some d \<Rightarrow> snd (deleteAdminSession d s') | None \<Rightarrow> s')))"

section \<open>The console's routes\<close>

definition console_home :: "console_config \<Rightarrow> admin_request \<Rightarrow> store \<Rightarrow> admin_response \<times> store" where
  "console_home c rq s =
     (if ac_devMode c \<and> requestOrigin c rq \<noteq> Some (ac_publicUrl c)
      then (reply 302 (Location (ac_publicUrl c @ ''/admin/'')), s)
      else (case authenticateConsoleRequest c rq s of
              (Inl r, s') \<Rightarrow> (r, s')
            | (Inr None, s') \<Rightarrow>
                ((reply 200 LoginForm)\<lparr>av_cookies := (if session_value rq \<noteq> None then [(SESSION_COOKIE, None)] else [])\<rparr>, s')
            | (Inr (Some au), s') \<Rightarrow> (reply 200 ConsolePage, s')))"

definition console_login :: "console_config \<Rightarrow> admin_request \<Rightarrow> store \<Rightarrow> admin_response \<times> store" where
  "console_login c rq s = (beginLogin c rq (jprop (aq_body rq) ''realm'') False False, s)"

definition session_required :: admin_response where
  "session_required = problem 401 ''Administrator sign-in required''"

definition console_session :: "console_config \<Rightarrow> admin_request \<Rightarrow> store \<Rightarrow> admin_response \<times> store" where
  "console_session c rq s =
     (case authenticateConsoleRequest c rq s of
        (Inl r, s') \<Rightarrow> (r, s')
      | (Inr None, s') \<Rightarrow> (session_required, s')
      | (Inr (Some au), s') \<Rightarrow>
          (reply 200 (Json (JObj [(''realm'', JStr (au_realm au)), (''csrf'', JStr (csrfFor c (au_sessionValue au))),
             (''user'', JObj [(''id'', JStr (u_id (au_user au))), (''username'', JStr (u_username (au_user au))),
                (''email'', JStr (u_email (au_user au))), (''name'', JStr (u_name (au_user au)))]),
             (''permissions'', JArr (map JStr (g_permissions (au_grant au))))])), s'))"

definition console_switch_realm :: "console_config \<Rightarrow> admin_request \<Rightarrow> store \<Rightarrow> admin_response \<times> store" where
  "console_switch_realm c rq s =
     (case authenticateConsoleRequest c rq s of
        (Inl r, s') \<Rightarrow> (r, s')
      | (Inr None, s') \<Rightarrow> (session_required, s')
      | (Inr (Some au), s') \<Rightarrow>
          (if \<not> aq_isJson rq then problem 415 ''Unsupported media type''
           else if \<not> verifyCsrf c rq au then problem 403 ''Invalid CSRF token''
           else beginLogin c rq (jprop (aq_body rq) ''realm'') True True, s'))"

definition console_logout :: "console_config \<Rightarrow> admin_request \<Rightarrow> store \<Rightarrow> admin_response \<times> store" where
  "console_logout c rq s =
     (case authenticateConsoleRequest c rq s of
        (Inl r, s') \<Rightarrow> (r, s')
      | (Inr au, s') \<Rightarrow>
          if \<not> aq_isJson rq then (problem 415 ''Unsupported media type'', s')
          else (case au of
                  None \<Rightarrow> ((reply 204 Empty)\<lparr>av_cookies := [(SESSION_COOKIE, None)]\<rparr>, s')
                | Some a \<Rightarrow>
                    if \<not> verifyCsrf c rq a then (problem 403 ''Invalid CSRF token'', s')
                    else (let s2 = snd (deleteAdminSession (au_sessionDigest a) s');
                              event = \<lparr>ev_realm = au_realm a, ev_type = ''admin.console.logout'', ev_actorId = Some (u_id (au_user a)),
                                ev_subjectId = Some (u_id (au_user a)), ev_clientId = None, ev_ip = aq_ip rq, ev_userAgent = aq_userAgent rq,
                                ev_metadata = JUndef\<rparr>
                          in ((reply 204 Empty)\<lparr>av_cookies := [(SESSION_COOKIE, None)]\<rparr>,
                              snd (writeAudit (ac_isIP c) (aq_now rq) (aq_auditId rq) event s2)))))"

end
