(* ===== verification/SecondFactors.thy ===== *)
theory SecondFactors
  imports IdentityStore
begin

text \<open>
  Passwords, authenticator codes, recovery codes and passkeys, as the routes use them (\<open>src/crypto/password.js\<close>,
  \<open>mfa.js\<close>, \<open>secrets.js\<close> and \<open>src/security/webauthn.js\<close>). What comes from libraries is a record of functions,
  \<open>crypto\<close>: Argon2, HMAC-SHA-256 in base64url (\<open>cy_digest\<close>), AES-GCM, the TOTP check of \<open>otpauth\<close> (the step offset of a valid
  code) and the WebAuthn checks of \<open>@simplewebauthn/server\<close>. \<open>None\<close> is an exception or a negative answer.
\<close>

record registration_info =
  ri_id :: string
  ri_publicKey :: string
  ri_counter :: int
  ri_transports :: "string list option"
  ri_deviceType :: string
  ri_backedUp :: bool
  ri_aaguid :: string

record authentication_info =
  ai_newCounter :: int
  ai_deviceType :: string
  ai_backedUp :: bool

record crypto =
  cy_argon :: "string \<Rightarrow> string"
  cy_argonVerify :: "string \<Rightarrow> string \<Rightarrow> bool option"
  cy_needsRehash :: "string \<Rightarrow> bool option"
  cy_digest :: "string \<Rightarrow> string \<Rightarrow> string"
  cy_encrypt :: "string \<Rightarrow> string \<Rightarrow> string"
  cy_decrypt :: "string \<Rightarrow> string \<Rightarrow> string option"
  cy_totpValidate :: "string \<Rightarrow> string \<Rightarrow> int \<Rightarrow> int option"
  cy_verifyRegistration :: "json \<Rightarrow> string \<Rightarrow> string \<Rightarrow> string \<Rightarrow> (bool \<times> registration_info option) option"
  cy_verifyAuthentication :: "json \<Rightarrow> string \<Rightarrow> string \<Rightarrow> string \<Rightarrow> credential \<Rightarrow> (bool \<times> authentication_info) option"
  cy_pepper :: string

section \<open>Passwords\<close>

definition peppered :: "string \<Rightarrow> string \<Rightarrow> string" where
  "peppered password pepper = password @ CHR 0x00 # pepper"

definition hashPassword :: "crypto \<Rightarrow> string \<Rightarrow> string option" where
  "hashPassword cy password =
     (if length password < 12 \<or> length password > 1024 then None else Some (cy_argon cy (peppered password (cy_pepper cy))))"

definition verifyPassword :: "crypto \<Rightarrow> string option \<Rightarrow> string \<Rightarrow> bool" where
  "verifyPassword cy hash password =
     (case hash of
        None \<Rightarrow> False
      | Some h \<Rightarrow> length password \<le> 1024 \<and> cy_argonVerify cy h (peppered password (cy_pepper cy)) = Some True)"

definition needsPasswordRehash :: "crypto \<Rightarrow> string option \<Rightarrow> bool" where
  "needsPasswordRehash cy hash =
     (case hash of None \<Rightarrow> True | Some h \<Rightarrow> (case cy_needsRehash cy h of None \<Rightarrow> True | Some b \<Rightarrow> b))"

section \<open>Authenticator codes\<close>

definition otp_re :: "string \<Rightarrow> bool" where [js_defs]: "otp_re = class_re is_digit 6 6"

definition otp_text :: "json \<Rightarrow> string" where "otp_text token = (if nullish token then [] else js_String token)"

definition totpStep :: "crypto \<Rightarrow> string \<Rightarrow> json \<Rightarrow> int \<Rightarrow> int option" where
  "totpStep cy secret token timestamp =
     (if \<not> otp_re (otp_text token) then None
      else (case cy_totpValidate cy secret (otp_text token) timestamp of
              None \<Rightarrow> None
            | Some delta \<Rightarrow> Some (timestamp div 30000 + delta)))"

definition verifyTotp :: "crypto \<Rightarrow> string \<Rightarrow> json \<Rightarrow> int \<Rightarrow> bool" where
  "verifyTotp cy secret token timestamp \<longleftrightarrow> totpStep cy secret token timestamp \<noteq> None"

section \<open>Recovery codes\<close>

text \<open>\<open>raw\<close> is the upper-case hexadecimal text of ten random bytes.\<close>

definition format_code :: "string \<Rightarrow> string" where
  "format_code raw = take 5 raw @ CHR ''-'' # js_slice 5 10 raw @ CHR ''-'' # js_slice 10 15 raw @ CHR ''-'' # drop 15 raw"

definition normalizeRecoveryCode :: "json \<Rightarrow> string" where
  "normalizeRecoveryCode code = js_upper (filter is_alnum (otp_text code))"

definition recoveryCodeDigest :: "crypto \<Rightarrow> json \<Rightarrow> string" where
  "recoveryCodeDigest cy code = cy_digest cy (cy_pepper cy) (normalizeRecoveryCode code)"

definition createRecoveryCodes :: "crypto \<Rightarrow> string list \<Rightarrow> string list \<times> string list" where
  "createRecoveryCodes cy raws =
     (let codes = map format_code raws in (codes, map (\<lambda>c. recoveryCodeDigest cy (JStr c)) codes))"

lemma upper_not_lower: "is_upper c \<or> is_digit c \<Longrightarrow> is_alnum c \<and> chr_upper c = c"
  by (auto simp: is_alnum_def is_alpha_def chr_upper_def is_lower_def is_upper_def is_digit_def chr_in_def)

text \<open>What is handed to the user is recognised as the raw code it came from, however it is typed back.\<close>

lemma normalize_formatted:
  assumes "list_all (\<lambda>c. is_upper c \<or> is_digit c) raw"
  shows "normalizeRecoveryCode (JStr (format_code raw)) = raw"
proof -
  have parts: "take 5 raw @ js_slice 5 10 raw @ js_slice 10 15 raw @ drop 15 raw = raw"
  proof -
    have "js_slice 10 15 raw @ drop 15 raw = drop 10 raw"
      using append_take_drop_id [of 5 "drop 10 raw"] by (simp add: js_slice_def)
    moreover have "js_slice 5 10 raw @ drop 10 raw = drop 5 raw"
      using append_take_drop_id [of 5 "drop 5 raw"] by (simp add: js_slice_def)
    ultimately show ?thesis by simp
  qed
  have keep: "filter is_alnum xs = xs" "map chr_upper xs = xs" if "set xs \<subseteq> set raw" for xs
  proof -
    have "\<forall>c\<in>set xs. is_alnum c \<and> chr_upper c = c"
      using that assms upper_not_lower by (auto simp: list_all_iff)
    then show "filter is_alnum xs = xs" "map chr_upper xs = xs" by (simp_all add: filter_id_conv map_idI)
  qed
  have sub: "set (take 5 raw) \<subseteq> set raw" "set (js_slice 5 10 raw) \<subseteq> set raw" "set (js_slice 10 15 raw) \<subseteq> set raw"
      "set (drop 15 raw) \<subseteq> set raw"
    using set_js_slice [of 5 10 raw] set_js_slice [of 10 15 raw] by (auto dest: in_set_takeD in_set_dropD)
  have dash: "\<not> is_alnum (CHR ''-'')" by (simp add: js_defs)
  have "filter is_alnum (format_code raw) = raw"
    using keep(1) [OF sub(1)] keep(1) [OF sub(2)] keep(1) [OF sub(3)] keep(1) [OF sub(4)] dash parts
    by (simp add: format_code_def)
  then show ?thesis using keep(2) [of raw] by (simp add: normalizeRecoveryCode_def otp_text_def js_upper_def)
qed

section \<open>Passkeys\<close>

record webauthn =
  wn_origin :: string
  wn_rpID :: string

definition verifyRegistration :: "crypto \<Rightarrow> webauthn \<Rightarrow> json \<Rightarrow> string \<Rightarrow> registration_info option" where
  "verifyRegistration cy wn response expectedChallenge =
     (case cy_verifyRegistration cy response expectedChallenge (wn_origin wn) (wn_rpID wn) of
        None \<Rightarrow> None
      | Some (verified, info) \<Rightarrow>
          (case info of
             None \<Rightarrow> None
           | Some i \<Rightarrow> if verified then Some (i\<lparr>ri_transports := Some (or_else (ri_transports i) [])\<rparr>) else None))"

definition verifyAuthentication ::
    "crypto \<Rightarrow> webauthn \<Rightarrow> json \<Rightarrow> string \<Rightarrow> credential \<Rightarrow> authentication_info option" where
  "verifyAuthentication cy wn response expectedChallenge cred =
     (case cy_verifyAuthentication cy response expectedChallenge (wn_origin wn) (wn_rpID wn) cred of
        None \<Rightarrow> None
      | Some (verified, info) \<Rightarrow> if verified then Some info else None)"

section \<open>The keys of the rate limiter\<close>

definition opaqueKey :: "crypto \<Rightarrow> string \<Rightarrow> string \<Rightarrow> string" where
  "opaqueKey cy domain v =
     cy_digest cy (cy_pepper cy) (''authme-rate-limit'' @ CHR 0x00 # domain @ CHR 0x00 # (if v = [] then ''unknown'' else v))"

text \<open>
  \<open>consumeLogin\<close>: the address first, so that a blocked source cannot use up the points of an account. A limiter is a
  function from a key and its state to the remaining block time, if it refuses, and its new state.
\<close>

definition consumeLogin ::
    "crypto \<Rightarrow> (string \<Rightarrow> 'r \<Rightarrow> int option \<times> 'r) \<Rightarrow> (string \<Rightarrow> 'r \<Rightarrow> int option \<times> 'r) \<Rightarrow> string \<Rightarrow> string \<Rightarrow> 'r \<Rightarrow> int option \<times> 'r" where
  "consumeLogin cy loginIp loginAccount ip account r =
     (case loginIp (opaqueKey cy ''login-ip'' ip) r of
        (Some ms, r1) \<Rightarrow> (Some ms, r1)
      | (None, r1) \<Rightarrow> loginAccount (opaqueKey cy ''login-account'' account) r1)"

end
