(* ===== verification/AdminRoutes.thy ===== *)
theory AdminRoutes
  imports AdminConsole FederatedIdentity SecondFactors Schemas
begin

text \<open>
  The administration API (\<open>src/routes/admin.js\<close>): the gate every request passes, the protection of accounts that
  hold an administrator grant, and the handlers of users, credentials, federated identities, sessions and the audit
  log, over the data layer and the federated links. A request is decoded into a \<open>route\<close> from its path; it is
  handled without interleaving. \<open>admin_env\<close> adds to the console's configuration what the handlers use.
  An exception that reaches \<open>next(error)\<close> is the reply \<open>Thrown\<close>; \<open>Allowed\<close> is the router's own answer to \<open>OPTIONS\<close> on a route it knows. A body that the JSON parser
  refuses does not reach the handlers and is left out.
\<close>

section \<open>State, environment and replies\<close>

record admin_state =
  am_data :: data
  am_links :: "(fed_key \<times> fed_link) list"

record admin_env =
  an_console :: console_config
  an_crypto :: crypto
  an_webauthn :: webauthn
  an_decode :: "string \<Rightarrow> string option"
  an_isEmail :: "string \<Rightarrow> bool"
  an_order :: "string \<Rightarrow> string \<Rightarrow> bool"
  an_providers :: "string \<Rightarrow> (string \<times> string) list"
  an_dynamicRegistration :: bool
  an_challengeTtl :: int
  an_metrics :: string
  an_registrationOptions :: "string \<Rightarrow> user \<Rightarrow> credential list \<Rightarrow> json"
  an_totp :: "string \<Rightarrow> string \<Rightarrow> string \<times> string"
  an_rawCodes :: "string list"
  an_configuration :: "string \<Rightarrow> json"
  an_newToken :: "string \<Rightarrow> int \<Rightarrow> string"
  an_defaultInOptional :: bool

text \<open>
  \<open>an_decode\<close> is \<open>decodeURIComponent\<close>, \<open>an_providers\<close> the identifiers and issuers of the LDAP, OIDC and SAML providers of a
  realm, \<open>an_totp\<close> the secret and URI of a new authenticator, \<open>an_rawCodes\<close> the random recovery codes,
  \<open>an_configuration\<close> the description of a realm's configuration (a projection of \<open>config\<close> that keeps no state),
  \<open>an_newToken\<close> the saved initial access token; \<open>an_defaultInOptional\<close> says whether the schema library applies a default inside an
  optional field when the field is absent (zod 4 does, zod 3 did not).
\<close>

record public_passkey =
  pk_id :: string
  pk_transports :: "string list"
  pk_deviceType :: string
  pk_backedUp :: bool
  pk_aaguid :: string
  pk_name :: string
  pk_createdAt :: int
  pk_updatedAt :: int
  pk_lastUsedAt :: "int option"

datatype admin_reply =
    Plain admin_response
  | UserBody nat "public_user option"
  | UsersBody "public_user option list" nat nat
  | IdentitiesBody "public_link list"
  | IdentityBody "public_link option"
  | PasskeysBody "public_passkey list"
  | PasskeyBody public_passkey
  | ChallengeBody string int json
  | TotpBody string string
  | RecoveryBody "string list"
  | AuditBody "audit_record list" nat nat
  | TokenBody string int
  | RealmsBody "string list"
  | Allowed
  | Thrown

definition no_content :: admin_reply where "no_content = Plain (reply 204 Empty)"
definition refuse :: "nat \<Rightarrow> string \<Rightarrow> admin_reply" where "refuse status title = Plain (problem status title)"
definition user_missing :: admin_reply where "user_missing = refuse 404 ''User not found''"
definition invalid_request :: admin_reply where "invalid_request = refuse 400 ''Invalid request''"

definition publicPasskey :: "credential \<Rightarrow> public_passkey" where
  "publicPasskey c = \<lparr>pk_id = wc_id c, pk_transports = wc_transports c, pk_deviceType = wc_deviceType c, pk_backedUp = wc_backedUp c,
     pk_aaguid = wc_aaguid c, pk_name = wc_name c, pk_createdAt = wc_createdAt c, pk_updatedAt = wc_updatedAt c,
     pk_lastUsedAt = wc_lastUsedAt c\<rparr>"

section \<open>The gate\<close>

definition normalizedAdminPath :: "string \<Rightarrow> string" where
  "normalizedAdminPath path =
     (if length path > 1 then rev (dropWhile (\<lambda>c. c = CHR ''/'') (rev path)) else path)"

definition path_segments :: "string \<Rightarrow> string list" where "path_segments path = js_split (CHR ''/'') path"

text \<open>\<open>/^\/v1\/realms\/([^/]+)(?:\/|$)/iu\<close>, decoded; the empty realm when it cannot be decoded.\<close>

definition requestedAdminRealm :: "(string \<Rightarrow> string option) \<Rightarrow> string \<Rightarrow> string option" where
  "requestedAdminRealm dec path =
     (case path_segments path of
        root # v1 # realms # realm # rest \<Rightarrow>
          if root = [] \<and> js_lower v1 = ''v1'' \<and> js_lower realms = ''realms'' \<and> realm \<noteq> [] then Some (or_else (dec realm) []) else None
      | _ \<Rightarrow> None)"

text \<open>The permissions below \<open>/v1/realms/:realm\<close>, by method and lower-case path segments.\<close>

definition user_permission :: "string \<Rightarrow> string list \<Rightarrow> string option" where
  "user_permission meth rest =
     (case rest of
        [] \<Rightarrow> Some (if meth = ''DELETE'' then ''users.delete'' else if meth = ''GET'' then ''users.read'' else ''users.write'')
      | [x] \<Rightarrow>
          if x = ''federated-identities'' then Some (if meth = ''GET'' then ''users.read'' else ''federation.manage'')
          else if x \<in> set [''passkeys'', ''password'', ''unlock''] then Some ''credentials.manage''
          else None
      | x # y # zs \<Rightarrow>
          if x = ''passkeys'' then Some ''credentials.manage''
          else if x = ''mfa'' \<and> y = ''totp'' \<and> (zs = [] \<or> zs = [''confirm'']) then Some ''credentials.manage''
          else if x = ''sessions'' \<and> y = ''revoke'' \<and> zs = [] then Some ''sessions.revoke''
          else None)"

definition realm_permission :: "string \<Rightarrow> string list \<Rightarrow> string option" where
  "realm_permission meth rest =
     (case rest of
        [x] \<Rightarrow>
          if x = ''configuration'' then Some ''configuration.read'' else if x = ''audit'' then Some ''audit.read''
          else if x = ''client-registration-tokens'' then Some ''clients.register''
          else if x = ''users'' then Some (if meth = ''GET'' then ''users.read'' else ''users.write'')
          else None
      | x # uid # zs \<Rightarrow> if x = ''users'' \<and> uid \<noteq> [] then user_permission meth zs else None
      | [] \<Rightarrow> None)"

definition segments_permission :: "string \<Rightarrow> string list \<Rightarrow> string option" where
  "segments_permission meth segs =
     (case segs of
        [root, x] \<Rightarrow> if root = [] \<and> x = ''metrics'' then Some ''metrics.read'' else None
      | [root, v1, realms] \<Rightarrow> if root = [] \<and> v1 = ''v1'' \<and> realms = ''realms'' then Some ''realms.read'' else None
      | root # v1 # realms # realm # rest \<Rightarrow>
          if root = [] \<and> v1 = ''v1'' \<and> realms = ''realms'' \<and> realm \<noteq> [] then realm_permission meth rest else None
      | _ \<Rightarrow> None)"

definition requiredAdminPermission :: "string \<Rightarrow> string \<Rightarrow> string option" where
  "requiredAdminPermission meth path = segments_permission meth (map js_lower (path_segments (normalizedAdminPath path)))"

definition hasRecentAdminAuthentication :: "authentication \<Rightarrow> int \<Rightarrow> bool" where
  "hasRecentAdminAuthentication au now \<longleftrightarrow>
     - 30000 \<le> now - as_createdAt (au_session au) \<and> now - as_createdAt (au_session au) \<le> 15 * 60 * 1000"

datatype admin_actor = BearerActor | SessionActor authentication

definition safe_method :: "string \<Rightarrow> bool" where
  "safe_method meth \<longleftrightarrow> meth \<in> set [''GET'', ''HEAD'', ''OPTIONS'']"

text \<open>\<open>/^Bearer ([^\s]+)$/\<close>.\<close>

definition bearer_of :: "string option \<Rightarrow> string option" where
  "bearer_of h =
     (case h of
        None \<Rightarrow> None
      | Some t \<Rightarrow> (let rest = drop 7 t in
          if js_starts ''Bearer '' t \<and> rest \<noteq> [] \<and> list_all (\<lambda>c. \<not> is_space c) rest then Some rest else None))"

text \<open>What a console session must show for the request; the body is not parsed yet.\<close>

definition session_checks :: "admin_env \<Rightarrow> admin_request \<Rightarrow> authentication \<Rightarrow> admin_response option" where
  "session_checks env rq au =
     (let requestedRealm = requestedAdminRealm (an_decode env) (aq_path rq);
          permission = requiredAdminPermission (aq_method rq) (aq_path rq)
      in if requestedRealm \<noteq> None \<and> requestedRealm \<noteq> Some (au_realm au) then Some (problem 403 ''Realm access denied'')
         else (case permission of
                 None \<Rightarrow> Some (problem 403 ''Permission denied'')
               | Some p \<Rightarrow>
                   if \<not> hasAdminPermission (Some (au_grant au)) p then Some (problem 403 ''Permission denied'')
                   else if safe_method (aq_method rq) then None
                   else if \<not> aq_isJson rq then Some (problem 415 ''Unsupported media type'')
                   else if \<not> verifyCsrf (an_console env) (rq\<lparr>aq_body := JUndef\<rparr>) au then Some (problem 403 ''Invalid CSRF token'')
                   else if \<not> hasRecentAdminAuthentication au (aq_now rq)
                   then Some (problem 403 ''Recent administrator authentication required'')
                   else None))"

definition admin_gate :: "admin_env \<Rightarrow> admin_request \<Rightarrow> store \<Rightarrow> (admin_response + admin_actor) \<times> store" where
  "admin_gate env rq s =
     (case aq_limited rq of
        Some ms \<Rightarrow> (Inl (too_many ms), s)
      | None \<Rightarrow>
          if bearer_of (aq_authorization rq) = Some (ac_adminToken (an_console env)) then (Inr BearerActor, s)
          else (case authenticate (an_console env) rq s of
                  (None, s') \<Rightarrow> (Inl (problem 401 ''Unauthorized''), s')
                | (Some au, s') \<Rightarrow>
                    (case session_checks env rq au of
                       Some r \<Rightarrow> (Inl r, s')
                     | None \<Rightarrow> (Inr (SessionActor au), s'))))"

section \<open>Routes\<close>

datatype user_route =
    U_self | U_identities | U_passkeys | U_passkey_options | U_passkey_verify | U_passkey string
  | U_password | U_unlock | U_totp | U_totp_confirm | U_revoke

datatype admin_route =
    R_metrics | R_realms | R_configuration string | R_tokens string | R_users string | R_audit string
  | R_user string string user_route

text \<open>
  The Express router matches paths without regard to case and ignores a trailing slash; parameters are decoded.
\<close>

definition user_route_of :: "(string \<Rightarrow> string option) \<Rightarrow> string list \<Rightarrow> user_route option" where
  "user_route_of dec rest =
     (case rest of
        [] \<Rightarrow> Some U_self
      | [x] \<Rightarrow> (if js_lower x = ''federated-identities'' then Some U_identities
               else if js_lower x = ''passkeys'' then Some U_passkeys
               else if js_lower x = ''password'' then Some U_password
               else if js_lower x = ''unlock'' then Some U_unlock else None)
      | [x, y] \<Rightarrow> (if js_lower x = ''passkeys'' \<and> y \<noteq> [] then map_option U_passkey (dec y)
               else if js_lower x = ''mfa'' \<and> js_lower y = ''totp'' then Some U_totp
               else if js_lower x = ''sessions'' \<and> js_lower y = ''revoke'' then Some U_revoke else None)
      | [x, y, z] \<Rightarrow> (if js_lower x = ''passkeys'' \<and> js_lower y = ''registration'' \<and> js_lower z = ''options'' then Some U_passkey_options
               else if js_lower x = ''passkeys'' \<and> js_lower y = ''registration'' \<and> js_lower z = ''verify'' then Some U_passkey_verify
               else if js_lower x = ''mfa'' \<and> js_lower y = ''totp'' \<and> js_lower z = ''confirm'' then Some U_totp_confirm else None)
      | _ \<Rightarrow> None)"

definition realm_route_of :: "(string \<Rightarrow> string option) \<Rightarrow> string \<Rightarrow> string list \<Rightarrow> admin_route option" where
  "realm_route_of dec realm rest =
     (case rest of
        [x] \<Rightarrow> (if js_lower x = ''configuration'' then Some (R_configuration realm)
               else if js_lower x = ''client-registration-tokens'' then Some (R_tokens realm)
               else if js_lower x = ''users'' then Some (R_users realm)
               else if js_lower x = ''audit'' then Some (R_audit realm) else None)
      | x # uid # zs \<Rightarrow>
          (if js_lower x = ''users'' \<and> uid \<noteq> []
           then (case (dec uid, user_route_of dec zs) of (Some i, Some r) \<Rightarrow> Some (R_user realm i r) | _ \<Rightarrow> None)
           else None)
      | [] \<Rightarrow> None)"

definition segments_route :: "(string \<Rightarrow> string option) \<Rightarrow> string list \<Rightarrow> admin_route option" where
  "segments_route dec segs =
     (case segs of
        [root, x] \<Rightarrow> if root = [] \<and> js_lower x = ''metrics'' then Some R_metrics else None
      | [root, v1, realms] \<Rightarrow> if root = [] \<and> js_lower v1 = ''v1'' \<and> js_lower realms = ''realms'' then Some R_realms else None
      | root # v1 # realms # realm # rest \<Rightarrow>
          (if root = [] \<and> js_lower v1 = ''v1'' \<and> js_lower realms = ''realms'' \<and> realm \<noteq> []
           then (case dec realm of None \<Rightarrow> None | Some r \<Rightarrow> realm_route_of dec r rest) else None)
      | _ \<Rightarrow> None)"

definition admin_route_of :: "(string \<Rightarrow> string option) \<Rightarrow> string \<Rightarrow> admin_route option" where
  "admin_route_of dec path =
     segments_route dec (path_segments (if length path > 1 \<and> last path = CHR ''/'' then butlast path else path))"

text \<open>The account a route names.\<close>

definition route_account :: "admin_route \<Rightarrow> (string \<times> string) option" where
  "route_account r = (case r of R_user realm i _ \<Rightarrow> Some (realm, i) | _ \<Rightarrow> None)"

definition route_realm :: "admin_route \<Rightarrow> string option" where
  "route_realm r =
     (case r of R_metrics \<Rightarrow> None | R_realms \<Rightarrow> None | R_configuration x \<Rightarrow> Some x | R_tokens x \<Rightarrow> Some x | R_users x \<Rightarrow> Some x
      | R_audit x \<Rightarrow> Some x | R_user x i u \<Rightarrow> Some x)"

text \<open>\<open>Administrator account protection\<close>.\<close>

definition protected_account :: "string \<Rightarrow> admin_actor \<Rightarrow> string \<Rightarrow> string \<Rightarrow> store \<Rightarrow> bool" where
  "protected_account meth actor realm i s \<longleftrightarrow>
     \<not> safe_method meth \<and>
     (case actor of
        BearerActor \<Rightarrow> False
      | SessionActor au \<Rightarrow> findAdminGrant realm i s \<noteq> None \<and> \<not> hasAdminPermission (Some (au_grant au)) ''administrators.manage'')"

section \<open>Request bodies\<close>

text \<open>
  The schemas of the bodies, over the combinators of Schemas. The test
  for an e-mail address is the library's (\<open>an_isEmail\<close>).
\<close>

definition identifier_schema :: "json \<Rightarrow> string option" where
  "identifier_schema = trimmed 1 128 (list_all (\<lambda>c. is_alnum c \<or> c \<in> set ''._@+-''))"

definition role_schema :: "json \<Rightarrow> string option" where
  "role_schema = trimmed 1 128 (list_all (\<lambda>c. is_alnum c \<or> c \<in> set '':._/-''))"

text \<open>\<open>/^\/.+|^[a-zA-Z0-9:._-]+$/\<close>: a slash and one character that ends no line, or the class throughout.\<close>

definition group_re :: "string \<Rightarrow> bool" where
  "group_re s =
     ((case s of c # d # cs \<Rightarrow> c = CHR ''/'' \<and> (of_char d :: nat) \<noteq> 10 \<and> (of_char d :: nat) \<noteq> 13 | _ \<Rightarrow> False)
      \<or> s \<noteq> [] \<and> list_all (\<lambda>c. is_alnum c \<or> c \<in> set '':._-'') s)"

definition group_schema :: "json \<Rightarrow> string option" where "group_schema = trimmed 1 256 group_re"

definition password_schema :: "json \<Rightarrow> string option" where
  "password_schema v = (case v of JStr s \<Rightarrow> if 12 \<le> length s \<and> length s \<le> 1024 then Some s else None | _ \<Rightarrow> None)"

definition email_schema :: "admin_env \<Rightarrow> json \<Rightarrow> string option" where
  "email_schema env v = (case v of JStr s \<Rightarrow> if an_isEmail env s \<and> length s \<le> 254 then Some s else None | _ \<Rightarrow> None)"

definition record_schema :: "json \<Rightarrow> (string \<times> string list) list option" where
  "record_schema v =
     (case v of
        JObj kvs \<Rightarrow> all_some (map (\<lambda>(k, x). if 1 \<le> length k \<and> length k \<le> 255
           then map_option (\<lambda>rs. (k, rs)) (array_schema role_schema 200 x) else None) kvs)
      | _ \<Rightarrow> None)"

text \<open>\<open>clientRoles\<close> is optional around a schema that has the empty object as its default.\<close>

definition optional_default :: "admin_env \<Rightarrow> 'a \<Rightarrow> 'a option \<Rightarrow> 'a option" where
  "optional_default env d v = (case v of None \<Rightarrow> if an_defaultInOptional env then Some d else None | Some x \<Rightarrow> Some x)"

definition updateUserSchema :: "admin_env \<Rightarrow> json \<Rightarrow> user_patch option" where
  "updateUserSchema env v =
     (if \<not> strict_names v [''email'', ''emailVerified'', ''name'', ''givenName'', ''familyName'', ''enabled'', ''roles'', ''groups'', ''clientRoles'']
      then None
      else (case (opt_field (email_schema env) v ''email'', opt_field bool_schema v ''emailVerified'',
                  opt_field (trimmed 1 255 (\<lambda>_. True)) v ''name'', opt_field (trimmed 0 255 (\<lambda>_. True)) v ''givenName'',
                  opt_field (trimmed 0 255 (\<lambda>_. True)) v ''familyName'', opt_field bool_schema v ''enabled'',
                  opt_field (array_schema role_schema 200) v ''roles'', opt_field (array_schema group_schema 200) v ''groups'',
                  opt_field record_schema v ''clientRoles'') of
              (Some e, Some ev, Some n, Some g, Some f, Some en, Some r, Some gr, Some cr) \<Rightarrow>
                Some \<lparr>p_email = e, p_emailVerified = ev, p_name = n, p_givenName = g, p_familyName = f, p_enabled = en,
                  p_passwordHash = None, p_roles = r, p_groups = gr, p_clientRoles = optional_default env [] cr\<rparr>
            | _ \<Rightarrow> None))"

text \<open>The new account and its password.\<close>

definition createUserSchema :: "admin_env \<Rightarrow> string \<Rightarrow> json \<Rightarrow> (user_input \<times> string) option" where
  "createUserSchema env realm v =
     (if \<not> strict_names v [''username'', ''email'', ''password'', ''emailVerified'', ''name'', ''givenName'', ''familyName'', ''enabled'',
           ''roles'', ''groups'', ''clientRoles''] then None
      else (case (identifier_schema (jprop v ''username''), email_schema env (jprop v ''email''), password_schema (jprop v ''password''),
                  opt_field bool_schema v ''emailVerified'', opt_field (trimmed 1 255 (\<lambda>_. True)) v ''name'',
                  opt_field (trimmed 0 255 (\<lambda>_. True)) v ''givenName'', opt_field (trimmed 0 255 (\<lambda>_. True)) v ''familyName'',
                  opt_field bool_schema v ''enabled'', opt_field (array_schema role_schema 200) v ''roles'',
                  opt_field (array_schema group_schema 200) v ''groups'', opt_field record_schema v ''clientRoles'') of
              (Some u, Some e, Some pw, Some ev, Some n, Some g, Some f, Some en, Some r, Some gr, Some cr) \<Rightarrow>
                Some (\<lparr>i_id = None, i_realm = realm, i_username = u, i_email = e, i_emailVerified = or_else ev False, i_name = n,
                   i_givenName = g, i_familyName = f, i_enabled = Some (or_else en True), i_securityVersion = None, i_passwordHash = None,
                   i_roles = Some (or_else r []), i_groups = Some (or_else gr []), i_clientRoles = optional_default env [] cr, i_totpSecret = None,
                   i_totpConfirmed = False, i_pendingTotpSecret = None, i_pendingTotpCreatedAt = None, i_recoveryCodeHashes = None,
                   i_lastTotpStep = None, i_failedAttempts = None, i_lockedUntil = None, i_createdAt = None, i_updatedAt = None,
                   i_lastLoginAt = None\<rparr>, pw)
            | _ \<Rightarrow> None))"

record link_input =
  li_providerId :: string
  li_issuer :: string
  li_externalSubject :: string

definition federatedIssuer :: "admin_env \<Rightarrow> json \<Rightarrow> string option" where
  "federatedIssuer env = trimmed 1 2048 (\<lambda>t. case ac_parse_url (an_console env) t of
     None \<Rightarrow> False
   | Some u \<Rightarrow> wu_protocol u \<noteq> [] \<and> wu_username u = [] \<and> wu_password u = [] \<and> wu_hash u = [])"

definition federatedProviderId :: "json \<Rightarrow> string option" where
  "federatedProviderId v = (case v of JStr s \<Rightarrow> if fed_provider_re s then Some s else None | _ \<Rightarrow> None)"

definition federatedLinkSchema :: "admin_env \<Rightarrow> bool \<Rightarrow> json \<Rightarrow> link_input option" where
  "federatedLinkSchema env withSubject v =
     (if \<not> strict_names v ([''providerId'', ''issuer''] @ (if withSubject then [''externalSubject''] else [])) then None
      else (case (federatedProviderId (jprop v ''providerId''), federatedIssuer env (jprop v ''issuer''),
                  (if withSubject then trimmed 1 2048 (list_all (\<lambda>c. \<not> is_control c)) (jprop v ''externalSubject'') else Some [])) of
              (Some p, Some i, Some e) \<Rightarrow> Some \<lparr>li_providerId = p, li_issuer = i, li_externalSubject = e\<rparr>
            | _ \<Rightarrow> None))"

text \<open>\<open>paginationSchema\<close>: digits, within bounds, with defaults.\<close>

definition page_field :: "json \<Rightarrow> nat \<Rightarrow> nat \<Rightarrow> nat \<Rightarrow> nat option" where
  "page_field v lo hi dflt =
     (case v of
        JUndef \<Rightarrow> Some dflt
      | JStr s \<Rightarrow> if s \<noteq> [] \<and> list_all is_digit s \<and> lo \<le> digits_val s \<and> digits_val s \<le> hi then Some (digits_val s) else None
      | _ \<Rightarrow> None)"

definition admin_page :: "admin_request \<Rightarrow> (nat \<times> nat) option" where
  "admin_page rq =
     (case (page_field (jprop (aq_query rq) ''limit'') 1 250 100, page_field (jprop (aq_query rq) ''offset'') 0 10000000 0) of
        (Some l, Some off) \<Rightarrow> Some (l, off)
      | _ \<Rightarrow> None)"

section \<open>Handlers\<close>

definition admin_event :: "admin_request \<Rightarrow> admin_actor \<Rightarrow> string \<Rightarrow> string \<Rightarrow> string option \<Rightarrow> json \<Rightarrow> audit_event" where
  "admin_event rq actor realm type subjectId m =
     \<lparr>ev_realm = realm, ev_type = type,
      ev_actorId = (case actor of BearerActor \<Rightarrow> None | SessionActor au \<Rightarrow> Some (u_id (au_user au))),
      ev_subjectId = subjectId, ev_clientId = None, ev_ip = aq_ip rq, ev_userAgent = aq_userAgent rq, ev_metadata = m\<rparr>"

definition admin_write :: "admin_env \<Rightarrow> admin_request \<Rightarrow> audit_event \<Rightarrow> store \<Rightarrow> store" where
  "admin_write env rq event s = snd (writeAudit (ac_isIP (an_console env)) (aq_now rq) (aq_auditId rq) event s)"

definition am_store :: "admin_state \<Rightarrow> store" where "am_store w = dl_store (am_data w)"

definition set_store :: "store \<Rightarrow> admin_state \<Rightarrow> admin_state" where
  "set_store s w = w\<lparr>am_data := (am_data w)\<lparr>dl_store := s\<rparr>\<rparr>"

definition admin_audit :: "admin_env \<Rightarrow> admin_request \<Rightarrow> audit_event \<Rightarrow> admin_state \<Rightarrow> admin_state" where
  "admin_audit env rq event w = set_store (admin_write env rq event (am_store w)) w"

text \<open>
  \<open>data.mutateAccountSecurity\<close> with a callback that changes the store and, when it applies, writes the audit event.
  The callback's own result is \<open>Some\<close> when it is truthy.
\<close>

definition secure_mutation ::
    "admin_env \<Rightarrow> admin_request \<Rightarrow> string \<Rightarrow> string \<Rightarrow> (store \<Rightarrow> (store_error + bool) \<times> store) \<Rightarrow> audit_event \<Rightarrow>
     admin_state \<Rightarrow> (store_error failure + mutation_result) \<times> admin_state" where
  "secure_mutation env rq realm i change event w =
     (let (r, d) = mutateAccountSecurity (aq_now rq) (aq_uuid rq) realm i
            (\<lambda>s. case change s of
                   (Inl e, s') \<Rightarrow> (Inl e, s')
                 | (Inr applied, s') \<Rightarrow> (Inr applied, if applied then admin_write env rq event s' else s'))
            (am_data w)
      in (r, w\<lparr>am_data := d\<rparr>))"

definition ok_change :: "(store \<Rightarrow> 'a option \<times> store) \<Rightarrow> store \<Rightarrow> (store_error + bool) \<times> store" where
  "ok_change f s = (let (r, s') = f s in (Inr (r \<noteq> None), s'))"

definition list_users :: "admin_env \<Rightarrow> admin_request \<Rightarrow> string \<Rightarrow> admin_state \<Rightarrow> admin_reply \<times> admin_state" where
  "list_users env rq realm w =
     (case admin_page rq of
        None \<Rightarrow> (refuse 400 ''Invalid pagination'', w)
      | Some (l, off) \<Rightarrow>
          (UsersBody (map (\<lambda>u. publicUser (Some u)) (listUsers (an_order env) realm l off (am_store w))) l off, w))"

definition create_user :: "admin_env \<Rightarrow> admin_request \<Rightarrow> admin_actor \<Rightarrow> string \<Rightarrow> admin_state \<Rightarrow> admin_reply \<times> admin_state" where
  "create_user env rq actor realm w =
     (case createUserSchema env realm (aq_body rq) of
        None \<Rightarrow> (invalid_request, w)
      | Some (input, password) \<Rightarrow>
          (case hashPassword (an_crypto env) password of
             None \<Rightarrow> (Thrown, w)
           | Some h \<Rightarrow>
               (case createUser (aq_now rq) (aq_uuid rq) (input\<lparr>i_passwordHash := Some h\<rparr>) (am_store w) of
                  Inl USER_EXISTS \<Rightarrow> (refuse 409 ''User already exists'', w)
                | Inl _ \<Rightarrow> (Thrown, w)
                | Inr (u, s) \<Rightarrow>
                    (UserBody 201 (publicUser (Some u)),
                     admin_audit env rq (admin_event rq actor realm ''admin.user.created'' (Some (u_id u)) JUndef) (set_store s w)))))"

definition get_user :: "string \<Rightarrow> string \<Rightarrow> admin_state \<Rightarrow> admin_reply \<times> admin_state" where
  "get_user realm i w =
     (case findUserById realm i (am_store w) of
        None \<Rightarrow> (user_missing, w)
      | Some u \<Rightarrow> (UserBody 200 (publicUser (Some u)), w))"

definition mutation_reply :: "(mutation_result \<Rightarrow> admin_reply) \<Rightarrow> store_error failure + mutation_result \<Rightarrow> admin_reply" where
  "mutation_reply k r =
     (case r of
        Inl (MUTATION_FAILED USER_EXISTS) \<Rightarrow> refuse 409 ''User already exists''
      | Inl (MUTATION_FAILED WEBAUTHN_CREDENTIAL_EXISTS) \<Rightarrow> refuse 409 ''Passkey already registered''
      | Inl _ \<Rightarrow> Thrown
      | Inr m \<Rightarrow> if \<not> mr_found m then user_missing else k m)"

text \<open>\<open>Object.keys(input)\<close>, in the order of the schema.\<close>

definition patch_fields :: "user_patch \<Rightarrow> string list" where
  "patch_fields p =
     (if p_email p \<noteq> None then [''email''] else []) @ (if p_emailVerified p \<noteq> None then [''emailVerified''] else []) @
     (if p_name p \<noteq> None then [''name''] else []) @ (if p_givenName p \<noteq> None then [''givenName''] else []) @
     (if p_familyName p \<noteq> None then [''familyName''] else []) @ (if p_enabled p \<noteq> None then [''enabled''] else []) @
     (if p_roles p \<noteq> None then [''roles''] else []) @ (if p_groups p \<noteq> None then [''groups''] else []) @
     (if p_clientRoles p \<noteq> None then [''clientRoles''] else [])"

definition patch_user :: "admin_env \<Rightarrow> admin_request \<Rightarrow> admin_actor \<Rightarrow> string \<Rightarrow> string \<Rightarrow> admin_state \<Rightarrow> admin_reply \<times> admin_state" where
  "patch_user env rq actor realm i w =
     (case updateUserSchema env (aq_body rq) of
        None \<Rightarrow> (invalid_request, w)
      | Some patch \<Rightarrow>
          (let (r, w') = secure_mutation env rq realm i
                 (\<lambda>s. case updateUser (aq_now rq) realm i patch s of Inl e \<Rightarrow> (Inl e, s) | Inr (u, s') \<Rightarrow> (Inr (u \<noteq> None), s'))
                 (admin_event rq actor realm ''admin.user.updated'' (Some i)
                    (JObj [(''fields'', JArr (map JStr (patch_fields patch)))])) w
           in (mutation_reply (\<lambda>m. UserBody 200 (publicUser (mr_user m))) r, w')))"

definition password_patch :: "string \<Rightarrow> user_patch" where
  "password_patch h = \<lparr>p_email = None, p_emailVerified = None, p_name = None, p_givenName = None, p_familyName = None, p_enabled = None,
     p_passwordHash = Some (Some h), p_roles = None, p_groups = None, p_clientRoles = None\<rparr>"

definition set_password :: "admin_env \<Rightarrow> admin_request \<Rightarrow> admin_actor \<Rightarrow> string \<Rightarrow> string \<Rightarrow> admin_state \<Rightarrow> admin_reply \<times> admin_state" where
  "set_password env rq actor realm i w =
     (if \<not> strict_names (aq_body rq) [''password''] then (invalid_request, w)
      else (case password_schema (jprop (aq_body rq) ''password'') of
              None \<Rightarrow> (invalid_request, w)
            | Some password \<Rightarrow>
                (case hashPassword (an_crypto env) password of
                   None \<Rightarrow> (Thrown, w)
                 | Some h \<Rightarrow>
                     (let (r, w') = secure_mutation env rq realm i
                            (\<lambda>s. case updateUser (aq_now rq) realm i (password_patch h) s of
                                   Inl e \<Rightarrow> (Inl e, s)
                                 | Inr (u, s') \<Rightarrow> (Inr (u \<noteq> None), if u \<noteq> None then snd (unlockUser (aq_now rq) realm i s') else s'))
                            (admin_event rq actor realm ''admin.user.password_reset'' (Some i) JUndef) w
                      in (case r of Inl _ \<Rightarrow> Thrown | Inr m \<Rightarrow> if mr_found m then no_content else user_missing, w')))))"

definition unlock_user :: "admin_env \<Rightarrow> admin_request \<Rightarrow> admin_actor \<Rightarrow> string \<Rightarrow> string \<Rightarrow> admin_state \<Rightarrow> admin_reply \<times> admin_state" where
  "unlock_user env rq actor realm i w =
     (case unlockUser (aq_now rq) realm i (am_store w) of
        (None, s) \<Rightarrow> (user_missing, set_store s w)
      | (Some u, s) \<Rightarrow> (no_content, admin_audit env rq (admin_event rq actor realm ''admin.user.unlocked'' (Some (u_id u)) JUndef) (set_store s w)))"

text \<open>Federated identities.\<close>

definition am_fed :: "admin_state \<Rightarrow> fed_state" where "am_fed w = \<lparr>fs_links = am_links w, fs_store = am_store w\<rparr>"

definition set_fed :: "fed_state \<Rightarrow> admin_state \<Rightarrow> admin_state" where
  "set_fed st w = (set_store (fs_store st) w)\<lparr>am_links := fs_links st\<rparr>"

definition list_identities :: "string \<Rightarrow> string \<Rightarrow> admin_state \<Rightarrow> admin_reply \<times> admin_state" where
  "list_identities realm i w =
     (case findUserById realm i (am_store w) of
        None \<Rightarrow> (user_missing, w)
      | Some u \<Rightarrow> (IdentitiesBody (fed_list realm (u_id u) (am_fed w)), w))"

definition link_metadata :: "link_input \<Rightarrow> json" where
  "link_metadata l = JObj [(''providerId'', JStr (li_providerId l)), (''issuer'', JStr (li_issuer l))]"

definition link_identity :: "admin_env \<Rightarrow> admin_request \<Rightarrow> admin_actor \<Rightarrow> string \<Rightarrow> string \<Rightarrow> admin_state \<Rightarrow> admin_reply \<times> admin_state" where
  "link_identity env rq actor realm i w =
     (case federatedLinkSchema env True (aq_body rq) of
        None \<Rightarrow> (invalid_request, w)
      | Some l \<Rightarrow>
          if (li_providerId l, li_issuer l) \<notin> set (an_providers env realm) then (refuse 400 ''Unknown federation provider'', w)
          else (case fed_link_user (aq_now rq)
                       (JObj [(''realm'', JStr realm), (''userId'', JStr i), (''providerId'', JStr (li_providerId l)),
                          (''issuer'', JStr (li_issuer l)), (''externalSubject'', JStr (li_externalSubject l))]) (am_fed w) of
                  Inl e \<Rightarrow> (Thrown, w)
                | Inr (r, st) \<Rightarrow>
                    (case fr_status r of
                       NotFound \<Rightarrow> (user_missing, set_fed st w)
                     | Conflict \<Rightarrow> (refuse 409 ''Federated identity conflict'', set_fed st w)
                     | _ \<Rightarrow> (IdentityBody (fr_link r),
                             admin_audit env rq (admin_event rq actor realm ''admin.user.federated_identity_linked'' (Some i)
                               (link_metadata l)) (set_fed st w)))))"

definition unlink_identity :: "admin_env \<Rightarrow> admin_request \<Rightarrow> admin_actor \<Rightarrow> string \<Rightarrow> string \<Rightarrow> admin_state \<Rightarrow> admin_reply \<times> admin_state" where
  "unlink_identity env rq actor realm i w =
     (case federatedLinkSchema env False (aq_body rq) of
        None \<Rightarrow> (invalid_request, w)
      | Some l \<Rightarrow>
          (case fed_unlink realm i (li_providerId l) (li_issuer l) (am_fed w) of
             (None, st) \<Rightarrow> (refuse 404 ''Federated identity not found'', set_fed st w)
           | (Some _, st) \<Rightarrow>
               (no_content, admin_audit env rq (admin_event rq actor realm ''admin.user.federated_identity_unlinked'' (Some i)
                  (link_metadata l)) (set_fed st w))))"

text \<open>Passkeys.\<close>

definition list_passkeys :: "string \<Rightarrow> string \<Rightarrow> admin_state \<Rightarrow> admin_reply \<times> admin_state" where
  "list_passkeys realm i w =
     (case findUserById realm i (am_store w) of
        None \<Rightarrow> (user_missing, w)
      | Some u \<Rightarrow> (PasskeysBody (map publicPasskey (listWebAuthnCredentials realm (u_id u) (am_store w))), w))"

definition registration_options :: "admin_env \<Rightarrow> admin_request \<Rightarrow> string \<Rightarrow> string \<Rightarrow> admin_state \<Rightarrow> admin_reply \<times> admin_state" where
  "registration_options env rq realm i w =
     (case findUserById realm i (am_store w) of
        None \<Rightarrow> (user_missing, w)
      | Some u \<Rightarrow>
          (let publicKey = an_registrationOptions env realm u (listWebAuthnCredentials realm (u_id u) (am_store w));
               (c, s) = createWebAuthnChallenge (aq_now rq) (aq_uuid rq) realm ''registration'' (Some (u_id u)) None
                 (Some (js_String (jprop (jprop publicKey ''user'') ''id''))) (js_String (jprop publicKey ''challenge''))
                 (aq_now rq + an_challengeTtl env * 1000) (am_store w)
           in (ChallengeBody (ch_id c) (an_challengeTtl env) publicKey, set_store s w)))"

definition base64url_schema :: "nat \<Rightarrow> json \<Rightarrow> string option" where
  "base64url_schema mx v = (case v of JStr s \<Rightarrow> if class_re is_b64url 1 mx s then Some s else None | _ \<Rightarrow> None)"

definition transports_ok :: "json \<Rightarrow> bool" where
  "transports_ok v =
     (case v of
        JUndef \<Rightarrow> True
      | JArr xs \<Rightarrow> length xs \<le> 7 \<and> list_all (\<lambda>x. \<exists>t\<in>set [''ble'', ''cable'', ''hybrid'', ''internal'', ''nfc'', ''smart-card'', ''usb'']. x = JStr t) xs
      | _ \<Rightarrow> False)"

definition registrationResponse :: "json \<Rightarrow> bool" where
  "registrationResponse v \<longleftrightarrow>
     is_obj v \<and> base64url_schema 2048 (jprop v ''id'') \<noteq> None \<and> base64url_schema 2048 (jprop v ''rawId'') \<noteq> None \<and>
     jprop v ''type'' = JStr ''public-key'' \<and> is_obj (jprop v ''response'') \<and>
     base64url_schema 32768 (jprop (jprop v ''response'') ''clientDataJSON'') \<noteq> None \<and>
     base64url_schema 32768 (jprop (jprop v ''response'') ''attestationObject'') \<noteq> None \<and>
     transports_ok (jprop (jprop v ''response'') ''transports'')"

record verify_input =
  vi_challengeId :: string
  vi_name :: string
  vi_response :: json

definition verifySchema :: "json \<Rightarrow> verify_input option" where
  "verifySchema v =
     (if \<not> strict_names v [''challengeId'', ''name'', ''response''] \<or> \<not> registrationResponse (jprop v ''response'') then None
      else (case (jprop v ''challengeId'', opt_field (trimmed 1 100 (\<lambda>_. True)) v ''name'') of
              (JStr c, Some n) \<Rightarrow>
                if uuid_re c then Some \<lparr>vi_challengeId = c, vi_name = or_else n ''Passkey'', vi_response = jprop v ''response''\<rparr> else None
            | _ \<Rightarrow> None))"

definition passkey_input :: "string \<Rightarrow> string \<Rightarrow> string \<Rightarrow> string \<Rightarrow> registration_info \<Rightarrow> credential_input" where
  "passkey_input realm i handle name r =
     \<lparr>ci_realm = realm, ci_userId = i, ci_id = ri_id r, ci_userHandle = handle, ci_publicKey = ri_publicKey r,
      ci_counter = Some (ri_counter r), ci_transports = ri_transports r, ci_deviceType = ri_deviceType r, ci_backedUp = ri_backedUp r,
      ci_aaguid = ri_aaguid r, ci_name = Some name, ci_createdAt = None, ci_updatedAt = None, ci_lastUsedAt = None\<rparr>"

definition verify_passkey :: "admin_env \<Rightarrow> admin_request \<Rightarrow> admin_actor \<Rightarrow> string \<Rightarrow> string \<Rightarrow> admin_state \<Rightarrow> admin_reply \<times> admin_state" where
  "verify_passkey env rq actor realm i w =
     (case verifySchema (aq_body rq) of
        None \<Rightarrow> (invalid_request, w)
      | Some input \<Rightarrow>
          (case consumeWebAuthnChallenge (aq_now rq) realm (vi_challengeId input) ''registration'' (Some i) None (am_store w) of
             (None, s) \<Rightarrow> (refuse 409 ''Passkey ceremony unavailable'', set_store s w)
           | (Some ch, s) \<Rightarrow>
               (case verifyRegistration (an_crypto env) (an_webauthn env) (vi_response input) (ch_challenge ch) of
                  None \<Rightarrow> (refuse 400 ''Passkey registration failed'',
                    admin_audit env rq (admin_event rq actor realm ''admin.user.passkey_registration_failed'' (Some i) JUndef) (set_store s w))
                | Some r \<Rightarrow>
                    if JStr (ri_id r) \<noteq> jprop (vi_response input) ''id''
                    then (refuse 400 ''Passkey registration failed'',
                      admin_audit env rq (admin_event rq actor realm ''admin.user.passkey_registration_failed'' (Some i) JUndef) (set_store s w))
                    else (let (res, w') = secure_mutation env rq realm i
                                (\<lambda>s. case createWebAuthnCredential (aq_now rq)
                                          (passkey_input realm i (or_else (ch_userHandle ch) []) (vi_name input) r) s of
                                   Inl e \<Rightarrow> (Inl e, s) | Inr (c, s') \<Rightarrow> (Inr (c \<noteq> None), s'))
                                (admin_event rq actor realm ''admin.user.passkey_registered'' (Some i)
                                   (JObj [(''credentialId'', JStr (ri_id r)), (''deviceType'', JStr (ri_deviceType r)),
                                      (''backedUp'', JBool (ri_backedUp r))])) (set_store s w)
                          in (mutation_reply (\<lambda>m. if \<not> mr_applied m then refuse 409 ''Passkey registration changed''
                                else (case findWebAuthnCredential realm (ri_id r) (am_store w') of
                                        None \<Rightarrow> Thrown | Some c \<Rightarrow> PasskeyBody (publicPasskey c))) res, w')))))"

definition delete_passkey :: "admin_env \<Rightarrow> admin_request \<Rightarrow> admin_actor \<Rightarrow> string \<Rightarrow> string \<Rightarrow> string \<Rightarrow> admin_state \<Rightarrow> admin_reply \<times> admin_state" where
  "delete_passkey env rq actor realm i credentialId w =
     (let (r, w') = secure_mutation env rq realm i (ok_change (deleteWebAuthnCredential realm i credentialId))
            (admin_event rq actor realm ''admin.user.passkey_deleted'' (Some i) (JObj [(''credentialId'', JStr credentialId)])) w
      in (mutation_reply (\<lambda>m. if mr_applied m then no_content else refuse 404 ''Passkey not found'') r, w'))"

text \<open>Authenticators.\<close>

definition totp_label :: "string \<Rightarrow> user \<Rightarrow> string \<Rightarrow> string" where
  "totp_label realm u suffix = realm @ CHR '':'' # u_id u @ suffix"

definition begin_totp :: "admin_env \<Rightarrow> admin_request \<Rightarrow> admin_actor \<Rightarrow> string \<Rightarrow> string \<Rightarrow> admin_state \<Rightarrow> admin_reply \<times> admin_state" where
  "begin_totp env rq actor realm i w =
     (case findUserById realm i (am_store w) of
        None \<Rightarrow> (user_missing, w)
      | Some u \<Rightarrow>
          (let (secret, uri) = an_totp env realm (u_email u);
               encrypted = cy_encrypt (an_crypto env) secret (totp_label realm u '':totp:pending'');
               s = snd (beginTotpEnrollment (aq_now rq) realm (u_id u) encrypted (am_store w))
           in (TotpBody uri secret, admin_audit env rq (admin_event rq actor realm ''admin.user.mfa_totp_started'' (Some (u_id u)) JUndef)
                 (set_store s w))))"

definition confirm_totp :: "admin_env \<Rightarrow> admin_request \<Rightarrow> admin_actor \<Rightarrow> string \<Rightarrow> string \<Rightarrow> admin_state \<Rightarrow> admin_reply \<times> admin_state" where
  "confirm_totp env rq actor realm i w =
     (if \<not> strict_names (aq_body rq) [''token''] \<or> \<not> (case jprop (aq_body rq) ''token'' of JStr t \<Rightarrow> otp_re t | _ \<Rightarrow> False)
      then (invalid_request, w)
      else (case findUserById realm i (am_store w) of
              None \<Rightarrow> (user_missing, w)
            | Some u \<Rightarrow>
                (case u_pendingTotpSecret u of
                   None \<Rightarrow> (refuse 409 ''TOTP setup not started'', w)
                 | Some pending \<Rightarrow>
                     (case cy_decrypt (an_crypto env) pending (totp_label realm u '':totp:pending'') of
                        None \<Rightarrow> (Thrown, w)
                      | Some secret \<Rightarrow>
                          (case totpStep (an_crypto env) secret (jprop (aq_body rq) ''token'') (aq_now rq) of
                             None \<Rightarrow> (refuse 400 ''Invalid authenticator code'', w)
                           | Some step \<Rightarrow>
                               (let (codes, digests) = createRecoveryCodes (an_crypto env) (an_rawCodes env);
                                    active = cy_encrypt (an_crypto env) secret (totp_label realm u '':totp'');
                                    (r, w') = secure_mutation env rq realm (u_id u)
                                      (\<lambda>s. let (b, s') = confirmTotpEnrollment (aq_now rq) realm (u_id u) (Some pending) (Some active) step digests s
                                           in (Inr b, s'))
                                      (admin_event rq actor realm ''admin.user.mfa_totp_enabled'' (Some (u_id u)) JUndef) w
                                in (case r of Inl _ \<Rightarrow> Thrown
                                    | Inr m \<Rightarrow> if mr_applied m then RecoveryBody codes else refuse 409 ''TOTP enrollment changed'', w')))))))"

definition remove_totp :: "admin_env \<Rightarrow> admin_request \<Rightarrow> admin_actor \<Rightarrow> string \<Rightarrow> string \<Rightarrow> admin_state \<Rightarrow> admin_reply \<times> admin_state" where
  "remove_totp env rq actor realm i w =
     (let (r, w') = secure_mutation env rq realm i (ok_change (configureTotp (aq_now rq) realm i None False (Some [])))
            (admin_event rq actor realm ''admin.user.mfa_totp_disabled'' (Some i) JUndef) w
      in (case r of Inl _ \<Rightarrow> Thrown | Inr m \<Rightarrow> if mr_found m then no_content else user_missing, w'))"

definition revoke_sessions :: "admin_env \<Rightarrow> admin_request \<Rightarrow> admin_actor \<Rightarrow> string \<Rightarrow> string \<Rightarrow> admin_state \<Rightarrow> admin_reply \<times> admin_state" where
  "revoke_sessions env rq actor realm i w =
     (let (r, w') = secure_mutation env rq realm i (\<lambda>s. (Inr True, s))
            (admin_event rq actor realm ''admin.user.sessions_revoked'' (Some i) JUndef) w
      in (case r of Inl _ \<Rightarrow> Thrown | Inr m \<Rightarrow> if mr_found m then no_content else user_missing, w'))"

definition delete_user :: "admin_env \<Rightarrow> admin_request \<Rightarrow> admin_actor \<Rightarrow> string \<Rightarrow> string \<Rightarrow> admin_state \<Rightarrow> admin_reply \<times> admin_state" where
  "delete_user env rq actor realm i w =
     (let (r, d) = deleteAccount (aq_now rq) (aq_uuid rq) realm i
            (Some (\<lambda>s. (Inr () :: store_error + unit,
               admin_write env rq (admin_event rq actor realm ''admin.user.deleted'' (Some i) JUndef) s))) (am_data w)
      in (case r of Inl _ \<Rightarrow> Thrown | Inr _ \<Rightarrow> no_content, w\<lparr>am_data := d\<rparr>))"

definition list_audit :: "admin_env \<Rightarrow> admin_request \<Rightarrow> admin_actor \<Rightarrow> string \<Rightarrow> admin_state \<Rightarrow> admin_reply \<times> admin_state" where
  "list_audit env rq actor realm w =
     (case admin_page rq of
        None \<Rightarrow> (refuse 400 ''Invalid pagination'', w)
      | Some (l, off) \<Rightarrow>
          (let w' = admin_audit env rq (admin_event rq actor realm ''admin.audit.read'' None
                 (JObj [(''limit'', JNum (int l)), (''offset'', JNum (int off))])) w
           in (AuditBody (listAudit realm l off (am_store w')) l off, w')))"

definition registration_token :: "admin_env \<Rightarrow> admin_request \<Rightarrow> admin_actor \<Rightarrow> string \<Rightarrow> admin_state \<Rightarrow> admin_reply \<times> admin_state" where
  "registration_token env rq actor realm w =
     (if \<not> an_dynamicRegistration env then (refuse 409 ''Dynamic registration disabled'', w)
      else if \<not> strict_names (aq_body rq) [''expiresInSeconds''] then (invalid_request, w)
      else (case (case jprop (aq_body rq) ''expiresInSeconds'' of
                    JUndef \<Rightarrow> Some 900
                  | JNum n \<Rightarrow> if 60 \<le> n \<and> n \<le> 3600 then Some n else None
                  | _ \<Rightarrow> None) of
              None \<Rightarrow> (invalid_request, w)
            | Some n \<Rightarrow>
                (TokenBody (an_newToken env realm n) n,
                 admin_audit env rq (admin_event rq actor realm ''admin.client_registration_token.issued'' None
                   (JObj [(''expiresInSeconds'', JNum n)])) w)))"

section \<open>Dispatch\<close>

text \<open>
  What the middleware below the gate reads off the path: the realm of \<open>/v1/realms/:realm\<close>, the account of
  \<open>/users/:id\<close> and the credential of \<open>/passkeys/:credentialId\<close>. A parameter that cannot be decoded is an error.
\<close>

datatype path_param = Absent | Undecodable | Param string

definition path_param :: "(string \<Rightarrow> string option) \<Rightarrow> string \<Rightarrow> path_param" where
  "path_param dec x = (if x = [] then Absent else case dec x of None \<Rightarrow> Undecodable | Some t \<Rightarrow> Param t)"

definition below_realm :: "string \<Rightarrow> (string \<times> string list) option" where
  "below_realm path =
     (case path_segments path of
        root # v1 # realms # realm # rest \<Rightarrow>
          if root = [] \<and> js_lower v1 = ''v1'' \<and> js_lower realms = ''realms'' then Some (realm, rest) else None
      | _ \<Rightarrow> None)"

definition realm_param :: "(string \<Rightarrow> string option) \<Rightarrow> string \<Rightarrow> path_param" where
  "realm_param dec path = (case below_realm path of None \<Rightarrow> Absent | Some (realm, rest) \<Rightarrow> path_param dec realm)"

definition account_param :: "(string \<Rightarrow> string option) \<Rightarrow> string \<Rightarrow> path_param" where
  "account_param dec path =
     (case below_realm path of
        Some (realm, users # i # tail) \<Rightarrow> if js_lower users = ''users'' then path_param dec i else Absent
      | _ \<Rightarrow> Absent)"

definition credential_param :: "(string \<Rightarrow> string option) \<Rightarrow> string \<Rightarrow> path_param" where
  "credential_param dec path =
     (case below_realm path of
        Some (realm, [users, i, passkeys, x]) \<Rightarrow>
          if js_lower users = ''users'' \<and> js_lower passkeys = ''passkeys'' then path_param dec x else Absent
      | Some (realm, [users, i, passkeys, x, slash]) \<Rightarrow>
          if js_lower users = ''users'' \<and> js_lower passkeys = ''passkeys'' \<and> slash = [] then path_param dec x else Absent
      | _ \<Rightarrow> Absent)"

definition not_found :: admin_reply where "not_found = refuse 404 ''Not found''"

definition realms_reply :: "admin_env \<Rightarrow> admin_reply" where
  "realms_reply env = RealmsBody (ac_realms (an_console env))"

definition reading :: "string \<Rightarrow> bool" where "reading meth \<longleftrightarrow> meth \<in> set [''GET'', ''HEAD'']"

text \<open>The handlers below \<open>/v1/realms/:realm/users/:id\<close>, by method.\<close>

definition user_handler ::
    "admin_env \<Rightarrow> admin_request \<Rightarrow> admin_actor \<Rightarrow> string \<Rightarrow> string \<Rightarrow> user_route \<Rightarrow> admin_state \<Rightarrow> admin_reply \<times> admin_state" where
  "user_handler env rq actor realm i r w =
     (let meth = aq_method rq in
      case r of
        U_self \<Rightarrow>
          if reading meth then get_user realm i w
          else if meth = ''PATCH'' then patch_user env rq actor realm i w
          else if meth = ''DELETE'' then delete_user env rq actor realm i w else (not_found, w)
      | U_identities \<Rightarrow>
          if reading meth then list_identities realm i w
          else if meth = ''POST'' then link_identity env rq actor realm i w
          else if meth = ''DELETE'' then unlink_identity env rq actor realm i w else (not_found, w)
      | U_passkeys \<Rightarrow> if reading meth then list_passkeys realm i w else (not_found, w)
      | U_passkey_options \<Rightarrow> if meth = ''POST'' then registration_options env rq realm i w else (not_found, w)
      | U_passkey_verify \<Rightarrow> if meth = ''POST'' then verify_passkey env rq actor realm i w else (not_found, w)
      | U_passkey c \<Rightarrow> if meth = ''DELETE'' then delete_passkey env rq actor realm i c w else (not_found, w)
      | U_password \<Rightarrow> if meth = ''PUT'' then set_password env rq actor realm i w else (not_found, w)
      | U_unlock \<Rightarrow> if meth = ''POST'' then unlock_user env rq actor realm i w else (not_found, w)
      | U_totp \<Rightarrow>
          if meth = ''POST'' then begin_totp env rq actor realm i w
          else if meth = ''DELETE'' then remove_totp env rq actor realm i w else (not_found, w)
      | U_totp_confirm \<Rightarrow> if meth = ''POST'' then confirm_totp env rq actor realm i w else (not_found, w)
      | U_revoke \<Rightarrow> if meth = ''POST'' then revoke_sessions env rq actor realm i w else (not_found, w))"

definition admin_handler ::
    "admin_env \<Rightarrow> admin_request \<Rightarrow> admin_actor \<Rightarrow> admin_route \<Rightarrow> admin_state \<Rightarrow> admin_reply \<times> admin_state" where
  "admin_handler env rq actor route w =
     (let meth = aq_method rq in
      case route of
        R_metrics \<Rightarrow> if reading meth then (Plain (reply 200 (TextBody (an_metrics env))), w) else (not_found, w)
      | R_realms \<Rightarrow> if reading meth then (realms_reply env, w) else (not_found, w)
      | R_configuration realm \<Rightarrow> if reading meth then (Plain (reply 200 (Json (an_configuration env realm))), w) else (not_found, w)
      | R_tokens realm \<Rightarrow> if meth = ''POST'' then registration_token env rq actor realm w else (not_found, w)
      | R_users realm \<Rightarrow>
          if reading meth then list_users env rq realm w
          else if meth = ''POST'' then create_user env rq actor realm w else (not_found, w)
      | R_audit realm \<Rightarrow> if reading meth then list_audit env rq actor realm w else (not_found, w)
      | R_user realm i r \<Rightarrow> user_handler env rq actor realm i r w)"

text \<open>
  The checks of the middleware, in its order, before a handler runs. The two handlers above the realm middleware check
  the realm with the same answer.
\<close>

definition admin_middleware :: "admin_env \<Rightarrow> admin_request \<Rightarrow> admin_actor \<Rightarrow> admin_state \<Rightarrow> admin_reply option" where
  "admin_middleware env rq actor w =
     (let dec = an_decode env; path = aq_path rq in
      case realm_param dec path of
        Absent \<Rightarrow> None
      | Undecodable \<Rightarrow> Some Thrown
      | Param realm \<Rightarrow>
          if realm \<notin> set (ac_realms (an_console env)) then Some (refuse 404 ''Realm not found'')
          else (case account_param dec path of
                  Absent \<Rightarrow> None
                | Undecodable \<Rightarrow> Some Thrown
                | Param i \<Rightarrow>
                    if \<not> uuid_re i then Some (refuse 400 ''Invalid user identifier'')
                    else if protected_account (aq_method rq) actor realm i (am_store w)
                    then Some (refuse 403 ''Administrator account protection'')
                    else (case credential_param dec path of
                            Absent \<Rightarrow> None
                          | Undecodable \<Rightarrow> Some Thrown
                          | Param c \<Rightarrow>
                              if aq_method rq = ''DELETE'' \<and> \<not> class_re is_b64url 1 2048 c
                              then Some (refuse 400 ''Invalid passkey identifier'') else None)))"

definition admin_dispatch :: "admin_env \<Rightarrow> admin_request \<Rightarrow> admin_actor \<Rightarrow> admin_state \<Rightarrow> admin_reply \<times> admin_state" where
  "admin_dispatch env rq actor w =
     (case admin_middleware env rq actor w of
        Some r \<Rightarrow> (r, w)
      | None \<Rightarrow>
          (case admin_route_of (an_decode env) (aq_path rq) of
             None \<Rightarrow> (not_found, w)
           | Some route \<Rightarrow> if aq_method rq = ''OPTIONS'' then (Allowed, w) else admin_handler env rq actor route w))"

definition admin_serve :: "admin_env \<Rightarrow> admin_request \<Rightarrow> admin_state \<Rightarrow> admin_reply \<times> admin_state" where
  "admin_serve env rq w =
     (case admin_gate env rq (am_store w) of
        (Inl r, s) \<Rightarrow> (Plain r, set_store s w)
      | (Inr actor, s) \<Rightarrow> admin_dispatch env rq actor (set_store s w))"

end
