(* ===== verification/LoginRoutes.thy ===== *)
theory LoginRoutes
  imports FederationRoutes SecondFactors
begin

text \<open>
  The sign-in pages of an OpenID Connect interaction (\<open>src/routes/interactions.js\<close>): password and LDAP login with
  a second factor, passkey login, consent. The state is the identity store with the federated links. A request
  brings what \<open>provider.interactionDetails\<close> found, the parsed form, the refusal of the rate limiter if there is one,
  the clock and random values; it is handled without interleaving. A rendered page is its status and the
  message shown.
\<close>

record login_env =
  lv_realm :: string
  lv_crypto :: crypto
  lv_webauthn :: webauthn
  lv_sig :: "string \<Rightarrow> string \<Rightarrow> string"
  lv_num :: "string \<Rightarrow> int option"
  lv_csrfSecret :: string
  lv_dummyPasswordHash :: string
  lv_disabledHash :: "string option"
  lv_ldap :: "(string \<Rightarrow> string \<Rightarrow> json option) option"
  lv_challengeTtl :: int
  lv_isIP :: "string \<Rightarrow> bool"
  lv_parse_json :: "string \<Rightarrow> json option"

text \<open>\<open>lv_ldap\<close> is \<open>None\<close> when LDAP is not enabled for the realm; its \<open>authenticate\<close> may throw (\<open>None\<close>).\<close>

record login_request =
  lq_uid :: string
  lq_details :: "interaction_details option"
  lq_body :: json
  lq_ip :: "string option"
  lq_userAgent :: "string option"
  lq_limited :: "int option"
  lq_now :: int
  lq_userId :: string
  lq_auditId :: string
  lq_publicKey :: json
  lq_challengeId :: string

datatype login_reply =
    LoginView (vw_status: nat) (vw_login: string) (vw_error: string) (vw_retryAfter: "int option")
  | SignedIn (sg_accountId: string) (sg_acr: string) (sg_amr: "string list")
  | PasskeyOptions string int json
  | SlowDown int
  | Failure (fl_status: "nat option")

text \<open>\<open>interaction\<close>: the interaction of the request, with the expected prompt.\<close>

definition interaction :: "login_request \<Rightarrow> string \<Rightarrow> interaction_details option" where
  "interaction rq expectedPrompt =
     (case lq_details rq of
        None \<Rightarrow> None
      | Some d \<Rightarrow> if it_uid d \<noteq> lq_uid rq \<or> it_prompt d \<noteq> Some expectedPrompt then None else Some d)"

definition form_subject :: "string \<Rightarrow> string \<Rightarrow> string \<Rightarrow> string" where
  "form_subject realm uid kind = realm @ CHR '':'' # uid @ CHR '':'' # kind"

definition form_token_ok :: "login_env \<Rightarrow> login_request \<Rightarrow> interaction_details \<Rightarrow> string \<Rightarrow> bool" where
  "form_token_ok env rq d kind =
     verifyCsrfToken (lv_sig env) (lv_num env) (jprop (lq_body rq) ''csrf'') (form_subject (lv_realm env) (it_uid d) kind)
       (lv_csrfSecret env) (lq_now rq) 600"

definition body_text :: "login_request \<Rightarrow> string \<Rightarrow> string" where
  "body_text rq k = (if nullish (jprop (lq_body rq) k) then [] else js_String (jprop (lq_body rq) k))"

definition login_name :: "login_request \<Rightarrow> string" where
  "login_name rq = take 254 (js_trim (body_text rq ''login''))"

definition loa1 :: string where "loa1 = ''urn:authme:loa:1''"
definition loa2 :: string where "loa2 = ''urn:authme:loa:2''"

definition login_locked :: "int \<Rightarrow> user \<Rightarrow> bool" where
  "login_locked now u = (case u_lockedUntil u of None \<Rightarrow> False | Some t \<Rightarrow> now < t)"

definition login_event ::
    "login_env \<Rightarrow> login_request \<Rightarrow> interaction_details \<Rightarrow> string \<Rightarrow> string option \<Rightarrow> json \<Rightarrow> audit_event" where
  "login_event env rq d type subjectId m =
     \<lparr>ev_realm = lv_realm env, ev_type = type, ev_actorId = None, ev_subjectId = subjectId, ev_clientId = it_clientId d,
      ev_ip = lq_ip rq, ev_userAgent = lq_userAgent rq, ev_metadata = m\<rparr>"

definition on_login_store :: "(store \<Rightarrow> store) \<Rightarrow> fed_state \<Rightarrow> fed_state" where
  "on_login_store f st = st\<lparr>fs_store := f (fs_store st)\<rparr>"

definition login_audit :: "login_env \<Rightarrow> login_request \<Rightarrow> audit_event \<Rightarrow> store \<Rightarrow> store" where
  "login_audit env rq event s = snd (writeAudit (lv_isIP env) (lq_now rq) (lq_auditId rq) event s)"

section \<open>First factor\<close>

text \<open>
  What the password or LDAP says: the user, whether the secret is right, and the method. \<open>Inl\<close> is an exception other
  than a refused federated login.
\<close>

record first_factor =
  ff_user :: "user option"
  ff_ok :: bool
  ff_method :: string

definition stored_hash :: "login_env \<Rightarrow> user option \<Rightarrow> string option" where
  "stored_hash env u =
     Some (case u of None \<Rightarrow> lv_dummyPasswordHash env | Some v \<Rightarrow> or_else (u_passwordHash v) (lv_dummyPasswordHash env))"

text \<open>\<open>String(error?.code ?? '').startsWith('AUTHME_FEDERATED_')\<close>.\<close>

definition is_federated_error :: "fed_error \<Rightarrow> bool" where
  "is_federated_error e \<longleftrightarrow> (case he_code (fed_http e) of Some c \<Rightarrow> js_starts ''AUTHME_FEDERATED_'' c | None \<Rightarrow> False)"

definition first_factor :: "login_env \<Rightarrow> login_request \<Rightarrow> fed_state \<Rightarrow> (unit + first_factor) \<times> fed_state" where
  "first_factor env rq st =
     (let user = findUserByLogin (lv_realm env) (login_name rq) (fs_store st);
          supplied = body_text rq ''password'';
          ok = verifyPassword (lv_crypto env) (stored_hash env user) supplied
      in if ok then (Inr \<lparr>ff_user = user, ff_ok = True, ff_method = ''pwd''\<rparr>, st)
         else (case lv_ldap env of
                 None \<Rightarrow> (Inr \<lparr>ff_user = user, ff_ok = False, ff_method = ''pwd''\<rparr>, st)
               | Some auth \<Rightarrow>
                   (case auth (login_name rq) supplied of
                      None \<Rightarrow> (Inl (), st)
                    | Some ldap \<Rightarrow>
                        if jprop ldap ''status'' \<noteq> JStr ''success''
                        then (Inr \<lparr>ff_user = user, ff_ok = False, ff_method = ''pwd''\<rparr>, st)
                        else (case resolveFederatedLogin (lq_now rq) (lq_userId rq) (lv_disabledHash env) (lv_realm env) ldap
                                     (JBool (jprop ldap ''allowCreate'' = JBool True)) st of
                                (Inr (u, _), st') \<Rightarrow> (Inr \<lparr>ff_user = Some u, ff_ok = True, ff_method = ''ldap''\<rparr>, st')
                              | (Inl e, st') \<Rightarrow>
                                  if is_federated_error e then (Inr \<lparr>ff_user = None, ff_ok = False, ff_method = ''pwd''\<rparr>, st')
                                  else (Inl (), st')))))"

section \<open>Second factor\<close>

definition totp_context :: "login_env \<Rightarrow> user \<Rightarrow> string" where
  "totp_context env u = lv_realm env @ CHR '':'' # u_id u @ '':totp''"

text \<open>The outcome: whether it is satisfied, and whether a recovery code was used. \<open>Inl\<close>: decryption threw.\<close>

definition second_factor :: "login_env \<Rightarrow> login_request \<Rightarrow> user \<Rightarrow> string \<Rightarrow> store \<Rightarrow> (unit + bool \<times> bool) \<times> store" where
  "second_factor env rq u encrypted s =
     (case cy_decrypt (lv_crypto env) encrypted (totp_context env u) of
        None \<Rightarrow> (Inl (), s)
      | Some secret \<Rightarrow>
          (let otp = jprop (lq_body rq) ''otp'';
               (stepOk, s1) = (case totpStep (lv_crypto env) secret otp (lq_now rq) of
                   None \<Rightarrow> (False, s)
                 | Some step \<Rightarrow> consumeTotpStep (lq_now rq) (lv_realm env) (u_id u) step s)
           in if stepOk then (Inr (True, False), s1)
              else if \<not> truthy otp then (Inr (False, False), s1)
              else (let (used, s2) = consumeRecoveryCode (lq_now rq) (lv_realm env) (u_id u)
                          (recoveryCodeDigest (lv_crypto env) otp) s1
                    in (Inr (used, used), s2))))"

text \<open>With the conditions under which it is asked for.\<close>

definition check_second :: "login_env \<Rightarrow> login_request \<Rightarrow> first_factor \<Rightarrow> store \<Rightarrow> (unit + bool \<times> bool) \<times> store" where
  "check_second env rq ff s =
     (case ff_user ff of
        None \<Rightarrow> (Inr (True, False), s)
      | Some u \<Rightarrow>
          (case u_totpSecret u of
             Some encrypted \<Rightarrow>
               if ff_ok ff \<and> u_enabled u \<and> \<not> login_locked (lq_now rq) u \<and> u_totpConfirmed u \<and> encrypted \<noteq> []
               then second_factor env rq u encrypted s
               else (Inr (\<not> u_totpConfirmed u, False), s)
           | None \<Rightarrow> (Inr (\<not> u_totpConfirmed u, False), s)))"

section \<open>The login form\<close>

definition login_refused :: "login_env \<Rightarrow> login_request \<Rightarrow> interaction_details \<Rightarrow> user option \<Rightarrow> fed_state \<Rightarrow> login_reply \<times> fed_state" where
  "login_refused env rq d user st =
     (LoginView 401 (login_name rq) ''Sign-in failed. Check your credentials or wait before trying again.'' None,
      on_login_store (\<lambda>s.
        let s1 = (case user of
                    Some u \<Rightarrow> if login_locked (lq_now rq) u then s else recordLoginFailure (lq_now rq) (lv_realm env) (u_id u) s
                  | None \<Rightarrow> s)
        in login_audit env rq (login_event env rq d ''identity.login.failed'' (map_option u_id user) JUndef) s1) st)"

definition login_methods :: "user \<Rightarrow> string \<Rightarrow> bool \<Rightarrow> string list" where
  "login_methods u authenticationMethod recoveryUsed =
     (if u_totpConfirmed u then [authenticationMethod, if recoveryUsed then ''recovery'' else ''otp''] else [authenticationMethod])"

definition login_accepted ::
    "login_env \<Rightarrow> login_request \<Rightarrow> interaction_details \<Rightarrow> user \<Rightarrow> string \<Rightarrow> bool \<Rightarrow> fed_state \<Rightarrow> login_reply \<times> fed_state" where
  "login_accepted env rq d u authenticationMethod recoveryUsed st =
     (let rehash = authenticationMethod = ''pwd'' \<and> needsPasswordRehash (lv_crypto env) (u_passwordHash u);
          new = hashPassword (lv_crypto env) (body_text rq ''password'');
          amr = login_methods u authenticationMethod recoveryUsed
      in if rehash \<and> new = None then (Failure None, st)
         else (SignedIn (u_id u) (if u_totpConfirmed u then loa2 else loa1) amr,
               on_login_store (\<lambda>s.
                 let s1 = (if rehash then snd (rehashPasswordIfCurrent (lq_now rq) (lv_realm env) (u_id u) (u_passwordHash u) new s) else s);
                     s2 = recordLoginSuccess (lq_now rq) (lv_realm env) (u_id u) s1
                 in login_audit env rq (login_event env rq d ''identity.login.succeeded'' (Some (u_id u))
                      (JObj [(''amr'', JArr (map JStr amr))])) s2) st))"

definition expired_form :: login_reply where "expired_form = Failure (Some 403)"
definition no_interaction :: login_reply where "no_interaction = Failure (Some 400)"

definition retry_seconds :: "int \<Rightarrow> int" where "retry_seconds ms = max 1 (- ((- ms) div 1000))"

definition login_post :: "login_env \<Rightarrow> login_request \<Rightarrow> fed_state \<Rightarrow> login_reply \<times> fed_state" where
  "login_post env rq st =
     (case interaction rq ''login'' of
        None \<Rightarrow> (no_interaction, st)
      | Some d \<Rightarrow>
          if \<not> form_token_ok env rq d ''login'' then (expired_form, st)
          else (case lq_limited rq of
                  Some ms \<Rightarrow> (if ms = 0 then Failure None else LoginView 429 (take 254 (body_text rq ''login'')) ''Too many sign-in attempts. Please wait and try again.''
                              (Some (retry_seconds ms)), st)
                | None \<Rightarrow>
                    (case first_factor env rq st of
                       (Inl _, st1) \<Rightarrow> (Failure None, st1)
                     | (Inr ff, st1) \<Rightarrow>
                         (case check_second env rq ff (fs_store st1) of
                            (Inl _, s2) \<Rightarrow> (Failure None, st1\<lparr>fs_store := s2\<rparr>)
                          | (Inr (mfaOk, recoveryUsed), s2) \<Rightarrow>
                              (let st2 = st1\<lparr>fs_store := s2\<rparr> in
                               case ff_user ff of
                                 None \<Rightarrow> login_refused env rq d None st2
                               | Some u \<Rightarrow>
                                   if \<not> u_enabled u \<or> \<not> ff_ok ff \<or> \<not> mfaOk \<or> login_locked (lq_now rq) u
                                   then login_refused env rq d (Some u) st2
                                   else login_accepted env rq d u (ff_method ff) recoveryUsed st2)))))"

section \<open>Passkeys\<close>

definition passkey_options :: "login_env \<Rightarrow> login_request \<Rightarrow> fed_state \<Rightarrow> login_reply \<times> fed_state" where
  "passkey_options env rq st =
     (case interaction rq ''login'' of
        None \<Rightarrow> (no_interaction, st)
      | Some d \<Rightarrow>
          if \<not> form_token_ok env rq d ''login'' then (expired_form, st)
          else (case lq_limited rq of
                  Some ms \<Rightarrow> (if ms = 0 then Failure None else SlowDown (retry_seconds ms), st)
                | None \<Rightarrow>
                    (let (c, s') = createWebAuthnChallenge (lq_now rq) (lq_challengeId rq) (lv_realm env) ''authentication'' None
                           (Some (it_uid d)) None (js_String (jprop (lq_publicKey rq) ''challenge''))
                           (lq_now rq + lv_challengeTtl env * 1000) (fs_store st)
                     in (PasskeyOptions (ch_id c) (lv_challengeTtl env) (lq_publicKey rq), st\<lparr>fs_store := s'\<rparr>))))"

definition b64_field :: "json \<Rightarrow> bool" where
  "b64_field v = (case v of JStr s \<Rightarrow> s \<noteq> [] \<and> length s \<le> 16384 \<and> list_all is_b64url s | _ \<Rightarrow> False)"

definition parseAssertion :: "login_env \<Rightarrow> json \<Rightarrow> json option" where
  "parseAssertion env v =
     (case v of
        JStr t \<Rightarrow>
          if length t < 2 \<or> length t > 60000 then None
          else (case lv_parse_json env t of
                  None \<Rightarrow> None
                | Some response \<Rightarrow>
                    if jprop response ''type'' \<noteq> JStr ''public-key'' \<or>
                      \<not> list_all b64_field [jprop response ''id'', jprop response ''rawId'',
                         jprop (jprop response ''response'') ''clientDataJSON'', jprop (jprop response ''response'') ''authenticatorData'',
                         jprop (jprop response ''response'') ''signature'', jprop (jprop response ''response'') ''userHandle'']
                    then None else Some response)
      | _ \<Rightarrow> None)"

text \<open>\<open>/^[0-9a-f]{8}-[0-9a-f]{4}-4[0-9a-f]{3}-[89ab][0-9a-f]{3}-[0-9a-f]{12}$/i\<close>.\<close>

definition uuid4_re :: "string \<Rightarrow> bool" where
  [js_defs]: "uuid4_re s \<longleftrightarrow> uuid_re s \<and> s ! 14 = CHR ''4''"

definition passkey_challenge :: "login_env \<Rightarrow> login_request \<Rightarrow> interaction_details \<Rightarrow> store \<Rightarrow> challenge option \<times> store" where
  "passkey_challenge env rq d s =
     (case jprop (lq_body rq) ''challengeId'' of
        JStr i \<Rightarrow>
          if uuid4_re i
          then consumeWebAuthnChallenge (lq_now rq) (lv_realm env) i ''authentication'' None (Some (it_uid d)) s
          else (None, s)
      | _ \<Rightarrow> (None, s))"

definition passkey_verified ::
    "login_env \<Rightarrow> login_request \<Rightarrow> challenge option \<Rightarrow> json option \<Rightarrow> credential option \<Rightarrow> user option \<Rightarrow> authentication_info option" where
  "passkey_verified env rq ch assertion cred user =
     (case (ch, assertion, cred, user) of
        (Some c, Some a, Some k, Some u) \<Rightarrow>
          if u_enabled u \<and> \<not> login_locked (lq_now rq) u \<and> jprop (jprop a ''response'') ''userHandle'' = JStr (wc_userHandle k)
          then verifyAuthentication (lv_crypto env) (lv_webauthn env) a (ch_challenge c) k
          else None
      | _ \<Rightarrow> None)"

definition passkey_post :: "login_env \<Rightarrow> login_request \<Rightarrow> fed_state \<Rightarrow> login_reply \<times> fed_state" where
  "passkey_post env rq st =
     (case interaction rq ''login'' of
        None \<Rightarrow> (no_interaction, st)
      | Some d \<Rightarrow>
          if \<not> form_token_ok env rq d ''login'' then (expired_form, st)
          else (let (ch, s1) = passkey_challenge env rq d (fs_store st);
                    assertion = parseAssertion env (jprop (lq_body rq) ''credential'');
                    cred = (case assertion of None \<Rightarrow> None
                            | Some a \<Rightarrow> findWebAuthnCredential (lv_realm env) (js_String (jprop a ''id'')) s1);
                    user = (case cred of None \<Rightarrow> None | Some k \<Rightarrow> findUserById (lv_realm env) (wc_userId k) s1);
                    (updated, s2) = (case (passkey_verified env rq ch assertion cred user, cred) of
                        (Some v, Some k) \<Rightarrow> updateWebAuthnCredentialCounter (lq_now rq) (lv_realm env) (wc_id k) (wc_counter k)
                            (ai_newCounter v) (ai_deviceType v) (ai_backedUp v) s1
                      | _ \<Rightarrow> (False, s1))
                in case (updated, user, cred) of
                     (True, Some u, Some k) \<Rightarrow>
                       (SignedIn (u_id u) loa2 [''passkey''],
                        st\<lparr>fs_store := login_audit env rq (login_event env rq d ''identity.login.succeeded'' (Some (u_id u))
                            (JObj [(''amr'', JArr [JStr ''passkey'']), (''credentialId'', JStr (wc_id k))]))
                          (recordLoginSuccess (lq_now rq) (lv_realm env) (u_id u) s2)\<rparr>)
                   | _ \<Rightarrow>
                       (LoginView 401 [] ''Passkey sign-in failed or expired. Try again or use your password.'' None,
                        st\<lparr>fs_store := login_audit env rq (login_event env rq d ''identity.login.passkey_failed''
                            (map_option u_id user) JUndef) s2\<rparr>)))"

section \<open>Consent\<close>

text \<open>What the prompt still misses, and the calls made on the grant object of the library.\<close>

record consent_request =
  cn_login :: login_request
  cn_missingOIDCScope :: "string list option"
  cn_missingOIDCClaims :: "string list option"
  cn_missingResourceScopes :: "(string \<times> string list) list option"
  cn_accountId :: "string option"
  cn_grantId :: "string option"
  cn_scope :: json
  cn_savedGrantId :: string

datatype grant_call = AddOIDCScope string | AddOIDCClaims "string list" | AddResourceScope string string

datatype consent_reply =
    Consented (ct_calls: "grant_call list") (ct_newGrant: "string option")
  | ConsentDenied
  | ConsentFailure (cf_status: "nat option")

definition consent_calls :: "consent_request \<Rightarrow> grant_call list" where
  "consent_calls cn =
     (case cn_missingOIDCScope cn of None \<Rightarrow> [] | Some xs \<Rightarrow> [AddOIDCScope (js_join (CHR '' '') xs)]) @
     (case cn_missingOIDCClaims cn of None \<Rightarrow> [] | Some xs \<Rightarrow> [AddOIDCClaims xs]) @
     (case cn_missingResourceScopes cn of None \<Rightarrow> []
      | Some rs \<Rightarrow> map (\<lambda>(indicator, scopes). AddResourceScope indicator (js_join (CHR '' '') scopes)) rs)"

definition consent_confirm :: "login_env \<Rightarrow> consent_request \<Rightarrow> fed_state \<Rightarrow> consent_reply \<times> fed_state" where
  "consent_confirm env cn st =
     (let rq = cn_login cn in
      case interaction rq ''consent'' of
        None \<Rightarrow> (ConsentFailure (Some 400), st)
      | Some d \<Rightarrow>
          if \<not> form_token_ok env rq d ''consent'' then (ConsentFailure (Some 403), st)
          else (Consented (consent_calls cn) (case cn_grantId cn of Some _ \<Rightarrow> None | None \<Rightarrow> Some (cn_savedGrantId cn)),
                on_login_store (login_audit env rq ((login_event env rq d ''identity.consent.granted'' (cn_accountId cn)
                  (JObj [(''scope'', cn_scope cn)]))\<lparr>ev_userAgent := None\<rparr>)) st))"

text \<open>Denying is open to any prompt of the interaction.\<close>

definition consent_abort :: "login_env \<Rightarrow> consent_request \<Rightarrow> fed_state \<Rightarrow> consent_reply \<times> fed_state" where
  "consent_abort env cn st =
     (let rq = cn_login cn in
      case lq_details rq of
        None \<Rightarrow> (ConsentFailure (Some 400), st)
      | Some d \<Rightarrow>
          if it_uid d \<noteq> lq_uid rq then (ConsentFailure (Some 400), st)
          else if \<not> form_token_ok env rq d ''consent'' then (ConsentFailure (Some 403), st)
          else (ConsentDenied,
                on_login_store (login_audit env rq ((login_event env rq d ''identity.consent.denied'' (cn_accountId cn)
                  JUndef)\<lparr>ev_userAgent := None\<rparr>)) st))"

section \<open>Signing in\<close>

text \<open>A second factor that is satisfied was either a newer authenticator step or a stored recovery code.\<close>

lemma second_factor_Inr:
  assumes "second_factor env rq u encrypted s = (Inr (True, recoveryUsed), s')" and u: "findUserById (lv_realm env) (u_id u) s = Some u"
  shows "if recoveryUsed then recoveryCodeDigest (lv_crypto env) (jprop (lq_body rq) ''otp'') \<in> set (u_recoveryCodeHashes u)
    else \<exists>secret step. cy_decrypt (lv_crypto env) encrypted (totp_context env u) = Some secret \<and>
      totpStep (lv_crypto env) secret (jprop (lq_body rq) ''otp'') (lq_now rq) = Some step \<and>
      (\<forall>t. u_lastTotpStep u = Some t \<longrightarrow> t < step)"
proof -
  obtain secret where secret: "cy_decrypt (lv_crypto env) encrypted (totp_context env u) = Some secret"
    using assms(1) by (auto simp: second_factor_def split: option.splits)
  obtain stepOk s1 where st: "(case totpStep (lv_crypto env) secret (jprop (lq_body rq) ''otp'') (lq_now rq) of
      None \<Rightarrow> (False, s) | Some step \<Rightarrow> consumeTotpStep (lq_now rq) (lv_realm env) (u_id u) step s) = (stepOk, s1)"
    by fastforce
  show ?thesis
  proof (cases stepOk)
    case True
    then obtain step where step: "totpStep (lv_crypto env) secret (jprop (lq_body rq) ''otp'') (lq_now rq) = Some step"
        "consumeTotpStep (lq_now rq) (lv_realm env) (u_id u) step s = (True, s1)"
      using st by (auto split: option.splits)
    have "\<not> recoveryUsed" using assms(1) secret st True by (simp add: second_factor_def Let_def)
    moreover have "\<forall>t. u_lastTotpStep u = Some t \<longrightarrow> t < step"
      using step(2) u by (auto simp: consumeTotpStep_def update_user_def findUserById_def totpStep_row_def split: if_splits)
    ultimately show ?thesis using secret step(1) by auto
  next
    case False
    then have s1: "s1 = s" using st
      by (auto simp: consumeTotpStep_def update_user_def split: option.splits if_splits prod.splits)
    then have "recoveryUsed" "fst (consumeRecoveryCode (lq_now rq) (lv_realm env) (u_id u)
        (recoveryCodeDigest (lv_crypto env) (jprop (lq_body rq) ''otp'')) s)"
      using assms(1) secret st False by (auto simp: second_factor_def Let_def split: if_splits prod.splits)
    then show ?thesis using u
      by (auto simp: consumeRecoveryCode_def update_user_def findUserById_def recoveryCode_row_def split: if_splits)
  qed
qed

end
