(* ===== verification/FederationProps.thy ===== *)
theory FederationProps
  imports FederationRoutes
begin

text \<open>
  The properties of upstream sign-ins: whose account an external identity signs in to, and what the browser
  flow carries from the upstream response to the finished login.
\<close>

section \<open>Whose account\<close>

lemma normalize_realm: "fed_normalize input = Inr i \<Longrightarrow> jprop input ''realm'' = JStr r \<Longrightarrow> fi_realm i = r"
  unfolding fed_normalize_def Let_def by (auto simp: fed_str_def simp del: jprop.simps)

lemma resolve_input_realm: "jprop (resolve_input realm result allow) ''realm'' = JStr realm"
  by (simp add: resolve_input_def)

lemma fed_existing_cases:
  assumes "fed_existing now i st = (r, st')"
  obtains (none) "r = None" "fs_store st' = fs_store st" "mget (fs_links st') (fed_key_of i) = None"
      "\<And>l. mget (fs_links st) (fed_key_of i) = Some l \<Longrightarrow> findUserById (fi_realm i) (ln_userId l) (fs_store st) = None"
    | (found) l u x l' where "mget (fs_links st) (fed_key_of i) = Some l" "findUserById (fi_realm i) (ln_userId l) (fs_store st) = Some u"
      "r = Some x" "fr_status x = (if u_enabled u then Resolved else Disabled)" "fr_user x = Some u"
      "st' = st\<lparr>fs_links := mset' (fed_key_of i) l' (fs_links st)\<rparr>" "ln_userId l' = ln_userId l"
proof (cases "mget (fs_links st) (fed_key_of i)")
  case None
  then show ?thesis using assms by (intro none) (auto simp: fed_existing_def)
next
  case (Some l)
  note l = this
  show ?thesis
  proof (cases "findUserById (fi_realm i) (ln_userId l) (fs_store st)")
    case None
    then show ?thesis using assms l by (intro none) (auto simp: fed_existing_def)
  next
    case (Some u)
    then show ?thesis using assms l
      by (intro found [of l u _ "l\<lparr>ln_lastLoginAt := Some now, ln_updatedAt := now,
            ln_identity := (ln_identity l)\<lparr>fi_profile := fi_profile i\<rparr>\<rparr>"]) (auto simp: fed_existing_def Let_def)
  qed
qed

lemma fed_resolve_cases:
  assumes "fed_resolve now fresh dh input st = (Inr r, st')"
  obtains (found) i l u l' where "fed_normalize input = Inr i" "mget (fs_links st) (fed_key_of i) = Some l"
      "findUserById (fi_realm i) (ln_userId l) (fs_store st) = Some u" "fr_user r = Some u"
      "fr_status r = (if u_enabled u then Resolved else Disabled)"
      "st' = st\<lparr>fs_links := mset' (fed_key_of i) l' (fs_links st)\<rparr>" "ln_userId l' = ln_userId l"
    | (made) i u s' l and st1 :: fed_state where "fed_normalize input = Inr i" "fi_allowCreate i" "fr_status r = Created" "fr_user r = Some u"
      "createUser now fresh (fed_user_input dh fresh i) (fs_store st) = Inr (u, s')" "ln_userId l = u_id u"
      "st' = \<lparr>fs_links = mset' (fed_key_of i) l (fs_links st1), fs_store = s'\<rparr>"
    | (refused) "fr_status r \<notin> {Resolved, Created}"
proof -
  obtain i where i: "fed_normalize input = Inr i" using assms by (auto simp: fed_resolve_def split: sum.splits)
  obtain r1 st1 where e: "fed_existing now i st = (r1, st1)" by fastforce
  from e show thesis
  proof (cases rule: fed_existing_cases)
    case (found l u x l')
    then have "x = r" "st1 = st'" using assms i e by (simp_all add: fed_resolve_def)
    then show ?thesis using that(1) [OF i found(1,2) _ _ _ found(7)] found(4,5,6) by simp
  next
    case none
    show ?thesis
    proof (cases "fi_allowCreate i \<and> fed_collision i (fs_store st1) = None")
      case True
      then have c: "fed_create now fresh dh i st1 = (Inr r, st')" using assms i e none(1) by (simp add: fed_resolve_def)
      from c show ?thesis
      proof (cases rule: fed_create_cases)
        case kept
        then show ?thesis using that(3) by (auto simp: link_required_def)
      next
        case (made u s' l)
        then show ?thesis using that(2) [OF i, of u s' l st1] True none(2) by auto
      qed
    next
      case False
      then show ?thesis using that(3) assms i e none(1)
        by (auto simp: fed_resolve_def link_required_def split: if_splits option.splits)
    qed
  qed
qed

lemma resolveFederatedLogin_Inr:
  assumes "resolveFederatedLogin now fresh dh realm result allow st = (Inr (u, created), st')"
  shows "\<exists>r. fed_resolve now fresh dh (resolve_input realm result allow) st = (Inr r, st') \<and> fr_user r = Some u \<and>
    u_enabled u \<and> fr_status r = (if created then Created else Resolved)"
  using assms unfolding resolveFederatedLogin_def Let_def
  by (auto split: if_splits prod.splits sum.splits fed_status.splits option.splits)

text \<open>C12: An external identity signs in to an account only if the account is linked to exactly this
realm, provider, issuer and subject, or was created for it in this very login: then the
identifier and both logins of the new account were unused in the realm, so that an existing account with
the same name or address is never taken over. The account is enabled, the identity is linked to it
afterwards, and no other account has changed.\<close>

theorem federated_login_no_takeover:
  assumes reach: "fed_reach st"
    and run: "resolveFederatedLogin now fresh dh realm result allow st = (Inr (u, created), st')"
  shows "\<exists>i. fed_normalize (resolve_input realm result allow) = Inr i \<and> fi_realm i = realm \<and> u_realm u = realm \<and> u_enabled u \<and>
    (if created
     then fi_allowCreate i \<and> findUserById realm (u_id u) (fs_store st) = None \<and>
       (\<forall>w\<in>set (mvals (st_users (fs_store st))). u_realm w = realm \<longrightarrow> logins w \<inter> logins u = {})
     else \<exists>l. mget (fs_links st) (fed_key_of i) = Some l \<and> ln_userId l = u_id u \<and>
       findUserById realm (u_id u) (fs_store st) = Some u) \<and>
    (\<exists>l. mget (fs_links st') (fed_key_of i) = Some l \<and> ln_userId l = u_id u) \<and>
    (\<forall>k. k \<noteq> ukey realm (u_id u) \<longrightarrow> mget (st_users (fs_store st')) k = mget (st_users (fs_store st)) k)"
proof -
  obtain r where r: "fed_resolve now fresh dh (resolve_input realm result allow) st = (Inr r, st')" "fr_user r = Some u"
      "u_enabled u" "fr_status r = (if created then Created else Resolved)"
    using resolveFederatedLogin_Inr [OF run] by blast
  have store: "store_inv (fs_store st)" using fed_okD(1) [OF fed_reach_ok [OF reach]] by (rule store_reach_inv)
  from r(1) show ?thesis
  proof (cases rule: fed_resolve_cases)
    case (found i l u0 l')
    have u0: "u0 = u" "\<not> created" using found(4,5) r(2,3,4) by (auto split: if_splits)
    have realm: "fi_realm i = realm" by (rule normalize_realm [OF found(1) resolve_input_realm])
    have "u_realm u = realm" "u_id u = ln_userId l"
      using user_at_key [OF store, of "fi_realm i" "ln_userId l" u] found(3) fed_normalize_realm [OF found(1)]
      by (simp_all add: findUserById_def u0(1) realm)
    then show ?thesis using found u0 realm r(3) by (intro exI [of _ i]) auto
  next
    case (made i u0 s' l st1)
    have u0: "u0 = u" "created" using made(3,4) r(2,4) by (auto split: if_splits)
    have realm: "fi_realm i = realm" by (rule normalize_realm [OF made(1) resolve_input_realm])
    note c = createUser_cases [OF made(5)]
    have "u_realm u = realm" using c(1) realm by (simp add: u0(1) normalizeUser_def)
    then show ?thesis using made c u0 realm r(3) by (intro exI [of _ i]) (auto simp: findUserById_def)
  next
    case refused
    then show ?thesis using r(4) by auto
  qed
qed

definition demo_result :: json where
  "demo_result = JObj [(''providerId'', JStr ''idp''), (''issuer'', JStr ''i''),
     (''profile'', JObj [(''externalSubject'', JStr ''s''), (''username'', JStr ''ann'')])]"

lemma federated_login_no_takeover_witness:
  "\<exists>u st'. resolveFederatedLogin 5 ''u9'' None ''corp'' demo_result (JBool True)
     \<lparr>fs_links = [], fs_store = empty_store\<rparr> = (Inr (u, True), st') \<and> u_realm u = ''corp'' \<and> u_enabled u"
proof -
  have n: "\<exists>i. fed_normalize (resolve_input ''corp'' demo_result (JBool True)) = Inr i \<and> fi_allowCreate i"
    by (simp add: fed_normalize_def resolve_input_def demo_result_def coalesce_def Let_def js_defs fed_str_def fed_plain_def
        fed_text_def)
  then obtain i where i: "fed_normalize (resolve_input ''corp'' demo_result (JBool True)) = Inr i" "fi_allowCreate i" by blast
  have "\<exists>u st'. resolveFederatedLogin 5 ''u9'' None ''corp'' demo_result (JBool True)
     \<lparr>fs_links = [], fs_store = empty_store\<rparr> = (Inr (u, True), st')"
    using i by (simp add: resolveFederatedLogin_def fed_resolve_def fed_existing_def fed_collision_def findUserByLogin_def
        empty_store_def mvals_def fed_create_def createUser_def Let_def normalizeUser_def fed_user_input_def)
       (simp add: resolve_input_def demo_result_def coalesce_def)
  then obtain u st' where run: "resolveFederatedLogin 5 ''u9'' None ''corp'' demo_result (JBool True)
     \<lparr>fs_links = [], fs_store = empty_store\<rparr> = (Inr (u, True), st')" by blast
  show ?thesis using federated_login_no_takeover [OF fed_init run] run by blast
qed

section \<open>From the upstream response to the finished login\<close>

lemma state_consume_Inr:
  assumes "state_consume now realm state s = (Inr v, s')"
  obtains i a where "state = JStr i" "handle_re i" "current now (mget (bucket_of realm ''FederationState'' (fa_adapter s)) i) = Some a"
    "version_ok (fa_version realm s) a" "pl_data (rc_payload a) = v" "\<not> is_consumed (rc_payload a)"
    "MemoryAdapter.consume now realm ''FederationState'' i (fa_adapter s) = Inr (fa_adapter s')" "fa_accounts s' = fa_accounts s"
proof -
  obtain i p ad where c: "state = JStr i" "handle_re i" "find_artifact now (fa_version realm s) realm ''FederationState'' i (fa_adapter s) = Some p"
      "MemoryAdapter.consume now realm ''FederationState'' i (fa_adapter s) = Inr ad" "v = pl_data p" "s' = s\<lparr>fa_adapter := ad\<rparr>"
    using assms unfolding state_consume_def by (auto split: json.splits if_splits option.splits sum.splits)
  obtain a where a: "current now (mget (bucket_of realm ''FederationState'' (fa_adapter s)) i) = Some a"
      "version_ok (fa_version realm s) a" "p = rc_payload a"
    using c(3) by (auto simp: find_artifact_def split: option.splits if_splits)
  have "\<not> is_consumed (rc_payload a)"
    using c(4) a(1) by (auto simp: consume_def split: if_splits)
  then show thesis using that [of i a] a c by simp
qed

lemma spent_state_refused:
  assumes now: "1000 \<le> now" and used: "MemoryAdapter.consume now realm ''FederationState'' i ad = Inr ad'"
    and steps: "(bucket_step realm ''FederationState'')\<^sup>*\<^sup>* ad' (fa_adapter s2)"
    and run: "state_consume later realm (JStr i) s2 = (Inr t, s3)"
  shows False
proof -
  from run obtain j where "j = i" "MemoryAdapter.consume later realm ''FederationState'' j (fa_adapter s2) = Inr (fa_adapter s3)"
    by (rule state_consume_Inr) simp
  moreover have "spent realm ''FederationState'' i (fa_adapter s2)"
    using steps by (induction rule: rtranclp_induct) (auto intro: spent_step consume_spends [OF now used])
  ultimately show False
    using spent_consume [of realm "''FederationState''" i "fa_adapter s2" later] by auto
qed

lemma completionPayload_Inr:
  assumes "completionPayload v realm uid = Inr login"
  shows "jprop v ''kind'' = JStr ''federation-completion''" "jprop v ''realm'' = JStr realm"
    "jprop v ''interactionUid'' = JStr uid" "js_String (jprop v ''accountId'') = cl_accountId login"
    "uuid_re (cl_accountId login)"
proof -
  note run = assms [unfolded completionPayload_def]
  show "jprop v ''kind'' = JStr ''federation-completion''" "jprop v ''realm'' = JStr realm"
    "jprop v ''interactionUid'' = JStr uid"
    using run by (auto simp del: jprop.simps)
  show acc: "js_String (jprop v ''accountId'') = cl_accountId login"
    using run by (auto simp del: jprop.simps)
  have "test_field uuid_re (jprop v ''accountId'')" using run by (auto simp del: jprop.simps)
  then show "uuid_re (cl_accountId login)"
    by (auto simp: test_field_def acc [symmetric] split: if_splits) (simp add: uuid_re_def)
qed

lemma fed_audit_Inr: "fed_audit env rq ev s = (Inr u, s') \<Longrightarrow> fa_adapter s' = fa_adapter s \<and>
    (\<forall>r. fa_version r s' = fa_version r s)"
  by (auto simp: fed_audit_def with_store_def fa_version_def securityVersionFor_def findUserById_def writeAudit_def Let_def fun_eq_iff)

lemma federation_complete_Inr:
  assumes "federation_complete env rq s = (Inr reply, s')"
  obtains d v login s1 where "handle_re (js_String (jprop (rq_query rq) ''handle''))"
    "rq_details rq = Some d" "it_uid d = rq_uid rq" "it_prompt d = Some ''login''"
    "state_consume (rq_now rq) (fv_realm env) (jprop (rq_query rq) ''handle'') s = (Inr v, s1)"
    "completionPayload v (fv_realm env) (rq_uid rq) = Inr login"
    "reply = Finished (cl_accountId login) (cl_acr login) (cl_amr login)" "fa_adapter s' = fa_adapter s1"
  using assms unfolding federation_complete_def
  by (elim bindS_Inr)
     (auto simp: interactionDetails_def simp del: jprop.simps split: option.splits if_splits dest!: fed_audit_Inr)

text \<open>C13: A browser finishes an upstream sign-in only with a completion made for it. The handle names a
record of the realm that is current, unused and still valid for the account's security version; it
was made for this realm and this interaction, which the browser's own interaction session confirms with the login
prompt open; the account signed in is the one in the record. After that the handle is dead:
whatever saves and consumptions follow, no request finishes with it again.\<close>

theorem federation_completion_bound:
  assumes run: "federation_complete env rq s = (Inr reply, s')" and now: "1000 \<le> rq_now rq"
  shows "\<exists>i a. jprop (rq_query rq) ''handle'' = JStr i \<and>
    current (rq_now rq) (mget (bucket_of (fv_realm env) ''FederationState'' (fa_adapter s)) i) = Some a \<and>
    \<not> is_consumed (rc_payload a) \<and> version_ok (fa_version (fv_realm env) s) a \<and>
    jprop (pl_data (rc_payload a)) ''kind'' = JStr ''federation-completion'' \<and>
    jprop (pl_data (rc_payload a)) ''realm'' = JStr (fv_realm env) \<and>
    jprop (pl_data (rc_payload a)) ''interactionUid'' = JStr (rq_uid rq) \<and>
    js_String (jprop (pl_data (rc_payload a)) ''accountId'') = fn_accountId reply \<and> uuid_re (fn_accountId reply) \<and>
    (\<exists>d. rq_details rq = Some d \<and> it_uid d = rq_uid rq \<and> it_prompt d = Some ''login'') \<and>
    (\<forall>rq2 s2 reply2 s3. (bucket_step (fv_realm env) ''FederationState'')\<^sup>*\<^sup>* (fa_adapter s') (fa_adapter s2) \<longrightarrow>
       jprop (rq_query rq2) ''handle'' = JStr i \<longrightarrow> federation_complete env rq2 s2 \<noteq> (Inr reply2, s3))"
proof -
  from run obtain d v login s1 where c: "rq_details rq = Some d" "it_uid d = rq_uid rq" "it_prompt d = Some ''login''"
      "state_consume (rq_now rq) (fv_realm env) (jprop (rq_query rq) ''handle'') s = (Inr v, s1)"
      "completionPayload v (fv_realm env) (rq_uid rq) = Inr login"
      "reply = Finished (cl_accountId login) (cl_acr login) (cl_amr login)" "fa_adapter s' = fa_adapter s1"
    by (rule federation_complete_Inr)
  from c(4) obtain i a where i: "jprop (rq_query rq) ''handle'' = JStr i"
      "current (rq_now rq) (mget (bucket_of (fv_realm env) ''FederationState'' (fa_adapter s)) i) = Some a"
      "version_ok (fa_version (fv_realm env) s) a" "pl_data (rc_payload a) = v" "\<not> is_consumed (rc_payload a)"
      "MemoryAdapter.consume (rq_now rq) (fv_realm env) ''FederationState'' i (fa_adapter s) = Inr (fa_adapter s1)"
    by (rule state_consume_Inr)
  have dead: "federation_complete env rq2 s2 \<noteq> (Inr reply2, s3)"
    if steps: "(bucket_step (fv_realm env) ''FederationState'')\<^sup>*\<^sup>* (fa_adapter s') (fa_adapter s2)"
      and h: "jprop (rq_query rq2) ''handle'' = JStr i" for rq2 s2 reply2 s3
  proof
    assume "federation_complete env rq2 s2 = (Inr reply2, s3)"
    then obtain v2 s4 where "state_consume (rq_now rq2) (fv_realm env) (JStr i) s2 = (Inr v2, s4)"
      by (rule federation_complete_Inr) (simp add: h)
    with now i(6) steps show False unfolding c(7) by (rule spent_state_refused)
  qed
  show ?thesis
    using c(1-3) i(1-3,5) completionPayload_Inr [OF c(5)] dead unfolding i(4) [symmetric] c(6)
    by (intro exI [of _ i] exI [of _ a]) (auto simp del: jprop.simps)
qed

definition demo_entry :: "fed_app extension" where
  "demo_entry = \<lparr>ex_manifest = \<lparr>mf_apiVersion = AUTHME_EXTENSION_API_VERSION, mf_id = JStr ''builtin.oidc-federation'',
       mf_kind = ''federation'', mf_displayName = ''OpenID Connect federation'', mf_capabilities = [''oauth2'', ''oidc'', ''pkce'']\<rparr>,
     ex_implementation = \<lparr>im_enabledFor = Absent, im_providersFor = Method (\<lambda>_. JArr [JObj [(''id'', JStr ''idp'')]]),
       im_initiate = Absent, im_consume = Absent, im_metadataFor = Absent, im_authenticate = Absent, im_begin = Absent,
       im_complete = Absent, im_createRouter = Absent\<rparr>\<rparr>"

definition demo_env :: fed_env where
  "demo_env = \<lparr>fv_realm = ''corp'', fv_registry = [(JStr ''builtin.oidc-federation'', demo_entry)], fv_sig = (\<lambda>p k. ''s''),
     fv_num = (\<lambda>_. None), fv_secret = ''k'', fv_ttl = 120, fv_origin = ''https://a'', fv_maxOidcBytes = 16384,
     fv_parse_url = (\<lambda>_. None), fv_configured = (\<lambda>_ _. Some (JStr ''i'', JBool True)), fv_disabledHash = None, fv_isIP = (\<lambda>_. False)\<rparr>"

definition demo_handle :: string where "demo_handle = replicate 32 (CHR ''h'')"
definition demo_account :: string where "demo_account = ''01234567-89ab-4cde-8f01-23456789abcd''"

definition demo_complete :: fed_request where
  "demo_complete = \<lparr>rq_extensionId = [], rq_providerId = [], rq_uid = ''x1'', rq_isForm = False, rq_body = JUndef,
     rq_query = JObj [(''handle'', JStr demo_handle)], rq_urlBytes = 99, rq_ip = None, rq_userAgent = None,
     rq_details = Some \<lparr>it_uid = ''x1'', it_prompt = Some ''login'', it_clientId = None\<rparr>, rq_now = 5000,
     rq_random = [], rq_userId = [], rq_auditId = ''e''\<rparr>"

definition demo_federation :: federation_result where
  "demo_federation = \<lparr>fx_interactionUid = ''x1'', fx_providerId = JStr ''idp'', fx_profile = JObj [], fx_identity = JUndef,
     fx_amr = [''federated''], fx_acr = federationAcr\<rparr>"

definition demo_pending :: fed_app where
  "demo_pending = \<lparr>fa_accounts = \<lparr>fs_links = [], fs_store = empty_store\<rparr>,
     fa_adapter = \<lparr>ad_stores = [(bkey ''corp'' ''FederationState'', [(demo_handle, \<lparr>rc_ref = 0,
       rc_payload = payload_of (completion_payload ''corp'' ''builtin.oidc-federation'' ''idp'' demo_federation demo_account),
       rc_securityVersion = None, rc_expiresAt = Some 9000\<rparr>)])], ad_next = 1\<rparr>\<rparr>"

lemma demo_handle_facts: "handle_re demo_handle" "uuid_re demo_account" "js_String (JStr demo_handle) = demo_handle"
  by (simp_all add: demo_handle_def demo_account_def js_defs list_all_iff numeral_eq_Suc)

lemma demo_payload_facts:
  "completionPayload (completion_payload ''corp'' ''builtin.oidc-federation'' ''idp'' demo_federation demo_account) ''corp'' ''x1'' =
     Inr \<lparr>cl_extensionId = ''builtin.oidc-federation'', cl_providerId = ''idp'', cl_accountId = demo_account,
       cl_amr = [''federated''], cl_acr = federationAcr\<rparr>"
  using demo_handle_facts
  by (simp add: completionPayload_def completion_payload_def normalizedResult_def test_field_def Let_def demo_federation_def
      federationAcr_def js_uniq_def str_list_def) (simp add: js_defs)

lemma demo_extension: "extensionFor (fv_registry demo_env) ''corp'' ''builtin.oidc-federation'' ''idp''
    (capability_of ''builtin.oidc-federation'') = Inr demo_entry"
  by (simp add: extensionFor_def capability_of_def demo_env_def get_extension_def demo_entry_def enabled_for_def Let_def)
     (simp add: js_defs)

lemma federation_completion_bound_witness:
  "\<exists>reply s'. federation_complete demo_env demo_complete demo_pending = (Inr reply, s') \<and>
     uuid_re (fn_accountId reply) \<and> federation_complete demo_env demo_complete s' \<noteq> (Inr reply, s')"
proof -
  let ?v = "completion_payload ''corp'' ''builtin.oidc-federation'' ''idp'' demo_federation demo_account"
  have c: "\<exists>s1. state_consume 5000 ''corp'' (JStr demo_handle) demo_pending = (Inr ?v, s1)"
    using demo_handle_facts
    by (simp add: state_consume_def liftU_def demo_pending_def find_artifact_def bucket_of_def current_def version_ok_def
        consume_def payload_of_def num_field_def completion_payload_def is_consumed_def)
  then obtain s1 where s1: "state_consume 5000 ''corp'' (JStr demo_handle) demo_pending = (Inr ?v, s1)" ..
  have "\<exists>s'. federation_complete demo_env demo_complete demo_pending = (Inr (Finished demo_account federationAcr [''federated'']), s')"
  proof -
    have g: "interaction_uid_re ''x1''" by (simp add: js_defs)
    show ?thesis
      using s1 demo_handle_facts demo_payload_facts demo_extension g
      by (simp add: federation_complete_def demo_complete_def exactObject_def mkeys_def interactionDetails_def
          bindS_def demo_env_def fed_audit_def)
  qed
  then obtain s' where run: "federation_complete demo_env demo_complete demo_pending =
      (Inr (Finished demo_account federationAcr [''federated'']), s')" ..
  have now: "1000 \<le> rq_now demo_complete" by (simp add: demo_complete_def)
  from federation_completion_bound [OF run now] run show ?thesis by blast
qed

section \<open>The completion delivers what the upstream response resolved\<close>

lemma remdups_snoc: "remdups (xs @ [x]) = filter (\<lambda>y. y \<noteq> x) (remdups xs) @ [x]"
  by (induction xs) auto

lemma js_uniq_Cons: "js_uniq (x # xs) = x # filter (\<lambda>y. y \<noteq> x) (js_uniq xs)"
  by (simp add: js_uniq_def remdups_snoc rev_filter [symmetric])

lemma js_uniq_again: "js_uniq (x # js_uniq (x # xs)) = js_uniq (x # xs)"
proof -
  have "x \<notin> set (filter (\<lambda>y. y \<noteq> x) (js_uniq xs))" by simp
  then show ?thesis
    by (simp only: js_uniq_Cons [of x xs] js_uniq_Cons [of x "x # _"]) (simp add: js_uniq_distinct js_uniq_Cons)
qed

lemma normalizedResult_facts:
  assumes "normalizedResult v (JStr providerId) = Inr f"
  shows "interaction_uid_re (fx_interactionUid f)" "list_all amr_re (fx_amr f)" "\<exists>xs. fx_amr f = js_uniq (''federated'' # xs)"
    "fx_acr f \<noteq> [] \<and> length (fx_acr f) \<le> 256 \<and> list_all (\<lambda>c. \<not> is_control c) (fx_acr f)"
proof -
  let ?amr = "if nullish (jprop v ''amr'') then JArr [] else jprop v ''amr''"
  note run = assms [unfolded normalizedResult_def Let_def]
  have f: "f = \<lparr>fx_interactionUid = js_String (jprop v ''interactionUid''), fx_providerId = JStr providerId,
             fx_profile = jprop v ''profile'', fx_identity = jprop v ''identity'',
             fx_amr = js_uniq (''federated'' # (case ?amr of JArr xs \<Rightarrow> str_list xs | _ \<Rightarrow> [])),
             fx_acr = (if nullish (jprop v ''acr'') then federationAcr else js_String (jprop v ''acr''))\<rparr>"
    using run by (auto simp del: jprop.simps)
  have u: "test_field interaction_uid_re (jprop v ''interactionUid'')" using run by (auto simp del: jprop.simps)
  have "\<not> interaction_uid_re []" by (simp add: js_defs)
  with u show "interaction_uid_re (fx_interactionUid f)" by (simp add: f test_field_def split: if_splits)
  show "\<exists>xs. fx_amr f = js_uniq (''federated'' # xs)" by (auto simp: f)
  have amr: "case ?amr of JArr xs \<Rightarrow> length xs \<le> 16 \<and> list_all (\<lambda>x. is_str x \<and> amr_re (js_String x)) xs | _ \<Rightarrow> False"
    using run by (auto simp del: jprop.simps)
  have "amr_re ''federated''" by (simp add: js_defs)
  then show "list_all amr_re (fx_amr f)" using amr by (cases ?amr) (auto simp: f str_list_def list_all_iff)
  have acr: "case jprop v ''acr'' of JUndef \<Rightarrow> True
      | JStr a \<Rightarrow> a \<noteq> [] \<and> length a \<le> 256 \<and> list_all (\<lambda>c. \<not> is_control c) a | _ \<Rightarrow> False"
    using run by (auto simp del: jprop.simps)
  have "federationAcr \<noteq> [] \<and> length federationAcr \<le> 256 \<and> list_all (\<lambda>c. \<not> is_control c) federationAcr"
    by (simp add: federationAcr_def js_defs)
  then show "fx_acr f \<noteq> [] \<and> length (fx_acr f) \<le> 256 \<and> list_all (\<lambda>c. \<not> is_control c) (fx_acr f)"
    using acr by (cases "jprop v ''acr''") (auto simp: f)
qed

lemma completionPayload_of_payload:
  assumes f: "normalizedResult v (JStr prov) = Inr f" and ids: "extension_id_re ext" "fed_provider_id_re prov" "uuid_re acc"
  shows "completionPayload (completion_payload realm ext prov f acc) realm (fx_interactionUid f) =
    (if length (fx_amr f) \<le> 16
     then Inr \<lparr>cl_extensionId = ext, cl_providerId = prov, cl_accountId = acc, cl_amr = fx_amr f, cl_acr = fx_acr f\<rparr>
     else Inl fed_response_invalid)"
proof -
  note nf = normalizedResult_facts [OF f]
  have amr: "js_uniq (''federated'' # fx_amr f) = fx_amr f" using nf(3) js_uniq_again by metis
  have all: "list_all (\<lambda>x. is_str x \<and> amr_re (js_String x)) (map JStr (fx_amr f))" using nf(2) by (simp add: list_all_iff)
  have strs: "str_list (map JStr (fx_amr f)) = fx_amr f" by (simp add: str_list_def o_def)
  show ?thesis
    using nf(1,4) ids amr all strs
    by (simp add: completionPayload_def completion_payload_def normalizedResult_def test_field_def Let_def)
qed

lemma issued_found:
  assumes run: "state_issue now random realm v ttl s = (Inr h, s')"
    and new: "mget (bucket_of realm ''FederationState'' (fa_adapter s)) random = None"
    and v: "str_field v ''grantId'' = None" "num_field v ''consumed'' = None"
    and same: "fa_adapter s2 = fa_adapter s'" "fa_version realm s2 = fa_version realm s'"
    and t: "later < now + ttl * 1000" and re: "handle_re random"
  shows "h = random \<and> (\<exists>s3. state_consume later realm (JStr random) s2 = (Inr v, s3))"
proof -
  obtain a where u: "upsert now (fa_version realm s) realm ''FederationState'' random (payload_of v) (Some (ttl * 1000)) (fa_adapter s) = Inr a"
      "h = random" "s' = s\<lparr>fa_adapter := a\<rparr>"
    using run by (auto simp: state_issue_def split: sum.splits)
  have st: "upsert_begin now realm ''FederationState'' random (payload_of v) (fa_adapter s) =
      Inr \<lparr>us_next = payload_of v, us_parent = None\<rparr>"
    using new v by (simp add: upsert_begin_def payload_of_def current_def)
  have ck: "upsert_check p \<lparr>us_next = payload_of v, us_parent = None\<rparr> = Inr (payload_of v)" for p
    using v by (simp add: upsert_check_def payload_of_def)
  have cm: "upsert_commit now realm ''FederationState'' random (payload_of v) (sv_of (fa_version realm s) (pl_accountId (payload_of v)))
      None (Some (ttl * 1000)) (fa_adapter s) = Inr a"
    using u(1) by (simp add: upsert_def st ck)
  obtain r where r: "bucket_of realm ''FederationState'' a = mset' random r (bucket_of realm ''FederationState'' (fa_adapter s))"
      "rc_payload r = payload_of v" "rc_securityVersion r = sv_of (fa_version realm s) (pl_accountId (payload_of v))"
      "rc_expiresAt r = Some (now + ttl * 1000)"
    using upsert_commit_cases(1) [OF cm] by auto
  have ver: "fa_version realm s2 = fa_version realm s" using same(2) by (simp add: u(3) fa_version_def)
  have cur: "current later (mget (bucket_of realm ''FederationState'' (fa_adapter s2)) random) = Some r"
    using t by (simp add: same(1) u(3) r(1,4) current_def)
  have "\<not> is_consumed (rc_payload r)" using v by (simp add: r(2) is_consumed_def payload_of_def)
  then have "\<exists>s3. state_consume later realm (JStr random) s2 = (Inr v, s3)"
    using cur re by (simp add: state_consume_def liftU_def find_artifact_def version_ok_def ver r(2,3) consume_def)
       (simp add: payload_of_def)
  then show ?thesis by (simp add: u(2))
qed

lemma completeCallback_Inr:
  assumes "completeCallback env rq ext prov result s = (Inr reply, s')"
  obtains f acc created s1 s2 h where "normalizedResult result (JStr prov) = Inr f"
    "resolve_account env rq ext prov (fx_profile f) (fx_identity f) s = (Inr (acc, created), s1)" "uuid_re acc"
    "state_issue (rq_now rq) (rq_random rq) (fv_realm env) (completion_payload (fv_realm env) ext prov f acc) (fv_ttl env) s1 = (Inr h, s2)"
    "handle_re h" "fa_adapter s' = fa_adapter s2" "fa_version (fv_realm env) s' = fa_version (fv_realm env) s2"
    "reply = Redirect303 (completionUrl (fv_realm env) (fx_interactionUid f) h) True"
  using assms unfolding completeCallback_def
  by (elim bindS_Inr) (auto split: prod.splits elim!: bindS_Inr dest!: fed_audit_Inr)

text \<open>An accepted upstream response reaches the login it was started for. When the callback has redirected the
browser, the completion request of the interaction the response names, made with the handle of the redirect before the
record expires, signs in exactly the account the identity was resolved to, with the recorded methods and assurance
level, provided there are at most sixteen methods. With seventeen (the sixteen the callback accepts
and the leading \<open>federated\<close> it adds) the completion is always refused. The 32 random bytes of the handle
are new to the store.\<close>

theorem federation_sign_in_delivers:
  assumes cb: "completeCallback env rq ext prov result s = (Inr reply, s1)"
    and new: "\<forall>acc s'. resolve_account env rq ext prov (jprop result ''profile'') (jprop result ''identity'') s = (Inr acc, s') \<longrightarrow>
      mget (bucket_of (fv_realm env) ''FederationState'' (fa_adapter s')) (rq_random rq) = None"
    and ids: "extensionFor (fv_registry env) (fv_realm env) ext prov (capability_of ext) = Inr entry"
    and browser: "rq_query rq2 = JObj [(''handle'', JStr (rq_random rq))]"
      "jprop result ''interactionUid'' = JStr (rq_uid rq2)" "rq_details rq2 = Some d" "it_uid d = rq_uid rq2" "it_prompt d = Some ''login''"
    and time: "rq_now rq2 < rq_now rq + fv_ttl env * 1000"
  shows "\<exists>f acc created s'. normalizedResult result (JStr prov) = Inr f \<and>
    resolve_account env rq ext prov (fx_profile f) (fx_identity f) s = (Inr (acc, created), s') \<and>
    reply = Redirect303 (completionUrl (fv_realm env) (rq_uid rq2) (rq_random rq)) True \<and>
    fst (federation_complete env rq2 s1) =
      (if length (fx_amr f) \<le> 16 then Inr (Finished acc (fx_acr f) (fx_amr f)) else Inl fed_response_invalid)"
proof -
  from cb obtain f acc created sr s2 h where c: "normalizedResult result (JStr prov) = Inr f"
      "resolve_account env rq ext prov (fx_profile f) (fx_identity f) s = (Inr (acc, created), sr)" "uuid_re acc"
      "state_issue (rq_now rq) (rq_random rq) (fv_realm env) (completion_payload (fv_realm env) ext prov f acc) (fv_ttl env) sr = (Inr h, s2)"
      "handle_re h" "fa_adapter s1 = fa_adapter s2" "fa_version (fv_realm env) s1 = fa_version (fv_realm env) s2"
      "reply = Redirect303 (completionUrl (fv_realm env) (fx_interactionUid f) h) True"
    by (rule completeCallback_Inr)
  have f: "fx_profile f = jprop result ''profile''" "fx_identity f = jprop result ''identity''" "fx_interactionUid f = rq_uid rq2"
    using c(1) browser(2) unfolding normalizedResult_def Let_def by (auto simp del: jprop.simps)
  have h: "h = rq_random rq" using c(4) by (auto simp: state_issue_def split: sum.splits)
  let ?v = "completion_payload (fv_realm env) ext prov f acc"
  have v: "str_field ?v ''grantId'' = None" "num_field ?v ''consumed'' = None"
    by (simp_all add: str_field_def num_field_def completion_payload_def)
  have fresh: "mget (bucket_of (fv_realm env) ''FederationState'' (fa_adapter sr)) (rq_random rq) = None"
    using new c(2) unfolding f by blast
  have re: "handle_re (rq_random rq)" using c(5) by (simp add: h)
  obtain s3 where s3: "state_consume (rq_now rq2) (fv_realm env) (JStr (rq_random rq)) s1 = (Inr ?v, s3)"
    using issued_found [OF c(4) fresh v c(6,7) time re] by blast
  have pats: "extension_id_re ext" "fed_provider_id_re prov" using ids by (auto simp: extensionFor_def split: if_splits)
  note pay = completionPayload_of_payload [OF c(1) pats c(3), of "fv_realm env", unfolded f(3)]
  have uid: "interaction_uid_re (rq_uid rq2)" using normalizedResult_facts(1) [OF c(1)] by (simp add: f(3))
  have "fst (federation_complete env rq2 s1) =
      (if length (fx_amr f) \<le> 16 then Inr (Finished acc (fx_acr f) (fx_amr f)) else Inl fed_response_invalid)"
    using s3 pay ids browser re uid
    by (simp add: federation_complete_def exactObject_def mkeys_def interactionDetails_def bindS_def fed_audit_def)
  then show ?thesis using c h f by auto
qed

definition demo_callback :: fed_request where
  "demo_callback = demo_complete\<lparr>rq_now := 4000, rq_random := demo_handle, rq_userId := demo_account\<rparr>"

definition demo_upstream :: json where
  "demo_upstream = JObj [(''interactionUid'', JStr ''x1''), (''providerId'', JStr ''idp''),
     (''profile'', JObj [(''externalSubject'', JStr ''s''), (''username'', JStr ''ann'')])]"

definition demo_start :: fed_app where
  "demo_start = \<lparr>fa_accounts = \<lparr>fs_links = [], fs_store = empty_store\<rparr>, fa_adapter = \<lparr>ad_stores = [], ad_next = 0\<rparr>\<rparr>"

lemma demo_upstream_result: "normalizedResult demo_upstream (JStr ''idp'') =
    Inr \<lparr>fx_interactionUid = ''x1'', fx_providerId = JStr ''idp'', fx_profile = jprop demo_upstream ''profile'',
      fx_identity = JUndef, fx_amr = [''federated''], fx_acr = federationAcr\<rparr>"
  by (simp add: normalizedResult_def demo_upstream_def test_field_def str_list_def js_uniq_def Let_def) (simp add: js_defs)

lemma demo_resolved: "\<exists>s'. resolve_account demo_env demo_callback ''builtin.oidc-federation'' ''idp'' (jprop demo_upstream ''profile'') JUndef
    demo_start = (Inr (demo_account, True), s') \<and> fa_adapter s' = \<lparr>ad_stores = [], ad_next = 0\<rparr> \<and>
    fa_version ''corp'' s' demo_account = Some 0"
proof -
  let ?in = "resolve_input ''corp'' (JObj [(''providerId'', JStr ''idp''), (''issuer'', JStr ''i''), (''profile'', jprop demo_upstream ''profile''),
      (''identity'', JUndef), (''allowCreate'', JBool True)]) (JBool True)"
  have "\<exists>i. fed_normalize ?in = Inr i \<and> fi_allowCreate i \<and> fi_realm i = ''corp''"
    by (simp add: fed_normalize_def resolve_input_def demo_upstream_def coalesce_def Let_def js_defs fed_str_def fed_plain_def
        fed_text_def)
  then obtain i where i: "fed_normalize ?in = Inr i" "fi_allowCreate i" "fi_realm i = ''corp''" by blast
  have acc: "demo_account \<noteq> []" by (simp add: demo_account_def)
  have p: "truthy (jprop ?in ''providerId'')" "truthy (jprop ?in ''issuer'')" "truthy (jprop ?in ''externalSubject'')"
      "truthy (jprop ?in ''profile'')"
    by (simp_all add: resolve_input_def demo_upstream_def coalesce_def)
  show ?thesis
    using i p
    by (simp add: resolve_account_def accountResolver_def demo_env_def demo_callback_def demo_complete_def demo_start_def
        resolveFederatedLogin_def fed_resolve_def fed_existing_def fed_collision_def findUserByLogin_def
        empty_store_def mvals_def fed_create_def createUser_def Let_def normalizeUser_def fed_user_input_def
        recordLoginSuccess_def update_user_def loginSuccess_row_def fa_version_def securityVersionFor_def findUserById_def
        del: jprop.simps)
qed

lemma federation_sign_in_delivers_witness:
  "\<exists>reply s1. completeCallback demo_env demo_callback ''builtin.oidc-federation'' ''idp'' demo_upstream demo_start = (Inr reply, s1) \<and>
     fst (federation_complete demo_env demo_complete s1) = Inr (Finished demo_account federationAcr [''federated''])"
proof -
  let ?ext = "''builtin.oidc-federation''"
  obtain sr where sr: "resolve_account demo_env demo_callback ?ext ''idp'' (jprop demo_upstream ''profile'') JUndef demo_start =
      (Inr (demo_account, True), sr)" "fa_adapter sr = \<lparr>ad_stores = [], ad_next = 0\<rparr>" "fa_version ''corp'' sr demo_account = Some 0"
    using demo_resolved by blast
  have none: "jprop demo_upstream ''identity'' = JUndef" by (simp add: demo_upstream_def)
  have env: "fv_realm demo_env = ''corp''" "fv_ttl demo_env = 120" "rq_random demo_callback = demo_handle" "rq_now demo_callback = 4000"
    by (simp_all add: demo_env_def demo_callback_def)
  have "\<exists>s2. state_issue 4000 demo_handle ''corp'' (completion_payload ''corp'' ?ext ''idp''
      \<lparr>fx_interactionUid = ''x1'', fx_providerId = JStr ''idp'', fx_profile = jprop demo_upstream ''profile'',
        fx_identity = JUndef, fx_amr = [''federated''], fx_acr = federationAcr\<rparr> demo_account) 120 sr = (Inr demo_handle, s2)"
    using sr(2,3) by (simp add: state_issue_def liftU_def upsert_def upsert_begin_def upsert_check_def upsert_commit_def payload_of_def
        completion_payload_def str_field_def num_field_def bucket_of_def current_def sv_of_def demo_account_def Let_def
        parent_account_def put_bucket_def)
  then obtain s2 where s2: "state_issue 4000 demo_handle ''corp'' (completion_payload ''corp'' ?ext ''idp''
      \<lparr>fx_interactionUid = ''x1'', fx_providerId = JStr ''idp'', fx_profile = jprop demo_upstream ''profile'',
        fx_identity = JUndef, fx_amr = [''federated''], fx_acr = federationAcr\<rparr> demo_account) 120 sr = (Inr demo_handle, s2)" ..
  have "\<exists>reply s1. completeCallback demo_env demo_callback ?ext ''idp'' demo_upstream demo_start = (Inr reply, s1)"
    using sr(1) s2 demo_upstream_result demo_handle_facts(1,2) env
    by (simp add: completeCallback_def bindS_def fed_audit_def)
  then obtain reply s1 where cb: "completeCallback demo_env demo_callback ?ext ''idp'' demo_upstream demo_start = (Inr reply, s1)"
    by blast
  have new: "\<forall>acc s'. resolve_account demo_env demo_callback ?ext ''idp'' (jprop demo_upstream ''profile'') (jprop demo_upstream ''identity'')
      demo_start = (Inr acc, s') \<longrightarrow>
      mget (bucket_of (fv_realm demo_env) ''FederationState'' (fa_adapter s')) (rq_random demo_callback) = None"
    using sr by (auto simp: none bucket_of_def)
  have browser: "rq_query demo_complete = JObj [(''handle'', JStr (rq_random demo_callback))]"
      "jprop demo_upstream ''interactionUid'' = JStr (rq_uid demo_complete)"
      "rq_details demo_complete = Some \<lparr>it_uid = ''x1'', it_prompt = Some ''login'', it_clientId = None\<rparr>"
      "rq_now demo_complete < rq_now demo_callback + fv_ttl demo_env * 1000"
    by (simp_all add: demo_complete_def demo_callback_def demo_upstream_def demo_env_def)
  have ext: "extensionFor (fv_registry demo_env) (fv_realm demo_env) ?ext ''idp'' (capability_of ?ext) = Inr demo_entry"
    using demo_extension by (simp add: env)
  have "\<exists>f acc created s'. normalizedResult demo_upstream (JStr ''idp'') = Inr f \<and>
    resolve_account demo_env demo_callback ?ext ''idp'' (fx_profile f) (fx_identity f) demo_start = (Inr (acc, created), s') \<and>
    fst (federation_complete demo_env demo_complete s1) =
      (if length (fx_amr f) \<le> 16 then Inr (Finished acc (fx_acr f) (fx_amr f)) else Inl fed_response_invalid)"
    using federation_sign_in_delivers [OF cb new ext browser(1-3) _ _ browser(4)] by (auto simp: demo_complete_def)
  then show ?thesis using cb sr(1) demo_upstream_result by auto
qed

end
