(* ===== verification/LoginProps.thy ===== *)
theory LoginProps
  imports LoginRoutes FederationProps
begin

text \<open>What a finished sign-in proves about the factors that were presented.\<close>

lemma login_lookup_by_id:
  assumes "store_inv s" and "findUserByLogin r l s = Some u"
  shows "findUserById r (u_id u) s = Some u"
proof -
  have u: "u \<in> set (mvals (st_users s))" "u_realm u = r"
    using find_SomeD [OF assms(2) [unfolded findUserByLogin_def Let_def]] by blast+
  have wf: "map_wf (st_users s)" using assms(1) unfolding store_inv_def users_inv_def by blast
  obtain k where k: "mget (st_users s) k = Some u" using u(1) unfolding set_mvals [OF wf] by blast
  then have "k = ukey (u_realm u) (u_id u)" using users_keyD [OF assms(1)] by blast
  then show ?thesis using k u(2) by (simp add: findUserById_def)
qed

lemma resolved_by_id:
  assumes reach: "fed_reach st" and run: "resolveFederatedLogin now fresh dh realm result allow st = (Inr (u, created), st')"
  shows "findUserById realm (u_id u) (fs_store st') = Some u"
proof -
  obtain r where r: "fed_resolve now fresh dh (resolve_input realm result allow) st = (Inr r, st')" "fr_user r = Some u"
      "fr_status r = (if created then Created else Resolved)"
    using resolveFederatedLogin_Inr [OF run] by blast
  have store: "store_inv (fs_store st)" using fed_okD(1) [OF fed_reach_ok [OF reach]] by (rule store_reach_inv)
  from r(1) show ?thesis
  proof (cases rule: fed_resolve_cases)
    case (found i l u0 l')
    have "fi_realm i = realm" by (rule normalize_realm [OF found(1) resolve_input_realm])
    then show ?thesis
      using found r(2) user_at_key [OF store, of "fi_realm i" "ln_userId l" u] fed_normalize_realm [OF found(1)]
      by (simp add: findUserById_def)
  next
    case (made i u0 s' l st1)
    have "fi_realm i = realm" by (rule normalize_realm [OF made(1) resolve_input_realm])
    then show ?thesis using createUser_cases [OF made(5)] made r(2) by (simp add: findUserById_def normalizeUser_def)
  next
    case refused
    then show ?thesis using r(3) by (cases created) simp_all
  qed
qed

text \<open>The first factor: the stored password of the named account, or an LDAP login resolved to the account.\<close>

definition first_factor_of :: "login_env \<Rightarrow> login_request \<Rightarrow> fed_state \<Rightarrow> user \<Rightarrow> string \<Rightarrow> bool" where
  "first_factor_of env rq st u meth \<longleftrightarrow>
     (if meth = ''pwd''
      then findUserByLogin (lv_realm env) (login_name rq) (fs_store st) = Some u \<and>
        verifyPassword (lv_crypto env) (stored_hash env (Some u)) (body_text rq ''password'')
      else meth = ''ldap'' \<and> (\<exists>auth ldap created st1. lv_ldap env = Some auth \<and>
        auth (login_name rq) (body_text rq ''password'') = Some ldap \<and> jprop ldap ''status'' = JStr ''success'' \<and>
        resolveFederatedLogin (lq_now rq) (lq_userId rq) (lv_disabledHash env) (lv_realm env) ldap
          (JBool (jprop ldap ''allowCreate'' = JBool True)) st = (Inr (u, created), st1)))"

lemma first_factor_Inr:
  assumes run: "first_factor env rq st = (Inr ff, st1)" and ff: "ff_ok ff" "ff_user ff = Some u" and reach: "fed_reach st"
  shows "first_factor_of env rq st u (ff_method ff)" "findUserById (lv_realm env) (u_id u) (fs_store st1) = Some u"
proof -
  have store: "store_inv (fs_store st)" using fed_okD(1) [OF fed_reach_ok [OF reach]] by (rule store_reach_inv)
  let ?user = "findUserByLogin (lv_realm env) (login_name rq) (fs_store st)"
  have "first_factor_of env rq st u (ff_method ff) \<and> findUserById (lv_realm env) (u_id u) (fs_store st1) = Some u"
  proof (cases "verifyPassword (lv_crypto env) (stored_hash env ?user) (body_text rq ''password'')")
    case True
    then have "ff = \<lparr>ff_user = ?user, ff_ok = True, ff_method = ''pwd''\<rparr>" "st1 = st"
      using run by (auto simp: first_factor_def Let_def)
    then show ?thesis using ff True login_lookup_by_id [OF store] by (auto simp: first_factor_of_def)
  next
    case False
    then obtain auth ldap u' created where l: "lv_ldap env = Some auth"
        "auth (login_name rq) (body_text rq ''password'') = Some ldap" "jprop ldap ''status'' = JStr ''success''"
        "resolveFederatedLogin (lq_now rq) (lq_userId rq) (lv_disabledHash env) (lv_realm env) ldap
          (JBool (jprop ldap ''allowCreate'' = JBool True)) st = (Inr (u', created), st1)"
        "ff = \<lparr>ff_user = Some u', ff_ok = True, ff_method = ''ldap''\<rparr>"
      using run ff(1) by (auto simp: first_factor_def Let_def simp del: jprop.simps
          split: option.splits if_splits prod.splits sum.splits)
    then show ?thesis using ff resolved_by_id [OF reach l(4)] by (auto simp: first_factor_of_def)
  qed
  then show "first_factor_of env rq st u (ff_method ff)" "findUserById (lv_realm env) (u_id u) (fs_store st1) = Some u" by auto
qed

lemma first_factor_method: "first_factor env rq st = (Inr ff, st1) \<Longrightarrow> ff_method ff = ''pwd'' \<or> ff_method ff = ''ldap''"
  by (auto simp: first_factor_def Let_def split: option.splits if_splits prod.splits sum.splits)

text \<open>The second factor of an account that has one.\<close>

definition second_factor_of :: "login_env \<Rightarrow> login_request \<Rightarrow> user \<Rightarrow> bool \<Rightarrow> bool" where
  "second_factor_of env rq u recoveryUsed \<longleftrightarrow>
     (if recoveryUsed then recoveryCodeDigest (lv_crypto env) (jprop (lq_body rq) ''otp'') \<in> set (u_recoveryCodeHashes u)
      else \<exists>encrypted secret step. u_totpSecret u = Some encrypted \<and>
        cy_decrypt (lv_crypto env) encrypted (totp_context env u) = Some secret \<and>
        totpStep (lv_crypto env) secret (jprop (lq_body rq) ''otp'') (lq_now rq) = Some step \<and>
        (\<forall>t. u_lastTotpStep u = Some t \<longrightarrow> t < step))"

lemma login_post_SignedIn:
  assumes "login_post env rq st = (SignedIn acc acr amr, st')"
  obtains d ff st1 u recoveryUsed s2 where "interaction rq ''login'' = Some d" "form_token_ok env rq d ''login''" "lq_limited rq = None"
    "first_factor env rq st = (Inr ff, st1)" "check_second env rq ff (fs_store st1) = (Inr (True, recoveryUsed), s2)"
    "ff_user ff = Some u" "u_enabled u" "ff_ok ff" "\<not> login_locked (lq_now rq) u"
    "login_accepted env rq d u (ff_method ff) recoveryUsed (st1\<lparr>fs_store := s2\<rparr>) = (SignedIn acc acr amr, st')"
  using assms unfolding login_post_def login_refused_def no_interaction_def expired_form_def Let_def
  by (auto split: option.splits if_splits prod.splits sum.splits)

text \<open>C14: Nobody is signed in by the login form without every factor the account has. A finished login
answers an open interaction with a fresh form token and was not rate-limited; the account is enabled and not
locked; the password is that of the account named in the form, or LDAP accepted it and the LDAP
identity belongs to the account; and an account with a confirmed authenticator gave a code of a newer time step
than any accepted before or one of its recovery codes. The methods and the assurance level reported to the
client say exactly this.\<close>

theorem login_requires_all_factors:
  assumes run: "login_post env rq st = (SignedIn acc acr amr, st')" and reach: "fed_reach st"
  shows "\<exists>d u meth. interaction rq ''login'' = Some d \<and> form_token_ok env rq d ''login'' \<and> lq_limited rq = None \<and>
    u_id u = acc \<and> u_enabled u \<and> \<not> login_locked (lq_now rq) u \<and> first_factor_of env rq st u meth \<and>
    (if u_totpConfirmed u
     then acr = loa2 \<and> (\<exists>recovery. second_factor_of env rq u recovery \<and> amr = [meth, if recovery then ''recovery'' else ''otp''])
     else acr = loa1 \<and> amr = [meth])"
proof -
  from run obtain d ff st1 u recoveryUsed s2 where c: "interaction rq ''login'' = Some d" "form_token_ok env rq d ''login''"
      "lq_limited rq = None" "first_factor env rq st = (Inr ff, st1)"
      "check_second env rq ff (fs_store st1) = (Inr (True, recoveryUsed), s2)"
      "ff_user ff = Some u" "u_enabled u" "ff_ok ff" "\<not> login_locked (lq_now rq) u"
      "login_accepted env rq d u (ff_method ff) recoveryUsed (st1\<lparr>fs_store := s2\<rparr>) = (SignedIn acc acr amr, st')"
    by (rule login_post_SignedIn)
  note f = first_factor_Inr [OF c(4,8,6) reach]
  have out: "u_id u = acc" "acr = (if u_totpConfirmed u then loa2 else loa1)" "amr = login_methods u (ff_method ff) recoveryUsed"
    using c(10) by (auto simp: login_accepted_def Let_def split: if_splits)
  have second: "second_factor_of env rq u recoveryUsed" if tc: "u_totpConfirmed u"
  proof -
    obtain encrypted where e: "u_totpSecret u = Some encrypted"
        "second_factor env rq u encrypted (fs_store st1) = (Inr (True, recoveryUsed), s2)"
      using c(5,6) tc by (auto simp: check_second_def split: option.splits if_splits)
    then show ?thesis using second_factor_Inr [OF e(2) f(2)] by (auto simp: second_factor_of_def split: if_splits)
  qed
  have levels: "if u_totpConfirmed u
     then acr = loa2 \<and> (\<exists>recovery. second_factor_of env rq u recovery \<and> amr = [ff_method ff, if recovery then ''recovery'' else ''otp''])
     else acr = loa1 \<and> amr = [ff_method ff]"
  proof (cases "u_totpConfirmed u")
    case True
    have "amr = [ff_method ff, if recoveryUsed then ''recovery'' else ''otp'']"
      unfolding out(3) login_methods_def if_P [OF True] ..
    then show ?thesis using second [OF True] out(2) unfolding if_P [OF True] by blast
  next
    case False
    show ?thesis unfolding out(2,3) login_methods_def if_not_P [OF False] by blast
  qed
  show ?thesis
    using c(1-3,7,9) f(1) out(1) levels by blast
qed

definition totp_user :: user where
  "totp_user = normalizeUser 0 ''f'' (demo_input\<lparr>i_totpSecret := Some ''enc'', i_totpConfirmed := True\<rparr>)"

definition totp_state :: fed_state where
  "totp_state = \<lparr>fs_links = [], fs_store = empty_store\<lparr>st_users := [(''corp:u1'', totp_user)]\<rparr>\<rparr>"

lemma totp_user_simps [simp]:
  "u_id totp_user = ''u1''" "u_realm totp_user = ''corp''" "u_username totp_user = ''Ann''" "u_email totp_user = ''ann@x.io''"
  "u_lockedUntil totp_user = None" "u_lastTotpStep totp_user = None" "u_enabled totp_user" "u_passwordHash totp_user = Some ''h''"
  "u_totpSecret totp_user = Some ''enc''" "u_totpConfirmed totp_user"
  by (simp_all add: totp_user_def demo_eval)

lemma totp_reach: "fed_reach totp_state"
proof -
  have c: "createUser 0 ''f'' (demo_input\<lparr>i_totpSecret := Some ''enc'', i_totpConfirmed := True\<rparr>) empty_store =
      Inr (totp_user, empty_store\<lparr>st_users := [(''corp:u1'', totp_user)]\<rparr>)"
    by (simp add: createUser_def totp_user_def [symmetric] empty_store_def mvals_def ukey_def)
  have "store_step (fs_store \<lparr>fs_links = [], fs_store = empty_store\<rparr>) (empty_store\<lparr>st_users := [(''corp:u1'', totp_user)]\<rparr>)"
    using step_create [OF c] by (simp add: demo_input_def)
  from fed_next [OF fed_init f_store [OF this]] show ?thesis by (simp add: totp_state_def)
qed

definition demo_crypto :: crypto where
  "demo_crypto = \<lparr>cy_argon = id, cy_argonVerify = (\<lambda>h p. Some (h = ''h'')), cy_needsRehash = (\<lambda>_. Some False), cy_digest = (\<lambda>k v. v),
     cy_encrypt = (\<lambda>p c. p), cy_decrypt = (\<lambda>e c. Some e), cy_totpValidate = (\<lambda>s t n. Some 0),
     cy_verifyRegistration = (\<lambda>_ _ _ _. None), cy_verifyAuthentication = (\<lambda>_ _ _ _ _. None), cy_pepper = ''p''\<rparr>"

definition demo_login_env :: login_env where
  "demo_login_env = \<lparr>lv_realm = ''corp'', lv_crypto = demo_crypto, lv_webauthn = \<lparr>wn_origin = ''https://a'', wn_rpID = ''a''\<rparr>,
     lv_sig = (\<lambda>p k. ''s''), lv_num = (\<lambda>_. None), lv_csrfSecret = ''k'', lv_dummyPasswordHash = ''d'', lv_disabledHash = None,
     lv_ldap = None, lv_challengeTtl = 300, lv_isIP = (\<lambda>_. False), lv_parse_json = (\<lambda>_. None)\<rparr>"

definition demo_login :: login_request where
  "demo_login = \<lparr>lq_uid = ''x1'', lq_details = Some \<lparr>it_uid = ''x1'', it_prompt = Some ''login'', it_clientId = None\<rparr>,
     lq_body = JObj [(''csrf'', JStr (createCsrfToken (\<lambda>p k. ''s'') (form_subject ''corp'' ''x1'' ''login'') ''k'' 60000 ''n'')),
       (''login'', JStr ''Ann''), (''password'', JStr ''secret''), (''otp'', JStr ''123456'')],
     lq_ip = None, lq_userAgent = None, lq_limited = None, lq_now = 60000, lq_userId = ''f'', lq_auditId = ''e'',
     lq_publicKey = JUndef, lq_challengeId = ''c''\<rparr>"

lemma demo_form_token: "form_token_ok demo_login_env demo_login \<lparr>it_uid = ''x1'', it_prompt = Some ''login'', it_clientId = None\<rparr> ''login''"
proof -
  have i: "int_str (60000 div 1000) = [digit_char 6, digit_char 0]" by (simp add: int_str_def nat_str.simps)
  have d: "DOT \<notin> set (form_subject ''corp'' ''x1'' ''login'')" "DOT \<notin> set ''n''" "DOT \<notin> set ''s''"
    by (simp_all add: DOT_def form_subject_def)
  have l: "length (createCsrfToken (\<lambda>p k. ''s'') (form_subject ''corp'' ''x1'' ''login'') ''k'' 60000 ''n'') \<le> 512"
    by (simp add: createCsrfToken_def token_payload_def i [simplified] form_subject_def)
  have "verifyCsrfToken (\<lambda>p k. ''s'') (\<lambda>_. None) (JStr (createCsrfToken (\<lambda>p k. ''s'') (form_subject ''corp'' ''x1'' ''login'') ''k'' 60000 ''n''))
      (form_subject ''corp'' ''x1'' ''login'') ''k'' 60000 600"
    using verify_created [of "form_subject ''corp'' ''x1'' ''login''" "''n''" "\<lambda>p k. ''s''" 60000 "''k''" "\<lambda>_. None"
        "form_subject ''corp'' ''x1'' ''login''" "''k''" 60000 600, OF d(1,2) _ _ l] d(3)
    by (simp add: safe_integer_def)
  then show ?thesis by (simp add: form_token_ok_def demo_login_env_def demo_login_def)
qed

lemma demo_login_runs: "\<exists>st'. login_post demo_login_env demo_login totp_state = (SignedIn ''u1'' loa2 [''pwd'', ''otp''], st')"
proof -
  have name: "login_name demo_login = ''Ann''" "body_text demo_login ''password'' = ''secret''"
    by (simp_all add: login_name_def body_text_def demo_login_def js_defs)
  have user: "findUserByLogin ''corp'' ''Ann'' (fs_store totp_state) = Some totp_user"
    by (simp add: findUserByLogin_def totp_state_def mvals_def js_defs)
  have first: "first_factor demo_login_env demo_login totp_state =
      (Inr \<lparr>ff_user = Some totp_user, ff_ok = True, ff_method = ''pwd''\<rparr>, totp_state)"
    using name user by (simp add: first_factor_def demo_login_env_def demo_crypto_def verifyPassword_def stored_hash_def Let_def)
  have otp: "otp_re ''123456''" by (simp add: js_defs)
  have "\<exists>s'. consumeTotpStep 60000 ''corp'' ''u1'' 2 (fs_store totp_state) = (True, s')"
    by (simp add: consumeTotpStep_def update_user_def totp_state_def totpStep_row_def safe_integer_def ukey_def)
  then obtain s' where s': "consumeTotpStep 60000 ''corp'' ''u1'' 2 (fs_store totp_state) = (True, s')" ..
  have step: "totpStep demo_crypto ''enc'' (JStr ''123456'') 60000 = Some 2"
    using otp by (simp add: totpStep_def otp_text_def demo_crypto_def)
  have second: "check_second demo_login_env demo_login \<lparr>ff_user = Some totp_user, ff_ok = True, ff_method = ''pwd''\<rparr> (fs_store totp_state) =
      (Inr (True, False), s')"
    using s' step by (simp add: check_second_def second_factor_def demo_login_env_def demo_login_def login_locked_def)
      (simp add: demo_crypto_def)
  have inter: "interaction demo_login ''login'' = Some \<lparr>it_uid = ''x1'', it_prompt = Some ''login'', it_clientId = None\<rparr>"
    by (simp add: interaction_def demo_login_def)
  have free: "lq_limited demo_login = None" by (simp add: demo_login_def)
  have "\<not> needsPasswordRehash (lv_crypto demo_login_env) (u_passwordHash totp_user)"
    by (simp add: needsPasswordRehash_def demo_login_env_def demo_crypto_def)
  then show ?thesis
    using inter demo_form_token free first second
    by (simp add: login_post_def login_accepted_def login_methods_def login_locked_def)
qed

lemma login_requires_all_factors_witness:
  "\<exists>st' u. login_post demo_login_env demo_login totp_state = (SignedIn ''u1'' loa2 [''pwd'', ''otp''], st') \<and>
     first_factor_of demo_login_env demo_login totp_state u ''pwd'' \<and> second_factor_of demo_login_env demo_login u False"
proof -
  obtain st' where run: "login_post demo_login_env demo_login totp_state = (SignedIn ''u1'' loa2 [''pwd'', ''otp''], st')"
    using demo_login_runs by blast
  then show ?thesis
    using login_requires_all_factors [OF run totp_reach] by (auto split: if_splits)
qed

end
