(* ===== verification/Pages.thy ===== *)
theory Pages
  imports JsPrelude
begin

text \<open>
  The HTML pages of the service (\<open>src/ui/render.js\<close> and the sign-in page of \<open>src/ui/admin-render.js\<close>). A template literal is
  the list of its pieces: literal text, values that go through \<open>escapeHtml\<close> or \<open>encodeURIComponent\<close>, and markup of the
  OpenID Connect library. \<open>html\<close> joins them. Texts are UTF-8 bytes; an absent text is the empty one.
\<close>

section \<open>Values in a page\<close>

definition replaceAll :: "char \<Rightarrow> string \<Rightarrow> string \<Rightarrow> string" where
  "replaceAll c t s = concat (map (\<lambda>x. if x = c then t else [x]) s)"

definition escapeHtml :: "string \<Rightarrow> string" where
  "escapeHtml value = replaceAll (CHR 0x27) ''&#39;'' (replaceAll (CHR 0x22) ''&quot;'' (replaceAll (CHR ''>'') ''&gt;''
     (replaceAll (CHR ''<'') ''&lt;'' (replaceAll (CHR ''&'') ''&amp;'' value))))"

definition hex_digit :: "nat \<Rightarrow> char" where "hex_digit n = ''0123456789ABCDEF'' ! n"

definition uri_char :: "char \<Rightarrow> string" where
  "uri_char c = (if is_alnum c \<or> c \<in> set (CHR 0x27 # ''-_.!~*()'') then [c]
     else [CHR ''%'', hex_digit (of_char c div 16), hex_digit (of_char c mod 16)])"

definition encodeURIComponent :: "string \<Rightarrow> string" where "encodeURIComponent value = concat (map uri_char value)"

datatype piece = Lit string | Esc string | Enc string | Raw string

fun piece_text :: "piece \<Rightarrow> string" where
  "piece_text (Lit s) = s"
| "piece_text (Esc v) = escapeHtml v"
| "piece_text (Enc v) = encodeURIComponent v"
| "piece_text (Raw f) = f"

definition html :: "piece list \<Rightarrow> string" where "html ps = concat (map piece_text ps)"

definition middle_dot :: string where "middle_dot = [CHR 0xC2, CHR 0xB7]"
definition check_mark :: string where "check_mark = [CHR 0xE2, CHR 0x9C, CHR 0x93]"

section \<open>The layout\<close>

text \<open>\<open>shell\<close>, around every page.\<close>

definition shell :: "string \<Rightarrow> string \<Rightarrow> piece list \<Rightarrow> piece list \<Rightarrow> piece list" where
  "shell title realm body scripts =
     [Lit ''<!doctype html>\<newline><html lang=\"en\">\<newline><head>\<newline>  <meta charset=\"utf-8\">\<newline>  <meta name=\"viewport\" content=\"width=device-width, initial-scale=1\">\<newline>'',
      Lit ''  <meta name=\"color-scheme\" content=\"light dark\">\<newline>  <meta name=\"referrer\" content=\"no-referrer\">\<newline>'',
      Lit ''  <title>'',
      Esc title,
      Lit '' '',
      Lit middle_dot,
      Lit '' AuthMe</title>\<newline>  <link rel=\"stylesheet\" href=\"/assets/authme.css\">\<newline>  <link rel=\"stylesheet\" href=\"/assets/authme-passkeys.css\">\<newline>'',
      Lit ''</head>\<newline><body>\<newline>  <main class=\"auth-shell\">\<newline>    <section class=\"auth-card\" aria-labelledby=\"page-title\">\<newline>'',
      Lit ''      <header class=\"brand\"><span class=\"brand-mark\" aria-hidden=\"true\">A</span><span>AuthMe</span><span class=\"realm\">'',
      Esc realm,
      Lit ''</span></header>\<newline>      ''] @
     body @
     [Lit ''\<newline>    </section>\<newline>  </main>\<newline>  ''] @
     scripts @
     [Lit ''\<newline></body>\<newline></html>'']"

definition errorBanner :: "string \<Rightarrow> piece list" where
  "errorBanner message = (if message = [] then [] else
     [Lit ''<div class=\"alert\" role=\"alert\">'',
      Esc message,
      Lit ''</div>''])"

section \<open>The pages\<close>

record login_provider =
  lv_extensionId :: string
  lv_providerId :: string
  lv_csrfToken :: string
  lv_displayName :: string

definition federationForm :: "string \<Rightarrow> string \<Rightarrow> login_provider \<Rightarrow> piece list" where
  "federationForm realm uid p =
     [Lit ''\<newline>        <form method=\"post\" action=\"/realms/'',
      Enc realm,
      Lit ''/interaction/'',
      Enc uid,
      Lit ''/federation/'',
      Enc (lv_extensionId p),
      Lit ''/'',
      Enc (lv_providerId p),
      Lit ''\">\<newline>          <input type=\"hidden\" name=\"csrf\" value=\"'',
      Esc (lv_csrfToken p),
      Lit ''\">\<newline>          <button class=\"secondary\" type=\"submit\">Continue with '',
      Esc (lv_displayName p),
      Lit ''</button>\<newline>        </form>'']"

definition loginBody :: "string \<Rightarrow> string \<Rightarrow> string \<Rightarrow> string \<Rightarrow> string \<Rightarrow> string \<Rightarrow> login_provider list \<Rightarrow> piece list" where
  "loginBody realm uid csrfToken clientName login error federationProviders =
     [Lit ''<div class=\"heading\"><p class=\"eyebrow\">Secure sign-in</p><h1 id=\"page-title\">Welcome back</h1><p>Continue to <strong>'',
      Esc clientName,
      Lit ''</strong>.</p></div>\<newline>      ''] @
     errorBanner error @
     [Lit ''\<newline>      <form method=\"post\" action=\"/realms/'',
      Enc realm,
      Lit ''/interaction/'',
      Enc uid,
      Lit ''/login\" autocomplete=\"on\" data-password-login>\<newline>        <input type=\"hidden\" name=\"csrf\" value=\"'',
      Esc csrfToken,
      Lit ''\">\<newline>        <label>Email or username<input name=\"login\" value=\"'',
      Esc login,
      Lit ''\" autocomplete=\"username\" maxlength=\"254\" required autofocus></label>\<newline>        <label>Password<input name=\"password\" type=\"password\" autocomplete=\"current-password\" maxlength=\"1024\" required></label>\<newline>'',
      Lit ''        <label>Authenticator or recovery code <span class=\"optional\">if enabled</span><input name=\"otp\" inputmode=\"numeric\" autocomplete=\"one-time-code\" maxlength=\"32\"></label>\<newline>'',
      Lit ''        <button class=\"primary\" type=\"submit\">Sign in securely</button>\<newline>      </form>\<newline>      <div class=\"auth-divider\" aria-hidden=\"true\"><span>or</span></div>\<newline>'',
      Lit ''      <button class=\"secondary passkey-button\" type=\"button\" hidden\<newline>        data-passkey-options=\"/realms/'',
      Enc realm,
      Lit ''/interaction/'',
      Enc uid,
      Lit ''/passkey/options\"\<newline>        data-passkey-verify=\"/realms/'',
      Enc realm,
      Lit ''/interaction/'',
      Enc uid,
      Lit ''/passkey\">Sign in with a passkey</button>\<newline>      <p class=\"passkey-status\" data-passkey-status aria-live=\"polite\"></p>\<newline>'',
      Lit ''      ''] @
     (if federationProviders = [] then [] else
        [Lit ''<div class=\"federation-options\" aria-label=\"Federated sign-in options\">''] @
        concat (map (federationForm realm uid) federationProviders) @ [Lit ''</div>'']) @
     [Lit ''\<newline>      <p class=\"fine-print\">Protected by PKCE, short-lived sessions, brute-force controls, and auditable access.</p>'']"

definition renderLogin :: "string \<Rightarrow> string \<Rightarrow> string \<Rightarrow> string \<Rightarrow> string \<Rightarrow> string \<Rightarrow> login_provider list \<Rightarrow> piece list" where
  "renderLogin realm uid csrfToken clientName login error federationProviders =
     shell ''Sign in'' realm (loginBody realm uid csrfToken clientName login error federationProviders)
       [Lit ''<script type=\"module\" src=\"/assets/authme-passkeys.js\"></script>'']"

text \<open>\<open>scopeDescription\<close>; \<open>inherited\<close> is the text of a property every object inherits (as \<open>constructor\<close>).\<close>

definition scope_texts :: "(string \<times> string) list" where
  "scope_texts = [(''openid'', ''Confirm your identity with a stable subject identifier.''),
     (''profile'', ''Read your name and basic profile information.''),
     (''email'', ''Read your email address and verification status.''),
     (''phone'', ''Read your phone number and verification status.''),
     (''address'', ''Read your saved address information.''),
     (''roles'', ''Read your realm and application roles.''),
     (''groups'', ''Read your group memberships.''),
     (''offline_access'', ''Stay signed in using a rotating refresh token.'')]"

definition scopeDescription :: "(string \<Rightarrow> string option) \<Rightarrow> string \<Rightarrow> string" where
  "scopeDescription inherited scope =
     (if js_starts ''claim:'' scope then ''Share the requested '' @ drop 6 scope @ '' identity claim.''
      else if js_starts ''resource:'' scope then ''Grant this permission for the named protected resource.''
      else (case mget scope_texts scope of
              Some t \<Rightarrow> t
            | None \<Rightarrow> (case inherited scope of Some t \<Rightarrow> t | None \<Rightarrow> ''Use this delegated permission.'')))"

definition scopeItem :: "(string \<Rightarrow> string option) \<Rightarrow> string \<Rightarrow> piece list" where
  "scopeItem inherited scope =
     [Lit ''<li><span class=\"scope-icon\" aria-hidden=\"true\">'',
      Lit check_mark,
      Lit ''</span><span><strong>'',
      Esc scope,
      Lit ''</strong><small>'',
      Esc (scopeDescription inherited scope),
      Lit ''</small></span></li>'']"

definition consentBody :: "(string \<Rightarrow> string option) \<Rightarrow> string \<Rightarrow> string \<Rightarrow> string \<Rightarrow> string \<Rightarrow> string list \<Rightarrow> piece list" where
  "consentBody inherited realm uid csrfToken clientName scopes =
     [Lit ''<div class=\"heading\"><p class=\"eyebrow\">Authorization request</p><h1 id=\"page-title\">Allow '',
      Esc clientName,
      Lit ''?</h1><p>This application is requesting access to:</p></div>\<newline>      <ul class=\"scope-list\">''] @
     concat (map (scopeItem inherited) scopes) @
     [Lit ''</ul>\<newline>      <div class=\"consent-actions\">\<newline>        <form method=\"post\" action=\"/realms/'',
      Enc realm,
      Lit ''/interaction/'',
      Enc uid,
      Lit ''/confirm\">\<newline>          <input type=\"hidden\" name=\"csrf\" value=\"'',
      Esc csrfToken,
      Lit ''\"><button class=\"primary\" type=\"submit\">Allow access</button>\<newline>        </form>\<newline>        <form method=\"post\" action=\"/realms/'',
      Enc realm,
      Lit ''/interaction/'',
      Enc uid,
      Lit ''/abort\">\<newline>          <input type=\"hidden\" name=\"csrf\" value=\"'',
      Esc csrfToken,
      Lit ''\"><button class=\"secondary\" type=\"submit\">Deny</button>\<newline>        </form>\<newline>      </div>\<newline>      <p class=\"fine-print\">You can revoke this consent later. AuthMe never shares your password with applications.</p>'']"

definition renderConsent :: "(string \<Rightarrow> string option) \<Rightarrow> string \<Rightarrow> string \<Rightarrow> string \<Rightarrow> string \<Rightarrow> string list \<Rightarrow> piece list" where
  "renderConsent inherited realm uid csrfToken clientName scopes =
     shell ''Authorize application'' realm (consentBody inherited realm uid csrfToken clientName scopes) []"

definition renderError :: "string \<Rightarrow> string \<Rightarrow> string \<Rightarrow> piece list" where
  "renderError realm title message = shell title realm
     ([Lit ''<div class=\"heading\"><p class=\"eyebrow\">AuthMe</p><h1 id=\"page-title\">'',
      Esc title,
      Lit ''</h1><p>'',
      Esc message,
      Lit ''</p></div><a class=\"button-link\" href=\"/\">Return to AuthMe</a>'']) []"

text \<open>\<open>form\<close> is markup of the library.\<close>

definition renderDeviceInput :: "string \<Rightarrow> string \<Rightarrow> string \<Rightarrow> piece list" where
  "renderDeviceInput realm form error = shell ''Connect a device'' realm
     ([Lit ''<div class=\"heading\"><p class=\"eyebrow\">Device authorization</p><h1 id=\"page-title\">Enter your device code</h1><p>Use the one-time code shown on the device you are connecting.</p></div>\<newline>'',
      Lit ''      ''] @
     errorBanner error @
     [Lit ''\<newline>      '',
      Raw form,
      Lit ''\<newline>      <button class=\"primary\" type=\"submit\" form=\"op.deviceInputForm\">Continue securely</button>\<newline>'',
      Lit ''      <p class=\"fine-print\">Only continue if you initiated this request. Device codes expire automatically.</p>'']) []"

definition renderDeviceConfirmation :: "string \<Rightarrow> string \<Rightarrow> string \<Rightarrow> string \<Rightarrow> piece list" where
  "renderDeviceConfirmation realm form clientName userCode = shell ''Confirm device'' realm
     ([Lit ''<div class=\"heading\"><p class=\"eyebrow\">Device authorization</p><h1 id=\"page-title\">Confirm this device</h1><p><strong>'',
      Esc clientName,
      Lit ''</strong> is asking you to connect.</p></div>\<newline>      <div class=\"device-code\" aria-label=\"Device code\">'',
      Esc userCode,
      Lit ''</div>\<newline>      '',
      Raw form,
      Lit ''\<newline>      <div class=\"consent-actions\">\<newline>        <button class=\"primary\" type=\"submit\" form=\"op.deviceConfirmForm\">Confirm device</button>\<newline>'',
      Lit ''        <button class=\"secondary\" type=\"submit\" form=\"op.deviceConfirmForm\" name=\"abort\" value=\"yes\">Deny</button>\<newline>'',
      Lit ''      </div>\<newline>      <p class=\"fine-print\">The code must match the one on your device. Deny the request if you do not recognize it.</p>'']) []"

definition renderDeviceSuccess :: "string \<Rightarrow> string \<Rightarrow> piece list" where
  "renderDeviceSuccess realm clientName = shell ''Device connected'' realm
     ([Lit ''<div class=\"heading\"><p class=\"eyebrow\">Authorization complete</p><h1 id=\"page-title\">Device connected</h1><p>You approved <strong>'',
      Esc clientName,
      Lit ''</strong>. You can safely close this page.</p></div>\<newline>      <a class=\"button-link\" href=\"/\">Return to AuthMe</a>'']) []"

definition for_client :: "string \<Rightarrow> piece list" where
  "for_client clientName = (if clientName = [] then [] else [Lit '' for <strong>'', Esc clientName, Lit ''</strong>''])"

definition renderLogoutConfirmation :: "string \<Rightarrow> string \<Rightarrow> string \<Rightarrow> piece list" where
  "renderLogoutConfirmation realm form clientName = shell ''Sign out'' realm
     ([Lit ''<div class=\"heading\"><p class=\"eyebrow\">Session security</p><h1 id=\"page-title\">Sign out now?</h1><p>End your AuthMe session''] @
     for_client clientName @
     [Lit ''.</p></div>\<newline>      '',
      Raw form,
      Lit ''\<newline>      <div class=\"consent-actions\">\<newline>        <button class=\"primary\" type=\"submit\" form=\"op.logoutForm\" name=\"logout\" value=\"yes\">Yes, sign me out</button>\<newline>'',
      Lit ''        <button class=\"secondary\" type=\"submit\" form=\"op.logoutForm\">Stay signed in</button>\<newline>'',
      Lit ''      </div>\<newline>      <p class=\"fine-print\">Signing out prevents this browser session from authorizing new requests.</p>'']) []"

definition renderLogoutSuccess :: "string \<Rightarrow> string \<Rightarrow> piece list" where
  "renderLogoutSuccess realm clientName = shell ''Signed out'' realm
     ([Lit ''<div class=\"heading\"><p class=\"eyebrow\">Session ended</p><h1 id=\"page-title\">You are signed out</h1><p>Your AuthMe session''] @
     for_client clientName @
     [Lit '' has ended safely.</p></div>\<newline>      <a class=\"button-link\" href=\"/\">Return to AuthMe</a>'']) []"

section \<open>The sign-in page of the console\<close>

text \<open>\<open>realmOptions\<close>, for realms given by name.\<close>

definition realmOptions :: "string list \<Rightarrow> piece list" where
  "realmOptions realms =
     (let names = filter (\<lambda>n. n \<noteq> []) realms in
      if names = [] then [Lit ''<option value=\"master\">master</option>'']
      else concat (map (\<lambda>realm.
        [Lit ''<option value=\"'',
         Esc realm,
         Lit ''\">'',
         Esc realm,
         Lit ''</option>'']) names))"

definition documentHead :: "string \<Rightarrow> piece list" where
  "documentHead title =
     [Lit ''<meta charset=\"utf-8\">\<newline>  <meta name=\"viewport\" content=\"width=device-width,initial-scale=1\">\<newline>'',
      Lit ''  <meta name=\"color-scheme\" content=\"light dark\">\<newline>  <meta name=\"referrer\" content=\"no-referrer\">\<newline>'',
      Lit ''  <title>'',
      Esc title,
      Lit '' '',
      Lit middle_dot,
      Lit '' AuthMe</title>\<newline>  <link rel=\"stylesheet\" href=\"/admin/assets/admin-console.css\">'']"

definition errorMarkup :: "string \<Rightarrow> piece list" where
  "errorMarkup error = (if error = [] then [] else
     [Lit ''<div class=\"login-alert\" role=\"alert\"><span aria-hidden=\"true\">!</span><p>'',
      Esc error,
      Lit ''</p></div>''])"

definition renderAdminLogin :: "string list \<Rightarrow> string \<Rightarrow> piece list" where
  "renderAdminLogin realms error =
     [Lit ''<!doctype html>\<newline><html lang=\"en\">\<newline><head>\<newline>  ''] @
     documentHead ''Administration sign in'' @
     [Lit ''\<newline></head>\<newline><body class=\"admin-login-page\">\<newline>  <main class=\"admin-login-shell\">\<newline>    <section class=\"admin-login-story\" aria-label=\"AuthMe administration\">\<newline>'',
      Lit ''      <a class=\"login-brand\" href=\"/\" aria-label=\"AuthMe home\">\<newline>        <span class=\"brand-glyph\" aria-hidden=\"true\"><span>A</span></span>\<newline>'',
      Lit ''        <span>AuthMe</span>\<newline>      </a>\<newline>      <div class=\"login-story-copy\">\<newline>        <p class=\"kicker\">Identity operations, clearly managed</p>\<newline>'',
      Lit ''        <h1>One secure place for your identity infrastructure.</h1>\<newline>        <p>Manage people, applications, federation, and security events without exposing deployment credentials to the browser.</p>\<newline>'',
      Lit ''      </div>\<newline>      <ul class=\"login-assurances\" aria-label=\"Security protections\">\<newline>        <li><span aria-hidden=\"true\">'',
      Lit check_mark,
      Lit ''</span>HttpOnly administrator session</li>\<newline>        <li><span aria-hidden=\"true\">'',
      Lit check_mark,
      Lit ''</span>Realm-scoped access</li>\<newline>        <li><span aria-hidden=\"true\">'',
      Lit check_mark,
      Lit ''</span>Audited security changes</li>\<newline>      </ul>\<newline>    </section>\<newline>    <section class=\"admin-login-card\" aria-labelledby=\"login-title\">\<newline>'',
      Lit ''      <div class=\"login-card-heading\">\<newline>        <span class=\"mobile-brand-mark\" aria-hidden=\"true\">A</span>\<newline>'',
      Lit ''        <p class=\"kicker\">Administration console</p>\<newline>        <h2 id=\"login-title\">Welcome back</h2>\<newline>'',
      Lit ''        <p>Choose the realm you want to manage, then continue through AuthMe's protected sign-in.</p>\<newline>'',
      Lit ''      </div>\<newline>      ''] @
     errorMarkup error @
     [Lit ''\<newline>      <form class=\"admin-login-form\" method=\"post\" action=\"/admin/ui/login\" autocomplete=\"on\">\<newline>'',
      Lit ''        <label for=\"admin-realm\">Realm</label>\<newline>        <div class=\"field-control select-control\">\<newline>'',
      Lit ''          <select id=\"admin-realm\" name=\"realm\" required autofocus>''] @
     realmOptions realms @
     [Lit ''</select>\<newline>        </div>\<newline>        <button class=\"button button-primary button-large\" type=\"submit\">Continue securely</button>\<newline>'',
      Lit ''      </form>\<newline>      <p class=\"login-fine-print\">Your session stays in a protected, HttpOnly cookie. AuthMe never places administration tokens in browser storage.</p>\<newline>'',
      Lit ''    </section>\<newline>  </main>\<newline></body>\<newline></html>'']"
end
