(* ===== verification/InteractionPage.thy ===== *)
theory InteractionPage
  imports LoginProps Pages
begin

text \<open>
  The page of an interaction (\<open>GET /realms/:realm/interaction/:uid\<close> of \<open>src/routes/interactions.js\<close>): the sign-in page with its form
  tokens and the buttons of the upstream providers, or the consent page with what is asked for. The page is the
  list of pieces of Pages. The identifiers and names of upstream providers are texts, as their schemas make them.
\<close>

section \<open>The page\<close>

text \<open>A request with the parameters and the prompt of its interaction, and the client the library found.\<close>

record page_request =
  pq_login :: login_request
  pq_params :: json
  pq_prompt_details :: json
  pq_client :: "json option"

datatype page_reply =
    SignInPage "piece list"
  | ConsentPage "piece list"
  | PageFailure "nat option"

text \<open>\<open>client.clientName || client.clientId\<close>. The only exception of the page's own code is a \<open>TypeError\<close>, \<open>Inl ()\<close>: here for no client.\<close>

definition interactionClientName :: "json option \<Rightarrow> unit + string" where
  "interactionClientName client =
     (case client of
        None \<Rightarrow> Inl ()
      | Some c \<Rightarrow> Inr (js_String (if truthy (jprop c ''clientName'') then jprop c ''clientName'' else jprop c ''clientId'')))"

definition provider_button ::
    "login_env \<Rightarrow> (federation_binding \<Rightarrow> string) \<Rightarrow> int \<Rightarrow> string \<Rightarrow> string \<Rightarrow> json \<Rightarrow> unit + login_provider" where
  "provider_button env nonce now interactionUid extensionId p =
     (if nullish p then Inl ()
      else (let b = \<lparr>bd_realm = lv_realm env, bd_interactionUid = interactionUid, bd_extensionId = extensionId,
                     bd_providerId = js_String (jprop p ''id'')\<rparr>
            in Inr \<lparr>lv_extensionId = extensionId, lv_providerId = js_String (jprop p ''id''),
                    lv_csrfToken = createFederationInitiationCsrfToken (lv_sig env) b (lv_csrfSecret env) now (nonce b),
                    lv_displayName = js_String (jprop p ''displayName'')\<rparr>))"

text \<open>\<open>implementation.providersFor?.(realm) ?? []\<close>, which is mapped over.\<close>

definition providers_of :: "'s extension \<Rightarrow> string \<Rightarrow> unit + json list" where
  "providers_of e realm =
     (case im_providersFor (ex_implementation e) of
        slot.Absent \<Rightarrow> Inr []
      | NotFunction \<Rightarrow> Inl ()
      | Method f \<Rightarrow> (case f realm of JArr ps \<Rightarrow> Inr ps | v \<Rightarrow> if nullish v then Inr [] else Inl ()))"

text \<open>\<open>None\<close> stands for an application without a registry.\<close>

definition federationProviders ::
    "login_env \<Rightarrow> 's registry option \<Rightarrow> (federation_binding \<Rightarrow> string) \<Rightarrow> int \<Rightarrow> string \<Rightarrow> unit + login_provider list" where
  "federationProviders env registry nonce now interactionUid =
     (case registry of
        None \<Rightarrow> Inr []
      | Some r \<Rightarrow>
          (case forRealm ''federation'' (lv_realm env) r of
             Inl _ \<Rightarrow> Inl ()
           | Inr entries \<Rightarrow>
               bindR (mapR (\<lambda>e. bindR (providers_of e (lv_realm env))
                 (mapR (provider_button env nonce now interactionUid (js_String (mf_id (ex_manifest e)))))) entries) (\<lambda>buttons.
               Inr (concat buttons))))"

definition loginView ::
    "login_env \<Rightarrow> 's registry option \<Rightarrow> (federation_binding \<Rightarrow> string) \<Rightarrow> string \<Rightarrow> int \<Rightarrow> string \<Rightarrow> string \<Rightarrow> string \<Rightarrow> string \<Rightarrow>
     unit + piece list" where
  "loginView env registry nonce formNonce now uid clientName login error =
     bindR (federationProviders env registry nonce now uid) (\<lambda>providers.
       Inr (renderLogin (lv_realm env) uid
         (createCsrfToken (lv_sig env) (form_subject (lv_realm env) uid ''login'') (lv_csrfSecret env) now formNonce)
         clientName login error providers))"

text \<open>A value that is spread_texts into an array: an array, or a text by its characters.\<close>

definition spread_texts :: "json \<Rightarrow> unit + string list" where
  "spread_texts v = (case v of JArr xs \<Rightarrow> Inr (map js_String xs) | JStr s \<Rightarrow> Inr (map (\<lambda>c. [c]) s) | _ \<Rightarrow> Inl ())"

definition array_or_none :: "json \<Rightarrow> unit + string list" where
  "array_or_none v = (if nullish v then Inr [] else case v of JArr xs \<Rightarrow> Inr (map js_String xs) | _ \<Rightarrow> Inl ())"

definition consent_scopes :: "json \<Rightarrow> json \<Rightarrow> unit + string list" where
  "consent_scopes details params =
     bindR (if nullish (jprop details ''missingOIDCScope'')
            then Inr (filter (\<lambda>t. t \<noteq> []) (js_split (CHR '' '') (if nullish (jprop params ''scope'') then [] else js_String (jprop params ''scope''))))
            else spread_texts (jprop details ''missingOIDCScope'')) (\<lambda>scopes.
     bindR (array_or_none (jprop details ''missingOIDCClaims'')) (\<lambda>claims.
     bindR (mapR (\<lambda>(resource, v). case v of
              JArr xs \<Rightarrow> Inr (map (\<lambda>x. ''resource:'' @ resource @ CHR '':'' # js_String x) xs) | _ \<Rightarrow> Inl ())
            (jentries (jprop details ''missingResourceScopes''))) (\<lambda>resourceScopes.
       Inr (js_uniq (scopes @ map (\<lambda>c. ''claim:'' @ c) claims @ concat resourceScopes)))))"

definition reply_of :: "unit + page_reply \<Rightarrow> page_reply" where
  "reply_of r = (case r of Inl e \<Rightarrow> PageFailure None | Inr p \<Rightarrow> p)"

text \<open>\<open>inherited\<close> is what Pages needs for a scope that names a property of every object.\<close>

definition interaction_page ::
    "login_env \<Rightarrow> 's registry option \<Rightarrow> (string \<Rightarrow> string option) \<Rightarrow> (federation_binding \<Rightarrow> string) \<Rightarrow> string \<Rightarrow> page_request \<Rightarrow> page_reply" where
  "interaction_page env registry inherited nonce formNonce pq =
     (let rq = pq_login pq in
      case lq_details rq of
        None \<Rightarrow> PageFailure (Some 400)
      | Some d \<Rightarrow>
          if it_uid d \<noteq> lq_uid rq then PageFailure (Some 400)
          else if it_prompt d = Some ''login'' then
            reply_of (bindR (interactionClientName (pq_client pq)) (\<lambda>name.
              bindR (loginView env registry nonce formNonce (lq_now rq) (it_uid d) name [] []) (\<lambda>p. Inr (SignInPage p))))
          else if it_prompt d = Some ''consent'' then
            reply_of (bindR (consent_scopes (pq_prompt_details pq) (pq_params pq)) (\<lambda>scopes.
              bindR (interactionClientName (pq_client pq)) (\<lambda>name.
                Inr (ConsentPage (renderConsent inherited (lv_realm env) (it_uid d)
                  (createCsrfToken (lv_sig env) (form_subject (lv_realm env) (it_uid d) ''consent'') (lv_csrfSecret env) (lq_now rq) formNonce)
                  name scopes)))))
          else PageFailure (Some 400))"

section \<open>The forms of the page are accepted\<close>

lemma reply_of_page: "reply_of r = SignInPage p \<Longrightarrow> r = Inr (SignInPage p)"
  by (auto simp: reply_of_def split: sum.splits)

lemma form_subject_inj:
  "form_subject r u k = form_subject r u' k' \<longleftrightarrow> u = u' \<and> k = k'" if "k \<in> {''login'', ''consent''}" "k' \<in> {''login'', ''consent''}"
proof -
  have "k = k'" if e: "u @ CHR '':'' # k = u' @ CHR '':'' # k'"
  proof -
    have "last (u @ CHR '':'' # k) = last (u' @ CHR '':'' # k')" using e by simp
    then show ?thesis using \<open>k \<in> _\<close> \<open>k' \<in> _\<close> by auto
  qed
  then show ?thesis by (auto simp: form_subject_def)
qed

lemma provider_button_shape:
  assumes "provider_button env nonce now uid x p = Inr b"
  shows "lv_extensionId b = x \<and> lv_providerId b = js_String (jprop p ''id'') \<and>
    lv_csrfToken b = (let i = \<lparr>bd_realm = lv_realm env, bd_interactionUid = uid, bd_extensionId = x, bd_providerId = lv_providerId b\<rparr>
      in createFederationInitiationCsrfToken (lv_sig env) i (lv_csrfSecret env) now (nonce i))"
  using assms by (auto simp: provider_button_def Let_def split: if_splits)

text \<open>A button stands for a provider of a federation extension that is enabled for the realm.\<close>

lemma button_of_registry:
  assumes "federationProviders env (Some r) nonce now uid = Inr buttons" "b \<in> set buttons"
  obtains e f ps p where "e \<in> set (mvals r)" "mf_kind (ex_manifest e) = ''federation''" "enabled_for (ex_implementation e) (lv_realm env)"
    "im_providersFor (ex_implementation e) = Method f" "f (lv_realm env) = JArr ps" "p \<in> set ps"
    "provider_button env nonce now uid (js_String (mf_id (ex_manifest e))) p = Inr b"
proof -
  obtain entries bs where es: "forRealm ''federation'' (lv_realm env) r = Inr entries"
      "mapR (\<lambda>e. bindR (providers_of e (lv_realm env)) (mapR (provider_button env nonce now uid (js_String (mf_id (ex_manifest e)))))) entries = Inr bs"
      "buttons = concat bs"
    using assms(1) by (auto simp: federationProviders_def split: sum.splits)
  obtain bl where bl: "bl \<in> set bs" "b \<in> set bl" using assms(2) es(3) by auto
  obtain e where e: "e \<in> set entries"
      "bindR (providers_of e (lv_realm env)) (mapR (provider_button env nonce now uid (js_String (mf_id (ex_manifest e))))) = Inr bl"
    using mapR_in_set [OF es(2) bl(1)] by auto
  then obtain ps where ps: "providers_of e (lv_realm env) = Inr ps"
      "mapR (provider_button env nonce now uid (js_String (mf_id (ex_manifest e)))) ps = Inr bl" by auto
  obtain p where p: "p \<in> set ps" "provider_button env nonce now uid (js_String (mf_id (ex_manifest e))) p = Inr b"
    using mapR_in_set [OF ps(2) bl(2)] by auto
  have m: "e \<in> set (mvals r)" "mf_kind (ex_manifest e) = ''federation''" "enabled_for (ex_implementation e) (lv_realm env)"
    using es(1) e(1) by (auto simp: forRealm_def split: if_splits)
  obtain f where "im_providersFor (ex_implementation e) = Method f" "f (lv_realm env) = JArr ps"
    using ps(1) p(1) by (auto simp: providers_of_def split: slot.splits json.splits if_splits)
  then show ?thesis using m p by (rule_tac that [of e f ps p])
qed

text \<open>Within the ten minutes of a form token.\<close>

definition in_time :: "int \<Rightarrow> int \<Rightarrow> bool" where
  "in_time made later \<longleftrightarrow> - 30 \<le> later div 1000 - made div 1000 \<and> later div 1000 - made div 1000 \<le> 600"

definition binding_of :: "login_env \<Rightarrow> string \<Rightarrow> login_provider \<Rightarrow> federation_binding" where
  "binding_of env uid b = \<lparr>bd_realm = lv_realm env, bd_interactionUid = uid, bd_extensionId = lv_extensionId b, bd_providerId = lv_providerId b\<rparr>"

lemma button_token:
  assumes "provider_button env nonce now uid x p = Inr b" "length (lv_csrfToken b) \<le> 512"
    and "\<forall>p. DOT \<notin> set (lv_sig env p (lv_csrfSecret env))" "\<forall>b. DOT \<notin> set (nonce b)" "safe_integer (now div 1000)"
  shows "verifyCsrfToken (lv_sig env) num (JStr (lv_csrfToken b)) (csrfSubject i) (lv_csrfSecret env) later 600 \<longleftrightarrow>
    i = binding_of env uid b \<and> in_time now later"
proof -
  have t: "lv_csrfToken b = createCsrfToken (lv_sig env) (csrfSubject (binding_of env uid b)) (lv_csrfSecret env) now (nonce (binding_of env uid b))"
    using provider_button_shape [OF assms(1)] by (simp add: Let_def createFederationInitiationCsrfToken_def binding_of_def)
  show ?thesis unfolding t
    using assms(2-5) csrfSubject_inj [of i "binding_of env uid b"]
    by (subst verify_created) (auto simp: t csrfSubject_no_dot in_time_def)
qed

text \<open>Identifiers that are texts, as the schemas of the configuration make them.\<close>

definition text_ids :: "'s registry \<Rightarrow> string \<Rightarrow> bool" where
  "text_ids r realm \<longleftrightarrow> (\<forall>e\<in>set (mvals r). is_str (mf_id (ex_manifest e)) \<and>
     (case im_providersFor (ex_implementation e) of
        Method f \<Rightarrow> (case f realm of JArr ps \<Rightarrow> list_all (\<lambda>p. is_str (jprop p ''id'')) ps | _ \<Rightarrow> True) | _ \<Rightarrow> True))"

lemma button_extension:
  assumes r: "registry_ok r" "text_ids r (lv_realm env)"
    and buttons: "federationProviders env (Some r) nonce now uid = Inr buttons" "b \<in> set buttons"
    and p: "fed_provider_id_re (lv_providerId b)"
  shows "\<exists>e\<in>set (mvals r). \<forall>cap\<in>set (mf_capabilities (ex_manifest e)).
    extensionFor r (lv_realm env) (lv_extensionId b) (lv_providerId b) cap = Inr e"
proof (rule button_of_registry [OF buttons])
  fix e f ps q
  assume e: "e \<in> set (mvals r)" "mf_kind (ex_manifest e) = ''federation''" "enabled_for (ex_implementation e) (lv_realm env)"
      "im_providersFor (ex_implementation e) = Method f" "f (lv_realm env) = JArr ps" "q \<in> set ps"
      "provider_button env nonce now uid (js_String (mf_id (ex_manifest e))) q = Inr b"
  note shape = provider_button_shape [OF e(7)]
  have ids: "mf_id (ex_manifest e) = JStr (lv_extensionId b)" "jprop q ''id'' = JStr (lv_providerId b)"
  proof -
    have s: "is_str (mf_id (ex_manifest e))" "is_str (jprop q ''id'')"
      using r(2) e(1,4-6) by (auto simp: text_ids_def list_all_iff)
    have str: "is_str v \<Longrightarrow> v = JStr (js_String v)" for v by (cases v) simp_all
    show "mf_id (ex_manifest e) = JStr (lv_extensionId b)" "jprop q ''id'' = JStr (lv_providerId b)"
      using str [OF s(1)] str [OF s(2)] shape by simp_all
  qed
  obtain k where k: "mget r k = Some e" using r(1) e(1) by (auto simp: registry_ok_def set_mvals)
  have "mf_id (ex_manifest e) = k \<and> extension_id_re (js_String k)" using r(1) k unfolding registry_ok_def by blast
  then have x: "k = JStr (lv_extensionId b)" "extension_id_re (js_String k)" using ids(1) by simp_all
  then have "extension_id_re (lv_extensionId b)" by simp
  with x have "get_extension (JStr (lv_extensionId b)) (Some ''federation'') r = Some e" "extension_id_re (lv_extensionId b)"
    using k e(2) by (simp_all add: get_extension_def)
  moreover have "\<exists>x\<in>set ps. jprop x ''id'' = JStr (lv_providerId b)" using e(6) ids(2) by blast
  ultimately have "extensionFor r (lv_realm env) (lv_extensionId b) (lv_providerId b) cap = Inr e" if "cap \<in> set (mf_capabilities (ex_manifest e))" for cap
    using p e(3-5) that by (simp add: extensionFor_def Let_def)
  then show ?thesis using e(1) by blast
qed

text \<open>C37: 
  What the sign-in page offers works, for ten minutes and for this interaction only: the token of its form is accepted by the
  sign-in handlers exactly for the same interaction, and not by the consent handlers; every provider button carries a token
  that is accepted exactly for that provider, and the extension it names is one the federation routes find.
\<close>

theorem sign_in_page_usable:
  assumes page: "interaction_page env (Some r) inherited nonce formNonce pq = SignInPage pieces"
    and r: "registry_ok r" "text_ids r (lv_realm env)"
    and dots: "\<forall>p. DOT \<notin> set (lv_sig env p (lv_csrfSecret env))" "\<forall>b. DOT \<notin> set (nonce b)" "DOT \<notin> set formNonce"
      "DOT \<notin> set (lv_realm env)" "DOT \<notin> set (lq_uid (pq_login pq))"
    and now: "safe_integer (lq_now (pq_login pq) div 1000)"
  shows "\<exists>tok name buttons. pieces = renderLogin (lv_realm env) (lq_uid (pq_login pq)) tok name [] [] buttons \<and>
    (length tok \<le> 512 \<longrightarrow> (\<forall>rq d kind. kind \<in> {''login'', ''consent''} \<longrightarrow>
       (form_token_ok env (rq\<lparr>lq_body := JObj [(''csrf'', JStr tok)]\<rparr>) d kind \<longleftrightarrow>
        kind = ''login'' \<and> it_uid d = lq_uid (pq_login pq) \<and> in_time (lq_now (pq_login pq)) (lq_now rq)))) \<and>
    (\<forall>b\<in>set buttons. length (lv_csrfToken b) \<le> 512 \<longrightarrow>
       (\<forall>i later. verifyCsrfToken (lv_sig env) (lv_num env) (JStr (lv_csrfToken b)) (csrfSubject i) (lv_csrfSecret env) later 600 \<longleftrightarrow>
          i = binding_of env (lq_uid (pq_login pq)) b \<and> in_time (lq_now (pq_login pq)) later)) \<and>
    (\<forall>b\<in>set buttons. fed_provider_id_re (lv_providerId b) \<longrightarrow>
       (\<exists>e\<in>set (mvals r). \<forall>cap\<in>set (mf_capabilities (ex_manifest e)).
          extensionFor r (lv_realm env) (lv_extensionId b) (lv_providerId b) cap = Inr e))"
proof -
  let ?u = "lq_uid (pq_login pq)" and ?now = "lq_now (pq_login pq)" and ?r = "lv_realm env"
  define tok where "tok = createCsrfToken (lv_sig env) (form_subject ?r ?u ''login'') (lv_csrfSecret env) ?now formNonce"
  obtain name buttons where b: "federationProviders env (Some r) nonce ?now ?u = Inr buttons"
      and pieces: "pieces = renderLogin ?r ?u tok name [] [] buttons"
    using page by (auto simp: interaction_page_def Let_def loginView_def bindR_def tok_def dest!: reply_of_page
        split: option.splits if_splits sum.splits)
  have "DOT \<notin> set (form_subject ?r ?u ''login'')" using dots(4,5) by (simp add: form_subject_def DOT_def)
  then have form: "form_token_ok env (rq\<lparr>lq_body := JObj [(''csrf'', JStr tok)]\<rparr>) d kind \<longleftrightarrow>
      kind = ''login'' \<and> it_uid d = ?u \<and> in_time ?now (lq_now rq)" if "length tok \<le> 512" "kind \<in> {''login'', ''consent''}" for rq d kind
    using verify_created [of "form_subject ?r ?u ''login''" formNonce "lv_sig env" ?now "lv_csrfSecret env" "lv_num env"
        "form_subject ?r (it_uid d) kind" "lv_csrfSecret env" "lq_now rq" 600] dots(1,3) now that form_subject_inj [of kind "''login''" ?r "it_uid d" ?u]
    by (auto simp: form_token_ok_def tok_def in_time_def)
  have buttons: "verifyCsrfToken (lv_sig env) (lv_num env) (JStr (lv_csrfToken x)) (csrfSubject i) (lv_csrfSecret env) later 600 \<longleftrightarrow>
      i = binding_of env ?u x \<and> in_time ?now later" if "x \<in> set buttons" "length (lv_csrfToken x) \<le> 512" for x i later
    by (rule button_of_registry [OF b that(1)]) (rule button_token [OF _ that(2) dots(1,2) now])
  show ?thesis
    using pieces form buttons button_extension [OF r b] by (intro exI [of _ tok] exI [of _ name] exI [of _ buttons]) simp
qed

text \<open>One upstream provider; the page is asked for with the clock at zero.\<close>

definition demo_broker :: "unit extension" where
  "demo_broker = \<lparr>ex_manifest = \<lparr>mf_apiVersion = AUTHME_EXTENSION_API_VERSION, mf_id = JStr ''oidc'', mf_kind = ''federation'',
     mf_displayName = ''O'', mf_capabilities = [''oidc'']\<rparr>,
     ex_implementation = \<lparr>im_enabledFor = slot.Absent, im_providersFor = Method (\<lambda>r. JArr [JObj [(''id'', JStr ''idp''), (''displayName'', JStr ''I'')]]),
       im_initiate = Method (\<lambda>_. retS JUndef), im_consume = Method (\<lambda>_. retS JUndef), im_metadataFor = slot.Absent, im_authenticate = slot.Absent,
       im_begin = slot.Absent, im_complete = slot.Absent, im_createRouter = slot.Absent\<rparr>\<rparr>"

definition demo_brokers :: "unit registry" where "demo_brokers = [(JStr ''oidc'', demo_broker)]"

definition demo_page_request :: page_request where
  "demo_page_request = \<lparr>pq_login = demo_login\<lparr>lq_now := 0\<rparr>, pq_params = JObj [], pq_prompt_details = JObj [],
     pq_client = Some (JObj [(''clientId'', JStr ''app'')])\<rparr>"

theorem sign_in_page_usable_witness:
  "\<exists>tok name buttons. interaction_page demo_login_env (Some demo_brokers) (\<lambda>_. None) (\<lambda>_. ''n'') ''f'' demo_page_request =
       SignInPage (renderLogin ''corp'' ''x1'' tok name [] [] buttons) \<and>
     (512 < length tok \<or> form_token_ok demo_login_env (demo_login\<lparr>lq_body := JObj [(''csrf'', JStr tok)]\<rparr>)
        \<lparr>it_uid = ''x1'', it_prompt = Some ''login'', it_clientId = None\<rparr> ''login'' \<and>
      \<not> form_token_ok demo_login_env (demo_login\<lparr>lq_body := JObj [(''csrf'', JStr tok)]\<rparr>)
        \<lparr>it_uid = ''x1'', it_prompt = Some ''login'', it_clientId = None\<rparr> ''consent'')"
proof -
  let ?e = demo_login_env
  obtain b where b: "federationProviders ?e (Some demo_brokers) (\<lambda>_. ''n'') 0 ''x1'' = Inr [b]" "lv_providerId b = ''idp''"
    by (simp add: federationProviders_def forRealm_def extension_kinds_def demo_brokers_def mvals_def demo_broker_def enabled_for_def providers_of_def
        provider_button_def Let_def)
  have run: "interaction_page ?e (Some demo_brokers) (\<lambda>_. None) (\<lambda>_. ''n'') ''f'' demo_page_request =
      SignInPage (renderLogin ''corp'' ''x1'' (createCsrfToken (lv_sig ?e) (form_subject ''corp'' ''x1'' ''login'') ''k'' 0 ''f'') ''app'' [] [] [b])"
    using b(1) by (simp add: interaction_page_def demo_page_request_def demo_login_def loginView_def interactionClientName_def reply_of_def)
      (simp add: demo_login_env_def)
  have ok: "registry_ok demo_brokers"
    by (simp add: registry_ok_def demo_brokers_def demo_broker_def map_wf_def js_defs extension_kinds_def validateImplementation_def)
  have ids: "text_ids demo_brokers (lv_realm ?e)" by (simp add: text_ids_def demo_brokers_def demo_broker_def mvals_def)
  have pre: "\<forall>p. DOT \<notin> set (lv_sig ?e p (lv_csrfSecret ?e))" "\<forall>b. DOT \<notin> set ((\<lambda>_. ''n'') b)" "DOT \<notin> set ''f''" "DOT \<notin> set (lv_realm ?e)"
      "DOT \<notin> set (lq_uid (pq_login demo_page_request))" "safe_integer (lq_now (pq_login demo_page_request) div 1000)"
    and u: "lq_uid (pq_login demo_page_request) = ''x1''" "lv_realm ?e = ''corp''" "lq_now (pq_login demo_page_request) = 0" "lq_now demo_login = 60000"
    by (simp_all add: demo_login_env_def demo_page_request_def demo_login_def DOT_def safe_integer_def)
  obtain tok name buttons where t: "interaction_page ?e (Some demo_brokers) (\<lambda>_. None) (\<lambda>_. ''n'') ''f'' demo_page_request =
        SignInPage (renderLogin ''corp'' ''x1'' tok name [] [] buttons)"
      "length tok \<le> 512 \<longrightarrow> (\<forall>rq d kind. kind \<in> {''login'', ''consent''} \<longrightarrow>
        (form_token_ok ?e (rq\<lparr>lq_body := JObj [(''csrf'', JStr tok)]\<rparr>) d kind \<longleftrightarrow> kind = ''login'' \<and> it_uid d = ''x1'' \<and> in_time 0 (lq_now rq)))"
    using sign_in_page_usable [OF run ok ids pre] run unfolding u by metis
  show ?thesis
    by (rule exI [of _ tok], rule exI [of _ name], rule exI [of _ buttons])
      (use t in \<open>cases "length tok \<le> 512"; simp add: in_time_def u\<close>)
qed

end
