(* ===== verification/AppShell.thy ===== *)
theory AppShell
  imports AdminConsole
begin

text \<open>
  The parts of \<open>src/app.js\<close> around the routers: the two guards every request passes first, the error handler, the
  maintenance that runs at the start and once a minute, and the development accounts. \<open>drain_batches\<close> is the loop both
  halves of the maintenance share; \<open>bounded_cleanup\<close> is what it relies on, a clean-up that counts what it deletes and
  deletes less than its limit only when nothing is left.
\<close>

section \<open>Guards and errors\<close>

definition guarded_prefixes :: "string list" where
  "guarded_prefixes = [''/realms/'', ''/.well-known/'', ''/scim/'', ''/admin'']"

text \<open>\<open>Some status\<close> is a request answered before any router; \<open>origin\<close> is the origin of its protocol and host, \<open>None\<close> when they make no URL.\<close>

definition request_guard :: "console_config \<Rightarrow> string \<Rightarrow> string \<Rightarrow> string option \<Rightarrow> nat option" where
  "request_guard c originalUrl path origin =
     (if length originalUrl > 16384 then Some 414
      else if \<not> ac_devMode c \<and> (\<exists>p\<in>set guarded_prefixes. js_starts p path)
      then (case origin of
              None \<Rightarrow> Some 400
            | Some x \<Rightarrow> if x \<noteq> ac_publicUrl c then Some 421 else None)
      else None)"

record app_error =
  ae_status :: json
  ae_safe :: bool
  ae_message :: string

datatype error_reply =
    AdminError nat string "string option"
  | PageError nat string string

definition error_status :: "json \<Rightarrow> nat" where
  "error_status v = (case v of JNum n \<Rightarrow> if 400 \<le> n \<and> n < 600 then nat n else 500 | _ \<Rightarrow> 500)"

definition error_handler :: "string \<Rightarrow> app_error \<Rightarrow> error_reply" where
  "error_handler originalUrl e =
     (let status = error_status (ae_status e) in
      if js_starts ''/admin/'' originalUrl
      then AdminError status (if status \<ge> 500 then ''Internal server error'' else ''Request failed'') (if ae_safe e then Some (ae_message e) else None)
      else PageError status (if status \<ge> 500 then ''Something went wrong'' else ''Request failed'')
        (if ae_safe e then ae_message e else ''The request could not be completed safely.''))"

section \<open>Maintenance\<close>

fun drain_batches :: "(nat \<Rightarrow> 'd \<Rightarrow> nat \<times> 'd) \<Rightarrow> nat \<Rightarrow> nat \<Rightarrow> 'd \<Rightarrow> nat \<times> 'd" where
  "drain_batches clean batchSize 0 d = (0, d)"
| "drain_batches clean batchSize (Suc batches) d =
     (let (c, d1) = clean batchSize d in
      if c < batchSize then (c, d1)
      else (let (n, d2) = drain_batches clean batchSize batches d1 in (c + n, d2)))"

definition drainMaintenance :: "(nat \<Rightarrow> 'd \<Rightarrow> nat \<times> 'd) \<Rightarrow> (nat \<Rightarrow> 'd \<Rightarrow> nat \<times> 'd) \<Rightarrow> 'd \<Rightarrow> nat \<times> nat \<times> 'd" where
  "drainMaintenance expire trim d =
     (let (deleted, d1) = drain_batches expire 5000 20 d;
          (auditDeleted, d2) = drain_batches trim 5000 20 d1
      in (deleted, auditDeleted, d2))"

text \<open>The in-memory data layer keeps no audit history to clean.\<close>

definition memory_cleanupAudit :: "nat \<Rightarrow> data \<Rightarrow> nat \<times> data" where "memory_cleanupAudit limit d = (0, d)"

locale bounded_cleanup =
  fixes clean :: "nat \<Rightarrow> 'd \<Rightarrow> nat \<times> 'd" and left :: "'d \<Rightarrow> nat" and width :: nat
  assumes counts: "clean n d = (c, d') \<Longrightarrow> left d = c + left d'"
    and stops: "clean n d = (c, d') \<Longrightarrow> c < n \<Longrightarrow> left d' = 0"
    and bounded: "clean n d = (c, d') \<Longrightarrow> c \<le> width * n"
begin

lemma drain_result:
  "drain_batches clean n k d = (c, d') \<Longrightarrow> left d = c + left d' \<and> c \<le> k * (width * n) \<and> (left d' = 0 \<or> k * n \<le> c)"
proof (induction k arbitrary: d c d')
  case (Suc k)
  obtain c1 d1 where s: "clean n d = (c1, d1)" by fastforce
  show ?case
  proof (cases "c1 < n")
    case True
    then show ?thesis using Suc.prems s counts [OF s] stops [OF s] bounded [OF s] by simp
  next
    case False
    obtain c2 d2 where r: "drain_batches clean n k d1 = (c2, d2)" by fastforce
    have "c = c1 + c2" "d' = d2" using Suc.prems s r False by simp_all
    then show ?thesis using Suc.IH [OF r] counts [OF s] bounded [OF s] False by auto
  qed
qed simp

text \<open>Fewer than the batches can hold: nothing is left.\<close>

lemma drain_complete: "drain_batches clean n k d = (c, d') \<Longrightarrow> left d < k * n \<Longrightarrow> left d' = 0 \<and> c = left d"
  using drain_result [of n k d c d'] by auto

end

lemma sweep_filter:
  assumes "sweep P n m = (d, m')"
  shows "filter (\<lambda>kv. \<not> P (snd kv)) m' = filter (\<lambda>kv. \<not> P (snd kv)) m \<and> filter P (mvals m') = drop n (filter P (mvals m)) \<and>
    d = min n (length (filter P (mvals m)))"
  using assms
  by (induction P n m arbitrary: d m' rule: sweep.induct) (auto simp: mvals_def Let_def drop_Cons' split: if_splits prod.splits)

text \<open>What the clean-up of the in-memory data layer finds to delete.\<close>

definition expired_challenges :: "int \<Rightarrow> data \<Rightarrow> challenge list" where
  "expired_challenges now d = filter (\<lambda>c. ch_expiresAt c \<le> now) (mvals (st_challenges (dl_store d)))"

definition expired_sessions :: "int \<Rightarrow> data \<Rightarrow> admin_session list" where
  "expired_sessions now d = filter (\<lambda>x. as_expiresAt x \<le> now \<or> as_idleExpiresAt x \<le> now) (mvals (st_adminSessions (dl_store d)))"

definition expired_count :: "int \<Rightarrow> data \<Rightarrow> nat" where
  "expired_count now d = length (expired_challenges now d) + length (expired_sessions now d)"

lemma cleanupExpired_lists:
  assumes "cleanupExpired now n d = (c, d')"
  shows "expired_challenges now d' = drop n (expired_challenges now d)" "expired_sessions now d' = drop n (expired_sessions now d)"
    "c = min n (length (expired_challenges now d)) + min n (length (expired_sessions now d))"
proof -
  obtain c1 m1 where a: "sweep (\<lambda>c. ch_expiresAt c \<le> now) n (st_challenges (dl_store d)) = (c1, m1)" by fastforce
  obtain c2 m2 where b: "sweep (\<lambda>x. as_expiresAt x \<le> now \<or> as_idleExpiresAt x \<le> now) n (st_adminSessions (dl_store d)) = (c2, m2)" by fastforce
  have "c = c1 + c2" "st_challenges (dl_store d') = m1" "st_adminSessions (dl_store d') = m2"
    using assms a b by (auto simp: cleanupExpired_def cleanupExpiredWebAuthnChallenges_def cleanupExpiredAdminSessions_def)
  then show "expired_challenges now d' = drop n (expired_challenges now d)" "expired_sessions now d' = drop n (expired_sessions now d)"
    "c = min n (length (expired_challenges now d)) + min n (length (expired_sessions now d))"
    using sweep_filter [OF a] sweep_filter [OF b] by (simp_all add: expired_challenges_def expired_sessions_def)
qed

interpretation memory: bounded_cleanup "cleanupExpired now" "expired_count now" 2 for now
proof
  fix n d c d' assume r: "cleanupExpired now n d = (c, d')"
  note l = cleanupExpired_lists [OF r]
  show "expired_count now d = c + expired_count now d'" by (simp add: expired_count_def l)
  show "c < n \<Longrightarrow> expired_count now d' = 0" by (simp add: expired_count_def l)
  show "c \<le> 2 * n" by (simp add: l)
qed

interpretation memory_audit: bounded_cleanup memory_cleanupAudit "\<lambda>d. 0" 0
  by unfold_locales (simp_all add: memory_cleanupAudit_def)

text \<open>What the clean-up must leave: live challenges and sessions in their order, and everything else.\<close>

definition kept :: "int \<Rightarrow> data \<Rightarrow> (string \<times> challenge) list \<times> (string \<times> admin_session) list \<times> data" where
  "kept now d =
     (filter (\<lambda>kv. \<not> ch_expiresAt (snd kv) \<le> now) (st_challenges (dl_store d)),
      filter (\<lambda>kv. \<not> (as_expiresAt (snd kv) \<le> now \<or> as_idleExpiresAt (snd kv) \<le> now)) (st_adminSessions (dl_store d)),
      d\<lparr>dl_store := (dl_store d)\<lparr>st_challenges := [], st_adminSessions := []\<rparr>\<rparr>)"

lemma cleanupExpired_kept:
  assumes "cleanupExpired now n d = (c, d')" shows "kept now d' = kept now d"
proof -
  obtain c1 m1 where a: "sweep (\<lambda>c. ch_expiresAt c \<le> now) n (st_challenges (dl_store d)) = (c1, m1)" by fastforce
  obtain c2 m2 where b: "sweep (\<lambda>x. as_expiresAt x \<le> now \<or> as_idleExpiresAt x \<le> now) n (st_adminSessions (dl_store d)) = (c2, m2)" by fastforce
  have "d' = d\<lparr>dl_store := (dl_store d)\<lparr>st_challenges := m1, st_adminSessions := m2\<rparr>\<rparr>"
    using assms a b by (auto simp: cleanupExpired_def cleanupExpiredWebAuthnChallenges_def cleanupExpiredAdminSessions_def)
  then show ?thesis using sweep_filter [OF a] sweep_filter [OF b] by (simp add: kept_def)
qed

lemma drain_batches_kept: "drain_batches (cleanupExpired now) n k d = (c, d') \<Longrightarrow> kept now d' = kept now d"
proof (induction k arbitrary: d c d')
  case (Suc k)
  obtain c1 d1 where s: "cleanupExpired now n d = (c1, d1)" by fastforce
  then show ?case using Suc cleanupExpired_kept [OF s] by (auto split: if_splits prod.splits)
qed simp

lemma drain_audit_nothing: "drain_batches memory_cleanupAudit 5000 20 d = (0, d)"
  by (simp add: memory_cleanupAudit_def numeral_eq_Suc)

text \<open>
  One run of the maintenance deletes at most 200 000 expired challenges and sessions (20 batches of at most 5 000 of
  each), only expired ones, and counts them exactly; unless it has deleted at least 100 000 nothing expired is left. No
  live challenge or session, and nothing else in the data layer, is touched.
\<close>

theorem maintenance_bounded:
  assumes "drainMaintenance (cleanupExpired now) memory_cleanupAudit d = (deleted, auditDeleted, d')"
  shows "expired_count now d = deleted + expired_count now d' \<and> deleted \<le> 200000 \<and> auditDeleted = 0 \<and>
    (expired_count now d' = 0 \<or> 100000 \<le> deleted) \<and> kept now d' = kept now d"
proof -
  obtain c d1 where r: "drain_batches (cleanupExpired now) 5000 20 d = (c, d1)" by fastforce
  then have "deleted = c" "auditDeleted = 0" "d' = d1" using assms by (simp_all add: drainMaintenance_def drain_audit_nothing)
  then show ?thesis using memory.drain_result [OF r] drain_batches_kept [OF r] by simp
qed

definition demo_stale :: data where
  "demo_stale = \<lparr>dl_store = empty_store\<lparr>st_challenges :=
     [(''corp:c1'', \<lparr>ch_id = ''c1'', ch_realm = ''corp'', ch_purpose = ''registration'', ch_userId = None, ch_interactionUid = None,
        ch_userHandle = None, ch_challenge = ''x'', ch_expiresAt = 50, ch_createdAt = 0\<rparr>),
      (''corp:c2'', \<lparr>ch_id = ''c2'', ch_realm = ''corp'', ch_purpose = ''registration'', ch_userId = None, ch_interactionUid = None,
        ch_userHandle = None, ch_challenge = ''y'', ch_expiresAt = 5000, ch_createdAt = 0\<rparr>)]\<rparr>,
     dl_adapter = \<lparr>ad_stores = [], ad_next = 0\<rparr>\<rparr>"

lemma maintenance_bounded_witness:
  "\<exists>d'. drainMaintenance (cleanupExpired 100) memory_cleanupAudit demo_stale = (1, 0, d') \<and> expired_count 100 d' = 0 \<and>
     kept 100 d' = kept 100 demo_stale"
proof -
  have n: "expired_count 100 demo_stale = 1"
    by (simp add: expired_count_def expired_challenges_def expired_sessions_def demo_stale_def mvals_def empty_store_def)
  obtain c a d' where r: "drainMaintenance (cleanupExpired 100) memory_cleanupAudit demo_stale = (c, a, d')" by (metis prod_cases3)
  then show ?thesis using maintenance_bounded [OF r] n by auto
qed

section \<open>Development accounts\<close>

definition development_input :: "string \<Rightarrow> string \<Rightarrow> user_input" where
  "development_input realm passwordHash =
     \<lparr>i_id = None, i_realm = realm, i_username = ''admin'', i_email = ''admin@'' @ realm @ ''.authme.local'', i_emailVerified = True,
      i_name = Some ''AuthMe Administrator'', i_givenName = None, i_familyName = None, i_enabled = None, i_securityVersion = None,
      i_passwordHash = Some passwordHash, i_roles = Some [''admin''], i_groups = Some [''/administrators''], i_clientRoles = None,
      i_totpSecret = None, i_totpConfirmed = False, i_pendingTotpSecret = None, i_pendingTotpCreatedAt = None,
      i_recoveryCodeHashes = None, i_lastTotpStep = None, i_failedAttempts = None, i_lockedUntil = None, i_createdAt = None,
      i_updatedAt = None, i_lastLoginAt = None\<rparr>"

definition system_event :: "string \<Rightarrow> string \<Rightarrow> string \<Rightarrow> audit_event" where
  "system_event realm type subjectId =
     \<lparr>ev_realm = realm, ev_type = type, ev_actorId = None, ev_subjectId = Some subjectId, ev_clientId = None, ev_ip = None,
      ev_userAgent = None, ev_metadata = JUndef\<rparr>"

text \<open>
  One realm of \<open>bootstrapDevelopmentUsers\<close>. \<open>fresh\<close> gives the new account's and the events' identifiers, \<open>passwordHash\<close> is the
  hash of the development password.
\<close>

definition bootstrap_realm :: "(string \<Rightarrow> bool) \<Rightarrow> int \<Rightarrow> (string \<Rightarrow> string) \<Rightarrow> string \<Rightarrow> string \<Rightarrow> store \<Rightarrow> store_error + store" where
  "bootstrap_realm isIP now fresh passwordHash realm s =
     bindR (case findUserByLogin realm ''admin'' s of
              Some user \<Rightarrow> Inr (user, s)
            | None \<Rightarrow>
                bindR (createUser now (fresh realm) (development_input realm passwordHash) s) (\<lambda>(user, s1).
                  Inr (user, snd (writeAudit isIP now (fresh realm) (system_event realm ''system.development_user.created'' (u_id user)) s1))))
       (\<lambda>(user, s1).
          if findAdminGrant realm (u_id user) s1 \<noteq> None then Inr s1
          else bindR (upsertAdminGrant now realm (u_id user) [''*''] True s1) (\<lambda>(_, s2).
            Inr (snd (writeAudit isIP now (fresh realm) (system_event realm ''system.development_admin_grant.created'' (u_id user)) s2))))"

definition bootstrapDevelopmentUsers ::
    "bool \<Rightarrow> string list \<Rightarrow> (string \<Rightarrow> bool) \<Rightarrow> int \<Rightarrow> (string \<Rightarrow> string) \<Rightarrow> string \<Rightarrow> store \<Rightarrow> store_error + store" where
  "bootstrapDevelopmentUsers devMode realms isIP now fresh passwordHash s =
     (if \<not> devMode then Inr s else foldR (bootstrap_realm isIP now fresh passwordHash) realms s)"

text \<open>A realm that has been set up is left alone by the next start.\<close>

lemma bootstrap_realm_done:
  assumes "findUserByLogin realm ''admin'' s = Some user" "findAdminGrant realm (u_id user) s \<noteq> None"
  shows "bootstrap_realm isIP now fresh passwordHash realm s = Inr s"
  using assms by (auto simp: bootstrap_realm_def)

end
