(* ===== verification/SigningKeys.thy ===== *)
theory SigningKeys
  imports Config
begin

text \<open>
  The signing keys of a realm (\<open>src/crypto/jwks.js\<close>). Reading a key with the cryptographic library, reading a file,
  \<open>JSON.parse\<close>, joining paths and generating a key are arguments; \<open>kw_import key alg\<close> is \<open>None\<close> if the key cannot be
  imported, else the length of its modulus if it has one.
\<close>

record keys_world =
  kw_import :: "json \<Rightarrow> string \<Rightarrow> nat option option"
  kw_readFile :: "string \<Rightarrow> string option"
  kw_json :: "string \<Rightarrow> json option"
  kw_join :: "string \<Rightarrow> string \<Rightarrow> string"
  kw_generate :: json

definition allowedAlgorithms :: "string list" where "allowedAlgorithms = [''RS256'', ''PS256'', ''ES256'', ''EdDSA'']"

text \<open>The key type, and the curve where there is one, an algorithm needs.\<close>

definition expected_type :: "string \<Rightarrow> string \<times> string option" where
  "expected_type alg = (if alg = ''ES256'' then (''EC'', Some ''P-256'')
     else if alg = ''EdDSA'' then (''OKP'', Some ''Ed25519'') else (''RSA'', None))"

text \<open>Membership in a \<open>Set\<close>: an object or array read from JSON is not an earlier one.\<close>

definition kids_has :: "json list \<Rightarrow> json \<Rightarrow> bool" where
  "kids_has kids v \<longleftrightarrow> (case v of JObj _ \<Rightarrow> False | JArr _ \<Rightarrow> False | _ \<Rightarrow> v \<in> set kids)"

definition intended_for_signing :: "json \<Rightarrow> bool" where
  "intended_for_signing key \<longleftrightarrow> jprop key ''use'' = JStr ''sig'' \<and>
     (case jprop key ''key_ops'' of JUndef \<Rightarrow> True | JArr ops \<Rightarrow> JStr ''sign'' \<in> set ops | _ \<Rightarrow> False)"

definition algorithm_of :: "json \<Rightarrow> string option" where
  "algorithm_of key = (case jprop key ''alg'' of JStr a \<Rightarrow> if a \<in> set allowedAlgorithms then Some a else None | _ \<Rightarrow> None)"

definition type_matches :: "json \<Rightarrow> string \<Rightarrow> bool" where
  "type_matches key alg \<longleftrightarrow> jprop key ''kty'' = JStr (fst (expected_type alg)) \<and>
     (case snd (expected_type alg) of None \<Rightarrow> True | Some crv \<Rightarrow> jprop key ''crv'' = JStr crv)"

text \<open>The body of the loop; \<open>kids\<close> holds the identifiers of the keys before.\<close>

definition check_key :: "keys_world \<Rightarrow> json \<Rightarrow> json list \<Rightarrow> string + json list" where
  "check_key w key kids =
     bindR (guardR (key \<noteq> JNull) ''TypeError'') (\<lambda>_.
     bindR (guardR (truthy (jprop key ''d'')) ''must contain private signing keys'') (\<lambda>_.
     bindR (guardR (truthy (jprop key ''kid'') \<and> \<not> kids_has kids (jprop key ''kid'')) ''contains a missing or duplicate kid'') (\<lambda>_.
     bindR (guardR (intended_for_signing key) ''contains a key that is not explicitly intended for signing'') (\<lambda>_.
     bindR (or_name ''contains unsupported or missing algorithm'' (algorithm_of key)) (\<lambda>alg.
     bindR (guardR (type_matches key alg) ''contains a key type that does not match'') (\<lambda>_.
     bindR (or_name ''contains a key that cannot be imported'' (kw_import w key alg)) (\<lambda>modulus.
     bindR (guardR (fst (expected_type alg) \<noteq> ''RSA'' \<or> 2048 \<le> (case modulus of None \<Rightarrow> 0 | Some n \<Rightarrow> n))
              ''contains an RSA key smaller than 2048 bits'') (\<lambda>_.
       Inr (kids @ [jprop key ''kid''])))))))))"

definition validateJwks :: "keys_world \<Rightarrow> json \<Rightarrow> string + json" where
  "validateJwks w jwks =
     (case jprop jwks ''keys'' of
        JArr keys \<Rightarrow>
          bindR (guardR (keys \<noteq> []) ''must contain a non-empty JWK Set'') (\<lambda>_.
          bindR (foldR (check_key w) keys []) (\<lambda>_. Inr (JObj [(''keys'', JArr keys)])))
      | _ \<Rightarrow> Inl ''must contain a non-empty JWK Set'')"

definition loadRealmJwks :: "keys_world \<Rightarrow> config \<Rightarrow> string \<Rightarrow> string + json" where
  "loadRealmJwks w c realm =
     (let dir = (case cg_jwksDir c of None \<Rightarrow> [] | Some d \<Rightarrow> d) in
      if cg_devMode c \<and> dir = [] then Inr (kw_generate w)
      else if cg_jwksDir c = None then Inl ''TypeError''
      else (case kw_readFile w (kw_join w dir (realm @ ''.json'')) of
              None \<Rightarrow> Inl ''Unable to load realm key set''
            | Some text \<Rightarrow>
                (case kw_json w text of None \<Rightarrow> Inl ''Unable to load realm key set'' | Some v \<Rightarrow> validateJwks w v)))"

section \<open>What an accepted key set is\<close>

definition sound_key :: "keys_world \<Rightarrow> json \<Rightarrow> bool" where
  "sound_key w key \<longleftrightarrow> key \<noteq> JNull \<and> truthy (jprop key ''d'') \<and> truthy (jprop key ''kid'') \<and> jprop key ''use'' = JStr ''sig'' \<and>
     (\<forall>ops. jprop key ''key_ops'' = JArr ops \<longrightarrow> JStr ''sign'' \<in> set ops) \<and> (is_arr (jprop key ''key_ops'') \<or> jprop key ''key_ops'' = JUndef) \<and>
     (\<exists>alg kty m. jprop key ''alg'' = JStr alg \<and> jprop key ''kty'' = JStr kty \<and> kw_import w key alg = Some m \<and>
        (alg \<in> {''RS256'', ''PS256''} \<and> kty = ''RSA'' \<and> (\<exists>n. m = Some n \<and> 2048 \<le> n) \<or>
         alg = ''ES256'' \<and> kty = ''EC'' \<and> jprop key ''crv'' = JStr ''P-256'' \<or>
         alg = ''EdDSA'' \<and> kty = ''OKP'' \<and> jprop key ''crv'' = JStr ''Ed25519''))"

lemma algorithm_sound:
  "(\<exists>alg m. algorithm_of key = Some alg \<and> type_matches key alg \<and> kw_import w key alg = Some m \<and>
      (fst (expected_type alg) \<noteq> ''RSA'' \<or> 2048 \<le> (case m of None \<Rightarrow> 0 | Some n \<Rightarrow> n))) \<longleftrightarrow>
   (\<exists>alg kty m. jprop key ''alg'' = JStr alg \<and> jprop key ''kty'' = JStr kty \<and> kw_import w key alg = Some m \<and>
        (alg \<in> {''RS256'', ''PS256''} \<and> kty = ''RSA'' \<and> (\<exists>n. m = Some n \<and> 2048 \<le> n) \<or>
         alg = ''ES256'' \<and> kty = ''EC'' \<and> jprop key ''crv'' = JStr ''P-256'' \<or>
         alg = ''EdDSA'' \<and> kty = ''OKP'' \<and> jprop key ''crv'' = JStr ''Ed25519''))"
proof (cases "jprop key ''alg''")
  case (JStr a)
  consider "a = ''RS256''" | "a = ''PS256''" | "a = ''ES256''" | "a = ''EdDSA''" | "a \<notin> set allowedAlgorithms"
    by (auto simp: allowedAlgorithms_def)
  then show ?thesis
  proof cases
    case 5
    then show ?thesis using JStr by (auto simp: algorithm_of_def allowedAlgorithms_def simp del: jprop.simps)
  qed (simp_all add: JStr algorithm_of_def allowedAlgorithms_def type_matches_def expected_type_def split: option.splits,
      (metis (no_types) option.inject option.distinct(1) le_zero_eq option.exhaust zero_neq_numeral)+)
qed (auto simp: algorithm_of_def simp del: jprop.simps)

lemma signing_use:
  "intended_for_signing key \<longleftrightarrow> jprop key ''use'' = JStr ''sig'' \<and>
     (\<forall>ops. jprop key ''key_ops'' = JArr ops \<longrightarrow> JStr ''sign'' \<in> set ops) \<and> (is_arr (jprop key ''key_ops'') \<or> jprop key ''key_ops'' = JUndef)"
  by (cases "jprop key ''key_ops''") (auto simp: intended_for_signing_def simp del: jprop.simps)

lemma check_key_iff:
  "check_key w key kids = Inr kids' \<longleftrightarrow>
     sound_key w key \<and> \<not> kids_has kids (jprop key ''kid'') \<and> kids' = kids @ [jprop key ''kid'']"
  unfolding check_key_def sound_key_def algorithm_sound [symmetric] signing_use
  by (auto simp: bindR_Inr_iff or_name_def simp del: jprop.simps split: option.splits)

text \<open>The identifiers of a list of keys are pairwise different; two objects always are.\<close>

fun different_kids :: "json list \<Rightarrow> bool" where
  "different_kids [] = True"
| "different_kids (v # vs) = ((is_obj v \<or> is_arr v \<or> v \<notin> set vs) \<and> different_kids vs)"

lemma check_keys_iff:
  "(\<exists>kids'. foldR (check_key w) keys kids = Inr kids') \<longleftrightarrow>
     (\<forall>key\<in>set keys. sound_key w key) \<and> different_kids (map (\<lambda>key. jprop key ''kid'') keys) \<and>
     (\<forall>key\<in>set keys. \<not> kids_has kids (jprop key ''kid''))"
proof (induction keys arbitrary: kids)
  case (Cons key keys)
  have has: "kids_has (kids @ [v]) v' \<longleftrightarrow> kids_has kids v' \<or> v' = v \<and> \<not> is_obj v \<and> \<not> is_arr v" for v v'
    by (cases v') (auto simp: kids_has_def)
  show ?case
    by (auto simp: bindR_Inr_iff check_key_iff Cons.IH has image_iff simp del: jprop.simps)
qed simp

text \<open>Outside development mode a realm signs with exactly the key sets a careful operator would write: the file of the
realm is read, and it is accepted exactly if it holds at least one key, all keys are private keys for signing that the library
can read, of the type and curve of one of the four algorithms, RSA keys of at least 2048 bits, with different identifiers.\<close>

theorem realm_keys_sound:
  "loadRealmJwks w c realm = Inr v \<longleftrightarrow>
     (if cg_devMode c \<and> (cg_jwksDir c = None \<or> cg_jwksDir c = Some []) then v = kw_generate w
      else \<exists>dir text jwks keys. cg_jwksDir c = Some dir \<and> kw_readFile w (kw_join w dir (realm @ ''.json'')) = Some text \<and>
        kw_json w text = Some jwks \<and> jprop jwks ''keys'' = JArr keys \<and> v = JObj [(''keys'', JArr keys)] \<and> keys \<noteq> [] \<and>
        list_all (sound_key w) keys \<and> different_kids (map (\<lambda>key. jprop key ''kid'') keys))"
proof -
  have empty: "\<not> kids_has [] x" for x by (cases x) (simp_all add: kids_has_def)
  have val: "validateJwks w jwks = Inr v \<longleftrightarrow> (\<exists>keys. jprop jwks ''keys'' = JArr keys \<and> v = JObj [(''keys'', JArr keys)] \<and> keys \<noteq> [] \<and>
        (\<forall>key\<in>set keys. sound_key w key) \<and> different_kids (map (\<lambda>key. jprop key ''kid'') keys))" for jwks
    using check_keys_iff [of w _ "[]"]
    by (cases "jprop jwks ''keys''") (auto simp: validateJwks_def bindR_Inr_iff empty simp del: jprop.simps)
  show ?thesis
    by (auto simp: loadRealmJwks_def Let_def val list_all_iff simp del: jprop.simps split: option.splits)
qed

end
