(* ===== verification/PgAdapter.thy ===== *)
theory PgAdapter
  imports DataLayer
begin

text \<open>
  The PostgreSQL protocol store (\<open>src/adapters/postgres.js\<close>) and the PostgreSQL branch of \<open>createDataLayer\<close>
  (\<open>src/db.js\<close>). The table \<open>oidc_records\<close> is the list of its rows; a method is the statement it sends, atomic, with
  \<open>CURRENT_TIMESTAMP\<close> as its argument. The primary key and the unique indexes on \<open>user_code\<close> and \<open>uid\<close> are
  those of \<open>migrations/001_initial.sql\<close>; the realm of every row is assumed to be registered. A cast to \<open>uuid\<close> reads
  letters of either case as lower case. Times and lifetimes are in milliseconds.
\<close>

section \<open>Rows\<close>

record oidc_row =
  ox_realm :: string
  ox_model :: string
  ox_id :: string
  ox_payload :: payload
  ox_expiresAt :: "int option"
  ox_consumedAt :: "int option"
  ox_grantId :: "string option"
  ox_userCode :: "string option"
  ox_uid :: "string option"
  ox_version :: "int option"

record pgdata =
  pd_db :: pgdb
  pd_records :: "oidc_row list"

datatype pg_adapter_error = TYPE_ERROR | UNIQUE_RECORD | ADAPTER adapter_error

definition requiredIdentifier :: "string \<Rightarrow> pg_adapter_error + unit" where
  "requiredIdentifier v = guardR (v \<noteq> []) TYPE_ERROR"

definition optionalIdentifier :: "string option \<Rightarrow> pg_adapter_error + unit" where
  "optionalIdentifier v = (case v of None \<Rightarrow> Inr () | Some s \<Rightarrow> requiredIdentifier s)"

text \<open>\<open>storedPayload\<close>: the payload without its consumption, which is a column.\<close>

definition storedPayload :: "payload \<Rightarrow> pg_adapter_error + (payload \<times> int option)" where
  "storedPayload p =
     (case pl_consumed p of
        None \<Rightarrow> Inr (p\<lparr>pl_consumed := None\<rparr>, None)
      | Some n \<Rightarrow> if n < 0 then Inl TYPE_ERROR else Inr (p\<lparr>pl_consumed := None\<rparr>, Some (n * 1000)))"

definition restorePayload :: "oidc_row \<Rightarrow> payload" where
  "restorePayload row =
     (case ox_consumedAt row of None \<Rightarrow> ox_payload row | Some t \<Rightarrow> (ox_payload row)\<lparr>pl_consumed := Some (t div 1000)\<rparr>)"

definition ttl :: "int option \<Rightarrow> pg_adapter_error + int option" where
  "ttl expiresIn = (case expiresIn of None \<Rightarrow> Inr None | Some e \<Rightarrow> if e < 0 then Inl TYPE_ERROR else Inr (Some e))"

definition row_live :: "int \<Rightarrow> oidc_row \<Rightarrow> bool" where
  "row_live now x \<longleftrightarrow> (case ox_expiresAt x of None \<Rightarrow> True | Some e \<Rightarrow> e > now)"

definition row_of :: "string \<Rightarrow> string \<Rightarrow> oidc_row \<Rightarrow> bool" where
  "row_of realm model x \<longleftrightarrow> ox_realm x = realm \<and> ox_model x = model"

definition row_key :: "string \<Rightarrow> string \<Rightarrow> string \<Rightarrow> oidc_row \<Rightarrow> bool" where
  "row_key realm model aid x \<longleftrightarrow> row_of realm model x \<and> ox_id x = aid"

definition sql_coalesce :: "'a option \<Rightarrow> 'a option \<Rightarrow> 'a option" where
  "sql_coalesce a b = (case a of None \<Rightarrow> b | Some x \<Rightarrow> Some x)"

section \<open>Saving\<close>

text \<open>The common table expressions \<open>account\<close>, \<open>parent_grant\<close>, \<open>parent_account\<close> and \<open>security\<close> of the statement.\<close>

definition account_row :: "string \<Rightarrow> string \<Rightarrow> pgdb \<Rightarrow> user option" where
  "account_row realm acc d = row0 (filter (\<lambda>u. user_row realm (js_lower acc) u \<and> u_enabled u) (pg_users d))"

definition parent_account_row :: "int \<Rightarrow> string \<Rightarrow> string \<Rightarrow> pgdata \<Rightarrow> user option" where
  "parent_account_row now realm grantId d =
     (case row0 (filter (\<lambda>x. row_key realm ''Grant'' grantId x \<and> row_live now x) (pd_records d)) of
        None \<Rightarrow> None
      | Some g \<Rightarrow> row0 (filter (\<lambda>u. u_realm u = realm \<and> u_enabled u \<and> pl_accountId (ox_payload g) = Some (u_id u) \<and>
          ox_version g = Some (u_securityVersion u)) (pg_users (pd_db d))))"

text \<open>\<open>None\<close> is \<open>NOT valid\<close>; otherwise the version and the account of the new row.\<close>

definition save_security :: "int \<Rightarrow> string \<Rightarrow> string option \<Rightarrow> string option \<Rightarrow> pgdata \<Rightarrow> (int option \<times> string option) option" where
  "save_security now realm accountId grantId d =
     (let account = (case accountId of None \<Rightarrow> None | Some a \<Rightarrow> account_row realm a (pd_db d));
          parent = (case grantId of None \<Rightarrow> None | Some g \<Rightarrow> parent_account_row now realm g d)
      in if (accountId = None \<or> account \<noteq> None) \<and> (grantId = None \<or> parent \<noteq> None) \<and>
            (accountId = None \<or> grantId = None \<or> map_option u_id parent = map_option js_lower accountId)
         then Some (sql_coalesce (map_option u_securityVersion account) (map_option u_securityVersion parent),
                    sql_coalesce accountId (map_option u_id parent))
         else None)"

text \<open>Another row of the model holds the new row's \<open>user_code\<close> or \<open>uid\<close>.\<close>

definition code_clash :: "oidc_row \<Rightarrow> oidc_row list \<Rightarrow> bool" where
  "code_clash row rows \<longleftrightarrow> (\<exists>x\<in>set rows. row_of (ox_realm row) (ox_model row) x \<and> ox_id x \<noteq> ox_id row \<and>
     ((ox_userCode row \<noteq> None \<and> ox_userCode x = ox_userCode row) \<or> (ox_uid row \<noteq> None \<and> ox_uid x = ox_uid row)))"

text \<open>\<open>INSERT ... ON CONFLICT\<close>: the number of rows and the new table.\<close>

definition insert_record :: "oidc_row \<Rightarrow> oidc_row list \<Rightarrow> pg_adapter_error + (nat \<times> oidc_row list)" where
  "insert_record row rows =
     (let same = row_key (ox_realm row) (ox_model row) (ox_id row) in
      if ox_model row = ''ReplayDetection'' \<and> list_ex same rows then Inr (0, rows)
      else if code_clash row rows then Inl UNIQUE_RECORD
      else if list_ex same rows
      then Inr (1, map (\<lambda>x. if same x then row\<lparr>ox_consumedAt := sql_coalesce (ox_consumedAt x) (ox_consumedAt row)\<rparr> else x) rows)
      else Inr (1, rows @ [row]))"

definition pg_upsert ::
    "int \<Rightarrow> string \<Rightarrow> string \<Rightarrow> string \<Rightarrow> payload \<Rightarrow> int option \<Rightarrow> pgdata \<Rightarrow> pg_adapter_error + pgdata" where
  "pg_upsert now realm model aid payload expiresIn d =
     bindR (requiredIdentifier aid) (\<lambda>_.
     bindR (ttl expiresIn) (\<lambda>lifetime.
     bindR (storedPayload payload) (\<lambda>(rcd, consumedAt).
     bindR (optionalIdentifier (pl_grantId rcd)) (\<lambda>_.
     bindR (optionalIdentifier (pl_userCode rcd)) (\<lambda>_.
     bindR (optionalIdentifier (pl_uid rcd)) (\<lambda>_.
     bindR (optionalIdentifier (pl_accountId rcd)) (\<lambda>_.
     bindR (guardR (case pl_accountId rcd of None \<Rightarrow> True | Some a \<Rightarrow> uuid_re a) TYPE_ERROR) (\<lambda>_.
     bindR (case save_security now realm (pl_accountId rcd) (pl_grantId rcd) d of
              None \<Rightarrow> Inr (0, pd_records d)
            | Some (version, account) \<Rightarrow>
                insert_record \<lparr>ox_realm = realm, ox_model = model, ox_id = aid,
                    ox_payload = (if account = None then rcd else rcd\<lparr>pl_accountId := account\<rparr>),
                    ox_expiresAt = map_option (\<lambda>e. now + e) lifetime, ox_consumedAt = consumedAt, ox_grantId = pl_grantId rcd,
                    ox_userCode = pl_userCode rcd, ox_uid = pl_uid rcd, ox_version = version\<rparr> (pd_records d)) (\<lambda>(rowCount, rows).
       if (pl_accountId rcd \<noteq> None \<or> pl_grantId rcd \<noteq> None) \<and> rowCount \<noteq> 1 then Inl (ADAPTER InvalidGrant)
       else if model = ''ReplayDetection'' \<and> rowCount \<noteq> 1 then Inl (ADAPTER InvalidRequest)
       else Inr (d\<lparr>pd_records := rows\<rparr>))))))))))"

section \<open>Finding and using\<close>

text \<open>The account condition of the three look-ups.\<close>

definition account_current :: "pgdb \<Rightarrow> oidc_row \<Rightarrow> bool" where
  "account_current d x \<longleftrightarrow> ox_version x = None \<or>
     (\<exists>u\<in>set (pg_users d). u_realm u = ox_realm x \<and> map_option js_lower (pl_accountId (ox_payload x)) = Some (u_id u) \<and>
        u_enabled u \<and> ox_version x = Some (u_securityVersion u))"

definition pg_select :: "int \<Rightarrow> string \<Rightarrow> string \<Rightarrow> (oidc_row \<Rightarrow> bool) \<Rightarrow> pgdata \<Rightarrow> payload option" where
  "pg_select now realm model P d =
     map_option restorePayload (row0 (filter (\<lambda>x. (row_of realm model x \<and> P x) \<and> row_live now x \<and> account_current (pd_db d) x) (pd_records d)))"

definition pg_find :: "int \<Rightarrow> string \<Rightarrow> string \<Rightarrow> string \<Rightarrow> pgdata \<Rightarrow> pg_adapter_error + payload option" where
  "pg_find now realm model aid d =
     bindR (requiredIdentifier aid) (\<lambda>_. Inr (pg_select now realm model (\<lambda>x. ox_id x = aid) d))"

definition pg_findByUserCode :: "int \<Rightarrow> string \<Rightarrow> string \<Rightarrow> string \<Rightarrow> pgdata \<Rightarrow> pg_adapter_error + payload option" where
  "pg_findByUserCode now realm model code d =
     bindR (requiredIdentifier code) (\<lambda>_. Inr (pg_select now realm model (\<lambda>x. ox_userCode x = Some code) d))"

definition pg_findByUid :: "int \<Rightarrow> string \<Rightarrow> string \<Rightarrow> string \<Rightarrow> pgdata \<Rightarrow> pg_adapter_error + payload option" where
  "pg_findByUid now realm model u d =
     bindR (requiredIdentifier u) (\<lambda>_. Inr (pg_select now realm model (\<lambda>x. ox_uid x = Some u) d))"

text \<open>The statement of \<open>consume\<close> and of \<open>claimInitialAccessToken\<close>.\<close>

definition consume_rows :: "int \<Rightarrow> string \<Rightarrow> string \<Rightarrow> string \<Rightarrow> pgdata \<Rightarrow> nat \<times> pgdata" where
  "consume_rows now realm model aid d =
     (let (rows, t) = sql_update (\<lambda>x. row_key realm model aid x \<and> ox_consumedAt x = None \<and> row_live now x)
            (\<lambda>x. x\<lparr>ox_consumedAt := Some now\<rparr>) (pd_records d)
      in (length rows, d\<lparr>pd_records := t\<rparr>))"

definition pg_consume :: "int \<Rightarrow> string \<Rightarrow> string \<Rightarrow> string \<Rightarrow> pgdata \<Rightarrow> pg_adapter_error + pgdata" where
  "pg_consume now realm model aid d =
     bindR (requiredIdentifier aid) (\<lambda>_.
       let (n, d') = consume_rows now realm model aid d in
       if n \<noteq> 1 then Inl (ADAPTER (if model \<in> set one_use_grants then InvalidGrant else InvalidRequest)) else Inr d')"

definition pg_destroy :: "string \<Rightarrow> string \<Rightarrow> string \<Rightarrow> pgdata \<Rightarrow> pg_adapter_error + pgdata" where
  "pg_destroy realm model aid d =
     bindR (requiredIdentifier aid) (\<lambda>_. Inr (d\<lparr>pd_records := snd (sql_delete (row_key realm model aid) (pd_records d))\<rparr>))"

definition pg_revokeByGrantId :: "string \<Rightarrow> string \<Rightarrow> string \<Rightarrow> pgdata \<Rightarrow> pg_adapter_error + pgdata" where
  "pg_revokeByGrantId realm model grantId d =
     bindR (requiredIdentifier grantId) (\<lambda>_.
       Inr (d\<lparr>pd_records := snd (sql_delete (\<lambda>x. row_of realm model x \<and> ox_grantId x = Some grantId) (pd_records d))\<rparr>))"

section \<open>The data layer\<close>

definition pg_claimInitialAccessToken :: "int \<Rightarrow> string \<Rightarrow> string \<Rightarrow> pgdata \<Rightarrow> bool \<times> pgdata" where
  "pg_claimInitialAccessToken now realm aid d =
     (let (n, d') = consume_rows now realm ''InitialAccessToken'' aid d in (n = 1, d'))"

text \<open>\<open>revokeAccountSql\<close>.\<close>

definition pg_account_grants :: "string \<Rightarrow> string \<Rightarrow> oidc_row list \<Rightarrow> string list" where
  "pg_account_grants realm acc rows =
     map ox_id (filter (\<lambda>x. row_of realm ''Grant'' x \<and> pl_accountId (ox_payload x) = Some acc) rows)"

definition doomed_row :: "string \<Rightarrow> string \<Rightarrow> oidc_row list \<Rightarrow> oidc_row \<Rightarrow> bool" where
  "doomed_row realm acc rows x \<longleftrightarrow> ox_realm x = realm \<and>
     (pl_accountId (ox_payload x) = Some acc \<or> (case ox_grantId x of None \<Rightarrow> False | Some g \<Rightarrow> g \<in> set (pg_account_grants realm acc rows)))"

definition pg_revokeAccount :: "string \<Rightarrow> string \<Rightarrow> pgdata \<Rightarrow> nat \<times> pgdata" where
  "pg_revokeAccount realm acc d =
     (let (rows, t) = sql_delete (doomed_row realm acc (pd_records d)) (pd_records d) in (length rows, d\<lparr>pd_records := t\<rparr>))"

text \<open>The transactions: what throws is rolled back.\<close>

definition pg_deleteAccount ::
    "int \<Rightarrow> string \<Rightarrow> string \<Rightarrow> (pgdb \<Rightarrow> 'e + pgdb) option \<Rightarrow> pgdata \<Rightarrow> ('e failure + user option) \<times> pgdata" where
  "pg_deleteAccount now realm accountId auditEvent d =
     (if filter (user_row realm accountId) (pg_users (pd_db d)) = [] then (Inr None, d)
      else (let d1 = snd (pg_revokeAccount realm accountId d);
                (user, db) = pg_deleteUser now realm accountId (pd_db d1)
            in case auditEvent of
                 None \<Rightarrow> (Inr user, d1\<lparr>pd_db := db\<rparr>)
               | Some write \<Rightarrow> (case write db of Inl e \<Rightarrow> (Inl (AUDIT_FAILED e), d) | Inr db' \<Rightarrow> (Inr user, d1\<lparr>pd_db := db'\<rparr>))))"

definition bump_row :: "int \<Rightarrow> user \<Rightarrow> user" where
  "bump_row now u = u\<lparr>u_securityVersion := u_securityVersion u + 1, u_updatedAt := now\<rparr>"

definition pg_mutateAccountSecurity ::
    "int \<Rightarrow> string \<Rightarrow> string \<Rightarrow> (pgdb \<Rightarrow> 'e + (bool \<times> pgdb)) \<Rightarrow> pgdata \<Rightarrow> ('e failure + mutation_result) \<times> pgdata" where
  "pg_mutateAccountSecurity now realm accountId mutate d =
     (if filter (user_row realm accountId) (pg_users (pd_db d)) = []
      then (Inr \<lparr>mr_found = False, mr_applied = False, mr_user = None\<rparr>, d)
      else (case mutate (pd_db d) of
              Inl e \<Rightarrow> (Inl (MUTATION_FAILED e), d)
            | Inr (False, db) \<Rightarrow>
                (Inr \<lparr>mr_found = True, mr_applied = False, mr_user = pg_findUserById now realm accountId db\<rparr>, d\<lparr>pd_db := db\<rparr>)
            | Inr (True, db) \<Rightarrow>
                (let db' = snd (pg_update_user realm accountId (\<lambda>_. True) (bump_row now) db);
                     d1 = snd (pg_revokeAccount realm accountId (d\<lparr>pd_db := db'\<rparr>))
                 in (Inr \<lparr>mr_found = True, mr_applied = True, mr_user = pg_findUserById now realm accountId db'\<rparr>, d1))))"

end
