(* ===== verification/PgStore.thy ===== *)
theory PgStore
  imports PgAdapter AppShell
begin

text \<open>
  The rest of the PostgreSQL back-end: the listings, the profile update, the challenges and the audit log of
  \<open>PostgresIdentityStore\<close> (\<open>src/repositories/identity-store.js\<close>), and the start and the two clean-ups of the data layer
  (\<open>src/db.js\<close>). A row that is deleted by its \<open>ctid\<close> is one occurrence in the list; \<open>SKIP LOCKED\<close> skips nothing, a
  statement being one step; \<open>ORDER BY\<close> on text is the collation \<open>C\<close>.
\<close>

record pg_store =
  ps_data :: pgdata
  ps_audit :: "audit_record list"
  ps_realms :: "(string \<times> string) list"

section \<open>Accounts\<close>

definition pg_listUsers :: "int \<Rightarrow> string \<Rightarrow> nat \<Rightarrow> nat \<Rightarrow> pgdb \<Rightarrow> user option list" where
  "pg_listUsers now realm limit offset d =
     map (\<lambda>u. rowToUser now (Some u)) (take limit (drop offset
       (sort_by (\<lambda>a b. str_le (u_username a) (u_username b)) (filter (\<lambda>u. u_realm u = realm) (pg_users d)))))"

text \<open>A patch without a known field.\<close>

definition empty_patch :: "user_patch \<Rightarrow> bool" where
  "empty_patch p \<longleftrightarrow> p_email p = None \<and> p_emailVerified p = None \<and> p_name p = None \<and> p_givenName p = None \<and> p_familyName p = None \<and>
     p_enabled p = None \<and> p_passwordHash p = None \<and> p_roles p = None \<and> p_groups p = None \<and> p_clientRoles p = None"

text \<open>What a statement throws: an error of the store, or the code of an SQL error.\<close>

datatype pg_failure = Store_failed store_error | Db_failed string

text \<open>\<open>length(btrim(x)) > 0\<close>.\<close>

definition btrim_present :: "string \<Rightarrow> bool" where "btrim_present t \<longleftrightarrow> \<not> list_all (\<lambda>c. c = CHR '' '') t"

text \<open>
  The trigger on the logins runs only when the email is assigned. A password hash of \<open>null\<close> violates \<open>NOT NULL\<close>, a blank email
  or name a \<open>CHECK\<close>.
\<close>

definition pg_updateUser :: "int \<Rightarrow> string \<Rightarrow> string \<Rightarrow> user_patch \<Rightarrow> pgdb \<Rightarrow> pg_failure + (user option \<times> pgdb)" where
  "pg_updateUser now realm uid patch d =
     (if empty_patch patch then Inr (pg_findUserById now realm uid d, d)
      else (case row0 (filter (user_row realm uid) (pg_users d)) of
          None \<Rightarrow> Inr (None, d)
        | Some account \<Rightarrow>
            (let row = (applyPatch (normalizePatch patch) account)\<lparr>u_updatedAt := now\<rparr>;
                 others = filter (\<lambda>u. \<not> user_row realm uid u) (pg_users d) in
             if p_email patch \<noteq> None \<and> pg_login_conflict others row then Inl (Store_failed USER_EXISTS)
             else if u_passwordHash row = None then Inl (Db_failed ''23502'')
             else if \<not> (btrim_present (u_email row) \<and> btrim_present (u_name row)) then Inl (Db_failed ''23514'')
             else Inr (rowToUser now (Some row),
               d\<lparr>pg_users := map (\<lambda>u. if user_row realm uid u then (applyPatch (normalizePatch patch) u)\<lparr>u_updatedAt := now\<rparr> else u) (pg_users d)\<rparr>))))"

section \<open>Passkeys\<close>

text \<open>\<open>webauthn_challenges_context_consistent\<close>, \<open>webauthn_challenges_uid_size\<close>, \<open>..._user_handle_format\<close> and \<open>..._value_format\<close>.\<close>

definition token_text :: "nat \<Rightarrow> nat \<Rightarrow> string \<Rightarrow> bool" where
  "token_text lo hi t \<longleftrightarrow> lo \<le> length t \<and> length t \<le> hi \<and> list_all (\<lambda>c. is_alpha c \<or> is_digit c \<or> c = CHR ''_'' \<or> c = CHR ''-'') t"

definition challenge_allowed :: "challenge \<Rightarrow> bool" where
  "challenge_allowed c \<longleftrightarrow>
     (ch_purpose c = ''registration'' \<and> ch_userId c \<noteq> None \<and> ch_interactionUid c = None \<and> ch_userHandle c \<noteq> None \<or>
      ch_purpose c = ''authentication'' \<and> ch_userId c = None \<and> ch_interactionUid c \<noteq> None \<and> ch_userHandle c = None) \<and>
     (case ch_interactionUid c of None \<Rightarrow> True | Some i \<Rightarrow> 1 \<le> length i \<and> length i \<le> 255) \<and>
     (case ch_userHandle c of None \<Rightarrow> True | Some h \<Rightarrow> token_text 1 128 h) \<and> token_text 32 512 (ch_challenge c)"

definition pg_createWebAuthnChallenge ::
    "int \<Rightarrow> string \<Rightarrow> string \<Rightarrow> string \<Rightarrow> string option \<Rightarrow> string option \<Rightarrow> string option \<Rightarrow> string \<Rightarrow> int \<Rightarrow> pgdb \<Rightarrow>
     pg_failure + (challenge \<times> pgdb)" where
  "pg_createWebAuthnChallenge now fresh realm purpose userId interactionUid userHandle ch expiresAt d =
     (let c = \<lparr>ch_id = fresh, ch_realm = realm, ch_purpose = purpose, ch_userId = userId, ch_interactionUid = interactionUid,
               ch_userHandle = userHandle, ch_challenge = ch, ch_expiresAt = expiresAt, ch_createdAt = now\<rparr> in
      bindR (guardR (challenge_allowed c) (Db_failed ''23514'')) (\<lambda>_.
      bindR (guardR (list_all (\<lambda>x. \<not> (ch_realm x = realm \<and> (ch_id x = fresh \<or> ch_challenge x = ch))) (pg_challenges d)) (Db_failed ''23505'')) (\<lambda>_.
      bindR (guardR (case userId of None \<Rightarrow> True | Some u \<Rightarrow> filter (user_row realm u) (pg_users d) \<noteq> []) (Db_failed ''23503'')) (\<lambda>_.
        Inr (c, d\<lparr>pg_challenges := pg_challenges d @ [c]\<rparr>)))))"

definition pg_findWebAuthnCredential :: "string \<Rightarrow> string \<Rightarrow> pgdb \<Rightarrow> credential option" where
  "pg_findWebAuthnCredential realm credentialId d = row0 (filter (\<lambda>c. wc_realm c = realm \<and> wc_id c = credentialId) (pg_credentials d))"

definition pg_listWebAuthnCredentials :: "string \<Rightarrow> string \<Rightarrow> pgdb \<Rightarrow> credential list" where
  "pg_listWebAuthnCredentials realm userId d =
     sort_by (\<lambda>a b. wc_createdAt a < wc_createdAt b \<or> wc_createdAt a = wc_createdAt b \<and> str_le (wc_id a) (wc_id b))
       (filter (\<lambda>c. wc_realm c = realm \<and> wc_userId c = userId) (pg_credentials d))"

section \<open>Audit log\<close>

definition pg_writeAudit :: "(string \<Rightarrow> bool) \<Rightarrow> int \<Rightarrow> string \<Rightarrow> audit_event \<Rightarrow> pg_store \<Rightarrow> pg_failure + (audit_record \<times> pg_store)" where
  "pg_writeAudit isIP now fresh event d =
     (let ip = (case ev_ip event of None \<Rightarrow> None | Some a \<Rightarrow> if isIP a then Some a else None);
          row = audit_event.extend (event\<lparr>ev_ip := ip\<rparr>) (audit_record.fields fresh now)
      in bindR (guardR (audit_event.ev_realm event \<in> set (map fst (ps_realms d))) (Db_failed ''23503'')) (\<lambda>_.
         bindR (guardR (btrim_present (ev_type event)) (Db_failed ''23514'')) (\<lambda>_.
           Inr (row, d\<lparr>ps_audit := ps_audit d @ [row]\<rparr>))))"

definition pg_listAudit :: "string \<Rightarrow> nat \<Rightarrow> nat \<Rightarrow> pg_store \<Rightarrow> audit_record list" where
  "pg_listAudit realm limit offset d =
     take limit (drop offset (sort_by (\<lambda>a b. ar_createdAt b \<le> ar_createdAt a) (filter (\<lambda>x. audit_event.ev_realm x = realm) (ps_audit d))))"

section \<open>Clean-up\<close>

text \<open>\<open>DELETE ... WHERE ctid IN (SELECT ctid ... WHERE P ORDER BY key LIMIT n)\<close>.\<close>

definition oldest :: "('r \<Rightarrow> int) \<Rightarrow> ('r \<Rightarrow> bool) \<Rightarrow> nat \<Rightarrow> 'r list \<Rightarrow> 'r list" where
  "oldest key P n t = take n (sort_by (\<lambda>a b. key a \<le> key b) (filter P t))"

definition purge :: "('r \<Rightarrow> int) \<Rightarrow> ('r \<Rightarrow> bool) \<Rightarrow> nat \<Rightarrow> 'r list \<Rightarrow> nat \<times> 'r list" where
  "purge key P n t = (length (oldest key P n t), fold remove1 (oldest key P n t) t)"

definition row_expired :: "int \<Rightarrow> oidc_row \<Rightarrow> bool" where
  "row_expired now x = (case ox_expiresAt x of None \<Rightarrow> False | Some t \<Rightarrow> t \<le> now)"

definition row_expiry :: "oidc_row \<Rightarrow> int" where "row_expiry x = (case ox_expiresAt x of None \<Rightarrow> 0 | Some t \<Rightarrow> t)"

definition session_over :: "int \<Rightarrow> admin_session \<Rightarrow> bool" where
  "session_over now x \<longleftrightarrow> as_expiresAt x \<le> now \<or> as_idleExpiresAt x \<le> now"

definition pg_cleanupExpiredWebAuthnChallenges :: "int \<Rightarrow> nat \<Rightarrow> pgdb \<Rightarrow> nat \<times> pgdb" where
  "pg_cleanupExpiredWebAuthnChallenges now limit d =
     (let (n, t) = purge ch_expiresAt (\<lambda>c. ch_expiresAt c \<le> now) limit (pg_challenges d) in (n, d\<lparr>pg_challenges := t\<rparr>))"

definition pg_cleanupExpiredAdminSessions :: "int \<Rightarrow> nat \<Rightarrow> pgdb \<Rightarrow> nat \<times> pgdb" where
  "pg_cleanupExpiredAdminSessions now limit d =
     (let (n, t) = purge (\<lambda>x. min (as_expiresAt x) (as_idleExpiresAt x)) (session_over now) limit (pg_sessions d)
      in (n, d\<lparr>pg_sessions := t\<rparr>))"

definition pg_cleanupExpired :: "int \<Rightarrow> nat \<Rightarrow> pg_store \<Rightarrow> nat \<times> pg_store" where
  "pg_cleanupExpired now limit d =
     (let (n1, records) = purge row_expiry (row_expired now) limit (pd_records (ps_data d));
          (n2, db1) = pg_cleanupExpiredWebAuthnChallenges now limit (pd_db (ps_data d));
          (n3, db2) = pg_cleanupExpiredAdminSessions now limit db1
      in (n1 + n2 + n3, d\<lparr>ps_data := \<lparr>pd_db = db2, pd_records = records\<rparr>\<rparr>))"

definition out_of_retention :: "int \<Rightarrow> nat \<Rightarrow> audit_record \<Rightarrow> bool" where
  "out_of_retention now days x \<longleftrightarrow> ar_createdAt x < now - int days * 86400000"

definition pg_cleanupAudit :: "int \<Rightarrow> nat \<Rightarrow> nat \<Rightarrow> pg_store \<Rightarrow> nat \<times> pg_store" where
  "pg_cleanupAudit now days limit d =
     (let (n, t) = purge ar_createdAt (out_of_retention now days) limit (ps_audit d) in (n, d\<lparr>ps_audit := t\<rparr>))"

section \<open>Start of the data layer\<close>

text \<open>
  \<open>createDataLayer\<close>: without a database only in development; with one, it has to answer (\<open>ready\<close>), in production the
  migrations have to be in order (\<open>migrated\<close> is \<open>verifyMigrationState\<close>), and every configured realm gets its row. What fails
  closes the pool and is thrown.
\<close>

datatype data_layer = MemoryLayer | PostgresLayer "(string \<times> string) list"

definition realm_row :: "string \<Rightarrow> string \<times> string" where
  "realm_row realm = (realm, if realm = ''master'' then ''Master'' else realm)"

definition upsert_realms :: "string list \<Rightarrow> (string \<times> string) list \<Rightarrow> (string \<times> string) list" where
  "upsert_realms realms rows = fold (\<lambda>r. mset' (fst (realm_row r)) (snd (realm_row r))) realms rows"

definition createDataLayer ::
    "bool \<Rightarrow> bool \<Rightarrow> (string + unit) \<Rightarrow> (string + unit) \<Rightarrow> string list \<Rightarrow> (string \<times> string) list \<Rightarrow> string + data_layer" where
  "createDataLayer devMode databaseUrl ready migrated realms rows =
     (if \<not> databaseUrl
      then bindR (guardR devMode ''The in-memory store is permitted only in development mode'') (\<lambda>_. Inr MemoryLayer)
      else bindR ready (\<lambda>_. bindR (if devMode then Inr () else migrated) (\<lambda>_. Inr (PostgresLayer (upsert_realms realms rows)))))"

end
