(* ===== verification/PasskeyOptions.thy ===== *)
theory PasskeyOptions
  imports SecondFactors
begin

text \<open>
  What \<open>src/security/webauthn.js\<close> gives SimpleWebAuthn to make a challenge, and the limiters of \<open>src/security/rate-limit.js\<close> with
  their settings, keys and life cycle. The options are the object passed to the library (the user handle as the text of its
  bytes); \<open>hmac key texts\<close> is HMAC-SHA-256 over the concatenated texts.
\<close>

section \<open>Challenges\<close>

definition handle_text :: "string \<Rightarrow> string \<Rightarrow> string" where
  "handle_text realm userId = ''authme-webauthn-user-handle'' @ CHR 0x00 # realm @ CHR 0x00 # userId"

definition userHandle :: "(string \<Rightarrow> string \<Rightarrow> string) \<Rightarrow> string \<Rightarrow> string \<Rightarrow> string \<Rightarrow> string" where
  "userHandle hmac secret realm userId = hmac secret (handle_text realm userId)"

definition excluded :: "credential \<Rightarrow> json" where
  "excluded c = JObj [(''id'', JStr (wc_id c)), (''transports'', JArr (map JStr (wc_transports c)))]"

text \<open>\<open>challengeTtl\<close> in seconds, as the configuration has it.\<close>

definition registrationOptions ::
    "(string \<Rightarrow> string \<Rightarrow> string) \<Rightarrow> webauthn \<Rightarrow> string \<Rightarrow> int \<Rightarrow> string \<Rightarrow> user \<Rightarrow> credential list \<Rightarrow> json" where
  "registrationOptions hmac wn subjectSalt challengeTtl realm u credentials = JObj
     [(''rpName'', JStr (''AuthMe ('' @ realm @ '')'')), (''rpID'', JStr (wn_rpID wn)),
      (''userID'', JStr (userHandle hmac subjectSalt realm (u_id u))), (''userName'', JStr (u_username u)),
      (''userDisplayName'', JStr (u_name u)), (''timeout'', JNum (challengeTtl * 1000)), (''attestationType'', JStr ''none''),
      (''excludeCredentials'', JArr (map excluded credentials)),
      (''authenticatorSelection'', JObj [(''residentKey'', JStr ''required''), (''userVerification'', JStr ''required'')])]"

definition authenticationOptions :: "webauthn \<Rightarrow> int \<Rightarrow> json" where
  "authenticationOptions wn challengeTtl = JObj
     [(''rpID'', JStr (wn_rpID wn)), (''timeout'', JNum (challengeTtl * 1000)), (''userVerification'', JStr ''required'')]"

text \<open>Accounts do not share a handle unless the HMAC collides: what is hashed tells the realm and the account.\<close>

lemma nul_free_prefix:
  "NUL \<notin> set a \<Longrightarrow> NUL \<notin> set b \<Longrightarrow> a @ NUL # x = b @ NUL # y \<longleftrightarrow> a = b \<and> x = y" for NUL :: char
proof (induction a arbitrary: b)
  case Nil
  then show ?case by (cases b) auto
next
  case (Cons c a)
  then show ?case by (cases b) auto
qed

lemma handle_text_inj:
  assumes "CHR 0x00 \<notin> set r" "CHR 0x00 \<notin> set r'"
  shows "handle_text r u = handle_text r' u' \<longleftrightarrow> r = r' \<and> u = u'"
  using nul_free_prefix [OF assms, of u u'] by (simp add: handle_text_def)

section \<open>Limiters\<close>

record limiter =
  lm_keyPrefix :: string
  lm_points :: nat
  lm_duration :: nat
  lm_blockDuration :: nat

definition loginIp :: limiter where "loginIp = \<lparr>lm_keyPrefix = ''authme:login:ip'', lm_points = 20, lm_duration = 60, lm_blockDuration = 60\<rparr>"
definition loginAccount :: limiter where
  "loginAccount = \<lparr>lm_keyPrefix = ''authme:login:account'', lm_points = 10, lm_duration = 900, lm_blockDuration = 900\<rparr>"
definition adminLimiter :: limiter where "adminLimiter = \<lparr>lm_keyPrefix = ''authme:admin'', lm_points = 120, lm_duration = 60, lm_blockDuration = 60\<rparr>"
definition registrationLimiter :: limiter where
  "registrationLimiter = \<lparr>lm_keyPrefix = ''authme:registration'', lm_points = 30, lm_duration = 60, lm_blockDuration = 60\<rparr>"
definition deviceVerification :: limiter where
  "deviceVerification = \<lparr>lm_keyPrefix = ''authme:device:verify'', lm_points = 30, lm_duration = 60, lm_blockDuration = 60\<rparr>"

text \<open>
  A limiter of the library over its counters \<open>'r\<close>: it refuses with the remaining milliseconds, or counts. With Redis the
  library falls back to a limiter in memory with the same settings by itself (\<open>insuranceLimiter\<close>).
\<close>

type_synonym 'r limiting = "limiter \<Rightarrow> string \<Rightarrow> 'r \<Rightarrow> int option \<times> 'r"

definition consume_login :: "crypto \<Rightarrow> 'r limiting \<Rightarrow> string \<Rightarrow> string \<Rightarrow> 'r \<Rightarrow> int option \<times> 'r" where
  "consume_login cy limiting = consumeLogin cy (limiting loginIp) (limiting loginAccount)"

definition consumeAdmin :: "crypto \<Rightarrow> 'r limiting \<Rightarrow> string \<Rightarrow> 'r \<Rightarrow> int option \<times> 'r" where
  "consumeAdmin cy limiting ip = limiting adminLimiter (opaqueKey cy ''admin-ip'' ip)"

definition consumeRegistration :: "crypto \<Rightarrow> 'r limiting \<Rightarrow> string \<Rightarrow> 'r \<Rightarrow> int option \<times> 'r" where
  "consumeRegistration cy limiting ip = limiting registrationLimiter (opaqueKey cy ''registration-ip'' ip)"

definition consumeDeviceVerification :: "crypto \<Rightarrow> 'r limiting \<Rightarrow> string \<Rightarrow> 'r \<Rightarrow> int option \<times> 'r" where
  "consumeDeviceVerification cy limiting ip = limiting deviceVerification (opaqueKey cy ''device-ip'' ip)"

text \<open>The client of Redis, if there is one, by its status. Connecting may fail; a ping gives a text.\<close>

datatype redis_status = Waiting | Connected | Ended

record redis_world =
  rw_connect :: bool
  rw_ping :: "string option"

definition limits_ready :: "redis_world \<Rightarrow> redis_status option \<Rightarrow> (unit + bool) \<times> redis_status option" where
  "limits_ready w redis =
     (case redis of
        None \<Rightarrow> (Inr True, None)
      | Some st \<Rightarrow>
          if st = Waiting \<and> \<not> rw_connect w then (Inl (), Some st)
          else (let st' = (if st = Waiting then Connected else st) in
                case rw_ping w of None \<Rightarrow> (Inl (), Some st') | Some t \<Rightarrow> (Inr (t = ''PONG''), Some st')))"

definition limits_close :: "bool \<Rightarrow> redis_status option \<Rightarrow> (unit + unit) \<times> redis_status option" where
  "limits_close quits redis =
     (case redis of
        None \<Rightarrow> (Inr (), None)
      | Some st \<Rightarrow> if st = Ended then (Inr (), Some st) else if quits then (Inr (), Some Ended) else (Inl (), Some st))"

text \<open>The five limiters share no key, whatever the address and the account.\<close>

lemma limiters_apart: "distinct (map lm_keyPrefix [loginIp, loginAccount, adminLimiter, registrationLimiter, deviceVerification])"
  by (simp add: loginIp_def loginAccount_def adminLimiter_def registrationLimiter_def deviceVerification_def)

text \<open>A blocked source does not use up the points of an account: nothing but its own counter has been touched.\<close>

lemma blocked_source_spares_account:
  assumes "limiting loginIp (opaqueKey cy ''login-ip'' ip) r = (Some ms, r')"
  shows "consume_login cy limiting ip account r = (Some ms, r')"
  using assms by (simp add: consume_login_def consumeLogin_def)

end
