(* ===== verification/AppStart.thy ===== *)
theory AppStart
  imports AppShell OidcServer SigningKeys PgStore PasskeyOptions AuditWriter
begin

text \<open>
  How the service comes up and goes down: the identity runtime (\<open>src/authentication/runtime.js\<close>), \<open>createAuthMeApp\<close> of \<open>src/app.js\<close> with
  the resources it opens and what it closes when a step fails, the timer of the maintenance, and the process around it
  (\<open>src/index.js\<close>). The parts that are built are those of the other theories; what fails or not outside of them (a data base
  that does not answer, a resource that does not close) is in \<open>start_world\<close>.
\<close>

section \<open>The identity runtime\<close>

definition ldap_manifest :: json where
  "ldap_manifest = JObj [(''apiVersion'', JStr AUTHME_EXTENSION_API_VERSION), (''id'', JStr ''builtin.ldap''), (''kind'', JStr ''authenticator''),
     (''displayName'', JStr ''LDAP and Active Directory''), (''capabilities'', JArr [JStr ''active-directory'', JStr ''jit-provisioning'', JStr ''ldap''])]"

definition scim_manifest :: json where
  "scim_manifest = JObj [(''apiVersion'', JStr AUTHME_EXTENSION_API_VERSION), (''id'', JStr ''builtin.scim2''), (''kind'', JStr ''provisioning''),
     (''displayName'', JStr ''SCIM 2.0 Provisioning''), (''capabilities'', JArr [JStr ''groups'', JStr ''scim2'', JStr ''users''])]"

definition no_methods :: "'s implementation" where
  "no_methods = \<lparr>im_enabledFor = slot.Absent, im_providersFor = slot.Absent, im_initiate = slot.Absent, im_consume = slot.Absent,
     im_metadataFor = slot.Absent, im_authenticate = slot.Absent, im_begin = slot.Absent, im_complete = slot.Absent, im_createRouter = slot.Absent\<rparr>"

definition realm_has :: "(string \<times> 'a list) list \<Rightarrow> string \<Rightarrow> json" where
  "realm_has table realm = JBool (case mget table realm of None \<Rightarrow> False | Some xs \<Rightarrow> xs \<noteq> [])"

definition createLdapExtension :: "(ldap_provider \<Rightarrow> ldap_world) \<Rightarrow> (string \<times> ldap_provider list) list \<Rightarrow> json \<times> 's implementation option" where
  "createLdapExtension w table = (ldap_manifest, Some (no_methods\<lparr>im_enabledFor := Method (realm_has table),
     im_authenticate := Method (\<lambda>input. retS (ldap_authenticate w
        (case mget table (js_String (jprop input ''realm'')) of None \<Rightarrow> [] | Some ps \<Rightarrow> ps)
        (js_String (jprop input ''login'')) (js_String (jprop input ''secret'')) False))\<rparr>))"

definition createScimExtension :: "(string \<times> scim_token list) list \<Rightarrow> json \<times> 's implementation option" where
  "createScimExtension tokens = (scim_manifest, Some (no_methods\<lparr>im_enabledFor := Method (realm_has tokens), im_createRouter := Method ()\<rparr>))"

definition anyEnabled :: "(string \<times> 'a list) list \<Rightarrow> bool" where "anyEnabled byRealm = list_ex (\<lambda>(r, xs). xs \<noteq> []) byRealm"

record runtime_world =
  nw_ldap :: "ldap_provider \<Rightarrow> ldap_world"
  nw_oidc :: oidc_world
  nw_saml :: saml_world

record identity_runtime =
  ir_registry :: "fed_app registry"
  ir_scim :: bool

text \<open>Every SAML broker is built once, so that a bad key, certificate or endpoint shows at the start.\<close>

definition check_brokers :: "saml_world \<Rightarrow> (string \<times> saml_provider list) list \<Rightarrow> string + unit" where
  "check_brokers w table =
     bindR (mapR (\<lambda>(realm, ps). mapR (\<lambda>p. case brokerFor w table (JStr realm) (JStr (sc_id p)) of Inl _ \<Rightarrow> Inl ''Error'' | Inr _ \<Rightarrow> Inr ()) ps) table)
       (\<lambda>_. Inr ())"

definition createIdentityRuntime :: "runtime_world \<Rightarrow> config \<Rightarrow> bool \<Rightarrow> string + identity_runtime" where
  "createIdentityRuntime w c pool =
     bindR (guardR (\<not> anyEnabled (cg_scim c) \<or> pool) ''SCIM provisioning requires PostgreSQL'') (\<lambda>_.
     bindR (case createIdentityExtensionRegistry
              [createLdapExtension (nw_ldap w) (cg_ldap c), createOidcFederationExtension (nw_oidc w) (cg_oidc c),
               createSamlFederationExtension (nw_saml w) (cg_saml c), createScimExtension (cg_scim c)] of
              Inl _ \<Rightarrow> Inl ''AUTHME_EXTENSION_INVALID'' | Inr r \<Rightarrow> Inr r) (\<lambda>registry.
     bindR (check_brokers (nw_saml w) (cg_saml c)) (\<lambda>_.
       Inr \<lparr>ir_registry = registry, ir_scim = anyEnabled (cg_scim c)\<rparr>)))"

section \<open>The application\<close>

datatype resource = DataResource | LimitsResource | MetricsResource | WriterResource | Timer

text \<open>
  \<open>sv_open\<close> are the resources in the order they were opened, \<open>sv_closed\<close> the attempts to close one. \<open>sv_cleanupRunning\<close> is the flag
  of the timer, \<open>sv_runs\<close> the maintenance runs under way.
\<close>

record 'd service =
  sv_data :: 'd
  sv_open :: "resource list"
  sv_closed :: "resource list"
  sv_ready :: bool
  sv_cleanupRunning :: bool
  sv_runs :: nat

text \<open>What the steps of the start rely on; \<open>stw_bootstrap\<close>, \<open>stw_expire\<close> and \<open>stw_trim\<close> are operations of the data layer and its store.\<close>

record 'd start_world =
  stw_dataLayer :: "string + data_layer"
  stw_storeReady :: "string + unit"
  stw_limitsReady :: "string + bool"
  stw_hash :: "string + string"
  stw_runtime :: runtime_world
  stw_server :: server_world
  stw_keys :: keys_world
  stw_bootstrap :: "'d \<Rightarrow> (string + unit) \<times> 'd"
  stw_expire :: "nat \<Rightarrow> 'd \<Rightarrow> nat \<times> 'd"
  stw_trim :: "nat \<Rightarrow> 'd \<Rightarrow> nat \<times> 'd"
  stw_closes :: "resource \<Rightarrow> bool"

record application =
  app_runtime :: identity_runtime
  app_jwks :: "(string \<times> json) list"
  app_providers :: "(string \<times> realm_provider) list"
  app_dummyPasswordHash :: string

definition acquire :: "resource \<Rightarrow> 'd service \<Rightarrow> 'd service" where "acquire r s = s\<lparr>sv_open := sv_open s @ [r]\<rparr>"

text \<open>One attempt to close; \<open>False\<close> is an exception.\<close>

definition close_resource :: "(resource \<Rightarrow> bool) \<Rightarrow> resource \<Rightarrow> 'd service \<Rightarrow> bool \<times> 'd service" where
  "close_resource closes r s =
     (closes r, s\<lparr>sv_closed := sv_closed s @ [r], sv_open := (if closes r then removeAll r (sv_open s) else sv_open s)\<rparr>)"

text \<open>\<open>clearInterval\<close> cannot fail and does nothing without a timer.\<close>

definition clear_timer :: "'d service \<Rightarrow> 'd service" where "clear_timer s = s\<lparr>sv_open := removeAll Timer (sv_open s)\<rparr>"

text \<open>The keys and the provider of one realm.\<close>

definition start_realm :: "'d start_world \<Rightarrow> config \<Rightarrow> string \<Rightarrow> string + (string \<times> json \<times> realm_provider)" where
  "start_realm w c realm =
     bindR (loadRealmJwks (stw_keys w) c realm) (\<lambda>jwks.
     bindR (createRealmProvider (stw_server w) c realm) (\<lambda>provider. Inr (realm, jwks, provider)))"

definition run_maintenance :: "'d start_world \<Rightarrow> 'd service \<Rightarrow> 'd service" where
  "run_maintenance w s = s\<lparr>sv_data := snd (snd (drainMaintenance (stw_expire w) (stw_trim w) (sv_data s)))\<rparr>"

text \<open>The body of the \<open>try\<close>.\<close>

definition start_body :: "'d start_world \<Rightarrow> config \<Rightarrow> ('d service, string, application) handler" where
  "start_body w c =
     bindS (liftR (stw_storeReady w)) (\<lambda>_.
     bindS (liftR (stw_limitsReady w)) (\<lambda>_.
     bindS (\<lambda>s. case stw_bootstrap w (sv_data s) of (r, d) \<Rightarrow> (r, s\<lparr>sv_data := d\<rparr>)) (\<lambda>_.
     bindS (liftR (stw_hash w)) (\<lambda>dummyPasswordHash.
     bindS (liftR (createIdentityRuntime (stw_runtime w) c
              (case stw_dataLayer w of Inr (PostgresLayer _) \<Rightarrow> True | _ \<Rightarrow> False))) (\<lambda>runtime.
     bindS (liftR (mapR (start_realm w c) (cg_realms c))) (\<lambda>built.
     bindS (\<lambda>s. (Inr (), acquire Timer (run_maintenance w s))) (\<lambda>_.
       retS \<lparr>app_runtime = runtime, app_jwks = map (\<lambda>(r, j, p). (r, j)) built, app_providers = map (\<lambda>(r, j, p). (r, p)) built,
         app_dummyPasswordHash = dummyPasswordHash\<rparr>)))))))"

text \<open>The \<open>catch\<close>: everything that was opened before the \<open>try\<close> is closed, whatever the others do.\<close>

definition give_up :: "(resource \<Rightarrow> bool) \<Rightarrow> 'd service \<Rightarrow> 'd service" where
  "give_up closes s =
     snd (close_resource closes DataResource (snd (close_resource closes LimitsResource (snd (close_resource closes WriterResource (clear_timer s))))))"

definition createAuthMeApp :: "'d start_world \<Rightarrow> config \<Rightarrow> ('d service, string, application) handler" where
  "createAuthMeApp w c =
     bindS (liftR (stw_dataLayer w)) (\<lambda>_ s.
       let s1 = acquire WriterResource (acquire MetricsResource (acquire LimitsResource (acquire DataResource s))) in
       case start_body w c s1 of
         (Inl e, s2) \<Rightarrow> (Inl e, give_up (stw_closes w) s2)
       | (Inr app, s2) \<Rightarrow> (Inr app, s2\<lparr>sv_ready := True\<rparr>))"

text \<open>\<open>close()\<close>: here an exception stops the rest.\<close>

definition close_service :: "(resource \<Rightarrow> bool) \<Rightarrow> 'd service \<Rightarrow> bool \<times> 'd service" where
  "close_service closes s0 =
     (let s = clear_timer (s0\<lparr>sv_ready := False\<rparr>); (a, s1) = close_resource closes WriterResource s in
      if \<not> a then (False, s1) else
        (let (b, s2) = close_resource closes LimitsResource s1 in
         if \<not> b then (False, s2) else
           (let (e, s3) = close_resource closes DataResource s2 in
            if \<not> e then (False, s3) else (True, s3\<lparr>sv_open := removeAll MetricsResource (sv_open s3), sv_closed := sv_closed s3 @ [MetricsResource]\<rparr>))))"

section \<open>Ticks and the end\<close>

text \<open>
  What happens to a running service: the timer fires (and starts a run only if none is under way), a run ends, with whatever it
  did to the data when it failed, or \<open>close()\<close> is called.
\<close>

inductive service_step :: "'d start_world \<Rightarrow> 'd service \<Rightarrow> 'd service \<Rightarrow> bool" for w where
  tick: "Timer \<in> set (sv_open s) \<Longrightarrow> \<not> sv_cleanupRunning s \<Longrightarrow>
    service_step w s (s\<lparr>sv_cleanupRunning := True, sv_runs := sv_runs s + 1\<rparr>)"
| skip: "Timer \<in> set (sv_open s) \<Longrightarrow> sv_cleanupRunning s \<Longrightarrow> service_step w s s"
| run_ends: "0 < sv_runs s \<Longrightarrow> service_step w s ((run_maintenance w s)\<lparr>sv_cleanupRunning := False, sv_runs := sv_runs s - 1\<rparr>)"
| run_fails: "0 < sv_runs s \<Longrightarrow> service_step w s (s\<lparr>sv_data := d, sv_cleanupRunning := False, sv_runs := sv_runs s - 1\<rparr>)"
| close: "service_step w s (snd (close_service (stw_closes w) s))"

inductive serving :: "'d start_world \<Rightarrow> config \<Rightarrow> 'd service \<Rightarrow> bool" for w c where
  started: "createAuthMeApp w c \<lparr>sv_data = d, sv_open = [], sv_closed = [], sv_ready = False, sv_cleanupRunning = False, sv_runs = 0\<rparr> = (Inr app, s) \<Longrightarrow>
    serving w c s"
| step: "serving w c s \<Longrightarrow> service_step w s s' \<Longrightarrow> serving w c s'"

definition service_inv :: "'d service \<Rightarrow> bool" where
  "service_inv s \<longleftrightarrow> sv_runs s = (if sv_cleanupRunning s then 1 else 0) \<and>
     (sv_ready s \<longrightarrow> set (sv_open s) = {DataResource, LimitsResource, MetricsResource, WriterResource, Timer} \<and> sv_closed s = []) \<and>
     (LimitsResource \<notin> set (sv_open s) \<longrightarrow> WriterResource \<notin> set (sv_open s) \<and> Timer \<notin> set (sv_open s)) \<and>
     (DataResource \<notin> set (sv_open s) \<longrightarrow> LimitsResource \<notin> set (sv_open s)) \<and>
     (MetricsResource \<notin> set (sv_open s) \<longrightarrow> DataResource \<notin> set (sv_open s))"

definition all_resources :: "resource list" where
  "all_resources = [DataResource, LimitsResource, MetricsResource, WriterResource, Timer]"

lemma start_body_open:
  "start_body w c s = (r, s') \<Longrightarrow> sv_closed s' = sv_closed s \<and> sv_ready s' = sv_ready s \<and> sv_cleanupRunning s' = sv_cleanupRunning s \<and>
     sv_runs s' = sv_runs s \<and> sv_open s' = sv_open s @ (case r of Inl _ \<Rightarrow> [] | Inr _ \<Rightarrow> [Timer])"
  by (auto simp: start_body_def bindS_def liftR_def acquire_def run_maintenance_def split: sum.splits prod.splits)

lemma createAuthMeApp_cases:
  assumes "createAuthMeApp w c s = (r, s')" "sv_open s = []"
  obtains (layer) e where "r = Inl e" "s' = s" "stw_dataLayer w = Inl e"
  | (failed) e l s2 where "stw_dataLayer w = Inr l" "r = Inl e" "s' = give_up (stw_closes w) s2"
      "sv_open s2 = [DataResource, LimitsResource, MetricsResource, WriterResource]" "sv_closed s2 = sv_closed s" "sv_ready s2 = sv_ready s"
  | (started) app l s1 s2 where "stw_dataLayer w = Inr l" "r = Inr app" "start_body w c s1 = (Inr app, s2)" "s' = s2\<lparr>sv_ready := True\<rparr>"
      "sv_open s2 = all_resources" "sv_closed s2 = sv_closed s" "sv_data s1 = sv_data s"
      "sv_cleanupRunning s2 = sv_cleanupRunning s" "sv_runs s2 = sv_runs s"
proof (cases "stw_dataLayer w")
  case (Inl e)
  then show ?thesis using assms by (intro layer [of e]) (auto simp: createAuthMeApp_def bindS_def)
next
  case (Inr l)
  let ?s1 = "acquire WriterResource (acquire MetricsResource (acquire LimitsResource (acquire DataResource s)))"
  have o: "sv_open ?s1 = [DataResource, LimitsResource, MetricsResource, WriterResource]" "sv_closed ?s1 = sv_closed s" "sv_ready ?s1 = sv_ready s"
      "sv_data ?s1 = sv_data s" "sv_cleanupRunning ?s1 = sv_cleanupRunning s" "sv_runs ?s1 = sv_runs s"
    using assms(2) by (simp_all add: acquire_def)
  obtain b s2 where b: "start_body w c ?s1 = (b, s2)" by fastforce
  note k = start_body_open [OF b]
  show ?thesis
  proof (cases b)
    case (Inl e)
    then show ?thesis using assms(1) Inr b k o by (intro failed [of l e s2]) (auto simp: createAuthMeApp_def bindS_def Let_def)
  next
    case (Inr app)
    then show ?thesis using assms(1) \<open>stw_dataLayer w = Inr l\<close> b k o
      by (intro started [of l app ?s1 s2]) (auto simp: createAuthMeApp_def bindS_def Let_def all_resources_def)
  qed
qed

lemma service_inv_start: "createAuthMeApp w c s = (Inr app, s') \<Longrightarrow> sv_open s = [] \<Longrightarrow> sv_closed s = [] \<Longrightarrow> sv_runs s = 0 \<Longrightarrow>
    \<not> sv_cleanupRunning s \<Longrightarrow> service_inv s'"
  by (erule createAuthMeApp_cases) (auto simp: service_inv_def all_resources_def)

lemma close_service_inv: "service_inv s \<Longrightarrow> service_inv (snd (close_service closes s))"
  by (cases "closes WriterResource"; cases "closes LimitsResource"; cases "closes DataResource")
    (simp_all add: service_inv_def close_service_def close_resource_def clear_timer_def)

lemma service_step_inv: "service_step w s s' \<Longrightarrow> service_inv s \<Longrightarrow> service_inv s'"
proof (induction rule: service_step.induct)
  case (close s)
  then show ?case by (rule close_service_inv)
qed (auto simp: service_inv_def run_maintenance_def split: if_splits)


end
