(* ===== verification/OidcServerProps.thy ===== *)
theory OidcServerProps
  imports OidcServer AdapterProps IdentityProps
begin

text \<open>
  The properties of the provider set-up: what the clients of a production realm can do, what an access token says about its
  user, who may introspect it, and that an initial access token registers one client.
\<close>

section \<open>Clients of a realm\<close>

lemma web_origin_production: "web_origin_ok parse False o' \<Longrightarrow> \<exists>s u. o' = JStr s \<and> parse s = Some u \<and> wu_protocol u = ''https:'' \<and> wu_origin u = s"
  by (auto simp: web_origin_ok_def split: json.splits option.splits)

lemma corsAllowed_production:
  assumes "validateWebOrigins parse False x = Inr ()" "corsAllowed origin x"
  shows "\<exists>u. parse origin = Some u \<and> wu_protocol u = ''https:'' \<and> wu_origin u = origin"
proof -
  obtain xs where "jprop x ''web_origins'' = JArr xs" "JStr origin \<in> set xs"
    using assms(2) by (auto simp: corsAllowed_def split: json.splits)
  then have "web_origin_ok parse False (JStr origin)" using assms(1) by (auto simp: validateWebOrigins_def list_all_iff)
  from web_origin_production [OF this] show ?thesis by auto
qed

text \<open>What the policy demands of a client outside development mode.\<close>

definition secure_client :: "server_world \<Rightarrow> json \<Rightarrow> bool" where
  "secure_client w x \<longleftrightarrow>
     (case jprop x ''grant_types'' of JArr gs \<Rightarrow> JStr ''implicit'' \<notin> set gs \<and> JStr ''password'' \<notin> set gs | v \<Rightarrow> nullish v) \<and>
     (client_method x = JStr ''none'' \<or>
      client_method x = JStr ''client_secret_basic'' \<and> (\<exists>s. jprop x ''client_secret'' = JStr s \<and> 32 \<le> vw_bytes w s)) \<and>
     (\<forall>f\<in>{''redirect_uris'', ''post_logout_redirect_uris''}. \<forall>vs. jprop x f = JArr vs \<longrightarrow> (\<forall>v\<in>set vs. \<exists>u. vw_parse_url w (js_String v) = Some u \<and>
        (wu_protocol u = ''https:'' \<or> jprop x ''application_type'' = JStr ''native'' \<and> wu_protocol u = ''http:'' \<and> isLoopback (wu_hostname u)) \<and>
        wu_username u = [] \<and> wu_password u = [] \<and> wu_hash u = [])) \<and>
     (\<forall>origin. corsAllowed origin x \<longrightarrow>
        (\<exists>u. vw_parse_url w origin = Some u \<and> wu_protocol u = ''https:'' \<and> wu_origin u = origin))"

lemma validateClientSecurity_production:
  assumes "validateClientSecurity w False x = Inr ()" shows "secure_client w x"
proof -
  let ?g = "if nullish (jprop x ''grant_types'') then strs [''authorization_code''] else jprop x ''grant_types''"
  note run = assms [unfolded validateClientSecurity_def Let_def]
  have grants: "case ?g of JArr xs \<Rightarrow> JStr ''implicit'' \<notin> set xs \<and> JStr ''password'' \<notin> set xs | _ \<Rightarrow> False"
    using run by (auto simp del: jprop.simps)
  have meth: "client_method x = JStr ''client_secret_basic'' \<or> client_method x = JStr ''none''" using run by (auto simp del: jprop.simps)
  have origins: "validateWebOrigins (vw_parse_url w) False x = Inr ()" using run by (auto simp del: jprop.simps)
  have redirects: "list_all (\<lambda>f. case redirects_of x f of None \<Rightarrow> False | Some vs \<Rightarrow> list_all (redirect_ok (vw_parse_url w) x) vs)
      [''redirect_uris'', ''post_logout_redirect_uris'']" using run by (auto simp del: jprop.simps)
  have sec: "client_method x \<noteq> JStr ''client_secret_basic'' \<or>
      (case jprop x ''client_secret'' of JStr s \<Rightarrow> 32 \<le> vw_bytes w s | _ \<Rightarrow> False)" using run by (auto simp del: jprop.simps)
  have 1: "case jprop x ''grant_types'' of JArr gs \<Rightarrow> JStr ''implicit'' \<notin> set gs \<and> JStr ''password'' \<notin> set gs | v \<Rightarrow> nullish v"
    using grants by (cases "jprop x ''grant_types''") auto
  have 2: "client_method x = JStr ''none'' \<or>
      client_method x = JStr ''client_secret_basic'' \<and> (\<exists>s. jprop x ''client_secret'' = JStr s \<and> 32 \<le> vw_bytes w s)"
    using meth sec by (cases "jprop x ''client_secret''") auto
  have 3: "redirect_ok (vw_parse_url w) x v" if "f \<in> {''redirect_uris'', ''post_logout_redirect_uris''}" "jprop x f = JArr vs" "v \<in> set vs" for f vs v
    using redirects that by (auto simp: redirects_of_def list_all_iff)
  have 3: "\<exists>u. vw_parse_url w (js_String v) = Some u \<and>
        (wu_protocol u = ''https:'' \<or> jprop x ''application_type'' = JStr ''native'' \<and> wu_protocol u = ''http:'' \<and> isLoopback (wu_hostname u)) \<and>
        wu_username u = [] \<and> wu_password u = [] \<and> wu_hash u = []"
    if "f \<in> {''redirect_uris'', ''post_logout_redirect_uris''}" "jprop x f = JArr vs" "v \<in> set vs" for f vs v
    using 3 [OF that] by (auto simp: redirect_ok_def split: option.splits)
  show ?thesis
    unfolding secure_client_def using 1 2 3 corsAllowed_production [OF origins] by blast
qed

text \<open>C26: Outside development mode a realm is served only with secure clients. No client may use the implicit or the
password grant; a client either has no secret or one of at least 32 bytes; browsers are sent back only to HTTPS addresses
or, for native applications, to the loopback interface; cross-origin requests are allowed only from HTTPS origins; proof keys
are always required; and the identifier of the administration console belongs to the built-in client alone, whose
redirect addresses are on the public address of the service.\<close>

theorem provider_clients_secure:
  assumes run: "createRealmProvider w c realm = Inr p" and prod: "\<not> cg_devMode c"
  shows "realm \<in> set (cg_realms c) \<and> rp_issuer p = cg_publicUrl c @ ''/realms/'' @ realm \<and> rp_pkceRequired p \<and>
    (\<forall>x\<in>set (rp_clients p). secure_client w x) \<and>
    filter (\<lambda>x. jprop x ''client_id'' = JStr CONSOLE_CLIENT_ID) (rp_clients p) = [adminConsoleClient c] \<and>
    jprop (adminConsoleClient c) ''redirect_uris'' = JArr [JStr (cg_publicUrl c @ ''/admin/oidc/callback'')]"
proof -
  from run obtain issuer clients us where o: "issuerFor c realm = Inr issuer" "configuredClientsForRealm c realm = Inr clients"
      "mapR (validateClientSecurity w (cg_devMode c)) clients = Inr us" "rp_issuer p = issuer" "rp_clients p = clients" "rp_pkceRequired p"
    unfolding createRealmProvider_def Let_def by auto
  have secure: "secure_client w x" if "x \<in> set clients" for x
    using o(3) [unfolded mapR_Inr_iff] that prod validateClientSecurity_production
    by (auto simp: list_all2_conv_all_nth in_set_conv_nth)
  have ids: "\<not> jprop x ''client_id'' = JStr CONSOLE_CLIENT_ID" if "mget (cg_clients c) realm = Some cs" "x \<in> set cs" for x cs
  proof
    assume i: "jprop x ''client_id'' = JStr CONSOLE_CLIENT_ID"
    note cs = that(1)
    obtain us where "mapR (\<lambda>x. bindR (guardR (x \<noteq> JNull) ''TypeError'') (\<lambda>_.
        guardR (jprop x ''client_id'' \<noteq> JStr CONSOLE_CLIENT_ID) ''Error'')) cs = Inr us"
      using o(2) that(1) unfolding configuredClientsForRealm_def Let_def
      by (elim bindR_InrE) (use cs that in simp)
    with i that(2) show False by (auto simp: mapR_Inr_iff list_all2_conv_all_nth in_set_conv_nth)
  qed
  have "filter (\<lambda>x. jprop x ''client_id'' = JStr CONSOLE_CLIENT_ID) clients = [adminConsoleClient c]"
    using o(2) ids prod
    by (auto simp: configuredClientsForRealm_def Let_def adminConsoleClient_def filter_empty_conv simp del: split: option.splits)
  then show ?thesis
    using o(1,4-6) secure by (auto simp: issuerFor_def adminConsoleClient_def strs_def split: if_splits)
qed

definition demo_origin_parser :: url_parser where
  "demo_origin_parser s = Some \<lparr>wu_protocol = ''https:'', wu_hostname = ''a'', wu_username = [], wu_password = [], wu_pathname = ''/'',
     wu_search = [], wu_hash = [], wu_origin = s, wu_href = s\<rparr>"

definition demo_server :: server_world where
  "demo_server = \<lparr>vw_parse_url = demo_origin_parser, vw_bytes = length, vw_hmac = (\<lambda>k t. ''m'')\<rparr>"

definition demo_client :: json where
  "demo_client = JObj [(''client_id'', JStr ''app''), (''client_secret'', JStr (replicate 32 (CHR ''s''))),
     (''redirect_uris'', strs [''https://app/cb'']), (''web_origins'', strs [''https://app''])]"

definition demo_realm_config :: config where
  "demo_realm_config = \<lparr>cg_devMode = False, cg_trustProxy = True, cg_publicUrl = ''https://id'', cg_port = 3000, cg_realms = [''corp''],
     cg_cookieKeys = [''k''], cg_csrfSecret = ''c'', cg_passwordPepper = ''p'', cg_subjectSalt = ''s'', cg_fieldEncryptionKey = ''f'',
     cg_adminToken = ''a'', cg_jwksDir = None, cg_clients = [(''corp'', [demo_client])], cg_resourceServers = [], cg_ldap = [], cg_oidc = [],
     cg_saml = [], cg_scim = [], cg_enableDynamicRegistration = False, cg_devAdminPassword = [], cg_logLevel = ''info'',
     cg_accessTokenTtl = 300, cg_authorizationCodeTtl = 60, cg_sessionTtl = 3600, cg_webauthnChallengeTtl = 120, cg_auditRetentionDays = 30,
     cg_databaseUrl = None, cg_redisUrl = None\<rparr>"

lemma demo_clients_valid:
  "validateClientSecurity demo_server False demo_client = Inr ()"
  "validateClientSecurity demo_server False (adminConsoleClient demo_realm_config) = Inr ()"
  by (simp_all add: validateClientSecurity_def validateWebOrigins_def web_origin_ok_def client_method_def redirects_of_def redirect_ok_def
      backchannel_ok_def demo_server_def demo_client_def demo_origin_parser_def adminConsoleClient_def strs_def Let_def)

theorem provider_clients_secure_witness:
  "\<exists>p. createRealmProvider demo_server demo_realm_config ''corp'' = Inr p \<and> length (rp_clients p) = 2 \<and> rp_pkceRequired p"
proof -
  have "configuredClientsForRealm demo_realm_config ''corp'' = Inr [demo_client, adminConsoleClient demo_realm_config]"
    by (simp add: configuredClientsForRealm_def demo_realm_config_def demo_client_def CONSOLE_CLIENT_ID_def)
  then obtain p where p: "createRealmProvider demo_server demo_realm_config ''corp'' = Inr p" "length (rp_clients p) = 2"
    using demo_clients_valid by (simp add: createRealmProvider_def issuerFor_def demo_realm_config_def)
  have "\<not> cg_devMode demo_realm_config" by (simp add: demo_realm_config_def)
  from provider_clients_secure [OF p(1) this] p show ?thesis by blast
qed

section \<open>Claims in access tokens\<close>

lemma mget_concat_single:
  "mget (concat (map (\<lambda>c. case f c of None \<Rightarrow> [] | Some v \<Rightarrow> [(c, v)]) cs)) k = (if k \<in> set cs then f k else None)"
  by (induction cs) (auto split: option.splits)

lemma resource_access_get:
  "mget (resource_access r u) cid = Some v \<Longrightarrow>
    cid \<in> set (rs_roleClientIds r) \<and> (\<exists>rs. mget (u_clientRoles u) cid = Some rs \<and> rs \<noteq> [] \<and> v = JObj [(''roles'', strs rs)])"
proof -
  assume a: "mget (resource_access r u) cid = Some v"
  have "resource_access r u = concat (map (\<lambda>c. case (case mget (u_clientRoles u) c of
      Some roles \<Rightarrow> if roles = [] then None else Some (JObj [(''roles'', strs roles)]) | None \<Rightarrow> None) of None \<Rightarrow> [] | Some v \<Rightarrow> [(c, v)]) (rs_roleClientIds r))"
    unfolding resource_access_def by (intro arg_cong [where f = concat] map_cong refl) (auto split: option.splits)
  with a show ?thesis by (auto simp: mget_concat_single split: if_splits option.splits)
qed

lemma some_object: "(if a = [] then None else Some (JObj a)) = Some c \<Longrightarrow> c = JObj a"
  by (simp split: if_splits)

text \<open>C27: An access token says no more about its user than the resource server was configured to learn and the
granted scopes allow. Claims are added only to a token for exactly one audience, which is a configured resource server, and
only while the account is enabled; realm roles only with the scope and the configured wish for them; the roles of a client only
if that client is listed for the resource server; groups only with their scope and the configured wish; and nothing else.\<close>

theorem token_claims_minimal:
  assumes "extraTokenClaims parse servers realm token s = Some claims"
  shows "\<exists>a r u. audiences_of (jprop token ''aud'') = [a] \<and> findConfiguredResourceServer parse servers a = Some r \<and> r \<in> set servers \<and>
    findUserById realm (js_String (jprop token ''accountId'')) s = Some u \<and> u_enabled u \<and>
    set (mkeys (jentries claims)) \<subseteq> {''realm_access'', ''resource_access'', ''groups''} \<and>
    (jprop claims ''realm_access'' \<noteq> JUndef \<longrightarrow> ''roles'' \<in> set (granted_scopes (jprop token ''scopes'')) \<and> rs_includeRealmRoles r \<and>
       jprop claims ''realm_access'' = JObj [(''roles'', strs (u_roles u))]) \<and>
    (jprop claims ''groups'' \<noteq> JUndef \<longrightarrow> ''groups'' \<in> set (granted_scopes (jprop token ''scopes'')) \<and> rs_includeGroups r \<and>
       jprop claims ''groups'' = strs (u_groups u)) \<and>
    (\<forall>cid v. jprop (jprop claims ''resource_access'') cid = v \<longrightarrow> v \<noteq> JUndef \<longrightarrow>
       ''roles'' \<in> set (granted_scopes (jprop token ''scopes'')) \<and> cid \<in> set (rs_roleClientIds r) \<and>
       (\<exists>rs. mget (u_clientRoles u) cid = Some rs \<and> v = JObj [(''roles'', strs rs)]))"
proof -
  from assms obtain a r u where o: "audiences_of (jprop token ''aud'') = [a]" "findConfiguredResourceServer parse servers a = Some r"
      "findUserById realm (js_String (jprop token ''accountId'')) s = Some u" "u_enabled u"
      "resourceTokenClaims (Some r) (Some u) (jprop token ''scopes'') = Some claims"
    unfolding extraTokenClaims_def by (auto simp del: jprop.simps split: if_splits list.splits option.splits)
  have r: "r \<in> set servers" using o(2) by (auto simp: findConfiguredResourceServer_def find_Some_iff split: option.splits if_splits)
  let ?g = "granted_scopes (jprop token ''scopes'')"
  let ?roles = "if ''roles'' \<in> set ?g then (if rs_includeRealmRoles r then [(''realm_access'', JObj [(''roles'', strs (u_roles u))])] else []) @
      (if resource_access r u = [] then [] else [(''resource_access'', JObj (resource_access r u))]) else []"
  let ?groups = "if ''groups'' \<in> set ?g \<and> rs_includeGroups r then [(''groups'', strs (u_groups u))] else []"
  have c: "claims = JObj (?roles @ ?groups)"
    using o(5) unfolding resourceTokenClaims_def Let_def prod.case option.case by (rule some_object)
  have access: "jprop claims ''resource_access'' = (if ''roles'' \<in> set ?g \<and> resource_access r u \<noteq> [] then JObj (resource_access r u) else JUndef)"
    by (simp add: c)
  have per: "''roles'' \<in> set ?g \<and> cid \<in> set (rs_roleClientIds r) \<and> (\<exists>rs. mget (u_clientRoles u) cid = Some rs \<and> v = JObj [(''roles'', strs rs)])"
    if "jprop (jprop claims ''resource_access'') cid = v" "v \<noteq> JUndef" for cid v
    using that resource_access_get [of r u cid v] unfolding access by (auto split: if_splits option.splits)
  then have 1: "\<forall>cid v. jprop (jprop claims ''resource_access'') cid = v \<longrightarrow> v \<noteq> JUndef \<longrightarrow>
       ''roles'' \<in> set ?g \<and> cid \<in> set (rs_roleClientIds r) \<and> (\<exists>rs. mget (u_clientRoles u) cid = Some rs \<and> v = JObj [(''roles'', strs rs)])"
    by blast
  have 2: "set (mkeys (jentries claims)) \<subseteq> {''realm_access'', ''resource_access'', ''groups''}" by (auto simp: c mkeys_def)
  have 3: "jprop claims ''realm_access'' \<noteq> JUndef \<longrightarrow> ''roles'' \<in> set ?g \<and> rs_includeRealmRoles r \<and>
       jprop claims ''realm_access'' = JObj [(''roles'', strs (u_roles u))]" by (simp add: c)
  have 4: "jprop claims ''groups'' \<noteq> JUndef \<longrightarrow> ''groups'' \<in> set ?g \<and> rs_includeGroups r \<and> jprop claims ''groups'' = strs (u_groups u)"
    by (simp add: c)
  show ?thesis 
    by (rule exI [of _ a], rule exI [of _ r], rule exI [of _ u], intro conjI)
      (rule o(1) o(2) r o(3) o(4) 2 3 4 1)+
qed

definition demo_api :: resource_server where
  "demo_api = \<lparr>rs_audience = ''https://api'', rs_scopes = [''roles''], rs_authorizedClientIds = [''app''], rs_introspectionClientIds = [''api''],
     rs_roleClientIds = [], rs_includeRealmRoles = True, rs_includeGroups = False, rs_accessTokenFormat = ''opaque''\<rparr>"

definition demo_access_token :: json where
  "demo_access_token = JObj [(''accountId'', JStr ''u1''), (''aud'', JStr ''https://api''), (''scopes'', JArr [JStr ''roles'', JStr ''groups''])]"

theorem token_claims_minimal_witness:
  "\<exists>claims u. extraTokenClaims demo_origin_parser [demo_api] ''corp'' demo_access_token demo_store1 = Some claims \<and>
     jprop claims ''groups'' = JUndef \<and> findUserById ''corp'' ''u1'' demo_store1 = Some u \<and> u_enabled u"
proof -
  let ?c = "JObj [(''realm_access'', JObj [(''roles'', strs (u_roles demo_user))])]"
  have c: "extraTokenClaims demo_origin_parser [demo_api] ''corp'' demo_access_token demo_store1 = Some ?c"
    by (simp add: extraTokenClaims_def demo_access_token_def findConfiguredResourceServer_def normalizedAudience_def demo_origin_parser_def
        audiences_of_def demo_api_def findUserById_def demo_store1_def ukey_def resourceTokenClaims_def granted_scopes_def resource_access_def)
  from token_claims_minimal [OF c] obtain u where "findUserById ''corp'' ''u1'' demo_store1 = Some u" "u_enabled u"
    by (auto simp: demo_access_token_def)
  with c show ?thesis by auto
qed

section \<open>Registration\<close>

text \<open>One attempt to register a client with an initial access token; the library's \<open>destroy\<close> removes it from the adapter.\<close>

definition register_with_token ::
    "server_world \<Rightarrow> config \<Rightarrow> string \<Rightarrow> nat \<times> json \<Rightarrow> string \<Rightarrow> adapter \<Rightarrow> bool \<times> adapter" where
  "register_with_token w c realm e jti a =
     (let (r, a') = secureRegistrationPolicy w c realm (destroy realm ''InitialAccessToken'') (1000 + int (fst e)) (Some jti) (snd e) a
      in (r = Inr (), a'))"

lemma claim_cases:
  assumes "claimMemoryInitialAccessToken now realm i a = (ok, a')"
  obtains (claimed) x where ok "mget (bucket_of realm ''InitialAccessToken'' a) i = Some x" "\<not> is_consumed (rc_payload x)"
      "bucket_of realm ''InitialAccessToken'' a' = mset' i (mark_consumed now x) (bucket_of realm ''InitialAccessToken'' a)"
    | (refused) "\<not> ok" "a' = a"
proof (cases "current now (mget (bucket_of realm ''InitialAccessToken'' a) i)")
  case None
  then show ?thesis using assms refused by (simp add: claimMemoryInitialAccessToken_def)
next
  case (Some x)
  have "mget (bucket_of realm ''InitialAccessToken'' a) i = Some x"
    using Some by (simp add: current_def split: option.splits if_splits)
  then show ?thesis using assms claimed refused Some
    by (cases "is_consumed (rc_payload x)") (auto simp: claimMemoryInitialAccessToken_def)
qed

lemma register_cases:
  assumes "register_with_token w c realm e jti a = (ok, a')"
  obtains (registered) x where ok "validateClientSecurity w (cg_devMode c) (snd e) = Inr ()"
      "mget (bucket_of realm ''InitialAccessToken'' a) jti = Some x" "\<not> is_consumed (rc_payload x)"
      "\<And>i. mget (bucket_of realm ''InitialAccessToken'' a') i = (if i = jti then None else mget (bucket_of realm ''InitialAccessToken'' a) i)"
    | (refused) "\<not> ok" "a' = a"
proof -
  obtain claimed a1 where k: "claimMemoryInitialAccessToken (1000 + int (fst e)) realm jti a = (claimed, a1)" by fastforce
  show thesis
  proof (cases "validateClientSecurity w (cg_devMode c) (snd e)")
    case (Inl x)
    then show ?thesis using refused assms by (auto simp: register_with_token_def secureRegistrationPolicy_def bindS_def)
  next
    case (Inr v)
    from k show ?thesis
    proof (cases rule: claim_cases)
      case (claimed x)
      then show ?thesis using assms k Inr
        by (intro registered [of x]) (auto simp: register_with_token_def secureRegistrationPolicy_def bindS_def destroy_def)
    next
      case refused
      then show ?thesis using assms k Inr \<open>\<lbrakk>\<not> ok; a' = a\<rbrakk> \<Longrightarrow> thesis\<close>
        by (auto simp: register_with_token_def secureRegistrationPolicy_def bindS_def)
    qed
  qed
qed

interpretation registration: one_use "register_with_token w c realm" "unspent realm ''InitialAccessToken''" "\<lambda>s. True" for w c realm
proof (standard, goal_cases)
  case (1 s e k s')
  from 1(2) show ?case by (rule register_cases) (auto simp: unspent_def)
next
  case (2 s e k s')
  from 2(2) show ?case by (rule register_cases) (auto simp: unspent_def)
next
  case (3 s e k ok s' k')
  from 3(2) show ?case by (rule register_cases) (use 3(3) in \<open>auto simp: unspent_def split: if_splits\<close>)
qed simp

text \<open>However many registrations race with initial access tokens, each token registers at most one client, only
a token that existed unused does, and only with metadata that passes the policy of the realm.\<close>

theorem registration_token_single_use:
  "distinct (fst (attempts (register_with_token w c realm) tries a)) \<and>
   (\<forall>i \<in> set (fst (attempts (register_with_token w c realm) tries a)).
      unspent realm ''InitialAccessToken'' i a \<and>
      (\<exists>t x. ((t, x), i) \<in> set tries \<and> validateClientSecurity w (cg_devMode c) x = Inr ()))"
proof -
  have "\<exists>t x. ((t, x), i) \<in> set tries \<and> validateClientSecurity w (cg_devMode c) x = Inr ()"
    if "i \<in> set (fst (attempts (register_with_token w c realm) tries a))" for i
    using that
  proof (induction tries arbitrary: a)
    case (Cons y ys)
    obtain e k where y: "y = (e, k)" by fastforce
    obtain ok a1 where r: "register_with_token w c realm e k a = (ok, a1)" by fastforce
    have "validateClientSecurity w (cg_devMode c) (snd e) = Inr ()" if ok using r by (rule register_cases) (use that in auto)
    then show ?case using Cons.IH [of a1] Cons.prems r by (cases e) (auto simp: y split: prod.splits if_splits)
  qed simp
  then show ?thesis
    using registration.attempts_distinct [OF _ prod.collapse [symmetric]]
      registration.attempts_fresh [OF _ prod.collapse [symmetric]] by blast
qed

theorem registration_token_single_use_witness:
  "distinct (fst (attempts (register_with_token demo_server demo_realm_config ''corp'')
     [((5, demo_client), ''t''), ((6, demo_client), ''t'')] demo_initial)) \<and>
   unspent ''corp'' ''InitialAccessToken'' ''t'' demo_initial"
proof -
  let ?tries = "[((5, demo_client), ''t''), ((6, demo_client), ''t'')]"
  have "fst (attempts (register_with_token demo_server demo_realm_config ''corp'') ?tries demo_initial) = [''t'']"
    using demo_clients_valid(1)
    by (simp add: register_with_token_def secureRegistrationPolicy_def demo_realm_config_def bindS_def claimMemoryInitialAccessToken_def
        demo_initial_def bucket_of_def current_def is_consumed_def demo_payload_def put_bucket_def mark_consumed_def destroy_def)
  then show ?thesis
    using registration_token_single_use [of demo_server demo_realm_config "''corp''" ?tries demo_initial] by simp
qed

end
