(* ===== verification/OidcProps.thy ===== *)
theory OidcProps
  imports OidcProvider FederationProps
begin

text \<open>
  The properties of the OpenID Connect client: what a successful answer rests on, and that a browser sent to the provider
  comes back to a sign-in of its own interaction.
\<close>

section \<open>The claims keep the verified subject\<close>

lemma merged_sub: "jprop (merged_claims payload userinfo) ''sub'' = jprop payload ''sub''"
  by (simp add: merged_claims_def)

lemma profileFor_Inr:
  assumes "profileFor p claims = Inr profile"
  obtains sub where "jprop claims ''sub'' = JStr sub" "sub \<noteq> []" "jprop profile ''externalSubject'' = JStr sub"
  using assms unfolding profileFor_def Let_def by (auto split: json.splits if_splits)

lemma oidc_claims_Inr:
  assumes "oidc_claims w p tokens payload = Inr claims" shows "jprop claims ''sub'' = jprop payload ''sub''"
  using assms unfolding oidc_claims_def
  by (auto simp: merged_sub simp del: jprop.simps split: option.splits json.splits if_splits)

lemma oidc_exchange_Inr:
  assumes run: "oidc_exchange w p redirectUri params transaction = Inr r"
  obtains response tokens payload header profile sub where
    "ow_fetch w (token_request w p redirectUri transaction (jprop params ''code'')) = Inr response"
    "jsonResponse w response = Inr tokens"
    "ow_jwtVerify w (js_String (jprop tokens ''id_token'')) (oidc_policy p) = Inr (payload, header)"
    "jprop payload ''nonce'' = jprop transaction ''nonce''"
    "jprop payload ''sub'' = JStr sub" "sub \<noteq> []" "jprop profile ''externalSubject'' = JStr sub"
    "r = oidc_result p transaction payload profile"
proof -
  from run obtain response tokens payload header claims profile where o:
    "ow_fetch w (token_request w p redirectUri transaction (jprop params ''code'')) = Inr response"
    "jsonResponse w response = Inr tokens"
    "ow_jwtVerify w (js_String (jprop tokens ''id_token'')) (oidc_policy p) = Inr (payload, header)"
    "jprop payload ''nonce'' = jprop transaction ''nonce''" "oidc_claims w p tokens payload = Inr claims"
    "profileFor p claims = Inr profile" "r = oidc_result p transaction payload profile"
    unfolding oidc_exchange_def by (auto simp del: jprop.simps)
  from o(6) obtain sub where "jprop claims ''sub'' = JStr sub" "sub \<noteq> []" "jprop profile ''externalSubject'' = JStr sub"
    by (rule profileFor_Inr)
  then show thesis using that o oidc_claims_Inr [OF o(5)] by metis
qed

lemma oidc_consume_Inr:
  assumes "oidc_consume w p realm input s = (Inr r, s')"
  obtains transaction redirectUri where "state_consume (ow_now w) realm (jprop (jprop input ''params'') ''state'') s = (Inr transaction, s')"
    "callbackUri (ow_parse_url w) (jprop input ''callbackUrl'') = Inr redirectUri"
    "jprop transaction ''kind'' = JStr ''oidc''" "jprop transaction ''providerId'' = JStr (op_id p)"
    "jprop transaction ''callbackUrl'' = JStr redirectUri"
    "oidc_exchange w p redirectUri (jprop input ''params'') transaction = Inr r"
  using assms unfolding oidc_consume_def Let_def by (auto simp del: jprop.simps)


section \<open>There and back\<close>

lemma params_set_get [simp]: "mget (params_set k v ps) k' = (if k' = k then Some v else mget ps k')"
proof (induction ps)
  case (Cons q ps)
  have "mget (filter (\<lambda>q. fst q \<noteq> k) ps) k' = mget ps k'" if "k' \<noteq> k" using that by (induction ps) auto
  then show ?case using Cons by (cases q) auto
qed simp

lemma params_set_all_get:
  assumes "distinct (map fst kvs)" shows "mget (params_set_all kvs ps) k = (case mget kvs k of None \<Rightarrow> mget ps k | Some v \<Rightarrow> Some v)"
  using assms
proof (induction kvs arbitrary: ps)
  case (Cons kv kvs)
  have "fst kv \<notin> set (map fst kvs)" using Cons.prems by simp
  then have "mget kvs (fst kv) = None" by (simp add: map_of_eq_None_iff)
  then show ?case using Cons by (cases kv) (auto simp: params_set_all_def split: option.splits)
qed (simp add: params_set_all_def)

lemma oidc_initiate_Inr:
  assumes "oidc_initiate w p realm input s = (Inr started, s')"
  obtains redirectUri u state where "callbackUri (ow_parse_url w) (jprop input ''callbackUrl'') = Inr redirectUri"
    "state_issue (ow_now w) (ow_state w) realm (oidc_transaction w p (jprop input ''interactionUid'') redirectUri) 300 s = (Inr state, s')"
    "ow_parse_url w (op_authorizationEndpoint p) = Some u"
    "started = JObj [(''redirectUrl'', JStr (ow_url_text w u (params_set_all (authorization_params w p redirectUri state) (ow_params w u)))),
       (''state'', JStr state)]"
  using assms unfolding oidc_initiate_def by (auto simp del: jprop.simps split: option.splits)

text \<open>The two requests of a sign-in see the same URL parser and the same digests.\<close>

definition same_library :: "oidc_world \<Rightarrow> oidc_world \<Rightarrow> bool" where
  "same_library w w2 \<longleftrightarrow> ow_parse_url w2 = ow_parse_url w \<and> ow_digest w2 = ow_digest w \<and> ow_base64url w2 = ow_base64url w"

lemma oidc_initiate_consume:
  assumes init: "oidc_initiate w p realm input s = (Inr started, s1)"
    and new: "mget (bucket_of realm ''FederationState'' (fa_adapter s)) (ow_state w) = None" and re: "handle_re (ow_state w)"
    and same: "fa_adapter s2 = fa_adapter s1" "fa_version realm s2 = fa_version realm s1"
    and time: "ow_now w2 < ow_now w + 300000" and lib: "same_library w w2"
    and again: "jprop input2 ''callbackUrl'' = jprop input ''callbackUrl''" "jprop (jprop input2 ''params'') ''state'' = JStr (ow_state w)"
  shows "\<exists>redirectUri. callbackUri (ow_parse_url w) (jprop input ''callbackUrl'') = Inr redirectUri \<and>
    jprop started ''state'' = JStr (ow_state w) \<and>
    fst (oidc_consume w2 p realm input2 s2) =
      oidc_exchange w2 p redirectUri (jprop input2 ''params'') (oidc_transaction w p (jprop input ''interactionUid'') redirectUri)"
proof -
  from init obtain redirectUri u state where i: "callbackUri (ow_parse_url w) (jprop input ''callbackUrl'') = Inr redirectUri"
      "state_issue (ow_now w) (ow_state w) realm (oidc_transaction w p (jprop input ''interactionUid'') redirectUri) 300 s = (Inr state, s1)"
      "started = JObj [(''redirectUrl'', JStr (ow_url_text w u (params_set_all (authorization_params w p redirectUri state) (ow_params w u)))),
         (''state'', JStr state)]"
    by (rule oidc_initiate_Inr)
  let ?t = "oidc_transaction w p (jprop input ''interactionUid'') redirectUri"
  have t: "str_field ?t ''grantId'' = None" "num_field ?t ''consumed'' = None"
    by (simp_all add: oidc_transaction_def str_field_def num_field_def)
  have "ow_now w2 < ow_now w + 300 * 1000" using time by simp
  from issued_found [OF i(2) new t same this re] obtain s3
    where f: "state = ow_state w" "state_consume (ow_now w2) realm (JStr (ow_state w)) s2 = (Inr ?t, s3)" by blast
  have pr: "truthy (jprop input2 ''params'')" using again(2) by (cases "jprop input2 ''params''") simp_all
  have tr: "jprop ?t ''kind'' = JStr ''oidc''" "jprop ?t ''providerId'' = JStr (op_id p)" "jprop ?t ''callbackUrl'' = JStr redirectUri"
    by (simp_all add: oidc_transaction_def)
  have cb: "callbackUri (ow_parse_url w2) (jprop input2 ''callbackUrl'') = Inr redirectUri"
    using i(1) lib again(1) by (simp add: same_library_def)
  have "fst (liftR (oidc_exchange w2 p redirectUri (jprop input2 ''params'') ?t) s3) = oidc_exchange w2 p redirectUri (jprop input2 ''params'') ?t"
    by (cases "oidc_exchange w2 p redirectUri (jprop input2 ''params'') ?t") simp_all
  then have "fst (oidc_consume w2 p realm input2 s2) = oidc_exchange w2 p redirectUri (jprop input2 ''params'') ?t"
    using f(2) pr tr cb again(2) by (simp add: oidc_consume_def Let_def bindS_def del: jprop.simps)
  then show ?thesis using i(1,3) f(1) by simp
qed

text \<open>
  What the provider promises: to a client that redeems the code with a verifier whose digest is the challenge it was asked
  with, for the same client and callback address, it gives an ID token that carries the nonce it was asked
  with. \<open>asked\<close> are the parameters the browser brought.
\<close>

definition honest_provider :: "oidc_world \<Rightarrow> oidc_provider \<Rightarrow> (string \<times> string) list \<Rightarrow> string \<Rightarrow> json \<Rightarrow> bool" where
  "honest_provider w p asked code payload \<longleftrightarrow>
     (\<forall>rq verifier. or_url rq = op_tokenEndpoint p \<longrightarrow> or_post rq \<longrightarrow> mget (or_body rq) ''grant_type'' = Some ''authorization_code'' \<longrightarrow>
        mget (or_body rq) ''code'' = Some code \<longrightarrow> mget (or_body rq) ''client_id'' = mget asked ''client_id'' \<longrightarrow>
        mget (or_body rq) ''redirect_uri'' = mget asked ''redirect_uri'' \<longrightarrow> mget (or_body rq) ''code_verifier'' = Some verifier \<longrightarrow>
        mget asked ''code_challenge_method'' = Some ''S256'' \<longrightarrow>
        mget asked ''code_challenge'' = Some (ow_base64url w (ow_digest w ''sha256'' verifier)) \<longrightarrow>
        (\<exists>response tokens idToken header. ow_fetch w rq = Inr response \<and> jsonResponse w response = Inr tokens \<and>
           jprop tokens ''id_token'' = JStr idToken \<and> ow_jwtVerify w idToken (oidc_policy p) = Inr (payload, header) \<and>
           (\<exists>n. mget asked ''nonce'' = Some n \<and> jprop payload ''nonce'' = JStr n) \<and>
           jprop payload ''aud'' = JStr (op_clientId p) \<and> jprop payload ''at_hash'' = JUndef))"


section \<open>A concrete sign-in\<close>

definition demo_op :: oidc_provider where
  "demo_op = \<lparr>op_id = ''idp'', op_displayName = ''I'', op_issuer = ''https://i'', op_authorizationEndpoint = ''https://i/a'',
     op_tokenEndpoint = ''https://i/t'', op_jwksUri = ''https://i/k'', op_userinfoEndpoint = None, op_clientId = ''c'', op_clientSecret = ''x'',
     op_tokenEndpointAuthMethod = ''client_secret_post'', op_scopes = [''openid''], op_signingAlgorithms = [''RS256''],
     op_usernameClaim = ''name'', op_groupsClaim = ''groups'', op_rolesClaim = ''roles'', op_requireEmail = False, op_jitProvisioning = True,
     op_requireIssuerParameter = True, op_timeoutMs = 5000\<rparr>"

definition demo_id_claims :: json where
  "demo_id_claims = JObj [(''sub'', JStr ''s''), (''aud'', JStr ''c''), (''nonce'', JStr ''n'')]"

definition demo_ow :: "int \<Rightarrow> oidc_world" where
  "demo_ow now = \<lparr>ow_now = now, ow_nonce = ''n'', ow_codeVerifier = ''v'', ow_state = replicate 43 (CHR ''a''),
     ow_parse_url = (\<lambda>s. Some \<lparr>wu_protocol = ''https:'', wu_hostname = ''i'', wu_username = [], wu_password = [], wu_pathname = ''/'',
       wu_search = [], wu_hash = [], wu_origin = ''https://i'', wu_href = s\<rparr>),
     ow_params = (\<lambda>_. []), ow_url_text = (\<lambda>u ps. wu_href u @ concat (map snd ps)),
     ow_json = (\<lambda>_. Some (JObj [(''id_token'', JStr ''t'')])), ow_number = (\<lambda>_. None), ow_utf8 = (\<lambda>s. s),
     ow_digest = (\<lambda>a s. rev s), ow_base64 = (\<lambda>s. s), ow_base64url = (\<lambda>s. s),
     ow_fetch = (\<lambda>rq. Inr \<lparr>os_ok = True, os_contentLength = None, os_text = Inr ''{}''\<rparr>),
     ow_jwtVerify = (\<lambda>t pol. Inr (demo_id_claims, JObj [(''alg'', JStr ''RS256'')]))\<rparr>"

definition demo_started :: json where
  "demo_started = JObj [(''callbackUrl'', JStr ''https://a/b''), (''interactionUid'', JStr ''x1'')]"

definition demo_returned :: json where
  "demo_returned = JObj [(''callbackUrl'', JStr ''https://a/b''),
     (''params'', JObj [(''state'', JStr (replicate 43 (CHR ''a''))), (''code'', JStr ''k''), (''iss'', JStr ''https://i'')])]"

definition demo_empty :: fed_app where
  "demo_empty = \<lparr>fa_accounts = \<lparr>fs_links = [], fs_store = empty_store\<rparr>, fa_adapter = \<lparr>ad_stores = [], ad_next = 0\<rparr>\<rparr>"

lemma demo_oidc_facts: "handle_re (ow_state (demo_ow t))" "js_trim ''https://a/b'' = ''https://a/b''"
    "mget (bucket_of ''corp'' ''FederationState'' (fa_adapter demo_empty)) (ow_state (demo_ow t)) = None"
  by (simp_all add: demo_ow_def js_defs list_all_iff demo_empty_def bucket_of_def numeral_eq_Suc)

lemma demo_world_facts: "op_issuer demo_op = ''https://i''" "oidc_claims (demo_ow t) demo_op tokens payload = Inr payload"
    "jsonResponse (demo_ow t) \<lparr>os_ok = True, os_contentLength = None, os_text = Inr ''{}''\<rparr> = Inr (JObj [(''id_token'', JStr ''t'')])"
    "ow_fetch (demo_ow t) rq = Inr \<lparr>os_ok = True, os_contentLength = None, os_text = Inr ''{}''\<rparr>"
    "ow_jwtVerify (demo_ow t) tk pol = Inr (demo_id_claims, JObj [(''alg'', JStr ''RS256'')])"
    "validateAccessTokenHash (demo_ow t) tokens demo_id_claims header = Inr ()" "jprop demo_id_claims ''aud'' = JStr ''c''"
    "jprop demo_id_claims ''nonce'' = jprop (oidc_transaction (demo_ow u) demo_op v uri) ''nonce''"
  by (simp_all add: demo_op_def demo_ow_def oidc_claims_def jsonResponse_def validateAccessTokenHash_def demo_id_claims_def oidc_transaction_def)

lemma demo_initiated: "\<exists>started s1. oidc_initiate (demo_ow 5000) demo_op ''corp'' demo_started demo_empty = (Inr started, s1) \<and>
    jprop started ''state'' = JStr (replicate 43 (CHR ''a''))"
proof -
  have "\<exists>s1. state_issue 5000 (replicate 43 (CHR ''a'')) ''corp'' (oidc_transaction (demo_ow 5000) demo_op (JStr ''x1'') ''https://a/b'') 300 demo_empty =
      (Inr (replicate 43 (CHR ''a'')), s1)"
    by (simp add: state_issue_def liftU_def upsert_def upsert_begin_def upsert_check_def upsert_commit_def demo_empty_def bucket_of_def
        payload_of_def oidc_transaction_def num_field_def str_field_def current_def Let_def)
  then obtain s1 where "state_issue 5000 (replicate 43 (CHR ''a'')) ''corp'' (oidc_transaction (demo_ow 5000) demo_op (JStr ''x1'') ''https://a/b'') 300 demo_empty =
      (Inr (replicate 43 (CHR ''a'')), s1)" ..
  then show ?thesis
    using demo_oidc_facts(2) by (simp add: oidc_initiate_def callbackUri_def demo_started_def demo_ow_def)
qed

lemma demo_profile: "\<exists>profile. profileFor demo_op demo_id_claims = Inr profile"
  by (simp add: profileFor_def demo_id_claims_def demo_op_def Let_def)



end
