(* ===== verification/SamlConfigProps.thy ===== *)
theory SamlConfigProps
  imports SamlConfig
begin

text \<open>The properties of the SAML configuration: what holds of every broker that was constructed, and where it differs from the parser.\<close>

section \<open>A broker that was constructed\<close>

lemma saml_endpoint_Inr:
  assumes "saml_endpoint parse v = Inr e"
  obtains u where "parse v = Some u" "wu_protocol u = ''https:''" "wu_username u = []" "wu_password u = []" "wu_search u = []"
    "wu_hash u = []" "e = wu_href u"
  using assms by (auto simp: saml_endpoint_def split: option.splits if_splits)

lemma strongRsaKey_Inr: "strongRsaKey read v = Inr k \<Longrightarrow> read v = Some k \<and> strong_rsa k"
  by (auto simp: strongRsaKey_def split: option.splits if_splits)

lemma strong_all: "mapR (strongRsaKey read) vs = Inr ks \<Longrightarrow> v \<in> set vs \<Longrightarrow> \<exists>k. read v = Some k \<and> strong_rsa k"
  by (induction vs arbitrary: ks) (auto dest: strongRsaKey_Inr)

lemma validateSpSigningKey_Inr:
  assumes "validateSpSigningKey w key cs = Inr u"
  shows "\<exists>k c rest kc. sw_privateKey w key = Some k \<and> strong_rsa k \<and> cs = c # rest \<and> sw_certificate w c = Some kc \<and> ky_spki kc = ky_spki k \<and>
    (\<forall>c\<in>set cs. \<exists>k. sw_certificate w c = Some k \<and> strong_rsa k)"
  using assms
  by (auto simp: validateSpSigningKey_def strongRsaCertificate_def split: option.splits list.splits dest!: strongRsaKey_Inr dest: strong_all)

lemma createSamlBroker_Inr:
  assumes "createSamlBroker w realm p = Inr c"
  shows "saml_endpoint (sw_parse_url w) (sc_acsUrl p) = Inr (bc_callbackUrl c)"
    and "\<exists>e. saml_endpoint (sw_parse_url w) (sc_ssoUrl p) = Inr e"
    and "1 \<le> length (sc_idpCertificates p)" and "\<exists>ks. mapR (strongRsaPublicKey w) (sc_idpCertificates p) = Inr ks"
    and "(sc_privateKey p = None \<or> sc_privateKey p = Some []) = (sc_certificates p = None)"
    and "case (sc_privateKey p, sc_certificates p) of
      (Some key, Some cs) \<Rightarrow> key = [] \<or> validateSpSigningKey w key cs = Inr () | _ \<Rightarrow> True"
    and "sc_maxAssertionAgeMs p + bc_clockSkewMs c \<le> bc_replayTtlMs c" and "bc_replayTtlMs c \<le> 3600000" and "0 \<le> bc_clockSkewMs c"
    and "30000 \<le> sc_maxAssertionAgeMs p" and "30000 \<le> bc_requestTtlMs c" and "bc_requestTtlMs c \<le> 1800000"
    and "mapping (sc_attributeMapping p) = Inr (bc_mapping c)"
  using assms unfolding createSamlBroker_def integer_between_def
  by (auto split: sum.splits option.splits if_splits)

text \<open>Every SAML broker that could be constructed checks what it receives with strong keys on secure
addresses for long enough. Each certificate of the identity provider holds an RSA key of at least 2048 bits; the
addresses of both sides are exact HTTPS addresses; a signing key is strong and is the key of the first
certificate published for it; a used response is remembered for at least as long as its assertion
can be accepted, the clock skew included, and within the limit of the replay cache; and the XML library is told to demand
both signatures and the request identifier.\<close>

theorem saml_broker_sound:
  assumes "createSamlBroker w realm p = Inr c"
  shows "sc_idpCertificates p \<noteq> [] \<and> (\<forall>v\<in>set (sc_idpCertificates p). \<exists>k. sw_publicKey w v = Some k \<and> strong_rsa k) \<and>
    (\<exists>u. sw_parse_url w (sc_acsUrl p) = Some u \<and> wu_protocol u = ''https:'' \<and> wu_search u = [] \<and> wu_hash u = [] \<and> bc_callbackUrl c = wu_href u) \<and>
    (\<exists>u. sw_parse_url w (sc_ssoUrl p) = Some u \<and> wu_protocol u = ''https:'' \<and> wu_search u = [] \<and> wu_hash u = [] \<and> saml_entry w p = wu_href u) \<and>
    (case (sc_privateKey p, sc_certificates p) of
       (Some key, Some cs) \<Rightarrow> key \<noteq> [] \<and> (\<exists>k. sw_privateKey w key = Some k \<and> strong_rsa k \<and>
          (\<exists>v. v = hd cs \<and> cs \<noteq> [] \<and> (\<exists>kc. sw_certificate w v = Some kc \<and> ky_spki kc = ky_spki k)))
     | (key, cs) \<Rightarrow> (key = None \<or> key = Some []) \<and> cs = None) \<and>
    sc_maxAssertionAgeMs p + bc_clockSkewMs c \<le> bc_replayTtlMs c \<and> validateTtl (bc_replayTtlMs c) = Inr () \<and>
    validateTtl (bc_requestTtlMs c) = Inr () \<and>
    jprop (samlOptions c p (saml_entry w p)) ''wantAuthnResponseSigned'' = JBool True \<and>
    jprop (samlOptions c p (saml_entry w p)) ''wantAssertionsSigned'' = JBool True \<and>
    jprop (samlOptions c p (saml_entry w p)) ''validateInResponseTo'' = JStr ''always'' \<and>
    jprop (samlOptions c p (saml_entry w p)) ''callbackUrl'' = JStr (bc_callbackUrl c)"
proof -
  note c = createSamlBroker_Inr [OF assms]
  have certs: "\<forall>v\<in>set (sc_idpCertificates p). \<exists>k. sw_publicKey w v = Some k \<and> strong_rsa k"
    using c(4) strong_all unfolding strongRsaPublicKey_def by blast
  from c(1) obtain u where u: "sw_parse_url w (sc_acsUrl p) = Some u" "wu_protocol u = ''https:''" "wu_search u = []" "wu_hash u = []"
      "bc_callbackUrl c = wu_href u" by (rule saml_endpoint_Inr)
  from c(2) obtain e where e: "saml_endpoint (sw_parse_url w) (sc_ssoUrl p) = Inr e" ..
  then obtain v where v: "sw_parse_url w (sc_ssoUrl p) = Some v" "wu_protocol v = ''https:''" "wu_search v = []" "wu_hash v = []"
      "e = wu_href v" by (rule saml_endpoint_Inr)
  have entry: "saml_entry w p = wu_href v" by (simp add: saml_entry_def e v(5))
  have keys: "case (sc_privateKey p, sc_certificates p) of
       (Some key, Some cs) \<Rightarrow> key \<noteq> [] \<and> (\<exists>k. sw_privateKey w key = Some k \<and> strong_rsa k \<and>
          (\<exists>v. v = hd cs \<and> cs \<noteq> [] \<and> (\<exists>kc. sw_certificate w v = Some kc \<and> ky_spki kc = ky_spki k)))
     | (key, cs) \<Rightarrow> (key = None \<or> key = Some []) \<and> cs = None"
  proof (cases "sc_privateKey p")
    case None
    then show ?thesis using c(5) by (auto split: option.splits)
  next
    case (Some key)
    show ?thesis
    proof (cases "sc_certificates p")
      case None
      then show ?thesis using c(5) Some by auto
    next
      case (Some cs)
      then have key: "key \<noteq> []" "validateSpSigningKey w key cs = Inr ()" using c(5,6) \<open>sc_privateKey p = Some key\<close> by auto
      from validateSpSigningKey_Inr [OF key(2)] show ?thesis
        using Some \<open>sc_privateKey p = Some key\<close> key(1) by auto
    qed
  qed
  have ttl: "validateTtl (bc_replayTtlMs c) = Inr ()" "validateTtl (bc_requestTtlMs c) = Inr ()"
    using c(7-12) by (simp_all add: validateTtl_def safe_integer_def)
  show ?thesis
    using c(3,7) certs u v entry keys ttl by (simp add: samlOptions_def) auto
qed

definition demo_saml_provider :: saml_provider where
  "demo_saml_provider = \<lparr>sc_id = ''idp'', sc_displayName = ''I'', sc_spEntityId = ''https://a/m'', sc_acsUrl = ''https://a/acs'',
     sc_privateKey = Some ''k'', sc_certificates = Some [''c''], sc_signMetadata = True, sc_nameIdFormat = None, sc_disableContext = False,
     sc_idpEntityId = ''https://i'', sc_ssoUrl = ''https://i/sso'', sc_idpCertificates = [''c''], sc_attributeMapping = JUndef,
     sc_trustEmail = False, sc_jitProvisioning = False, sc_requestTtlMs = 300000, sc_clockSkewMs = 60000, sc_maxAssertionAgeMs = 300000,
     sc_replayTtlMs = 600000, sc_maxResponseBytes = 1048576\<rparr>"

definition demo_https :: url_parser where
  "demo_https s = Some \<lparr>wu_protocol = ''https:'', wu_hostname = ''a'', wu_username = [], wu_password = [], wu_pathname = ''/'',
     wu_search = [], wu_hash = [], wu_origin = ''https://a'', wu_href = s\<rparr>"

definition demo_saml_world :: saml_world where
  "demo_saml_world = (let strong = (\<lambda>_. Some \<lparr>ky_type = ''rsa'', ky_bits = 3072, ky_spki = ''d''\<rparr>) in
     \<lparr>sw_now = 5000, sw_relayState = replicate 43 (CHR ''r''), sw_parse_url = demo_https, sw_params = (\<lambda>_. []), sw_parseDate = (\<lambda>_. None),
      sw_scan = (\<lambda>_. \<lparr>xs_bytes = 0, xs_prohibited = False, xs_isResponse = False, xs_attributes = [], xs_signatures = [], xs_digests = []\<rparr>),
      sw_inflate = (\<lambda>_. None), sw_publicKey = strong, sw_certificate = strong, sw_privateKey = strong, sw_metadata = (\<lambda>_ _. JUndef),
      sw_authorizeUrl = (\<lambda>_ _. failS (thrown ''Error'')), sw_validate = (\<lambda>_ _. failS ())\<rparr>)"

lemma default_mapping: "\<exists>m. mapping JUndef = Inr m"
  by (simp add: mapping_def MAPPING_FIELDS_def DEFAULT_ATTRIBUTE_MAPPING_def)

lemma saml_broker_sound_witness:
  "\<exists>c. createSamlBroker demo_saml_world ''corp'' demo_saml_provider = Inr c \<and> bc_callbackUrl c = ''https://a/acs'' \<and>
     validateTtl (bc_replayTtlMs c) = Inr ()"
proof -
  have strong: "strong_rsa \<lparr>ky_type = ''rsa'', ky_bits = 3072, ky_spki = ''d''\<rparr>" by (simp add: strong_rsa_def)
  obtain m where m: "mapping JUndef = Inr m" using default_mapping ..
  have "\<exists>c. createSamlBroker demo_saml_world ''corp'' demo_saml_provider = Inr c"
    using strong m
    by (simp add: createSamlBroker_def demo_saml_provider_def demo_saml_world_def demo_https_def nonEmpty_def entityId_def saml_endpoint_def
        strongRsaPublicKey_def strongRsaCertificate_def strongRsaKey_def validateSpSigningKey_def integer_between_def Let_def js_defs)
  then obtain c where c: "createSamlBroker demo_saml_world ''corp'' demo_saml_provider = Inr c" ..
  from saml_broker_sound [OF c]
  obtain u where u: "demo_https ''https://a/acs'' = Some u" "bc_callbackUrl c = wu_href u" "validateTtl (bc_replayTtlMs c) = Inr ()"
    by (auto simp: demo_saml_provider_def demo_saml_world_def Let_def)
  then show ?thesis using c by (auto simp: demo_https_def)
qed

section \<open>Where the parser is more generous than the broker\<close>

text \<open>An entry of the configuration whose mapping names the same attribute twice.\<close>

definition repeated_alias :: json where
  "repeated_alias = JObj [(''id'', JStr ''idp''), (''display_name'', JStr ''I''), (''idp_entity_id'', JStr ''https://i''),
     (''idp_sso_url'', JStr ''https://i/sso''), (''idp_signing_certificates'', JArr [JStr (replicate 64 (CHR ''c''))]),
     (''attribute_mapping'', JObj [(''groups'', JArr [JStr ''g'', JStr ''g''])])]"

text \<open>The parser of the configuration accepts a provider whose attribute mapping repeats a name, but no broker can be
constructed for it whatever the keys are: the start, which builds every broker, fails with a type error after the
configuration has been accepted.\<close>

theorem repeated_alias_fails_late:
  "\<exists>p. parse_saml_provider demo_https (\<lambda>_. True) ''https://a'' ''corp'' [] repeated_alias = Some p \<and>
     (\<forall>w realm c. createSamlBroker w realm p \<noteq> Inr c)"
proof -
  have "\<exists>p. parse_saml_provider demo_https (\<lambda>_. True) ''https://a'' ''corp'' [] repeated_alias = Some p \<and>
      sc_attributeMapping p = JObj [(''groups'', JArr [JStr ''g'', JStr ''g''])]"
    by (simp add: parse_saml_provider_def saml_schema_def repeated_alias_def strict_names_def saml_names_def mkeys_def text_schema_def trimmed_def
        saml_url_schema_def array_between_def pem_schema_def opt_field_def default_field_def mapping_schema_def MAPPING_FIELDS_def
        mappingValue_def bool_schema_def int_schema_def ssoEndpoint_def demo_https_def js_defs)
  moreover have "\<exists>e. mapping (JObj [(''groups'', JArr [JStr ''g'', JStr ''g''])]) = Inl e"
    by (simp add: mapping_def MAPPING_FIELDS_def DEFAULT_ATTRIBUTE_MAPPING_def mapping_aliases_def)
  ultimately show ?thesis using createSamlBroker_Inr(13) by (metis sum.distinct(1))
qed

end
