(* ===== verification/LdapProps.thy ===== *)
theory LdapProps
  imports LdapProvider
begin

text \<open>
  Theorems about the LDAP authenticator. \<open>read_filter\<close> is a reader of search filters after RFC 4515, against which
  the filter the code builds is checked: whatever is typed as a login stays one value in it.
\<close>

section \<open>Reading a filter\<close>

datatype ldap_filter = FAnd "ldap_filter list" | FOr "ldap_filter list" | FEqual string string

definition hex_value :: "char \<Rightarrow> nat option" where
  "hex_value c =
     (let n = of_char c in
      if 48 \<le> n \<and> n \<le> 57 then Some (n - 48) else if 97 \<le> n \<and> n \<le> 102 then Some (n - 87) else if 65 \<le> n \<and> n \<le> 70 then Some (n - 55) else None)"

text \<open>An assertion value up to the closing parenthesis: escapes are read, a bare wildcard, parenthesis or NUL is refused.\<close>

fun read_value :: "string \<Rightarrow> (string \<times> string) option" where
  "read_value [] = None"
| "read_value (c # cs) =
     (if c = CHR '')'' then Some ([], c # cs)
      else if c = CHR 0x5C then
        (case cs of
           a # b # r \<Rightarrow>
             (case (hex_value a, hex_value b) of
                (Some x, Some y) \<Rightarrow> map_option (\<lambda>(v, r'). (char_of (16 * x + y) # v, r')) (read_value r)
              | _ \<Rightarrow> None)
         | _ \<Rightarrow> None)
      else if c = CHR ''('' \<or> c = CHR ''*'' \<or> c = CHR 0x00 then None
      else map_option (\<lambda>(v, r'). (c # v, r')) (read_value cs))"

fun read_filter :: "nat \<Rightarrow> string \<Rightarrow> (ldap_filter \<times> string) option"
  and read_filters :: "nat \<Rightarrow> string \<Rightarrow> (ldap_filter list \<times> string) option" where
  "read_filter 0 s = None"
| "read_filter (Suc n) s =
     (case s of
        p # k # r \<Rightarrow>
          if p \<noteq> CHR ''('' then None
          else if k = CHR ''&'' then (case read_filters n r of Some (fs, q # r') \<Rightarrow> if q = CHR '')'' then Some (FAnd fs, r') else None | _ \<Rightarrow> None)
          else if k = CHR ''|'' then (case read_filters n r of Some (fs, q # r') \<Rightarrow> if q = CHR '')'' then Some (FOr fs, r') else None | _ \<Rightarrow> None)
          else (let a = takeWhile (\<lambda>c. c \<noteq> CHR ''='') (k # r) in
                case dropWhile (\<lambda>c. c \<noteq> CHR ''='') (k # r) of
                  [] \<Rightarrow> None
                | _ # v \<Rightarrow> (case read_value v of Some (x, q # r') \<Rightarrow> Some (FEqual a x, r') | _ \<Rightarrow> None))
      | _ \<Rightarrow> None)"
| "read_filters 0 s = None"
| "read_filters (Suc n) s =
     (case s of
        p # r \<Rightarrow>
          if p \<noteq> CHR ''('' then Some ([], s)
          else (case read_filter n s of
                  None \<Rightarrow> None
                | Some (f, r') \<Rightarrow> map_option (\<lambda>(fs, r''). (f # fs, r'')) (read_filters n r'))
      | [] \<Rightarrow> Some ([], []))"

definition readFilter :: "string \<Rightarrow> ldap_filter option" where
  "readFilter s = (case read_filter (length s) s of Some (f, []) \<Rightarrow> Some f | _ \<Rightarrow> None)"

lemma hex_value_char: "d < 16 \<Longrightarrow> hex_value (hex_char d) = Some d"
  by (auto simp: hex_value_def hex_char_def Let_def)

lemma char_split: "char_of (16 * (of_char c div 16) + of_char c mod 16 :: nat) = (c :: char)"
  by (simp only: mult_div_mod_eq char_of_char)

lemma of_char_bound: "of_char (c :: char) < (256 :: nat)"
  by (cases c) (simp add: of_char_def)

lemma read_escape_byte:
  assumes "read_value r = Some (v, r')" shows "read_value (escape_byte c @ r) = Some (c # v, r')"
proof -
  have n: "of_char c div 16 < (16 :: nat)" by (rule less_mult_imp_div_less) (use of_char_bound [of c] in simp)
  show ?thesis
  proof (cases "of_char c < (0x20 :: nat) \<or> of_char c > (0x7e :: nat) \<or> of_char c \<in> set [0x2a, 0x28, 0x29, 0x5c :: nat]")
    case True
    have "16 * (of_char c div 16) + of_char c mod 16 = (of_char c :: nat)" by simp
    then show ?thesis
      using True assms n by (simp add: escape_byte_def Let_def hex_value_char)
  next
    case False
    then have "c \<noteq> CHR '')''" "c \<noteq> CHR 0x5C" "c \<noteq> CHR ''(''" "c \<noteq> CHR ''*''" "c \<noteq> CHR 0x00" by auto
    then show ?thesis using False assms by (simp add: escape_byte_def Let_def)
  qed
qed

lemma read_escaped: "read_value (escapeLdapFilterValue v @ CHR '')'' # r) = Some (v, CHR '')'' # r)"
proof (induction v)
  case (Cons c v)
  then show ?case using read_escape_byte [of "escapeLdapFilterValue v @ CHR '')'' # r" v "CHR '')'' # r" c]
    by (simp add: escapeLdapFilterValue_def)
qed (simp add: escapeLdapFilterValue_def)

lemma attribute_chars:
  assumes "attribute_re a"
  obtains k r where "a = k # r" "k \<noteq> CHR ''&''" "k \<noteq> CHR ''|''" "CHR ''='' \<notin> set a"
proof -
  have e: "\<not> is_alpha (CHR ''='')" "\<not> is_alnum (CHR ''='')" "\<not> is_alpha (CHR ''&'')" "\<not> is_alpha (CHR ''|'')" by (simp_all add: js_defs)
  from assms obtain k r where "a = k # r" "is_alpha k" "list_all (\<lambda>c. is_alnum c \<or> c = CHR ''-'') r"
    by (cases a) (auto simp: attribute_re_def ident_re_def class_re_def)
  then show ?thesis using that [of k r] e by (auto simp: list_all_iff)
qed

lemma read_equal:
  assumes "attribute_re a"
  shows "read_filter (Suc n) (CHR ''('' # a @ CHR ''='' # escapeLdapFilterValue v @ CHR '')'' # r) = Some (FEqual a v, r)"
proof -
  from assms obtain k t where a: "a = k # t" "k \<noteq> CHR ''&''" "k \<noteq> CHR ''|''" "CHR ''='' \<notin> set a" by (rule attribute_chars)
  have tw: "takeWhile (\<lambda>c. c \<noteq> CHR ''='') (a @ CHR ''='' # x) = a" "dropWhile (\<lambda>c. c \<noteq> CHR ''='') (a @ CHR ''='' # x) = CHR ''='' # x" for x
    using a(4) by (auto simp: takeWhile_append dropWhile_append takeWhile_eq_all_conv)
  show ?thesis using tw [unfolded a(1)] read_escaped [of v r] a(1-3) by (simp add: Let_def)
qed

lemma read_alternatives:
  assumes "\<forall>a\<in>set as. attribute_re a" "length as + 1 < n"
  shows "read_filters n (concat (map (\<lambda>a. ''('' @ a @ ''='' @ escapeLdapFilterValue v @ '')'') as) @ CHR '')'' # r) =
    Some (map (\<lambda>a. FEqual a v) as, CHR '')'' # r)"
  using assms
proof (induction as arbitrary: n)
  case Nil
  then obtain m where "n = Suc m" by (cases n) auto
  then show ?case by simp
next
  case (Cons a as)
  then obtain m where n: "n = Suc (Suc m)" by (cases n; cases "n - 1") auto
  let ?rest = "concat (map (\<lambda>a. ''('' @ a @ ''='' @ escapeLdapFilterValue v @ '')'') as) @ CHR '')'' # r"
  have "read_filter (Suc m) (CHR ''('' # a @ CHR ''='' # escapeLdapFilterValue v @ CHR '')'' # ?rest) = Some (FEqual a v, ?rest)"
    using Cons.prems(1) by (intro read_equal) simp
  moreover have "read_filters (Suc m) ?rest = Some (map (\<lambda>a. FEqual a v) as, CHR '')'' # r)"
    using Cons.prems n by (intro Cons.IH) auto
  ultimately show ?case using n by (simp del: read_filter.simps)
qed

section \<open>The filter of a login\<close>

lemma attribute_field:
  assumes "default_field attribute_schema v k d = Some a" "attribute_re d" shows "attribute_re a"
  using assms by (auto simp: default_field_def attribute_schema_def text_schema_def split: json.splits if_splits)

lemma attribute_list_field:
  assumes "default_field (array_between attribute_schema lo hi) v k d = Some as" "\<forall>a\<in>set d. attribute_re a" shows "\<forall>a\<in>set as. attribute_re a"
proof (cases "jprop v k = JUndef")
  case True
  then show ?thesis using assms by (simp add: default_field_def)
next
  case False
  then have "array_between attribute_schema lo hi (jprop v k) = Some as" using assms(1) by (auto simp: default_field_def split: json.splits)
  then obtain xs where "all_some (map attribute_schema xs) = Some as" by (auto simp: array_between_def split: json.splits if_splits)
  then show ?thesis by (auto dest!: all_some_in simp: attribute_schema_def text_schema_def split: json.splits if_splits)
qed

lemma ldap_schema_attributes:
  assumes "ldap_schema isUrl v = Some (p, insecure)"
  shows "default_field attribute_schema v ''user_object_class'' ''person'' = Some (lp_userObjectClass p) \<and>
    default_field (array_between attribute_schema 1 5) v ''login_attributes'' [''uid'', ''mail'', ''userPrincipalName'', ''sAMAccountName''] =
      Some (lp_loginAttributes p)"
  using assms by (auto simp: ldap_schema_def split: option.splits if_splits)

lemma parse_provider_attributes:
  assumes "parse_ldap_provider parse isUrl isIP devMode ids input = Some p"
  shows "attribute_re (lp_userObjectClass p)" "\<forall>a\<in>set (lp_loginAttributes p). attribute_re a"
proof -
  from assms obtain q insecure where q: "ldap_schema isUrl input = Some (q, insecure)"
    "lp_userObjectClass p = lp_userObjectClass q" "set (lp_loginAttributes p) = set (lp_loginAttributes q)"
    by (auto simp: parse_ldap_provider_def split: option.splits if_splits)
  have d: "attribute_re ''person''" "\<forall>a\<in>set [''uid'', ''mail'', ''userPrincipalName'', ''sAMAccountName'']. attribute_re a"
    by (simp_all add: js_defs)
  show "attribute_re (lp_userObjectClass p)" "\<forall>a\<in>set (lp_loginAttributes p). attribute_re a"
    using ldap_schema_attributes [OF q(1)] q(2,3) attribute_field [OF _ d(1)] attribute_list_field [OF _ d(2)] by auto
qed

lemma escape_plain: "list_all (\<lambda>c. is_alnum c \<or> c = CHR ''-'') s \<Longrightarrow> escapeLdapFilterValue s = s"
  by (induction s) (auto simp: escapeLdapFilterValue_def escape_byte_def Let_def js_defs)

lemma attribute_plain: "attribute_re a \<Longrightarrow> escapeLdapFilterValue a = a"
  by (rule escape_plain) (auto simp: attribute_re_def ident_re_def is_alnum_def class_re_def split: list.splits)

lemma length_alternatives: "length as \<le> length (concat (map (\<lambda>a. ''('' @ a @ ''='' @ x @ '')'') as))"
  by (induction as) auto

text \<open>C19: 
  The filter built for a configured provider reads back, as RFC 4515 reads it, to exactly one question: an entry of the
  provider's class with one of its login attributes equal to what was typed, whatever bytes that is.
\<close>

theorem ldap_filter_faithful:
  assumes "parse_ldap_provider parse isUrl isIP devMode ids input = Some p"
  shows "readFilter (userFilter utf8 p login) =
    Some (FAnd [FEqual ''objectClass'' (lp_userObjectClass p), FOr (map (\<lambda>a. FEqual a (utf8 login)) (lp_loginAttributes p))])"
proof -
  let ?as = "lp_loginAttributes p" and ?oc = "lp_userObjectClass p"
  note attrs = parse_provider_attributes [OF assms]
  let ?alts = "concat (map (\<lambda>a. ''('' @ a @ ''='' @ escapeLdapFilterValue (utf8 login) @ '')'') ?as)"
  have f: "userFilter utf8 p login = CHR ''('' # CHR ''&'' # CHR ''('' # ''objectClass'' @ CHR ''='' # escapeLdapFilterValue ?oc @ CHR '')'' #
      CHR ''('' # CHR ''|'' # ?alts @ CHR '')'' # CHR '')'' # []"
    using attribute_plain [OF attrs(1)] by (simp add: userFilter_def Let_def)
  obtain n where n: "length (userFilter utf8 p login) = Suc (Suc (Suc (Suc n)))" "length ?as + 1 < n"
  proof (rule that)
    show "length (userFilter utf8 p login) = Suc (Suc (Suc (Suc (length (userFilter utf8 p login) - 4))))" by (simp add: f)
    show "length ?as + 1 < length (userFilter utf8 p login) - 4"
      using length_alternatives [of ?as "escapeLdapFilterValue (utf8 login)"] by (simp add: f)
  qed
  have o: "attribute_re ''objectClass''" by (simp add: js_defs)
  have n': "n = Suc (n - 1)" using n(2) by simp
  have alts: "read_filters n (?alts @ CHR '')'' # CHR '')'' # []) = Some (map (\<lambda>a. FEqual a (utf8 login)) ?as, CHR '')'' # CHR '')'' # [])"
    by (rule read_alternatives [OF attrs(2) n(2)])
  have "read_filter (Suc n) (CHR ''('' # CHR ''|'' # ?alts @ CHR '')'' # CHR '')'' # []) =
      Some (FOr (map (\<lambda>a. FEqual a (utf8 login)) ?as), CHR '')'' # [])"
    using alts by simp
  moreover have "read_filters (Suc n) (CHR '')'' # []) = Some ([], CHR '')'' # [])" by simp
  ultimately have second: "read_filters (Suc (Suc n)) (CHR ''('' # CHR ''|'' # ?alts @ CHR '')'' # CHR '')'' # []) =
      Some ([FOr (map (\<lambda>a. FEqual a (utf8 login)) ?as)], CHR '')'' # [])"
    by (simp del: read_filter.simps)
  have first: "read_filter (Suc (Suc n)) (CHR ''('' # ''objectClass'' @ CHR ''='' # escapeLdapFilterValue ?oc @ CHR '')'' # r) =
      Some (FEqual ''objectClass'' ?oc, r)" for r
    by (rule read_equal [OF o])
  have "read_filters (Suc (Suc (Suc n))) (CHR ''('' # ''objectClass'' @ CHR ''='' # escapeLdapFilterValue ?oc @ CHR '')'' #
      CHR ''('' # CHR ''|'' # ?alts @ CHR '')'' # CHR '')'' # []) =
      Some ([FEqual ''objectClass'' ?oc, FOr (map (\<lambda>a. FEqual a (utf8 login)) ?as)], CHR '')'' # [])"
    using second by (subst read_filters.simps) (simp only: first list.case if_False if_True simp_thms, simp del: read_filters.simps)
  then show ?thesis unfolding readFilter_def n(1) unfolding f by (simp del: read_filters.simps)
qed

lemma ldap_filter_faithful_witness:
  "\<exists>p. parse_ldap_provider (\<lambda>s. Some \<lparr>wu_protocol = ''ldaps:'', wu_hostname = ''dir'', wu_username = [], wu_password = [], wu_pathname = [],
       wu_search = [], wu_hash = [], wu_origin = [], wu_href = s\<rparr>) (\<lambda>_. True) (\<lambda>_. False) False []
     (JObj [(''id'', JStr ''ad''), (''display_name'', JStr ''AD''), (''url'', JStr ''ldaps://dir''), (''user_base_dn'', JStr ''dc=x'')]) = Some p \<and>
   readFilter (userFilter id p ''*)(uid=*'') = Some (FAnd [FEqual ''objectClass'' ''person'',
     FOr [FEqual ''uid'' ''*)(uid=*'', FEqual ''mail'' ''*)(uid=*'', FEqual ''userPrincipalName'' ''*)(uid=*'', FEqual ''sAMAccountName'' ''*)(uid=*'']])"
proof -
  let ?v = "JObj [(''id'', JStr ''ad''), (''display_name'', JStr ''AD''), (''url'', JStr ''ldaps://dir''), (''user_base_dn'', JStr ''dc=x'')]"
  let ?parse = "\<lambda>s. Some \<lparr>wu_protocol = ''ldaps:'', wu_hostname = ''dir'', wu_username = [], wu_password = [], wu_pathname = [],
       wu_search = [], wu_hash = [], wu_origin = [], wu_href = s\<rparr>"
  have i: "text_schema 2 32 ldap_id_re (JStr ''ad'') = Some ''ad''" by (simp add: text_schema_def js_defs)
  have t: "trimmed 1 m (\<lambda>_. True) (JStr ''AD'') = Some ''AD''" "trimmed 1 m (\<lambda>_. True) (JStr ''dc=x'') = Some ''dc=x''"
    if "4 \<le> m" for m using that by (simp_all add: trimmed_def js_defs)
  have s: "strict_names ?v ldap_names" by (simp add: strict_names_def ldap_names_def mkeys_def)
  have f: "default_field g ?v k d = Some d" "opt_field g' ?v k = Some None" if "k \<notin> {''id'', ''display_name'', ''url'', ''user_base_dn''}"
    for g :: "json \<Rightarrow> 'a option" and d and g' :: "json \<Rightarrow> 'b option" and k
    using that by (simp_all add: default_field_def opt_field_def)
  obtain p where p: "ldap_schema (\<lambda>_. True) ?v = Some (p, False)" "lp_userObjectClass p = ''person''" "lp_startTls p = False"
      "lp_loginAttributes p = [''uid'', ''mail'', ''userPrincipalName'', ''sAMAccountName'']" "lp_bindDn p = None" "lp_bindPassword p = None"
    using s i t by (simp add: ldap_schema_def f)
  let ?p = "p\<lparr>lp_url := drop_slash (lp_url p), lp_loginAttributes := js_uniq (lp_loginAttributes p)\<rparr>"
  have run: "parse_ldap_provider ?parse (\<lambda>_. True) (\<lambda>_. False) False [] ?v = Some ?p"
    using p by (simp add: parse_ldap_provider_def)
  have "js_uniq (lp_loginAttributes p) = [''uid'', ''mail'', ''userPrincipalName'', ''sAMAccountName'']"
    by (simp add: p(4) js_uniq_def)
  then show ?thesis using ldap_filter_faithful [OF run, of id "''*)(uid=*''"] run p(2) by (intro exI [of _ ?p]) simp
qed

section \<open>Signing in\<close>

text \<open>Every connection that was made is closed, as often as it was made, and nothing is bound on it before it is secure.\<close>

definition calls_of :: "ldap_call \<Rightarrow> ldap_call list \<Rightarrow> nat" where "calls_of c cs = length (filter (\<lambda>x. x = c) cs)"

definition closed_calls :: "ldap_world \<Rightarrow> ldap_provider \<Rightarrow> ldap_call list \<Rightarrow> bool" where
  "closed_calls w p cs \<longleftrightarrow> (\<forall>n. calls_of (Unbind n) cs = (if lw_create w (clientOptions p) n = Inr () then calls_of (Create n) cs else 0))"

text \<open>The connections in \<open>S\<close> are secure.\<close>

fun secured :: "ldap_world \<Rightarrow> ldap_provider \<Rightarrow> nat list \<Rightarrow> ldap_call list \<Rightarrow> bool" where
  "secured w p S [] = True"
| "secured w p S (StartTls n # cs) = secured w p (if lw_startTls w (tlsOptions p) n = Inr () then n # S else S) cs"
| "secured w p S (Bind n dn pw # cs) = (n \<in> set S \<and> secured w p S cs)"
| "secured w p S (c # cs) = secured w p S cs"

text \<open>The calls of the password check, and of the first connection up to its binding.\<close>

lemma secureClient_cases:
  obtains (failed) e where "lw_create w (clientOptions p) n = Inl e" "secureClient w p n = (Inl e, [Create n])"
  | (plain) "lw_create w (clientOptions p) n = Inr ()" "\<not> lp_startTls p" "secureClient w p n = (Inr (), [Create n])"
  | (insecure) e where "lw_create w (clientOptions p) n = Inr ()" "lp_startTls p" "lw_startTls w (tlsOptions p) n = Inl e"
      "secureClient w p n = (Inl e, [Create n, StartTls n, Unbind n])"
  | (tls) "lw_create w (clientOptions p) n = Inr ()" "lp_startTls p" "lw_startTls w (tlsOptions p) n = Inr ()" "secureClient w p n = (Inr (), [Create n, StartTls n])"
  by (cases "lw_create w (clientOptions p) n"; cases "lw_startTls w (tlsOptions p) n"; cases "lp_startTls p") (auto simp: secureClient_def)

definition proper :: "ldap_world \<Rightarrow> ldap_provider \<Rightarrow> ldap_call list \<Rightarrow> bool" where
  "proper w p cs \<longleftrightarrow> closed_calls w p cs \<and> (lp_startTls p \<longrightarrow> secured w p [] cs)"

lemmas proper_defs = proper_def closed_calls_def calls_of_def

lemma secured_mono: "secured w p S cs \<Longrightarrow> set S \<subseteq> set T \<Longrightarrow> secured w p T cs"
proof (induction cs arbitrary: S T)
  case (Cons c cs)
  then show ?case
  proof (cases c)
    case (StartTls n)
    then show ?thesis using Cons.prems Cons.IH [of S T] Cons.IH [of "n # S" "n # T"] by (auto split: if_splits)
  qed (use Cons in \<open>auto\<close>)
qed simp

lemma secured_append_quiet: "\<forall>c\<in>set mid. (\<exists>dn pw. c = Bind n dn pw) \<or> (\<exists>b f as. c = Search n b f as) \<Longrightarrow> n \<in> set S \<Longrightarrow>
    secured w p S (mid @ es) = secured w p S es"
  by (induction mid) auto

lemma secured_unbind: "secured w p S (cs @ [Unbind n]) = secured w p S cs"
  by (induction w p S cs rule: secured.induct) auto

lemma calls_append: "calls_of c (xs @ ys) = calls_of c xs + calls_of c ys" by (simp add: calls_of_def)

lemma calls_quiet: "\<forall>c\<in>set mid. (\<exists>dn pw. c = Bind n dn pw) \<or> (\<exists>b f as. c = Search n b f as) \<Longrightarrow>
    calls_of (Create k) mid = 0 \<and> calls_of (Unbind k) mid = 0"
  by (auto simp: calls_of_def filter_empty_conv)

lemma closed_around:
  assumes "closed_calls w p es" "lw_create w (clientOptions p) n = Inr ()" "calls_of (Create n) mid = 0 \<and> calls_of (Unbind n) mid = 0"
    and "\<forall>k. calls_of (Create k) mid = 0 \<and> calls_of (Unbind k) mid = 0"
  shows "closed_calls w p (Create n # mid @ es @ [Unbind n])"
  using assms by (auto simp: closed_calls_def calls_of_def)

lemma proper_around:
  assumes s: "secureClient w p n = (Inr u, cs)" and es: "proper w p es"
    and mid: "\<forall>c\<in>set mid. (\<exists>dn pw. c = Bind n dn pw) \<or> (\<exists>b f as. c = Search n b f as)"
  shows "proper w p (cs @ mid @ es @ [Unbind n])"
proof -
  from calls_quiet [OF mid] have q: "\<forall>k. calls_of (Create k) mid = 0 \<and> calls_of (Unbind k) mid = 0" by blast
  consider (plain) "lw_create w (clientOptions p) n = Inr ()" "\<not> lp_startTls p" "cs = [Create n]"
    | (tls) "lw_create w (clientOptions p) n = Inr ()" "lp_startTls p" "lw_startTls w (tlsOptions p) n = Inr ()" "cs = [Create n, StartTls n]"
    using s by (cases rule: secureClient_cases [of w p n]) auto
  then show ?thesis
  proof cases
    case plain
    with closed_around [of w p es n mid] es q show ?thesis by (simp add: proper_def)
  next
    case tls
    have "closed_calls w p (Create n # (StartTls n # mid) @ es @ [Unbind n])"
      using es q tls(1) by (intro closed_around) (auto simp: proper_def calls_of_def)
    moreover have "secured w p [n] (mid @ es @ [Unbind n])"
      using secured_append_quiet [OF mid, of "[n]" w p "es @ [Unbind n]"] secured_mono [of w p "[]" es "[n]"] es tls(2)
      by (simp add: secured_unbind proper_def)
    ultimately show ?thesis using tls by (simp add: proper_def)
  qed
qed

lemma proper_nil: "proper w p []" by (simp add: proper_defs)

lemma proper_failed: "secureClient w p n = (Inl e, cs) \<Longrightarrow> proper w p cs"
  by (cases rule: secureClient_cases [of w p n]) (auto simp: proper_defs)

lemma proper_password: "proper w p (snd (check_password w p dn secret))"
proof (cases "secureClient w p 1")
  case (Pair r cs)
  then show ?thesis
    using proper_failed [of w p 1] proper_around [OF _ proper_nil, of w p 1 _ cs "[Bind 1 dn secret]"]
    by (cases r) (auto simp: check_password_def)
qed

lemma proper_entry: "proper w p (snd (entry_result w p login secret entries))"
  using proper_password [of w p _ secret]
  by (auto simp: entry_result_def Let_def proper_nil split: list.splits sum.splits prod.splits) (metis snd_conv)+

lemma check_password_ok:
  "fst (check_password w p dn secret) = Inr u \<Longrightarrow> lw_bind w 1 dn secret = Inr () \<and> Bind 1 dn secret \<in> set (snd (check_password w p dn secret))"
  by (auto simp: check_password_def split: sum.splits prod.splits)

lemma entry_success:
  assumes "entry_result w p login secret entries = (LdapSuccess r, cs)"
  shows "\<exists>entry dn. entries = [entry] \<and> dn \<noteq> [] \<and> lw_bind w 1 dn secret = Inr () \<and> Bind 1 dn secret \<in> set cs \<and>
    jprop r ''providerId'' = JStr (lp_id p) \<and> jprop r ''issuer'' = JStr (lp_url p) \<and> jprop r ''profile'' = ldap_profile w entry p login dn"
proof -
  from assms obtain entry where e: "entries = [entry]" by (auto simp: entry_result_def split: list.splits)
  let ?dn = "case mget entry ''dn'' of Some (One a) \<Rightarrow> js_trim (atom_text w a) | _ \<Rightarrow> []"
  from assms e have d: "?dn \<noteq> []" by (auto simp: entry_result_def Let_def)
  obtain u where ok: "check_password w p ?dn secret = (Inr u, cs)"
      "r = JObj [(''status'', JStr ''success''), (''protocol'', JStr ''ldap''), (''providerId'', JStr (lp_id p)),
        (''issuer'', JStr (lp_url p)), (''allowCreate'', JBool (lp_jitProvisioning p)), (''profile'', ldap_profile w entry p login ?dn)]"
    using assms e d by (auto simp: entry_result_def Let_def ldap_error_def split: sum.splits prod.splits if_splits)
  show ?thesis using e d ok check_password_ok [of w p ?dn secret u] by (intro exI [of _ entry] exI [of _ ?dn]) simp
qed

lemma search_bind_calls: "search_bind w p = (r, bs) \<Longrightarrow> \<forall>c\<in>set bs. (\<exists>dn pw. c = Bind 0 dn pw) \<or> (\<exists>b f as. c = Search 0 b f as)"
  by (auto simp: search_bind_def split: option.splits)


definition dir_world :: ldap_world where
  "dir_world = \<lparr>lw_create = (\<lambda>_ _. Inr ()), lw_startTls = (\<lambda>_ _. Inr ()), lw_bind = (\<lambda>n dn pw. if pw = ''pw'' then Inr () else Inl (JObj [(''code'', JNum 49)])),
     lw_search = (\<lambda>_ _ _ _. Inr [[(''dn'', One (Text ''uid=a''))]]), lw_utf8 = id, lw_text = id, lw_base64url = id\<rparr>"

definition dir_provider :: ldap_provider where
  "dir_provider = \<lparr>lp_id = ''ad'', lp_displayName = ''AD'', lp_url = ''ldap://dir'', lp_startTls = True, lp_caCertificate = None, lp_bindDn = None,
     lp_bindPassword = None, lp_userBaseDn = ''dc=x'', lp_userObjectClass = ''person'', lp_loginAttributes = [''uid''], lp_usernameAttribute = ''uid'',
     lp_emailAttribute = ''mail'', lp_displayNameAttribute = ''cn'', lp_givenNameAttribute = ''givenName'', lp_familyNameAttribute = ''sn'',
     lp_externalIdAttribute = ''entryUUID'', lp_groupsAttribute = ''memberOf'', lp_rolesAttribute = None, lp_jitProvisioning = False,
     lp_connectTimeoutMs = 5000, lp_operationTimeoutMs = 5000\<rparr>"


end
