(* ===== verification/AppStartProps.thy ===== *)
theory AppStartProps
  imports AppStart OidcServerProps OidcProps SamlConfigProps LdapProps
begin

text \<open>
  What a start of the service promises, over \<open>createAuthMeApp\<close> and the parts it builds, and the end of the process
  (\<open>src/index.js\<close>).
\<close>

section \<open>A start, all or nothing\<close>

lemma realms_built:
  "mapR (start_realm w c) realms = Inr built \<Longrightarrow> realm \<in> set realms \<Longrightarrow>
     \<exists>j p. mget (map (\<lambda>(r, j, p). (r, j)) built) realm = Some j \<and> mget (map (\<lambda>(r, j, p). (r, p)) built) realm = Some p \<and>
       loadRealmJwks (stw_keys w) c realm = Inr j \<and> createRealmProvider (stw_server w) c realm = Inr p"
  by (induction realms arbitrary: built) (auto simp: start_realm_def)

lemma brokers_checked:
  assumes "check_brokers w table = Inr ()" "(realm, ps) \<in> set table" "p \<in> set ps"
  shows "\<exists>b. brokerFor w table (JStr realm) (JStr (sc_id p)) = Inr b"
proof -
  let ?one = "\<lambda>realm p. case brokerFor w table (JStr realm) (JStr (sc_id p)) of Inl _ \<Rightarrow> Inl ''Error'' | Inr _ \<Rightarrow> Inr ()"
  have all: "mapR f xs = Inr ys \<Longrightarrow> x \<in> set xs \<Longrightarrow> \<exists>y. f x = Inr y" for f :: "'a \<Rightarrow> 'b + 'c" and xs x ys
    by (induction xs arbitrary: ys) auto
  obtain us where "mapR (\<lambda>(realm, ps). mapR (?one realm) ps) table = Inr us"
    using assms(1) by (auto simp: check_brokers_def)
  from all [OF this assms(2)] obtain u where "mapR (?one realm) ps = Inr u" by auto
  from all [OF this assms(3)] show ?thesis by (auto split: sum.splits)
qed

lemma runtime_checked:
  assumes "createIdentityRuntime w c pool = Inr rt"
  shows "registry_ok (ir_registry rt) \<and> (ir_scim rt \<longrightarrow> pool) \<and> ir_scim rt = anyEnabled (cg_scim c) \<and> check_brokers (nw_saml w) (cg_saml c) = Inr ()"
  using assms by (auto simp: createIdentityRuntime_def registry_built_ok split: sum.splits)

lemma start_body_Inr:
  assumes "start_body w c s = (Inr app, s')"
  obtains b1 b2 s1 h rt built where "stw_storeReady w = Inr b1" "stw_limitsReady w = Inr b2" "stw_bootstrap w (sv_data s) = (Inr (), sv_data s1)"
    "stw_hash w = Inr h" "createIdentityRuntime (stw_runtime w) c (case stw_dataLayer w of Inr (PostgresLayer _) \<Rightarrow> True | _ \<Rightarrow> False) = Inr rt"
    "mapR (start_realm w c) (cg_realms c) = Inr built" "s' = acquire Timer (run_maintenance w s1)"
    "app = \<lparr>app_runtime = rt, app_jwks = map (\<lambda>(r, j, p). (r, j)) built, app_providers = map (\<lambda>(r, j, p). (r, p)) built, app_dummyPasswordHash = h\<rparr>"
proof -
  obtain b1 b2 x s1 h rt built where r: "stw_storeReady w = Inr b1" "stw_limitsReady w = Inr b2"
      "(case stw_bootstrap w (sv_data s) of (r, d) \<Rightarrow> (r, s\<lparr>sv_data := d\<rparr>)) = (Inr x, s1)"
      "stw_hash w = Inr h" "createIdentityRuntime (stw_runtime w) c (case stw_dataLayer w of Inr (PostgresLayer _) \<Rightarrow> True | _ \<Rightarrow> False) = Inr rt"
      "mapR (start_realm w c) (cg_realms c) = Inr built" "s' = acquire Timer (run_maintenance w s1)"
      "app = \<lparr>app_runtime = rt, app_jwks = map (\<lambda>(r, j, p). (r, j)) built, app_providers = map (\<lambda>(r, j, p). (r, p)) built, app_dummyPasswordHash = h\<rparr>"
    using assms unfolding start_body_def by (elim bindS_Inr) auto
  then have "stw_bootstrap w (sv_data s) = (Inr (), sv_data s1)" by (cases "stw_bootstrap w (sv_data s)") auto
  then show ?thesis using r that by blast
qed


text \<open>A production start with one realm, one client and one signing key, over PostgreSQL.\<close>

definition demo_signing_key :: json where
  "demo_signing_key = JObj [(''kty'', JStr ''EC''), (''crv'', JStr ''P-256''), (''d'', JStr ''d''), (''kid'', JStr ''k1''), (''use'', JStr ''sig''),
     (''alg'', JStr ''ES256'')]"

definition demo_boot :: "nat start_world" where
  "demo_boot = \<lparr>stw_dataLayer = Inr (PostgresLayer []), stw_storeReady = Inr (), stw_limitsReady = Inr True, stw_hash = Inr ''h'',
     stw_runtime = \<lparr>nw_ldap = (\<lambda>_. dir_world), nw_oidc = demo_ow 0, nw_saml = demo_saml_world\<rparr>, stw_server = demo_server,
     stw_keys = \<lparr>kw_import = (\<lambda>_ _. Some None), kw_readFile = (\<lambda>_. Some ''{}''), kw_json = (\<lambda>_. Some (JObj [(''keys'', JArr [demo_signing_key])])),
       kw_join = (\<lambda>a b. a @ b), kw_generate = JUndef\<rparr>,
     stw_bootstrap = (\<lambda>d. (Inr (), d)), stw_expire = (\<lambda>n d. (0, d)), stw_trim = (\<lambda>n d. (0, d)), stw_closes = (\<lambda>_. True)\<rparr>"

definition demo_start_config :: config where "demo_start_config = demo_realm_config\<lparr>cg_jwksDir := Some ''/keys''\<rparr>"

definition idle :: "nat service" where
  "idle = \<lparr>sv_data = 0, sv_open = [], sv_closed = [], sv_ready = False, sv_cleanupRunning = False, sv_runs = 0\<rparr>"

lemma demo_runtime_starts: "\<exists>rt. createIdentityRuntime (stw_runtime demo_boot) demo_start_config True = Inr rt"
  by (simp add: createIdentityRuntime_def demo_start_config_def demo_realm_config_def anyEnabled_def check_brokers_def
      createIdentityExtensionRegistry_def createLdapExtension_def createOidcFederationExtension_def createSamlFederationExtension_def createScimExtension_def
      register_extension_def normalizeManifest_def ldap_manifest_def oidc_manifest_def saml_manifest_def scim_manifest_def extension_kinds_def
      AUTHME_EXTENSION_API_VERSION_def validateImplementation_def no_methods_def oidc_implementation_def saml_implementation_def Let_def js_defs)

lemma demo_realm_started: "\<exists>x. start_realm demo_boot demo_start_config ''corp'' = Inr x"
proof -
  have same: "adminConsoleClient demo_start_config = adminConsoleClient demo_realm_config" "cg_devMode demo_start_config = False"
    by (simp_all add: adminConsoleClient_def demo_start_config_def demo_realm_config_def)
  have "configuredClientsForRealm demo_start_config ''corp'' = Inr [demo_client, adminConsoleClient demo_start_config]"
    by (simp add: configuredClientsForRealm_def demo_start_config_def demo_realm_config_def demo_client_def CONSOLE_CLIENT_ID_def adminConsoleClient_def)
  then have "\<exists>p. createRealmProvider demo_server demo_start_config ''corp'' = Inr p"
    using demo_clients_valid same by (simp add: createRealmProvider_def issuerFor_def) (simp add: demo_start_config_def demo_realm_config_def)
  moreover have "\<exists>j. loadRealmJwks (stw_keys demo_boot) demo_start_config ''corp'' = Inr j"
    by (simp add: loadRealmJwks_def demo_start_config_def demo_realm_config_def demo_boot_def validateJwks_def check_key_def demo_signing_key_def
        kids_has_def intended_for_signing_def algorithm_of_def allowedAlgorithms_def or_name_def type_matches_def expected_type_def)
  ultimately show ?thesis by (auto simp: start_realm_def demo_boot_def)
qed

lemma demo_start_runs: "\<exists>app s'. createAuthMeApp demo_boot demo_start_config idle = (Inr app, s')"
proof -
  have realms: "cg_realms demo_start_config = [''corp'']" by (simp add: demo_start_config_def demo_realm_config_def)
  obtain rt x where "createIdentityRuntime (stw_runtime demo_boot) demo_start_config True = Inr rt"
      "start_realm demo_boot demo_start_config ''corp'' = Inr x"
    using demo_runtime_starts demo_realm_started by blast
  moreover have "stw_dataLayer demo_boot = Inr (PostgresLayer [])" "stw_storeReady demo_boot = Inr ()" "stw_limitsReady demo_boot = Inr True"
      "stw_hash demo_boot = Inr ''h''" "stw_bootstrap demo_boot = (\<lambda>d. (Inr (), d))"
    by (simp_all add: demo_boot_def)
  ultimately show ?thesis
    by (simp add: createAuthMeApp_def start_body_def bindS_def realms liftR_def)
qed


lemma demo_serving: "\<exists>s. serving demo_boot demo_start_config s \<and> sv_ready s \<and> Timer \<in> set (sv_open s) \<and> \<not> sv_cleanupRunning s"
proof -
  have i: "sv_open idle = []" "sv_closed idle = []" "\<not> sv_ready idle" "\<not> sv_cleanupRunning idle" by (simp_all add: idle_def)
  obtain app s where run: "createAuthMeApp demo_boot demo_start_config idle = (Inr app, s)"
    using demo_start_runs by blast
  then have "serving demo_boot demo_start_config s" unfolding idle_def by (rule serving.started)
  moreover have "sv_ready s \<and> sv_open s = all_resources \<and> \<not> sv_cleanupRunning s"
    using run i by (cases rule: createAuthMeApp_cases) auto
  ultimately show ?thesis by (auto simp: all_resources_def)
qed


section \<open>The process\<close>

text \<open>
  \<open>src/index.js\<close>: each of the two signals has a handler for one delivery; without a handler the signal ends the process. A
  shutdown stops the server from accepting, waits for its connections, then closes the service; a timer of fifteen
  seconds ends the process if that takes too long. \<open>pr_closes\<close> counts the calls of \<open>runtime.close()\<close>.
\<close>

datatype phase = Running | Draining | Closing | Stopped | CloseFailed

record process =
  pr_handlers :: "string list"
  pr_phase :: phase
  pr_accepting :: bool
  pr_timer :: bool
  pr_closes :: nat
  pr_exitCode :: nat
  pr_exited :: "nat option"

definition start_process :: process where
  "start_process = \<lparr>pr_handlers = [''SIGINT'', ''SIGTERM''], pr_phase = Running, pr_accepting = True, pr_timer = False, pr_closes = 0,
     pr_exitCode = 0, pr_exited = None\<rparr>"

datatype process_event = Signal string | ServerClosed | ServiceClosed bool | TimerFires | Uncaught

definition shutdown :: "process \<Rightarrow> process" where
  "shutdown p = (if pr_phase p \<noteq> Running then p else p\<lparr>pr_phase := Draining, pr_accepting := False, pr_timer := True\<rparr>)"

definition on_event :: "process_event \<Rightarrow> process \<Rightarrow> process" where
  "on_event e p =
     (if pr_exited p \<noteq> None then p
      else case e of
        Signal sg \<Rightarrow> if sg \<in> set (pr_handlers p) then shutdown (p\<lparr>pr_handlers := removeAll sg (pr_handlers p)\<rparr>)
                     else if sg \<in> {''SIGINT'', ''SIGTERM''} then p\<lparr>pr_exited := Some (if sg = ''SIGINT'' then 130 else 143)\<rparr> else p
      | ServerClosed \<Rightarrow> if pr_phase p = Draining then p\<lparr>pr_phase := Closing, pr_closes := pr_closes p + 1\<rparr> else p
      | ServiceClosed ok \<Rightarrow>
          if pr_phase p \<noteq> Closing then p
          else if ok then p\<lparr>pr_phase := Stopped, pr_timer := False\<rparr> else p\<lparr>pr_phase := CloseFailed, pr_exitCode := 1\<rparr>
      | TimerFires \<Rightarrow> if pr_timer p then p\<lparr>pr_exited := Some 1\<rparr> else p
      | Uncaught \<Rightarrow> p\<lparr>pr_exited := Some 1\<rparr>)"

definition process_inv :: "process \<Rightarrow> bool" where
  "process_inv p \<longleftrightarrow> pr_closes p = (if pr_phase p \<in> {Running, Draining} then 0 else 1) \<and> (pr_accepting p \<longleftrightarrow> pr_phase p = Running) \<and>
     (pr_timer p \<longleftrightarrow> pr_phase p \<in> {Draining, Closing, CloseFailed}) \<and> (pr_phase p = CloseFailed \<longleftrightarrow> pr_exitCode p = 1)"

lemma on_event_inv: "process_inv p \<Longrightarrow> process_inv (on_event e p)"
  by (cases e; cases "pr_phase p") (auto simp: on_event_def shutdown_def process_inv_def)

text \<open>
  Whatever arrives in whatever order, the service is closed at most once, and only when the server no longer accepts requests;
  from the first signal on the process is bound to end: its timer is armed until the service has closed, and when the timer
  fires the process exits with an error; a close that fails shows in the exit code.
\<close>

theorem shutdown_once_and_bounded:
  "let p = fold on_event es start_process in
     pr_closes p \<le> 1 \<and> (pr_closes p = 1 \<or> pr_phase p = Draining \<longrightarrow> \<not> pr_accepting p) \<and>
     (\<not> pr_accepting p \<longrightarrow> pr_phase p = Stopped \<or> pr_timer p) \<and>
     (pr_timer p \<longrightarrow> pr_exited (on_event TimerFires p) \<noteq> None) \<and>
     (pr_phase p = CloseFailed \<longrightarrow> pr_exitCode p = 1)"
proof -
  have "process_inv q \<Longrightarrow> process_inv (fold on_event es q)" for q by (induction es arbitrary: q) (auto simp: on_event_inv)
  then have "process_inv (fold on_event es start_process)" by (simp add: process_inv_def start_process_def)
  then show ?thesis by (cases "pr_phase (fold on_event es start_process)") (auto simp: process_inv_def on_event_def Let_def)
qed

theorem shutdown_once_and_bounded_witness:
  "pr_closes (fold on_event [Signal ''SIGTERM'', Signal ''SIGINT'', ServerClosed, ServiceClosed False, TimerFires] start_process) = 1"
  using shutdown_once_and_bounded [of "[Signal ''SIGTERM'', Signal ''SIGINT'', ServerClosed, ServiceClosed False, TimerFires]"]
  by (simp add: Let_def on_event_def shutdown_def start_process_def)

end
