(* ===== verification/AppHttp.thy ===== *)
theory AppHttp
  imports AppShell AdminRoutes OidcServer PasskeyOptions Pages
begin

text \<open>
  What \<open>src/app.js\<close> does with a request before and besides the routers: the guards, the headers of the sign-in pages, the counters of
  \<open>src/observability/metrics.js\<close>, the capability and health answers, the assets, the two limiters in front of the
  OpenID Connect library, and which router a path reaches. Express matches paths without regard to case and, for a mount, at a
  segment boundary; a route also matches with one slash at the end.
\<close>

section \<open>Headers and counters\<close>

text \<open>\<open>s.includes(t)\<close>.\<close>

fun js_includes :: "string \<Rightarrow> string \<Rightarrow> bool" where
  "js_includes t [] \<longleftrightarrow> t = []"
| "js_includes t (c # s) \<longleftrightarrow> js_starts t (c # s) \<or> js_includes t s"

text \<open>\<open>/\/device(?:\/|$)/.test(s)\<close>.\<close>

fun device_re :: "string \<Rightarrow> bool" where
  "device_re [] \<longleftrightarrow> False"
| "device_re (c # s) \<longleftrightarrow> (js_starts ''/device'' (c # s) \<and> (case drop 7 (c # s) of [] \<Rightarrow> True | d # _ \<Rightarrow> d = CHR ''/'')) \<or> device_re s"

definition authUi :: "string \<Rightarrow> bool" where
  "authUi path \<longleftrightarrow> js_starts ''/realms/'' path \<and> (js_includes ''/interaction/'' path \<or> device_re path)"

definition page_policy :: string where
  "page_policy = ''default-src 'none'; script-src 'self'; style-src 'self'; form-action 'self'; base-uri 'none'; frame-ancestors 'none'' @ [CHR 0x27]"

definition page_permissions :: string where
  "page_permissions = ''camera=(), geolocation=(), microphone=(), payment=(), usb=(), publickey-credentials-create=(self), publickey-credentials-get=(self)''"

definition securityHeaders :: "string \<Rightarrow> (string \<times> string) list" where
  "securityHeaders path =
     (if authUi path then [(''Content-Security-Policy'', page_policy), (''Permissions-Policy'', page_permissions)] else [])"

definition routeClass :: "string \<Rightarrow> string" where
  "routeClass path =
     (if js_starts ''/realms/'' path then ''oidc'' else if js_starts ''/admin/'' path then ''admin''
      else if js_starts ''/health/'' path then ''health'' else if path = ''/metrics'' then ''metrics''
      else if js_starts ''/assets/'' path then ''assets'' else ''other'')"

definition status_class :: "nat \<Rightarrow> string" where "status_class status = nat_str (status div 100) @ ''xx''"

text \<open>The counters by their labels.\<close>

record metrics =
  mx_requests :: "((string \<times> string \<times> string) \<times> nat) list"
  mx_durations :: "((string \<times> string) \<times> nat) list"
  mx_protocolAudit :: "(string \<times> nat) list"

definition bump :: "'k \<Rightarrow> ('k \<times> nat) list \<Rightarrow> ('k \<times> nat) list" where
  "bump k m = mset' k (case mget m k of None \<Rightarrow> 1 | Some n \<Rightarrow> n + 1) m"

definition metrics_finish :: "string \<Rightarrow> string \<Rightarrow> nat \<Rightarrow> metrics \<Rightarrow> metrics" where
  "metrics_finish meth path status x =
     x\<lparr>mx_requests := bump (meth, routeClass path, status_class status) (mx_requests x),
       mx_durations := bump (meth, routeClass path) (mx_durations x)\<rparr>"

definition recordProtocolAudit :: "string \<Rightarrow> metrics \<Rightarrow> metrics" where
  "recordProtocolAudit outcome x = x\<lparr>mx_protocolAudit := bump outcome (mx_protocolAudit x)\<rparr>"

text \<open>The hooks of the audit writer: what is counted, and when it is worth a line in the log: the 1st, 2nd, 4th, 8th, ... loss.\<close>

definition power_of_two :: "nat \<Rightarrow> bool" where "power_of_two n \<longleftrightarrow> and n (n - 1) = 0"

definition audit_hook :: "string \<Rightarrow> nat \<Rightarrow> metrics \<Rightarrow> bool \<times> metrics" where
  "audit_hook outcome counter x =
     (outcome \<in> {''dropped'', ''write_failure''} \<and> power_of_two counter, recordProtocolAudit outcome x)"

section \<open>Where a path leads\<close>

definition mount :: "string \<Rightarrow> string \<Rightarrow> bool" where
  "mount p path \<longleftrightarrow> js_starts (js_lower p) (js_lower path) \<and> (case drop (length p) path of [] \<Rightarrow> True | c # _ \<Rightarrow> c = CHR ''/'')"

definition at_path :: "string \<Rightarrow> string \<Rightarrow> bool" where
  "at_path p path \<longleftrightarrow> js_lower path = p \<or> js_lower path = p @ ''/''"

datatype endpoint = E_capabilities | E_live | E_ready | E_asset string | E_scim | E_admin | E_realm string | E_metadata string | E_none

definition assets :: "string list" where
  "assets = [''/assets/authme.css'', ''/assets/authme-passkeys.css'', ''/assets/authme-passkeys.js'']"

text \<open>
  In the order of the code; the routers of a realm (federation, sign-in pages) have all their paths below its mount, where
  the library answers what they leave.
\<close>

definition realm_endpoint :: "string list \<Rightarrow> string \<Rightarrow> endpoint" where
  "realm_endpoint realms path =
     (case find (\<lambda>r. mount (''/realms/'' @ r) path \<or> mount (''/.well-known/oauth-authorization-server/realms/'' @ r) path) realms of
        None \<Rightarrow> E_none
      | Some r \<Rightarrow> if mount (''/realms/'' @ r) path then E_realm r else E_metadata r)"

definition endpoint_of :: "bool \<Rightarrow> string list \<Rightarrow> string \<Rightarrow> string \<Rightarrow> endpoint" where
  "endpoint_of scim realms meth path =
     (if reading meth \<and> path = ''/'' then E_capabilities
      else if reading meth \<and> at_path ''/health/live'' path then E_live
      else if reading meth \<and> at_path ''/health/ready'' path then E_ready
      else (case find (\<lambda>a. reading meth \<and> at_path a path) assets of
              Some a \<Rightarrow> E_asset a
            | None \<Rightarrow>
                if scim \<and> mount ''/scim/v2/realms'' path then E_scim
                else if mount ''/admin'' path then E_admin
                else realm_endpoint realms path))"

section \<open>The answer\<close>

record http_env =
  ht_console :: console_config
  ht_crypto :: crypto
  ht_scim :: bool
  ht_dynamicRegistration :: bool
  ht_describe :: "string \<Rightarrow> manifest list"
  ht_readFile :: "string \<Rightarrow> string option"

text \<open>\<open>hr_origin\<close> is the origin of protocol and host; \<open>hr_status\<close> the status a router gives the request.\<close>

record http_request =
  hr_method :: string
  hr_originalUrl :: string
  hr_path :: string
  hr_origin :: "string option"
  hr_ip :: string
  hr_status :: nat

datatype http_reply =
    Refused nat
  | Capabilities json
  | HealthReply nat string
  | AssetReply string
  | SlowDevice int
  | SlowRegistration int
  | Forward endpoint
  | NotFoundPage
  | Thrown

definition capabilities_body :: "http_env \<Rightarrow> json" where
  "capabilities_body env =
     (let realms = ac_realms (ht_console env) in JObj
       [(''name'', JStr ''AuthMe''), (''version'', JStr ''0.3.0''),
        (''issuers'', JArr (map (\<lambda>realm. JStr (ac_publicUrl (ht_console env) @ ''/realms/'' @ realm)) realms)),
        (''capabilities'', JObj (map (\<lambda>realm. (realm, JArr (map (\<lambda>mf. JObj [(''id'', mf_id mf), (''kind'', JStr (mf_kind mf)),
            (''capabilities'', JArr (map JStr (mf_capabilities mf)))]) (ht_describe env realm)))) realms)),
        (''documentation'', JStr ''https://github.com/asalfaifi/authme'')])"

definition health_ready :: "bool \<Rightarrow> bool \<Rightarrow> http_reply" where
  "health_ready ready storeReady =
     (if \<not> ready then HealthReply 503 ''starting'' else if storeReady then HealthReply 200 ''ready'' else HealthReply 503 ''unavailable'')"

text \<open>\<open>req.path\<close> below a mount.\<close>

definition below :: "string \<Rightarrow> string \<Rightarrow> string" where "below p path = (case drop (length p) path of [] \<Rightarrow> ''/'' | rest \<Rightarrow> rest)"

definition posts_to :: "http_request \<Rightarrow> string \<Rightarrow> bool" where
  "posts_to rq p \<longleftrightarrow> mount p (hr_path rq) \<and> hr_method rq = ''POST'' \<and> below p (hr_path rq) = ''/''"

definition seconds_left :: "int \<Rightarrow> int" where "seconds_left ms = max 1 (- ((- ms) div 1000))"

text \<open>The limiters in front of the library; \<open>None\<close> lets the request through.\<close>

definition realm_limits :: "http_env \<Rightarrow> 'r limiting \<Rightarrow> http_request \<Rightarrow> string \<Rightarrow> 'r \<Rightarrow> http_reply option \<times> 'r" where
  "realm_limits env limiting rq realm r =
     (if posts_to rq (''/realms/'' @ realm @ ''/device'') then
        (case consumeDeviceVerification (ht_crypto env) limiting (hr_ip rq) r of
           (Some ms, r') \<Rightarrow> (Some (SlowDevice (seconds_left ms)), r') | (None, r') \<Rightarrow> (None, r'))
      else if ht_dynamicRegistration env \<and> posts_to rq (''/realms/'' @ realm @ ''/clients-registrations/openid-connect'') then
        (case consumeRegistration (ht_crypto env) limiting (hr_ip rq) r of
           (Some ms, r') \<Rightarrow> (Some (SlowRegistration (seconds_left ms)), r') | (None, r') \<Rightarrow> (None, r'))
      else (None, r))"

definition answer :: "http_env \<Rightarrow> 'r limiting \<Rightarrow> bool \<Rightarrow> bool \<Rightarrow> http_request \<Rightarrow> 'r \<Rightarrow> http_reply \<times> 'r" where
  "answer env limiting ready storeReady rq r =
     (case endpoint_of (ht_scim env) (ac_realms (ht_console env)) (hr_method rq) (hr_path rq) of
        E_capabilities \<Rightarrow> (Capabilities (capabilities_body env), r)
      | E_live \<Rightarrow> (HealthReply 200 ''live'', r)
      | E_ready \<Rightarrow> (health_ready ready storeReady, r)
      | E_asset a \<Rightarrow> (case ht_readFile env a of None \<Rightarrow> Thrown | Some t \<Rightarrow> AssetReply t, r)
      | E_realm realm \<Rightarrow>
          (case realm_limits env limiting rq realm r of
             (Some ans, r') \<Rightarrow> (ans, r') | (None, r') \<Rightarrow> (Forward (E_realm realm), r'))
      | E_none \<Rightarrow> (NotFoundPage, r)
      | e \<Rightarrow> (Forward e, r))"

text \<open>What the library is given for the metadata of RFC 8414: its own path, and the original URL below the issuer.\<close>

definition metadata_request :: "string \<Rightarrow> string \<times> string" where
  "metadata_request realm =
     (let url = ''/.well-known/oauth-authorization-server'' in (url, ''/realms/'' @ realm @ url))"

definition reply_status :: "http_request \<Rightarrow> http_reply \<Rightarrow> nat" where
  "reply_status rq ans =
     (case ans of
        Refused n \<Rightarrow> n | Capabilities _ \<Rightarrow> 200 | HealthReply n _ \<Rightarrow> n | AssetReply _ \<Rightarrow> 200 | SlowDevice _ \<Rightarrow> 429 | SlowRegistration _ \<Rightarrow> 429
      | Forward _ \<Rightarrow> hr_status rq | NotFoundPage \<Rightarrow> 404 | Thrown \<Rightarrow> 500)"

text \<open>The whole of it: what a guard refuses is not counted.\<close>

definition app_request :: "http_env \<Rightarrow> 'r limiting \<Rightarrow> bool \<Rightarrow> bool \<Rightarrow> http_request \<Rightarrow> metrics \<times> 'r \<Rightarrow> http_reply \<times> (string \<times> string) list \<times> metrics \<times> 'r" where
  "app_request env limiting ready storeReady rq st =
     (case request_guard (ht_console env) (hr_originalUrl rq) (hr_path rq) (hr_origin rq) of
        Some status \<Rightarrow> (Refused status, [], st)
      | None \<Rightarrow>
          (let (ans, r) = answer env limiting ready storeReady rq (snd st)
           in (ans, securityHeaders (hr_path rq), metrics_finish (hr_method rq) (hr_path rq) (reply_status rq ans) (fst st), r)))"

section \<open>What reaches a router\<close>

definition guarded_endpoint :: "endpoint \<Rightarrow> bool" where
  "guarded_endpoint e \<longleftrightarrow> (case e of E_scim \<Rightarrow> True | E_admin \<Rightarrow> True | E_realm _ \<Rightarrow> True | E_metadata _ \<Rightarrow> True | _ \<Rightarrow> False)"

lemma js_starts_appendD: "js_starts (p @ q) s \<Longrightarrow> js_starts p s"
proof -
  assume "js_starts (p @ q) s"
  then have "s = (p @ q) @ drop (length (p @ q)) s" unfolding js_starts_def by (metis append_take_drop_id)
  then show "js_starts p s" unfolding js_starts_def by (metis append.assoc append_eq_conv_conj)
qed

lemma mount_canonical:
  assumes "mount p path" "js_lower path = path" "js_lower p = q @ t"
  shows "js_starts q path"
  using assms js_starts_appendD [of q t path] by (simp add: mount_def)

lemma realm_endpoint_canonical:
  assumes "realm_endpoint realms path = e" "e \<noteq> E_none" "js_lower path = path"
  shows "js_starts ''/realms/'' path \<or> js_starts ''/.well-known/'' path"
proof -
  obtain r where r: "find (\<lambda>r. mount (''/realms/'' @ r) path \<or> mount (''/.well-known/oauth-authorization-server/realms/'' @ r) path) realms = Some r"
    using assms(1,2) by (auto simp: realm_endpoint_def split: option.splits)
  then have "mount (''/realms/'' @ r) path \<or> mount (''/.well-known/oauth-authorization-server/realms/'' @ r) path"
    by (auto simp: find_Some_iff)
  moreover have "js_lower (''/realms/'' @ r) = ''/realms/'' @ js_lower r"
    "js_lower (''/.well-known/oauth-authorization-server/realms/'' @ r) = ''/.well-known/'' @ (''oauth-authorization-server/realms/'' @ js_lower r)"
    by (simp_all add: js_lower_def) (simp_all add: js_defs)
  ultimately show ?thesis using mount_canonical assms(3) by blast
qed

lemma guarded_canonical:
  assumes "endpoint_of scim realms meth path = e" "guarded_endpoint e" "js_lower path = path"
  shows "\<exists>p\<in>set guarded_prefixes. js_starts p path"
proof -
  consider "mount ''/scim/v2/realms'' path" | "mount ''/admin'' path" | "realm_endpoint realms path = e"
    using assms(1,2) by (auto simp: endpoint_of_def guarded_endpoint_def split: if_splits option.splits)
  then show ?thesis
  proof cases
    case 1
    then show ?thesis using mount_canonical [OF 1 assms(3), of "''/scim/''" "''v2/realms''"] by (simp add: guarded_prefixes_def js_defs)
  next
    case 2
    then show ?thesis using mount_canonical [OF 2 assms(3), of "''/admin''" "[]"] by (simp add: guarded_prefixes_def js_defs)
  next
    case 3
    then show ?thesis using realm_endpoint_canonical [OF 3 _ assms(3)] assms(2) by (cases e) (auto simp: guarded_prefixes_def guarded_endpoint_def)
  qed
qed

text \<open>C40: 
  In production a router (administration, SCIM, a realm, its metadata) is reached by a path in lower case only under the origin
  of the service; and a device code or a client registration reaches the OpenID Connect library only after its limiter has
  counted it for the address of the request.
\<close>

theorem routers_behind_guards:
  assumes "app_request env limiting ready storeReady rq (x, r) = (Forward e, headers, x', r')"
  shows "length (hr_originalUrl rq) \<le> 16384 \<and> guarded_endpoint e \<and>
    (\<not> ac_devMode (ht_console env) \<longrightarrow> js_lower (hr_path rq) = hr_path rq \<longrightarrow> hr_origin rq = Some (ac_publicUrl (ht_console env))) \<and>
    (\<forall>realm. e = E_realm realm \<longrightarrow> posts_to rq (''/realms/'' @ realm @ ''/device'') \<longrightarrow>
       consumeDeviceVerification (ht_crypto env) limiting (hr_ip rq) r = (None, r')) \<and>
    (\<forall>realm. e = E_realm realm \<longrightarrow> ht_dynamicRegistration env \<longrightarrow> \<not> posts_to rq (''/realms/'' @ realm @ ''/device'') \<longrightarrow>
       posts_to rq (''/realms/'' @ realm @ ''/clients-registrations/openid-connect'') \<longrightarrow>
       consumeRegistration (ht_crypto env) limiting (hr_ip rq) r = (None, r'))"
proof -
  have guard: "request_guard (ht_console env) (hr_originalUrl rq) (hr_path rq) (hr_origin rq) = None"
    and ans: "answer env limiting ready storeReady rq r = (Forward e, r')"
    using assms by (auto simp: app_request_def split: option.splits prod.splits)
  have e: "endpoint_of (ht_scim env) (ac_realms (ht_console env)) (hr_method rq) (hr_path rq) = e" "guarded_endpoint e"
    using ans by (auto simp: answer_def guarded_endpoint_def health_ready_def realm_limits_def split: endpoint.splits option.splits if_splits prod.splits)
  have limits: "realm_limits env limiting rq realm r = (None, r')" if "e = E_realm realm" for realm
    using ans e(1) that by (auto simp: answer_def realm_limits_def split: option.splits if_splits prod.splits)
  have origin: "hr_origin rq = Some (ac_publicUrl (ht_console env))" if "\<not> ac_devMode (ht_console env)" "js_lower (hr_path rq) = hr_path rq"
    using guard guarded_canonical [OF e that(2)] that(1) by (auto simp: request_guard_def split: if_splits option.splits)
  have len: "length (hr_originalUrl rq) \<le> 16384" using guard by (auto simp: request_guard_def split: if_splits)
  show ?thesis using e(2) len origin limits by (auto simp: realm_limits_def split: option.splits if_splits prod.splits)
qed

text \<open>A production service, and a limiter that counts and never refuses.\<close>

definition demo_http_console :: console_config where
  "demo_http_console = \<lparr>ac_publicUrl = ''https://id'', ac_realms = [''corp''], ac_devMode = False, ac_adminToken = ''t'',
     ac_csrfSecret_opt = None, ac_cookieKeys_opt = [], ac_sessionTtl_opt = None, ac_hmac = (\<lambda>k v. []), ac_pack = (\<lambda>_. []),
     ac_unpack = (\<lambda>_. None), ac_parse_url = (\<lambda>_. None), ac_url_with = (\<lambda>u q. u), ac_challenge = id,
     ac_exchange = (\<lambda>_ _ _. None), ac_jwks = (\<lambda>_. None), ac_jwtVerify = (\<lambda>_ _ _ _. None), ac_isIP = (\<lambda>_. False)\<rparr>"

definition demo_http :: http_env where
  "demo_http = \<lparr>ht_console = demo_http_console,
     ht_crypto = \<lparr>cy_argon = id, cy_argonVerify = (\<lambda>h p. None), cy_needsRehash = (\<lambda>_. None), cy_digest = (\<lambda>k v. v),
       cy_encrypt = (\<lambda>a b. a), cy_decrypt = (\<lambda>a b. None), cy_totpValidate = (\<lambda>_ _ _. None), cy_verifyRegistration = (\<lambda>_ _ _ _. None),
       cy_verifyAuthentication = (\<lambda>_ _ _ _ _. None), cy_pepper = []\<rparr>,
     ht_scim = False, ht_dynamicRegistration = True, ht_describe = (\<lambda>_. []), ht_readFile = (\<lambda>_. None)\<rparr>"

definition counting :: "nat limiting" where "counting l k r = (None, r + 1)"

definition no_metrics :: metrics where "no_metrics = \<lparr>mx_requests = [], mx_durations = [], mx_protocolAudit = []\<rparr>"

definition demo_http_request :: "string \<Rightarrow> string \<Rightarrow> string \<Rightarrow> http_request" where
  "demo_http_request meth path origin =
     \<lparr>hr_method = meth, hr_originalUrl = path, hr_path = path, hr_origin = Some origin, hr_ip = ''10.0.0.1'', hr_status = 200\<rparr>"

lemma app_request_forwards:
  assumes "request_guard (ht_console env) (hr_originalUrl rq) (hr_path rq) (hr_origin rq) = None"
    "answer env limiting ready storeReady rq r = (a, r')"
  shows "\<exists>headers x'. app_request env limiting ready storeReady rq (x, r) = (a, headers, x', r')"
  using assms by (simp add: app_request_def)

lemma demo_device:
  "answer demo_http counting True True (demo_http_request ''POST'' ''/realms/corp/device'' ''https://id'') 0 = (Forward (E_realm ''corp''), 1)"
  "request_guard demo_http_console ''/realms/corp/device'' ''/realms/corp/device'' (Some ''https://id'') = None"
  by (simp_all add: answer_def endpoint_of_def reading_def assets_def demo_http_def demo_http_console_def demo_http_request_def mount_def realm_endpoint_def
      realm_limits_def posts_to_def below_def consumeDeviceVerification_def counting_def request_guard_def guarded_prefixes_def js_defs)

theorem routers_behind_guards_witness:
  "\<exists>headers x. app_request demo_http counting True True (demo_http_request ''POST'' ''/realms/corp/device'' ''https://id'') (no_metrics, 0) =
       (Forward (E_realm ''corp''), headers, x, 1) \<and>
     hr_origin (demo_http_request ''POST'' ''/realms/corp/device'' ''https://id'') = Some ''https://id'' \<and>
     consumeDeviceVerification (ht_crypto demo_http) counting ''10.0.0.1'' 0 = (None, 1)"
proof -
  let ?rq = "demo_http_request ''POST'' ''/realms/corp/device'' ''https://id''"
  have c: "ht_console demo_http = demo_http_console" "hr_originalUrl ?rq = ''/realms/corp/device''" "hr_path ?rq = ''/realms/corp/device''"
      "hr_origin ?rq = Some ''https://id''" "hr_ip ?rq = ''10.0.0.1''" "\<not> ac_devMode demo_http_console" "ac_publicUrl demo_http_console = ''https://id''"
    by (simp_all add: demo_http_def demo_http_request_def demo_http_console_def)
  obtain headers x where run: "app_request demo_http counting True True ?rq (no_metrics, 0) = (Forward (E_realm ''corp''), headers, x, 1)"
    using app_request_forwards [of demo_http ?rq counting True True 0 _ 1 no_metrics, OF _ demo_device(1)] demo_device(2) c by auto
  have "posts_to ?rq (''/realms/'' @ ''corp'' @ ''/device'')"
    by (simp add: posts_to_def demo_http_request_def mount_def below_def js_defs)
  then show ?thesis using routers_behind_guards [OF run] run c by auto
qed

text \<open>
  The guards compare the path with its case, the routers without: in production a request for another host is refused at
  \<open>/admin/\<close> and at the pages of a realm, and served there when a letter of the path is written in upper case; such a page
  also goes out without the policy for scripts and frames.
\<close>

theorem upper_case_slips_past_guards:
  "\<exists>headers x. app_request demo_http counting True True (demo_http_request ''GET'' ''/admin/'' ''https://evil'') (no_metrics, 0) =
       (Refused 421, [], no_metrics, 0) \<and>
     app_request demo_http counting True True (demo_http_request ''GET'' ''/ADMIN/'' ''https://evil'') (no_metrics, 0) = (Forward E_admin, headers, x, 0) \<and>
     (\<exists>y. app_request demo_http counting True True (demo_http_request ''GET'' ''/Realms/corp/interaction/u'' ''https://evil'') (no_metrics, 0) =
        (Forward (E_realm ''corp''), [], y, 0))"
proof -
  note defs = app_request_def answer_def endpoint_of_def reading_def assets_def demo_http_def demo_http_console_def demo_http_request_def mount_def
    realm_endpoint_def realm_limits_def posts_to_def below_def request_guard_def guarded_prefixes_def at_path_def securityHeaders_def authUi_def js_defs
  have a: "app_request demo_http counting True True (demo_http_request ''GET'' ''/admin/'' ''https://evil'') (no_metrics, 0) = (Refused 421, [], no_metrics, 0)"
    by (simp add: defs)
  have b: "\<exists>headers x. app_request demo_http counting True True (demo_http_request ''GET'' ''/ADMIN/'' ''https://evil'') (no_metrics, 0) = (Forward E_admin, headers, x, 0)"
    by (simp add: defs)
  have c: "\<exists>y. app_request demo_http counting True True (demo_http_request ''GET'' ''/Realms/corp/interaction/u'' ''https://evil'') (no_metrics, 0) =
        (Forward (E_realm ''corp''), [], y, 0)"
    by (simp add: defs)
  from a b c show ?thesis by blast
qed

end
