(* ===== verification/ScimPg.thy ===== *)
theory ScimPg
  imports ScimRepository PgAdapter ExtensionRegistry
begin

text \<open>
  The PostgreSQL SCIM repository (\<open>src/repositories/scim-repository.js\<close>) over the tables of the identity store, those of
  \<open>migrations/003_scim.sql\<close> with their triggers, and the protocol store. The SCIM part of \<open>users.attributes\<close> is kept in the row of
  \<open>scim_user_resources\<close>. A transaction is atomic, what throws is rolled back; a cast to \<open>uuid\<close> reads letters of either case as
  lower case, and \<open>ORDER BY\<close> on text is the collation \<open>C\<close>. The \<open>CHECK\<close> constraints repeat what normalised attributes satisfy and are left out.
\<close>

section \<open>Tables\<close>

record scim_resource =
  xr_realm :: string
  xr_user :: string
  xr_externalId :: "string option"
  xr_version :: nat
  xr_createdAt :: int
  xr_updatedAt :: int
  xr_scim :: scim_attrs

record scim_group_row =
  gw_realm :: string
  gw_id :: string
  gw_externalId :: "string option"
  gw_displayName :: string
  gw_version :: nat
  gw_createdAt :: int
  gw_updatedAt :: int

text \<open>A membership is a realm, a group and a user.\<close>

record scim_db =
  xd_data :: pgdata
  xd_resources :: "scim_resource list"
  xd_groups :: "scim_group_row list"
  xd_members :: "(string \<times> string \<times> string) list"

abbreviation xd_users :: "scim_db \<Rightarrow> user list" where "xd_users d \<equiv> pg_users (pd_db (xd_data d))"
abbreviation xd_records :: "scim_db \<Rightarrow> oidc_row list" where "xd_records d \<equiv> pd_records (xd_data d)"

definition with_users :: "user list \<Rightarrow> scim_db \<Rightarrow> scim_db" where
  "with_users us d = d\<lparr>xd_data := (xd_data d)\<lparr>pd_db := (pd_db (xd_data d))\<lparr>pg_users := us\<rparr>\<rparr>\<rparr>"

definition resource_row :: "string \<Rightarrow> string \<Rightarrow> scim_resource \<Rightarrow> bool" where
  "resource_row realm uid x \<longleftrightarrow> xr_realm x = realm \<and> xr_user x = uid"

definition group_row :: "string \<Rightarrow> string \<Rightarrow> scim_group_row \<Rightarrow> bool" where
  "group_row realm gid g \<longleftrightarrow> gw_realm g = realm \<and> gw_id g = gid"

text \<open>What a transaction throws: the code of an SQL error, or an error of the repository.\<close>

datatype tx_error = Sql string | Repo scim_error

definition translateConstraint :: "tx_error \<Rightarrow> scim_error" where
  "translateConstraint e =
     (case e of
        Repo x \<Rightarrow> x
      | Sql code \<Rightarrow> if code = ''23505'' then UNIQUENESS else if code = ''23503'' \<or> code = ''22P02'' then INVALID_VALUE else OtherError code)"

definition translated :: "tx_error + 'a \<Rightarrow> scim_error + 'a" where
  "translated r = (case r of Inl e \<Rightarrow> Inl (translateConstraint e) | Inr x \<Rightarrow> Inr x)"

section \<open>Accounts from attributes\<close>

definition scimAttributes :: "scim_attrs \<Rightarrow> scim_attrs" where
  "scimAttributes a = filter (\<lambda>(k, v). k \<notin> set [''password'', ''externalId'', ''userName'', ''active'']) a"

definition primaryValue :: "json \<Rightarrow> string" where
  "primaryValue values =
     (let items = array_of values; with_text = filter (\<lambda>i. is_str (jprop i ''value'')) items
      in js_trim (case find (\<lambda>i. jprop i ''primary'' = JBool True) with_text of
           Some i \<Rightarrow> js_String (jprop i ''value'')
         | None \<Rightarrow> (case with_text of [] \<Rightarrow> [] | i # _ \<Rightarrow> js_String (jprop i ''value''))))"

record core_user =
  cu_username :: string
  cu_email :: string
  cu_emailVerified :: bool
  cu_displayName :: string
  cu_givenName :: string
  cu_familyName :: string
  cu_enabled :: bool
  cu_roles :: "string list"
  cu_extra :: scim_attrs

definition name_part :: "scim_attrs \<Rightarrow> string \<Rightarrow> string" where
  "name_part a k = js_trim (str_or_empty (jprop (jprop (JObj a) ''name'') k))"

definition core_display :: "scim_attrs \<Rightarrow> string \<Rightarrow> string" where
  "core_display a userName =
     (let d = jprop (JObj a) ''displayName''; f = jprop (jprop (JObj a) ''name'') ''formatted'';
          t = js_trim (if \<not> nullish d then js_String d else if \<not> nullish f then js_String f
                else js_join (CHR '' '') (filter (\<lambda>x. x \<noteq> []) [name_part a ''givenName'', name_part a ''familyName'']))
      in if t = [] then userName else t)"

definition core_email :: "scim_attrs \<Rightarrow> string \<Rightarrow> string \<Rightarrow> string" where
  "core_email a userName uid =
     (let p = js_lower (primaryValue (jprop (JObj a) ''emails'')) in
      if p \<noteq> [] then p else if CHR ''@'' \<in> set userName then js_lower userName
      else ''scim-'' @ uid @ ''@invalid.local'')"

definition core_verified :: "scim_attrs \<Rightarrow> string \<Rightarrow> bool" where
  "core_verified a email =
     (case find (\<lambda>i. case jprop i ''value'' of JStr s \<Rightarrow> js_lower s = email | _ \<Rightarrow> False) (array_of (jprop (JObj a) ''emails'')) of
        None \<Rightarrow> False | Some i \<Rightarrow> truthy (jprop i ''verified''))"

definition core_roles :: "scim_attrs \<Rightarrow> string list" where
  "core_roles a =
     js_uniq (filter (\<lambda>r. r \<noteq> []) (map (\<lambda>role. js_trim (str_or_empty
       (if nullish (jprop role ''value'') then jprop role ''display'' else jprop role ''value''))) (array_of (jprop (JObj a) ''roles''))))"

definition coreUser :: "scim_attrs \<Rightarrow> string \<Rightarrow> core_user" where
  "coreUser a uid =
     (let userName = js_String (jprop (JObj a) ''userName''); email = core_email a userName uid in
      \<lparr>cu_username = userName, cu_email = email, cu_emailVerified = core_verified a email, cu_displayName = core_display a userName,
       cu_givenName = name_part a ''givenName'', cu_familyName = name_part a ''familyName'',
       cu_enabled = (jprop (JObj a) ''active'' \<noteq> JBool False), cu_roles = core_roles a, cu_extra = scimAttributes a\<rparr>)"

definition password_of :: "(string \<Rightarrow> string) \<Rightarrow> scim_attrs \<Rightarrow> scim_error + string option" where
  "password_of hashPassword a =
     (case jprop (JObj a) ''password'' of
        JUndef \<Rightarrow> Inr None
      | JStr p \<Rightarrow> if length p < 12 \<or> length p > 1024 then Inl INVALID_VALUE else Inr (Some (hashPassword p))
      | _ \<Rightarrow> Inl INVALID_VALUE)"

definition external_of :: "scim_attrs \<Rightarrow> string option" where
  "external_of a = (let e = jprop (JObj a) ''externalId'' in if nullish e then None else Some (js_String e))"

section \<open>Resources from rows\<close>

definition list_or :: "json \<Rightarrow> json list \<Rightarrow> json" where
  "list_or v d = (case v of JArr (x # xs) \<Rightarrow> v | _ \<Rightarrow> JArr d)"

definition set_text :: "string \<Rightarrow> string \<Rightarrow> scim_attrs \<Rightarrow> scim_attrs" where
  "set_text k t a = (if t = [] then a else mset' k (JStr t) a)"

definition row_name :: "user \<Rightarrow> scim_attrs \<Rightarrow> json" where
  "row_name u attributes =
     JObj (mset' ''formatted'' (JStr (u_name u)) (set_text ''familyName'' (u_familyName u)
       (set_text ''givenName'' (u_givenName u) (jentries (jprop (JObj attributes) ''name'')))))"

definition row_attributes :: "user \<Rightarrow> scim_resource \<Rightarrow> scim_attrs" where
  "row_attributes u x =
     (let attributes = xr_scim x;
          a1 = mset' ''userName'' (JStr (u_username u)) attributes;
          a2 = (case xr_externalId x of None \<Rightarrow> a1 | Some e \<Rightarrow> mset' ''externalId'' (JStr e) a1);
          a3 = mset' ''displayName'' (JStr (u_name u)) a2;
          a4 = mset' ''name'' (row_name u attributes) a3;
          a5 = mset' ''emails'' (list_or (jprop (JObj attributes) ''emails'')
                 [JObj [(''value'', JStr (u_email u)), (''primary'', JBool True)]]) a4;
          a6 = mset' ''roles'' (list_or (jprop (JObj attributes) ''roles'') (map (\<lambda>r. JObj [(''value'', JStr r)]) (u_roles u))) a5
      in mset' ''active'' (JBool (u_enabled u)) a6)"

definition scim_rowToUser :: "user \<Rightarrow> scim_resource \<Rightarrow> scim_record" where
  "scim_rowToUser u x =
     \<lparr>sr_attrs = row_attributes u x, sr_id = u_id u, sr_version = xr_version x, sr_createdAt = xr_createdAt x, sr_updatedAt = xr_updatedAt x\<rparr>"

definition scim_rowToGroup :: "scim_group_row \<Rightarrow> string list \<Rightarrow> scim_record" where
  "scim_rowToGroup g members =
     \<lparr>sr_attrs = (case gw_externalId g of None \<Rightarrow> [] | Some e \<Rightarrow> [(''externalId'', JStr e)]) @
        [(''displayName'', JStr (gw_displayName g)),
         (''members'', JArr (map (\<lambda>m. JObj [(''value'', JStr m), (''type'', JStr ''User'')]) members))],
      sr_id = gw_id g, sr_version = gw_version g, sr_createdAt = gw_createdAt g, sr_updatedAt = gw_updatedAt g\<rparr>"

text \<open>\<open>userSelect\<close> for one account: the join of its two rows.\<close>

definition join_user :: "string \<Rightarrow> string \<Rightarrow> scim_db \<Rightarrow> (user \<times> scim_resource) option" where
  "join_user realm uid d =
     (case (row0 (filter (user_row realm uid) (xd_users d)), row0 (filter (resource_row realm uid) (xd_resources d))) of
        (Some u, Some x) \<Rightarrow> Some (u, x) | _ \<Rightarrow> None)"

definition select_user :: "string \<Rightarrow> string \<Rightarrow> scim_db \<Rightarrow> scim_record option" where
  "select_user realm uid d = map_option (\<lambda>(u, x). scim_rowToUser u x) (join_user realm uid d)"

section \<open>Lists\<close>

text \<open>\<open>filterSql\<close>: the condition a filter adds; an attribute without a column adds none.\<close>

definition bool_text :: "bool \<Rightarrow> string" where "bool_text b = (if b then ''true'' else ''false'')"

definition filterUser :: "scim_filter option \<Rightarrow> user \<times> scim_resource \<Rightarrow> bool" where
  "filterUser f ux =
     (case f of
        None \<Rightarrow> True
      | Some q \<Rightarrow>
          if sf_attribute q = ''id'' then u_id (fst ux) = sf_value q
          else if sf_attribute q = ''userName'' then js_lower (u_username (fst ux)) = js_lower (sf_value q)
          else if sf_attribute q = ''externalId'' then xr_externalId (snd ux) = Some (sf_value q)
          else if sf_attribute q = ''active'' then bool_text (u_enabled (fst ux)) = sf_value q
          else True)"

definition filterGroup :: "scim_filter option \<Rightarrow> scim_db \<Rightarrow> scim_group_row \<Rightarrow> bool" where
  "filterGroup f d g =
     (case f of
        None \<Rightarrow> True
      | Some q \<Rightarrow>
          if sf_attribute q = ''members.value'' then (gw_realm g, gw_id g, sf_value q) \<in> set (xd_members d)
          else if sf_attribute q = ''id'' then gw_id g = sf_value q
          else if sf_attribute q = ''displayName'' then js_lower (gw_displayName g) = js_lower (sf_value q)
          else if sf_attribute q = ''externalId'' then gw_externalId g = Some (sf_value q)
          else True)"

text \<open>\<open>ORDER BY id LIMIT count OFFSET startIndex - 1\<close> with the total beside it.\<close>

definition sql_page :: "('r \<Rightarrow> string) \<Rightarrow> nat \<Rightarrow> nat \<Rightarrow> 'r list \<Rightarrow> nat \<times> 'r list" where
  "sql_page key startIndex count rows =
     (length rows, take count (drop (startIndex - 1) (sort_by (\<lambda>a b. str_le (key a) (key b)) rows)))"

definition user_resource_rows :: "string \<Rightarrow> scim_db \<Rightarrow> (user \<times> scim_resource) list" where
  "user_resource_rows realm d =
     concat (map (\<lambda>u. map (Pair u) (filter (resource_row realm (u_id u)) (xd_resources d))) (filter (\<lambda>u. u_realm u = realm) (xd_users d)))"

definition xs_listUsers :: "string \<Rightarrow> scim_filter option \<Rightarrow> nat \<Rightarrow> nat \<Rightarrow> scim_db \<Rightarrow> nat \<times> scim_record list" where
  "xs_listUsers realm f startIndex count d =
     (let (total, rows) = sql_page (\<lambda>ux. u_id (fst ux)) startIndex count (filter (filterUser f) (user_resource_rows realm d))
      in (total, map (\<lambda>(u, x). scim_rowToUser u x) rows))"

definition xs_getUser :: "string \<Rightarrow> string \<Rightarrow> scim_db \<Rightarrow> scim_record option" where
  "xs_getUser realm uid d = (if uuid_re uid then select_user realm (js_lower uid) d else None)"

definition members_of :: "string \<Rightarrow> string \<Rightarrow> scim_db \<Rightarrow> string list" where
  "members_of realm gid d = map (\<lambda>m. snd (snd m)) (filter (\<lambda>m. fst m = realm \<and> fst (snd m) = gid) (xd_members d))"

text \<open>\<open>#group\<close>.\<close>

definition select_group :: "string \<Rightarrow> string \<Rightarrow> scim_db \<Rightarrow> scim_record option" where
  "select_group realm gid d =
     map_option (\<lambda>g. scim_rowToGroup g (sort_by str_le (members_of realm gid d))) (row0 (filter (group_row realm gid) (xd_groups d)))"

definition xs_getGroup :: "string \<Rightarrow> string \<Rightarrow> scim_db \<Rightarrow> scim_record option" where
  "xs_getGroup realm gid d = (if uuid_re gid then select_group realm (js_lower gid) d else None)"

definition xs_listGroups :: "string \<Rightarrow> scim_filter option \<Rightarrow> nat \<Rightarrow> nat \<Rightarrow> scim_db \<Rightarrow> nat \<times> scim_record option list" where
  "xs_listGroups realm f startIndex count d =
     (let (total, rows) = sql_page gw_id startIndex count (filter (\<lambda>g. gw_realm g = realm \<and> filterGroup f d g) (xd_groups d))
      in (total, map (\<lambda>g. xs_getGroup realm (gw_id g) d) rows))"

definition groups_by_name :: "string \<Rightarrow> string \<Rightarrow> scim_db \<Rightarrow> scim_group_row list" where
  "groups_by_name realm uid d =
     sort_by (\<lambda>a b. str_le (js_lower (gw_displayName a)) (js_lower (gw_displayName b)))
       (filter (\<lambda>g. gw_realm g = realm \<and> (realm, gw_id g, uid) \<in> set (xd_members d)) (xd_groups d))"

definition xs_listUserGroups :: "string \<Rightarrow> string \<Rightarrow> scim_db \<Rightarrow> scim_membership list" where
  "xs_listUserGroups realm uid d =
     (if uuid_re uid then map (\<lambda>g. \<lparr>sm_value = gw_id g, sm_display = JStr (gw_displayName g)\<rparr>) (groups_by_name realm (js_lower uid) d) else [])"

section \<open>Statements\<close>

text \<open>\<open>INSERT INTO users\<close> with the trigger \<open>users_create_scim_resource\<close>.\<close>

definition insert_user :: "user \<Rightarrow> scim_attrs \<Rightarrow> scim_db \<Rightarrow> tx_error + scim_db" where
  "insert_user u extra d =
     (if pg_login_conflict (xd_users d) u then Inl (Sql ''23505'')
      else Inr (let d1 = with_users (xd_users d @ [u]) d in
        if filter (resource_row (u_realm u) (u_id u)) (xd_resources d1) \<noteq> [] then d1
        else d1\<lparr>xd_resources := xd_resources d1 @ [\<lparr>xr_realm = u_realm u, xr_user = u_id u, xr_externalId = None, xr_version = 1,
               xr_createdAt = u_createdAt u, xr_updatedAt = u_updatedAt u, xr_scim = extra\<rparr>]\<rparr>))"

text \<open>The trigger \<open>users_version_scim_resource\<close>, for the updated accounts that satisfy \<open>P\<close>.\<close>

definition bump_resource :: "int \<Rightarrow> (string \<Rightarrow> string \<Rightarrow> bool) \<Rightarrow> scim_db \<Rightarrow> scim_db" where
  "bump_resource now P d =
     d\<lparr>xd_resources := map (\<lambda>x. if P (xr_realm x) (xr_user x)
        then x\<lparr>xr_version := xr_version x + 1, xr_updatedAt := now\<rparr> else x) (xd_resources d)\<rparr>"

text \<open>\<open>UPDATE scim_user_resources SET external_id\<close>.\<close>

definition set_external :: "string \<Rightarrow> string \<Rightarrow> string option \<Rightarrow> scim_db \<Rightarrow> tx_error + scim_db" where
  "set_external realm uid e d =
     (if e \<noteq> None \<and> (\<exists>x\<in>set (xd_resources d). xr_realm x = realm \<and> xr_user x \<noteq> uid \<and> xr_externalId x = e) then Inl (Sql ''23505'')
      else Inr (d\<lparr>xd_resources := map (\<lambda>x. if resource_row realm uid x then x\<lparr>xr_externalId := e\<rparr> else x) (xd_resources d)\<rparr>))"

definition revokeAccounts :: "string \<Rightarrow> string list \<Rightarrow> scim_db \<Rightarrow> scim_db" where
  "revokeAccounts realm accountIds d =
     d\<lparr>xd_data := (xd_data d)\<lparr>pd_records :=
        filter (\<lambda>x. \<not> (\<exists>a\<in>set accountIds. doomed_row realm a (xd_records d) x)) (xd_records d)\<rparr>\<rparr>"

definition core_row :: "core_user \<Rightarrow> user \<Rightarrow> user" where
  "core_row c u = u\<lparr>u_username := cu_username c, u_email := cu_email c, u_emailVerified := cu_emailVerified c, u_name := cu_displayName c,
     u_givenName := cu_givenName c, u_familyName := cu_familyName c, u_enabled := cu_enabled c, u_roles := cu_roles c\<rparr>"

text \<open>A new row with the defaults of the table.\<close>

definition default_row :: "int \<Rightarrow> string \<Rightarrow> string \<Rightarrow> string \<Rightarrow> user" where
  "default_row now realm uid passwordHash =
     \<lparr>u_id = uid, u_realm = realm, u_username = [], u_email = [], u_emailVerified = False, u_name = [], u_givenName = [], u_familyName = [],
      u_enabled = True, u_securityVersion = 0, u_passwordHash = Some passwordHash, u_roles = [], u_groups = [], u_clientRoles = [],
      u_totpSecret = None, u_totpConfirmed = False, u_pendingTotpSecret = None, u_pendingTotpCreatedAt = None, u_recoveryCodeHashes = [],
      u_lastTotpStep = None, u_failedAttempts = 0, u_lockedUntil = None, u_createdAt = now, u_updatedAt = now, u_lastLoginAt = None\<rparr>"

section \<open>Users\<close>

definition xs_createUser ::
    "(string \<Rightarrow> string) \<Rightarrow> string \<Rightarrow> int \<Rightarrow> string \<Rightarrow> string \<Rightarrow> scim_attrs \<Rightarrow> scim_db \<Rightarrow> scim_error + (scim_record option \<times> scim_db)" where
  "xs_createUser hashPassword disabledPasswordHash now uuid realm a d =
     (let core = coreUser a uuid in
      bindR (password_of hashPassword a) (\<lambda>pw.
      translated
        (bindR (insert_user (core_row core (default_row now realm uuid (case pw of None \<Rightarrow> disabledPasswordHash | Some h \<Rightarrow> h))) (cu_extra core) d) (\<lambda>d1.
         bindR (set_external realm uuid (external_of a) d1) (\<lambda>d2.
           Inr (select_user realm uuid d2, d2))))))"

text \<open>The row \<open>UPDATE users\<close> writes, and the statement with its uniqueness and its trigger.\<close>

definition replaced_row :: "int \<Rightarrow> core_user \<Rightarrow> string option \<Rightarrow> user \<Rightarrow> user" where
  "replaced_row now c pw u =
     (core_row c u)\<lparr>u_passwordHash := (case pw of None \<Rightarrow> u_passwordHash u | Some h \<Rightarrow> Some h),
        u_securityVersion := u_securityVersion u + 1, u_failedAttempts := 0, u_lockedUntil := None, u_updatedAt := now\<rparr>"

definition write_user :: "int \<Rightarrow> string \<Rightarrow> string \<Rightarrow> core_user \<Rightarrow> string option \<Rightarrow> user \<Rightarrow> scim_db \<Rightarrow> tx_error + scim_db" where
  "write_user now realm uid c pw u d =
     (if pg_login_conflict (filter (\<lambda>v. \<not> user_row realm uid v) (xd_users d)) (replaced_row now c pw u) then Inl (Sql ''23505'')
      else Inr (let d1 = with_users (map (\<lambda>v. if user_row realm uid v then replaced_row now c pw v else v) (xd_users d)) d;
                    d2 = bump_resource now (\<lambda>r i. r = realm \<and> i = uid) d1
                in d2\<lparr>xd_resources := map (\<lambda>x. if resource_row realm uid x then x\<lparr>xr_scim := cu_extra c\<rparr> else x) (xd_resources d2)\<rparr>))"

text \<open>\<open>revokeAccounts\<close> gets the identifier as the request spelled it.\<close>

definition xs_replaceUser ::
    "(string \<Rightarrow> string) \<Rightarrow> int \<Rightarrow> string \<Rightarrow> string \<Rightarrow> scim_attrs \<Rightarrow> nat \<Rightarrow> scim_db \<Rightarrow> scim_error + (scim_record option \<times> scim_db)" where
  "xs_replaceUser hashPassword now realm uid a expectedVersion d =
     bindR (guardR (uuid_re uid) NOT_FOUND) (\<lambda>_.
     bindR (password_of hashPassword a) (\<lambda>pw.
     translated
       (case join_user realm (js_lower uid) d of
          None \<Rightarrow> Inl (Repo NOT_FOUND)
        | Some (u, x) \<Rightarrow>
            bindR (guardR (xr_version x = expectedVersion) (Repo VERSION_MISMATCH)) (\<lambda>_.
            bindR (write_user now realm (js_lower uid) (coreUser a uid) pw u d) (\<lambda>d1.
            bindR (set_external realm (js_lower uid) (external_of a) d1) (\<lambda>d2.
              let d3 = revokeAccounts realm [uid] d2 in Inr (select_user realm (js_lower uid) d3, d3)))))))"

text \<open>\<open>DELETE FROM users\<close> with its cascades.\<close>

definition remove_user :: "string \<Rightarrow> string \<Rightarrow> scim_db \<Rightarrow> scim_db" where
  "remove_user realm uid d =
     d\<lparr>xd_data := (xd_data d)\<lparr>pd_db := snd (pg_deleteUser 0 realm uid (pd_db (xd_data d)))\<rparr>,
       xd_resources := filter (\<lambda>x. \<not> resource_row realm uid x) (xd_resources d),
       xd_members := filter (\<lambda>m. \<not> (fst m = realm \<and> snd (snd m) = uid)) (xd_members d)\<rparr>"

definition touch_groups :: "int \<Rightarrow> (scim_group_row \<Rightarrow> bool) \<Rightarrow> scim_db \<Rightarrow> scim_db" where
  "touch_groups now P d =
     d\<lparr>xd_groups := map (\<lambda>g. if P g then g\<lparr>gw_version := gw_version g + 1, gw_updatedAt := now\<rparr> else g) (xd_groups d)\<rparr>"

definition xs_deleteUser :: "int \<Rightarrow> string \<Rightarrow> string \<Rightarrow> nat \<Rightarrow> scim_db \<Rightarrow> scim_error + (scim_record option \<times> scim_db)" where
  "xs_deleteUser now realm uid expectedVersion d =
     bindR (guardR (uuid_re uid) NOT_FOUND) (\<lambda>_.
       (case join_user realm (js_lower uid) d of
          None \<Rightarrow> Inl NOT_FOUND
        | Some (u, x) \<Rightarrow>
            bindR (guardR (xr_version x = expectedVersion) VERSION_MISMATCH) (\<lambda>_.
              let d1 = touch_groups now (\<lambda>g. gw_realm g = realm \<and> (realm, gw_id g, js_lower uid) \<in> set (xd_members d)) d;
                  d2 = revokeAccounts realm [uid] d1
              in Inr (Some (scim_rowToUser u x), remove_user realm (js_lower uid) d2))))"

section \<open>Groups\<close>

definition member_ids :: "scim_attrs \<Rightarrow> json list" where
  "member_ids a = map (\<lambda>m. jprop m ''value'') (array_of (jprop (JObj a) ''members''))"

definition is_uuid :: "json \<Rightarrow> bool" where "is_uuid v = (case v of JStr s \<Rightarrow> uuid_re s | _ \<Rightarrow> False)"

text \<open>\<open>#replaceMembers\<close>: the accounts whose memberships it touched.\<close>

definition replaceMembers :: "string \<Rightarrow> string \<Rightarrow> json list \<Rightarrow> scim_db \<Rightarrow> tx_error + (string list \<times> scim_db)" where
  "replaceMembers realm gid values d =
     bindR (guardR (list_all is_uuid values \<and> distinct values) (Repo INVALID_VALUE)) (\<lambda>_.
       let ids = map js_String values in
       bindR (guardR (length (filter (\<lambda>u. u_realm u = realm \<and> u_id u \<in> set (map js_lower ids)) (xd_users d)) = length ids) (Repo INVALID_VALUE)) (\<lambda>_.
         let previous = members_of realm gid d;
             kept = filter (\<lambda>m. \<not> (fst m = realm \<and> fst (snd m) = gid)) (xd_members d)
         in Inr (js_uniq (previous @ ids), d\<lparr>xd_members := kept @ map (\<lambda>i. (realm, gid, js_lower i)) ids\<rparr>)))"

text \<open>What \<open>users.groups\<close> has to be: the names of the groups in order, as paths.\<close>

definition group_path :: "string \<Rightarrow> string" where
  "group_path name = CHR ''/'' # map (\<lambda>c. if c = CHR ''/'' then CHR ''-'' else c) name"

definition desired_groups :: "string \<Rightarrow> string \<Rightarrow> scim_db \<Rightarrow> string list" where
  "desired_groups realm uid d = map (\<lambda>g. group_path (gw_displayName g)) (groups_by_name realm uid d)"

text \<open>\<open>#syncUserGroups\<close>: only accounts whose groups changed are written, and signed out.\<close>

definition out_of_step :: "string \<Rightarrow> string list \<Rightarrow> scim_db \<Rightarrow> user \<Rightarrow> bool" where
  "out_of_step realm userIds d u \<longleftrightarrow>
     u_realm u = realm \<and> u_id u \<in> set (map js_lower userIds) \<and> u_groups u \<noteq> desired_groups realm (u_id u) d"

definition syncUserGroups :: "int \<Rightarrow> string \<Rightarrow> string list \<Rightarrow> scim_db \<Rightarrow> scim_db" where
  "syncUserGroups now realm userIds d =
     (if userIds = [] then d
      else let changed = map u_id (filter (out_of_step realm userIds d) (xd_users d));
               d1 = with_users (map (\<lambda>u. if out_of_step realm userIds d u
                      then u\<lparr>u_groups := desired_groups realm (u_id u) d, u_securityVersion := u_securityVersion u + 1, u_updatedAt := now\<rparr>
                      else u) (xd_users d)) d;
               d2 = bump_resource now (\<lambda>r i. r = realm \<and> i \<in> set changed) d1
           in revokeAccounts realm changed d2)"

text \<open>The unique indexes of \<open>scim_groups\<close>, against the other rows.\<close>

definition group_conflict :: "scim_group_row list \<Rightarrow> scim_group_row \<Rightarrow> bool" where
  "group_conflict t new \<longleftrightarrow> (\<exists>g\<in>set t. gw_realm g = gw_realm new \<and>
     (gw_id g = gw_id new \<or> js_lower (gw_displayName g) = js_lower (gw_displayName new) \<or>
      gw_externalId new \<noteq> None \<and> gw_externalId g = gw_externalId new))"

definition group_name :: "scim_attrs \<Rightarrow> string" where "group_name a = js_String (jprop (JObj a) ''displayName'')"

definition xs_createGroup :: "int \<Rightarrow> string \<Rightarrow> string \<Rightarrow> scim_attrs \<Rightarrow> scim_db \<Rightarrow> scim_error + (scim_record option \<times> scim_db)" where
  "xs_createGroup now uuid realm a d =
     (let row = \<lparr>gw_realm = realm, gw_id = uuid, gw_externalId = external_of a, gw_displayName = group_name a, gw_version = 1,
                 gw_createdAt = now, gw_updatedAt = now\<rparr> in
      translated
        (bindR (guardR (\<not> group_conflict (xd_groups d) row) (Sql ''23505'')) (\<lambda>_.
         bindR (replaceMembers realm uuid (member_ids a) (d\<lparr>xd_groups := xd_groups d @ [row]\<rparr>)) (\<lambda>(affected, d1).
           let d2 = syncUserGroups now realm affected d1 in Inr (select_group realm uuid d2, d2)))))"

definition regrouped :: "int \<Rightarrow> scim_attrs \<Rightarrow> scim_group_row \<Rightarrow> scim_group_row" where
  "regrouped now a g = g\<lparr>gw_externalId := external_of a, gw_displayName := group_name a, gw_version := gw_version g + 1, gw_updatedAt := now\<rparr>"

definition xs_replaceGroup ::
    "int \<Rightarrow> string \<Rightarrow> string \<Rightarrow> scim_attrs \<Rightarrow> nat \<Rightarrow> scim_db \<Rightarrow> scim_error + (scim_record option \<times> scim_db)" where
  "xs_replaceGroup now realm gid a expectedVersion d =
     bindR (guardR (uuid_re gid) NOT_FOUND) (\<lambda>_.
     let i = js_lower gid; hit = (\<lambda>g. group_row realm i g \<and> gw_version g = expectedVersion) in
     translated
       (case row0 (filter hit (xd_groups d)) of
          None \<Rightarrow> Inl (Repo (if filter (group_row realm i) (xd_groups d) = [] then NOT_FOUND else VERSION_MISMATCH))
        | Some g \<Rightarrow>
            bindR (guardR (\<not> group_conflict (filter (\<lambda>h. \<not> hit h) (xd_groups d)) (regrouped now a g)) (Sql ''23505'')) (\<lambda>_.
            bindR (replaceMembers realm i (member_ids a) (d\<lparr>xd_groups := map (\<lambda>h. if hit h then regrouped now a h else h) (xd_groups d)\<rparr>))
              (\<lambda>(affected, d1). let d2 = syncUserGroups now realm affected d1 in Inr (select_group realm i d2, d2)))))"

definition xs_deleteGroup :: "int \<Rightarrow> string \<Rightarrow> string \<Rightarrow> nat \<Rightarrow> scim_db \<Rightarrow> scim_error + (scim_record option \<times> scim_db)" where
  "xs_deleteGroup now realm gid expectedVersion d =
     bindR (guardR (uuid_re gid) NOT_FOUND) (\<lambda>_.
     let i = js_lower gid in
     (case row0 (filter (group_row realm i) (xd_groups d)) of
        None \<Rightarrow> Inl NOT_FOUND
      | Some g \<Rightarrow>
          bindR (guardR (gw_version g = expectedVersion) VERSION_MISMATCH) (\<lambda>_.
            let members = sort_by str_le (members_of realm i d);
                d1 = d\<lparr>xd_groups := filter (\<lambda>h. \<not> group_row realm i h) (xd_groups d),
                       xd_members := filter (\<lambda>m. \<not> (fst m = realm \<and> fst (snd m) = i)) (xd_members d)\<rparr>
            in Inr (Some (scim_rowToGroup g members), syncUserGroups now realm members d1))))"

section \<open>Requests\<close>

text \<open>One write of the repository, with the clock, the new identifier and the hash function of the call.\<close>

datatype scim_write =
    CreateUser int string string scim_attrs
  | ReplaceUser int string string scim_attrs nat
  | DeleteUser int string string nat
  | CreateGroup int string string scim_attrs
  | ReplaceGroup int string string scim_attrs nat
  | DeleteGroup int string string nat

fun pg_serve :: "(string \<Rightarrow> string) \<Rightarrow> string \<Rightarrow> scim_write \<Rightarrow> scim_db \<Rightarrow> scim_error + (scim_record option \<times> scim_db)" where
  "pg_serve hash disabled (CreateUser now uuid realm a) d = xs_createUser hash disabled now uuid realm a d"
| "pg_serve hash disabled (ReplaceUser now realm uid a v) d = xs_replaceUser hash now realm uid a v d"
| "pg_serve hash disabled (DeleteUser now realm uid v) d = xs_deleteUser now realm uid v d"
| "pg_serve hash disabled (CreateGroup now uuid realm a) d = xs_createGroup now uuid realm a d"
| "pg_serve hash disabled (ReplaceGroup now realm gid a v) d = xs_replaceGroup now realm gid a v d"
| "pg_serve hash disabled (DeleteGroup now realm gid v) d = xs_deleteGroup now realm gid v d"

end
