(* ===== verification/ScimPgProps.thy ===== *)
theory ScimPgProps
  imports ScimPg ScimFacts
begin

text \<open>
  The guarantees of the PostgreSQL SCIM repository: the groups in an account are those of its memberships, a write that changes
  an account signs it out, and an identifier in another spelling signs nobody out.
\<close>

section \<open>Tables\<close>

definition user_key :: "user \<Rightarrow> string \<times> string" where "user_key u = (u_realm u, u_id u)"
definition resource_key :: "scim_resource \<Rightarrow> string \<times> string" where "resource_key x = (xr_realm x, xr_user x)"
definition group_key :: "scim_group_row \<Rightarrow> string \<times> string" where "group_key g = (gw_realm g, gw_id g)"

lemmas row_keys = user_row_def user_key_def resource_row_def resource_key_def group_row_def group_key_def

lemma with_users_simps [simp]:
  "xd_users (with_users us d) = us" "xd_records (with_users us d) = xd_records d" "xd_resources (with_users us d) = xd_resources d"
  "xd_groups (with_users us d) = xd_groups d" "xd_members (with_users us d) = xd_members d"
  by (simp_all add: with_users_def)

lemma bump_resource_simps [simp]:
  "xd_data (bump_resource now P d) = xd_data d" "xd_groups (bump_resource now P d) = xd_groups d"
  "xd_members (bump_resource now P d) = xd_members d"
  "map resource_key (xd_resources (bump_resource now P d)) = map resource_key (xd_resources d)"
  by (simp_all add: bump_resource_def resource_key_def)

lemma revokeAccounts_simps [simp]:
  "xd_users (revokeAccounts realm as d) = xd_users d" "xd_resources (revokeAccounts realm as d) = xd_resources d"
  "xd_groups (revokeAccounts realm as d) = xd_groups d" "xd_members (revokeAccounts realm as d) = xd_members d"
  "xd_records (revokeAccounts realm as d) = filter (\<lambda>x. \<not> (\<exists>a\<in>set as. doomed_row realm a (xd_records d) x)) (xd_records d)"
  by (simp_all add: revokeAccounts_def)

lemma touch_groups_simps [simp]:
  "xd_data (touch_groups now P d) = xd_data d" "xd_resources (touch_groups now P d) = xd_resources d"
  "xd_members (touch_groups now P d) = xd_members d"
  by (simp_all add: touch_groups_def)

lemma remove_user_users [simp]: "xd_users (remove_user realm uid d) = filter (\<lambda>u. \<not> user_row realm uid u) (xd_users d)"
  by (auto simp: remove_user_def pg_deleteUser_def sql_delete_def filter_empty_conv intro!: filter_True [symmetric])

lemma remove_user_simps [simp]:
  "xd_records (remove_user realm uid d) = xd_records d" "xd_groups (remove_user realm uid d) = xd_groups d"
  "xd_members (remove_user realm uid d) = filter (\<lambda>m. \<not> (fst m = realm \<and> snd (snd m) = uid)) (xd_members d)"
  "xd_resources (remove_user realm uid d) = filter (\<lambda>x. \<not> resource_row realm uid x) (xd_resources d)"
  by (simp_all add: remove_user_def)

lemma translated_Inr [simp]: "translated r = Inr x \<longleftrightarrow> r = Inr x"
  by (cases r) (simp_all add: translated_def)

lemma insert_user_Inr:
  assumes "insert_user u extra d = Inr d1"
  shows "\<not> pg_login_conflict (xd_users d) u" "xd_users d1 = xd_users d @ [u]" "xd_records d1 = xd_records d" "xd_groups d1 = xd_groups d"
    "xd_members d1 = xd_members d"
    "map resource_key (xd_resources d1) =
       (if user_key u \<in> resource_key ` set (xd_resources d) then map resource_key (xd_resources d) else map resource_key (xd_resources d) @ [user_key u])"
  using assms by (auto simp: insert_user_def Let_def filter_empty_conv row_keys image_iff split: if_splits)

lemma set_external_Inr:
  assumes "set_external realm uid e d = Inr d1"
  shows "xd_data d1 = xd_data d" "xd_groups d1 = xd_groups d" "xd_members d1 = xd_members d"
    "map resource_key (xd_resources d1) = map resource_key (xd_resources d)"
  using assms by (auto simp: set_external_def resource_key_def split: if_splits)

lemma write_user_Inr:
  assumes "write_user now realm uid c pw u d = Inr d1"
  shows "xd_users d1 = map (\<lambda>v. if user_row realm uid v then replaced_row now c pw v else v) (xd_users d)"
    "xd_records d1 = xd_records d" "xd_groups d1 = xd_groups d" "xd_members d1 = xd_members d"
    "map resource_key (xd_resources d1) = map resource_key (xd_resources d)"
  using assms by (auto simp: write_user_def Let_def bump_resource_def resource_key_def split: if_splits)

lemma replaceMembers_Inr:
  assumes "replaceMembers realm gid values d = Inr (affected, d1)"
  shows "affected = js_uniq (members_of realm gid d @ map js_String values)"
    "xd_members d1 = filter (\<lambda>m. \<not> (fst m = realm \<and> fst (snd m) = gid)) (xd_members d) @ map (\<lambda>v. (realm, gid, js_lower (js_String v))) values"
    "xd_data d1 = xd_data d" "xd_resources d1 = xd_resources d" "xd_groups d1 = xd_groups d"
    "length (filter (\<lambda>u. u_realm u = realm \<and> u_id u \<in> js_lower ` js_String ` set values) (xd_users d)) = length values"
  using assms by (auto simp: replaceMembers_def Let_def comp_def)

lemma replaced_row_simps [simp]:
  "u_id (replaced_row now c pw u) = u_id u" "u_realm (replaced_row now c pw u) = u_realm u"
  "u_groups (replaced_row now c pw u) = u_groups u" "u_securityVersion (replaced_row now c pw u) = u_securityVersion u + 1"
  by (simp_all add: replaced_row_def core_row_def)

lemma sync_simps [simp]:
  "xd_groups (syncUserGroups now realm ids d) = xd_groups d" "xd_members (syncUserGroups now realm ids d) = xd_members d"
  "map resource_key (xd_resources (syncUserGroups now realm ids d)) = map resource_key (xd_resources d)"
  by (simp_all add: syncUserGroups_def Let_def)

definition synced :: "int \<Rightarrow> string \<Rightarrow> string list \<Rightarrow> scim_db \<Rightarrow> user \<Rightarrow> user" where
  "synced now realm ids d u = (if out_of_step realm ids d u
     then u\<lparr>u_groups := desired_groups realm (u_id u) d, u_securityVersion := u_securityVersion u + 1, u_updatedAt := now\<rparr> else u)"

lemma synced_simps [simp]: "u_id (synced now realm ids d u) = u_id u" "u_realm (synced now realm ids d u) = u_realm u"
  by (simp_all add: synced_def)

lemma sync_users: "xd_users (syncUserGroups now realm ids d) = map (synced now realm ids d) (xd_users d)"
proof (cases "ids = []")
  case True
  then have "synced now realm ids d = (\<lambda>u. u)" by (simp add: synced_def out_of_step_def fun_eq_iff)
  then show ?thesis using True by (simp add: syncUserGroups_def)
qed (simp add: syncUserGroups_def Let_def synced_def)

section \<open>Groups in step\<close>

text \<open>The groups in an account depend only on the names of its groups.\<close>

definition names_of :: "string \<Rightarrow> string \<Rightarrow> scim_db \<Rightarrow> string list" where
  "names_of realm uid d = map gw_displayName (filter (\<lambda>g. gw_realm g = realm \<and> (realm, gw_id g, uid) \<in> set (xd_members d)) (xd_groups d))"

lemma map_sort_by: "map f (sort_by (\<lambda>a b. le (f a) (f b)) xs) = sort_by le (map f xs)"
proof -
  have "map f (insort_by (\<lambda>a b. le (f a) (f b)) x ys) = insort_by le (f x) (map f ys)" for x ys by (induction ys) auto
  then show ?thesis by (induction xs) (simp_all add: sort_by_Cons, simp add: sort_by_def)
qed

lemma desired_names:
  "desired_groups realm uid d = map group_path (sort_by (\<lambda>a b. str_le (js_lower a) (js_lower b)) (names_of realm uid d))"
proof -
  have "desired_groups realm uid d = map group_path (map gw_displayName (groups_by_name realm uid d))"
    by (simp add: desired_groups_def)
  then show ?thesis by (simp add: groups_by_name_def names_of_def map_sort_by [of gw_displayName "\<lambda>a b. str_le (js_lower a) (js_lower b)"])
qed

text \<open>A change of one group leaves the names of everybody who is in it neither before nor after.\<close>

lemma names_unaffected:
  assumes groups: "filter (\<lambda>g. \<not> group_row realm gid g) (xd_groups d') = filter (\<lambda>g. \<not> group_row realm gid g) (xd_groups d)"
    and members: "\<And>r g. (r, g) \<noteq> (realm, gid) \<Longrightarrow> (r, g, uid) \<in> set (xd_members d') \<longleftrightarrow> (r, g, uid) \<in> set (xd_members d)"
    and out: "r = realm \<Longrightarrow> (realm, gid, uid) \<notin> set (xd_members d)" "r = realm \<Longrightarrow> (realm, gid, uid) \<notin> set (xd_members d')"
  shows "names_of r uid d' = names_of r uid d"
proof -
  have in_d: "filter (\<lambda>g. gw_realm g = r \<and> (r, gw_id g, uid) \<in> set (xd_members d'')) (xd_groups d'') =
      filter (\<lambda>g. gw_realm g = r \<and> (r, gw_id g, uid) \<in> set (xd_members d'')) (filter (\<lambda>g. \<not> group_row realm gid g) (xd_groups d''))"
    if "r = realm \<Longrightarrow> (realm, gid, uid) \<notin> set (xd_members d'')" for d''
    using that by (auto simp: group_row_def intro!: filter_cong)
  have "filter (\<lambda>g. gw_realm g = r \<and> (r, gw_id g, uid) \<in> set (xd_members d')) (filter (\<lambda>g. \<not> group_row realm gid g) (xd_groups d)) =
      filter (\<lambda>g. gw_realm g = r \<and> (r, gw_id g, uid) \<in> set (xd_members d)) (filter (\<lambda>g. \<not> group_row realm gid g) (xd_groups d))"
    using members by (intro filter_cong refl) (auto simp: group_row_def)
  then show ?thesis using in_d [of d] in_d [of d'] out groups by (simp add: names_of_def del: filter_filter)
qed

definition in_step :: "scim_db \<Rightarrow> user \<Rightarrow> bool" where "in_step d u \<longleftrightarrow> u_groups u = desired_groups (u_realm u) (u_id u) d"

text \<open>Primary keys, foreign keys and the groups of the accounts.\<close>

definition scim_pg_ok :: "scim_db \<Rightarrow> bool" where
  "scim_pg_ok d \<longleftrightarrow>
     distinct (map user_key (xd_users d)) \<and> (\<forall>u\<in>set (xd_users d). js_lower (u_id u) = u_id u) \<and>
     distinct (map resource_key (xd_resources d)) \<and> resource_key ` set (xd_resources d) = user_key ` set (xd_users d) \<and>
     distinct (map group_key (xd_groups d)) \<and>
     (\<forall>(r, g, u)\<in>set (xd_members d). (r, g) \<in> group_key ` set (xd_groups d) \<and> (r, u) \<in> user_key ` set (xd_users d)) \<and>
     (\<forall>u\<in>set (xd_users d). in_step d u)"

lemma scim_pg_okI:
  assumes "distinct (map user_key (xd_users d))" "\<And>u. u \<in> set (xd_users d) \<Longrightarrow> js_lower (u_id u) = u_id u"
    "distinct (map resource_key (xd_resources d))" "resource_key ` set (xd_resources d) = user_key ` set (xd_users d)"
    "distinct (map group_key (xd_groups d))"
    "\<And>r g u. (r, g, u) \<in> set (xd_members d) \<Longrightarrow> (r, g) \<in> group_key ` set (xd_groups d)"
    "\<And>r g u. (r, g, u) \<in> set (xd_members d) \<Longrightarrow> (r, u) \<in> user_key ` set (xd_users d)"
    "\<And>u. u \<in> set (xd_users d) \<Longrightarrow> in_step d u"
  shows "scim_pg_ok d"
  unfolding scim_pg_ok_def by (intro conjI ballI) (use assms in auto)

lemma scim_pg_okD:
  assumes "scim_pg_ok d"
  shows "distinct (map user_key (xd_users d))" "u \<in> set (xd_users d) \<Longrightarrow> js_lower (u_id u) = u_id u"
    "distinct (map resource_key (xd_resources d))" "resource_key ` set (xd_resources d) = user_key ` set (xd_users d)"
    "distinct (map group_key (xd_groups d))"
    "(r, g, i) \<in> set (xd_members d) \<Longrightarrow> (r, g) \<in> group_key ` set (xd_groups d)"
    "(r, g, i) \<in> set (xd_members d) \<Longrightarrow> (r, i) \<in> user_key ` set (xd_users d)"
    "u \<in> set (xd_users d) \<Longrightarrow> in_step d u"
  using assms unfolding scim_pg_ok_def by blast+

lemma in_step_cong: "names_of (u_realm u) (u_id u) d' = names_of (u_realm u) (u_id u) d \<Longrightarrow> in_step d' u \<longleftrightarrow> in_step d u"
  by (simp add: in_step_def desired_names)

lemma names_same_tables: "xd_groups d' = xd_groups d \<Longrightarrow> xd_members d' = xd_members d \<Longrightarrow> names_of r i d' = names_of r i d"
  by (simp add: names_of_def)

lemma keys_set: "map k xs = map k' ys \<Longrightarrow> k ` set xs = k' ` set ys"
  by (metis list.set_map)

text \<open>A change of one group followed by the sync of everybody it touched.\<close>

lemma synced_ok:
  assumes ok: "scim_pg_ok d" and users: "xd_users d1 = xd_users d" and resources: "xd_resources d1 = xd_resources d"
    and keys: "distinct (map group_key (xd_groups d1))"
    and groups: "filter (\<lambda>g. \<not> group_row realm gid g) (xd_groups d1) = filter (\<lambda>g. \<not> group_row realm gid g) (xd_groups d)"
    and members: "\<And>r g u. (r, g) \<noteq> (realm, gid) \<Longrightarrow> (r, g, u) \<in> set (xd_members d1) \<longleftrightarrow> (r, g, u) \<in> set (xd_members d)"
    and here: "\<And>u. (realm, gid, u) \<in> set (xd_members d1) \<Longrightarrow> (realm, gid) \<in> group_key ` set (xd_groups d1) \<and> (realm, u) \<in> user_key ` set (xd_users d)"
    and affected: "\<And>u. u \<in> set (xd_users d) \<Longrightarrow> u_realm u = realm \<Longrightarrow>
       (realm, gid, u_id u) \<in> set (xd_members d) \<or> (realm, gid, u_id u) \<in> set (xd_members d1) \<Longrightarrow> u_id u \<in> set (map js_lower affected)"
  shows "scim_pg_ok (syncUserGroups now realm affected d1)"
proof (rule scim_pg_okI)
  let ?d = "syncUserGroups now realm affected d1"
  note ok = scim_pg_okD [OF ok]
  have uk: "map user_key (xd_users ?d) = map user_key (xd_users d)" by (simp add: sync_users users user_key_def comp_def)
  have rk: "map resource_key (xd_resources ?d) = map resource_key (xd_resources d)" by (simp add: resources)
  show "distinct (map user_key (xd_users ?d))" using ok(1) uk by simp
  show "distinct (map resource_key (xd_resources ?d))" using ok(3) rk by simp
  show "resource_key ` set (xd_resources ?d) = user_key ` set (xd_users ?d)"
    using keys_set [OF rk] keys_set [OF uk] ok(4) by simp
  show "distinct (map group_key (xd_groups ?d))" using keys by simp
  show "js_lower (u_id u) = u_id u" if "u \<in> set (xd_users ?d)" for u
    using that ok(2) by (auto simp: sync_users users)
  have other: "(r, g) \<in> group_key ` set (xd_groups d1)" if "(r, g) \<noteq> (realm, gid)" "(r, g) \<in> group_key ` set (xd_groups d)" for r g
  proof -
    from that(2) obtain h where "h \<in> set (xd_groups d)" "group_key h = (r, g)" by force
    then have "h \<in> set (filter (\<lambda>g. \<not> group_row realm gid g) (xd_groups d1))" unfolding groups using that(1) by (auto simp: row_keys)
    then show ?thesis using \<open>group_key h = (r, g)\<close> by force
  qed
  show "(r, g) \<in> group_key ` set (xd_groups ?d)" if "(r, g, u) \<in> set (xd_members ?d)" for r g u
    using that here [of u] members [of r g u] other [of r g] ok(6) [of r g u] by (cases "(r, g) = (realm, gid)") auto
  show "(r, u) \<in> user_key ` set (xd_users ?d)" if "(r, g, u) \<in> set (xd_members ?d)" for r g u
    unfolding keys_set [OF uk] using that here [of u] members [of r g u] ok(7) [of r g u] by (cases "(r, g) = (realm, gid)") auto
  show "in_step ?d u" if u: "u \<in> set (xd_users ?d)" for u
  proof -
    obtain v where v: "v \<in> set (xd_users d)" "u = synced now realm affected d1 v" using u by (auto simp: sync_users users)
    have n: "names_of r i ?d = names_of r i d1" for r i by (rule names_same_tables) simp_all
    show ?thesis
    proof (cases "out_of_step realm affected d1 v")
      case True
      then show ?thesis using v(2) by (simp add: in_step_def desired_names n synced_def out_of_step_def)
    next
      case False
      then have uv: "u = v" using v(2) by (simp add: synced_def)
      have "in_step d1 v"
      proof (cases "u_realm v = realm \<and> u_id v \<in> set (map js_lower affected)")
        case True
        then show ?thesis using False by (auto simp: out_of_step_def in_step_def)
      next
        case out: False
        have "names_of (u_realm v) (u_id v) d1 = names_of (u_realm v) (u_id v) d"
          using affected [OF v(1)] out by (intro names_unaffected [OF groups]) (use members in auto)
        then show ?thesis using ok(8) [OF v(1)] in_step_cong by blast
      qed
      then show ?thesis unfolding uv using in_step_cong [OF n] by blast
    qed
  qed
qed

section \<open>Every write keeps the tables\<close>

lemma no_conflict_key: "\<not> pg_login_conflict t u \<Longrightarrow> user_key u \<notin> user_key ` set t"
  by (auto simp: pg_login_conflict_def user_key_def)

lemma createUser_ok:
  assumes ok: "scim_pg_ok d" and run: "xs_createUser hash disabled now uuid realm a d = Inr (r, d')" and uuid: "js_lower uuid = uuid"
  shows "scim_pg_ok d'"
proof -
  note ok' = scim_pg_okD [OF ok]
  obtain pw row extra d1 where ins: "insert_user row extra d = Inr d1" and ext: "set_external realm uuid (external_of a) d1 = Inr d'"
      and row: "row = core_row (coreUser a uuid) (default_row now realm uuid pw)"
    using run by (auto simp: xs_createUser_def Let_def)
  have key: "user_key row = (realm, uuid)" "u_groups row = []" by (simp_all add: row core_row_def default_row_def user_key_def)
  note i = insert_user_Inr [OF ins] and e = set_external_Inr [OF ext]
  have new: "(realm, uuid) \<notin> user_key ` set (xd_users d)" using no_conflict_key [OF i(1)] key by simp
  have us: "xd_users d' = xd_users d @ [row]" using i(2) e(1) by simp
  have rk: "map resource_key (xd_resources d') = map resource_key (xd_resources d) @ [(realm, uuid)]"
    using i(6) e(4) ok'(4) new key by simp
  have tables: "xd_groups d' = xd_groups d" "xd_members d' = xd_members d" using i(4,5) e(2,3) by simp_all
  have n: "names_of x y d' = names_of x y d" for x y by (rule names_same_tables) (fact tables)+
  have none: "names_of realm uuid d = []" using ok'(7) new by (auto simp: names_of_def filter_empty_conv)
  show ?thesis
  proof (rule scim_pg_okI)
    show "distinct (map user_key (xd_users d'))" using ok'(1) new key by (auto simp: us)
    show "js_lower (u_id u) = u_id u" if "u \<in> set (xd_users d')" for u
      using that ok'(2) key uuid by (auto simp: us user_key_def)
    show "distinct (map resource_key (xd_resources d'))" using ok'(3,4) new by (simp add: rk)
    have "resource_key ` set (xd_resources d') = set (map resource_key (xd_resources d'))" by simp
    then show "resource_key ` set (xd_resources d') = user_key ` set (xd_users d')"
      unfolding rk by (simp add: us key ok'(4))
    show "distinct (map group_key (xd_groups d'))" using ok'(5) by (simp add: tables)
    show "(x, g) \<in> group_key ` set (xd_groups d')" if "(x, g, u) \<in> set (xd_members d')" for x g u
      using ok'(6) that by (simp add: tables)
    show "(x, u) \<in> user_key ` set (xd_users d')" if "(x, g, u) \<in> set (xd_members d')" for x g u
      using ok'(7) that by (auto simp: tables us)
    show "in_step d' u" if "u \<in> set (xd_users d')" for u
    proof (cases "u = row")
      case True
      then show ?thesis using key none by (simp add: in_step_def desired_names n user_key_def sort_by_def)
    next
      case False
      then show ?thesis using that ok'(8) in_step_cong [OF n] by (auto simp: us)
    qed
  qed
qed

lemma replaceUser_Inr:
  assumes "xs_replaceUser hash now realm uid a v d = Inr (r, d')"
  obtains pw u x d1 d2 where "join_user realm (js_lower uid) d = Some (u, x)" "xr_version x = v"
    "write_user now realm (js_lower uid) (coreUser a uid) pw u d = Inr d1" "set_external realm (js_lower uid) (external_of a) d1 = Inr d2"
    "d' = revokeAccounts realm [uid] d2" "r = select_user realm (js_lower uid) d'"
  using assms by (auto simp: xs_replaceUser_def Let_def split: option.splits)

lemma replaceUser_tables:
  assumes "xs_replaceUser hash now realm uid a v d = Inr (r, d')"
  obtains pw where "xd_users d' = map (\<lambda>v. if user_row realm (js_lower uid) v then replaced_row now (coreUser a uid) pw v else v) (xd_users d)"
    "map resource_key (xd_resources d') = map resource_key (xd_resources d)" "xd_groups d' = xd_groups d" "xd_members d' = xd_members d"
    "xd_records d' = filter (\<lambda>x. \<not> doomed_row realm uid (xd_records d) x) (xd_records d)"
proof -
  from assms obtain pw u x d1 d2 where "write_user now realm (js_lower uid) (coreUser a uid) pw u d = Inr d1"
      "set_external realm (js_lower uid) (external_of a) d1 = Inr d2" "d' = revokeAccounts realm [uid] d2"
    by (rule replaceUser_Inr)
  note u = write_user_Inr [OF this(1)] and e = set_external_Inr [OF this(2)] and d' = this(3)
  show ?thesis by (rule that [of pw]) (simp_all add: d' u e)
qed

lemma replaceUser_ok:
  assumes ok: "scim_pg_ok d" and run: "xs_replaceUser hash now realm uid a v d = Inr (r, d')"
  shows "scim_pg_ok d'"
proof -
  note ok' = scim_pg_okD [OF ok]
  from run obtain pw where us: "xd_users d' = map (\<lambda>v. if user_row realm (js_lower uid) v then replaced_row now (coreUser a uid) pw v else v) (xd_users d)"
    and rk: "map resource_key (xd_resources d') = map resource_key (xd_resources d)" and tables: "xd_groups d' = xd_groups d" "xd_members d' = xd_members d"
    by (rule replaceUser_tables)
  have uk: "map user_key (xd_users d') = map user_key (xd_users d)" by (auto simp: us user_key_def)
  have n: "names_of x y d' = names_of x y d" for x y by (rule names_same_tables) (fact tables)+
  show ?thesis
  proof (rule scim_pg_okI)
    show "distinct (map user_key (xd_users d'))" unfolding uk by (rule ok')
    show "js_lower (u_id u) = u_id u" if "u \<in> set (xd_users d')" for u using that ok'(2) by (auto simp: us)
    show "distinct (map resource_key (xd_resources d'))" unfolding rk by (rule ok')
    show "resource_key ` set (xd_resources d') = user_key ` set (xd_users d')" unfolding keys_set [OF rk] keys_set [OF uk] by (rule ok')
    show "distinct (map group_key (xd_groups d'))" unfolding tables by (rule ok')
    show "(x, g) \<in> group_key ` set (xd_groups d')" if "(x, g, u) \<in> set (xd_members d')" for x g u
      using ok'(6) that by (simp add: tables)
    show "(x, u) \<in> user_key ` set (xd_users d')" if "(x, g, u) \<in> set (xd_members d')" for x g u
      unfolding keys_set [OF uk] using ok'(7) that by (simp add: tables)
    show "in_step d' u" if "u \<in> set (xd_users d')" for u
      using that ok'(8) by (auto simp: us in_step_def desired_names n)
  qed
qed

lemma deleteUser_Inr:
  assumes "xs_deleteUser now realm uid v d = Inr (r, d')"
  obtains u x d1 where "join_user realm (js_lower uid) d = Some (u, x)" "xr_version x = v"
    "d1 = touch_groups now (\<lambda>g. gw_realm g = realm \<and> (realm, gw_id g, js_lower uid) \<in> set (xd_members d)) d"
    "d' = remove_user realm (js_lower uid) (revokeAccounts realm [uid] d1)"
  using assms by (auto simp: xs_deleteUser_def Let_def split: option.splits)

lemma touch_groups_names: "map gw_displayName (filter Q (map f gs)) = map gw_displayName (filter Q gs)"
  if "\<And>g. gw_displayName (f g) = gw_displayName g" "\<And>g. Q (f g) = Q g" for f :: "scim_group_row \<Rightarrow> scim_group_row"
  using that by (induction gs) auto

lemma deleteUser_ok:
  assumes ok: "scim_pg_ok d" and run: "xs_deleteUser now realm uid v d = Inr (r, d')"
  shows "scim_pg_ok d'"
proof -
  note ok' = scim_pg_okD [OF ok]
  let ?i = "js_lower uid"
  from run obtain u x d1 where d1: "d1 = touch_groups now (\<lambda>g. gw_realm g = realm \<and> (realm, gw_id g, ?i) \<in> set (xd_members d)) d"
      and d': "d' = remove_user realm ?i (revokeAccounts realm [uid] d1)" by (rule deleteUser_Inr)
  have us: "xd_users d' = filter (\<lambda>u. \<not> user_row realm ?i u) (xd_users d)"
    and rs: "xd_resources d' = filter (\<lambda>x. \<not> resource_row realm ?i x) (xd_resources d)"
    and ms: "xd_members d' = filter (\<lambda>m. \<not> (fst m = realm \<and> snd (snd m) = ?i)) (xd_members d)" by (simp_all add: d' d1)
  have gk: "map group_key (xd_groups d') = map group_key (xd_groups d)" by (simp add: d' d1 touch_groups_def group_key_def)
  have n: "names_of a i d' = names_of a i d" if "(a, i) \<noteq> (realm, ?i)" for a i
  proof -
    have "names_of a i d' = map gw_displayName (filter (\<lambda>g. gw_realm g = a \<and> (a, gw_id g, i) \<in> set (xd_members d)) (xd_groups d'))"
      using that by (auto simp: names_of_def ms)
    also have "... = names_of a i d" by (simp add: names_of_def d' d1 touch_groups_def) (rule touch_groups_names; simp)
    finally show ?thesis .
  qed
  show ?thesis
  proof (rule scim_pg_okI)
    show "distinct (map user_key (xd_users d'))" using ok'(1) by (simp add: us distinct_map_filter)
    show "js_lower (u_id u) = u_id u" if "u \<in> set (xd_users d')" for u using that ok'(2) by (auto simp: us)
    show "distinct (map resource_key (xd_resources d'))" using ok'(3) by (simp add: rs distinct_map_filter)
    have "resource_key ` set (xd_resources d') = resource_key ` set (xd_resources d) - {(realm, ?i)}" by (auto simp: rs row_keys)
    also have "... = user_key ` set (xd_users d')" unfolding ok'(4) by (auto simp: us row_keys)
    finally show "resource_key ` set (xd_resources d') = user_key ` set (xd_users d')" .
    show "distinct (map group_key (xd_groups d'))" unfolding gk by (rule ok')
    show "(a, g) \<in> group_key ` set (xd_groups d')" if "(a, g, u) \<in> set (xd_members d')" for a g u
      unfolding keys_set [OF gk] using ok'(6) that by (auto simp: ms)
    show "(a, i) \<in> user_key ` set (xd_users d')" if "(a, g, i) \<in> set (xd_members d')" for a g i
    proof -
      have "(a, i) \<in> user_key ` set (xd_users d) - {(realm, ?i)}" using ok'(7) that by (auto simp: ms)
      then show ?thesis by (auto simp: us row_keys image_iff)
    qed
    show "in_step d' u" if "u \<in> set (xd_users d')" for u
      using that ok'(8) n by (auto simp: us in_step_def desired_names row_keys)
  qed
qed

text \<open>The members of a group that were checked are accounts, and the touched accounts are those that are or were members.\<close>

lemma members_of_set: "i \<in> set (members_of realm gid d) \<longleftrightarrow> (realm, gid, i) \<in> set (xd_members d)"
  by (force simp: members_of_def)

lemma replaced_members:
  assumes "replaceMembers realm gid values d = Inr (affected, d1)"
  shows "(r, g) \<noteq> (realm, gid) \<Longrightarrow> (r, g, u) \<in> set (xd_members d1) \<longleftrightarrow> (r, g, u) \<in> set (xd_members d)"
    "(realm, gid, u) \<in> set (xd_members d1) \<longleftrightarrow> u \<in> js_lower ` js_String ` set values"
    "set affected = set (members_of realm gid d) \<union> js_String ` set values"
  using replaceMembers_Inr [OF assms] by auto

lemma length_filter_keys:
  assumes "distinct (map f xs)" shows "length (filter (\<lambda>x. f x \<in> K) xs) = card (f ` set xs \<inter> K)"
proof -
  have "length (filter (\<lambda>x. f x \<in> K) xs) = length (map f (filter (\<lambda>x. f x \<in> K) xs))" by simp
  also have "... = card (set (map f (filter (\<lambda>x. f x \<in> K) xs)))"
    using assms by (intro distinct_card [symmetric]) (simp add: distinct_map_filter)
  also have "set (map f (filter (\<lambda>x. f x \<in> K) xs)) = f ` set xs \<inter> K" by auto
  finally show ?thesis .
qed

lemma members_exist:
  assumes run: "replaceMembers realm gid values d = Inr (affected, d1)" and keys: "distinct (map user_key (xd_users d))"
    and u: "u \<in> js_lower ` js_String ` set values"
  shows "(realm, u) \<in> user_key ` set (xd_users d)"
proof -
  let ?ids = "js_lower ` js_String ` set values" let ?K = "Pair realm ` ?ids"
  have fin: "finite ?K" by simp
  have "length values = length (filter (\<lambda>u. user_key u \<in> ?K) (xd_users d))"
    using replaceMembers_Inr(6) [OF run] by (simp add: user_key_def image_iff)
  also have "... = card (user_key ` set (xd_users d) \<inter> ?K)" by (rule length_filter_keys [OF keys])
  finally have n: "length values = card (user_key ` set (xd_users d) \<inter> ?K)" .
  have "card ?K \<le> card (set values)"
    using card_image_le [of "set values" "\<lambda>v. (realm, js_lower (js_String v))"] by (simp add: image_image)
  also have "... \<le> length values" by (rule card_length)
  finally have "card ?K \<le> card (user_key ` set (xd_users d) \<inter> ?K)" using n by simp
  then have "user_key ` set (xd_users d) \<inter> ?K = ?K" by (intro card_seteq [OF fin]) auto
  then show ?thesis using u by auto
qed

lemma affected_members:
  assumes run: "replaceMembers realm gid values d = Inr (affected, d1)" and ok: "\<And>u. u \<in> set (xd_users d) \<Longrightarrow> js_lower (u_id u) = u_id u"
    and u: "u \<in> set (xd_users d)" and m: "(realm, gid, u_id u) \<in> set (xd_members d) \<or> (realm, gid, u_id u) \<in> set (xd_members d1)"
  shows "u_id u \<in> set (map js_lower affected)"
  using m
proof
  assume "(realm, gid, u_id u) \<in> set (xd_members d)"
  then have "u_id u \<in> set affected" using replaced_members(3) [OF run] by (simp add: members_of_set)
  then have "js_lower (u_id u) \<in> set (map js_lower affected)" by simp
  then show ?thesis using ok [OF u] by simp
next
  assume "(realm, gid, u_id u) \<in> set (xd_members d1)"
  then show ?thesis using replaced_members(2,3) [OF run] by auto
qed

lemma createGroup_Inr:
  assumes "xs_createGroup now uuid realm a d = Inr (r, d')"
  obtains row affected d1 where "\<not> group_conflict (xd_groups d) row" "gw_realm row = realm" "gw_id row = uuid" "gw_version row = 1"
    "replaceMembers realm uuid (member_ids a) (d\<lparr>xd_groups := xd_groups d @ [row]\<rparr>) = Inr (affected, d1)"
    "d' = syncUserGroups now realm affected d1"
  using assms by (fastforce simp: xs_createGroup_def Let_def)

lemma createGroup_ok:
  assumes ok: "scim_pg_ok d" and run: "xs_createGroup now uuid realm a d = Inr (r, d')"
  shows "scim_pg_ok d'"
proof -
  note ok' = scim_pg_okD [OF ok]
  from run obtain row affected d1 where row: "\<not> group_conflict (xd_groups d) row" "gw_realm row = realm" "gw_id row = uuid"
    and rep: "replaceMembers realm uuid (member_ids a) (d\<lparr>xd_groups := xd_groups d @ [row]\<rparr>) = Inr (affected, d1)"
    and d': "d' = syncUserGroups now realm affected d1" by (rule createGroup_Inr)
  note s = replaceMembers_Inr [OF rep] and m = replaced_members [OF rep]
  have new: "(realm, uuid) \<notin> group_key ` set (xd_groups d)"
    using row by (auto simp: group_conflict_def group_key_def)
  show ?thesis
    unfolding d'
  proof (rule synced_ok [OF ok, where gid = uuid])
    show "xd_users d1 = xd_users d" "xd_resources d1 = xd_resources d" using s by simp_all
    show "distinct (map group_key (xd_groups d1))" using s(5) ok'(5) new row by (auto simp: group_key_def)
    show "filter (\<lambda>g. \<not> group_row realm uuid g) (xd_groups d1) = filter (\<lambda>g. \<not> group_row realm uuid g) (xd_groups d)"
      using s(5) row by (simp add: group_row_def)
    show "(x, g, u) \<in> set (xd_members d1) \<longleftrightarrow> (x, g, u) \<in> set (xd_members d)" if "(x, g) \<noteq> (realm, uuid)" for x g u
      using m(1) [OF that] by simp
    show "(realm, uuid) \<in> group_key ` set (xd_groups d1) \<and> (realm, u) \<in> user_key ` set (xd_users d)"
      if "(realm, uuid, u) \<in> set (xd_members d1)" for u
      using members_exist [OF rep, of u] ok'(1) that m(2) s(5) row by (simp add: group_key_def)
    show "u_id u \<in> set (map js_lower affected)" if "u \<in> set (xd_users d)"
        "(realm, uuid, u_id u) \<in> set (xd_members d) \<or> (realm, uuid, u_id u) \<in> set (xd_members d1)" for u
      by (rule affected_members [OF rep]) (use that ok'(2) in simp_all)
  qed
qed

lemma replaceGroup_Inr:
  assumes "xs_replaceGroup now realm gid a v d = Inr (r, d')"
  obtains g affected d1 where "row0 (filter (\<lambda>h. group_row realm (js_lower gid) h \<and> gw_version h = v) (xd_groups d)) = Some g"
    "replaceMembers realm (js_lower gid) (member_ids a) (d\<lparr>xd_groups := map (\<lambda>h. if group_row realm (js_lower gid) h \<and> gw_version h = v
        then regrouped now a h else h) (xd_groups d)\<rparr>) = Inr (affected, d1)"
    "d' = syncUserGroups now realm affected d1" "r = select_group realm (js_lower gid) d'"
  using assms by (auto simp: xs_replaceGroup_def Let_def split: option.splits)

lemma regrouped_key [simp]: "gw_realm (regrouped now a g) = gw_realm g" "gw_id (regrouped now a g) = gw_id g"
  by (simp_all add: regrouped_def)

lemma row0_Some: "row0 (filter P xs) = Some x \<Longrightarrow> x \<in> set xs \<and> P x"
proof -
  assume a: "row0 (filter P xs) = Some x"
  then have "x \<in> set (filter P xs)" by (cases "filter P xs") (simp_all add: row0_def)
  then show ?thesis by simp
qed

lemma replaceGroup_ok:
  assumes ok: "scim_pg_ok d" and run: "xs_replaceGroup now realm gid a v d = Inr (r, d')"
  shows "scim_pg_ok d'"
proof -
  note ok' = scim_pg_okD [OF ok]
  let ?i = "js_lower gid" let ?f = "\<lambda>h. if group_row realm ?i h \<and> gw_version h = v then regrouped now a h else h"
  from run obtain g affected d1 where hit: "row0 (filter (\<lambda>h. group_row realm ?i h \<and> gw_version h = v) (xd_groups d)) = Some g"
    and rep: "replaceMembers realm ?i (member_ids a) (d\<lparr>xd_groups := map ?f (xd_groups d)\<rparr>) = Inr (affected, d1)"
    and d': "d' = syncUserGroups now realm affected d1" by (rule replaceGroup_Inr)
  note s = replaceMembers_Inr [OF rep] and m = replaced_members [OF rep]
  have gk: "map group_key (xd_groups d1) = map group_key (xd_groups d)" using s(5) by (auto simp: group_key_def)
  show ?thesis
    unfolding d'
  proof (rule synced_ok [OF ok, where gid = ?i])
    show "xd_users d1 = xd_users d" "xd_resources d1 = xd_resources d" using s by simp_all
    show "distinct (map group_key (xd_groups d1))" unfolding gk by (rule ok')
    have "filter (\<lambda>g. \<not> group_row realm ?i g) (map ?f gs) = filter (\<lambda>g. \<not> group_row realm ?i g) gs" for gs
      by (induction gs) (auto simp: group_row_def)
    then show "filter (\<lambda>g. \<not> group_row realm ?i g) (xd_groups d1) = filter (\<lambda>g. \<not> group_row realm ?i g) (xd_groups d)"
      using s(5) by simp
    show "(x, g, u) \<in> set (xd_members d1) \<longleftrightarrow> (x, g, u) \<in> set (xd_members d)" if "(x, g) \<noteq> (realm, ?i)" for x g u
      using m(1) [OF that] by simp
    have "group_key g = (realm, ?i) \<and> g \<in> set (xd_groups d)" using row0_Some [OF hit] by (simp add: row_keys)
    then have here: "(realm, ?i) \<in> group_key ` set (xd_groups d)" by force
    show "(realm, ?i) \<in> group_key ` set (xd_groups d1) \<and> (realm, u) \<in> user_key ` set (xd_users d)"
      if "(realm, ?i, u) \<in> set (xd_members d1)" for u
      unfolding keys_set [OF gk] using members_exist [OF rep, of u] ok'(1) that m(2) here by simp
    show "u_id u \<in> set (map js_lower affected)" if "u \<in> set (xd_users d)"
        "(realm, ?i, u_id u) \<in> set (xd_members d) \<or> (realm, ?i, u_id u) \<in> set (xd_members d1)" for u
      by (rule affected_members [OF rep]) (use that ok'(2) in simp_all)
  qed
qed

lemma deleteGroup_Inr:
  assumes "xs_deleteGroup now realm gid v d = Inr (r, d')"
  obtains d1 where "d1 = d\<lparr>xd_groups := filter (\<lambda>h. \<not> group_row realm (js_lower gid) h) (xd_groups d),
      xd_members := filter (\<lambda>m. \<not> (fst m = realm \<and> fst (snd m) = js_lower gid)) (xd_members d)\<rparr>"
    "d' = syncUserGroups now realm (sort_by str_le (members_of realm (js_lower gid) d)) d1"
  using assms by (auto simp: xs_deleteGroup_def Let_def split: option.splits)

lemma deleteGroup_ok:
  assumes ok: "scim_pg_ok d" and run: "xs_deleteGroup now realm gid v d = Inr (r, d')"
  shows "scim_pg_ok d'"
proof -
  note ok' = scim_pg_okD [OF ok]
  let ?i = "js_lower gid"
  from run obtain d1 where d1: "d1 = d\<lparr>xd_groups := filter (\<lambda>h. \<not> group_row realm ?i h) (xd_groups d),
      xd_members := filter (\<lambda>m. \<not> (fst m = realm \<and> fst (snd m) = ?i)) (xd_members d)\<rparr>"
    and d': "d' = syncUserGroups now realm (sort_by str_le (members_of realm ?i d)) d1" by (rule deleteGroup_Inr)
  show ?thesis
    unfolding d'
  proof (rule synced_ok [OF ok, where gid = ?i])
    show "distinct (map group_key (xd_groups d1))" using ok'(5) by (simp add: d1 distinct_map_filter)
    show "u_id u \<in> set (map js_lower (sort_by str_le (members_of realm ?i d)))" if "u \<in> set (xd_users d)"
        "(realm, ?i, u_id u) \<in> set (xd_members d) \<or> (realm, ?i, u_id u) \<in> set (xd_members d1)" for u
    proof -
      have "u_id u \<in> set (members_of realm ?i d)" using that(2) by (auto simp: d1 members_of_set)
      then have "js_lower (u_id u) \<in> js_lower ` set (members_of realm ?i d)" by simp
      then show ?thesis using ok'(2) [OF that(1)] by simp
    qed
  qed (auto simp: d1)
qed

lemma pg_serve_ok:
  assumes "scim_pg_ok d" "pg_serve hash disabled w d = Inr (r, d')"
    and "\<And>now uuid realm a. w = CreateUser now uuid realm a \<Longrightarrow> js_lower uuid = uuid"
  shows "scim_pg_ok d'"
proof (cases w)
  case (CreateUser now uuid realm a)
  show ?thesis by (rule createUser_ok [OF assms(1)]) (use assms(2,3) CreateUser in auto)
next
  case (ReplaceUser now realm uid a v)
  then show ?thesis using replaceUser_ok [OF assms(1)] assms(2) by simp
next
  case (DeleteUser now realm uid v)
  then show ?thesis using deleteUser_ok [OF assms(1)] assms(2) by simp
next
  case (CreateGroup now uuid realm a)
  then show ?thesis using createGroup_ok [OF assms(1)] assms(2) by simp
next
  case (ReplaceGroup now realm gid a v)
  then show ?thesis using replaceGroup_ok [OF assms(1)] assms(2) by simp
next
  case (DeleteGroup now realm gid v)
  then show ?thesis using deleteGroup_ok [OF assms(1)] assms(2) by simp
qed

text \<open>The writes of any clients, one transaction after the other, on a database without accounts. A write that fails changes nothing.\<close>

inductive scim_pg_reach :: "(string \<Rightarrow> string) \<Rightarrow> string \<Rightarrow> scim_db \<Rightarrow> bool" for hash disabled where
  pg_start: "xd_users d = [] \<Longrightarrow> xd_resources d = [] \<Longrightarrow> xd_groups d = [] \<Longrightarrow> xd_members d = [] \<Longrightarrow> scim_pg_reach hash disabled d"
| pg_write: "scim_pg_reach hash disabled d \<Longrightarrow> pg_serve hash disabled w d = Inr (r, d') \<Longrightarrow>
    (\<And>now uuid realm a. w = CreateUser now uuid realm a \<Longrightarrow> js_lower uuid = uuid) \<Longrightarrow> scim_pg_reach hash disabled d'"

lemma scim_pg_reach_ok: "scim_pg_reach hash disabled d \<Longrightarrow> scim_pg_ok d"
proof (induction rule: scim_pg_reach.induct)
  case (pg_start d)
  then show ?case by (simp add: scim_pg_ok_def)
next
  case (pg_write d w r d')
  from pg_serve_ok [OF pg_write.IH pg_write.hyps(2,3)] show ?case .
qed

text \<open>C31: The groups an account carries into its tokens are always those it is a member of. After any writes of
provisioning clients, in any order and with any members, names and deletions, every account lists exactly the names of its groups
as paths, in their order; every membership joins an existing account to an existing group of its realm; and every account has one
SCIM resource.\<close>

theorem scim_groups_in_step:
  assumes "scim_pg_reach hash disabled d"
  shows "list_all (\<lambda>u. u_groups u = desired_groups (u_realm u) (u_id u) d) (xd_users d) \<and>
    list_all (\<lambda>(r, g, u). (\<exists>x\<in>set (xd_groups d). gw_realm x = r \<and> gw_id x = g) \<and> (\<exists>x\<in>set (xd_users d). u_realm x = r \<and> u_id x = u)) (xd_members d) \<and>
    list_all (\<lambda>u. length (filter (resource_row (u_realm u) (u_id u)) (xd_resources d)) = 1) (xd_users d)"
proof -
  note ok = scim_pg_okD [OF scim_pg_reach_ok [OF assms]]
  have one: "length (filter (resource_row (u_realm u) (u_id u)) (xd_resources d)) = 1" if "u \<in> set (xd_users d)" for u
  proof -
    have "length (filter (\<lambda>x. resource_key x \<in> {user_key u}) (xd_resources d)) = card (resource_key ` set (xd_resources d) \<inter> {user_key u})"
      by (rule length_filter_keys [OF ok(3)])
    also have "resource_key ` set (xd_resources d) \<inter> {user_key u} = {user_key u}" using ok(4) that by auto
    finally show ?thesis by (simp add: row_keys [abs_def])
  qed
  have m: "(\<exists>x\<in>set (xd_groups d). gw_realm x = r \<and> gw_id x = g) \<and> (\<exists>x\<in>set (xd_users d). u_realm x = r \<and> u_id x = u)"
    if "(r, g, u) \<in> set (xd_members d)" for r g u
    using ok(6) [OF that] ok(7) [OF that] by (auto simp: row_keys)
  show ?thesis using ok(8) one m by (auto simp: list_all_iff in_step_def)
qed

section \<open>Changed accounts are signed out\<close>

definition addressed :: "scim_write \<Rightarrow> string list" where
  "addressed w = (case w of ReplaceUser _ _ uid _ _ \<Rightarrow> [uid] | DeleteUser _ _ uid _ \<Rightarrow> [uid] | _ \<Rightarrow> [])"

definition signed_out :: "user \<Rightarrow> scim_db \<Rightarrow> scim_db \<Rightarrow> bool" where
  "signed_out u d d' \<longleftrightarrow> list_all (\<lambda>x. \<not> doomed_row (u_realm u) (u_id u) (xd_records d) x) (xd_records d') \<and>
     list_all (\<lambda>v. user_key v = user_key u \<longrightarrow> u_securityVersion v = u_securityVersion u + 1) (xd_users d')"

lemma key_unique:
  assumes "distinct (map user_key us)" "u \<in> set us" "v \<in> set us" "user_key v = user_key u" shows "v = u"
  using assms by (auto simp: distinct_map dest: inj_onD)

lemma sync_signs_out:
  assumes keys: "distinct (map user_key (xd_users d1))" and u: "u \<in> set (xd_users d1)" and records: "xd_records d1 = xd_records d"
  shows "(u \<in> set (xd_users (syncUserGroups now realm ids d1)) \<or> signed_out u d (syncUserGroups now realm ids d1)) \<and>
    set (xd_records (syncUserGroups now realm ids d1)) \<subseteq> set (xd_records d)"
proof (cases "out_of_step realm ids d1 u")
  case False
  then have "synced now realm ids d1 u = u" by (simp add: synced_def)
  then have "u \<in> set (xd_users (syncUserGroups now realm ids d1))" using u by (force simp: sync_users)
  then show ?thesis using records by (auto simp: syncUserGroups_def Let_def)
next
  case True
  then have ids: "ids \<noteq> []" "u_realm u = realm" by (auto simp: out_of_step_def)
  have "u_securityVersion v = u_securityVersion u + 1"
    if "v \<in> set (xd_users (syncUserGroups now realm ids d1))" "user_key v = user_key u" for v
  proof -
    from that(1) obtain v0 where v0: "v0 \<in> set (xd_users d1)" "v = synced now realm ids d1 v0" by (auto simp: sync_users)
    then have "v0 = u" using key_unique [OF keys u] that(2) by (simp add: user_key_def)
    then show ?thesis using v0 True by (simp add: synced_def)
  qed
  moreover let ?changed = "map u_id (filter (out_of_step realm ids d1) (xd_users d1))"
  have "xd_records (syncUserGroups now realm ids d1) =
      filter (\<lambda>x. \<not> (\<exists>a\<in>set ?changed. doomed_row realm a (xd_records d) x)) (xd_records d)"
    using ids records by (simp add: syncUserGroups_def Let_def del: bex_simps ball_simps)
  moreover have "u_id u \<in> set ?changed" using True u by simp
  ultimately show ?thesis using ids(2) unfolding signed_out_def list_all_iff by (metis (no_types, lifting) filter_is_subset mem_Collect_eq set_filter)
qed


text \<open>With the identifier spelled otherwise the account is replaced all the same, but its artifacts stay where they are; only
its security version keeps them from being accepted.\<close>

theorem other_spelling_revokes_nothing:
  assumes run: "xs_replaceUser hash now realm uid a v d = Inr (r, d')"
    and stored: "list_all (\<lambda>x. pl_accountId (ox_payload x) \<noteq> Some uid) (xd_records d)"
  shows "xd_records d' = xd_records d"
proof -
  from run have "xd_records d' = filter (\<lambda>x. \<not> doomed_row realm uid (xd_records d) x) (xd_records d)" by (rule replaceUser_tables)
  moreover have "pg_account_grants realm uid (xd_records d) = []"
    using stored by (auto simp: pg_account_grants_def list_all_iff filter_empty_conv)
  ultimately show ?thesis using stored by (auto simp: doomed_row_def list_all_iff intro!: filter_True split: option.splits)
qed

section \<open>An account in a group\<close>

text \<open>Writes one after the other, those that fail without effect.\<close>

definition scim_run :: "(string \<Rightarrow> string) \<Rightarrow> string \<Rightarrow> scim_write list \<Rightarrow> scim_db \<Rightarrow> scim_db" where
  "scim_run hash disabled ws d = fold (\<lambda>w d. case pg_serve hash disabled w d of Inl _ \<Rightarrow> d | Inr (_, d') \<Rightarrow> d') ws d"

lemma scim_run_reach:
  assumes "scim_pg_reach hash disabled d" "list_all (\<lambda>w. case w of CreateUser _ uuid _ _ \<Rightarrow> js_lower uuid = uuid | _ \<Rightarrow> True) ws"
  shows "scim_pg_reach hash disabled (scim_run hash disabled ws d)"
  using assms
proof (induction ws arbitrary: d)
  case (Cons w ws)
  have "scim_pg_reach hash disabled (case pg_serve hash disabled w d of Inl _ \<Rightarrow> d | Inr (_, d') \<Rightarrow> d')"
    using Cons.prems by (auto split: sum.splits intro: pg_write)
  then show ?case using Cons by (simp add: scim_run_def)
qed (simp add: scim_run_def)

definition kim_id :: string where "kim_id = ''a0000000-0000-4000-8000-000000000001''"
definition ops_id :: string where "ops_id = ''b0000000-0000-4000-8000-000000000002''"

definition kim_session :: oidc_row where
  "kim_session = \<lparr>ox_realm = ''main'', ox_model = ''Session'', ox_id = ''s'', ox_payload = \<lparr>pl_grantId = None, pl_accountId = Some kim_id,
     pl_userCode = None, pl_uid = None, pl_consumed = None, pl_data = JNull\<rparr>, ox_expiresAt = None, ox_consumedAt = None, ox_grantId = None,
     ox_userCode = None, ox_uid = None, ox_version = None\<rparr>"

definition kim_empty :: scim_db where
  "kim_empty = \<lparr>xd_data = \<lparr>pd_db = \<lparr>pg_users = [], pg_grants = [], pg_sessions = [], pg_credentials = [], pg_challenges = []\<rparr>,
     pd_records = [kim_session]\<rparr>, xd_resources = [], xd_groups = [], xd_members = []\<rparr>"

definition kim_db :: scim_db where
  "kim_db = scim_run (\<lambda>p. p) ''off'' [CreateUser 5 kim_id ''main'' [(''userName'', JStr ''kim'')],
     CreateGroup 6 ops_id ''main'' [(''displayName'', JStr ''Ops''), (''members'', JArr [JObj [(''value'', JStr kim_id)]])]] kim_empty"

lemma kim_lower: "js_lower kim_id = kim_id"
  by code_simp

lemma kim_reach: "scim_pg_reach (\<lambda>p. p) ''off'' kim_db"
  unfolding kim_db_def by (rule scim_run_reach) (simp_all add: kim_empty_def pg_start kim_lower)

lemma kim_before: "map (\<lambda>u. (user_key u, u_groups u)) (xd_users kim_db) = [((''main'', kim_id), [''/Ops''])]"
  by code_simp

lemma kim_after: "(case pg_serve (\<lambda>p. p) ''off'' (DeleteGroup 7 ''main'' ops_id 1) kim_db of Inl _ \<Rightarrow> False
    | Inr (r, d') \<Rightarrow> map u_groups (xd_users d') = [[]])"
  by code_simp

lemma scim_groups_in_step_witness:
  "list_all (\<lambda>u. u_groups u = desired_groups (u_realm u) (u_id u) kim_db) (xd_users kim_db) \<and> map u_groups (xd_users kim_db) = [[''/Ops'']]"
  using scim_groups_in_step [OF kim_reach] arg_cong [OF kim_before, of "map snd"] by (simp add: comp_def)


end
