(* ===== verification/ScimPgStore.thy ===== *)
theory ScimPgStore
  imports ScimPgProps
begin

text \<open>
  The PostgreSQL SCIM repository keeps the contract \<open>versioned_store\<close> of the in-memory one: a replacement succeeds only on the
  version it expects and moves it by one, and every other write leaves a resource alone, removes it or raises its version.
\<close>

section \<open>One resource under the statements\<close>

lemma row0_map: "(\<And>x. P (f x) = P x) \<Longrightarrow> row0 (filter P (map f xs)) = map_option f (row0 (filter P xs))"
  by (induction xs) (auto simp: row0_def)

lemma row0_unique:
  assumes "x \<in> set xs" "P x" "\<And>y. y \<in> set xs \<Longrightarrow> P y \<Longrightarrow> y = x" shows "row0 (filter P xs) = Some x"
proof (cases "row0 (filter P xs)")
  case None
  then show ?thesis using assms(1,2) by (auto simp: row0_def filter_empty_conv split: list.splits)
next
  case (Some y)
  then show ?thesis using assms(3) row0_Some [OF Some] by simp
qed

lemma join_user_map:
  assumes "xd_users d' = map f (xd_users d)" "xd_resources d' = map h (xd_resources d)"
    and "\<And>u. user_row r i (f u) = user_row r i u" "\<And>x. resource_row r i (h x) = resource_row r i x"
  shows "join_user r i d' = map_option (\<lambda>(u, x). (f u, h x)) (join_user r i d)"
  using assms(3,4) by (auto simp: join_user_def assms(1,2) row0_map split: option.splits)

lemma join_user_same:
  assumes "filter (user_row r i) (xd_users d') = filter (user_row r i) (xd_users d)"
    and "filter (resource_row r i) (xd_resources d') = filter (resource_row r i) (xd_resources d)"
  shows "join_user r i d' = join_user r i d"
  by (simp add: join_user_def assms)

text \<open>The row of an account and its resource: untouched, gone, or at a higher version.\<close>

definition user_moves :: "string \<Rightarrow> string \<Rightarrow> scim_db \<Rightarrow> scim_db \<Rightarrow> bool" where
  "user_moves r i d d' \<longleftrightarrow> join_user r i d' = join_user r i d \<or> join_user r i d' = None \<or>
     (\<exists>u x u' x'. join_user r i d = Some (u, x) \<and> join_user r i d' = Some (u', x') \<and> xr_version x < xr_version x')"

lemma user_movesI:
  assumes "xd_users d' = map f (xd_users d)" "xd_resources d' = map h (xd_resources d)"
    and "\<And>u. user_row r i (f u) = user_row r i u" "\<And>x. resource_row r i (h x) = resource_row r i x"
    and "\<And>u x. join_user r i d = Some (u, x) \<Longrightarrow> (f u = u \<and> h x = x) \<or> xr_version x < xr_version (h x)"
  shows "user_moves r i d d'"
  using join_user_map [OF assms(1-4)] assms(5) by (cases "join_user r i d") (auto simp: user_moves_def)

lemma join_userD: "join_user r i d = Some (u, x) \<Longrightarrow> u \<in> set (xd_users d) \<and> user_row r i u \<and> x \<in> set (xd_resources d) \<and> resource_row r i x"
  by (auto simp: join_user_def dest!: row0_Some split: option.splits)

lemma sync_moves: "user_moves r i d (syncUserGroups now realm ids d)"
proof (cases "ids = []")
  case True
  then show ?thesis by (simp add: syncUserGroups_def user_moves_def)
next
  case False
  let ?changed = "map u_id (filter (out_of_step realm ids d) (xd_users d))"
  let ?h = "\<lambda>x. if xr_realm x = realm \<and> xr_user x \<in> set ?changed then x\<lparr>xr_version := xr_version x + 1, xr_updatedAt := now\<rparr> else x"
  show ?thesis
  proof (rule user_movesI [OF sync_users, where h = ?h])
    show "xd_resources (syncUserGroups now realm ids d) = map ?h (xd_resources d)"
      using False by (simp add: syncUserGroups_def Let_def bump_resource_def)
    show "user_row r i (synced now realm ids d u) = user_row r i u" for u by (simp add: user_row_def)
    show "resource_row r i (?h x) = resource_row r i x" for x by (simp add: resource_row_def)
    show "(synced now realm ids d u = u \<and> ?h x = x) \<or> xr_version x < xr_version (?h x)" if "join_user r i d = Some (u, x)" for u x
    proof (cases "xr_realm x = realm \<and> xr_user x \<in> set ?changed")
      case True
      then show ?thesis by simp
    next
      case False
      have "\<not> out_of_step realm ids d u" using False join_userD [OF that] by (auto simp: row_keys out_of_step_def)
      then show ?thesis using False by (auto simp: synced_def)
    qed
  qed
qed

lemma user_moves_trans_same: "join_user r i d1 = join_user r i d \<Longrightarrow> user_moves r i d1 d' \<Longrightarrow> user_moves r i d d'"
  by (simp add: user_moves_def)

lemma createUser_moves:
  assumes "xs_createUser hash disabled now uuid realm a d = Inr (x, d')" "(r, i) \<noteq> (realm, uuid)"
  shows "user_moves r i d d'"
proof -
  let ?row = "\<lambda>h. core_row (coreUser a uuid) (default_row now realm uuid h)"
  have "\<exists>h d1. insert_user (?row h) (cu_extra (coreUser a uuid)) d = Inr d1 \<and> set_external realm uuid (external_of a) d1 = Inr d'"
    using assms(1) by (auto simp: xs_createUser_def Let_def, blast)
  then obtain h d1 where ins: "insert_user (?row h) (cu_extra (coreUser a uuid)) d = Inr d1"
      and ext: "set_external realm uuid (external_of a) d1 = Inr d'" by blast
  have row: "u_realm (?row h) = realm" "u_id (?row h) = uuid" by (simp_all add: core_row_def default_row_def)
  have "join_user r i d1 = join_user r i d"
    by (rule join_user_same) (use ins row assms(2) in \<open>auto simp: insert_user_def Let_def row_keys split: if_splits\<close>)
  moreover have "join_user r i d' = join_user r i d1"
  proof (rule join_user_same)
    show "filter (user_row r i) (xd_users d') = filter (user_row r i) (xd_users d1)" using set_external_Inr(1) [OF ext] by simp
    have rs: "xd_resources d' = map (\<lambda>x. if resource_row realm uuid x then x\<lparr>xr_externalId := external_of a\<rparr> else x) (xd_resources d1)"
      using ext by (auto simp: set_external_def split: if_splits)
    have "filter (resource_row r i) (map (\<lambda>x. if resource_row realm uuid x then x\<lparr>xr_externalId := external_of a\<rparr> else x) xs) =
        filter (resource_row r i) xs" for xs using assms(2) by (induction xs) (auto simp: row_keys)
    then show "filter (resource_row r i) (xd_resources d') = filter (resource_row r i) (xd_resources d1)" by (simp add: rs)
  qed
  ultimately show ?thesis by (simp add: user_moves_def)
qed

text \<open>What a replacement does to the two rows.\<close>

definition resource_replaced :: "int \<Rightarrow> scim_attrs \<Rightarrow> string \<Rightarrow> scim_resource \<Rightarrow> scim_resource" where
  "resource_replaced now a uid x = x\<lparr>xr_version := xr_version x + 1, xr_updatedAt := now, xr_scim := scimAttributes a, xr_externalId := external_of a\<rparr>"

lemma replaceUser_rows:
  assumes "xs_replaceUser hash now realm uid a v d = Inr (rec, d')"
  obtains pw u x where "join_user realm (js_lower uid) d = Some (u, x)" "xr_version x = v" "rec = select_user realm (js_lower uid) d'"
    "xd_users d' = map (\<lambda>v. if user_row realm (js_lower uid) v then replaced_row now (coreUser a uid) pw v else v) (xd_users d)"
    "xd_resources d' = map (\<lambda>x. if resource_row realm (js_lower uid) x then resource_replaced now a uid x else x) (xd_resources d)"
proof -
  from assms obtain pw u x d1 d2 where j: "join_user realm (js_lower uid) d = Some (u, x)" "xr_version x = v"
    and up: "write_user now realm (js_lower uid) (coreUser a uid) pw u d = Inr d1" and ext: "set_external realm (js_lower uid) (external_of a) d1 = Inr d2"
    and d': "d' = revokeAccounts realm [uid] d2" "rec = select_user realm (js_lower uid) d'"
    by (rule replaceUser_Inr)
  have us: "xd_users d' = map (\<lambda>v. if user_row realm (js_lower uid) v then replaced_row now (coreUser a uid) pw v else v) (xd_users d)"
    using write_user_Inr(1) [OF up] set_external_Inr(1) [OF ext] by (simp add: d'(1))
  have "cu_extra (coreUser a uid) = scimAttributes a" by (simp add: coreUser_def Let_def)
  then have rs: "xd_resources d' = map (\<lambda>x. if resource_row realm (js_lower uid) x then resource_replaced now a uid x else x) (xd_resources d)"
    using up ext by (auto simp: d'(1) write_user_def set_external_def bump_resource_def Let_def resource_replaced_def row_keys split: if_splits)
  show ?thesis by (rule that [OF j d'(2) us rs])
qed

lemma replaceUser_moves:
  assumes "xs_replaceUser hash now realm uid a v d = Inr (rec, d')"
  shows "user_moves r i d d'"
proof -
  from assms obtain pw where us: "xd_users d' = map (\<lambda>v. if user_row realm (js_lower uid) v then replaced_row now (coreUser a uid) pw v else v) (xd_users d)"
    and rs: "xd_resources d' = map (\<lambda>x. if resource_row realm (js_lower uid) x then resource_replaced now a uid x else x) (xd_resources d)"
    by (rule replaceUser_rows)
  show ?thesis
    by (rule user_movesI [OF us rs]) (auto simp: row_keys resource_replaced_def dest!: join_userD)
qed

lemma deleteUser_moves:
  assumes "xs_deleteUser now realm uid v d = Inr (rec, d')"
  shows "user_moves r i d d'"
proof -
  from assms obtain d1 where d1: "d1 = touch_groups now (\<lambda>g. gw_realm g = realm \<and> (realm, gw_id g, js_lower uid) \<in> set (xd_members d)) d"
    and d': "d' = remove_user realm (js_lower uid) (revokeAccounts realm [uid] d1)" by (rule deleteUser_Inr)
  show ?thesis
  proof (cases "(r, i) = (realm, js_lower uid)")
    case True
    then have "join_user r i d' = None" by (auto simp: d' d1 join_user_def row0_def split: option.splits)
    then show ?thesis by (simp add: user_moves_def)
  next
    case False
    have "join_user r i d' = join_user r i d"
      by (rule join_user_same) (use False in \<open>auto simp: d' d1 row_keys intro!: filter_cong\<close>)
    then show ?thesis by (simp add: user_moves_def)
  qed
qed

text \<open>The same for a group and its members.\<close>

definition group_moves :: "string \<Rightarrow> string \<Rightarrow> scim_db \<Rightarrow> scim_db \<Rightarrow> bool" where
  "group_moves r i d d' \<longleftrightarrow> select_group r i d' = select_group r i d \<or> select_group r i d' = None \<or>
     (\<exists>c c'. select_group r i d = Some c \<and> select_group r i d' = Some c' \<and> sr_version c < sr_version c')"

lemma select_group_same:
  assumes "filter (group_row r i) (xd_groups d') = filter (group_row r i) (xd_groups d)"
    and "filter (\<lambda>m. fst m = r \<and> fst (snd m) = i) (xd_members d') = filter (\<lambda>m. fst m = r \<and> fst (snd m) = i) (xd_members d)"
  shows "select_group r i d' = select_group r i d"
  by (simp add: select_group_def members_of_def assms)

lemma select_group_sync [simp]: "select_group r i (syncUserGroups now realm ids d) = select_group r i d"
  by (rule select_group_same) simp_all

lemma group_movesI:
  assumes "xd_groups d' = map f (xd_groups d)" and "\<And>g. group_row r i (f g) = group_row r i g"
    and "\<And>g. group_row r i g \<Longrightarrow> (f g = g \<and> members_of r i d' = members_of r i d) \<or> gw_version g < gw_version (f g)"
  shows "group_moves r i d d'"
proof (cases "row0 (filter (group_row r i) (xd_groups d))")
  case None
  then show ?thesis by (simp add: group_moves_def select_group_def assms(1) row0_map assms(2))
next
  case (Some g)
  then show ?thesis using assms(3) [of g] row0_Some [OF Some]
    by (auto simp: group_moves_def select_group_def assms(1) row0_map assms(2) scim_rowToGroup_def)
qed

lemma replaced_members_other:
  assumes "replaceMembers realm gid values d = Inr (affected, d1)" "(r, i) \<noteq> (realm, gid)"
  shows "filter (\<lambda>m. fst m = r \<and> fst (snd m) = i) (xd_members d1) = filter (\<lambda>m. fst m = r \<and> fst (snd m) = i) (xd_members d)"
  using assms(2) by (auto simp: replaceMembers_Inr(2) [OF assms(1)] filter_empty_conv intro!: filter_cong)

lemma users_group_moves:
  assumes "xd_groups d' = xd_groups d" "xd_members d' = xd_members d" shows "group_moves r i d d'"
  by (simp add: group_moves_def select_group_def members_of_def assms)

lemma deleteUser_group_moves:
  assumes "xs_deleteUser now realm uid v d = Inr (rec, d')" shows "group_moves r i d d'"
proof -
  from assms obtain d1 where d1: "d1 = touch_groups now (\<lambda>g. gw_realm g = realm \<and> (realm, gw_id g, js_lower uid) \<in> set (xd_members d)) d"
    and d': "d' = remove_user realm (js_lower uid) (revokeAccounts realm [uid] d1)" by (rule deleteUser_Inr)
  let ?P = "\<lambda>g. gw_realm g = realm \<and> (realm, gw_id g, js_lower uid) \<in> set (xd_members d)"
  show ?thesis
  proof (rule group_movesI)
    show "xd_groups d' = map (\<lambda>g. if ?P g then g\<lparr>gw_version := gw_version g + 1, gw_updatedAt := now\<rparr> else g) (xd_groups d)"
      by (simp add: d' d1) (simp add: touch_groups_def)
    show "group_row r i (if ?P g then g\<lparr>gw_version := gw_version g + 1, gw_updatedAt := now\<rparr> else g) = group_row r i g" for g
      by (simp add: group_row_def)
    show "((if ?P g then g\<lparr>gw_version := gw_version g + 1, gw_updatedAt := now\<rparr> else g) = g \<and> members_of r i d' = members_of r i d) \<or>
        gw_version g < gw_version (if ?P g then g\<lparr>gw_version := gw_version g + 1, gw_updatedAt := now\<rparr> else g)" if "group_row r i g" for g
    proof (cases "?P g")
      case False
      then have "members_of r i d' = members_of r i d"
        using that by (auto simp: d' d1 members_of_def group_row_def intro!: arg_cong [where f = "map _"] filter_cong)
      then show ?thesis using False by simp
    qed simp
  qed
qed

lemma createGroup_moves:
  assumes "xs_createGroup now uuid realm a d = Inr (rec, d')" "(r, i) \<noteq> (realm, uuid)" shows "group_moves r i d d'"
proof -
  from assms(1) obtain row affected d1 where row: "gw_realm row = realm" "gw_id row = uuid"
    and rm: "replaceMembers realm uuid (member_ids a) (d\<lparr>xd_groups := xd_groups d @ [row]\<rparr>) = Inr (affected, d1)"
    and d': "d' = syncUserGroups now realm affected d1" by (rule createGroup_Inr)
  have "select_group r i d1 = select_group r i d"
  proof (rule select_group_same)
    show "filter (group_row r i) (xd_groups d1) = filter (group_row r i) (xd_groups d)"
      using row assms(2) by (auto simp: replaceMembers_Inr(5) [OF rm] group_row_def)
  qed (simp add: replaced_members_other [OF rm assms(2)])
  then show ?thesis by (simp add: d' group_moves_def)
qed

lemma hit_first:
  assumes "row0 (filter (\<lambda>h. group_row realm i h \<and> gw_version h = v) gs) = Some g" "distinct (map group_key gs)"
  shows "row0 (filter (group_row realm i) gs) = Some g" "group_row realm i g" "gw_version g = v"
proof -
  show g: "group_row realm i g" "gw_version g = v" using row0_Some [OF assms(1)] by simp_all
  show "row0 (filter (group_row realm i) gs) = Some g"
  proof (rule row0_unique)
    show "g \<in> set gs" using row0_Some [OF assms(1)] by simp
    show "h = g" if "h \<in> set gs" "group_row realm i h" for h
      by (rule inj_onD [of group_key "set gs"]) (use assms(2) that g row0_Some [OF assms(1)] in \<open>auto simp: distinct_map row_keys\<close>)
  qed (rule g)
qed

lemma replaceGroup_select:
  assumes "xs_replaceGroup now realm gid a v d = Inr (rec, d')" "distinct (map group_key (xd_groups d))"
  obtains g ms ms' where "select_group realm (js_lower gid) d = Some (scim_rowToGroup g ms)" "gw_version g = v"
    "select_group realm (js_lower gid) d' = Some (scim_rowToGroup (regrouped now a g) ms')" "rec = select_group realm (js_lower gid) d'"
proof -
  let ?hit = "\<lambda>h. group_row realm (js_lower gid) h \<and> gw_version h = v"
  from assms(1) obtain g affected d1 where hit: "row0 (filter ?hit (xd_groups d)) = Some g"
    and rm: "replaceMembers realm (js_lower gid) (member_ids a) (d\<lparr>xd_groups := map (\<lambda>h. if ?hit h then regrouped now a h else h) (xd_groups d)\<rparr>) = Inr (affected, d1)"
    and d': "d' = syncUserGroups now realm affected d1" "rec = select_group realm (js_lower gid) d'" by (rule replaceGroup_Inr)
  note first = hit_first [OF hit assms(2)]
  have "row0 (filter (group_row realm (js_lower gid)) (map (\<lambda>h. if ?hit h then regrouped now a h else h) (xd_groups d))) =
      map_option (\<lambda>h. if ?hit h then regrouped now a h else h) (row0 (filter (group_row realm (js_lower gid)) (xd_groups d)))"
    by (rule row0_map) (simp add: group_row_def)
  then have "row0 (filter (group_row realm (js_lower gid)) (xd_groups d1)) = Some (regrouped now a g)"
    using first by (simp add: replaceMembers_Inr(5) [OF rm])
  then have "select_group realm (js_lower gid) d' = Some (scim_rowToGroup (regrouped now a g) (sort_by str_le (members_of realm (js_lower gid) d1)))"
    unfolding d'(1) select_group_sync by (simp add: select_group_def)
  moreover have "select_group realm (js_lower gid) d = Some (scim_rowToGroup g (sort_by str_le (members_of realm (js_lower gid) d)))"
    using first(1) by (simp add: select_group_def)
  ultimately show ?thesis using that first(3) d'(2) by blast
qed

lemma replaceGroup_moves:
  assumes "xs_replaceGroup now realm gid a v d = Inr (rec, d')" "distinct (map group_key (xd_groups d))" shows "group_moves r i d d'"
proof -
  let ?hit = "\<lambda>h. group_row realm (js_lower gid) h \<and> gw_version h = v"
  from assms(1) obtain g affected d1 where hit: "row0 (filter ?hit (xd_groups d)) = Some g"
    and rm: "replaceMembers realm (js_lower gid) (member_ids a) (d\<lparr>xd_groups := map (\<lambda>h. if ?hit h then regrouped now a h else h) (xd_groups d)\<rparr>) = Inr (affected, d1)"
    and d': "d' = syncUserGroups now realm affected d1" by (rule replaceGroup_Inr)
  show ?thesis
  proof (cases "(r, i) = (realm, js_lower gid)")
    case False
    have "select_group r i d1 = select_group r i d"
    proof (rule select_group_same)
      have "filter (group_row r i) (map (\<lambda>h. if ?hit h then regrouped now a h else h) gs) = filter (group_row r i) gs" for gs
        using False by (induction gs) (auto simp: group_row_def)
      then show "filter (group_row r i) (xd_groups d1) = filter (group_row r i) (xd_groups d)" by (simp add: replaceMembers_Inr(5) [OF rm])
    qed (simp add: replaced_members_other [OF rm False])
    then show ?thesis by (simp add: d' group_moves_def)
  next
    case True
    from assms obtain g ms ms' where "select_group realm (js_lower gid) d = Some (scim_rowToGroup g ms)"
      "select_group realm (js_lower gid) d' = Some (scim_rowToGroup (regrouped now a g) ms')" by (rule replaceGroup_select)
    then show ?thesis using True by (simp add: group_moves_def) (simp add: scim_rowToGroup_def regrouped_def)
  qed
qed

lemma deleteGroup_moves:
  assumes "xs_deleteGroup now realm gid v d = Inr (rec, d')" shows "group_moves r i d d'"
proof -
  from assms obtain d1 where d1: "d1 = d\<lparr>xd_groups := filter (\<lambda>h. \<not> group_row realm (js_lower gid) h) (xd_groups d),
      xd_members := filter (\<lambda>m. \<not> (fst m = realm \<and> fst (snd m) = js_lower gid)) (xd_members d)\<rparr>"
    and d': "d' = syncUserGroups now realm (sort_by str_le (members_of realm (js_lower gid) d)) d1" by (rule deleteGroup_Inr)
  show ?thesis
  proof (cases "(r, i) = (realm, js_lower gid)")
    case True
    then show ?thesis by (simp add: d' d1 group_moves_def select_group_def row0_def)
  next
    case False
    have "select_group r i d1 = select_group r i d"
      by (rule select_group_same) (use False in \<open>auto simp: d1 group_row_def intro!: filter_cong\<close>)
    then show ?thesis by (simp add: d' group_moves_def)
  qed
qed

section \<open>The contract\<close>

text \<open>A write with the resource it addresses and the version it expects.\<close>

definition created_id :: "scim_write \<Rightarrow> string option" where
  "created_id w = (case w of CreateUser _ uuid _ _ \<Rightarrow> Some uuid | CreateGroup _ uuid _ _ \<Rightarrow> Some uuid | _ \<Rightarrow> None)"

definition expects :: "scim_write \<Rightarrow> nat option" where
  "expects w = (case w of ReplaceUser _ _ _ _ v \<Rightarrow> Some v | DeleteUser _ _ _ v \<Rightarrow> Some v | ReplaceGroup _ _ _ _ v \<Rightarrow> Some v
     | DeleteGroup _ _ _ v \<Rightarrow> Some v | _ \<Rightarrow> None)"

definition aims_at :: "scim_write \<Rightarrow> scim_db \<Rightarrow> scim_record option" where
  "aims_at w d = (case w of ReplaceUser _ realm uid _ _ \<Rightarrow> xs_getUser realm uid d | DeleteUser _ realm uid _ \<Rightarrow> xs_getUser realm uid d
     | ReplaceGroup _ realm gid _ _ \<Rightarrow> xs_getGroup realm gid d | DeleteGroup _ realm gid _ \<Rightarrow> xs_getGroup realm gid d | _ \<Rightarrow> None)"

definition address :: "scim_write \<Rightarrow> string" where
  "address w = (case w of ReplaceUser _ _ uid _ _ \<Rightarrow> uid | DeleteUser _ _ uid _ \<Rightarrow> uid | ReplaceGroup _ _ gid _ _ \<Rightarrow> gid
     | DeleteGroup _ _ gid _ \<Rightarrow> gid | _ \<Rightarrow> [])"

text \<open>Any write of any client that does not happen to create a resource with the identifier \<open>i\<close>.\<close>

definition pg_step :: "string \<Rightarrow> scim_db \<Rightarrow> scim_db \<Rightarrow> bool" where
  "pg_step i d d' \<longleftrightarrow> (\<exists>hash disabled w r. created_id w \<noteq> Some (js_lower i) \<and> map_option js_lower (created_id w) = created_id w \<and>
     pg_serve hash disabled w d = Inr (r, d'))"

definition pg_others :: "string \<times> string \<Rightarrow> scim_db \<Rightarrow> scim_db \<Rightarrow> bool" where
  "pg_others k d d' \<longleftrightarrow> scim_pg_ok d \<and> pg_step (snd k) d d'"

lemma pg_others_star:
  assumes "scim_pg_ok d" "(pg_step (snd k))\<^sup>*\<^sup>* d d'" shows "(pg_others k)\<^sup>*\<^sup>* d d' \<and> scim_pg_ok d'"
  using assms(2)
proof (induction rule: rtranclp_induct)
  case (step x y)
  then obtain hash disabled w r where w: "map_option js_lower (created_id w) = created_id w" "pg_serve hash disabled w x = Inr (r, y)"
    by (auto simp: pg_step_def)
  then have "scim_pg_ok y" using step.IH by (intro pg_serve_ok [OF _ w(2)]) (auto simp: created_id_def)
  then show ?case using step by (auto simp: pg_others_def intro: rtranclp.rtrancl_into_rtrancl)
qed (use assms(1) in simp)

definition user_pg_at :: "string \<times> string \<Rightarrow> scim_db \<Rightarrow> scim_record option" where
  "user_pg_at k d = xs_getUser (fst k) (snd k) d"

definition group_pg_at :: "string \<times> string \<Rightarrow> scim_db \<Rightarrow> scim_record option" where
  "group_pg_at k d = xs_getGroup (fst k) (snd k) d"

definition with_record :: "scim_error + ('r option \<times> 's) \<Rightarrow> scim_error + ('r \<times> 's)" where
  "with_record x = (case x of Inr (Some r, d) \<Rightarrow> Inr (r, d) | Inr (None, d) \<Rightarrow> Inl NOT_FOUND | Inl e \<Rightarrow> Inl e)"

lemma with_record_Inr [simp]: "with_record x = Inr (r, d) \<longleftrightarrow> x = Inr (Some r, d)"
  by (auto simp: with_record_def split: sum.splits option.splits)

definition replace_user_pg where
  "replace_user_pg = (\<lambda>(hash, now) k a v d. with_record (xs_replaceUser hash now (fst k) (snd k) a v d))"

definition replace_group_pg where
  "replace_group_pg now k a v d = (if scim_pg_ok d then with_record (xs_replaceGroup now (fst k) (snd k) a v d) else Inl NOT_FOUND)"

lemma serve_user_moves:
  assumes "pg_serve hash disabled w d = Inr (x, d')" "created_id w \<noteq> Some i" shows "user_moves r i d d'"
proof (cases w)
  case (CreateUser now uuid realm a)
  then show ?thesis using assms createUser_moves by (auto simp: created_id_def)
next
  case (ReplaceUser now realm uid a v)
  then show ?thesis using assms replaceUser_moves by auto
next
  case (DeleteUser now realm uid v)
  then show ?thesis using assms deleteUser_moves by auto
next
  case (CreateGroup now uuid realm a)
  then have "xs_createGroup now uuid realm a d = Inr (x, d')" using assms by simp
  then obtain row affected d1 where rm: "replaceMembers realm uuid (member_ids a) (d\<lparr>xd_groups := xd_groups d @ [row]\<rparr>) = Inr (affected, d1)"
    and d': "d' = syncUserGroups now realm affected d1" by (rule createGroup_Inr)
  show ?thesis unfolding d' by (rule user_moves_trans_same [OF _ sync_moves]) (simp add: join_user_def replaceMembers_Inr(3,4) [OF rm])
next
  case (ReplaceGroup now realm gid a v)
  then have "xs_replaceGroup now realm gid a v d = Inr (x, d')" using assms by simp
  then obtain g affected d1 where rm: "replaceMembers realm (js_lower gid) (member_ids a) (d\<lparr>xd_groups := map (\<lambda>h. if group_row realm (js_lower gid) h \<and> gw_version h = v
        then regrouped now a h else h) (xd_groups d)\<rparr>) = Inr (affected, d1)"
    and d': "d' = syncUserGroups now realm affected d1" by (rule replaceGroup_Inr)
  show ?thesis unfolding d' by (rule user_moves_trans_same [OF _ sync_moves]) (simp add: join_user_def replaceMembers_Inr(3,4) [OF rm])
next
  case (DeleteGroup now realm gid v)
  then have "xs_deleteGroup now realm gid v d = Inr (x, d')" using assms by simp
  then obtain d1 where d1: "d1 = d\<lparr>xd_groups := filter (\<lambda>h. \<not> group_row realm (js_lower gid) h) (xd_groups d),
      xd_members := filter (\<lambda>m. \<not> (fst m = realm \<and> fst (snd m) = js_lower gid)) (xd_members d)\<rparr>"
    and d': "d' = syncUserGroups now realm (sort_by str_le (members_of realm (js_lower gid) d)) d1" by (rule deleteGroup_Inr)
  show ?thesis unfolding d' by (rule user_moves_trans_same [OF _ sync_moves]) (simp add: join_user_def d1)
qed

lemma serve_group_moves:
  assumes "pg_serve hash disabled w d = Inr (x, d')" "created_id w \<noteq> Some i" "scim_pg_ok d" shows "group_moves r i d d'"
proof (cases w)
  case (CreateUser now uuid realm a)
  then obtain row extra d1 where ins: "insert_user row extra d = Inr d1" and ext: "set_external realm uuid (external_of a) d1 = Inr d'"
    using assms(1) by (auto simp: xs_createUser_def Let_def)
  show ?thesis by (rule users_group_moves) (simp_all add: set_external_Inr [OF ext] insert_user_Inr [OF ins])
next
  case (ReplaceUser now realm uid a v)
  then have "xs_replaceUser hash now realm uid a v d = Inr (x, d')" using assms(1) by simp
  then obtain "xd_groups d' = xd_groups d" "xd_members d' = xd_members d" by (rule replaceUser_tables)
  then show ?thesis by (rule users_group_moves)
next
  case (DeleteUser now realm uid v)
  then show ?thesis using assms deleteUser_group_moves by auto
next
  case (CreateGroup now uuid realm a)
  then show ?thesis using assms createGroup_moves by (auto simp: created_id_def)
next
  case (ReplaceGroup now realm gid a v)
  then show ?thesis using assms(1) replaceGroup_moves scim_pg_okD(5) [OF assms(3)] by auto
next
  case (DeleteGroup now realm gid v)
  then show ?thesis using assms deleteGroup_moves by auto
qed

lemma replaceUser_bumps:
  assumes "xs_replaceUser hash now realm uid a v d = Inr (r, d')"
  shows "\<exists>c c'. xs_getUser realm uid d = Some c \<and> sr_version c = v \<and> r = Some c' \<and> xs_getUser realm uid d' = r \<and> sr_version c' = Suc v"
proof -
  have uuid: "uuid_re uid" using assms by (auto simp: xs_replaceUser_def)
  from assms obtain pw u x where j: "join_user realm (js_lower uid) d = Some (u, x)" "xr_version x = v"
    and r: "r = select_user realm (js_lower uid) d'"
    and us: "xd_users d' = map (\<lambda>v. if user_row realm (js_lower uid) v then replaced_row now (coreUser a uid) pw v else v) (xd_users d)"
    and rs: "xd_resources d' = map (\<lambda>x. if resource_row realm (js_lower uid) x then resource_replaced now a uid x else x) (xd_resources d)"
    by (rule replaceUser_rows)
  have "join_user realm (js_lower uid) d' = Some (replaced_row now (coreUser a uid) pw u, resource_replaced now a uid x)"
    using j(1) join_userD [OF j(1)] by (subst join_user_map [OF us rs]) (auto simp: row_keys resource_replaced_def)
  then show ?thesis using uuid j r by (auto simp: xs_getUser_def select_user_def scim_rowToUser_def resource_replaced_def)
qed

lemma replaceGroup_bumps:
  assumes "xs_replaceGroup now realm gid a v d = Inr (r, d')" "scim_pg_ok d"
  shows "\<exists>c c'. xs_getGroup realm gid d = Some c \<and> sr_version c = v \<and> r = Some c' \<and> xs_getGroup realm gid d' = r \<and> sr_version c' = Suc v"
proof -
  have "uuid_re gid" using assms(1) by (auto simp: xs_replaceGroup_def)
  moreover from assms(1) scim_pg_okD(5) [OF assms(2)] obtain g ms ms' where
    "select_group realm (js_lower gid) d = Some (scim_rowToGroup g ms)" "gw_version g = v"
    "select_group realm (js_lower gid) d' = Some (scim_rowToGroup (regrouped now a g) ms')" "r = select_group realm (js_lower gid) d'"
    by (rule replaceGroup_select)
  ultimately show ?thesis by (simp add: xs_getGroup_def) (simp add: scim_rowToGroup_def regrouped_def)
qed

interpretation scim_pg_users: versioned_store user_pg_at sr_version replace_user_pg pg_others
proof (unfold_locales, goal_cases)
  case (1 t k a v s r s')
  then show ?case by (auto simp: replace_user_pg_def user_pg_at_def split: prod.splits dest!: replaceUser_bumps)
next
  case (2 k s s')
  then obtain hash disabled w x where w: "pg_serve hash disabled w s = Inr (x, s')" "created_id w \<noteq> Some (js_lower (snd k))"
    by (auto simp: pg_others_def pg_step_def)
  from serve_user_moves [OF w, of "fst k"] show ?case
    by (auto simp: user_moves_def user_pg_at_def xs_getUser_def select_user_def scim_rowToUser_def)
qed

interpretation scim_pg_groups: versioned_store group_pg_at sr_version replace_group_pg pg_others
proof (unfold_locales, goal_cases)
  case (1 t k a v s r s')
  then show ?case by (auto simp: replace_group_pg_def group_pg_at_def split: if_splits dest!: replaceGroup_bumps)
next
  case (2 k s s')
  then obtain hash disabled w x where w: "pg_serve hash disabled w s = Inr (x, s')" "created_id w \<noteq> Some (js_lower (snd k))"
    and ok: "scim_pg_ok s" by (auto simp: pg_others_def pg_step_def)
  from serve_group_moves [OF w ok, of "fst k"] show ?case
    by (auto simp: group_moves_def group_pg_at_def xs_getGroup_def)
qed

lemma deleteUser_expects:
  assumes "xs_deleteUser now realm uid v d = Inr (r, d')"
  shows "\<exists>c. xs_getUser realm uid d = Some c \<and> sr_version c = v \<and> r = Some c \<and> xs_getUser realm uid d' = None"
proof -
  from assms obtain u x d1 where j: "join_user realm (js_lower uid) d = Some (u, x)" "xr_version x = v"
    and d': "d' = remove_user realm (js_lower uid) (revokeAccounts realm [uid] d1)" by (rule deleteUser_Inr)
  have "uuid_re uid" "r = Some (scim_rowToUser u x)" using assms j by (auto simp: xs_deleteUser_def)
  moreover have "join_user realm (js_lower uid) d' = None" by (auto simp: d' join_user_def row0_def split: option.splits)
  ultimately show ?thesis using j by (auto simp: xs_getUser_def select_user_def scim_rowToUser_def)
qed

lemma deleteGroup_expects:
  assumes "xs_deleteGroup now realm gid v d = Inr (r, d')"
  shows "\<exists>c. xs_getGroup realm gid d = Some c \<and> sr_version c = v \<and> r = Some c \<and> xs_getGroup realm gid d' = None"
proof -
  from assms obtain g where g: "uuid_re gid" "row0 (filter (group_row realm (js_lower gid)) (xd_groups d)) = Some g" "gw_version g = v"
      "r = Some (scim_rowToGroup g (sort_by str_le (members_of realm (js_lower gid) d)))"
    by (auto simp: xs_deleteGroup_def Let_def split: option.splits)
  from assms obtain d1 where d1: "d1 = d\<lparr>xd_groups := filter (\<lambda>h. \<not> group_row realm (js_lower gid) h) (xd_groups d),
      xd_members := filter (\<lambda>m. \<not> (fst m = realm \<and> fst (snd m) = js_lower gid)) (xd_members d)\<rparr>"
    and d': "d' = syncUserGroups now realm (sort_by str_le (members_of realm (js_lower gid) d)) d1" by (rule deleteGroup_Inr)
  have "select_group realm (js_lower gid) d' = None"
    unfolding d' select_group_sync by (simp add: d1 select_group_def row0_def)
  moreover have "select_group realm (js_lower gid) d = r" using g by (simp add: select_group_def)
  ultimately show ?thesis using g by (simp add: xs_getGroup_def scim_rowToGroup_def)
qed


definition kim_write :: scim_write where
  "kim_write = ReplaceGroup 9 ''main'' ops_id [(''displayName'', JStr ''Operators''), (''members'', JArr [])] 1"

definition kim_other :: scim_write where
  "kim_other = CreateGroup 8 ''c0000000-0000-4000-8000-000000000003'' ''main'' [(''displayName'', JStr ''Dev'')]"

definition kim_later :: scim_db where
  "kim_later = scim_run (\<lambda>p. p) ''off'' [kim_other] kim_db"

lemma kim_writes:
  "map_option sr_version (aims_at kim_write kim_db) = Some 1"
  "(case pg_serve (\<lambda>p. p) ''off'' kim_other kim_db of
      Inl _ \<Rightarrow> False | Inr _ \<Rightarrow> True)"
  "(case pg_serve (\<lambda>p. p) ''off'' kim_write kim_later of Inl _ \<Rightarrow> False | Inr _ \<Rightarrow> True)"
  by code_simp+

lemma kim_ids: "created_id kim_other \<noteq> Some (js_lower (address kim_write))" "map_option js_lower (created_id kim_other) = created_id kim_other"
  by code_simp+


end
