(* ===== verification/PgFederation.thy ===== *)
theory PgFederation
  imports FederatedIdentity ExtensionRegistry
begin

text \<open>
  The PostgreSQL repository of external identities (\<open>PostgresFederatedIdentityRepository\<close> in
  \<open>src/repositories/federated-identity-repository.js\<close>) over the table of \<open>migrations/004_federated_identities.sql\<close>, and its
  refinement of the in-memory one. A statement or transaction is one step; \<open>ORDER BY\<close> on text is the collation \<open>C\<close>. The
  realm of an identity exists. The \<open>CHECK\<close> constraints of the links repeat what \<open>normalize\<close> demands; those of the accounts
  are written out, because nothing before the statement ensures a display name.
\<close>

section \<open>Tables\<close>

record fed_row =
  fw_key :: fed_key
  fw_userId :: string
  fw_profile :: fed_profile
  fw_createdAt :: int
  fw_updatedAt :: int
  fw_lastLoginAt :: "int option"

record fed_db =
  fd_db :: pgdb
  fd_links :: "fed_row list"

definition fw_realm :: "fed_row \<Rightarrow> string" where "fw_realm r = fst (fw_key r)"
definition fw_provider :: "fed_row \<Rightarrow> string" where "fw_provider r = fst (snd (fw_key r))"
definition fw_issuer :: "fed_row \<Rightarrow> string" where "fw_issuer r = fst (snd (snd (fw_key r)))"

definition rowLink :: "fed_row \<Rightarrow> public_link" where
  "rowLink r = \<lparr>pb_key = fw_key r, pb_userId = fw_userId r, pb_createdAt = fw_createdAt r, pb_updatedAt = fw_updatedAt r,
     pb_lastLoginAt = fw_lastLoginAt r\<rparr>"

text \<open>What goes wrong: an error of \<open>normalize\<close>, or the code of an SQL error.\<close>

datatype pf_error = Fed fed_error | Sql_code string

text \<open>\<open>#user\<close>; the pending enrolment is not among the properties it copies.\<close>

definition pf_user :: "string \<Rightarrow> string \<Rightarrow> pgdb \<Rightarrow> user option" where
  "pf_user realm uid d =
     map_option (\<lambda>u. u\<lparr>u_pendingTotpSecret := None, u_pendingTotpCreatedAt := None\<rparr>) (row0 (filter (user_row realm uid) (pg_users d)))"

section \<open>Signing in\<close>

text \<open>The \<open>UPDATE\<close> of a link joined with its account.\<close>

definition signed_in :: "int \<Rightarrow> fed_identity \<Rightarrow> fed_row \<Rightarrow> fed_row" where
  "signed_in now i r = r\<lparr>fw_profile := fi_profile i, fw_lastLoginAt := Some now, fw_updatedAt := now\<rparr>"

definition link_account :: "fed_db \<Rightarrow> fed_row \<Rightarrow> user option" where
  "link_account d r = row0 (filter (user_row (fw_realm r) (fw_userId r)) (pg_users (fd_db d)))"

definition link_hit :: "fed_identity \<Rightarrow> fed_db \<Rightarrow> fed_row \<Rightarrow> bool" where
  "link_hit i d r \<longleftrightarrow> fw_key r = fed_key_of i \<and> link_account d r \<noteq> None"

definition pf_existing :: "int \<Rightarrow> fed_identity \<Rightarrow> fed_db \<Rightarrow> fed_result option \<times> fed_db" where
  "pf_existing now i d =
     (case row0 (filter (link_hit i d) (fd_links d)) of
        None \<Rightarrow> (None, d)
      | Some r \<Rightarrow>
          (Some \<lparr>fr_status = (if (case link_account d r of Some u \<Rightarrow> u_enabled u | None \<Rightarrow> False) then Resolved else Disabled),
                 fr_user = pf_user (fi_realm i) (fw_userId r) (fd_db d), fr_link = Some (rowLink (signed_in now i r))\<rparr>,
           d\<lparr>fd_links := map (\<lambda>r. if link_hit i d r then signed_in now i r else r) (fd_links d)\<rparr>))"

definition pf_collision :: "fed_identity \<Rightarrow> fed_db \<Rightarrow> user option" where
  "pf_collision i d =
     (let wanted = set (map js_lower [fp_username (fi_profile i), fp_email (fi_profile i)]) in
      row0 (filter (\<lambda>u. u_realm u = fi_realm i \<and> (js_lower (u_username u) \<in> wanted \<or> js_lower (u_email u) \<in> wanted)) (pg_users (fd_db d))))"

definition pf_row :: "int \<Rightarrow> string \<Rightarrow> string option \<Rightarrow> fed_identity \<Rightarrow> user" where
  "pf_row now userId disabledHash i =
     (let p = fi_profile i in
      \<lparr>u_id = userId, u_realm = fi_realm i, u_username = fp_username p,
       u_email = (if fp_email p = [] then syntheticEmail userId else fp_email p), u_emailVerified = fp_emailVerified p,
       u_name = fp_name p, u_givenName = fp_givenName p, u_familyName = fp_familyName p, u_enabled = True, u_securityVersion = 0,
       u_passwordHash = disabledHash, u_roles = fp_roles p, u_groups = fp_groups p, u_clientRoles = [], u_totpSecret = None,
       u_totpConfirmed = False, u_pendingTotpSecret = None, u_pendingTotpCreatedAt = None, u_recoveryCodeHashes = [],
       u_lastTotpStep = None, u_failedAttempts = 0, u_lockedUntil = None, u_createdAt = now, u_updatedAt = now, u_lastLoginAt = None\<rparr>)"

text \<open>\<open>length(btrim(x)) > 0\<close>.\<close>

definition sql_present :: "string \<Rightarrow> bool" where "sql_present t \<longleftrightarrow> \<not> list_all (\<lambda>c. c = CHR '' '') t"

text \<open>
  \<open>INSERT INTO users\<close>: first the trigger compares the logins with those of the other accounts, then come the \<open>CHECK\<close>
  constraints, then the indexes.
\<close>

definition insert_account :: "user \<Rightarrow> pgdb \<Rightarrow> pf_error + pgdb" where
  "insert_account u d =
     bindR (guardR (\<not> pg_login_conflict (filter (\<lambda>x. u_id x \<noteq> u_id u) (pg_users d)) u) (Sql_code ''23505'')) (\<lambda>_.
     bindR (guardR (sql_present (u_username u) \<and> sql_present (u_email u) \<and> sql_present (u_name u)) (Sql_code ''23514'')) (\<lambda>_.
     bindR (guardR (\<not> pg_login_conflict (pg_users d) u) (Sql_code ''23505'')) (\<lambda>_.
       Inr (d\<lparr>pg_users := pg_users d @ [u]\<rparr>))))"

text \<open>The unique indexes of the links: the four-part key, and one link per account, provider and issuer.\<close>

definition same_link :: "fed_row \<Rightarrow> fed_row \<Rightarrow> bool" where
  "same_link r r' \<longleftrightarrow> fw_realm r = fw_realm r' \<and> fw_userId r = fw_userId r' \<and> fw_provider r = fw_provider r' \<and> fw_issuer r = fw_issuer r'"

definition new_link :: "int \<Rightarrow> int option \<Rightarrow> fed_identity \<Rightarrow> string \<Rightarrow> fed_row" where
  "new_link now login i userId = \<lparr>fw_key = fed_key_of i, fw_userId = userId, fw_profile = fi_profile i, fw_createdAt = now, fw_updatedAt = now,
     fw_lastLoginAt = login\<rparr>"

definition link_conflict :: "fed_row \<Rightarrow> fed_row list \<Rightarrow> bool" where
  "link_conflict r t \<longleftrightarrow> (\<exists>x\<in>set t. fw_key x = fw_key r \<or> same_link x r)"

definition pf_create :: "int \<Rightarrow> string \<Rightarrow> string option \<Rightarrow> fed_identity \<Rightarrow> fed_db \<Rightarrow> (pf_error + fed_result) \<times> fed_db" where
  "pf_create now userId disabledHash i d =
     (let link = new_link now (Some now) i userId in
      case bindR (insert_account (pf_row now userId disabledHash i) (fd_db d)) (\<lambda>db.
           bindR (guardR (\<not> link_conflict link (fd_links d)) (Sql_code ''23505'')) (\<lambda>_. Inr db)) of
        Inl e \<Rightarrow> (if e = Sql_code ''23505'' then Inr \<lparr>fr_status = LinkRequired, fr_user = None, fr_link = None\<rparr> else Inl e, d)
      | Inr db \<Rightarrow> (Inr \<lparr>fr_status = Created, fr_user = pf_user (fi_realm i) userId db, fr_link = Some (rowLink link)\<rparr>,
                   \<lparr>fd_db = db, fd_links = fd_links d @ [link]\<rparr>))"

definition pf_resolve :: "int \<Rightarrow> string \<Rightarrow> string option \<Rightarrow> json \<Rightarrow> fed_db \<Rightarrow> (pf_error + fed_result) \<times> fed_db" where
  "pf_resolve now userId disabledHash input d =
     (case fed_normalize input of
        Inl e \<Rightarrow> (Inl (Fed e), d)
      | Inr i \<Rightarrow>
          (case pf_existing now i d of
             (Some r, d') \<Rightarrow> (Inr r, d')
           | (None, d') \<Rightarrow>
               if \<not> fi_allowCreate i then (Inr \<lparr>fr_status = NotFound, fr_user = None, fr_link = None\<rparr>, d')
               else (case pf_collision i d' of
                       Some u \<Rightarrow> (Inr \<lparr>fr_status = LinkRequired, fr_user = pf_user (fi_realm i) (u_id u) (fd_db d'), fr_link = None\<rparr>, d')
                     | None \<Rightarrow> pf_create now userId disabledHash i d')))"

section \<open>Linking by an administrator\<close>

text \<open>\<open>INSERT ... ON CONFLICT\<close> on the key \<open>DO UPDATE ... WHERE existing.user_id = EXCLUDED.user_id\<close>.\<close>

definition pf_link :: "int \<Rightarrow> json \<Rightarrow> fed_db \<Rightarrow> pf_error + (fed_result \<times> fed_db)" where
  "pf_link now input d =
     bindR (case fed_normalize (with_profile input) of Inl e \<Rightarrow> Inl (Fed e) | Inr i \<Rightarrow> Inr i) (\<lambda>i.
     bindR (guardR (uuid_re (fed_str (jprop input ''userId''))) (Fed (FED_INVALID ''userId''))) (\<lambda>_.
       let uid = js_lower (fed_str (jprop input ''userId'')); link = new_link now None i uid;
           conflict = Inr (\<lparr>fr_status = Conflict, fr_user = None, fr_link = None\<rparr>, d) in
       if filter (user_row (fi_realm i) uid) (pg_users (fd_db d)) = []
       then Inr (\<lparr>fr_status = NotFound, fr_user = None, fr_link = None\<rparr>, d)
       else (case row0 (filter (\<lambda>r. fw_key r = fed_key_of i) (fd_links d)) of
          Some r \<Rightarrow>
            if fw_userId r = uid
            then Inr (\<lparr>fr_status = Linked, fr_user = None, fr_link = Some (rowLink (r\<lparr>fw_updatedAt := now\<rparr>))\<rparr>,
                      d\<lparr>fd_links := map (\<lambda>r. if fw_key r = fed_key_of i then r\<lparr>fw_updatedAt := now\<rparr> else r) (fd_links d)\<rparr>)
            else conflict
        | None \<Rightarrow>
            if link_conflict link (fd_links d) then conflict
            else Inr (\<lparr>fr_status = Linked, fr_user = None, fr_link = Some (rowLink link)\<rparr>, d\<lparr>fd_links := fd_links d @ [link]\<rparr>))))"

definition link_le :: "fed_row \<Rightarrow> fed_row \<Rightarrow> bool" where
  "link_le a b \<longleftrightarrow> (if fw_provider a = fw_provider b then str_le (fw_issuer a) (fw_issuer b) else str_le (fw_provider a) (fw_provider b))"

definition pf_list :: "string \<Rightarrow> string \<Rightarrow> fed_db \<Rightarrow> public_link list" where
  "pf_list realm userId d = map rowLink (sort_by link_le (filter (\<lambda>r. fw_realm r = realm \<and> fw_userId r = userId) (fd_links d)))"

definition pf_unlink :: "string \<Rightarrow> string \<Rightarrow> string \<Rightarrow> string \<Rightarrow> fed_db \<Rightarrow> public_link option \<times> fed_db" where
  "pf_unlink realm userId providerId issuer d =
     (let (gone, rest) = sql_delete (\<lambda>r. fw_realm r = realm \<and> fw_userId r = userId \<and> fw_provider r = providerId \<and> fw_issuer r = issuer) (fd_links d)
      in (map_option rowLink (row0 gone), d\<lparr>fd_links := rest\<rparr>))"

text \<open>\<open>DELETE FROM users\<close> cascades to the links.\<close>

definition pf_deleteUser :: "int \<Rightarrow> string \<Rightarrow> string \<Rightarrow> fed_db \<Rightarrow> user option \<times> fed_db" where
  "pf_deleteUser now realm uid d =
     (let (r, db) = pg_deleteUser now realm uid (fd_db d)
      in (r, \<lparr>fd_db = db, fd_links = filter (\<lambda>l. \<not> (fw_realm l = realm \<and> fw_userId l = uid)) (fd_links d)\<rparr>))"

end
