(* ===== verification/PgFederationProps.thy ===== *)
theory PgFederationProps
  imports PgFederation
begin

text \<open>
  The PostgreSQL repository of external identities refines the in-memory one. The one difference in the states is that a
  deleted account takes its links with it, while the memory keeps them until somebody signs in with them: the rows are the
  links whose account is alive.
\<close>

section \<open>Related states\<close>

definition link_row :: "fed_link \<Rightarrow> fed_row" where
  "link_row l = \<lparr>fw_key = fed_key_of (ln_identity l), fw_userId = ln_userId l, fw_profile = fi_profile (ln_identity l),
     fw_createdAt = ln_createdAt l, fw_updatedAt = ln_updatedAt l, fw_lastLoginAt = ln_lastLoginAt l\<rparr>"

definition alive :: "store \<Rightarrow> fed_link \<Rightarrow> bool" where
  "alive s l \<longleftrightarrow> findUserById (fi_realm (ln_identity l)) (ln_userId l) s \<noteq> None"

definition live_rows :: "fed_state \<Rightarrow> fed_row list" where
  "live_rows st = map link_row (filter (alive (fs_store st)) (mvals (fs_links st)))"

definition fed_rel :: "fed_state \<Rightarrow> fed_db \<Rightarrow> bool" where
  "fed_rel st d \<longleftrightarrow> pg_rel (fs_store st) (fd_db d) \<and> fd_links d = live_rows st \<and>
     list_all (\<lambda>u. u_username u \<noteq> [] \<and> u_email u \<noteq> []) (pg_users (fd_db d))"

lemma in_mvals_mset: "x \<in> set (mvals (mset' k v m)) \<Longrightarrow> x = v \<or> x \<in> set (mvals m)"
  by (induction m) (auto split: if_splits)

lemma in_mvals_mdel: "x \<in> set (mvals (mdel k m)) \<Longrightarrow> x \<in> set (mvals m)"
  by (induction m) (auto split: if_splits)

lemma rowLink_row [simp]: "rowLink (link_row l) = publicLink l"
  by (simp add: rowLink_def link_row_def publicLink_def)

lemma link_row_sel [simp]: "fw_key (link_row l) = fed_key_of (ln_identity l)" "fw_userId (link_row l) = ln_userId l"
    "fw_realm (link_row l) = fi_realm (ln_identity l)" "fw_provider (link_row l) = fi_providerId (ln_identity l)"
    "fw_issuer (link_row l) = fi_issuer (ln_identity l)"
  by (simp_all add: link_row_def fw_realm_def fw_provider_def fw_issuer_def fed_key_of_def)

lemma key_realm: "fed_key_of i = fed_key_of j \<Longrightarrow> fi_realm i = fi_realm j"
  by (simp add: fed_key_of_def)

lemma fed_relD:
  assumes "fed_rel st d"
  shows "pg_rel (fs_store st) (fd_db d)" "fd_links d = live_rows st" "pg_users (fd_db d) = mvals (st_users (fs_store st))"
    "\<And>u. u \<in> set (pg_users (fd_db d)) \<Longrightarrow> u_username u \<noteq> [] \<and> u_email u \<noteq> []"
  using assms by (auto simp: fed_rel_def pg_rel_def list_all_iff)

lemma links_keyed: "fed_ok st \<Longrightarrow> keyed (\<lambda>l. fed_key_of (ln_identity l)) (fs_links st)"
  by (rule keyedI) (auto dest: fed_okD(2,3))

lemma fed_ok_inv: "fed_ok st \<Longrightarrow> store_inv (fs_store st)"
  by (rule store_reach_inv) (rule fed_okD)

lemma fed_account_row:
  assumes "fed_ok st" "fed_rel st d" "CHR '':'' \<notin> set r"
  shows "row0 (filter (user_row r i) (pg_users (fd_db d))) = findUserById r i (fs_store st)"
  by (simp add: filter_user_row [OF fed_ok_inv [OF assms(1)] assms(3) fed_relD(1) [OF assms(2)]] row0_def split: option.splits)

text \<open>The rows of one key.\<close>

lemma live_rows_key:
  assumes "fed_ok st"
  shows "filter (\<lambda>r. fw_key r = k) (live_rows st) =
    (case mget (fs_links st) k of None \<Rightarrow> [] | Some l \<Rightarrow> if alive (fs_store st) l then [link_row l] else [])"
proof -
  have "filter (\<lambda>r. fw_key r = k) (live_rows st) =
      map link_row (filter (alive (fs_store st)) (filter (\<lambda>l. fed_key_of (ln_identity l) = k) (mvals (fs_links st))))"
    by (simp add: live_rows_def filter_map comp_def) (simp add: conj_commute)
  then show ?thesis using keyed_filter [OF links_keyed [OF assms], of k] by (simp split: option.splits)
qed

lemma live_rows_update:
  assumes ok: "fed_ok st" and l: "mget (fs_links st) k = Some l" and same: "fed_key_of (ln_identity l') = k" "ln_userId l' = ln_userId l"
    and row: "link_row l' = f (link_row l)"
  shows "live_rows (st\<lparr>fs_links := mset' k l' (fs_links st)\<rparr>) = map (\<lambda>r. if fw_key r = k then f r else r) (live_rows st)"
proof -
  have only: "x = l" if "x \<in> set (mvals (fs_links st))" "fed_key_of (ln_identity x) = k" for x
  proof -
    have "x \<in> set (filter (\<lambda>l. fed_key_of (ln_identity l) = k) (mvals (fs_links st)))" using that by simp
    then show ?thesis using keyed_filter [OF links_keyed [OF ok], of k] l by simp
  qed
  have k: "fed_key_of (ln_identity l) = k" using fed_okD(3) [OF ok l] .
  have al: "alive (fs_store st) l' = alive (fs_store st) l" using same k key_realm [of "ln_identity l'" "ln_identity l"] by (simp add: alive_def)
  have "filter (alive (fs_store st)) (map (\<lambda>x. if fed_key_of (ln_identity x) = k then l' else x) xs) =
      map (\<lambda>x. if fed_key_of (ln_identity x) = k then l' else x) (filter (alive (fs_store st)) xs)"
    if "set xs \<subseteq> set (mvals (fs_links st))" for xs
    using that by (induction xs) (auto simp: al dest: only)
  then show ?thesis unfolding live_rows_def
    using keyed_update [OF links_keyed [OF ok] l, of l'] row by (auto dest: only)
qed

lemma live_rows_drop:
  assumes "fed_ok st"
  shows "live_rows (st\<lparr>fs_links := mdel k (fs_links st)\<rparr>) = filter (\<lambda>r. fw_key r \<noteq> k) (live_rows st)"
  by (simp add: live_rows_def keyed_delete [OF links_keyed [OF assms]] filter_map comp_def) (simp add: conj_commute)

lemma live_rows_append:
  assumes "mget (fs_links st) (fed_key_of (ln_identity l)) = None" "alive (fs_store st) l"
  shows "live_rows (st\<lparr>fs_links := mset' (fed_key_of (ln_identity l)) l (fs_links st)\<rparr>) = live_rows st @ [link_row l]"
  using assms by (simp add: live_rows_def mvals_append)

text \<open>Every link is in a realm whose name was checked.\<close>

definition realms_plain :: "fed_state \<Rightarrow> bool" where
  "realms_plain st \<longleftrightarrow> list_all (\<lambda>l. CHR '':'' \<notin> set (fi_realm (ln_identity l))) (mvals (fs_links st))"

lemma realms_plain_put: "realms_plain st \<Longrightarrow> CHR '':'' \<notin> set (fi_realm (ln_identity l)) \<Longrightarrow> realms_plain \<lparr>fs_links = mset' k l (fs_links st), fs_store = s\<rparr>"
  by (auto simp: realms_plain_def list_all_iff dest: in_mvals_mset)

lemma realms_plain_drop: "realms_plain st \<Longrightarrow> realms_plain (st\<lparr>fs_links := mdel k (fs_links st)\<rparr>)"
  by (auto simp: realms_plain_def list_all_iff dest: in_mvals_mdel)

lemma fed_step_realms: "fed_step st st' \<Longrightarrow> realms_plain st \<Longrightarrow> realms_plain st'"
proof (induction rule: fed_step.induct)
  case (f_existing input i now st r st')
  show ?case
  proof (cases "mget (fs_links st) (fed_key_of i)")
    case None
    then show ?thesis using f_existing by (simp add: fed_existing_def)
  next
    case (Some l)
    have l: "CHR '':'' \<notin> set (fi_realm (ln_identity l))"
      using f_existing.prems mget_in_mvals [OF Some] by (auto simp: realms_plain_def list_all_iff)
    show ?thesis
    proof (cases "findUserById (fi_realm i) (ln_userId l) (fs_store st)")
      case None
      then show ?thesis using f_existing(2) Some realms_plain_drop [OF f_existing.prems, of "fed_key_of i"] by (auto simp: fed_existing_def)
    next
      case user: (Some u)
      let ?l = "l\<lparr>ln_lastLoginAt := Some now, ln_updatedAt := now, ln_identity := (ln_identity l)\<lparr>fi_profile := fi_profile i\<rparr>\<rparr>"
      have "realms_plain \<lparr>fs_links = mset' (fed_key_of i) ?l (fs_links st), fs_store = fs_store st\<rparr>"
        using f_existing.prems l by (intro realms_plain_put) simp_all
      then show ?thesis using f_existing(2) Some user by (cases st) (auto simp: fed_existing_def Let_def)
    qed
  qed
next
  case (f_create input i st uid now dh r st')
  from f_create(5) show ?case
  proof (cases rule: fed_create_cases)
    case (made u s' l)
    show ?thesis unfolding made(4) using f_create.prems fed_normalize_realm [OF f_create(1)] made(2) by (intro realms_plain_put) simp_all
  qed (use f_create in simp)
next
  case (f_link now input st r st')
  have "st' = st \<or> (\<exists>i l. fed_normalize (with_profile input) = Inr i \<and> ln_identity l = i \<and> st' = st\<lparr>fs_links := mset' (fed_key_of i) l (fs_links st)\<rparr>)"
    using f_link(1) by (auto simp: fed_link_user_def Let_def split: option.splits elim!: bindR_InrE) (metis fed_link.select_convs(1))
  then show ?case
  proof
    assume "\<exists>i l. fed_normalize (with_profile input) = Inr i \<and> ln_identity l = i \<and> st' = st\<lparr>fs_links := mset' (fed_key_of i) l (fs_links st)\<rparr>"
    then obtain i l where "fed_normalize (with_profile input) = Inr i" "ln_identity l = i"
      "st' = \<lparr>fs_links = mset' (fed_key_of i) l (fs_links st), fs_store = fs_store st\<rparr>" by (cases st) auto
    then show ?case using realms_plain_put [OF f_link(2), of l] fed_normalize_realm by simp
  qed (use f_link in simp)
next
  case (f_unlink r u p iss st x st')
  then show ?case using realms_plain_drop by (auto simp: fed_unlink_def split: option.splits)
qed (simp add: realms_plain_def)

lemma fed_reach_realms: "fed_reach st \<Longrightarrow> realms_plain st"
  by (induction rule: fed_reach.induct) (simp add: realms_plain_def, blast intro: fed_step_realms)

section \<open>Signing in\<close>

text \<open>Two answers agree: the same status, link and account. Which of several colliding accounts is named may differ.\<close>

definition fed_agree :: "fed_result \<Rightarrow> fed_result \<Rightarrow> bool" where
  "fed_agree r r' \<longleftrightarrow> fr_status r = fr_status r' \<and> fr_link r = fr_link r' \<and>
     (fr_status r \<noteq> LinkRequired \<longrightarrow> map_option u_id (fr_user r) = map_option u_id (fr_user r'))"

lemma existing_refines:
  assumes ok: "fed_ok st" and rel: "fed_rel st d" and realm: "CHR '':'' \<notin> set (fi_realm i)"
  shows "rel_option fed_agree (fst (fed_existing now i st)) (fst (pf_existing now i d)) \<and>
    fed_rel (snd (fed_existing now i st)) (snd (pf_existing now i d))"
proof -
  note r = fed_relD [OF rel]
  let ?k = "fed_key_of i"
  have acc: "link_account d x = findUserById (fi_realm i) (fw_userId x) (fs_store st)" if "fw_key x = ?k" for x
    using that fed_account_row [OF ok rel realm] by (simp add: link_account_def fw_realm_def fed_key_of_def)
  have live: "link_hit i d x \<longleftrightarrow> fw_key x = ?k" if "x \<in> set (live_rows st)" for x
  proof -
    from that obtain l where "x = link_row l" "alive (fs_store st) l" by (auto simp: live_rows_def)
    then show ?thesis using acc [of x] key_realm [of "ln_identity l" i] by (auto simp: link_hit_def alive_def)
  qed
  have hit: "filter (link_hit i d) (fd_links d) = filter (\<lambda>x. fw_key x = ?k) (live_rows st)"
    unfolding r(2) using live by (rule filter_cong [OF refl])
  have upd: "map (\<lambda>x. if link_hit i d x then f x else x) (fd_links d) = map (\<lambda>x. if fw_key x = ?k then f x else x) (live_rows st)" for f
    unfolding r(2) using live by simp
  show ?thesis
  proof (cases "mget (fs_links st) ?k")
    case None
    then have "fed_existing now i st = (None, st)" "pf_existing now i d = (None, d)"
      using live_rows_key [OF ok, of ?k] by (simp_all add: fed_existing_def pf_existing_def hit row0_def)
    then show ?thesis using rel by simp
  next
    case (Some l)
    note k = fed_okD(3) [OF ok Some]
    have realm_l: "fi_realm (ln_identity l) = fi_realm i" using k by (rule key_realm)
    show ?thesis
    proof (cases "findUserById (fi_realm i) (ln_userId l) (fs_store st)")
      case None
      then have "\<not> alive (fs_store st) l" using realm_l by (simp add: alive_def)
      then have none: "filter (\<lambda>x. fw_key x = ?k) (live_rows st) = []" using live_rows_key [OF ok, of ?k] Some by simp
      then have "fed_existing now i st = (None, st\<lparr>fs_links := mdel ?k (fs_links st)\<rparr>)" "pf_existing now i d = (None, d)"
        using None Some by (simp_all add: fed_existing_def pf_existing_def hit row0_def)
      moreover have "live_rows (st\<lparr>fs_links := mdel ?k (fs_links st)\<rparr>) = live_rows st"
        unfolding live_rows_drop [OF ok] using none by (auto simp: filter_empty_conv intro: filter_True)
      ultimately show ?thesis using rel by (simp add: fed_rel_def)
    next
      case user: (Some u)
      then have al: "alive (fs_store st) l" using realm_l by (simp add: alive_def)
      then have one: "filter (\<lambda>x. fw_key x = ?k) (live_rows st) = [link_row l]" using live_rows_key [OF ok, of ?k] Some by simp
      let ?l = "l\<lparr>ln_lastLoginAt := Some now, ln_updatedAt := now, ln_identity := (ln_identity l)\<lparr>fi_profile := fi_profile i\<rparr>\<rparr>"
      have row: "link_row ?l = signed_in now i (link_row l)" using k by (simp add: link_row_def signed_in_def fed_key_of_def)
      have lr: "live_rows (st\<lparr>fs_links := mset' ?k ?l (fs_links st)\<rparr>) = map (\<lambda>x. if fw_key x = ?k then signed_in now i x else x) (live_rows st)"
        by (rule live_rows_update [OF ok Some]) (use k row in \<open>simp_all add: fed_key_of_def\<close>)
      have "pf_existing now i d = (Some \<lparr>fr_status = (if u_enabled u then Resolved else Disabled),
          fr_user = pf_user (fi_realm i) (ln_userId l) (fd_db d), fr_link = Some (publicLink ?l)\<rparr>,
          d\<lparr>fd_links := map (\<lambda>x. if fw_key x = ?k then signed_in now i x else x) (live_rows st)\<rparr>)"
        using acc [of "link_row l"] k user row by (simp add: pf_existing_def hit one upd row0_def flip: rowLink_row)
      moreover have "map_option u_id (pf_user (fi_realm i) (ln_userId l) (fd_db d)) = Some (u_id u)"
        using fed_account_row [OF ok rel realm, of "ln_userId l"] user by (simp add: pf_user_def option.map_comp comp_def)
      moreover have "fed_existing now i st = (Some \<lparr>fr_status = (if u_enabled u then Resolved else Disabled), fr_user = Some u,
          fr_link = Some (publicLink ?l)\<rparr>, st\<lparr>fs_links := mset' ?k ?l (fs_links st)\<rparr>)"
        using Some user by (simp add: fed_existing_def Let_def)
      ultimately show ?thesis using rel lr by (auto simp: fed_agree_def fed_rel_def)
    qed
  qed
qed

text \<open>A profile without blanks around its texts and with a name, as the upstream providers deliver it.\<close>

definition plain_profile :: "fed_identity \<Rightarrow> bool" where
  "plain_profile i \<longleftrightarrow> (let p = fi_profile i in
     list_all (\<lambda>t. js_trim t = t) [fp_username p, fp_email p, fp_name p, fp_givenName p, fp_familyName p] \<and> fp_username p \<noteq> [] \<and> fp_name p \<noteq> [] \<and>
     js_lower (fp_email p) = fp_email p \<and> distinct (fp_roles p) \<and> distinct (fp_groups p))"

text \<open>A new identifier: no account has it or its synthetic address, and no link names it.\<close>

definition new_account :: "string \<Rightarrow> fed_state \<Rightarrow> bool" where
  "new_account uid st \<longleftrightarrow> js_lower uid = uid \<and>
     list_all (\<lambda>u. u_id u \<noteq> uid \<and> js_lower (u_username u) \<noteq> syntheticEmail uid \<and> u_email u \<noteq> syntheticEmail uid) (mvals (st_users (fs_store st))) \<and>
     list_all (\<lambda>l. ln_userId l \<noteq> uid) (mvals (fs_links st))"

lemma synthetic_plain: "js_trim (syntheticEmail uid) = syntheticEmail uid" "syntheticEmail uid \<noteq> []"
    "js_lower uid = uid \<Longrightarrow> js_lower (syntheticEmail uid) = syntheticEmail uid"
  by (simp_all add: syntheticEmail_def js_defs)

lemma plain_row:
  assumes "plain_profile i" "new_account uid st"
  shows "normalizeUser now uid (fed_user_input hash uid i) = pf_row now uid hash i"
  using assms synthetic_plain [of uid]
  by (simp add: plain_profile_def new_account_def normalizeUser_def fed_user_input_def pf_row_def or_else_def trim_or_def Let_def js_uniq_distinct)

lemma collision_agrees:
  assumes "plain_profile i" "fed_ok st" "fed_rel st d"
  shows "fed_collision i (fs_store st) = None \<longleftrightarrow> pf_collision i d = None"
proof -
  have low: "js_lower (u_email u) = u_email u" if "u \<in> set (mvals (st_users (fs_store st)))" for u
    using that fed_ok_inv [OF assms(2)] by (auto simp: store_inv_def users_inv_def user_ok_def set_mvals)
  let ?n = "js_lower (fp_username (fi_profile i))" and ?e = "fp_email (fi_profile i)"
  have none: "row0 (filter P xs) = None \<longleftrightarrow> (\<forall>x\<in>set xs. \<not> P x)" for P :: "user \<Rightarrow> bool" and xs
    by (simp add: row0_def filter_empty_conv [symmetric] split: list.split)
  have both: "(case a of None \<Rightarrow> b | Some u \<Rightarrow> Some u) = None \<longleftrightarrow> a = None \<and> b = None" for a b :: "user option"
    by (cases a) auto
  have empty: "js_lower t = [] \<longleftrightarrow> t = []" for t by (simp add: js_lower_def)
  have p: "js_trim (fp_username (fi_profile i)) = fp_username (fi_profile i)" "js_trim ?e = ?e" "js_lower ?e = ?e"
    using assms(1) by (simp_all add: plain_profile_def Let_def)
  let ?in = "\<lambda>t x. js_lower (u_username x) = t \<or> u_email x = t"
  have m: "fed_collision i (fs_store st) = None \<longleftrightarrow> (\<forall>x\<in>set (mvals (st_users (fs_store st))). u_realm x = fi_realm i \<longrightarrow> \<not> ?in ?n x) \<and>
      (?e \<noteq> [] \<longrightarrow> (\<forall>x\<in>set (mvals (st_users (fs_store st))). u_realm x = fi_realm i \<longrightarrow> \<not> ?in ?e x))"
    by (simp add: fed_collision_def findUserByLogin_def Let_def p both find_None)
  have q: "pf_collision i d = None \<longleftrightarrow> (\<forall>x\<in>set (mvals (st_users (fs_store st))). u_realm x = fi_realm i \<longrightarrow> \<not> ?in ?n x \<and> \<not> ?in ?e x)"
    using fed_relD(3) [OF assms(3)] by (auto simp: pf_collision_def none p low)
  have "\<not> ?in [] x" if "x \<in> set (mvals (st_users (fs_store st)))" for x
    using fed_relD(3,4) [OF assms(3)] that by (auto simp: empty)
  then show ?thesis unfolding m q by auto
qed

lemma create_refines:
  assumes ok: "fed_ok st" and rel: "fed_rel st d" and realm: "CHR '':'' \<notin> set (fi_realm i)" and plain: "plain_profile i"
    and new: "new_account uid st" and realms: "realms_plain st" and no_link: "mget (fs_links st) (fed_key_of i) = None" and free: "fed_collision i (fs_store st) = None"
  shows "\<exists>r r'. fst (fed_create now uid hash i st) = Inr r \<and> fst (pf_create now uid hash i d) = Inr r' \<and> fed_agree r r' \<and>
    fed_rel (snd (fed_create now uid hash i st)) (snd (pf_create now uid hash i d))"
proof -
  note r = fed_relD [OF rel]
  let ?s = "fs_store st"
  let ?u = "pf_row now uid hash i"
  let ?l = "\<lparr>ln_identity = i, ln_userId = uid, ln_createdAt = now, ln_updatedAt = now, ln_lastLoginAt = Some now\<rparr>"
  have u: "u_id ?u = uid" "u_realm ?u = fi_realm i" "js_lower (u_email ?u) = u_email ?u" "u_email ?u \<noteq> []" "u_username ?u \<noteq> []"
    using plain new synthetic_plain [of uid] by (simp_all add: pf_row_def plain_profile_def new_account_def Let_def)
  have low: "js_lower (u_email x) = u_email x" if "x \<in> set (mvals (st_users ?s))" for x
    using that fed_ok_inv [OF ok] by (auto simp: store_inv_def users_inv_def user_ok_def set_mvals)
  have disjoint: "logins x \<inter> logins ?u = {}" if "x \<in> set (mvals (st_users ?s))" "u_realm x = fi_realm i" for x
  proof -
    have "js_lower (u_username x) \<noteq> js_lower (fp_username (fi_profile i))" "u_email x \<noteq> js_lower (fp_username (fi_profile i))"
      "fp_email (fi_profile i) \<noteq> [] \<Longrightarrow> js_lower (u_username x) \<noteq> fp_email (fi_profile i) \<and> u_email x \<noteq> fp_email (fi_profile i)"
      using free that plain by (auto simp: fed_collision_def findUserByLogin_def plain_profile_def Let_def find_None split: option.splits if_splits)
    then show ?thesis using new that(1) by (auto simp: logins_def pf_row_def Let_def new_account_def list_all_iff)
  qed
  have absent: "findUserById (fi_realm i) uid ?s = None"
  proof (rule ccontr)
    assume "findUserById (fi_realm i) uid ?s \<noteq> None"
    then obtain x where x: "mget (st_users ?s) (ukey (fi_realm i) uid) = Some x" by (auto simp: findUserById_def)
    then show False using user_at_key [OF fed_ok_inv [OF ok] x realm] mget_in_mvals [OF x] new by (auto simp: new_account_def list_all_iff)
  qed
  have none: "find (\<lambda>item. u_realm item = fi_realm i \<and> (\<exists>login\<in>set [js_lower (u_username item), u_email item].
      login = js_lower (u_username ?u) \<or> login = u_email ?u)) (mvals (st_users ?s)) = None"
    unfolding find_None using disjoint by (fastforce simp: logins_def)
  have mem: "createUser now uid (fed_user_input hash uid i) ?s = Inr (?u, ?s\<lparr>st_users := mset' (ukey (fi_realm i) uid) ?u (st_users ?s)\<rparr>)"
    unfolding createUser_def plain_row [OF plain new] Let_def
    using absent none by (simp add: u findUserById_def)
  have no_conflict: "\<not> pg_login_conflict xs ?u" if "set xs \<subseteq> set (mvals (st_users ?s))" for xs
  proof
    assume "pg_login_conflict xs ?u"
    then obtain x where "x \<in> set xs" "u_realm x = u_realm ?u"
        and c: "u_id x = u_id ?u \<or> js_lower (u_username x) \<in> {js_lower (u_username ?u), js_lower (u_email ?u)} \<or>
          js_lower (u_email x) \<in> {js_lower (u_username ?u), js_lower (u_email ?u)}"
      unfolding pg_login_conflict_def by blast
    then have x: "x \<in> set (mvals (st_users ?s))" "u_realm x = fi_realm i" using that u(2) by auto
    have "u_id x \<noteq> uid" using x(1) new by (auto simp: new_account_def list_all_iff)
    then show False using disjoint [OF x] low [OF x(1)] c by (auto simp: logins_def u)
  qed
  have present: "sql_present t" if "js_trim t = t" "t \<noteq> []" for t
  proof (rule ccontr)
    assume "\<not> sql_present t"
    then have blank: "c = CHR '' ''" if "c \<in> set t" for c using that by (simp add: sql_present_def list_all_iff)
    have space: "is_space (CHR '' '')" by (simp add: js_defs)
    have "is_space c" if "c \<in> set t" for c unfolding blank [OF that] by (rule space)
    then have nil: "dropWhile is_space t = []" by simp
    have "js_trim t = []" unfolding js_trim_def nil by simp
    then show False using that by simp
  qed
  have checks: "sql_present (u_username ?u)" "sql_present (u_email ?u)" "sql_present (u_name ?u)"
    using plain synthetic_plain [of uid] by (auto simp: pf_row_def plain_profile_def Let_def intro!: present)
  have key: "filter (\<lambda>x. fw_key x = fed_key_of i) (live_rows st) = []" using live_rows_key [OF ok] no_link by simp
  have "fw_userId x \<noteq> uid" if "x \<in> set (live_rows st)" for x
    using that new by (auto simp: live_rows_def new_account_def list_all_iff)
  then have no_link_conflict: "\<not> link_conflict (new_link now (Some now) i uid) (live_rows st)"
    using key by (auto simp: link_conflict_def same_link_def new_link_def filter_empty_conv)
  let ?s' = "?s\<lparr>st_users := mset' (ukey (fi_realm i) uid) ?u (st_users ?s)\<rparr>"
  let ?db = "(fd_db d)\<lparr>pg_users := pg_users (fd_db d) @ [?u]\<rparr>"
  have pg: "insert_account ?u (fd_db d) = Inr ?db"
    using no_conflict checks r(3) by (simp add: insert_account_def)
  have row: "new_link now (Some now) i uid = link_row ?l" by (simp add: new_link_def link_row_def)
  have users: "mvals (st_users ?s') = pg_users (fd_db d) @ [?u]"
    using absent by (simp add: findUserById_def mvals_append r(3))
  have al: "alive ?s' x = alive ?s x" if "x \<in> set (mvals (fs_links st))" for x
  proof -
    have "ln_userId x \<noteq> uid" using that new by (auto simp: new_account_def list_all_iff)
    moreover have "CHR '':'' \<notin> set (fi_realm (ln_identity x))" using that realms by (auto simp: realms_plain_def list_all_iff)
    ultimately show ?thesis using realm by (simp add: alive_def findUserById_def ukey_eq_iff)
  qed
  have "filter (alive ?s') (mvals (fs_links st)) = filter (alive ?s) (mvals (fs_links st))" using al by (auto intro: filter_cong)
  moreover have "alive ?s' ?l" by (simp add: alive_def findUserById_def)
  ultimately have rows: "live_rows \<lparr>fs_links = mset' (fed_key_of i) ?l (fs_links st), fs_store = ?s'\<rparr> = live_rows st @ [link_row ?l]"
    using no_link by (simp add: live_rows_def mvals_append)
  have "map_option u_id (pf_user (fi_realm i) uid ?db) = Some uid"
    using fed_account_row [OF ok rel realm, of uid] absent u
    by (auto simp: pf_user_def row0_def user_row_def split: list.splits)
  then show ?thesis
    using mem pg no_link_conflict r rows users u
    by (auto simp: fed_create_def pf_create_def Let_def row fed_agree_def fed_rel_def pg_rel_def list_all_iff)
qed

lemma resolve_refines:
  assumes reach: "fed_reach st" and rel: "fed_rel st d" and i: "fed_normalize input = Inr i" and plain: "plain_profile i" and new: "new_account uid st"
  shows "\<exists>r r'. fst (fed_resolve now uid hash input st) = Inr r \<and> fst (pf_resolve now uid hash input d) = Inr r' \<and> fed_agree r r' \<and>
    fed_rel (snd (fed_resolve now uid hash input st)) (snd (pf_resolve now uid hash input d))"
proof -
  note ok = fed_reach_ok [OF reach] and realm = fed_normalize_realm [OF i]
  obtain x st1 where m: "fed_existing now i st = (x, st1)" by (cases "fed_existing now i st")
  obtain y d1 where p: "pf_existing now i d = (y, d1)" by (cases "pf_existing now i d")
  have e: "rel_option fed_agree x y" "fed_rel st1 d1" using existing_refines [OF ok rel realm, of now] by (simp_all add: m p)
  show ?thesis
  proof (cases x)
    case (Some r)
    then obtain r' where "y = Some r'" "fed_agree r r'" using e(1) by (auto simp: option_rel_Some1)
    then show ?thesis using Some e(2) i m p by (simp add: fed_resolve_def pf_resolve_def)
  next
    case None
    then have y: "y = None" using e(1) by simp
    have step: "fed_step st st1" using i m by (rule f_existing)
    have ok1: "fed_ok st1" using fed_step_ok [OF step ok] .
    have realms: "realms_plain st1" using fed_step_realms [OF step fed_reach_realms [OF reach]] .
    have store: "fs_store st1 = fs_store st" "set (mvals (fs_links st1)) \<subseteq> set (mvals (fs_links st))" "mget (fs_links st1) (fed_key_of i) = None"
      using m None fed_okD(2) [OF ok] by (auto simp: fed_existing_def Let_def dest: in_mvals_mdel split: option.splits)
    then have new1: "new_account uid st1" using new by (auto simp: new_account_def list_all_iff)
    show ?thesis
    proof (cases "fi_allowCreate i")
      case False
      then show ?thesis using None y e(2) i m p by (simp add: fed_resolve_def pf_resolve_def fed_agree_def)
    next
      case True
      show ?thesis
      proof (cases "fed_collision i (fs_store st1)")
        case free: None
        then have "pf_collision i d1 = None" using collision_agrees [OF plain ok1 e(2)] by simp
        then show ?thesis using create_refines [OF ok1 e(2) realm plain new1 realms store(3) free, of now hash] True free None y i m p
          by (simp add: fed_resolve_def pf_resolve_def)
      next
        case (Some u)
        then obtain u' where "pf_collision i d1 = Some u'" using collision_agrees [OF plain ok1 e(2)] by (cases "pf_collision i d1") auto
        then show ?thesis using True Some None y e(2) i m p
          by (simp add: fed_resolve_def pf_resolve_def fed_agree_def link_required_def)
      qed
    qed
  qed
qed

section \<open>Linking, unlinking and deleting\<close>

lemma link_refines:
  assumes reach: "fed_reach st" and rel: "fed_rel st d" and i: "fed_normalize (with_profile input) = Inr i"
    and uid: "uuid_re (fed_str (jprop input ''userId''))" "js_lower (fed_str (jprop input ''userId'')) = fed_str (jprop input ''userId'')"
    and live: "\<And>l. mget (fs_links st) (fed_key_of i) = Some l \<Longrightarrow> alive (fs_store st) l"
  shows "\<exists>r st' r' d'. fed_link_user now input st = Inr (r, st') \<and> pf_link now input d = Inr (r', d') \<and> fr_status r = fr_status r' \<and>
    (fed_rel st' d' \<or> fr_status r = Linked \<and> st' = st)"
proof -
  note ok = fed_reach_ok [OF reach] and realm = fed_normalize_realm [OF i] and r = fed_relD [OF rel]
  let ?uid = "fed_str (jprop input ''userId'')" and ?k = "fed_key_of i"
  have sel: "filter (user_row (fi_realm i) ?uid) (pg_users (fd_db d)) =
      (case findUserById (fi_realm i) ?uid (fs_store st) of None \<Rightarrow> [] | Some u \<Rightarrow> [u])"
    by (rule filter_user_row [OF fed_ok_inv [OF ok] realm r(1)])
  show ?thesis
  proof (cases "findUserById (fi_realm i) ?uid (fs_store st)")
    case None
    then show ?thesis using i uid sel rel by (simp add: fed_link_user_def pf_link_def)
  next
    case (Some u)
    then have u: "u_id u = ?uid" using user_at_key [OF fed_ok_inv [OF ok] _ realm] by (auto simp: findUserById_def)
    have rows: "filter (\<lambda>x. fw_key x = ?k) (live_rows st) = (case mget (fs_links st) ?k of None \<Rightarrow> [] | Some l \<Rightarrow> [link_row l])"
      using live_rows_key [OF ok, of ?k] live by (auto split: option.splits)
    show ?thesis
    proof (cases "mget (fs_links st) ?k")
      case taken: (Some l)
      then show ?thesis using Some i uid u sel rel r(2) rows
        by (auto simp: fed_link_user_def pf_link_def Let_def row0_def)
    next
      case None
      let ?l = "\<lparr>ln_identity = i, ln_userId = ?uid, ln_createdAt = now, ln_updatedAt = now, ln_lastLoginAt = None\<rparr>"
      have row: "new_link now None i ?uid = link_row ?l" by (simp add: new_link_def link_row_def)
      have al: "alive (fs_store st) l" if "same_provider i ?uid l" for l
        using that Some by (auto simp: same_provider_def alive_def)
      have clash: "link_conflict (link_row ?l) (live_rows st) \<longleftrightarrow> find (same_provider i ?uid) (mvals (fs_links st)) \<noteq> None"
      proof -
        have "\<not> (\<exists>x\<in>set (live_rows st). fw_key x = ?k)" using rows None by (auto simp: filter_empty_conv)
        moreover have "(\<exists>x\<in>set (live_rows st). same_link x (link_row ?l)) \<longleftrightarrow> (\<exists>l\<in>set (mvals (fs_links st)). same_provider i ?uid l)"
          using al by (auto simp: live_rows_def same_link_def same_provider_def)
        ultimately show ?thesis by (auto simp: link_conflict_def find_None)
      qed
      have add: "live_rows (st\<lparr>fs_links := mset' ?k ?l (fs_links st)\<rparr>) = live_rows st @ [link_row ?l]"
        using live_rows_append [of st ?l] None Some by (simp add: alive_def)
      show ?thesis
      proof (cases "find (same_provider i ?uid) (mvals (fs_links st))")
        case free: None
        then have "fed_link_user now input st = Inr (\<lparr>fr_status = Linked, fr_user = None, fr_link = Some (publicLink ?l)\<rparr>,
            st\<lparr>fs_links := mset' ?k ?l (fs_links st)\<rparr>)"
          using Some None i uid u by (simp add: fed_link_user_def Let_def)
        moreover have "pf_link now input d = Inr (\<lparr>fr_status = Linked, fr_user = None, fr_link = Some (publicLink ?l)\<rparr>,
            d\<lparr>fd_links := live_rows st @ [link_row ?l]\<rparr>)"
          using Some None i uid sel rows r(2) clash free by (simp add: pf_link_def Let_def row0_def row)
        ultimately show ?thesis using rel add by (simp add: fed_rel_def)
      next
        case taken: (Some l')
        then have "fed_link_user now input st = Inr (\<lparr>fr_status = Conflict, fr_user = None, fr_link = Some (publicLink l')\<rparr>, st)"
          using Some None i uid u by (simp add: fed_link_user_def Let_def)
        moreover have "pf_link now input d = Inr (\<lparr>fr_status = Conflict, fr_user = None, fr_link = None\<rparr>, d)"
          using Some None i uid sel rows r(2) clash taken by (simp add: pf_link_def Let_def row0_def row)
        ultimately show ?thesis using rel by simp
      qed
    qed
  qed
qed

text \<open>An account has at most one link per provider and issuer, so deleting the rows deletes the one link the memory finds.\<close>

lemma unlink_refines:
  assumes reach: "fed_reach st" and rel: "fed_rel st d" and account: "findUserById realm uid (fs_store st) \<noteq> None"
  shows "fst (fed_unlink realm uid p iss st) = fst (pf_unlink realm uid p iss d) \<and>
    fed_rel (snd (fed_unlink realm uid p iss st)) (snd (pf_unlink realm uid p iss d))"
proof -
  note ok = fed_reach_ok [OF reach] and r = fed_relD [OF rel]
  let ?P = "\<lambda>l. fi_realm (ln_identity l) = realm \<and> ln_userId l = uid \<and> fi_providerId (ln_identity l) = p \<and> fi_issuer (ln_identity l) = iss"
  let ?Q = "\<lambda>x. fw_realm x = realm \<and> fw_userId x = uid \<and> fw_provider x = p \<and> fw_issuer x = iss"
  show ?thesis
  proof (cases "find (\<lambda>(k, l). ?P l) (fs_links st)")
    case None
    then have free: "\<not> ?P l" if "l \<in> set (mvals (fs_links st))" for l
      using that by (auto simp: find_None mvals_def)
    have none: "\<not> ?Q x" if "x \<in> set (live_rows st)" for x
    proof -
      from that obtain l where "x = link_row l" "l \<in> set (mvals (fs_links st))" by (auto simp: live_rows_def)
      then show ?thesis using free [of l] by simp
    qed
    then have "filter ?Q (live_rows st) = []" "filter (\<lambda>x. \<not> ?Q x) (live_rows st) = live_rows st"
      by (auto simp: filter_empty_conv intro!: filter_True)
    then show ?thesis using None rel r(2) by (simp add: fed_unlink_def pf_unlink_def sql_delete_def row0_def fed_rel_def)
  next
    case (Some kl)
    obtain k l where kl: "kl = (k, l)" by (cases kl)
    then have l: "(k, l) \<in> set (fs_links st)" "?P l" using find_SomeD [OF Some [unfolded kl]] by auto
    have mg: "mget (fs_links st) k = Some l" using l(1) fed_okD(2) [OF ok] by (simp add: map_wf_def)
    note k = fed_okD(3) [OF ok mg]
    have al: "alive (fs_store st) l" using l(2) account by (simp add: alive_def)
    have iff: "?Q x \<longleftrightarrow> fw_key x = k" if "x \<in> set (live_rows st)" for x
    proof
      assume q: "?Q x"
      from that obtain l' where l': "x = link_row l'" "l' \<in> set (mvals (fs_links st))" by (auto simp: live_rows_def)
      then obtain k' where k': "mget (fs_links st) k' = Some l'" using fed_okD(2) [OF ok] by (auto simp: set_mvals)
      have "same_provider (ln_identity l') (ln_userId l') l" using q l(2) l'(1) by (simp add: same_provider_def)
      from fed_okD(4) [OF ok k' mg this] fed_okD(3) [OF ok k'] show "fw_key x = k" using l'(1) by simp
    next
      assume kx: "fw_key x = k"
      then have "x \<in> set (filter (\<lambda>x. fw_key x = k) (live_rows st))" using that by simp
      then have "x = link_row l" using live_rows_key [OF ok, of k] mg al by simp
      then show "?Q x" using l(2) by simp
    qed
    have gone: "filter ?Q (live_rows st) = [link_row l]"
      using live_rows_key [OF ok, of k] mg al iff by (simp cong: filter_cong)
    have rest: "filter (\<lambda>x. \<not> ?Q x) (live_rows st) = live_rows (st\<lparr>fs_links := mdel k (fs_links st)\<rparr>)"
      unfolding live_rows_drop [OF ok] using iff by (auto intro: filter_cong)
    have "pf_unlink realm uid p iss d = (Some (publicLink l), d\<lparr>fd_links := live_rows (st\<lparr>fs_links := mdel k (fs_links st)\<rparr>)\<rparr>)"
      unfolding pf_unlink_def sql_delete_def r(2) gone rest by (simp add: row0_def)
    then show ?thesis using Some kl rel by (simp add: fed_unlink_def fed_rel_def)
  qed
qed

lemma list_refines:
  assumes rel: "fed_rel st d" and account: "findUserById realm uid (fs_store st) \<noteq> None"
  shows "set (pf_list realm uid d) = set (fed_list realm uid st)"
  using account fed_relD(2) [OF rel] by (auto simp: pf_list_def fed_list_def live_rows_def alive_def image_iff intro!: rev_image_eqI)

text \<open>With the account its links disappear: in the table at once, in memory for everybody who looks.\<close>

lemma delete_refines:
  assumes reach: "fed_reach st" and rel: "fed_rel st d" and realm: "CHR '':'' \<notin> set realm"
  shows "fed_rel (st\<lparr>fs_store := snd (deleteUser realm uid (fs_store st))\<rparr>) (snd (pf_deleteUser now realm uid d))"
proof -
  note ok = fed_reach_ok [OF reach] and r = fed_relD [OF rel]
  let ?s' = "snd (deleteUser realm uid (fs_store st))"
  have pr: "pg_rel ?s' (snd (pg_deleteUser now realm uid (fd_db d)))"
    using sim_delete [OF fed_ok_inv [OF ok] realm r(1)] by (simp add: pg_sim_row_def)
  have users: "mget (st_users ?s') k = (if k = ukey realm uid then None else mget (st_users (fs_store st)) k)" for k
  proof (cases "mget (st_users (fs_store st)) (ukey realm uid)")
    case None
    then show ?thesis by (simp add: deleteUser_def)
  next
    case (Some u)
    then obtain s' where "deleteUser realm uid (fs_store st) = (Some u, s')" by (auto simp: deleteUser_def Let_def)
    then show ?thesis using deleteUser_fields(2) by simp
  qed
  have al: "alive ?s' l \<longleftrightarrow> alive (fs_store st) l \<and> \<not> (fi_realm (ln_identity l) = realm \<and> ln_userId l = uid)"
    if "l \<in> set (mvals (fs_links st))" for l
  proof -
    have "CHR '':'' \<notin> set (fi_realm (ln_identity l))" using fed_reach_realms [OF reach] that by (auto simp: realms_plain_def list_all_iff)
    then show ?thesis using ukey_eq_iff [of "fi_realm (ln_identity l)" realm "ln_userId l" uid] realm
      by (auto simp: alive_def findUserById_def users)
  qed
  have links: "live_rows (st\<lparr>fs_store := ?s'\<rparr>) = filter (\<lambda>x. \<not> (fw_realm x = realm \<and> fw_userId x = uid)) (live_rows st)"
    using al by (simp add: live_rows_def filter_map comp_def cong: filter_cong)
  have "set (pg_users (snd (pg_deleteUser now realm uid (fd_db d)))) \<subseteq> set (pg_users (fd_db d))"
    by (auto simp: pg_deleteUser_def sql_delete_def Let_def)
  then show ?thesis using pr links r(2,4) by (auto simp: fed_rel_def pf_deleteUser_def case_prod_beta list_all_iff)
qed


text \<open>A first sign-in of \<open>ann\<close>, then one of \<open>bob\<close>, a link and its removal.\<close>

definition fed_input :: "string \<Rightarrow> string \<Rightarrow> json" where
  "fed_input subject username = JObj [(''realm'', JStr ''corp''), (''providerId'', JStr ''idp''), (''issuer'', JStr ''i''),
     (''externalSubject'', JStr subject), (''profile'', JObj [(''username'', JStr username)]), (''allowCreate'', JBool True),
     (''userId'', JStr ''a0000000-0000-4000-8000-000000000001'')]"

definition fed_ann :: fed_identity where
  "fed_ann = (case fed_normalize (fed_input ''s'' ''ann'') of Inr i \<Rightarrow> i)"

definition fed_none :: fed_state where "fed_none = \<lparr>fs_links = [], fs_store = empty_store\<rparr>"

definition fed_none_db :: fed_db where
  "fed_none_db = \<lparr>fd_db = \<lparr>pg_users = [], pg_grants = [], pg_sessions = [], pg_credentials = [], pg_challenges = []\<rparr>, fd_links = []\<rparr>"

definition fed_one :: fed_state where
  "fed_one = snd (fed_create 5 ''a0000000-0000-4000-8000-000000000001'' (Some ''off'') fed_ann fed_none)"

definition fed_one_db :: fed_db where
  "fed_one_db = snd (pf_create 5 ''a0000000-0000-4000-8000-000000000001'' (Some ''off'') fed_ann fed_none_db)"

lemma fed_ann_is: "fed_normalize (fed_input ''s'' ''ann'') = Inr fed_ann" "plain_profile fed_ann"
    "new_account ''a0000000-0000-4000-8000-000000000001'' fed_none"
  by code_simp+

lemma fed_one_related: "fed_reach fed_one" "fed_rel fed_one fed_one_db"
proof -
  have ok: "fed_reach fed_none" unfolding fed_none_def by (rule fed_init)
  have rel: "fed_rel fed_none fed_none_db"
    by (simp add: fed_rel_def fed_none_def fed_none_db_def pg_rel_def empty_store_def live_rows_def)
  obtain r where run: "fed_create 5 ''a0000000-0000-4000-8000-000000000001'' (Some ''off'') fed_ann fed_none = (r, fed_one)"
    by (metis fed_one_def surjective_pairing)
  have "fed_step fed_none fed_one" by (rule f_create [OF fed_ann_is(1) _ _ _ run]) (simp_all add: fed_none_def)
  then show "fed_reach fed_one" using ok by (blast intro: fed_next)
  have "mget (fs_links fed_none) (fed_key_of fed_ann) = None" "fed_collision fed_ann (fs_store fed_none) = None"
    by (simp_all add: fed_none_def fed_collision_def findUserByLogin_def empty_store_def Let_def)
  from create_refines [OF fed_reach_ok [OF ok] rel fed_normalize_realm [OF fed_ann_is(1)] fed_ann_is(2,3) fed_reach_realms [OF ok] this]
  show "fed_rel fed_one fed_one_db" unfolding fed_one_def fed_one_db_def by blast
qed

lemma fed_one_facts:
  "(case fed_normalize (fed_input ''t'' ''bob'') of Inr i \<Rightarrow> plain_profile i | Inl _ \<Rightarrow> False)"
  "(case fed_normalize (with_profile (fed_input ''t'' ''ann'')) of Inr i \<Rightarrow> mget (fs_links fed_one) (fed_key_of i) = None | Inl _ \<Rightarrow> False)"
  "new_account ''b0000000-0000-4000-8000-000000000002'' fed_one"
  "findUserById ''corp'' ''a0000000-0000-4000-8000-000000000001'' (fs_store fed_one) \<noteq> None"
  "uuid_re (fed_str (jprop (fed_input ''t'' ''ann'') ''userId''))"
  "js_lower (fed_str (jprop (fed_input ''t'' ''ann'') ''userId'')) = fed_str (jprop (fed_input ''t'' ''ann'') ''userId'')"
  by code_simp+


end
