(* ===== verification/PgStoreProps.thy ===== *)
theory PgStoreProps
  imports PgStore "HOL-Library.Multiset"
begin

text \<open>
  The maintenance of the PostgreSQL back-end keeps the contract \<open>bounded_cleanup\<close>, so the loop that drains it is bounded and
  complete as in memory; the profile update agrees with that of the in-memory store.
\<close>

section \<open>Purging\<close>

lemma mset_insort_by: "mset (insort_by le x ys) = add_mset x (mset ys)"
  by (induction ys) auto

lemma mset_sort_by: "mset (sort_by le xs) = mset xs"
  by (induction xs) (simp_all add: sort_by_def mset_insort_by)

lemma mset_fold_remove1: "mset (fold remove1 ds t) = mset t - mset ds"
  by (induction ds arbitrary: t) simp_all

lemma filter_fold_remove1: "(\<And>x. x \<in> set ds \<Longrightarrow> P x) \<Longrightarrow> filter (\<lambda>x. \<not> P x) (fold remove1 ds t) = filter (\<lambda>x. \<not> P x) t"
proof (induction ds arbitrary: t)
  case (Cons d ds)
  have "filter (\<lambda>x. \<not> P x) (remove1 d t) = filter (\<lambda>x. \<not> P x) t" using Cons.prems by (induction t) auto
  then show ?case using Cons by simp
qed simp

lemma oldest_set: "x \<in> set (oldest key P n t) \<Longrightarrow> x \<in> set t \<and> P x"
  by (auto simp: oldest_def dest!: in_set_takeD)

lemma length_oldest: "length (oldest key P n t) = min n (length (filter P t))"
proof -
  have "length (sort_by (\<lambda>a b. key a \<le> key b) (filter P t)) = length (filter P t)"
    using mset_sort_by [of _ "filter P t"] by (metis mset_eq_length)
  then show ?thesis by (simp add: oldest_def min.commute)
qed

lemma oldest_submset: "mset (oldest key P n t) \<subseteq># filter_mset P (mset t)"
proof -
  have "mset (oldest key P n t) \<subseteq># mset (sort_by (\<lambda>a b. key a \<le> key b) (filter P t))"
    unfolding oldest_def by (metis append_take_drop_id mset_append mset_subset_eq_add_left)
  then show ?thesis by (simp add: mset_sort_by)
qed

lemma purge_result:
  assumes "purge key P n t = (c, t')"
  shows "c = min n (length (filter P t))" "length (filter P t) = c + length (filter P t')" "filter (\<lambda>x. \<not> P x) t' = filter (\<lambda>x. \<not> P x) t"
proof -
  have t': "t' = fold remove1 (oldest key P n t) t" and c: "c = length (oldest key P n t)" using assms by (simp_all add: purge_def)
  show "c = min n (length (filter P t))" by (simp add: c length_oldest)
  have "mset (filter P t') = filter_mset P (mset t) - mset (oldest key P n t)"
  proof -
    have "filter_mset P (mset (oldest key P n t)) = mset (oldest key P n t)"
      by (rule filter_mset_eq_conv [THEN iffD2]) (auto dest: oldest_set)
    then show ?thesis by (simp add: t' mset_fold_remove1)
  qed
  then have "length (filter P t') = size (filter_mset P (mset t)) - c"
    using size_Diff_submset [OF oldest_submset [of key P n t]] by (simp add: c flip: size_mset)
  moreover have "size (filter_mset P (mset t)) = length (filter P t)" by (simp flip: size_mset)
  ultimately show "length (filter P t) = c + length (filter P t')" by (simp add: c length_oldest)
  show "filter (\<lambda>x. \<not> P x) t' = filter (\<lambda>x. \<not> P x) t" unfolding t' by (rule filter_fold_remove1) (auto dest: oldest_set)
qed

lemma purge_bounds:
  assumes "purge key P n t = (c, t')"
  shows "c \<le> n" "c < n \<Longrightarrow> filter P t' = []"
proof -
  note r = purge_result [OF assms]
  show "c \<le> n" by (simp add: r(1))
  assume "c < n"
  then have "c = length (filter P t)" using r(1) by simp
  then have "length (filter P t') = 0" using r(2) by linarith
  then show "filter P t' = []" by simp
qed

text \<open>The oldest go first.\<close>

definition sorted_key :: "('r \<Rightarrow> int) \<Rightarrow> 'r list \<Rightarrow> bool" where "sorted_key key xs \<longleftrightarrow> sorted (map key xs)"

lemma sorted_insort_by: "sorted_key key ys \<Longrightarrow> sorted_key key (insort_by (\<lambda>a b. key a \<le> key b) x ys)"
  by (induction ys) (auto simp: sorted_key_def)

lemma key_sorted_sort_by: "sorted_key key (sort_by (\<lambda>a b. key a \<le> key b) xs)"
  by (induction xs) (simp_all add: sort_by_def sorted_insort_by, simp add: sorted_key_def)

lemma purge_oldest:
  assumes "purge key P n t = (c, t')" "x \<in># mset t - mset t'" "y \<in> set t'" "P y"
  shows "key x \<le> key y"
proof -
  let ?s = "sort_by (\<lambda>a b. key a \<le> key b) (filter P t)"
  have t': "t' = fold remove1 (take n ?s) t" using assms(1) by (simp add: purge_def oldest_def)
  have sub: "mset (take n ?s) \<subseteq># mset t"
    using oldest_submset [of key P n t] by (auto simp: oldest_def intro: subset_mset.order_trans)
  have "mset t = mset t' + mset (take n ?s)" using sub by (simp add: t' mset_fold_remove1 subset_mset.diff_add)
  then have x: "x \<in> set (take n ?s)" using assms(2) by simp
  have "mset t' = mset t - mset (take n ?s)" by (simp add: t' mset_fold_remove1)
  then have "filter_mset P (mset t') = filter_mset P (mset t) - filter_mset P (mset (take n ?s))" by simp
  also have "filter_mset P (mset (take n ?s)) = mset (take n ?s)"
    by (rule filter_mset_eq_conv [THEN iffD2]) (auto dest!: in_set_takeD)
  also have "filter_mset P (mset t) = mset ?s" by (simp add: mset_sort_by)
  also have "mset ?s - mset (take n ?s) = mset (drop n ?s)" by (metis add_diff_cancel_left' append_take_drop_id mset_append)
  finally have rest: "filter_mset P (mset t') = mset (drop n ?s)" .
  have "y \<in># filter_mset P (mset t')" using assms(3,4) by simp
  then have y: "y \<in> set (drop n ?s)" unfolding rest by simp
  have "sorted (map key (take n ?s) @ map key (drop n ?s))"
    using key_sorted_sort_by [of key "filter P t"] unfolding sorted_key_def map_append [symmetric] append_take_drop_id .
  then have all: "\<And>a b. a \<in> set (map key (take n ?s)) \<Longrightarrow> b \<in> set (map key (drop n ?s)) \<Longrightarrow> a \<le> b" unfolding sorted_append by blast
  show ?thesis by (rule all) (simp_all only: set_map x y imageI)
qed

section \<open>Maintenance\<close>

definition pg_expired_count :: "int \<Rightarrow> pg_store \<Rightarrow> nat" where
  "pg_expired_count now d = length (filter (row_expired now) (pd_records (ps_data d))) +
     length (filter (\<lambda>c. ch_expiresAt c \<le> now) (pg_challenges (pd_db (ps_data d)))) + length (filter (session_over now) (pg_sessions (pd_db (ps_data d))))"

definition pg_old_count :: "int \<Rightarrow> nat \<Rightarrow> pg_store \<Rightarrow> nat" where
  "pg_old_count now days d = length (filter (out_of_retention now days) (ps_audit d))"

text \<open>What must be left: live rows in their order, recent events, and every other table.\<close>

definition pg_kept :: "int \<Rightarrow> nat \<Rightarrow> pg_store \<Rightarrow> oidc_row list \<times> challenge list \<times> admin_session list \<times> audit_record list \<times> user list \<times>
    admin_grant list \<times> credential list \<times> (string \<times> string) list" where
  "pg_kept now days d =
     (filter (\<lambda>x. \<not> row_expired now x) (pd_records (ps_data d)), filter (\<lambda>c. \<not> ch_expiresAt c \<le> now) (pg_challenges (pd_db (ps_data d))),
      filter (\<lambda>x. \<not> session_over now x) (pg_sessions (pd_db (ps_data d))), filter (\<lambda>x. \<not> out_of_retention now days x) (ps_audit d),
      pg_users (pd_db (ps_data d)), pg_grants (pd_db (ps_data d)), pg_credentials (pd_db (ps_data d)), ps_realms d)"

lemma pg_cleanup_cases:
  assumes "pg_cleanupExpired now n d = (c, d')"
  obtains c1 t1 c2 t2 c3 t3 where "purge row_expiry (row_expired now) n (pd_records (ps_data d)) = (c1, t1)"
    "purge ch_expiresAt (\<lambda>c. ch_expiresAt c \<le> now) n (pg_challenges (pd_db (ps_data d))) = (c2, t2)"
    "purge (\<lambda>x. min (as_expiresAt x) (as_idleExpiresAt x)) (session_over now) n (pg_sessions (pd_db (ps_data d))) = (c3, t3)"
    "c = c1 + c2 + c3" "d' = d\<lparr>ps_data := \<lparr>pd_db = (pd_db (ps_data d))\<lparr>pg_challenges := t2, pg_sessions := t3\<rparr>, pd_records = t1\<rparr>\<rparr>"
proof -
  obtain c1 t1 where a: "purge row_expiry (row_expired now) n (pd_records (ps_data d)) = (c1, t1)" by fastforce
  obtain c2 t2 where b: "purge ch_expiresAt (\<lambda>c. ch_expiresAt c \<le> now) n (pg_challenges (pd_db (ps_data d))) = (c2, t2)" by fastforce
  obtain c3 t3 where e: "purge (\<lambda>x. min (as_expiresAt x) (as_idleExpiresAt x)) (session_over now) n (pg_sessions (pd_db (ps_data d))) = (c3, t3)"
    by fastforce
  show ?thesis by (rule that [OF a b e])
    (use assms a b e in \<open>simp_all add: pg_cleanupExpired_def pg_cleanupExpiredWebAuthnChallenges_def pg_cleanupExpiredAdminSessions_def\<close>)
qed

interpretation pg_expiry: bounded_cleanup "pg_cleanupExpired now" "pg_expired_count now" 3 for now
proof
  fix n d c d' assume "pg_cleanupExpired now n d = (c, d')"
  then obtain c1 t1 c2 t2 c3 t3 where p: "purge row_expiry (row_expired now) n (pd_records (ps_data d)) = (c1, t1)"
    "purge ch_expiresAt (\<lambda>c. ch_expiresAt c \<le> now) n (pg_challenges (pd_db (ps_data d))) = (c2, t2)"
    "purge (\<lambda>x. min (as_expiresAt x) (as_idleExpiresAt x)) (session_over now) n (pg_sessions (pd_db (ps_data d))) = (c3, t3)"
    and c: "c = c1 + c2 + c3" and d': "d' = d\<lparr>ps_data := \<lparr>pd_db = (pd_db (ps_data d))\<lparr>pg_challenges := t2, pg_sessions := t3\<rparr>, pd_records = t1\<rparr>\<rparr>"
    by (rule pg_cleanup_cases)
  have left: "pg_expired_count now d' = length (filter (row_expired now) t1) + length (filter (\<lambda>c. ch_expiresAt c \<le> now) t2) +
      length (filter (session_over now) t3)" by (simp add: pg_expired_count_def d')
  show "pg_expired_count now d = c + pg_expired_count now d'"
    using purge_result(2) [OF p(1)] purge_result(2) [OF p(2)] purge_result(2) [OF p(3)] unfolding left c by (simp add: pg_expired_count_def)
  show "pg_expired_count now d' = 0" if "c < n"
    using that purge_bounds(2) [OF p(1)] purge_bounds(2) [OF p(2)] purge_bounds(2) [OF p(3)] by (simp add: left c)
  show "c \<le> 3 * n" using purge_bounds(1) [OF p(1)] purge_bounds(1) [OF p(2)] purge_bounds(1) [OF p(3)] by (simp add: c)
qed

interpretation pg_trim: bounded_cleanup "pg_cleanupAudit now days" "pg_old_count now days" 1 for now days
proof
  fix n d c d' assume run: "pg_cleanupAudit now days n d = (c, d')"
  obtain t where p: "purge ar_createdAt (out_of_retention now days) n (ps_audit d) = (c, t)" and d': "d' = d\<lparr>ps_audit := t\<rparr>"
    using run by (auto simp: pg_cleanupAudit_def split: prod.splits)
  note r = purge_result [OF p]
  show "pg_old_count now days d = c + pg_old_count now days d'" by (simp add: pg_old_count_def d' r(2))
  show "pg_old_count now days d' = 0" if "c < n" using purge_bounds(2) [OF p that] by (simp add: pg_old_count_def d')
  show "c \<le> 1 * n" using purge_bounds(1) [OF p] by simp
qed

lemma pg_cleanup_kept: "pg_cleanupExpired now n d = (c, d') \<Longrightarrow> pg_kept now days d' = pg_kept now days d \<and> ps_audit d' = ps_audit d"
  by (erule pg_cleanup_cases) (simp add: pg_kept_def purge_result(3))

lemma pg_trim_kept: "pg_cleanupAudit now days n d = (c, d') \<Longrightarrow> pg_kept now days d' = pg_kept now days d \<and> ps_data d' = ps_data d"
  by (auto simp: pg_cleanupAudit_def pg_kept_def purge_result(3) split: prod.splits)

lemma drain_keeps:
  assumes "\<And>n d c d'. clean n d = (c, d') \<Longrightarrow> f d' = f d" and "drain_batches clean n k d = (c, d')"
  shows "f d' = f d"
  using assms(2)
proof (induction k arbitrary: d c d')
  case (Suc k)
  obtain c1 d1 where s: "clean n d = (c1, d1)" by fastforce
  then show ?case using Suc assms(1) [OF s] by (auto split: if_splits prod.splits)
qed simp

text \<open>C35: One run of the maintenance over PostgreSQL deletes at most 300 000 expired artifacts, challenges and administrator
sessions and at most 100 000 audit events, counts them exactly, and deletes only what has expired or is older than the retention
period: every live artifact, challenge and session, every recent event and every account, grant and passkey is left. Unless a
half has deleted 100 000 rows, it leaves nothing to delete.\<close>

theorem postgres_maintenance_bounded:
  assumes "drainMaintenance (pg_cleanupExpired now) (pg_cleanupAudit now days) d = (deleted, auditDeleted, d')"
  shows "pg_expired_count now d = deleted + pg_expired_count now d' \<and> deleted \<le> 300000 \<and> (pg_expired_count now d' = 0 \<or> 100000 \<le> deleted) \<and>
    pg_old_count now days d = auditDeleted + pg_old_count now days d' \<and> auditDeleted \<le> 100000 \<and>
    (pg_old_count now days d' = 0 \<or> 100000 \<le> auditDeleted) \<and> pg_kept now days d' = pg_kept now days d"
proof -
  obtain d1 where a: "drain_batches (pg_cleanupExpired now) 5000 20 d = (deleted, d1)"
    and b: "drain_batches (pg_cleanupAudit now days) 5000 20 d1 = (auditDeleted, d')"
    using assms by (auto simp: drainMaintenance_def split: prod.splits)
  have "ps_audit d1 = ps_audit d" by (rule drain_keeps [OF _ a]) (rule pg_cleanup_kept [THEN conjunct2])
  then have old: "pg_old_count now days d1 = pg_old_count now days d" by (simp add: pg_old_count_def)
  have "ps_data d' = ps_data d1" by (rule drain_keeps [OF _ b]) (rule pg_trim_kept [THEN conjunct2])
  then have expired: "pg_expired_count now d' = pg_expired_count now d1" by (simp add: pg_expired_count_def)
  have "pg_kept now days d1 = pg_kept now days d" by (rule drain_keeps [OF _ a]) (rule pg_cleanup_kept [THEN conjunct1])
  moreover have "pg_kept now days d' = pg_kept now days d1" by (rule drain_keeps [OF _ b]) (rule pg_trim_kept [THEN conjunct1])
  ultimately show ?thesis using pg_expiry.drain_result [OF a] pg_trim.drain_result [OF b] old expired by simp
qed

definition stale_store :: pg_store where
  "stale_store = \<lparr>ps_data = \<lparr>pd_db = \<lparr>pg_users = [], pg_grants = [], pg_sessions = [], pg_credentials = [], pg_challenges =
     [\<lparr>ch_id = ''c1'', ch_realm = ''corp'', ch_purpose = ''registration'', ch_userId = None, ch_interactionUid = None,
        ch_userHandle = None, ch_challenge = ''x'', ch_expiresAt = 50, ch_createdAt = 0\<rparr>,
      \<lparr>ch_id = ''c2'', ch_realm = ''corp'', ch_purpose = ''registration'', ch_userId = None, ch_interactionUid = None,
        ch_userHandle = None, ch_challenge = ''y'', ch_expiresAt = 5000, ch_createdAt = 0\<rparr>]\<rparr>, pd_records = []\<rparr>, ps_audit = [], ps_realms = []\<rparr>"

lemma postgres_maintenance_bounded_witness:
  "\<exists>d'. drainMaintenance (pg_cleanupExpired 100) (pg_cleanupAudit 100 30) stale_store = (1, 0, d') \<and> pg_expired_count 100 d' = 0 \<and>
     pg_kept 100 30 d' = pg_kept 100 30 stale_store"
proof -
  have n: "pg_expired_count 100 stale_store = 1" "pg_old_count 100 30 stale_store = 0"
    by (simp_all add: pg_expired_count_def pg_old_count_def stale_store_def)
  obtain c a d' where r: "drainMaintenance (pg_cleanupExpired 100) (pg_cleanupAudit 100 30) stale_store = (c, a, d')" by (metis prod_cases3)
  from postgres_maintenance_bounded [OF r] n have "c = 1" "a = 0" "pg_expired_count 100 d' = 0" "pg_kept 100 30 d' = pg_kept 100 30 stale_store"
    by auto
  then show ?thesis using r by blast
qed

section \<open>Profile update\<close>

text \<open>Where the patch says something and the row stays valid, the update is that of the in-memory store.\<close>

theorem postgres_profile_update:
  assumes inv: "store_inv s" and r: "CHR '':'' \<notin> set r" and rel: "pg_rel s d" and said: "\<not> empty_patch patch"
    and valid: "\<And>u. findUserById r i s = Some u \<Longrightarrow> (let row = applyPatch (normalizePatch patch) u in
      u_passwordHash row \<noteq> None \<and> btrim_present (u_email row) \<and> btrim_present (u_name row))"
  shows "(updateUser now r i patch s = Inl USER_EXISTS \<and> pg_updateUser now r i patch d = Inl (Store_failed USER_EXISTS)) \<or>
    (\<exists>u s' d'. updateUser now r i patch s = Inr (u, s') \<and> pg_updateUser now r i patch d = Inr (rowToUser now u, d') \<and> pg_rel s' d')"
proof -
  have sel: "filter (user_row r i) (pg_users d) = (case findUserById r i s of None \<Rightarrow> [] | Some u \<Rightarrow> [u])"
    by (rule filter_user_row [OF inv r rel])
  show ?thesis
  proof (cases "findUserById r i s")
    case None
    then show ?thesis using sel said rel by (simp add: updateUser_def pg_updateUser_def findUserById_def row0_def rowToUser_def)
  next
    case (Some u)
    then have mg: "mget (st_users s) (ukey r i) = Some u" by (simp add: findUserById_def)
    note key = user_at_key [OF inv mg r] and uok = users_keyD [OF inv mg]
    let ?row = "(applyPatch (normalizePatch patch) u)\<lparr>u_updatedAt := now\<rparr>"
    have users: "pg_users d = mvals (st_users s)" using rel by (simp add: pg_rel_def)
    have row: "u_realm ?row = r" "u_id ?row = i" "u_username ?row = u_username u" using key by (simp_all add: applyPatch_def)
    have other: "u_email x = js_lower (u_email x)" "u_id x \<noteq> i \<Longrightarrow> u_realm x = r \<Longrightarrow> logins x \<inter> logins u = {}"
      if "x \<in> set (mvals (st_users s))" for x
    proof -
      note member = that
      obtain k where k: "mget (st_users s) k = Some x" using member set_mvals [of "st_users s"] inv by (auto simp: store_inv_def users_inv_def)
      show "u_email x = js_lower (u_email x)" using users_keyD [OF inv k] by (simp add: user_ok_def)
      assume "u_id x \<noteq> i" "u_realm x = r"
      then have "k \<noteq> ukey r i" using users_keyD [OF inv k] by (auto simp: ukey_def)
      then show "logins x \<inter> logins u = {}"
        using inv k mg key(1) \<open>u_realm x = r\<close> unfolding store_inv_def logins_unique_def by metis
    qed
    have clash: "p_email patch \<noteq> None \<and> pg_login_conflict (filter (\<lambda>x. \<not> user_row r i x) (pg_users d)) ?row \<longleftrightarrow>
        (case p_email (normalizePatch patch) of None \<Rightarrow> None | Some email \<Rightarrow> find (\<lambda>item. u_realm item = r \<and> u_id item \<noteq> i \<and>
          (u_email item = email \<or> js_lower (u_username item) = email)) (mvals (st_users s))) \<noteq> None"
    proof (cases "p_email patch")
      case None
      then show ?thesis by (simp add: normalizePatch_def)
    next
      case (Some e)
      let ?e = "js_lower (js_trim e)"
      have email: "u_email ?row = ?e" "js_lower ?e = ?e" using Some by (simp_all add: applyPatch_def normalizePatch_def or_else_def)
      have "pg_login_conflict (filter (\<lambda>x. \<not> user_row r i x) (pg_users d)) ?row \<longleftrightarrow>
          (\<exists>x\<in>set (mvals (st_users s)). u_realm x = r \<and> u_id x \<noteq> i \<and> (u_email x = ?e \<or> js_lower (u_username x) = ?e))"
        (is "?L \<longleftrightarrow> ?R")
      proof
        assume ?L
        then obtain x where x: "x \<in> set (mvals (st_users s))" "u_realm x = r" "u_id x \<noteq> i"
            "js_lower (u_username x) \<in> {js_lower (u_username u), ?e} \<or> js_lower (u_email x) \<in> {js_lower (u_username u), ?e}"
          unfolding pg_login_conflict_def users row email by (auto simp: user_row_def email)
        then show ?R using other [OF x(1)] by (auto simp: logins_def)
      next
        assume ?R
        then show ?L unfolding pg_login_conflict_def users row email using other(1) by (fastforce simp: user_row_def email)
      qed
      then show ?thesis using Some by (auto simp: normalizePatch_def find_None)
    qed
    let ?dup = "case p_email (normalizePatch patch) of None \<Rightarrow> None | Some email \<Rightarrow> find (\<lambda>item. u_realm item = r \<and> u_id item \<noteq> i \<and>
        (u_email item = email \<or> js_lower (u_username item) = email)) (mvals (st_users s))"
    have selected: "row0 (filter (user_row r i) (pg_users d)) = Some u" using sel Some by (simp add: row0_def)
    show ?thesis
    proof (cases "?dup = None")
      case False
      then show ?thesis using mg said selected clash by (simp add: updateUser_def pg_updateUser_def Let_def)
    next
      case True
      have same: "user_row r i x \<longleftrightarrow> x = u" if "x \<in> set (pg_users d)" for x
      proof -
        have "x \<in> set (filter (user_row r i) (pg_users d)) \<longleftrightarrow> x = u" "u \<in> set (filter (user_row r i) (pg_users d))" using sel Some by simp_all
        then show ?thesis using that by auto
      qed
      have "mvals (mset' (ukey r i) ?row (st_users s)) = map (\<lambda>x. if ukey (u_realm x) (u_id x) = ukey r i then ?row else x) (mvals (st_users s))"
        by (rule keyed_update [OF store_keyed(1) [OF inv] mg])
      also have "\<dots> = map (\<lambda>x. if user_row r i x then (applyPatch (normalizePatch patch) x)\<lparr>u_updatedAt := now\<rparr> else x) (mvals (st_users s))"
        using store_realms(1) [OF inv r] same by (intro map_cong) (auto simp: users)
      finally have table: "map (\<lambda>x. if user_row r i x then (applyPatch (normalizePatch patch) x)\<lparr>u_updatedAt := now\<rparr> else x) (pg_users d) =
          mvals (mset' (ukey r i) ?row (st_users s))" by (simp add: users)
      have "updateUser now r i patch s = Inr (Some ?row, s\<lparr>st_users := mset' (ukey r i) ?row (st_users s)\<rparr>)"
        using mg True by (simp add: updateUser_def Let_def)
      moreover have "pg_updateUser now r i patch d = Inr (rowToUser now (Some ?row), d\<lparr>pg_users := mvals (mset' (ukey r i) ?row (st_users s))\<rparr>)"
        using said selected clash True valid [OF Some] by (simp add: pg_updateUser_def Let_def table)
      moreover have "pg_rel (s\<lparr>st_users := mset' (ukey r i) ?row (st_users s)\<rparr>) (d\<lparr>pg_users := mvals (mset' (ukey r i) ?row (st_users s))\<rparr>)"
        using rel by (simp add: pg_rel_def)
      ultimately show ?thesis by blast
    qed
  qed
qed

end
