(* ===== verification/Migrations.thy ===== *)
theory Migrations
  imports ExtensionRegistry
begin

text \<open>
  The database schema (\<open>src/migrations.js\<close> and \<open>scripts/migrate.mjs\<close>): the migrations of a release, the checks of the
  applied ones against them, and the run that applies the rest. A database is the table \<open>schema_migrations\<close> and everything
  else, on which a script acts as a whole or not at all (the transaction around it). The advisory lock keeps runs apart.
\<close>

section \<open>The release\<close>

record migration =
  mg_name :: string
  mg_checksum :: string
  mg_sql :: string

datatype schema_error = Release_empty | Table_missing | Table_unreadable
  | Schema_mismatch (pending: "string list") (modified: "string list") (unknown: "string list")
  | Migration_modified string | Migration_failed string

definition is_line_end :: "char \<Rightarrow> bool" where "is_line_end c \<longleftrightarrow> c = CHR 0x0A \<or> c = CHR 0x0D"

text \<open>\<open>/^\d+_.+\.sql$/\<close>.\<close>

definition migrationName :: "string \<Rightarrow> bool" where
  "migrationName s \<longleftrightarrow> takeWhile is_digit s \<noteq> [] \<and>
     (case dropWhile is_digit s of
        [] \<Rightarrow> False
      | c # t \<Rightarrow> c = CHR ''_'' \<and> 5 \<le> length t \<and> drop (length t - 4) t = ''.sql'' \<and> \<not> list_ex is_line_end (take (length t - 4) t))"

definition loadMigrationManifest :: "(string \<Rightarrow> string) \<Rightarrow> (string \<times> string) list \<Rightarrow> schema_error + migration list" where
  "loadMigrationManifest sha256 directory =
     (let names = sort_by str_le (filter migrationName (map fst directory)) in
      bindR (guardR (names \<noteq> []) Release_empty) (\<lambda>_.
        Inr (map (\<lambda>n. let sql = (case mget directory n of None \<Rightarrow> [] | Some t \<Rightarrow> t) in
               \<lparr>mg_name = n, mg_checksum = sha256 sql, mg_sql = sql\<rparr>) names)))"

definition entry :: "migration \<Rightarrow> string \<times> string" where "entry m = (mg_name m, mg_checksum m)"

section \<open>Checks against the release\<close>

text \<open>\<open>new Map(entries)\<close>, the answer of a query (rows, or the code of the error), and the two checks.\<close>

definition js_map :: "('k \<times> 'v) list \<Rightarrow> ('k \<times> 'v) list" where
  "js_map es = fold (\<lambda>(k, v). mset' k v) es []"

type_synonym history_answer = "string + (string \<times> string) list"

definition verifyMigrationState :: "history_answer \<Rightarrow> migration list \<Rightarrow> schema_error + unit" where
  "verifyMigrationState answer manifest =
     (case answer of
        Inl code \<Rightarrow> Inl (if code = ''42P01'' then Table_missing else Table_unreadable)
      | Inr rows \<Rightarrow>
          (let expected = js_map (map entry manifest); applied = js_map rows;
               pend = filter (\<lambda>n. mget applied n = None) (mkeys expected);
               modif = map fst (filter (\<lambda>(n, c). mget applied n \<noteq> None \<and> mget applied n \<noteq> Some c) expected);
               unkn = filter (\<lambda>n. mget expected n = None) (mkeys applied)
           in guardR (pend = [] \<and> modif = [] \<and> unkn = []) (Schema_mismatch pend modif unkn)))"

definition verifyMigrationHistory :: "history_answer \<Rightarrow> migration list \<Rightarrow> schema_error + unit" where
  "verifyMigrationHistory answer manifest =
     (case answer of
        Inl code \<Rightarrow> Inl Table_unreadable
      | Inr rows \<Rightarrow>
          (let expected = js_map (map entry manifest);
               modif = map fst (filter (\<lambda>(n, c). mget expected n \<noteq> None \<and> mget expected n \<noteq> Some c) rows);
               unkn = map fst (filter (\<lambda>(n, c). mget expected n = None) rows)
           in guardR (modif = [] \<and> unkn = []) (Schema_mismatch [] modif unkn)))"

section \<open>The run\<close>

record 's database =
  md_history :: "(string \<times> string) list option"
  md_schema :: 's

definition applied_rows :: "'s database \<Rightarrow> (string \<times> string) list" where
  "applied_rows db = (case md_history db of None \<Rightarrow> [] | Some rows \<Rightarrow> rows)"

definition select_history :: "'s database \<Rightarrow> history_answer" where
  "select_history db =
     (case md_history db of None \<Rightarrow> Inl ''42P01'' | Some rows \<Rightarrow> Inr (sort_by (\<lambda>r q. str_le (fst r) (fst q)) rows))"

text \<open>One migration: skipped, refused as modified, or applied in a transaction with its entry. \<open>exec\<close> is a script on the schema.\<close>

definition apply_migration :: "(string \<Rightarrow> 's \<Rightarrow> 's option) \<Rightarrow> migration \<Rightarrow> ('s database, schema_error, unit) handler" where
  "apply_migration exec m db =
     (case mget (applied_rows db) (mg_name m) of
        Some c \<Rightarrow> if c \<noteq> mg_checksum m then (Inl (Migration_modified (mg_name m)), db) else (Inr (), db)
      | None \<Rightarrow>
          (case exec (mg_sql m) (md_schema db) of
             None \<Rightarrow> (Inl (Migration_failed (mg_name m)), db)
           | Some schema \<Rightarrow> (Inr (), db\<lparr>md_history := Some (applied_rows db @ [entry m]), md_schema := schema\<rparr>)))"

fun apply_migrations :: "(string \<Rightarrow> 's \<Rightarrow> 's option) \<Rightarrow> migration list \<Rightarrow> ('s database, schema_error, unit) handler" where
  "apply_migrations exec [] = retS ()"
| "apply_migrations exec (m # ms) = bindS (apply_migration exec m) (\<lambda>_. apply_migrations exec ms)"

definition migrate :: "(string \<Rightarrow> 's \<Rightarrow> 's option) \<Rightarrow> migration list \<Rightarrow> ('s database, schema_error, unit) handler" where
  "migrate exec manifest =
     bindS (\<lambda>db. (Inr (), db\<lparr>md_history := Some (applied_rows db)\<rparr>)) (\<lambda>_.
     bindS (\<lambda>db. (verifyMigrationHistory (select_history db) manifest, db)) (\<lambda>_.
     bindS (apply_migrations exec manifest) (\<lambda>_.
       \<lambda>db. (verifyMigrationState (select_history db) manifest, db))))"

section \<open>Lemmas\<close>

lemma mget_js_map [simp]: "mget (js_map es) = map_of (rev es)"
proof (induction es rule: rev_induct)
  case (snoc x es)
  then show ?case by (cases x) (simp add: js_map_def update_conv' fun_eq_iff)
qed (simp add: js_map_def)

lemma map_of_set_eq: "map_wf xs \<Longrightarrow> map_wf ys \<Longrightarrow> set xs = set ys \<Longrightarrow> map_of xs = map_of ys"
  by (simp add: map_wf_def map_of_inject_set)

lemma js_map_wf: "distinct (map fst (js_map es))"
  by (induction es rule: rev_induct) (auto simp: js_map_def distinct_update)

lemma wf_map_of_rev: "map_wf es \<Longrightarrow> map_of (rev es) = map_of es"
  by (rule map_of_set_eq) (simp_all add: map_wf_def flip: rev_map)

lemma keys_missing: "filter (\<lambda>n. mget a n = None) (mkeys e) = [] \<longleftrightarrow> (\<forall>n. mget e n \<noteq> None \<longrightarrow> mget a n \<noteq> None)"
proof -
  have "mget e n \<noteq> None \<longleftrightarrow> n \<in> set (mkeys e)" for n by (auto simp: mkeys_def map_of_eq_None_iff)
  then show ?thesis by (auto simp: filter_empty_conv)
qed

lemma values_differ:
  assumes "distinct (map fst e)"
  shows "map fst (filter (\<lambda>(n, c). mget a n \<noteq> None \<and> mget a n \<noteq> Some c) e) = [] \<longleftrightarrow>
    (\<forall>n c. mget e n = Some c \<longrightarrow> mget a n = None \<or> mget a n = Some c)"
  unfolding map_of_eq_Some_iff [OF assms] by (fastforce simp: filter_empty_conv)

lemma maps_agree:
  "(\<forall>n. mget e n \<noteq> None \<longrightarrow> mget a n \<noteq> None) \<and> (\<forall>n c. mget e n = Some c \<longrightarrow> mget a n = None \<or> mget a n = Some c) \<and>
     (\<forall>n. mget a n \<noteq> None \<longrightarrow> mget e n \<noteq> None) \<longleftrightarrow> mget a = mget e" (is "?l \<longleftrightarrow> ?r")
proof
  assume l: ?l
  show ?r
  proof
    fix n show "mget a n = mget e n" using l by (cases "mget e n") fastforce+
  qed
qed auto

text \<open>The database is verified exactly if the applied migrations are those of the release, with their checksums.\<close>

lemma verify_equal:
  "verifyMigrationState (Inr rows) ms = Inr () \<longleftrightarrow> map_of (rev rows) = map_of (rev (map entry ms))"
  unfolding verifyMigrationState_def Let_def sum.case guardR_simps keys_missing values_differ [OF js_map_wf] maps_agree mget_js_map ..

lemma history_compatible:
  assumes "map_wf (map entry ms)" "map_wf rows" "map_of rows = map_of (map entry ms)" shows "verifyMigrationHistory (Inr rows) ms = Inr ()"
proof -
  have "mget (js_map (map entry ms)) n = Some c" if "(n, c) \<in> set rows" for n c
    using that assms by (simp add: wf_map_of_rev map_wf_def flip: assms(3))
  then show ?thesis by (auto simp: verifyMigrationHistory_def Let_def filter_empty_conv simp del: mget_js_map)
qed

section \<open>Runs\<close>

text \<open>The scripts on the schema, one after the other.\<close>

fun exec_all :: "(string \<Rightarrow> 's \<Rightarrow> 's option) \<Rightarrow> string list \<Rightarrow> 's \<Rightarrow> 's option" where
  "exec_all exec [] s = Some s"
| "exec_all exec (q # qs) s = (case exec q s of None \<Rightarrow> None | Some s' \<Rightarrow> exec_all exec qs s')"

definition unapplied :: "(string \<times> string) list \<Rightarrow> migration list \<Rightarrow> migration list" where
  "unapplied rows ms = filter (\<lambda>m. mget rows (mg_name m) = None) ms"

lemma apply_migrations_spec:
  assumes "distinct (map mg_name ms)" "md_history db = Some rows" "apply_migrations exec ms db = (r, db')"
  shows "\<exists>run rest. unapplied rows ms = run @ rest \<and> md_history db' = Some (rows @ map entry run) \<and>
    exec_all exec (map mg_sql run) (md_schema db) = Some (md_schema db') \<and> (r = Inr () \<longrightarrow> rest = [])"
  using assms
proof (induction ms arbitrary: db rows)
  case Nil
  then show ?case by (auto simp: unapplied_def)
next
  case (Cons m ms)
  have rows: "applied_rows db = rows" using Cons.prems(2) by (simp add: applied_rows_def)
  show ?case
  proof (cases "mget rows (mg_name m)")
    case (Some c)
    have u: "unapplied rows (m # ms) = unapplied rows ms" using Some by (simp add: unapplied_def)
    show ?thesis
    proof (cases "c = mg_checksum m")
      case True
      then have "apply_migrations exec ms db = (r, db')" using Cons.prems(3) Some by (simp add: apply_migration_def rows bindS_def)
      from Cons.IH [OF _ Cons.prems(2) this] Cons.prems(1) show ?thesis unfolding u by simp
    next
      case False
      then have "r = Inl (Migration_modified (mg_name m)) \<and> db' = db"
        using Cons.prems(3) Some by (simp add: apply_migration_def rows bindS_def)
      then show ?thesis using Cons.prems(2) by (intro exI [of _ "[]"] exI [of _ "unapplied rows (m # ms)"]) simp
    qed
  next
    case None
    show ?thesis
    proof (cases "exec (mg_sql m) (md_schema db)")
      case None': None
      then have "r = Inl (Migration_failed (mg_name m)) \<and> db' = db"
        using Cons.prems(3) None by (simp add: apply_migration_def rows bindS_def)
      then show ?thesis using Cons.prems(2) by (intro exI [of _ "[]"] exI [of _ "unapplied rows (m # ms)"]) simp
    next
      case (Some schema)
      let ?db = "db\<lparr>md_history := Some (rows @ [entry m]), md_schema := schema\<rparr>"
      have a: "apply_migrations exec ms ?db = (r, db')"
        using Cons.prems(3) None Some by (simp add: apply_migration_def rows bindS_def)
      have u: "unapplied rows (m # ms) = m # unapplied (rows @ [entry m]) ms"
        using Cons.prems(1) None by (auto simp: unapplied_def entry_def map_add_def rev_image_eqI intro!: filter_cong split: option.splits)
      obtain run rest where "unapplied (rows @ [entry m]) ms = run @ rest" "md_history db' = Some ((rows @ [entry m]) @ map entry run)"
          "exec_all exec (map mg_sql run) schema = Some (md_schema db')" "r = Inr () \<longrightarrow> rest = []"
        using Cons.IH [OF _ _ a] Cons.prems(1) by auto
      then show ?thesis using Some unfolding u
        by (intro exI [of _ "m # run"] exI [of _ rest]) simp
    qed
  qed
qed

lemma apply_migrations_skip:
  assumes "map_of (applied_rows db) = map_of (map entry ms')" "distinct (map mg_name ms')" "set ms \<subseteq> set ms'"
  shows "apply_migrations exec ms db = (Inr (), db)"
  using assms(3)
proof (induction ms)
  case (Cons m ms)
  have "(mg_name m, mg_checksum m) \<in> set (map entry ms')" using Cons.prems by (auto simp: entry_def)
  moreover have "distinct (map fst (map entry ms'))" using assms(2) by (simp add: entry_def comp_def)
  ultimately have "mget (applied_rows db) (mg_name m) = Some (mg_checksum m)" by (simp add: assms(1))
  then show ?case using Cons by (simp add: apply_migration_def bindS_def)
qed simp

lemma str_le_total: "str_le a b \<or> str_le b a"
  by (induction a b rule: str_le.induct) (auto simp: linorder_less_linear, (metis linorder_neqE_nat of_char_eq_iff)?)

lemma str_le_trans: "str_le a b \<Longrightarrow> str_le b c \<Longrightarrow> str_le a c"
proof (induction a c arbitrary: b rule: str_le.induct)
  case (2 x s)
  then show ?case by (cases b) auto
next
  case (3 x s y t)
  then show ?case by (cases b) auto
qed simp

lemma sorted_sort_by:
  assumes total: "\<And>a b. le a b \<or> le b a" and trans: "\<And>a b c. le a b \<Longrightarrow> le b c \<Longrightarrow> le a c"
  shows "sorted_wrt le (sort_by le xs)"
proof -
  have "sorted_wrt le (insort_by le x ys)" if "sorted_wrt le ys" for x ys
    using that
  proof (induction ys)
    case (Cons y ys)
    then show ?case using total [of x y] trans [of x y] by (cases "le x y") auto
  qed simp
  then show ?thesis by (induction xs) (simp_all add: sort_by_Cons, simp add: sort_by_def)
qed

lemma distinct_map_sort_by: "distinct (map f (sort_by le xs)) \<longleftrightarrow> distinct (map f xs)"
proof -
  have "distinct (map f (insort_by le x ys)) \<longleftrightarrow> f x \<notin> f ` set ys \<and> distinct (map f ys)" for x ys
    by (induction ys) auto
  then show ?thesis by (induction xs) (auto simp: sort_by_Cons, simp add: sort_by_def)
qed

lemma manifest_sorted:
  assumes "loadMigrationManifest sha256 directory = Inr ms" "map_wf directory"
  shows "distinct (map mg_name ms)" "sorted_wrt (\<lambda>m m'. str_le (mg_name m) (mg_name m')) ms"
proof -
  have names: "map mg_name ms = sort_by str_le (filter migrationName (map fst directory))"
    using assms(1) by (auto simp: loadMigrationManifest_def Let_def comp_def)
  show "distinct (map mg_name ms)" using assms(2) by (simp add: names map_wf_def)
  have "sorted_wrt str_le (map mg_name ms)"
    unfolding names by (rule sorted_sort_by) (use str_le_total str_le_trans in blast)+
  then show "sorted_wrt (\<lambda>m m'. str_le (mg_name m) (mg_name m')) ms" by (simp add: sorted_wrt_map)
qed

text \<open>C28: The table of applied migrations never lies about the schema. Whatever happens to a run of the migrations, it has
applied a first part of the ones that were missing, in the order of their names, each of them exactly once and with its entry;
a run that ends well has applied all of them and leaves a database the service starts on, and one more run does nothing. So
after a failure the next run goes on where the last one stopped.\<close>

theorem migration_run_resumable:
  assumes load: "loadMigrationManifest sha256 directory = Inr ms" and dir: "map_wf directory" and key: "map_wf (applied_rows db)"
    and run: "migrate exec ms db = (r, db')"
  shows "\<exists>run rest. unapplied (applied_rows db) ms = run @ rest \<and> sorted_wrt (\<lambda>m m'. str_le (mg_name m) (mg_name m')) (run @ rest) \<and>
    applied_rows db' = applied_rows db @ map entry run \<and>
    exec_all exec (map mg_sql run) (md_schema db) = Some (md_schema db') \<and>
    (r = Inr () \<longrightarrow> rest = [] \<and> verifyMigrationState (select_history db') ms = Inr () \<and>
       (\<forall>exec'. migrate exec' ms db' = (Inr (), db')))"
proof -
  note names = manifest_sorted [OF load dir]
  let ?db = "db\<lparr>md_history := Some (applied_rows db)\<rparr>"
  have sorted: "sorted_wrt (\<lambda>m m'. str_le (mg_name m) (mg_name m')) (unapplied (applied_rows db) ms)"
    using names(2) by (simp add: unapplied_def sorted_wrt_filter)
  obtain run rest where p: "unapplied (applied_rows db) ms = run @ rest" "md_history db' = Some (applied_rows db @ map entry run)"
      "exec_all exec (map mg_sql run) (md_schema db) = Some (md_schema db')"
      "r = Inr () \<longrightarrow> rest = [] \<and> verifyMigrationState (select_history db') ms = Inr ()"
  proof (cases "verifyMigrationHistory (select_history ?db) ms")
    case (Inl e)
    then have "r = Inl e \<and> db' = ?db" using run by (simp add: migrate_def bindS_def)
    then show ?thesis using that [of "[]" "unapplied (applied_rows db) ms"] by simp
  next
    case (Inr u)
    obtain r1 db1 where a: "apply_migrations exec ms ?db = (r1, db1)" by fastforce
    obtain run rest where s: "unapplied (applied_rows db) ms = run @ rest" "md_history db1 = Some (applied_rows db @ map entry run)"
        "exec_all exec (map mg_sql run) (md_schema db) = Some (md_schema db1)" "r1 = Inr () \<longrightarrow> rest = []"
      using apply_migrations_spec [OF names(1) _ a] by auto
    have "db' = db1" "r = (case r1 of Inl e \<Rightarrow> Inl e | Inr v \<Rightarrow> verifyMigrationState (select_history db1) ms)"
      using run Inr a by (auto simp: migrate_def bindS_def split: sum.splits)
    then show ?thesis using that [OF s(1)] s by (cases r1) auto
  qed
  have again: "migrate exec' ms db' = (Inr (), db')" if ok: "r = Inr ()" for exec'
  proof -
    let ?rows = "applied_rows db @ map entry run" and ?le = "\<lambda>r q. str_le (fst r) (fst q)"
    have "distinct (map mg_name (run @ rest))" using names(1) unfolding p(1) [symmetric] by (simp add: unapplied_def distinct_map_filter)
    moreover have "mget (applied_rows db) (mg_name m) = None" if "m \<in> set run" for m
    proof -
      have "m \<in> set (unapplied (applied_rows db) ms)" using that by (simp add: p(1))
      then show ?thesis by (simp add: unapplied_def)
    qed
    ultimately have wf: "map_wf ?rows"
      using key by (fastforce simp: map_wf_def entry_def comp_def map_of_eq_None_iff rev_image_eqI)
    have rows: "applied_rows db' = ?rows" "md_history db' = Some ?rows" using p(2) by (simp_all add: applied_rows_def)
    have sel: "select_history db' = Inr (sort_by ?le ?rows)" by (simp add: select_history_def p(2))
    have wf': "map_wf (sort_by ?le ?rows)" using wf by (simp add: map_wf_def distinct_map_sort_by del: map_append)
    have wfe: "map_wf (map entry ms)" using names(1) by (simp add: map_wf_def entry_def comp_def)
    have eq: "map_of (sort_by ?le ?rows) = map_of (map entry ms)"
      using p(4) ok wf_map_of_rev [OF wf'] wf_map_of_rev [OF wfe] by (simp add: sel verify_equal)
    have eq2: "map_of ?rows = map_of (sort_by ?le ?rows)"
      by (rule map_of_set_eq [OF wf wf']) simp
    have "apply_migrations exec' ms db' = (Inr (), db')"
      by (rule apply_migrations_skip [OF _ names(1)]) (simp_all add: rows eq eq2 del: map_of_append)
    moreover have "verifyMigrationHistory (select_history db') ms = Inr ()"
      unfolding sel by (rule history_compatible [OF wfe wf' eq])
    moreover have "db'\<lparr>md_history := Some (applied_rows db')\<rparr> = db'" using rows by (cases db') simp
    ultimately show ?thesis using p(4) ok by (simp add: migrate_def bindS_def)
  qed
  show ?thesis
    using p again sorted by (intro exI [of _ run] exI [of _ rest]) (simp add: applied_rows_def)
qed

definition demo_directory :: "(string \<times> string) list" where
  "demo_directory = [(''002_b.sql'', ''b''), (''notes.txt'', ''x''), (''001_a.sql'', ''a'')]"

definition demo_exec :: "string \<Rightarrow> string list \<Rightarrow> string list option" where "demo_exec sql s = Some (s @ [sql])"

definition demo_database :: "string list database" where
  "demo_database = \<lparr>md_history = Some [(''001_a.sql'', ''a'')], md_schema = [''a'']\<rparr>"

theorem migration_run_resumable_witness:
  "\<exists>ms db'. loadMigrationManifest id demo_directory = Inr ms \<and> migrate demo_exec ms demo_database = (Inr (), db') \<and>
     md_schema db' = [''a'', ''b''] \<and> migrate demo_exec ms db' = (Inr (), db')"
proof -
  let ?ms = "[\<lparr>mg_name = ''001_a.sql'', mg_checksum = ''a'', mg_sql = ''a''\<rparr>, \<lparr>mg_name = ''002_b.sql'', mg_checksum = ''b'', mg_sql = ''b''\<rparr>]"
  have load: "loadMigrationManifest id demo_directory = Inr ?ms"
    by (simp add: Let_def loadMigrationManifest_def demo_directory_def migrationName_def js_defs is_line_end_def sort_by_def of_char_def horner_sum_simps)
  let ?db = "\<lparr>md_history = Some [(''001_a.sql'', ''a''), (''002_b.sql'', ''b'')], md_schema = [''a'', ''b'']\<rparr>"
  have run: "migrate demo_exec ?ms demo_database = (Inr (), ?db)"
    by (simp add: migrate_def demo_database_def demo_exec_def bindS_def apply_migration_def applied_rows_def entry_def select_history_def
        verifyMigrationHistory_def verifyMigrationState_def js_map_def mkeys_def sort_by_def)
  have "map_wf demo_directory" "map_wf (applied_rows demo_database)"
    by (simp_all add: map_wf_def demo_directory_def demo_database_def applied_rows_def)
  from migration_run_resumable [OF load this run] load run show ?thesis by (intro exI [of _ ?ms] exI [of _ ?db]) auto
qed

end
