(* ===== verification/PagesProps.thy ===== *)
theory PagesProps
  imports Pages
begin

text \<open>
  No value that a client, a user or an upstream provider chose changes the markup of a page. A scanner reads a page as a browser
  does at this level: text, tags, and attribute values in either kind of quotes; what it keeps is the markup, the tags with
  their attributes but without the values. \<open>hole\<close> is the contract of an encoder in a place of a page.
\<close>

section \<open>Reading a page\<close>

datatype mode = Data | Tag | Double | Single

fun next_mode :: "mode \<Rightarrow> char \<Rightarrow> mode" where
  "next_mode Data c = (if c = CHR ''<'' then Tag else Data)"
| "next_mode Tag c = (if c = CHR ''>'' then Data else if c = CHR 0x22 then Double else if c = CHR 0x27 then Single else Tag)"
| "next_mode Double c = (if c = CHR 0x22 then Tag else Double)"
| "next_mode Single c = (if c = CHR 0x27 then Tag else Single)"

fun scan :: "mode \<Rightarrow> string \<Rightarrow> mode" where
  "scan m [] = m"
| "scan m (c # s) = scan (next_mode m c) s"

definition is_markup :: "mode \<Rightarrow> char \<Rightarrow> bool" where "is_markup m c \<longleftrightarrow> m = Tag \<or> next_mode m c = Tag"

fun markup :: "mode \<Rightarrow> string \<Rightarrow> string" where
  "markup m [] = []"
| "markup m (c # s) = (if is_markup m c then [c] else []) @ markup (next_mode m c) s"

lemma scan_append [simp]: "scan m (s @ t) = scan (scan m s) t"
  by (induction s arbitrary: m) auto

lemma markup_append [simp]: "markup m (s @ t) = markup m s @ markup (scan m s) t"
  by (induction s arbitrary: m) auto

section \<open>Encoders\<close>

locale hole =
  fixes enc :: "string \<Rightarrow> string" and m :: mode
  assumes stays: "scan m (enc v) = m" and silent: "markup m (enc v) = []"
begin

lemma transparent: "scan m (enc v @ s) = scan m s" "markup m (enc v @ s) = markup m s"
  by (simp_all add: stays silent)

end

text \<open>An encoder that works character by character is a hole if every character is.\<close>

lemma hole_by_chars:
  assumes "\<And>c. \<forall>d\<in>set (f c). next_mode m d = m \<and> \<not> is_markup m d"
  shows "hole (\<lambda>s. concat (map f s)) m"
proof -
  have quiet: "scan m s = m \<and> markup m s = []" if "\<forall>d\<in>set s. next_mode m d = m \<and> \<not> is_markup m d" for s
    using that by (induction s) auto
  show ?thesis
  proof
    fix v show "scan m (concat (map f v)) = m" "markup m (concat (map f v)) = []"
      using quiet [of "concat (map f v)"] assms by auto
  qed
qed

definition escape_char :: "char \<Rightarrow> string" where
  "escape_char c = (if c = CHR ''&'' then ''&amp;'' else if c = CHR ''<'' then ''&lt;'' else if c = CHR ''>'' then ''&gt;''
     else if c = CHR 0x22 then ''&quot;'' else if c = CHR 0x27 then ''&#39;'' else [c])"

lemma escapeHtml_chars: "escapeHtml = (\<lambda>s. concat (map escape_char s))"
proof
  fix s show "escapeHtml s = concat (map escape_char s)"
    by (induction s) (auto simp: escapeHtml_def replaceAll_def escape_char_def)
qed

lemma escapeHtml_Nil: "escapeHtml [] = []" by (simp add: escapeHtml_chars)

interpretation escaped_text: hole escapeHtml Data
  unfolding escapeHtml_chars by (rule hole_by_chars) (auto simp: escape_char_def is_markup_def)

interpretation escaped_value: hole escapeHtml Double
  unfolding escapeHtml_chars by (rule hole_by_chars) (auto simp: escape_char_def is_markup_def)

lemma encodeURIComponent_Nil: "encodeURIComponent [] = []" by (simp add: encodeURIComponent_def)

lemma uri_char_quiet: "d \<in> set (uri_char c) \<Longrightarrow> d \<noteq> CHR 0x22"
proof -
  have "hex_digit n \<noteq> CHR 0x22" if "n < 16" for n
  proof -
    have "hex_digit n \<in> set ''0123456789ABCDEF''" unfolding hex_digit_def by (rule nth_mem) (use that in simp)
    then show ?thesis by auto
  qed
  moreover have "(of_char c :: nat) div 16 < 16" "(of_char c :: nat) mod 16 < 16"
    using mod_less_divisor [of 256 "of_char c :: nat"] by (simp_all add: less_mult_imp_div_less)
  ultimately have hex: "hex_digit (of_char c div 16) \<noteq> CHR 0x22" "hex_digit (of_char c mod 16) \<noteq> CHR 0x22" by blast+
  have "is_alnum c \<Longrightarrow> c \<noteq> CHR 0x22" by (auto simp: js_defs)
  then show "d \<in> set (uri_char c) \<Longrightarrow> d \<noteq> CHR 0x22" using hex by (auto simp: uri_char_def split: if_splits)
qed

interpretation encoded_value: hole encodeURIComponent Double
proof -
  have "encodeURIComponent = (\<lambda>s. concat (map uri_char s))" by (rule ext) (simp add: encodeURIComponent_def)
  then show "hole encodeURIComponent Double"
    using hole_by_chars [of uri_char Double] uri_char_quiet by (auto simp: is_markup_def)
qed

section \<open>Pages with holes\<close>

text \<open>The mode after a list of pieces, if every value of it stands in a place its encoder is made for.\<close>

fun flow :: "mode \<Rightarrow> piece list \<Rightarrow> mode option" where
  "flow m [] = Some m"
| "flow m (Lit s # ps) = flow (scan m s) ps"
| "flow m (Esc v # ps) = (if m = Data \<or> m = Double then flow m ps else None)"
| "flow m (Enc v # ps) = (if m = Double then flow m ps else None)"
| "flow m (Raw f # ps) = (if m = Data \<and> scan Data f = Data then flow m ps else None)"

lemma flow_append [simp]: "flow m (ps @ qs) = (case flow m ps of None \<Rightarrow> None | Some m' \<Rightarrow> flow m' qs)"
  by (induction m ps rule: flow.induct) auto

lemma flow_concat:
  assumes "\<And>x. flow m (f x) = Some m" shows "flow m (concat (map f xs)) = Some m"
  using assms by (induction xs) auto

fun erase :: "piece \<Rightarrow> piece" where
  "erase (Esc v) = Esc []" | "erase (Enc v) = Enc []" | "erase p = p"

lemma html_Cons [simp]: "html [] = []" "html (p # ps) = piece_text p @ html ps"
  by (simp_all add: html_def)

lemma flow_markup:
  "flow m ps = Some m' \<Longrightarrow> scan m (html ps) = m' \<and> markup m (html ps) = markup m (html (map erase ps))"
proof (induction m ps rule: flow.induct)
  case (3 m v ps)
  then show ?case
    by (auto simp: escaped_text.stays escaped_text.silent escaped_value.stays escaped_value.silent escapeHtml_Nil split: if_splits)
next
  case (4 m v ps)
  then show ?case
    by (auto simp: encoded_value.stays encoded_value.silent encodeURIComponent_Nil split: if_splits)
next
  case (5 m f ps)
  then show ?case by (auto split: if_splits)
qed auto

section \<open>Every page\<close>

datatype view =
    Login string string string string string string "login_provider list"
  | Consent "string \<Rightarrow> string option" string string string string "string list"
  | Failure string string string
  | DeviceInput string string string
  | DeviceConfirmation string string string string
  | DeviceSuccess string string
  | LogoutConfirmation string string string
  | LogoutSuccess string string
  | AdminLogin "string list" string

fun page :: "view \<Rightarrow> piece list" where
  "page (Login realm uid csrf client login error ps) = renderLogin realm uid csrf client login error ps"
| "page (Consent inh realm uid csrf client scopes) = renderConsent inh realm uid csrf client scopes"
| "page (Failure realm title message) = renderError realm title message"
| "page (DeviceInput realm form error) = renderDeviceInput realm form error"
| "page (DeviceConfirmation realm form client code) = renderDeviceConfirmation realm form client code"
| "page (DeviceSuccess realm client) = renderDeviceSuccess realm client"
| "page (LogoutConfirmation realm form client) = renderLogoutConfirmation realm form client"
| "page (LogoutSuccess realm client) = renderLogoutSuccess realm client"
| "page (AdminLogin realms error) = renderAdminLogin realms error"

text \<open>The same page with every value replaced by a harmless one: only which texts are empty and how many there are is kept.\<close>

definition dull :: "string \<Rightarrow> string" where "dull s = (if s = [] then [] else ''x'')"

definition dull_provider :: "login_provider \<Rightarrow> login_provider" where
  "dull_provider p = \<lparr>lv_extensionId = ''x'', lv_providerId = ''x'', lv_csrfToken = ''x'', lv_displayName = ''x''\<rparr>"

fun dull_view :: "view \<Rightarrow> view" where
  "dull_view (Login realm uid csrf client login error ps) =
     Login ''x'' ''x'' ''x'' ''x'' ''x'' (dull error) (map dull_provider ps)"
| "dull_view (Consent inh realm uid csrf client scopes) = Consent (\<lambda>_. None) ''x'' ''x'' ''x'' ''x'' (map (\<lambda>_. ''x'') scopes)"
| "dull_view (Failure realm title message) = Failure ''x'' ''x'' ''x''"
| "dull_view (DeviceInput realm form error) = DeviceInput ''x'' form (dull error)"
| "dull_view (DeviceConfirmation realm form client code) = DeviceConfirmation ''x'' form ''x'' ''x''"
| "dull_view (DeviceSuccess realm client) = DeviceSuccess ''x'' ''x''"
| "dull_view (LogoutConfirmation realm form client) = LogoutConfirmation ''x'' form (dull client)"
| "dull_view (LogoutSuccess realm client) = LogoutSuccess ''x'' (dull client)"
| "dull_view (AdminLogin realms error) = AdminLogin (map dull realms) (dull error)"

text \<open>The form of the library, where a page has one.\<close>

fun library_form :: "view \<Rightarrow> string" where
  "library_form (DeviceInput realm form error) = form"
| "library_form (DeviceConfirmation realm form client code) = form"
| "library_form (LogoutConfirmation realm form client) = form"
| "library_form v = []"

lemmas page_defs = renderLogin_def renderConsent_def renderError_def renderDeviceInput_def renderDeviceConfirmation_def
  renderDeviceSuccess_def renderLogoutConfirmation_def renderLogoutSuccess_def renderAdminLogin_def loginBody_def consentBody_def
  for_client_def errorMarkup_def documentHead_def

lemma dull_empty [simp]: "dull s = [] \<longleftrightarrow> s = []" by (simp add: dull_def)

lemma shell_flow: "flow Data body = Some Data \<Longrightarrow> flow Data scripts = Some Data \<Longrightarrow> flow Data (shell title realm body scripts) = Some Data"
  by (simp add: shell_def middle_dot_def)

lemma errorBanner_flow: "flow Data (errorBanner message) = Some Data"
  by (simp add: errorBanner_def)

lemma federationForm_flow: "flow Data (federationForm realm uid p) = Some Data"
  by (simp add: federationForm_def)

lemma scopeItem_flow: "flow Data (scopeItem inherited scope) = Some Data"
  by (simp add: scopeItem_def check_mark_def)

lemma realmOptions_flow: "flow Data (realmOptions realms) = Some Data"
  by (simp add: realmOptions_def Let_def flow_concat)

lemma loginBody_flow: "flow Data (loginBody realm uid csrf client login error ps) = Some Data"
  by (simp add: loginBody_def errorBanner_flow federationForm_flow flow_concat)

lemma consentBody_flow: "flow Data (consentBody inherited realm uid csrf client scopes) = Some Data"
  by (simp add: consentBody_def scopeItem_flow flow_concat)

lemma documentHead_flow: "flow Data (documentHead title) = Some Data"
  by (simp add: documentHead_def middle_dot_def)

lemma errorMarkup_flow: "flow Data (errorMarkup error) = Some Data"
  by (simp add: errorMarkup_def)

lemma renderAdminLogin_flow: "flow Data (renderAdminLogin realms error) = Some Data"
  by (simp add: renderAdminLogin_def documentHead_flow errorMarkup_flow realmOptions_flow check_mark_def)

lemma page_flow: "scan Data (library_form v) = Data \<Longrightarrow> flow Data (page v) = Some Data"
  by (cases v) (simp_all add: page_defs(1-8) for_client_def shell_flow loginBody_flow consentBody_flow errorBanner_flow renderAdminLogin_flow)

section \<open>Values do not matter\<close>

lemma erase_concat:
  assumes "\<And>x. map erase (f x) = map erase (g (h x))"
  shows "map erase (concat (map f xs)) = map erase (concat (map g (map h xs)))"
  using assms by (induction xs) auto

lemma errorBanner_erase: "map erase (errorBanner message) = map erase (errorBanner (dull message))"
  by (simp add: errorBanner_def)

lemma providers_erase:
  "map erase (concat (map (federationForm realm uid) ps)) = map erase (concat (map (federationForm ''x'' ''x'') (map dull_provider ps)))"
  by (rule erase_concat) (simp add: federationForm_def)

lemma scopes_erase:
  "map erase (concat (map (scopeItem inherited) scopes)) = map erase (concat (map (scopeItem (\<lambda>_. None)) (map (\<lambda>_. ''x'') scopes)))"
  by (rule erase_concat) (simp add: scopeItem_def)

lemma realms_erase: "map erase (realmOptions realms) = map erase (realmOptions (map dull realms))"
proof -
  have f: "filter (\<lambda>n. n \<noteq> []) (map dull realms) = map dull (filter (\<lambda>n. n \<noteq> []) realms)" by (simp add: filter_map comp_def)
  show ?thesis unfolding realmOptions_def Let_def f by (simp add: map_concat comp_def)
qed

lemma shell_erase:
  "map erase body = map erase body' \<Longrightarrow> map erase (shell title realm body scripts) = map erase (shell title' realm' body' scripts)"
  by (simp add: shell_def)

lemma page_erase: "map erase (page v) = map erase (page (dull_view v))"
proof (cases v)
  case (Login realm uid csrf client login error ps)
  have "map erase (loginBody realm uid csrf client login error ps) =
      map erase (loginBody ''x'' ''x'' ''x'' ''x'' ''x'' (dull error) (map dull_provider ps))"
    using errorBanner_erase providers_erase by (simp add: loginBody_def)
  then show ?thesis by (simp add: Login renderLogin_def shell_erase)
next
  case (Consent inh realm uid csrf client scopes)
  have "map erase (consentBody inh realm uid csrf client scopes) =
      map erase (consentBody (\<lambda>_. None) ''x'' ''x'' ''x'' ''x'' (map (\<lambda>_. ''x'') scopes))"
    using scopes_erase by (simp add: consentBody_def)
  then show ?thesis by (simp add: Consent renderConsent_def shell_erase)
next
  case (DeviceInput realm form error)
  then show ?thesis using errorBanner_erase by (auto simp: renderDeviceInput_def intro!: shell_erase)
next
  case (AdminLogin realms error)
  then show ?thesis using realms_erase by (simp add: renderAdminLogin_def errorMarkup_def)
qed (auto simp: page_defs(3) page_defs(5-8) for_client_def intro!: shell_erase)

text \<open>C30: No value can inject markup into a page. Whatever the names, texts, tokens, scopes, messages and identifiers are that a
client, a user or an upstream provider chose, the tags and attributes of every page are those of the same page with harmless
values in their place, and the page ends outside of every tag; the form the OpenID Connect library put into a page is taken as
it is, and has to be complete.\<close>

theorem no_markup_injection:
  assumes "scan Data (library_form v) = Data"
  shows "markup Data (html (page v)) = markup Data (html (page (dull_view v))) \<and> scan Data (html (page v)) = Data"
proof -
  have "library_form (dull_view v) = library_form v" by (cases v) simp_all
  then have f: "flow Data (page v) = Some Data" "flow Data (page (dull_view v)) = Some Data"
    using assms page_flow by simp_all
  show ?thesis using flow_markup [OF f(1)] flow_markup [OF f(2)] page_erase by simp
qed

theorem no_markup_injection_witness:
  "markup Data (html (page (Failure ''corp'' ''Oops'' ''<script>alert(1)</script>''))) =
   markup Data (html (page (Failure ''x'' ''x'' ''x'')))"
  using no_markup_injection [of "Failure ''corp'' ''Oops'' ''<script>alert(1)</script>''"] by (simp del: page.simps)

end
