(* ===== verification/ConfigProps.thy ===== *)
theory ConfigProps
  imports Config
begin

text \<open>
  What an accepted configuration guarantees: secrets and transport in production, and the shape of realms and
  tables in any mode that the other components rely on.
\<close>

section \<open>One setting at a time\<close>

lemma or_name_Inr: "or_name n v = Inr x \<longleftrightarrow> v = Some x"
  by (auto simp: or_name_def split: option.splits)

lemma loadConfig_Inr:
  assumes "loadConfig w env = Inr c"
  obtains "rawSchema w env" "cg_devMode c = booleanValue (env ''AUTHME_DEV_MODE'')"
    "public_url w env (cg_devMode c) = Inr (cg_publicUrl c)" "realmNames (env ''AUTHME_REALMS'') = Inr (cg_realms c)"
    "configured_cookie_keys w env (cg_devMode c) = Inr (cg_cookieKeys c)"
    "cg_devMode c \<or> env_text env ''DATABASE_URL'' \<noteq> []" "cg_databaseUrl c = env ''DATABASE_URL''"
    "cg_devMode c \<or> env_text env ''AUTHME_JWKS_DIR'' \<noteq> []" "cg_jwksDir c = env ''AUTHME_JWKS_DIR''"
    "clientsByRealm (cw_json w) (env_text env ''AUTHME_CLIENTS_JSON'') (cg_realms c) = Inr (cg_clients c)"
    "secret w env ''AUTHME_CSRF_SECRET'' (cg_devMode c) = Inr (cg_csrfSecret c)"
    "secret w env ''AUTHME_PASSWORD_PEPPER'' (cg_devMode c) = Inr (cg_passwordPepper c)"
    "secret w env ''AUTHME_SUBJECT_SALT'' (cg_devMode c) = Inr (cg_subjectSalt c)"
    "encryptionKey w (env_text env ''AUTHME_FIELD_ENCRYPTION_KEY'') (cg_devMode c) = Inr (cg_fieldEncryptionKey c)"
    "secret w env ''AUTHME_ADMIN_TOKEN'' (cg_devMode c) = Inr (cg_adminToken c)"
    "resourceServersByRealm (cw_json w) (cw_parse_url w) (env_text env ''AUTHME_RESOURCE_SERVERS_JSON'') (cg_realms c) (cg_devMode c) =
      Inr (cg_resourceServers c)"
    "parseLdapProviders (cw_json w) (cw_parse_url w) (cw_isUrl w) (cw_isIP w) (env_text env ''AUTHME_LDAP_PROVIDERS_JSON'') (cg_realms c)
      (cg_devMode c) = Some (cg_ldap c)"
    "parseOidcProviders (cw_json w) (cw_parse_url w) (cw_isUrl w) (env_text env ''AUTHME_OIDC_PROVIDERS_JSON'') (cg_realms c)
      (cg_devMode c) = Some (cg_oidc c)"
    "parseSamlProviders (cw_json w) (cw_parse_url w) (cw_isUrl w) (env_text env ''AUTHME_SAML_PROVIDERS_JSON'') (cg_realms c)
      (cg_publicUrl c) = Some (cg_saml c)"
    "parseScimTokens (cw_json w) (cw_bytes w) placeholder (cg_realms c) (cg_devMode c) (env_text env ''AUTHME_SCIM_TOKENS_JSON'') =
      Inr (cg_scim c)"
    "cg_accessTokenTtl c = number_or w env ''AUTHME_ACCESS_TOKEN_TTL_SECONDS'' 300"
    "cg_authorizationCodeTtl c = number_or w env ''AUTHME_AUTHORIZATION_CODE_TTL_SECONDS'' 60"
    "cg_sessionTtl c = number_or w env ''AUTHME_SESSION_TTL_SECONDS'' 28800"
    "cg_webauthnChallengeTtl c = number_or w env ''AUTHME_WEBAUTHN_CHALLENGE_TTL_SECONDS'' 300"
    "cg_auditRetentionDays c = number_or w env ''AUTHME_AUDIT_RETENTION_DAYS'' 90"
  using assms unfolding loadConfig_def Let_def
  by - (elim bindR_InrE, drule sum.inject(2) [THEN iffD1, THEN sym], rule that, simp_all only: config.simps guardR_simps or_name_Inr simp_thms)

lemma secret_production: "secret w env name False = Inr v \<Longrightarrow> 32 \<le> cw_bytes w v \<and> \<not> placeholder v"
  by (auto simp: secret_def Let_def split: if_splits)

lemma encryptionKey_production: "encryptionKey w v False = Inr k \<Longrightarrow> length k = 32"
  by (auto simp: encryptionKey_def Let_def split: if_splits)

lemma configured_cookie_keys_production: "configured_cookie_keys w env False = Inr ks \<Longrightarrow>
    2 \<le> length ks \<and> distinct ks \<and> (\<forall>k\<in>set ks. 32 \<le> cw_bytes w k \<and> \<not> placeholder k)"
  by (auto simp: configured_cookie_keys_def Let_def list_all_iff)

lemma public_url_production: "public_url w env False = Inr p \<Longrightarrow>
    \<exists>s u. cw_parse_url w s = Some u \<and> p = drop_slash (wu_href u) \<and> wu_protocol u = ''https:'' \<and> wu_pathname u = ''/'' \<and>
      wu_search u = [] \<and> wu_hash u = [] \<and> wu_username u = [] \<and> wu_password u = []"
  unfolding public_url_def
  by (rule exI [of _ "case env ''AUTHME_PUBLIC_URL'' of
        None \<Rightarrow> ''http://127.0.0.1:'' @ int_str (number_or w env ''AUTHME_PORT'' 3000) | Some s \<Rightarrow> s"])
     (simp split: option.split_asm add: bindR_Inr_iff)

lemma realmNames_Inr: "realmNames v = Inr rs \<Longrightarrow> rs \<noteq> [] \<and> distinct rs \<and> (\<forall>r\<in>set rs. realm_re r)"
  by (auto simp: realmNames_def Let_def list_all_iff)

lemma scim_items:
  assumes "foldR (scim_token_item bytes ph devMode) xs [] = Inr ts"
  shows "distinct (map st_id ts) \<and> (\<forall>t\<in>set ts. 32 \<le> bytes (st_token t) \<and> bytes (st_token t) \<le> 4096 \<and> (devMode \<or> \<not> ph (st_token t)))"
  by (rule foldR_invariant [OF _ _ assms])
     (auto simp: scim_token_item_def Let_def split: json.splits if_splits)

lemma parseScimTokens_in:
  assumes "parseScimTokens parse bytes ph realms devMode text = Inr table" "(r, ts) \<in> set table"
  shows "distinct (map st_id ts) \<and> (\<forall>t\<in>set ts. 32 \<le> bytes (st_token t) \<and> bytes (st_token t) \<le> 4096 \<and> (devMode \<or> \<not> ph (st_token t)))"
proof (cases "ts = []")
  case False
  let ?g = "\<lambda>kvs r. let items = jprop (JObj kvs) r in if nullish items then Inr (r, [])
      else (case items of JArr xs \<Rightarrow> bindR (foldR (scim_token_item bytes ph devMode) xs []) (\<lambda>ts. Inr (r, ts))
            | _ \<Rightarrow> Inl ''AUTHME_SCIM_CONFIGURATION_INVALID'')"
  have "text \<noteq> []" using False assms by (auto simp: parseScimTokens_def)
  then obtain kvs where "mapR (?g kvs) realms = Inr table"
    using assms(1) by (auto simp: parseScimTokens_def Let_def split: option.splits json.splits if_splits)
  from mapR_in_set [OF this assms(2)] obtain r' where "?g kvs r' = Inr (r, ts)" by blast
  then have "\<exists>xs. foldR (scim_token_item bytes ph devMode) xs [] = Inr ts"
    using False by (auto simp: Let_def simp del: jprop.simps split: if_splits json.splits)
  then show ?thesis using scim_items by blast
qed simp


section \<open>Transport to everything upstream\<close>

text \<open>An address as the parser writes it, reached over HTTPS and free of credentials.\<close>

definition secure_address :: "url_parser \<Rightarrow> string \<Rightarrow> bool" where
  "secure_address parse e \<longleftrightarrow>
     (\<exists>s u. parse s = Some u \<and> wu_protocol u = ''https:'' \<and> wu_username u = [] \<and> wu_password u = [] \<and> wu_hash u = [] \<and> e = wu_href u)"

lemma secure_addressI:
  "parse s = Some u \<Longrightarrow> wu_protocol u = ''https:'' \<Longrightarrow> wu_username u = [] \<Longrightarrow> wu_password u = [] \<Longrightarrow> wu_hash u = [] \<Longrightarrow>
    secure_address parse (wu_href u)"
  by (auto simp: secure_address_def)

text \<open>A directory reached over TLS, from the start or by StartTLS.\<close>

definition secure_directory :: "url_parser \<Rightarrow> ldap_provider \<Rightarrow> bool" where
  "secure_directory parse p \<longleftrightarrow>
     (\<exists>s u. parse s = Some u \<and> lp_url p = drop_slash (wu_href u) \<and> (wu_protocol u = ''ldaps:'' \<or> wu_protocol u = ''ldap:'' \<and> lp_startTls p))"

lemma oidc_endpoint_production: "oidc_endpoint parse False v = Some e \<Longrightarrow> secure_address parse e"
  by (auto simp: oidc_endpoint_def intro: secure_addressI split: option.splits if_splits)

lemma oidc_id_new: "parse_oidc_provider parse isUrl devMode ids x = Some p \<Longrightarrow> op_id p \<notin> set ids"
  by (auto simp: parse_oidc_provider_def split: option.splits if_splits)

lemma ldap_id_new: "parse_ldap_provider parse isUrl isIP devMode ids x = Some p \<Longrightarrow> lp_id p \<notin> set ids"
  by (auto simp: parse_ldap_provider_def split: option.splits if_splits)

lemma oidc_provider_production:
  assumes "parse_oidc_provider parse isUrl False ids x = Some p"
  shows "secure_address parse (op_authorizationEndpoint p) \<and> secure_address parse (op_tokenEndpoint p) \<and> secure_address parse (op_jwksUri p) \<and>
    (case op_userinfoEndpoint p of None \<Rightarrow> True | Some e \<Rightarrow> secure_address parse e)"
  using assms
  by (auto simp: parse_oidc_provider_def optional_endpoint_def dest!: oidc_endpoint_production split: option.splits if_splits)

lemma ldap_provider_production:
  assumes "parse_ldap_provider parse isUrl isIP False ids x = Some p" shows "secure_directory parse p"
proof -
  from assms obtain q insecure where q: "ldap_schema isUrl x = Some (q, insecure)" by (auto simp: parse_ldap_provider_def split: option.splits)
  with assms obtain u where u: "parse (lp_url q) = Some u" by (auto simp: parse_ldap_provider_def split: option.splits if_splits)
  with assms q have "wu_protocol u = ''ldaps:'' \<or> wu_protocol u = ''ldap:'' \<and> lp_startTls q"
      "p = q\<lparr>lp_url := drop_slash (wu_href u), lp_loginAttributes := js_uniq (lp_loginAttributes q)\<rparr>"
    by (auto simp: parse_ldap_provider_def split: if_splits)
  then show ?thesis unfolding secure_directory_def using u by (intro exI [of _ "lp_url q"] exI [of _ u]) simp
qed

lemma ssoEndpoint_secure: "ssoEndpoint parse v = Some e \<Longrightarrow> secure_address parse e"
  by (auto simp: ssoEndpoint_def intro: secure_addressI split: option.splits if_splits)

lemma saml_provider_sso:
  assumes "parse_saml_provider parse isUrl origin realm ids x = Some p"
  shows "secure_address parse (sc_ssoUrl p) \<and> sc_acsUrl p = origin @ saml_path realm (sc_id p) @ ''/acs''"
  using assms by (auto simp: parse_saml_provider_def dest: ssoEndpoint_secure split: option.splits if_splits)

lemma saml_origin: "serviceOrigin parse v = Some origin \<Longrightarrow> \<exists>u. parse v = Some u \<and> wu_protocol u = ''https:'' \<and> origin = wu_origin u"
  by (auto simp: serviceOrigin_def split: option.splits if_splits)

lemma parseSamlProviders_in:
  assumes run: "parseSamlProviders json parse isUrl text realms publicUrl = Some table" and p: "(r, ps) \<in> set table"
  shows "distinct (map sc_id ps) \<and> (\<forall>p\<in>set ps. secure_address parse (sc_ssoUrl p) \<and>
    (\<exists>u. parse publicUrl = Some u \<and> wu_protocol u = ''https:'' \<and> sc_acsUrl p = wu_origin u @ saml_path r (sc_id p) @ ''/acs''))"
proof (cases "ps = []")
  case False
  then have "text \<noteq> []" using run p by (auto simp: parseSamlProviders_def)
  then obtain origin v where o: "serviceOrigin parse publicUrl = Some origin"
      "all_some (map (\<lambda>r. case realm_entries v r of
         None \<Rightarrow> None
       | Some xs \<Rightarrow> map_option (Pair r) (parse_entries sc_id (parse_saml_provider parse isUrl origin r) [] xs)) realms) = Some table"
    using run by (auto simp: parseSamlProviders_def split: option.splits if_splits)
  obtain xs where e: "parse_entries sc_id (parse_saml_provider parse isUrl origin r) [] xs = Some ps"
    using all_some_in [OF o(2) p] by (auto split: option.splits)
  have new: "sc_id p \<notin> set ids" if "parse_saml_provider parse isUrl origin r ids x = Some p" for ids x p
    using that by (auto simp: parse_saml_provider_def split: option.splits if_splits)
  from parse_entries_facts [OF e new] saml_origin [OF o(1)] saml_provider_sso show ?thesis by fast
qed simp

lemma read_by_realm_in:
  assumes run: "read_by_realm json name f text realms = Inr table" and p: "(r, ys) \<in> set table" "ys \<noteq> []"
  shows "\<exists>xs. f xs = Some ys"
proof -
  let ?g = "\<lambda>v r. case realm_entries v r of None \<Rightarrow> Inl name | Some xs \<Rightarrow> (case f xs of None \<Rightarrow> Inl name | Some ys \<Rightarrow> Inr (r, ys))"
  have "text \<noteq> []" using run p by (auto simp: read_by_realm_def)
  then obtain v where "mapR (?g v) realms = Inr table"
    using run by (auto simp: read_by_realm_def split: option.splits if_splits)
  from mapR_in_set [OF this p(1)] obtain r' where "?g v r' = Inr (r, ys)" by blast
  then show ?thesis by (auto split: option.splits)
qed

lemma resource_server_new: "resourceServer parse devMode ids x = Some p \<Longrightarrow> rs_audience p \<notin> set ids"
  by (auto simp: resourceServer_def split: option.splits if_splits)

lemma resource_server_production: "resourceServer parse False ids x = Some p \<Longrightarrow> secure_address parse (rs_audience p)"
  by (auto simp: resourceServer_def resource_audience_def intro: secure_addressI split: option.splits if_splits)

text \<open>Outside development mode nothing upstream is reached in the clear. Every directory is reached over LDAPS, or
over LDAP upgraded by StartTLS; the authorization, token, key and user information endpoints of every OpenID
provider, the sign-in address of every SAML provider and every resource server audience are HTTPS
addresses without credentials; and the address a SAML provider answers to is on the HTTPS origin of the service, under the realm
and identifier it is configured for.\<close>

theorem production_endpoints_secure:
  assumes run: "loadConfig w env = Inr c" and prod: "\<not> cg_devMode c"
  shows "(\<forall>(r, ps)\<in>set (cg_ldap c). \<forall>p\<in>set ps. secure_directory (cw_parse_url w) p) \<and>
    (\<forall>(r, ps)\<in>set (cg_oidc c). \<forall>p\<in>set ps. secure_address (cw_parse_url w) (op_authorizationEndpoint p) \<and>
      secure_address (cw_parse_url w) (op_tokenEndpoint p) \<and> secure_address (cw_parse_url w) (op_jwksUri p) \<and>
      (case op_userinfoEndpoint p of None \<Rightarrow> True | Some e \<Rightarrow> secure_address (cw_parse_url w) e)) \<and>
    (\<forall>(r, ps)\<in>set (cg_saml c). \<forall>p\<in>set ps. secure_address (cw_parse_url w) (sc_ssoUrl p) \<and>
      (\<exists>u. cw_parse_url w (cg_publicUrl c) = Some u \<and> wu_protocol u = ''https:'' \<and> sc_acsUrl p = wu_origin u @ saml_path r (sc_id p) @ ''/acs'')) \<and>
    (\<forall>(r, ss)\<in>set (cg_resourceServers c). \<forall>x\<in>set ss. secure_address (cw_parse_url w) (rs_audience x))"
proof (rule loadConfig_Inr [OF run], goal_cases)
  case c: 1
  have dev: "cg_devMode c = False" using prod by simp
  have ldap: "secure_directory (cw_parse_url w) p" if "(r, ps) \<in> set (cg_ldap c)" "p \<in> set ps" for r ps p
  proof -
    have "\<exists>ids x. parse_ldap_provider (cw_parse_url w) (cw_isUrl w) (cw_isIP w) False ids x = Some p"
      by (rule parse_by_realm_facts(3) [OF c(17) [unfolded parseLdapProviders_def dev] _ that]) (erule ldap_id_new)
    then show ?thesis using ldap_provider_production by blast
  qed
  have oidc: "secure_address (cw_parse_url w) (op_authorizationEndpoint p) \<and> secure_address (cw_parse_url w) (op_tokenEndpoint p) \<and>
      secure_address (cw_parse_url w) (op_jwksUri p) \<and> (case op_userinfoEndpoint p of None \<Rightarrow> True | Some e \<Rightarrow> secure_address (cw_parse_url w) e)"
    if "(r, ps) \<in> set (cg_oidc c)" "p \<in> set ps" for r ps p
  proof -
    have "\<exists>ids x. parse_oidc_provider (cw_parse_url w) (cw_isUrl w) False ids x = Some p"
      by (rule parse_by_realm_facts(3) [OF c(18) [unfolded parseOidcProviders_def dev] _ that]) (erule oidc_id_new)
    then show ?thesis using oidc_provider_production by blast
  qed
  have server: "secure_address (cw_parse_url w) (rs_audience x)" if m: "(r, ss) \<in> set (cg_resourceServers c)" "x \<in> set ss" for r ss x
  proof -
    have "ss \<noteq> []" using m(2) by auto
    from read_by_realm_in [OF c(16) [unfolded resourceServersByRealm_def dev] m(1) this]
    obtain xs where e: "parse_entries rs_audience (resourceServer (cw_parse_url w) False) [] xs = Some ss" by blast
    from parse_entries_in [OF e m(2)] show ?thesis using resource_server_production by blast
  qed
  show ?case using ldap oidc server parseSamlProviders_in [OF c(19)] by fast
qed

section \<open>Realms and tables\<close>

lemma parse_by_realm_keys: "parse_by_realm parse ident f text realms = Some table \<Longrightarrow> map fst table = realms"
proof (cases "text = []")
  case False
  assume "parse_by_realm parse ident f text realms = Some table"
  with False obtain v where "all_some (map (\<lambda>r. case realm_entries v r of
      None \<Rightarrow> None | Some xs \<Rightarrow> map_option (Pair r) (parse_entries ident f [] xs)) realms) = Some table"
    unfolding parse_by_realm_def by (simp split: option.split_asm if_split_asm)
  from this [unfolded all_some_map] show ?thesis by (induction rule: list_all2_induct) (auto split: option.splits)
qed (auto simp: parse_by_realm_def o_def)

lemma number_bounds:
  assumes "rawSchema w env" "map_of config_numbers k = Some (lo, hi)" "lo \<le> d" "d \<le> hi"
  shows "lo \<le> number_or w env k d \<and> number_or w env k d \<le> hi"
  using assms by (auto simp: number_or_def env_int_def split: option.splits if_splits)


section \<open>A production configuration\<close>

definition demo_secret :: string where "demo_secret = replicate 40 (CHR ''q'')"

definition demo_oidc_entries :: json where
  "demo_oidc_entries = JObj [(''master'', JArr [JObj [(''id'', JStr ''idp''), (''display_name'', JStr ''I''), (''issuer'', JStr ''https://i''),
     (''authorization_endpoint'', JStr ''https://i/a''), (''token_endpoint'', JStr ''https://i/t''), (''jwks_uri'', JStr ''https://i/k''),
     (''client_id'', JStr ''c''), (''client_secret'', JStr ''x'')]])]"

definition demo_cw :: config_world where
  "demo_cw = \<lparr>cw_parse_url = (\<lambda>s. Some \<lparr>wu_protocol = ''https:'', wu_hostname = ''a'', wu_username = [], wu_password = [], wu_pathname = ''/'',
       wu_search = [], wu_hash = [], wu_origin = ''https://a'', wu_href = s\<rparr>),
     cw_isUrl = (\<lambda>_. True), cw_isIP = (\<lambda>_. False), cw_number = (\<lambda>_. None), cw_json = (\<lambda>_. Some demo_oidc_entries), cw_bytes = length,
     cw_base64url = (\<lambda>_. replicate 32 (CHR ''k'')), cw_random = (\<lambda>_. []), cw_randomKey = []\<rparr>"

definition demo_environment :: environment where
  "demo_environment = map_of [(''AUTHME_PUBLIC_URL'', ''https://a/''), (''AUTHME_COOKIE_KEYS'', demo_secret @ '','' @ CHR ''z'' # demo_secret),
     (''AUTHME_CSRF_SECRET'', demo_secret), (''AUTHME_PASSWORD_PEPPER'', demo_secret), (''AUTHME_SUBJECT_SALT'', demo_secret),
     (''AUTHME_ADMIN_TOKEN'', demo_secret), (''AUTHME_FIELD_ENCRYPTION_KEY'', ''k''), (''DATABASE_URL'', ''d''), (''AUTHME_JWKS_DIR'', ''j''),
     (''AUTHME_OIDC_PROVIDERS_JSON'', ''o'')]"

lemma demo_secret_ok: "length demo_secret = 40" "\<not> placeholder demo_secret" "\<not> placeholder (CHR ''z'' # demo_secret)" "demo_secret \<noteq> []"
  "comma_list (demo_secret @ '','' @ CHR ''z'' # demo_secret) = [demo_secret, CHR ''z'' # demo_secret]"
  by (simp_all add: demo_secret_def placeholder_def two_words_def comma_list_def js_defs numeral_eq_Suc)

lemma demo_realms: "realmNames None = Inr [''master'']"
  by (simp add: realmNames_def comma_list_def Let_def js_defs)

lemma demo_oidc_table: "\<exists>t. parseOidcProviders (cw_json demo_cw) (cw_parse_url demo_cw) (cw_isUrl demo_cw) ''o'' [''master''] False = Some t \<and> snd (hd t) \<noteq> []"
proof -
  have "\<exists>p. parse_oidc_provider (cw_parse_url demo_cw) (cw_isUrl demo_cw) False []
     (JObj [(''id'', JStr ''idp''), (''display_name'', JStr ''I''), (''issuer'', JStr ''https://i''),
     (''authorization_endpoint'', JStr ''https://i/a''), (''token_endpoint'', JStr ''https://i/t''), (''jwks_uri'', JStr ''https://i/k''),
     (''client_id'', JStr ''c''), (''client_secret'', JStr ''x'')]) = Some p"
    by (simp add: parse_oidc_provider_def oidc_schema_def strict_names_def oidc_names_def mkeys_def text_schema_def Schemas.trimmed_def url_schema_def
        opt_field_def default_field_def demo_cw_def oidc_endpoint_def issuerIdentifier_def optional_endpoint_def js_defs)
  then show ?thesis
    by (auto simp: parseOidcProviders_def parse_by_realm_def unknown_realms_def realm_entries_def demo_oidc_entries_def mkeys_def demo_cw_def)
qed

lemma demo_config: "\<exists>c. loadConfig demo_cw demo_environment = Inr c \<and> \<not> cg_devMode c \<and> snd (hd (cg_oidc c)) \<noteq> []"
proof -
  obtain t where t: "parseOidcProviders (cw_json demo_cw) (cw_parse_url demo_cw) (cw_isUrl demo_cw) ''o'' [''master''] False = Some t"
      "snd (hd t) \<noteq> []" using demo_oidc_table by blast
  have e: "demo_environment ''AUTHME_PUBLIC_URL'' = Some ''https://a/''" "demo_environment ''AUTHME_REALMS'' = None"
      "demo_environment ''AUTHME_DEV_MODE'' = None" "demo_environment ''AUTHME_LOG_LEVEL'' = None" "demo_environment ''REDIS_URL'' = None"
      "demo_environment ''DATABASE_URL'' = Some ''d''" "demo_environment ''AUTHME_JWKS_DIR'' = Some ''j''"
      "env_text demo_environment ''AUTHME_COOKIE_KEYS'' = demo_secret @ '','' @ CHR ''z'' # demo_secret"
      "env_text demo_environment ''AUTHME_CSRF_SECRET'' = demo_secret" "env_text demo_environment ''AUTHME_PASSWORD_PEPPER'' = demo_secret"
      "env_text demo_environment ''AUTHME_SUBJECT_SALT'' = demo_secret" "env_text demo_environment ''AUTHME_ADMIN_TOKEN'' = demo_secret"
      "env_text demo_environment ''AUTHME_FIELD_ENCRYPTION_KEY'' = ''k''" "env_text demo_environment ''AUTHME_CLIENTS_JSON'' = []"
      "env_text demo_environment ''AUTHME_RESOURCE_SERVERS_JSON'' = []" "env_text demo_environment ''AUTHME_LDAP_PROVIDERS_JSON'' = []"
      "env_text demo_environment ''AUTHME_OIDC_PROVIDERS_JSON'' = ''o''" "env_text demo_environment ''AUTHME_SAML_PROVIDERS_JSON'' = []"
      "env_text demo_environment ''AUTHME_SCIM_TOKENS_JSON'' = []" "env_text demo_environment ''DATABASE_URL'' = ''d''"
      "env_text demo_environment ''AUTHME_JWKS_DIR'' = ''j''"
    by (simp_all add: demo_environment_def env_text_def)
  have n: "env_int demo_cw demo_environment k lo hi \<noteq> None" if "(k, lo, hi) \<in> set config_numbers" for k lo hi
    using that by (auto simp: config_numbers_def env_int_def demo_environment_def)
  have raw: "rawSchema demo_cw demo_environment"
    using n by (auto simp: rawSchema_def e redis_url_def demo_cw_def list_all_iff)
  have dev: "\<not> booleanValue (demo_environment ''AUTHME_DEV_MODE'')" by (simp add: e booleanValue_def js_lower_def)
  have u: "\<exists>p. public_url demo_cw demo_environment False = Inr p" by (simp add: public_url_def e demo_cw_def)
  have k: "\<exists>ks. configured_cookie_keys demo_cw demo_environment False = Inr ks"
    using demo_secret_ok by (simp add: configured_cookie_keys_def e demo_cw_def)
  have s: "secret demo_cw demo_environment name False = Inr demo_secret" if "env_text demo_environment name = demo_secret" for name
    using demo_secret_ok that by (simp add: secret_def demo_cw_def)
  have f: "\<exists>x. encryptionKey demo_cw ''k'' False = Inr x" by (simp add: encryptionKey_def demo_cw_def)
  show ?thesis
    using raw dev u k s f t demo_realms
    by (auto simp: loadConfig_def e clientsByRealm_def resourceServersByRealm_def read_by_realm_def parseLdapProviders_def parse_by_realm_def
        parseSamlProviders_def parseScimTokens_def or_name_def)
qed


lemma production_endpoints_secure_witness:
  "\<exists>c r p ps. loadConfig demo_cw demo_environment = Inr c \<and> (r, p # ps) \<in> set (cg_oidc c) \<and>
     secure_address (cw_parse_url demo_cw) (op_tokenEndpoint p)"
proof -
  obtain c where c: "loadConfig demo_cw demo_environment = Inr c" "\<not> cg_devMode c" "snd (hd (cg_oidc c)) \<noteq> []" using demo_config by blast
  have "map fst (cg_oidc c) = [''master'']"
    by (rule loadConfig_Inr [OF c(1)])
       (use demo_realms in \<open>auto simp: parseOidcProviders_def demo_environment_def dest: parse_by_realm_keys\<close>)
  then obtain p ps where "(''master'', p # ps) \<in> set (cg_oidc c)"
    using c(3) by (cases "cg_oidc c"; cases "snd (hd (cg_oidc c))") auto
  moreover with production_endpoints_secure [OF c(1,2)] have "secure_address (cw_parse_url demo_cw) (op_tokenEndpoint p)" by fastforce
  ultimately show ?thesis using c(1) by blast
qed


end
