(* ===== verification/PgAdapterProps.thy ===== *)
theory PgAdapterProps
  imports PgAdapter
begin

text \<open>
  The PostgreSQL protocol store does what the in-memory one does. \<open>records_rel\<close> relates the buckets of a realm to the
  rows of that realm; every method leads related states to related states with the same answer. An artifact that was
  consumed is compared by being consumed, not by the second at which it was.
\<close>

section \<open>Tables\<close>

lemma row0_in: "row0 xs = Some x \<Longrightarrow> x \<in> set xs"
  by (cases xs) (simp_all add: row0_def)

definition row_at :: "string \<Rightarrow> string \<Rightarrow> string \<Rightarrow> oidc_row list \<Rightarrow> oidc_row option" where
  "row_at r m i rows = row0 (filter (row_key r m i) rows)"

definition index_of :: "oidc_row \<Rightarrow> string \<times> string \<times> string" where
  "index_of x = (ox_realm x, ox_model x, ox_id x)"

definition records_wf :: "oidc_row list \<Rightarrow> bool" where
  "records_wf rows \<longleftrightarrow> distinct (map index_of rows) \<and> (\<forall>x\<in>set rows. \<not> code_clash x rows)"

lemma row_key_iff: "row_key r m i x \<longleftrightarrow> index_of x = (r, m, i)"
  by (auto simp: row_key_def row_of_def index_of_def)

lemma filter_unique:
  "distinct xs \<Longrightarrow> \<forall>x\<in>set xs. K x \<longrightarrow> x = a \<Longrightarrow> filter (\<lambda>x. K x \<and> Q x) xs = (if a \<in> set xs \<and> K a \<and> Q a then [a] else [])"
proof (induction xs)
  case (Cons x xs)
  show ?case
  proof (cases "x = a")
    case True
    then have "\<forall>y\<in>set xs. \<not> K y" using Cons.prems by (metis distinct.simps(2) list.set_intros(2))
    then have "filter (\<lambda>x. K x \<and> Q x) xs = []" by (simp add: filter_empty_conv)
    then show ?thesis using True by simp
  next
    case False
    then have "\<not> K x" using Cons.prems(2) by auto
    then show ?thesis using False Cons.IH Cons.prems by simp
  qed
qed simp

lemma records_distinct: "records_wf rows \<Longrightarrow> distinct rows"
  by (simp add: records_wf_def distinct_map)

lemma records_key: "records_wf rows \<Longrightarrow> x \<in> set rows \<Longrightarrow> y \<in> set rows \<Longrightarrow> index_of x = index_of y \<Longrightarrow> x = y"
  by (auto simp: records_wf_def distinct_map inj_on_def)

lemma row_at_Some: "records_wf rows \<Longrightarrow> row_at r m i rows = Some x \<longleftrightarrow> x \<in> set rows \<and> row_key r m i x"
proof
  assume "row_at r m i rows = Some x"
  then obtain t where "filter (row_key r m i) rows = x # t" by (auto simp: row_at_def row0_def split: list.splits)
  then have "x \<in> set (filter (row_key r m i) rows)" by simp
  then show "x \<in> set rows \<and> row_key r m i x" by simp
next
  assume wf: "records_wf rows" and x: "x \<in> set rows \<and> row_key r m i x"
  have "filter (\<lambda>y. row_key r m i y \<and> True) rows = [x]"
    using filter_unique [OF records_distinct [OF wf], of "row_key r m i" x "\<lambda>_. True"] records_key [OF wf, of _ x] x
    by (auto simp: row_key_iff)
  then show "row_at r m i rows = Some x" by (simp add: row_at_def row0_def)
qed

lemma row_at_None: "row_at r m i rows = None \<longleftrightarrow> (\<forall>x\<in>set rows. \<not> row_key r m i x)"
proof (cases "filter (row_key r m i) rows")
  case Nil
  then show ?thesis by (auto simp: row_at_def row0_def filter_empty_conv)
next
  case (Cons x t)
  then have "x \<in> set (filter (row_key r m i) rows)" by simp
  then have "x \<in> set rows" "row_key r m i x" by simp_all
  then show ?thesis using Cons by (auto simp: row_at_def row0_def)
qed

text \<open>A selection by key and a further condition.\<close>

lemma select_key:
  assumes "records_wf rows"
  shows "filter (\<lambda>x. row_key r m i x \<and> Q x) rows = (case row_at r m i rows of None \<Rightarrow> [] | Some x \<Rightarrow> if Q x then [x] else [])"
proof (cases "row_at r m i rows")
  case None
  then have "\<forall>x\<in>set rows. \<not> row_key r m i x" by (simp add: row_at_None)
  then show ?thesis using None by (auto simp: filter_empty_conv)
next
  case (Some x)
  note x = Some [unfolded row_at_Some [OF assms]]
  show ?thesis
    using filter_unique [OF records_distinct [OF assms], of "row_key r m i" x Q] records_key [OF assms, of _ x] x Some
    by (auto simp: row_key_iff)
qed

lemma row_at_map: "(\<And>x. index_of (f x) = index_of x) \<Longrightarrow> row_at r m i (map f rows) = map_option f (row_at r m i rows)"
  by (induction rows) (auto simp: row_at_def row0_def row_key_iff)

lemma row_at_filter:
  "records_wf rows \<Longrightarrow> row_at r m i (filter Q rows) = (case row_at r m i rows of None \<Rightarrow> None | Some x \<Rightarrow> if Q x then Some x else None)"
proof -
  assume wf: "records_wf rows"
  have "row_at r m i (filter Q rows) = row0 (filter (\<lambda>x. row_key r m i x \<and> Q x) rows)"
    by (simp add: row_at_def conj_commute)
  then show ?thesis using select_key [OF wf, of r m i Q] by (simp add: row0_def split: option.splits)
qed

lemma row_at_append: "row_at r m i (rows @ [x]) = (case row_at r m i rows of Some y \<Rightarrow> Some y | None \<Rightarrow> if row_key r m i x then Some x else None)"
  by (induction rows) (auto simp: row_at_def row0_def split: list.splits option.splits)

lemma records_wf_filter: "records_wf rows \<Longrightarrow> records_wf (filter Q rows)"
  by (auto simp: records_wf_def distinct_map_filter code_clash_def)

definition same_codes :: "(oidc_row \<Rightarrow> oidc_row) \<Rightarrow> bool" where
  "same_codes f \<longleftrightarrow> (\<forall>x. index_of (f x) = index_of x \<and> ox_userCode (f x) = ox_userCode x \<and> ox_uid (f x) = ox_uid x)"

lemma records_wf_map:
  assumes "records_wf rows" "same_codes f" shows "records_wf (map f rows)"
proof -
  have f: "index_of (f x) = index_of x" "ox_userCode (f x) = ox_userCode x" "ox_uid (f x) = ox_uid x" for x
    using assms(2) by (simp_all add: same_codes_def)
  then have g: "ox_realm (f x) = ox_realm x" "ox_model (f x) = ox_model x" "ox_id (f x) = ox_id x" for x
    using f(1) [of x] by (simp_all add: index_of_def)
  have "map index_of (map f rows) = map index_of rows" by (simp only: map_map comp_def f(1))
  moreover have "code_clash (f x) (map f rows) \<longleftrightarrow> code_clash x rows" for x
    by (simp add: code_clash_def row_of_def f g)
  ultimately show ?thesis using assms(1) by (auto simp: records_wf_def simp del: map_map)
qed

lemma code_clash_sym: "x \<in> set rows \<Longrightarrow> row_of (ox_realm row) (ox_model row) x \<Longrightarrow> ox_id x \<noteq> ox_id row \<Longrightarrow>
    (ox_userCode x \<noteq> None \<and> ox_userCode row = ox_userCode x) \<or> (ox_uid x \<noteq> None \<and> ox_uid row = ox_uid x) \<Longrightarrow> code_clash row rows"
  by (auto simp: code_clash_def)

lemma records_wf_append:
  assumes wf: "records_wf rows" and new: "\<not> list_ex (row_key (ox_realm row) (ox_model row) (ox_id row)) rows" and c: "\<not> code_clash row rows"
  shows "records_wf (rows @ [row])"
proof -
  have "index_of row \<notin> index_of ` set rows" using new by (force simp: list_ex_iff row_key_iff index_of_def)
  moreover have "\<not> code_clash x (rows @ [row])" if "x \<in> set rows" for x
  proof -
    have "\<not> code_clash x rows" using wf that by (simp add: records_wf_def)
    moreover have "\<not> (row_of (ox_realm x) (ox_model x) row \<and> ox_id row \<noteq> ox_id x \<and>
        ((ox_userCode x \<noteq> None \<and> ox_userCode row = ox_userCode x) \<or> (ox_uid x \<noteq> None \<and> ox_uid row = ox_uid x)))"
      using code_clash_sym [OF that, of row] c by (auto simp: row_of_def)
    ultimately show ?thesis by (auto simp: code_clash_def)
  qed
  moreover have "\<not> code_clash row (rows @ [row])" using c by (auto simp: code_clash_def)
  ultimately show ?thesis using wf by (auto simp: records_wf_def)
qed

lemma records_wf_replace:
  assumes wf: "records_wf rows" and c: "\<not> code_clash row rows" and row': "index_of row' = index_of row" "ox_userCode row' = ox_userCode row" "ox_uid row' = ox_uid row"
  shows "records_wf (map (\<lambda>x. if row_key (ox_realm row) (ox_model row) (ox_id row) x then row' else x) rows)"
proof -
  let ?f = "\<lambda>x. if row_key (ox_realm row) (ox_model row) (ox_id row) x then row' else x"
  have i: "index_of (?f x) = index_of x" for x using row'(1) by (auto simp: row_key_iff index_of_def)
  have fields: "ox_realm row' = ox_realm row" "ox_model row' = ox_model row" "ox_id row' = ox_id row" using row'(1) by (simp_all add: index_of_def)
  have same: "row_key (ox_realm row) (ox_model row) (ox_id row) x \<longleftrightarrow> row_of (ox_realm row) (ox_model row) x \<and> ox_id x = ox_id row" for x
    by (simp add: row_key_def)
  have "\<not> code_clash (?f x) (map ?f rows)" if "x \<in> set rows" for x
  proof
    assume "code_clash (?f x) (map ?f rows)"
    then obtain y where y: "y \<in> set rows" "row_of (ox_realm (?f x)) (ox_model (?f x)) (?f y)" "ox_id (?f y) \<noteq> ox_id (?f x)"
        "(ox_userCode (?f x) \<noteq> None \<and> ox_userCode (?f y) = ox_userCode (?f x)) \<or> (ox_uid (?f x) \<noteq> None \<and> ox_uid (?f y) = ox_uid (?f x))"
      unfolding code_clash_def by auto
    have xy: "\<not> code_clash x rows" using wf that by (simp add: records_wf_def)
    show False
    proof (cases "row_key (ox_realm row) (ox_model row) (ox_id row) x"; cases "row_key (ox_realm row) (ox_model row) (ox_id row) y")
      assume "row_key (ox_realm row) (ox_model row) (ox_id row) x" "\<not> row_key (ox_realm row) (ox_model row) (ox_id row) y"
      then show False using y c fields row'(2,3) by (auto simp: code_clash_def)
    next
      assume "\<not> row_key (ox_realm row) (ox_model row) (ox_id row) x" "row_key (ox_realm row) (ox_model row) (ox_id row) y"
      then show False using y c fields row'(2,3) that by (auto simp: row_of_def intro!: code_clash_sym [of x])
    qed (use y xy fields in \<open>auto simp: code_clash_def\<close>)
  qed
  moreover have "map index_of (map ?f rows) = map index_of rows" by (simp only: map_map comp_def i)
  ultimately show ?thesis using wf unfolding records_wf_def by (simp only: set_map) blast
qed

section \<open>The relation\<close>

definition lower_account :: "payload \<Rightarrow> bool" where
  "lower_account p \<longleftrightarrow> (\<forall>a. pl_accountId p = Some a \<longrightarrow> js_lower a = a)"

definition row_rel :: "artifact \<Rightarrow> oidc_row \<Rightarrow> bool" where
  "row_rel a x \<longleftrightarrow> ox_payload x = (rc_payload a)\<lparr>pl_consumed := None\<rparr> \<and> (is_consumed (rc_payload a) \<longleftrightarrow> ox_consumedAt x \<noteq> None) \<and>
     (\<forall>t. ox_consumedAt x = Some t \<longrightarrow> 1000 \<le> t) \<and> ox_expiresAt x = rc_expiresAt a \<and> ox_version x = rc_securityVersion a \<and>
     ox_grantId x = pl_grantId (rc_payload a) \<and> ox_userCode x = pl_userCode (rc_payload a) \<and> ox_uid x = pl_uid (rc_payload a) \<and>
     lower_account (rc_payload a)"

definition records_rel :: "string \<Rightarrow> adapter \<Rightarrow> oidc_row list \<Rightarrow> bool" where
  "records_rel r s rows \<longleftrightarrow> adapter_inv s \<and> records_wf rows \<and> (\<forall>m i. rel_option row_rel (mget (bucket_of r m s) i) (row_at r m i rows))"

text \<open>The versions the memory store is asked for are those of the table of users.\<close>

definition users_rel :: "string \<Rightarrow> (string \<Rightarrow> int option) \<Rightarrow> pgdb \<Rightarrow> bool" where
  "users_rel r sv d \<longleftrightarrow>
     (\<forall>u\<in>set (pg_users d). \<forall>v\<in>set (pg_users d). u_realm u = u_realm v \<and> u_id u = u_id v \<longrightarrow> u = v) \<and>
     (\<forall>a. js_lower a = a \<longrightarrow> sv a = map_option u_securityVersion (account_row r a d))"

definition same_payload :: "payload \<Rightarrow> payload \<Rightarrow> bool" where
  "same_payload p q \<longleftrightarrow> p\<lparr>pl_consumed := None\<rparr> = q\<lparr>pl_consumed := None\<rparr> \<and> (is_consumed p \<longleftrightarrow> is_consumed q)"

lemma records_rel_get:
  "records_rel r s rows \<Longrightarrow> rel_option row_rel (mget (bucket_of r m s) i) (row_at r m i rows)"
  by (simp add: records_rel_def)

lemma row_rel_live: "row_rel a x \<Longrightarrow> row_live now x \<longleftrightarrow> current now (Some a) = Some a"
  by (auto simp: row_rel_def row_live_def current_def split: option.splits)

lemma current_or: "current now (Some a) = Some a \<or> current now (Some a) = None"
  by (auto simp: current_def split: option.splits)

lemma row_rel_restore: "row_rel a x \<Longrightarrow> same_payload (rc_payload a) (restorePayload x)"
proof (cases "ox_consumedAt x")
  case None
  then show "row_rel a x \<Longrightarrow> ?thesis" by (simp add: row_rel_def same_payload_def restorePayload_def is_consumed_def split: option.splits)
next
  case (Some t)
  assume rel: "row_rel a x"
  then have "t div 1000 \<noteq> 0" using Some by (auto simp: row_rel_def)
  then show ?thesis using rel Some by (simp add: row_rel_def same_payload_def restorePayload_def is_consumed_def)
qed

lemma account_row_Some:
  assumes "users_rel r sv d" "js_lower a = a"
  shows "account_row r' a d = Some u \<longleftrightarrow> u \<in> set (pg_users d) \<and> u_realm u = r' \<and> u_id u = a \<and> u_enabled u"
proof
  assume "account_row r' a d = Some u"
  then have "u \<in> set (filter (\<lambda>u. user_row r' (js_lower a) u \<and> u_enabled u) (pg_users d))"
    unfolding account_row_def by (rule row0_in)
  then show "u \<in> set (pg_users d) \<and> u_realm u = r' \<and> u_id u = a \<and> u_enabled u" using assms(2) by (auto simp: user_row_def)
next
  assume u: "u \<in> set (pg_users d) \<and> u_realm u = r' \<and> u_id u = a \<and> u_enabled u"
  let ?f = "filter (\<lambda>u. user_row r' (js_lower a) u \<and> u_enabled u) (pg_users d)"
  have "u \<in> set ?f" using u assms(2) by (simp add: user_row_def)
  then obtain v t where v: "?f = v # t" by (cases ?f) auto
  then have "v \<in> set ?f" by simp
  then have "v = u" using u assms by (auto simp: user_row_def users_rel_def)
  then show "account_row r' a d = Some u" using v by (simp add: account_row_def row0_def)
qed

lemma row_rel_version:
  assumes "row_rel a x" "users_rel r sv d" "ox_realm x = r"
  shows "account_current d x \<longleftrightarrow> version_ok sv a"
proof (cases "rc_securityVersion a")
  case None
  then show ?thesis using assms(1) by (simp add: account_current_def version_ok_def row_rel_def)
next
  case (Some v)
  show ?thesis
  proof (cases "pl_accountId (rc_payload a)")
    case None
    then show ?thesis using assms(1) Some by (simp add: account_current_def version_ok_def row_rel_def sv_of_def)
  next
    case acc: (Some acc)
    then have low: "js_lower acc = acc" using assms(1) by (simp add: row_rel_def lower_account_def)
    have sv: "sv acc = map_option u_securityVersion (account_row r acc d)" using assms(2) low by (simp add: users_rel_def)
    have "account_current d x \<longleftrightarrow> (\<exists>u. (u \<in> set (pg_users d) \<and> u_realm u = r \<and> u_id u = acc \<and> u_enabled u) \<and> v = u_securityVersion u)"
      using assms(1,3) Some acc low by (auto simp: account_current_def row_rel_def)
    also have "\<dots> \<longleftrightarrow> sv acc = Some v" unfolding account_row_Some [OF assms(2) low, symmetric] by (auto simp: sv)
    finally show ?thesis using Some acc by (simp add: version_ok_def sv_of_def)
  qed
qed

text \<open>Building the relation again after a change of one bucket.\<close>

lemma bucket_put:
  "NUL \<notin> set r \<Longrightarrow> bucket_of r m' (put_bucket r m b s) = (if m' = m then b else bucket_of r m' s)"
  using bucket_put_other [of r r m' m b s] by auto

lemma records_rel_put:
  assumes rel: "records_rel r s rows" and r: "NUL \<notin> set r" and b: "map_wf b" and wf: "records_wf rows'"
    and here: "\<And>i. rel_option row_rel (mget b i) (row_at r m i rows')"
    and there: "\<And>m' i. m' \<noteq> m \<Longrightarrow> row_at r m' i rows' = row_at r m' i rows"
  shows "records_rel r (put_bucket r m b s) rows'"
proof -
  have "rel_option row_rel (mget (bucket_of r m' (put_bucket r m b s)) i) (row_at r m' i rows')" for m' i
    using here [of i] there [of m' i] records_rel_get [OF rel, of m' i] by (simp add: bucket_put [OF r])
  moreover have "adapter_inv (put_bucket r m b s)" using rel adapter_inv_put [OF _ b] by (simp add: records_rel_def)
  ultimately show ?thesis using wf by (simp add: records_rel_def)
qed

section \<open>Using\<close>

lemma consume_rows_count:
  assumes "records_wf (pd_records d)"
  shows "fst (consume_rows now r m i d) = (case row_at r m i (pd_records d) of None \<Rightarrow> 0 | Some x \<Rightarrow> if ox_consumedAt x = None \<and> row_live now x then 1 else 0)"
  using select_key [OF assms, of r m i "\<lambda>x. ox_consumedAt x = None \<and> row_live now x"]
  by (simp add: consume_rows_def sql_update_def split: option.splits)

lemma consume_rel:
  assumes rel: "records_rel r s (pd_records d)" and r: "NUL \<notin> set r" and now: "1000 \<le> now"
  shows "case consume now r m i s of
      Inl e \<Rightarrow> fst (consume_rows now r m i d) = 0 \<and> e = (if m \<in> set one_use_grants then InvalidGrant else InvalidRequest)
    | Inr s' \<Rightarrow> fst (consume_rows now r m i d) = 1 \<and> records_rel r s' (pd_records (snd (consume_rows now r m i d)))"
proof -
  have wf: "records_wf (pd_records d)" using rel by (simp add: records_rel_def)
  note count = consume_rows_count [OF wf, of now r m i]
  note get = records_rel_get [OF rel, of m i]
  let ?P = "\<lambda>x. row_key r m i x \<and> ox_consumedAt x = None \<and> row_live now x"
  let ?f = "\<lambda>x. if ?P x then x\<lparr>ox_consumedAt := Some now\<rparr> else x"
  have t: "pd_records (snd (consume_rows now r m i d)) = map ?f (pd_records d)" by (simp add: consume_rows_def sql_update_def)
  have codes: "same_codes ?f" by (simp add: same_codes_def index_of_def)
  then have f: "index_of (?f x) = index_of x" for x by (simp only: same_codes_def)
  show ?thesis
  proof (cases "mget (bucket_of r m s) i")
    case None
    then show ?thesis using get count by (auto simp: consume_def current_def option_rel_Some1)
  next
    case (Some a)
    then obtain x where x: "row_at r m i (pd_records d) = Some x" "row_rel a x" using get by (auto simp: option_rel_Some1)
    have key: "row_key r m i x" using x(1) by (simp add: row_at_Some [OF wf])
    show ?thesis
    proof (cases "ox_consumedAt x = None \<and> row_live now x")
      case False
      then have "consume now r m i s = Inl (if m \<in> set one_use_grants then InvalidGrant else InvalidRequest)"
        using Some x(2) row_rel_live [OF x(2), of now] current_or [of now a] by (auto simp: consume_def row_rel_def)
      then show ?thesis using False count x(1) by auto
    next
      case True
      have c: "consume now r m i s = Inr (put_bucket r m (mset' i (mark_consumed now a) (bucket_of r m s)) s)"
        using Some x(2) True row_rel_live [OF x(2), of now] by (auto simp: consume_def row_rel_def)
      have n: "fst (consume_rows now r m i d) = 1" using True count x(1) by simp
      have marked: "row_rel (mark_consumed now a) (x\<lparr>ox_consumedAt := Some now\<rparr>)"
        using x(2) now is_consumed_mark [OF now, of a] by (simp add: row_rel_def mark_consumed_def lower_account_def)
      have "records_rel r (put_bucket r m (mset' i (mark_consumed now a) (bucket_of r m s)) s) (map ?f (pd_records d))"
      proof (rule records_rel_put [OF rel r])
        show "map_wf (mset' i (mark_consumed now a) (bucket_of r m s))"
          using rel by (simp add: records_rel_def adapter_inv_bucket)
        show "records_wf (map ?f (pd_records d))" by (rule records_wf_map [OF wf codes])
        show "rel_option row_rel (mget (mset' i (mark_consumed now a) (bucket_of r m s)) j) (row_at r m j (map ?f (pd_records d)))" for j
        proof (cases "j = i")
          case True
          then show ?thesis using x(1) key marked \<open>ox_consumedAt x = None \<and> row_live now x\<close> by (simp add: row_at_map [OF f])
        next
          case False
          have "?f y = y" if "row_at r m j (pd_records d) = Some y" for y
            using that False by (auto simp: row_at_Some [OF wf] row_key_def)
          then have "map_option ?f (row_at r m j (pd_records d)) = row_at r m j (pd_records d)" by (cases "row_at r m j (pd_records d)") auto
          then show ?thesis using records_rel_get [OF rel, of m j] False by (simp add: row_at_map [OF f])
        qed
        show "row_at r m' j (map ?f (pd_records d)) = row_at r m' j (pd_records d)" if "m' \<noteq> m" for m' j
        proof -
          have "?f y = y" if "row_at r m' j (pd_records d) = Some y" for y
            using that \<open>m' \<noteq> m\<close> by (auto simp: row_at_Some [OF wf] row_key_def row_of_def)
          then show ?thesis unfolding row_at_map [OF f] by (cases "row_at r m' j (pd_records d)") auto
        qed
      qed
      then show ?thesis using c n t by simp
    qed
  qed
qed

text \<open>Deleting the rows and the records that satisfy related conditions.\<close>

lemma delete_rel:
  assumes rel: "records_rel r s (pd_records d)" and inv: "adapter_inv s'"
    and s': "\<And>m. bucket_of r m s' = mdrop (P m) (bucket_of r m s)"
    and PQ: "\<And>m i a x. mget (bucket_of r m s) i = Some a \<Longrightarrow> row_rel a x \<Longrightarrow> row_key r m i x \<Longrightarrow> P m a \<longleftrightarrow> Q x"
  shows "records_rel r s' (snd (sql_delete Q (pd_records d)))"
proof -
  have wf: "records_wf (pd_records d)" using rel by (simp add: records_rel_def)
  have "rel_option row_rel (mget (bucket_of r m s') i) (row_at r m i (filter (\<lambda>x. \<not> Q x) (pd_records d)))" for m i
  proof (cases "mget (bucket_of r m s) i")
    case None
    then show ?thesis using records_rel_get [OF rel, of m i] rel
      by (auto simp: s' mget_mdrop adapter_inv_bucket records_rel_def row_at_filter [OF wf])
  next
    case (Some a)
    then obtain x where x: "row_at r m i (pd_records d) = Some x" "row_rel a x"
      using records_rel_get [OF rel, of m i] by (auto simp: option_rel_Some1)
    then have "P m a \<longleftrightarrow> Q x" using PQ [OF Some x(2)] by (simp add: row_at_Some [OF wf])
    then show ?thesis using Some x rel by (simp add: s' mget_mdrop adapter_inv_bucket records_rel_def row_at_filter [OF wf])
  qed
  then show ?thesis using inv wf by (simp add: records_rel_def sql_delete_def records_wf_filter)
qed

section \<open>Finding\<close>

lemma pg_select_key:
  assumes "records_wf (pd_records d)"
  shows "pg_select now r m (\<lambda>x. ox_id x = i) d =
    (case row_at r m i (pd_records d) of None \<Rightarrow> None
     | Some x \<Rightarrow> if row_live now x \<and> account_current (pd_db d) x then Some (restorePayload x) else None)"
  using select_key [OF assms, of r m i "\<lambda>x. row_live now x \<and> account_current (pd_db d) x"]
  by (simp add: pg_select_def row_key_def row0_def split: option.splits)

lemma row_at_realm: "records_wf rows \<Longrightarrow> row_at r m i rows = Some x \<Longrightarrow> ox_realm x = r"
  by (simp add: row_at_Some row_key_def row_of_def)

lemma find_rel:
  assumes rel: "records_rel r s (pd_records d)" and users: "users_rel r sv (pd_db d)"
  shows "rel_option same_payload (find_artifact now sv r m i s) (pg_select now r m (\<lambda>x. ox_id x = i) d)"
proof -
  have wf: "records_wf (pd_records d)" using rel by (simp add: records_rel_def)
  show ?thesis
  proof (cases "mget (bucket_of r m s) i")
    case None
    then show ?thesis using records_rel_get [OF rel, of m i] by (simp add: find_artifact_def current_def pg_select_key [OF wf])
  next
    case (Some a)
    then obtain x where x: "row_at r m i (pd_records d) = Some x" "row_rel a x"
      using records_rel_get [OF rel, of m i] by (auto simp: option_rel_Some1)
    show ?thesis
      using Some x(1) row_rel_live [OF x(2), of now] current_or [of now a] row_rel_restore [OF x(2)]
        row_rel_version [OF x(2) users row_at_realm [OF wf x(1)]]
      by (auto simp: find_artifact_def pg_select_key [OF wf])
  qed
qed

lemma find_live_none: "\<forall>b\<in>set as. \<not> P (rc_payload b) \<Longrightarrow> find_live now sv P as = None"
  by (induction as) (auto simp: current_def split: option.splits)

lemma find_live_unique:
  "\<forall>b\<in>set as. P (rc_payload b) \<longrightarrow> b = a \<Longrightarrow> P (rc_payload a) \<Longrightarrow>
   find_live now sv P as = (if a \<in> set as \<and> current now (Some a) = Some a \<and> version_ok sv a then Some (rc_payload a) else None)"
proof (induction as)
  case (Cons b as)
  have IH: "find_live now sv P as = (if a \<in> set as \<and> current now (Some a) = Some a \<and> version_ok sv a then Some (rc_payload a) else None)"
    using Cons by simp
  show ?case
  proof (cases "b = a")
    case True
    then show ?thesis using IH Cons.prems(2) current_or [of now a] by auto
  next
    case False
    then have "\<not> P (rc_payload b)" using Cons.prems(1) by auto
    then show ?thesis using False IH current_or [of now b] by auto
  qed
qed simp

lemma find_code_rel:
  assumes rel: "records_rel r s (pd_records d)" and users: "users_rel r sv (pd_db d)"
    and PC: "\<And>a x. row_rel a x \<Longrightarrow> P (rc_payload a) \<longleftrightarrow> C x"
    and unique: "\<And>x y. x \<in> set (pd_records d) \<Longrightarrow> y \<in> set (pd_records d) \<Longrightarrow> row_of r m x \<Longrightarrow> row_of r m y \<Longrightarrow> C x \<Longrightarrow> C y \<Longrightarrow> x = y"
  shows "rel_option same_payload (find_live now sv P (mvals (bucket_of r m s))) (pg_select now r m C d)"
proof -
  have wf: "records_wf (pd_records d)" and inv: "adapter_inv s" using rel by (simp_all add: records_rel_def)
  have row: "\<exists>x j. mget (bucket_of r m s) j = Some b \<and> row_at r m j (pd_records d) = Some x \<and> row_rel b x"
    if b: "b \<in> set (mvals (bucket_of r m s))" for b
  proof -
    obtain j where j: "mget (bucket_of r m s) j = Some b" using b by (auto simp: set_mvals [OF adapter_inv_bucket [OF inv]])
    then show ?thesis using records_rel_get [OF rel, of m j] by (auto simp: option_rel_Some1)
  qed
  show ?thesis
  proof (cases "\<exists>x\<in>set (pd_records d). row_of r m x \<and> C x")
    case True
    then obtain x where x: "x \<in> set (pd_records d)" "row_of r m x" "C x" by blast
    have at: "row_at r m (ox_id x) (pd_records d) = Some x" using x by (simp add: row_at_Some [OF wf] row_key_def)
    then obtain a where a: "mget (bucket_of r m s) (ox_id x) = Some a" "row_rel a x"
      using records_rel_get [OF rel, of m "ox_id x"] by (auto simp: option_rel_Some2)
    have Pa: "P (rc_payload a)" using PC [OF a(2)] x(3) by simp
    have "b = a" if b: "b \<in> set (mvals (bucket_of r m s))" "P (rc_payload b)" for b
    proof -
      obtain y j where y: "mget (bucket_of r m s) j = Some b" "row_at r m j (pd_records d) = Some y" "row_rel b y" using row [OF b(1)] by blast
      have "y = x" using unique [of y x] y(2) x b(2) PC [OF y(3)] by (simp add: row_at_Some [OF wf] row_key_def)
      then have "j = ox_id x" using y(2) by (simp add: row_at_Some [OF wf] row_key_def)
      then show ?thesis using y(1) a(1) by simp
    qed
    then have "find_live now sv P (mvals (bucket_of r m s)) = (if a \<in> set (mvals (bucket_of r m s)) \<and> current now (Some a) = Some a \<and>
        version_ok sv a then Some (rc_payload a) else None)"
      by (intro find_live_unique Pa) blast
    then have mem: "find_live now sv P (mvals (bucket_of r m s)) =
        (if current now (Some a) = Some a \<and> version_ok sv a then Some (rc_payload a) else None)"
      using mget_in_mvals [OF a(1)] by simp
    have "filter (\<lambda>x. (row_of r m x \<and> C x) \<and> row_live now x \<and> account_current (pd_db d) x) (pd_records d) =
        (if row_live now x \<and> account_current (pd_db d) x then [x] else [])"
    proof -
      have "\<forall>y\<in>set (pd_records d). row_of r m y \<and> C y \<longrightarrow> y = x" using unique x by blast
      from filter_unique [OF records_distinct [OF wf] this, of "\<lambda>x. row_live now x \<and> account_current (pd_db d) x"] show ?thesis
        using x by simp
    qed
    then show ?thesis
      using mem row_rel_live [OF a(2), of now] row_rel_restore [OF a(2)] row_rel_version [OF a(2) users] x(2)
      by (auto simp: pg_select_def row0_def row_of_def)
  next
    case False
    have "\<not> P (rc_payload b)" if "b \<in> set (mvals (bucket_of r m s))" for b
      using row [OF that] False PC by (auto simp: row_at_Some [OF wf] row_key_def)
    moreover have "filter (\<lambda>x. (row_of r m x \<and> C x) \<and> row_live now x \<and> account_current (pd_db d) x) (pd_records d) = []"
      using False by (auto simp: filter_empty_conv)
    ultimately show ?thesis by (simp add: find_live_none pg_select_def row0_def)
  qed
qed

lemma code_unique:
  assumes "records_wf rows" "x \<in> set rows" "y \<in> set rows" "row_of r m x" "row_of r m y"
    and "ox_userCode x = Some c \<and> ox_userCode y = Some c \<or> ox_uid x = Some c \<and> ox_uid y = Some c"
  shows "x = y"
proof -
  have "\<not> code_clash x rows" using assms(1,2) by (simp add: records_wf_def)
  then have "ox_id y = ox_id x" using assms(3-6) by (auto simp: code_clash_def row_of_def)
  then show ?thesis using records_key [OF assms(1-3)] assms(4,5) by (simp add: index_of_def row_of_def)
qed

lemma find_codes_rel:
  assumes rel: "records_rel r s (pd_records d)" and users: "users_rel r sv (pd_db d)"
  shows "rel_option same_payload (findByUserCode now sv r m c s) (pg_select now r m (\<lambda>x. ox_userCode x = Some c) d)"
    "rel_option same_payload (findByUid now sv r m c s) (pg_select now r m (\<lambda>x. ox_uid x = Some c) d)"
proof -
  have wf: "records_wf (pd_records d)" using rel by (simp add: records_rel_def)
  show "rel_option same_payload (findByUserCode now sv r m c s) (pg_select now r m (\<lambda>x. ox_userCode x = Some c) d)"
    unfolding findByUserCode_def using code_unique [OF wf, of _ _ r m c] by (intro find_code_rel [OF rel users]) (auto simp: row_rel_def)
  show "rel_option same_payload (findByUid now sv r m c s) (pg_select now r m (\<lambda>x. ox_uid x = Some c) d)"
    unfolding findByUid_def using code_unique [OF wf, of _ _ r m c] by (intro find_code_rel [OF rel users]) (auto simp: row_rel_def)
qed

section \<open>Ending\<close>

lemma revoke_buckets_keys: "map fst (snd (revoke_buckets prefix P bs)) = map fst bs"
  by (induction prefix P bs rule: revoke_buckets.induct) (auto split: prod.splits)

lemma revoke_inv: "adapter_inv s \<Longrightarrow> adapter_inv (snd (revokeMemoryAccount r acc s))"
  by (auto simp: adapter_inv_def revokeMemoryAccount_def case_prod_beta Let_def revoke_buckets_mget map_wf_def [of "snd _"] revoke_buckets_keys)
    (simp_all add: map_wf_def)

lemma destroy_rel:
  assumes rel: "records_rel r s (pd_records d)" and r: "NUL \<notin> set r"
  shows "records_rel r (destroy r m i s) (snd (sql_delete (row_key r m i) (pd_records d)))"
proof -
  have wf: "records_wf (pd_records d)" and inv: "adapter_inv s" using rel by (simp_all add: records_rel_def)
  have "rel_option row_rel (mget (bucket_of r m' (destroy r m i s)) j) (row_at r m' j (filter (\<lambda>x. \<not> row_key r m i x) (pd_records d)))" for m' j
  proof (cases "m' = m \<and> j = i")
    case True
    then have "row_at r m' j (filter (\<lambda>x. \<not> row_key r m i x) (pd_records d)) = None" by (auto simp: row_at_None)
    then show ?thesis using True by (simp add: destroy_def bucket_put [OF r])
  next
    case False
    have "\<not> row_key r m i x" if "row_at r m' j (pd_records d) = Some x" for x
      using that False by (auto simp: row_at_Some [OF wf] row_key_def row_of_def)
    then have "row_at r m' j (filter (\<lambda>x. \<not> row_key r m i x) (pd_records d)) = row_at r m' j (pd_records d)"
      by (simp add: row_at_filter [OF wf] split: option.splits)
    then show ?thesis using False records_rel_get [OF rel, of m' j] by (auto simp: destroy_def bucket_put [OF r])
  qed
  moreover have "adapter_inv (destroy r m i s)" using inv by (simp add: destroy_def adapter_inv_put adapter_inv_bucket)
  ultimately show ?thesis using wf by (simp add: records_rel_def sql_delete_def records_wf_filter)
qed

lemma revokeByGrant_rel:
  assumes rel: "records_rel r s (pd_records d)" and r: "NUL \<notin> set r"
  shows "records_rel r (revokeByGrantId r m g s) (snd (sql_delete (\<lambda>x. row_of r m x \<and> ox_grantId x = Some g) (pd_records d)))"
proof (rule delete_rel [OF rel, where P = "\<lambda>m' a. m' = m \<and> pl_grantId (rc_payload a) = Some g"])
  have inv: "adapter_inv s" using rel by (simp add: records_rel_def)
  then show "adapter_inv (revokeByGrantId r m g s)" by (simp add: revokeByGrantId_def adapter_inv_put adapter_inv_bucket)
  show "bucket_of r m' (revokeByGrantId r m g s) = mdrop (\<lambda>a. m' = m \<and> pl_grantId (rc_payload a) = Some g) (bucket_of r m' s)" for m'
    by (simp add: revokeByGrantId_def bucket_put [OF r] mdrop_def)
  show "(m' = m \<and> pl_grantId (rc_payload a) = Some g) = (row_of r m x \<and> ox_grantId x = Some g)"
    if "row_rel a x" "row_key r m' i x" for m' i a x
    using that by (auto simp: row_rel_def row_key_def row_of_def)
qed

lemma account_grants_rel:
  assumes rel: "records_rel r s (pd_records d)"
  shows "set (pg_account_grants r acc (pd_records d)) = set (account_grants r acc s)"
proof -
  have wf: "records_wf (pd_records d)" and inv: "adapter_inv s" using rel by (simp_all add: records_rel_def)
  have mem: "g \<in> set (account_grants r acc s) \<longleftrightarrow> (\<exists>a. mget (bucket_of r ''Grant'' s) g = Some a \<and> pl_accountId (rc_payload a) = Some acc)" for g
    using adapter_inv_bucket [OF inv, of r "''Grant''"] by (force simp: account_grants_def map_wf_def)
  have "g \<in> set (pg_account_grants r acc (pd_records d)) \<longleftrightarrow> (\<exists>x. row_at r ''Grant'' g (pd_records d) = Some x \<and> pl_accountId (ox_payload x) = Some acc)" for g
    by (auto simp: pg_account_grants_def row_at_Some [OF wf] row_key_def)
  also have "\<dots> g \<longleftrightarrow> g \<in> set (account_grants r acc s)" for g
    using records_rel_get [OF rel, of "''Grant''" g] unfolding mem
    by (cases "mget (bucket_of r ''Grant'' s) g") (auto simp: option_rel_Some1 row_rel_def)
  finally show ?thesis by blast
qed

lemma revokeAccount_rel:
  assumes rel: "records_rel r s (pd_records d)" and r: "NUL \<notin> set r"
  shows "records_rel r (snd (revokeMemoryAccount r acc s)) (pd_records (snd (pg_revokeAccount r acc d)))"
proof -
  have inv: "adapter_inv s" using rel by (simp add: records_rel_def)
  let ?P = "doomed acc (account_grants r acc s)"
  have b: "bucket_of r m (snd (revokeMemoryAccount r acc s)) = mdrop ?P (bucket_of r m s)" for m
    using revoke_bucket_of [OF r r prod.collapse [symmetric]] by simp
  have "records_rel r (snd (revokeMemoryAccount r acc s)) (snd (sql_delete (doomed_row r acc (pd_records d)) (pd_records d)))"
  proof (rule delete_rel [OF rel, where P = "\<lambda>_. ?P"])
    show "adapter_inv (snd (revokeMemoryAccount r acc s))" by (rule revoke_inv [OF inv])
    show "bucket_of r m (snd (revokeMemoryAccount r acc s)) = mdrop ?P (bucket_of r m s)" for m by (rule b)
    show "?P a = doomed_row r acc (pd_records d) x" if "row_rel a x" "row_key r m i x" for m i a x
      using that account_grants_rel [OF rel, of acc]
      by (auto simp: doomed_def doomed_row_def row_rel_def row_key_def row_of_def split: option.splits)
  qed
  then show ?thesis by (simp add: pg_revokeAccount_def sql_delete_def)
qed

section \<open>Saving\<close>

lemma parent_account_row_rel:
  assumes rel: "records_rel r s (pd_records d)" and users: "users_rel r sv (pd_db d)"
  shows "parent_account_row now r g d =
    (case current now (mget (bucket_of r ''Grant'' s) g) of None \<Rightarrow> None
     | Some p \<Rightarrow> (case pl_accountId (rc_payload p) of None \<Rightarrow> None
        | Some a \<Rightarrow> if sv a \<noteq> None \<and> rc_securityVersion p = sv a then account_row r a (pd_db d) else None))"
proof -
  have wf: "records_wf (pd_records d)" using rel by (simp add: records_rel_def)
  note sel = select_key [OF wf, of r "''Grant''" g "row_live now"]
  show ?thesis
  proof (cases "mget (bucket_of r ''Grant'' s) g")
    case None
    then have "row_at r ''Grant'' g (pd_records d) = None" using records_rel_get [OF rel, of "''Grant''" g] by simp
    then show ?thesis using None sel by (simp add: parent_account_row_def row0_def current_def)
  next
    case (Some p)
    then obtain x where x: "row_at r ''Grant'' g (pd_records d) = Some x" "row_rel p x"
      using records_rel_get [OF rel, of "''Grant''" g] by (auto simp: option_rel_Some1)
    show ?thesis
    proof (cases "row_live now x")
      case False
      then show ?thesis using Some x sel row_rel_live [OF x(2), of now] current_or [of now p] by (auto simp: parent_account_row_def row0_def)
    next
      case live: True
      let ?U = "filter (\<lambda>u. u_realm u = r \<and> u_enabled u \<and> pl_accountId (ox_payload x) = Some (u_id u) \<and>
          ox_version x = Some (u_securityVersion u)) (pg_users (pd_db d))"
      have p: "parent_account_row now r g d = row0 ?U" using x(1) live sel by (simp add: parent_account_row_def row0_def)
      have c: "current now (Some p) = Some p" using row_rel_live [OF x(2), of now] live by simp
      show ?thesis
      proof (cases "pl_accountId (rc_payload p)")
        case None
        then have "?U = []" using x(2) by (simp add: row_rel_def)
        then show ?thesis using p c Some None by (simp add: row0_def)
      next
        case acc: (Some a)
        have low: "js_lower a = a" using x(2) acc by (simp add: row_rel_def lower_account_def)
        note ar = account_row_Some [OF users low, of r]
        have sv: "sv a = map_option u_securityVersion (account_row r a (pd_db d))" using users low by (simp add: users_rel_def)
        have row: "row0 ?U = (if sv a \<noteq> None \<and> rc_securityVersion p = sv a then account_row r a (pd_db d) else None)"
        proof (cases "\<exists>u. u \<in> set ?U")
          case True
          then obtain u t where u: "?U = u # t" by (cases ?U) auto
          then have "u \<in> set ?U" by simp
          then have "account_row r a (pd_db d) = Some u" "rc_securityVersion p = Some (u_securityVersion u)"
            using x(2) acc ar by (auto simp: row_rel_def)
          then show ?thesis using u sv by (simp add: row0_def)
        next
          case False
          then have none: "?U = []" by (cases ?U) auto
          have "\<not> (sv a \<noteq> None \<and> rc_securityVersion p = sv a)"
          proof
            assume h: "sv a \<noteq> None \<and> rc_securityVersion p = sv a"
            then obtain u where u: "account_row r a (pd_db d) = Some u" "rc_securityVersion p = Some (u_securityVersion u)" using sv by auto
            then have "u \<in> set ?U" using x(2) acc ar by (auto simp: row_rel_def)
            then show False using none by simp
          qed
          then show ?thesis unfolding none row0_def by auto
        qed
        show ?thesis using row p c Some acc by simp
      qed
    qed
  qed
qed

text \<open>The row the statement may insert, and the payload the memory store would save.\<close>

lemma save_security_rel:
  assumes rel: "records_rel r s (pd_records d)" and users: "users_rel r sv (pd_db d)" and low: "lower_account nx"
    and par_def: "par = (case pl_grantId nx of None \<Rightarrow> None | Some g \<Rightarrow> current now (mget (bucket_of r ''Grant'' s) g))"
  shows "case save_security now r (pl_accountId nx) (pl_grantId nx) d of
      Some (v, acc) \<Rightarrow>
        upsert_check (sv_of sv (parent_account par)) \<lparr>us_next = nx, us_parent = par\<rparr> = Inr (nx\<lparr>pl_accountId := acc\<rparr>) \<and>
        sv_of sv acc = v \<and> (acc \<noteq> None \<longrightarrow> v \<noteq> None) \<and> lower_account (nx\<lparr>pl_accountId := acc\<rparr>) \<and>
        (acc = None \<longrightarrow> pl_accountId nx = None) \<and>
        (\<forall>g. pl_grantId nx = Some g \<longrightarrow> (\<exists>p. par = Some p \<and> rc_securityVersion p = v))
    | None \<Rightarrow> (pl_accountId nx \<noteq> None \<or> pl_grantId nx \<noteq> None) \<and>
        (upsert_check (sv_of sv (parent_account par)) \<lparr>us_next = nx, us_parent = par\<rparr> = Inl InvalidGrant \<or>
        (upsert_check (sv_of sv (parent_account par)) \<lparr>us_next = nx, us_parent = par\<rparr> = Inr nx \<and> pl_accountId nx \<noteq> None \<and>
         sv_of sv (pl_accountId nx) = None))"
proof -
  have svv: "sv a = map_option u_securityVersion (account_row r a (pd_db d))" if "js_lower a = a" for a
    using users that by (simp add: users_rel_def)
  have own: "pl_accountId nx = Some a \<Longrightarrow> js_lower a = a" for a using low by (simp add: lower_account_def)
  have uid: "u_id u = a" if "account_row r a (pd_db d) = Some u" "js_lower a = a" for a u
    using that account_row_Some [OF users that(2), of r] by simp
  have same: "nx\<lparr>pl_accountId := pl_accountId nx\<rparr> = nx" by simp
  show ?thesis
  proof (cases "pl_grantId nx")
    case None
    show ?thesis
    proof (cases "pl_accountId nx")
      case acc: None
      show ?thesis using None acc by (simp add: save_security_def sql_coalesce_def upsert_check_def sv_of_def lower_account_def)
    next
      case (Some a)
      show ?thesis
      proof (cases "account_row r a (pd_db d)")
        case None
        then show ?thesis using \<open>pl_grantId nx = None\<close> Some svv [OF own [OF Some]]
          by (simp add: save_security_def upsert_check_def sv_of_def)
      next
        case row: (Some u)
        then show ?thesis using None Some svv [OF own [OF Some]] own [OF Some] same
          by (simp add: save_security_def sql_coalesce_def upsert_check_def sv_of_def lower_account_def)
      qed
    qed
  next
    case (Some g)
    note prow = parent_account_row_rel [OF rel users, of now g]
    have par: "par = current now (mget (bucket_of r ''Grant'' s) g)" by (simp add: par_def Some)
    show ?thesis
    proof (cases "parent_account_row now r g d")
      case None
      have "upsert_check (sv_of sv (parent_account par)) \<lparr>us_next = nx, us_parent = par\<rparr> = Inl InvalidGrant"
      proof (cases par)
        case pn: None
        then show ?thesis using Some by (simp add: upsert_check_def)
      next
        case p: (Some p)
        show ?thesis
        proof (cases "pl_accountId (rc_payload p)")
          case None
          then show ?thesis using Some p by (simp add: upsert_check_def parent_account_def)
        next
          case a: (Some a)
          then have "\<not> (sv a \<noteq> None \<and> rc_securityVersion p = sv a)"
          proof -
            have la: "js_lower a = a" using p par rel records_rel_get [OF rel, of "''Grant''" g] a
              by (auto simp: option_rel_Some1 row_rel_def lower_account_def dest!: current_SomeD)
            show ?thesis using None prow p par a svv [OF la] by (auto split: if_splits)
          qed
          then show ?thesis using Some p a by (auto simp: upsert_check_def parent_account_def sv_of_def)
        qed
      qed
      then show ?thesis using Some None by (simp add: save_security_def)
    next
      case pu: (Some u)
      then obtain p a where p: "par = Some p" "pl_accountId (rc_payload p) = Some a" "sv a \<noteq> None" "rc_securityVersion p = sv a"
          "account_row r a (pd_db d) = Some u"
        using prow par by (auto split: option.splits if_splits)
      have la: "js_lower a = a" using p(1,2) par records_rel_get [OF rel, of "''Grant''" g]
        by (auto simp: option_rel_Some1 row_rel_def lower_account_def dest!: current_SomeD)
      have ua: "u_id u = a" by (rule uid [OF p(5) la])
      have check: "upsert_check (sv_of sv (parent_account par)) \<lparr>us_next = nx, us_parent = par\<rparr> =
          (if pl_accountId nx \<noteq> None \<and> pl_accountId nx \<noteq> Some a then Inl InvalidGrant else Inr (nx\<lparr>pl_accountId := Some a\<rparr>))"
        using Some p by (auto simp: upsert_check_def parent_account_def sv_of_def)
      have sva: "sv a = Some (u_securityVersion u)" using svv [OF la] p(5) by simp
      show ?thesis
      proof (cases "pl_accountId nx")
        case None
        then show ?thesis using Some pu check ua sva p la by (simp add: save_security_def sql_coalesce_def sv_of_def lower_account_def)
      next
        case b: (Some b)
        note lb = own [OF b]
        show ?thesis
        proof (cases "b = a")
          case True
          then show ?thesis using Some pu check ua sva p la b by (simp add: save_security_def sql_coalesce_def sv_of_def lower_account_def)
        next
          case False
          then show ?thesis using Some pu check ua b lb by (simp add: save_security_def)
        qed
      qed
    qed
  qed
qed

lemma current_put: "adapter_inv s \<Longrightarrow> adapter_inv (s\<lparr>ad_next := n\<rparr>)"
  by (simp add: adapter_inv_def)

lemma records_rel_next: "records_rel r (s\<lparr>ad_next := n\<rparr>) rows \<longleftrightarrow> records_rel r s rows"
  by (simp add: records_rel_def adapter_inv_def)

text \<open>The insertion of a row on the one side is the assignment of the record on the other.\<close>

lemma insert_rel:
  assumes rel: "records_rel r s rows" and r: "NUL \<notin> set r"
    and row: "ox_realm row = r" "ox_model row = m" "ox_id row = i"
    and ins: "insert_record row rows = Inr (1, rows')"
    and a: "row_rel a (case row_at r m i rows of None \<Rightarrow> row | Some x \<Rightarrow> row\<lparr>ox_consumedAt := sql_coalesce (ox_consumedAt x) (ox_consumedAt row)\<rparr>)"
  shows "records_rel r (put_bucket r m (mset' i a (bucket_of r m s)) s) rows'"
proof -
  have wf: "records_wf rows" and inv: "adapter_inv s" using rel by (simp_all add: records_rel_def)
  have ex: "list_ex (row_key r m i) rows \<longleftrightarrow> row_at r m i rows \<noteq> None" by (auto simp: list_ex_iff row_at_None)
  have clash: "\<not> code_clash row rows" using ins row by (auto simp: insert_record_def Let_def split: if_splits)
  show ?thesis
  proof (cases "row_at r m i rows")
    case None
    then have new: "\<not> list_ex (row_key r m i) rows" using ex by simp
    then have rows': "rows' = rows @ [row]" using ins row by (auto simp: insert_record_def Let_def split: if_splits)
    show ?thesis
    proof (rule records_rel_put [OF rel r])
      show "map_wf (mset' i a (bucket_of r m s))" by (simp add: adapter_inv_bucket [OF inv])
      show "records_wf rows'" unfolding rows' using new row by (intro records_wf_append [OF wf _ clash]) simp
      show "rel_option row_rel (mget (mset' i a (bucket_of r m s)) j) (row_at r m j rows')" for j
        using records_rel_get [OF rel, of m j] None a row
        by (cases "row_at r m j rows") (auto simp: rows' row_at_append row_key_iff index_of_def)
      show "row_at r m' j rows' = row_at r m' j rows" if "m' \<noteq> m" for m' j
        using that row by (cases "row_at r m' j rows") (auto simp: rows' row_at_append row_key_iff index_of_def)
    qed
  next
    case (Some x)
    let ?row = "row\<lparr>ox_consumedAt := sql_coalesce (ox_consumedAt x) (ox_consumedAt row)\<rparr>"
    let ?f = "\<lambda>y. if row_key r m i y then ?row else y"
    have x: "x \<in> set rows" "row_key r m i x" using Some by (simp_all add: row_at_Some [OF wf])
    have old: "list_ex (row_key r m i) rows" using ex Some by simp
    then have "rows' = map (\<lambda>y. if row_key r m i y then row\<lparr>ox_consumedAt := sql_coalesce (ox_consumedAt y) (ox_consumedAt row)\<rparr> else y) rows"
      using ins row by (auto simp: insert_record_def Let_def split: if_splits)
    also have "\<dots> = map ?f rows"
    proof (rule map_cong [OF refl])
      fix y assume "y \<in> set rows"
      then show "(if row_key r m i y then row\<lparr>ox_consumedAt := sql_coalesce (ox_consumedAt y) (ox_consumedAt row)\<rparr> else y) = ?f y"
        using records_key [OF wf, of y x] x by (auto simp: row_key_iff)
    qed
    finally have rows': "rows' = map ?f rows" .
    have f: "index_of (?f y) = index_of y" for y using row by (auto simp: row_key_iff index_of_def)
    show ?thesis
    proof (rule records_rel_put [OF rel r])
      show "map_wf (mset' i a (bucket_of r m s))" by (simp add: adapter_inv_bucket [OF inv])
      show "records_wf rows'"
        using records_wf_replace [OF wf clash, of ?row] by (simp add: rows' row index_of_def)
      show "rel_option row_rel (mget (mset' i a (bucket_of r m s)) j) (row_at r m j rows')" for j
      proof (cases "j = i")
        case True
        then show ?thesis using Some a x(2) by (simp add: rows' row_at_map [OF f])
      next
        case False
        have "?f y = y" if "row_at r m j rows = Some y" for y using that False by (auto simp: row_at_Some [OF wf] row_key_def)
        then have "map_option ?f (row_at r m j rows) = row_at r m j rows" by (cases "row_at r m j rows") auto
        then show ?thesis using records_rel_get [OF rel, of m j] False by (simp add: rows' row_at_map [OF f])
      qed
      show "row_at r m' j rows' = row_at r m' j rows" if "m' \<noteq> m" for m' j
      proof -
        have "?f y = y" if "row_at r m' j rows = Some y" for y
          using that \<open>m' \<noteq> m\<close> by (auto simp: row_at_Some [OF wf] row_key_def row_of_def)
        then show ?thesis unfolding rows' row_at_map [OF f] by (cases "row_at r m' j rows") auto
      qed
    qed
  qed
qed

definition carried :: "payload \<Rightarrow> artifact option \<Rightarrow> payload" where
  "carried p existing =
     (case existing of
        None \<Rightarrow> p
      | Some e \<Rightarrow> if is_consumed (rc_payload e) \<and> \<not> is_consumed p then p\<lparr>pl_consumed := pl_consumed (rc_payload e)\<rparr> else p)"

lemma carried_fields:
  "pl_grantId (carried p e) = pl_grantId p" "pl_accountId (carried p e) = pl_accountId p" "lower_account (carried p e) = lower_account p"
  "(carried p e)\<lparr>pl_consumed := None\<rparr> = p\<lparr>pl_consumed := None\<rparr>"
  "is_consumed (carried p e) \<longleftrightarrow> is_consumed p \<or> (\<exists>a. e = Some a \<and> is_consumed (rc_payload a))"
  "pl_userCode (carried p e) = pl_userCode p" "pl_uid (carried p e) = pl_uid p"
  by (auto simp: carried_def lower_account_def is_consumed_def split: option.splits)

lemma upsert_carried:
  assumes "\<not> (m = ''ReplayDetection'' \<and> current now (mget (bucket_of r m s) i) \<noteq> None)"
    and "par = (case pl_grantId p of None \<Rightarrow> None | Some g \<Rightarrow> current now (mget (bucket_of r ''Grant'' s) g))"
  shows "upsert now sv r m i p ex s =
    bindR (upsert_check (sv_of sv (parent_account par)) \<lparr>us_next = carried p (mget (bucket_of r m s) i), us_parent = par\<rparr>) (\<lambda>nx.
      upsert_commit now r m i nx (sv_of sv (pl_accountId nx)) par ex s)"
proof -
  have "upsert_begin now r m i p s = Inr \<lparr>us_next = carried p (mget (bucket_of r m s) i), us_parent = par\<rparr>"
    using assms carried_fields(1) [of p "mget (bucket_of r m s) i"] by (simp add: upsert_begin_def carried_def [symmetric] Let_def)
  then show ?thesis by (simp add: upsert_def)
qed

lemma upsert_commit_accepts:
  assumes "pl_accountId nx \<noteq> None \<longrightarrow> v \<noteq> None"
    and "par = (case pl_grantId nx of None \<Rightarrow> None | Some g \<Rightarrow> current now (mget (bucket_of r ''Grant'' s) g))"
    and "\<forall>g. pl_grantId nx = Some g \<longrightarrow> (\<exists>p. par = Some p \<and> rc_securityVersion p = v)"
  shows "upsert_commit now r m i nx v par ex s = Inr ((put_bucket r m (mset' i \<lparr>rc_ref = ad_next s, rc_payload = nx,
      rc_securityVersion = v, rc_expiresAt = map_option (\<lambda>e. now + e) ex\<rparr> (bucket_of r m s)) s)\<lparr>ad_next := ad_next s + 1\<rparr>)"
proof -
  have "\<not> (pl_accountId nx \<noteq> None \<and> v = None)" using assms(1) by auto
  then show ?thesis
    using assms(2,3) by (cases "pl_grantId nx") (auto simp: upsert_commit_def)
qed

lemma insert_record_count: "insert_record row rows = Inr (n, rows') \<Longrightarrow>
    n = 1 \<or> n = 0 \<and> ox_model row = ''ReplayDetection'' \<and> list_ex (row_key (ox_realm row) (ox_model row) (ox_id row)) rows"
  by (auto simp: insert_record_def Let_def split: if_splits)

definition saved_row :: "int \<Rightarrow> string \<Rightarrow> string \<Rightarrow> string \<Rightarrow> payload \<Rightarrow> int option \<Rightarrow> int option \<Rightarrow> string option \<Rightarrow> oidc_row" where
  "saved_row now r m i p ex v acc = \<lparr>ox_realm = r, ox_model = m, ox_id = i,
     ox_payload = (if acc = None then p\<lparr>pl_consumed := None\<rparr> else p\<lparr>pl_consumed := None, pl_accountId := acc\<rparr>),
     ox_expiresAt = map_option (\<lambda>e. now + e) ex, ox_consumedAt = map_option (\<lambda>n. n * 1000) (pl_consumed p),
     ox_grantId = pl_grantId p, ox_userCode = pl_userCode p, ox_uid = pl_uid p, ox_version = v\<rparr>"

definition saved :: "int \<Rightarrow> string \<Rightarrow> string \<Rightarrow> string \<Rightarrow> payload \<Rightarrow> int option \<Rightarrow> pgdata \<Rightarrow> pg_adapter_error + (nat \<times> oidc_row list)" where
  "saved now r m i p ex d =
     (case save_security now r (pl_accountId p) (pl_grantId p) d of
        None \<Rightarrow> Inr (0, pd_records d)
      | Some (v, acc) \<Rightarrow> insert_record (saved_row now r m i p ex v acc) (pd_records d))"

lemma bindR_type: "m = Inl e \<or> m = Inr x \<Longrightarrow> bindR m f = Inl e \<or> bindR m f = f x"
  by auto

lemma storedPayload_row: "storedPayload p = Inl TYPE_ERROR \<or>
    storedPayload p = Inr (p\<lparr>pl_consumed := None\<rparr>, map_option (\<lambda>n. n * 1000) (pl_consumed p)) \<and> (\<forall>n. pl_consumed p = Some n \<longrightarrow> 0 \<le> n)"
  by (auto simp: storedPayload_def split: option.splits)

lemma identifier_guards:
  "requiredIdentifier v = Inl TYPE_ERROR \<or> requiredIdentifier v = Inr ()"
  "optionalIdentifier w = Inl TYPE_ERROR \<or> optionalIdentifier w = Inr ()"
  "guardR b TYPE_ERROR = Inl TYPE_ERROR \<or> guardR b TYPE_ERROR = Inr ()"
  "ttl ex = Inl TYPE_ERROR \<or> ttl ex = Inr ex"
  by (auto simp: requiredIdentifier_def optionalIdentifier_def guardR_def ttl_def split: option.splits)

lemma payload_order: "(q\<lparr>pl_accountId := acc\<rparr>)\<lparr>pl_consumed := None\<rparr> = (q\<lparr>pl_consumed := None\<rparr>)\<lparr>pl_accountId := acc\<rparr>"
  for q :: payload by (cases q) simp

lemma payload_no_account: "pl_accountId p = None \<Longrightarrow> p\<lparr>pl_accountId := None\<rparr> = p" for p :: payload
  by (cases p) simp

lemma coalesce_eq_None [simp]: "sql_coalesce a b = None \<longleftrightarrow> a = None \<and> b = None"
  by (simp add: sql_coalesce_def split: option.splits)

lemma pg_upsert_run:
  "pg_upsert now r m i p ex d = Inl TYPE_ERROR \<or>
   (\<forall>n. pl_consumed p = Some n \<longrightarrow> 0 \<le> n) \<and>
   pg_upsert now r m i p ex d = bindR (saved now r m i p ex d) (\<lambda>(rowCount, rows).
     if (pl_accountId p \<noteq> None \<or> pl_grantId p \<noteq> None) \<and> rowCount \<noteq> 1 then Inl (ADAPTER InvalidGrant)
     else if m = ''ReplayDetection'' \<and> rowCount \<noteq> 1 then Inl (ADAPTER InvalidRequest)
     else Inr (d\<lparr>pd_records := rows\<rparr>))"
proof (cases "requiredIdentifier i = Inr () \<and> ttl ex = Inr ex \<and> storedPayload p \<noteq> Inl TYPE_ERROR \<and>
    optionalIdentifier (pl_grantId p) = Inr () \<and> optionalIdentifier (pl_userCode p) = Inr () \<and> optionalIdentifier (pl_uid p) = Inr () \<and>
    optionalIdentifier (pl_accountId p) = Inr () \<and> guardR (case pl_accountId p of None \<Rightarrow> True | Some a \<Rightarrow> uuid_re a) TYPE_ERROR = Inr ()")
  case True
  then have st: "storedPayload p = Inr (p\<lparr>pl_consumed := None\<rparr>, map_option (\<lambda>n. n * 1000) (pl_consumed p))" "\<forall>n. pl_consumed p = Some n \<longrightarrow> 0 \<le> n"
    using storedPayload_row [of p] by auto
  show ?thesis
    using True st
    by (cases "save_security now r (pl_accountId p) (pl_grantId p) d")
      (simp_all add: pg_upsert_def saved_def saved_row_def case_prod_beta del: guardR_simps(3))
next
  case False
  then have "pg_upsert now r m i p ex d = Inl TYPE_ERROR"
    using identifier_guards(1) [of i] identifier_guards(4) [of ex] storedPayload_row [of p] identifier_guards(2) [of "pl_grantId p"]
      identifier_guards(2) [of "pl_userCode p"] identifier_guards(2) [of "pl_uid p"] identifier_guards(2) [of "pl_accountId p"]
      identifier_guards(3) [of "case pl_accountId p of None \<Rightarrow> True | Some a \<Rightarrow> uuid_re a"]
    unfolding pg_upsert_def by (elim disjE) (simp_all del: guardR_simps(3))
  then show ?thesis by simp
qed

text \<open>Two related stores with one authorization code, and a data base without users.\<close>

definition demo_artifact :: artifact where
  "demo_artifact = \<lparr>rc_ref = 0, rc_payload = \<lparr>pl_grantId = None, pl_accountId = None, pl_userCode = None, pl_uid = Some ''u'', pl_consumed = None,
     pl_data = JNull\<rparr>, rc_securityVersion = None, rc_expiresAt = Some 60000\<rparr>"

definition demo_row :: oidc_row where
  "demo_row = \<lparr>ox_realm = ''corp'', ox_model = ''AuthorizationCode'', ox_id = ''c'', ox_payload = rc_payload demo_artifact, ox_expiresAt = Some 60000,
     ox_consumedAt = None, ox_grantId = None, ox_userCode = None, ox_uid = Some ''u'', ox_version = None\<rparr>"

definition demo_codes :: adapter where
  "demo_codes = put_bucket ''corp'' ''AuthorizationCode'' (mset' ''c'' demo_artifact []) \<lparr>ad_stores = [], ad_next = 1\<rparr>"

definition demo_table :: pgdata where
  "demo_table = \<lparr>pd_db = \<lparr>pg_users = [], pg_grants = [], pg_sessions = [], pg_credentials = [], pg_challenges = []\<rparr>, pd_records = [demo_row]\<rparr>"

lemma demo_related: "records_rel ''corp'' demo_codes (pd_records demo_table)" "users_rel ''corp'' (\<lambda>_. None) (pd_db demo_table)"
    "NUL \<notin> set ''corp''"
proof -
  have e: "records_rel ''corp'' \<lparr>ad_stores = [], ad_next = 1\<rparr> []"
    by (simp add: records_rel_def adapter_inv_def records_wf_def bucket_of_def row_at_def row0_def)
  show n: "NUL \<notin> set ''corp''" by (simp add: NUL_def)
  have rr: "row_rel demo_artifact demo_row" by (simp add: row_rel_def demo_row_def demo_artifact_def is_consumed_def lower_account_def)
  have at: "row_at ''corp'' m i [demo_row] = (if m = ''AuthorizationCode'' \<and> i = ''c'' then Some demo_row else None)" for m i
    by (auto simp: row_at_def row0_def row_key_def row_of_def demo_row_def)
  have "records_rel ''corp'' demo_codes [demo_row]"
    unfolding demo_codes_def
  proof (rule records_rel_put [OF e n])
    show "records_wf [demo_row]" by (simp add: records_wf_def code_clash_def)
    show "rel_option row_rel (mget (mset' ''c'' demo_artifact []) i) (row_at ''corp'' ''AuthorizationCode'' i [demo_row])" for i
      using rr by (simp add: at)
    show "row_at ''corp'' m' i [demo_row] = row_at ''corp'' m' i []" if "m' \<noteq> ''AuthorizationCode''" for m' i
      using that by (simp add: at) (simp add: row_at_def row0_def)
  qed (simp add: map_wf_def)
  then show "records_rel ''corp'' demo_codes (pd_records demo_table)" by (simp add: demo_table_def)
  show "users_rel ''corp'' (\<lambda>_. None) (pd_db demo_table)" by (simp add: users_rel_def demo_table_def account_row_def row0_def)
qed

text \<open>
  What the statement of \<open>upsert\<close> does, the memory store does: a save that is accepted is accepted there and leads to
  related stores, and a save refused for its grant, its account or as a replay is refused there with the same error.
  A replay record must not outlive its expiry in the table, a payload that was consumed says when, and a
  replay record belongs to no account.
\<close>

theorem postgres_save_refines:
  assumes rel: "records_rel r s (pd_records d)" and users: "users_rel r sv (pd_db d)" and r: "NUL \<notin> set r"
    and low: "lower_account p" and consumed: "pl_consumed p \<noteq> Some 0"
    and replay: "m = ''ReplayDetection'' \<longrightarrow> pl_accountId p = None \<and> pl_grantId p = None \<and>
      (\<forall>x. row_at r m i (pd_records d) = Some x \<longrightarrow> row_live now x)"
  shows "case pg_upsert now r m i p ex d of
      Inr d' \<Rightarrow> pd_db d' = pd_db d \<and> (\<exists>s'. upsert now sv r m i p ex s = Inr s' \<and> records_rel r s' (pd_records d'))
    | Inl (ADAPTER e) \<Rightarrow> upsert now sv r m i p ex s = Inl e
    | Inl _ \<Rightarrow> True"
proof (cases "pg_upsert now r m i p ex d = Inl TYPE_ERROR \<or> saved now r m i p ex d = Inl UNIQUE_RECORD")
  case True
  then show ?thesis using pg_upsert_run [of now r m i p ex d] by auto
next
  case False
  then have p0: "\<forall>n. pl_consumed p = Some n \<longrightarrow> 0 \<le> n"
    and run: "pg_upsert now r m i p ex d = bindR (saved now r m i p ex d) (\<lambda>(rowCount, rows).
      if (pl_accountId p \<noteq> None \<or> pl_grantId p \<noteq> None) \<and> rowCount \<noteq> 1 then Inl (ADAPTER InvalidGrant)
      else if m = ''ReplayDetection'' \<and> rowCount \<noteq> 1 then Inl (ADAPTER InvalidRequest)
      else Inr (d\<lparr>pd_records := rows\<rparr>))"
    using pg_upsert_run [of now r m i p ex d] by auto
  have wf: "records_wf (pd_records d)" using rel by (simp add: records_rel_def)
  have "saved now r m i p ex d \<noteq> Inl e" for e
    using False by (auto simp: saved_def insert_record_def Let_def split: option.splits if_splits)
  then obtain n rows where sv': "saved now r m i p ex d = Inr (n, rows)" by (cases "saved now r m i p ex d") auto
  let ?e = "mget (bucket_of r m s) i"
  let ?nx = "carried p ?e"
  define par where "par = (case pl_grantId p of None \<Rightarrow> None | Some g \<Rightarrow> current now (mget (bucket_of r ''Grant'' s) g))"
  note carry = carried_fields [of p ?e]
  have sec: "case save_security now r (pl_accountId p) (pl_grantId p) d of
      Some (v, acc) \<Rightarrow>
        upsert_check (sv_of sv (parent_account par)) \<lparr>us_next = ?nx, us_parent = par\<rparr> = Inr (?nx\<lparr>pl_accountId := acc\<rparr>) \<and>
        sv_of sv acc = v \<and> (acc \<noteq> None \<longrightarrow> v \<noteq> None) \<and> lower_account (?nx\<lparr>pl_accountId := acc\<rparr>) \<and>
        (acc = None \<longrightarrow> pl_accountId p = None) \<and>
        (\<forall>g. pl_grantId p = Some g \<longrightarrow> (\<exists>q. par = Some q \<and> rc_securityVersion q = v))
    | None \<Rightarrow> (pl_accountId p \<noteq> None \<or> pl_grantId p \<noteq> None) \<and>
        (upsert_check (sv_of sv (parent_account par)) \<lparr>us_next = ?nx, us_parent = par\<rparr> = Inl InvalidGrant \<or>
        (upsert_check (sv_of sv (parent_account par)) \<lparr>us_next = ?nx, us_parent = par\<rparr> = Inr ?nx \<and> pl_accountId p \<noteq> None \<and>
         sv_of sv (pl_accountId p) = None))"
    by (rule save_security_rel [OF rel users, of ?nx par now, unfolded carry, OF low par_def])
  have live: "current now ?e \<noteq> None \<longleftrightarrow> row_at r m i (pd_records d) \<noteq> None" if "m = ''ReplayDetection''"
  proof (cases ?e)
    case None
    then show ?thesis using records_rel_get [OF rel, of m i] by (simp add: current_def)
  next
    case (Some a)
    then obtain x where x: "row_at r m i (pd_records d) = Some x" "row_rel a x" using records_rel_get [OF rel, of m i] by (auto simp: option_rel_Some1)
    then show ?thesis using Some row_rel_live [OF x(2), of now] replay that by simp
  qed
  have ex_row: "list_ex (row_key r m i) (pd_records d) \<longleftrightarrow> row_at r m i (pd_records d) \<noteq> None" by (auto simp: list_ex_iff row_at_None)
  show ?thesis
  proof (cases "save_security now r (pl_accountId p) (pl_grantId p) d")
    case None
    then have bound: "pl_accountId p \<noteq> None \<or> pl_grantId p \<noteq> None" "n = 0" using sec sv' by (auto simp: saved_def)
    then have "m \<noteq> ''ReplayDetection''" using replay by auto
    then have "upsert now sv r m i p ex s = Inl InvalidGrant"
      using upsert_carried [of m now r s i par p sv ex] None sec by (auto simp: par_def [symmetric] upsert_commit_def carry)
    then show ?thesis using run sv' bound by auto
  next
    case (Some va)
    obtain v acc where va: "va = (v, acc)" by (cases va)
    let ?row = "saved_row now r m i p ex v acc"
    have ins: "insert_record ?row (pd_records d) = Inr (n, rows)" using sv' Some va by (simp add: saved_def)
    have row: "ox_realm ?row = r" "ox_model ?row = m" "ox_id ?row = i" by (simp_all add: saved_row_def)
    show ?thesis
    proof (cases "m = ''ReplayDetection'' \<and> row_at r m i (pd_records d) \<noteq> None")
      case True
      then have n: "n = 0" using ins row ex_row by (auto simp: insert_record_def Let_def)
      have "upsert now sv r m i p ex s = Inl InvalidRequest" using True live by (auto simp: upsert_def upsert_begin_def)
      then show ?thesis using run sv' n True replay by auto
    next
      case new: False
      then have n: "n = 1" using insert_record_count [OF ins] row ex_row by auto
      have not_replayed: "\<not> (m = ''ReplayDetection'' \<and> current now ?e \<noteq> None)" using new live by blast
      let ?a = "\<lparr>rc_ref = ad_next s, rc_payload = ?nx\<lparr>pl_accountId := acc\<rparr>, rc_securityVersion = v, rc_expiresAt = map_option (\<lambda>e. now + e) ex\<rparr>"
      have commit: "upsert_commit now r m i (?nx\<lparr>pl_accountId := acc\<rparr>) v par ex s =
          Inr ((put_bucket r m (mset' i ?a (bucket_of r m s)) s)\<lparr>ad_next := ad_next s + 1\<rparr>)"
        using sec Some va by (intro upsert_commit_accepts) (auto simp: carry par_def)
      have up: "upsert now sv r m i p ex s = Inr ((put_bucket r m (mset' i ?a (bucket_of r m s)) s)\<lparr>ad_next := ad_next s + 1\<rparr>)"
        using upsert_carried [OF not_replayed par_def, of sv ex] sec Some va commit by auto
      have "row_rel ?a (case row_at r m i (pd_records d) of None \<Rightarrow> ?row | Some x \<Rightarrow> ?row\<lparr>ox_consumedAt := sql_coalesce (ox_consumedAt x) (ox_consumedAt ?row)\<rparr>)"
      proof -
        have pay: "(?nx\<lparr>pl_accountId := acc\<rparr>)\<lparr>pl_consumed := None\<rparr> = ox_payload ?row"
          using sec Some va by (cases acc) (simp_all add: payload_order carry saved_row_def payload_no_account)
        have own: "is_consumed p \<longleftrightarrow> pl_consumed p \<noteq> None" using consumed by (auto simp: is_consumed_def split: option.splits)
        have secs: "1000 \<le> t" if t: "map_option (\<lambda>n. n * 1000) (pl_consumed p) = Some t" for t
        proof -
          obtain n where n: "pl_consumed p = Some n" "t = n * 1000" using t by auto
          then have "n \<noteq> 0" using consumed by auto
          then show ?thesis using p0 n by fastforce
        qed
        have lowa: "lower_account (?nx\<lparr>pl_accountId := acc\<rparr>)" using sec Some va by simp
        have cons: "is_consumed (?nx\<lparr>pl_accountId := acc\<rparr>) \<longleftrightarrow> is_consumed ?nx" by (simp add: is_consumed_def)
        show ?thesis
        proof (cases "row_at r m i (pd_records d)")
          case None
          then have "?e = None" using records_rel_get [OF rel, of m i] by (simp add: option_rel_Some1)
          then show ?thesis using None pay own secs lowa cons by (simp add: row_rel_def saved_row_def carried_fields)
        next
          case (Some x)
          then obtain e where e: "?e = Some e" "row_rel e x" using records_rel_get [OF rel, of m i] by (auto simp: option_rel_Some2)
          have "1000 \<le> t" if "sql_coalesce (ox_consumedAt x) (map_option (\<lambda>n. n * 1000) (pl_consumed p)) = Some t" for t
            using that secs e(2) by (auto simp: sql_coalesce_def row_rel_def split: option.splits)
          then show ?thesis using Some e pay own lowa cons by (auto simp: row_rel_def saved_row_def carried_fields)
        qed
      qed
      then have "records_rel r (put_bucket r m (mset' i ?a (bucket_of r m s)) s) rows"
        by (rule insert_rel [OF rel r row ins [unfolded n]])
      then show ?thesis using run sv' n up by (auto simp: records_rel_next)
    qed
  qed
qed

lemma postgres_save_refines_witness:
  "\<exists>d' s'. pg_upsert 5000 ''corp'' ''ReplayDetection'' ''jti'' (rc_payload demo_artifact) (Some 60000) demo_table = Inr d' \<and>
     length (pd_records d') = 2 \<and> records_rel ''corp'' s' (pd_records d')"
proof -
  have p: "lower_account (rc_payload demo_artifact)" "pl_consumed (rc_payload demo_artifact) \<noteq> Some 0"
      "pl_accountId (rc_payload demo_artifact) = None \<and> pl_grantId (rc_payload demo_artifact) = None"
    by (simp_all add: lower_account_def demo_artifact_def)
  have none: "row_at ''corp'' ''ReplayDetection'' ''jti'' (pd_records demo_table) = None"
    by (simp add: row_at_None demo_table_def row_key_def row_of_def demo_row_def)
  obtain d' where d': "pg_upsert 5000 ''corp'' ''ReplayDetection'' ''jti'' (rc_payload demo_artifact) (Some 60000) demo_table = Inr d'"
      "length (pd_records d') = 2"
    by (simp add: pg_upsert_def requiredIdentifier_def ttl_def storedPayload_def optionalIdentifier_def save_security_def sql_coalesce_def insert_record_def
        demo_table_def demo_row_def demo_artifact_def row_key_def row_of_def code_clash_def Let_def)
  show ?thesis
    using postgres_save_refines [OF demo_related p(1,2), of "''ReplayDetection''" "''jti''" 5000 "Some 60000"] p(3) none d' by auto
qed

text \<open>The users of related identity stores.\<close>

lemma users_rel_store:
  assumes "store_inv st" "CHR '':'' \<notin> set r" "pg_rel st d"
    and ids: "\<forall>u\<in>set (pg_users d). \<forall>v\<in>set (pg_users d). u_realm u = u_realm v \<and> u_id u = u_id v \<longrightarrow> u = v"
  shows "users_rel r (securityVersionFor r st) d"
proof -
  have "securityVersionFor r st a = map_option u_securityVersion (account_row r a d)" if "js_lower a = a" for a
  proof -
    have "filter (\<lambda>u. user_row r (js_lower a) u \<and> u_enabled u) (pg_users d) = filter u_enabled (filter (user_row r a) (pg_users d))"
      by (simp add: that conj_commute)
    then show ?thesis using filter_user_row [OF assms(1-3), of a]
      by (simp add: securityVersionFor_def account_row_def row0_def split: option.splits)
  qed
  then show ?thesis using ids by (simp add: users_rel_def)
qed

section \<open>The store\<close>



section \<open>The account operations\<close>

definition data_rel :: "string \<Rightarrow> data \<Rightarrow> pgdata \<Rightarrow> bool" where
  "data_rel r d p \<longleftrightarrow> store_inv (dl_store d) \<and> pg_rel (dl_store d) (pd_db p) \<and> records_rel r (dl_adapter d) (pd_records p)"

lemma pg_find_user:
  assumes "store_inv s" "CHR '':'' \<notin> set r" "pg_rel s d"
  shows "pg_findUserById now r i d = rowToUser now (findUserById r i s)"
    "filter (user_row r i) (pg_users d) = [] \<longleftrightarrow> findUserById r i s = None"
  using filter_user_row [OF assms, of i] by (simp_all add: pg_findUserById_def row0_def split: option.splits)

lemma revoke_db: "pd_db (snd (pg_revokeAccount r acc p)) = pd_db p"
  by (simp add: pg_revokeAccount_def sql_delete_def)

lemma revoke_records: "pd_records (snd (pg_revokeAccount r acc (p\<lparr>pd_db := db\<rparr>))) = pd_records (snd (pg_revokeAccount r acc p))"
  by (simp add: pg_revokeAccount_def sql_delete_def)

lemma bump_inv: "store_inv s \<Longrightarrow> store_inv (snd (bumpSecurityVersion now r i s))"
  by (rule update_user_methods_inv(5) [OF _ prod.collapse [symmetric]])

text \<open>
  Deleting an account and changing its credentials have the same effect on both back-ends: given a mutation that does the
  same to both identity stores, the two transactions report the same, leave related identity stores, and leave
  related protocol stores, in which nothing issued to the account is left when the change was applied.
\<close>

theorem postgres_account_operations_refine:
  assumes rel: "data_rel r d p" and r: "CHR '':'' \<notin> set r" "NUL \<notin> set r"
    and m: "mutate (dl_store d) = (Inr b, s1)" "pg_mutate (pd_db p) = Inr (b, db1)" "pg_rel s1 db1" "store_inv s1"
  shows "(\<exists>x y. fst (mutateAccountSecurity now fresh r acc mutate d) = Inr x \<and> fst (pg_mutateAccountSecurity now r acc pg_mutate p) = Inr y \<and>
      mr_found y = mr_found x \<and> mr_applied y = mr_applied x \<and> mr_user y = rowToUser now (mr_user x)) \<and>
    pg_rel (dl_store (snd (mutateAccountSecurity now fresh r acc mutate d))) (pd_db (snd (pg_mutateAccountSecurity now r acc pg_mutate p))) \<and>
    records_rel r (dl_adapter (snd (mutateAccountSecurity now fresh r acc mutate d))) (pd_records (snd (pg_mutateAccountSecurity now r acc pg_mutate p))) \<and>
    (\<exists>u. fst (deleteAccount now fresh r acc (None :: (store \<Rightarrow> ('e + unit) \<times> store) option) d) = Inr u \<and>
      fst (pg_deleteAccount now r acc (None :: (pgdb \<Rightarrow> 'e + pgdb) option) p) = Inr (rowToUser now u)) \<and>
    pg_rel (dl_store (snd (deleteAccount now fresh r acc (None :: (store \<Rightarrow> ('e + unit) \<times> store) option) d)))
      (pd_db (snd (pg_deleteAccount now r acc (None :: (pgdb \<Rightarrow> 'e + pgdb) option) p))) \<and>
    records_rel r (dl_adapter (snd (deleteAccount now fresh r acc (None :: (store \<Rightarrow> ('e + unit) \<times> store) option) d)))
      (pd_records (snd (pg_deleteAccount now r acc (None :: (pgdb \<Rightarrow> 'e + pgdb) option) p)))"
proof -
  have inv: "store_inv (dl_store d)" and db: "pg_rel (dl_store d) (pd_db p)" and recs: "records_rel r (dl_adapter d) (pd_records p)"
    using rel by (simp_all add: data_rel_def)
  note before = pg_find_user [OF inv r(1) db] and after = pg_find_user [OF m(4) r(1) m(3)]
  note revoked = revokeAccount_rel [OF recs r(2), of acc]
  have bump: "pg_rel (snd (bumpSecurityVersion now r acc s1)) (snd (pg_update_user r acc (\<lambda>_. True) (bump_row now) db1))"
    using sim_plain [OF m(4) r(1) m(3), of "\<lambda>u. Some (bump_row now u)" "bump_row now" acc]
    by (simp add: bumpSecurityVersion_def bump_row_def)
  have bumped: "pg_findUserById now r acc (snd (pg_update_user r acc (\<lambda>_. True) (bump_row now) db1)) =
      rowToUser now (findUserById r acc (snd (bumpSecurityVersion now r acc s1)))"
    by (rule pg_find_user(1) [OF bump_inv [OF m(4)] r(1) bump])
  show ?thesis
  proof (cases "findUserById r acc (dl_store d)")
    case None
    have "deleteUser r acc (dl_store d) = (None, dl_store d)" using None by (simp add: deleteUser_def findUserById_def)
    then show ?thesis using None before db recs
      by (simp add: mutateAccountSecurity_def pg_mutateAccountSecurity_def deleteAccount_def pg_deleteAccount_def rowToUser_def)
  next
    case (Some u)
    have some: "filter (user_row r acc) (pg_users (pd_db p)) \<noteq> []" using before(2) Some by simp
    obtain s2 where s2: "deleteUser r acc (dl_store d) = (Some u, s2)" using Some by (auto simp: deleteUser_def findUserById_def Let_def)
    have del: "fst (pg_deleteUser now r acc (pd_db p)) = rowToUser now (Some u)" "pg_rel s2 (snd (pg_deleteUser now r acc (pd_db p)))"
      using sim_delete [OF inv r(1) db, of now acc] s2 by (simp_all add: pg_sim_row_def)
    show ?thesis
      using Some some m after bumped bump revoked db recs del
      by (cases b) (simp_all add: mutateAccountSecurity_def pg_mutateAccountSecurity_def deleteAccount_def pg_deleteAccount_def Let_def
          case_prod_beta s2 revoke_db revoke_records)
  qed
qed

lemma postgres_account_operations_refine_witness:
  "\<exists>y. fst (pg_mutateAccountSecurity 9 ''corp'' ''u1'' (\<lambda>db. Inr (True, db) :: unit + (bool \<times> pgdb)) (demo_table\<lparr>pd_db := demo_db\<rparr>)) = Inr y \<and>
     mr_applied y"
proof -
  let ?d = "\<lparr>dl_store = demo_store1, dl_adapter = demo_codes\<rparr>"
  have inv: "store_inv demo_store1" by (rule store_reach_inv [OF demo_reach])
  have rel: "data_rel ''corp'' ?d (demo_table\<lparr>pd_db := demo_db\<rparr>)"
    using inv demo_db_rel demo_related(1) by (simp add: data_rel_def demo_table_def)
  have c: "CHR '':'' \<notin> set ''corp''" by simp
  obtain x where "fst (mutateAccountSecurity 9 [] ''corp'' ''u1'' (\<lambda>s. (Inr True :: unit + bool, s)) ?d) = Inr x" "mr_applied x"
    by (simp add: mutateAccountSecurity_def Let_def)
  then show ?thesis
    using postgres_account_operations_refine [OF rel c demo_related(3), of "\<lambda>s. (Inr True :: unit + bool, s)" True demo_store1
        "\<lambda>db. Inr (True, db)" demo_db 9 "[]" "''u1''"] inv demo_db_rel by auto
qed

section \<open>One use\<close>

text \<open>In the table an artifact that was used stays used, whatever is saved over it: a save keeps the consumption.\<close>

definition pg_use :: "string \<Rightarrow> string \<Rightarrow> int \<Rightarrow> string \<Rightarrow> pgdata \<Rightarrow> bool \<times> pgdata" where
  "pg_use r m now i d = (case pg_consume now r m i d of Inr d' \<Rightarrow> (True, d') | Inl _ \<Rightarrow> (False, d))"

definition pg_unspent :: "string \<Rightarrow> string \<Rightarrow> string \<Rightarrow> pgdata \<Rightarrow> bool" where
  "pg_unspent r m i d \<longleftrightarrow> (\<exists>x\<in>set (pd_records d). row_key r m i x \<and> ox_consumedAt x = None)"

lemma pg_unspent_row: "records_wf (pd_records d) \<Longrightarrow> pg_unspent r m i d \<longleftrightarrow> (\<exists>x. row_at r m i (pd_records d) = Some x \<and> ox_consumedAt x = None)"
  by (auto simp: pg_unspent_def row_at_Some)

definition pg_spent :: "string \<Rightarrow> string \<Rightarrow> string \<Rightarrow> pgdata \<Rightarrow> bool" where
  "pg_spent r m i d \<longleftrightarrow> (\<exists>x. row_at r m i (pd_records d) = Some x \<and> ox_consumedAt x \<noteq> None)"

lemma consume_rows_rows:
  fixes now :: int and r m i :: string
  assumes "records_wf (pd_records d)"
  defines "f \<equiv> \<lambda>x. if row_key r m i x \<and> ox_consumedAt x = None \<and> row_live now x then x\<lparr>ox_consumedAt := Some now\<rparr> else x"
  shows "records_wf (pd_records (snd (consume_rows now r m i d)))"
    "row_at r' m' j (pd_records (snd (consume_rows now r m i d))) = map_option f (row_at r' m' j (pd_records d))"
proof -
  have t: "pd_records (snd (consume_rows now r m i d)) = map f (pd_records d)" by (simp add: consume_rows_def sql_update_def f_def)
  have c: "same_codes f" by (simp add: same_codes_def index_of_def f_def)
  then have "index_of (f x) = index_of x" for x by (simp add: same_codes_def)
  then show "records_wf (pd_records (snd (consume_rows now r m i d)))"
    "row_at r' m' j (pd_records (snd (consume_rows now r m i d))) = map_option f (row_at r' m' j (pd_records d))"
    using records_wf_map [OF assms(1) c] by (simp_all add: t row_at_map)
qed

lemma pg_consume_Inr:
  assumes "pg_consume now r m i d = Inr d'" "records_wf (pd_records d)"
  shows "d' = snd (consume_rows now r m i d)" "\<exists>x. row_at r m i (pd_records d) = Some x \<and> ox_consumedAt x = None \<and> row_live now x"
proof -
  have c: "d' = snd (consume_rows now r m i d)" "fst (consume_rows now r m i d) = 1"
    using assms(1) by (auto simp: pg_consume_def case_prod_beta Let_def split: if_splits)
  show "d' = snd (consume_rows now r m i d)" by (rule c(1))
  show "\<exists>x. row_at r m i (pd_records d) = Some x \<and> ox_consumedAt x = None \<and> row_live now x"
    using c(2) [unfolded consume_rows_count [OF assms(2)]] by (auto split: option.splits if_splits)
qed

lemma pg_consume_spends:
  assumes "pg_consume now r m i d = Inr d'" "records_wf (pd_records d)" shows "pg_spent r m i d'"
proof -
  from pg_consume_Inr [OF assms] obtain x where x: "d' = snd (consume_rows now r m i d)" "row_at r m i (pd_records d) = Some x"
      "ox_consumedAt x = None" "row_live now x" by blast
  then have "row_key r m i x" using assms(2) by (simp add: row_at_Some)
  then have "row_at r m i (pd_records d') = Some (x\<lparr>ox_consumedAt := Some now\<rparr>)"
    using x consume_rows_rows(2) [OF assms(2), of r m i now r m i] by simp
  then show ?thesis by (simp add: pg_spent_def)
qed

lemma pg_consume_keeps:
  assumes "pg_spent r m i d" "records_wf (pd_records d)" shows "pg_spent r m i (snd (consume_rows now r' m' i' d))"
proof -
  obtain x where x: "row_at r m i (pd_records d) = Some x" "ox_consumedAt x \<noteq> None" using assms(1) by (auto simp: pg_spent_def)
  then have "row_at r m i (pd_records (snd (consume_rows now r' m' i' d))) = Some x"
    using consume_rows_rows(2) [OF assms(2), of r m i now r' m' i'] by auto
  then show ?thesis using x(2) by (simp add: pg_spent_def)
qed

lemma pg_spent_consume: "pg_spent r m i d \<Longrightarrow> records_wf (pd_records d) \<Longrightarrow> i \<noteq> [] \<Longrightarrow>
    pg_consume now r m i d = Inl (ADAPTER (if m \<in> set one_use_grants then InvalidGrant else InvalidRequest))"
  using consume_rows_count [of d now r m i] by (auto simp: pg_spent_def pg_consume_def requiredIdentifier_def case_prod_beta Let_def)

interpretation pg_artifact: one_use "\<lambda>now i d. pg_use r m now i d" "pg_unspent r m" "\<lambda>d. records_wf (pd_records d)" for r m
proof (standard, goal_cases)
  case (1 d now i d')
  then show ?case using pg_consume_Inr [of now r m i d d'] by (auto simp: pg_use_def pg_unspent_row split: sum.splits)
next
  case (2 d now i d')
  then have c: "pg_consume now r m i d = Inr d'" by (auto simp: pg_use_def split: sum.splits)
  have "records_wf (pd_records d')" using pg_consume_Inr(1) [OF c 2(1)] consume_rows_rows(1) [OF 2(1)] by simp
  then show ?case using pg_consume_spends [OF c 2(1)] by (auto simp: pg_unspent_row pg_spent_def)
next
  case (3 d now i ok d' j)
  show ?case
  proof (cases "pg_consume now r m i d")
    case (Inl e)
    then show ?thesis using 3(2,3) by (auto simp: pg_use_def)
  next
    case (Inr d1)
    then have d1: "d' = d1" using 3(2) by (auto simp: pg_use_def)
    note c = pg_consume_Inr(1) [OF Inr 3(1)]
    have "records_wf (pd_records d')" using c d1 consume_rows_rows(1) [OF 3(1)] by simp
    then show ?thesis using 3(3) consume_rows_rows(2) [OF 3(1), of r m j now r m i] c d1
      by (auto simp: pg_unspent_row 3(1) split: if_splits)
  qed
next
  case (4 d now i ok d')
  show ?case
  proof (cases "pg_consume now r m i d")
    case (Inr d1)
    then show ?thesis using 4(2) pg_consume_Inr(1) [OF Inr 4(1)] consume_rows_rows(1) [OF 4(1)] by (auto simp: pg_use_def)
  qed (use 4 in \<open>auto simp: pg_use_def\<close>)
qed

text \<open>Saves and uses of any artifacts.\<close>

inductive pg_change :: "pgdata \<Rightarrow> pgdata \<Rightarrow> bool" where
  change_save: "pg_upsert now r m i p ex d = Inr d' \<Longrightarrow> pg_change d d'"
| change_use: "pg_consume now r m i d = Inr d' \<Longrightarrow> pg_change d d'"

lemma insert_record_keeps:
  assumes ins: "insert_record row rows = Inr (n, rows')" and wf: "records_wf rows"
  shows "records_wf rows' \<and> (\<forall>x. row_at r m i rows = Some x \<and> ox_consumedAt x \<noteq> None \<longrightarrow> (\<exists>y. row_at r m i rows' = Some y \<and> ox_consumedAt y \<noteq> None))"
proof -
  let ?same = "row_key (ox_realm row) (ox_model row) (ox_id row)"
  let ?f = "\<lambda>x. if ?same x then row\<lparr>ox_consumedAt := sql_coalesce (ox_consumedAt x) (ox_consumedAt row)\<rparr> else x"
  consider (quiet) "rows' = rows"
    | (update) "rows' = map ?f rows" "list_ex ?same rows" "\<not> code_clash row rows"
    | (insert) "rows' = rows @ [row]" "\<not> list_ex ?same rows" "\<not> code_clash row rows"
    using ins by (auto simp: insert_record_def Let_def split: if_splits)
  then show ?thesis
  proof cases
    case quiet
    then show ?thesis using wf by auto
  next
    case insert
    then show ?thesis using records_wf_append [OF wf insert(2,3)] by (auto simp: row_at_append)
  next
    case update
    obtain x0 where x0: "x0 \<in> set rows" "?same x0" using update(2) by (auto simp: list_ex_iff)
    let ?g = "\<lambda>x. if ?same x then row\<lparr>ox_consumedAt := sql_coalesce (ox_consumedAt x0) (ox_consumedAt row)\<rparr> else x"
    have eq: "map ?f rows = map ?g rows"
    proof (rule map_cong [OF refl])
      fix y assume "y \<in> set rows"
      then show "?f y = ?g y" using records_key [OF wf, of y x0] x0 by (auto simp: row_key_iff)
    qed
    have "records_wf (map ?g rows)"
      using records_wf_replace [OF wf update(3), of "row\<lparr>ox_consumedAt := sql_coalesce (ox_consumedAt x0) (ox_consumedAt row)\<rparr>"]
      by (simp add: index_of_def)
    then have "records_wf rows'" unfolding update(1) eq .
    moreover have f: "index_of (?f x) = index_of x" for x by (auto simp: row_key_iff index_of_def)
    ultimately show ?thesis unfolding update(1) row_at_map [OF f] by (auto simp: sql_coalesce_def)
  qed
qed

lemma pg_change_keeps:
  assumes "pg_change d d'" "records_wf (pd_records d)" "pg_spent r m i d" shows "records_wf (pd_records d') \<and> pg_spent r m i d'"
  using assms(1)
proof cases
  case (change_save now r' m' i' p ex)
  obtain n rows where "saved now r' m' i' p ex d = Inr (n, rows)" "pd_records d' = rows"
    using pg_upsert_run [of now r' m' i' p ex d] change_save by (cases "saved now r' m' i' p ex d") (auto split: if_splits)
  then show ?thesis using insert_record_keeps [OF _ assms(2), of _ n rows r m i] assms(2,3)
    by (auto simp: saved_def pg_spent_def split: option.splits)
next
  case (change_use now r' m' i')
  note c = pg_consume_Inr(1) [OF change_use assms(2)]
  show ?thesis using consume_rows_rows(1) [OF assms(2)] c pg_consume_keeps [OF assms(3,2)] by simp
qed

text \<open>
  An artifact that was used cannot be used again, whatever saves, of it or of others, and uses of others come in between:
  the table does not forget a consumption as an interrupted save of the memory store does.
\<close>

theorem postgres_artifact_used_once:
  assumes "records_wf (pd_records d)" "pg_consume now r m i d = Inr d1" "pg_change\<^sup>*\<^sup>* d1 d2"
  shows "pg_consume now' r m i d2 = Inl (ADAPTER (if m \<in> set one_use_grants then InvalidGrant else InvalidRequest))"
proof -
  have i: "i \<noteq> []" using assms(2) by (auto simp: pg_consume_def requiredIdentifier_def)
  have "records_wf (pd_records d1) \<and> pg_spent r m i d1"
    using pg_consume_Inr(1) [OF assms(2,1)] consume_rows_rows(1) [OF assms(1)] pg_consume_spends [OF assms(2,1)] by simp
  with assms(3) have "records_wf (pd_records d2) \<and> pg_spent r m i d2"
    by (induction rule: rtranclp_induct) (auto dest: pg_change_keeps)
  then show ?thesis using pg_spent_consume [OF _ _ i] by blast
qed

lemma postgres_artifact_used_once_witness:
  "\<exists>d1 d2. pg_consume 5000 ''corp'' ''AuthorizationCode'' ''c'' demo_table = Inr d1 \<and>
     pg_upsert 6000 ''corp'' ''AuthorizationCode'' ''c'' (rc_payload demo_artifact) None d1 = Inr d2 \<and>
     pg_consume 7000 ''corp'' ''AuthorizationCode'' ''c'' d2 = Inl (ADAPTER InvalidGrant)"
proof -
  note eval = requiredIdentifier_def demo_table_def demo_row_def demo_artifact_def row_key_def row_of_def Let_def
  obtain d1 where d1: "pg_consume 5000 ''corp'' ''AuthorizationCode'' ''c'' demo_table = Inr d1"
      "d1 = demo_table\<lparr>pd_records := [demo_row\<lparr>ox_consumedAt := Some 5000\<rparr>]\<rparr>"
    by (simp add: pg_consume_def consume_rows_def sql_update_def row_live_def eval)
  obtain d2 where d2: "pg_upsert 6000 ''corp'' ''AuthorizationCode'' ''c'' (rc_payload demo_artifact) None d1 = Inr d2"
    by (simp add: pg_upsert_def ttl_def storedPayload_def optionalIdentifier_def save_security_def sql_coalesce_def insert_record_def code_clash_def d1(2) eval)
  have "records_wf (pd_records demo_table)" using demo_related(1) by (simp add: records_rel_def)
  then show ?thesis
    using postgres_artifact_used_once [OF _ d1(1) r_into_rtranclp [where r = pg_change, OF change_save [OF d2]], of 7000] d1(1) d2 by (simp add: one_use_grants_def)
qed

end
