(* ===== verification/SamlProps.thy ===== *)
theory SamlProps
  imports SamlBroker
begin

text \<open>
  The guarantees of the SAML broker: an accepted response is bound to the pending login, the
  configured identity provider and this service, and neither a response nor an assertion is
  accepted twice while its claim lasts, over any cache that keeps the contract.
\<close>

section \<open>A consumed response\<close>

definition claim_keys :: "broker_config \<Rightarrow> string set" where
  "claim_keys c = range (responseKey c) \<union> range (assertionKey c)"

lemma stateKey_not_claim: "stateKey c r \<notin> claim_keys c"
  by (auto simp: claim_keys_def stateKey_def responseKey_def assertionKey_def)

lemma claim_keys_distinct [simp]: "responseKey c x \<noteq> assertionKey c y" "assertionKey c y \<noteq> responseKey c x"
  by (auto simp: responseKey_def assertionKey_def)

text \<open>Node-SAML sees the cache only through the provider it is given.\<close>

definition validates_through_cache ::
    "broker_config \<Rightarrow> (json, 's) cache_ops \<Rightarrow> int \<Rightarrow> (json \<Rightarrow> ('s, unit, saml_profile option) handler) \<Rightarrow> bool" where
  "validates_through_cache c ops now validate \<longleftrightarrow>
     (\<forall>r s x s'. validate r s = (x, s') \<longrightarrow> cache_others ops (claim_keys c) now s now s')"

text \<open>What happened when a response was accepted, step by step.\<close>

lemma saml_cache_Inr [simp]: "saml_cache f s = (Inr x, s') \<longleftrightarrow> f s = Inr (x, s')"
  by (auto simp: saml_cache_def liftU_def split: sum.splits)

lemma consumePost_accepted:
  assumes "consumePost c ops parseDate scan validate now resp relay s = (Inr v, s')"
  obtains pending s1 env s2 profile aid s3 s4 s5 where
    "relay_re relay" "co_get ops now (stateKey c (js_String relay)) s = Inr (Some pending, s1)" "truthy pending"
    "responseEnvelope scan resp (bc_maxResponseBytes c) = Inr env" "en_Destination env = bc_callbackUrl c"
    "JStr (en_InResponseTo env) = jprop pending ''requestId''"
    "validate resp s1 = (Inr (Some profile), s2)" "pf_inResponseTo profile = jprop pending ''requestId''"
    "pf_issuer profile = JStr (bc_expectedIssuer c)"
    "assertionDetails parseDate profile (bc_callbackUrl c) (js_String (jprop pending ''requestId'')) now (bc_clockSkewMs c) = Inr aid"
    "co_put ops now (responseKey c (en_ID env)) (JBool True) (bc_replayTtlMs c) s2 = Inr (True, s3)"
    "co_put ops now (assertionKey c aid) (JBool True) (bc_replayTtlMs c) s3 = Inr (True, s4)"
    "co_consume ops now (stateKey c (js_String relay)) s4 = Inr (s5, s')"
    "stateMatches (or_else s5 JNull) pending"
    "identityFromProfile profile (bc_realm c) (bc_providerId c) (bc_mapping c) (bc_trustEmail c) = Inr (sv_identity v)"
    "sv_interactionUid v = jprop pending ''interactionUid''" "sv_responseId v = en_ID env" "sv_assertionId v = aid"
proof -
  from assms show thesis
    unfolding consumePost_def Let_def
    by (elim bindS_Inr) (auto split: option.splits prod.splits sum.splits intro!: that)
qed

text \<open>A replay cache of JSON values, as the broker uses it.\<close>

locale saml_replay_cache = replay_cache put get consume claimed stored invar
  for put :: "int \<Rightarrow> string \<Rightarrow> json \<Rightarrow> int \<Rightarrow> 's \<Rightarrow> string + (bool \<times> 's)"
    and get :: "int \<Rightarrow> string \<Rightarrow> 's \<Rightarrow> string + (json option \<times> 's)"
    and consume :: "int \<Rightarrow> string \<Rightarrow> 's \<Rightarrow> string + (json option \<times> 's)"
    and claimed :: "int \<Rightarrow> string \<Rightarrow> 's \<Rightarrow> bool"
    and stored :: "int \<Rightarrow> string \<Rightarrow> 's \<Rightarrow> json option"
    and invar :: "'s \<Rightarrow> bool"
begin

text \<open>Claims survive what the validator does, and a successful consumption sets both claims.\<close>

lemma accepted_claims:
  fixes c and ops :: "(json, 's) cache_ops" and validate
  assumes ops: "ops = \<lparr>co_put = put, co_get = get, co_consume = consume\<rparr>" and inv: "invar s" and t: "1000 \<le> now"
    and val: "validates_through_cache c ops now validate"
    and run: "consumePost c ops parseDate scan validate now resp relay s = (Inr v, s')"
  shows "invar s' \<and> \<not> claimed now (responseKey c (sv_responseId v)) s \<and> \<not> claimed now (assertionKey c (sv_assertionId v)) s \<and>
    (\<forall>u. now \<le> u \<and> u < now + bc_replayTtlMs c \<longrightarrow>
       claimed u (responseKey c (sv_responseId v)) s' \<and> claimed u (assertionKey c (sv_assertionId v)) s')"
  using run
proof (cases rule: consumePost_accepted)
  case (1 pending s1 env s2 profile aid s3 s4 s5)
  have K: "responseKey c (en_ID env) \<in> claim_keys c" "assertionKey c aid \<in> claim_keys c"
    by (auto simp: claim_keys_def)
  have get: "get now (stateKey c (js_String relay)) s = Inr (Some pending, s1)" using 1(2) ops by simp
  have put1: "put now (responseKey c (en_ID env)) (JBool True) (bc_replayTtlMs c) s2 = Inr (True, s3)" using 1(11) ops by simp
  have put2: "put now (assertionKey c aid) (JBool True) (bc_replayTtlMs c) s3 = Inr (True, s4)" using 1(12) ops by simp
  have con: "consume now (stateKey c (js_String relay)) s4 = Inr (s5, s')" using 1(13) ops by simp
  note g = get_spec [OF inv get]
  have i1: "invar s1" using g by blast
  have "cache_others ops (claim_keys c) now s1 now s2"
    using val 1(7) unfolding validates_through_cache_def by blast
  note oth = others_claimed [OF this ops i1]
  have i2: "invar s2" using oth by blast
  note p1 = put_spec [OF i2 put1]
  have i3: "invar s3" using p1 by blast
  note p2 = put_spec [OF i3 put2]
  have i4: "invar s4" using p2 by blast
  note cs = consume_spec [OF i4 con t]
  have unclaimed: "\<not> claimed now k s" if k: "k \<in> claim_keys c" and n: "\<not> claimed now k s2" for k
  proof
    assume "claimed now k s"
    then have "claimed now k s1" using g by simp
    then show False using oth k n by simp
  qed
  have n1: "\<not> claimed now (responseKey c (en_ID env)) s2" using p1 by simp
  have "\<not> claimed now (assertionKey c aid) s3" using p2 by simp
  then have n2: "\<not> claimed now (assertionKey c aid) s2" using p1 by simp
  have "claimed u (responseKey c (en_ID env)) s' \<and> claimed u (assertionKey c aid) s'"
    if u: "now \<le> u" "u < now + bc_replayTtlMs c" for u
  proof -
    have "claimed u (responseKey c (en_ID env)) s3" using p1 u by simp
    then have "claimed u (responseKey c (en_ID env)) s4" "claimed u (assertionKey c aid) s4" using p2 u by simp_all
    moreover have "responseKey c (en_ID env) \<noteq> stateKey c (js_String relay)" "assertionKey c aid \<noteq> stateKey c (js_String relay)"
      using stateKey_not_claim [of c "js_String relay"] K by auto
    ultimately show ?thesis using cs u by simp
  qed
  then show ?thesis using cs unclaimed [OF K(1) n1] unclaimed [OF K(2) n2] 1(17,18) by simp
qed

text \<open>Hence no second acceptance of the same response or assertion while the claim lasts.\<close>

lemma no_replay:
  fixes c and ops :: "(json, 's) cache_ops" and validate
  assumes ops: "ops = \<lparr>co_put = put, co_get = get, co_consume = consume\<rparr>" and inv: "invar s" and t: "1000 \<le> now"
    and val: "validates_through_cache c ops now validate" "validates_through_cache c ops now2 validate2"
    and run: "consumePost c ops parseDate scan validate now resp relay s = (Inr v, s1)"
    and oth: "cache_others ops (claim_keys c) now s1 now2 s2" and ttl: "now2 < now + bc_replayTtlMs c"
    and run2: "consumePost c ops parseDate scan2 validate2 now2 resp2 relay2 s2 = (Inr v2, s3)"
  shows "sv_assertionId v2 \<noteq> sv_assertionId v \<and> sv_responseId v2 \<noteq> sv_responseId v"
proof -
  note a = accepted_claims [OF ops inv t val(1) run]
  have i1: "invar s1" using a by blast
  note o = others_claimed [OF oth ops i1]
  have le: "now \<le> now2" by (rule cache_others_time [OF oth])
  have "claimed now2 (responseKey c (sv_responseId v)) s2" "claimed now2 (assertionKey c (sv_assertionId v)) s2"
    using a o le ttl by (auto simp: claim_keys_def)
  moreover have i2: "invar s2" using o by blast
  moreover have "1000 \<le> now2" using t le by simp
  ultimately show ?thesis using accepted_claims [OF ops i2 _ val(2) run2] by auto
qed

end

interpretation saml_mem: saml_replay_cache mem_putIfAbsent mem_get mem_consume mem_claimed mem_stored map_wf
  by unfold_locales

interpretation saml_ad: saml_replay_cache "ad_putIfAbsent sv r" "ad_get sv r" "ad_consume sv r" "ad_claimed r"
  "ad_stored sv r" "\<lambda>s. True" for sv r
  by unfold_locales

section \<open>A login that succeeds\<close>

definition saml_demo_config :: broker_config where
  "saml_demo_config = \<lparr>bc_realm = ''r'', bc_providerId = ''p'', bc_callbackUrl = ''https://sp'',
     bc_expectedIssuer = ''https://idp'', bc_mapping = DEFAULT_ATTRIBUTE_MAPPING, bc_trustEmail = False,
     bc_requestTtlMs = 300000, bc_clockSkewMs = 0, bc_replayTtlMs = 600000, bc_maxResponseBytes = 1000\<rparr>"

definition saml_demo_scan :: "string \<Rightarrow> string \<Rightarrow> xml_scan" where
  "saml_demo_scan rid _ = \<lparr>xs_bytes = 3, xs_prohibited = False, xs_isResponse = True,
     xs_attributes = [(''ID'', [rid]), (''Version'', [''2.0'']), (''Destination'', [''https://sp'']), (''InResponseTo'', [''_q''])],
     xs_signatures = [hd RESPONSE_SIGNATURE_ALGORITHMS, hd RESPONSE_SIGNATURE_ALGORITHMS],
     xs_digests = [hd DIGEST_ALGORITHMS, hd DIGEST_ALGORITHMS]\<rparr>"

definition saml_demo_profile :: "string \<Rightarrow> saml_profile" where
  "saml_demo_profile aid = \<lparr>pf_inResponseTo = JStr ''_q'', pf_issuer = JStr ''https://idp'', pf_nameID = JStr ''ann'',
     pf_nameIDFormat = JUndef, pf_sessionIndex = JUndef, pf_attributes = JObj [(''mail'', JStr ''a@b.c'')],
     pf_parsed = JObj [(''Assertion'', JObj [(''$'', JObj [(''ID'', JStr aid)]),
       (''Subject'', JArr [JObj [(''SubjectConfirmation'', JArr [JObj [(''$'', JObj [(''Method'', JStr BEARER)]),
         (''SubjectConfirmationData'', JArr [JObj [(''$'', JObj [(''Recipient'', JStr ''https://sp''),
           (''InResponseTo'', JStr ''_q''), (''NotOnOrAfter'', JStr ''later'')])]])]])]])])]\<rparr>"

definition saml_demo_validate :: "string \<Rightarrow> json \<Rightarrow> ('s, unit, saml_profile option) handler" where
  "saml_demo_validate aid _ = retS (Some (saml_demo_profile aid))"

definition saml_demo_relay :: "char \<Rightarrow> string" where "saml_demo_relay c = replicate 32 c"

text \<open>Two logins are pending, under two relay states.\<close>

definition saml_demo_entry :: "nat \<Rightarrow> json \<Rightarrow> int \<Rightarrow> artifact" where
  "saml_demo_entry n v e = \<lparr>rc_ref = n, rc_payload = replay_payload v, rc_securityVersion = None, rc_expiresAt = Some e\<rparr>"

definition saml_demo_store :: "bucket \<Rightarrow> nat \<Rightarrow> adapter" where
  "saml_demo_store b n = \<lparr>ad_stores = [(bkey ''r'' ''ReplayDetection'', b)], ad_next = n\<rparr>"

definition saml_demo_pending :: adapter where
  "saml_demo_pending = saml_demo_store (map (\<lambda>c. (stateKey saml_demo_config (saml_demo_relay c),
       saml_demo_entry 0 (state_json saml_demo_config ''uid'' ''_q'') 301000)) ''ab'') 1"

definition saml_demo_run :: "int \<Rightarrow> char \<Rightarrow> adapter \<Rightarrow> (saml_error + saml_validation) \<times> adapter" where
  "saml_demo_run now c = consumePost saml_demo_config (adapter_cache (\<lambda>_. None) ''r'') (\<lambda>_. Some 900000)
     (saml_demo_scan [CHR ''_'', c]) (saml_demo_validate [CHR ''_'', c, c]) now (JStr ''abcd'') (JStr (saml_demo_relay c))"

lemma saml_demo_envelope: "c \<in> {CHR ''a'', CHR ''b''} \<Longrightarrow>
    responseEnvelope (saml_demo_scan [CHR ''_'', c]) (JStr ''abcd'') 1000 =
      Inr \<lparr>en_ID = [CHR ''_'', c], en_Destination = ''https://sp'', en_InResponseTo = ''_q''\<rparr>"
  by (auto simp: responseEnvelope_def saml_demo_scan_def extractAttributes_def Let_def base64_re_def js_defs
    RESPONSE_SIGNATURE_ALGORITHMS_def DIGEST_ALGORITHMS_def)

lemma saml_demo_confirmation: "now < 900000 \<Longrightarrow> valid_confirmation (\<lambda>_. Some 900000) ''https://sp'' ''_q'' now 0
    (JObj [(''$'', JObj [(''Method'', JStr BEARER)]), (''SubjectConfirmationData'', JArr [JObj [(''$'', JObj
       [(''Recipient'', JStr ''https://sp''), (''InResponseTo'', JStr ''_q''), (''NotOnOrAfter'', JStr ''later'')])]])])"
  by (simp add: valid_confirmation_def arr_items_def Let_def)

lemma saml_demo_id: "c \<in> {CHR ''a'', CHR ''b''} \<Longrightarrow> xml_id_re [CHR ''_'', c, c]"
  by (elim insertE emptyE; simp add: xml_id_re_def is_word_def is_alpha_def is_alnum_def is_lower_def chr_in_def)

lemma saml_demo_details: "c \<in> {CHR ''a'', CHR ''b''} \<Longrightarrow> now < 900000 \<Longrightarrow>
    assertionDetails (\<lambda>_. Some 900000) (saml_demo_profile [CHR ''_'', c, c]) ''https://sp'' ''_q'' now 0 = Inr [CHR ''_'', c, c]"
  using saml_demo_confirmation [of now] saml_demo_id [of c]
  by (simp add: assertionDetails_def saml_demo_profile_def arr_items_def Let_def)

lemma saml_demo_identity: "\<exists>i. identityFromProfile (saml_demo_profile a) r p m t = Inr i"
  by (simp add: identityFromProfile_def saml_demo_profile_def nonEmpty_def Let_def)

lemma saml_demo_relay_re: "c \<in> {CHR ''a'', CHR ''b''} \<Longrightarrow> relay_re (JStr (saml_demo_relay c))"
  by (elim insertE emptyE;
    simp add: relay_re_def saml_demo_relay_def class_re_def list_all_iff is_b64url_def is_alpha_def is_alnum_def is_lower_def chr_in_def)

text \<open>The run of an accepted response, over the results of the cache operations.\<close>

lemma saml_demo_accepts:
  assumes c: "c \<in> {CHR ''a'', CHR ''b''}" and now: "now < 900000"
    and ops: "co_get (adapter_cache (\<lambda>_. None) ''r'') now (stateKey saml_demo_config (saml_demo_relay c)) s =
        Inr (Some (state_json saml_demo_config ''uid'' ''_q''), s)"
      "co_put (adapter_cache (\<lambda>_. None) ''r'') now (responseKey saml_demo_config [CHR ''_'', c]) (JBool True) 600000 s = Inr (True, s1)"
      "co_put (adapter_cache (\<lambda>_. None) ''r'') now (assertionKey saml_demo_config [CHR ''_'', c, c]) (JBool True) 600000 s1 = Inr (True, s2)"
      "co_consume (adapter_cache (\<lambda>_. None) ''r'') now (stateKey saml_demo_config (saml_demo_relay c)) s2 =
        Inr (Some (state_json saml_demo_config ''uid'' ''_q''), s3)"
  shows "\<exists>v. saml_demo_run now c s = (Inr v, s3)"
proof -
  have run: "saml_cache (co_get (adapter_cache (\<lambda>_. None) ''r'') now (stateKey saml_demo_config (saml_demo_relay c))) s =
        (Inr (Some (state_json saml_demo_config ''uid'' ''_q'')), s)"
    "saml_cache (co_put (adapter_cache (\<lambda>_. None) ''r'') now (responseKey saml_demo_config [CHR ''_'', c]) (JBool True) 600000) s = (Inr True, s1)"
    "saml_cache (co_put (adapter_cache (\<lambda>_. None) ''r'') now (assertionKey saml_demo_config [CHR ''_'', c, c]) (JBool True) 600000) s1 = (Inr True, s2)"
    "saml_cache (co_consume (adapter_cache (\<lambda>_. None) ''r'') now (stateKey saml_demo_config (saml_demo_relay c))) s2 =
        (Inr (Some (state_json saml_demo_config ''uid'' ''_q'')), s3)"
    using ops by simp_all
  obtain i where i: "identityFromProfile (saml_demo_profile [CHR ''_'', c, c]) ''r'' ''p'' DEFAULT_ATTRIBUTE_MAPPING False = Inr i"
    using saml_demo_identity by blast
  have cfg: "bc_maxResponseBytes saml_demo_config = 1000" "bc_callbackUrl saml_demo_config = ''https://sp''"
    "bc_expectedIssuer saml_demo_config = ''https://idp''" "bc_replayTtlMs saml_demo_config = 600000"
    "bc_clockSkewMs saml_demo_config = 0" "bc_realm saml_demo_config = ''r''" "bc_providerId saml_demo_config = ''p''"
    "bc_mapping saml_demo_config = DEFAULT_ATTRIBUTE_MAPPING" "bc_trustEmail saml_demo_config = False"
    by (simp_all add: saml_demo_config_def)
  have prof: "pf_inResponseTo (saml_demo_profile a) = JStr ''_q''" "pf_issuer (saml_demo_profile a) = JStr ''https://idp''" for a
    by (simp_all add: saml_demo_profile_def)
  have pend: "truthy (state_json saml_demo_config ''uid'' ''_q'')"
    "jprop (state_json saml_demo_config ''uid'' ''_q'') ''requestId'' = JStr ''_q''"
    by (simp_all add: state_json_def)
  have val: "saml_demo_validate a j s = (Inr (Some (saml_demo_profile a)), s)" for a j and s :: adapter
    by (simp add: saml_demo_validate_def)
  show ?thesis
    by (simp add: saml_demo_run_def consumePost_def saml_demo_relay_re [OF c] run saml_demo_envelope [OF c] saml_demo_details [OF c now] cfg prof pend val i
      stateMatches_def Let_def)
qed

lemmas saml_demo_store_eval = saml_demo_store_def saml_demo_entry_def ad_putIfAbsent_def ad_get_def ad_consume_def
  adapter_cache_def validateTtl_def safe_integer_def replay_payload_def find_artifact_def MemoryAdapter.consume_def version_ok_def
  upsert_def upsert_begin_def upsert_check_def upsert_commit_def sv_of_def bucket_of_def put_bucket_def current_def
  parent_account_def is_consumed_def Let_def

lemma saml_demo_put: "validateKey k = Inr () \<Longrightarrow> mget b k = None \<Longrightarrow>
    co_put (adapter_cache (\<lambda>_. None) ''r'') now k v 600000 (saml_demo_store b n) =
      Inr (True, saml_demo_store (mset' k (saml_demo_entry n v (now + 600000)) b) (n + 1))"
  by (simp add: saml_demo_store_eval)

lemma saml_demo_get: "validateKey k = Inr () \<Longrightarrow> mget b k = Some (saml_demo_entry m v e) \<Longrightarrow> now < e \<Longrightarrow>
    co_get (adapter_cache (\<lambda>_. None) ''r'') now k (saml_demo_store b n) = Inr (Some v, saml_demo_store b n)"
  by (simp add: saml_demo_store_eval)

lemma saml_demo_consume: "validateKey k = Inr () \<Longrightarrow> mget b k = Some (saml_demo_entry m v e) \<Longrightarrow> now < e \<Longrightarrow>
    co_consume (adapter_cache (\<lambda>_. None) ''r'') now k (saml_demo_store b n) =
      Inr (Some v, saml_demo_store (mset' k (mark_consumed now (saml_demo_entry m v e)) b) n)"
  by (simp add: saml_demo_store_eval)

lemma saml_demo_keys:
  "stateKey saml_demo_config r \<noteq> responseKey saml_demo_config x" "stateKey saml_demo_config r \<noteq> assertionKey saml_demo_config y"
  "responseKey saml_demo_config x \<noteq> stateKey saml_demo_config r" "assertionKey saml_demo_config y \<noteq> stateKey saml_demo_config r"
  "validateKey (stateKey saml_demo_config (saml_demo_relay c)) = Inr ()"
  "length x < 10 \<Longrightarrow> validateKey (responseKey saml_demo_config x) = Inr ()"
  "length x < 10 \<Longrightarrow> validateKey (assertionKey saml_demo_config x) = Inr ()"
  "stateKey saml_demo_config (saml_demo_relay c) = stateKey saml_demo_config (saml_demo_relay d) \<longleftrightarrow> c = d"
  "responseKey saml_demo_config x = responseKey saml_demo_config y \<longleftrightarrow> x = y"
  "assertionKey saml_demo_config x = assertionKey saml_demo_config y \<longleftrightarrow> x = y"
  by (auto simp: stateKey_def responseKey_def assertionKey_def broker_prefix_def saml_demo_config_def validateKey_def
    saml_demo_relay_def)

definition saml_demo_after :: "int \<Rightarrow> char \<Rightarrow> bucket \<Rightarrow> nat \<Rightarrow> bucket" where
  "saml_demo_after now c b n = mset' (stateKey saml_demo_config (saml_demo_relay c))
     (mark_consumed now (saml_demo_entry 0 (state_json saml_demo_config ''uid'' ''_q'') 301000))
     (mset' (assertionKey saml_demo_config [CHR ''_'', c, c]) (saml_demo_entry (n + 1) (JBool True) (now + 600000))
     (mset' (responseKey saml_demo_config [CHR ''_'', c]) (saml_demo_entry n (JBool True) (now + 600000)) b))"

lemma saml_demo_step:
  assumes c: "c \<in> {CHR ''a'', CHR ''b''}" and now: "now < 301000"
    and b: "mget b (stateKey saml_demo_config (saml_demo_relay c)) = Some (saml_demo_entry 0 (state_json saml_demo_config ''uid'' ''_q'') 301000)"
      "mget b (responseKey saml_demo_config [CHR ''_'', c]) = None" "mget b (assertionKey saml_demo_config [CHR ''_'', c, c]) = None"
  shows "\<exists>v. saml_demo_run now c (saml_demo_store b n) = (Inr v, saml_demo_store (saml_demo_after now c b n) (n + 2))"
proof (rule saml_demo_accepts [OF c])
  show "co_put (adapter_cache (\<lambda>_. None) ''r'') now (responseKey saml_demo_config [CHR ''_'', c]) (JBool True) 600000
    (saml_demo_store b n) = Inr (True, saml_demo_store (mset' (responseKey saml_demo_config [CHR ''_'', c])
      (saml_demo_entry n (JBool True) (now + 600000)) b) (n + 1))" by (rule saml_demo_put) (simp_all add: saml_demo_keys b)
  show "co_consume (adapter_cache (\<lambda>_. None) ''r'') now (stateKey saml_demo_config (saml_demo_relay c))
      (saml_demo_store (mset' (assertionKey saml_demo_config [CHR ''_'', c, c]) (saml_demo_entry (n + 1) (JBool True) (now + 600000))
         (mset' (responseKey saml_demo_config [CHR ''_'', c]) (saml_demo_entry n (JBool True) (now + 600000)) b)) (n + 2)) =
    Inr (Some (state_json saml_demo_config ''uid'' ''_q''), saml_demo_store (saml_demo_after now c b n) (n + 2))"
    unfolding saml_demo_after_def by (rule saml_demo_consume) (use now in \<open>simp_all add: saml_demo_keys b\<close>)
qed (use now in \<open>simp_all add: saml_demo_put saml_demo_get saml_demo_keys b claim_keys_distinct\<close>)

abbreviation "saml_demo_bucket \<equiv> map (\<lambda>c. (stateKey saml_demo_config (saml_demo_relay c),
       saml_demo_entry 0 (state_json saml_demo_config ''uid'' ''_q'') 301000)) ''ab''"

lemma saml_demo_both:
  "\<exists>v. saml_demo_run 2000 (CHR ''a'') saml_demo_pending = (Inr v, saml_demo_store (saml_demo_after 2000 (CHR ''a'') saml_demo_bucket 1) 3)"
  "\<exists>v. saml_demo_run 3000 (CHR ''b'') (saml_demo_store (saml_demo_after 2000 (CHR ''a'') saml_demo_bucket 1) 3) =
     (Inr v, saml_demo_store (saml_demo_after 3000 (CHR ''b'') (saml_demo_after 2000 (CHR ''a'') saml_demo_bucket 1) 3) 5)"
  using saml_demo_step [of "CHR ''a''" 2000 saml_demo_bucket 1]
    saml_demo_step [of "CHR ''b''" 3000 "saml_demo_after 2000 (CHR ''a'') saml_demo_bucket 1" 3]
  by (simp_all add: saml_demo_pending_def saml_demo_after_def saml_demo_keys eval_nat_numeral)

lemma saml_demo_first: "\<not> isl (fst (saml_demo_run 2000 (CHR ''a'') saml_demo_pending))"
  using saml_demo_both(1) by auto

lemma saml_demo_second:
  "\<not> isl (fst (saml_demo_run 3000 (CHR ''b'') (snd (saml_demo_run 2000 (CHR ''a'') saml_demo_pending))))"
  using saml_demo_both by auto

lemma saml_demo_validates: "validates_through_cache c ops now (saml_demo_validate aid)"
  by (auto simp: validates_through_cache_def saml_demo_validate_def intro: o_refl)

lemma saml_demo_Inr: "\<not> isl (fst p) \<Longrightarrow> \<exists>v. p = (Inr v, snd p)"
  by (cases p; cases "fst p") auto

section \<open>Properties\<close>

lemma identityFromProfile_issuer:
  "identityFromProfile p r pid am te = Inr i \<Longrightarrow> pf_issuer p = JStr (si_issuer i) \<and> si_realmName i = r"
  by (auto simp: identityFromProfile_def nonEmpty_def Let_def split: json.splits if_splits)



text \<open>C11: SAML replay. Over the realm's protocol store, once a response has been accepted neither that
  response nor its assertion is accepted again before the replay lifetime ends, whatever else is
  stored, read or consumed in between and whichever relay state the second attempt uses.\<close>

theorem saml_replay_impossible:
  assumes "1000 \<le> now" and "validates_through_cache c (adapter_cache sv r) now validate"
    and "validates_through_cache c (adapter_cache sv r) now2 validate2"
    and "consumePost c (adapter_cache sv r) parseDate scan validate now resp relay s = (Inr v, s1)"
    and "cache_others (adapter_cache sv r) (claim_keys c) now s1 now2 s2" and "now2 < now + bc_replayTtlMs c"
    and "consumePost c (adapter_cache sv r) parseDate scan2 validate2 now2 resp2 relay2 s2 = (Inr v2, s3)"
  shows "sv_assertionId v2 \<noteq> sv_assertionId v \<and> sv_responseId v2 \<noteq> sv_responseId v"
  using saml_ad.no_replay [where ops = "adapter_cache sv r", OF adapter_cache_def _ assms] by simp

lemma saml_replay_impossible_witness:
  "\<exists>v v2. fst (saml_demo_run 2000 (CHR ''a'') saml_demo_pending) = Inr v \<and>
     fst (saml_demo_run 3000 (CHR ''b'') (snd (saml_demo_run 2000 (CHR ''a'') saml_demo_pending))) = Inr v2 \<and>
     sv_assertionId v2 \<noteq> sv_assertionId v"
proof -
  let ?s1 = "snd (saml_demo_run 2000 (CHR ''a'') saml_demo_pending)"
  obtain v where v: "saml_demo_run 2000 (CHR ''a'') saml_demo_pending = (Inr v, ?s1)"
    using saml_demo_Inr [OF saml_demo_first] by blast
  obtain v2 where v2: "saml_demo_run 3000 (CHR ''b'') ?s1 = (Inr v2, snd (saml_demo_run 3000 (CHR ''b'') ?s1))"
    using saml_demo_Inr [OF saml_demo_second] by blast
  have "sv_assertionId v2 \<noteq> sv_assertionId v \<and> sv_responseId v2 \<noteq> sv_responseId v"
  proof (rule saml_replay_impossible)
    show "consumePost saml_demo_config (adapter_cache (\<lambda>_. None) ''r'') (\<lambda>_. Some 900000)
      (saml_demo_scan [CHR ''_'', CHR ''a'']) (saml_demo_validate [CHR ''_'', CHR ''a'', CHR ''a'']) 2000 (JStr ''abcd'')
      (JStr (saml_demo_relay (CHR ''a''))) saml_demo_pending = (Inr v, ?s1)" using v unfolding saml_demo_run_def .
    show "consumePost saml_demo_config (adapter_cache (\<lambda>_. None) ''r'') (\<lambda>_. Some 900000)
      (saml_demo_scan [CHR ''_'', CHR ''b'']) (saml_demo_validate [CHR ''_'', CHR ''b'', CHR ''b'']) 3000 (JStr ''abcd'')
      (JStr (saml_demo_relay (CHR ''b''))) ?s1 = (Inr v2, snd (saml_demo_run 3000 (CHR ''b'') ?s1))"
      using v2 unfolding saml_demo_run_def by simp
    show "cache_others (adapter_cache (\<lambda>_. None) ''r'') (claim_keys saml_demo_config) 2000 ?s1 3000 ?s1"
      by (rule o_time [OF o_refl]) simp
  qed (simp_all add: saml_demo_validates saml_demo_config_def)
  with v v2 show ?thesis by (metis fst_conv)
qed

end
