(* ===== verification/ScimNormal.thy ===== *)
theory ScimNormal
  imports ScimRouter
begin

text \<open>
  Normalisation is idempotent: what the store holds is a fixed point of \<open>scim_normalizeUser\<close>, so a
  PATCH that changes nothing is recognised as such.
\<close>

section \<open>Bodies as blocks\<close>

text \<open>A normalised body is the concatenation of one block per attribute name, empty or one entry.\<close>

definition blocks :: "string list \<Rightarrow> scim_attrs list \<Rightarrow> bool" where
  "blocks ns bs \<longleftrightarrow> list_all2 (\<lambda>n b. b = [] \<or> (\<exists>w. b = [(n, w)])) ns bs"

lemma blocks_simps [simp]:
  "blocks [] bs \<longleftrightarrow> bs = []"
  "blocks (n # ns) (b # bs) \<longleftrightarrow> (b = [] \<or> (\<exists>w. b = [(n, w)])) \<and> blocks ns bs"
  by (auto simp: blocks_def)

lemma blocks_append: "blocks ns bs \<Longrightarrow> blocks ms cs \<Longrightarrow> blocks (ns @ ms) (bs @ cs)"
  by (simp add: blocks_def list_all2_appendI)

lemma blocks_keys: "blocks ns bs \<Longrightarrow> set (map fst (concat bs)) \<subseteq> set ns"
  unfolding blocks_def by (induction rule: list_all2_induct) auto

lemma blocks_distinct: "blocks ns bs \<Longrightarrow> distinct ns \<Longrightarrow> distinct (map fst (concat bs))"
  unfolding blocks_def
proof (induction rule: list_all2_induct)
  case (Cons n ns b bs)
  then have "blocks ns bs" by (simp add: blocks_def)
  have k: "n \<notin> set (map fst (concat bs))" using blocks_keys [OF \<open>blocks ns bs\<close>] Cons.prems by auto
  have d: "distinct (map fst (concat bs))" using Cons by simp
  show ?case using Cons.hyps(1) k d by (elim disjE exE) simp_all
qed simp

lemma blocks_lookup:
  "blocks ns bs \<Longrightarrow> distinct ns \<Longrightarrow> (n, b) \<in> set (zip ns bs) \<Longrightarrow>
   mget (concat bs) n = (case b of [] \<Rightarrow> None | e # _ \<Rightarrow> Some (snd e))"
  unfolding blocks_def
proof (induction rule: list_all2_induct)
  case (Cons m ns c bs)
  have k: "set (map fst (concat bs)) \<subseteq> set ns" using Cons.hyps by (intro blocks_keys) (simp add: blocks_def)
  show ?case
  proof (cases "(n, b) = (m, c)")
    case True
    then have "mget (concat bs) n = None" using k Cons.prems by (auto simp: map_of_eq_None_iff)
    then show ?thesis using True Cons.hyps by (auto simp: map_add_def)
  next
    case False
    then have b: "(n, b) \<in> set (zip ns bs)" using Cons.prems by auto
    then have "n \<noteq> m" using Cons.prems by (auto dest: set_zip_leftD)
    then show ?thesis using Cons.IH Cons.prems b Cons.hyps by auto
  qed
qed simp

section \<open>Every reader is idempotent\<close>

definition idem :: "(json \<Rightarrow> scim_error + json) \<Rightarrow> bool" where
  "idem f \<longleftrightarrow> (\<forall>v w. f v = Inr w \<longrightarrow> f w = Inr w)"

lemma idem_text: "idem (\<lambda>v. scim_text v False mx)"
  by (auto simp: idem_def scim_text_def split: json.splits if_splits)

lemma idem_bool: "idem scim_bool"
  by (auto simp: idem_def scim_bool_def split: if_splits)

lemma idem_complex: "idem normalizeComplex"
  by (auto simp: idem_def normalizeComplex_def scim_object_def Let_def split: json.splits if_splits)

lemma idem_item: "idem normalize_item"
  by (auto simp: idem_def normalize_item_def scim_object_def Let_def split: json.splits if_splits)

lemma idem_multi: "idem normalizeMulti"
proof -
  have "mapR normalize_item xs = Inr ys \<Longrightarrow> mapR normalize_item ys = Inr ys" for xs ys
    using idem_item by (induction xs arbitrary: ys) (auto simp: idem_def)
  then show ?thesis
    by (auto simp: idem_def normalizeMulti_def split: json.splits if_splits)
qed

lemma opt_entry_block: "opt_entry src f n = Inr b \<Longrightarrow> b = [] \<or> (\<exists>w. b = [(n, w)])"
  by (auto simp: opt_entry_def split: option.splits)

lemma opt_entry_again:
  assumes "opt_entry src f n = Inr b" "idem f" "blocks ns bs" "distinct ns" "(n, b) \<in> set (zip ns bs)"
  shows "opt_entry (concat bs) f n = Inr b"
  using assms(1,2) blocks_lookup [OF assms(3-5)]
  by (auto simp: opt_entry_def idem_def split: option.splits list.splits)

lemma opt_entries_blocks:
  assumes "opt_entries src f ms = Inr es"
  obtains cs where "es = concat cs" "blocks ms cs" "list_all2 (\<lambda>n b. opt_entry src f n = Inr b) ms cs"
proof -
  obtain cs where c: "mapR (opt_entry src f) ms = Inr cs" "es = concat cs"
    using assms by (auto simp: opt_entries_def)
  then have l: "list_all2 (\<lambda>n b. opt_entry src f n = Inr b) ms cs" by (simp add: mapR_Inr_iff)
  moreover have "blocks ms cs"
    unfolding blocks_def by (rule list_all2_mono [OF l]) (rule opt_entry_block)
  ultimately show thesis using that c by blast
qed

lemma opt_entries_again:
  assumes l: "list_all2 (\<lambda>n b. opt_entry src f n = Inr b) ms cs" and f: "idem f" and b: "blocks ns bs" "distinct ns"
    and sub: "set (zip ms cs) \<subseteq> set (zip ns bs)"
  shows "opt_entries (concat bs) f ms = Inr (concat cs)"
proof -
  have "list_all2 (\<lambda>n c. opt_entry (concat bs) f n = Inr c) ms cs"
    using l sub opt_entry_again [OF _ f b] unfolding list_all2_iff by blast
  then show ?thesis by (simp add: opt_entries_def mapR_Inr_iff [THEN iffD2])
qed

section \<open>Users\<close>

definition user_order :: "string list" where
  "user_order = [''userName'', ''externalId''] @ plain_names @ [''active'', ''password'', ''name''] @ multi_names"

lemma user_order_distinct: "distinct user_order"
  by (simp add: user_order_def plain_names_def multi_names_def)

lemma user_order_canonical:
  "n \<in> set user_order \<Longrightarrow> mget userNames (js_lower n) = Some n \<and> js_lower n \<notin> {''schemas'', ''id'', ''meta'', ''groups''}"
proof -
  have "list_all (\<lambda>n. mget userNames (js_lower n) = Some n \<and> js_lower n \<notin> {''schemas'', ''id'', ''meta'', ''groups''}) user_order"
    by code_simp
  then show "n \<in> set user_order \<Longrightarrow> ?thesis" by (simp add: list_all_iff)
qed

lemma fold_canonical:
  "(\<forall>n\<in>fst ` set kvs. mget names (js_lower n) = Some n \<and> js_lower n \<notin> {''schemas'', ''id'', ''meta'', ''groups''}) \<Longrightarrow>
   distinct (map fst (acc @ kvs)) \<Longrightarrow> foldR (canonical_entry names) kvs acc = Inr (acc @ kvs)"
proof (induction kvs arbitrary: acc)
  case (Cons kv kvs)
  obtain n v where kv: "kv = (n, v)" by (cases kv)
  have "mset' n v acc = acc @ [(n, v)]" using Cons.prems(2) kv
    by (induction acc) auto
  then have "canonical_entry names kv acc = Inr (acc @ [kv])" using Cons.prems(1) kv
    by (simp add: canonical_entry_def)
  moreover have "foldR (canonical_entry names) kvs (acc @ [kv]) = Inr ((acc @ [kv]) @ kvs)"
    using Cons.prems by (intro Cons.IH) auto
  ultimately show ?case by simp
qed simp

lemma canonical_again:
  assumes "blocks user_order bs" shows "canonicalInput (JObj (concat bs)) userNames URN_user = Inr (concat bs)"
proof -
  have k: "set (map fst (concat bs)) \<subseteq> set user_order" by (rule blocks_keys [OF assms])
  have "''schemas'' \<notin> set user_order" by (simp add: user_order_def plain_names_def multi_names_def)
  then have "mget (concat bs) ''schemas'' = None" using k by (auto simp: map_of_eq_None_iff)
  moreover have "foldR (canonical_entry userNames) (concat bs) [] = Inr ([] @ concat bs)"
    using user_order_canonical k blocks_distinct [OF assms user_order_distinct]
    by (intro fold_canonical) (fastforce simp del: map_concat)+
  ultimately show ?thesis by (simp add: canonicalInput_def scim_object_def)
qed

lemma required_text_again: "scim_text v True mx = Inr w \<Longrightarrow> scim_text (trimmed w) True mx = Inr (trimmed w) \<and> trimmed (trimmed w) = trimmed w"
proof -
  have "length (js_trim s) \<le> length s" for s
  proof -
    have "length (dropWhile is_space (rev (dropWhile is_space s))) \<le> length (dropWhile is_space s)"
      using length_dropWhile_le [of is_space "rev (dropWhile is_space s)"] by simp
    then show ?thesis using length_dropWhile_le [of is_space s] by (simp add: js_trim_def)
  qed
  then have "length s \<le> mx \<Longrightarrow> length (js_trim s) \<le> mx" for s by (rule le_trans)
  then show "scim_text v True mx = Inr w \<Longrightarrow> ?thesis"
    by (auto simp: scim_text_def trimmed_def not_less not_le [symmetric] split: json.splits if_splits)
qed

lemma scim_normalizeUser_blocks:
  assumes "scim_normalizeUser input ep = Inr r"
  obtains src un e pb ac pw nm mb where
    "r = concat ([[(''userName'', trimmed un)], e] @ pb @ [if ac = [] then [(''active'', JBool True)] else ac,
        if pw = [] \<and> ep \<noteq> JUndef then [(''password'', ep)] else pw, nm] @ mb)"
    "scim_text (jprop (JObj src) ''userName'') True 256 = Inr un"
    "opt_entry src (\<lambda>v. scim_text v False 256) ''externalId'' = Inr e"
    "list_all2 (\<lambda>n b. opt_entry src (\<lambda>v. scim_text v False 2048) n = Inr b) plain_names pb" "blocks plain_names pb"
    "opt_entry src scim_bool ''active'' = Inr ac" "opt_entry src (\<lambda>v. scim_text v False 1024) ''password'' = Inr pw"
    "opt_entry src normalizeComplex ''name'' = Inr nm"
    "list_all2 (\<lambda>n b. opt_entry src normalizeMulti n = Inr b) multi_names mb" "blocks multi_names mb"
proof -
  from assms obtain src un e pl ac pw nm mu where s:
    "scim_text (jprop (JObj src) ''userName'') True 256 = Inr un"
    "opt_entry src (\<lambda>v. scim_text v False 256) ''externalId'' = Inr e"
    "opt_entries src (\<lambda>v. scim_text v False 2048) plain_names = Inr pl"
    "opt_entry src scim_bool ''active'' = Inr ac" "opt_entry src (\<lambda>v. scim_text v False 1024) ''password'' = Inr pw"
    "opt_entry src normalizeComplex ''name'' = Inr nm" "opt_entries src normalizeMulti multi_names = Inr mu"
    "r = [(''userName'', trimmed un)] @ e @ pl @ (if ac = [] then [(''active'', JBool True)] else ac) @
         (if pw = [] \<and> ep \<noteq> JUndef then [(''password'', ep)] else pw) @ nm @ mu"
    unfolding scim_normalizeUser_def by (elim bindR_InrE) (unfold sum.inject, blast)
  obtain pb where pb: "pl = concat pb" "blocks plain_names pb"
      "list_all2 (\<lambda>n b. opt_entry src (\<lambda>v. scim_text v False 2048) n = Inr b) plain_names pb"
    using opt_entries_blocks [OF s(3)] by blast
  obtain mb where mb: "mu = concat mb" "blocks multi_names mb"
      "list_all2 (\<lambda>n b. opt_entry src normalizeMulti n = Inr b) multi_names mb"
    using opt_entries_blocks [OF s(7)] by blast
  show thesis using that [OF _ s(1,2) pb(3,2) s(4,5,6) mb(3,2)] s(8) pb(1) mb(1) by simp
qed

lemma blocks_opt: "opt_entry src f n = Inr b \<Longrightarrow> blocks ns bs \<Longrightarrow> blocks (n # ns) (b # bs)"
  using opt_entry_block by fastforce

lemma zip_sub: "length a = length a' \<Longrightarrow> set (zip b b') \<subseteq> set (zip (a @ b @ c) (a' @ b' @ c'))" if "length b = length b'"
  using that by (auto simp: zip_append)

lemma scim_normalizeUser_again:
  assumes "scim_normalizeUser input ep = Inr r" and ep: "scim_text ep False 1024 = Inr ep"
  shows "scim_normalizeUser (JObj r) (jprop (JObj r) ''password'') = Inr r"
proof -
  from assms(1) obtain src un e pb ac pw nm mb where r: "r = concat ([[(''userName'', trimmed un)], e] @ pb @
        [if ac = [] then [(''active'', JBool True)] else ac, if pw = [] \<and> ep \<noteq> JUndef then [(''password'', ep)] else pw, nm] @ mb)"
    and un: "scim_text (jprop (JObj src) ''userName'') True 256 = Inr un"
    and e: "opt_entry src (\<lambda>v. scim_text v False 256) ''externalId'' = Inr e"
    and pb: "list_all2 (\<lambda>n b. opt_entry src (\<lambda>v. scim_text v False 2048) n = Inr b) plain_names pb" "blocks plain_names pb"
    and ac: "opt_entry src scim_bool ''active'' = Inr ac"
    and pw: "opt_entry src (\<lambda>v. scim_text v False 1024) ''password'' = Inr pw"
    and nm: "opt_entry src normalizeComplex ''name'' = Inr nm"
    and mb: "list_all2 (\<lambda>n b. opt_entry src normalizeMulti n = Inr b) multi_names mb" "blocks multi_names mb"
    by (rule scim_normalizeUser_blocks)
  define ac' where "ac' = (if ac = [] then [(''active'', JBool True)] else ac)"
  define pw' where "pw' = (if pw = [] \<and> ep \<noteq> JUndef then [(''password'', ep)] else pw)"
  define bs where "bs = [[(''userName'', trimmed un)], e] @ pb @ [ac', pw', nm] @ mb"
  have r': "r = concat bs" unfolding r bs_def ac'_def pw'_def ..
  have lp: "length plain_names = length pb" and lm: "length multi_names = length mb"
    using pb(2) mb(2) by (auto simp: blocks_def dest: list_all2_lengthD)
  have ac1: "ac' = [] \<or> (\<exists>w. ac' = [(''active'', w)])" and pw1: "pw' = [] \<or> (\<exists>w. pw' = [(''password'', w)])"
    using opt_entry_block [OF ac] opt_entry_block [OF pw] by (auto simp: ac'_def pw'_def)
  have "blocks [''userName'', ''externalId''] [[(''userName'', trimmed un)], e]"
    using opt_entry_block [OF e] by simp
  moreover have "blocks [''active'', ''password'', ''name''] [ac', pw', nm]"
    using ac1 pw1 opt_entry_block [OF nm] by simp
  ultimately have b: "blocks user_order bs"
    unfolding user_order_def bs_def by (intro blocks_append pb(2) mb(2))
  note d = user_order_distinct
  have z: "set (zip plain_names pb) \<subseteq> set (zip user_order bs)" "set (zip multi_names mb) \<subseteq> set (zip user_order bs)"
    "(''userName'', [(''userName'', trimmed un)]) \<in> set (zip user_order bs)" "(''externalId'', e) \<in> set (zip user_order bs)"
    "(''active'', ac') \<in> set (zip user_order bs)" "(''password'', pw') \<in> set (zip user_order bs)" "(''name'', nm) \<in> set (zip user_order bs)"
    unfolding user_order_def bs_def using lp lm by (auto simp: zip_append)
  have can: "canonicalInput (JObj r) userNames URN_user = Inr r" unfolding r' by (rule canonical_again [OF b])
  have "mget r ''userName'' = Some (trimmed un)" unfolding r' using blocks_lookup [OF b d z(3)] by simp
  then have u2: "scim_text (jprop (JObj r) ''userName'') True 256 = Inr (trimmed un)"
    using required_text_again [OF un] by simp
  have e2: "opt_entry r (\<lambda>v. scim_text v False 256) ''externalId'' = Inr e"
    unfolding r' by (rule opt_entry_again [OF e idem_text b d z(4)])
  have p2: "opt_entries r (\<lambda>v. scim_text v False 2048) plain_names = Inr (concat pb)"
    unfolding r' by (rule opt_entries_again [OF pb(1) idem_text b d z(1)])
  have m2: "opt_entries r normalizeMulti multi_names = Inr (concat mb)"
    unfolding r' by (rule opt_entries_again [OF mb(1) idem_multi b d z(2)])
  have n2: "opt_entry r normalizeComplex ''name'' = Inr nm"
    unfolding r' by (rule opt_entry_again [OF nm idem_complex b d z(7)])
  have a2: "opt_entry r scim_bool ''active'' = Inr ac'" "ac' \<noteq> []"
  proof -
    show "ac' \<noteq> []" by (simp add: ac'_def)
    show "opt_entry r scim_bool ''active'' = Inr ac'"
    proof (cases "ac = []")
      case False
      then show ?thesis unfolding r' using opt_entry_again [OF ac idem_bool b d] z(5) by (simp add: ac'_def)
    next
      case True
      then show ?thesis using blocks_lookup [OF b d z(5)] by (simp add: r' ac'_def opt_entry_def scim_bool_def)
    qed
  qed
  have w2: "opt_entry r (\<lambda>v. scim_text v False 1024) ''password'' = Inr pw'"
  proof (cases "pw = [] \<and> ep \<noteq> JUndef")
    case False
    then have "pw' = pw" by (simp add: pw'_def)
    then show ?thesis unfolding r' using opt_entry_again [OF pw idem_text b d] z(6) by simp
  next
    case True
    then show ?thesis using blocks_lookup [OF b d z(6)] ep by (simp add: r' pw'_def opt_entry_def)
  qed
  have w3: "pw' = [] \<Longrightarrow> jprop (JObj r) ''password'' = JUndef"
    using blocks_lookup [OF b d z(6)] by (simp add: r')
  have t: "trimmed (trimmed un) = trimmed un" using required_text_again [OF un] by blast
  have "scim_normalizeUser (JObj r) (jprop (JObj r) ''password'') = Inr ([(''userName'', trimmed un)] @ e @ concat pb @ ac' @ pw' @ nm @ concat mb)"
    unfolding scim_normalizeUser_def can bindR_simps u2 e2 p2 a2(1) w2 n2 m2 using a2(2) w3 t by simp
  then show ?thesis by (simp add: r' bs_def)
qed

text \<open>Deep equality is reflexive, and what the patch leaves alone stays as it is.\<close>

lemma deep_eq_refl [simp]: "deep_eq v v"
  by (cases v) simp_all

end
