(* ===== verification/ScimProps.thy ===== *)
theory ScimProps
  imports ScimNormal
begin

text \<open>
  The guarantees of SCIM provisioning: a consistent store, no lost updates, no access without a
  token, no password in a response, a patch without effect, and the removal of a group member.
\<close>

section \<open>A small store\<close>

definition scim_demo_attrs :: scim_attrs where
  "scim_demo_attrs = [(''userName'', JStr ''ann''), (''active'', JBool True), (''password'', JStr ''pw'')]"

definition scim_demo_input :: json where "scim_demo_input = JObj scim_demo_attrs"

definition scim_demo_user :: scim_record where
  "scim_demo_user = \<lparr>sr_attrs = scim_demo_attrs, sr_id = ''u1'', sr_version = 1, sr_createdAt = 5, sr_updatedAt = 5\<rparr>"

definition scim_demo_store :: scim_store where
  "scim_demo_store = [(''corp'', \<lparr>rl_users = [(''u1'', scim_demo_user)], rl_groups = []\<rparr>)]"

lemma scim_demo_normal: "scim_normalizeUser scim_demo_input JUndef = Inr scim_demo_attrs"
  by (simp add: scim_normalizeUser_def scim_demo_input_def scim_demo_attrs_def canonicalInput_def scim_object_def canonical_entry_def
    userNames_def js_lower_def chr_lower_def is_upper_def chr_in_def scim_text_def js_trim_def is_space_def opt_entry_def
    opt_entries_def plain_names_def multi_names_def scim_bool_def trimmed_def Let_def char_of_eval)

lemma scim_demo_created: "sc_createUser 5 ''u1'' ''corp'' scim_demo_attrs [] = Inr (scim_demo_user, scim_demo_store)"
  by (simp add: sc_createUser_def assertUserUnique_def realm_of_def mvals_def new_record_def set_users_def
    scim_demo_user_def scim_demo_store_def Let_def)

lemma scim_demo_reach: "scim_reach scim_demo_store"
  by (rule scim_next [OF scim_empty s_createUser [OF scim_demo_normal _ _ scim_demo_created]])
    (simp_all add: sc_getUser_def realm_of_def)

lemma scim_demo_get [simp]: "sc_getUser ''corp'' ''u1'' scim_demo_store = Some scim_demo_user"
  by (simp add: sc_getUser_def realm_of_def scim_demo_store_def)

section \<open>What a route that succeeded did\<close>

lemma requireCurrent_Inr [simp]: "requireCurrent x = Inr c \<longleftrightarrow> x = Some c"
  by (auto simp: requireCurrent_def split: option.splits)

lemma put_user_begin_Inr:
  assumes "put_user_begin ops cx rq body rid s = (Inr (c, a), s')"
  shows "s' = s \<and> so_getUser ops (cx_realm cx) rid s = Some c"
  using assms unfolding put_user_begin_def by (elim bindS_Inr) (auto simp: readS_def)

lemma patch_user_begin_Inr:
  assumes "patch_user_begin ops u cx rq body rid s = (Inr (c, a), s')"
  shows "s' = s \<and> so_getUser ops (cx_realm cx) rid s = Some c"
  using assms unfolding patch_user_begin_def by (elim bindS_Inr) (auto simp: readS_def)

lemma repo_call_Inr [simp]: "repo_call f s = (Inr x, s') \<longleftrightarrow> f s = Inr (x, s')"
  by (auto simp: repo_call_def split: sum.splits)

lemma on_store_Inr: "on_store f s = Inr (x, s') \<longleftrightarrow> f (fst s) = Inr (x, fst s') \<and> snd s' = snd s"
  by (cases s') (auto simp: on_store_def split: sum.splits prod.splits)

lemma memory_audit_Inr: "scim_writeAudit (memory_ops m) cx ty rt i ch s = (Inr u, s') \<Longrightarrow> fst s' = fst s"
  by (auto simp: scim_writeAudit_def memory_ops_def split: if_splits)

lemma put_user_commit_Inr:
  assumes "put_user_commit (memory_ops m) enc cx type changes (c, a) s = (Inr resp, s')"
  obtains u where "sc_replaceUser (mc_now m) (cx_realm cx) (sr_id c) a (Some (sr_version c)) (fst s) = Inr (u, fst s')"
  using assms unfolding put_user_commit_def fst_conv snd_conv
proof (elim bindS_Inr, goal_cases)
  case (1 u s1 w s2 b s3)
  have "s' = s2" using 1(4,5) by (simp add: readS_def)
  then have "fst s' = fst s1" using memory_audit_Inr [OF 1(3)] by simp
  then show ?case using 1(1) [of u] 1(2) by (simp add: memory_ops_def on_store_Inr)
qed

section \<open>Passwords and responses\<close>

definition is_user_route :: "scim_route \<Rightarrow> bool" where
  "is_user_route route = (case route of
     ListUsers \<Rightarrow> True | CreateUser \<Rightarrow> True | GetUser _ \<Rightarrow> True | PutUser _ \<Rightarrow> True | PatchUser _ \<Rightarrow> True | DeleteUser _ \<Rightarrow> True
   | _ \<Rightarrow> False)"

text \<open>A body without a password, neither its own nor one of a listed resource; only lists have \<open>Resources\<close>.\<close>

definition hides_password :: "scim_route \<Rightarrow> scim_response \<Rightarrow> bool" where
  "hides_password route resp \<longleftrightarrow>
     (case rs_body resp of
        None \<Rightarrow> True
      | Some b \<Rightarrow> jprop b ''password'' = JUndef \<and>
          (if route = ListUsers then list_all (\<lambda>x. jprop x ''password'' = JUndef) (array_of (jprop b ''Resources'')) else True))"

lemma userResource_hides [simp]: "jprop (userResource ops enc cx r s) ''password'' = JUndef"
  by (simp add: userResource_def Let_def map_add_def split: option.splits)

lemma hides_simps [simp]:
  "route \<noteq> ListUsers \<Longrightarrow> hides_password route (sendResource st (userResource ops enc cx r s))"
  "hides_password route (error_response e ch)" "hides_password route no_content"
  by (auto simp: hides_password_def sendResource_def error_response_def errorBody_def no_content_def array_of_def
    split: prod.splits option.splits)

lemma commit_hides: "route \<noteq> ListUsers \<Longrightarrow> put_user_commit ops enc cx type ch ca s = (Inr resp, s') \<Longrightarrow> hides_password route resp"
  unfolding put_user_commit_def by (elim bindS_Inr) (auto simp: readS_def)

lemma route_hides:
  assumes "is_user_route route" "scim_dispatch c ops cx rq route body s = (Inr resp, s')"
  shows "hides_password route resp"
proof (cases route)
  case ListUsers
  then show ?thesis using assms(2)
    by (auto simp: scim_dispatch_def list_users_route_def readS_def hides_password_def ok_json_def listResponse_def array_of_def list_all_iff
      split: prod.splits)
next
  case CreateUser
  with assms(2) show ?thesis unfolding scim_dispatch_def create_user_route_def CreateUser scim_route.case
    by (elim bindS_Inr) (auto simp: readS_def)
next
  case (GetUser i)
  with assms(2) show ?thesis unfolding scim_dispatch_def get_user_route_def GetUser scim_route.case
    by (elim bindS_Inr) (auto simp: readS_def hides_password_def ok_json_def split: if_splits elim!: bindS_Inr)
next
  case (PutUser i)
  with assms(2) show ?thesis unfolding scim_dispatch_def put_user_route_def PutUser scim_route.case
    by (elim bindS_Inr) (auto elim!: commit_hides [rotated])
next
  case (PatchUser i)
  with assms(2) show ?thesis unfolding scim_dispatch_def patch_user_route_def PatchUser scim_route.case
    by (elim bindS_Inr) (auto simp: readS_def split: if_splits elim!: commit_hides [rotated] bindS_Inr)
next
  case (DeleteUser i)
  with assms(2) show ?thesis unfolding scim_dispatch_def delete_user_route_def DeleteUser scim_route.case
    by (elim bindS_Inr) (auto simp: readS_def)
qed (use assms(1) in \<open>simp_all add: is_user_route_def\<close>)

section \<open>Reading a member path\<close>

lemma scan_quoted_plain:
  "\<forall>c\<in>set v. of_char c \<noteq> (34 :: nat) \<and> of_char c \<noteq> (92 :: nat) \<Longrightarrow> scan_quoted (v @ CHR 0x22 # rest) = Some (v, rest)"
  by (induction v) auto

lemma js_trim_id: "s \<noteq> [] \<Longrightarrow> \<not> is_space (hd s) \<Longrightarrow> \<not> is_space (last s) \<Longrightarrow> js_trim s = s"
proof -
  assume s: "s \<noteq> []" "\<not> is_space (hd s)" "\<not> is_space (last s)"
  have "dropWhile is_space s = s" using s by (cases s) auto
  moreover have "dropWhile is_space (rev s) = rev s" using s by (cases s rule: rev_cases) auto
  ultimately show ?thesis by (simp add: js_trim_def)
qed

definition member_path :: "string \<Rightarrow> string" where
  "member_path v = ''members[value eq '' @ CHR 0x22 # v @ [CHR 0x22, CHR '']'']"

definition remove_member_body :: "string \<Rightarrow> json" where
  "remove_member_body v = JObj [(''schemas'', JArr [JStr URN_patchOp]),
     (''Operations'', JArr [JObj [(''op'', JStr ''remove''), (''path'', JStr (member_path v))]])]"

lemma parse_member_path:
  assumes "\<forall>c\<in>set v. of_char c \<noteq> (34 :: nat) \<and> of_char c \<noteq> (92 :: nat)" and "unquote v = Some w"
  shows "parsePath unquote canonicalGroupAttribute (JStr (member_path v)) =
    Inr \<lparr>sp_attribute = ''members'', sp_filterAttribute = Some ''value'', sp_filterValue = Some w, sp_subAttribute = None\<rparr>"
proof -
  have t: "js_trim (member_path v) = member_path v"
    by (rule js_trim_id) (simp_all add: member_path_def is_space_def chr_in_def)
  have n: "scan_name is_path_char (member_path v) = Some (''members'', CHR ''['' # ''value eq '' @ CHR 0x22 # v @ [CHR 0x22, CHR '']''])"
    by (simp add: scan_name_def member_path_def is_path_char_def is_alnum_def is_alpha_def is_lower_def is_upper_def is_digit_def chr_in_def)
  have m: "scan_name is_path_char (''value eq '' @ CHR 0x22 # v @ [CHR 0x22, CHR '']'']) = Some (''value'', '' eq '' @ CHR 0x22 # v @ [CHR 0x22, CHR '']''])"
    by (simp add: scan_name_def is_path_char_def is_alnum_def is_alpha_def is_lower_def is_upper_def is_digit_def chr_in_def)
  have q: "scan_quoted (v @ [CHR 0x22, CHR '']'']) = Some (v, '']'')"
    using scan_quoted_plain [OF assms(1), of "'']''"] by simp
  have e: "scan_eq ('' eq '' @ CHR 0x22 # v @ [CHR 0x22, CHR '']'']) = Some (v, '']'')"
    by (simp add: scan_eq_def is_space_def chr_in_def js_lower_def chr_lower_def is_upper_def q Let_def)
  have b: "scan_bracket (CHR ''['' # ''value eq '' @ CHR 0x22 # v @ [CHR 0x22, CHR '']'']) = Some (Some (''value'', v), [])"
    unfolding scan_bracket_def using m e by simp
  have c: "canonicalGroupAttribute ''members'' = Some ''members''"
    by (simp add: canonicalGroupAttribute_def groupNames_def js_lower_def chr_lower_def is_upper_def chr_in_def)
  show ?thesis unfolding parsePath_def json.case t n option.case prod.case b
    by (simp add: scan_sub_def c assms(2))
qed

lemma filter_members: "filter (\<lambda>item. js_String (jprop item ''value'') \<noteq> v) (map member_json vs) = map member_json (filter (\<lambda>w. w \<noteq> v) vs)"
  by (induction vs) (auto simp: member_json_def)

section \<open>Properties\<close>

text \<open>Whatever SCIM requests ran, in every realm two users never share a user name (compared without
  case) or an external identifier, two groups never share an external identifier, and every member of
  a group is a user of the realm, listed once.\<close>

theorem scim_store_consistent:
  assumes "scim_reach s"
  shows "(\<forall>i j u v. i \<noteq> j \<longrightarrow> sc_getUser r i s = Some u \<longrightarrow> sc_getUser r j s = Some v \<longrightarrow>
       user_name u \<noteq> user_name v \<and> \<not> external_clash (scim_prop u ''externalId'') v) \<and>
    (\<forall>i j g h. i \<noteq> j \<longrightarrow> sc_getGroup r i s = Some g \<longrightarrow> sc_getGroup r j s = Some h \<longrightarrow>
       \<not> external_clash (scim_prop g ''externalId'') h) \<and>
    (\<forall>i g. sc_getGroup r i s = Some g \<longrightarrow> distinct (member_values g) \<and> (\<forall>v\<in>set (member_values g). sc_getUser r v s \<noteq> None))"
proof -
  have ok: "realm_ok (realm_of r s)" using scim_reach_ok [OF assms] by (simp add: scim_ok_def)
  have mv: "member_values g = vs" if "group_members g vs" for g vs
    using that by (simp add: member_values_def group_members_def array_of_def member_json_def o_def)
  have u: "\<forall>i j u v. i \<noteq> j \<longrightarrow> sc_getUser r i s = Some u \<longrightarrow> sc_getUser r j s = Some v \<longrightarrow>
       user_name u \<noteq> user_name v \<and> \<not> external_clash (scim_prop u ''externalId'') v"
    using ok unfolding realm_ok_def sc_getUser_def by blast
  have g: "\<forall>i j g h. i \<noteq> j \<longrightarrow> sc_getGroup r i s = Some g \<longrightarrow> sc_getGroup r j s = Some h \<longrightarrow>
       \<not> external_clash (scim_prop g ''externalId'') h"
    using ok unfolding realm_ok_def sc_getGroup_def by blast
  have "distinct (member_values g) \<and> (\<forall>v\<in>set (member_values g). sc_getUser r v s \<noteq> None)" if i: "sc_getGroup r i s = Some g" for i g
  proof -
    obtain vs where vs: "group_members g vs" "\<forall>v\<in>set vs. mget (rl_users (realm_of r s)) v \<noteq> None"
      using ok i unfolding realm_ok_def sc_getGroup_def by blast
    have "distinct vs" using vs(1) by (simp add: group_members_def)
    then show ?thesis using vs(2) mv [OF vs(1)] by (simp add: sc_getUser_def)
  qed
  then show ?thesis using u g by blast
qed

lemma scim_store_consistent_witness:
  "scim_reach scim_demo_store \<and> \<not> (\<exists>u. sc_getUser ''corp'' ''u2'' scim_demo_store = Some u \<and> user_name u = user_name scim_demo_user)"
proof -
  have "(\<forall>i j u v. i \<noteq> j \<longrightarrow> sc_getUser ''corp'' i scim_demo_store = Some u \<longrightarrow> sc_getUser ''corp'' j scim_demo_store = Some v \<longrightarrow>
       user_name u \<noteq> user_name v \<and> \<not> external_clash (scim_prop u ''externalId'') v)"
    using scim_store_consistent [OF scim_demo_reach, of "''corp''"] by (rule conjunct1)
  from this [rule_format, of "''u2''" "''u1''" _ scim_demo_user] scim_demo_reach show ?thesis by auto
qed

text \<open>No lost update: when a PUT or PATCH that read a user writes its replacement, after any requests of
  other clients in between, the user it replaces is still exactly the one it read, and the result is
  the next version.\<close>

theorem scim_no_lost_update:
  assumes "scim_reach (fst s)"
    and "put_user_begin (memory_ops m) cx rq body rid s = (Inr (c, a), s) \<or>
         patch_user_begin (memory_ops m) u cx rq body rid s = (Inr (c, a), s)"
    and "(scim_others (cx_realm cx, rid))\<^sup>*\<^sup>* (fst s) (fst s1)"
    and "put_user_commit (memory_ops m') enc cx type changes (c, a) s1 = (Inr resp, s2)"
  shows "sc_getUser (cx_realm cx) rid (fst s1) = Some c \<and>
    (\<exists>v. sc_getUser (cx_realm cx) rid (fst s2) = Some v \<and> sr_version v = sr_version c + 1 \<and> sr_attrs v = a)"
proof -
  have get: "sc_getUser (cx_realm cx) rid (fst s) = Some c"
    using assms(2) by (auto dest!: put_user_begin_Inr patch_user_begin_Inr simp: memory_ops_def)
  have "realm_ok (realm_of (cx_realm cx) (fst s))" using scim_reach_ok [OF assms(1)] by (simp add: scim_ok_def)
  then have i: "sr_id c = rid" using get by (auto simp: realm_ok_def sc_getUser_def)
  obtain v where rep: "sc_replaceUser (mc_now m') (cx_realm cx) rid a (Some (sr_version c)) (fst s1) = Inr (v, fst s2)"
    using put_user_commit_Inr [OF assms(4)] i by metis
  have "user_at (cx_realm cx, rid) (fst s1) = Some c \<and> user_at (cx_realm cx, rid) (fst s2) = Some v \<and> sr_version v = Suc (sr_version c)"
    using scim_users.no_lost_update [where k = "(cx_realm cx, rid)" and s = "fst s" and c = c, OF _ assms(3)] get rep
    by (simp add: user_at_def replace_user_at_def)
  moreover have "sr_attrs v = a" using rep by (auto simp: sc_replaceUser_def Let_def)
  ultimately show ?thesis by (simp add: user_at_def)
qed

definition scim_demo_cx :: scim_context where
  "scim_demo_cx = \<lparr>cx_realm = ''corp'', cx_actor = ''hr'', cx_base = ''/scim''\<rparr>"

definition scim_demo_mem :: mem_context where
  "scim_demo_mem = \<lparr>mc_now = 9, mc_uuid = ''u2'', mc_le = (\<lambda>_ _. True), mc_audit_ok = (\<lambda>_. True)\<rparr>"

definition scim_demo_rq :: "json \<Rightarrow> scim_request" where
  "scim_demo_rq body = \<lparr>rq_realm = ''corp'', rq_authorization = Some ''Bearer secret'', rq_ifMatch = None,
     rq_ifNoneMatch = None, rq_query = JObj [], rq_body = Some body\<rparr>"

definition scim_demo_body :: json where "scim_demo_body = JObj [(''userName'', JStr ''bea'')]"

definition scim_demo_next :: scim_attrs where
  "scim_demo_next = [(''userName'', JStr ''bea''), (''active'', JBool True), (''password'', JStr ''pw'')]"

lemma scim_demo_begin:
  "put_user_begin (memory_ops scim_demo_mem) scim_demo_cx (scim_demo_rq scim_demo_body) scim_demo_body ''u1'' (scim_demo_store, []) =
     (Inr (scim_demo_user, scim_demo_next), (scim_demo_store, []))"
proof -
  have n: "scim_normalizeUser (replacementBody scim_demo_body) (JStr ''pw'') = Inr scim_demo_next"
    by (simp add: scim_normalizeUser_def scim_demo_body_def replacementBody_def scim_demo_next_def canonicalInput_def scim_object_def
      canonical_entry_def userNames_def js_lower_def chr_lower_def is_upper_def chr_in_def scim_text_def js_trim_def is_space_def
      opt_entry_def opt_entries_def plain_names_def multi_names_def scim_bool_def trimmed_def Let_def char_of_eval)
  have p: "put_check (scim_demo_rq scim_demo_body) scim_demo_body scim_demo_user = Inr ()"
    by (simp add: put_check_def checkIfMatch_def header_tokens_def scim_demo_rq_def js_trim_def scim_demo_body_def)
  have g: "so_getUser (memory_ops scim_demo_mem) (cx_realm scim_demo_cx) ''u1'' (scim_demo_store, []) = Some scim_demo_user"
    by (simp add: memory_ops_def scim_demo_cx_def)
  have w: "jprop (JObj (sr_attrs scim_demo_user)) ''password'' = JStr ''pw''"
    by (simp add: scim_demo_user_def scim_demo_attrs_def)
  show ?thesis
    by (simp add: put_user_begin_def readS_def requireCurrent_def g p n w del: jprop.simps)
qed

lemma scim_no_lost_update_witness:
  "\<exists>resp s2. put_user_commit (memory_ops scim_demo_mem) (\<lambda>x. x) scim_demo_cx ''scim.user.replaced'' [''replace'']
      (scim_demo_user, scim_demo_next) (scim_demo_store, []) = (Inr resp, s2) \<and>
    (\<exists>v. sc_getUser ''corp'' ''u1'' (fst s2) = Some v \<and> sr_version v = 2)"
proof -
  have "\<exists>u s1. sc_replaceUser 9 ''corp'' ''u1'' scim_demo_next (Some 1) scim_demo_store = Inr (u, s1)"
    by (simp add: sc_replaceUser_def assertVersion_def scim_demo_user_def [symmetric] assertUserUnique_def realm_of_def
      scim_demo_store_def mvals_def sc_getUser_def) (simp add: scim_demo_user_def Let_def)
  then obtain u s1 where "sc_replaceUser 9 ''corp'' ''u1'' scim_demo_next (Some 1) scim_demo_store = Inr (u, s1)" by blast
  then have run: "\<exists>resp s2. put_user_commit (memory_ops scim_demo_mem) (\<lambda>x. x) scim_demo_cx ''scim.user.replaced'' [''replace'']
      (scim_demo_user, scim_demo_next) (scim_demo_store, []) = (Inr resp, s2)"
    by (simp add: put_user_commit_def repo_call_def liftU_def bindS_def memory_ops_def on_store_def scim_writeAudit_def readS_def
      scim_demo_mem_def scim_demo_cx_def scim_demo_user_def)
  then obtain resp s2 where r: "put_user_commit (memory_ops scim_demo_mem) (\<lambda>x. x) scim_demo_cx ''scim.user.replaced'' [''replace'']
      (scim_demo_user, scim_demo_next) (scim_demo_store, []) = (Inr resp, s2)" by blast
  have "\<exists>v. sc_getUser (cx_realm scim_demo_cx) ''u1'' (fst s2) = Some v \<and> sr_version v = sr_version scim_demo_user + 1 \<and> sr_attrs v = scim_demo_next"
    using scim_no_lost_update [where u = Some, OF _ disjI1 [OF scim_demo_begin] _ r] scim_demo_reach by simp
  then show ?thesis using r by (auto simp: scim_demo_cx_def scim_demo_user_def numeral_2_eq_2)
qed

text \<open>A request without a bearer token of the realm is answered with 401 or 404 and changes nothing:
  neither the repository nor the audit trail (the hash that compares tokens being injective).\<close>

theorem scim_refused_without_token:
  assumes "inj sha" and "sc_authenticate c = scim_authenticate sha tokens"
    and "\<forall>t\<in>set (case mget tokens (rq_realm rq) of None \<Rightarrow> [] | Some ts \<Rightarrow> ts). bearer (rq_authorization rq) \<noteq> Some (st_token t)"
    and "scim_serve c ops rq route s = (resp, s')"
  shows "s' = s \<and> rs_status resp \<in> {401, 404}"
proof -
  have none: "foldl (\<lambda>a t. if safeEqual sha tok (st_token t) then Some (st_id t) else a) None ts = None"
    if "\<forall>t\<in>set ts. tok \<noteq> st_token t" for tok ts
    using that assms(1) by (induction ts rule: rev_induct) (auto simp: safeEqual_def inj_eq)
  have none: "scim_authenticate sha tokens (rq_realm rq) tok = None" if "bearer (rq_authorization rq) = Some tok" for tok
    unfolding scim_authenticate_def by (rule none) (use assms(3) that in simp)
  have "\<exists>e ch. scim_gate (sc_authenticate c) (sc_realmExists c) (sc_baseFor c) rq = Inl (e, ch) \<and> (e = ScimError 401 None \<or> e = ScimError 404 None)"
    unfolding assms(2) scim_gate_def by (auto simp: none split: option.splits)
  then show ?thesis using assms(4) by (auto simp: scim_serve_def error_response_def)
qed

definition scim_demo_config :: scim_config where
  "scim_demo_config = \<lparr>sc_authenticate = scim_authenticate (\<lambda>x. x) [(''corp'', [\<lparr>st_id = ''hr'', st_token = ''other''\<rparr>])],
     sc_realmExists = (\<lambda>_. True), sc_baseFor = (\<lambda>r. r), sc_unquote = Some, sc_enc = (\<lambda>x. x), sc_maxPageSize = 200, sc_defaultPageSize = 100\<rparr>"

lemma scim_refused_without_token_witness:
  "snd (scim_serve scim_demo_config (memory_ops scim_demo_mem) (scim_demo_rq scim_demo_body) (DeleteUser ''u1'') (scim_demo_store, [])) =
     (scim_demo_store, [])"
proof -
  obtain resp s' where r: "scim_serve scim_demo_config (memory_ops scim_demo_mem) (scim_demo_rq scim_demo_body) (DeleteUser ''u1'')
      (scim_demo_store, []) = (resp, s')" by (rule prod.exhaust)
  have "s' = (scim_demo_store, []) \<and> rs_status resp \<in> {401, 404}"
    by (rule scim_refused_without_token [OF _ _ _ r, where sha = "\<lambda>x. x" and tokens = "[(''corp'', [\<lparr>st_id = ''hr'', st_token = ''other''\<rparr>])]"])
      (auto simp: scim_demo_config_def scim_demo_rq_def bearer_def Let_def)
  then show ?thesis using r by simp
qed

text \<open>No response of a user route carries a password, whatever the repository holds, on success or on
  error, in a single resource or in a list.\<close>

theorem scim_password_never_returned:
  assumes "is_user_route route" and "scim_serve c ops rq route s = (resp, s')"
  shows "hides_password route resp"
proof (cases "scim_gate (sc_authenticate c) (sc_realmExists c) (sc_baseFor c) rq")
  case (Inl e)
  then show ?thesis using assms(2) by (auto simp: scim_serve_def split: prod.splits)
next
  case (Inr cx)
  show ?thesis
  proof (cases "rq_body rq")
    case None
    then show ?thesis using assms(2) Inr by (auto simp: scim_serve_def)
  next
    case (Some body)
    obtain x s1 where d: "scim_dispatch c ops cx rq route body s = (x, s1)" by (rule prod.exhaust)
    show ?thesis
    proof (cases x)
      case (Inr r)
      then show ?thesis using assms(2) \<open>scim_gate _ _ _ rq = Inr cx\<close> Some d route_hides [OF assms(1)] by (auto simp: scim_serve_def)
    qed (use assms(2) Inr Some d in \<open>auto simp: scim_serve_def\<close>)
  qed
qed

lemma scim_password_never_returned_witness:
  "hides_password (GetUser ''u1'') (fst (scim_serve scim_demo_config (memory_ops scim_demo_mem) (scim_demo_rq scim_demo_body)
     (GetUser ''u1'') (scim_demo_store, [])))"
proof -
  obtain resp s' where r: "scim_serve scim_demo_config (memory_ops scim_demo_mem) (scim_demo_rq scim_demo_body) (GetUser ''u1'')
      (scim_demo_store, []) = (resp, s')" by (rule prod.exhaust)
  show ?thesis using scim_password_never_returned [OF _ r] r by (simp add: is_user_route_def)
qed

text \<open>A PATCH whose operations leave the user as it is answers with the user at its present version and
  changes neither the store nor the audit trail: normalising again what the store holds gives the same.\<close>

theorem scim_patch_without_effect:
  assumes "so_getUser ops (cx_realm cx) rid s = Some c"
    and "scim_normalizeUser input ep = Inr (sr_attrs c)" and "scim_text ep False 1024 = Inr ep"
    and "checkIfMatch rq c = Inr ()" and "applyUserPatch unquote (sr_attrs c) body = Inr (sr_attrs c)"
  shows "patch_user_route ops unquote enc cx rq body rid s = (Inr (sendResource 200 (userResource ops enc cx c s)), s)"
proof -
  have "patch_user_begin ops unquote cx rq body rid s = (Inr (c, sr_attrs c), s)"
    using assms(1,4,5) scim_normalizeUser_again [OF assms(2,3)]
    by (simp add: patch_user_begin_def readS_def requireCurrent_def del: jprop.simps)
  then show ?thesis by (simp add: patch_user_route_def readS_def)
qed

definition scim_same_body :: json where
  "scim_same_body = JObj [(''schemas'', JArr [JStr URN_patchOp]), (''Operations'', JArr [JObj [(''op'', JStr ''add''),
     (''value'', JObj [(''active'', JBool True)])]])]"

lemma scim_same_applies: "applyUserPatch unquote scim_demo_attrs scim_same_body = Inr scim_demo_attrs"
  by (simp add: applyUserPatch_def apply_patch_def operations_def scim_same_body_def scim_demo_attrs_def patch_step_def
    operationName_def js_lower_def chr_lower_def is_upper_def chr_in_def canonicalUserAttribute_def userNames_def set_at_def
    plain_path_def multi_names_def setSimple_def Let_def)

lemma scim_patch_without_effect_witness:
  "snd (patch_user_route (memory_ops scim_demo_mem) Some (\<lambda>x. x) scim_demo_cx (scim_demo_rq scim_same_body) scim_same_body ''u1''
     (scim_demo_store, [])) = (scim_demo_store, [])"
proof -
  have a: "sr_attrs scim_demo_user = scim_demo_attrs" by (simp add: scim_demo_user_def)
  have "patch_user_route (memory_ops scim_demo_mem) Some (\<lambda>x. x) scim_demo_cx (scim_demo_rq scim_same_body) scim_same_body ''u1''
     (scim_demo_store, []) = (Inr (sendResource 200 (userResource (memory_ops scim_demo_mem) (\<lambda>x. x) scim_demo_cx scim_demo_user
       (scim_demo_store, []))), (scim_demo_store, []))"
  proof (rule scim_patch_without_effect)
    show "so_getUser (memory_ops scim_demo_mem) (cx_realm scim_demo_cx) ''u1'' (scim_demo_store, []) = Some scim_demo_user"
      by (simp add: memory_ops_def scim_demo_cx_def)
    show "scim_normalizeUser scim_demo_input JUndef = Inr (sr_attrs scim_demo_user)" by (simp add: a scim_demo_normal)
    show "scim_text JUndef False 1024 = Inr JUndef" by (simp add: scim_text_def)
    show "checkIfMatch (scim_demo_rq scim_same_body) scim_demo_user = Inr ()"
      by (simp add: checkIfMatch_def header_tokens_def scim_demo_rq_def js_trim_def)
    show "applyUserPatch Some (sr_attrs scim_demo_user) scim_same_body = Inr (sr_attrs scim_demo_user)"
      by (simp only: a scim_same_applies)
  qed
  then show ?thesis by simp
qed

text \<open>The PATCH with which identity providers remove a group member, the operation \<open>remove\<close> on the
  path that selects the member by value, removes exactly that member and leaves the rest of
  the group as it is; for a user who is not a member it fails with \<open>noTarget\<close>.\<close>

theorem scim_remove_member:
  assumes "\<forall>c\<in>set v. of_char c \<noteq> (34 :: nat) \<and> of_char c \<noteq> (92 :: nat)" and "unquote v = Some v"
    and "jprop (JObj a) ''members'' = JArr (map member_json vs)"
  shows "applyGroupPatch unquote a (remove_member_body v) =
    (if v \<in> set vs then Inr (mset' ''members'' (JArr (map member_json (filter (\<lambda>w. w \<noteq> v) vs))) a) else Inl noTarget)"
proof -
  have o: "operations (remove_member_body v) = Inr [JObj [(''op'', JStr ''remove''), (''path'', JStr (member_path v))]]"
    by (simp add: operations_def remove_member_body_def)
  have len: "length (filter (\<lambda>w. w \<noteq> v) vs) = length vs \<longleftrightarrow> v \<notin> set vs"
    using length_filter_less [of v vs "\<lambda>w. w \<noteq> v"] by (cases "v \<in> set vs") (auto intro!: arg_cong [of _ _ length] filter_True)
  have op: "operationName (JStr ''remove'') = Inr op_remove"
    by (simp add: operationName_def js_lower_def chr_lower_def is_upper_def chr_in_def)
  have "patch_step unquote canonicalGroupAttribute [''members''] (JObj [(''op'', JStr ''remove''), (''path'', JStr (member_path v))]) a =
      setMulti \<lparr>sp_attribute = ''members'', sp_filterAttribute = Some ''value'', sp_filterValue = Some v, sp_subAttribute = None\<rparr>
        op_remove JUndef a"
    by (simp add: patch_step_def op parse_member_path [where unquote = unquote and v = v, OF assms(1,2)] set_at_def)
  also have "\<dots> = (if v \<in> set vs then Inr (mset' ''members'' (JArr (map member_json (filter (\<lambda>w. w \<noteq> v) vs))) a) else Inl noTarget)"
    using assms(3) len filter_members [of v vs]
    by (simp add: setMulti_def array_of_def js_lower_def chr_lower_def is_upper_def chr_in_def Let_def del: jprop.simps)
  finally show ?thesis by (simp add: applyGroupPatch_def apply_patch_def o)
qed

lemma scim_remove_member_witness:
  "applyGroupPatch Some [(''displayName'', JStr ''ops''), (''members'', JArr [member_json ''u1'', member_json ''u2''])] (remove_member_body ''u1'') =
     Inr [(''displayName'', JStr ''ops''), (''members'', JArr [member_json ''u2''])]"
  using scim_remove_member [of "''u1''" Some "[(''displayName'', JStr ''ops''), (''members'', JArr [member_json ''u1'', member_json ''u2''])]"
    "[''u1'', ''u2'']"] by simp

text \<open>Removing \<open>active\<close> from a disabled user enables it: an absent \<open>active\<close> is normalised to true.\<close>

lemma scim_remove_active_enables:
  "applyUserPatch unquote [(''userName'', JStr ''ann''), (''active'', JBool False)]
     (JObj [(''schemas'', JArr [JStr URN_patchOp]), (''Operations'', JArr [JObj [(''op'', JStr ''remove''), (''path'', JStr ''active'')]])]) =
     Inr [(''userName'', JStr ''ann'')]"
  "scim_normalizeUser (JObj [(''userName'', JStr ''ann'')]) JUndef = Inr [(''userName'', JStr ''ann''), (''active'', JBool True)]"
  by (simp_all add: applyUserPatch_def apply_patch_def operations_def patch_step_def operationName_def js_lower_def chr_lower_def
    is_upper_def chr_in_def canonicalUserAttribute_def userNames_def set_at_def multi_names_def setSimple_def Let_def parsePath_def
    js_trim_def is_space_def scan_name_def is_alpha_def is_alnum_def is_lower_def is_digit_def is_path_char_def scan_bracket_def scan_sub_def
    scim_normalizeUser_def canonicalInput_def scim_object_def canonical_entry_def scim_text_def opt_entry_def opt_entries_def plain_names_def
    scim_bool_def trimmed_def char_of_eval)

end
