(* ===== verification/ConsoleProps.thy ===== *)
theory ConsoleProps
  imports AdminConsole LoginProps
begin

text \<open>
  The sign-in of the administration console: what has to hold before the callback sets a session cookie, and what the
  session it opens is bound to. A completed sign-in authenticates the requests that follow it.
\<close>

section \<open>Opening a session\<close>

lemma login_failed_no_session: "(SESSION_COOKIE, Some v) \<notin> set (av_cookies (login_failed st))"
  by (simp add: login_failed_def SESSION_COOKIE_def LOGIN_COOKIE_def)

lemma createAdminSession_Some:
  assumes "createAdminSession now i s = Inr (Some session, s')"
  shows "normalizeAdminSession now i = Inr session \<and> s' = s\<lparr>st_adminSessions := mset' (as_idDigest session) session (st_adminSessions s)\<rparr>"
  using assms by (auto simp: createAdminSession_def split: if_splits)

text \<open>The session a callback opens.\<close>

definition opened :: "console_config \<Rightarrow> admin_request \<Rightarrow> string \<Rightarrow> json \<Rightarrow> user \<Rightarrow> admin_grant \<Rightarrow> admin_session \<Rightarrow> bool" where
  "opened c rq realm payload user grant session \<longleftrightarrow>
     as_realm session = realm \<and> as_userId session = u_id user \<and> as_securityVersion session = u_securityVersion user \<and>
     as_grantVersion session = g_version grant \<and> jprop payload ''auth_time'' = JNum (as_createdAt session div 1000) \<and>
     as_idleExpiresAt session \<le> aq_now rq + 1800000 \<and> as_expiresAt session \<le> aq_now rq + 28800000"

lemma ttl_bounds: "session_ttl c \<le> 28800" "idle_ttl c \<le> 1800"
  by (simp_all add: session_ttl_def idle_ttl_def)

lemma session_input_opened:
  assumes "normalizeAdminSession now (session_input c rq digest realm user grant payload) = Inr session"
    and "recent_authentication (aq_now rq) (jprop payload ''auth_time'')"
  shows "opened c rq realm payload user grant session \<and> as_idDigest session = digest"
proof -
  obtain t where t: "jprop payload ''auth_time'' = JNum t" using assms(2) by (auto simp: recent_authentication_def split: json.splits)
  have f: "aq_now rq div 1000 * 1000 \<le> aq_now rq" by simp
  show ?thesis
    using assms(1) t f ttl_bounds [of c]
    by (auto simp: normalizeAdminSession_def session_input_def opened_def Let_def distrib_right split: if_splits)
qed

lemma find_after_delete: "findAdminSession d (snd (deleteAdminSession d' s)) = (if d = d' then None else findAdminSession d s)"
  by (simp add: findAdminSession_def deleteAdminSession_def)

lemma find_after_audit: "findAdminSession d (snd (writeAudit isIP now fresh e s)) = findAdminSession d s"
  by (simp add: findAdminSession_def writeAudit_def Let_def)

lemma users_after:
  "st_users (snd (deleteAdminSession d s)) = st_users s" "st_users (snd (writeAudit isIP now fresh e s)) = st_users s"
  "st_adminGrants (snd (deleteAdminSession d s)) = st_adminGrants s" "st_adminGrants (snd (writeAudit isIP now fresh e s)) = st_adminGrants s"
  by (simp_all add: deleteAdminSession_def writeAudit_def Let_def)

text \<open>The session named by the cookie the request came with.\<close>

definition previous_digest :: "console_config \<Rightarrow> admin_request \<Rightarrow> string option" where
  "previous_digest c rq = (if session_value_re (session_value rq) then map_option (sessionDigest c) (session_value rq) else None)"

lemma open_session_Inr:
  assumes "open_session c rq realm payload user grant s = (Inr r, s')"
    and recent: "recent_authentication (aq_now rq) (jprop payload ''auth_time'')"
  obtains session where "findAdminSession (sessionDigest c (aq_random rq ''session'')) s' = Some session"
    "opened c rq realm payload user grant session"
    "av_cookies r = [(LOGIN_COOKIE, None), (SESSION_COOKIE, Some (aq_random rq ''session''))]"
    "st_users s' = st_users s" "st_adminGrants s' = st_adminGrants s"
    "\<forall>d. previous_digest c rq = Some d \<and> d \<noteq> sessionDigest c (aq_random rq ''session'') \<longrightarrow> findAdminSession d s' = None"
proof -
  let ?d = "sessionDigest c (aq_random rq ''session'')"
  from assms(1) obtain session s1 where cr: "createAdminSession (aq_now rq) (session_input c rq ?d realm user grant payload) s = Inr (Some session, s1)"
    by (auto simp: open_session_def Let_def split: sum.splits prod.splits option.splits)
  define s2 where "s2 = snd (writeAudit (ac_isIP c) (aq_now rq) (aq_auditId rq) (login_succeeded rq realm payload user) s1)"
  have s': "s' = end_previous_session c rq ?d s2"
    and av: "av_cookies r = [(LOGIN_COOKIE, None), (SESSION_COOKIE, Some (aq_random rq ''session''))]"
    using assms(1) cr by (auto simp: open_session_def s2_def Let_def)
  from createAdminSession_Some [OF cr] have n: "normalizeAdminSession (aq_now rq) (session_input c rq ?d realm user grant payload) = Inr session"
    and s1: "s1 = s\<lparr>st_adminSessions := mset' (as_idDigest session) session (st_adminSessions s)\<rparr>" by auto
  from session_input_opened [OF n recent] have o: "opened c rq realm payload user grant session" "as_idDigest session = ?d" by auto
  have f2: "findAdminSession ?d s2 = Some session"
    using s1 o(2) by (simp add: s2_def find_after_audit) (simp add: findAdminSession_def)
  have u2: "st_users s2 = st_users s" "st_adminGrants s2 = st_adminGrants s"
    using s1 by (simp_all add: s2_def users_after)
  show ?thesis
    by (rule that [of session])
       (use s' f2 u2 o av in \<open>auto simp: end_previous_session_def find_after_delete users_after previous_digest_def split: option.splits if_splits\<close>)
qed

text \<open>What the identity token has to say.\<close>

definition token_accepted :: "console_config \<Rightarrow> admin_request \<Rightarrow> string \<Rightarrow> json \<Rightarrow> json \<Rightarrow> bool" where
  "token_accepted c rq realm t payload \<longleftrightarrow>
     (\<exists>idToken. tokenExchange c realm (str_of (jprop (aq_query rq) ''code'')) (str_of (jprop t ''verifier'')) = Some idToken \<and>
        ac_jwks c realm \<noteq> None \<and>
        ac_jwtVerify c idToken (publicJwks (ac_jwks c realm)) (ac_publicUrl c @ ''/realms/'' @ realm) ADMIN_CONSOLE_CLIENT_ID = Some payload) \<and>
     jprop payload ''nonce'' = JStr (js_String (jprop t ''nonce''))"

lemma callback_try_session:
  assumes "callback_try c rq t s = (Inr r, s')" "(SESSION_COOKIE, Some v) \<in> set (av_cookies r)"
  obtains payload user grant where "token_accepted c rq (str_of (jprop t ''realm'')) t payload"
    "findUserById (str_of (jprop t ''realm'')) (js_String (jprop payload ''sub'')) s = Some user" "u_enabled user"
    "findAdminGrant (str_of (jprop t ''realm'')) (u_id user) s = Some grant" "g_enabled grant"
    "recent_authentication (aq_now rq) (jprop payload ''auth_time'')"
    "ac_devMode c \<or> hasStrongAdminAuthentication (jprop payload ''amr'')"
    "open_session c rq (str_of (jprop t ''realm'')) payload user grant s = (Inr r, s')"
proof -
  let ?realm = "str_of (jprop t ''realm'')"
  have "\<exists>idToken payload user grant. tokenExchange c ?realm (str_of (jprop (aq_query rq) ''code'')) (str_of (jprop t ''verifier'')) = Some idToken \<and>
      ac_jwks c ?realm \<noteq> None \<and>
      ac_jwtVerify c idToken (publicJwks (ac_jwks c ?realm)) (ac_publicUrl c @ ''/realms/'' @ ?realm) ADMIN_CONSOLE_CLIENT_ID = Some payload \<and>
      is_str (jprop payload ''nonce'') \<and> js_String (jprop payload ''nonce'') = js_String (jprop t ''nonce'') \<and>
      findUserById ?realm (js_String (jprop payload ''sub'')) s = Some user \<and> findAdminGrant ?realm (u_id user) s = Some grant \<and>
      u_enabled user \<and> g_enabled grant \<and> recent_authentication (aq_now rq) (jprop payload ''auth_time'') \<and>
      (ac_devMode c \<or> hasStrongAdminAuthentication (jprop payload ''amr'')) \<and>
      open_session c rq ?realm payload user grant s = (Inr r, s')"
    using assms login_failed_no_session [of v] unfolding callback_try_def Let_def
    by (simp split: option.splits if_splits) (metis prod.inject sum.inject(2))+
  then obtain idToken payload user grant where x: "tokenExchange c ?realm (str_of (jprop (aq_query rq) ''code'')) (str_of (jprop t ''verifier'')) = Some idToken"
      "ac_jwks c ?realm \<noteq> None"
      "ac_jwtVerify c idToken (publicJwks (ac_jwks c ?realm)) (ac_publicUrl c @ ''/realms/'' @ ?realm) ADMIN_CONSOLE_CLIENT_ID = Some payload"
      "is_str (jprop payload ''nonce'')" "js_String (jprop payload ''nonce'') = js_String (jprop t ''nonce'')"
      "findUserById ?realm (js_String (jprop payload ''sub'')) s = Some user" "findAdminGrant ?realm (u_id user) s = Some grant"
      "u_enabled user" "g_enabled grant" "recent_authentication (aq_now rq) (jprop payload ''auth_time'')"
      "ac_devMode c \<or> hasStrongAdminAuthentication (jprop payload ''amr'')"
      "open_session c rq ?realm payload user grant s = (Inr r, s')" by blast
  have "jprop payload ''nonce'' = JStr (js_String (jprop t ''nonce''))" using x(4,5) by (cases "jprop payload ''nonce''") auto
  then have "token_accepted c rq ?realm t payload" using x(1-3) unfolding token_accepted_def by blast
  then show ?thesis using that x(6-12) by blast
qed

text \<open>C16: 
  The callback sets a session cookie only for a browser that holds the sealed transaction of a sign-in it began less than
  its lifetime ago, with the transaction's state in the query, an identity token of the realm for the console with the
  transaction's nonce, an enabled account with an enabled grant in that realm, and a sign-in at most 930 seconds old with
  a passkey or a second factor (outside development mode). The session it opens is the one the cookie names: bound to
  the account, to both versions and to the time of the sign-in, ending within eight hours and within half an hour of
  idleness; the browser's previous session is gone, and no account or grant has changed.
\<close>

theorem console_session_opened:
  assumes "console_callback c rq s = (r, s')" "(SESSION_COOKIE, Some v) \<in> set (av_cookies r)"
  shows "\<exists>t realm payload user grant session.
    unseal c (aq_now rq) (mget (cookieMap (aq_cookie rq)) LOGIN_COOKIE) LOGIN_TYPE (cookie_keys c) = Some t \<and>
    jprop t ''realm'' = JStr realm \<and> realm \<in> set (ac_realms c) \<and>
    jprop (aq_query rq) ''state'' = JStr (js_String (jprop t ''state'')) \<and> token_accepted c rq realm t payload \<and>
    findUserById realm (js_String (jprop payload ''sub'')) s = Some user \<and> u_enabled user \<and>
    findAdminGrant realm (u_id user) s = Some grant \<and> g_enabled grant \<and>
    recent_authentication (aq_now rq) (jprop payload ''auth_time'') \<and>
    (ac_devMode c \<or> hasStrongAdminAuthentication (jprop payload ''amr'')) \<and>
    findAdminSession (sessionDigest c v) s' = Some session \<and> opened c rq realm payload user grant session \<and>
    st_users s' = st_users s \<and> st_adminGrants s' = st_adminGrants s \<and>
    (\<forall>d. previous_digest c rq = Some d \<and> d \<noteq> sessionDigest c v \<longrightarrow> findAdminSession d s' = None)"
proof -
  have str: "is_str j \<Longrightarrow> js_String j = x \<Longrightarrow> j = JStr x" for j x by (cases j) auto
  obtain t where t: "unseal c (aq_now rq) (mget (cookieMap (aq_cookie rq)) LOGIN_COOKIE) LOGIN_TYPE (cookie_keys c) = Some t"
    using assms login_failed_no_session [of v] by (auto simp: console_callback_def split: option.splits)
  have run: "\<exists>x\<in>set (ac_realms c). jprop t ''realm'' = JStr x" "jprop (aq_query rq) ''state'' = JStr (js_String (jprop t ''state''))"
    "callback_try c rq t s = (Inr r, s')"
    using assms t login_failed_no_session [of v] str [of "jprop (aq_query rq) ''state''"]
    by (auto simp: console_callback_def split: if_splits prod.splits sum.splits)
  then obtain realm where realm: "realm \<in> set (ac_realms c)" "jprop t ''realm'' = JStr realm" by auto
  have so: "str_of (jprop t ''realm'') = realm" using realm(2) by (simp add: str_of_def)
  from callback_try_session [OF run(3) assms(2), unfolded so] obtain payload user grant
    where acc: "token_accepted c rq realm t payload" "findUserById realm (js_String (jprop payload ''sub'')) s = Some user" "u_enabled user"
    "findAdminGrant realm (u_id user) s = Some grant" "g_enabled grant" "recent_authentication (aq_now rq) (jprop payload ''auth_time'')"
    "ac_devMode c \<or> hasStrongAdminAuthentication (jprop payload ''amr'')"
    "open_session c rq realm payload user grant s = (Inr r, s')" by metis
  obtain session where se: "findAdminSession (sessionDigest c (aq_random rq ''session'')) s' = Some session"
    "opened c rq realm payload user grant session"
    "av_cookies r = [(LOGIN_COOKIE, None), (SESSION_COOKIE, Some (aq_random rq ''session''))]"
    "st_users s' = st_users s" "st_adminGrants s' = st_adminGrants s"
    "\<forall>d. previous_digest c rq = Some d \<and> d \<noteq> sessionDigest c (aq_random rq ''session'') \<longrightarrow> findAdminSession d s' = None" using acc(8,6) by (rule open_session_Inr)
  have "v = aq_random rq ''session''" using assms(2) se(3) by (simp add: SESSION_COOKIE_def LOGIN_COOKIE_def)
  then have "findAdminSession (sessionDigest c v) s' = Some session"
    "\<forall>d. previous_digest c rq = Some d \<and> d \<noteq> sessionDigest c v \<longrightarrow> findAdminSession d s' = None"
    using se(1,6) by auto
  with t realm run(2) acc(1-7) se(2,4,5) show ?thesis by (intro exI conjI)
qed

text \<open>A sign-in with a passkey, forty seconds ago.\<close>

definition demo_grant :: admin_grant where
  "demo_grant = \<lparr>g_realm = ''corp'', g_userId = ''u1'', g_permissions = [''credentials.manage''], g_enabled = True, g_version = 4,
     g_createdAt = 0, g_updatedAt = 0\<rparr>"

definition demo_mac :: string where "demo_mac = replicate 43 (CHR ''m'')"

definition demo_transaction :: json where
  "demo_transaction = transaction_json 90 \<lparr>tx_realm = ''corp'', tx_state = ''st'', tx_nonce = ''no'', tx_verifier = ''ve''\<rparr>"

definition demo_claims :: json where
  "demo_claims = JObj [(''nonce'', JStr ''no''), (''sub'', JStr ''u1''), (''auth_time'', JNum 60), (''amr'', JArr [JStr ''passkey''])]"

definition demo_signin_config :: console_config where
  "demo_signin_config = \<lparr>ac_publicUrl = ''https://id'', ac_realms = [''corp''], ac_devMode = False, ac_adminToken = ''static'',
     ac_csrfSecret_opt = None, ac_cookieKeys_opt = [], ac_sessionTtl_opt = None, ac_hmac = (\<lambda>k v. demo_mac), ac_pack = (\<lambda>_. ''p''),
     ac_unpack = (\<lambda>_. Some demo_transaction), ac_parse_url = (\<lambda>_. None), ac_url_with = (\<lambda>u q. u), ac_challenge = id,
     ac_exchange = (\<lambda>r c v. Some \<lparr>tr_ok = True, tr_bodyLength = 2, tr_json = Some (JObj [(''id_token'', JStr ''jwt'')])\<rparr>),
     ac_jwks = (\<lambda>_. Some (JObj [])), ac_jwtVerify = (\<lambda>t k i a. Some demo_claims), ac_isIP = (\<lambda>_. False)\<rparr>"

definition demo_signin :: admin_request where
  "demo_signin = \<lparr>aq_method = ''GET'', aq_path = ''/oidc/callback'', aq_cookie = Some (LOGIN_COOKIE @ ''=p.'' @ demo_mac),
     aq_origin = None, aq_host_url = ''https://id'', aq_secFetchSite = None, aq_secFetchMode = None,
     aq_secFetchDest = None, aq_csrf = None, aq_authorization = None, aq_isJson = False, aq_body = JUndef,
     aq_query = JObj [(''state'', JStr ''st''), (''code'', JStr ''c'')],
     aq_ip = None, aq_userAgent = None, aq_limited = None, aq_now = 100000, aq_random = (\<lambda>_. ''fresh''), aq_uuid = ''f'', aq_auditId = ''e''\<rparr>"

definition demo_console_store :: store where
  "demo_console_store = empty_store\<lparr>st_users := [(''corp:u1'', demo_user)], st_adminGrants := [(''corp:u1'', demo_grant)]\<rparr>"

lemma demo_cookies: "cookieMap (aq_cookie demo_signin) = [(LOGIN_COOKIE, ''p.'' @ demo_mac)]"
  by (simp add: cookieMap_def demo_signin_def LOGIN_COOKIE_def demo_mac_def numeral_eq_Suc js_defs)

lemma demo_unseal: "unseal demo_signin_config 100000 (Some (CHR ''p'' # CHR ''.'' # demo_mac)) LOGIN_TYPE (cookie_keys demo_signin_config) = Some demo_transaction"
proof -
  have m: "CHR ''.'' \<notin> set demo_mac" "demo_mac \<noteq> []" "list_all is_b64url demo_mac" "length demo_mac = 43"
    by (simp_all add: demo_mac_def list_all_iff) (simp add: js_defs)
  have p: "js_split (CHR ''.'') (CHR ''p'' # CHR ''.'' # demo_mac) = [''p'', demo_mac]"
    using m(1) js_split_append [of "CHR ''.''" "''p''" demo_mac] by (simp add: js_split_single)
  have k: "cookie_keys demo_signin_config = [''static'']" by (simp add: cookie_keys_def demo_signin_config_def)
  have s: "console_signature demo_signin_config v key = demo_mac" for v key by (simp add: console_signature_def demo_signin_config_def)
  have u: "ac_unpack demo_signin_config x = Some demo_transaction" for x by (simp add: demo_signin_config_def)
  have b: "is_b64url (CHR ''p'')" by (simp add: js_defs)
  show ?thesis
    unfolding unseal_def Let_def option.case p k
    using m b by (simp add: s u) (simp add: demo_transaction_def transaction_json_def safe_integer_def)
qed

lemma demo_console_find: "findUserById ''corp'' ''u1'' demo_console_store = Some demo_user"
    "findAdminGrant ''corp'' ''u1'' demo_console_store = Some demo_grant"
  by (simp_all add: demo_console_store_def findUserById_def findAdminGrant_def ukey_def)

lemma demo_opens: "\<exists>s'. open_session demo_signin_config demo_signin ''corp'' demo_claims demo_user demo_grant demo_console_store =
    (Inr ((reply 303 (Location ''/admin/''))\<lparr>av_cookies := [(LOGIN_COOKIE, None), (SESSION_COOKIE, Some ''fresh'')]\<rparr>), s')"
proof -
  have d: "sessionDigest demo_signin_config ''fresh'' = demo_mac" by (simp add: sessionDigest_def demo_signin_config_def)
  have r: "aq_random demo_signin ''session'' = ''fresh''" by (simp add: demo_signin_def)
  have c: "class_re is_b64url 43 43 demo_mac" by (simp add: class_re_def demo_mac_def list_all_iff) (simp add: js_defs)
  have "\<exists>session s1. createAdminSession (aq_now demo_signin) (session_input demo_signin_config demo_signin demo_mac ''corp'' demo_user demo_grant demo_claims)
      demo_console_store = Inr (Some session, s1)"
    using c by (simp add: createAdminSession_def normalizeAdminSession_def session_input_def Let_def demo_grant_def safe_integer_def
        demo_console_store_def ukey_def empty_store_def)
  then show ?thesis by (auto simp: open_session_def r d Let_def)
qed

lemma console_session_opened_witness:
  "\<exists>r s' payload user grant session. console_callback demo_signin_config demo_signin demo_console_store = (r, s') \<and>
     findAdminSession demo_mac s' = Some session \<and> opened demo_signin_config demo_signin ''corp'' payload user grant session"
proof -
  have e: "ac_realms demo_signin_config = [''corp'']" "ac_jwks demo_signin_config r = Some (JObj [])"
    "ac_jwtVerify demo_signin_config t k i a = Some demo_claims" "ac_devMode demo_signin_config = False"
    "ac_exchange demo_signin_config r t i = Some \<lparr>tr_ok = True, tr_bodyLength = 2, tr_json = Some (JObj [(''id_token'', JStr ''jwt'')])\<rparr>" for r t k i a
    by (simp_all add: demo_signin_config_def)
  have q: "aq_query demo_signin = JObj [(''state'', JStr ''st''), (''code'', JStr ''c'')]" "aq_now demo_signin = 100000"
    by (simp_all add: demo_signin_def)
  have t: "jprop demo_transaction ''realm'' = JStr ''corp''" "jprop demo_transaction ''state'' = JStr ''st''"
    "jprop demo_transaction ''nonce'' = JStr ''no''" by (simp_all add: demo_transaction_def transaction_json_def)
  have p: "jprop demo_claims ''nonce'' = JStr ''no''" "jprop demo_claims ''sub'' = JStr ''u1''"
    "recent_authentication 100000 (jprop demo_claims ''auth_time'')" "hasStrongAdminAuthentication (jprop demo_claims ''amr'')"
    by (simp_all add: demo_claims_def recent_authentication_def hasStrongAdminAuthentication_def safe_integer_def)
  have g: "g_enabled demo_grant" by (simp add: demo_grant_def)
  obtain s' where o: "open_session demo_signin_config demo_signin ''corp'' demo_claims demo_user demo_grant demo_console_store =
    (Inr ((reply 303 (Location ''/admin/''))\<lparr>av_cookies := [(LOGIN_COOKIE, None), (SESSION_COOKIE, Some ''fresh'')]\<rparr>), s')"
    using demo_opens by blast
  have x: "tokenExchange demo_signin_config r c v = Some ''jwt''" for r c v by (simp add: tokenExchange_def e)
  have "callback_try demo_signin_config demo_signin demo_transaction demo_console_store =
    (Inr ((reply 303 (Location ''/admin/''))\<lparr>av_cookies := [(LOGIN_COOKIE, None), (SESSION_COOKIE, Some ''fresh'')]\<rparr>), s')"
    using demo_console_find p g o by (simp add: callback_try_def t str_of_def x e q)
  then have run: "console_callback demo_signin_config demo_signin demo_console_store =
      ((reply 303 (Location ''/admin/''))\<lparr>av_cookies := [(LOGIN_COOKIE, None), (SESSION_COOKIE, Some ''fresh'')]\<rparr>, s')"
    by (simp add: console_callback_def demo_cookies q demo_unseal t e)
  have m: "sessionDigest demo_signin_config ''fresh'' = demo_mac" by (simp add: sessionDigest_def demo_signin_config_def)
  show ?thesis
    using console_session_opened [OF run, of "''fresh''"] m run by (auto simp: e demo_unseal demo_cookies q t)
qed

end
