(* ===== verification/AdminProps.thy ===== *)
theory AdminProps
  imports AdminRoutes ConsoleProps
begin

text \<open>
  Theorems about the administration API and the console: the permission the gate asks for is the one the route the
  router picks needs; every change to accounts comes from the static token or from a live, recent and permitted
  console session; a console session opens only after a bound, recent and strong sign-in; and what a PATCH without
  client roles does to the account.
\<close>

section \<open>The permission and the route\<close>

definition user_route_permission :: "string \<Rightarrow> user_route \<Rightarrow> string" where
  "user_route_permission meth r =
     (case r of
        U_self \<Rightarrow> if meth = ''DELETE'' then ''users.delete'' else if meth = ''GET'' then ''users.read'' else ''users.write''
      | U_identities \<Rightarrow> if meth = ''GET'' then ''users.read'' else ''federation.manage''
      | U_revoke \<Rightarrow> ''sessions.revoke''
      | _ \<Rightarrow> ''credentials.manage'')"

text \<open>What each route asks of an administrator, as a table over the routes.\<close>

definition route_permission :: "string \<Rightarrow> admin_route \<Rightarrow> string" where
  "route_permission meth route =
     (case route of
        R_metrics \<Rightarrow> ''metrics.read'' | R_realms \<Rightarrow> ''realms.read'' | R_configuration _ \<Rightarrow> ''configuration.read''
      | R_tokens _ \<Rightarrow> ''clients.register'' | R_audit _ \<Rightarrow> ''audit.read''
      | R_users _ \<Rightarrow> if meth = ''GET'' then ''users.read'' else ''users.write''
      | R_user _ _ r \<Rightarrow> user_route_permission meth r)"

lemma js_split_snoc: "js_split c (s @ [c]) = js_split c s @ [[]]"
  by (induction s) (auto split: list.splits)

lemma js_split_is_Nil: "js_split c s = [[]] \<longleftrightarrow> s = []"
  by (metis js_join_split js_split.simps(1))

lemma js_split_last: "last (js_split c s) = [] \<longleftrightarrow> s = [] \<or> last s = c"
proof (induction s)
  case (Cons a s)
  then show ?case using js_split_not_Nil [of c s] js_split_is_Nil [of c s] by (auto split: list.splits)
qed simp

lemma user_routes_agree:
  "user_route_of dec rest = Some r \<Longrightarrow> user_permission meth (map js_lower rest) = Some (user_route_permission meth r)"
  by (auto simp: user_route_of_def user_permission_def user_route_permission_def split: list.splits if_splits option.splits)

lemma realm_routes_agree:
  "realm_route_of dec realm rest = Some route \<Longrightarrow> realm_permission meth (map js_lower rest) = Some (route_permission meth route)"
  using user_routes_agree
  by (auto simp: realm_route_of_def realm_permission_def route_permission_def split: list.splits if_splits option.splits)

lemma segments_agree:
  "segments_route dec segs = Some route \<Longrightarrow> segments_permission meth (map js_lower segs) = Some (route_permission meth route)"
  using realm_routes_agree
  by (auto simp: segments_route_def segments_permission_def route_permission_def split: list.splits if_splits option.splits)

lemma user_route_last: "user_route_of dec rest = Some r \<Longrightarrow> rest = [] \<or> last rest \<noteq> []"
  by (auto simp: user_route_of_def js_lower_def split: list.splits if_splits option.splits)

lemma realm_route_last: "realm_route_of dec realm rest = Some r \<Longrightarrow> rest \<noteq> [] \<and> last rest \<noteq> []"
  using user_route_last
  by (auto simp: realm_route_of_def js_lower_def split: list.splits if_splits option.splits)

lemma segments_route_last: "segments_route dec segs = Some r \<Longrightarrow> last segs \<noteq> []"
  using realm_route_last
  by (auto simp: segments_route_def js_lower_def split: list.splits if_splits option.splits)

lemma normalizedAdminPath_plain: "path = [] \<or> last path \<noteq> CHR ''/'' \<Longrightarrow> normalizedAdminPath path = path"
  by (cases path rule: rev_cases) (auto simp: normalizedAdminPath_def)

lemma normalizedAdminPath_slash:
  "path \<noteq> [] \<Longrightarrow> last path \<noteq> CHR ''/'' \<Longrightarrow> normalizedAdminPath (path @ ''/'') = path"
  by (cases path rule: rev_cases) (auto simp: normalizedAdminPath_def)

text \<open>The stem of a path: what both readers look at once a single trailing slash is gone.\<close>

lemma route_stem:
  assumes "admin_route_of dec path = Some route"
  obtains stem where "segments_route dec (path_segments stem) = Some route" "normalizedAdminPath path = stem"
    "path = stem \<or> path = stem @ ''/''"
proof -
  define stem where "stem = (if length path > 1 \<and> last path = CHR ''/'' then butlast path else path)"
  have r: "segments_route dec (path_segments stem) = Some route"
    using assms by (simp add: admin_route_of_def stem_def)
  then have l: "stem \<noteq> []" "last stem \<noteq> CHR ''/''"
    using segments_route_last [OF r] by (auto simp: path_segments_def js_split_last)
  show ?thesis
  proof (cases "length path > 1 \<and> last path = CHR ''/''")
    case True
    then have "path = stem @ ''/''" by (cases path rule: rev_cases) (auto simp: stem_def)
    then show ?thesis using r l normalizedAdminPath_slash that by simp
  next
    case False
    then have "stem = path" by (auto simp: stem_def)
    then show ?thesis using r l normalizedAdminPath_plain [of stem] that by simp
  qed
qed

lemma requested_of_segments:
  assumes "segments_route dec segs = Some route" "path_segments path = segs \<or> path_segments path = segs @ [[]]"
  shows "requestedAdminRealm dec path = route_realm route"
  using assms
  by (auto simp: requestedAdminRealm_def segments_route_def realm_route_of_def route_realm_def
      split: list.splits if_splits option.splits)

lemma permission_of_route: "admin_route_of dec path = Some route \<Longrightarrow> requiredAdminPermission meth path = Some (route_permission meth route)"
  by (erule route_stem) (use segments_agree in \<open>simp add: requiredAdminPermission_def\<close>)

lemma requested_of_route:
  assumes "admin_route_of dec path = Some route"
  shows "requestedAdminRealm dec path = route_realm route"
proof -
  from assms obtain stem where r: "segments_route dec (path_segments stem) = Some route" and "path = stem \<or> path = stem @ ''/''"
    by (rule route_stem)
  then have "path_segments path = path_segments stem \<or> path_segments path = path_segments stem @ [[]]"
    by (auto simp: path_segments_def js_split_snoc)
  then show ?thesis by (rule requested_of_segments [OF r])
qed

lemma params_of_segments:
  assumes "segments_route dec segs = Some route" "path_segments path = segs \<or> path_segments path = segs @ [[]]"
    and "route = R_user realm i r"
  shows "realm_param dec path = Param realm \<and> account_param dec path = Param i"
  using assms
  by (auto simp: realm_param_def account_param_def below_realm_def path_param_def segments_route_def realm_route_of_def
      split: list.splits if_splits option.splits)

lemma params_of_route:
  assumes "admin_route_of dec path = Some (R_user realm i r)"
  shows "realm_param dec path = Param realm" "account_param dec path = Param i"
proof -
  from assms obtain stem where st: "segments_route dec (path_segments stem) = Some (R_user realm i r)" and "path = stem \<or> path = stem @ ''/''"
    by (rule route_stem)
  then have "path_segments path = path_segments stem \<or> path_segments path = path_segments stem @ [[]]"
    by (auto simp: path_segments_def js_split_snoc)
  from params_of_segments [OF st this refl] show "realm_param dec path = Param realm" "account_param dec path = Param i" by auto
qed

text \<open>C17: 
  The gate reads the permission and the realm off the raw path, the router picks the handler: they agree, for every
  method, spelling, trailing slash and encoding.
\<close>

theorem admin_routes_agree:
  assumes "admin_route_of dec path = Some route"
  shows "requiredAdminPermission meth path = Some (route_permission meth route) \<and> requestedAdminRealm dec path = route_realm route"
  using permission_of_route [OF assms] requested_of_route [OF assms] by simp

definition demo_uuid :: string where "demo_uuid = ''123e4567-e89b-12d3-a456-426614174000''"
definition demo_path :: string where "demo_path = ''/v1/Realms/corp/users/'' @ demo_uuid @ ''/unlock/''"

lemma demo_uuid_plain: "CHR ''/'' \<notin> set demo_uuid" by (simp add: demo_uuid_def)
lemma demo_uuid_re: "uuid_re demo_uuid" by (simp add: demo_uuid_def js_defs numeral_eq_Suc)
lemma demo_uuid_Nil: "demo_uuid \<noteq> []" by (simp add: demo_uuid_def)

lemma demo_path_segments:
  "path_segments demo_path = [[], ''v1'', ''Realms'', ''corp'', ''users'', demo_uuid, ''unlock'', []]"
  by (simp add: path_segments_def demo_path_def js_split_append [OF demo_uuid_plain])

lemma demo_path_route: "admin_route_of Some demo_path = Some (R_user ''corp'' demo_uuid U_unlock)"
proof -
  have "path_segments (butlast demo_path) = [[], ''v1'', ''Realms'', ''corp'', ''users'', demo_uuid, ''unlock'']"
    by (simp add: path_segments_def demo_path_def butlast_append js_split_append [OF demo_uuid_plain])
  then have "path_segments (if length demo_path > 1 \<and> last demo_path = CHR ''/'' then butlast demo_path else demo_path) =
      [[], ''v1'', ''Realms'', ''corp'', ''users'', demo_uuid, ''unlock'']"
    by (simp add: demo_path_def)
  then show ?thesis
    unfolding admin_route_of_def
    by (simp add: segments_route_def realm_route_of_def user_route_of_def demo_uuid_Nil js_defs)
qed

lemma admin_routes_agree_witness:
  "requiredAdminPermission ''POST'' demo_path = Some ''credentials.manage'' \<and> requestedAdminRealm Some demo_path = Some ''corp''"
  using admin_routes_agree [OF demo_path_route, of "''POST''"]
  by (simp add: route_permission_def user_route_permission_def route_realm_def)

section \<open>Requests that write\<close>

text \<open>What an administrator can change: accounts, grants, credentials, protocol artifacts and federated links.\<close>

definition account_state ::
    "admin_state \<Rightarrow> (string \<times> user) list \<times> (string \<times> admin_grant) list \<times> (string \<times> credential) list \<times> adapter \<times> (fed_key \<times> fed_link) list" where
  "account_state w = (st_users (am_store w), st_adminGrants (am_store w), st_credentials (am_store w), dl_adapter (am_data w), am_links w)"

definition same_accounts :: "store \<Rightarrow> store \<Rightarrow> bool" where
  "same_accounts s s' \<longleftrightarrow> st_users s' = st_users s \<and> st_adminGrants s' = st_adminGrants s \<and> st_credentials s' = st_credentials s"

lemma same_accounts_refl [simp]: "same_accounts s s" by (simp add: same_accounts_def)

lemma same_accounts_find:
  "same_accounts s s' \<Longrightarrow> findUserById r i s' = findUserById r i s \<and> findAdminGrant r i s' = findAdminGrant r i s"
  by (simp add: same_accounts_def findUserById_def findAdminGrant_def)

lemma account_state_set_store: "same_accounts (am_store w) s \<Longrightarrow> account_state (set_store s w) = account_state w"
  by (simp add: account_state_def same_accounts_def set_store_def am_store_def)

lemma am_store_set_store [simp]: "am_store (set_store s w) = s"
  by (simp add: am_store_def set_store_def)

lemma same_accounts_writeAudit: "same_accounts s (snd (writeAudit isIP now fresh e s))"
  by (simp add: same_accounts_def writeAudit_def Let_def)

lemma same_accounts_sessions:
  "same_accounts s (snd (deleteAdminSession d s))" "same_accounts s (snd (touchAdminSession now d x s))"
  by (simp_all add: same_accounts_def deleteAdminSession_def touchAdminSession_def Let_def split: option.splits)

lemma touchAdminSession_cases:
  assumes "touchAdminSession now d x s = (touched, s')"
  shows "same_accounts s s' \<and> (\<forall>t. touched = Some t \<longrightarrow>
    (\<exists>session. findAdminSession d s = Some session \<and> as_realm t = as_realm session \<and> as_createdAt t = as_createdAt session))"
  using assms by (auto simp: touchAdminSession_def findAdminSession_def same_accounts_def Let_def split: option.splits)

text \<open>What it takes for a session to authenticate a request.\<close>

definition session_live :: "console_config \<Rightarrow> int \<Rightarrow> string \<Rightarrow> store \<Rightarrow> admin_session \<Rightarrow> user \<Rightarrow> admin_grant \<Rightarrow> bool" where
  "session_live c now v s session user grant \<longleftrightarrow>
     findAdminSession (sessionDigest c v) s = Some session \<and> as_realm session \<in> set (ac_realms c) \<and>
     now < as_expiresAt session \<and> now < as_idleExpiresAt session \<and>
     findUserById (as_realm session) (as_userId session) s = Some user \<and> u_enabled user \<and>
     u_securityVersion user = as_securityVersion session \<and>
     findAdminGrant (as_realm session) (as_userId session) s = Some grant \<and> g_enabled grant \<and> g_version grant = as_grantVersion session"

lemma authenticate_session_live:
  assumes "authenticate_session c now v s = (r, s')"
  shows "same_accounts s s' \<and> (\<forall>au. r = Some au \<longrightarrow> (\<exists>session. session_live c now v s session (au_user au) (au_grant au) \<and>
    au_realm au = as_realm session \<and> as_createdAt (au_session au) = as_createdAt session \<and> au_sessionValue au = v))"
proof -
  let ?d = "sessionDigest c v"
  have del: "same_accounts s (snd (deleteAdminSession ?d s))" by (rule same_accounts_sessions)
  show ?thesis
  proof (cases "findAdminSession ?d s")
    case None
    then show ?thesis using assms by (simp add: authenticate_session_def)
  next
    case (Some session)
    note se = this
    show ?thesis
    proof (cases "as_realm session \<notin> set (ac_realms c) \<or> as_expiresAt session \<le> now \<or> as_idleExpiresAt session \<le> now")
      case True
      then show ?thesis using assms se del by (auto simp: authenticate_session_def Let_def)
    next
      case alive: False
      show ?thesis
      proof (cases "findUserById (as_realm session) (as_userId session) s")
        case None
        then show ?thesis using assms se del alive by (auto simp: authenticate_session_def Let_def)
      next
        case (Some user)
        note us = this
        show ?thesis
        proof (cases "findAdminGrant (as_realm session) (as_userId session) s")
          case None
          then show ?thesis using assms se us del alive by (auto simp: authenticate_session_def Let_def)
        next
          case (Some grant)
          note gr = this
          show ?thesis
          proof (cases "\<not> u_enabled user \<or> u_securityVersion user \<noteq> as_securityVersion session \<or> \<not> g_enabled grant \<or> g_version grant \<noteq> as_grantVersion session")
            case True
            then show ?thesis using assms se us gr del alive by (auto simp: authenticate_session_def Let_def)
          next
            case ok: False
            have live: "session_live c now v s session user grant"
              using se us gr alive ok by (simp add: session_live_def)
            obtain touched s1 where t: "(if now - as_lastSeenAt session \<ge> 60000
                then touchAdminSession now ?d (min (now + idle_ttl c * 1000) (as_expiresAt session)) s else (None, s)) = (touched, s1)"
              by fastforce
            have r: "r = Some \<lparr>au_realm = as_realm (or_else touched session), au_session = or_else touched session,
                au_sessionValue = v, au_sessionDigest = ?d, au_user = user, au_grant = grant\<rparr>" "s' = s1"
              using assms se us gr alive ok t by (simp_all add: authenticate_session_def Let_def split: prod.splits)
            have "same_accounts s s1 \<and> as_realm (or_else touched session) = as_realm session \<and>
                as_createdAt (or_else touched session) = as_createdAt session"
              using t touchAdminSession_cases [of now ?d _ s touched s1] se by (cases touched) (auto split: if_splits)
            then show ?thesis using r live by auto
          qed
        qed
      qed
    qed
  qed
qed

lemma authenticate_live:
  assumes "authenticate c rq s = (r, s')"
  shows "same_accounts s s' \<and> (\<forall>au. r = Some au \<longrightarrow> (\<exists>v session. session_value rq = Some v \<and>
    session_live c (aq_now rq) v s session (au_user au) (au_grant au) \<and>
    au_realm au = as_realm session \<and> as_createdAt (au_session au) = as_createdAt session \<and> au_sessionValue au = v))"
  using assms authenticate_session_live [of c "aq_now rq" "the (session_value rq)" s r s']
  by (cases "session_value rq") (auto simp: authenticate_def session_value_re_def split: if_splits)

lemma same_accounts_authenticate: "same_accounts s (snd (authenticate c rq s))"
  using authenticate_live [of c rq s] by (metis prod.collapse)

lemma same_accounts_gate: "same_accounts s (snd (admin_gate env rq s))"
  using same_accounts_authenticate [of s "an_console env" rq]
  by (auto simp: admin_gate_def split: option.splits prod.splits)

lemma account_state_audit: "account_state (admin_audit env rq e w) = account_state w"
  unfolding admin_audit_def admin_write_def by (intro account_state_set_store same_accounts_writeAudit)

text \<open>Handlers of reading requests leave it alone.\<close>

lemma reading_handler:
  assumes "reading (aq_method rq)"
  shows "account_state (snd (admin_handler env rq actor route w)) = account_state w"
proof -
  have m: "aq_method rq = ''GET'' \<or> aq_method rq = ''HEAD''" using assms by (auto simp: reading_def)
  then have n: "aq_method rq \<noteq> ''POST''" "aq_method rq \<noteq> ''PUT''" "aq_method rq \<noteq> ''DELETE''" "aq_method rq \<noteq> ''PATCH''" by auto
  show ?thesis
    using assms n
    by (auto simp: admin_handler_def user_handler_def Let_def list_users_def get_user_def list_identities_def list_passkeys_def
        list_audit_def account_state_audit split: admin_route.splits user_route.splits option.splits prod.splits)
qed

lemma gate_session:
  assumes "admin_gate env rq s = (Inr actor, s')" and no_token: "bearer_of (aq_authorization rq) \<noteq> Some (ac_adminToken (an_console env))"
  obtains au where "actor = SessionActor au" "authenticate (an_console env) rq s = (Some au, s')" "session_checks env rq au = None"
  using assms by (auto simp: admin_gate_def split: option.splits prod.splits if_splits)

lemma session_checks_pass:
  assumes "session_checks env rq au = None" "\<not> safe_method (aq_method rq)"
  shows "(requestedAdminRealm (an_decode env) (aq_path rq) \<noteq> None \<longrightarrow>
      requestedAdminRealm (an_decode env) (aq_path rq) = Some (au_realm au)) \<and>
    (\<exists>p. requiredAdminPermission (aq_method rq) (aq_path rq) = Some p \<and> hasAdminPermission (Some (au_grant au)) p) \<and>
    aq_isJson rq \<and> sameOrigin (an_console env) rq \<and> aq_csrf rq = Some (csrfFor (an_console env) (au_sessionValue au)) \<and>
    hasRecentAdminAuthentication au (aq_now rq)"
  using assms
  by (auto simp: session_checks_def verifyCsrf_def sameOrigin_def Let_def split: option.splits if_splits json.splits)

lemma dispatch_route:
  assumes "account_state (snd (admin_dispatch env rq actor w)) \<noteq> account_state w"
  obtains route where "admin_route_of (an_decode env) (aq_path rq) = Some route" "admin_middleware env rq actor w = None"
    "\<not> safe_method (aq_method rq)"
    "account_state (snd (admin_handler env rq actor route w)) \<noteq> account_state w"
  using assms reading_handler [of rq env actor]
  by (auto simp: admin_dispatch_def reading_def safe_method_def split: option.splits if_splits)

lemma handler_route_realm:
  assumes "account_state (snd (admin_handler env rq actor route w)) \<noteq> account_state w"
  shows "\<exists>realm. route_realm route = Some realm"
  using assms by (cases route) (auto simp: admin_handler_def route_realm_def split: if_splits)

lemma middleware_protects:
  assumes "admin_middleware env rq (SessionActor au) w = None" "\<not> safe_method (aq_method rq)"
    and "admin_route_of (an_decode env) (aq_path rq) = Some (R_user realm i r)"
    and "findAdminGrant realm i (am_store w) \<noteq> None"
  shows "hasAdminPermission (Some (au_grant au)) ''administrators.manage''"
  using assms params_of_route [OF assms(3)]
  by (auto simp: admin_middleware_def protected_account_def Let_def split: if_splits)

text \<open>C18: 
  A request to the administration API without the static token changes accounts, grants, passkeys, protocol artifacts
  or federated links only when its cookie names a live session of an enabled account with an enabled grant, both
  unchanged since the session opened; the session's realm is the route's; the grant has the route's permission, and
  \<open>administrators.manage\<close> when the account has a grant itself; the request is JSON from the console's own origin with
  the session's token; and the administrator signed in within the last fifteen minutes.
\<close>

theorem admin_writes_authorised:
  assumes "admin_serve env rq w = (r, w')" "account_state w' \<noteq> account_state w"
    and "bearer_of (aq_authorization rq) \<noteq> Some (ac_adminToken (an_console env))"
  shows "\<exists>v session user grant route. session_value rq = Some v \<and>
    session_live (an_console env) (aq_now rq) v (am_store w) session user grant \<and>
    admin_route_of (an_decode env) (aq_path rq) = Some route \<and> route_realm route = Some (as_realm session) \<and>
    hasAdminPermission (Some grant) (route_permission (aq_method rq) route) \<and>
    (\<forall>realm i u. route = R_user realm i u \<and> findAdminGrant realm i (am_store w) \<noteq> None \<longrightarrow>
       hasAdminPermission (Some grant) ''administrators.manage'') \<and>
    aq_isJson rq \<and> sameOrigin (an_console env) rq \<and> aq_csrf rq = Some (csrfFor (an_console env) v) \<and>
    - 30000 \<le> aq_now rq - as_createdAt session \<and> aq_now rq - as_createdAt session \<le> 15 * 60 * 1000"
proof -
  obtain g s where g: "admin_gate env rq (am_store w) = (g, s)" by fastforce
  have same: "same_accounts (am_store w) s" using same_accounts_gate [of "am_store w" env rq] g by simp
  have w0: "account_state (set_store s w) = account_state w" by (rule account_state_set_store [OF same])
  obtain actor where actor: "g = Inr actor"
    using assms(1,2) g w0 by (cases g) (auto simp: admin_serve_def)
  from g actor assms(3) obtain au where au: "actor = SessionActor au" "authenticate (an_console env) rq (am_store w) = (Some au, s)"
    "session_checks env rq au = None" by (auto elim: gate_session)
  have d: "admin_dispatch env rq actor (set_store s w) = (r, w')" using assms(1) g actor by (simp add: admin_serve_def)
  have "account_state (snd (admin_dispatch env rq actor (set_store s w))) \<noteq> account_state (set_store s w)"
    using assms(2) d w0 by simp
  then obtain route where route: "admin_route_of (an_decode env) (aq_path rq) = Some route"
    "admin_middleware env rq actor (set_store s w) = None" "\<not> safe_method (aq_method rq)"
    "account_state (snd (admin_handler env rq actor route (set_store s w))) \<noteq> account_state (set_store s w)"
    by (rule dispatch_route)
  from handler_route_realm [OF route(4)] obtain realm where realm: "route_realm route = Some realm" ..
  from authenticate_live [OF au(2)] obtain v session where live: "session_value rq = Some v"
    "session_live (an_console env) (aq_now rq) v (am_store w) session (au_user au) (au_grant au)"
    "au_realm au = as_realm session" "as_createdAt (au_session au) = as_createdAt session" "au_sessionValue au = v" by auto
  note checks = session_checks_pass [OF au(3) route(3)]
  have "route_realm route = Some (as_realm session)"
    using checks requested_of_route [OF route(1)] realm live(3) by simp
  moreover have "hasAdminPermission (Some (au_grant au)) (route_permission (aq_method rq) route)"
    using checks permission_of_route [OF route(1)] by auto
  moreover have "\<forall>realm i u. route = R_user realm i u \<and> findAdminGrant realm i (am_store w) \<noteq> None \<longrightarrow>
      hasAdminPermission (Some (au_grant au)) ''administrators.manage''"
    using middleware_protects [of env rq au "set_store s w"] route au(1) same_accounts_find [OF same] by auto
  ultimately show ?thesis
    using live checks route(1) by (auto simp: hasRecentAdminAuthentication_def)
qed

text \<open>A console session with \<open>credentials.manage\<close> unlocks a colleague.\<close>

definition demo_console :: console_config where
  "demo_console = \<lparr>ac_publicUrl = ''https://id'', ac_realms = [''corp''], ac_devMode = False, ac_adminToken = ''static'',
     ac_csrfSecret_opt = None, ac_cookieKeys_opt = [], ac_sessionTtl_opt = None, ac_hmac = (\<lambda>k v. ''mac''), ac_pack = (\<lambda>_. ''p''),
     ac_unpack = (\<lambda>_. None), ac_parse_url = (\<lambda>_. None), ac_url_with = (\<lambda>u q. u), ac_challenge = id,
     ac_exchange = (\<lambda>_ _ _. None), ac_jwks = (\<lambda>_. None), ac_jwtVerify = (\<lambda>_ _ _ _. None), ac_isIP = (\<lambda>_. False)\<rparr>"

definition demo_admin_env :: admin_env where
  "demo_admin_env = \<lparr>an_console = demo_console, an_crypto = demo_crypto, an_webauthn = \<lparr>wn_origin = ''https://id'', wn_rpID = ''id''\<rparr>,
     an_decode = Some, an_isEmail = (\<lambda>_. True), an_order = (\<lambda>a b. True), an_providers = (\<lambda>_. []), an_dynamicRegistration = False,
     an_challengeTtl = 300, an_metrics = [], an_registrationOptions = (\<lambda>_ _ _. JUndef), an_totp = (\<lambda>_ _. ([], [])), an_rawCodes = [],
     an_configuration = (\<lambda>_. JUndef), an_newToken = (\<lambda>_ _. []), an_defaultInOptional = True\<rparr>"

definition demo_target :: user where
  "demo_target = normalizeUser 0 ''f'' (demo_input\<lparr>i_id := Some demo_uuid, i_username := ''Bob'', i_failedAttempts := Some 3\<rparr>)"

definition demo_session :: admin_session where
  "demo_session = \<lparr>as_idDigest = ''mac'', as_realm = ''corp'', as_userId = ''u1'', as_grantVersion = 4, as_securityVersion = 0,
     as_createdAt = 0, as_lastSeenAt = 0, as_idleExpiresAt = 1800000, as_expiresAt = 28800000\<rparr>"

definition demo_admin_state :: admin_state where
  "demo_admin_state = \<lparr>am_data = \<lparr>dl_store = empty_store\<lparr>st_users := [(''corp:u1'', demo_user), (ukey ''corp'' demo_uuid, demo_target)],
     st_adminGrants := [(''corp:u1'', demo_grant)], st_adminSessions := [(''mac'', demo_session)]\<rparr>,
     dl_adapter = \<lparr>ad_stores = [], ad_next = 0\<rparr>\<rparr>, am_links = []\<rparr>"

definition demo_admin_request :: admin_request where
  "demo_admin_request = \<lparr>aq_method = ''POST'', aq_path = demo_path, aq_cookie = Some (SESSION_COOKIE @ ''='' @ replicate 43 (CHR ''s'')),
     aq_origin = Some ''https://id'', aq_host_url = ''https://id'', aq_secFetchSite = None, aq_secFetchMode = None,
     aq_secFetchDest = None, aq_csrf = Some ''mac'', aq_authorization = None, aq_isJson = True, aq_body = JObj [], aq_query = JUndef,
     aq_ip = None, aq_userAgent = None, aq_limited = None, aq_now = 5000, aq_random = (\<lambda>_. []), aq_uuid = ''f'', aq_auditId = ''e''\<rparr>"

lemma demo_session_value: "session_value demo_admin_request = Some (replicate 43 (CHR ''s''))"
  by (simp add: session_value_def demo_admin_request_def cookieMap_def SESSION_COOKIE_def numeral_eq_Suc js_defs)

lemma demo_session_re: "session_value_re (Some (replicate 43 (CHR ''s'')))"
  by (simp add: session_value_re_def class_re_def list_all_iff) (simp add: js_defs)

lemma demo_admin_store: "am_store demo_admin_state = empty_store\<lparr>st_users := [(''corp:u1'', demo_user), (ukey ''corp'' demo_uuid, demo_target)],
     st_adminGrants := [(''corp:u1'', demo_grant)], st_adminSessions := [(''mac'', demo_session)]\<rparr>"
  by (simp add: am_store_def demo_admin_state_def)

definition demo_au :: authentication where
  "demo_au = \<lparr>au_realm = ''corp'', au_session = demo_session, au_sessionValue = replicate 43 (CHR ''s''), au_sessionDigest = ''mac'',
     au_user = demo_user, au_grant = demo_grant\<rparr>"

lemma demo_authenticate: "authenticate demo_console demo_admin_request (am_store demo_admin_state) = (Some demo_au, am_store demo_admin_state)"
proof -
  have d: "sessionDigest demo_console (replicate 43 (CHR ''s'')) = ''mac''" by (simp add: sessionDigest_def demo_console_def)
  have n: "aq_now demo_admin_request = 5000" by (simp add: demo_admin_request_def)
  have f: "findAdminSession ''mac'' (am_store demo_admin_state) = Some demo_session"
    "findUserById ''corp'' ''u1'' (am_store demo_admin_state) = Some demo_user"
    "findAdminGrant ''corp'' ''u1'' (am_store demo_admin_state) = Some demo_grant"
    by (simp_all add: demo_admin_store findAdminSession_def findUserById_def findAdminGrant_def ukey_def)
  have g: "as_realm demo_session = ''corp''" "as_userId demo_session = ''u1''" "g_enabled demo_grant" "g_version demo_grant = as_grantVersion demo_session"
    "as_securityVersion demo_session = 0" "5000 < as_expiresAt demo_session" "5000 < as_idleExpiresAt demo_session" "as_lastSeenAt demo_session = 0"
    "''corp'' \<in> set (ac_realms demo_console)"
    by (simp_all add: demo_session_def demo_grant_def demo_console_def)
  show ?thesis
    using demo_session_value demo_session_re f g
    by (simp add: authenticate_def authenticate_session_def d n demo_au_def)
qed

lemma demo_gate: "admin_gate demo_admin_env demo_admin_request (am_store demo_admin_state) =
    (Inr (SessionActor demo_au), am_store demo_admin_state)"
proof -
  have e: "an_decode demo_admin_env = Some" "an_console demo_admin_env = demo_console" by (simp_all add: demo_admin_env_def)
  have q: "aq_path demo_admin_request = demo_path" "aq_method demo_admin_request = ''POST''" "aq_limited demo_admin_request = None"
    "aq_authorization demo_admin_request = None" "aq_isJson demo_admin_request" "aq_now demo_admin_request = 5000"
    by (simp_all add: demo_admin_request_def)
  have c: "verifyCsrf demo_console (demo_admin_request\<lparr>aq_body := JUndef\<rparr>) demo_au"
    by (simp add: verifyCsrf_def demo_au_def sameOrigin_def demo_admin_request_def demo_console_def csrfFor_def)
  have p: "hasAdminPermission (Some (au_grant demo_au)) ''credentials.manage''"
    by (simp add: hasAdminPermission_def demo_au_def demo_grant_def)
  have "session_checks demo_admin_env demo_admin_request demo_au = None"
    using permission_of_route [OF demo_path_route, of "''POST''"] requested_of_route [OF demo_path_route] c p
    by (simp add: session_checks_def e q route_permission_def user_route_permission_def route_realm_def safe_method_def)
      (simp add: demo_au_def hasRecentAdminAuthentication_def demo_session_def)
  then show ?thesis using demo_authenticate by (simp add: admin_gate_def e q bearer_of_def)
qed

lemma demo_unlock:
  "\<exists>r w'. admin_serve demo_admin_env demo_admin_request demo_admin_state = (r, w') \<and> account_state w' \<noteq> account_state demo_admin_state"
proof -
  let ?w = "set_store (am_store demo_admin_state) demo_admin_state"
  have e: "an_decode demo_admin_env = Some" "ac_realms (an_console demo_admin_env) = [''corp'']"
    by (simp_all add: demo_admin_env_def demo_console_def)
  have q: "aq_path demo_admin_request = demo_path" "aq_method demo_admin_request = ''POST''" by (simp_all add: demo_admin_request_def)
  have c: "credential_param Some demo_path = Absent"
    by (simp add: credential_param_def below_realm_def demo_path_segments js_defs)
  have g: "findAdminGrant ''corp'' demo_uuid (am_store demo_admin_state) = None"
    by (simp add: findAdminGrant_def demo_admin_store ukey_def demo_uuid_def)
  have m: "admin_middleware demo_admin_env demo_admin_request (SessionActor demo_au) ?w = None"
    using params_of_route [OF demo_path_route] c g demo_uuid_re
    by (simp add: admin_middleware_def e q protected_account_def)
  have t: "u_failedAttempts demo_target = 3" by (simp add: demo_target_def demo_eval)
  have k: "ukey ''corp'' demo_uuid \<noteq> ''corp:u1''" by (simp add: ukey_def demo_uuid_def)
  have u: "unlockUser now ''corp'' demo_uuid (am_store demo_admin_state) = (Some (the (unlock_row now demo_target)),
      (am_store demo_admin_state)\<lparr>st_users := [(''corp:u1'', demo_user), (ukey ''corp'' demo_uuid, the (unlock_row now demo_target))]\<rparr>)" for now
    by (simp add: unlockUser_def update_user_def demo_admin_store unlock_row_def k k [symmetric])
  have "the (unlock_row now demo_target) \<noteq> demo_target" for now
    using t by (auto simp: unlock_row_def dest!: arg_cong [where f = u_failedAttempts])
  then have ne: "[(''corp:u1'', demo_user), (ukey ''corp'' demo_uuid, the (unlock_row now demo_target))] \<noteq> st_users (am_store demo_admin_state)" for now
    by (simp add: demo_admin_store)
  have d: "admin_dispatch demo_admin_env demo_admin_request (SessionActor demo_au) ?w =
      unlock_user demo_admin_env demo_admin_request (SessionActor demo_au) ''corp'' demo_uuid ?w"
    by (simp add: admin_dispatch_def m e q demo_path_route admin_handler_def user_handler_def)
  have "account_state (snd (admin_dispatch demo_admin_env demo_admin_request (SessionActor demo_au) ?w)) \<noteq> account_state demo_admin_state"
    using ne by (simp add: d unlock_user_def u account_state_audit) (simp add: account_state_def)
  then show ?thesis using demo_gate by (simp add: admin_serve_def) (metis prod.collapse)
qed

lemma admin_writes_authorised_witness:
  "\<exists>session user grant route. session_live demo_console 5000 (replicate 43 (CHR ''s'')) (am_store demo_admin_state) session user grant \<and>
     route_realm route = Some (as_realm session) \<and> hasAdminPermission (Some grant) (route_permission ''POST'' route)"
proof -
  obtain r w' where run: "admin_serve demo_admin_env demo_admin_request demo_admin_state = (r, w')"
    "account_state w' \<noteq> account_state demo_admin_state" using demo_unlock by blast
  have e: "an_console demo_admin_env = demo_console" "bearer_of (aq_authorization demo_admin_request) \<noteq> Some (ac_adminToken (an_console demo_admin_env))"
    "aq_now demo_admin_request = 5000" "aq_method demo_admin_request = ''POST''"
    by (simp_all add: demo_admin_env_def demo_admin_request_def bearer_of_def)
  show ?thesis using admin_writes_authorised [OF run e(2)] demo_session_value e(1,3,4) by auto
qed

section \<open>Changing an account\<close>

lemma updateUserSchema_clientRoles:
  assumes "updateUserSchema env v = Some patch" "jprop v ''clientRoles'' = JUndef" "an_defaultInOptional env"
  shows "p_clientRoles patch = Some []"
  using assms by (auto simp: updateUserSchema_def opt_field_def optional_default_def split: if_splits option.splits)

lemma find_set_user:
  assumes "findUserById r i s = Some u"
  shows "findUserById r i (s\<lparr>st_users := mset' (ukey r i) u' (st_users s)\<rparr>) = Some u'"
  using assms by (simp add: findUserById_def)

lemma find_audit: "findUserById r i (admin_write env rq e s) = findUserById r i s"
  by (simp add: admin_write_def writeAudit_def findUserById_def Let_def)

lemma bump_stored:
  assumes "findUserById r i s = Some n" "u_updatedAt n = now" "u_securityVersion n = v"
  shows "bumpSecurityVersion now r i s = (Some (n\<lparr>u_securityVersion := v + 1\<rparr>), s\<lparr>st_users := mset' (ukey r i) (n\<lparr>u_securityVersion := v + 1\<rparr>) (st_users s)\<rparr>)"
  using assms unfolding bumpSecurityVersion_def update_user_def findUserById_def by (cases n) simp

text \<open>
  A PATCH that answers with the account has applied exactly the fields it names to it, raised its security version,
  ended its protocol artifacts and answered what is stored. With a schema library that applies a default inside an
  optional field, a PATCH that does not name \<open>clientRoles\<close> leaves the account without any.
\<close>

theorem admin_patch_effect:
  assumes "patch_user env rq actor realm i w = (UserBody st pu, w')"
  shows "\<exists>patch before u. updateUserSchema env (aq_body rq) = Some patch \<and>
    findUserById realm i (am_store w) = Some before \<and> findUserById realm i (am_store w') = Some u \<and> pu = publicUser (Some u) \<and>
    u = (applyPatch (normalizePatch patch) before)\<lparr>u_updatedAt := aq_now rq, u_securityVersion := u_securityVersion before + 1\<rparr> \<and>
    dl_adapter (am_data w') = snd (revokeMemoryAccount realm i (dl_adapter (am_data w))) \<and>
    (an_defaultInOptional env \<and> jprop (aq_body rq) ''clientRoles'' = JUndef \<longrightarrow> u_clientRoles u = [])"
proof -
  let ?ev = "\<lambda>patch. admin_event rq actor realm ''admin.user.updated'' (Some i) (JObj [(''fields'', JArr (map JStr (patch_fields patch)))])"
  obtain patch where patch: "updateUserSchema env (aq_body rq) = Some patch"
    using assms by (cases "updateUserSchema env (aq_body rq)") (auto simp: patch_user_def invalid_request_def refuse_def)
  obtain before where before: "findUserById realm i (am_store w) = Some before"
    using assms patch
    by (cases "findUserById realm i (am_store w)")
       (auto simp: patch_user_def secure_mutation_def mutateAccountSecurity_def mutation_reply_def am_store_def user_missing_def refuse_def)
  obtain res where res: "updateUser (aq_now rq) realm i patch (am_store w) = res" by blast
  show ?thesis
  proof (cases res)
    case (Inl e)
    then have "e = USER_EXISTS" using res by (auto simp: updateUser_def Let_def split: option.splits if_splits)
    then show ?thesis using assms patch before res Inl
      by (auto simp: patch_user_def secure_mutation_def mutateAccountSecurity_def mutation_reply_def am_store_def refuse_def Let_def
          split: sum.splits prod.splits)
  next
    case (Inr x)
    let ?n = "(applyPatch (normalizePatch patch) before)\<lparr>u_updatedAt := aq_now rq\<rparr>"
    have x: "x = (Some ?n, (am_store w)\<lparr>st_users := mset' (ukey realm i) ?n (st_users (am_store w))\<rparr>)"
      using res Inr before by (auto simp: updateUser_def findUserById_def Let_def split: if_splits)
    let ?s1 = "admin_write env rq (?ev patch) (snd x)"
    let ?u = "?n\<lparr>u_securityVersion := u_securityVersion before + 1\<rparr>"
    have f1: "findUserById realm i ?s1 = Some ?n" by (simp add: find_audit x find_set_user [OF before])
    have b: "bumpSecurityVersion (aq_now rq) realm i ?s1 = (Some ?u, ?s1\<lparr>st_users := mset' (ukey realm i) ?u (st_users ?s1)\<rparr>)"
      by (rule bump_stored [OF f1]) (simp_all add: applyPatch_def)
    have f2: "findUserById realm i (?s1\<lparr>st_users := mset' (ukey realm i) ?u (st_users ?s1)\<rparr>) = Some ?u"
      by (rule find_set_user [OF f1])
    have run: "patch_user env rq actor realm i w = (UserBody 200 (publicUser (Some ?u)), w\<lparr>am_data :=
        \<lparr>dl_store = ?s1\<lparr>st_users := mset' (ukey realm i) ?u (st_users ?s1)\<rparr>, dl_adapter = snd (revokeMemoryAccount realm i (dl_adapter (am_data w)))\<rparr>\<rparr>)"
      using patch before res Inr x b f2
      by (simp add: patch_user_def secure_mutation_def mutateAccountSecurity_def mutation_reply_def am_store_def Let_def)
    have c: "an_defaultInOptional env \<and> jprop (aq_body rq) ''clientRoles'' = JUndef \<longrightarrow> u_clientRoles ?u = []"
      using updateUserSchema_clientRoles [OF patch] by (simp add: applyPatch_def normalizePatch_def)
    show ?thesis
      by (rule exI [of _ patch], rule exI [of _ before], rule exI [of _ ?u])
         (use assms run patch before f2 c in \<open>auto simp: am_store_def\<close>)
  qed
qed

text \<open>Disabling a member of the sales team by PATCH.\<close>

definition demo_member :: user where
  "demo_member = normalizeUser 0 ''f'' (demo_input\<lparr>i_clientRoles := Some [(''crm'', [''sales''])]\<rparr>)"

definition demo_team :: admin_state where
  "demo_team = \<lparr>am_data = \<lparr>dl_store = empty_store\<lparr>st_users := [(''corp:u1'', demo_member)]\<rparr>,
     dl_adapter = \<lparr>ad_stores = [], ad_next = 0\<rparr>\<rparr>, am_links = []\<rparr>"

definition demo_disable :: admin_request where
  "demo_disable = demo_admin_request\<lparr>aq_method := ''PATCH'', aq_body := JObj [(''enabled'', JBool False)]\<rparr>"

lemma demo_disable_runs: "\<exists>pu w'. patch_user demo_admin_env demo_disable BearerActor ''corp'' ''u1'' demo_team = (UserBody 200 pu, w')"
proof -
  obtain patch where patch: "updateUserSchema demo_admin_env (JObj [(''enabled'', JBool False)]) = Some patch" "p_email patch = None"
    by (simp add: updateUserSchema_def strict_names_def opt_field_def mkeys_def bool_schema_def)
  have body: "aq_body demo_disable = JObj [(''enabled'', JBool False)]" by (simp add: demo_disable_def)
  have u: "findUserById ''corp'' ''u1'' (dl_store (am_data demo_team)) = Some demo_member"
    by (simp add: demo_team_def findUserById_def ukey_def)
  have r: "\<exists>n s'. updateUser (aq_now demo_disable) ''corp'' ''u1'' patch (dl_store (am_data demo_team)) = Inr (Some n, s')"
    using u patch(2) by (simp add: updateUser_def findUserById_def normalizePatch_def Let_def)
  then show ?thesis
    using u patch(1) body by (auto simp: patch_user_def secure_mutation_def mutateAccountSecurity_def mutation_reply_def Let_def)
qed

lemma admin_patch_effect_witness:
  "\<exists>pu w' u. patch_user demo_admin_env demo_disable BearerActor ''corp'' ''u1'' demo_team = (UserBody 200 pu, w') \<and>
     u_clientRoles demo_member = [(''crm'', [''sales''])] \<and> findUserById ''corp'' ''u1'' (am_store w') = Some u \<and> u_clientRoles u = []"
proof -
  obtain pu w' where run: "patch_user demo_admin_env demo_disable BearerActor ''corp'' ''u1'' demo_team = (UserBody 200 pu, w')"
    using demo_disable_runs by blast
  have c: "u_clientRoles demo_member = [(''crm'', [''sales''])]" by (simp add: demo_member_def demo_eval)
  have b: "an_defaultInOptional demo_admin_env" "jprop (aq_body demo_disable) ''clientRoles'' = JUndef"
    by (simp_all add: demo_admin_env_def demo_disable_def)
  from admin_patch_effect [OF run] b run c show ?thesis by blast
qed

end
