(* ===== verification/PasskeyLogin.thy ===== *)
theory PasskeyLogin
  imports LoginProps
begin

text \<open>
  Sign-in with a passkey on the login page (\<open>POST /passkey\<close> of \<open>src/routes/interactions.js\<close>): what has to hold before
  it succeeds, and that an answered challenge signs nobody in again.
\<close>

lemma passkey_challenge_Some:
  assumes "passkey_challenge env rq d s = (Some ch, s1)"
  obtains i where "jprop (lq_body rq) ''challengeId'' = JStr i" "mget (st_challenges s) (ukey (lv_realm env) i) = Some ch"
    "ch_purpose ch = ''authentication''" "ch_interactionUid ch = Some (it_uid d)" "lq_now rq < ch_expiresAt ch"
    "s1 = s\<lparr>st_challenges := mdel (ukey (lv_realm env) i) (st_challenges s)\<rparr>"
  using assms
  by (auto simp: passkey_challenge_def consumeWebAuthnChallenge_def Let_def simp del: jprop.simps
      split: json.splits if_splits option.splits)

lemma challenges_after:
  "st_challenges (login_audit env rq e s) = st_challenges s" "st_challenges (recordLoginSuccess now r i s) = st_challenges s"
  "st_challenges (snd (updateWebAuthnCredentialCounter now r c e' n dt b s)) = st_challenges s"
  by (simp_all add: login_audit_def writeAudit_def recordLoginSuccess_def update_user_def updateWebAuthnCredentialCounter_def Let_def
      split: option.splits)

lemma finds_after_challenge:
  "findWebAuthnCredential r c (s\<lparr>st_challenges := m\<rparr>) = findWebAuthnCredential r c s" "findUserById r i (s\<lparr>st_challenges := m\<rparr>) = findUserById r i s"
  by (simp_all add: findWebAuthnCredential_def findUserById_def)

lemma counter_accepted: "updateWebAuthnCredentialCounter now r c e n dt b s = (True, s') \<Longrightarrow> \<not> counter_regresses e n"
  by (auto simp: updateWebAuthnCredentialCounter_def Let_def split: option.splits if_splits)

text \<open>What a successful passkey sign-in of account \<open>u\<close> rests on, before it.\<close>

definition passkey_evidence ::
    "login_env \<Rightarrow> login_request \<Rightarrow> interaction_details \<Rightarrow> store \<Rightarrow> string \<Rightarrow> challenge \<Rightarrow> json \<Rightarrow> credential \<Rightarrow> user \<Rightarrow> authentication_info \<Rightarrow> bool" where
  "passkey_evidence env rq d s i ch a k u v \<longleftrightarrow>
     jprop (lq_body rq) ''challengeId'' = JStr i \<and> mget (st_challenges s) (ukey (lv_realm env) i) = Some ch \<and>
     ch_purpose ch = ''authentication'' \<and> ch_interactionUid ch = Some (it_uid d) \<and> lq_now rq < ch_expiresAt ch \<and>
     parseAssertion env (jprop (lq_body rq) ''credential'') = Some a \<and>
     findWebAuthnCredential (lv_realm env) (js_String (jprop a ''id'')) s = Some k \<and>
     findUserById (lv_realm env) (wc_userId k) s = Some u \<and> u_enabled u \<and> \<not> login_locked (lq_now rq) u \<and>
     jprop (jprop a ''response'') ''userHandle'' = JStr (wc_userHandle k) \<and>
     verifyAuthentication (lv_crypto env) (lv_webauthn env) a (ch_challenge ch) k = Some v \<and>
     \<not> counter_regresses (wc_counter k) (ai_newCounter v)"

lemma passkey_post_SignedIn:
  assumes "passkey_post env rq st = (SignedIn acc acr amr, st')"
  obtains d i ch a k u v where "interaction rq ''login'' = Some d" "form_token_ok env rq d ''login''"
    "passkey_evidence env rq d (fs_store st) i ch a k u v" "u_id u = acc" "acr = loa2" "amr = [''passkey'']"
    "mget (st_challenges (fs_store st')) (ukey (lv_realm env) i) = None"
proof -
  obtain d where d: "interaction rq ''login'' = Some d" "form_token_ok env rq d ''login''"
    using assms by (auto simp: passkey_post_def no_interaction_def expired_form_def split: option.splits if_splits)
  obtain ch s1 where ch: "passkey_challenge env rq d (fs_store st) = (ch, s1)" by fastforce
  define assertion where "assertion = parseAssertion env (jprop (lq_body rq) ''credential'')"
  define cred where "cred = (case assertion of None \<Rightarrow> None
    | Some a \<Rightarrow> findWebAuthnCredential (lv_realm env) (js_String (jprop a ''id'')) s1)"
  define user where "user = (case cred of None \<Rightarrow> None | Some k \<Rightarrow> findUserById (lv_realm env) (wc_userId k) s1)"
  obtain updated s2 where up: "(case (passkey_verified env rq ch assertion cred user, cred) of
      (Some v, Some k) \<Rightarrow> updateWebAuthnCredentialCounter (lq_now rq) (lv_realm env) (wc_id k) (wc_counter k)
        (ai_newCounter v) (ai_deviceType v) (ai_backedUp v) s1
    | _ \<Rightarrow> (False, s1)) = (updated, s2)" by fastforce
  have run: "(case (updated, user, cred) of
     (True, Some u, Some k) \<Rightarrow>
       (SignedIn (u_id u) loa2 [''passkey''],
        st\<lparr>fs_store := login_audit env rq (login_event env rq d ''identity.login.succeeded'' (Some (u_id u))
            (JObj [(''amr'', JArr [JStr ''passkey'']), (''credentialId'', JStr (wc_id k))]))
          (recordLoginSuccess (lq_now rq) (lv_realm env) (u_id u) s2)\<rparr>)
   | _ \<Rightarrow>
       (LoginView 401 [] ''Passkey sign-in failed or expired. Try again or use your password.'' None,
        st\<lparr>fs_store := login_audit env rq (login_event env rq d ''identity.login.passkey_failed''
            (map_option u_id user) JUndef) s2\<rparr>)) = (SignedIn acc acr amr, st')"
    using assms d ch up unfolding passkey_post_def assertion_def cred_def user_def by (simp add: Let_def)
  then obtain u k where uk: "updated" "user = Some u" "cred = Some k" "u_id u = acc" "acr = loa2" "amr = [''passkey'']"
    "st_challenges (fs_store st') = st_challenges s2"
    by (auto simp: challenges_after split: bool.splits option.splits)
  obtain v where v: "passkey_verified env rq ch assertion cred user = Some v"
    using up uk(1,3) by (cases "passkey_verified env rq ch assertion cred user") auto
  obtain c a where ca: "ch = Some c" "assertion = Some a" "u_enabled u" "\<not> login_locked (lq_now rq) u"
    "jprop (jprop a ''response'') ''userHandle'' = JStr (wc_userHandle k)"
    "verifyAuthentication (lv_crypto env) (lv_webauthn env) a (ch_challenge c) k = Some v"
    using v uk(2,3) by (auto simp: passkey_verified_def split: option.splits if_splits)
  obtain i where i: "jprop (lq_body rq) ''challengeId'' = JStr i" "mget (st_challenges (fs_store st)) (ukey (lv_realm env) i) = Some c"
    "ch_purpose c = ''authentication''" "ch_interactionUid c = Some (it_uid d)" "lq_now rq < ch_expiresAt c"
    "s1 = (fs_store st)\<lparr>st_challenges := mdel (ukey (lv_realm env) i) (st_challenges (fs_store st))\<rparr>"
    using ch ca(1) by (auto elim: passkey_challenge_Some)
  have u: "updateWebAuthnCredentialCounter (lq_now rq) (lv_realm env) (wc_id k) (wc_counter k)
        (ai_newCounter v) (ai_deviceType v) (ai_backedUp v) s1 = (True, s2)"
    using up v uk(1,3) by simp
  have "st_challenges s2 = st_challenges s1" using challenges_after(3) u by (metis snd_conv)
  then have gone: "mget (st_challenges (fs_store st')) (ukey (lv_realm env) i) = None" using uk(7) i(6) by simp
  have f: "findWebAuthnCredential (lv_realm env) (js_String (jprop a ''id'')) (fs_store st) = Some k"
    "findUserById (lv_realm env) (wc_userId k) (fs_store st) = Some u"
    using uk(2,3) ca(2) i(6) by (simp_all add: cred_def user_def finds_after_challenge)
  have "passkey_evidence env rq d (fs_store st) i c a k u v"
    using i(1-5) ca(2-6) f counter_accepted [OF u] by (simp add: passkey_evidence_def assertion_def)
  then show ?thesis using that d uk(4-6) gone by blast
qed

text \<open>C15: 
  A passkey signs in only on an open interaction with a fresh form token, with an unexpired authentication challenge
  issued to that interaction, a credential of the realm whose user handle the authenticator gave, an enabled, unlocked
  account that owns it, an assertion the library verifies against the challenge, and a counter that does not go back.
  The challenge is used up: no request that names it signs in afterwards.
\<close>

theorem passkey_login_bound:
  assumes "passkey_post env rq st = (SignedIn acc acr amr, st')"
  shows "\<exists>d i ch a k u v. interaction rq ''login'' = Some d \<and> form_token_ok env rq d ''login'' \<and>
    passkey_evidence env rq d (fs_store st) i ch a k u v \<and> u_id u = acc \<and> acr = loa2 \<and> amr = [''passkey''] \<and>
    (\<forall>rq'. jprop (lq_body rq') ''challengeId'' = JStr i \<longrightarrow> (\<forall>x y z. fst (passkey_post env rq' st') \<noteq> SignedIn x y z))"
proof -
  from assms obtain d i ch a k u v where e: "interaction rq ''login'' = Some d" "form_token_ok env rq d ''login''"
    "passkey_evidence env rq d (fs_store st) i ch a k u v" "u_id u = acc" "acr = loa2" "amr = [''passkey'']"
    "mget (st_challenges (fs_store st')) (ukey (lv_realm env) i) = None"
    by (rule passkey_post_SignedIn)
  have "fst (passkey_post env rq' st') \<noteq> SignedIn x y z" if "jprop (lq_body rq') ''challengeId'' = JStr i" for rq' x y z
  proof
    assume "fst (passkey_post env rq' st') = SignedIn x y z"
    then have "passkey_post env rq' st' = (SignedIn x y z, snd (passkey_post env rq' st'))" by (metis prod.collapse)
    then show False using e(7) that by (auto simp: passkey_evidence_def simp del: jprop.simps elim!: passkey_post_SignedIn)
  qed
  with e(1-6) show ?thesis by blast
qed

text \<open>A sign-in of the demonstration account with its passkey.\<close>

definition demo_challenge_id :: string where "demo_challenge_id = ''01234567-89ab-4cde-8f01-23456789abcd''"

definition demo_assertion :: json where
  "demo_assertion = JObj [(''id'', JStr ''k1''), (''rawId'', JStr ''k1''), (''type'', JStr ''public-key''),
     (''response'', JObj [(''clientDataJSON'', JStr ''c''), (''authenticatorData'', JStr ''d''), (''signature'', JStr ''s''), (''userHandle'', JStr ''uh'')])]"

definition demo_key :: credential where
  "demo_key = \<lparr>wc_realm = ''corp'', wc_userId = ''u1'', wc_id = ''k1'', wc_userHandle = ''uh'', wc_publicKey = ''pk'', wc_counter = 4,
     wc_transports = [], wc_deviceType = ''singleDevice'', wc_backedUp = False, wc_aaguid = [], wc_name = ''Key'', wc_createdAt = 0,
     wc_updatedAt = 0, wc_lastUsedAt = None\<rparr>"

definition demo_passkey_env :: login_env where
  "demo_passkey_env = demo_login_env\<lparr>lv_crypto := demo_crypto\<lparr>cy_verifyAuthentication := (\<lambda>_ ch _ _ _. Some (ch = ''nonce'',
     \<lparr>ai_newCounter = 5, ai_deviceType = ''singleDevice'', ai_backedUp = False\<rparr>))\<rparr>, lv_parse_json := (\<lambda>_. Some demo_assertion)\<rparr>"

definition demo_passkey_request :: login_request where
  "demo_passkey_request = demo_login\<lparr>lq_body := JObj [(''csrf'', jprop (lq_body demo_login) ''csrf''), (''challengeId'', JStr demo_challenge_id),
     (''credential'', JStr ''{}'')]\<rparr>"

definition demo_passkey_state :: fed_state where
  "demo_passkey_state = \<lparr>fs_links = [], fs_store = empty_store\<lparr>st_users := [(''corp:u1'', demo_user)], st_credentials := [(''corp:k1'', demo_key)],
     st_challenges := [(ukey ''corp'' demo_challenge_id, \<lparr>ch_id = demo_challenge_id, ch_realm = ''corp'', ch_purpose = ''authentication'',
       ch_userId = None, ch_interactionUid = Some ''x1'', ch_userHandle = None, ch_challenge = ''nonce'', ch_expiresAt = 90000,
       ch_createdAt = 0\<rparr>)]\<rparr>\<rparr>"

lemma demo_passkey_runs: "\<exists>st'. passkey_post demo_passkey_env demo_passkey_request demo_passkey_state = (SignedIn ''u1'' loa2 [''passkey''], st')"
proof -
  let ?d = "\<lparr>it_uid = ''x1'', it_prompt = Some ''login'', it_clientId = None\<rparr>"
  have e: "lv_realm demo_passkey_env = ''corp''" "lv_parse_json demo_passkey_env x = Some demo_assertion"
    "verifyAuthentication (lv_crypto demo_passkey_env) w r ''nonce'' c = Some \<lparr>ai_newCounter = 5, ai_deviceType = ''singleDevice'', ai_backedUp = False\<rparr>" for x w r c
    by (simp_all add: demo_passkey_env_def demo_login_env_def verifyAuthentication_def)
  have q: "lq_now demo_passkey_request = 60000" "jprop (lq_body demo_passkey_request) ''challengeId'' = JStr demo_challenge_id"
    "jprop (lq_body demo_passkey_request) ''credential'' = JStr ''{}''"
    by (simp_all add: demo_passkey_request_def demo_login_def)
  have i: "interaction demo_passkey_request ''login'' = Some ?d" by (simp add: interaction_def demo_passkey_request_def demo_login_def)
  have t: "form_token_ok demo_passkey_env demo_passkey_request ?d ''login''"
    using demo_form_token by (simp add: form_token_ok_def demo_passkey_env_def demo_passkey_request_def)
  have u4: "uuid4_re demo_challenge_id" by (simp add: demo_challenge_id_def js_defs numeral_eq_Suc)
  have a: "parseAssertion demo_passkey_env (JStr ''{}'') = Some demo_assertion"
    by (simp add: parseAssertion_def e demo_assertion_def b64_field_def) (simp add: js_defs)
  obtain s1 where c: "passkey_challenge demo_passkey_env demo_passkey_request ?d (fs_store demo_passkey_state) =
      (Some \<lparr>ch_id = demo_challenge_id, ch_realm = ''corp'', ch_purpose = ''authentication'',
       ch_userId = None, ch_interactionUid = Some ''x1'', ch_userHandle = None, ch_challenge = ''nonce'', ch_expiresAt = 90000,
       ch_createdAt = 0\<rparr>, s1)" "s1 = (fs_store demo_passkey_state)\<lparr>st_challenges := []\<rparr>"
    using u4 q by (simp add: passkey_challenge_def e consumeWebAuthnChallenge_def demo_passkey_state_def)
  have f: "findWebAuthnCredential ''corp'' ''k1'' s1 = Some demo_key" "findUserById ''corp'' ''u1'' s1 = Some demo_user"
    by (simp_all add: c(2) demo_passkey_state_def findWebAuthnCredential_def findUserById_def ukey_def)
  have k: "wc_userId demo_key = ''u1''" "wc_id demo_key = ''k1''" "wc_counter demo_key = 4" "wc_userHandle demo_key = ''uh''"
    "js_String (jprop demo_assertion ''id'') = ''k1''" "jprop (jprop demo_assertion ''response'') ''userHandle'' = JStr ''uh''"
    by (simp_all add: demo_key_def demo_assertion_def)
  have "\<exists>s2. updateWebAuthnCredentialCounter 60000 ''corp'' ''k1'' 4 5 ''singleDevice'' False s1 = (True, s2)"
    using f(1) k(3) by (simp add: updateWebAuthnCredentialCounter_def findWebAuthnCredential_def counter_regresses_def safe_integer_def)
  then obtain s2 where "updateWebAuthnCredentialCounter 60000 ''corp'' ''k1'' 4 5 ''singleDevice'' False s1 = (True, s2)" ..
  then show ?thesis
    using i t a c(1) f k q e by (simp add: passkey_post_def passkey_verified_def login_locked_def)
qed

lemma passkey_login_bound_witness:
  "\<exists>st'. passkey_post demo_passkey_env demo_passkey_request demo_passkey_state = (SignedIn ''u1'' loa2 [''passkey''], st') \<and>
     fst (passkey_post demo_passkey_env demo_passkey_request st') \<noteq> SignedIn ''u1'' loa2 [''passkey'']"
proof -
  obtain st' where run: "passkey_post demo_passkey_env demo_passkey_request demo_passkey_state = (SignedIn ''u1'' loa2 [''passkey''], st')"
    using demo_passkey_runs by blast
  from passkey_login_bound [OF run] have "fst (passkey_post demo_passkey_env demo_passkey_request st') \<noteq> SignedIn ''u1'' loa2 [''passkey'']"
    by (auto simp: passkey_evidence_def simp del: jprop.simps)
  with run show ?thesis by blast
qed

end
