(* ===== verification/Spec2Isabelle.thy ===== *)
theory Spec2Isabelle
  imports AdminConfiguration InteractionPage AppStartProps AppHttp ScimPgStore PgFederationProps PgStoreProps LdapProps OidcProps SamlConfigProps OidcServerProps Migrations SigningKeys PagesProps ConfigProps AuditWriter PgAdapterProps SamlProps ScimProps FederationProps AdminProps PasskeyLogin AppShell
begin

text \<open>
  \<^bold>\<open>authme\<close>, an identity service in JavaScript: an OpenID Connect provider for several realms, with its own sign-in pages,
  second factors and passkeys, sign-in through LDAP, OpenID Connect and SAML providers, SCIM provisioning, an administration
  API and console, in memory for development and over PostgreSQL in production. This library models the code under \<open>src/\<close>
  of the repository component by component and proves what makes the components correct, alone and together.

  \<^bold>\<open>How the program is put together.\<close> The configuration is read once. A data layer holds the identity store (accounts,
  grants, administrator sessions, passkeys, audit log) and, per realm, a protocol store with the artifacts of the OpenID
  Connect library. The routers act on it: the sign-in pages finish interactions of the library, the federation routes send a
  browser to an upstream provider and bring it back over one-use states kept in the protocol store, the SCIM router and the
  administration API change accounts. Every change that matters for security raises the security version of the account, and
  an artifact is accepted only under the version it was saved with. Audit events go through a bounded writer; a maintenance
  run removes what has expired.

  \<^bold>\<open>Theories and source files.\<close>
  \<^item> Shared: \<open>JsPrelude\<close> (results, handlers, strings, maps, JSON), \<open>OneUse\<close> (the contract \<open>one_use\<close> of everything that may be
    used once), \<open>Schemas\<close> (the combinators of the schema library).
  \<^item> \<open>src/observability/audit-writer.js\<close>: \<open>BoundedQueue\<close> (ring buffer, contract \<open>bounded_queue\<close>), \<open>AuditWriter\<close>.
  \<^item> \<open>src/repositories/identity-store.js\<close>: \<open>IdentityStore\<close>, \<open>IdentityFacts\<close>, \<open>IdentityProps\<close>, \<open>CredentialProps\<close> for the
    in-memory class, \<open>PgIdentity\<close> for the PostgreSQL class and its refinement of the former.
  \<^item> \<open>src/adapters/memory.js\<close>: \<open>MemoryAdapter\<close>, \<open>AdapterProps\<close>; \<open>src/adapters/postgres.js\<close>: \<open>PgAdapter\<close>, \<open>PgAdapterProps\<close>.
  \<^item> \<open>src/db.js\<close>: \<open>DataLayer\<close> in memory, the transactions of PostgreSQL in \<open>PgAdapter\<close>, its start and clean-ups in \<open>PgStore\<close>
    and \<open>PgStoreProps\<close>, with the rest of the PostgreSQL identity store.
  \<^item> \<open>src/migrations.js\<close>, \<open>scripts/migrate.mjs\<close>: \<open>Migrations\<close>. \<open>src/crypto/jwks.js\<close>: \<open>SigningKeys\<close>.
  \<^item> \<open>src/config.js\<close>: \<open>Config\<close>, \<open>ConfigProps\<close>, over the parsers of the upstream providers.
  \<^item> \<open>src/provider.js\<close>: \<open>OidcServer\<close>, \<open>OidcServerProps\<close>.
  \<^item> \<open>src/crypto/password.js\<close>, \<open>mfa.js\<close>, \<open>secrets.js\<close>, \<open>src/security/webauthn.js\<close>, \<open>rate-limit.js\<close>: \<open>SecondFactors\<close>,
    \<open>PasskeyOptions\<close>.
  \<^item> \<open>src/routes/interactions.js\<close>: \<open>LoginRoutes\<close>, \<open>LoginProps\<close>, \<open>PasskeyLogin\<close>, \<open>InteractionPage\<close>. \<open>src/ui/render.js\<close> and the sign-in page of
    \<open>src/ui/admin-render.js\<close>: \<open>Pages\<close>, \<open>PagesProps\<close>.
  \<^item> Federation: \<open>ExtensionRegistry\<close> (\<open>src/authentication/registry.js\<close>), \<open>CsrfTokens\<close> (\<open>src/crypto/csrf.js\<close>), \<open>FederatedIdentity\<close>,
    \<open>PgFederation\<close> and \<open>PgFederationProps\<close> (\<open>src/repositories/federated-identity-repository.js\<close>,
    \<open>src/authentication/federated-login.js\<close>), \<open>FederationRoutes\<close> and
    \<open>FederationProps\<close> (\<open>src/routes/federation.js\<close>, \<open>src/federation/state-store.js\<close>), \<open>LdapProvider\<close> and \<open>LdapProps\<close>
    (\<open>src/federation/ldap.js\<close>), \<open>OidcProvider\<close> and \<open>OidcProps\<close> (\<open>src/federation/oidc.js\<close>), \<open>SamlReplayCache\<close>, \<open>SamlBroker\<close>,
    \<open>SamlProps\<close>, \<open>SamlConfig\<close> and \<open>SamlConfigProps\<close> (\<open>src/federation/saml-*.js\<close>).
  \<^item> SCIM (\<open>src/scim/\<close>): \<open>ScimAttributes\<close>, \<open>ScimNormal\<close>, \<open>ScimPatch\<close>, \<open>ScimSchemas\<close>, \<open>ScimRepository\<close>, \<open>ScimFacts\<close>, \<open>ScimRouter\<close>,
    \<open>ScimProps\<close>; \<open>src/repositories/scim-repository.js\<close>: \<open>ScimPg\<close>, \<open>ScimPgProps\<close>, \<open>ScimPgStore\<close>.
  \<^item> Administration: \<open>AdminPermissions\<close> (\<open>src/security/admin-permissions.js\<close>), \<open>AdminConsole\<close> and \<open>ConsoleProps\<close>
    (\<open>src/routes/admin-console.js\<close>), \<open>AdminRoutes\<close>, \<open>AdminProps\<close> and \<open>AdminConfiguration\<close> (\<open>src/routes/admin.js\<close>).
  \<^item> \<open>src/app.js\<close>: \<open>AppShell\<close> (guards, error handler, maintenance, development accounts), the account resolver in
    \<open>FederatedIdentity\<close>, \<open>AppHttp\<close> (from a request to its router, with \<open>src/observability/metrics.js\<close>), \<open>AppStart\<close> and
    \<open>AppStartProps\<close> (start and end of the service, with \<open>src/authentication/runtime.js\<close> and the process of \<open>src/index.js\<close>).

  \<^bold>\<open>How the code is read.\<close> A class is a record of its fields and a method a definition of the same name that returns its
  result and the new state. A JavaScript \<open>Map\<close> or object is an association list in insertion order. What may throw returns a
  sum, \<open>Inl\<close> being the exception; where the state survives an exception, the operation is a handler that returns both. A
  PostgreSQL table is the list of its rows, a statement or transaction is one atomic step with \<open>CURRENT_TIMESTAMP\<close> as its
  argument, and the constraints and triggers of \<open>migrations/\<close> are part of the statements they guard. A request is handled
  without interleaving, except where a theory says otherwise: \<open>upsert\<close> of the in-memory protocol store is also split at its
  waits, the writes of the audit writer settle in any order, and the reads and writes of a SCIM request have arbitrary other
  requests between them. Strings are 8-bit: faithful on ASCII, and on UTF-8 bytes where no length or case matters. Numbers are
  integers in the range the code tests with \<open>Number.isSafeInteger\<close>; instants are milliseconds.

  What is not under \<open>src/\<close> is an argument, collected in one record per component (\<open>crypto\<close>, \<open>oidc_world\<close>, \<open>ldap_world\<close>,
  \<open>saml_world\<close>, \<open>config_world\<close>, \<open>server_world\<close>, \<open>keys_world\<close>, \<open>fed_env\<close>, \<open>admin_env\<close>, \<open>console_config\<close>): random values and
  the clock, hashes and signatures, \<open>JSON.parse\<close> and the URL parser, the directory client, Node-SAML, the OpenID Connect
  library, the HTTP framework.

  \<^bold>\<open>What the lemmas show.\<close> The \<open>*Facts\<close> theories hold the invariants of the stores and their preservation by every operation;
  the \<open>*Props\<close> theories hold the properties, each stated in words before its theorem and followed by a witness, a concrete
  run to which it applies. In order: the audit writer is a bounded queue that loses nothing it accepted; the stores are
  consistent, the PostgreSQL ones refine the ones in memory; artifacts, codes, challenges, states and tokens are used once;
  a change of credentials revokes everything; upstream answers (SAML, OpenID Connect, LDAP) are bound to the request that asked
  for them and cannot take over an account; a sign-in needs all factors of the account; the administration acts only for
  a live, recent and permitted session; SCIM loses no update and keeps memberships, sessions and accounts in step; a
  production configuration is safe to serve; tokens say no more than configured, and the configuration answer
  no secret; pages cannot be injected and their forms are accepted where they lead; the service starts whole or not at all, is
  closed in order, and its routers stand behind the guards.

  \<^bold>\<open>Interfaces.\<close> \<open>one_use\<close> is interpreted by TOTP steps, recovery codes, challenges, artifacts of both protocol stores and
  registration tokens; \<open>replay_cache\<close> by both SAML caches; \<open>versioned_store\<close> by SCIM users and groups in memory and in PostgreSQL; \<open>bounded_cleanup\<close> by the
  clean-ups of the data layer; \<open>bounded_queue\<close> by the ring buffer; \<open>hole\<close> by the encoders of the pages.

  \<^bold>\<open>Bounds and fuel.\<close> No definition of the program runs on fuel. The loop of a maintenance run is bounded by the source itself,
  twenty batches of five thousand records for each half (\<open>AppShell\<close>). The loop of the audit writer is a terminating function
  with the length of the queue as its measure. The reader of RFC 4515 filters in \<open>LdapProps\<close>, which is a specification and no
  part of the program, gets the length of its input as fuel, and every step of it consumes a character.

  \<^bold>\<open>Not modelled.\<close> \<open>src/logging.js\<close>, a logger with a list of redacted fields, and every log line. \<open>src/ui/admin-console.js\<close> and
  \<open>src/ui/authme-passkeys.js\<close>: scripts for the document of a browser, whose behaviour is not in the repository; the console
  page of \<open>src/ui/admin-render.js\<close> is constant text. \<open>scripts/\<close> other than the migration run: tests, checks and one-off tools.
  Not modelled either are the isolation of concurrent PostgreSQL transactions, resource limits and timing.
\<close>

end
